(* ===== verification/Prelude.thy ===== *)
theory Prelude
  imports Main "HOL-Library.Word" "HOL-Library.State_Monad"
begin

unbundle bit_operations_syntax

section \<open>Shared types, the state monad and its weakest preconditions\<close>

text \<open>
  What every component theory uses: the C integer types as words, the monad that threads
  the driver state through a function (\<open>State_Monad\<close> of the library, so a C function body is
  a \<open>do\<close> block in the order of its statements), a weakest-precondition calculus for it, and
  a calculus for frame relations between the states before and after a call.
\<close>

type_synonym u8 = "8 word"
type_synonym u16 = "16 word"
type_synonym u32 = "32 word"
type_synonym u64 = "64 word"

text \<open>
  An \<open>s32\<close> is used by the code for return codes and small counters only: zero is success
  and a negative value an error. It is an \<open>int\<close> here.
\<close>

type_synonym s32 = int

named_theorems wp "weakest preconditions of monadic operations"
named_theorems frame "frame relations kept by monadic operations"

subsection \<open>Monad primitives\<close>

abbreviation ret :: "'a \<Rightarrow> ('s, 'a) state" where
  "ret \<equiv> State_Monad.return"

definition gets :: "('s \<Rightarrow> 'a) \<Rightarrow> ('s, 'a) state" where
  "gets f = State (\<lambda>s. (f s, s))"

definition modify :: "('s \<Rightarrow> 's) \<Rightarrow> ('s, unit) state" where
  "modify f = State (\<lambda>s. ((), f s))"

definition cwhen :: "bool \<Rightarrow> ('s, unit) state \<Rightarrow> ('s, unit) state" where
  "cwhen c m = (if c then m else ret ())"

lemma run_gets [simp]: "run_state (gets f) s = (f s, s)"
  by (simp add: gets_def)

lemma run_modify [simp]: "run_state (modify f) s = ((), f s)"
  by (simp add: modify_def)

lemma run_cwhen [simp]:
  "run_state (cwhen c m) s = (if c then run_state m s else ((), s))"
  by (simp add: cwhen_def)

lemma run_if [simp]:
  "run_state (if c then m else n) s = (if c then run_state m s else run_state n s)"
  by simp

subsection \<open>Weakest preconditions\<close>

text \<open>
  A monadic function is total and deterministic, so its weakest precondition is the
  postcondition at the one result: partial and total correctness coincide.
\<close>

definition wp_of :: "('s, 'a) state \<Rightarrow> ('a \<Rightarrow> 's \<Rightarrow> bool) \<Rightarrow> 's \<Rightarrow> bool" where
  "wp_of m Q s = (case run_state m s of (a, t) \<Rightarrow> Q a t)"

lemma wp_ret [wp]: "wp_of (ret a) Q s = Q a s"
  by (simp add: wp_of_def)

lemma wp_bind [wp]: "wp_of (State_Monad.bind m f) Q s = wp_of m (\<lambda>a. wp_of (f a) Q) s"
  by (simp add: wp_of_def split: prod.splits)

lemma wp_gets [wp]: "wp_of (gets f) Q s = Q (f s) s"
  by (simp add: wp_of_def)

lemma wp_modify [wp]: "wp_of (modify f) Q s = Q () (f s)"
  by (simp add: wp_of_def)

lemma wp_cwhen [wp]: "wp_of (cwhen c m) Q s = (if c then wp_of m Q s else Q () s)"
  by (simp add: wp_of_def)

lemma wp_if [wp]: "wp_of (if c then m else n) Q s = (if c then wp_of m Q s else wp_of n Q s)"
  by simp

lemma wp_case_prod [wp]:
  "wp_of (case p of (x, y) \<Rightarrow> m x y) Q s = wp_of (m (fst p) (snd p)) Q s"
  by (simp add: case_prod_beta)

lemma wp_run: "wp_of m Q s \<Longrightarrow> run_state m s = (a, t) \<Longrightarrow> Q a t"
  by (simp add: wp_of_def)

lemma wp_iff_run: "wp_of m Q s = Q (fst (run_state m s)) (snd (run_state m s))"
  by (simp add: wp_of_def case_prod_beta)

lemma wp_mono: "wp_of m P s \<Longrightarrow> (\<And>a t. P a t \<Longrightarrow> Q a t) \<Longrightarrow> wp_of m Q s"
  by (simp add: wp_iff_run)

lemma wp_conj: "wp_of m (\<lambda>a t. P a t \<and> Q a t) s = (wp_of m P s \<and> wp_of m Q s)"
  by (simp add: wp_iff_run)

subsection \<open>Frame relations\<close>

text \<open>
  \<open>keeps R m\<close>: every run of \<open>m\<close> relates the state before to the state after by \<open>R\<close>. For a
  reflexive and transitive \<open>R\<close> it is closed under sequencing, so it is proved for a whole
  function body by the introduction rules collected in \<open>frame\<close>.
\<close>

definition keeps :: "('s \<Rightarrow> 's \<Rightarrow> bool) \<Rightarrow> ('s, 'a) state \<Rightarrow> bool" where
  "keeps R m = state_io_rel R m"

locale frame_rel =
  fixes R :: "'s \<Rightarrow> 's \<Rightarrow> bool"
  assumes R_refl: "R s s"
    and R_trans: "R s t \<Longrightarrow> R t u \<Longrightarrow> R s u"
begin

lemma keeps_ret: "keeps R (ret a)"
  by (auto simp: keeps_def R_refl)

lemma keeps_gets: "keeps R (gets f)"
  by (auto simp: keeps_def R_refl)

lemma keeps_bind:
  assumes "keeps R m" and "\<And>a. keeps R (f a)"
  shows "keeps R (State_Monad.bind m f)"
  using assms unfolding keeps_def state_io_rel_def
  by (auto split: prod.splits) (metis R_trans snd_conv)

lemma keeps_cwhen: "keeps R m \<Longrightarrow> keeps R (cwhen c m)"
  by (auto simp: keeps_def state_io_rel_def R_refl)

lemma keeps_if: "(c \<Longrightarrow> keeps R m) \<Longrightarrow> (\<not> c \<Longrightarrow> keeps R n) \<Longrightarrow> keeps R (if c then m else n)"
  by simp

lemma keeps_case_prod: "(\<And>x y. keeps R (f x y)) \<Longrightarrow> keeps R (case p of (x, y) \<Rightarrow> f x y)"
  by (simp add: case_prod_beta)

lemma keeps_case_sum:
  "(\<And>x. keeps R (f x)) \<Longrightarrow> (\<And>y. keeps R (g y)) \<Longrightarrow> keeps R (case p of Inl x \<Rightarrow> f x | Inr y \<Rightarrow> g y)"
  by (simp split: sum.split)

lemma keeps_case_option:
  "keeps R m \<Longrightarrow> (\<And>y. keeps R (g y)) \<Longrightarrow> keeps R (case p of None \<Rightarrow> m | Some y \<Rightarrow> g y)"
  by (simp split: option.split)

lemma keeps_let: "(\<And>x. x = t \<Longrightarrow> keeps R (f x)) \<Longrightarrow> keeps R (let x = t in f x)"
  by simp

lemmas keeps_intros = keeps_ret keeps_gets keeps_bind keeps_cwhen keeps_if keeps_case_prod
  keeps_case_sum keeps_case_option keeps_let

end

lemma keeps_run: "keeps R m \<Longrightarrow> R s (snd (run_state m s))"
  by (simp add: keeps_def state_io_rel_def)

lemma keeps_modify: "(\<And>s. R s (f s)) \<Longrightarrow> keeps R (modify f)"
  by (simp add: keeps_def state_io_rel_def)

lemma keepsI: "(\<And>s. R s (snd (run_state m s))) \<Longrightarrow> keeps R m"
  by (simp add: keeps_def state_io_rel_def)

lemma keeps_mono: "keeps R m \<Longrightarrow> (\<And>s t. R s t \<Longrightarrow> S s t) \<Longrightarrow> keeps S m"
  by (auto simp: keeps_def state_io_rel_def)

text \<open>A loop whose body runs once per element of a list.\<close>

fun for_each :: "'a list \<Rightarrow> ('a \<Rightarrow> ('s, unit) state) \<Rightarrow> ('s, unit) state" where
  "for_each [] f = ret ()"
| "for_each (x # xs) f = do { f x; for_each xs f }"

lemma for_each_append:
  "for_each (xs @ ys) f = do { for_each xs f; for_each ys f }"
  by (induction xs) simp_all

context frame_rel begin

lemma keeps_for_each: "(\<And>x. keeps R (f x)) \<Longrightarrow> keeps R (for_each xs f)"
  by (induction xs) (auto intro!: keeps_intros)

end

subsection \<open>Words and bytes\<close>

text \<open>Byte \<open>i\<close> of a word, least significant first, as \<open>(u8)(x >> (8 * i))\<close> reads it.\<close>

definition byte_of :: "'a::len word \<Rightarrow> nat \<Rightarrow> u8" where
  "byte_of x i = ucast (drop_bit (8 * i) x)"

lemma bit_byte_of: "bit (byte_of x i) n \<longleftrightarrow> n < 8 \<and> bit x (8 * i + n)"
  by (auto simp: byte_of_def bit_simps add.commute dest: bit_imp_le_length)

lemma and_neq_0_iff_bit: "(x AND push_bit n 1 \<noteq> (0::'a::len word)) \<longleftrightarrow> bit x n"
  by (simp add: push_bit_eq_mult and_exp_eq_0_iff_not_bit)

lemma unat_ucast_up:
  "LENGTH('a) \<le> LENGTH('b) \<Longrightarrow> unat (ucast (x :: 'a::len word) :: 'b::len word) = unat x"
proof -
  assume "LENGTH('a) \<le> LENGTH('b)"
  moreover have "unat x < 2 ^ LENGTH('a)" by (rule unsigned_less)
  ultimately have "unat x < 2 ^ LENGTH('b)"
    by (meson order_less_le_trans power_increasing one_le_numeral)
  then show ?thesis by (simp add: unsigned_ucast_eq take_bit_nat_eq_self)
qed

lemma bit_beyond: "unat (w :: 'a::len word) < 2 ^ n \<Longrightarrow> n \<le> k \<Longrightarrow> \<not> bit w k"
proof -
  assume "unat w < 2 ^ n" and "n \<le> k"
  then have "unat w < 2 ^ k"
    by (meson order_less_le_trans power_increasing one_le_numeral)
  then have "\<not> bit (unat w) k" by (simp add: bit_iff_odd)
  then show "\<not> bit w k" by (auto simp: bit_unsigned_iff dest: bit_imp_le_length)
qed

lemma bit_or_exp: "bit (2 ^ a OR 2 ^ b :: 'a::len word) n \<longleftrightarrow> n < LENGTH('a) \<and> n \<in> {a, b}"
  by (auto simp: bit_or_iff bit_exp_iff)

end
