(* ===== verification/Regs.thy ===== *)
theory Regs
  imports Main
begin

section \<open>Register offsets, bit masks and limits of the hardware headers\<close>

text \<open>
  The macros of the headers under \<open>src/IntelMausiEthernet/\<close> that the other theories use, by their
  own names. A macro has no type of its own in the source: it takes the type of the
  expression it stands in. So each is an abbreviation at any numeral type, and stands for
  a literal: it is an offset at \<open>32 word\<close>, a mask at \<open>16 word\<close>, a count at \<open>nat\<close>.
  An expression macro (a shift, a bitwise or, \<open>BIT(n)\<close>) is written by its value.
\<close>

subsection \<open>defines.h\<close>

abbreviation (input) E1000_WUC_APME :: "'a::{zero,numeral}" where "E1000_WUC_APME \<equiv> 1"
abbreviation (input) E1000_WUC_PME_EN :: "'a::{zero,numeral}" where "E1000_WUC_PME_EN \<equiv> 2"
abbreviation (input) E1000_WUC_PME_STATUS :: "'a::{zero,numeral}" where "E1000_WUC_PME_STATUS \<equiv> 4"
abbreviation (input) E1000_WUC_APMPME :: "'a::{zero,numeral}" where "E1000_WUC_APMPME \<equiv> 8"
abbreviation (input) E1000_WUC_PHY_WAKE :: "'a::{zero,numeral}" where "E1000_WUC_PHY_WAKE \<equiv> 0x100"
abbreviation (input) E1000_WUFC_LNKC :: "'a::{zero,numeral}" where "E1000_WUFC_LNKC \<equiv> 1"
abbreviation (input) E1000_WUFC_MAG :: "'a::{zero,numeral}" where "E1000_WUFC_MAG \<equiv> 2"
abbreviation (input) E1000_WUFC_EX :: "'a::{zero,numeral}" where "E1000_WUFC_EX \<equiv> 4"
abbreviation (input) E1000_WUFC_MC :: "'a::{zero,numeral}" where "E1000_WUFC_MC \<equiv> 8"
abbreviation (input) E1000_WUFC_BC :: "'a::{zero,numeral}" where "E1000_WUFC_BC \<equiv> 0x10"
abbreviation (input) E1000_WUFC_ARP :: "'a::{zero,numeral}" where "E1000_WUFC_ARP \<equiv> 0x20"
abbreviation (input) E1000_WUFC_IP4 :: "'a::{zero,numeral}" where "E1000_WUFC_IP4 \<equiv> 0x40"
abbreviation (input) E1000_WUFC_IP6 :: "'a::{zero,numeral}" where "E1000_WUFC_IP6 \<equiv> 0x80"
abbreviation (input) E1000_CTRL_EXT_LPCD :: "'a::{zero,numeral}" where "E1000_CTRL_EXT_LPCD \<equiv> 4"
abbreviation (input) E1000_CTRL_EXT_SDP3_DATA :: "'a::{zero,numeral}" where "E1000_CTRL_EXT_SDP3_DATA \<equiv> 0x80"
abbreviation (input) E1000_CTRL_EXT_FORCE_SMBUS :: "'a::{zero,numeral}" where "E1000_CTRL_EXT_FORCE_SMBUS \<equiv> 0x800"
abbreviation (input) E1000_CTRL_EXT_EE_RST :: "'a::{zero,numeral}" where "E1000_CTRL_EXT_EE_RST \<equiv> 0x2000"
abbreviation (input) E1000_CTRL_EXT_SPD_BYPS :: "'a::{zero,numeral}" where "E1000_CTRL_EXT_SPD_BYPS \<equiv> 0x8000"
abbreviation (input) E1000_CTRL_EXT_RO_DIS :: "'a::{zero,numeral}" where "E1000_CTRL_EXT_RO_DIS \<equiv> 0x20000"
abbreviation (input) E1000_CTRL_EXT_DRV_LOAD :: "'a::{zero,numeral}" where "E1000_CTRL_EXT_DRV_LOAD \<equiv> 0x10000000"
abbreviation (input) E1000_CTRL_EXT_IAME :: "'a::{zero,numeral}" where "E1000_CTRL_EXT_IAME \<equiv> 0x8000000"
abbreviation (input) E1000_CTRL_EXT_LSECCK :: "'a::{zero,numeral}" where "E1000_CTRL_EXT_LSECCK \<equiv> 0x1000"
abbreviation (input) E1000_CTRL_EXT_PHYPDEN :: "'a::{zero,numeral}" where "E1000_CTRL_EXT_PHYPDEN \<equiv> 0x100000"
abbreviation (input) E1000_RXD_STAT_DD :: "'a::{zero,numeral}" where "E1000_RXD_STAT_DD \<equiv> 1"
abbreviation (input) E1000_RXD_STAT_EOP :: "'a::{zero,numeral}" where "E1000_RXD_STAT_EOP \<equiv> 2"
abbreviation (input) E1000_RXD_STAT_VP :: "'a::{zero,numeral}" where "E1000_RXD_STAT_VP \<equiv> 8"
abbreviation (input) E1000_RXD_STAT_UDPCS :: "'a::{zero,numeral}" where "E1000_RXD_STAT_UDPCS \<equiv> 0x10"
abbreviation (input) E1000_RXD_STAT_TCPCS :: "'a::{zero,numeral}" where "E1000_RXD_STAT_TCPCS \<equiv> 0x20"
abbreviation (input) E1000_RXD_SPC_VLAN_MASK :: "'a::{zero,numeral}" where "E1000_RXD_SPC_VLAN_MASK \<equiv> 0xfff"
abbreviation (input) E1000_RXDEXT_ERR_FRAME_ERR_MASK :: "'a::{zero,numeral}" where "E1000_RXDEXT_ERR_FRAME_ERR_MASK \<equiv> 2533359616"
abbreviation (input) E1000_MRQC_RSS_FIELD_IPV4_TCP :: "'a::{zero,numeral}" where "E1000_MRQC_RSS_FIELD_IPV4_TCP \<equiv> 0x10000"
abbreviation (input) E1000_MRQC_RSS_FIELD_IPV4 :: "'a::{zero,numeral}" where "E1000_MRQC_RSS_FIELD_IPV4 \<equiv> 0x20000"
abbreviation (input) E1000_MRQC_RSS_FIELD_IPV6_TCP_EX :: "'a::{zero,numeral}" where "E1000_MRQC_RSS_FIELD_IPV6_TCP_EX \<equiv> 0x40000"
abbreviation (input) E1000_MRQC_RSS_FIELD_IPV6 :: "'a::{zero,numeral}" where "E1000_MRQC_RSS_FIELD_IPV6 \<equiv> 0x100000"
abbreviation (input) E1000_MRQC_RSS_FIELD_IPV6_TCP :: "'a::{zero,numeral}" where "E1000_MRQC_RSS_FIELD_IPV6_TCP \<equiv> 0x200000"
abbreviation (input) E1000_MANC_SMBUS_EN :: "'a::{zero,numeral}" where "E1000_MANC_SMBUS_EN \<equiv> 1"
abbreviation (input) E1000_MANC_ASF_EN :: "'a::{zero,numeral}" where "E1000_MANC_ASF_EN \<equiv> 2"
abbreviation (input) E1000_MANC_RCV_TCO_EN :: "'a::{zero,numeral}" where "E1000_MANC_RCV_TCO_EN \<equiv> 0x20000"
abbreviation (input) E1000_MANC_BLK_PHY_RST_ON_IDE :: "'a::{zero,numeral}" where "E1000_MANC_BLK_PHY_RST_ON_IDE \<equiv> 0x40000"
abbreviation (input) E1000_MANC_EN_MNG2HOST :: "'a::{zero,numeral}" where "E1000_MANC_EN_MNG2HOST \<equiv> 0x200000"
abbreviation (input) E1000_MANC2H_PORT_623 :: "'a::{zero,numeral}" where "E1000_MANC2H_PORT_623 \<equiv> 0x20"
abbreviation (input) E1000_MANC2H_PORT_664 :: "'a::{zero,numeral}" where "E1000_MANC2H_PORT_664 \<equiv> 0x40"
abbreviation (input) E1000_MDEF_PORT_623 :: "'a::{zero,numeral}" where "E1000_MDEF_PORT_623 \<equiv> 0x800"
abbreviation (input) E1000_MDEF_PORT_664 :: "'a::{zero,numeral}" where "E1000_MDEF_PORT_664 \<equiv> 0x400"
abbreviation (input) E1000_RCTL_EN :: "'a::{zero,numeral}" where "E1000_RCTL_EN \<equiv> 2"
abbreviation (input) E1000_RCTL_SBP :: "'a::{zero,numeral}" where "E1000_RCTL_SBP \<equiv> 4"
abbreviation (input) E1000_RCTL_UPE :: "'a::{zero,numeral}" where "E1000_RCTL_UPE \<equiv> 8"
abbreviation (input) E1000_RCTL_MPE :: "'a::{zero,numeral}" where "E1000_RCTL_MPE \<equiv> 0x10"
abbreviation (input) E1000_RCTL_LPE :: "'a::{zero,numeral}" where "E1000_RCTL_LPE \<equiv> 0x20"
abbreviation (input) E1000_RCTL_LBM_NO :: "'a::{zero,numeral}" where "E1000_RCTL_LBM_NO \<equiv> 0"
abbreviation (input) E1000_RCTL_RDMTS_HALF :: "'a::{zero,numeral}" where "E1000_RCTL_RDMTS_HALF \<equiv> 0"
abbreviation (input) E1000_RCTL_RDMTS_HEX :: "'a::{zero,numeral}" where "E1000_RCTL_RDMTS_HEX \<equiv> 0x10000"
abbreviation (input) E1000_RCTL_MO_SHIFT :: "'a::{zero,numeral}" where "E1000_RCTL_MO_SHIFT \<equiv> 12"
abbreviation (input) E1000_RCTL_MO_3 :: "'a::{zero,numeral}" where "E1000_RCTL_MO_3 \<equiv> 0x3000"
abbreviation (input) E1000_RCTL_BAM :: "'a::{zero,numeral}" where "E1000_RCTL_BAM \<equiv> 0x8000"
abbreviation (input) E1000_RCTL_SZ_256 :: "'a::{zero,numeral}" where "E1000_RCTL_SZ_256 \<equiv> 0x30000"
abbreviation (input) E1000_RCTL_PMCF :: "'a::{zero,numeral}" where "E1000_RCTL_PMCF \<equiv> 0x800000"
abbreviation (input) E1000_RCTL_BSEX :: "'a::{zero,numeral}" where "E1000_RCTL_BSEX \<equiv> 0x2000000"
abbreviation (input) E1000_RCTL_SECRC :: "'a::{zero,numeral}" where "E1000_RCTL_SECRC \<equiv> 0x4000000"
abbreviation (input) E1000_CTRL_FD :: "'a::{zero,numeral}" where "E1000_CTRL_FD \<equiv> 1"
abbreviation (input) E1000_CTRL_GIO_MASTER_DISABLE :: "'a::{zero,numeral}" where "E1000_CTRL_GIO_MASTER_DISABLE \<equiv> 4"
abbreviation (input) E1000_CTRL_LRST :: "'a::{zero,numeral}" where "E1000_CTRL_LRST \<equiv> 8"
abbreviation (input) E1000_CTRL_ASDE :: "'a::{zero,numeral}" where "E1000_CTRL_ASDE \<equiv> 0x20"
abbreviation (input) E1000_CTRL_SLU :: "'a::{zero,numeral}" where "E1000_CTRL_SLU \<equiv> 0x40"
abbreviation (input) E1000_CTRL_SPD_SEL :: "'a::{zero,numeral}" where "E1000_CTRL_SPD_SEL \<equiv> 0x300"
abbreviation (input) E1000_CTRL_SPD_100 :: "'a::{zero,numeral}" where "E1000_CTRL_SPD_100 \<equiv> 0x100"
abbreviation (input) E1000_CTRL_SPD_1000 :: "'a::{zero,numeral}" where "E1000_CTRL_SPD_1000 \<equiv> 0x200"
abbreviation (input) E1000_CTRL_FRCSPD :: "'a::{zero,numeral}" where "E1000_CTRL_FRCSPD \<equiv> 0x800"
abbreviation (input) E1000_CTRL_FRCDPX :: "'a::{zero,numeral}" where "E1000_CTRL_FRCDPX \<equiv> 0x1000"
abbreviation (input) E1000_CTRL_LANPHYPC_OVERRIDE :: "'a::{zero,numeral}" where "E1000_CTRL_LANPHYPC_OVERRIDE \<equiv> 0x10000"
abbreviation (input) E1000_CTRL_LANPHYPC_VALUE :: "'a::{zero,numeral}" where "E1000_CTRL_LANPHYPC_VALUE \<equiv> 0x20000"
abbreviation (input) E1000_CTRL_MEHE :: "'a::{zero,numeral}" where "E1000_CTRL_MEHE \<equiv> 0x80000"
abbreviation (input) E1000_CTRL_SWDPIN0 :: "'a::{zero,numeral}" where "E1000_CTRL_SWDPIN0 \<equiv> 0x40000"
abbreviation (input) E1000_CTRL_SWDPIN1 :: "'a::{zero,numeral}" where "E1000_CTRL_SWDPIN1 \<equiv> 0x80000"
abbreviation (input) E1000_CTRL_ADVD3WUC :: "'a::{zero,numeral}" where "E1000_CTRL_ADVD3WUC \<equiv> 0x100000"
abbreviation (input) E1000_CTRL_EN_PHY_PWR_MGMT :: "'a::{zero,numeral}" where "E1000_CTRL_EN_PHY_PWR_MGMT \<equiv> 0x200000"
abbreviation (input) E1000_CTRL_SWDPIO0 :: "'a::{zero,numeral}" where "E1000_CTRL_SWDPIO0 \<equiv> 0x400000"
abbreviation (input) E1000_CTRL_RST :: "'a::{zero,numeral}" where "E1000_CTRL_RST \<equiv> 0x4000000"
abbreviation (input) E1000_CTRL_RFCE :: "'a::{zero,numeral}" where "E1000_CTRL_RFCE \<equiv> 0x8000000"
abbreviation (input) E1000_CTRL_TFCE :: "'a::{zero,numeral}" where "E1000_CTRL_TFCE \<equiv> 0x10000000"
abbreviation (input) E1000_CTRL_VME :: "'a::{zero,numeral}" where "E1000_CTRL_VME \<equiv> 0x40000000"
abbreviation (input) E1000_CTRL_PHY_RST :: "'a::{zero,numeral}" where "E1000_CTRL_PHY_RST \<equiv> 0x80000000"
abbreviation (input) E1000_PCS_LCTL_FORCE_FCTRL :: "'a::{zero,numeral}" where "E1000_PCS_LCTL_FORCE_FCTRL \<equiv> 0x80"
abbreviation (input) E1000_PCS_LSTS_AN_COMPLETE :: "'a::{zero,numeral}" where "E1000_PCS_LSTS_AN_COMPLETE \<equiv> 0x10000"
abbreviation (input) E1000_STATUS_FD :: "'a::{zero,numeral}" where "E1000_STATUS_FD \<equiv> 1"
abbreviation (input) E1000_STATUS_LU :: "'a::{zero,numeral}" where "E1000_STATUS_LU \<equiv> 2"
abbreviation (input) E1000_STATUS_FUNC_MASK :: "'a::{zero,numeral}" where "E1000_STATUS_FUNC_MASK \<equiv> 0xc"
abbreviation (input) E1000_STATUS_FUNC_SHIFT :: "'a::{zero,numeral}" where "E1000_STATUS_FUNC_SHIFT \<equiv> 2"
abbreviation (input) E1000_STATUS_SPEED_100 :: "'a::{zero,numeral}" where "E1000_STATUS_SPEED_100 \<equiv> 0x40"
abbreviation (input) E1000_STATUS_SPEED_1000 :: "'a::{zero,numeral}" where "E1000_STATUS_SPEED_1000 \<equiv> 0x80"
abbreviation (input) E1000_STATUS_LAN_INIT_DONE :: "'a::{zero,numeral}" where "E1000_STATUS_LAN_INIT_DONE \<equiv> 0x200"
abbreviation (input) E1000_STATUS_PHYRA :: "'a::{zero,numeral}" where "E1000_STATUS_PHYRA \<equiv> 0x400"
abbreviation (input) E1000_STATUS_GIO_MASTER_ENABLE :: "'a::{zero,numeral}" where "E1000_STATUS_GIO_MASTER_ENABLE \<equiv> 0x80000"
abbreviation (input) HALF_DUPLEX :: "'a::{zero,numeral}" where "HALF_DUPLEX \<equiv> 1"
abbreviation (input) FULL_DUPLEX :: "'a::{zero,numeral}" where "FULL_DUPLEX \<equiv> 2"
abbreviation (input) ADVERTISE_10_HALF :: "'a::{zero,numeral}" where "ADVERTISE_10_HALF \<equiv> 1"
abbreviation (input) ADVERTISE_10_FULL :: "'a::{zero,numeral}" where "ADVERTISE_10_FULL \<equiv> 2"
abbreviation (input) ADVERTISE_100_HALF :: "'a::{zero,numeral}" where "ADVERTISE_100_HALF \<equiv> 4"
abbreviation (input) ADVERTISE_100_FULL :: "'a::{zero,numeral}" where "ADVERTISE_100_FULL \<equiv> 8"
abbreviation (input) ADVERTISE_1000_FULL :: "'a::{zero,numeral}" where "ADVERTISE_1000_FULL \<equiv> 0x20"
abbreviation (input) E1000_ALL_SPEED_DUPLEX :: "'a::{zero,numeral}" where "E1000_ALL_SPEED_DUPLEX \<equiv> 47"
abbreviation (input) E1000_ALL_NOT_GIG :: "'a::{zero,numeral}" where "E1000_ALL_NOT_GIG \<equiv> 15"
abbreviation (input) E1000_ALL_100_SPEED :: "'a::{zero,numeral}" where "E1000_ALL_100_SPEED \<equiv> 12"
abbreviation (input) E1000_ALL_10_SPEED :: "'a::{zero,numeral}" where "E1000_ALL_10_SPEED \<equiv> 3"
abbreviation (input) E1000_ALL_HALF_DUPLEX :: "'a::{zero,numeral}" where "E1000_ALL_HALF_DUPLEX \<equiv> 5"
abbreviation (input) AUTONEG_ADVERTISE_SPEED_DEFAULT :: "'a::{zero,numeral}" where "AUTONEG_ADVERTISE_SPEED_DEFAULT \<equiv> 47"
abbreviation (input) E1000_PHY_LED0_MODE_MASK :: "'a::{zero,numeral}" where "E1000_PHY_LED0_MODE_MASK \<equiv> 7"
abbreviation (input) E1000_PHY_LED0_IVRT :: "'a::{zero,numeral}" where "E1000_PHY_LED0_IVRT \<equiv> 8"
abbreviation (input) E1000_PHY_LED0_MASK :: "'a::{zero,numeral}" where "E1000_PHY_LED0_MASK \<equiv> 0x1f"
abbreviation (input) E1000_LEDCTL_LED0_MODE_MASK :: "'a::{zero,numeral}" where "E1000_LEDCTL_LED0_MODE_MASK \<equiv> 0xf"
abbreviation (input) E1000_LEDCTL_LED0_MODE_SHIFT :: "'a::{zero,numeral}" where "E1000_LEDCTL_LED0_MODE_SHIFT \<equiv> 0"
abbreviation (input) E1000_LEDCTL_LED0_IVRT :: "'a::{zero,numeral}" where "E1000_LEDCTL_LED0_IVRT \<equiv> 0x40"
abbreviation (input) E1000_LEDCTL_LED0_BLINK :: "'a::{zero,numeral}" where "E1000_LEDCTL_LED0_BLINK \<equiv> 0x80"
abbreviation (input) E1000_LEDCTL_MODE_LINK_UP :: "'a::{zero,numeral}" where "E1000_LEDCTL_MODE_LINK_UP \<equiv> 2"
abbreviation (input) E1000_LEDCTL_MODE_LED_ON :: "'a::{zero,numeral}" where "E1000_LEDCTL_MODE_LED_ON \<equiv> 0xe"
abbreviation (input) E1000_LEDCTL_MODE_LED_OFF :: "'a::{zero,numeral}" where "E1000_LEDCTL_MODE_LED_OFF \<equiv> 0xf"
abbreviation (input) E1000_TXD_DTYP_D :: "'a::{zero,numeral}" where "E1000_TXD_DTYP_D \<equiv> 0x100000"
abbreviation (input) E1000_TXD_CMD_EOP :: "'a::{zero,numeral}" where "E1000_TXD_CMD_EOP \<equiv> 0x1000000"
abbreviation (input) E1000_TXD_CMD_IFCS :: "'a::{zero,numeral}" where "E1000_TXD_CMD_IFCS \<equiv> 0x2000000"
abbreviation (input) E1000_TXD_CMD_RS :: "'a::{zero,numeral}" where "E1000_TXD_CMD_RS \<equiv> 0x8000000"
abbreviation (input) E1000_TXD_CMD_DEXT :: "'a::{zero,numeral}" where "E1000_TXD_CMD_DEXT \<equiv> 0x20000000"
abbreviation (input) E1000_TXD_CMD_VLE :: "'a::{zero,numeral}" where "E1000_TXD_CMD_VLE \<equiv> 0x40000000"
abbreviation (input) E1000_TXD_CMD_IDE :: "'a::{zero,numeral}" where "E1000_TXD_CMD_IDE \<equiv> 0x80000000"
abbreviation (input) E1000_TXD_STAT_DD :: "'a::{zero,numeral}" where "E1000_TXD_STAT_DD \<equiv> 1"
abbreviation (input) E1000_TXD_CMD_TCP :: "'a::{zero,numeral}" where "E1000_TXD_CMD_TCP \<equiv> 0x1000000"
abbreviation (input) E1000_TXD_CMD_IP :: "'a::{zero,numeral}" where "E1000_TXD_CMD_IP \<equiv> 0x2000000"
abbreviation (input) E1000_TXD_CMD_TSE :: "'a::{zero,numeral}" where "E1000_TXD_CMD_TSE \<equiv> 0x4000000"
abbreviation (input) E1000_TCTL_EN :: "'a::{zero,numeral}" where "E1000_TCTL_EN \<equiv> 2"
abbreviation (input) E1000_TCTL_PSP :: "'a::{zero,numeral}" where "E1000_TCTL_PSP \<equiv> 8"
abbreviation (input) E1000_TCTL_CT :: "'a::{zero,numeral}" where "E1000_TCTL_CT \<equiv> 0xff0"
abbreviation (input) E1000_TCTL_COLD :: "'a::{zero,numeral}" where "E1000_TCTL_COLD \<equiv> 0x3ff000"
abbreviation (input) E1000_TCTL_RTLC :: "'a::{zero,numeral}" where "E1000_TCTL_RTLC \<equiv> 0x1000000"
abbreviation (input) E1000_TCTL_MULR :: "'a::{zero,numeral}" where "E1000_TCTL_MULR \<equiv> 0x10000000"
abbreviation (input) E1000_RXCSUM_TUOFL :: "'a::{zero,numeral}" where "E1000_RXCSUM_TUOFL \<equiv> 0x200"
abbreviation (input) E1000_RXCSUM_PCSD :: "'a::{zero,numeral}" where "E1000_RXCSUM_PCSD \<equiv> 0x2000"
abbreviation (input) E1000_RFCTL_NFSW_DIS :: "'a::{zero,numeral}" where "E1000_RFCTL_NFSW_DIS \<equiv> 0x40"
abbreviation (input) E1000_RFCTL_NFSR_DIS :: "'a::{zero,numeral}" where "E1000_RFCTL_NFSR_DIS \<equiv> 0x80"
abbreviation (input) E1000_RFCTL_EXTEN :: "'a::{zero,numeral}" where "E1000_RFCTL_EXTEN \<equiv> 0x8000"
abbreviation (input) E1000_RFCTL_IPV6_EX_DIS :: "'a::{zero,numeral}" where "E1000_RFCTL_IPV6_EX_DIS \<equiv> 0x10000"
abbreviation (input) E1000_RFCTL_NEW_IPV6_EXT_DIS :: "'a::{zero,numeral}" where "E1000_RFCTL_NEW_IPV6_EXT_DIS \<equiv> 0x20000"
abbreviation (input) E1000_COLLISION_THRESHOLD :: "'a::{zero,numeral}" where "E1000_COLLISION_THRESHOLD \<equiv> 15"
abbreviation (input) E1000_CT_SHIFT :: "'a::{zero,numeral}" where "E1000_CT_SHIFT \<equiv> 4"
abbreviation (input) E1000_COLLISION_DISTANCE :: "'a::{zero,numeral}" where "E1000_COLLISION_DISTANCE \<equiv> 63"
abbreviation (input) E1000_COLD_SHIFT :: "'a::{zero,numeral}" where "E1000_COLD_SHIFT \<equiv> 12"
abbreviation (input) E1000_TIPG_IPGT_MASK :: "'a::{zero,numeral}" where "E1000_TIPG_IPGT_MASK \<equiv> 0x3ff"
abbreviation (input) E1000_TX_PTR_GAP :: "'a::{zero,numeral}" where "E1000_TX_PTR_GAP \<equiv> 0x1f"
abbreviation (input) E1000_EXTCNF_CTRL_LCD_WRITE_ENABLE :: "'a::{zero,numeral}" where "E1000_EXTCNF_CTRL_LCD_WRITE_ENABLE \<equiv> 1"
abbreviation (input) E1000_EXTCNF_CTRL_OEM_WRITE_ENABLE :: "'a::{zero,numeral}" where "E1000_EXTCNF_CTRL_OEM_WRITE_ENABLE \<equiv> 8"
abbreviation (input) E1000_EXTCNF_CTRL_SWFLAG :: "'a::{zero,numeral}" where "E1000_EXTCNF_CTRL_SWFLAG \<equiv> 0x20"
abbreviation (input) E1000_EXTCNF_CTRL_GATE_PHY_CFG :: "'a::{zero,numeral}" where "E1000_EXTCNF_CTRL_GATE_PHY_CFG \<equiv> 0x80"
abbreviation (input) E1000_EXTCNF_SIZE_EXT_PCIE_LENGTH_MASK :: "'a::{zero,numeral}" where "E1000_EXTCNF_SIZE_EXT_PCIE_LENGTH_MASK \<equiv> 0xff0000"
abbreviation (input) E1000_EXTCNF_SIZE_EXT_PCIE_LENGTH_SHIFT :: "'a::{zero,numeral}" where "E1000_EXTCNF_SIZE_EXT_PCIE_LENGTH_SHIFT \<equiv> 16"
abbreviation (input) E1000_EXTCNF_CTRL_EXT_CNF_POINTER_MASK :: "'a::{zero,numeral}" where "E1000_EXTCNF_CTRL_EXT_CNF_POINTER_MASK \<equiv> 0xfff0000"
abbreviation (input) E1000_EXTCNF_CTRL_EXT_CNF_POINTER_SHIFT :: "'a::{zero,numeral}" where "E1000_EXTCNF_CTRL_EXT_CNF_POINTER_SHIFT \<equiv> 16"
abbreviation (input) E1000_PHY_CTRL_D0A_LPLU :: "'a::{zero,numeral}" where "E1000_PHY_CTRL_D0A_LPLU \<equiv> 2"
abbreviation (input) E1000_PHY_CTRL_NOND0A_LPLU :: "'a::{zero,numeral}" where "E1000_PHY_CTRL_NOND0A_LPLU \<equiv> 4"
abbreviation (input) E1000_PHY_CTRL_NOND0A_GBE_DISABLE :: "'a::{zero,numeral}" where "E1000_PHY_CTRL_NOND0A_GBE_DISABLE \<equiv> 8"
abbreviation (input) E1000_PHY_CTRL_GBE_DISABLE :: "'a::{zero,numeral}" where "E1000_PHY_CTRL_GBE_DISABLE \<equiv> 0x40"
abbreviation (input) E1000_KABGTXD_BGSQLBIAS :: "'a::{zero,numeral}" where "E1000_KABGTXD_BGSQLBIAS \<equiv> 0x50000"
abbreviation (input) E1000_PBA_8K :: "'a::{zero,numeral}" where "E1000_PBA_8K \<equiv> 8"
abbreviation (input) E1000_PBA_RXA_MASK :: "'a::{zero,numeral}" where "E1000_PBA_RXA_MASK \<equiv> 0xffff"
abbreviation (input) E1000_PBS_16K :: "'a::{zero,numeral}" where "E1000_PBS_16K \<equiv> 16"
abbreviation (input) E1000_PBECCSTS_UNCORR_ERR_CNT_MASK :: "'a::{zero,numeral}" where "E1000_PBECCSTS_UNCORR_ERR_CNT_MASK \<equiv> 0xff00"
abbreviation (input) E1000_PBECCSTS_UNCORR_ERR_CNT_SHIFT :: "'a::{zero,numeral}" where "E1000_PBECCSTS_UNCORR_ERR_CNT_SHIFT \<equiv> 8"
abbreviation (input) E1000_PBECCSTS_ECC_ENABLE :: "'a::{zero,numeral}" where "E1000_PBECCSTS_ECC_ENABLE \<equiv> 0x10000"
abbreviation (input) IFS_MAX :: "'a::{zero,numeral}" where "IFS_MAX \<equiv> 80"
abbreviation (input) IFS_MIN :: "'a::{zero,numeral}" where "IFS_MIN \<equiv> 40"
abbreviation (input) IFS_RATIO :: "'a::{zero,numeral}" where "IFS_RATIO \<equiv> 4"
abbreviation (input) IFS_STEP :: "'a::{zero,numeral}" where "IFS_STEP \<equiv> 10"
abbreviation (input) MIN_NUM_XMITS :: "'a::{zero,numeral}" where "MIN_NUM_XMITS \<equiv> 1000"
abbreviation (input) E1000_SWSM_SMBI :: "'a::{zero,numeral}" where "E1000_SWSM_SMBI \<equiv> 1"
abbreviation (input) E1000_SWSM_SWESMBI :: "'a::{zero,numeral}" where "E1000_SWSM_SWESMBI \<equiv> 2"
abbreviation (input) E1000_SWSM_DRV_LOAD :: "'a::{zero,numeral}" where "E1000_SWSM_DRV_LOAD \<equiv> 8"
abbreviation (input) E1000_ICR_TXDW :: "'a::{zero,numeral}" where "E1000_ICR_TXDW \<equiv> 1"
abbreviation (input) E1000_ICR_LSC :: "'a::{zero,numeral}" where "E1000_ICR_LSC \<equiv> 4"
abbreviation (input) E1000_ICR_RXDMT0 :: "'a::{zero,numeral}" where "E1000_ICR_RXDMT0 \<equiv> 0x10"
abbreviation (input) E1000_ICR_RXT0 :: "'a::{zero,numeral}" where "E1000_ICR_RXT0 \<equiv> 0x80"
abbreviation (input) E1000_ICR_ECCER :: "'a::{zero,numeral}" where "E1000_ICR_ECCER \<equiv> 0x400000"
abbreviation (input) E1000_ICR_RXQ0 :: "'a::{zero,numeral}" where "E1000_ICR_RXQ0 \<equiv> 0x100000"
abbreviation (input) E1000_ICR_TXQ0 :: "'a::{zero,numeral}" where "E1000_ICR_TXQ0 \<equiv> 0x400000"
abbreviation (input) IMS_ENABLE_MASK :: "'a::{zero,numeral}" where "IMS_ENABLE_MASK \<equiv> 157"
abbreviation (input) E1000_IMS_RXSEQ :: "'a::{zero,numeral}" where "E1000_IMS_RXSEQ \<equiv> 8"
abbreviation (input) E1000_IMS_ECCER :: "'a::{zero,numeral}" where "E1000_IMS_ECCER \<equiv> 4194304"
abbreviation (input) E1000_TXDCTL_PTHRESH :: "'a::{zero,numeral}" where "E1000_TXDCTL_PTHRESH \<equiv> 0x3f"
abbreviation (input) E1000_TXDCTL_WTHRESH :: "'a::{zero,numeral}" where "E1000_TXDCTL_WTHRESH \<equiv> 0x3f0000"
abbreviation (input) E1000_TXDCTL_FULL_TX_DESC_WB :: "'a::{zero,numeral}" where "E1000_TXDCTL_FULL_TX_DESC_WB \<equiv> 0x1010000"
abbreviation (input) E1000_TXDCTL_MAX_TX_DESC_PREFETCH :: "'a::{zero,numeral}" where "E1000_TXDCTL_MAX_TX_DESC_PREFETCH \<equiv> 0x100001f"
abbreviation (input) FLOW_CONTROL_ADDRESS_LOW :: "'a::{zero,numeral}" where "FLOW_CONTROL_ADDRESS_LOW \<equiv> 0xc28001"
abbreviation (input) FLOW_CONTROL_ADDRESS_HIGH :: "'a::{zero,numeral}" where "FLOW_CONTROL_ADDRESS_HIGH \<equiv> 0x100"
abbreviation (input) FLOW_CONTROL_TYPE :: "'a::{zero,numeral}" where "FLOW_CONTROL_TYPE \<equiv> 0x8808"
abbreviation (input) E1000_VLAN_FILTER_TBL_SIZE :: "'a::{zero,numeral}" where "E1000_VLAN_FILTER_TBL_SIZE \<equiv> 128"
abbreviation (input) E1000_RAH_AV :: "'a::{zero,numeral}" where "E1000_RAH_AV \<equiv> 0x80000000"
abbreviation (input) E1000_RAL_MAC_ADDR_LEN :: "'a::{zero,numeral}" where "E1000_RAL_MAC_ADDR_LEN \<equiv> 4"
abbreviation (input) E1000_RAH_MAC_ADDR_LEN :: "'a::{zero,numeral}" where "E1000_RAH_MAC_ADDR_LEN \<equiv> 2"
abbreviation (input) E1000_ERR_NVM :: "'a::{zero,numeral}" where "E1000_ERR_NVM \<equiv> 1"
abbreviation (input) E1000_ERR_PHY :: "'a::{zero,numeral}" where "E1000_ERR_PHY \<equiv> 2"
abbreviation (input) E1000_ERR_CONFIG :: "'a::{zero,numeral}" where "E1000_ERR_CONFIG \<equiv> 3"
abbreviation (input) E1000_ERR_PARAM :: "'a::{zero,numeral}" where "E1000_ERR_PARAM \<equiv> 4"
abbreviation (input) E1000_ERR_PHY_TYPE :: "'a::{zero,numeral}" where "E1000_ERR_PHY_TYPE \<equiv> 6"
abbreviation (input) E1000_ERR_RESET :: "'a::{zero,numeral}" where "E1000_ERR_RESET \<equiv> 9"
abbreviation (input) E1000_ERR_MASTER_REQUESTS_PENDING :: "'a::{zero,numeral}" where "E1000_ERR_MASTER_REQUESTS_PENDING \<equiv> 10"
abbreviation (input) E1000_ERR_HOST_INTERFACE_COMMAND :: "'a::{zero,numeral}" where "E1000_ERR_HOST_INTERFACE_COMMAND \<equiv> 11"
abbreviation (input) E1000_BLK_PHY_RESET :: "'a::{zero,numeral}" where "E1000_BLK_PHY_RESET \<equiv> 12"
abbreviation (input) E1000_ERR_INVALID_ARGUMENT :: "'a::{zero,numeral}" where "E1000_ERR_INVALID_ARGUMENT \<equiv> 16"
abbreviation (input) E1000_ERR_NO_SPACE :: "'a::{zero,numeral}" where "E1000_ERR_NO_SPACE \<equiv> 17"
abbreviation (input) E1000_ERR_NVM_PBA_SECTION :: "'a::{zero,numeral}" where "E1000_ERR_NVM_PBA_SECTION \<equiv> 18"
abbreviation (input) FIBER_LINK_UP_LIMIT :: "'a::{zero,numeral}" where "FIBER_LINK_UP_LIMIT \<equiv> 50"
abbreviation (input) COPPER_LINK_UP_LIMIT :: "'a::{zero,numeral}" where "COPPER_LINK_UP_LIMIT \<equiv> 10"
abbreviation (input) PHY_AUTO_NEG_LIMIT :: "'a::{zero,numeral}" where "PHY_AUTO_NEG_LIMIT \<equiv> 45"
abbreviation (input) PHY_FORCE_LIMIT :: "'a::{zero,numeral}" where "PHY_FORCE_LIMIT \<equiv> 20"
abbreviation (input) MASTER_DISABLE_TIMEOUT :: "'a::{zero,numeral}" where "MASTER_DISABLE_TIMEOUT \<equiv> 800"
abbreviation (input) PHY_CFG_TIMEOUT :: "'a::{zero,numeral}" where "PHY_CFG_TIMEOUT \<equiv> 100"
abbreviation (input) AUTO_READ_DONE_TIMEOUT :: "'a::{zero,numeral}" where "AUTO_READ_DONE_TIMEOUT \<equiv> 10"
abbreviation (input) E1000_FCRTH_RTH :: "'a::{zero,numeral}" where "E1000_FCRTH_RTH \<equiv> 0xfff8"
abbreviation (input) E1000_FCRTL_RTL :: "'a::{zero,numeral}" where "E1000_FCRTL_RTL \<equiv> 0xfff8"
abbreviation (input) E1000_FCRTL_XONE :: "'a::{zero,numeral}" where "E1000_FCRTL_XONE \<equiv> 0x80000000"
abbreviation (input) E1000_TXCW_FD :: "'a::{zero,numeral}" where "E1000_TXCW_FD \<equiv> 0x20"
abbreviation (input) E1000_TXCW_PAUSE :: "'a::{zero,numeral}" where "E1000_TXCW_PAUSE \<equiv> 0x80"
abbreviation (input) E1000_TXCW_ASM_DIR :: "'a::{zero,numeral}" where "E1000_TXCW_ASM_DIR \<equiv> 0x100"
abbreviation (input) E1000_TXCW_PAUSE_MASK :: "'a::{zero,numeral}" where "E1000_TXCW_PAUSE_MASK \<equiv> 0x180"
abbreviation (input) E1000_TXCW_ANE :: "'a::{zero,numeral}" where "E1000_TXCW_ANE \<equiv> 0x80000000"
abbreviation (input) E1000_RXCW_IV :: "'a::{zero,numeral}" where "E1000_RXCW_IV \<equiv> 0x8000000"
abbreviation (input) E1000_RXCW_C :: "'a::{zero,numeral}" where "E1000_RXCW_C \<equiv> 0x20000000"
abbreviation (input) E1000_RXCW_SYNCH :: "'a::{zero,numeral}" where "E1000_RXCW_SYNCH \<equiv> 0x40000000"
abbreviation (input) PCIE_NO_SNOOP_ALL :: "'a::{zero,numeral}" where "PCIE_NO_SNOOP_ALL \<equiv> 63"
abbreviation (input) E1000_EECD_SK :: "'a::{zero,numeral}" where "E1000_EECD_SK \<equiv> 1"
abbreviation (input) E1000_EECD_CS :: "'a::{zero,numeral}" where "E1000_EECD_CS \<equiv> 2"
abbreviation (input) E1000_EECD_DI :: "'a::{zero,numeral}" where "E1000_EECD_DI \<equiv> 4"
abbreviation (input) E1000_EECD_DO :: "'a::{zero,numeral}" where "E1000_EECD_DO \<equiv> 8"
abbreviation (input) E1000_EECD_REQ :: "'a::{zero,numeral}" where "E1000_EECD_REQ \<equiv> 0x40"
abbreviation (input) E1000_EECD_GNT :: "'a::{zero,numeral}" where "E1000_EECD_GNT \<equiv> 0x80"
abbreviation (input) E1000_EECD_PRES :: "'a::{zero,numeral}" where "E1000_EECD_PRES \<equiv> 0x100"
abbreviation (input) E1000_NVM_GRANT_ATTEMPTS :: "'a::{zero,numeral}" where "E1000_NVM_GRANT_ATTEMPTS \<equiv> 1000"
abbreviation (input) E1000_EECD_AUTO_RD :: "'a::{zero,numeral}" where "E1000_EECD_AUTO_RD \<equiv> 0x200"
abbreviation (input) E1000_EECD_SEC1VAL :: "'a::{zero,numeral}" where "E1000_EECD_SEC1VAL \<equiv> 0x400000"
abbreviation (input) E1000_EECD_SEC1VAL_VALID_MASK :: "'a::{zero,numeral}" where "E1000_EECD_SEC1VAL_VALID_MASK \<equiv> 768"
abbreviation (input) E1000_NVM_RW_REG_DATA :: "'a::{zero,numeral}" where "E1000_NVM_RW_REG_DATA \<equiv> 16"
abbreviation (input) E1000_NVM_RW_REG_DONE :: "'a::{zero,numeral}" where "E1000_NVM_RW_REG_DONE \<equiv> 2"
abbreviation (input) E1000_NVM_RW_REG_START :: "'a::{zero,numeral}" where "E1000_NVM_RW_REG_START \<equiv> 1"
abbreviation (input) E1000_NVM_RW_ADDR_SHIFT :: "'a::{zero,numeral}" where "E1000_NVM_RW_ADDR_SHIFT \<equiv> 2"
abbreviation (input) E1000_NVM_POLL_READ :: "'a::{zero,numeral}" where "E1000_NVM_POLL_READ \<equiv> 0"
abbreviation (input) NVM_COMPAT :: "'a::{zero,numeral}" where "NVM_COMPAT \<equiv> 3"
abbreviation (input) NVM_ID_LED_SETTINGS :: "'a::{zero,numeral}" where "NVM_ID_LED_SETTINGS \<equiv> 4"
abbreviation (input) NVM_FUTURE_INIT_WORD1 :: "'a::{zero,numeral}" where "NVM_FUTURE_INIT_WORD1 \<equiv> 0x19"
abbreviation (input) NVM_COMPAT_VALID_CSUM :: "'a::{zero,numeral}" where "NVM_COMPAT_VALID_CSUM \<equiv> 1"
abbreviation (input) NVM_FUTURE_INIT_WORD1_VALID_CSUM :: "'a::{zero,numeral}" where "NVM_FUTURE_INIT_WORD1_VALID_CSUM \<equiv> 0x40"
abbreviation (input) NVM_INIT_CONTROL2_REG :: "'a::{zero,numeral}" where "NVM_INIT_CONTROL2_REG \<equiv> 0xf"
abbreviation (input) NVM_INIT_CONTROL3_PORT_B :: "'a::{zero,numeral}" where "NVM_INIT_CONTROL3_PORT_B \<equiv> 0x14"
abbreviation (input) NVM_INIT_CONTROL3_PORT_A :: "'a::{zero,numeral}" where "NVM_INIT_CONTROL3_PORT_A \<equiv> 0x24"
abbreviation (input) NVM_ALT_MAC_ADDR_PTR :: "'a::{zero,numeral}" where "NVM_ALT_MAC_ADDR_PTR \<equiv> 0x37"
abbreviation (input) NVM_CHECKSUM_REG :: "'a::{zero,numeral}" where "NVM_CHECKSUM_REG \<equiv> 0x3f"
abbreviation (input) NVM_WORD0F_PAUSE_MASK :: "'a::{zero,numeral}" where "NVM_WORD0F_PAUSE_MASK \<equiv> 0x3000"
abbreviation (input) NVM_WORD0F_ASM_DIR :: "'a::{zero,numeral}" where "NVM_WORD0F_ASM_DIR \<equiv> 0x2000"
abbreviation (input) E1000_PBANUM_LENGTH :: "'a::{zero,numeral}" where "E1000_PBANUM_LENGTH \<equiv> 11"
abbreviation (input) NVM_SUM :: "'a::{zero,numeral}" where "NVM_SUM \<equiv> 0xbaba"
abbreviation (input) NVM_PBA_OFFSET_0 :: "'a::{zero,numeral}" where "NVM_PBA_OFFSET_0 \<equiv> 8"
abbreviation (input) NVM_PBA_OFFSET_1 :: "'a::{zero,numeral}" where "NVM_PBA_OFFSET_1 \<equiv> 9"
abbreviation (input) NVM_PBA_PTR_GUARD :: "'a::{zero,numeral}" where "NVM_PBA_PTR_GUARD \<equiv> 0xfafa"
abbreviation (input) NVM_MAX_RETRY_SPI :: "'a::{zero,numeral}" where "NVM_MAX_RETRY_SPI \<equiv> 5000"
abbreviation (input) NVM_WRITE_OPCODE_SPI :: "'a::{zero,numeral}" where "NVM_WRITE_OPCODE_SPI \<equiv> 2"
abbreviation (input) NVM_A8_OPCODE_SPI :: "'a::{zero,numeral}" where "NVM_A8_OPCODE_SPI \<equiv> 8"
abbreviation (input) NVM_WREN_OPCODE_SPI :: "'a::{zero,numeral}" where "NVM_WREN_OPCODE_SPI \<equiv> 6"
abbreviation (input) NVM_RDSR_OPCODE_SPI :: "'a::{zero,numeral}" where "NVM_RDSR_OPCODE_SPI \<equiv> 5"
abbreviation (input) NVM_STATUS_RDY_SPI :: "'a::{zero,numeral}" where "NVM_STATUS_RDY_SPI \<equiv> 1"
abbreviation (input) ID_LED_RESERVED_0000 :: "'a::{zero,numeral}" where "ID_LED_RESERVED_0000 \<equiv> 0"
abbreviation (input) ID_LED_RESERVED_FFFF :: "'a::{zero,numeral}" where "ID_LED_RESERVED_FFFF \<equiv> 0xffff"
abbreviation (input) ID_LED_DEFAULT :: "'a::{zero,numeral}" where "ID_LED_DEFAULT \<equiv> 0x8911"
abbreviation (input) ID_LED_DEF1_ON2 :: "'a::{zero,numeral}" where "ID_LED_DEF1_ON2 \<equiv> 2"
abbreviation (input) ID_LED_DEF1_OFF2 :: "'a::{zero,numeral}" where "ID_LED_DEF1_OFF2 \<equiv> 3"
abbreviation (input) ID_LED_ON1_DEF2 :: "'a::{zero,numeral}" where "ID_LED_ON1_DEF2 \<equiv> 4"
abbreviation (input) ID_LED_ON1_ON2 :: "'a::{zero,numeral}" where "ID_LED_ON1_ON2 \<equiv> 5"
abbreviation (input) ID_LED_ON1_OFF2 :: "'a::{zero,numeral}" where "ID_LED_ON1_OFF2 \<equiv> 6"
abbreviation (input) ID_LED_OFF1_DEF2 :: "'a::{zero,numeral}" where "ID_LED_OFF1_DEF2 \<equiv> 7"
abbreviation (input) ID_LED_OFF1_ON2 :: "'a::{zero,numeral}" where "ID_LED_OFF1_ON2 \<equiv> 8"
abbreviation (input) ID_LED_OFF1_OFF2 :: "'a::{zero,numeral}" where "ID_LED_OFF1_OFF2 \<equiv> 9"
abbreviation (input) PHY_REVISION_MASK :: "'a::{zero,numeral}" where "PHY_REVISION_MASK \<equiv> 0xfffffff0"
abbreviation (input) MAX_PHY_REG_ADDRESS :: "'a::{zero,numeral}" where "MAX_PHY_REG_ADDRESS \<equiv> 0x1f"
abbreviation (input) MAX_PHY_MULTI_PAGE_REG :: "'a::{zero,numeral}" where "MAX_PHY_MULTI_PAGE_REG \<equiv> 0xf"
abbreviation (input) M88E1000_E_PHY_ID :: "'a::{zero,numeral}" where "M88E1000_E_PHY_ID \<equiv> 0x1410c50"
abbreviation (input) M88E1000_I_PHY_ID :: "'a::{zero,numeral}" where "M88E1000_I_PHY_ID \<equiv> 0x1410c30"
abbreviation (input) M88E1011_I_PHY_ID :: "'a::{zero,numeral}" where "M88E1011_I_PHY_ID \<equiv> 0x1410c20"
abbreviation (input) IGP01E1000_I_PHY_ID :: "'a::{zero,numeral}" where "IGP01E1000_I_PHY_ID \<equiv> 0x2a80380"
abbreviation (input) M88E1111_I_PHY_ID :: "'a::{zero,numeral}" where "M88E1111_I_PHY_ID \<equiv> 0x1410cc0"
abbreviation (input) GG82563_E_PHY_ID :: "'a::{zero,numeral}" where "GG82563_E_PHY_ID \<equiv> 0x1410ca0"
abbreviation (input) IGP03E1000_E_PHY_ID :: "'a::{zero,numeral}" where "IGP03E1000_E_PHY_ID \<equiv> 0x2a80390"
abbreviation (input) IFE_E_PHY_ID :: "'a::{zero,numeral}" where "IFE_E_PHY_ID \<equiv> 0x2a80330"
abbreviation (input) IFE_PLUS_E_PHY_ID :: "'a::{zero,numeral}" where "IFE_PLUS_E_PHY_ID \<equiv> 0x2a80320"
abbreviation (input) IFE_C_E_PHY_ID :: "'a::{zero,numeral}" where "IFE_C_E_PHY_ID \<equiv> 0x2a80310"
abbreviation (input) BME1000_E_PHY_ID :: "'a::{zero,numeral}" where "BME1000_E_PHY_ID \<equiv> 0x1410cb0"
abbreviation (input) BME1000_E_PHY_ID_R2 :: "'a::{zero,numeral}" where "BME1000_E_PHY_ID_R2 \<equiv> 0x1410cb1"
abbreviation (input) I82577_E_PHY_ID :: "'a::{zero,numeral}" where "I82577_E_PHY_ID \<equiv> 0x1540050"
abbreviation (input) I82578_E_PHY_ID :: "'a::{zero,numeral}" where "I82578_E_PHY_ID \<equiv> 0x4dd040"
abbreviation (input) I82579_E_PHY_ID :: "'a::{zero,numeral}" where "I82579_E_PHY_ID \<equiv> 0x1540090"
abbreviation (input) I217_E_PHY_ID :: "'a::{zero,numeral}" where "I217_E_PHY_ID \<equiv> 0x15400a0"
abbreviation (input) M88E1000_PHY_SPEC_CTRL :: "'a::{zero,numeral}" where "M88E1000_PHY_SPEC_CTRL \<equiv> 0x10"
abbreviation (input) M88E1000_PHY_SPEC_STATUS :: "'a::{zero,numeral}" where "M88E1000_PHY_SPEC_STATUS \<equiv> 0x11"
abbreviation (input) M88E1000_EXT_PHY_SPEC_CTRL :: "'a::{zero,numeral}" where "M88E1000_EXT_PHY_SPEC_CTRL \<equiv> 0x14"
abbreviation (input) M88E1000_PHY_PAGE_SELECT :: "'a::{zero,numeral}" where "M88E1000_PHY_PAGE_SELECT \<equiv> 0x1d"
abbreviation (input) M88E1000_PHY_GEN_CONTROL :: "'a::{zero,numeral}" where "M88E1000_PHY_GEN_CONTROL \<equiv> 0x1e"
abbreviation (input) M88E1000_PSCR_POLARITY_REVERSAL :: "'a::{zero,numeral}" where "M88E1000_PSCR_POLARITY_REVERSAL \<equiv> 2"
abbreviation (input) M88E1000_PSCR_MDI_MANUAL_MODE :: "'a::{zero,numeral}" where "M88E1000_PSCR_MDI_MANUAL_MODE \<equiv> 0"
abbreviation (input) M88E1000_PSCR_MDIX_MANUAL_MODE :: "'a::{zero,numeral}" where "M88E1000_PSCR_MDIX_MANUAL_MODE \<equiv> 0x20"
abbreviation (input) M88E1000_PSCR_AUTO_X_1000T :: "'a::{zero,numeral}" where "M88E1000_PSCR_AUTO_X_1000T \<equiv> 0x40"
abbreviation (input) M88E1000_PSCR_AUTO_X_MODE :: "'a::{zero,numeral}" where "M88E1000_PSCR_AUTO_X_MODE \<equiv> 0x60"
abbreviation (input) M88E1000_PSCR_ASSERT_CRS_ON_TX :: "'a::{zero,numeral}" where "M88E1000_PSCR_ASSERT_CRS_ON_TX \<equiv> 0x800"
abbreviation (input) M88E1000_PSSR_REV_POLARITY :: "'a::{zero,numeral}" where "M88E1000_PSSR_REV_POLARITY \<equiv> 2"
abbreviation (input) M88E1000_PSSR_DOWNSHIFT :: "'a::{zero,numeral}" where "M88E1000_PSSR_DOWNSHIFT \<equiv> 0x20"
abbreviation (input) M88E1000_PSSR_MDIX :: "'a::{zero,numeral}" where "M88E1000_PSSR_MDIX \<equiv> 0x40"
abbreviation (input) M88E1000_PSSR_CABLE_LENGTH :: "'a::{zero,numeral}" where "M88E1000_PSSR_CABLE_LENGTH \<equiv> 0x380"
abbreviation (input) M88E1000_PSSR_SPEED :: "'a::{zero,numeral}" where "M88E1000_PSSR_SPEED \<equiv> 0xc000"
abbreviation (input) M88E1000_PSSR_1000MBS :: "'a::{zero,numeral}" where "M88E1000_PSSR_1000MBS \<equiv> 0x8000"
abbreviation (input) M88E1000_PSSR_CABLE_LENGTH_SHIFT :: "'a::{zero,numeral}" where "M88E1000_PSSR_CABLE_LENGTH_SHIFT \<equiv> 7"
abbreviation (input) M88E1000_EPSCR_MASTER_DOWNSHIFT_MASK :: "'a::{zero,numeral}" where "M88E1000_EPSCR_MASTER_DOWNSHIFT_MASK \<equiv> 0xc00"
abbreviation (input) M88E1000_EPSCR_MASTER_DOWNSHIFT_1X :: "'a::{zero,numeral}" where "M88E1000_EPSCR_MASTER_DOWNSHIFT_1X \<equiv> 0"
abbreviation (input) M88E1000_EPSCR_SLAVE_DOWNSHIFT_MASK :: "'a::{zero,numeral}" where "M88E1000_EPSCR_SLAVE_DOWNSHIFT_MASK \<equiv> 0x300"
abbreviation (input) M88E1000_EPSCR_SLAVE_DOWNSHIFT_1X :: "'a::{zero,numeral}" where "M88E1000_EPSCR_SLAVE_DOWNSHIFT_1X \<equiv> 0x100"
abbreviation (input) M88E1000_EPSCR_TX_CLK_25 :: "'a::{zero,numeral}" where "M88E1000_EPSCR_TX_CLK_25 \<equiv> 0x70"
abbreviation (input) M88EC018_EPSCR_DOWNSHIFT_COUNTER_MASK :: "'a::{zero,numeral}" where "M88EC018_EPSCR_DOWNSHIFT_COUNTER_MASK \<equiv> 0xe00"
abbreviation (input) M88EC018_EPSCR_DOWNSHIFT_COUNTER_5X :: "'a::{zero,numeral}" where "M88EC018_EPSCR_DOWNSHIFT_COUNTER_5X \<equiv> 0x800"
abbreviation (input) I82578_EPSCR_DOWNSHIFT_ENABLE :: "'a::{zero,numeral}" where "I82578_EPSCR_DOWNSHIFT_ENABLE \<equiv> 0x20"
abbreviation (input) I82578_EPSCR_DOWNSHIFT_COUNTER_MASK :: "'a::{zero,numeral}" where "I82578_EPSCR_DOWNSHIFT_COUNTER_MASK \<equiv> 0x1c"
abbreviation (input) BME1000_PSCR_ENABLE_DOWNSHIFT :: "'a::{zero,numeral}" where "BME1000_PSCR_ENABLE_DOWNSHIFT \<equiv> 0x800"
abbreviation (input) E1000_MDIC_REG_MASK :: "'a::{zero,numeral}" where "E1000_MDIC_REG_MASK \<equiv> 0x1f0000"
abbreviation (input) E1000_MDIC_REG_SHIFT :: "'a::{zero,numeral}" where "E1000_MDIC_REG_SHIFT \<equiv> 16"
abbreviation (input) E1000_MDIC_PHY_SHIFT :: "'a::{zero,numeral}" where "E1000_MDIC_PHY_SHIFT \<equiv> 21"
abbreviation (input) E1000_MDIC_OP_WRITE :: "'a::{zero,numeral}" where "E1000_MDIC_OP_WRITE \<equiv> 0x4000000"
abbreviation (input) E1000_MDIC_OP_READ :: "'a::{zero,numeral}" where "E1000_MDIC_OP_READ \<equiv> 0x8000000"
abbreviation (input) E1000_MDIC_READY :: "'a::{zero,numeral}" where "E1000_MDIC_READY \<equiv> 0x10000000"
abbreviation (input) E1000_MDIC_ERROR :: "'a::{zero,numeral}" where "E1000_MDIC_ERROR \<equiv> 0x40000000"
abbreviation (input) E1000_GEN_POLL_TIMEOUT :: "'a::{zero,numeral}" where "E1000_GEN_POLL_TIMEOUT \<equiv> 640"

subsection \<open>regs.h\<close>

abbreviation (input) E1000_CTRL :: "'a::{zero,numeral}" where "E1000_CTRL \<equiv> 0"
abbreviation (input) E1000_STATUS :: "'a::{zero,numeral}" where "E1000_STATUS \<equiv> 8"
abbreviation (input) E1000_EECD :: "'a::{zero,numeral}" where "E1000_EECD \<equiv> 0x10"
abbreviation (input) E1000_EERD :: "'a::{zero,numeral}" where "E1000_EERD \<equiv> 0x14"
abbreviation (input) E1000_CTRL_EXT :: "'a::{zero,numeral}" where "E1000_CTRL_EXT \<equiv> 0x18"
abbreviation (input) E1000_MDIC :: "'a::{zero,numeral}" where "E1000_MDIC \<equiv> 0x20"
abbreviation (input) E1000_FCAL :: "'a::{zero,numeral}" where "E1000_FCAL \<equiv> 0x28"
abbreviation (input) E1000_FCAH :: "'a::{zero,numeral}" where "E1000_FCAH \<equiv> 0x2c"
abbreviation (input) E1000_FEXT :: "'a::{zero,numeral}" where "E1000_FEXT \<equiv> 0x2c"
abbreviation (input) E1000_FEXTNVM :: "'a::{zero,numeral}" where "E1000_FEXTNVM \<equiv> 0x28"
abbreviation (input) E1000_FEXTNVM3 :: "'a::{zero,numeral}" where "E1000_FEXTNVM3 \<equiv> 0x3c"
abbreviation (input) E1000_FEXTNVM4 :: "'a::{zero,numeral}" where "E1000_FEXTNVM4 \<equiv> 0x24"
abbreviation (input) E1000_FEXTNVM6 :: "'a::{zero,numeral}" where "E1000_FEXTNVM6 \<equiv> 0x10"
abbreviation (input) E1000_FEXTNVM7 :: "'a::{zero,numeral}" where "E1000_FEXTNVM7 \<equiv> 0xe4"
abbreviation (input) E1000_FEXTNVM11 :: "'a::{zero,numeral}" where "E1000_FEXTNVM11 \<equiv> 0x5bbc"
abbreviation (input) E1000_PCIEANACFG :: "'a::{zero,numeral}" where "E1000_PCIEANACFG \<equiv> 0xf18"
abbreviation (input) E1000_FCT :: "'a::{zero,numeral}" where "E1000_FCT \<equiv> 0x30"
abbreviation (input) E1000_VET :: "'a::{zero,numeral}" where "E1000_VET \<equiv> 0x38"
abbreviation (input) E1000_ICR :: "'a::{zero,numeral}" where "E1000_ICR \<equiv> 0xc0"
abbreviation (input) E1000_ITR :: "'a::{zero,numeral}" where "E1000_ITR \<equiv> 0xc4"
abbreviation (input) E1000_IMS :: "'a::{zero,numeral}" where "E1000_IMS \<equiv> 0xd0"
abbreviation (input) E1000_IMC :: "'a::{zero,numeral}" where "E1000_IMC \<equiv> 0xd8"
abbreviation (input) E1000_IAM :: "'a::{zero,numeral}" where "E1000_IAM \<equiv> 0xe0"
abbreviation (input) E1000_LPIC :: "'a::{zero,numeral}" where "E1000_LPIC \<equiv> 0xfc"
abbreviation (input) E1000_RCTL :: "'a::{zero,numeral}" where "E1000_RCTL \<equiv> 0x100"
abbreviation (input) E1000_FCTTV :: "'a::{zero,numeral}" where "E1000_FCTTV \<equiv> 0x170"
abbreviation (input) E1000_TXCW :: "'a::{zero,numeral}" where "E1000_TXCW \<equiv> 0x178"
abbreviation (input) E1000_RXCW :: "'a::{zero,numeral}" where "E1000_RXCW \<equiv> 0x180"
abbreviation (input) E1000_TCTL :: "'a::{zero,numeral}" where "E1000_TCTL \<equiv> 0x400"
abbreviation (input) E1000_TIPG :: "'a::{zero,numeral}" where "E1000_TIPG \<equiv> 0x410"
abbreviation (input) E1000_AIT :: "'a::{zero,numeral}" where "E1000_AIT \<equiv> 0x458"
abbreviation (input) E1000_LEDCTL :: "'a::{zero,numeral}" where "E1000_LEDCTL \<equiv> 0xe00"
abbreviation (input) E1000_EXTCNF_CTRL :: "'a::{zero,numeral}" where "E1000_EXTCNF_CTRL \<equiv> 0xf00"
abbreviation (input) E1000_EXTCNF_SIZE :: "'a::{zero,numeral}" where "E1000_EXTCNF_SIZE \<equiv> 0xf08"
abbreviation (input) E1000_PHY_CTRL :: "'a::{zero,numeral}" where "E1000_PHY_CTRL \<equiv> 0xf10"
abbreviation (input) E1000_PBA :: "'a::{zero,numeral}" where "E1000_PBA \<equiv> 0x1000"
abbreviation (input) E1000_PBS :: "'a::{zero,numeral}" where "E1000_PBS \<equiv> 0x1008"
abbreviation (input) E1000_PBECCSTS :: "'a::{zero,numeral}" where "E1000_PBECCSTS \<equiv> 0x100c"
abbreviation (input) E1000_IOSFPC :: "'a::{zero,numeral}" where "E1000_IOSFPC \<equiv> 0xf28"
abbreviation (input) E1000_EEWR :: "'a::{zero,numeral}" where "E1000_EEWR \<equiv> 0x102c"
abbreviation (input) E1000_FCRTL :: "'a::{zero,numeral}" where "E1000_FCRTL \<equiv> 0x2160"
abbreviation (input) E1000_FCRTH :: "'a::{zero,numeral}" where "E1000_FCRTH \<equiv> 0x2168"
abbreviation (input) E1000_RDTR :: "'a::{zero,numeral}" where "E1000_RDTR \<equiv> 0x2820"
abbreviation (input) E1000_RADV :: "'a::{zero,numeral}" where "E1000_RADV \<equiv> 0x282c"
abbreviation (input) E1000_KABGTXD :: "'a::{zero,numeral}" where "E1000_KABGTXD \<equiv> 0x3004"
abbreviation (input) E1000_TIDV :: "'a::{zero,numeral}" where "E1000_TIDV \<equiv> 0x3820"
abbreviation (input) E1000_TADV :: "'a::{zero,numeral}" where "E1000_TADV \<equiv> 0x382c"
abbreviation (input) E1000_CRCERRS :: "'a::{zero,numeral}" where "E1000_CRCERRS \<equiv> 0x4000"
abbreviation (input) E1000_ALGNERRC :: "'a::{zero,numeral}" where "E1000_ALGNERRC \<equiv> 0x4004"
abbreviation (input) E1000_SYMERRS :: "'a::{zero,numeral}" where "E1000_SYMERRS \<equiv> 0x4008"
abbreviation (input) E1000_RXERRC :: "'a::{zero,numeral}" where "E1000_RXERRC \<equiv> 0x400c"
abbreviation (input) E1000_MPC :: "'a::{zero,numeral}" where "E1000_MPC \<equiv> 0x4010"
abbreviation (input) E1000_SCC :: "'a::{zero,numeral}" where "E1000_SCC \<equiv> 0x4014"
abbreviation (input) E1000_ECOL :: "'a::{zero,numeral}" where "E1000_ECOL \<equiv> 0x4018"
abbreviation (input) E1000_MCC :: "'a::{zero,numeral}" where "E1000_MCC \<equiv> 0x401c"
abbreviation (input) E1000_LATECOL :: "'a::{zero,numeral}" where "E1000_LATECOL \<equiv> 0x4020"
abbreviation (input) E1000_COLC :: "'a::{zero,numeral}" where "E1000_COLC \<equiv> 0x4028"
abbreviation (input) E1000_DC :: "'a::{zero,numeral}" where "E1000_DC \<equiv> 0x4030"
abbreviation (input) E1000_TNCRS :: "'a::{zero,numeral}" where "E1000_TNCRS \<equiv> 0x4034"
abbreviation (input) E1000_SEC :: "'a::{zero,numeral}" where "E1000_SEC \<equiv> 0x4038"
abbreviation (input) E1000_CEXTERR :: "'a::{zero,numeral}" where "E1000_CEXTERR \<equiv> 0x403c"
abbreviation (input) E1000_RLEC :: "'a::{zero,numeral}" where "E1000_RLEC \<equiv> 0x4040"
abbreviation (input) E1000_XONRXC :: "'a::{zero,numeral}" where "E1000_XONRXC \<equiv> 0x4048"
abbreviation (input) E1000_XONTXC :: "'a::{zero,numeral}" where "E1000_XONTXC \<equiv> 0x404c"
abbreviation (input) E1000_XOFFRXC :: "'a::{zero,numeral}" where "E1000_XOFFRXC \<equiv> 0x4050"
abbreviation (input) E1000_XOFFTXC :: "'a::{zero,numeral}" where "E1000_XOFFTXC \<equiv> 0x4054"
abbreviation (input) E1000_FCRUC :: "'a::{zero,numeral}" where "E1000_FCRUC \<equiv> 0x4058"
abbreviation (input) E1000_GPRC :: "'a::{zero,numeral}" where "E1000_GPRC \<equiv> 0x4074"
abbreviation (input) E1000_BPRC :: "'a::{zero,numeral}" where "E1000_BPRC \<equiv> 0x4078"
abbreviation (input) E1000_MPRC :: "'a::{zero,numeral}" where "E1000_MPRC \<equiv> 0x407c"
abbreviation (input) E1000_GPTC :: "'a::{zero,numeral}" where "E1000_GPTC \<equiv> 0x4080"
abbreviation (input) E1000_GORCL :: "'a::{zero,numeral}" where "E1000_GORCL \<equiv> 0x4088"
abbreviation (input) E1000_GORCH :: "'a::{zero,numeral}" where "E1000_GORCH \<equiv> 0x408c"
abbreviation (input) E1000_GOTCL :: "'a::{zero,numeral}" where "E1000_GOTCL \<equiv> 0x4090"
abbreviation (input) E1000_GOTCH :: "'a::{zero,numeral}" where "E1000_GOTCH \<equiv> 0x4094"
abbreviation (input) E1000_RNBC :: "'a::{zero,numeral}" where "E1000_RNBC \<equiv> 0x40a0"
abbreviation (input) E1000_RUC :: "'a::{zero,numeral}" where "E1000_RUC \<equiv> 0x40a4"
abbreviation (input) E1000_RFC :: "'a::{zero,numeral}" where "E1000_RFC \<equiv> 0x40a8"
abbreviation (input) E1000_ROC :: "'a::{zero,numeral}" where "E1000_ROC \<equiv> 0x40ac"
abbreviation (input) E1000_RJC :: "'a::{zero,numeral}" where "E1000_RJC \<equiv> 0x40b0"
abbreviation (input) E1000_MGTPRC :: "'a::{zero,numeral}" where "E1000_MGTPRC \<equiv> 0x40b4"
abbreviation (input) E1000_MGTPDC :: "'a::{zero,numeral}" where "E1000_MGTPDC \<equiv> 0x40b8"
abbreviation (input) E1000_MGTPTC :: "'a::{zero,numeral}" where "E1000_MGTPTC \<equiv> 0x40bc"
abbreviation (input) E1000_TORL :: "'a::{zero,numeral}" where "E1000_TORL \<equiv> 0x40c0"
abbreviation (input) E1000_TORH :: "'a::{zero,numeral}" where "E1000_TORH \<equiv> 0x40c4"
abbreviation (input) E1000_TOTL :: "'a::{zero,numeral}" where "E1000_TOTL \<equiv> 0x40c8"
abbreviation (input) E1000_TOTH :: "'a::{zero,numeral}" where "E1000_TOTH \<equiv> 0x40cc"
abbreviation (input) E1000_TPR :: "'a::{zero,numeral}" where "E1000_TPR \<equiv> 0x40d0"
abbreviation (input) E1000_TPT :: "'a::{zero,numeral}" where "E1000_TPT \<equiv> 0x40d4"
abbreviation (input) E1000_MPTC :: "'a::{zero,numeral}" where "E1000_MPTC \<equiv> 0x40f0"
abbreviation (input) E1000_BPTC :: "'a::{zero,numeral}" where "E1000_BPTC \<equiv> 0x40f4"
abbreviation (input) E1000_TSCTC :: "'a::{zero,numeral}" where "E1000_TSCTC \<equiv> 0x40f8"
abbreviation (input) E1000_TSCTFC :: "'a::{zero,numeral}" where "E1000_TSCTFC \<equiv> 0x40fc"
abbreviation (input) E1000_IAC :: "'a::{zero,numeral}" where "E1000_IAC \<equiv> 0x4100"
abbreviation (input) E1000_ICRXOC :: "'a::{zero,numeral}" where "E1000_ICRXOC \<equiv> 0x4124"
abbreviation (input) E1000_CRC_OFFSET :: "'a::{zero,numeral}" where "E1000_CRC_OFFSET \<equiv> 0x5f50"
abbreviation (input) E1000_PCS_LCTL :: "'a::{zero,numeral}" where "E1000_PCS_LCTL \<equiv> 0x4208"
abbreviation (input) E1000_PCS_LSTAT :: "'a::{zero,numeral}" where "E1000_PCS_LSTAT \<equiv> 0x420c"
abbreviation (input) E1000_PCS_ANADV :: "'a::{zero,numeral}" where "E1000_PCS_ANADV \<equiv> 0x4218"
abbreviation (input) E1000_PCS_LPAB :: "'a::{zero,numeral}" where "E1000_PCS_LPAB \<equiv> 0x421c"
abbreviation (input) E1000_RXCSUM :: "'a::{zero,numeral}" where "E1000_RXCSUM \<equiv> 0x5000"
abbreviation (input) E1000_RFCTL :: "'a::{zero,numeral}" where "E1000_RFCTL \<equiv> 0x5008"
abbreviation (input) E1000_MTA :: "'a::{zero,numeral}" where "E1000_MTA \<equiv> 0x5200"
abbreviation (input) E1000_VFTA :: "'a::{zero,numeral}" where "E1000_VFTA \<equiv> 0x5600"
abbreviation (input) E1000_WUC :: "'a::{zero,numeral}" where "E1000_WUC \<equiv> 0x5800"
abbreviation (input) E1000_WUFC :: "'a::{zero,numeral}" where "E1000_WUFC \<equiv> 0x5808"
abbreviation (input) E1000_MANC :: "'a::{zero,numeral}" where "E1000_MANC \<equiv> 0x5820"
abbreviation (input) E1000_IPAV :: "'a::{zero,numeral}" where "E1000_IPAV \<equiv> 0x5838"
abbreviation (input) E1000_HOST_IF :: "'a::{zero,numeral}" where "E1000_HOST_IF \<equiv> 0x8800"
abbreviation (input) E1000_KMRNCTRLSTA :: "'a::{zero,numeral}" where "E1000_KMRNCTRLSTA \<equiv> 0x34"
abbreviation (input) E1000_MANC2H :: "'a::{zero,numeral}" where "E1000_MANC2H \<equiv> 0x5860"
abbreviation (input) E1000_GCR :: "'a::{zero,numeral}" where "E1000_GCR \<equiv> 0x5b00"
abbreviation (input) E1000_FACTPS :: "'a::{zero,numeral}" where "E1000_FACTPS \<equiv> 0x5b30"
abbreviation (input) E1000_SWSM :: "'a::{zero,numeral}" where "E1000_SWSM \<equiv> 0x5b50"
abbreviation (input) E1000_FWSM :: "'a::{zero,numeral}" where "E1000_FWSM \<equiv> 0x5b54"
abbreviation (input) E1000_FFLT_DBG :: "'a::{zero,numeral}" where "E1000_FFLT_DBG \<equiv> 0x5f04"
abbreviation (input) E1000_HICR :: "'a::{zero,numeral}" where "E1000_HICR \<equiv> 0x8f00"
abbreviation (input) E1000_MRQC :: "'a::{zero,numeral}" where "E1000_MRQC \<equiv> 0x5818"

subsection \<open>hw.h\<close>

abbreviation (input) E1000_DEV_ID_ICH8_82567V_3 :: "'a::{zero,numeral}" where "E1000_DEV_ID_ICH8_82567V_3 \<equiv> 0x1501"
abbreviation (input) E1000_DEV_ID_ICH8_IGP_M_AMT :: "'a::{zero,numeral}" where "E1000_DEV_ID_ICH8_IGP_M_AMT \<equiv> 0x1049"
abbreviation (input) E1000_DEV_ID_ICH8_IGP_AMT :: "'a::{zero,numeral}" where "E1000_DEV_ID_ICH8_IGP_AMT \<equiv> 0x104a"
abbreviation (input) E1000_DEV_ID_ICH8_IGP_C :: "'a::{zero,numeral}" where "E1000_DEV_ID_ICH8_IGP_C \<equiv> 0x104b"
abbreviation (input) E1000_DEV_ID_ICH8_IFE :: "'a::{zero,numeral}" where "E1000_DEV_ID_ICH8_IFE \<equiv> 0x104c"
abbreviation (input) E1000_DEV_ID_ICH8_IFE_GT :: "'a::{zero,numeral}" where "E1000_DEV_ID_ICH8_IFE_GT \<equiv> 0x10c4"
abbreviation (input) E1000_DEV_ID_ICH8_IFE_G :: "'a::{zero,numeral}" where "E1000_DEV_ID_ICH8_IFE_G \<equiv> 0x10c5"
abbreviation (input) E1000_DEV_ID_ICH8_IGP_M :: "'a::{zero,numeral}" where "E1000_DEV_ID_ICH8_IGP_M \<equiv> 0x104d"
abbreviation (input) E1000_DEV_ID_ICH9_IGP_AMT :: "'a::{zero,numeral}" where "E1000_DEV_ID_ICH9_IGP_AMT \<equiv> 0x10bd"
abbreviation (input) E1000_DEV_ID_ICH9_BM :: "'a::{zero,numeral}" where "E1000_DEV_ID_ICH9_BM \<equiv> 0x10e5"
abbreviation (input) E1000_DEV_ID_ICH9_IGP_M_AMT :: "'a::{zero,numeral}" where "E1000_DEV_ID_ICH9_IGP_M_AMT \<equiv> 0x10f5"
abbreviation (input) E1000_DEV_ID_ICH9_IGP_M :: "'a::{zero,numeral}" where "E1000_DEV_ID_ICH9_IGP_M \<equiv> 0x10bf"
abbreviation (input) E1000_DEV_ID_ICH9_IGP_M_V :: "'a::{zero,numeral}" where "E1000_DEV_ID_ICH9_IGP_M_V \<equiv> 0x10cb"
abbreviation (input) E1000_DEV_ID_ICH9_IGP_C :: "'a::{zero,numeral}" where "E1000_DEV_ID_ICH9_IGP_C \<equiv> 0x294c"
abbreviation (input) E1000_DEV_ID_ICH9_IFE :: "'a::{zero,numeral}" where "E1000_DEV_ID_ICH9_IFE \<equiv> 0x10c0"
abbreviation (input) E1000_DEV_ID_ICH9_IFE_GT :: "'a::{zero,numeral}" where "E1000_DEV_ID_ICH9_IFE_GT \<equiv> 0x10c3"
abbreviation (input) E1000_DEV_ID_ICH9_IFE_G :: "'a::{zero,numeral}" where "E1000_DEV_ID_ICH9_IFE_G \<equiv> 0x10c2"
abbreviation (input) E1000_DEV_ID_ICH10_R_BM_LM :: "'a::{zero,numeral}" where "E1000_DEV_ID_ICH10_R_BM_LM \<equiv> 0x10cc"
abbreviation (input) E1000_DEV_ID_ICH10_R_BM_LF :: "'a::{zero,numeral}" where "E1000_DEV_ID_ICH10_R_BM_LF \<equiv> 0x10cd"
abbreviation (input) E1000_DEV_ID_ICH10_R_BM_V :: "'a::{zero,numeral}" where "E1000_DEV_ID_ICH10_R_BM_V \<equiv> 0x10ce"
abbreviation (input) E1000_DEV_ID_ICH10_D_BM_LM :: "'a::{zero,numeral}" where "E1000_DEV_ID_ICH10_D_BM_LM \<equiv> 0x10de"
abbreviation (input) E1000_DEV_ID_ICH10_D_BM_LF :: "'a::{zero,numeral}" where "E1000_DEV_ID_ICH10_D_BM_LF \<equiv> 0x10df"
abbreviation (input) E1000_DEV_ID_ICH10_D_BM_V :: "'a::{zero,numeral}" where "E1000_DEV_ID_ICH10_D_BM_V \<equiv> 0x1525"
abbreviation (input) E1000_DEV_ID_PCH_M_HV_LM :: "'a::{zero,numeral}" where "E1000_DEV_ID_PCH_M_HV_LM \<equiv> 0x10ea"
abbreviation (input) E1000_DEV_ID_PCH_M_HV_LC :: "'a::{zero,numeral}" where "E1000_DEV_ID_PCH_M_HV_LC \<equiv> 0x10eb"
abbreviation (input) E1000_DEV_ID_PCH_D_HV_DM :: "'a::{zero,numeral}" where "E1000_DEV_ID_PCH_D_HV_DM \<equiv> 0x10ef"
abbreviation (input) E1000_DEV_ID_PCH_D_HV_DC :: "'a::{zero,numeral}" where "E1000_DEV_ID_PCH_D_HV_DC \<equiv> 0x10f0"
abbreviation (input) E1000_DEV_ID_PCH2_LV_LM :: "'a::{zero,numeral}" where "E1000_DEV_ID_PCH2_LV_LM \<equiv> 0x1502"
abbreviation (input) E1000_DEV_ID_PCH2_LV_V :: "'a::{zero,numeral}" where "E1000_DEV_ID_PCH2_LV_V \<equiv> 0x1503"
abbreviation (input) E1000_DEV_ID_PCH_LPT_I217_LM :: "'a::{zero,numeral}" where "E1000_DEV_ID_PCH_LPT_I217_LM \<equiv> 0x153a"
abbreviation (input) E1000_DEV_ID_PCH_LPT_I217_V :: "'a::{zero,numeral}" where "E1000_DEV_ID_PCH_LPT_I217_V \<equiv> 0x153b"
abbreviation (input) E1000_DEV_ID_PCH_LPTLP_I218_LM :: "'a::{zero,numeral}" where "E1000_DEV_ID_PCH_LPTLP_I218_LM \<equiv> 0x155a"
abbreviation (input) E1000_DEV_ID_PCH_LPTLP_I218_V :: "'a::{zero,numeral}" where "E1000_DEV_ID_PCH_LPTLP_I218_V \<equiv> 0x1559"
abbreviation (input) E1000_DEV_ID_PCH_I218_LM2 :: "'a::{zero,numeral}" where "E1000_DEV_ID_PCH_I218_LM2 \<equiv> 0x15a0"
abbreviation (input) E1000_DEV_ID_PCH_I218_V2 :: "'a::{zero,numeral}" where "E1000_DEV_ID_PCH_I218_V2 \<equiv> 0x15a1"
abbreviation (input) E1000_DEV_ID_PCH_I218_LM3 :: "'a::{zero,numeral}" where "E1000_DEV_ID_PCH_I218_LM3 \<equiv> 0x15a2"
abbreviation (input) E1000_DEV_ID_PCH_I218_V3 :: "'a::{zero,numeral}" where "E1000_DEV_ID_PCH_I218_V3 \<equiv> 0x15a3"
abbreviation (input) E1000_DEV_ID_PCH_SPT_I219_LM :: "'a::{zero,numeral}" where "E1000_DEV_ID_PCH_SPT_I219_LM \<equiv> 0x156f"
abbreviation (input) E1000_DEV_ID_PCH_SPT_I219_V :: "'a::{zero,numeral}" where "E1000_DEV_ID_PCH_SPT_I219_V \<equiv> 0x1570"
abbreviation (input) E1000_DEV_ID_PCH_SPT_I219_LM2 :: "'a::{zero,numeral}" where "E1000_DEV_ID_PCH_SPT_I219_LM2 \<equiv> 0x15b7"
abbreviation (input) E1000_DEV_ID_PCH_SPT_I219_V2 :: "'a::{zero,numeral}" where "E1000_DEV_ID_PCH_SPT_I219_V2 \<equiv> 0x15b8"
abbreviation (input) E1000_DEV_ID_PCH_LBG_I219_LM3 :: "'a::{zero,numeral}" where "E1000_DEV_ID_PCH_LBG_I219_LM3 \<equiv> 0x15b9"
abbreviation (input) E1000_DEV_ID_PCH_SPT_I219_LM4 :: "'a::{zero,numeral}" where "E1000_DEV_ID_PCH_SPT_I219_LM4 \<equiv> 0x15d7"
abbreviation (input) E1000_DEV_ID_PCH_SPT_I219_V4 :: "'a::{zero,numeral}" where "E1000_DEV_ID_PCH_SPT_I219_V4 \<equiv> 0x15d8"
abbreviation (input) E1000_DEV_ID_PCH_SPT_I219_LM5 :: "'a::{zero,numeral}" where "E1000_DEV_ID_PCH_SPT_I219_LM5 \<equiv> 0x15e3"
abbreviation (input) E1000_DEV_ID_PCH_SPT_I219_V5 :: "'a::{zero,numeral}" where "E1000_DEV_ID_PCH_SPT_I219_V5 \<equiv> 0x15d6"
abbreviation (input) E1000_DEV_ID_PCH_CNP_I219_LM6 :: "'a::{zero,numeral}" where "E1000_DEV_ID_PCH_CNP_I219_LM6 \<equiv> 0x15bd"
abbreviation (input) E1000_DEV_ID_PCH_CNP_I219_V6 :: "'a::{zero,numeral}" where "E1000_DEV_ID_PCH_CNP_I219_V6 \<equiv> 0x15be"
abbreviation (input) E1000_DEV_ID_PCH_CNP_I219_LM7 :: "'a::{zero,numeral}" where "E1000_DEV_ID_PCH_CNP_I219_LM7 \<equiv> 0x15bb"
abbreviation (input) E1000_DEV_ID_PCH_CNP_I219_V7 :: "'a::{zero,numeral}" where "E1000_DEV_ID_PCH_CNP_I219_V7 \<equiv> 0x15bc"
abbreviation (input) E1000_DEV_ID_PCH_ICP_I219_LM8 :: "'a::{zero,numeral}" where "E1000_DEV_ID_PCH_ICP_I219_LM8 \<equiv> 0x15df"
abbreviation (input) E1000_DEV_ID_PCH_ICP_I219_V8 :: "'a::{zero,numeral}" where "E1000_DEV_ID_PCH_ICP_I219_V8 \<equiv> 0x15e0"
abbreviation (input) E1000_DEV_ID_PCH_ICP_I219_LM9 :: "'a::{zero,numeral}" where "E1000_DEV_ID_PCH_ICP_I219_LM9 \<equiv> 0x15e1"
abbreviation (input) E1000_DEV_ID_PCH_ICP_I219_V9 :: "'a::{zero,numeral}" where "E1000_DEV_ID_PCH_ICP_I219_V9 \<equiv> 0x15e2"
abbreviation (input) E1000_DEV_ID_PCH_CMP_I219_LM10 :: "'a::{zero,numeral}" where "E1000_DEV_ID_PCH_CMP_I219_LM10 \<equiv> 0xd4e"
abbreviation (input) E1000_DEV_ID_PCH_CMP_I219_V10 :: "'a::{zero,numeral}" where "E1000_DEV_ID_PCH_CMP_I219_V10 \<equiv> 0xd4f"
abbreviation (input) E1000_DEV_ID_PCH_CMP_I219_LM11 :: "'a::{zero,numeral}" where "E1000_DEV_ID_PCH_CMP_I219_LM11 \<equiv> 0xd4c"
abbreviation (input) E1000_DEV_ID_PCH_CMP_I219_V11 :: "'a::{zero,numeral}" where "E1000_DEV_ID_PCH_CMP_I219_V11 \<equiv> 0xd4d"
abbreviation (input) E1000_DEV_ID_PCH_CMP_I219_LM12 :: "'a::{zero,numeral}" where "E1000_DEV_ID_PCH_CMP_I219_LM12 \<equiv> 0xd53"
abbreviation (input) E1000_DEV_ID_PCH_CMP_I219_V12 :: "'a::{zero,numeral}" where "E1000_DEV_ID_PCH_CMP_I219_V12 \<equiv> 0xd55"
abbreviation (input) E1000_DEV_ID_PCH_TGP_I219_LM13 :: "'a::{zero,numeral}" where "E1000_DEV_ID_PCH_TGP_I219_LM13 \<equiv> 0x15fb"
abbreviation (input) E1000_DEV_ID_PCH_TGP_I219_V13 :: "'a::{zero,numeral}" where "E1000_DEV_ID_PCH_TGP_I219_V13 \<equiv> 0x15fc"
abbreviation (input) E1000_DEV_ID_PCH_TGP_I219_LM14 :: "'a::{zero,numeral}" where "E1000_DEV_ID_PCH_TGP_I219_LM14 \<equiv> 0x15f9"
abbreviation (input) E1000_DEV_ID_PCH_TGP_I219_V14 :: "'a::{zero,numeral}" where "E1000_DEV_ID_PCH_TGP_I219_V14 \<equiv> 0x15fa"
abbreviation (input) E1000_DEV_ID_PCH_TGP_I219_LM15 :: "'a::{zero,numeral}" where "E1000_DEV_ID_PCH_TGP_I219_LM15 \<equiv> 0x15f4"
abbreviation (input) E1000_DEV_ID_PCH_TGP_I219_V15 :: "'a::{zero,numeral}" where "E1000_DEV_ID_PCH_TGP_I219_V15 \<equiv> 0x15f5"
abbreviation (input) E1000_DEV_ID_PCH_RPL_I219_LM23 :: "'a::{zero,numeral}" where "E1000_DEV_ID_PCH_RPL_I219_LM23 \<equiv> 0xdc5"
abbreviation (input) E1000_DEV_ID_PCH_RPL_I219_V23 :: "'a::{zero,numeral}" where "E1000_DEV_ID_PCH_RPL_I219_V23 \<equiv> 0xdc6"
abbreviation (input) E1000_DEV_ID_PCH_ADP_I219_LM16 :: "'a::{zero,numeral}" where "E1000_DEV_ID_PCH_ADP_I219_LM16 \<equiv> 0x1a1e"
abbreviation (input) E1000_DEV_ID_PCH_ADP_I219_V16 :: "'a::{zero,numeral}" where "E1000_DEV_ID_PCH_ADP_I219_V16 \<equiv> 0x1a1f"
abbreviation (input) E1000_DEV_ID_PCH_ADP_I219_LM17 :: "'a::{zero,numeral}" where "E1000_DEV_ID_PCH_ADP_I219_LM17 \<equiv> 0x1a1c"
abbreviation (input) E1000_DEV_ID_PCH_ADP_I219_V17 :: "'a::{zero,numeral}" where "E1000_DEV_ID_PCH_ADP_I219_V17 \<equiv> 0x1a1d"
abbreviation (input) E1000_REVISION_4 :: "'a::{zero,numeral}" where "E1000_REVISION_4 \<equiv> 4"
abbreviation (input) E1000_FUNC_1 :: "'a::{zero,numeral}" where "E1000_FUNC_1 \<equiv> 1"
abbreviation (input) E1000_ALT_MAC_ADDRESS_OFFSET_LAN1 :: "'a::{zero,numeral}" where "E1000_ALT_MAC_ADDRESS_OFFSET_LAN1 \<equiv> 3"
abbreviation (input) E1000_HI_MAX_MNG_DATA_LENGTH :: "'a::{zero,numeral}" where "E1000_HI_MAX_MNG_DATA_LENGTH \<equiv> 0x6f8"
abbreviation (input) E1000_ICH8_SHADOW_RAM_WORDS :: "'a::{zero,numeral}" where "E1000_ICH8_SHADOW_RAM_WORDS \<equiv> 2048"

subsection \<open>ich8lan.h\<close>

abbreviation (input) ICH_FLASH_GFPREG :: "'a::{zero,numeral}" where "ICH_FLASH_GFPREG \<equiv> 0"
abbreviation (input) ICH_FLASH_HSFSTS :: "'a::{zero,numeral}" where "ICH_FLASH_HSFSTS \<equiv> 4"
abbreviation (input) ICH_FLASH_HSFCTL :: "'a::{zero,numeral}" where "ICH_FLASH_HSFCTL \<equiv> 6"
abbreviation (input) ICH_FLASH_FADDR :: "'a::{zero,numeral}" where "ICH_FLASH_FADDR \<equiv> 8"
abbreviation (input) ICH_FLASH_FDATA0 :: "'a::{zero,numeral}" where "ICH_FLASH_FDATA0 \<equiv> 0x10"
abbreviation (input) ICH_FLASH_PR0 :: "'a::{zero,numeral}" where "ICH_FLASH_PR0 \<equiv> 0x74"
abbreviation (input) ICH_FLASH_READ_COMMAND_TIMEOUT :: "'a::{zero,numeral}" where "ICH_FLASH_READ_COMMAND_TIMEOUT \<equiv> 10000000"
abbreviation (input) ICH_FLASH_WRITE_COMMAND_TIMEOUT :: "'a::{zero,numeral}" where "ICH_FLASH_WRITE_COMMAND_TIMEOUT \<equiv> 10000000"
abbreviation (input) ICH_FLASH_ERASE_COMMAND_TIMEOUT :: "'a::{zero,numeral}" where "ICH_FLASH_ERASE_COMMAND_TIMEOUT \<equiv> 10000000"
abbreviation (input) ICH_FLASH_LINEAR_ADDR_MASK :: "'a::{zero,numeral}" where "ICH_FLASH_LINEAR_ADDR_MASK \<equiv> 0xffffff"
abbreviation (input) ICH_FLASH_CYCLE_REPEAT_COUNT :: "'a::{zero,numeral}" where "ICH_FLASH_CYCLE_REPEAT_COUNT \<equiv> 10"
abbreviation (input) ICH_CYCLE_READ :: "'a::{zero,numeral}" where "ICH_CYCLE_READ \<equiv> 0"
abbreviation (input) ICH_CYCLE_WRITE :: "'a::{zero,numeral}" where "ICH_CYCLE_WRITE \<equiv> 2"
abbreviation (input) ICH_CYCLE_ERASE :: "'a::{zero,numeral}" where "ICH_CYCLE_ERASE \<equiv> 3"
abbreviation (input) FLASH_GFPREG_BASE_MASK :: "'a::{zero,numeral}" where "FLASH_GFPREG_BASE_MASK \<equiv> 0x1fff"
abbreviation (input) FLASH_SECTOR_ADDR_SHIFT :: "'a::{zero,numeral}" where "FLASH_SECTOR_ADDR_SHIFT \<equiv> 12"
abbreviation (input) ICH_FLASH_SEG_SIZE_256 :: "'a::{zero,numeral}" where "ICH_FLASH_SEG_SIZE_256 \<equiv> 256"
abbreviation (input) ICH_FLASH_SEG_SIZE_4K :: "'a::{zero,numeral}" where "ICH_FLASH_SEG_SIZE_4K \<equiv> 4096"
abbreviation (input) ICH_FLASH_SEG_SIZE_8K :: "'a::{zero,numeral}" where "ICH_FLASH_SEG_SIZE_8K \<equiv> 8192"
abbreviation (input) ICH_FLASH_SEG_SIZE_64K :: "'a::{zero,numeral}" where "ICH_FLASH_SEG_SIZE_64K \<equiv> 65536"
abbreviation (input) E1000_ICH_FWSM_RSPCIPHY :: "'a::{zero,numeral}" where "E1000_ICH_FWSM_RSPCIPHY \<equiv> 0x40"
abbreviation (input) E1000_ICH_FWSM_FW_VALID :: "'a::{zero,numeral}" where "E1000_ICH_FWSM_FW_VALID \<equiv> 0x8000"
abbreviation (input) E1000_ICH_FWSM_PCIM2PCI :: "'a::{zero,numeral}" where "E1000_ICH_FWSM_PCIM2PCI \<equiv> 0x1000000"
abbreviation (input) E1000_ICH_FWSM_PCIM2PCI_COUNT :: "'a::{zero,numeral}" where "E1000_ICH_FWSM_PCIM2PCI_COUNT \<equiv> 2000"
abbreviation (input) E1000_ICH_MNG_IAMT_MODE :: "'a::{zero,numeral}" where "E1000_ICH_MNG_IAMT_MODE \<equiv> 2"
abbreviation (input) E1000_FWSM_WLOCK_MAC_MASK :: "'a::{zero,numeral}" where "E1000_FWSM_WLOCK_MAC_MASK \<equiv> 0x380"
abbreviation (input) E1000_FWSM_WLOCK_MAC_SHIFT :: "'a::{zero,numeral}" where "E1000_FWSM_WLOCK_MAC_SHIFT \<equiv> 7"
abbreviation (input) E1000_FWSM_ULP_CFG_DONE :: "'a::{zero,numeral}" where "E1000_FWSM_ULP_CFG_DONE \<equiv> 0x400"
abbreviation (input) E1000_H2ME :: "'a::{zero,numeral}" where "E1000_H2ME \<equiv> 0x5b50"
abbreviation (input) E1000_H2ME_ULP :: "'a::{zero,numeral}" where "E1000_H2ME_ULP \<equiv> 0x800"
abbreviation (input) E1000_H2ME_ENFORCE_SETTINGS :: "'a::{zero,numeral}" where "E1000_H2ME_ENFORCE_SETTINGS \<equiv> 0x1000"
abbreviation (input) ID_LED_DEFAULT_ICH8LAN :: "'a::{zero,numeral}" where "ID_LED_DEFAULT_ICH8LAN \<equiv> 0x1981"
abbreviation (input) E1000_ICH_NVM_SIG_WORD :: "'a::{zero,numeral}" where "E1000_ICH_NVM_SIG_WORD \<equiv> 0x13"
abbreviation (input) E1000_ICH_NVM_SIG_MASK :: "'a::{zero,numeral}" where "E1000_ICH_NVM_SIG_MASK \<equiv> 0xc000"
abbreviation (input) E1000_ICH_NVM_VALID_SIG_MASK :: "'a::{zero,numeral}" where "E1000_ICH_NVM_VALID_SIG_MASK \<equiv> 0xc0"
abbreviation (input) E1000_ICH_NVM_SIG_VALUE :: "'a::{zero,numeral}" where "E1000_ICH_NVM_SIG_VALUE \<equiv> 0x80"
abbreviation (input) E1000_ICH8_LAN_INIT_TIMEOUT :: "'a::{zero,numeral}" where "E1000_ICH8_LAN_INIT_TIMEOUT \<equiv> 1500"
abbreviation (input) E1000_FEXT_PHY_CABLE_DISCONNECTED :: "'a::{zero,numeral}" where "E1000_FEXT_PHY_CABLE_DISCONNECTED \<equiv> 4"
abbreviation (input) E1000_FEXTNVM_SW_CONFIG :: "'a::{zero,numeral}" where "E1000_FEXTNVM_SW_CONFIG \<equiv> 1"
abbreviation (input) E1000_FEXTNVM_SW_CONFIG_ICH8M :: "'a::{zero,numeral}" where "E1000_FEXTNVM_SW_CONFIG_ICH8M \<equiv> 0x8000000"
abbreviation (input) E1000_FEXTNVM3_PHY_CFG_COUNTER_MASK :: "'a::{zero,numeral}" where "E1000_FEXTNVM3_PHY_CFG_COUNTER_MASK \<equiv> 0xc000000"
abbreviation (input) E1000_FEXTNVM3_PHY_CFG_COUNTER_50MSEC :: "'a::{zero,numeral}" where "E1000_FEXTNVM3_PHY_CFG_COUNTER_50MSEC \<equiv> 0x8000000"
abbreviation (input) E1000_FEXTNVM4_BEACON_DURATION_MASK :: "'a::{zero,numeral}" where "E1000_FEXTNVM4_BEACON_DURATION_MASK \<equiv> 7"
abbreviation (input) E1000_FEXTNVM4_BEACON_DURATION_8USEC :: "'a::{zero,numeral}" where "E1000_FEXTNVM4_BEACON_DURATION_8USEC \<equiv> 7"
abbreviation (input) E1000_FEXTNVM4_BEACON_DURATION_16USEC :: "'a::{zero,numeral}" where "E1000_FEXTNVM4_BEACON_DURATION_16USEC \<equiv> 3"
abbreviation (input) E1000_FEXTNVM6_REQ_PLL_CLK :: "'a::{zero,numeral}" where "E1000_FEXTNVM6_REQ_PLL_CLK \<equiv> 0x100"
abbreviation (input) E1000_FEXTNVM6_ENABLE_K1_ENTRY_CONDITION :: "'a::{zero,numeral}" where "E1000_FEXTNVM6_ENABLE_K1_ENTRY_CONDITION \<equiv> 0x200"
abbreviation (input) E1000_FEXTNVM6_K1_OFF_ENABLE :: "'a::{zero,numeral}" where "E1000_FEXTNVM6_K1_OFF_ENABLE \<equiv> 0x80000000"
abbreviation (input) E1000_FEXTNVM7_DISABLE_SMB_PERST :: "'a::{zero,numeral}" where "E1000_FEXTNVM7_DISABLE_SMB_PERST \<equiv> 0x20"
abbreviation (input) E1000_FEXTNVM11_DISABLE_MULR_FIX :: "'a::{zero,numeral}" where "E1000_FEXTNVM11_DISABLE_MULR_FIX \<equiv> 0x2000"
abbreviation (input) E1000_RXDCTL_THRESH_UNIT_DESC :: "'a::{zero,numeral}" where "E1000_RXDCTL_THRESH_UNIT_DESC \<equiv> 0x1000000"
abbreviation (input) NVM_SIZE_MULTIPLIER :: "'a::{zero,numeral}" where "NVM_SIZE_MULTIPLIER \<equiv> 4096"
abbreviation (input) E1000_FLASH_BASE_ADDR :: "'a::{zero,numeral}" where "E1000_FLASH_BASE_ADDR \<equiv> 0xe000"
abbreviation (input) E1000_TARC0_CB_MULTIQ_3_REQ :: "'a::{zero,numeral}" where "E1000_TARC0_CB_MULTIQ_3_REQ \<equiv> 0x30000000"
abbreviation (input) E1000_TARC0_CB_MULTIQ_2_REQ :: "'a::{zero,numeral}" where "E1000_TARC0_CB_MULTIQ_2_REQ \<equiv> 0x20000000"
abbreviation (input) PCIE_ICH8_SNOOP_ALL :: "'a::{zero,numeral}" where "PCIE_ICH8_SNOOP_ALL \<equiv> 63"
abbreviation (input) E1000_ICH_RAR_ENTRIES :: "'a::{zero,numeral}" where "E1000_ICH_RAR_ENTRIES \<equiv> 7"
abbreviation (input) E1000_PCH2_RAR_ENTRIES :: "'a::{zero,numeral}" where "E1000_PCH2_RAR_ENTRIES \<equiv> 5"
abbreviation (input) E1000_PCH_LPT_RAR_ENTRIES :: "'a::{zero,numeral}" where "E1000_PCH_LPT_RAR_ENTRIES \<equiv> 12"
abbreviation (input) PHY_PAGE_SHIFT :: "'a::{zero,numeral}" where "PHY_PAGE_SHIFT \<equiv> 5"
abbreviation (input) IGP3_KMRN_DIAG :: "'a::{zero,numeral}" where "IGP3_KMRN_DIAG \<equiv> 24659"
abbreviation (input) IGP3_VR_CTRL :: "'a::{zero,numeral}" where "IGP3_VR_CTRL \<equiv> 24850"
abbreviation (input) IGP3_KMRN_DIAG_PCS_LOCK_LOSS :: "'a::{zero,numeral}" where "IGP3_KMRN_DIAG_PCS_LOCK_LOSS \<equiv> 2"
abbreviation (input) IGP3_VR_CTRL_DEV_POWERDOWN_MODE_MASK :: "'a::{zero,numeral}" where "IGP3_VR_CTRL_DEV_POWERDOWN_MODE_MASK \<equiv> 0x300"
abbreviation (input) IGP3_VR_CTRL_MODE_SHUTDOWN :: "'a::{zero,numeral}" where "IGP3_VR_CTRL_MODE_SHUTDOWN \<equiv> 0x200"
abbreviation (input) BM_PORT_GEN_CFG :: "'a::{zero,numeral}" where "BM_PORT_GEN_CFG \<equiv> 24625"
abbreviation (input) BM_RCTL :: "'a::{zero,numeral}" where "BM_RCTL \<equiv> 25600"
abbreviation (input) BM_WUC :: "'a::{zero,numeral}" where "BM_WUC \<equiv> 25601"
abbreviation (input) BM_WUFC :: "'a::{zero,numeral}" where "BM_WUFC \<equiv> 25602"
abbreviation (input) BM_IPAV :: "'a::{zero,numeral}" where "BM_IPAV \<equiv> 25600"
abbreviation (input) BM_RCTL_UPE :: "'a::{zero,numeral}" where "BM_RCTL_UPE \<equiv> 1"
abbreviation (input) BM_RCTL_MPE :: "'a::{zero,numeral}" where "BM_RCTL_MPE \<equiv> 2"
abbreviation (input) BM_RCTL_SAE :: "'a::{zero,numeral}" where "BM_RCTL_SAE \<equiv> 4"
abbreviation (input) BM_RCTL_MO_SHIFT :: "'a::{zero,numeral}" where "BM_RCTL_MO_SHIFT \<equiv> 3"
abbreviation (input) BM_RCTL_MO_MASK :: "'a::{zero,numeral}" where "BM_RCTL_MO_MASK \<equiv> 0x18"
abbreviation (input) BM_RCTL_BAM :: "'a::{zero,numeral}" where "BM_RCTL_BAM \<equiv> 0x20"
abbreviation (input) BM_RCTL_PMCF :: "'a::{zero,numeral}" where "BM_RCTL_PMCF \<equiv> 0x40"
abbreviation (input) BM_RCTL_RFCE :: "'a::{zero,numeral}" where "BM_RCTL_RFCE \<equiv> 0x80"
abbreviation (input) HV_LED_CONFIG :: "'a::{zero,numeral}" where "HV_LED_CONFIG \<equiv> 24606"
abbreviation (input) HV_MUX_DATA_CTRL :: "'a::{zero,numeral}" where "HV_MUX_DATA_CTRL \<equiv> 24848"
abbreviation (input) HV_MUX_DATA_CTRL_GEN_TO_MAC :: "'a::{zero,numeral}" where "HV_MUX_DATA_CTRL_GEN_TO_MAC \<equiv> 0x400"
abbreviation (input) HV_MUX_DATA_CTRL_FORCE_SPEED :: "'a::{zero,numeral}" where "HV_MUX_DATA_CTRL_FORCE_SPEED \<equiv> 4"
abbreviation (input) HV_STATS_PAGE :: "'a::{zero,numeral}" where "HV_STATS_PAGE \<equiv> 778"
abbreviation (input) HV_SCC_UPPER :: "'a::{zero,numeral}" where "HV_SCC_UPPER \<equiv> 24912"
abbreviation (input) HV_SCC_LOWER :: "'a::{zero,numeral}" where "HV_SCC_LOWER \<equiv> 24913"
abbreviation (input) HV_ECOL_UPPER :: "'a::{zero,numeral}" where "HV_ECOL_UPPER \<equiv> 24914"
abbreviation (input) HV_ECOL_LOWER :: "'a::{zero,numeral}" where "HV_ECOL_LOWER \<equiv> 24915"
abbreviation (input) HV_MCC_UPPER :: "'a::{zero,numeral}" where "HV_MCC_UPPER \<equiv> 24916"
abbreviation (input) HV_MCC_LOWER :: "'a::{zero,numeral}" where "HV_MCC_LOWER \<equiv> 24917"
abbreviation (input) HV_LATECOL_UPPER :: "'a::{zero,numeral}" where "HV_LATECOL_UPPER \<equiv> 24919"
abbreviation (input) HV_LATECOL_LOWER :: "'a::{zero,numeral}" where "HV_LATECOL_LOWER \<equiv> 24920"
abbreviation (input) HV_COLC_UPPER :: "'a::{zero,numeral}" where "HV_COLC_UPPER \<equiv> 24921"
abbreviation (input) HV_COLC_LOWER :: "'a::{zero,numeral}" where "HV_COLC_LOWER \<equiv> 24922"
abbreviation (input) HV_DC_UPPER :: "'a::{zero,numeral}" where "HV_DC_UPPER \<equiv> 24923"
abbreviation (input) HV_DC_LOWER :: "'a::{zero,numeral}" where "HV_DC_LOWER \<equiv> 24924"
abbreviation (input) HV_TNCRS_UPPER :: "'a::{zero,numeral}" where "HV_TNCRS_UPPER \<equiv> 24925"
abbreviation (input) HV_TNCRS_LOWER :: "'a::{zero,numeral}" where "HV_TNCRS_LOWER \<equiv> 24926"
abbreviation (input) E1000_FCRTV_PCH :: "'a::{zero,numeral}" where "E1000_FCRTV_PCH \<equiv> 0x5f40"
abbreviation (input) E1000_NVM_K1_CONFIG :: "'a::{zero,numeral}" where "E1000_NVM_K1_CONFIG \<equiv> 0x1b"
abbreviation (input) E1000_NVM_K1_ENABLE :: "'a::{zero,numeral}" where "E1000_NVM_K1_ENABLE \<equiv> 1"
abbreviation (input) CV_SMB_CTRL :: "'a::{zero,numeral}" where "CV_SMB_CTRL \<equiv> 24631"
abbreviation (input) CV_SMB_CTRL_FORCE_SMBUS :: "'a::{zero,numeral}" where "CV_SMB_CTRL_FORCE_SMBUS \<equiv> 1"
abbreviation (input) I218_ULP_CONFIG1 :: "'a::{zero,numeral}" where "I218_ULP_CONFIG1 \<equiv> 24944"
abbreviation (input) I218_ULP_CONFIG1_START :: "'a::{zero,numeral}" where "I218_ULP_CONFIG1_START \<equiv> 1"
abbreviation (input) I218_ULP_CONFIG1_IND :: "'a::{zero,numeral}" where "I218_ULP_CONFIG1_IND \<equiv> 4"
abbreviation (input) I218_ULP_CONFIG1_STICKY_ULP :: "'a::{zero,numeral}" where "I218_ULP_CONFIG1_STICKY_ULP \<equiv> 0x10"
abbreviation (input) I218_ULP_CONFIG1_INBAND_EXIT :: "'a::{zero,numeral}" where "I218_ULP_CONFIG1_INBAND_EXIT \<equiv> 0x20"
abbreviation (input) I218_ULP_CONFIG1_WOL_HOST :: "'a::{zero,numeral}" where "I218_ULP_CONFIG1_WOL_HOST \<equiv> 0x40"
abbreviation (input) I218_ULP_CONFIG1_RESET_TO_SMBUS :: "'a::{zero,numeral}" where "I218_ULP_CONFIG1_RESET_TO_SMBUS \<equiv> 0x100"
abbreviation (input) I218_ULP_CONFIG1_EN_ULP_LANPHYPC :: "'a::{zero,numeral}" where "I218_ULP_CONFIG1_EN_ULP_LANPHYPC \<equiv> 0x400"
abbreviation (input) I218_ULP_CONFIG1_DIS_CLR_STICKY_ON_PERST :: "'a::{zero,numeral}" where "I218_ULP_CONFIG1_DIS_CLR_STICKY_ON_PERST \<equiv> 0x800"
abbreviation (input) I218_ULP_CONFIG1_DISABLE_SMB_PERST :: "'a::{zero,numeral}" where "I218_ULP_CONFIG1_DISABLE_SMB_PERST \<equiv> 0x1000"
abbreviation (input) HV_SMB_ADDR :: "'a::{zero,numeral}" where "HV_SMB_ADDR \<equiv> 24602"
abbreviation (input) HV_SMB_ADDR_MASK :: "'a::{zero,numeral}" where "HV_SMB_ADDR_MASK \<equiv> 0x7f"
abbreviation (input) HV_SMB_ADDR_PEC_EN :: "'a::{zero,numeral}" where "HV_SMB_ADDR_PEC_EN \<equiv> 0x200"
abbreviation (input) HV_SMB_ADDR_VALID :: "'a::{zero,numeral}" where "HV_SMB_ADDR_VALID \<equiv> 0x80"
abbreviation (input) HV_SMB_ADDR_FREQ_MASK :: "'a::{zero,numeral}" where "HV_SMB_ADDR_FREQ_MASK \<equiv> 0x1100"
abbreviation (input) HV_SMB_ADDR_FREQ_LOW_SHIFT :: "'a::{zero,numeral}" where "HV_SMB_ADDR_FREQ_LOW_SHIFT \<equiv> 8"
abbreviation (input) HV_SMB_ADDR_FREQ_HIGH_SHIFT :: "'a::{zero,numeral}" where "HV_SMB_ADDR_FREQ_HIGH_SHIFT \<equiv> 12"
abbreviation (input) E1000_STRAP :: "'a::{zero,numeral}" where "E1000_STRAP \<equiv> 0xc"
abbreviation (input) E1000_STRAP_SMBUS_ADDRESS_MASK :: "'a::{zero,numeral}" where "E1000_STRAP_SMBUS_ADDRESS_MASK \<equiv> 0xfe0000"
abbreviation (input) E1000_STRAP_SMBUS_ADDRESS_SHIFT :: "'a::{zero,numeral}" where "E1000_STRAP_SMBUS_ADDRESS_SHIFT \<equiv> 17"
abbreviation (input) E1000_STRAP_SMT_FREQ_MASK :: "'a::{zero,numeral}" where "E1000_STRAP_SMT_FREQ_MASK \<equiv> 0x3000"
abbreviation (input) E1000_STRAP_SMT_FREQ_SHIFT :: "'a::{zero,numeral}" where "E1000_STRAP_SMT_FREQ_SHIFT \<equiv> 12"
abbreviation (input) HV_OEM_BITS :: "'a::{zero,numeral}" where "HV_OEM_BITS \<equiv> 24601"
abbreviation (input) HV_OEM_BITS_LPLU :: "'a::{zero,numeral}" where "HV_OEM_BITS_LPLU \<equiv> 4"
abbreviation (input) HV_OEM_BITS_GBE_DIS :: "'a::{zero,numeral}" where "HV_OEM_BITS_GBE_DIS \<equiv> 0x40"
abbreviation (input) HV_OEM_BITS_RESTART_AN :: "'a::{zero,numeral}" where "HV_OEM_BITS_RESTART_AN \<equiv> 0x400"
abbreviation (input) HV_KMRN_MODE_CTRL :: "'a::{zero,numeral}" where "HV_KMRN_MODE_CTRL \<equiv> 24624"
abbreviation (input) HV_KMRN_MDIO_SLOW :: "'a::{zero,numeral}" where "HV_KMRN_MDIO_SLOW \<equiv> 0x400"
abbreviation (input) HV_KMRN_FIFO_CTRLSTA :: "'a::{zero,numeral}" where "HV_KMRN_FIFO_CTRLSTA \<equiv> 24656"
abbreviation (input) HV_KMRN_FIFO_CTRLSTA_PREAMBLE_MASK :: "'a::{zero,numeral}" where "HV_KMRN_FIFO_CTRLSTA_PREAMBLE_MASK \<equiv> 0x7000"
abbreviation (input) HV_KMRN_FIFO_CTRLSTA_PREAMBLE_SHIFT :: "'a::{zero,numeral}" where "HV_KMRN_FIFO_CTRLSTA_PREAMBLE_SHIFT \<equiv> 12"
abbreviation (input) HV_PM_CTRL :: "'a::{zero,numeral}" where "HV_PM_CTRL \<equiv> 24657"
abbreviation (input) HV_PM_CTRL_K1_ENABLE :: "'a::{zero,numeral}" where "HV_PM_CTRL_K1_ENABLE \<equiv> 0x4000"
abbreviation (input) I217_PLL_CLOCK_GATE_REG :: "'a::{zero,numeral}" where "I217_PLL_CLOCK_GATE_REG \<equiv> 24732"
abbreviation (input) I217_PLL_CLOCK_GATE_MASK :: "'a::{zero,numeral}" where "I217_PLL_CLOCK_GATE_MASK \<equiv> 0x7ff"
abbreviation (input) SW_FLAG_TIMEOUT :: "'a::{zero,numeral}" where "SW_FLAG_TIMEOUT \<equiv> 1000"
abbreviation (input) I217_INBAND_CTRL :: "'a::{zero,numeral}" where "I217_INBAND_CTRL \<equiv> 24658"
abbreviation (input) I217_INBAND_CTRL_LINK_STAT_TX_TIMEOUT_MASK :: "'a::{zero,numeral}" where "I217_INBAND_CTRL_LINK_STAT_TX_TIMEOUT_MASK \<equiv> 0x3f00"
abbreviation (input) I217_INBAND_CTRL_LINK_STAT_TX_TIMEOUT_SHIFT :: "'a::{zero,numeral}" where "I217_INBAND_CTRL_LINK_STAT_TX_TIMEOUT_SHIFT \<equiv> 8"
abbreviation (input) I217_LPI_GPIO_CTRL :: "'a::{zero,numeral}" where "I217_LPI_GPIO_CTRL \<equiv> 24722"
abbreviation (input) I217_LPI_GPIO_CTRL_AUTO_EN_LPI :: "'a::{zero,numeral}" where "I217_LPI_GPIO_CTRL_AUTO_EN_LPI \<equiv> 0x800"
abbreviation (input) I82579_LPI_CTRL :: "'a::{zero,numeral}" where "I82579_LPI_CTRL \<equiv> 24724"
abbreviation (input) I82579_LPI_CTRL_100_ENABLE :: "'a::{zero,numeral}" where "I82579_LPI_CTRL_100_ENABLE \<equiv> 0x2000"
abbreviation (input) I82579_LPI_CTRL_1000_ENABLE :: "'a::{zero,numeral}" where "I82579_LPI_CTRL_1000_ENABLE \<equiv> 0x4000"
abbreviation (input) I82579_LPI_CTRL_ENABLE_MASK :: "'a::{zero,numeral}" where "I82579_LPI_CTRL_ENABLE_MASK \<equiv> 0x6000"
abbreviation (input) I82579_EMI_ADDR :: "'a::{zero,numeral}" where "I82579_EMI_ADDR \<equiv> 0x10"
abbreviation (input) I82579_EMI_DATA :: "'a::{zero,numeral}" where "I82579_EMI_DATA \<equiv> 0x11"
abbreviation (input) I82579_LPI_UPDATE_TIMER :: "'a::{zero,numeral}" where "I82579_LPI_UPDATE_TIMER \<equiv> 0x4805"
abbreviation (input) I82579_MSE_THRESHOLD :: "'a::{zero,numeral}" where "I82579_MSE_THRESHOLD \<equiv> 0x84f"
abbreviation (input) I82577_MSE_THRESHOLD :: "'a::{zero,numeral}" where "I82577_MSE_THRESHOLD \<equiv> 0x887"
abbreviation (input) I82579_MSE_LINK_DOWN :: "'a::{zero,numeral}" where "I82579_MSE_LINK_DOWN \<equiv> 0x2411"
abbreviation (input) I82579_RX_CONFIG :: "'a::{zero,numeral}" where "I82579_RX_CONFIG \<equiv> 0x3412"
abbreviation (input) I82579_LPI_PLL_SHUT :: "'a::{zero,numeral}" where "I82579_LPI_PLL_SHUT \<equiv> 0x4412"
abbreviation (input) I82579_EEE_PCS_STATUS :: "'a::{zero,numeral}" where "I82579_EEE_PCS_STATUS \<equiv> 0x182e"
abbreviation (input) I82579_EEE_ADVERTISEMENT :: "'a::{zero,numeral}" where "I82579_EEE_ADVERTISEMENT \<equiv> 0x40e"
abbreviation (input) I82579_EEE_LP_ABILITY :: "'a::{zero,numeral}" where "I82579_EEE_LP_ABILITY \<equiv> 0x40f"
abbreviation (input) I82579_EEE_100_SUPPORTED :: "'a::{zero,numeral}" where "I82579_EEE_100_SUPPORTED \<equiv> 2"
abbreviation (input) I82579_EEE_1000_SUPPORTED :: "'a::{zero,numeral}" where "I82579_EEE_1000_SUPPORTED \<equiv> 4"
abbreviation (input) I82579_LPI_100_PLL_SHUT :: "'a::{zero,numeral}" where "I82579_LPI_100_PLL_SHUT \<equiv> 4"
abbreviation (input) I217_EEE_PCS_STATUS :: "'a::{zero,numeral}" where "I217_EEE_PCS_STATUS \<equiv> 0x9401"
abbreviation (input) I217_EEE_ADVERTISEMENT :: "'a::{zero,numeral}" where "I217_EEE_ADVERTISEMENT \<equiv> 0x8001"
abbreviation (input) I217_EEE_LP_ABILITY :: "'a::{zero,numeral}" where "I217_EEE_LP_ABILITY \<equiv> 0x8002"
abbreviation (input) I217_RX_CONFIG :: "'a::{zero,numeral}" where "I217_RX_CONFIG \<equiv> 0xb20c"
abbreviation (input) I217_PROXY_CTRL :: "'a::{zero,numeral}" where "I217_PROXY_CTRL \<equiv> 4219910"
abbreviation (input) I217_PROXY_CTRL_AUTO_DISABLE :: "'a::{zero,numeral}" where "I217_PROXY_CTRL_AUTO_DISABLE \<equiv> 0x80"
abbreviation (input) I217_SxCTRL :: "'a::{zero,numeral}" where "I217_SxCTRL \<equiv> 24636"
abbreviation (input) I217_SxCTRL_ENABLE_LPI_RESET :: "'a::{zero,numeral}" where "I217_SxCTRL_ENABLE_LPI_RESET \<equiv> 0x1000"
abbreviation (input) I217_CGFREG :: "'a::{zero,numeral}" where "I217_CGFREG \<equiv> 24733"
abbreviation (input) I217_CGFREG_ENABLE_MTA_RESET :: "'a::{zero,numeral}" where "I217_CGFREG_ENABLE_MTA_RESET \<equiv> 2"
abbreviation (input) I217_MEMPWR :: "'a::{zero,numeral}" where "I217_MEMPWR \<equiv> 24730"
abbreviation (input) I217_MEMPWR_DISABLE_SMB_RELEASE :: "'a::{zero,numeral}" where "I217_MEMPWR_DISABLE_SMB_RELEASE \<equiv> 0x10"
abbreviation (input) E1000_LTRV :: "'a::{zero,numeral}" where "E1000_LTRV \<equiv> 0xf8"
abbreviation (input) E1000_LTRV_SCALE_MAX :: "'a::{zero,numeral}" where "E1000_LTRV_SCALE_MAX \<equiv> 5"
abbreviation (input) E1000_LTRV_REQ_SHIFT :: "'a::{zero,numeral}" where "E1000_LTRV_REQ_SHIFT \<equiv> 15"
abbreviation (input) E1000_LTRV_NOSNOOP_SHIFT :: "'a::{zero,numeral}" where "E1000_LTRV_NOSNOOP_SHIFT \<equiv> 16"
abbreviation (input) E1000_LTRV_SEND :: "'a::{zero,numeral}" where "E1000_LTRV_SEND \<equiv> 0x40000000"

subsection \<open>phy.h\<close>

abbreviation (input) E1000_MAX_PHY_ADDR :: "'a::{zero,numeral}" where "E1000_MAX_PHY_ADDR \<equiv> 8"
abbreviation (input) IGP01E1000_PHY_PORT_CONFIG :: "'a::{zero,numeral}" where "IGP01E1000_PHY_PORT_CONFIG \<equiv> 0x10"
abbreviation (input) IGP01E1000_PHY_PORT_STATUS :: "'a::{zero,numeral}" where "IGP01E1000_PHY_PORT_STATUS \<equiv> 0x11"
abbreviation (input) IGP01E1000_PHY_PORT_CTRL :: "'a::{zero,numeral}" where "IGP01E1000_PHY_PORT_CTRL \<equiv> 0x12"
abbreviation (input) IGP01E1000_PHY_LINK_HEALTH :: "'a::{zero,numeral}" where "IGP01E1000_PHY_LINK_HEALTH \<equiv> 0x13"
abbreviation (input) IGP02E1000_PHY_POWER_MGMT :: "'a::{zero,numeral}" where "IGP02E1000_PHY_POWER_MGMT \<equiv> 0x19"
abbreviation (input) IGP01E1000_PHY_PAGE_SELECT :: "'a::{zero,numeral}" where "IGP01E1000_PHY_PAGE_SELECT \<equiv> 0x1f"
abbreviation (input) BM_PHY_PAGE_SELECT :: "'a::{zero,numeral}" where "BM_PHY_PAGE_SELECT \<equiv> 22"
abbreviation (input) IGP_PAGE_SHIFT :: "'a::{zero,numeral}" where "IGP_PAGE_SHIFT \<equiv> 5"
abbreviation (input) PHY_REG_MASK :: "'a::{zero,numeral}" where "PHY_REG_MASK \<equiv> 0x1f"
abbreviation (input) BM_PORT_CTRL_PAGE :: "'a::{zero,numeral}" where "BM_PORT_CTRL_PAGE \<equiv> 769"
abbreviation (input) BM_WUC_PAGE :: "'a::{zero,numeral}" where "BM_WUC_PAGE \<equiv> 800"
abbreviation (input) BM_WUC_ADDRESS_OPCODE :: "'a::{zero,numeral}" where "BM_WUC_ADDRESS_OPCODE \<equiv> 0x11"
abbreviation (input) BM_WUC_DATA_OPCODE :: "'a::{zero,numeral}" where "BM_WUC_DATA_OPCODE \<equiv> 0x12"
abbreviation (input) BM_WUC_ENABLE_REG :: "'a::{zero,numeral}" where "BM_WUC_ENABLE_REG \<equiv> 17"
abbreviation (input) BM_WUC_ENABLE_BIT :: "'a::{zero,numeral}" where "BM_WUC_ENABLE_BIT \<equiv> 4"
abbreviation (input) BM_WUC_HOST_WU_BIT :: "'a::{zero,numeral}" where "BM_WUC_HOST_WU_BIT \<equiv> 0x10"
abbreviation (input) BM_WUC_ME_WU_BIT :: "'a::{zero,numeral}" where "BM_WUC_ME_WU_BIT \<equiv> 0x20"
abbreviation (input) PHY_UPPER_SHIFT :: "'a::{zero,numeral}" where "PHY_UPPER_SHIFT \<equiv> 21"
abbreviation (input) HV_INTC_FC_PAGE_START :: "'a::{zero,numeral}" where "HV_INTC_FC_PAGE_START \<equiv> 768"
abbreviation (input) I82578_ADDR_REG :: "'a::{zero,numeral}" where "I82578_ADDR_REG \<equiv> 29"
abbreviation (input) I82577_ADDR_REG :: "'a::{zero,numeral}" where "I82577_ADDR_REG \<equiv> 16"
abbreviation (input) I82577_CFG_REG :: "'a::{zero,numeral}" where "I82577_CFG_REG \<equiv> 22"
abbreviation (input) I82577_CFG_ASSERT_CRS_ON_TX :: "'a::{zero,numeral}" where "I82577_CFG_ASSERT_CRS_ON_TX \<equiv> 0x8000"
abbreviation (input) I82577_CFG_ENABLE_DOWNSHIFT :: "'a::{zero,numeral}" where "I82577_CFG_ENABLE_DOWNSHIFT \<equiv> 0xc00"
abbreviation (input) I82577_PHY_CTRL_2 :: "'a::{zero,numeral}" where "I82577_PHY_CTRL_2 \<equiv> 18"
abbreviation (input) I82577_PHY_STATUS_2 :: "'a::{zero,numeral}" where "I82577_PHY_STATUS_2 \<equiv> 26"
abbreviation (input) I82577_PHY_DIAG_STATUS :: "'a::{zero,numeral}" where "I82577_PHY_DIAG_STATUS \<equiv> 31"
abbreviation (input) I82577_PHY_STATUS2_REV_POLARITY :: "'a::{zero,numeral}" where "I82577_PHY_STATUS2_REV_POLARITY \<equiv> 0x400"
abbreviation (input) I82577_PHY_STATUS2_MDIX :: "'a::{zero,numeral}" where "I82577_PHY_STATUS2_MDIX \<equiv> 0x800"
abbreviation (input) I82577_PHY_STATUS2_SPEED_MASK :: "'a::{zero,numeral}" where "I82577_PHY_STATUS2_SPEED_MASK \<equiv> 0x300"
abbreviation (input) I82577_PHY_STATUS2_SPEED_1000MBPS :: "'a::{zero,numeral}" where "I82577_PHY_STATUS2_SPEED_1000MBPS \<equiv> 0x200"
abbreviation (input) I82577_PHY_CTRL2_MANUAL_MDIX :: "'a::{zero,numeral}" where "I82577_PHY_CTRL2_MANUAL_MDIX \<equiv> 0x200"
abbreviation (input) I82577_PHY_CTRL2_AUTO_MDI_MDIX :: "'a::{zero,numeral}" where "I82577_PHY_CTRL2_AUTO_MDI_MDIX \<equiv> 0x400"
abbreviation (input) I82577_PHY_CTRL2_MDIX_CFG_MASK :: "'a::{zero,numeral}" where "I82577_PHY_CTRL2_MDIX_CFG_MASK \<equiv> 0x600"
abbreviation (input) I82577_DSTATUS_CABLE_LENGTH :: "'a::{zero,numeral}" where "I82577_DSTATUS_CABLE_LENGTH \<equiv> 0x3fc"
abbreviation (input) I82577_DSTATUS_CABLE_LENGTH_SHIFT :: "'a::{zero,numeral}" where "I82577_DSTATUS_CABLE_LENGTH_SHIFT \<equiv> 2"
abbreviation (input) BM_CS_STATUS :: "'a::{zero,numeral}" where "BM_CS_STATUS \<equiv> 17"
abbreviation (input) BM_CS_STATUS_LINK_UP :: "'a::{zero,numeral}" where "BM_CS_STATUS_LINK_UP \<equiv> 0x400"
abbreviation (input) BM_CS_STATUS_RESOLVED :: "'a::{zero,numeral}" where "BM_CS_STATUS_RESOLVED \<equiv> 0x800"
abbreviation (input) BM_CS_STATUS_SPEED_MASK :: "'a::{zero,numeral}" where "BM_CS_STATUS_SPEED_MASK \<equiv> 0xc000"
abbreviation (input) BM_CS_STATUS_SPEED_1000 :: "'a::{zero,numeral}" where "BM_CS_STATUS_SPEED_1000 \<equiv> 0x8000"
abbreviation (input) HV_M_STATUS :: "'a::{zero,numeral}" where "HV_M_STATUS \<equiv> 26"
abbreviation (input) HV_M_STATUS_AUTONEG_COMPLETE :: "'a::{zero,numeral}" where "HV_M_STATUS_AUTONEG_COMPLETE \<equiv> 0x1000"
abbreviation (input) HV_M_STATUS_SPEED_MASK :: "'a::{zero,numeral}" where "HV_M_STATUS_SPEED_MASK \<equiv> 0x300"
abbreviation (input) HV_M_STATUS_SPEED_1000 :: "'a::{zero,numeral}" where "HV_M_STATUS_SPEED_1000 \<equiv> 0x200"
abbreviation (input) HV_M_STATUS_SPEED_100 :: "'a::{zero,numeral}" where "HV_M_STATUS_SPEED_100 \<equiv> 0x100"
abbreviation (input) HV_M_STATUS_LINK_UP :: "'a::{zero,numeral}" where "HV_M_STATUS_LINK_UP \<equiv> 0x40"
abbreviation (input) IGP01E1000_PHY_PCS_INIT_REG :: "'a::{zero,numeral}" where "IGP01E1000_PHY_PCS_INIT_REG \<equiv> 0xb4"
abbreviation (input) IGP01E1000_PHY_POLARITY_MASK :: "'a::{zero,numeral}" where "IGP01E1000_PHY_POLARITY_MASK \<equiv> 0x78"
abbreviation (input) IGP01E1000_PSCR_AUTO_MDIX :: "'a::{zero,numeral}" where "IGP01E1000_PSCR_AUTO_MDIX \<equiv> 0x1000"
abbreviation (input) IGP01E1000_PSCR_FORCE_MDI_MDIX :: "'a::{zero,numeral}" where "IGP01E1000_PSCR_FORCE_MDI_MDIX \<equiv> 0x2000"
abbreviation (input) IGP01E1000_PSCFR_SMART_SPEED :: "'a::{zero,numeral}" where "IGP01E1000_PSCFR_SMART_SPEED \<equiv> 0x80"
abbreviation (input) IGP02E1000_PM_SPD :: "'a::{zero,numeral}" where "IGP02E1000_PM_SPD \<equiv> 1"
abbreviation (input) IGP02E1000_PM_D3_LPLU :: "'a::{zero,numeral}" where "IGP02E1000_PM_D3_LPLU \<equiv> 4"
abbreviation (input) IGP01E1000_PLHR_SS_DOWNGRADE :: "'a::{zero,numeral}" where "IGP01E1000_PLHR_SS_DOWNGRADE \<equiv> 0x8000"
abbreviation (input) IGP01E1000_PSSR_POLARITY_REVERSED :: "'a::{zero,numeral}" where "IGP01E1000_PSSR_POLARITY_REVERSED \<equiv> 2"
abbreviation (input) IGP01E1000_PSSR_MDIX :: "'a::{zero,numeral}" where "IGP01E1000_PSSR_MDIX \<equiv> 0x800"
abbreviation (input) IGP01E1000_PSSR_SPEED_MASK :: "'a::{zero,numeral}" where "IGP01E1000_PSSR_SPEED_MASK \<equiv> 0xc000"
abbreviation (input) IGP01E1000_PSSR_SPEED_1000MBPS :: "'a::{zero,numeral}" where "IGP01E1000_PSSR_SPEED_1000MBPS \<equiv> 0xc000"
abbreviation (input) IGP02E1000_PHY_CHANNEL_NUM :: "'a::{zero,numeral}" where "IGP02E1000_PHY_CHANNEL_NUM \<equiv> 4"
abbreviation (input) IGP02E1000_PHY_AGC_A :: "'a::{zero,numeral}" where "IGP02E1000_PHY_AGC_A \<equiv> 0x11b1"
abbreviation (input) IGP02E1000_PHY_AGC_B :: "'a::{zero,numeral}" where "IGP02E1000_PHY_AGC_B \<equiv> 0x12b1"
abbreviation (input) IGP02E1000_PHY_AGC_C :: "'a::{zero,numeral}" where "IGP02E1000_PHY_AGC_C \<equiv> 0x14b1"
abbreviation (input) IGP02E1000_PHY_AGC_D :: "'a::{zero,numeral}" where "IGP02E1000_PHY_AGC_D \<equiv> 0x18b1"
abbreviation (input) IGP02E1000_AGC_LENGTH_SHIFT :: "'a::{zero,numeral}" where "IGP02E1000_AGC_LENGTH_SHIFT \<equiv> 9"
abbreviation (input) IGP02E1000_AGC_LENGTH_MASK :: "'a::{zero,numeral}" where "IGP02E1000_AGC_LENGTH_MASK \<equiv> 0x7f"
abbreviation (input) IGP02E1000_AGC_RANGE :: "'a::{zero,numeral}" where "IGP02E1000_AGC_RANGE \<equiv> 15"
abbreviation (input) E1000_CABLE_LENGTH_UNDEFINED :: "'a::{zero,numeral}" where "E1000_CABLE_LENGTH_UNDEFINED \<equiv> 0xff"
abbreviation (input) E1000_KMRNCTRLSTA_OFFSET :: "'a::{zero,numeral}" where "E1000_KMRNCTRLSTA_OFFSET \<equiv> 0x1f0000"
abbreviation (input) E1000_KMRNCTRLSTA_OFFSET_SHIFT :: "'a::{zero,numeral}" where "E1000_KMRNCTRLSTA_OFFSET_SHIFT \<equiv> 16"
abbreviation (input) E1000_KMRNCTRLSTA_REN :: "'a::{zero,numeral}" where "E1000_KMRNCTRLSTA_REN \<equiv> 0x200000"
abbreviation (input) E1000_KMRNCTRLSTA_CTRL_OFFSET :: "'a::{zero,numeral}" where "E1000_KMRNCTRLSTA_CTRL_OFFSET \<equiv> 1"
abbreviation (input) E1000_KMRNCTRLSTA_DIAG_OFFSET :: "'a::{zero,numeral}" where "E1000_KMRNCTRLSTA_DIAG_OFFSET \<equiv> 3"
abbreviation (input) E1000_KMRNCTRLSTA_TIMEOUTS :: "'a::{zero,numeral}" where "E1000_KMRNCTRLSTA_TIMEOUTS \<equiv> 4"
abbreviation (input) E1000_KMRNCTRLSTA_INBAND_PARAM :: "'a::{zero,numeral}" where "E1000_KMRNCTRLSTA_INBAND_PARAM \<equiv> 9"
abbreviation (input) E1000_KMRNCTRLSTA_DIAG_NELPBK :: "'a::{zero,numeral}" where "E1000_KMRNCTRLSTA_DIAG_NELPBK \<equiv> 0x1000"
abbreviation (input) E1000_KMRNCTRLSTA_K1_CONFIG :: "'a::{zero,numeral}" where "E1000_KMRNCTRLSTA_K1_CONFIG \<equiv> 7"
abbreviation (input) E1000_KMRNCTRLSTA_K1_ENABLE :: "'a::{zero,numeral}" where "E1000_KMRNCTRLSTA_K1_ENABLE \<equiv> 2"
abbreviation (input) E1000_KMRNCTRLSTA_HD_CTRL :: "'a::{zero,numeral}" where "E1000_KMRNCTRLSTA_HD_CTRL \<equiv> 0x10"
abbreviation (input) IFE_PHY_EXTENDED_STATUS_CONTROL :: "'a::{zero,numeral}" where "IFE_PHY_EXTENDED_STATUS_CONTROL \<equiv> 0x10"
abbreviation (input) IFE_PHY_SPECIAL_CONTROL :: "'a::{zero,numeral}" where "IFE_PHY_SPECIAL_CONTROL \<equiv> 0x11"
abbreviation (input) IFE_PHY_SPECIAL_CONTROL_LED :: "'a::{zero,numeral}" where "IFE_PHY_SPECIAL_CONTROL_LED \<equiv> 0x1b"
abbreviation (input) IFE_PHY_MDIX_CONTROL :: "'a::{zero,numeral}" where "IFE_PHY_MDIX_CONTROL \<equiv> 0x1c"
abbreviation (input) IFE_PESC_POLARITY_REVERSED :: "'a::{zero,numeral}" where "IFE_PESC_POLARITY_REVERSED \<equiv> 0x100"
abbreviation (input) IFE_PSC_AUTO_POLARITY_DISABLE :: "'a::{zero,numeral}" where "IFE_PSC_AUTO_POLARITY_DISABLE \<equiv> 0x10"
abbreviation (input) IFE_PSC_FORCE_POLARITY :: "'a::{zero,numeral}" where "IFE_PSC_FORCE_POLARITY \<equiv> 0x20"
abbreviation (input) IFE_PSCL_PROBE_MODE :: "'a::{zero,numeral}" where "IFE_PSCL_PROBE_MODE \<equiv> 0x20"
abbreviation (input) IFE_PSCL_PROBE_LEDS_OFF :: "'a::{zero,numeral}" where "IFE_PSCL_PROBE_LEDS_OFF \<equiv> 6"
abbreviation (input) IFE_PSCL_PROBE_LEDS_ON :: "'a::{zero,numeral}" where "IFE_PSCL_PROBE_LEDS_ON \<equiv> 7"
abbreviation (input) IFE_PMC_MDIX_STATUS :: "'a::{zero,numeral}" where "IFE_PMC_MDIX_STATUS \<equiv> 0x20"
abbreviation (input) IFE_PMC_FORCE_MDIX :: "'a::{zero,numeral}" where "IFE_PMC_FORCE_MDIX \<equiv> 0x40"
abbreviation (input) IFE_PMC_AUTO_MDIX :: "'a::{zero,numeral}" where "IFE_PMC_AUTO_MDIX \<equiv> 0x80"

subsection \<open>manage.h\<close>

abbreviation (input) E1000_FACTPS_MNGCG :: "'a::{zero,numeral}" where "E1000_FACTPS_MNGCG \<equiv> 0x20000000"
abbreviation (input) E1000_FWSM_MODE_MASK :: "'a::{zero,numeral}" where "E1000_FWSM_MODE_MASK \<equiv> 0xe"
abbreviation (input) E1000_FWSM_MODE_SHIFT :: "'a::{zero,numeral}" where "E1000_FWSM_MODE_SHIFT \<equiv> 1"
abbreviation (input) E1000_MNG_IAMT_MODE :: "'a::{zero,numeral}" where "E1000_MNG_IAMT_MODE \<equiv> 3"
abbreviation (input) E1000_MNG_DHCP_COOKIE_LENGTH :: "'a::{zero,numeral}" where "E1000_MNG_DHCP_COOKIE_LENGTH \<equiv> 0x10"
abbreviation (input) E1000_MNG_DHCP_COOKIE_OFFSET :: "'a::{zero,numeral}" where "E1000_MNG_DHCP_COOKIE_OFFSET \<equiv> 0x6f0"
abbreviation (input) E1000_MNG_DHCP_COMMAND_TIMEOUT :: "'a::{zero,numeral}" where "E1000_MNG_DHCP_COMMAND_TIMEOUT \<equiv> 10"
abbreviation (input) E1000_MNG_DHCP_TX_PAYLOAD_CMD :: "'a::{zero,numeral}" where "E1000_MNG_DHCP_TX_PAYLOAD_CMD \<equiv> 64"
abbreviation (input) E1000_MNG_DHCP_COOKIE_STATUS_PARSING :: "'a::{zero,numeral}" where "E1000_MNG_DHCP_COOKIE_STATUS_PARSING \<equiv> 1"
abbreviation (input) E1000_HICR_EN :: "'a::{zero,numeral}" where "E1000_HICR_EN \<equiv> 1"
abbreviation (input) E1000_HICR_C :: "'a::{zero,numeral}" where "E1000_HICR_C \<equiv> 2"
abbreviation (input) E1000_IAMT_SIGNATURE :: "'a::{zero,numeral}" where "E1000_IAMT_SIGNATURE \<equiv> 0x544d4149"

subsection \<open>e1000.h\<close>

abbreviation (input) E1000_FC_PAUSE_TIME :: "'a::{zero,numeral}" where "E1000_FC_PAUSE_TIME \<equiv> 0x680"
abbreviation (input) E1000_RX_BUFFER_WRITE :: "'a::{zero,numeral}" where "E1000_RX_BUFFER_WRITE \<equiv> 16"
abbreviation (input) AUTO_ALL_MODES :: "'a::{zero,numeral}" where "AUTO_ALL_MODES \<equiv> 0"
abbreviation (input) E1000_EEPROM_APME :: "'a::{zero,numeral}" where "E1000_EEPROM_APME \<equiv> 0x400"
abbreviation (input) DEFAULT_JUMBO :: "'a::{zero,numeral}" where "DEFAULT_JUMBO \<equiv> 9234"
abbreviation (input) PCICFG_DESC_RING_STATUS :: "'a::{zero,numeral}" where "PCICFG_DESC_RING_STATUS \<equiv> 0xe4"
abbreviation (input) FLUSH_DESC_REQUIRED :: "'a::{zero,numeral}" where "FLUSH_DESC_REQUIRED \<equiv> 0x100"
abbreviation (input) E1000_TIDV_FPD :: "'a::{zero,numeral}" where "E1000_TIDV_FPD \<equiv> 0x80000000"
abbreviation (input) FLAG_HAS_AMT :: "'a::{zero,numeral}" where "FLAG_HAS_AMT \<equiv> 1"
abbreviation (input) FLAG_HAS_FLASH :: "'a::{zero,numeral}" where "FLAG_HAS_FLASH \<equiv> 2"
abbreviation (input) FLAG_HAS_WOL :: "'a::{zero,numeral}" where "FLAG_HAS_WOL \<equiv> 8"
abbreviation (input) FLAG_HAS_CTRLEXT_ON_LOAD :: "'a::{zero,numeral}" where "FLAG_HAS_CTRLEXT_ON_LOAD \<equiv> 0x20"
abbreviation (input) FLAG_HAS_SWSM_ON_LOAD :: "'a::{zero,numeral}" where "FLAG_HAS_SWSM_ON_LOAD \<equiv> 0x40"
abbreviation (input) FLAG_HAS_JUMBO_FRAMES :: "'a::{zero,numeral}" where "FLAG_HAS_JUMBO_FRAMES \<equiv> 0x80"
abbreviation (input) FLAG_READ_ONLY_NVM :: "'a::{zero,numeral}" where "FLAG_READ_ONLY_NVM \<equiv> 0x100"
abbreviation (input) FLAG_IS_ICH :: "'a::{zero,numeral}" where "FLAG_IS_ICH \<equiv> 0x200"
abbreviation (input) FLAG_HAS_SMART_POWER_DOWN :: "'a::{zero,numeral}" where "FLAG_HAS_SMART_POWER_DOWN \<equiv> 0x800"
abbreviation (input) FLAG_HAS_HW_TIMESTAMP :: "'a::{zero,numeral}" where "FLAG_HAS_HW_TIMESTAMP \<equiv> 0x4000"
abbreviation (input) FLAG_APME_IN_WUC :: "'a::{zero,numeral}" where "FLAG_APME_IN_WUC \<equiv> 0x8000"
abbreviation (input) FLAG_APME_IN_CTRL3 :: "'a::{zero,numeral}" where "FLAG_APME_IN_CTRL3 \<equiv> 0x10000"
abbreviation (input) FLAG_APME_CHECK_PORT_B :: "'a::{zero,numeral}" where "FLAG_APME_CHECK_PORT_B \<equiv> 0x20000"
abbreviation (input) FLAG_DISABLE_FC_PAUSE_TIME :: "'a::{zero,numeral}" where "FLAG_DISABLE_FC_PAUSE_TIME \<equiv> 0x40000"
abbreviation (input) FLAG_MNG_PT_ENABLED :: "'a::{zero,numeral}" where "FLAG_MNG_PT_ENABLED \<equiv> 0x100000"
abbreviation (input) FLAG_TARC_SET_BIT_ZERO :: "'a::{zero,numeral}" where "FLAG_TARC_SET_BIT_ZERO \<equiv> 0x800000"
abbreviation (input) FLAG_LSC_GIG_SPEED_DROP :: "'a::{zero,numeral}" where "FLAG_LSC_GIG_SPEED_DROP \<equiv> 0x2000000"
abbreviation (input) FLAG_SMART_POWER_DOWN :: "'a::{zero,numeral}" where "FLAG_SMART_POWER_DOWN \<equiv> 0x4000000"
abbreviation (input) FLAG2_CRC_STRIPPING :: "'a::{zero,numeral}" where "FLAG2_CRC_STRIPPING \<equiv> 1"
abbreviation (input) FLAG2_HAS_PHY_WAKEUP :: "'a::{zero,numeral}" where "FLAG2_HAS_PHY_WAKEUP \<equiv> 2"
abbreviation (input) FLAG2_HAS_PHY_STATS :: "'a::{zero,numeral}" where "FLAG2_HAS_PHY_STATS \<equiv> 0x10"
abbreviation (input) FLAG2_HAS_EEE :: "'a::{zero,numeral}" where "FLAG2_HAS_EEE \<equiv> 0x20"
abbreviation (input) FLAG2_PCIM2PCI_ARBITER_WA :: "'a::{zero,numeral}" where "FLAG2_PCIM2PCI_ARBITER_WA \<equiv> 0x800"
abbreviation (input) FLAG2_DFLT_CRC_STRIPPING :: "'a::{zero,numeral}" where "FLAG2_DFLT_CRC_STRIPPING \<equiv> 0x1000"
abbreviation (input) FLAG2_CHECK_SYSTIM_OVERFLOW :: "'a::{zero,numeral}" where "FLAG2_CHECK_SYSTIM_OVERFLOW \<equiv> 0x4000"

subsection \<open>uapi-mii.h\<close>

abbreviation (input) MII_BMCR :: "'a::{zero,numeral}" where "MII_BMCR \<equiv> 0"
abbreviation (input) MII_BMSR :: "'a::{zero,numeral}" where "MII_BMSR \<equiv> 1"
abbreviation (input) MII_PHYSID1 :: "'a::{zero,numeral}" where "MII_PHYSID1 \<equiv> 2"
abbreviation (input) MII_PHYSID2 :: "'a::{zero,numeral}" where "MII_PHYSID2 \<equiv> 3"
abbreviation (input) MII_ADVERTISE :: "'a::{zero,numeral}" where "MII_ADVERTISE \<equiv> 4"
abbreviation (input) MII_LPA :: "'a::{zero,numeral}" where "MII_LPA \<equiv> 5"
abbreviation (input) MII_EXPANSION :: "'a::{zero,numeral}" where "MII_EXPANSION \<equiv> 6"
abbreviation (input) MII_CTRL1000 :: "'a::{zero,numeral}" where "MII_CTRL1000 \<equiv> 9"
abbreviation (input) MII_STAT1000 :: "'a::{zero,numeral}" where "MII_STAT1000 \<equiv> 0xa"
abbreviation (input) MII_ESTATUS :: "'a::{zero,numeral}" where "MII_ESTATUS \<equiv> 0xf"
abbreviation (input) BMCR_SPEED1000 :: "'a::{zero,numeral}" where "BMCR_SPEED1000 \<equiv> 0x40"
abbreviation (input) BMCR_FULLDPLX :: "'a::{zero,numeral}" where "BMCR_FULLDPLX \<equiv> 0x100"
abbreviation (input) BMCR_ANRESTART :: "'a::{zero,numeral}" where "BMCR_ANRESTART \<equiv> 0x200"
abbreviation (input) BMCR_PDOWN :: "'a::{zero,numeral}" where "BMCR_PDOWN \<equiv> 0x800"
abbreviation (input) BMCR_ANENABLE :: "'a::{zero,numeral}" where "BMCR_ANENABLE \<equiv> 0x1000"
abbreviation (input) BMCR_SPEED100 :: "'a::{zero,numeral}" where "BMCR_SPEED100 \<equiv> 0x2000"
abbreviation (input) BMCR_LOOPBACK :: "'a::{zero,numeral}" where "BMCR_LOOPBACK \<equiv> 0x4000"
abbreviation (input) BMCR_RESET :: "'a::{zero,numeral}" where "BMCR_RESET \<equiv> 0x8000"
abbreviation (input) BMSR_ERCAP :: "'a::{zero,numeral}" where "BMSR_ERCAP \<equiv> 1"
abbreviation (input) BMSR_LSTATUS :: "'a::{zero,numeral}" where "BMSR_LSTATUS \<equiv> 4"
abbreviation (input) BMSR_ANEGCAPABLE :: "'a::{zero,numeral}" where "BMSR_ANEGCAPABLE \<equiv> 8"
abbreviation (input) BMSR_ANEGCOMPLETE :: "'a::{zero,numeral}" where "BMSR_ANEGCOMPLETE \<equiv> 0x20"
abbreviation (input) BMSR_ESTATEN :: "'a::{zero,numeral}" where "BMSR_ESTATEN \<equiv> 0x100"
abbreviation (input) BMSR_10HALF :: "'a::{zero,numeral}" where "BMSR_10HALF \<equiv> 0x800"
abbreviation (input) BMSR_10FULL :: "'a::{zero,numeral}" where "BMSR_10FULL \<equiv> 0x1000"
abbreviation (input) BMSR_100HALF :: "'a::{zero,numeral}" where "BMSR_100HALF \<equiv> 0x2000"
abbreviation (input) BMSR_100FULL :: "'a::{zero,numeral}" where "BMSR_100FULL \<equiv> 0x4000"
abbreviation (input) ADVERTISE_CSMA :: "'a::{zero,numeral}" where "ADVERTISE_CSMA \<equiv> 1"
abbreviation (input) ADVERTISE_10HALF :: "'a::{zero,numeral}" where "ADVERTISE_10HALF \<equiv> 0x20"
abbreviation (input) ADVERTISE_10FULL :: "'a::{zero,numeral}" where "ADVERTISE_10FULL \<equiv> 0x40"
abbreviation (input) ADVERTISE_100HALF :: "'a::{zero,numeral}" where "ADVERTISE_100HALF \<equiv> 0x80"
abbreviation (input) ADVERTISE_100FULL :: "'a::{zero,numeral}" where "ADVERTISE_100FULL \<equiv> 0x100"
abbreviation (input) ADVERTISE_PAUSE_CAP :: "'a::{zero,numeral}" where "ADVERTISE_PAUSE_CAP \<equiv> 0x400"
abbreviation (input) ADVERTISE_PAUSE_ASYM :: "'a::{zero,numeral}" where "ADVERTISE_PAUSE_ASYM \<equiv> 0x800"
abbreviation (input) ADVERTISE_ALL :: "'a::{zero,numeral}" where "ADVERTISE_ALL \<equiv> 480"
abbreviation (input) LPA_100FULL :: "'a::{zero,numeral}" where "LPA_100FULL \<equiv> 0x100"
abbreviation (input) LPA_PAUSE_CAP :: "'a::{zero,numeral}" where "LPA_PAUSE_CAP \<equiv> 0x400"
abbreviation (input) LPA_PAUSE_ASYM :: "'a::{zero,numeral}" where "LPA_PAUSE_ASYM \<equiv> 0x800"
abbreviation (input) EXPANSION_ENABLENPAGE :: "'a::{zero,numeral}" where "EXPANSION_ENABLENPAGE \<equiv> 4"
abbreviation (input) ESTATUS_1000_TFULL :: "'a::{zero,numeral}" where "ESTATUS_1000_TFULL \<equiv> 0x2000"
abbreviation (input) ESTATUS_1000_THALF :: "'a::{zero,numeral}" where "ESTATUS_1000_THALF \<equiv> 0x1000"
abbreviation (input) ADVERTISE_1000FULL :: "'a::{zero,numeral}" where "ADVERTISE_1000FULL \<equiv> 0x200"
abbreviation (input) ADVERTISE_1000HALF :: "'a::{zero,numeral}" where "ADVERTISE_1000HALF \<equiv> 0x100"
abbreviation (input) CTL1000_AS_MASTER :: "'a::{zero,numeral}" where "CTL1000_AS_MASTER \<equiv> 0x800"
abbreviation (input) CTL1000_ENABLE_MASTER :: "'a::{zero,numeral}" where "CTL1000_ENABLE_MASTER \<equiv> 0x1000"
abbreviation (input) LPA_1000LOCALRXOK :: "'a::{zero,numeral}" where "LPA_1000LOCALRXOK \<equiv> 0x2000"
abbreviation (input) LPA_1000REMRXOK :: "'a::{zero,numeral}" where "LPA_1000REMRXOK \<equiv> 0x1000"

subsection \<open>uapi-mdio.h\<close>

abbreviation (input) MDIO_EEE_100TX :: "'a::{zero,numeral}" where "MDIO_EEE_100TX \<equiv> 2"
abbreviation (input) MDIO_EEE_1000T :: "'a::{zero,numeral}" where "MDIO_EEE_1000T \<equiv> 4"

subsection \<open>if_ether.h\<close>

abbreviation (input) ETH_HLEN :: "'a::{zero,numeral}" where "ETH_HLEN \<equiv> 14"
abbreviation (input) ETH_DATA_LEN :: "'a::{zero,numeral}" where "ETH_DATA_LEN \<equiv> 1500"
abbreviation (input) ETH_FRAME_LEN :: "'a::{zero,numeral}" where "ETH_FRAME_LEN \<equiv> 1514"
abbreviation (input) ETH_FCS_LEN :: "'a::{zero,numeral}" where "ETH_FCS_LEN \<equiv> 4"
abbreviation (input) ETH_P_8021Q :: "'a::{zero,numeral}" where "ETH_P_8021Q \<equiv> 0x8100"

subsection \<open>ethtool.h\<close>

abbreviation (input) ADVERTISED_10baseT_Half :: "'a::{zero,numeral}" where "ADVERTISED_10baseT_Half \<equiv> 1"
abbreviation (input) ADVERTISED_10baseT_Full :: "'a::{zero,numeral}" where "ADVERTISED_10baseT_Full \<equiv> 2"
abbreviation (input) ADVERTISED_100baseT_Half :: "'a::{zero,numeral}" where "ADVERTISED_100baseT_Half \<equiv> 4"
abbreviation (input) ADVERTISED_100baseT_Full :: "'a::{zero,numeral}" where "ADVERTISED_100baseT_Full \<equiv> 8"
abbreviation (input) ADVERTISED_1000baseT_Full :: "'a::{zero,numeral}" where "ADVERTISED_1000baseT_Full \<equiv> 0x20"
abbreviation (input) ADVERTISED_Autoneg :: "'a::{zero,numeral}" where "ADVERTISED_Autoneg \<equiv> 0x40"
abbreviation (input) ADVERTISED_TP :: "'a::{zero,numeral}" where "ADVERTISED_TP \<equiv> 0x80"
abbreviation (input) ADVERTISED_MII :: "'a::{zero,numeral}" where "ADVERTISED_MII \<equiv> 0x200"
abbreviation (input) ADVERTISED_FIBRE :: "'a::{zero,numeral}" where "ADVERTISED_FIBRE \<equiv> 0x400"
abbreviation (input) SPEED_10 :: "'a::{zero,numeral}" where "SPEED_10 \<equiv> 10"
abbreviation (input) SPEED_100 :: "'a::{zero,numeral}" where "SPEED_100 \<equiv> 100"
abbreviation (input) SPEED_1000 :: "'a::{zero,numeral}" where "SPEED_1000 \<equiv> 1000"
abbreviation (input) DUPLEX_FULL :: "'a::{zero,numeral}" where "DUPLEX_FULL \<equiv> 1"

subsection \<open>netdev.c\<close>

abbreviation (input) E1000_TX_FLAGS_VLAN_SHIFT :: "'a::{zero,numeral}" where "E1000_TX_FLAGS_VLAN_SHIFT \<equiv> 16"

subsection \<open>IntelMausiEthernet.h\<close>

abbreviation (input) kMaxSegs :: "'a::{zero,numeral}" where "kMaxSegs \<equiv> 32"
abbreviation (input) kNumTxDesc :: "'a::{zero,numeral}" where "kNumTxDesc \<equiv> 512"
abbreviation (input) kNumRxDesc :: "'a::{zero,numeral}" where "kNumRxDesc \<equiv> 512"
abbreviation (input) kRxLastDesc :: "'a::{zero,numeral}" where "kRxLastDesc \<equiv> 511"
abbreviation (input) kTxDescMask :: "'a::{zero,numeral}" where "kTxDescMask \<equiv> 511"
abbreviation (input) kRxDescMask :: "'a::{zero,numeral}" where "kRxDescMask \<equiv> 511"
abbreviation (input) kNumTxMemDesc :: "'a::{zero,numeral}" where "kNumTxMemDesc \<equiv> 256"
abbreviation (input) kTxMemDescMask :: "'a::{zero,numeral}" where "kTxMemDescMask \<equiv> 255"
abbreviation (input) kRxMemBaseShift :: "'a::{zero,numeral}" where "kRxMemBaseShift \<equiv> 4"
abbreviation (input) kNumRxMemDesc :: "'a::{zero,numeral}" where "kNumRxMemDesc \<equiv> 32"
abbreviation (input) kRxMemBatchSize :: "'a::{zero,numeral}" where "kRxMemBatchSize \<equiv> 16"
abbreviation (input) kRxMemDescMask :: "'a::{zero,numeral}" where "kRxMemDescMask \<equiv> 15"
abbreviation (input) kRxPoolClstCap :: "'a::{zero,numeral}" where "kRxPoolClstCap \<equiv> 100"
abbreviation (input) kRxPoolMbufCap :: "'a::{zero,numeral}" where "kRxPoolMbufCap \<equiv> 50"
abbreviation (input) kTimeoutMS :: "'a::{zero,numeral}" where "kTimeoutMS \<equiv> 1000"
abbreviation (input) kTxQueueWakeTreshhold :: "'a::{zero,numeral}" where "kTxQueueWakeTreshhold \<equiv> 64"
abbreviation (input) kTxDeadlockTreshhold :: "'a::{zero,numeral}" where "kTxDeadlockTreshhold \<equiv> 2"
abbreviation (input) kMinL4HdrOffsetV4 :: "'a::{zero,numeral}" where "kMinL4HdrOffsetV4 \<equiv> 34"
abbreviation (input) kMinL4HdrOffsetV6 :: "'a::{zero,numeral}" where "kMinL4HdrOffsetV6 \<equiv> 54"
abbreviation (input) E1000_RXD_STAT_IPPCS :: "'a::{zero,numeral}" where "E1000_RXD_STAT_IPPCS \<equiv> 0x40"
abbreviation (input) E1000_RXDEXT_STATERR_TCPE :: "'a::{zero,numeral}" where "E1000_RXDEXT_STATERR_TCPE \<equiv> 0x20000000"
abbreviation (input) E1000_RXDEXT_STATERR_IPE :: "'a::{zero,numeral}" where "E1000_RXDEXT_STATERR_IPE \<equiv> 0x40000000"
abbreviation (input) E1000_TXD_OPTS_IXSM :: "'a::{zero,numeral}" where "E1000_TXD_OPTS_IXSM \<equiv> 0x100"
abbreviation (input) E1000_TXD_OPTS_TXSM :: "'a::{zero,numeral}" where "E1000_TXD_OPTS_TXSM \<equiv> 0x200"
abbreviation (input) kMaxAddrV4 :: "'a::{zero,numeral}" where "kMaxAddrV4 \<equiv> 3"
abbreviation (input) kMaxAddrV6 :: "'a::{zero,numeral}" where "kMaxAddrV6 \<equiv> 4"
abbreviation (input) kLLAPrefix :: "'a::{zero,numeral}" where "kLLAPrefix \<equiv> 0xfe800000"
abbreviation (input) kLLAMask :: "'a::{zero,numeral}" where "kLLAMask \<equiv> 0xffc00000"
abbreviation (input) kULAPrefix :: "'a::{zero,numeral}" where "kULAPrefix \<equiv> 0xfc000000"
abbreviation (input) kULAMask :: "'a::{zero,numeral}" where "kULAMask \<equiv> 0xfe000000"

subsection \<open>uapi-pci_regs.h\<close>

abbreviation (input) PCI_LTR_VALUE_MASK :: "'a::{zero,numeral}" where "PCI_LTR_VALUE_MASK \<equiv> 0x3ff"
abbreviation (input) PCI_LTR_SCALE_SHIFT :: "'a::{zero,numeral}" where "PCI_LTR_SCALE_SHIFT \<equiv> 10"

subsection \<open>linux.h\<close>

abbreviation (input) DISABLED_CODE :: "'a::{zero,numeral}" where "DISABLED_CODE \<equiv> 0"
abbreviation (input) VLAN_ETH_FRAME_LEN :: "'a::{zero,numeral}" where "VLAN_ETH_FRAME_LEN \<equiv> 1518"

end
