(* ===== verification/Hw.thy ===== *)
theory Hw
  imports Prelude Regs
begin

section \<open>The driver's hardware structure and its register accesses\<close>

text \<open>
  \<open>struct e1000_hw\<close> of \<open>hw.h\<close> with the structures it holds, and the register accesses of
  \<open>linux.h\<close>, \<open>e1000.h\<close> and \<open>netdev.c\<close> (\<open>er32\<close>, \<open>ew32\<close>, the flash accesses, the delays,
  the atomic bit operations).

  The adapter chip is not code of the repository. It is a field of the state, \<open>hw_dev\<close>: the
  value a read returns, as a function of everything the driver has done so far (newest event
  first) and of the register read. No law is assumed of it, so a theorem without a hypothesis
  on \<open>hw_dev\<close> holds for every chip, faulty ones included. The operating system's atomic bit
  operations are a field too, \<open>hw_os\<close>.

  The structures of function pointers (\<open>e1000_nvm_operations\<close>, \<open>e1000_phy_operations\<close>) cannot
  be fields of the state they transform; they are arguments of the functions that call
  through them (theories \<open>Nvm\<close> and \<open>PhyAccess\<close>).
\<close>

subsection \<open>Enumerations of hw.h\<close>

datatype e1000_mac_type =
    e1000_82571 | e1000_82572 | e1000_82573 | e1000_82574 | e1000_82583
  | e1000_ich8lan | e1000_ich9lan | e1000_ich10lan
  | e1000_pchlan | e1000_pch2lan | e1000_pch_lpt | e1000_pch_spt | e1000_pch_cnp
  | e1000_pch_tgp | e1000_pch_adp

text \<open>The code compares MAC types with \<open><\<close> and \<open>>=\<close>: the order of the enumeration.\<close>

primrec mac_rank :: "e1000_mac_type \<Rightarrow> nat" where
  "mac_rank e1000_82571 = 0"
| "mac_rank e1000_82572 = 1"
| "mac_rank e1000_82573 = 2"
| "mac_rank e1000_82574 = 3"
| "mac_rank e1000_82583 = 4"
| "mac_rank e1000_ich8lan = 5"
| "mac_rank e1000_ich9lan = 6"
| "mac_rank e1000_ich10lan = 7"
| "mac_rank e1000_pchlan = 8"
| "mac_rank e1000_pch2lan = 9"
| "mac_rank e1000_pch_lpt = 10"
| "mac_rank e1000_pch_spt = 11"
| "mac_rank e1000_pch_cnp = 12"
| "mac_rank e1000_pch_tgp = 13"
| "mac_rank e1000_pch_adp = 14"

lemma mac_rank_inject: "mac_rank x = mac_rank y \<Longrightarrow> x = y"
  by (cases x; cases y) simp_all

instantiation e1000_mac_type :: linorder
begin

definition less_eq_e1000_mac_type :: "e1000_mac_type \<Rightarrow> e1000_mac_type \<Rightarrow> bool" where
  "less_eq_e1000_mac_type x y = (mac_rank x \<le> mac_rank y)"

definition less_e1000_mac_type :: "e1000_mac_type \<Rightarrow> e1000_mac_type \<Rightarrow> bool" where
  "less_e1000_mac_type x y = (mac_rank x < mac_rank y)"

instance
  by standard
    (auto simp: less_eq_e1000_mac_type_def less_e1000_mac_type_def intro: mac_rank_inject)

end

lemmas mac_order = less_eq_e1000_mac_type_def less_e1000_mac_type_def

datatype e1000_media_type =
    e1000_media_type_unknown | e1000_media_type_copper | e1000_media_type_fiber
  | e1000_media_type_internal_serdes

datatype e1000_nvm_type =
    e1000_nvm_unknown | e1000_nvm_none | e1000_nvm_eeprom_spi | e1000_nvm_flash_hw
  | e1000_nvm_flash_sw

datatype e1000_phy_type =
    e1000_phy_unknown | e1000_phy_none | e1000_phy_m88 | e1000_phy_igp | e1000_phy_igp_2
  | e1000_phy_gg82563 | e1000_phy_igp_3 | e1000_phy_ife | e1000_phy_bm | e1000_phy_82578
  | e1000_phy_82577 | e1000_phy_82579 | e1000_phy_i217

datatype e1000_fc_mode =
    e1000_fc_none | e1000_fc_rx_pause | e1000_fc_tx_pause | e1000_fc_full | e1000_fc_default

datatype e1000_bus_width =
    e1000_bus_width_unknown | e1000_bus_width_pcie_x1 | e1000_bus_width_pcie_x2
  | e1000_bus_width_pcie_x4 | e1000_bus_width_pcie_x8 | e1000_bus_width_32 | e1000_bus_width_64 | e1000_bus_width_reserved

datatype e1000_1000t_rx_status =
    e1000_1000t_rx_status_not_ok | e1000_1000t_rx_status_ok | e1000_1000t_rx_status_undefined

datatype e1000_rev_polarity =
    e1000_rev_polarity_normal | e1000_rev_polarity_reversed | e1000_rev_polarity_undefined

datatype e1000_ms_type =
    e1000_ms_hw_default | e1000_ms_force_master | e1000_ms_force_slave | e1000_ms_auto

datatype e1000_smart_speed =
    e1000_smart_speed_default | e1000_smart_speed_on | e1000_smart_speed_off

datatype e1000_serdes_link_state =
    e1000_serdes_link_down | e1000_serdes_link_autoneg_progress
  | e1000_serdes_link_autoneg_complete | e1000_serdes_link_forced_up

datatype e1000_ulp_state =
    e1000_ulp_state_unknown | e1000_ulp_state_off | e1000_ulp_state_on

text \<open>The PHY types are compared with \<open>>\<close> too, in the order of their enumeration.\<close>

primrec phy_rank :: "e1000_phy_type \<Rightarrow> nat" where
  "phy_rank e1000_phy_unknown = 0"
| "phy_rank e1000_phy_none = 1"
| "phy_rank e1000_phy_m88 = 2"
| "phy_rank e1000_phy_igp = 3"
| "phy_rank e1000_phy_igp_2 = 4"
| "phy_rank e1000_phy_gg82563 = 5"
| "phy_rank e1000_phy_igp_3 = 6"
| "phy_rank e1000_phy_ife = 7"
| "phy_rank e1000_phy_bm = 8"
| "phy_rank e1000_phy_82578 = 9"
| "phy_rank e1000_phy_82577 = 10"
| "phy_rank e1000_phy_82579 = 11"
| "phy_rank e1000_phy_i217 = 12"

lemma phy_rank_inject: "phy_rank x = phy_rank y \<Longrightarrow> x = y"
  by (cases x; cases y) simp_all

instantiation e1000_phy_type :: linorder
begin

definition less_eq_e1000_phy_type :: "e1000_phy_type \<Rightarrow> e1000_phy_type \<Rightarrow> bool" where
  "less_eq_e1000_phy_type x y = (phy_rank x \<le> phy_rank y)"

definition less_e1000_phy_type :: "e1000_phy_type \<Rightarrow> e1000_phy_type \<Rightarrow> bool" where
  "less_e1000_phy_type x y = (phy_rank x < phy_rank y)"

instance
  by standard
    (auto simp: less_eq_e1000_phy_type_def less_e1000_phy_type_def intro: phy_rank_inject)

end

text \<open>The enumeration's numbers, for the code that tests a bit of one.\<close>

primrec fc_code :: "e1000_fc_mode \<Rightarrow> u32" where
  "fc_code e1000_fc_none = 0"
| "fc_code e1000_fc_rx_pause = 1"
| "fc_code e1000_fc_tx_pause = 2"
| "fc_code e1000_fc_full = 3"
| "fc_code e1000_fc_default = 0xFF"

subsection \<open>The structures of hw.h\<close>

record e1000_mac_info =
  mac_addr :: "u8 list"
  mac_perm_addr :: "u8 list"
  mac_type :: e1000_mac_type
  mac_collision_delta :: u32
  mac_ledctl_default :: u32
  mac_ledctl_mode1 :: u32
  mac_ledctl_mode2 :: u32
  mac_mc_filter_type :: u32
  mac_tx_packet_delta :: u32
  mac_txcw :: u32
  mac_current_ifs_val :: u16
  mac_ifs_max_val :: u16
  mac_ifs_min_val :: u16
  mac_ifs_ratio :: u16
  mac_ifs_step_size :: u16
  mac_mta_reg_count :: u16
  mac_mta_shadow :: "u32 list"
  mac_rar_entry_count :: u16
  mac_forced_speed_duplex :: u8
  mac_adaptive_ifs :: bool
  mac_has_fwsm :: bool
  mac_arc_subsystem_valid :: bool
  mac_autoneg :: bool
  mac_autoneg_failed :: bool
  mac_get_link_status :: bool
  mac_in_ifs_mode :: bool
  mac_serdes_has_link :: bool
  mac_tx_pkt_filtering :: bool
  mac_serdes_link_state :: e1000_serdes_link_state

record e1000_phy_info =
  phy_type :: e1000_phy_type
  phy_local_rx :: e1000_1000t_rx_status
  phy_remote_rx :: e1000_1000t_rx_status
  phy_ms_type :: e1000_ms_type
  phy_original_ms_type :: e1000_ms_type
  phy_cable_polarity :: e1000_rev_polarity
  phy_smart_speed :: e1000_smart_speed
  phy_addr :: u32
  phy_id :: u32
  phy_reset_delay_us :: u32
  phy_revision :: u32
  phy_media_type :: e1000_media_type
  phy_autoneg_advertised :: u16
  phy_autoneg_mask :: u16
  phy_cable_length :: u16
  phy_max_cable_length :: u16
  phy_min_cable_length :: u16
  phy_mdix :: u8
  phy_disable_polarity_correction :: bool
  phy_is_mdix :: bool
  phy_polarity_correction :: bool
  phy_speed_downgraded :: bool
  phy_autoneg_wait_to_complete :: bool

record e1000_nvm_info =
  nvm_type :: e1000_nvm_type
  nvm_flash_bank_size :: u32
  nvm_flash_base_addr :: u32
  nvm_word_size :: u16
  nvm_delay_usec :: u16
  nvm_address_bits :: u16
  nvm_opcode_bits :: u16
  nvm_page_size :: u16

record e1000_fc_info =
  fc_high_water :: u32
  fc_low_water :: u32
  fc_pause_time :: u16
  fc_refresh_time :: u16
  fc_send_xon :: bool
  fc_current_mode :: e1000_fc_mode
  fc_requested_mode :: e1000_fc_mode

record e1000_host_mng_dhcp_cookie =
  cookie_signature :: u32
  cookie_status :: u8
  cookie_reserved0 :: u8
  cookie_vlan_id :: u16
  cookie_reserved1 :: u32
  cookie_reserved2 :: u16
  cookie_reserved3 :: u8
  cookie_checksum :: u8

record e1000_shadow_ram =
  sr_value :: u16
  sr_modified :: bool

text \<open>\<open>struct e1000_dev_spec_ich8lan\<close> but for its shadow RAM, a field of the state itself.\<close>

record e1000_dev_spec_ich8lan =
  ich8_kmrn_lock_loss_workaround_enabled :: bool
  ich8_nvm_k1_enabled :: bool
  ich8_eee_disable :: bool
  ich8_eee_lp_ability :: u16
  ich8_ulp_state :: e1000_ulp_state

subsection \<open>Events and the two external parties\<close>

text \<open>
  A register is reached through one of three windows: the 32-bit control and status
  registers, and the flash registers with 16-bit or 32-bit accesses.
\<close>

datatype access = Csr u32 | Flash16 u32 | Flash32 u32

datatype event =
    Rd access u32
  | Wr access u32
  | IODelay nat
  | IOSleep nat
  | TestAndSet nat bool
  | TestAndClear nat bool

text \<open>
  The last fields of the state are those of \<open>hw->adapter\<close> and of its PCI device that the shared
  code reads: the flags, the device id, the frame size and the platform's latency limits. The two
  addresses are those of the register windows.
\<close>

record os_bitops =
  os_test_and_set :: "nat \<Rightarrow> u64 \<Rightarrow> bool \<times> u64"
  os_test_and_clear :: "nat \<Rightarrow> u64 \<Rightarrow> bool \<times> u64"

record e1000_hw =
  hw_dev :: "event list \<Rightarrow> access \<Rightarrow> u32"
  hw_os :: os_bitops
  hw_log :: "event list"
  hw_flags2 :: u32
  hw_state :: u64
  hw_mac :: e1000_mac_info
  hw_fc :: e1000_fc_info
  hw_phy :: e1000_phy_info
  hw_nvm :: e1000_nvm_info
  hw_bus_func :: u16
  hw_mng_cookie :: e1000_host_mng_dhcp_cookie
  hw_shadow_ram :: "e1000_shadow_ram list"
  hw_ich8 :: e1000_dev_spec_ich8lan
  hw_bus_width :: e1000_bus_width
  hw_addr :: u64
  hw_flash_address :: u64
  hw_flags :: u32
  hw_device :: u16
  hw_max_frame_size :: u32
  hw_max_hw_frame_size :: u32
  hw_max_snoop :: u16
  hw_max_nosnoop :: u16

type_synonym 'a hwM = "(e1000_hw, 'a) state"

subsection \<open>Register accesses, delays and atomic bits\<close>

definition emit :: "event \<Rightarrow> unit hwM" where
  "emit e = modify (\<lambda>s. s\<lparr>hw_log := e # hw_log s\<rparr>)"

definition io_read :: "access \<Rightarrow> u32 hwM" where
  "io_read a = do {
     v \<leftarrow> gets (\<lambda>s. hw_dev s (hw_log s) a);
     emit (Rd a v);
     ret v }"

definition io_write :: "access \<Rightarrow> u32 \<Rightarrow> unit hwM" where
  "io_write a v = emit (Wr a v)"

definition udelay :: "nat \<Rightarrow> unit hwM" where
  "udelay us = emit (IODelay us)"

definition mdelay :: "nat \<Rightarrow> unit hwM" where
  "mdelay ms = emit (IODelay (1000 * ms))"

definition msleep :: "nat \<Rightarrow> unit hwM" where
  "msleep ms = emit (IOSleep ms)"

definition usleep_range :: "nat \<Rightarrow> nat \<Rightarrow> unit hwM" where
  "usleep_range mn mx = msleep ((mn + 1000 - 1) div 1000)"

definition er32 :: "u32 \<Rightarrow> u32 hwM" where
  "er32 reg = io_read (Csr reg)"

definition e1e_flush :: "unit hwM" where
  "e1e_flush = do { er32 E1000_STATUS; ret () }"

primrec ew32_prepare_loop :: "nat \<Rightarrow> s32 hwM" where
  "ew32_prepare_loop 0 = ret 0"
| "ew32_prepare_loop (Suc i) = do {
     fwsm \<leftarrow> er32 E1000_FWSM;
     if fwsm AND E1000_ICH_FWSM_PCIM2PCI \<noteq> 0
     then (if i \<noteq> 0 then do { udelay 50; ew32_prepare_loop i } else ret 0)
     else ret (int (Suc i)) }"

definition ew32_prepare :: "s32 hwM" where
  "ew32_prepare = ew32_prepare_loop E1000_ICH_FWSM_PCIM2PCI_COUNT"

definition ew32 :: "u32 \<Rightarrow> u32 \<Rightarrow> unit hwM" where
  "ew32 reg val = do {
     flags2 \<leftarrow> gets hw_flags2;
     cwhen (flags2 AND FLAG2_PCIM2PCI_ARBITER_WA \<noteq> 0) (do { ew32_prepare; ret () });
     io_write (Csr reg) val }"

definition read_reg_array :: "u32 \<Rightarrow> u32 \<Rightarrow> u32 hwM" where
  "read_reg_array reg offset = io_read (Csr (reg + push_bit 2 offset))"

definition write_reg_array :: "u32 \<Rightarrow> u32 \<Rightarrow> u32 \<Rightarrow> unit hwM" where
  "write_reg_array reg offset val = io_write (Csr (reg + push_bit 2 offset)) val"

definition er16flash :: "u32 \<Rightarrow> u16 hwM" where
  "er16flash reg = do { v \<leftarrow> io_read (Flash16 reg); ret (ucast v) }"

definition er32flash :: "u32 \<Rightarrow> u32 hwM" where
  "er32flash reg = io_read (Flash32 reg)"

definition ew16flash :: "u32 \<Rightarrow> u16 \<Rightarrow> unit hwM" where
  "ew16flash reg val = io_write (Flash16 reg) (ucast val)"

definition ew32flash :: "u32 \<Rightarrow> u32 \<Rightarrow> unit hwM" where
  "ew32flash reg val = io_write (Flash32 reg) val"

definition test_and_set_bit :: "nat \<Rightarrow> bool hwM" where
  "test_and_set_bit nr = do {
     r \<leftarrow> gets (\<lambda>s. os_test_and_set (hw_os s) nr (hw_state s));
     modify (\<lambda>s. s\<lparr>hw_state := snd r\<rparr>);
     emit (TestAndSet nr (fst r));
     ret (fst r) }"

definition clear_bit_op :: "nat \<Rightarrow> unit hwM" where
  "clear_bit_op nr = do {
     r \<leftarrow> gets (\<lambda>s. os_test_and_clear (hw_os s) nr (hw_state s));
     modify (\<lambda>s. s\<lparr>hw_state := snd r\<rparr>);
     emit (TestAndClear nr (fst r)) }"

definition set_bit_op :: "nat \<Rightarrow> unit hwM" where
  "set_bit_op nr = do { test_and_set_bit nr; ret () }"

subsection \<open>Frames\<close>

text \<open>The events of register accesses and delays; the others are those of the atomic bits.\<close>

fun io_event :: "event \<Rightarrow> bool" where
  "io_event (TestAndSet nr b) = False"
| "io_event (TestAndClear nr b) = False"
| "io_event _ = True"

text \<open>
  A relation that tolerates growth of the event log is kept by every register access and
  delay. The component theories prove once, inside these locales, that their functions
  keep any such relation; the interpretations below give the frames themselves.
\<close>

locale hw_frame = frame_rel R for R :: "e1000_hw \<Rightarrow> e1000_hw \<Rightarrow> bool" +
  assumes R_log: "io_event e \<Longrightarrow> R s (s\<lparr>hw_log := e # hw_log s\<rparr>)"
begin

lemma keeps_emit: "io_event e \<Longrightarrow> keeps R (emit e)"
  unfolding emit_def by (rule keeps_modify) (rule R_log)

lemma keeps_io_read: "keeps R (io_read a)"
  unfolding io_read_def by (intro keeps_intros keeps_emit) simp

lemma keeps_io_write: "keeps R (io_write a v)"
  unfolding io_write_def by (rule keeps_emit) simp

lemma keeps_udelay: "keeps R (udelay n)"
  unfolding udelay_def by (rule keeps_emit) simp

lemma keeps_mdelay: "keeps R (mdelay n)"
  unfolding mdelay_def by (rule keeps_emit) simp

lemma keeps_msleep: "keeps R (msleep n)"
  unfolding msleep_def by (rule keeps_emit) simp

lemma keeps_usleep_range: "keeps R (usleep_range m n)"
  unfolding usleep_range_def by (rule keeps_msleep)

lemma keeps_er32: "keeps R (er32 r)"
  unfolding er32_def by (rule keeps_io_read)

lemma keeps_e1e_flush: "keeps R e1e_flush"
  unfolding e1e_flush_def by (intro keeps_intros keeps_er32)

lemma keeps_ew32_prepare: "keeps R ew32_prepare"
proof -
  have "keeps R (ew32_prepare_loop n)" for n
    by (induction n) (auto intro!: keeps_intros keeps_er32 keeps_udelay)
  then show ?thesis by (simp add: ew32_prepare_def)
qed

lemma keeps_ew32: "keeps R (ew32 r v)"
  unfolding ew32_def by (intro keeps_intros keeps_ew32_prepare keeps_io_write)

lemma keeps_read_reg_array: "keeps R (read_reg_array r i)"
  unfolding read_reg_array_def by (rule keeps_io_read)

lemma keeps_write_reg_array: "keeps R (write_reg_array r i v)"
  unfolding write_reg_array_def by (rule keeps_io_write)

lemma keeps_er16flash: "keeps R (er16flash r)"
  unfolding er16flash_def by (intro keeps_intros keeps_io_read)

lemma keeps_er32flash: "keeps R (er32flash r)"
  unfolding er32flash_def by (rule keeps_io_read)

lemma keeps_ew16flash: "keeps R (ew16flash r v)"
  unfolding ew16flash_def by (rule keeps_io_write)

lemma keeps_ew32flash: "keeps R (ew32flash r v)"
  unfolding ew32flash_def by (rule keeps_io_write)

lemmas hw_intros = keeps_intros keeps_udelay keeps_mdelay keeps_msleep keeps_usleep_range
  keeps_er32 keeps_e1e_flush keeps_ew32 keeps_read_reg_array keeps_write_reg_array
  keeps_er16flash keeps_er32flash keeps_ew16flash keeps_ew32flash keeps_for_each

end

text \<open>The strongest of them: nothing but the log changes, and it only grows.\<close>

definition log_ext :: "e1000_hw \<Rightarrow> e1000_hw \<Rightarrow> bool" where
  "log_ext s t = (\<exists>es. t = s\<lparr>hw_log := es @ hw_log s\<rparr>)"

interpretation io: hw_frame log_ext
proof unfold_locales
  show "log_ext s s" for s
    unfolding log_ext_def by (rule exI [of _ "[]"]) simp
  show "log_ext s u" if "log_ext s t" and "log_ext t u" for s t u
    using that unfolding log_ext_def by (metis append.assoc e1000_hw.select_convs(3)
      e1000_hw.surjective e1000_hw.update_convs(3))
  show "log_ext s (s\<lparr>hw_log := e # hw_log s\<rparr>)" for s e
    unfolding log_ext_def by (rule exI [of _ "[e]"]) simp
qed

lemma log_ext_fields:
  assumes "log_ext s t"
  shows "hw_dev t = hw_dev s" "hw_os t = hw_os s" "hw_flags2 t = hw_flags2 s"
    "hw_state t = hw_state s" "hw_mac t = hw_mac s" "hw_fc t = hw_fc s"
    "hw_phy t = hw_phy s" "hw_nvm t = hw_nvm s" "hw_bus_func t = hw_bus_func s"
    "hw_mng_cookie t = hw_mng_cookie s" "hw_shadow_ram t = hw_shadow_ram s"
    "hw_ich8 t = hw_ich8 s"
  using assms by (auto simp: log_ext_def)

text \<open>A projection of the state that does not look at the log is kept, too.\<close>

definition same :: "('s \<Rightarrow> 'a) \<Rightarrow> 's \<Rightarrow> 's \<Rightarrow> bool" where
  "same f s t = (f t = f s)"

lemma hw_frame_same:
  assumes "\<And>s l. f (s\<lparr>hw_log := l\<rparr>) = f s"
  shows "hw_frame (same f)"
  by unfold_locales (auto simp: same_def assms)

text \<open>
  A finer frame: only the log changes, and every event added satisfies \<open>P\<close>. It states what a
  function does not do (\<open>P\<close> excludes it), for every chip and on every path.
\<close>

definition allowed :: "(event \<Rightarrow> bool) \<Rightarrow> e1000_hw \<Rightarrow> e1000_hw \<Rightarrow> bool" where
  "allowed P s t = (\<exists>es. t = s\<lparr>hw_log := es @ hw_log s\<rparr> \<and> list_all P es)"

interpretation al: frame_rel "allowed P" for P
proof unfold_locales
  show "allowed P s s" for s
    unfolding allowed_def by (rule exI [of _ "[]"]) simp
  show "allowed P s u" if st: "allowed P s t" and tu: "allowed P t u" for s t u
  proof -
    obtain es where es: "t = s\<lparr>hw_log := es @ hw_log s\<rparr>" "list_all P es"
      using st by (auto simp: allowed_def)
    obtain fs where fs: "u = t\<lparr>hw_log := fs @ hw_log t\<rparr>" "list_all P fs"
      using tu by (auto simp: allowed_def)
    show ?thesis
      unfolding allowed_def using es fs by (intro exI [of _ "fs @ es"]) simp
  qed
qed

lemma allowed_emit: "P e \<Longrightarrow> keeps (allowed P) (emit e)"
  unfolding emit_def
  by (rule keeps_modify) (auto simp: allowed_def intro!: exI [of _ "[e]"])

lemma allowed_io_read: "(\<And>v. P (Rd a v)) \<Longrightarrow> keeps (allowed P) (io_read a)"
  unfolding io_read_def by (intro al.keeps_intros allowed_emit)

lemma allowed_er32: "(\<And>v. P (Rd (Csr r) v)) \<Longrightarrow> keeps (allowed P) (er32 r)"
  unfolding er32_def by (rule allowed_io_read)

lemma allowed_e1e_flush: "(\<And>v. P (Rd (Csr E1000_STATUS) v)) \<Longrightarrow> keeps (allowed P) e1e_flush"
  unfolding e1e_flush_def by (intro al.keeps_intros allowed_er32)

lemma allowed_udelay: "P (IODelay n) \<Longrightarrow> keeps (allowed P) (udelay n)"
  unfolding udelay_def by (rule allowed_emit)

lemma allowed_mdelay: "P (IODelay (1000 * n)) \<Longrightarrow> keeps (allowed P) (mdelay n)"
  unfolding mdelay_def by (rule allowed_emit)

lemma allowed_msleep: "P (IOSleep n) \<Longrightarrow> keeps (allowed P) (msleep n)"
  unfolding msleep_def by (rule allowed_emit)

lemma allowed_usleep_range:
  "P (IOSleep ((m + 1000 - 1) div 1000)) \<Longrightarrow> keeps (allowed P) (usleep_range m n)"
  unfolding usleep_range_def by (rule allowed_msleep)

lemma allowed_ew32_prepare:
  assumes "\<And>v. P (Rd (Csr E1000_FWSM) v)" and "P (IODelay 50)"
  shows "keeps (allowed P) ew32_prepare"
proof -
  have "keeps (allowed P) (ew32_prepare_loop n)" for n
    by (induction n) (auto intro!: al.keeps_intros allowed_er32 allowed_udelay assms)
  then show ?thesis by (simp add: ew32_prepare_def)
qed

lemma allowed_ew32:
  assumes "\<And>v. P (Rd (Csr E1000_FWSM) v)" and "P (IODelay 50)" and "P (Wr (Csr r) v)"
  shows "keeps (allowed P) (ew32 r v)"
  unfolding ew32_def io_write_def
  by (intro al.keeps_intros allowed_ew32_prepare allowed_emit assms)

lemma allowed_flash:
  "(\<And>v. P (Rd (Flash16 r) v)) \<Longrightarrow> keeps (allowed P) (er16flash r)"
  "(\<And>v. P (Rd (Flash32 r) v)) \<Longrightarrow> keeps (allowed P) (er32flash r)"
  "P (Wr (Flash16 r) (ucast w)) \<Longrightarrow> keeps (allowed P) (ew16flash r w)"
  "P (Wr (Flash32 r) d) \<Longrightarrow> keeps (allowed P) (ew32flash r d)"
  unfolding er16flash_def er32flash_def ew16flash_def ew32flash_def io_write_def
  by (intro al.keeps_intros allowed_io_read allowed_emit; assumption)+

lemmas allowed_intros = al.keeps_intros al.keeps_for_each allowed_er32 allowed_e1e_flush
  allowed_udelay allowed_mdelay allowed_msleep allowed_usleep_range allowed_ew32 allowed_flash

lemma allowed_log_ext: "allowed P s t \<Longrightarrow> log_ext s t"
  by (auto simp: allowed_def log_ext_def)

subsection \<open>What the log says of a register\<close>

text \<open>The last value written to a register, and how often it was read since.\<close>

fun last_write :: "access \<Rightarrow> event list \<Rightarrow> u32 option" where
  "last_write a [] = None"
| "last_write a (e # es) =
     (case e of Wr b v \<Rightarrow> (if b = a then Some v else last_write a es) | _ \<Rightarrow> last_write a es)"

fun reads_since :: "access \<Rightarrow> event list \<Rightarrow> nat" where
  "reads_since a [] = 0"
| "reads_since a (e # es) =
     (case e of Wr b v \<Rightarrow> (if b = a then 0 else reads_since a es)
      | Rd b v \<Rightarrow> (if b = a then Suc (reads_since a es) else reads_since a es)
      | _ \<Rightarrow> reads_since a es)"

definition not_wr :: "access \<Rightarrow> event \<Rightarrow> bool" where
  "not_wr a e = (case e of Wr b v \<Rightarrow> b \<noteq> a | _ \<Rightarrow> True)"

lemma not_wr_simps [simp]:
  "not_wr a (Rd b v)" "not_wr a (IODelay n)" "not_wr a (IOSleep n)"
  "not_wr a (TestAndSet k b')" "not_wr a (TestAndClear k b')"
  "not_wr a (Wr b v) = (b \<noteq> a)"
  by (simp_all add: not_wr_def)

lemma last_write_skip: "list_all (not_wr a) es \<Longrightarrow> last_write a (es @ l) = last_write a l"
  by (induction es) (auto simp: not_wr_def split: event.splits)

text \<open>A register write: possibly some polls of the arbiter, then the write itself.\<close>

lemma run_ew32:
  obtains es where "run_state (ew32 r v) s = ((), s\<lparr>hw_log := Wr (Csr r) v # es @ hw_log s\<rparr>)"
    and "list_all (not_wr a) es"
proof -
  have "keeps (allowed (not_wr a)) (cwhen c (do { ew32_prepare; ret () }))" for c
    by (intro allowed_intros allowed_ew32_prepare) simp_all
  from keeps_run [OF this, of s "hw_flags2 s AND FLAG2_PCIM2PCI_ARBITER_WA \<noteq> 0"]
  obtain es where es: "snd (run_state (cwhen (hw_flags2 s AND FLAG2_PCIM2PCI_ARBITER_WA \<noteq> 0)
      (do { ew32_prepare; ret () })) s) = s\<lparr>hw_log := es @ hw_log s\<rparr>" "list_all (not_wr a) es"
    by (auto simp: allowed_def)
  show ?thesis
    by (rule that [OF _ es(2)])
      (use es(1) in \<open>simp add: ew32_def io_write_def emit_def case_prod_beta del: run_cwhen\<close>)
qed

text \<open>The events between two states in the order they happened, and the values of one register.\<close>

definition new_events :: "e1000_hw \<Rightarrow> e1000_hw \<Rightarrow> event list" where
  "new_events s t = rev (take (length (hw_log t) - length (hw_log s)) (hw_log t))"

fun written :: "access \<Rightarrow> event list \<Rightarrow> u32 list" where
  "written a [] = []"
| "written a (e # es) =
     (case e of Wr b v \<Rightarrow> (if b = a then v # written a es else written a es) | _ \<Rightarrow> written a es)"

fun values_read :: "access \<Rightarrow> event list \<Rightarrow> u32 list" where
  "values_read a [] = []"
| "values_read a (e # es) =
     (case e of Rd b v \<Rightarrow> (if b = a then v # values_read a es else values_read a es)
      | _ \<Rightarrow> values_read a es)"

lemma new_events_log [simp]: "new_events s (s\<lparr>hw_log := es @ hw_log s\<rparr>) = rev es"
  by (simp add: new_events_def)

lemma written_append [simp]: "written a (es @ fs) = written a es @ written a fs"
  by (induction es) (simp_all split: event.split)

lemma values_read_append [simp]: "values_read a (es @ fs) = values_read a es @ values_read a fs"
  by (induction es) (simp_all split: event.split)

lemma written_none: "list_all (not_wr a) es \<Longrightarrow> written a es = []"
  by (induction es) (auto simp: not_wr_def split: event.splits)

lemma written_rev: "written a (rev es) = rev (written a es)"
  by (induction es) (simp_all split: event.split)

lemma values_read_rev: "values_read a (rev es) = rev (values_read a es)"
  by (induction es) (simp_all split: event.split)

text \<open>
  \<open>steps s m a es\<close>: the function \<open>m\<close> run in \<open>s\<close> returns \<open>a\<close> and adds the events \<open>es\<close> (oldest
  first) to the log, and changes nothing else.
\<close>

definition steps :: "e1000_hw \<Rightarrow> 'a hwM \<Rightarrow> 'a \<Rightarrow> event list \<Rightarrow> bool" where
  "steps s m a es = (run_state m s = (a, s\<lparr>hw_log := rev es @ hw_log s\<rparr>))"

definition after :: "e1000_hw \<Rightarrow> event list \<Rightarrow> e1000_hw" where
  "after s es = s\<lparr>hw_log := rev es @ hw_log s\<rparr>"

lemma after_after [simp]: "after (after s es) fs = after s (es @ fs)"
  by (simp add: after_def)

lemma after_Nil [simp]: "after s [] = s"
  by (simp add: after_def)

lemma after_fields [simp]:
  "hw_dev (after s es) = hw_dev s" "hw_os (after s es) = hw_os s"
  "hw_flags2 (after s es) = hw_flags2 s" "hw_state (after s es) = hw_state s"
  "hw_mac (after s es) = hw_mac s" "hw_fc (after s es) = hw_fc s"
  "hw_phy (after s es) = hw_phy s" "hw_nvm (after s es) = hw_nvm s"
  "hw_bus_func (after s es) = hw_bus_func s" "hw_mng_cookie (after s es) = hw_mng_cookie s"
  "hw_shadow_ram (after s es) = hw_shadow_ram s" "hw_ich8 (after s es) = hw_ich8 s"
  "hw_bus_width (after s es) = hw_bus_width s" "hw_addr (after s es) = hw_addr s" "hw_flash_address (after s es) = hw_flash_address s"
  "hw_flags (after s es) = hw_flags s" "hw_device (after s es) = hw_device s"
  "hw_max_frame_size (after s es) = hw_max_frame_size s"
  "hw_max_hw_frame_size (after s es) = hw_max_hw_frame_size s"
  "hw_max_snoop (after s es) = hw_max_snoop s" "hw_max_nosnoop (after s es) = hw_max_nosnoop s"
  "hw_log (after s es) = rev es @ hw_log s"
  by (simp_all add: after_def)

lemma new_events_after [simp]: "new_events s (after s es) = es"
  by (simp add: after_def)

text \<open>The primitive accesses, in the form of the events they add.\<close>

lemma run_er32 [simp]:
  "run_state (er32 r) s =
     (hw_dev s (hw_log s) (Csr r), after s [Rd (Csr r) (hw_dev s (hw_log s) (Csr r))])"
  by (simp add: er32_def io_read_def emit_def after_def)

lemma run_delays [simp]:
  "run_state (udelay n) s = ((), after s [IODelay n])"
  "run_state (mdelay n) s = ((), after s [IODelay (1000 * n)])"
  "run_state (msleep n) s = ((), after s [IOSleep n])"
  "run_state (usleep_range m n) s = ((), after s [IOSleep ((m + 999) div 1000)])"
  by (simp_all add: udelay_def mdelay_def msleep_def usleep_range_def emit_def after_def)

lemma run_e1e_flush [simp]:
  "run_state e1e_flush s =
     ((), after s [Rd (Csr E1000_STATUS) (hw_dev s (hw_log s) (Csr E1000_STATUS))])"
  by (simp add: e1e_flush_def)

lemma run_flash_io [simp]:
  "run_state (er16flash r) s = (ucast (hw_dev s (hw_log s) (Flash16 r)),
     after s [Rd (Flash16 r) (hw_dev s (hw_log s) (Flash16 r))])"
  "run_state (er32flash r) s = (hw_dev s (hw_log s) (Flash32 r),
     after s [Rd (Flash32 r) (hw_dev s (hw_log s) (Flash32 r))])"
  "run_state (ew16flash r w) s = ((), after s [Wr (Flash16 r) (ucast w)])"
  "run_state (ew32flash r d) s = ((), after s [Wr (Flash32 r) d])"
  by (simp_all add: er16flash_def er32flash_def ew16flash_def ew32flash_def io_read_def
      io_write_def emit_def after_def)

lemma steps_iff: "steps s m a es \<longleftrightarrow> run_state m s = (a, after s es)"
  by (simp add: steps_def after_def)

lemma steps_ret: "steps s (ret a) a []"
  by (simp add: steps_iff)

lemma steps_gets: "steps s (gets f) (f s) []"
  by (simp add: steps_iff)

lemma steps_bind:
  "steps s m a es \<Longrightarrow> steps (after s es) (f a) b fs \<Longrightarrow> steps s (State_Monad.bind m f) b (es @ fs)"
  by (simp add: steps_iff)

lemma steps_er32: "steps s (er32 r) (hw_dev s (hw_log s) (Csr r)) [Rd (Csr r) (hw_dev s (hw_log s) (Csr r))]"
  by (simp add: steps_iff)

lemma steps_udelay: "steps s (udelay n) () [IODelay n]"
  by (simp add: steps_iff)

lemma steps_ew32:
  obtains es where "steps s (ew32 r v) () (es @ [Wr (Csr r) v])" and "list_all (not_wr a) es"
    and "\<And>b. b \<noteq> Csr E1000_FWSM \<Longrightarrow> values_read b es = []"
proof -
  let ?P = "\<lambda>e. (\<exists>v. e = Rd (Csr E1000_FWSM) v) \<or> e = IODelay 50"
  have "keeps (allowed ?P) (cwhen c (do { ew32_prepare; ret () }))" for c
    by (intro allowed_intros allowed_ew32_prepare) auto
  from keeps_run [OF this, of s "hw_flags2 s AND FLAG2_PCIM2PCI_ARBITER_WA \<noteq> 0"]
  obtain es where es: "snd (run_state (cwhen (hw_flags2 s AND FLAG2_PCIM2PCI_ARBITER_WA \<noteq> 0)
      (do { ew32_prepare; ret () })) s) = s\<lparr>hw_log := es @ hw_log s\<rparr>" "list_all ?P es"
    by (auto simp: allowed_def)
  have "list_all (not_wr a) (rev es)"
    using es(2) by (auto simp: list_all_iff)
  moreover have "values_read b (rev es) = []" if "b \<noteq> Csr E1000_FWSM" for b
  proof -
    have "values_read b es = []"
      using es(2) that by (induction es) (auto split: event.splits)
    then show ?thesis by (simp add: values_read_rev)
  qed
  moreover have "steps s (ew32 r v) () (rev es @ [Wr (Csr r) v])"
    using es(1)
    by (simp add: steps_def ew32_def io_write_def emit_def case_prod_beta del: run_cwhen)
  ultimately show ?thesis by (rule that [rotated])
qed

lemma steps_e1e_flush: obtains v where "steps s e1e_flush () [Rd (Csr E1000_STATUS) v]"
proof -
  show ?thesis
    by (rule that [of "hw_dev s (hw_log s) (Csr E1000_STATUS)"])
       (simp add: steps_iff)
qed

text \<open>What a write adds exactly: polls of the arbiter, then the write.\<close>

definition arb_event :: "event \<Rightarrow> bool" where
  "arb_event e = ((\<exists>v. e = Rd (Csr E1000_FWSM) v) \<or> e = IODelay 50)"

lemma run_ew32_arb:
  obtains es where "run_state (ew32 r v) s = ((), after s (es @ [Wr (Csr r) v]))"
    and "list_all arb_event es"
proof -
  have "keeps (allowed arb_event) (cwhen c (do { ew32_prepare; ret () }))" for c
    by (intro allowed_intros allowed_ew32_prepare) (auto simp: arb_event_def)
  from keeps_run [OF this, of s "hw_flags2 s AND FLAG2_PCIM2PCI_ARBITER_WA \<noteq> 0"]
  obtain es where es: "snd (run_state (cwhen (hw_flags2 s AND FLAG2_PCIM2PCI_ARBITER_WA \<noteq> 0)
      (do { ew32_prepare; ret () })) s) = s\<lparr>hw_log := es @ hw_log s\<rparr>" "list_all arb_event es"
    by (auto simp: allowed_def)
  show ?thesis
    by (rule that [of "rev es"])
      (use es in \<open>simp_all add: after_def ew32_def io_write_def emit_def case_prod_beta list_all_iff
         del: run_cwhen\<close>)
qed

lemma arb_quiet:
  "list_all arb_event es \<Longrightarrow> written a es = []"
  "list_all arb_event es \<Longrightarrow> a \<noteq> Csr E1000_FWSM \<Longrightarrow> values_read a es = []"
  by (induction es) (auto simp: arb_event_def)

lemma run_reg_array [simp]:
  "run_state (read_reg_array r i) s = (hw_dev s (hw_log s) (Csr (r + push_bit 2 i)),
     after s [Rd (Csr (r + push_bit 2 i)) (hw_dev s (hw_log s) (Csr (r + push_bit 2 i)))])"
  "run_state (write_reg_array r i v) s = ((), after s [Wr (Csr (r + push_bit 2 i)) v])"
  by (simp_all add: read_reg_array_def write_reg_array_def io_read_def io_write_def emit_def after_def)

text \<open>The atomic bit operations, and events added when other fields change too.\<close>

lemma run_test_and_set:
  "run_state (test_and_set_bit nr) s =
     (let (b, w) = os_test_and_set (hw_os s) nr (hw_state s)
      in (b, after (s\<lparr>hw_state := w\<rparr>) [TestAndSet nr b]))"
  by (simp add: test_and_set_bit_def emit_def after_def Let_def case_prod_beta)

lemma run_clear_bit_op:
  "run_state (clear_bit_op nr) s =
     (let (b, w) = os_test_and_clear (hw_os s) nr (hw_state s)
      in ((), after (s\<lparr>hw_state := w\<rparr>) [TestAndClear nr b]))"
  by (simp add: clear_bit_op_def emit_def after_def Let_def case_prod_beta)

lemma new_eventsI: "hw_log t = rev es @ hw_log s \<Longrightarrow> new_events s t = es"
  by (simp add: new_events_def)

subsection \<open>Waiting\<close>

text \<open>Microseconds of busy waiting among some events, and the number of whole milliseconds.\<close>

fun waited :: "event list \<Rightarrow> nat" where
  "waited [] = 0"
| "waited (e # es) = (case e of IODelay n \<Rightarrow> n | _ \<Rightarrow> 0) + waited es"

lemma waited_append [simp]: "waited (es @ fs) = waited es + waited fs"
  by (induction es) simp_all

text \<open>Millisecond waits.\<close>

definition ms_waits :: "event list \<Rightarrow> nat" where
  "ms_waits es = length (filter (\<lambda>e. e = IODelay 1000) es)"

lemma ms_waits_simps [simp]:
  "ms_waits [] = 0" "ms_waits (es @ fs) = ms_waits es + ms_waits fs"
  "ms_waits (e # es) = (if e = IODelay 1000 then 1 else 0) + ms_waits es"
  by (simp_all add: ms_waits_def)

lemma arb_ms: "list_all arb_event es \<Longrightarrow> ms_waits es = 0"
  by (induction es) (auto simp: arb_event_def)

end
