(* ===== verification/Nvm.thy ===== *)
theory Nvm
  imports Hw
begin

section \<open>Generic NVM access (nvm.c)\<close>

text \<open>
  The functions of \<open>src/IntelMausiEthernet/nvm.c\<close>, in the file's order: bit-banging the SPI
  EEPROM through \<open>EECD\<close>, polled reads through \<open>EERD\<close>, the part-number string, the MAC address
  and the word-sum checksum. The functions the code reaches through \<open>hw->nvm.ops\<close> take that
  structure of function pointers as the argument \<open>ops\<close>.

  A buffer the code fills through a pointer is a list argument returned updated: an error
  leaves the words already stored in it, as in C.
\<close>

subsection \<open>The operations of hw->nvm.ops\<close>

record nvm_operations =
  op_nvm_acquire :: "s32 hwM"
  op_nvm_read :: "u16 \<Rightarrow> u16 \<Rightarrow> u16 list \<Rightarrow> (s32 \<times> u16 list) hwM"
  op_nvm_release :: "unit hwM"
  op_nvm_reload :: "unit hwM"
  op_nvm_write :: "u16 \<Rightarrow> u16 \<Rightarrow> u16 list \<Rightarrow> s32 hwM"

text \<open>
  \<open>update\<close> and \<open>validate\<close> call the operations above through the same structure, and nothing
  above calls them: they are the extensions of the record.
\<close>

record nvm_update_operations = nvm_operations +
  op_nvm_update :: "s32 hwM"

record nvm_all_operations = nvm_update_operations +
  op_nvm_validate :: "s32 hwM"

text \<open>A read of one word into a variable, \<open>e1000_read_nvm(hw, offset, 1, &x)\<close>.\<close>

definition e1000_read_nvm1 :: "'o nvm_operations_scheme \<Rightarrow> u16 \<Rightarrow> (s32 \<times> u16) hwM" where
  "e1000_read_nvm1 ops offset = do {
     r \<leftarrow> op_nvm_read ops offset 1 [0];
     ret (fst r, hd (snd r)) }"

subsection \<open>Bit-banging the SPI EEPROM\<close>

definition nvm_udelay :: "unit hwM" where
  "nvm_udelay = do { d \<leftarrow> gets (\<lambda>s. nvm_delay_usec (hw_nvm s)); udelay (unat d) }"

definition e1000_raise_eec_clk :: "u32 \<Rightarrow> u32 hwM" where
  "e1000_raise_eec_clk eecd = do {
     let eecd = eecd OR E1000_EECD_SK;
     ew32 E1000_EECD eecd;
     e1e_flush;
     nvm_udelay;
     ret eecd }"

definition e1000_lower_eec_clk :: "u32 \<Rightarrow> u32 hwM" where
  "e1000_lower_eec_clk eecd = do {
     let eecd = eecd AND NOT E1000_EECD_SK;
     ew32 E1000_EECD eecd;
     e1e_flush;
     nvm_udelay;
     ret eecd }"

function shift_out_loop :: "u16 \<Rightarrow> u32 \<Rightarrow> u32 \<Rightarrow> u32 hwM" where
  "shift_out_loop data msk eecd = do {
     let eecd = eecd AND NOT E1000_EECD_DI;
     let eecd = (if ucast data AND msk \<noteq> 0 then eecd OR E1000_EECD_DI else eecd);
     ew32 E1000_EECD eecd;
     e1e_flush;
     nvm_udelay;
     eecd \<leftarrow> e1000_raise_eec_clk eecd;
     eecd \<leftarrow> e1000_lower_eec_clk eecd;
     if drop_bit 1 msk \<noteq> 0 then shift_out_loop data (drop_bit 1 msk) eecd
     else ret eecd }"
  by pat_completeness auto
termination
proof (relation "measure (\<lambda>(data, msk, eecd). unat msk)")
  fix msk :: u32
  assume "drop_bit 1 msk \<noteq> 0"
  then have "unat msk \<noteq> 0"
    by (metis drop_bit_of_0 unat_eq_zero)
  then show "\<And>data eecd eecd'. ((data, drop_bit 1 msk, eecd'), data, msk, eecd)
      \<in> measure (\<lambda>(data, msk, eecd). unat msk)"
    by (simp add: drop_bit_Suc unat_div_distrib)
qed simp

declare shift_out_loop.simps [simp del]

text \<open>\<open>BIT(count - 1)\<close>: a shift by the 16-bit count less one.\<close>

definition e1000_shift_out_eec_bits :: "u16 \<Rightarrow> u16 \<Rightarrow> unit hwM" where
  "e1000_shift_out_eec_bits data count = do {
     eecd \<leftarrow> er32 E1000_EECD;
     let msk = push_bit (unat count - 1) 1;
     ty \<leftarrow> gets (\<lambda>s. nvm_type (hw_nvm s));
     let eecd = (if ty = e1000_nvm_eeprom_spi then eecd OR E1000_EECD_DO else eecd);
     eecd \<leftarrow> shift_out_loop data msk eecd;
     let eecd = eecd AND NOT E1000_EECD_DI;
     ew32 E1000_EECD eecd }"

primrec shift_in_loop :: "nat \<Rightarrow> u32 \<Rightarrow> u16 \<Rightarrow> u16 hwM" where
  "shift_in_loop 0 eecd data = ret data"
| "shift_in_loop (Suc n) eecd data = do {
     let data = push_bit 1 data;
     _ \<leftarrow> e1000_raise_eec_clk eecd;
     eecd \<leftarrow> er32 E1000_EECD;
     let eecd = eecd AND NOT E1000_EECD_DI;
     let data = (if eecd AND E1000_EECD_DO \<noteq> 0 then data OR 1 else data);
     eecd \<leftarrow> e1000_lower_eec_clk eecd;
     shift_in_loop n eecd data }"

definition e1000_shift_in_eec_bits :: "u16 \<Rightarrow> u16 hwM" where
  "e1000_shift_in_eec_bits count = do {
     eecd \<leftarrow> er32 E1000_EECD;
     let eecd = eecd AND NOT (E1000_EECD_DO OR E1000_EECD_DI);
     shift_in_loop (unat count) eecd 0 }"

subsection \<open>Polling and arbitration\<close>

primrec poll_eerd_eewr_loop :: "nat \<Rightarrow> int \<Rightarrow> s32 hwM" where
  "poll_eerd_eewr_loop 0 ee_reg = ret (- E1000_ERR_NVM)"
| "poll_eerd_eewr_loop (Suc n) ee_reg = do {
     reg \<leftarrow> er32 (if ee_reg = E1000_NVM_POLL_READ then E1000_EERD else E1000_EEWR);
     if reg AND E1000_NVM_RW_REG_DONE \<noteq> 0 then ret 0
     else do { udelay 5; poll_eerd_eewr_loop n ee_reg } }"

definition e1000e_poll_eerd_eewr_done :: "int \<Rightarrow> s32 hwM" where
  "e1000e_poll_eerd_eewr_done ee_reg = poll_eerd_eewr_loop 100000 ee_reg"

text \<open>The loop returns what is left of the timeout and the last value of \<open>EECD\<close>.\<close>

primrec acquire_nvm_loop :: "nat \<Rightarrow> u32 \<Rightarrow> (nat \<times> u32) hwM" where
  "acquire_nvm_loop 0 eecd = ret (0, eecd)"
| "acquire_nvm_loop (Suc timeout) eecd =
     (if eecd AND E1000_EECD_GNT \<noteq> 0 then ret (Suc timeout, eecd)
      else do {
        udelay 5;
        eecd \<leftarrow> er32 E1000_EECD;
        acquire_nvm_loop timeout eecd })"

definition e1000e_acquire_nvm :: "s32 hwM" where
  "e1000e_acquire_nvm = do {
     eecd \<leftarrow> er32 E1000_EECD;
     ew32 E1000_EECD (eecd OR E1000_EECD_REQ);
     eecd \<leftarrow> er32 E1000_EECD;
     r \<leftarrow> acquire_nvm_loop E1000_NVM_GRANT_ATTEMPTS eecd;
     if fst r = 0 then do {
       let eecd = snd r AND NOT E1000_EECD_REQ;
       ew32 E1000_EECD eecd;
       ret (- E1000_ERR_NVM) }
     else ret 0 }"

definition e1000_standby_nvm :: "unit hwM" where
  "e1000_standby_nvm = do {
     eecd \<leftarrow> er32 E1000_EECD;
     ty \<leftarrow> gets (\<lambda>s. nvm_type (hw_nvm s));
     cwhen (ty = e1000_nvm_eeprom_spi) (do {
       let eecd = eecd OR E1000_EECD_CS;
       ew32 E1000_EECD eecd;
       e1e_flush;
       nvm_udelay;
       let eecd = eecd AND NOT E1000_EECD_CS;
       ew32 E1000_EECD eecd;
       e1e_flush;
       nvm_udelay }) }"

definition e1000_stop_nvm :: "unit hwM" where
  "e1000_stop_nvm = do {
     eecd \<leftarrow> er32 E1000_EECD;
     ty \<leftarrow> gets (\<lambda>s. nvm_type (hw_nvm s));
     cwhen (ty = e1000_nvm_eeprom_spi) (do {
       let eecd = eecd OR E1000_EECD_CS;
       e1000_lower_eec_clk eecd;
       ret () }) }"

definition e1000e_release_nvm :: "unit hwM" where
  "e1000e_release_nvm = do {
     e1000_stop_nvm;
     eecd \<leftarrow> er32 E1000_EECD;
     let eecd = eecd AND NOT E1000_EECD_REQ;
     ew32 E1000_EECD eecd }"

text \<open>The loop returns what is left of the timeout.\<close>

primrec ready_nvm_loop :: "nat \<Rightarrow> nat hwM" where
  "ready_nvm_loop 0 = ret 0"
| "ready_nvm_loop (Suc timeout) = do {
     bits \<leftarrow> gets (\<lambda>s. nvm_opcode_bits (hw_nvm s));
     e1000_shift_out_eec_bits NVM_RDSR_OPCODE_SPI bits;
     w \<leftarrow> e1000_shift_in_eec_bits 8;
     let spi_stat_reg = (ucast w :: u8);
     if spi_stat_reg AND NVM_STATUS_RDY_SPI = 0 then ret (Suc timeout)
     else do {
       udelay 5;
       e1000_standby_nvm;
       ready_nvm_loop timeout } }"

definition e1000_ready_nvm_eeprom :: "s32 hwM" where
  "e1000_ready_nvm_eeprom = do {
     eecd \<leftarrow> er32 E1000_EECD;
     ty \<leftarrow> gets (\<lambda>s. nvm_type (hw_nvm s));
     if ty = e1000_nvm_eeprom_spi then do {
       let eecd = eecd AND NOT (E1000_EECD_CS OR E1000_EECD_SK);
       ew32 E1000_EECD eecd;
       e1e_flush;
       udelay 1;
       timeout \<leftarrow> ready_nvm_loop NVM_MAX_RETRY_SPI;
       if timeout = 0 then ret (- E1000_ERR_NVM) else ret 0 }
     else ret 0 }"

subsection \<open>Word access\<close>

text \<open>
  The bounds check that every word access makes first: the offset is inside the NVM, the
  words are, and there is at least one. The subtraction is on \<open>int\<close> in C (both operands are
  16-bit), and is made only when \<open>offset < word_size\<close>.
\<close>

definition nvm_bad_range :: "e1000_hw \<Rightarrow> u16 \<Rightarrow> u16 \<Rightarrow> bool" where
  "nvm_bad_range s offset words =
     (offset \<ge> nvm_word_size (hw_nvm s) \<or>
      int (unat words) > int (unat (nvm_word_size (hw_nvm s))) - int (unat offset) \<or>
      words = 0)"

primrec read_nvm_eerd_loop :: "nat \<Rightarrow> nat \<Rightarrow> u16 \<Rightarrow> u16 list \<Rightarrow> (s32 \<times> u16 list) hwM" where
  "read_nvm_eerd_loop 0 i offset data = ret (0, data)"
| "read_nvm_eerd_loop (Suc n) i offset data = do {
     let eerd = push_bit E1000_NVM_RW_ADDR_SHIFT (ucast offset + of_nat i) + E1000_NVM_RW_REG_START;
     ew32 E1000_EERD eerd;
     ret_val \<leftarrow> e1000e_poll_eerd_eewr_done E1000_NVM_POLL_READ;
     if ret_val \<noteq> 0 then ret (ret_val, data)
     else do {
       v \<leftarrow> er32 E1000_EERD;
       read_nvm_eerd_loop n (Suc i) offset (data[i := ucast (drop_bit E1000_NVM_RW_REG_DATA v)]) } }"

definition e1000e_read_nvm_eerd :: "u16 \<Rightarrow> u16 \<Rightarrow> u16 list \<Rightarrow> (s32 \<times> u16 list) hwM" where
  "e1000e_read_nvm_eerd offset words data = do {
     bad \<leftarrow> gets (\<lambda>s. nvm_bad_range s offset words);
     if bad then ret (- E1000_ERR_NVM, data)
     else read_nvm_eerd_loop (unat words) 0 offset data }"

text \<open>
  The inner loop of the SPI write streams words until a page ends: it returns the index of
  the next word. The outer loop runs one write command per page. Every pass of it writes at
  least one word, so \<open>words\<close> passes are enough: that is its fuel, and running out is \<open>None\<close>.
\<close>

primrec write_spi_words :: "nat \<Rightarrow> nat \<Rightarrow> u16 \<Rightarrow> u16 list \<Rightarrow> nat hwM" where
  "write_spi_words 0 widx offset data = ret widx"
| "write_spi_words (Suc n) widx offset data = do {
     let word_out = data ! widx;
     let word_out = drop_bit 8 word_out OR push_bit 8 word_out;
     e1000_shift_out_eec_bits word_out 16;
     page \<leftarrow> gets (\<lambda>s. nvm_page_size (hw_nvm s));
     if ((unat offset + Suc widx) * 2) mod unat page = 0
     then do { e1000_standby_nvm; ret (Suc widx) }
     else write_spi_words n (Suc widx) offset data }"

primrec write_spi_loop ::
  "nat \<Rightarrow> 'o nvm_operations_scheme \<Rightarrow> nat \<Rightarrow> nat \<Rightarrow> u16 \<Rightarrow> u16 list \<Rightarrow> s32 \<Rightarrow> s32 option hwM" where
  "write_spi_loop 0 ops words widx offset data ret_val =
     (if widx < words then ret None else ret (Some ret_val))"
| "write_spi_loop (Suc fuel) ops words widx offset data ret_val =
     (if widx < words then do {
        ret_val \<leftarrow> op_nvm_acquire ops;
        if ret_val \<noteq> 0 then ret (Some ret_val)
        else do {
          ret_val \<leftarrow> e1000_ready_nvm_eeprom;
          if ret_val \<noteq> 0 then do { op_nvm_release ops; ret (Some ret_val) }
          else do {
            e1000_standby_nvm;
            opbits \<leftarrow> gets (\<lambda>s. nvm_opcode_bits (hw_nvm s));
            adbits \<leftarrow> gets (\<lambda>s. nvm_address_bits (hw_nvm s));
            e1000_shift_out_eec_bits NVM_WREN_OPCODE_SPI opbits;
            e1000_standby_nvm;
            let write_opcode = (if adbits = 8 \<and> offset \<ge> 128
              then NVM_WRITE_OPCODE_SPI OR NVM_A8_OPCODE_SPI else NVM_WRITE_OPCODE_SPI);
            e1000_shift_out_eec_bits write_opcode opbits;
            e1000_shift_out_eec_bits ((offset + of_nat widx) * 2) adbits;
            widx \<leftarrow> write_spi_words (words - widx) widx offset data;
            usleep_range 10000 20000;
            op_nvm_release ops;
            write_spi_loop fuel ops words widx offset data ret_val } } }
      else ret (Some ret_val))"

definition e1000e_write_nvm_spi ::
  "'o nvm_operations_scheme \<Rightarrow> u16 \<Rightarrow> u16 \<Rightarrow> u16 list \<Rightarrow> s32 option hwM" where
  "e1000e_write_nvm_spi ops offset words data = do {
     bad \<leftarrow> gets (\<lambda>s. nvm_bad_range s offset words);
     if bad then ret (Some (- E1000_ERR_NVM))
     else write_spi_loop (unat words) ops (unat words) 0 offset data (- E1000_ERR_NVM) }"

subsection \<open>The part number\<close>

definition pba_to_hex_char :: "u8 \<Rightarrow> u8" where
  "pba_to_hex_char c = (if c < 0xA then c + 0x30 else if c < 0x10 then c + (0x41 - 0xA) else c)"

text \<open>The ten characters of the legacy format, before and after the conversion to hex digits.\<close>

definition pba_legacy_nibbles :: "u16 \<Rightarrow> u16 \<Rightarrow> u8 list" where
  "pba_legacy_nibbles nvm_data pba_ptr =
     [ucast (drop_bit 12 nvm_data AND 0xF), ucast (drop_bit 8 nvm_data AND 0xF),
      ucast (drop_bit 4 nvm_data AND 0xF), ucast (nvm_data AND 0xF),
      ucast (drop_bit 12 pba_ptr AND 0xF), ucast (drop_bit 8 pba_ptr AND 0xF),
      0x2D, 0,
      ucast (drop_bit 4 pba_ptr AND 0xF), ucast (pba_ptr AND 0xF)]"

definition pba_legacy :: "u16 \<Rightarrow> u16 \<Rightarrow> u8 list" where
  "pba_legacy nvm_data pba_ptr = map pba_to_hex_char (pba_legacy_nibbles nvm_data pba_ptr) @ [0]"

primrec read_pba_loop ::
  "nat \<Rightarrow> nat \<Rightarrow> 'o nvm_operations_scheme \<Rightarrow> u16 \<Rightarrow> u8 list \<Rightarrow> (s32 \<times> u8 list) hwM" where
  "read_pba_loop 0 offset ops pba_ptr buf = ret (0, buf[offset * 2 := 0])"
| "read_pba_loop (Suc n) offset ops pba_ptr buf = do {
     r \<leftarrow> e1000_read_nvm1 ops (pba_ptr + of_nat offset);
     if fst r \<noteq> 0 then ret (fst r, buf)
     else read_pba_loop n (Suc offset) ops pba_ptr
       (buf[offset * 2 := ucast (drop_bit 8 (snd r)), offset * 2 + 1 := ucast (snd r AND 0xFF)]) }"

text \<open>A null buffer is \<open>None\<close>; \<open>pba_num_size\<close> is the size the caller states for it.\<close>

definition e1000_read_pba_string_generic ::
  "'o nvm_operations_scheme \<Rightarrow> u8 list option \<Rightarrow> u32 \<Rightarrow> (s32 \<times> u8 list option) hwM" where
  "e1000_read_pba_string_generic ops pba_num pba_num_size =
     (case pba_num of
        None \<Rightarrow> ret (- E1000_ERR_INVALID_ARGUMENT, None)
      | Some buf \<Rightarrow> do {
          r \<leftarrow> e1000_read_nvm1 ops NVM_PBA_OFFSET_0;
          if fst r \<noteq> 0 then ret (fst r, pba_num)
          else do {
            let nvm_data = snd r;
            r \<leftarrow> e1000_read_nvm1 ops NVM_PBA_OFFSET_1;
            if fst r \<noteq> 0 then ret (fst r, pba_num)
            else do {
              let pba_ptr = snd r;
              if nvm_data \<noteq> NVM_PBA_PTR_GUARD then
                (if pba_num_size < E1000_PBANUM_LENGTH then ret (E1000_ERR_NO_SPACE, pba_num)
                 else ret (0, Some (pba_legacy nvm_data pba_ptr @ drop 11 buf)))
              else do {
                r \<leftarrow> e1000_read_nvm1 ops pba_ptr;
                if fst r \<noteq> 0 then ret (fst r, pba_num)
                else do {
                  let length = snd r;
                  if length = 0xFFFF \<or> length = 0 then ret (- E1000_ERR_NVM_PBA_SECTION, pba_num)
                  else if pba_num_size < ucast length * 2 - 1
                  then ret (- E1000_ERR_NO_SPACE, pba_num)
                  else do {
                    r \<leftarrow> read_pba_loop (unat (length - 1)) 0 ops (pba_ptr + 1) buf;
                    ret (fst r, Some (snd r)) } } } } } })"

subsection \<open>The MAC address\<close>

definition E1000_RAL :: "u32 \<Rightarrow> u32" where
  "E1000_RAL i = (if i \<le> 15 then 0x05400 + i * 8 else 0x054E0 + (i - 16) * 8)"

definition E1000_RAH :: "u32 \<Rightarrow> u32" where
  "E1000_RAH i = (if i \<le> 15 then 0x05404 + i * 8 else 0x054E4 + (i - 16) * 8)"

definition e1000_read_mac_addr_generic :: "s32 hwM" where
  "e1000_read_mac_addr_generic = do {
     rar_high \<leftarrow> er32 (E1000_RAH 0);
     rar_low \<leftarrow> er32 (E1000_RAL 0);
     let perm = map (byte_of rar_low) [0..<E1000_RAL_MAC_ADDR_LEN]
              @ map (byte_of rar_high) [0..<E1000_RAH_MAC_ADDR_LEN];
     modify (hw_mac_update (mac_perm_addr_update (\<lambda>_. perm)));
     modify (hw_mac_update (mac_addr_update (\<lambda>_. perm)));
     ret 0 }"

subsection \<open>The checksum\<close>

primrec nvm_sum_loop :: "nat \<Rightarrow> u16 \<Rightarrow> 'o nvm_operations_scheme \<Rightarrow> u16 \<Rightarrow> (s32 \<times> u16) hwM" where
  "nvm_sum_loop 0 i ops checksum = ret (0, checksum)"
| "nvm_sum_loop (Suc n) i ops checksum = do {
     r \<leftarrow> e1000_read_nvm1 ops i;
     if fst r \<noteq> 0 then ret (fst r, checksum)
     else nvm_sum_loop n (i + 1) ops (checksum + snd r) }"

definition e1000e_validate_nvm_checksum_generic :: "'o nvm_operations_scheme \<Rightarrow> s32 hwM" where
  "e1000e_validate_nvm_checksum_generic ops = do {
     r \<leftarrow> nvm_sum_loop (NVM_CHECKSUM_REG + 1) 0 ops 0;
     if fst r \<noteq> 0 then ret (fst r)
     else if snd r \<noteq> NVM_SUM then ret (- E1000_ERR_NVM)
     else ret 0 }"

definition e1000e_update_nvm_checksum_generic :: "'o nvm_operations_scheme \<Rightarrow> s32 hwM" where
  "e1000e_update_nvm_checksum_generic ops = do {
     r \<leftarrow> nvm_sum_loop NVM_CHECKSUM_REG 0 ops 0;
     if fst r \<noteq> 0 then ret (fst r)
     else op_nvm_write ops NVM_CHECKSUM_REG 1 [NVM_SUM - snd r] }"

definition e1000e_reload_nvm_generic :: "unit hwM" where
  "e1000e_reload_nvm_generic = do {
     usleep_range 10 20;
     ctrl_ext \<leftarrow> er32 E1000_CTRL_EXT;
     ew32 E1000_CTRL_EXT (ctrl_ext OR E1000_CTRL_EXT_EE_RST);
     e1e_flush }"

end
