(* ===== verification/Flash.thy ===== *)
theory Flash
  imports Nvm
begin

section \<open>Flash cycles of the ICH/PCH parts (ich8lan.c)\<close>

text \<open>
  The flash controller of \<open>src/IntelMausiEthernet/ich8lan.c\<close>: the bit fields of its status
  and control registers, a cycle's initialisation and execution, reads, writes with their
  retries, and the erase of a bank.
\<close>

subsection \<open>The bit fields of HSFSTS and HSFCTL\<close>

text \<open>\<open>union ich8_hws_flash_status\<close> and \<open>union ich8_hws_flash_ctrl\<close>; bit 0 is the first field.\<close>

definition hsf_flcdone :: "u16 \<Rightarrow> bool" where "hsf_flcdone r = bit r 0"
definition hsf_flcerr :: "u16 \<Rightarrow> bool" where "hsf_flcerr r = bit r 1"
definition hsf_berasesz :: "u16 \<Rightarrow> u16" where "hsf_berasesz r = take_bit 2 (drop_bit 3 r)"
definition hsf_flcinprog :: "u16 \<Rightarrow> bool" where "hsf_flcinprog r = bit r 5"
definition hsf_fldesvalid :: "u16 \<Rightarrow> bool" where "hsf_fldesvalid r = bit r 14"

definition hsf_set_flcdone :: "u16 \<Rightarrow> u16" where "hsf_set_flcdone r = r OR 0x1"
definition hsf_set_flcerr :: "u16 \<Rightarrow> u16" where "hsf_set_flcerr r = r OR 0x2"
definition hsf_set_dael :: "u16 \<Rightarrow> u16" where "hsf_set_dael r = r OR 0x4"
definition hsf_set_flockdn :: "u16 \<Rightarrow> u16" where "hsf_set_flockdn r = r OR 0x8000"

definition hsf_set_flcgo :: "u16 \<Rightarrow> u16" where "hsf_set_flcgo r = r OR 0x1"
definition hsf_set_flcycle :: "u16 \<Rightarrow> u16 \<Rightarrow> u16" where
  "hsf_set_flcycle c r = (r AND NOT 0x6) OR push_bit 1 (take_bit 2 c)"
definition hsf_set_fldbcount :: "u16 \<Rightarrow> u16 \<Rightarrow> u16" where
  "hsf_set_fldbcount c r = (r AND NOT 0x300) OR push_bit 8 (take_bit 2 c)"

subsection \<open>Access width: from Sunrise Point on the registers are 32-bit only\<close>

definition mac_is_spt :: "e1000_hw \<Rightarrow> bool" where
  "mac_is_spt s = (mac_type (hw_mac s) \<ge> e1000_pch_spt)"

text \<open>\<open>if (hw->mac.type >= e1000_pch_spt) ew32flash(HSFSTS, regval & 0xFFFF) else ew16flash(HSFSTS, regval)\<close>\<close>

definition hsfsts_write :: "u16 \<Rightarrow> unit hwM" where
  "hsfsts_write regval = do {
     spt \<leftarrow> gets mac_is_spt;
     if spt then ew32flash ICH_FLASH_HSFSTS (ucast regval AND 0xFFFF)
     else ew16flash ICH_FLASH_HSFSTS regval }"

text \<open>The control register is the high half of the 32-bit status register on those parts.\<close>

definition hsfctl_read :: "u16 hwM" where
  "hsfctl_read = do {
     spt \<leftarrow> gets mac_is_spt;
     if spt then do { v \<leftarrow> er32flash ICH_FLASH_HSFSTS; ret (ucast (drop_bit 16 v)) }
     else er16flash ICH_FLASH_HSFCTL }"

definition hsfctl_write :: "u16 \<Rightarrow> unit hwM" where
  "hsfctl_write regval = do {
     spt \<leftarrow> gets mac_is_spt;
     if spt then ew32flash ICH_FLASH_HSFSTS (push_bit 16 (ucast regval))
     else ew16flash ICH_FLASH_HSFCTL regval }"

subsection \<open>A cycle\<close>

text \<open>The polling loop returns \<open>ret_val\<close> and the last status read.\<close>

primrec cycle_init_poll :: "nat \<Rightarrow> u16 \<Rightarrow> (s32 \<times> u16) hwM" where
  "cycle_init_poll 0 hsfsts = ret (- E1000_ERR_NVM, hsfsts)"
| "cycle_init_poll (Suc n) hsfsts = do {
     hsfsts \<leftarrow> er16flash ICH_FLASH_HSFSTS;
     if \<not> hsf_flcinprog hsfsts then ret (0, hsfsts)
     else do { udelay 1; cycle_init_poll n hsfsts } }"

definition e1000_flash_cycle_init_ich8lan :: "s32 hwM" where
  "e1000_flash_cycle_init_ich8lan = do {
     hsfsts \<leftarrow> er16flash ICH_FLASH_HSFSTS;
     if \<not> hsf_fldesvalid hsfsts then ret (- E1000_ERR_NVM)
     else do {
       let hsfsts = hsf_set_dael (hsf_set_flcerr hsfsts);
       hsfsts_write hsfsts;
       if \<not> hsf_flcinprog hsfsts then do {
         let hsfsts = hsf_set_flcdone hsfsts;
         hsfsts_write hsfsts;
         ret 0 }
       else do {
         r \<leftarrow> cycle_init_poll ICH_FLASH_READ_COMMAND_TIMEOUT hsfsts;
         cwhen (fst r = 0) (hsfsts_write (hsf_set_flcdone (snd r)));
         ret (fst r) } } }"

text \<open>\<open>do { ... } while (i++ < timeout)\<close>: \<open>timeout + 1\<close> passes at most.\<close>

primrec cycle_wait :: "nat \<Rightarrow> u16 \<Rightarrow> u16 hwM" where
  "cycle_wait 0 hsfsts = ret hsfsts"
| "cycle_wait (Suc n) hsfsts = do {
     hsfsts \<leftarrow> er16flash ICH_FLASH_HSFSTS;
     if hsf_flcdone hsfsts then ret hsfsts
     else do { udelay 1; cycle_wait n hsfsts } }"

definition e1000_flash_cycle_ich8lan :: "nat \<Rightarrow> s32 hwM" where
  "e1000_flash_cycle_ich8lan timeout = do {
     hsflctl \<leftarrow> hsfctl_read;
     hsfctl_write (hsf_set_flcgo hsflctl);
     hsfsts \<leftarrow> cycle_wait (timeout + 1) 0;
     if hsf_flcdone hsfsts \<and> \<not> hsf_flcerr hsfsts then ret 0
     else ret (- E1000_ERR_NVM) }"

subsection \<open>Reads\<close>

text \<open>
  The body of the retry loop runs a cycle. After a failed cycle it goes round again unless
  the status shows a timeout (no error flag, and not done). \<open>do { ... } while (count++ <
  ICH_FLASH_CYCLE_REPEAT_COUNT)\<close> makes \<open>ICH_FLASH_CYCLE_REPEAT_COUNT + 1\<close> passes at most.
\<close>

definition flash_again :: "bool hwM" where
  "flash_again = do {
     hsfsts \<leftarrow> er16flash ICH_FLASH_HSFSTS;
     ret (hsf_flcerr hsfsts \<or> hsf_flcdone hsfsts) }"

definition flash_linear_addr :: "e1000_hw \<Rightarrow> u32 \<Rightarrow> u32" where
  "flash_linear_addr s offset =
     (ICH_FLASH_LINEAR_ADDR_MASK AND offset) + nvm_flash_base_addr (hw_nvm s)"

primrec read_flash_data_loop :: "nat \<Rightarrow> u32 \<Rightarrow> u8 \<Rightarrow> s32 \<Rightarrow> u16 \<Rightarrow> (s32 \<times> u16) hwM" where
  "read_flash_data_loop 0 addr sz ret_val data = ret (ret_val, data)"
| "read_flash_data_loop (Suc n) addr sz ret_val data = do {
     udelay 1;
     ret_val \<leftarrow> e1000_flash_cycle_init_ich8lan;
     if ret_val \<noteq> 0 then ret (ret_val, data)
     else do {
       hsflctl \<leftarrow> er16flash ICH_FLASH_HSFCTL;
       ew16flash ICH_FLASH_HSFCTL
         (hsf_set_flcycle ICH_CYCLE_READ (hsf_set_fldbcount (ucast sz - 1) hsflctl));
       ew32flash ICH_FLASH_FADDR addr;
       ret_val \<leftarrow> e1000_flash_cycle_ich8lan ICH_FLASH_READ_COMMAND_TIMEOUT;
       if ret_val = 0 then do {
         flash_data \<leftarrow> er32flash ICH_FLASH_FDATA0;
         ret (0, if sz = 1 then ucast (flash_data AND 0xFF)
                 else if sz = 2 then ucast (flash_data AND 0xFFFF) else data) }
       else do {
         again \<leftarrow> flash_again;
         if again then read_flash_data_loop n addr sz ret_val data
         else ret (ret_val, data) } } }"

definition e1000_read_flash_data_ich8lan :: "u32 \<Rightarrow> u8 \<Rightarrow> u16 \<Rightarrow> (s32 \<times> u16) hwM" where
  "e1000_read_flash_data_ich8lan offset sz data =
     (if sz < 1 \<or> sz > 2 \<or> offset > ICH_FLASH_LINEAR_ADDR_MASK
      then ret (- E1000_ERR_NVM, data)
      else do {
        addr \<leftarrow> gets (\<lambda>s. flash_linear_addr s offset);
        read_flash_data_loop (ICH_FLASH_CYCLE_REPEAT_COUNT + 1) addr sz (- E1000_ERR_NVM) data })"

primrec read_flash_data32_loop :: "nat \<Rightarrow> u32 \<Rightarrow> s32 \<Rightarrow> u32 \<Rightarrow> (s32 \<times> u32) hwM" where
  "read_flash_data32_loop 0 addr ret_val data = ret (ret_val, data)"
| "read_flash_data32_loop (Suc n) addr ret_val data = do {
     udelay 1;
     ret_val \<leftarrow> e1000_flash_cycle_init_ich8lan;
     if ret_val \<noteq> 0 then ret (ret_val, data)
     else do {
       v \<leftarrow> er32flash ICH_FLASH_HSFSTS;
       let hsflctl = (ucast (drop_bit 16 v) :: u16);
       let hsflctl = hsf_set_flcycle ICH_CYCLE_READ (hsf_set_fldbcount (4 - 1) hsflctl);
       ew32flash ICH_FLASH_HSFSTS (push_bit 16 (ucast hsflctl));
       ew32flash ICH_FLASH_FADDR addr;
       ret_val \<leftarrow> e1000_flash_cycle_ich8lan ICH_FLASH_READ_COMMAND_TIMEOUT;
       if ret_val = 0 then do {
         d \<leftarrow> er32flash ICH_FLASH_FDATA0;
         ret (0, d) }
       else do {
         again \<leftarrow> flash_again;
         if again then read_flash_data32_loop n addr ret_val data
         else ret (ret_val, data) } } }"

definition e1000_read_flash_data32_ich8lan :: "u32 \<Rightarrow> u32 \<Rightarrow> (s32 \<times> u32) hwM" where
  "e1000_read_flash_data32_ich8lan offset data = do {
     spt \<leftarrow> gets mac_is_spt;
     if offset > ICH_FLASH_LINEAR_ADDR_MASK \<or> \<not> spt then ret (- E1000_ERR_NVM, data)
     else do {
       addr \<leftarrow> gets (\<lambda>s. flash_linear_addr s offset);
       read_flash_data32_loop (ICH_FLASH_CYCLE_REPEAT_COUNT + 1) addr (- E1000_ERR_NVM) data } }"

definition e1000_read_flash_dword_ich8lan :: "u32 \<Rightarrow> u32 \<Rightarrow> (s32 \<times> u32) hwM" where
  "e1000_read_flash_dword_ich8lan offset data =
     e1000_read_flash_data32_ich8lan (push_bit 1 offset) data"

definition e1000_read_flash_word_ich8lan :: "u32 \<Rightarrow> u16 \<Rightarrow> (s32 \<times> u16) hwM" where
  "e1000_read_flash_word_ich8lan offset data =
     e1000_read_flash_data_ich8lan (push_bit 1 offset) 2 data"

definition e1000_read_flash_byte_ich8lan :: "u32 \<Rightarrow> u8 \<Rightarrow> (s32 \<times> u8) hwM" where
  "e1000_read_flash_byte_ich8lan offset data = do {
     spt \<leftarrow> gets mac_is_spt;
     if spt then ret (- E1000_ERR_NVM, data)
     else do {
       r \<leftarrow> e1000_read_flash_data_ich8lan offset 1 0;
       if fst r \<noteq> 0 then ret (fst r, data) else ret (0, ucast (snd r)) } }"

subsection \<open>Writes\<close>

text \<open>One pass of the write loops, from the address register on, for both widths.\<close>

primrec write_flash_loop :: "nat \<Rightarrow> u32 \<Rightarrow> u16 \<Rightarrow> u32 \<Rightarrow> s32 \<Rightarrow> s32 hwM" where
  "write_flash_loop 0 addr dbcount flash_data ret_val = ret ret_val"
| "write_flash_loop (Suc n) addr dbcount flash_data ret_val = do {
     udelay 1;
     ret_val \<leftarrow> e1000_flash_cycle_init_ich8lan;
     if ret_val \<noteq> 0 then ret ret_val
     else do {
       hsflctl \<leftarrow> hsfctl_read;
       hsfctl_write (hsf_set_flcycle ICH_CYCLE_WRITE (hsf_set_fldbcount dbcount hsflctl));
       ew32flash ICH_FLASH_FADDR addr;
       ew32flash ICH_FLASH_FDATA0 flash_data;
       ret_val \<leftarrow> e1000_flash_cycle_ich8lan ICH_FLASH_WRITE_COMMAND_TIMEOUT;
       if ret_val = 0 then ret 0
       else do {
         again \<leftarrow> flash_again;
         if again then write_flash_loop n addr dbcount flash_data ret_val
         else ret ret_val } } }"

definition e1000_write_flash_data_ich8lan :: "u32 \<Rightarrow> u8 \<Rightarrow> u16 \<Rightarrow> s32 hwM" where
  "e1000_write_flash_data_ich8lan offset sz data = do {
     spt \<leftarrow> gets mac_is_spt;
     if (if spt then sz \<noteq> 4 \<or> offset > ICH_FLASH_LINEAR_ADDR_MASK
         else sz < 1 \<or> sz > 2 \<or> offset > ICH_FLASH_LINEAR_ADDR_MASK)
     then ret (- E1000_ERR_NVM)
     else do {
       addr \<leftarrow> gets (\<lambda>s. flash_linear_addr s offset);
       write_flash_loop (ICH_FLASH_CYCLE_REPEAT_COUNT + 1) addr (ucast sz - 1)
         (if sz = 1 then ucast data AND 0xFF else ucast data) 0 } }"

definition e1000_write_flash_data32_ich8lan :: "u32 \<Rightarrow> u32 \<Rightarrow> s32 hwM" where
  "e1000_write_flash_data32_ich8lan offset data = do {
     spt \<leftarrow> gets mac_is_spt;
     if spt \<and> offset > ICH_FLASH_LINEAR_ADDR_MASK then ret (- E1000_ERR_NVM)
     else do {
       addr \<leftarrow> gets (\<lambda>s. flash_linear_addr s offset);
       write_flash_loop (ICH_FLASH_CYCLE_REPEAT_COUNT + 1) addr (4 - 1) data 0 } }"

definition e1000_write_flash_byte_ich8lan :: "u32 \<Rightarrow> u8 \<Rightarrow> s32 hwM" where
  "e1000_write_flash_byte_ich8lan offset data =
     e1000_write_flash_data_ich8lan offset 1 (ucast data)"

text \<open>
  Both retry functions: one attempt, then up to 100 more with a pause before each. The
  counter reaching 100 is the error.
\<close>

primrec retry_loop :: "nat \<Rightarrow> s32 hwM \<Rightarrow> s32 hwM" where
  "retry_loop 0 attempt = ret (- E1000_ERR_NVM)"
| "retry_loop (Suc n) attempt = do {
     usleep_range 100 200;
     ret_val \<leftarrow> attempt;
     if ret_val = 0 then ret 0 else retry_loop n attempt }"

definition e1000_retry_write_flash_dword_ich8lan :: "u32 \<Rightarrow> u32 \<Rightarrow> s32 hwM" where
  "e1000_retry_write_flash_dword_ich8lan offset dword = do {
     let offset = push_bit 1 offset;
     ret_val \<leftarrow> e1000_write_flash_data32_ich8lan offset dword;
     if ret_val = 0 then ret ret_val
     else retry_loop 100 (e1000_write_flash_data32_ich8lan offset dword) }"

definition e1000_retry_write_flash_byte_ich8lan :: "u32 \<Rightarrow> u8 \<Rightarrow> s32 hwM" where
  "e1000_retry_write_flash_byte_ich8lan offset byte = do {
     ret_val \<leftarrow> e1000_write_flash_byte_ich8lan offset byte;
     if ret_val = 0 then ret ret_val
     else retry_loop 100 (e1000_write_flash_byte_ich8lan offset byte) }"

subsection \<open>Erase\<close>

text \<open>
  The inner loop erases one sector, retrying while \<open>++count < ICH_FLASH_CYCLE_REPEAT_COUNT\<close>;
  \<open>count\<close> and the linear address live across the sectors. \<open>Inl\<close> is a return of the whole
  function, \<open>Inr\<close> the values with which the outer loop goes on.
\<close>

function erase_sector_loop :: "nat \<Rightarrow> nat \<Rightarrow> nat \<Rightarrow> u32 \<Rightarrow> (s32 + nat \<times> u32) hwM" where
  "erase_sector_loop j sector_size count addr = do {
     ret_val \<leftarrow> e1000_flash_cycle_init_ich8lan;
     if ret_val \<noteq> 0 then ret (Inl ret_val)
     else do {
       hsflctl \<leftarrow> hsfctl_read;
       hsfctl_write (hsf_set_flcycle ICH_CYCLE_ERASE hsflctl);
       let addr = addr + of_nat (j * sector_size);
       ew32flash ICH_FLASH_FADDR addr;
       ret_val \<leftarrow> e1000_flash_cycle_ich8lan ICH_FLASH_ERASE_COMMAND_TIMEOUT;
       if ret_val = 0 then ret (Inr (count, addr))
       else do {
         again \<leftarrow> flash_again;
         if \<not> again then ret (Inl ret_val)
         else if Suc count < ICH_FLASH_CYCLE_REPEAT_COUNT
         then erase_sector_loop j sector_size (Suc count) addr
         else ret (Inr (Suc count, addr)) } } }"
  by pat_completeness auto
termination
  by (relation "measure (\<lambda>(j, sector_size, count, addr). ICH_FLASH_CYCLE_REPEAT_COUNT - count)") auto

declare erase_sector_loop.simps [simp del]

primrec erase_bank_loop :: "nat \<Rightarrow> nat \<Rightarrow> nat \<Rightarrow> nat \<Rightarrow> u32 \<Rightarrow> s32 hwM" where
  "erase_bank_loop 0 j sector_size count addr = ret 0"
| "erase_bank_loop (Suc n) j sector_size count addr = do {
     r \<leftarrow> erase_sector_loop j sector_size count addr;
     case r of Inl ret_val \<Rightarrow> ret ret_val
       | Inr p \<Rightarrow> erase_bank_loop n (Suc j) sector_size (fst p) (snd p) }"

definition e1000_erase_flash_bank_ich8lan :: "u32 \<Rightarrow> s32 hwM" where
  "e1000_erase_flash_bank_ich8lan bank = do {
     words \<leftarrow> gets (\<lambda>s. nvm_flash_bank_size (hw_nvm s));
     let flash_bank_size = words * 2;
     hsfsts \<leftarrow> er16flash ICH_FLASH_HSFSTS;
     let berasesz = hsf_berasesz hsfsts;
     let (sector_size, iteration) =
       (if berasesz = 0 then (ICH_FLASH_SEG_SIZE_256, unat (flash_bank_size div ICH_FLASH_SEG_SIZE_256))
        else if berasesz = 1 then (ICH_FLASH_SEG_SIZE_4K, 1)
        else if berasesz = 2 then (ICH_FLASH_SEG_SIZE_8K, 1)
        else (ICH_FLASH_SEG_SIZE_64K, 1));
     base \<leftarrow> gets (\<lambda>s. nvm_flash_base_addr (hw_nvm s));
     let addr = base + (if bank \<noteq> 0 then flash_bank_size else 0);
     erase_bank_loop iteration 0 sector_size 0 addr }"

end
