(* ===== verification/NvmIch8.thy ===== *)
theory NvmIch8
  imports Flash
begin

section \<open>The shadow-RAM NVM of the ICH/PCH parts (ich8lan.c)\<close>

text \<open>
  NVM access of \<open>src/IntelMausiEthernet/ich8lan.c\<close>: which of the two flash banks is valid, word
  reads that prefer a pending change in the shadow RAM, writes into the shadow RAM, the
  checksum update that commits the shadow RAM to the other bank, the checksum validation and
  the write protection. \<open>ich8_nvm_ops\<close> and \<open>spt_nvm_ops\<close> are the two structures of function
  pointers the file defines.

  The mutex macros of \<open>linux.h\<close> expand to nothing, so acquiring the NVM does nothing.
\<close>

subsection \<open>The NVM mutex\<close>

definition e1000_acquire_nvm_ich8lan :: "s32 hwM" where
  "e1000_acquire_nvm_ich8lan = ret 0"

definition e1000_release_nvm_ich8lan :: "unit hwM" where
  "e1000_release_nvm_ich8lan = ret ()"

subsection \<open>Initialisation\<close>

text \<open>
  Whether the flash registers are mapped (\<open>hw->flash_address\<close> is not null) is the argument.
  On Sunrise Point and later the flash window is set to a part of the control registers;
  the model's \<open>Flash16\<close> and \<open>Flash32\<close> accesses go through that window either way.
\<close>

definition e1000_init_nvm_params_ich8lan :: "bool \<Rightarrow> s32 hwM" where
  "e1000_init_nvm_params_ich8lan flash_mapped = do {
     modify (hw_nvm_update (nvm_type_update (\<lambda>_. e1000_nvm_flash_sw)));
     spt \<leftarrow> gets mac_is_spt;
     r \<leftarrow> (if spt then do {
              modify (hw_nvm_update (nvm_flash_base_addr_update (\<lambda>_. 0)));
              strap \<leftarrow> er32 E1000_STRAP;
              let nvm_size = ((drop_bit 1 strap AND 0x1F) + 1) * NVM_SIZE_MULTIPLIER;
              modify (hw_nvm_update (nvm_flash_bank_size_update (\<lambda>_. nvm_size div 2 div 2)));
              ret 0 }
            else if \<not> flash_mapped then ret (- E1000_ERR_CONFIG)
            else do {
              gfpreg \<leftarrow> er32flash ICH_FLASH_GFPREG;
              let sector_base_addr = gfpreg AND FLASH_GFPREG_BASE_MASK;
              let sector_end_addr = (drop_bit 16 gfpreg AND FLASH_GFPREG_BASE_MASK) + 1;
              modify (hw_nvm_update (nvm_flash_base_addr_update
                (\<lambda>_. push_bit FLASH_SECTOR_ADDR_SHIFT sector_base_addr)));
              modify (hw_nvm_update (nvm_flash_bank_size_update
                (\<lambda>_. push_bit FLASH_SECTOR_ADDR_SHIFT (sector_end_addr - sector_base_addr) div 2 div 2)));
              ret 0 });
     if r \<noteq> 0 then ret r
     else do {
       modify (hw_nvm_update (nvm_word_size_update (\<lambda>_. E1000_ICH8_SHADOW_RAM_WORDS)));
       modify (hw_shadow_ram_update
         (\<lambda>_. replicate E1000_ICH8_SHADOW_RAM_WORDS \<lparr>sr_value = 0xFFFF, sr_modified = False\<rparr>));
       ret 0 } }"

subsection \<open>The valid bank\<close>

definition sig_valid :: "u8 \<Rightarrow> bool" where
  "sig_valid sig_byte = (sig_byte AND E1000_ICH_NVM_VALID_SIG_MASK = E1000_ICH_NVM_SIG_VALUE)"

text \<open>The case of a part with 32-bit flash accesses, and the one that reads signature bytes.\<close>

definition bank_detect_dword :: "(s32 \<times> u32) hwM" where
  "bank_detect_dword = do {
     bank1_offset \<leftarrow> gets (\<lambda>s. nvm_flash_bank_size (hw_nvm s));
     let act_offset = E1000_ICH_NVM_SIG_WORD;
     r \<leftarrow> e1000_read_flash_dword_ich8lan act_offset 0;
     if fst r \<noteq> 0 then ret (fst r, 0)
     else if sig_valid (ucast (drop_bit 8 (snd r AND 0xFF00))) then ret (0, 0)
     else do {
       r \<leftarrow> e1000_read_flash_dword_ich8lan (act_offset + bank1_offset) (snd r);
       if fst r \<noteq> 0 then ret (fst r, 0)
       else if sig_valid (ucast (drop_bit 8 (snd r AND 0xFF00))) then ret (0, 1)
       else ret (- E1000_ERR_NVM, 0) } }"

definition bank_detect_byte :: "(s32 \<times> u32) hwM" where
  "bank_detect_byte = do {
     bank_words \<leftarrow> gets (\<lambda>s. nvm_flash_bank_size (hw_nvm s));
     let bank1_offset = bank_words * 2;
     let act_offset = E1000_ICH_NVM_SIG_WORD * 2 + 1;
     r \<leftarrow> e1000_read_flash_byte_ich8lan act_offset 0;
     if fst r \<noteq> 0 then ret (fst r, 0)
     else if sig_valid (snd r) then ret (0, 0)
     else do {
       r \<leftarrow> e1000_read_flash_byte_ich8lan (act_offset + bank1_offset) (snd r);
       if fst r \<noteq> 0 then ret (fst r, 0)
       else if sig_valid (snd r) then ret (0, 1)
       else ret (- E1000_ERR_NVM, 0) } }"

definition e1000_valid_nvm_bank_detect_ich8lan :: "(s32 \<times> u32) hwM" where
  "e1000_valid_nvm_bank_detect_ich8lan = do {
     ty \<leftarrow> gets (\<lambda>s. mac_type (hw_mac s));
     if ty \<in> {e1000_pch_spt, e1000_pch_cnp, e1000_pch_tgp, e1000_pch_adp} then bank_detect_dword
     else if ty \<in> {e1000_ich8lan, e1000_ich9lan} then do {
       eecd \<leftarrow> er32 E1000_EECD;
       if eecd AND E1000_EECD_SEC1VAL_VALID_MASK = E1000_EECD_SEC1VAL_VALID_MASK
       then ret (0, if eecd AND E1000_EECD_SEC1VAL \<noteq> 0 then 1 else 0)
       else bank_detect_byte }
     else bank_detect_byte }"

text \<open>Where the callers find the words of the valid bank: bank 0 when detection fails.\<close>

definition nvm_detect_bank :: "u32 hwM" where
  "nvm_detect_bank = do {
     r \<leftarrow> e1000_valid_nvm_bank_detect_ich8lan;
     ret (if fst r \<noteq> 0 then 0 else snd r) }"

definition nvm_act_offset :: "u16 \<Rightarrow> u32 hwM" where
  "nvm_act_offset offset = do {
     bank \<leftarrow> nvm_detect_bank;
     bank_words \<leftarrow> gets (\<lambda>s. nvm_flash_bank_size (hw_nvm s));
     ret ((if bank \<noteq> 0 then bank_words else 0) + ucast offset) }"

subsection \<open>Reads\<close>

primrec read_nvm_ich8_loop ::
  "nat \<Rightarrow> nat \<Rightarrow> u16 \<Rightarrow> u32 \<Rightarrow> u16 list \<Rightarrow> (s32 \<times> u16 list) hwM" where
  "read_nvm_ich8_loop 0 i offset act_offset data = ret (0, data)"
| "read_nvm_ich8_loop (Suc n) i offset act_offset data = do {
     sr \<leftarrow> gets (\<lambda>s. hw_shadow_ram s ! (unat offset + i));
     if sr_modified sr then read_nvm_ich8_loop n (Suc i) offset act_offset (data[i := sr_value sr])
     else do {
       r \<leftarrow> e1000_read_flash_word_ich8lan (act_offset + of_nat i) 0;
       if fst r \<noteq> 0 then ret (fst r, data)
       else read_nvm_ich8_loop n (Suc i) offset act_offset (data[i := snd r]) } }"

definition e1000_read_nvm_ich8lan :: "u16 \<Rightarrow> u16 \<Rightarrow> u16 list \<Rightarrow> (s32 \<times> u16 list) hwM" where
  "e1000_read_nvm_ich8lan offset words data = do {
     bad \<leftarrow> gets (\<lambda>s. nvm_bad_range s offset words);
     if bad then ret (- E1000_ERR_NVM, data)
     else do {
       _ \<leftarrow> e1000_acquire_nvm_ich8lan;
       act_offset \<leftarrow> nvm_act_offset offset;
       r \<leftarrow> read_nvm_ich8_loop (unat words) 0 offset act_offset data;
       e1000_release_nvm_ich8lan;
       ret r } }"

text \<open>
  The 32-bit read takes two words at a time. \<open>n\<close> counts the words left; with one left the
  dword at the even address is read and the half taken by the parity of the address. The
  last test of the pair names \<open>shadow_ram[offset + i]\<close> for both words, as the source does.
\<close>

fun read_nvm_spt_loop ::
  "nat \<Rightarrow> nat \<Rightarrow> u16 \<Rightarrow> u32 \<Rightarrow> u32 \<Rightarrow> u16 list \<Rightarrow> (s32 \<times> u16 list) hwM" where
  "read_nvm_spt_loop 0 i offset act_offset dword data = ret (0, data)"
| "read_nvm_spt_loop (Suc 0) i offset act_offset dword data = do {
     sr \<leftarrow> gets (\<lambda>s. hw_shadow_ram s ! (unat offset + i));
     if sr_modified sr then ret (0, data[i := sr_value sr])
     else do {
       let a = act_offset + of_nat i;
       let offset_to_read = (ucast (a - a mod 2) :: u16);
       r \<leftarrow> e1000_read_flash_dword_ich8lan (ucast offset_to_read) dword;
       if fst r \<noteq> 0 then ret (fst r, data)
       else ret (0, data[i := (if a mod 2 = 0 then ucast (snd r AND 0xFFFF)
                               else ucast (drop_bit 16 (snd r) AND 0xFFFF))]) } }"
| "read_nvm_spt_loop (Suc (Suc n)) i offset act_offset dword data = do {
     let offset_to_read = (ucast (act_offset + of_nat i) :: u16);
     sr0 \<leftarrow> gets (\<lambda>s. hw_shadow_ram s ! (unat offset + i));
     sr1 \<leftarrow> gets (\<lambda>s. hw_shadow_ram s ! (unat offset + i + 1));
     r \<leftarrow> (if \<not> sr_modified sr0 \<or> \<not> sr_modified sr1
            then e1000_read_flash_dword_ich8lan (ucast offset_to_read) dword
            else ret (0, dword));
     if fst r \<noteq> 0 then ret (fst r, data)
     else do {
       let dword = snd r;
       let data = data[i := (if sr_modified sr0 then sr_value sr0 else ucast (dword AND 0xFFFF))];
       let data = data[i + 1 := (if sr_modified sr0 then sr_value sr1
                                 else ucast (drop_bit 16 dword AND 0xFFFF))];
       read_nvm_spt_loop n (i + 2) offset act_offset dword data } }"

definition e1000_read_nvm_spt :: "u16 \<Rightarrow> u16 \<Rightarrow> u16 list \<Rightarrow> (s32 \<times> u16 list) hwM" where
  "e1000_read_nvm_spt offset words data = do {
     bad \<leftarrow> gets (\<lambda>s. nvm_bad_range s offset words);
     if bad then ret (- E1000_ERR_NVM, data)
     else do {
       _ \<leftarrow> e1000_acquire_nvm_ich8lan;
       act_offset \<leftarrow> nvm_act_offset offset;
       r \<leftarrow> read_nvm_spt_loop (unat words) 0 offset act_offset 0 data;
       e1000_release_nvm_ich8lan;
       ret r } }"

subsection \<open>Writes\<close>

primrec write_nvm_ich8_loop ::
  "nat \<Rightarrow> nat \<Rightarrow> u16 \<Rightarrow> u16 list \<Rightarrow> e1000_shadow_ram list \<Rightarrow> e1000_shadow_ram list" where
  "write_nvm_ich8_loop 0 i offset data ram = ram"
| "write_nvm_ich8_loop (Suc n) i offset data ram =
     write_nvm_ich8_loop n (Suc i) offset data
       (ram[unat offset + i := \<lparr>sr_value = data ! i, sr_modified = True\<rparr>])"

definition e1000_write_nvm_ich8lan :: "u16 \<Rightarrow> u16 \<Rightarrow> u16 list \<Rightarrow> s32 hwM" where
  "e1000_write_nvm_ich8lan offset words data = do {
     bad \<leftarrow> gets (\<lambda>s. nvm_bad_range s offset words);
     if bad then ret (- E1000_ERR_NVM)
     else do {
       _ \<leftarrow> e1000_acquire_nvm_ich8lan;
       modify (hw_shadow_ram_update (write_nvm_ich8_loop (unat words) 0 offset data));
       e1000_release_nvm_ich8lan;
       ret 0 } }"

subsection \<open>The two structures of function pointers, without update and validate\<close>

definition ich8_nvm_access :: nvm_operations where
  "ich8_nvm_access = \<lparr>
     op_nvm_acquire = e1000_acquire_nvm_ich8lan,
     op_nvm_read = e1000_read_nvm_ich8lan,
     op_nvm_release = e1000_release_nvm_ich8lan,
     op_nvm_reload = e1000e_reload_nvm_generic,
     op_nvm_write = e1000_write_nvm_ich8lan\<rparr>"

definition spt_nvm_access :: nvm_operations where
  "spt_nvm_access = \<lparr>
     op_nvm_acquire = e1000_acquire_nvm_ich8lan,
     op_nvm_read = e1000_read_nvm_spt,
     op_nvm_release = e1000_release_nvm_ich8lan,
     op_nvm_reload = e1000e_reload_nvm_generic,
     op_nvm_write = e1000_write_nvm_ich8lan\<rparr>"

subsection \<open>The commit of the shadow RAM\<close>

text \<open>The new and the old bank's word offset, and the erase of the bank about to be written.\<close>

definition commit_banks :: "(s32 \<times> u32 \<times> u32) hwM" where
  "commit_banks = do {
     bank \<leftarrow> nvm_detect_bank;
     bank_words \<leftarrow> gets (\<lambda>s. nvm_flash_bank_size (hw_nvm s));
     if bank = 0 then do {
       r \<leftarrow> e1000_erase_flash_bank_ich8lan 1;
       ret (r, bank_words, 0) }
     else do {
       r \<leftarrow> e1000_erase_flash_bank_ich8lan 0;
       ret (r, 0, bank_words) } }"

definition clear_shadow_ram :: "e1000_shadow_ram list \<Rightarrow> e1000_shadow_ram list" where
  "clear_shadow_ram ram =
     replicate E1000_ICH8_SHADOW_RAM_WORDS \<lparr>sr_value = 0xFFFF, sr_modified = False\<rparr>
     @ drop E1000_ICH8_SHADOW_RAM_WORDS ram"

text \<open>
  The dword loop: \<open>n\<close> counts the dwords left and \<open>i\<close> the word index. The merge with the shadow
  RAM is made before the test of the read's result, as in the source.
\<close>

definition spt_merge :: "e1000_shadow_ram \<Rightarrow> e1000_shadow_ram \<Rightarrow> u32 \<Rightarrow> u32" where
  "spt_merge sr0 sr1 dword =
     (let dword = (if sr_modified sr0 then (dword AND 0xffff0000) OR (ucast (sr_value sr0) AND 0xffff)
                   else dword)
      in (if sr_modified sr1
          then (dword AND 0x0000ffff) OR push_bit 16 (ucast (sr_value sr1) AND 0xffff)
          else dword))"

primrec commit_spt_loop :: "nat \<Rightarrow> nat \<Rightarrow> u32 \<Rightarrow> u32 \<Rightarrow> u32 \<Rightarrow> s32 hwM" where
  "commit_spt_loop 0 i new_off old_off dword = ret 0"
| "commit_spt_loop (Suc n) i new_off old_off dword = do {
     r \<leftarrow> e1000_read_flash_dword_ich8lan (of_nat i + old_off) dword;
     sr0 \<leftarrow> gets (\<lambda>s. hw_shadow_ram s ! i);
     sr1 \<leftarrow> gets (\<lambda>s. hw_shadow_ram s ! (i + 1));
     let dword = spt_merge sr0 sr1 (snd r);
     if fst r \<noteq> 0 then ret (fst r)
     else do {
       let dword = (if i = E1000_ICH_NVM_SIG_WORD - 1
                    then dword OR push_bit 16 E1000_ICH_NVM_SIG_MASK else dword);
       usleep_range 100 200;
       ret_val \<leftarrow> e1000_retry_write_flash_dword_ich8lan (of_nat i + new_off) dword;
       if ret_val \<noteq> 0 then ret ret_val
       else commit_spt_loop n (i + 2) new_off old_off dword } }"

text \<open>From the acquisition of the NVM to the \<open>release\<close> label.\<close>

definition commit_spt :: "s32 hwM" where
  "commit_spt = do {
     b \<leftarrow> commit_banks;
     let (r, new_off, old_off) = b;
     if r \<noteq> 0 then ret r
     else do {
       r \<leftarrow> commit_spt_loop (E1000_ICH8_SHADOW_RAM_WORDS div 2) 0 new_off old_off 0;
       if r \<noteq> 0 then ret r
       else do {
         let act_offset = new_off + E1000_ICH_NVM_SIG_WORD - 1;
         r \<leftarrow> e1000_read_flash_dword_ich8lan act_offset 0;
         if fst r \<noteq> 0 then ret (fst r)
         else do {
           ret_val \<leftarrow> e1000_retry_write_flash_dword_ich8lan act_offset (snd r AND 0xBFFFFFFF);
           if ret_val \<noteq> 0 then ret ret_val
           else do {
             let act_offset = old_off + E1000_ICH_NVM_SIG_WORD - 1;
             r \<leftarrow> e1000_read_flash_dword_ich8lan act_offset (snd r);
             if fst r \<noteq> 0 then ret (fst r)
             else do {
               ret_val \<leftarrow> e1000_retry_write_flash_dword_ich8lan act_offset (snd r AND 0x00FFFFFF);
               if ret_val \<noteq> 0 then ret ret_val
               else do {
                 modify (hw_shadow_ram_update clear_shadow_ram);
                 ret 0 } } } } } } }"

text \<open>The byte loop of the parts with byte-wide flash writes.\<close>

primrec commit_ich8_loop :: "nat \<Rightarrow> nat \<Rightarrow> u32 \<Rightarrow> u32 \<Rightarrow> u16 \<Rightarrow> s32 hwM" where
  "commit_ich8_loop 0 i new_off old_off data = ret 0"
| "commit_ich8_loop (Suc n) i new_off old_off data = do {
     sr \<leftarrow> gets (\<lambda>s. hw_shadow_ram s ! i);
     r \<leftarrow> (if sr_modified sr then ret (0, sr_value sr)
            else e1000_read_flash_word_ich8lan (of_nat i + old_off) data);
     if fst r \<noteq> 0 then ret (fst r)
     else do {
       let data = (if i = E1000_ICH_NVM_SIG_WORD then snd r OR E1000_ICH_NVM_SIG_MASK else snd r);
       let act_offset = push_bit 1 (of_nat i + new_off);
       usleep_range 100 200;
       ret_val \<leftarrow> e1000_retry_write_flash_byte_ich8lan act_offset (ucast data);
       if ret_val \<noteq> 0 then ret ret_val
       else do {
         usleep_range 100 200;
         ret_val \<leftarrow> e1000_retry_write_flash_byte_ich8lan (act_offset + 1) (ucast (drop_bit 8 data));
         if ret_val \<noteq> 0 then ret ret_val
         else commit_ich8_loop n (i + 1) new_off old_off data } } }"

definition commit_ich8 :: "s32 hwM" where
  "commit_ich8 = do {
     b \<leftarrow> commit_banks;
     let (r, new_off, old_off) = b;
     if r \<noteq> 0 then ret r
     else do {
       r \<leftarrow> commit_ich8_loop E1000_ICH8_SHADOW_RAM_WORDS 0 new_off old_off 0;
       if r \<noteq> 0 then ret r
       else do {
         let act_offset = new_off + E1000_ICH_NVM_SIG_WORD;
         r \<leftarrow> e1000_read_flash_word_ich8lan act_offset 0;
         if fst r \<noteq> 0 then ret (fst r)
         else do {
           let data = snd r AND 0xBFFF;
           ret_val \<leftarrow> e1000_retry_write_flash_byte_ich8lan (act_offset * 2 + 1) (ucast (drop_bit 8 data));
           if ret_val \<noteq> 0 then ret ret_val
           else do {
             let act_offset = (old_off + E1000_ICH_NVM_SIG_WORD) * 2 + 1;
             ret_val \<leftarrow> e1000_retry_write_flash_byte_ich8lan act_offset 0;
             if ret_val \<noteq> 0 then ret ret_val
             else do {
               modify (hw_shadow_ram_update clear_shadow_ram);
               ret 0 } } } } } }"

text \<open>The frame both update functions share: checksum, commit, release, reload.\<close>

definition nvm_update_with :: "nvm_operations \<Rightarrow> s32 hwM \<Rightarrow> s32 hwM" where
  "nvm_update_with ops commit = do {
     ret_val \<leftarrow> e1000e_update_nvm_checksum_generic ops;
     if ret_val \<noteq> 0 then ret ret_val
     else do {
       ty \<leftarrow> gets (\<lambda>s. nvm_type (hw_nvm s));
       if ty \<noteq> e1000_nvm_flash_sw then ret ret_val
       else do {
         _ \<leftarrow> op_nvm_acquire ops;
         ret_val \<leftarrow> commit;
         op_nvm_release ops;
         cwhen (ret_val = 0) (do { op_nvm_reload ops; usleep_range 10000 20000 });
         ret ret_val } } }"

definition e1000_update_nvm_checksum_spt :: "s32 hwM" where
  "e1000_update_nvm_checksum_spt = nvm_update_with spt_nvm_access commit_spt"

definition e1000_update_nvm_checksum_ich8lan :: "s32 hwM" where
  "e1000_update_nvm_checksum_ich8lan = nvm_update_with ich8_nvm_access commit_ich8"

definition e1000_validate_nvm_checksum_ich8lan :: "'o nvm_update_operations_scheme \<Rightarrow> s32 hwM" where
  "e1000_validate_nvm_checksum_ich8lan ops = do {
     ty \<leftarrow> gets (\<lambda>s. mac_type (hw_mac s));
     let (word, valid_csum_mask) =
       (if ty \<in> {e1000_pch_lpt, e1000_pch_spt, e1000_pch_cnp, e1000_pch_tgp, e1000_pch_adp}
        then (NVM_COMPAT, NVM_COMPAT_VALID_CSUM)
        else (NVM_FUTURE_INIT_WORD1, NVM_FUTURE_INIT_WORD1_VALID_CSUM));
     r \<leftarrow> e1000_read_nvm1 ops word;
     if fst r \<noteq> 0 then ret (fst r)
     else if snd r AND valid_csum_mask = 0 then do {
       ret_val \<leftarrow> op_nvm_write ops word 1 [snd r OR valid_csum_mask];
       if ret_val \<noteq> 0 then ret ret_val
       else do {
         ret_val \<leftarrow> op_nvm_update ops;
         if ret_val \<noteq> 0 then ret ret_val
         else e1000e_validate_nvm_checksum_generic ops } }
     else e1000e_validate_nvm_checksum_generic ops }"

definition ich8_nvm_update_ops :: nvm_update_operations where
  "ich8_nvm_update_ops =
     nvm_operations.extend ich8_nvm_access \<lparr>op_nvm_update = e1000_update_nvm_checksum_ich8lan\<rparr>"

definition spt_nvm_update_ops :: nvm_update_operations where
  "spt_nvm_update_ops =
     nvm_operations.extend spt_nvm_access \<lparr>op_nvm_update = e1000_update_nvm_checksum_spt\<rparr>"

definition ich8_nvm_ops :: nvm_all_operations where
  "ich8_nvm_ops = nvm_update_operations.extend ich8_nvm_update_ops
     \<lparr>op_nvm_validate = e1000_validate_nvm_checksum_ich8lan ich8_nvm_update_ops\<rparr>"

definition spt_nvm_ops :: nvm_all_operations where
  "spt_nvm_ops = nvm_update_operations.extend spt_nvm_update_ops
     \<lparr>op_nvm_validate = e1000_validate_nvm_checksum_ich8lan spt_nvm_update_ops\<rparr>"

subsection \<open>Write protection\<close>

text \<open>\<open>union ich8_flash_protected_range\<close>: base in bits 0-12, limit in 16-28, \<open>wpe\<close> in bit 31.\<close>

definition pr_set :: "u32 \<Rightarrow> u32 \<Rightarrow> u32 \<Rightarrow> u32" where
  "pr_set base limit r =
     (((r AND NOT 0x1FFF) OR take_bit 13 base) AND NOT 0x1FFF0000)
     OR push_bit 16 (take_bit 13 limit) OR 0x80000000"

definition e1000e_write_protect_nvm_ich8lan :: "unit hwM" where
  "e1000e_write_protect_nvm_ich8lan = do {
     _ \<leftarrow> e1000_acquire_nvm_ich8lan;
     gfpreg \<leftarrow> er32flash ICH_FLASH_GFPREG;
     pr0 \<leftarrow> er32flash ICH_FLASH_PR0;
     ew32flash ICH_FLASH_PR0
       (pr_set (gfpreg AND FLASH_GFPREG_BASE_MASK) (drop_bit 16 gfpreg AND FLASH_GFPREG_BASE_MASK) pr0);
     hsfsts \<leftarrow> er16flash ICH_FLASH_HSFSTS;
     ew32flash ICH_FLASH_HSFSTS (ucast (hsf_set_flockdn hsfsts));
     e1000_release_nvm_ich8lan }"

end
