(* ===== verification/Samples.thy ===== *)
theory Samples
  imports Hw
begin

section \<open>Concrete states for the examples\<close>

text \<open>
  A state to run the definitions on: every field has a plain value, and the chip is an
  argument. The theorems that apply a property at a concrete input start from it.
\<close>

definition sample_mac :: e1000_mac_info where
  "sample_mac = \<lparr>mac_addr = [0x00, 0x1B, 0x21, 0x01, 0x02, 0x03],
     mac_perm_addr = replicate 6 0, mac_type = e1000_pch_lpt, mac_collision_delta = 0,
     mac_ledctl_default = 0, mac_ledctl_mode1 = 0, mac_ledctl_mode2 = 0,
     mac_mc_filter_type = 0, mac_tx_packet_delta = 0, mac_txcw = 0,
     mac_current_ifs_val = 0, mac_ifs_max_val = 0, mac_ifs_min_val = 0, mac_ifs_ratio = 0,
     mac_ifs_step_size = 0, mac_mta_reg_count = 32, mac_mta_shadow = replicate 32 0,
     mac_rar_entry_count = 12, mac_forced_speed_duplex = 0, mac_adaptive_ifs = True, mac_has_fwsm = True,
     mac_arc_subsystem_valid = False, mac_autoneg = True, mac_autoneg_failed = False,
     mac_get_link_status = True, mac_in_ifs_mode = False, mac_serdes_has_link = False,
     mac_tx_pkt_filtering = False, mac_serdes_link_state = e1000_serdes_link_down\<rparr>"

definition sample_hw :: "(event list \<Rightarrow> access \<Rightarrow> u32) \<Rightarrow> e1000_hw" where
  "sample_hw dev = \<lparr>hw_dev = dev,
     hw_os = \<lparr>os_test_and_set = \<lambda>nr w. (bit w nr, w OR push_bit nr 1),
              os_test_and_clear = \<lambda>nr w. (\<not> bit w nr, w AND NOT (push_bit nr 1))\<rparr>,
     hw_log = [], hw_flags2 = 0, hw_state = 0, hw_mac = sample_mac,
     hw_fc = \<lparr>fc_high_water = 0, fc_low_water = 0, fc_pause_time = 0, fc_refresh_time = 0, fc_send_xon = True,
       fc_current_mode = e1000_fc_none, fc_requested_mode = e1000_fc_full\<rparr>,
     hw_phy = \<lparr>phy_type = e1000_phy_i217, phy_local_rx = e1000_1000t_rx_status_undefined,
       phy_remote_rx = e1000_1000t_rx_status_undefined, phy_ms_type = e1000_ms_hw_default,
       phy_original_ms_type = e1000_ms_hw_default, phy_cable_polarity = e1000_rev_polarity_undefined,
       phy_smart_speed = e1000_smart_speed_default, phy_addr = 1, phy_id = 0,
       phy_reset_delay_us = 100, phy_revision = 0, phy_media_type = e1000_media_type_copper,
       phy_autoneg_advertised = 0x2F, phy_autoneg_mask = 0x2F, phy_cable_length = 0,
       phy_max_cable_length = 0, phy_min_cable_length = 0, phy_mdix = 0,
       phy_disable_polarity_correction = False, phy_is_mdix = False, phy_polarity_correction = False,
       phy_speed_downgraded = False, phy_autoneg_wait_to_complete = False\<rparr>,
     hw_nvm = \<lparr>nvm_type = e1000_nvm_eeprom_spi, nvm_flash_bank_size = 2048, nvm_flash_base_addr = 0,
       nvm_word_size = 64, nvm_delay_usec = 1, nvm_address_bits = 16, nvm_opcode_bits = 8,
       nvm_page_size = 32\<rparr>,
     hw_bus_func = 0,
     hw_mng_cookie = \<lparr>cookie_signature = 0, cookie_status = 0, cookie_reserved0 = 0,
       cookie_vlan_id = 0, cookie_reserved1 = 0, cookie_reserved2 = 0, cookie_reserved3 = 0,
       cookie_checksum = 0\<rparr>,
     hw_shadow_ram = replicate 2048 \<lparr>sr_value = 0xFFFF, sr_modified = False\<rparr>,
     hw_ich8 = \<lparr>ich8_kmrn_lock_loss_workaround_enabled = False, ich8_nvm_k1_enabled = True,
       ich8_eee_disable = False, ich8_eee_lp_ability = 0, ich8_ulp_state = e1000_ulp_state_off\<rparr>,
     hw_bus_width = e1000_bus_width_unknown, hw_addr = 0x10000, hw_flash_address = 0x40000, hw_flags = 0, hw_device = E1000_DEV_ID_PCH_LPTLP_I218_V,
     hw_max_frame_size = 1518, hw_max_hw_frame_size = 9234, hw_max_snoop = 0x1003, hw_max_nosnoop = 0x1003\<rparr>"

text \<open>Its fields, and how a run reads them.\<close>

lemma sample_hw_simps [simp]:
  "hw_dev (sample_hw dev) = dev" "hw_log (sample_hw dev) = []"
  "hw_flags2 (sample_hw dev) = 0" "hw_state (sample_hw dev) = 0"
  "hw_mac (sample_hw dev) = sample_mac" "hw_bus_func (sample_hw dev) = 0"
  "mac_type sample_mac = e1000_pch_lpt"
  "nvm_type (hw_nvm (sample_hw dev)) = e1000_nvm_eeprom_spi"
  "nvm_word_size (hw_nvm (sample_hw dev)) = 64"
  by (simp_all add: sample_hw_def sample_mac_def)

end
