(* ===== verification/FlashChip.thy ===== *)
theory FlashChip
  imports Flash Samples
begin

section \<open>A flash controller that works, and the flash cycles run on it\<close>

text \<open>
  The flash part and its controller are hardware. What the code relies on of them is stated
  here as a law on \<open>hw_dev\<close>, with the contents of the flash computed from the log: a cycle
  runs when the control register is written with its go bit, writing can only clear bits
  (NOR flash), and erasing sets a whole sector. Under the law the functions of theory \<open>Flash\<close>
  read and change the contents as they promise. The law is for the parts with 16-bit status
  and control registers; its constants are the initial contents, the erase size the status
  register reports and the number of polls a cycle takes.
\<close>

subsection \<open>The contents of the flash\<close>

type_synonym flash = "u32 \<Rightarrow> u8"

definition written_or_0 :: "access \<Rightarrow> event list \<Rightarrow> u32" where
  "written_or_0 a l = (case last_write a l of None \<Rightarrow> 0 | Some v \<Rightarrow> v)"

definition ctl_cycle :: "u32 \<Rightarrow> u32" where "ctl_cycle v = take_bit 2 (drop_bit 1 v)"
definition ctl_count :: "u32 \<Rightarrow> u32" where "ctl_count v = take_bit 2 (drop_bit 8 v)"

definition sector_bytes :: "u16 \<Rightarrow> u32" where
  "sector_bytes bz = (if bz = 0 then 256 else if bz = 1 then 4096 else if bz = 2 then 8192 else 65536)"

definition program_bytes :: "u32 \<Rightarrow> u32 \<Rightarrow> u32 \<Rightarrow> flash \<Rightarrow> flash" where
  "program_bytes a c d m =
     (\<lambda>x. if x - a \<le> c then m x AND byte_of d (unat (x - a)) else m x)"

definition erase_sector :: "u32 \<Rightarrow> u32 \<Rightarrow> flash \<Rightarrow> flash" where
  "erase_sector sz a m = (\<lambda>x. if x div sz = a div sz then 0xFF else m x)"

definition run_cycle :: "u16 \<Rightarrow> u32 \<Rightarrow> u32 \<Rightarrow> u32 \<Rightarrow> flash \<Rightarrow> flash" where
  "run_cycle bz ctl a d m =
     (if ctl_cycle ctl = ICH_CYCLE_WRITE then program_bytes a (ctl_count ctl) d m
      else if ctl_cycle ctl = ICH_CYCLE_ERASE then erase_sector (sector_bytes bz) a m
      else m)"

definition goes :: "event \<Rightarrow> u32 option" where
  "goes e = (case e of Wr a v \<Rightarrow> if a = Flash16 ICH_FLASH_HSFCTL \<and> bit v 0 then Some v else None
     | _ \<Rightarrow> None)"

fun flash_mem :: "u16 \<Rightarrow> flash \<Rightarrow> event list \<Rightarrow> flash" where
  "flash_mem bz m [] = m"
| "flash_mem bz m (e # l) =
     (case goes e of
        Some ctl \<Rightarrow> run_cycle bz ctl (written_or_0 (Flash32 ICH_FLASH_FADDR) l)
          (written_or_0 (Flash32 ICH_FLASH_FDATA0) l) (flash_mem bz m l)
      | None \<Rightarrow> flash_mem bz m l)"

subsection \<open>The state of the controller\<close>

text \<open>How often the status was read since a cycle was started; \<open>None\<close> when none is running.\<close>

fun busy :: "event list \<Rightarrow> nat option" where
  "busy [] = None"
| "busy (e # l) =
     (case e of
        Wr a v \<Rightarrow> (if a = Flash16 ICH_FLASH_HSFCTL \<and> bit v 0 then Some 0
                   else if a = Flash16 ICH_FLASH_HSFSTS then None else busy l)
      | Rd a v \<Rightarrow> (if a = Flash16 ICH_FLASH_HSFSTS
                   then (case busy l of None \<Rightarrow> None | Some k \<Rightarrow> if bit v 0 then None else Some (Suc k))
                   else busy l)
      | _ \<Rightarrow> busy l)"

text \<open>The address and byte count of the last cycle, when it was a read.\<close>

fun last_read_cycle :: "event list \<Rightarrow> (u32 \<times> u32) option" where
  "last_read_cycle [] = None"
| "last_read_cycle (e # l) =
     (case goes e of
        Some ctl \<Rightarrow> (if ctl_cycle ctl = ICH_CYCLE_READ
                     then Some (written_or_0 (Flash32 ICH_FLASH_FADDR) l, ctl_count ctl) else None)
      | None \<Rightarrow> last_read_cycle l)"

definition flash_chip ::
  "u16 \<Rightarrow> flash \<Rightarrow> nat \<Rightarrow> (event list \<Rightarrow> access \<Rightarrow> u32) \<Rightarrow> bool" where
  "flash_chip bz m lat dev =
     (\<forall>l. (let v = dev l (Flash16 ICH_FLASH_HSFSTS) in
            bit v 14 \<and> \<not> bit v 1 \<and> hsf_berasesz (ucast v) = bz \<and>
            (busy l = None \<longrightarrow> \<not> bit v 5) \<and>
            (\<forall>k. busy l = Some k \<longrightarrow> k \<ge> lat \<longrightarrow> bit v 0)) \<and>
          (let v = dev l (Flash16 ICH_FLASH_HSFCTL) in
            \<not> bit v 0 \<and>
            (\<forall>w. last_write (Flash16 ICH_FLASH_HSFCTL) l = Some w \<longrightarrow> v AND 0x306 = w AND 0x306)) \<and>
          (let v = dev l (Flash32 ICH_FLASH_FDATA0) in
            (\<forall>a c i. last_read_cycle l = Some (a, c) \<longrightarrow> i \<le> c \<longrightarrow> i < 4 \<longrightarrow>
               byte_of v (unat i) = flash_mem bz m l (a + i))))"

text \<open>A state in which the controller is at rest, on a part with the 16-bit registers.\<close>

definition flash_ready :: "u16 \<Rightarrow> flash \<Rightarrow> nat \<Rightarrow> e1000_hw \<Rightarrow> bool" where
  "flash_ready bz m lat s =
     (flash_chip bz m lat (hw_dev s) \<and> lat \<le> 10000000 \<and> busy (hw_log s) = None \<and> \<not> mac_is_spt s)"

definition contents :: "u16 \<Rightarrow> flash \<Rightarrow> e1000_hw \<Rightarrow> flash" where
  "contents bz m s = flash_mem bz m (hw_log s)"

text \<open>
  \<open>flash_op\<close>: run from a ready state, \<open>op\<close> returns \<open>r\<close>, adds events only, leaves the
  controller ready and the contents as stated.
\<close>

definition flash_op ::
  "u16 \<Rightarrow> flash \<Rightarrow> nat \<Rightarrow> e1000_hw \<Rightarrow> 'a hwM \<Rightarrow> 'a \<Rightarrow> flash \<Rightarrow> bool" where
  "flash_op bz m lat s op r m' =
     (\<exists>es. run_state op s = (r, after s es) \<and> flash_ready bz m lat (after s es) \<and>
           contents bz m (after s es) = m')"

subsection \<open>One cycle on the working controller\<close>

lemma no_go: "list_all (\<lambda>e. goes e = None) es \<Longrightarrow> flash_mem bz m (es @ l) = flash_mem bz m l"
  "list_all (\<lambda>e. goes e = None) es \<Longrightarrow> last_read_cycle (es @ l) = last_read_cycle l"
  by (induction es) auto

lemma goes_simps [simp]:
  "goes (Rd a v) = None" "goes (IODelay n) = None" "goes (IOSleep n) = None"
  "goes (Wr (Flash32 r) v) = None" "goes (Wr (Csr r) v) = None"
  "goes (Wr (Flash16 ICH_FLASH_HSFSTS) v) = None"
  "goes (Wr (Flash16 ICH_FLASH_HSFCTL) v) = (if bit v 0 then Some v else None)"
  by (simp_all add: goes_def)

lemma written_or_0_simps [simp]:
  "written_or_0 a (Wr b v # l) = (if b = a then v else written_or_0 a l)"
  "written_or_0 a (Rd b v # l) = written_or_0 a l"
  "written_or_0 a (IODelay n # l) = written_or_0 a l"
  "written_or_0 a (IOSleep n # l) = written_or_0 a l"
  by (simp_all add: written_or_0_def)

lemma chip_status:
  assumes "flash_chip bz m lat dev"
  shows "bit (dev l (Flash16 ICH_FLASH_HSFSTS)) 14" "\<not> bit (dev l (Flash16 ICH_FLASH_HSFSTS)) 1"
    "busy l = None \<Longrightarrow> \<not> bit (dev l (Flash16 ICH_FLASH_HSFSTS)) 5"
    "busy l = Some k \<Longrightarrow> k \<ge> lat \<Longrightarrow> bit (dev l (Flash16 ICH_FLASH_HSFSTS)) 0"
    "hsf_berasesz (ucast (dev l (Flash16 ICH_FLASH_HSFSTS))) = bz"
  using assms by (auto simp: flash_chip_def Let_def)

lemma chip_control:
  assumes "flash_chip bz m lat dev"
  shows "\<not> bit (dev l (Flash16 ICH_FLASH_HSFCTL)) 0"
    "last_write (Flash16 ICH_FLASH_HSFCTL) l = Some w \<Longrightarrow>
       dev l (Flash16 ICH_FLASH_HSFCTL) AND 0x306 = w AND 0x306"
  using assms by (auto simp: flash_chip_def Let_def)

lemma chip_data:
  assumes "flash_chip bz m lat dev" and "last_read_cycle l = Some (a, c)" and "i \<le> c" and "i < 4"
  shows "byte_of (dev l (Flash32 ICH_FLASH_FDATA0)) (unat i) = flash_mem bz m l (a + i)"
  using assms by (auto simp: flash_chip_def Let_def)

lemma cycle_init_ready:
  assumes "flash_ready bz m lat s"
  obtains es where "run_state e1000_flash_cycle_init_ich8lan s = (0, after s es)"
    and "list_all (\<lambda>e. goes e = None) (rev es)" and "busy (rev es @ hw_log s) = None"
proof -
  let ?v = "hw_dev s (hw_log s) (Flash16 ICH_FLASH_HSFSTS)"
  have v: "bit ?v 14" "\<not> bit ?v 5" and spt: "\<not> mac_is_spt s" and idle: "busy (hw_log s) = None"
    using assms chip_status [of bz m lat "hw_dev s"] by (auto simp: flash_ready_def)
  let ?h = "hsf_set_dael (hsf_set_flcerr (ucast ?v))"
  have h: "hsf_fldesvalid (ucast ?v)" "\<not> hsf_flcinprog ?h"
    using v by (auto simp: hsf_fldesvalid_def hsf_flcinprog_def hsf_set_dael_def hsf_set_flcerr_def
      bit_simps bit_numeral_rec)
  have spt': "\<not> mac_is_spt (after s l)" for l
    using spt by (simp add: mac_is_spt_def)
  show ?thesis
    by (rule that [of "[Rd (Flash16 ICH_FLASH_HSFSTS) ?v, Wr (Flash16 ICH_FLASH_HSFSTS) (ucast ?h),
          Wr (Flash16 ICH_FLASH_HSFSTS) (ucast (hsf_set_flcdone ?h))]"])
       (use h idle in \<open>simp_all add: e1000_flash_cycle_init_ich8lan_def hsfsts_write_def spt' Let_def\<close>)
qed

lemma cycle_wait_ready:
  assumes "flash_chip bz m lat (hw_dev s)" and "busy (hw_log s) = Some k" and "lat < k + n" and "k \<le> lat"
  obtains v :: u32 and es where "run_state (cycle_wait n h) s = (ucast v, after s es)"
    and "bit v 0" and "\<not> bit v 1"
    and "list_all (\<lambda>e. goes e = None) (rev es)" and "busy (rev es @ hw_log s) = None"
proof -
  have "\<exists>(v :: u32) es. run_state (cycle_wait n h) s = (ucast v, after s es) \<and> bit v 0 \<and> \<not> bit v 1 \<and>
      list_all (\<lambda>e. goes e = None) (rev es) \<and> busy (rev es @ hw_log s) = None"
    using assms
  proof (induction n arbitrary: s k h)
    case 0
    then show ?case by simp
  next
    case (Suc n)
    let ?v = "hw_dev s (hw_log s) (Flash16 ICH_FLASH_HSFSTS)"
    show ?case
    proof (cases "bit ?v 0")
      case True
      then show ?thesis
        using Suc.prems chip_status [OF Suc.prems(1)]
        by (intro exI [of _ ?v] exI [of _ "[Rd (Flash16 ICH_FLASH_HSFSTS) ?v]"])
           (simp add: hsf_flcdone_def bit_simps)
    next
      case False
      let ?es = "[Rd (Flash16 ICH_FLASH_HSFSTS) ?v, IODelay 1]"
      let ?s = "after s ?es"
      have "k < lat" using False chip_status(4) [OF Suc.prems(1,2)] by force
      then obtain v :: u32 and es where IH: "run_state (cycle_wait n (ucast ?v)) ?s = (ucast v, after ?s es)"
        "bit v 0" "\<not> bit v 1" "list_all (\<lambda>e. goes e = None) (rev es)"
        "busy (rev es @ hw_log ?s) = None"
        using Suc.IH [of ?s "Suc k" "ucast ?v"] Suc.prems False by auto
      have "run_state (cycle_wait (Suc n) h) s = run_state (cycle_wait n (ucast ?v)) ?s"
        using False by (simp add: hsf_flcdone_def bit_simps)
      then show ?thesis
        using IH by (intro exI [of _ v] exI [of _ "?es @ es"]) simp
    qed
  qed
  then show ?thesis using that by blast
qed

lemma bit_0x306: "bit (0x306 :: u32) n \<longleftrightarrow> n \<in> {1, 2, 8, 9}"
proof -
  have "(0x306 :: u32) = 2 ^ 1 OR 2 ^ 2 OR 2 ^ 8 OR 2 ^ 9" by simp
  then show ?thesis
    by (simp only: bit_or_iff bit_exp_iff) auto
qed

lemma bit_0x306_int: "bit (0x306 :: int) n \<longleftrightarrow> n \<in> {1, 2, 8, 9}"
proof -
  have "(0x306 :: int) = 2 ^ 1 OR 2 ^ 2 OR 2 ^ 8 OR 2 ^ 9" by simp
  then show ?thesis
    by (simp only: bit_or_iff bit_exp_iff) auto
qed

lemma ctl_mask:
  assumes "v AND 0x306 = w AND (0x306 :: u32)"
  shows "ctl_cycle v = ctl_cycle w" "ctl_count v = ctl_count w"
proof -
  have b: "bit v n = bit w n" if "n \<in> {1, 2, 8, 9}" for n
  proof -
    have "bit (v AND 0x306) n = bit (w AND 0x306) n" using assms by simp
    then show ?thesis using that by (auto simp: bit_simps bit_0x306)
  qed
  show "ctl_cycle v = ctl_cycle w"
    unfolding ctl_cycle_def
    by (rule bit_eqI) (use b [of 1] b [of 2] in \<open>auto simp: bit_simps numeral_2_eq_2 less_Suc_eq\<close>)
  show "ctl_count v = ctl_count w"
    unfolding ctl_count_def
    by (rule bit_eqI) (use b [of 8] b [of 9] in \<open>auto simp: bit_simps numeral_2_eq_2 less_Suc_eq\<close>)
qed

lemma flash_cycle_ready:
  assumes "flash_chip bz m lat (hw_dev s)" and "lat \<le> 10000000" and "\<not> mac_is_spt s"
    and "last_write (Flash16 ICH_FLASH_HSFCTL) (hw_log s) = Some c"
  obtains es ctl where "run_state (e1000_flash_cycle_ich8lan 10000000) s = (0, after s es)"
    and "ctl_cycle ctl = ctl_cycle c" and "ctl_count ctl = ctl_count c"
    and "busy (rev es @ hw_log s) = None"
    and "flash_mem bz m (rev es @ hw_log s) = run_cycle bz ctl
          (written_or_0 (Flash32 ICH_FLASH_FADDR) (hw_log s))
          (written_or_0 (Flash32 ICH_FLASH_FDATA0) (hw_log s)) (flash_mem bz m (hw_log s))"
    and "last_read_cycle (rev es @ hw_log s) =
          (if ctl_cycle c = ICH_CYCLE_READ
           then Some (written_or_0 (Flash32 ICH_FLASH_FADDR) (hw_log s), ctl_count c) else None)"
proof -
  let ?v = "hw_dev s (hw_log s) (Flash16 ICH_FLASH_HSFCTL)"
  let ?g = "hsf_set_flcgo (ucast ?v)"
  define ctl :: u32 where "ctl = ucast ?g"
  have g0: "bit ctl 0" by (simp add: ctl_def hsf_set_flcgo_def bit_simps)
  have "ctl AND 0x306 = ?v AND 0x306"
    unfolding ctl_def hsf_set_flcgo_def
    by (rule bit_eqI) (auto simp: bit_simps bit_0x306 bit_0x306_int)
  also have "\<dots> = c AND 0x306" by (rule chip_control(2) [OF assms(1,4)])
  finally have ctl: "ctl_cycle ctl = ctl_cycle c" "ctl_count ctl = ctl_count c"
    by (rule ctl_mask)+
  let ?es = "[Rd (Flash16 ICH_FLASH_HSFCTL) ?v, Wr (Flash16 ICH_FLASH_HSFCTL) ctl]"
  let ?s = "after s ?es"
  obtain v :: u32 and es where w: "run_state (cycle_wait (10000000 + 1) 0) ?s = (ucast v, after ?s es)"
    "bit v 0" "\<not> bit v 1"
    "list_all (\<lambda>e. goes e = None) (rev es)" "busy (rev es @ hw_log ?s) = None"
    by (rule cycle_wait_ready [of bz m lat ?s 0 "10000000 + 1"])
       (use assms(1,2) g0 in \<open>simp_all\<close>)
  have spt: "\<not> mac_is_spt (after s l)" for l
    using assms(3) by (simp add: mac_is_spt_def)
  have "run_state (e1000_flash_cycle_ich8lan 10000000) s = (0, after s (?es @ es))"
    using w(1,2,3) assms(3) spt
    by (simp add: e1000_flash_cycle_ich8lan_def hsfctl_read_def hsfctl_write_def ctl_def
        hsf_flcdone_def hsf_flcerr_def bit_simps)
  then show ?thesis
    using w(4,5) ctl g0 by (intro that [of "?es @ es" ctl]) (simp_all add: no_go)
qed



lemma bit_6: "bit (6 :: u16) n \<longleftrightarrow> n \<in> {1, 2}"
  using bit_or_exp [of 1 2 n, where 'a = 16] by auto

lemma bit_0x300: "bit (0x300 :: u16) n \<longleftrightarrow> n \<in> {8, 9}"
  using bit_or_exp [of 8 9 n, where 'a = 16] by auto

lemma set_flcycle_bits:
  "bit (hsf_set_flcycle c r) n \<longleftrightarrow> (if n \<in> {1, 2} then bit c (n - 1) else bit r n)"
  unfolding hsf_set_flcycle_def bit_or_iff bit_and_iff bit_not_iff bit_push_bit_iff
    bit_take_bit_iff bit_6
  by (auto dest: bit_imp_le_length)

lemma set_fldbcount_bits:
  "bit (hsf_set_fldbcount c r) n \<longleftrightarrow> (if n \<in> {8, 9} then bit c (n - 8) else bit r n)"
  unfolding hsf_set_fldbcount_def bit_or_iff bit_and_iff bit_not_iff bit_push_bit_iff
    bit_take_bit_iff bit_0x300
  by (auto dest: bit_imp_le_length)

lemma ctl_of_flcycle:
  "ctl_cycle (ucast (hsf_set_flcycle c r)) = ucast (take_bit 2 c)"
  "ctl_count (ucast (hsf_set_flcycle c (hsf_set_fldbcount n r))) = ucast (take_bit 2 n)"
  unfolding ctl_cycle_def ctl_count_def
  by (rule bit_eqI;
      auto simp: bit_take_bit_iff bit_drop_bit_eq bit_ucast_iff set_flcycle_bits
        set_fldbcount_bits numeral_2_eq_2 less_Suc_eq dest: bit_imp_le_length)+

lemma go_of_flcycle:
  "bit (ucast (hsf_set_flcycle c r) :: u32) 0 \<longleftrightarrow> bit r 0"
  "bit (hsf_set_fldbcount n r) 0 \<longleftrightarrow> bit r 0"
  by (simp_all only: bit_ucast_iff set_flcycle_bits set_fldbcount_bits) auto


subsection \<open>Reading, programming and erasing on the working controller\<close>

text \<open>
  What the three commands share: after the cycle's initialisation the control register gets
  the cycle type, the address register and for a write the data register are set, and the
  cycle runs.
\<close>

definition command_regs :: "u32 \<Rightarrow> u32 option \<Rightarrow> event list" where
  "command_regs A dat = Wr (Flash32 ICH_FLASH_FADDR) A #
     (case dat of None \<Rightarrow> [] | Some d \<Rightarrow> [Wr (Flash32 ICH_FLASH_FDATA0) d])"

definition command_effect :: "u16 \<Rightarrow> u32 \<Rightarrow> u32 \<Rightarrow> u32 \<Rightarrow> u32 option \<Rightarrow> flash \<Rightarrow> flash" where
  "command_effect bz cy n A dat m =
     (if cy = ICH_CYCLE_WRITE then program_bytes A n (the dat) m
      else if cy = ICH_CYCLE_ERASE then erase_sector (sector_bytes bz) A m
      else m)"

lemma command_ready:
  assumes ready: "flash_ready bz m lat s"
    and c: "\<And>v. \<not> bit v 0 \<Longrightarrow> \<not> bit (c v :: u16) 0"
    and ctl: "\<And>v. ctl_cycle (ucast (c v)) = cy" "\<And>v. cy = ICH_CYCLE_ERASE \<or> ctl_count (ucast (c v)) = n"
    and dat: "cy = ICH_CYCLE_WRITE \<Longrightarrow> dat \<noteq> None"
  obtains es1 v pre es2 where "run_state e1000_flash_cycle_init_ich8lan s = (0, after s es1)"
    and "v = hw_dev s (rev es1 @ hw_log s) (Flash16 ICH_FLASH_HSFCTL)"
    and "pre = es1 @ [Rd (Flash16 ICH_FLASH_HSFCTL) v,
        Wr (Flash16 ICH_FLASH_HSFCTL) (ucast (c (ucast v)))] @ command_regs A dat"
    and "run_state (e1000_flash_cycle_ich8lan 10000000) (after s pre) = (0, after s (pre @ es2))"
    and "flash_ready bz m lat (after s (pre @ es2))"
    and "contents bz m (after s (pre @ es2)) = command_effect bz cy n A dat (contents bz m s)"
    and "cy = ICH_CYCLE_READ \<Longrightarrow> last_read_cycle (rev (pre @ es2) @ hw_log s) = Some (A, n)"
proof -
  have chip: "flash_chip bz m lat (hw_dev s)" and lat: "lat \<le> 10000000" and spt: "\<not> mac_is_spt s"
    using ready by (auto simp: flash_ready_def)
  obtain es1 where es1: "run_state e1000_flash_cycle_init_ich8lan s = (0, after s es1)"
    "list_all (\<lambda>e. goes e = None) (rev es1)" "busy (rev es1 @ hw_log s) = None"
    by (rule cycle_init_ready [OF ready])
  define v where "v = hw_dev s (rev es1 @ hw_log s) (Flash16 ICH_FLASH_HSFCTL)"
  have "\<not> bit v 0" unfolding v_def by (rule chip_control(1) [OF chip])
  then have c0: "\<not> bit (ucast (c (ucast v)) :: u32) 0"
    using c [of "ucast v"] by (simp add: bit_ucast_iff)
  let ?pre = "es1 @ [Rd (Flash16 ICH_FLASH_HSFCTL) v,
    Wr (Flash16 ICH_FLASH_HSFCTL) (ucast (c (ucast v)))] @ command_regs A dat"
  let ?s2 = "after s ?pre"
  have spt2: "\<not> mac_is_spt (after s es)" for es using spt by (simp add: mac_is_spt_def)
  have ctl2: "last_write (Flash16 ICH_FLASH_HSFCTL) (hw_log ?s2) = Some (ucast (c (ucast v)))"
    by (simp add: command_regs_def split: option.split)
  have mem2: "flash_mem bz m (hw_log ?s2) = contents bz m s"
    using es1(2) c0
    by (simp add: command_regs_def contents_def no_go split: option.split)
  have A: "written_or_0 (Flash32 ICH_FLASH_FADDR) (hw_log ?s2) = A"
    by (simp add: command_regs_def split: option.split)
  have D: "cy = ICH_CYCLE_WRITE \<Longrightarrow> written_or_0 (Flash32 ICH_FLASH_FDATA0) (hw_log ?s2) = the dat"
    using dat by (auto simp: command_regs_def split: option.split)
  obtain es2 ct where es2: "run_state (e1000_flash_cycle_ich8lan 10000000) ?s2 = (0, after ?s2 es2)"
    "ctl_cycle ct = ctl_cycle (ucast (c (ucast v)))" "ctl_count ct = ctl_count (ucast (c (ucast v)))"
    "busy (rev es2 @ hw_log ?s2) = None"
    "flash_mem bz m (rev es2 @ hw_log ?s2) = run_cycle bz ct
          (written_or_0 (Flash32 ICH_FLASH_FADDR) (hw_log ?s2))
          (written_or_0 (Flash32 ICH_FLASH_FDATA0) (hw_log ?s2)) (flash_mem bz m (hw_log ?s2))"
    "last_read_cycle (rev es2 @ hw_log ?s2) =
          (if ctl_cycle (ucast (c (ucast v))) = ICH_CYCLE_READ
           then Some (written_or_0 (Flash32 ICH_FLASH_FADDR) (hw_log ?s2),
             ctl_count (ucast (c (ucast v)))) else None)"
    by (rule flash_cycle_ready [of bz m lat ?s2 "ucast (c (ucast v))"])
       (use chip lat spt2 ctl2 in simp_all)
  have cy: "ctl_cycle ct = cy" and n: "cy = ICH_CYCLE_ERASE \<or> ctl_count ct = n"
    using es2(2,3) ctl by metis+
  have eff: "run_cycle bz ct (written_or_0 (Flash32 ICH_FLASH_FADDR) (hw_log ?s2))
      (written_or_0 (Flash32 ICH_FLASH_FDATA0) (hw_log ?s2)) (flash_mem bz m (hw_log ?s2)) =
      command_effect bz cy n A dat (contents bz m s)"
    unfolding run_cycle_def command_effect_def A mem2 cy using D n by auto
  have lr: "cy = ICH_CYCLE_READ \<Longrightarrow> last_read_cycle (rev es2 @ hw_log ?s2) = Some (A, n)"
    using es2(6) ctl(1) ctl(2) [of "ucast v"] A by simp
  show ?thesis
    by (rule that [OF es1(1) v_def refl, of es2])
       (use es2 eff chip lat spt2 lr in \<open>simp_all add: flash_ready_def contents_def\<close>)
qed



definition flash_word :: "flash \<Rightarrow> u32 \<Rightarrow> u16" where
  "flash_word m a = ucast (m a) OR push_bit 8 (ucast (m (a + 1)))"

lemma ready_delay:
  "flash_ready bz m lat s \<Longrightarrow> flash_ready bz m lat (after s [IODelay n])"
  "contents bz m (after s [IODelay n]) = contents bz m s"
  by (simp_all add: flash_ready_def mac_is_spt_def contents_def)

lemma low_bytes:
  fixes w :: u32
  shows "ucast (w AND 0xFF) = (ucast (byte_of w 0) :: u16)"
    and "ucast (w AND 0xFFFF) = (ucast (byte_of w 0) OR push_bit 8 (ucast (byte_of w 1)) :: u16)"
proof -
  have 1: "w AND 0xFF = take_bit 8 w" "w AND 0xFFFF = take_bit 16 w"
    by (simp_all add: take_bit_eq_mask mask_eq_exp_minus_1)
  show "ucast (w AND 0xFF) = (ucast (byte_of w 0) :: u16)" unfolding 1
    by (rule bit_eqI) (auto simp: bit_ucast_iff bit_take_bit_iff bit_byte_of)
  show "ucast (w AND 0xFFFF) = (ucast (byte_of w 0) OR push_bit 8 (ucast (byte_of w 1)) :: u16)"
    unfolding 1
    by (rule bit_eqI)
       (auto simp: bit_ucast_iff bit_take_bit_iff bit_byte_of bit_or_iff bit_push_bit_iff)
qed

lemma read_flash_data_ready:
  assumes ready: "flash_ready bz m lat s" and sz: "sz = 1 \<or> sz = 2" and off: "off \<le> 0xFFFFFF"
  shows "flash_op bz m lat s (e1000_read_flash_data_ich8lan off sz d)
    (0, if sz = 1 then ucast (contents bz m s (flash_linear_addr s off))
        else flash_word (contents bz m s) (flash_linear_addr s off))
    (contents bz m s)"
proof -
  let ?A = "flash_linear_addr s off" and ?s = "after s [IODelay 1]"
  let ?c = "\<lambda>v. hsf_set_flcycle ICH_CYCLE_READ (hsf_set_fldbcount (ucast sz - 1) v)"
  have n: "ucast (take_bit 2 (ucast sz - 1 :: u16)) = (ucast (sz - 1) :: u32)"
    using sz by auto
  obtain es1 v pre es2 where
    cmd: "run_state e1000_flash_cycle_init_ich8lan ?s = (0, after ?s es1)"
    "v = hw_dev ?s (rev es1 @ hw_log ?s) (Flash16 ICH_FLASH_HSFCTL)"
    "pre = es1 @ [Rd (Flash16 ICH_FLASH_HSFCTL) v,
        Wr (Flash16 ICH_FLASH_HSFCTL) (ucast (?c (ucast v)))] @ command_regs ?A None"
    "run_state (e1000_flash_cycle_ich8lan 10000000) (after ?s pre) = (0, after ?s (pre @ es2))"
    "flash_ready bz m lat (after ?s (pre @ es2))"
    "contents bz m (after ?s (pre @ es2)) =
      command_effect bz ICH_CYCLE_READ (ucast (sz - 1)) ?A None (contents bz m ?s)"
    "(ICH_CYCLE_READ :: u32) = ICH_CYCLE_READ \<Longrightarrow>
      last_read_cycle (rev (pre @ es2) @ hw_log ?s) = Some (?A, ucast (sz - 1))"
    by (rule command_ready [OF ready_delay(1) [OF ready, of 1], of ?c ICH_CYCLE_READ "ucast (sz - 1)" None ?A])
       (auto simp: ctl_of_flcycle n go_of_flcycle set_flcycle_bits set_fldbcount_bits)
  let ?D = "hw_dev s (rev (IODelay 1 # pre @ es2) @ hw_log s) (Flash32 ICH_FLASH_FDATA0)"
  have mem: "flash_mem bz m (rev (pre @ es2) @ hw_log ?s) = contents bz m s"
    using cmd(6) by (simp add: contents_def command_effect_def)
  have lr: "last_read_cycle (rev (pre @ es2) @ hw_log ?s) = Some (?A, ucast (sz - 1))"
    using cmd(7) by simp
  have chip: "flash_chip bz m lat (hw_dev s)" using ready by (simp add: flash_ready_def)
  have b0: "byte_of ?D 0 = contents bz m s ?A"
    using chip_data [OF chip lr, of 0] mem by simp
  have b1: "byte_of ?D 1 = contents bz m s (?A + 1)" if "sz = 2"
    using chip_data [OF chip lr, of 1] mem that by simp
  have v: "hw_dev s (rev es1 @ IODelay 1 # hw_log s) (Flash16 ICH_FLASH_HSFCTL) = v"
    by (simp add: cmd(2))
  have run: "run_state (e1000_read_flash_data_ich8lan off sz d) s =
      ((0, if sz = 1 then ucast (?D AND 0xFF) else ucast (?D AND 0xFFFF)),
       after s (IODelay 1 # pre @ es2 @ [Rd (Flash32 ICH_FLASH_FDATA0) ?D]))"
  proof -
    have "run_state (read_flash_data_loop (Suc 10) ?A sz (- 1) d) s =
      ((0, if sz = 1 then ucast (?D AND 0xFF) else if sz = 2 then ucast (?D AND 0xFFFF) else d),
       after s (IODelay 1 # pre @ es2 @ [Rd (Flash32 ICH_FLASH_FDATA0) ?D]))"
      unfolding read_flash_data_loop.simps
      using cmd(1) cmd(4) [unfolded cmd(3)]
      by (simp add: cmd(3) command_regs_def v del: One_nat_def cong: if_cong split del: if_split)
    moreover have "\<not> (sz < 1 \<or> sz > 2 \<or> off > 0xFFFFFF)" using sz off by auto
    ultimately show ?thesis
      using sz by (auto simp: e1000_read_flash_data_ich8lan_def)
  qed
  show ?thesis
    unfolding flash_op_def
  proof (intro exI conjI)
    show "run_state (e1000_read_flash_data_ich8lan off sz d) s =
      ((0, if sz = 1 then ucast (contents bz m s ?A) else flash_word (contents bz m s) ?A),
       after s (IODelay 1 # pre @ es2 @ [Rd (Flash32 ICH_FLASH_FDATA0) ?D]))"
      unfolding run low_bytes b0 flash_word_def using b1 sz by auto
  qed (use cmd(5) mem in \<open>simp_all add: flash_ready_def contents_def mac_is_spt_def\<close>)
qed


lemma program_byte:
  "program_bytes a 0 d m = m(a := m a AND byte_of d 0)"
  by (auto simp: program_bytes_def fun_eq_iff)

lemma ready_after_spt: "flash_ready bz m lat s \<Longrightarrow> \<not> mac_is_spt (after s es)"
  by (simp add: flash_ready_def mac_is_spt_def)

lemma write_flash_byte_ready:
  assumes ready: "flash_ready bz m lat s" and off: "off \<le> 0xFFFFFF"
  shows "flash_op bz m lat s (e1000_write_flash_byte_ich8lan off b) 0
    ((contents bz m s)(flash_linear_addr s off := contents bz m s (flash_linear_addr s off) AND b))"
proof -
  let ?A = "flash_linear_addr s off" and ?s = "after s [IODelay 1]"
  let ?d = "ucast (ucast b :: u16) AND 0xFF :: u32"
  let ?c = "\<lambda>v. hsf_set_flcycle ICH_CYCLE_WRITE (hsf_set_fldbcount 0 v)"
  note spt = ready_after_spt [OF ready]
  obtain es1 v pre es2 where
    cmd: "run_state e1000_flash_cycle_init_ich8lan ?s = (0, after ?s es1)"
    "v = hw_dev ?s (rev es1 @ hw_log ?s) (Flash16 ICH_FLASH_HSFCTL)"
    "pre = es1 @ [Rd (Flash16 ICH_FLASH_HSFCTL) v,
        Wr (Flash16 ICH_FLASH_HSFCTL) (ucast (?c (ucast v)))] @ command_regs ?A (Some ?d)"
    "run_state (e1000_flash_cycle_ich8lan 10000000) (after ?s pre) = (0, after ?s (pre @ es2))"
    "flash_ready bz m lat (after ?s (pre @ es2))"
    "contents bz m (after ?s (pre @ es2)) =
      command_effect bz ICH_CYCLE_WRITE 0 ?A (Some ?d) (contents bz m ?s)"
    by (rule command_ready [OF ready_delay(1) [OF ready, of 1], of ?c ICH_CYCLE_WRITE 0 "Some ?d" ?A])
       (auto simp: ctl_of_flcycle go_of_flcycle set_flcycle_bits set_fldbcount_bits)
  have v: "hw_dev s (rev es1 @ IODelay 1 # hw_log s) (Flash16 ICH_FLASH_HSFCTL) = v"
    by (simp add: cmd(2))
  have "run_state (write_flash_loop (Suc 10) ?A 0 ?d 0) s = (0, after s (IODelay 1 # pre @ es2))"
    unfolding write_flash_loop.simps
    using cmd(1) cmd(4) [unfolded cmd(3)]
    by (simp add: cmd(3) command_regs_def v hsfctl_read_def hsfctl_write_def spt del: One_nat_def)
  then have run: "run_state (e1000_write_flash_byte_ich8lan off b) s =
      (0, after s (IODelay 1 # pre @ es2))"
    using off spt [of "[]"]
    by (simp add: e1000_write_flash_byte_ich8lan_def e1000_write_flash_data_ich8lan_def)
  have "?d = take_bit 8 (ucast (ucast b :: u16))"
    by (simp add: take_bit_eq_mask mask_eq_exp_minus_1)
  then have "byte_of ?d 0 = b"
    by (intro bit_eqI) (auto simp: bit_byte_of bit_ucast_iff bit_take_bit_iff
      dest: bit_imp_le_length)
  then have mem: "command_effect bz ICH_CYCLE_WRITE 0 ?A (Some ?d) (contents bz m ?s) =
      (contents bz m s)(?A := contents bz m s ?A AND b)"
    by (simp add: command_effect_def program_byte ready_delay)
  show ?thesis
    unfolding flash_op_def
    using run cmd(5,6) mem by (intro exI [of _ "IODelay 1 # pre @ es2"]) simp
qed

lemma retry_write_byte_ready:
  assumes "flash_ready bz m lat s" and "off \<le> 0xFFFFFF"
  shows "flash_op bz m lat s (e1000_retry_write_flash_byte_ich8lan off b) 0
    ((contents bz m s)(flash_linear_addr s off := contents bz m s (flash_linear_addr s off) AND b))"
  using write_flash_byte_ready [OF assms, of b]
  by (auto simp: flash_op_def e1000_retry_write_flash_byte_ich8lan_def)

lemma erase_sector_ready:
  assumes ready: "flash_ready bz m lat s"
  shows "flash_op bz m lat s (erase_sector_loop j sz count a) (Inr (count, a + of_nat (j * sz)))
    (erase_sector (sector_bytes bz) (a + of_nat (j * sz)) (contents bz m s))"
proof -
  let ?A = "a + of_nat (j * sz)"
  let ?c = "\<lambda>v. hsf_set_flcycle ICH_CYCLE_ERASE v"
  note spt = ready_after_spt [OF ready]
  obtain es1 v pre es2 where
    cmd: "run_state e1000_flash_cycle_init_ich8lan s = (0, after s es1)"
    "v = hw_dev s (rev es1 @ hw_log s) (Flash16 ICH_FLASH_HSFCTL)"
    "pre = es1 @ [Rd (Flash16 ICH_FLASH_HSFCTL) v,
        Wr (Flash16 ICH_FLASH_HSFCTL) (ucast (?c (ucast v)))] @ command_regs ?A None"
    "run_state (e1000_flash_cycle_ich8lan 10000000) (after s pre) = (0, after s (pre @ es2))"
    "flash_ready bz m lat (after s (pre @ es2))"
    "contents bz m (after s (pre @ es2)) =
      command_effect bz ICH_CYCLE_ERASE 0 ?A None (contents bz m s)"
    by (rule command_ready [OF ready, of ?c ICH_CYCLE_ERASE 0 None ?A])
       (auto simp: ctl_of_flcycle go_of_flcycle set_flcycle_bits)
  have run: "run_state (erase_sector_loop j sz count a) s = (Inr (count, ?A), after s (pre @ es2))"
    using cmd(1) cmd(4) [unfolded cmd(3)]
    by (subst erase_sector_loop.simps)
       (simp add: cmd(3) command_regs_def cmd(2) [symmetric] hsfctl_read_def hsfctl_write_def spt
         Let_def)
  have mem: "command_effect bz ICH_CYCLE_ERASE 0 ?A None (contents bz m s) =
      erase_sector (sector_bytes bz) ?A (contents bz m s)"
    by (simp add: command_effect_def)
  show ?thesis
    unfolding flash_op_def
    using run cmd(5) cmd(6) [unfolded mem] by (intro exI [of _ "pre @ es2"]) simp
qed

text \<open>The offset from the bank's start of the sector that pass \<open>j\<close> of the outer loop erases.\<close>

fun erase_offset :: "nat \<Rightarrow> nat \<Rightarrow> nat" where
  "erase_offset sz 0 = 0"
| "erase_offset sz (Suc j) = erase_offset sz j + Suc j * sz"

fun erase_sectors :: "u32 \<Rightarrow> u32 list \<Rightarrow> flash \<Rightarrow> flash" where
  "erase_sectors sz [] m = m"
| "erase_sectors sz (a # as) m = erase_sectors sz as (erase_sector sz a m)"

lemma erase_bank_loop_ready:
  assumes "flash_ready bz m lat s"
  shows "flash_op bz m lat s (erase_bank_loop n j sz 0 (A + of_nat (erase_offset sz j) - of_nat (j * sz))) 0
    (erase_sectors (sector_bytes bz) (map (\<lambda>k. A + of_nat (erase_offset sz k)) [j..<j + n])
      (contents bz m s))"
  using assms
proof (induction n arbitrary: j s)
  case 0
  then show ?case by (auto simp: flash_op_def intro: exI [of _ "[]"])
next
  case (Suc n)
  let ?a = "A + of_nat (erase_offset sz j) - of_nat (j * sz)"
  obtain es where es: "run_state (erase_sector_loop j sz 0 ?a) s =
      (Inr (0, A + of_nat (erase_offset sz j)), after s es)"
    "flash_ready bz m lat (after s es)"
    "contents bz m (after s es) =
      erase_sector (sector_bytes bz) (A + of_nat (erase_offset sz j)) (contents bz m s)"
    using erase_sector_ready [OF Suc.prems, of j sz 0 ?a] by (auto simp: flash_op_def)
  have a: "A + of_nat (erase_offset sz j) =
      A + of_nat (erase_offset sz (Suc j)) - of_nat (Suc j * sz)" by simp
  obtain fs where fs: "run_state (erase_bank_loop n (Suc j) sz 0 (A + of_nat (erase_offset sz j)))
      (after s es) = (0, after s (es @ fs))"
    "flash_ready bz m lat (after s (es @ fs))"
    "contents bz m (after s (es @ fs)) =
      erase_sectors (sector_bytes bz) (map (\<lambda>k. A + of_nat (erase_offset sz k)) [Suc j..<Suc j + n])
        (contents bz m (after s es))"
    using Suc.IH [OF es(2), of "Suc j"] unfolding a [symmetric] by (auto simp: flash_op_def)
  have "[j..<j + Suc n] = j # [Suc j..<Suc j + n]"
    by (simp add: upt_conv_Cons del: upt_Suc)
  then show ?case
    unfolding flash_op_def
    using es fs by (intro exI [of _ "es @ fs"]) simp
qed


subsection \<open>Sequencing\<close>

lemma flash_opI:
  "run_state op s = (r, after s es) \<Longrightarrow> flash_ready bz m lat (after s es) \<Longrightarrow>
   contents bz m (after s es) = m' \<Longrightarrow> flash_op bz m lat s op r m'"
  by (auto simp: flash_op_def)

lemma flash_opE:
  assumes "flash_op bz m lat s op r m'"
  obtains es where "run_state op s = (r, after s es)" and "flash_ready bz m lat (after s es)"
    and "contents bz m (after s es) = m'"
  using assms by (auto simp: flash_op_def)

lemma flash_op_ret: "flash_ready bz m lat s \<Longrightarrow> flash_op bz m lat s (ret r) r (contents bz m s)"
  by (rule flash_opI [of _ _ _ "[]"]) simp_all

text \<open>Sequencing. The state in between is the old one with a longer log.\<close>

lemma flash_op_bind:
  assumes "flash_op bz m lat s op r m1"
    and "\<And>es. flash_ready bz m lat (after s es) \<Longrightarrow> contents bz m (after s es) = m1 \<Longrightarrow>
      flash_op bz m lat (after s es) (f r) r' m2"
  shows "flash_op bz m lat s (State_Monad.bind op f) r' m2"
proof -
  obtain es where es: "run_state op s = (r, after s es)" "flash_ready bz m lat (after s es)"
    "contents bz m (after s es) = m1" by (rule flash_opE [OF assms(1)])
  obtain fs where "run_state (f r) (after s es) = (r', after (after s es) fs)"
    "flash_ready bz m lat (after (after s es) fs)" "contents bz m (after (after s es) fs) = m2"
    by (rule flash_opE [OF assms(2) [OF es(2,3)]])
  with es show ?thesis by (intro flash_opI [of _ _ _ "es @ fs"]) simp_all
qed

lemma flash_op_gets:
  assumes "flash_op bz m lat s (f (g s)) r m'"
  shows "flash_op bz m lat s (State_Monad.bind (gets g) f) r m'"
  using assms by (simp add: flash_op_def)


subsection \<open>A chip for the examples\<close>

text \<open>A controller that finishes every cycle at once and reports erase size \<open>bz\<close>.\<close>

definition chip_dev :: "u16 \<Rightarrow> flash \<Rightarrow> event list \<Rightarrow> access \<Rightarrow> u32" where
  "chip_dev bz m l a =
     (if a = Flash16 ICH_FLASH_HSFSTS then 0x4001 OR push_bit 3 (ucast (take_bit 2 bz))
      else if a = Flash16 ICH_FLASH_HSFCTL
      then (case last_write (Flash16 ICH_FLASH_HSFCTL) l of Some w \<Rightarrow> w AND 0x306 | None \<Rightarrow> 0)
      else if a = Flash32 ICH_FLASH_FDATA0
      then (case last_read_cycle l of
              Some (x, c) \<Rightarrow> ucast (flash_mem bz m l x) OR push_bit 8 (ucast (flash_mem bz m l (x + 1)))
                OR push_bit 16 (ucast (flash_mem bz m l (x + 2)))
                OR push_bit 24 (ucast (flash_mem bz m l (x + 3)))
            | None \<Rightarrow> 0)
      else 0)"

lemma bit_4001: "bit (0x4001 :: u32) n \<longleftrightarrow> n \<in> {0, 14}" "bit (0x4001 :: u16) n \<longleftrightarrow> n \<in> {0, 14}"
  using bit_or_exp [of 0 14 n, where 'a = 32] bit_or_exp [of 0 14 n, where 'a = 16] by auto

lemma byte_of_join:
  fixes a b c d :: u8
  defines "w \<equiv> ucast a OR push_bit 8 (ucast b) OR push_bit 16 (ucast c) OR push_bit 24 (ucast d) :: u32"
  shows "byte_of w 0 = a" "byte_of w 1 = b" "byte_of w 2 = c" "byte_of w 3 = d"
  by (rule bit_eqI; auto simp: w_def bit_byte_of bit_or_iff bit_push_bit_iff bit_ucast_iff
      dest: bit_imp_le_length)+

lemma chip_dev_ok:
  assumes "bz < 4"
  shows "flash_chip bz m 0 (chip_dev bz m)"
proof -
  have bz: "take_bit 2 bz = bz"
    using assms by (simp add: word_unat_eq_iff unsigned_take_bit_eq take_bit_nat_eq_self
      word_less_nat_alt)
  have st: "bit (0x4001 OR push_bit 3 (ucast (take_bit 2 bz)) :: u32) 14"
    "\<not> bit (0x4001 OR push_bit 3 (ucast (take_bit 2 bz)) :: u32) 1"
    "\<not> bit (0x4001 OR push_bit 3 (ucast (take_bit 2 bz)) :: u32) 5"
    "bit (0x4001 OR push_bit 3 (ucast (take_bit 2 bz)) :: u32) 0"
    by (auto simp: bit_or_iff bit_push_bit_iff bit_ucast_iff bit_take_bit_iff bit_4001)
  have "hsf_berasesz (ucast (0x4001 OR push_bit 3 (ucast (take_bit 2 bz)) :: u32)) = take_bit 2 bz"
    unfolding hsf_berasesz_def
  proof (rule bit_eqI)
    fix n
    show "bit (take_bit 2 (drop_bit 3 (ucast (0x4001 OR push_bit 3 (ucast (take_bit 2 bz)) :: u32) :: u16))) n
      = bit (take_bit 2 bz) n"
      unfolding bit_take_bit_iff bit_drop_bit_eq comp_def bit_ucast_iff bit_or_iff bit_push_bit_iff
        bit_4001
      by (auto dest: bit_imp_le_length)
  qed
  then have sz: "hsf_berasesz (ucast (0x4001 OR push_bit 3 (ucast (take_bit 2 bz)) :: u32)) = bz"
    using bz by simp
  have by_: "byte_of (chip_dev bz m l (Flash32 ICH_FLASH_FDATA0)) (unat i) = flash_mem bz m l (a + i)"
    if "last_read_cycle l = Some (a, c)" "i < 4" for l a c i
  proof -
    have "i = 0 \<or> i = 1 \<or> i = 2 \<or> i = 3"
      using that(2) by (auto simp: word_less_nat_alt word_unat_eq_iff)
    then show ?thesis using that(1) by (auto simp: chip_dev_def byte_of_join simp del: One_nat_def)
  qed
  have ctl: "\<not> bit (case x of None \<Rightarrow> 0 | Some w \<Rightarrow> w AND (0x306 :: u32)) 0" for x
    by (simp add: bit_and_iff bit_0x306 split: option.split)
  show ?thesis
    unfolding flash_chip_def Let_def
    using st sz ctl by_ by (auto simp: chip_dev_def)
qed

end
