(* ===== verification/NvmProps.thy ===== *)
theory NvmProps
  imports Nvm Samples
begin

section \<open>What the generic NVM functions do\<close>

text \<open>
  The SPI bits on the wire, the polled reads of an EEPROM that answers, and the checksum over
  any NVM that reads and writes its words. The last is the interface of the checksum functions:
  the locale \<open>nvm_reader\<close> with its extension \<open>nvm_store\<close>, the first interpreted on the polled
  EEPROM reads below, the second on the shadow-RAM NVM in theory \<open>NvmIch8Props\<close>.
\<close>

subsection \<open>Polled reads\<close>

text \<open>
  A chip that answers a read command: from the 100000th poll on at the latest the done bit is
  set, a done register holds the word addressed, and it holds it until the next command.
\<close>

definition eerd_device :: "(u16 \<Rightarrow> u16) \<Rightarrow> (event list \<Rightarrow> access \<Rightarrow> u32) \<Rightarrow> bool" where
  "eerd_device mem dev =
     (\<forall>l a. last_write (Csr E1000_EERD) l = Some (push_bit 2 (ucast a) + 1) \<longrightarrow>
       (let v = dev l (Csr E1000_EERD) in
         (reads_since (Csr E1000_EERD) l \<ge> 99999 \<longrightarrow> v AND E1000_NVM_RW_REG_DONE \<noteq> 0) \<and>
         (v AND E1000_NVM_RW_REG_DONE \<noteq> 0 \<longrightarrow>
            (ucast (drop_bit E1000_NVM_RW_REG_DATA v) = mem a \<and>
             dev (Rd (Csr E1000_EERD) v # l) (Csr E1000_EERD) = v))))"

lemma poll_range: "fst (run_state (poll_eerd_eewr_loop n r) s) \<in> {0, -1}"
  by (induction n arbitrary: s) auto

lemma poll_eerd_prompt:
  assumes "\<And>l. last_write (Csr E1000_EERD) l = w \<Longrightarrow> reads_since (Csr E1000_EERD) l \<ge> 99999
      \<Longrightarrow> hw_dev s l (Csr E1000_EERD) AND 2 \<noteq> 0"
    and "last_write (Csr E1000_EERD) (hw_log s) = w"
    and "reads_since (Csr E1000_EERD) (hw_log s) + n \<ge> 100000" and "n > 0"
  obtains v l where "run_state (poll_eerd_eewr_loop n 0) s =
      (0, s\<lparr>hw_log := Rd (Csr E1000_EERD) v # l\<rparr>)"
    and "v = hw_dev s l (Csr E1000_EERD)" and "v AND 2 \<noteq> 0"
    and "last_write (Csr E1000_EERD) l = w"
    and "\<exists>es. l = es @ hw_log s"
proof -
  have "\<exists>v l. run_state (poll_eerd_eewr_loop n 0) s =
      (0, s\<lparr>hw_log := Rd (Csr E1000_EERD) v # l\<rparr>)
    \<and> v = hw_dev s l (Csr E1000_EERD) \<and> v AND 2 \<noteq> 0 \<and> last_write (Csr E1000_EERD) l = w
    \<and> (\<exists>es. l = es @ hw_log s)"
    using assms
  proof (induction n arbitrary: s)
    case 0
    then show ?case by simp
  next
    case (Suc n)
    let ?v = "hw_dev s (hw_log s) (Csr E1000_EERD)"
    show ?case
    proof (cases "?v AND 2 = 0")
      case False
      then show ?thesis
        using Suc.prems by (intro exI [of _ ?v] exI [of _ "hw_log s"]) (simp add: after_def)
    next
      case True
      let ?s = "s\<lparr>hw_log := IODelay 5 # Rd (Csr E1000_EERD) ?v # hw_log s\<rparr>"
      have more: "reads_since (Csr E1000_EERD) (hw_log s) < 99999"
        using Suc.prems(1) [OF Suc.prems(2)] True by force
      have "\<exists>v l. run_state (poll_eerd_eewr_loop n 0) ?s =
          (0, ?s\<lparr>hw_log := Rd (Csr E1000_EERD) v # l\<rparr>)
        \<and> v = hw_dev ?s l (Csr E1000_EERD) \<and> v AND 2 \<noteq> 0 \<and> last_write (Csr E1000_EERD) l = w
        \<and> (\<exists>es. l = es @ hw_log ?s)"
        by (rule Suc.IH) (use Suc.prems more in simp_all)
      then obtain v l es where vl: "run_state (poll_eerd_eewr_loop n 0) ?s =
          (0, ?s\<lparr>hw_log := Rd (Csr E1000_EERD) v # l\<rparr>)"
        "v = hw_dev s l (Csr E1000_EERD)" "v AND 2 \<noteq> 0" "last_write (Csr E1000_EERD) l = w"
        "l = es @ IODelay 5 # Rd (Csr E1000_EERD) ?v # hw_log s"
        by auto
      have "run_state (poll_eerd_eewr_loop (Suc n) 0) s = run_state (poll_eerd_eewr_loop n 0) ?s"
        using True by (simp add: after_def)
      then show ?thesis
        using vl by (intro exI [of _ v] exI [of _ l]) simp
    qed
  qed
  then show ?thesis using that by blast
qed


lemma ucast_offset: "unat offset + i < 2 ^ 16 \<Longrightarrow>
    (ucast (offset::u16) + of_nat i :: u32) = ucast (offset + of_nat i)"
  by (rule word_unat_eq_iff [THEN iffD2])
     (simp add: unat_word_ariths unat_of_nat unat_ucast_up)

lemma read_nvm_eerd_loop_ok:
  assumes "eerd_device mem (hw_dev s)" and "unat offset + i + n \<le> 2 ^ 16"
    and "i + n \<le> length data"
  shows "\<exists>l. run_state (read_nvm_eerd_loop n i offset data) s =
    ((0, take i data @ map (\<lambda>k. mem (offset + of_nat k)) [i..<i + n] @ drop (i + n) data),
     s\<lparr>hw_log := l @ hw_log s\<rparr>)"
  using assms
proof (induction n arbitrary: i data s)
  case 0
  then show ?case by (auto intro: exI [of _ "[]"])
next
  case (Suc n)
  let ?a = "offset + of_nat i"
  let ?w = "push_bit 2 (ucast ?a) + 1 :: u32"
  have w: "push_bit 2 (ucast offset + of_nat i) + 1 = ?w"
    using Suc.prems(2) by (simp add: ucast_offset)
  obtain es where es: "run_state (ew32 E1000_EERD ?w) s =
      ((), s\<lparr>hw_log := Wr (Csr E1000_EERD) ?w # es @ hw_log s\<rparr>)"
    by (rule run_ew32)
  let ?s1 = "s\<lparr>hw_log := Wr (Csr E1000_EERD) ?w # es @ hw_log s\<rparr>"
  obtain v l fs where poll: "run_state (poll_eerd_eewr_loop 100000 0) ?s1 =
      (0, ?s1\<lparr>hw_log := Rd (Csr E1000_EERD) v # l\<rparr>)"
    and v: "v = hw_dev s l (Csr E1000_EERD)" "v AND 2 \<noteq> 0"
    and l: "last_write (Csr E1000_EERD) l = Some ?w" "l = fs @ hw_log ?s1"
    by (rule poll_eerd_prompt [of "Some ?w" ?s1 100000])
       (use Suc.prems(1) in \<open>auto simp: eerd_device_def Let_def\<close>)
  have mem: "ucast (drop_bit 16 v) = mem ?a"
    and again: "hw_dev s (Rd (Csr E1000_EERD) v # l) (Csr E1000_EERD) = v"
    using Suc.prems(1) l(1) v by (auto simp: eerd_device_def Let_def)
  let ?d = "data[i := mem ?a]"
  let ?s2 = "s\<lparr>hw_log := Rd (Csr E1000_EERD) v # Rd (Csr E1000_EERD) v # l\<rparr>"
  obtain k where IH: "run_state (read_nvm_eerd_loop n (Suc i) offset ?d) ?s2 =
    ((0, take (Suc i) ?d @ map (\<lambda>k. mem (offset + of_nat k)) [Suc i..<Suc i + n] @
        drop (Suc i + n) ?d), ?s2\<lparr>hw_log := k @ hw_log ?s2\<rparr>)"
    using Suc.IH [of ?s2 "Suc i" ?d] Suc.prems by auto
  have "run_state (read_nvm_eerd_loop (Suc n) i offset data) s =
      run_state (read_nvm_eerd_loop n (Suc i) offset ?d) ?s2"
    using es poll again mem by (simp add: w e1000e_poll_eerd_eewr_done_def after_def)
  moreover have "take (Suc i) ?d = take i data @ [mem ?a]"
    using Suc.prems(3) by (simp add: take_Suc_conv_app_nth)
  moreover have "[i..<i + Suc n] = i # [Suc i..<Suc i + n]"
    by (simp add: upt_conv_Cons del: upt_Suc)
  ultimately show ?case
    using IH Suc.prems(3)
    by (intro exI [of _ "k @ [Rd (Csr E1000_EERD) v, Rd (Csr E1000_EERD) v] @ fs @
        [Wr (Csr E1000_EERD) ?w] @ es"]) (simp add: l(2))
qed

lemma nvm_bad_range_iff:
  "nvm_bad_range s offset words \<longleftrightarrow>
     unat (nvm_word_size (hw_nvm s)) \<le> unat offset \<or>
     unat (nvm_word_size (hw_nvm s)) < unat offset + unat words \<or> words = 0"
  unfolding nvm_bad_range_def word_le_nat_alt by linarith

subsection \<open>Bits on the wire\<close>

text \<open>
  \<open>clocked p ws\<close>: the levels of the data line at the rising edges of the clock, for the values
  \<open>ws\<close> written to \<open>EECD\<close> after the value \<open>p\<close>. The EEPROM samples the line there.
\<close>

lemma steps_nvm_udelay: obtains d where "steps s nvm_udelay () [IODelay d]"
  by (rule that [of "unat (nvm_delay_usec (hw_nvm s))"]) (simp add: steps_def nvm_udelay_def)

text \<open>Writing \<open>EECD\<close>, then a flush and a delay.\<close>

definition eecd_put :: "u32 \<Rightarrow> unit hwM" where
  "eecd_put v = do { ew32 E1000_EECD v; e1e_flush; nvm_udelay }"

lemma eecd_put_steps:
  obtains es where "steps s (eecd_put v) () es" and "written (Csr E1000_EECD) es = [v]"
    and "values_read (Csr E1000_EECD) es = []"
proof -
  obtain es where es: "steps s (ew32 E1000_EECD v) () (es @ [Wr (Csr E1000_EECD) v])"
    "list_all (not_wr (Csr E1000_EECD)) es"
    "\<And>b. b \<noteq> Csr E1000_FWSM \<Longrightarrow> values_read b es = []"
    by (rule steps_ew32) blast
  let ?s = "after s (es @ [Wr (Csr E1000_EECD) v])"
  obtain w where w: "steps ?s e1e_flush () [Rd (Csr E1000_STATUS) w]"
    by (rule steps_e1e_flush)
  obtain d where d: "steps (after ?s [Rd (Csr E1000_STATUS) w]) nvm_udelay () [IODelay d]"
    by (rule steps_nvm_udelay)
  show ?thesis
    by (rule that [of "(es @ [Wr (Csr E1000_EECD) v]) @ [Rd (Csr E1000_STATUS) w] @ [IODelay d]"])
       (use es w d in \<open>simp_all add: eecd_put_def written_none steps_iff\<close>)
qed

lemma raise_put: "e1000_raise_eec_clk v = do { eecd_put (v OR 1); ret (v OR 1) }"
  by (simp add: e1000_raise_eec_clk_def eecd_put_def Let_def)

lemma lower_put: "e1000_lower_eec_clk v = do { eecd_put (v AND NOT 1); ret (v AND NOT 1) }"
  by (simp add: e1000_lower_eec_clk_def eecd_put_def Let_def)

definition di_level :: "u16 \<Rightarrow> u32 \<Rightarrow> u32 \<Rightarrow> u32" where
  "di_level data msk eecd =
     (if ucast data AND msk \<noteq> 0 then (eecd AND NOT E1000_EECD_DI) OR E1000_EECD_DI
      else eecd AND NOT E1000_EECD_DI)"

fun clocked :: "u32 \<Rightarrow> u32 list \<Rightarrow> bool list" where
  "clocked p [] = []"
| "clocked p (w # ws) = (if \<not> bit p 0 \<and> bit w 0 then bit w 2 # clocked w ws else clocked w ws)"

lemma clocked_append: "clocked p (xs @ ys) = clocked p xs @ clocked (last (p # xs)) ys"
  by (induction xs arbitrary: p) auto

definition eecd_pulse :: "u32 \<Rightarrow> unit hwM" where
  "eecd_pulse e = do { eecd_put e; eecd_put (e OR 1); eecd_put ((e OR 1) AND NOT 1) }"

lemma eecd_pulse_steps:
  obtains es where "steps s (eecd_pulse e) () es"
    and "written (Csr E1000_EECD) es = [e, e OR 1, (e OR 1) AND NOT 1]"
    and "values_read (Csr E1000_EECD) es = []"
proof -
  obtain es where es: "steps s (eecd_put e) () es" "written (Csr E1000_EECD) es = [e]"
    "values_read (Csr E1000_EECD) es = []" by (rule eecd_put_steps)
  obtain fs where fs: "steps (after s es) (eecd_put (e OR 1)) () fs"
    "written (Csr E1000_EECD) fs = [e OR 1]"
    "values_read (Csr E1000_EECD) fs = []" by (rule eecd_put_steps)
  obtain gs where gs: "steps (after s (es @ fs)) (eecd_put ((e OR 1) AND NOT 1)) () gs"
    "written (Csr E1000_EECD) gs = [(e OR 1) AND NOT 1]"
    "values_read (Csr E1000_EECD) gs = []" by (rule eecd_put_steps)
  show ?thesis
    by (rule that [of "es @ fs @ gs"])
       (use es fs gs in \<open>simp_all add: eecd_pulse_def steps_iff\<close>)
qed

lemma shift_out_step:
  "shift_out_loop data msk eecd =
     (let e = di_level data msk eecd; r = (e OR 1) AND NOT 1 in do {
        eecd_pulse e;
        if drop_bit 1 msk \<noteq> 0 then shift_out_loop data (drop_bit 1 msk) r else ret r })"
  by (subst shift_out_loop.simps)
     (simp add: raise_put lower_put eecd_put_def eecd_pulse_def di_level_def Let_def)

lemma bit_1_u32: "bit (1 :: u32) n \<longleftrightarrow> n = 0"
  by (auto simp: bit_1_iff)

lemma bit_4_u32: "bit (4 :: u32) n \<longleftrightarrow> n = 2"
  using bit_exp_iff [of 2 n, where 'a = u32] by auto

lemma bit_4_int: "bit (4 :: int) n \<longleftrightarrow> n = 2"
  using bit_exp_iff [of 2 n, where 'a = int] by auto

lemma bit_di_level:
  "bit (di_level data msk eecd) n \<longleftrightarrow>
     (if n = 2 then ucast data AND msk \<noteq> 0 else bit eecd n)"
  by (cases "n < 32") (auto simp: di_level_def bit_simps bit_4_u32 bit_4_int dest: bit_imp_le_length)

lemma data_bit: "(ucast (data :: u16) AND 2 ^ k \<noteq> (0 :: u32)) \<longleftrightarrow> bit data k"
  by (auto simp: and_exp_eq_0_iff_not_bit bit_simps dest: bit_imp_le_length)

lemma shift_out_loop_steps:
  fixes data :: u16
  assumes "\<not> bit eecd 0" and "k < 16"
  shows "\<exists>es r. steps s (shift_out_loop data (2 ^ k) eecd) r es \<and> \<not> bit r 0 \<and>
    values_read (Csr E1000_EECD) es = [] \<and>
    clocked eecd (written (Csr E1000_EECD) es) = map (bit data) (rev [0..<Suc k]) \<and>
    (\<forall>w \<in> set (r # written (Csr E1000_EECD) es). \<forall>n. n \<notin> {0, 2} \<longrightarrow> bit w n = bit eecd n)"
  using assms
proof (induction k arbitrary: s eecd)
  case 0
  define e where "e = di_level data (2 ^ 0) eecd"
  obtain es where es: "steps s (eecd_pulse e) () es"
    "written (Csr E1000_EECD) es = [e, e OR 1, (e OR 1) AND NOT 1]"
    "values_read (Csr E1000_EECD) es = []" by (rule eecd_pulse_steps)
  have "steps s (shift_out_loop data (2 ^ 0) eecd) ((e OR 1) AND NOT 1) es"
    using es(1) by (subst shift_out_step) (simp add: e_def Let_def steps_iff)
  moreover have e: "\<not> bit e 0" "bit e 2 = bit data 0"
    "n \<notin> {0, 2} \<Longrightarrow> bit e n = bit eecd n" for n
    using 0 data_bit [of data 0] by (auto simp: e_def bit_di_level)
  ultimately show ?case
    using es 0 by (intro exI [of _ es] exI [of _ "(e OR 1) AND NOT 1"])
      (auto simp: bit_simps bit_1_u32 dest: bit_imp_le_length)
next
  case (Suc k)
  define e where "e = di_level data (2 ^ Suc k) eecd"
  define r where "r = (e OR 1) AND NOT 1"
  have e0: "\<not> bit e 0" and e2: "bit e 2 = bit data (Suc k)"
    and en: "n \<notin> {0, 2} \<Longrightarrow> bit e n = bit eecd n" for n
    using Suc.prems data_bit [of data "Suc k"] by (auto simp: e_def bit_di_level)
  obtain es where es: "steps s (eecd_pulse e) () es"
    "written (Csr E1000_EECD) es = [e, e OR 1, r]"
    "values_read (Csr E1000_EECD) es = []" unfolding r_def by (rule eecd_pulse_steps)
  have r0: "\<not> bit r 0" by (simp add: r_def bit_simps bit_1_u32)
  have rn: "n \<notin> {0, 2} \<Longrightarrow> bit r n = bit eecd n" for n
    using en by (auto simp: r_def bit_simps bit_1_u32 dest: bit_imp_le_length)
  obtain fs q where IH: "steps (after s es) (shift_out_loop data (2 ^ k) r) q fs"
    "\<not> bit q 0" "values_read (Csr E1000_EECD) fs = []"
    "clocked r (written (Csr E1000_EECD) fs) = map (bit data) (rev [0..<Suc k])"
    "\<forall>w \<in> set (q # written (Csr E1000_EECD) fs). \<forall>n. n \<notin> {0, 2} \<longrightarrow> bit w n = bit r n"
    using Suc.IH [OF r0] Suc.prems(2) Suc_lessD by blast
  have msk: "drop_bit 1 (2 ^ Suc k :: u32) = 2 ^ k" "2 ^ k \<noteq> (0 :: u32)"
    using Suc.prems(2) by (auto intro!: bit_eqI simp: bit_simps bit_1_u32 push_bit_eq_mult)
  have "steps s (shift_out_loop data (2 ^ Suc k) eecd) q (es @ fs)"
    using es(1) IH(1) msk
    by (subst shift_out_step)
       (simp only: e_def [symmetric] r_def [symmetric] Let_def steps_iff run_state_bind prod.case
          run_if after_after simp_thms if_True)
  then show ?case
    using es IH e0 e2 r0 en rn
    by (intro exI [of _ "es @ fs"] exI [of _ q]) (auto simp: bit_simps bit_1_u32)
qed


lemma clocked_start: "\<not> bit p 0 \<Longrightarrow> \<not> bit q 0 \<Longrightarrow> clocked p ws = clocked q ws"
  by (cases ws) auto

lemma shift_out_eec_bits_steps:
  assumes "0 < count" and "count \<le> 16" and "\<not> bit (hw_dev s (hw_log s) (Csr E1000_EECD)) 0"
  shows "\<exists>es. steps s (e1000_shift_out_eec_bits data count) () es \<and>
    clocked 0 (written (Csr E1000_EECD) es) = map (bit data) (rev [0..<unat count]) \<and>
    written (Csr E1000_EECD) es \<noteq> [] \<and>
    \<not> bit (last (written (Csr E1000_EECD) es)) 0 \<and> \<not> bit (last (written (Csr E1000_EECD) es)) 2"
proof -
  obtain k where k: "unat count = Suc k" "k < 16"
    using assms(1,2) by (cases "unat count") (auto simp: word_le_nat_alt unat_eq_zero)
  let ?v = "hw_dev s (hw_log s) (Csr E1000_EECD)"
  define e where "e = (if nvm_type (hw_nvm s) = e1000_nvm_eeprom_spi then ?v OR E1000_EECD_DO else ?v)"
  have e0: "\<not> bit e 0" using assms(3) by (simp add: e_def bit_simps)
  let ?s = "after s [Rd (Csr E1000_EECD) ?v]"
  obtain es r where es: "steps ?s (shift_out_loop data (2 ^ k) e) r es" "\<not> bit r 0"
    "clocked e (written (Csr E1000_EECD) es) = map (bit data) (rev [0..<Suc k])"
    using shift_out_loop_steps [OF e0 k(2)] by blast
  obtain fs where fs: "steps (after ?s es) (ew32 E1000_EECD (r AND NOT E1000_EECD_DI)) ()
      (fs @ [Wr (Csr E1000_EECD) (r AND NOT E1000_EECD_DI)])"
    "list_all (not_wr (Csr E1000_EECD)) fs"
    by (rule steps_ew32) blast
  let ?es = "[Rd (Csr E1000_EECD) ?v] @ es @ fs @ [Wr (Csr E1000_EECD) (r AND NOT E1000_EECD_DI)]"
  have rd: "run_state (er32 E1000_EECD) s = (?v, ?s)"
    by (simp add: after_def)
  have "steps s (e1000_shift_out_eec_bits data count) () ?es"
    using es(1) fs(1) k rd
    by (simp add: e1000_shift_out_eec_bits_def steps_iff Let_def e_def [symmetric]
        push_bit_of_1 del: run_er32)
  moreover have "clocked 0 (written (Csr E1000_EECD) ?es) = map (bit data) (rev [0..<unat count])"
    using es(2,3) fs(2) k(1) e0 clocked_start [OF e0, of 0 "written (Csr E1000_EECD) es"]
    by (simp add: written_none clocked_append bit_simps)
  ultimately show ?thesis
    using es(2) by (intro exI [of _ ?es]) (auto simp: bit_simps bit_4_int)
qed

lemma bit_shift_in:
  "j < 16 \<Longrightarrow> bit (push_bit 1 (x :: u16) OR (if c then 1 else 0)) j \<longleftrightarrow>
     (if j = 0 then c else bit x (j - 1))"
  unfolding bit_or_iff bit_push_bit_iff
  by (cases c) (auto simp: bit_1_iff)

lemma foldl_bits:
  fixes d :: u16
  assumes "length vs \<le> 16" and "d = 0" and "j < 16"
  shows "bit (foldl (\<lambda>d v. push_bit 1 d OR (if f v then 1 else 0)) d vs) j \<longleftrightarrow>
    j < length vs \<and> f (vs ! (length vs - 1 - j))"
  using assms
proof (induction vs arbitrary: j rule: rev_induct)
  case Nil
  then show ?case by simp
next
  case (snoc v vs)
  have "bit (foldl (\<lambda>d v. push_bit 1 d OR (if f v then 1 else 0)) d (vs @ [v])) j \<longleftrightarrow>
      (if j = 0 then f v
       else bit (foldl (\<lambda>d v. push_bit 1 d OR (if f v then 1 else 0)) d vs) (j - 1))"
    using bit_shift_in [OF snoc.prems(3)] by (simp only: foldl_append foldl.simps)
  also have "\<dots> \<longleftrightarrow> (if j = 0 then f v else j - 1 < length vs \<and> f (vs ! (length vs - 1 - (j - 1))))"
    using snoc.IH [of "j - 1"] snoc.prems by simp
  also have "\<dots> \<longleftrightarrow> j < length (vs @ [v]) \<and> f ((vs @ [v]) ! (length (vs @ [v]) - 1 - j))"
    by (cases j) (auto simp: nth_append)
  finally show ?case .
qed

lemma shift_in_loop_steps:
  assumes "\<not> bit eecd 0" and "\<not> bit eecd 2"
  shows "\<exists>es r. steps s (shift_in_loop n eecd data) r es \<and>
    length (values_read (Csr E1000_EECD) es) = n \<and>
    r = foldl (\<lambda>d v. push_bit 1 d OR (if bit v 3 then 1 else 0)) data
          (values_read (Csr E1000_EECD) es) \<and>
    clocked eecd (written (Csr E1000_EECD) es) = replicate n False"
  using assms
proof (induction n arbitrary: s eecd data)
  case 0
  then show ?case by (auto simp: steps_ret intro!: exI [of _ "[]"])
next
  case (Suc n)
  obtain es where es: "steps s (eecd_put (eecd OR 1)) () es"
    "written (Csr E1000_EECD) es = [eecd OR 1]" "values_read (Csr E1000_EECD) es = []"
    by (rule eecd_put_steps)
  let ?s1 = "after s es"
  define v where "v = hw_dev s (rev es @ hw_log s) (Csr E1000_EECD)"
  let ?s2 = "after s (es @ [Rd (Csr E1000_EECD) v])"
  have rd: "run_state (er32 E1000_EECD) ?s1 = (v, ?s2)"
    by (simp add: v_def after_def)
  define e where "e = (v AND NOT E1000_EECD_DI) AND NOT 1"
  obtain fs where fs: "steps ?s2 (eecd_put e) () fs"
    "written (Csr E1000_EECD) fs = [e]" "values_read (Csr E1000_EECD) fs = []"
    by (rule eecd_put_steps)
  have e: "\<not> bit e 0" "\<not> bit e 2"
    by (simp_all add: e_def bit_simps bit_4_u32 bit_4_int)
  let ?d = "push_bit 1 data OR (if bit v 3 then 1 else 0)"
  obtain gs r where gs: "steps (after ?s2 fs) (shift_in_loop n e ?d) r gs"
    "length (values_read (Csr E1000_EECD) gs) = n"
    "r = foldl (\<lambda>d v. push_bit 1 d OR (if bit v 3 then 1 else 0)) ?d
          (values_read (Csr E1000_EECD) gs)"
    "clocked e (written (Csr E1000_EECD) gs) = replicate n False"
    using Suc.IH [OF e] by blast
  have v3: "(v AND NOT E1000_EECD_DI) AND E1000_EECD_DO \<noteq> 0 \<longleftrightarrow> bit v 3"
    using and_exp_eq_0_iff_not_bit [of "v AND NOT E1000_EECD_DI" 3]
    by (simp add: bit_simps bit_4_int)
  have d: "(if (v AND NOT E1000_EECD_DI) AND E1000_EECD_DO \<noteq> 0 then push_bit 1 data OR 1
      else push_bit 1 data) = ?d"
    unfolding v3 by simp
  have "steps s (shift_in_loop (Suc n) eecd data) r (es @ [Rd (Csr E1000_EECD) v] @ fs @ gs)"
    using es(1) rd fs(1) gs(1)
    by (simp only: steps_iff shift_in_loop.simps raise_put lower_put Let_def d e_def [symmetric]
        run_state_bind run_state_return prod.case after_after append_assoc)
  then show ?case
    using es fs gs Suc.prems
    by (intro exI [of _ "es @ [Rd (Csr E1000_EECD) v] @ fs @ gs"] exI [of _ r])
       (simp add: bit_simps)
qed

subsection \<open>The checksum of an NVM that reads and writes its words\<close>

locale nvm_reader =
  fixes ops :: "'o nvm_operations_scheme"
    and inv :: "e1000_hw \<Rightarrow> bool"
    and word_at :: "e1000_hw \<Rightarrow> u16 \<Rightarrow> u16"
    and words :: nat
  assumes rd: "inv s \<Longrightarrow> unat a < words \<Longrightarrow>
      \<exists>t. run_state (op_nvm_read ops a 1 [0]) s = ((0, [word_at s a]), t) \<and>
        inv t \<and> word_at t = word_at s"
begin

lemma read1:
  assumes "inv s" and "unat a < words"
  obtains t where "run_state (e1000_read_nvm1 ops a) s = ((0, word_at s a), t)" and "inv t"
    and "word_at t = word_at s"
  using rd [OF assms] that by (auto simp: e1000_read_nvm1_def)

lemma sum_loop:
  assumes "inv s" and "unat i + n \<le> words" and "words \<le> 2 ^ 16"
  shows "\<exists>t. run_state (nvm_sum_loop n i ops c) s =
      ((0, c + sum_list (map (\<lambda>k. word_at s (i + of_nat k)) [0..<n])), t) \<and>
      inv t \<and> word_at t = word_at s"
  using assms
proof (induction n arbitrary: s i c)
  case 0
  then show ?case by simp
next
  case (Suc n)
  obtain t where t: "run_state (e1000_read_nvm1 ops i) s = ((0, word_at s i), t)" "inv t"
    "word_at t = word_at s"
    by (rule read1) (use Suc.prems in auto)
  show ?case
  proof (cases n)
    case 0
    then show ?thesis using t by simp
  next
    case (Suc m)
    have "unat i + 1 < 2 ^ 16" using Suc.prems(2,3) Suc by simp
    then have i: "unat (i + 1) = Suc (unat i)" by (simp add: unat_word_ariths)
    obtain u where u: "run_state (nvm_sum_loop n (i + 1) ops (c + word_at s i)) t =
        ((0, c + word_at s i + sum_list (map (\<lambda>k. word_at t (i + 1 + of_nat k)) [0..<n])), u)"
      "inv u" "word_at u = word_at t"
      using Suc.IH [OF t(2), of "i + 1"] Suc.prems i by auto
    have "sum_list (map (\<lambda>k. word_at s (i + of_nat k)) [0..<Suc n]) =
        word_at s i + sum_list (map (\<lambda>k. word_at s (i + 1 + of_nat k)) [0..<n])"
      by (simp add: upt_conv_Cons map_Suc_upt [symmetric] comp_def add.assoc del: upt_Suc)
    with t u show ?thesis by (simp add: add.assoc)
  qed
qed

end

definition nvm_sum :: "nat \<Rightarrow> (u16 \<Rightarrow> u16) \<Rightarrow> u16" where
  "nvm_sum n w = sum_list (map (\<lambda>k. w (of_nat k)) [0..<n])"

lemma nvm_sum_Suc: "nvm_sum (Suc n) w = nvm_sum n w + w (of_nat n)"
  by (simp add: nvm_sum_def)

lemma nvm_sum_upd: "n \<le> 63 \<Longrightarrow> nvm_sum n (w(0x3F := v)) = nvm_sum n w"
proof (induction n)
  case (Suc n)
  then have "unat (of_nat n :: u16) = n"
    by (simp add: unat_of_nat take_bit_nat_eq_self)
  then have "(of_nat n :: u16) \<noteq> 0x3F"
    using Suc.prems by auto
  then show ?case using Suc by (simp add: nvm_sum_Suc)
qed (simp add: nvm_sum_def)

context nvm_reader begin

lemma validate:
  assumes "inv s" and "0x40 \<le> words" and "words \<le> 2 ^ 16"
  obtains t where "run_state (e1000e_validate_nvm_checksum_generic ops) s =
      (if nvm_sum 64 (word_at s) = NVM_SUM then 0 else - 1, t)"
    and "inv t" and "word_at t = word_at s"
proof -
  obtain t where "run_state (nvm_sum_loop 64 0 ops 0) s = ((0, nvm_sum 64 (word_at s)), t)"
    "inv t" "word_at t = word_at s"
    using sum_loop [OF assms(1), of 0 64 0] assms(2,3) by (auto simp: nvm_sum_def)
  then show ?thesis
    by (intro that [of t]) (simp_all add: e1000e_validate_nvm_checksum_generic_def)
qed

end

locale nvm_store = nvm_reader +
  assumes wr: "inv s \<Longrightarrow> unat a < words \<Longrightarrow>
      \<exists>t. run_state (op_nvm_write ops a 1 [v]) s = (0, t) \<and> inv t \<and> word_at t = (word_at s)(a := v)"
begin

lemma update:
  assumes "inv s" and "0x40 \<le> words" and "words \<le> 2 ^ 16"
  obtains t where "run_state (e1000e_update_nvm_checksum_generic ops) s = (0, t)"
    and "inv t" and "word_at t = (word_at s)(0x3F := NVM_SUM - nvm_sum 63 (word_at s))"
proof -
  obtain u where u: "run_state (nvm_sum_loop 63 0 ops 0) s = ((0, nvm_sum 63 (word_at s)), u)"
    "inv u" "word_at u = word_at s"
    using sum_loop [OF assms(1), of 0 63 0] assms(2,3) by (auto simp: nvm_sum_def)
  obtain t where "run_state (op_nvm_write ops 0x3F 1 [NVM_SUM - nvm_sum 63 (word_at s)]) u = (0, t)"
    "inv t" "word_at t = (word_at u)(0x3F := NVM_SUM - nvm_sum 63 (word_at s))"
    using wr [OF u(2), of "0x3F"] assms(2) by auto
  with u show ?thesis
    by (intro that) (simp_all add: e1000e_update_nvm_checksum_generic_def)
qed

lemma update_validate:
  assumes "inv s" and "0x40 \<le> words" and "words \<le> 2 ^ 16"
  obtains t where "run_state (do { e1000e_update_nvm_checksum_generic ops;
        e1000e_validate_nvm_checksum_generic ops }) s = (0, t)"
    and "inv t" and "word_at t = (word_at s)(0x3F := NVM_SUM - nvm_sum 63 (word_at s))"
proof -
  obtain u where u: "run_state (e1000e_update_nvm_checksum_generic ops) s = (0, u)" "inv u"
    "word_at u = (word_at s)(0x3F := NVM_SUM - nvm_sum 63 (word_at s))"
    by (rule update [OF assms])
  have "nvm_sum 64 (word_at u) = NVM_SUM"
    using nvm_sum_Suc [of 63 "word_at u"] nvm_sum_upd [of 63] by (simp add: u(3))
  moreover obtain t where "run_state (e1000e_validate_nvm_checksum_generic ops) u =
      (if nvm_sum 64 (word_at u) = NVM_SUM then 0 else - 1, t)" "inv t" "word_at t = word_at u"
    by (rule validate [OF u(2) assms(2,3)])
  ultimately show ?thesis using u by (intro that) simp_all
qed

end

text \<open>A chip for the examples, which answers at once from the words \<open>mem\<close>.\<close>

definition eerd_dev :: "(u16 \<Rightarrow> u16) \<Rightarrow> event list \<Rightarrow> access \<Rightarrow> u32" where
  "eerd_dev mem l a =
     (case last_write (Csr E1000_EERD) l of
        Some w \<Rightarrow> push_bit 16 (ucast (mem (ucast (drop_bit 2 w)))) OR 2
      | None \<Rightarrow> 0)"

lemma eerd_dev_ok: "eerd_device mem (eerd_dev mem)"
proof -
  have a: "ucast (drop_bit 2 (push_bit 2 (ucast a) + 1 :: u32)) = a" for a :: u16
  proof -
    have "push_bit 2 (ucast a) + 1 = (push_bit 2 (ucast a) OR 1 :: u32)"
      by (rule disjunctive_add) (auto simp: bit_simps bit_1_iff)
    then show ?thesis
      by (auto intro!: bit_eqI simp: bit_ucast_iff bit_drop_bit_eq bit_or_iff bit_push_bit_iff
          bit_1_iff dest: bit_imp_le_length)
  qed
  have b: "bit (2 :: u32) n \<longleftrightarrow> n = 1" for n
    using bit_exp_iff [of 1 n, where 'a = u32] by auto
  have d: "ucast (drop_bit 16 (push_bit 16 (ucast v) :: u32)) = v" for v :: u16
    by (auto intro!: bit_eqI simp: bit_ucast_iff bit_drop_bit_eq bit_push_bit_iff
        dest: bit_imp_le_length)
  have "(v OR 2) AND 2 = (2 :: u32)" for v
    by (rule bit_eqI) (auto simp: bit_simps b)
  then show ?thesis
    by (auto simp: eerd_device_def eerd_dev_def Let_def a d)
qed

text \<open>On a chip that answers read commands, a polled read of a range inside the NVM returns
  success and exactly the words addressed, one command per word, and changes nothing but the log.\<close>

theorem read_nvm_eerd_correct:
  assumes "eerd_device mem (hw_dev s)" and "\<not> nvm_bad_range s offset words"
    and "length data = unat words"
  shows "\<exists>l. run_state (e1000e_read_nvm_eerd offset words data) s =
    ((0, map (\<lambda>k. mem (offset + of_nat k)) [0..<unat words]), s\<lparr>hw_log := l @ hw_log s\<rparr>)"
proof -
  have "unat (nvm_word_size (hw_nvm s)) < 2 ^ 16"
    using unsigned_less [of "nvm_word_size (hw_nvm s)"] by simp
  then have "unat offset + unat words \<le> 2 ^ 16"
    using assms(2) by (simp add: nvm_bad_range_iff)
  then show ?thesis
    using read_nvm_eerd_loop_ok [OF assms(1), of offset 0 "unat words" data] assms(2,3)
    by (simp add: e1000e_read_nvm_eerd_def)
qed

theorem read_nvm_eerd_correct_witness:
  "\<exists>l. run_state (e1000e_read_nvm_eerd 5 2 [0, 0]) (sample_hw (eerd_dev (\<lambda>a. a + 7))) =
    ((0, [12, 13]), (sample_hw (eerd_dev (\<lambda>a. a + 7)))\<lparr>hw_log := l\<rparr>)"
  using read_nvm_eerd_correct [of "\<lambda>a. a + 7" "sample_hw (eerd_dev (\<lambda>a. a + 7))" 5 2 "[0, 0]"]
  by (auto simp: eerd_dev_ok nvm_bad_range_def upt_rec)

text \<open>A table of operations that reads by polling meets the contract of the checksum functions.\<close>

interpretation eerd: nvm_reader "tb\<lparr>op_nvm_read := e1000e_read_nvm_eerd\<rparr>"
  "\<lambda>s. eerd_device mem (hw_dev s) \<and> nvm_word_size (hw_nvm s) = size" "\<lambda>_. mem" "unat size"
  for tb :: "'o nvm_operations_scheme" and mem size
proof unfold_locales
  fix s :: e1000_hw and a :: u16
  assume s: "eerd_device mem (hw_dev s) \<and> nvm_word_size (hw_nvm s) = size" and a: "unat a < unat size"
  then have "\<not> nvm_bad_range s a 1" by (simp add: nvm_bad_range_iff)
  from read_nvm_eerd_correct [OF conjunct1 [OF s] this, of "[0]"] s
  show "\<exists>t. run_state (op_nvm_read (tb\<lparr>op_nvm_read := e1000e_read_nvm_eerd\<rparr>) a 1 [0]) s = ((0, [mem a]), t) \<and>
      (eerd_device mem (hw_dev t) \<and> nvm_word_size (hw_nvm t) = size) \<and> mem = mem"
    by auto
qed

text \<open>So validation over polled reads succeeds exactly on the right sum.\<close>

lemma validate_polled:
  assumes "eerd_device mem (hw_dev s)" and "0x40 \<le> unat (nvm_word_size (hw_nvm s))"
  shows "fst (run_state (e1000e_validate_nvm_checksum_generic (tb\<lparr>op_nvm_read := e1000e_read_nvm_eerd\<rparr>)) s) =
    (if nvm_sum 64 mem = NVM_SUM then 0 else - 1)"
proof -
  have "unat (nvm_word_size (hw_nvm s)) < 2 ^ 16"
    using unsigned_less [of "nvm_word_size (hw_nvm s)"] by simp
  then have "unat (nvm_word_size (hw_nvm s)) \<le> 2 ^ 16" by simp
  from eerd.validate [OF conjI [OF assms(1) refl] assms(2) this, of tb] show ?thesis by fastforce
qed

text \<open>Whatever the chip does, shifting out a word of up to 16 bits with the clock low puts the
  bits on the data line most significant first, one per rising edge of the clock, and leaves
  the clock and the data line low.\<close>

theorem shift_out_on_wire:
  assumes "0 < count" and "count \<le> 16" and "\<not> bit (hw_dev s (hw_log s) (Csr E1000_EECD)) 0"
  shows "let t = snd (run_state (e1000_shift_out_eec_bits data count) s);
             ws = written (Csr E1000_EECD) (new_events s t)
         in t = after s (new_events s t) \<and>
            clocked 0 ws = map (bit data) (rev [0..<unat count]) \<and>
            \<not> bit (last ws) 0 \<and> \<not> bit (last ws) 2"
  using shift_out_eec_bits_steps [OF assms, of data] by (auto simp: steps_iff Let_def)

theorem shift_out_on_wire_witness:
  "clocked 0 (written (Csr E1000_EECD) (new_events (sample_hw (\<lambda>_ _. 0))
     (snd (run_state (e1000_shift_out_eec_bits NVM_WREN_OPCODE_SPI 8) (sample_hw (\<lambda>_ _. 0)))))) =
   [False, False, False, False, False, True, True, False]"
proof -
  have "rev [0..<unat (8 :: u16)] = [7, 6, 5, 4, 3, 2, 1, 0]" by (simp add: upt_rec)
  then show ?thesis
    using shift_out_on_wire [of 8 "sample_hw (\<lambda>_ _. 0)" NVM_WREN_OPCODE_SPI]
    by (simp add: Let_def bit_numeral_rec)
qed

text \<open>Shifting in raises the clock once for every bit and reads the data line while it is
  high: bit \<open>j\<close> of the result is the level in the read that is \<open>count - j\<close>-th after the first.\<close>

theorem shift_in_from_wire:
  assumes "count \<le> 16" and "\<not> bit (hw_dev s (hw_log s) (Csr E1000_EECD)) 0" and "j < 16"
  shows "let (r, t) = run_state (e1000_shift_in_eec_bits count) s;
             rs = values_read (Csr E1000_EECD) (new_events s t)
         in t = after s (new_events s t) \<and> length rs = unat count + 1 \<and>
            clocked 0 (written (Csr E1000_EECD) (new_events s t)) = replicate (unat count) False \<and>
            bit r j = (j < unat count \<and> bit (rs ! (unat count - j)) 3)"
proof -
  let ?v = "hw_dev s (hw_log s) (Csr E1000_EECD)"
  let ?s = "after s [Rd (Csr E1000_EECD) ?v]"
  define e where "e = ?v AND NOT (E1000_EECD_DO OR E1000_EECD_DI)"
  have e: "\<not> bit e 0" "\<not> bit e 2"
    using assms(2) bit_or_exp [of 3 2 _, where 'a = 32]
    by (simp_all add: e_def bit_and_iff bit_not_iff bit_numeral_rec)
  obtain es r where es: "steps ?s (shift_in_loop (unat count) e 0) r es"
    "length (values_read (Csr E1000_EECD) es) = unat count"
    "r = foldl (\<lambda>d v. push_bit 1 d OR (if bit v 3 then 1 else 0)) 0
          (values_read (Csr E1000_EECD) es)"
    "clocked e (written (Csr E1000_EECD) es) = replicate (unat count) False"
    using shift_in_loop_steps [OF e] by blast
  have run: "run_state (e1000_shift_in_eec_bits count) s =
      (r, after s (Rd (Csr E1000_EECD) ?v # es))"
    using es(1) by (simp add: e1000_shift_in_eec_bits_def steps_iff Let_def e_def)
  have "unat count \<le> 16" using assms(1) by (simp add: word_le_nat_alt)
  then have "bit r j \<longleftrightarrow> j < unat count \<and>
      bit (values_read (Csr E1000_EECD) es ! (unat count - 1 - j)) 3"
    using foldl_bits [of "values_read (Csr E1000_EECD) es" 0 j "\<lambda>v. bit v 3"] es(2,3) assms(3)
    by simp
  moreover have "clocked 0 (written (Csr E1000_EECD) es) = replicate (unat count) False"
    using es(4) clocked_start [OF e(1), of 0] by simp
  moreover have "j < unat count \<Longrightarrow> unat count - j = Suc (unat count - 1 - j)"
    by simp
  ultimately show ?thesis
    using run es(2) by (auto simp: Let_def simp del: diff_Suc_1)
qed

theorem shift_in_from_wire_witness:
  "let (r, t) = run_state (e1000_shift_in_eec_bits 8) (sample_hw (\<lambda>_ _. 8));
       rs = values_read (Csr E1000_EECD) (new_events (sample_hw (\<lambda>_ _. 8)) t)
   in t = after (sample_hw (\<lambda>_ _. 8)) (new_events (sample_hw (\<lambda>_ _. 8)) t) \<and>
      length rs = unat (8 :: u16) + 1 \<and>
      clocked 0 (written (Csr E1000_EECD) (new_events (sample_hw (\<lambda>_ _. 8)) t)) =
        replicate (unat (8 :: u16)) False \<and>
      bit r 7 = (7 < unat (8 :: u16) \<and> bit (rs ! (unat (8 :: u16) - 7)) 3)"
  by (rule shift_in_from_wire) (simp_all add: bit_numeral_rec)

end
