(* ===== verification/NvmIch8Props.thy ===== *)
theory NvmIch8Props
  imports NvmIch8 FlashChip NvmProps
begin

section \<open>What the shadow-RAM NVM promises\<close>

text \<open>
  On a flash controller that works (theory \<open>FlashChip\<close>) the NVM functions implement an array
  of 2048 words: the pending words of the shadow RAM over the words of the current bank. The
  checksum functions of \<open>nvm.c\<close> get their contract from it by interpretation.
\<close>

subsection \<open>Erasing a bank\<close>

definition bank_start :: "e1000_hw \<Rightarrow> u32 \<Rightarrow> u32" where
  "bank_start s bank = nvm_flash_base_addr (hw_nvm s) +
     (if bank \<noteq> 0 then nvm_flash_bank_size (hw_nvm s) * 2 else 0)"

definition erase_passes :: "u16 \<Rightarrow> e1000_hw \<Rightarrow> nat" where
  "erase_passes bz s = (if bz = 0 then unat (nvm_flash_bank_size (hw_nvm s) * 2 div 256) else 1)"

lemma status_ready:
  assumes "flash_ready bz m lat s"
  shows "flash_ready bz m lat (after s [Rd (Flash16 ICH_FLASH_HSFSTS) v])"
    and "contents bz m (after s [Rd (Flash16 ICH_FLASH_HSFSTS) v]) = contents bz m s"
  using assms by (simp_all add: flash_ready_def mac_is_spt_def contents_def)

lemma erase_bank_ready:
  assumes "flash_ready bz m lat s"
  shows "flash_op bz m lat s (e1000_erase_flash_bank_ich8lan bank) 0
    (erase_sectors (sector_bytes bz)
      (map (\<lambda>k. bank_start s bank + of_nat (erase_offset (unat (sector_bytes bz)) k))
        [0..<erase_passes bz s]) (contents bz m s))"
proof -
  let ?v = "hw_dev s (hw_log s) (Flash16 ICH_FLASH_HSFSTS)"
  let ?s = "after s [Rd (Flash16 ICH_FLASH_HSFSTS) ?v]"
  have bz: "hsf_berasesz (ucast ?v) = bz"
    using assms chip_status(5) by (auto simp: flash_ready_def)
  note loop = erase_bank_loop_ready [OF status_ready(1) [OF assms, of ?v], of _ 0 _ "bank_start s bank"]
  have "run_state (e1000_erase_flash_bank_ich8lan bank) s =
      run_state (erase_bank_loop (erase_passes bz s) 0 (unat (sector_bytes bz)) 0 (bank_start s bank)) ?s"
    by (simp add: e1000_erase_flash_bank_ich8lan_def bz Let_def erase_passes_def sector_bytes_def
        bank_start_def del: erase_bank_loop.simps)
  then show ?thesis
    using loop [of "erase_passes bz s" "unat (sector_bytes bz)"]
    by (auto simp: flash_op_def status_ready [OF assms])
qed

subsection \<open>Reading bytes and words\<close>

lemma linear_addr: "x \<le> 0xFFFFFF \<Longrightarrow> flash_linear_addr s x = nvm_flash_base_addr (hw_nvm s) + x"
proof -
  assume "x \<le> 0xFFFFFF"
  then have "unat x < 2 ^ 24" by (simp add: word_le_nat_alt)
  then have "take_bit 24 x = x"
    by (simp add: word_unat_eq_iff unsigned_take_bit_eq take_bit_nat_eq_self)
  moreover have "0xFFFFFF AND x = take_bit 24 x"
    by (simp add: take_bit_eq_mask mask_eq_exp_minus_1 and.commute)
  ultimately show ?thesis by (simp add: flash_linear_addr_def add.commute)
qed

lemma read_byte_ready:
  assumes "flash_ready bz m lat s" and "x \<le> 0xFFFFFF"
  shows "flash_op bz m lat s (e1000_read_flash_byte_ich8lan x d)
    (0, contents bz m s (nvm_flash_base_addr (hw_nvm s) + x)) (contents bz m s)"
proof -
  let ?b = "contents bz m s (nvm_flash_base_addr (hw_nvm s) + x)"
  obtain es where "run_state (e1000_read_flash_data_ich8lan x 1 0) s = ((0, ucast ?b), after s es)"
    "flash_ready bz m lat (after s es)" "contents bz m (after s es) = contents bz m s"
    using read_flash_data_ready [OF assms(1), of 1 x 0] assms(2)
    by (auto simp: linear_addr elim: flash_opE)
  moreover have "ucast (ucast ?b :: u16) = ?b"
    by (rule bit_eqI) (auto simp: bit_ucast_iff dest: bit_imp_le_length)
  ultimately show ?thesis
    using ready_after_spt [OF assms(1), of "[]"]
    by (intro flash_opI [of _ _ _ es]) (simp_all add: e1000_read_flash_byte_ich8lan_def)
qed

lemma read_word_ready:
  assumes "flash_ready bz m lat s" and "push_bit 1 x \<le> 0xFFFFFF"
  shows "flash_op bz m lat s (e1000_read_flash_word_ich8lan x d)
    (0, flash_word (contents bz m s) (nvm_flash_base_addr (hw_nvm s) + push_bit 1 x)) (contents bz m s)"
  unfolding e1000_read_flash_word_ich8lan_def
  using read_flash_data_ready [OF assms(1), of 2 "push_bit 1 x" d] assms
  by (simp add: linear_addr)

text \<open>The signature byte of a bank, the bank the code takes for the current one, and its words.\<close>

definition sig_byte_addr :: "e1000_hw \<Rightarrow> u32 \<Rightarrow> u32" where
  "sig_byte_addr s bank = bank_start s bank + (E1000_ICH_NVM_SIG_WORD * 2 + 1)"

definition bank_of :: "flash \<Rightarrow> e1000_hw \<Rightarrow> u32 option" where
  "bank_of c s = (if sig_valid (c (sig_byte_addr s 0)) then Some 0
                  else if sig_valid (c (sig_byte_addr s 1)) then Some 1 else None)"

definition current_bank :: "flash \<Rightarrow> e1000_hw \<Rightarrow> u32" where
  "current_bank c s = (case bank_of c s of Some b \<Rightarrow> b | None \<Rightarrow> 0)"

definition bank_word :: "flash \<Rightarrow> e1000_hw \<Rightarrow> u32 \<Rightarrow> u16 \<Rightarrow> u16" where
  "bank_word c s bank a = flash_word c (bank_start s bank + push_bit 1 (ucast a))"

definition shadowed_word :: "flash \<Rightarrow> e1000_hw \<Rightarrow> u16 \<Rightarrow> u16" where
  "shadowed_word c s a =
     (let sr = hw_shadow_ram s ! unat a
      in if sr_modified sr then sr_value sr else bank_word c s (current_bank c s) a)"

text \<open>A part that finds its bank by the signature bytes, with two banks that fit the flash.\<close>

definition ich8_nvm_ready :: "u16 \<Rightarrow> flash \<Rightarrow> nat \<Rightarrow> e1000_hw \<Rightarrow> bool" where
  "ich8_nvm_ready bz m lat s =
     (flash_ready bz m lat s \<and>
      mac_type (hw_mac s) \<notin> {e1000_ich8lan, e1000_ich9lan, e1000_pch_spt, e1000_pch_cnp, e1000_pch_tgp, e1000_pch_adp} \<and>
      nvm_word_size (hw_nvm s) = E1000_ICH8_SHADOW_RAM_WORDS \<and>
      length (hw_shadow_ram s) = E1000_ICH8_SHADOW_RAM_WORDS \<and>
      E1000_ICH8_SHADOW_RAM_WORDS \<le> nvm_flash_bank_size (hw_nvm s) \<and>
      nvm_flash_bank_size (hw_nvm s) \<le> 0x3FF000)"

lemma ich8_ready_after:
  "ich8_nvm_ready bz m lat s \<Longrightarrow> flash_ready bz m lat (after s es) \<Longrightarrow> ich8_nvm_ready bz m lat (after s es)"
  by (simp add: ich8_nvm_ready_def)

lemma after_banks [simp]:
  "bank_start (after s es) b = bank_start s b" "sig_byte_addr (after s es) b = sig_byte_addr s b"
  "bank_of c (after s es) = bank_of c s" "current_bank c (after s es) = current_bank c s"
  "bank_word c (after s es) b a = bank_word c s b a"
  "shadowed_word c (after s es) a = shadowed_word c s a"
  by (simp_all add: bank_start_def sig_byte_addr_def bank_of_def current_bank_def bank_word_def
      shadowed_word_def Let_def)

lemma bank_addr_bound:
  assumes "ich8_nvm_ready bz m lat s" and "unat x < 2048"
  shows "(if b \<noteq> 0 then nvm_flash_bank_size (hw_nvm s) * 2 else 0) + 2 * x \<le> (0xFFFFFF :: u32)"
    and "(if b \<noteq> 0 then nvm_flash_bank_size (hw_nvm s) * 2 else 0) + (2 * x + 1) \<le> (0xFFFFFF :: u32)"
proof -
  let ?n = "nvm_flash_bank_size (hw_nvm s)"
  have n: "unat ?n \<le> 0x3FF000"
    using assms(1) by (simp add: ich8_nvm_ready_def word_le_nat_alt)
  have 2: "unat (2 * x) = 2 * unat x" "unat (2 * x + 1) = 2 * unat x + 1"
    using assms(2) by (simp_all add: unat_word_ariths)
  have 3: "unat (?n * 2) = 2 * unat ?n" using n by (simp add: unat_word_ariths)
  show "(if b \<noteq> 0 then ?n * 2 else 0) + 2 * x \<le> (0xFFFFFF :: u32)"
    using n assms(2) by (auto simp: word_le_nat_alt unat_word_ariths 2 3)
  show "(if b \<noteq> 0 then ?n * 2 else 0) + (2 * x + 1) \<le> (0xFFFFFF :: u32)"
    using n assms(2) by (auto simp: word_le_nat_alt unat_word_ariths 2 3)
qed

lemma bank_detect_byte_ready:
  assumes "ich8_nvm_ready bz m lat s"
  shows "flash_op bz m lat s e1000_valid_nvm_bank_detect_ich8lan
    (case bank_of (contents bz m s) s of Some b \<Rightarrow> (0, b) | None \<Rightarrow> (- 1, 0)) (contents bz m s)"
proof -
  let ?c = "contents bz m s" and ?n = "nvm_flash_bank_size (hw_nvm s)"
  have ready: "flash_ready bz m lat s" using assms by (simp add: ich8_nvm_ready_def)
  have b: "unat (0x13 :: u32) < 2048" by simp
  have 1: "0x27 + ?n * 2 \<le> (0xFFFFFF :: u32)"
    using bank_addr_bound(2) [OF assms b, of "1 :: u32"] by (simp add: add.commute)
  obtain es where es: "run_state (e1000_read_flash_byte_ich8lan 0x27 0) s =
      ((0, ?c (sig_byte_addr s 0)), after s es)"
    "flash_ready bz m lat (after s es)" "contents bz m (after s es) = ?c"
    using read_byte_ready [OF ready, of "0x27" 0]
    by (auto simp: sig_byte_addr_def bank_start_def elim: flash_opE)
  obtain fs where fs: "run_state (e1000_read_flash_byte_ich8lan (0x27 + ?n * 2) (?c (sig_byte_addr s 0)))
      (after s es) = ((0, ?c (sig_byte_addr s 1)), after s (es @ fs))"
    "flash_ready bz m lat (after s (es @ fs))" "contents bz m (after s (es @ fs)) = ?c"
    using read_byte_ready [OF es(2) 1, of "?c (sig_byte_addr s 0)"]
    by (auto simp: sig_byte_addr_def bank_start_def es(3) ac_simps elim: flash_opE)
  have "run_state e1000_valid_nvm_bank_detect_ich8lan s = run_state bank_detect_byte s"
    using assms by (simp add: e1000_valid_nvm_bank_detect_ich8lan_def ich8_nvm_ready_def)
  also have "\<dots> = (case bank_of ?c s of Some b \<Rightarrow> (0, b) | None \<Rightarrow> (- 1, 0),
      after s (if sig_valid (?c (sig_byte_addr s 0)) then es else es @ fs))"
    using es fs by (simp add: bank_detect_byte_def bank_of_def Let_def)
  finally show ?thesis
    using es fs ready by (auto intro!: flash_opI)
qed

lemma act_offset_ready:
  assumes "ich8_nvm_ready bz m lat s"
  shows "flash_op bz m lat s (nvm_act_offset a)
    ((if current_bank (contents bz m s) s \<noteq> 0 then nvm_flash_bank_size (hw_nvm s) else 0) + ucast a)
    (contents bz m s)"
  using bank_detect_byte_ready [OF assms]
  by (auto simp: flash_op_def nvm_act_offset_def nvm_detect_bank_def current_bank_def
      split: option.splits)

lemma current_bank_01: "current_bank c s = 0 \<or> current_bank c s = 1"
  by (simp add: current_bank_def bank_of_def)

lemma read_bank_word_ready:
  assumes "ich8_nvm_ready bz m lat s" and "unat a < 2048"
  shows "flash_op bz m lat s
    (e1000_read_flash_word_ich8lan ((if b \<noteq> 0 then nvm_flash_bank_size (hw_nvm s) else 0) + ucast a) d)
    (0, bank_word (contents bz m s) s b a) (contents bz m s)"
proof -
  let ?x = "(if b \<noteq> 0 then nvm_flash_bank_size (hw_nvm s) else 0) + ucast a"
  have "push_bit 1 ?x = (if b \<noteq> 0 then nvm_flash_bank_size (hw_nvm s) * 2 else 0) + 2 * ucast a"
    by (simp add: algebra_simps)
  moreover have "unat (ucast a :: u32) < 2048" using assms(2) by (simp add: unat_ucast_up)
  ultimately have "push_bit 1 ?x \<le> 0xFFFFFF"
    using bank_addr_bound(1) [OF assms(1), of "ucast a" b] by metis
  then show ?thesis
    using read_word_ready [of bz m lat s ?x d] assms(1)
    by (auto simp: ich8_nvm_ready_def bank_word_def bank_start_def algebra_simps)
qed

lemma read_loop_ready:
  assumes "ich8_nvm_ready bz m lat s" and "unat offset + i + n \<le> 2048" and "i + n \<le> length data"
    and "act = (if current_bank (contents bz m s) s \<noteq> 0 then nvm_flash_bank_size (hw_nvm s) else 0)
           + ucast offset"
  shows "flash_op bz m lat s (read_nvm_ich8_loop n i offset act data)
    (0, take i data @ map (\<lambda>k. shadowed_word (contents bz m s) s (offset + of_nat k)) [i..<i + n]
        @ drop (i + n) data) (contents bz m s)"
  using assms
proof (induction n arbitrary: i data s)
  case 0
  then show ?case by (auto simp: ich8_nvm_ready_def intro: flash_op_ret)
next
  case (Suc n)
  let ?c = "contents bz m s" and ?a = "offset + of_nat i"
  have ready: "flash_ready bz m lat s" using Suc.prems(1) by (simp add: ich8_nvm_ready_def)
  have a: "unat ?a = unat offset + i"
    using Suc.prems(2) by (simp add: unat_word_ariths unat_of_nat take_bit_nat_eq_self)
  have act: "act + of_nat i =
      (if current_bank ?c s \<noteq> 0 then nvm_flash_bank_size (hw_nvm s) else 0) + ucast ?a"
  proof -
    have "(ucast ?a :: u32) = ucast offset + of_nat i"
      by (rule word_unat_eq_iff [THEN iffD2])
         (use Suc.prems(2) in \<open>simp add: a unat_ucast_up unat_word_ariths unat_of_nat\<close>)
    then show ?thesis using Suc.prems(4) by simp
  qed
  have len: "unat ?a < 2048" using a Suc.prems(2) by simp
  let ?w = "shadowed_word ?c s ?a"
  have one: "flash_op bz m lat s
      (do { sr \<leftarrow> gets (\<lambda>s. hw_shadow_ram s ! (unat offset + i));
            if sr_modified sr then ret (0, sr_value sr)
            else e1000_read_flash_word_ich8lan (act + of_nat i) 0 }) (0, ?w) ?c"
    using flash_op_ret [OF ready, of "(0, ?w)"]
      read_bank_word_ready [OF Suc.prems(1) len, of "current_bank ?c s" 0]
    by (intro flash_op_gets) (auto simp: shadowed_word_def Let_def a act)
  obtain es where es: "run_state (do { sr \<leftarrow> gets (\<lambda>s. hw_shadow_ram s ! (unat offset + i));
            if sr_modified sr then ret (0, sr_value sr)
            else e1000_read_flash_word_ich8lan (act + of_nat i) 0 }) s = ((0, ?w), after s es)"
    "flash_ready bz m lat (after s es)" "contents bz m (after s es) = ?c"
    by (rule flash_opE [OF one])
  let ?d = "data[i := ?w]"
  have "flash_op bz m lat (after s es) (read_nvm_ich8_loop n (Suc i) offset act ?d)
    (0, take (Suc i) ?d @ map (\<lambda>k. shadowed_word (contents bz m (after s es)) (after s es)
        (offset + of_nat k)) [Suc i..<Suc i + n] @ drop (Suc i + n) ?d)
    (contents bz m (after s es))"
    by (rule Suc.IH) (use Suc.prems es in \<open>simp_all add: ich8_ready_after\<close>)
  then obtain fs where fs: "run_state (read_nvm_ich8_loop n (Suc i) offset act ?d) (after s es) =
      ((0, take (Suc i) ?d @ map (\<lambda>k. shadowed_word ?c s (offset + of_nat k)) [Suc i..<Suc i + n]
        @ drop (Suc i + n) ?d), after s (es @ fs))"
    "flash_ready bz m lat (after s (es @ fs))" "contents bz m (after s (es @ fs)) = ?c"
    by (auto simp: es(3) elim: flash_opE)
  have "run_state (read_nvm_ich8_loop (Suc n) i offset act data) s =
      run_state (read_nvm_ich8_loop n (Suc i) offset act ?d) (after s es)"
    using es(1) by (auto split: if_splits prod.splits)
  moreover have "take (Suc i) ?d = take i data @ [?w]"
    using Suc.prems(3) by (simp add: take_Suc_conv_app_nth)
  moreover have "[i..<i + Suc n] = i # [Suc i..<Suc i + n]"
    by (simp add: upt_conv_Cons del: upt_Suc)
  ultimately show ?case
    using fs Suc.prems(3) by (intro flash_opI [of _ _ _ "es @ fs"]) simp_all
qed

lemma read_nvm_ich8_ready:
  assumes "ich8_nvm_ready bz m lat s" and "\<not> nvm_bad_range s offset words"
    and "length data = unat words"
  shows "flash_op bz m lat s (e1000_read_nvm_ich8lan offset words data)
    (0, map (\<lambda>k. shadowed_word (contents bz m s) s (offset + of_nat k)) [0..<unat words])
    (contents bz m s)"
proof -
  let ?c = "contents bz m s"
  obtain es where es: "run_state (nvm_act_offset offset) s =
    ((if current_bank ?c s \<noteq> 0 then nvm_flash_bank_size (hw_nvm s) else 0) + ucast offset, after s es)"
    "flash_ready bz m lat (after s es)" "contents bz m (after s es) = ?c"
    by (rule flash_opE [OF act_offset_ready [OF assms(1)]])
  have rng: "unat offset + 0 + unat words \<le> 2048"
    using assms(1,2) by (auto simp: nvm_bad_range_iff ich8_nvm_ready_def)
  obtain fs where fs: "run_state (read_nvm_ich8_loop (unat words) 0 offset
      ((if current_bank ?c s \<noteq> 0 then nvm_flash_bank_size (hw_nvm s) else 0) + ucast offset) data)
      (after s es) = ((0, map (\<lambda>k. shadowed_word ?c s (offset + of_nat k)) [0..<unat words]),
      after s (es @ fs))"
    "flash_ready bz m lat (after s (es @ fs))" "contents bz m (after s (es @ fs)) = ?c"
    using read_loop_ready [OF ich8_ready_after [OF assms(1) es(2)] rng, of data] assms(3)
    by (auto simp: es(3) cong: if_cong elim: flash_opE)
  show ?thesis
    by (rule flash_opI [of _ _ _ "es @ fs"])
       (use es fs assms(2) in \<open>simp_all add: e1000_read_nvm_ich8lan_def e1000_acquire_nvm_ich8lan_def
          e1000_release_nvm_ich8lan_def\<close>)
qed

lemma write_loop_eq:
  assumes "unat offset + i + n \<le> length ram" and "i + n \<le> length data"
  shows "write_nvm_ich8_loop n i offset data ram = (let o' = unat offset in
    take (o' + i) ram @ map (\<lambda>v. \<lparr>sr_value = v, sr_modified = True\<rparr>) (take n (drop i data))
      @ drop (o' + i + n) ram)"
  using assms
proof (induction n arbitrary: i ram)
  case 0
  then show ?case by simp
next
  case (Suc n)
  have "take n (drop (Suc i) data) = tl (take (Suc n) (drop i data))"
    by (simp add: drop_Suc tl_drop tl_take)
  moreover have "take (Suc n) (drop i data) = data ! i # take n (drop (Suc i) data)"
    using Suc.prems(2) by (simp add: Cons_nth_drop_Suc [symmetric])
  ultimately show ?case
    using Suc by (simp add: Let_def take_update_swap take_Suc_conv_app_nth list_update_append)
qed


text \<open>A write changes the shadow RAM alone.\<close>

lemma write_nvm_ich8_run:
  assumes "\<not> nvm_bad_range s offset words" and "length data = unat words"
    and "nvm_word_size (hw_nvm s) = 2048" and "length (hw_shadow_ram s) = 2048"
  shows "run_state (e1000_write_nvm_ich8lan offset words data) s =
    (0, s\<lparr>hw_shadow_ram := take (unat offset) (hw_shadow_ram s)
       @ map (\<lambda>v. \<lparr>sr_value = v, sr_modified = True\<rparr>) data
       @ drop (unat offset + unat words) (hw_shadow_ram s)\<rparr>)"
  using assms write_loop_eq [of offset 0 "unat words" "hw_shadow_ram s" data]
  by (simp add: e1000_write_nvm_ich8lan_def e1000_acquire_nvm_ich8lan_def
      e1000_release_nvm_ich8lan_def nvm_bad_range_iff Let_def)

lemma ich8_write1:
  assumes "ich8_nvm_ready bz m lat s" and "unat a < 2048"
  shows "\<exists>t. run_state (e1000_write_nvm_ich8lan a 1 [v]) s = (0, t) \<and> ich8_nvm_ready bz m lat t \<and>
    hw_nvm t = hw_nvm s \<and> contents bz m t = contents bz m s \<and>
    shadowed_word (contents bz m t) t = (shadowed_word (contents bz m s) s)(a := v)"
proof -
  let ?ram = "(hw_shadow_ram s)[unat a := \<lparr>sr_value = v, sr_modified = True\<rparr>]"
  let ?t = "s\<lparr>hw_shadow_ram := ?ram\<rparr>"
  have len: "length (hw_shadow_ram s) = 2048" and sz: "nvm_word_size (hw_nvm s) = 2048"
    using assms(1) by (simp_all add: ich8_nvm_ready_def)
  have run: "run_state (e1000_write_nvm_ich8lan a 1 [v]) s = (0, ?t)"
    using write_nvm_ich8_run [of s a 1 "[v]"] len sz assms(2)
    by (simp add: nvm_bad_range_iff upd_conv_take_nth_drop)
  have c: "contents bz m ?t = contents bz m s" by (simp add: contents_def)
  have w: "shadowed_word (contents bz m ?t) ?t = (shadowed_word (contents bz m s) s)(a := v)"
  proof (rule ext)
    fix x
    show "shadowed_word (contents bz m ?t) ?t x = ((shadowed_word (contents bz m s) s)(a := v)) x"
    proof (cases "x = a")
      case True
      then show ?thesis using len assms(2) by (simp add: shadowed_word_def Let_def)
    next
      case False
      then have "unat x \<noteq> unat a" by (simp add: word_unat_eq_iff)
      then show ?thesis
        using False
        by (simp add: shadowed_word_def Let_def c bank_word_def bank_start_def current_bank_def
            bank_of_def sig_byte_addr_def cong: if_cong)
    qed
  qed
  have "ich8_nvm_ready bz m lat ?t"
    using assms(1) len by (simp add: ich8_nvm_ready_def flash_ready_def mac_is_spt_def)
  with run c w show ?thesis by (intro exI [of _ ?t]) simp
qed

lemma shadowed_fun: "shadowed_word c (after s es) = shadowed_word c s"
  by (rule ext) simp

text \<open>
  The geometry of the NVM, \<open>nv\<close>, and the contents of the flash, \<open>c\<close>, are part of the
  invariant: no word access changes them.
\<close>

interpretation ich8_store: nvm_store ich8_nvm_access "\<lambda>s. ich8_nvm_ready bz m lat s \<and> hw_nvm s = nv \<and> contents bz m s = c"
  "\<lambda>s. shadowed_word (contents bz m s) s" 2048 for bz m lat nv c
proof unfold_locales
  fix s and a v :: u16
  assume "ich8_nvm_ready bz m lat s \<and> hw_nvm s = nv \<and> contents bz m s = c" and a: "unat a < 2048"
  then have ready: "ich8_nvm_ready bz m lat s" and nv: "hw_nvm s = nv" "contents bz m s = c"
    by simp_all
  have "\<not> nvm_bad_range s a 1"
    using ready a by (simp add: nvm_bad_range_iff ich8_nvm_ready_def)
  then obtain es where "run_state (e1000_read_nvm_ich8lan a 1 [0]) s =
      ((0, [shadowed_word (contents bz m s) s a]), after s es)"
    "flash_ready bz m lat (after s es)" "contents bz m (after s es) = contents bz m s"
    using read_nvm_ich8_ready [OF ready, of a 1 "[0]"] by (auto elim: flash_opE)
  then show "\<exists>t. run_state (op_nvm_read ich8_nvm_access a 1 [0]) s =
      ((0, [shadowed_word (contents bz m s) s a]), t) \<and> (ich8_nvm_ready bz m lat t \<and> hw_nvm t = nv \<and> contents bz m t = c) \<and>
      shadowed_word (contents bz m t) t = shadowed_word (contents bz m s) s"
    using ich8_ready_after [OF ready, of es] nv
    by (intro exI [of _ "after s es"]) (simp add: ich8_nvm_access_def shadowed_fun)
  show "\<exists>t. run_state (op_nvm_write ich8_nvm_access a 1 [v]) s = (0, t) \<and>
      (ich8_nvm_ready bz m lat t \<and> hw_nvm t = nv \<and> contents bz m t = c) \<and>
      shadowed_word (contents bz m t) t = (shadowed_word (contents bz m s) s)(a := v)"
    using ich8_write1 [OF ready a, of v] nv by (auto simp: ich8_nvm_access_def)
qed

subsection \<open>A state for the examples\<close>

definition ich8_sample :: "u16 \<Rightarrow> flash \<Rightarrow> e1000_hw" where
  "ich8_sample bz m = (sample_hw (chip_dev bz m))\<lparr>hw_nvm :=
     \<lparr>nvm_type = e1000_nvm_flash_sw, nvm_flash_bank_size = 2048, nvm_flash_base_addr = 0,
      nvm_word_size = 2048, nvm_delay_usec = 1, nvm_address_bits = 16, nvm_opcode_bits = 8,
      nvm_page_size = 32\<rparr>\<rparr>"

lemma ich8_sample_simps [simp]:
  "hw_dev (ich8_sample bz m) = chip_dev bz m" "hw_log (ich8_sample bz m) = []"
  "hw_mac (ich8_sample bz m) = sample_mac" "nvm_word_size (hw_nvm (ich8_sample bz m)) = 2048"
  "nvm_flash_bank_size (hw_nvm (ich8_sample bz m)) = 2048"
  "nvm_flash_base_addr (hw_nvm (ich8_sample bz m)) = 0"
  "nvm_type (hw_nvm (ich8_sample bz m)) = e1000_nvm_flash_sw"
  "hw_shadow_ram (ich8_sample bz m) = replicate 2048 \<lparr>sr_value = 0xFFFF, sr_modified = False\<rparr>"
  "contents bz m (ich8_sample bz m) = m"
  by (simp_all add: ich8_sample_def contents_def) (simp_all add: sample_hw_def)

lemma ich8_sample_ready: "bz < 4 \<Longrightarrow> ich8_nvm_ready bz m 0 (ich8_sample bz m)"
  by (simp add: ich8_nvm_ready_def flash_ready_def chip_dev_ok mac_is_spt_def mac_order)

text \<open>C10: On a working flash a read of a range inside the NVM returns success and, word by word,
  the pending value of the shadow RAM or the word of the current bank; the flash is unchanged.\<close>

theorem nvm_read_correct:
  assumes "ich8_nvm_ready bz m lat s" and "\<not> nvm_bad_range s offset words"
    and "length data = unat words"
  shows "\<exists>es. run_state (e1000_read_nvm_ich8lan offset words data) s =
      ((0, map (\<lambda>k. shadowed_word (contents bz m s) s (offset + of_nat k)) [0..<unat words]),
       after s es) \<and> contents bz m (after s es) = contents bz m s"
  using read_nvm_ich8_ready [OF assms] by (auto elim: flash_opE)

theorem nvm_read_correct_witness:
  "fst (run_state (e1000_read_nvm_ich8lan 5 2 [0, 0]) (ich8_sample 1 (\<lambda>a. 0x80 + ucast a))) =
    (0, [0x8B8A, 0x8D8C])"
proof -
  let ?m = "\<lambda>a :: u32. 0x80 + ucast a :: u8"
  have "\<not> nvm_bad_range (ich8_sample 1 ?m) 5 2" by (simp add: nvm_bad_range_iff)
  from nvm_read_correct [OF ich8_sample_ready [of 1 ?m] this, of "[0, 0]"]
  show ?thesis
    by (auto simp: upt_rec shadowed_word_def Let_def bank_word_def current_bank_def bank_of_def
        sig_byte_addr_def bank_start_def flash_word_def sig_valid_def)
qed

text \<open>C9: A write inside the NVM followed by a read of the same range returns the words written;
  every other word reads as before, and nothing reaches the flash.\<close>

theorem nvm_read_your_writes:
  assumes "ich8_nvm_ready bz m lat s" and "\<not> nvm_bad_range s offset words"
    and "length data = unat words" and "length buf = unat words"
  shows "let (r, t) = run_state (e1000_write_nvm_ich8lan offset words data) s in
    r = 0 \<and> hw_log t = hw_log s \<and>
    fst (run_state (e1000_read_nvm_ich8lan offset words buf) t) = (0, data) \<and>
    (\<forall>a. shadowed_word (contents bz m t) t a =
      (if unat offset \<le> unat a \<and> unat a < unat offset + unat words
       then data ! (unat a - unat offset) else shadowed_word (contents bz m s) s a))"
proof -
  let ?ram = "take (unat offset) (hw_shadow_ram s)
       @ map (\<lambda>v. \<lparr>sr_value = v, sr_modified = True\<rparr>) data
       @ drop (unat offset + unat words) (hw_shadow_ram s)"
  let ?t = "s\<lparr>hw_shadow_ram := ?ram\<rparr>"
  have len: "length (hw_shadow_ram s) = 2048" and sz: "nvm_word_size (hw_nvm s) = 2048"
    using assms(1) by (simp_all add: ich8_nvm_ready_def)
  have rng: "unat offset + unat words \<le> 2048"
    using assms(2) sz by (simp add: nvm_bad_range_iff)
  have run: "run_state (e1000_write_nvm_ich8lan offset words data) s = (0, ?t)"
    using write_nvm_ich8_run [OF assms(2,3) sz len] .
  have len': "length ?ram = 2048" using len rng assms(3) by simp
  have ready: "ich8_nvm_ready bz m lat ?t"
    using assms(1) len' by (simp add: ich8_nvm_ready_def flash_ready_def mac_is_spt_def)
  have c: "contents bz m ?t = contents bz m s" by (simp add: contents_def)
  have w: "shadowed_word (contents bz m ?t) ?t a =
      (if unat offset \<le> unat a \<and> unat a < unat offset + unat words
       then data ! (unat a - unat offset) else shadowed_word (contents bz m s) s a)" for a
    using len rng assms(3)
    by (auto simp: shadowed_word_def Let_def c bank_word_def bank_start_def current_bank_def
        bank_of_def sig_byte_addr_def nth_append cong: if_cong)
  have "\<not> nvm_bad_range ?t offset words" using assms(2) by (simp add: nvm_bad_range_iff)
  from read_nvm_ich8_ready [OF ready this assms(4)]
  have "fst (run_state (e1000_read_nvm_ich8lan offset words buf) ?t) =
      (0, map (\<lambda>k. shadowed_word (contents bz m ?t) ?t (offset + of_nat k)) [0..<unat words])"
    by (auto elim: flash_opE)
  also have "map (\<lambda>k. shadowed_word (contents bz m ?t) ?t (offset + of_nat k)) [0..<unat words] = data"
  proof (rule nth_equalityI)
    fix i assume "i < length (map (\<lambda>k. shadowed_word (contents bz m ?t) ?t (offset + of_nat k)) [0..<unat words])"
    then have i: "i < unat words" by simp
    then have "unat (offset + of_nat i) = unat offset + i"
      using rng by (simp add: unat_word_ariths unat_of_nat take_bit_nat_eq_self)
    then show "map (\<lambda>k. shadowed_word (contents bz m ?t) ?t (offset + of_nat k)) [0..<unat words] ! i = data ! i"
      using i w [of "offset + of_nat i"] by simp
  qed (use assms(3) in simp)
  finally show ?thesis using run w by simp
qed

theorem nvm_read_your_writes_witness:
  "let (r, t) = run_state (e1000_write_nvm_ich8lan 5 2 [0x1234, 0x5678]) (ich8_sample 1 (\<lambda>a. 0x80))
   in r = 0 \<and> fst (run_state (e1000_read_nvm_ich8lan 5 2 [0, 0]) t) = (0, [0x1234, 0x5678])"
proof -
  have "\<not> nvm_bad_range (ich8_sample 1 (\<lambda>a. 0x80)) 5 2" by (simp add: nvm_bad_range_iff)
  from nvm_read_your_writes [OF ich8_sample_ready [of 1 "\<lambda>a. 0x80"] this, of "[0x1234, 0x5678]" "[0, 0]"]
  show ?thesis by (simp add: Let_def case_prod_beta)
qed

text \<open>On a working flash the checksum validation of the shadow-RAM NVM succeeds exactly when
  the first 64 words add up to 0xBABA, and fails with -E1000_ERR_NVM otherwise.\<close>

lemma nvm_validate_iff_sum:
  assumes "ich8_nvm_ready bz m lat s"
  shows "fst (run_state (e1000e_validate_nvm_checksum_generic ich8_nvm_access) s) =
    (if nvm_sum 64 (shadowed_word (contents bz m s) s) = NVM_SUM then 0 else - E1000_ERR_NVM)"
proof -
  obtain t where "run_state (e1000e_validate_nvm_checksum_generic ich8_nvm_access) s =
      (if nvm_sum 64 (shadowed_word (contents bz m s) s) = NVM_SUM then 0 else - 1, t)"
    by (rule ich8_store.validate [of bz m lat s "hw_nvm s" "contents bz m s"]) (use assms in simp_all)
  then show ?thesis by simp
qed

text \<open>On a working flash the checksum update stores in word 0x3F the value that makes the
  checksum valid and changes no other word: the validation that follows succeeds.\<close>

theorem nvm_update_then_validate:
  assumes "ich8_nvm_ready bz m lat s"
  shows "\<exists>t. run_state (do { e1000e_update_nvm_checksum_generic ich8_nvm_access;
        e1000e_validate_nvm_checksum_generic ich8_nvm_access }) s = (0, t) \<and>
      shadowed_word (contents bz m t) t = (shadowed_word (contents bz m s) s)
        (NVM_CHECKSUM_REG := NVM_SUM - nvm_sum 63 (shadowed_word (contents bz m s) s))"
proof -
  obtain t where "run_state (do { e1000e_update_nvm_checksum_generic ich8_nvm_access;
        e1000e_validate_nvm_checksum_generic ich8_nvm_access }) s = (0, t)"
    "shadowed_word (contents bz m t) t = (shadowed_word (contents bz m s) s)
        (0x3F := NVM_SUM - nvm_sum 63 (shadowed_word (contents bz m s) s))"
    by (rule ich8_store.update_validate [of bz m lat s "hw_nvm s" "contents bz m s"]) (use assms in simp_all)
  then show ?thesis by blast
qed

theorem nvm_update_then_validate_witness:
  "fst (run_state (do { e1000e_update_nvm_checksum_generic ich8_nvm_access;
      e1000e_validate_nvm_checksum_generic ich8_nvm_access }) (ich8_sample 1 (\<lambda>a. 0x80))) = 0"
  using nvm_update_then_validate [OF ich8_sample_ready [of 1 "\<lambda>a. 0x80"]] by auto

text \<open>With 4K, 8K or 64K sectors the erase of a bank on a working flash returns success, sets
  every byte of the sector the bank starts in to 0xFF and leaves every other byte alone.\<close>

theorem erase_bank_large_sectors:
  assumes "flash_ready bz m lat s" and "bz \<noteq> 0"
  shows "\<exists>es. run_state (e1000_erase_flash_bank_ich8lan bank) s = (0, after s es) \<and>
    contents bz m (after s es) =
      (\<lambda>x. if x div sector_bytes bz = bank_start s bank div sector_bytes bz then 0xFF
           else contents bz m s x)"
proof -
  have "erase_passes bz s = 1" using assms(2) by (simp add: erase_passes_def)
  then show ?thesis
    using erase_bank_ready [OF assms(1), of bank] by (auto simp: erase_sector_def elim!: flash_opE)
qed

theorem erase_bank_large_sectors_witness:
  "\<exists>es. run_state (e1000_erase_flash_bank_ich8lan 1) (ich8_sample 1 (\<lambda>a. 0x12)) =
      (0, after (ich8_sample 1 (\<lambda>a. 0x12)) es) \<and>
    contents 1 (\<lambda>a. 0x12) (after (ich8_sample 1 (\<lambda>a. 0x12)) es) =
      (\<lambda>x. if x div 4096 = 1 then 0xFF else 0x12)"
  using erase_bank_large_sectors [of 1 "\<lambda>a. 0x12" 0 "ich8_sample 1 (\<lambda>a. 0x12)" 1]
    ich8_sample_ready [of 1 "\<lambda>a. 0x12"]
  by (simp add: ich8_nvm_ready_def bank_start_def sector_bytes_def cong: if_cong)

lemma erase_sectors_at:
  "erase_sectors sz as m x = (if \<exists>a \<in> set as. x div sz = a div sz then 0xFF else m x)"
  by (induction as arbitrary: m) (auto simp: erase_sector_def)

lemma erase_offset_tri: "2 * erase_offset sz j = sz * (j * (j + 1))"
  by (induction j) (simp_all add: algebra_simps)


text \<open>C14: With 256-byte sectors the erase of a bank adds the offset of each sector to an address
  that already holds the offsets before it: pass \<open>j\<close> erases at 256 * j * (j + 1) / 2. On a
  working flash the code returns success, but the third sector of the bank keeps its old
  contents, and the last pass erases a sector beyond the end of the bank.\<close>

theorem erase_bank_256_wrong_sectors:
  assumes "flash_ready 0 m lat s"
    and "unat (bank_start s bank) mod 256 = 0" and "unat (bank_start s bank) < 2 ^ 31"
    and "0x800 \<le> nvm_flash_bank_size (hw_nvm s)" and "nvm_flash_bank_size (hw_nvm s) \<le> 0x8000"
  shows "\<exists>es last. run_state (e1000_erase_flash_bank_ich8lan bank) s = (0, after s es) \<and>
    contents 0 m (after s es) (bank_start s bank + 512) = contents 0 m s (bank_start s bank + 512) \<and>
    contents 0 m (after s es) (bank_start s bank + of_nat last) = 0xFF \<and>
    2 * unat (nvm_flash_bank_size (hw_nvm s)) \<le> last \<and> last < 2 ^ 31"
proof -
  let ?A = "bank_start s bank" and ?n = "nvm_flash_bank_size (hw_nvm s)"
  let ?off = "erase_offset 256"
  have n: "0x800 \<le> unat ?n" "unat ?n \<le> 0x8000" using assms(4,5) by (simp_all add: word_le_nat_alt)
  define p where "p = erase_passes 0 s"
  have p: "p = unat ?n div 128"
    using n by (simp add: p_def erase_passes_def unat_div unat_word_ariths)
  have p16: "16 \<le> p" "p \<le> 256" using n by (simp_all add: p)
  have off: "?off k = 128 * (k * (k + 1))" for k using erase_offset_tri [of 256 k] by simp
  have off_less: "?off k < 2 ^ 24" if "k < p" for k
  proof -
    have "k * (k + 1) \<le> 255 * 256" using that p16 by (intro mult_mono) simp_all
    then show ?thesis by (simp add: off)
  qed
  have addr: "unat (?A + of_nat (?off k)) = unat ?A + ?off k" if "k < p" for k
    using off_less [OF that] assms(3)
    by (simp add: unat_word_ariths unat_of_nat take_bit_nat_eq_self)
  have A512: "unat (?A + 512) = unat ?A + 512" using assms(3) by (simp add: unat_word_ariths)
  obtain es where es: "run_state (e1000_erase_flash_bank_ich8lan bank) s = (0, after s es)"
    "contents 0 m (after s es) = erase_sectors 256 (map (\<lambda>k. ?A + of_nat (?off k)) [0..<p])
      (contents 0 m s)"
    using erase_bank_ready [OF assms(1), of bank]
    by (auto simp: sector_bytes_def p_def elim!: flash_opE)
  have sector: "(?A + 512) div 256 \<noteq> (?A + of_nat (?off k)) div 256" if "k < p" for k
  proof -
    obtain q where q: "unat ?A = 256 * q" using assms(2) by auto
    have "even (k * (k + 1))" by simp
    then obtain t where t: "k * (k + 1) = 2 * t" by blast
    have "t \<noteq> 2"
    proof
      assume "t = 2"
      then have "k * (k + 1) = 4" using t by simp
      moreover have "k \<le> 1 \<Longrightarrow> k * (k + 1) \<le> 2" by (cases k) auto
      moreover have "k \<ge> 2 \<Longrightarrow> k * (k + 1) \<ge> 2 * 3" by (intro mult_mono) simp_all
      ultimately show False by linarith
    qed
    moreover have "?off k = 256 * t" by (simp only: off t)
    ultimately have "(unat ?A + 512) div 256 \<noteq> (unat ?A + ?off k) div 256"
      by (simp add: q)
    then show ?thesis
      using addr [OF that] A512 by (simp add: word_unat_eq_iff unat_div)
  qed
  have keep: "contents 0 m (after s es) (?A + 512) = contents 0 m s (?A + 512)"
    using sector by (auto simp: es(2) erase_sectors_at)
  have "contents 0 m (after s es) (?A + of_nat (?off (p - 1))) = 0xFF"
    using p16 by (auto simp: es(2) erase_sectors_at intro!: bexI [of _ "p - 1"])
  moreover have "2 * unat ?n \<le> ?off (p - 1)"
  proof -
    have "2 * unat ?n \<le> 256 * p + 256" using p by simp
    also have "\<dots> \<le> 128 * (15 * p)" using p16 by simp
    also have "\<dots> \<le> 128 * ((p - 1) * p)" using p16 by (intro mult_le_mono) simp_all
    finally show ?thesis using p16 by (simp add: off)
  qed
  moreover have "?off (p - 1) < 2 ^ 31" using off_less [of "p - 1"] p16 by simp
  ultimately show ?thesis using es(1) keep by blast
qed

theorem erase_bank_256_wrong_sectors_witness:
  "\<exists>es last. run_state (e1000_erase_flash_bank_ich8lan 0) (ich8_sample 0 (\<lambda>a. 0x12)) =
      (0, after (ich8_sample 0 (\<lambda>a. 0x12)) es) \<and>
    contents 0 (\<lambda>a. 0x12) (after (ich8_sample 0 (\<lambda>a. 0x12)) es) 512 = 0x12 \<and>
    contents 0 (\<lambda>a. 0x12) (after (ich8_sample 0 (\<lambda>a. 0x12)) es) (of_nat last) = 0xFF \<and>
    4096 \<le> last \<and> last < 2 ^ 31"
  using erase_bank_256_wrong_sectors [of "\<lambda>a. 0x12" 0 "ich8_sample 0 (\<lambda>a. 0x12)" 0]
    ich8_sample_ready [of 0 "\<lambda>a. 0x12"]
  by (simp add: ich8_nvm_ready_def bank_start_def)

end
