(* ===== verification/NvmCommit.thy ===== *)
theory NvmCommit
  imports NvmIch8Props
begin

section \<open>The commit of the shadow RAM\<close>

text \<open>
  What \<open>e1000_update_nvm_checksum_ich8lan\<close> leaves in a working flash. The other bank is erased,
  the words are programmed into it with their signature bits still set, the signature is made
  valid by clearing one bit, and the old signature is cleared: programming can only clear bits,
  and the proof goes through every one of these steps on the contents of the flash.
\<close>

subsection \<open>Bytes and words of a bank\<close>

text \<open>The bytes of the first \<open>k\<close> words of \<open>ws\<close> from address \<open>A\<close> on, over the contents \<open>c\<close>.\<close>

definition put_words :: "u32 \<Rightarrow> (nat \<Rightarrow> u16) \<Rightarrow> nat \<Rightarrow> flash \<Rightarrow> flash" where
  "put_words A ws k c = (\<lambda>x.
     (if unat (x - A) < 2 * k then byte_of (ws (unat (x - A) div 2)) (unat (x - A) mod 2) else c x))"

lemma put_words_0 [simp]: "put_words A ws 0 c = c"
  by (simp add: put_words_def)

lemma put_words_Suc:
  assumes "2 * k + 1 < 2 ^ 32"
  shows "put_words A ws (Suc k) c =
    (put_words A ws k c)(A + of_nat (2 * k) := byte_of (ws k) 0,
                         A + of_nat (2 * k) + 1 := byte_of (ws k) 1)"
proof (rule ext)
  fix x
  have u: "unat (of_nat (2 * k) :: u32) = 2 * k" "unat (of_nat (2 * k) + 1 :: u32) = 2 * k + 1"
    using assms by (simp_all add: unat_word_ariths unat_of_nat take_bit_nat_eq_self)
  have e: "x = A + of_nat (2 * k) \<longleftrightarrow> unat (x - A) = 2 * k"
    "x = A + of_nat (2 * k) + 1 \<longleftrightarrow> unat (x - A) = 2 * k + 1"
  proof -
    have *: "x = A + c \<longleftrightarrow> unat (x - A) = unat c" for c :: u32
      by (metis add.commute diff_add_cancel add_diff_cancel_left' word_unat_eq_iff)
    show "x = A + of_nat (2 * k) \<longleftrightarrow> unat (x - A) = 2 * k"
      using * [of "of_nat (2 * k)"] u(1) by simp
    show "x = A + of_nat (2 * k) + 1 \<longleftrightarrow> unat (x - A) = 2 * k + 1"
      using * [of "of_nat (2 * k) + 1"] u(2) by (simp add: add.assoc)
  qed
  have d: "unat (x - A) = 2 * k \<or> unat (x - A) = 2 * k + 1 \<or>
      (unat (x - A) < 2 * Suc k \<longleftrightarrow> unat (x - A) < 2 * k)" by arith
  show "put_words A ws (Suc k) c x =
    ((put_words A ws k c)(A + of_nat (2 * k) := byte_of (ws k) 0,
                         A + of_nat (2 * k) + 1 := byte_of (ws k) 1)) x"
    using d unfolding fun_upd_apply e by (auto simp: put_words_def)
qed

lemma bytes_of_u16:
  fixes w :: u16
  shows "ucast w = byte_of w 0" "ucast (drop_bit 8 w) = byte_of w 1"
  by (simp_all add: byte_of_def)

lemma word_of_bytes: "(ucast (byte_of w 0) OR push_bit 8 (ucast (byte_of w 1)) :: u16) = w"
  by (rule bit_eqI) (auto simp: bit_or_iff bit_push_bit_iff bit_ucast_iff bit_byte_of)

lemma write_at_ready:
  assumes "flash_ready bz m lat s" and "x \<le> 0xFFFFFF"
    and "contents bz m s (nvm_flash_base_addr (hw_nvm s) + x) = 0xFF \<or> b = 0"
  shows "flash_op bz m lat s (e1000_retry_write_flash_byte_ich8lan x b) 0
    ((contents bz m s)(nvm_flash_base_addr (hw_nvm s) + x := b))"
proof -
  have m1: "(0xFF :: u8) = - 1" by simp
  have ff: "0xFF AND b = b" for b :: u8
    unfolding m1 by (rule and.left_neutral)
  show ?thesis
    using retry_write_byte_ready [OF assms(1,2), of b] assms(3)
    by (auto simp: linear_addr [OF assms(2)] ff)
qed

lemma flash_op_sleep:
  assumes "flash_ready bz m lat s"
    and "\<And>es. flash_ready bz m lat (after s es) \<Longrightarrow> contents bz m (after s es) = contents bz m s \<Longrightarrow>
      flash_op bz m lat (after s es) f r m2"
  shows "flash_op bz m lat s (State_Monad.bind (usleep_range a b) (\<lambda>_. f)) r m2"
proof (rule flash_op_bind [of bz m lat s _ "()" "contents bz m s"])
  show "flash_op bz m lat s (usleep_range a b) () (contents bz m s)"
    using assms(1) by (intro flash_opI [of _ _ _ "[IOSleep ((a + 999) div 1000)]"])
      (simp_all add: flash_ready_def mac_is_spt_def contents_def)
qed (use assms(2) in simp)


lemma ff_and: "0xFF AND b = (b :: u8)"
proof -
  have m1: "(0xFF :: u8) = - 1" by simp
  show ?thesis unfolding m1 by (rule and.left_neutral)
qed

text \<open>The two banks do not overlap, and the banks fit the address range.\<close>

lemma bank_offsets:
  assumes "ich8_nvm_ready bz m lat s" and "k < 4096"
  shows "unat (of_nat k :: u32) = k"
    and "4096 \<le> unat (nvm_flash_bank_size (hw_nvm s) * 2 + of_nat k)"
    and "4096 \<le> unat (of_nat k - nvm_flash_bank_size (hw_nvm s) * 2)"
proof -
  let ?n = "nvm_flash_bank_size (hw_nvm s)"
  have n: "2048 \<le> unat ?n" "unat ?n \<le> 0x3FF000"
    using assms(1) by (simp_all add: ich8_nvm_ready_def word_le_nat_alt)
  have 2: "unat (?n * 2) = 2 * unat ?n" using n by (simp add: unat_word_ariths)
  show k: "unat (of_nat k :: u32) = k"
    using assms(2) by (simp add: unat_of_nat take_bit_nat_eq_self)
  show "4096 \<le> unat (?n * 2 + of_nat k)"
    using n assms(2) by (simp add: unat_word_ariths(1) 2 k)
  show "4096 \<le> unat (of_nat k - ?n * 2)"
    using n assms(2) by (simp add: unat_sub_if' 2 k)
qed

lemma other_bank_kept:
  assumes "ich8_nvm_ready bz m lat s" and "k \<le> 2048" and "j < 4096" and "b \<noteq> 0 \<longleftrightarrow> b' = 0"
  shows "put_words (bank_start s b) ws k c (bank_start s b' + of_nat j) = c (bank_start s b' + of_nat j)"
  using bank_offsets [OF assms(1,3)] assms(2,4)
  by (auto simp: put_words_def bank_start_def algebra_simps)

lemma own_bank_at:
  assumes "ich8_nvm_ready bz m lat s" and "k \<le> 2048" and "j < 4096"
  shows "put_words (bank_start s b) ws k c (bank_start s b + of_nat j) =
    (if j < 2 * k then byte_of (ws (j div 2)) (j mod 2) else c (bank_start s b + of_nat j))"
  using bank_offsets(1) [OF assms(1,3)] by (simp add: put_words_def)


text \<open>The word the commit writes at index \<open>k\<close>: the signature bits are set until it is complete.\<close>

definition commit_word :: "flash \<Rightarrow> e1000_hw \<Rightarrow> nat \<Rightarrow> u16" where
  "commit_word c s k = (let w = shadowed_word c s (of_nat k) in
     if k = E1000_ICH_NVM_SIG_WORD then w OR E1000_ICH_NVM_SIG_MASK else w)"

definition bank_off :: "e1000_hw \<Rightarrow> u32 \<Rightarrow> u32" where
  "bank_off s b = (if b \<noteq> 0 then nvm_flash_bank_size (hw_nvm s) else 0)"

lemma byte_addr:
  assumes "ich8_nvm_ready bz m lat s" and "k < 2048"
  shows "push_bit 1 (of_nat k + bank_off s b) \<le> 0xFFFFFF"
    and "push_bit 1 (of_nat k + bank_off s b) + 1 \<le> 0xFFFFFF"
    and "nvm_flash_base_addr (hw_nvm s) + push_bit 1 (of_nat k + bank_off s b) = bank_start s b + of_nat (2 * k)"
proof -
  have k: "unat (of_nat k :: u32) < 2048" using bank_offsets(1) [OF assms(1), of k] assms(2) by simp
  have p: "push_bit 1 (of_nat k + bank_off s b) =
      (if b \<noteq> 0 then nvm_flash_bank_size (hw_nvm s) * 2 else 0) + 2 * of_nat k"
    by (simp add: bank_off_def algebra_simps)
  show "push_bit 1 (of_nat k + bank_off s b) \<le> 0xFFFFFF"
    unfolding p by (rule bank_addr_bound(1) [OF assms(1) k])
  show "push_bit 1 (of_nat k + bank_off s b) + 1 \<le> 0xFFFFFF"
    unfolding p using bank_addr_bound(2) [OF assms(1) k, of b] by (simp add: add.assoc)
  show "nvm_flash_base_addr (hw_nvm s) + push_bit 1 (of_nat k + bank_off s b) =
      bank_start s b + of_nat (2 * k)"
    unfolding p by (simp add: bank_start_def)
qed

text \<open>
  The loop: \<open>c\<close> are the contents when it starts, with the new bank \<open>b\<close> erased and the old bank
  \<open>b'\<close> holding what \<open>c0\<close> holds.
\<close>

lemma commit_loop_ready:
  assumes "ich8_nvm_ready bz m lat s" and "i + n = 2048" and bb: "b \<noteq> 0 \<longleftrightarrow> b' = 0"
    and "\<And>j. j < 4096 \<Longrightarrow> c (bank_start s b + of_nat j) = 0xFF"
    and "\<And>j. j < 4096 \<Longrightarrow> c (bank_start s b' + of_nat j) = c0 (bank_start s b' + of_nat j)"
    and "current_bank c0 s \<noteq> 0 \<longleftrightarrow> b' \<noteq> 0"
    and "contents bz m s = put_words (bank_start s b) (commit_word c0 s) i c"
  shows "flash_op bz m lat s (commit_ich8_loop n i (bank_off s b) (bank_off s b') data) 0
    (put_words (bank_start s b) (commit_word c0 s) 2048 c)"
  using assms(1,2,4-)
proof (induction n arbitrary: i s data)
  case 0
  then show ?case using flash_op_ret [of bz m lat s 0] by (simp add: ich8_nvm_ready_def)
next
  case (Suc n)
  let ?ws = "commit_word c0 s" and ?A = "bank_start s b" and ?cur = "contents bz m s"
  have i: "i < 2048" using Suc.prems(2) by simp
  have ready: "flash_ready bz m lat s" using Suc.prems(1) by (simp add: ich8_nvm_ready_def)
  have ui: "unat (of_nat i :: u16) = i" using i by (simp add: unat_of_nat take_bit_nat_eq_self)
  have u32i: "ucast (of_nat i :: u16) = (of_nat i :: u32)"
    using bank_offsets(1) [OF Suc.prems(1), of i] i
    by (simp add: word_unat_eq_iff unat_ucast_up ui)
  have cur: "?cur = put_words ?A ?ws i c" by (rule Suc.prems(6))
  have old: "bank_word ?cur s b' (of_nat i) = bank_word c0 s (current_bank c0 s) (of_nat i)"
  proof -
    have "bank_start s (current_bank c0 s) = bank_start s b'"
      using Suc.prems(5) by (simp add: bank_start_def)
    moreover have keep: "?cur (bank_start s b' + of_nat j) = c0 (bank_start s b' + of_nat j)" if "j < 4096" for j
      using other_bank_kept [OF Suc.prems(1) _ that bb, of i ?ws c] Suc.prems(4) [OF that] i
      by (simp add: cur)
    ultimately show ?thesis
      using i keep [of "2 * i"] keep [of "2 * i + 1"]
      by (simp add: bank_word_def flash_word_def u32i ac_simps)
  qed
  let ?w = "shadowed_word c0 s (of_nat i)"
  let ?x = "push_bit 1 (of_nat i + bank_off s b)"
  let ?rd = "\<lambda>sr. if sr_modified sr then ret (0, sr_value sr)
            else e1000_read_flash_word_ich8lan (of_nat i + bank_off s b') data"
  have rd: "flash_op bz m lat s (?rd (hw_shadow_ram s ! i)) (0, ?w) ?cur"
    using flash_op_ret [OF ready, of "(0, ?w)"] old
      read_bank_word_ready [OF Suc.prems(1), of "of_nat i" b' data] i
    by (auto simp: shadowed_word_def Let_def ui u32i bank_off_def add.commute)
  have ws: "?ws i = (if i = E1000_ICH_NVM_SIG_WORD then ?w OR E1000_ICH_NVM_SIG_MASK else ?w)"
    by (simp add: commit_word_def)
  let ?c1 = "?cur(?A + of_nat (2 * i) := byte_of (?ws i) 0)"
  let ?c2 = "?c1(?A + of_nat (2 * i) + 1 := byte_of (?ws i) 1)"
  note addr = byte_addr [OF Suc.prems(1) i, of b]
  have c2: "?c2 = put_words ?A ?ws (Suc i) c"
    using put_words_Suc [of i ?A ?ws c] i by (simp add: cur)
  have ff: "?cur (?A + of_nat (2 * i)) = 0xFF" "?c1 (?A + of_nat (2 * i) + 1) = 0xFF"
    using own_bank_at [OF Suc.prems(1), of i "2 * i" b ?ws c] Suc.prems(3) [of "2 * i"]
      own_bank_at [OF Suc.prems(1), of i "2 * i + 1" b ?ws c] Suc.prems(3) [of "2 * i + 1"] i
    by (simp_all add: cur ac_simps)
  have w1: "flash_op bz m lat (after s es) (e1000_retry_write_flash_byte_ich8lan ?x (byte_of (?ws i) 0)) 0 ?c1"
    if "flash_ready bz m lat (after s es)" "contents bz m (after s es) = ?cur" for es
    using write_at_ready [OF that(1) addr(1), of "byte_of (?ws i) 0"] ff(1)
    unfolding that(2) after_fields addr(3) by blast
  have w2: "flash_op bz m lat (after s es)
      (e1000_retry_write_flash_byte_ich8lan (?x + 1) (byte_of (?ws i) 1)) 0 ?c2"
    if "flash_ready bz m lat (after s es)" "contents bz m (after s es) = ?c1" for es
  proof -
    have a: "nvm_flash_base_addr (hw_nvm s) + (?x + 1) = ?A + of_nat (2 * i) + 1"
      using addr(3) by (simp add: add.assoc [symmetric])
    show ?thesis
      using write_at_ready [OF that(1) addr(2), of "byte_of (?ws i) 1"] ff(2)
      unfolding that(2) after_fields a by blast
  qed
  have rest: "flash_op bz m lat (after s es)
      (commit_ich8_loop n (i + 1) (bank_off s b) (bank_off s b') d) 0 (put_words ?A ?ws 2048 c)"
    if "flash_ready bz m lat (after s es)" "contents bz m (after s es) = ?c2" for es d
  proof -
    have [simp]: "commit_word c0 (after s es) = ?ws" "bank_off (after s es) = bank_off s"
      by (simp_all add: commit_word_def bank_off_def fun_eq_iff)
    have "contents bz m (after s es) = put_words ?A ?ws (Suc i) c"
      unfolding that(2) by (rule c2)
    then show ?thesis
      using Suc.IH [OF ich8_ready_after [OF Suc.prems(1) that(1)], of "i + 1" d] Suc.prems(2-5)
      by simp
  qed
  show ?case
    unfolding commit_ich8_loop.simps Let_def
    apply (rule flash_op_gets)
    apply (rule flash_op_bind [OF rd])
    apply (simp only: fst_conv snd_conv simp_thms if_False ws [symmetric] bytes_of_u16(2))
    apply (simp only: bytes_of_u16(1))
    apply (rule flash_op_sleep, assumption)
    apply (rule flash_op_bind, simp only: after_after, rule w1, assumption, simp)
    apply (simp only: simp_thms if_False after_after)
    apply (rule flash_op_sleep, assumption)
    apply (rule flash_op_bind, simp only: after_after, rule w2, assumption, simp)
    apply (simp only: simp_thms if_False after_after)
    apply (rule rest, assumption, simp)
    done
qed

subsection \<open>The erase and the signature\<close>

text \<open>Each bank lies in sectors of its own, so that erasing one leaves the other alone.\<close>

definition bank_sectors :: "u16 \<Rightarrow> e1000_hw \<Rightarrow> bool" where
  "bank_sectors bz s = (bz \<noteq> 0 \<and> unat (bank_start s 0) mod 4096 = 0 \<and> unat (bank_start s 1) mod 4096 = 0 \<and>
     bank_start s 0 div sector_bytes bz \<noteq> bank_start s 1 div sector_bytes bz)"

lemma same_sector:
  assumes "bz \<noteq> 0" and "unat x mod 4096 = 0" and "j < 4096"
  shows "(x + of_nat j) div sector_bytes bz = x div sector_bytes bz"
proof -
  obtain q where q: "unat x = 4096 * q" using assms(2) by auto
  obtain k :: nat where k: "unat (sector_bytes bz) = 4096 * k"
  proof
    show "unat (sector_bytes bz) = 4096 * (if bz = 1 then 1 else if bz = 2 then 2 else 16)"
      using assms(1) by (simp add: sector_bytes_def)
  qed
  have j: "unat (of_nat j :: u32) = j" using assms(3) by (simp add: unat_of_nat take_bit_nat_eq_self)
  have "unat x < 4096 * 1048576" using unsigned_less [of x] by simp
  then have "q < 1048576" unfolding q by simp
  then have "unat x + j < 2 ^ 32" using assms(3) unfolding q by simp
  then have xj: "unat (x + of_nat j) = 4096 * q + j"
    by (simp add: unat_word_ariths j q)
  have "(4096 * q + j) div (4096 * k) = (4096 * q) div (4096 * k)"
    using assms(3) by (simp add: div_mult2_eq)
  then show ?thesis by (simp add: word_unat_eq_iff unat_div xj q k)
qed

lemma erase_other_bank:
  assumes "ich8_nvm_ready bz m lat s" and "bank_sectors bz s" and "b \<in> {0, 1}" and "b' = 1 - b"
  obtains cE where "flash_op bz m lat s (e1000_erase_flash_bank_ich8lan b) 0 cE"
    and "\<And>j. j < 4096 \<Longrightarrow> cE (bank_start s b + of_nat j) = 0xFF"
    and "\<And>j. j < 4096 \<Longrightarrow> cE (bank_start s b' + of_nat j) = contents bz m s (bank_start s b' + of_nat j)"
proof -
  let ?cE = "erase_sector (sector_bytes bz) (bank_start s b) (contents bz m s)"
  have passes: "erase_passes bz s = 1" using assms(2) by (simp add: bank_sectors_def erase_passes_def)
  have "flash_op bz m lat s (e1000_erase_flash_bank_ich8lan b) 0 ?cE"
    using erase_bank_ready [of bz m lat s b] assms(1) by (simp add: passes ich8_nvm_ready_def)
  moreover have "?cE (bank_start s b + of_nat j) = 0xFF" if "j < 4096" for j
    using same_sector [of bz "bank_start s b" j] assms(2,3) that
    by (auto simp: erase_sector_def bank_sectors_def)
  moreover have "?cE (bank_start s b' + of_nat j) = contents bz m s (bank_start s b' + of_nat j)"
    if "j < 4096" for j
    using same_sector [of bz "bank_start s b'" j] assms(2,3,4) that
    by (auto simp: erase_sector_def bank_sectors_def)
  ultimately show ?thesis by (rule that)
qed

lemma commit_banks_ready:
  assumes "ich8_nvm_ready bz m lat s" and "bank_sectors bz s"
    and b': "b' = current_bank (contents bz m s) s" and b: "b = 1 - b'"
  obtains cE where "flash_op bz m lat s commit_banks (0, bank_off s b, bank_off s b') cE"
    and "\<And>j. j < 4096 \<Longrightarrow> cE (bank_start s b + of_nat j) = 0xFF"
    and "\<And>j. j < 4096 \<Longrightarrow> cE (bank_start s b' + of_nat j) = contents bz m s (bank_start s b' + of_nat j)"
proof -
  have b01: "b' = 0 \<and> b = 1 \<or> b' = 1 \<and> b = 0"
    using b' b current_bank_01 [of "contents bz m s" s] by auto
  obtain es where es: "run_state nvm_detect_bank s = (b', after s es)" "flash_ready bz m lat (after s es)"
    "contents bz m (after s es) = contents bz m s"
    using bank_detect_byte_ready [OF assms(1)]
    by (auto simp: flash_op_def nvm_detect_bank_def b' current_bank_def split: option.splits)
  obtain cE where cE: "flash_op bz m lat (after s es) (e1000_erase_flash_bank_ich8lan b) 0 cE"
    "\<And>j. j < 4096 \<Longrightarrow> cE (bank_start (after s es) b + of_nat j) = 0xFF"
    "\<And>j. j < 4096 \<Longrightarrow> cE (bank_start (after s es) b' + of_nat j) =
       contents bz m (after s es) (bank_start (after s es) b' + of_nat j)"
    by (rule erase_other_bank [OF ich8_ready_after [OF assms(1) es(2)], of b b'])
       (use assms(2) b01 in \<open>auto simp: bank_sectors_def\<close>)
  obtain fs where fs: "run_state (e1000_erase_flash_bank_ich8lan b) (after s es) = (0, after s (es @ fs))"
    "flash_ready bz m lat (after s (es @ fs))" "contents bz m (after s (es @ fs)) = cE"
    using cE(1) by (auto elim: flash_opE)
  show ?thesis
  proof (rule that)
    show "flash_op bz m lat s commit_banks (0, bank_off s b, bank_off s b') cE"
      by (rule flash_opI [of _ _ _ "es @ fs"])
         (use es fs b01 in \<open>auto simp: commit_banks_def bank_off_def\<close>)
  qed (use cE(2,3) es(3) in simp_all)
qed

definition sig_committed :: "u16 \<Rightarrow> u16" where
  "sig_committed w = (w OR E1000_ICH_NVM_SIG_MASK) AND 0xBFFF"

lemma bit_BFFF: "bit (0xBFFF :: u16) n \<longleftrightarrow> n < 16 \<and> n \<noteq> 14"
proof -
  have "(0xBFFF :: u16) = NOT (2 ^ 14)" by simp
  then show ?thesis by (auto simp only: bit_not_iff bit_exp_iff) auto
qed

lemma sig_committed_bits: "bit (sig_committed w) n \<longleftrightarrow> (n = 15 \<or> n < 14 \<and> bit w n)"
proof -
  have c: "bit (0xC000 :: u16) n \<longleftrightarrow> n \<in> {14, 15}"
    using bit_or_exp [of 14 15 n, where 'a = 16] by auto
  show ?thesis
    unfolding sig_committed_def bit_and_iff bit_or_iff c bit_BFFF by (auto dest: bit_imp_le_length)
qed

lemma sig_committed_valid: "sig_valid (byte_of (sig_committed w) 1)"
proof -
  have c: "bit (0xC0 :: u8) n \<longleftrightarrow> n \<in> {6, 7}" for n
    using bit_or_exp [of 6 7 n, where 'a = 8] by auto
  have e: "bit (0x80 :: u8) n \<longleftrightarrow> n = 7" for n
    using bit_exp_iff [of 7 n, where 'a = u8] by auto
  show ?thesis
    unfolding sig_valid_def
    by (rule bit_eqI) (unfold bit_and_iff bit_byte_of sig_committed_bits c e, auto)
qed

subsection \<open>The whole commit\<close>

definition committed :: "u32 \<Rightarrow> u32 \<Rightarrow> (nat \<Rightarrow> u16) \<Rightarrow> flash \<Rightarrow> flash" where
  "committed A A' ws c = (put_words A ws 2048 c)
     (A + 0x27 := byte_of (ws 0x13 AND 0xBFFF) 1, A' + 0x27 := 0)"

lemma clear_update: "hw_shadow_ram_update f (after s es) =
    (after s es)\<lparr>hw_shadow_ram := f (hw_shadow_ram s)\<rparr>"
  by (cases s) (simp add: after_def)

lemma commit_ready:
  assumes ready: "ich8_nvm_ready bz m lat s" and sect: "bank_sectors bz s"
    and b': "b' = current_bank (contents bz m s) s" and b: "b = 1 - b'"
  obtains es cE where "run_state commit_ich8 s =
      (0, (after s es)\<lparr>hw_shadow_ram := clear_shadow_ram (hw_shadow_ram s)\<rparr>)"
    and "flash_ready bz m lat (after s es)"
    and "contents bz m (after s es) =
      committed (bank_start s b) (bank_start s b') (commit_word (contents bz m s) s) cE"
proof -
  let ?c = "contents bz m s"
  let ?ws = "commit_word ?c s" and ?A = "bank_start s b" and ?A' = "bank_start s b'"
  have b01: "b' = 0 \<and> b = 1 \<or> b' = 1 \<and> b = 0"
    using b' b current_bank_01 [of ?c s] by auto
  obtain cE where cE: "flash_op bz m lat s commit_banks (0, bank_off s b, bank_off s b') cE"
    "\<And>j. j < 4096 \<Longrightarrow> cE (?A + of_nat j) = 0xFF"
    "\<And>j. j < 4096 \<Longrightarrow> cE (?A' + of_nat j) = ?c (?A' + of_nat j)"
    using commit_banks_ready [OF ready sect b' b] by blast
  obtain e1 where e1: "run_state commit_banks s = ((0, bank_off s b, bank_off s b'), after s e1)"
    "flash_ready bz m lat (after s e1)" "contents bz m (after s e1) = cE"
    by (rule flash_opE [OF cE(1)])
  have [simp]: "commit_word c0 (after s es) = commit_word c0 s" "bank_off (after s es) = bank_off s"
    for c0 es by (simp_all add: commit_word_def bank_off_def fun_eq_iff)
  note r1 = ich8_ready_after [OF ready e1(2)]
  let ?cL = "put_words ?A ?ws 2048 cE"
  have "flash_op bz m lat (after s e1) (commit_ich8_loop 2048 0 (bank_off (after s e1) b)
      (bank_off (after s e1) b') 0) 0 (put_words (bank_start (after s e1) b) (commit_word ?c (after s e1)) 2048 cE)"
    by (rule commit_loop_ready [OF r1])
       (use cE(2,3) e1(3) b01 b' in auto)
  then obtain e2 where e2: "run_state (commit_ich8_loop 2048 0 (bank_off s b) (bank_off s b') 0)
      (after s e1) = (0, after s (e1 @ e2))"
    "flash_ready bz m lat (after s (e1 @ e2))" "contents bz m (after s (e1 @ e2)) = ?cL"
    by (auto elim: flash_opE)
  note r2 = ich8_ready_after [OF ready e2(2)]
  have w13: "bank_word ?cL s b 0x13 = ?ws 0x13"
    using own_bank_at [OF ready, of 2048 "0x26" b ?ws cE] own_bank_at [OF ready, of 2048 "0x27" b ?ws cE]
    by (simp add: bank_word_def flash_word_def word_of_bytes [unfolded One_nat_def] add.assoc)
  have "flash_op bz m lat (after s (e1 @ e2))
      (e1000_read_flash_word_ich8lan (bank_off s b + 0x13) 0) (0, ?ws 0x13) ?cL"
    using read_bank_word_ready [OF r2, of "0x13" b 0] w13
    by (simp add: bank_off_def e2(3) cong: if_cong)
  then obtain e3 where e3: "run_state (e1000_read_flash_word_ich8lan (bank_off s b + 0x13) 0)
      (after s (e1 @ e2)) = ((0, ?ws 0x13), after s (e1 @ e2 @ e3))"
    "flash_ready bz m lat (after s (e1 @ e2 @ e3))" "contents bz m (after s (e1 @ e2 @ e3)) = ?cL"
    by (auto elim: flash_opE)
  have sig: "(bank_off s q + 0x13) * 2 + 1 \<le> 0xFFFFFF"
    "nvm_flash_base_addr (hw_nvm s) + ((bank_off s q + 0x13) * 2 + 1) = bank_start s q + 0x27" for q
    using byte_addr [OF ready, of "0x13" q] by (simp_all add: algebra_simps bank_start_def bank_off_def)
  let ?b = "byte_of (?ws 0x13 AND 0xBFFF) 1"
  have and_b: "?cL (?A + 0x27) AND ?b = ?b"
  proof -
    have "?cL (?A + 0x27) = byte_of (?ws 0x13) 1"
      using own_bank_at [OF ready, of 2048 "0x27" b ?ws cE] by simp
    then show ?thesis by (auto intro!: bit_eqI simp: bit_and_iff bit_byte_of)
  qed
  have "flash_op bz m lat (after s (e1 @ e2 @ e3))
      (e1000_retry_write_flash_byte_ich8lan ((bank_off s b + 0x13) * 2 + 1) ?b) 0 (?cL(?A + 0x27 := ?b))"
    using retry_write_byte_ready [OF e3(2) sig(1), of b ?b]
    unfolding linear_addr [OF sig(1)] after_fields sig(2) e3(3) and_b .
  then obtain e4 where e4: "run_state (e1000_retry_write_flash_byte_ich8lan ((bank_off s b + 0x13) * 2 + 1) ?b)
      (after s (e1 @ e2 @ e3)) = (0, after s (e1 @ e2 @ e3 @ e4))"
    "flash_ready bz m lat (after s (e1 @ e2 @ e3 @ e4))"
    "contents bz m (after s (e1 @ e2 @ e3 @ e4)) = ?cL(?A + 0x27 := ?b)"
    by (auto elim: flash_opE)
  have "flash_op bz m lat (after s (e1 @ e2 @ e3 @ e4))
      (e1000_retry_write_flash_byte_ich8lan ((bank_off s b' + 0x13) * 2 + 1) 0) 0
      (committed ?A ?A' ?ws cE)"
    using write_at_ready [OF e4(2) sig(1), of b' 0]
    unfolding after_fields sig(2) e4(3) committed_def by blast
  then obtain e5 where e5: "run_state (e1000_retry_write_flash_byte_ich8lan ((bank_off s b' + 0x13) * 2 + 1) 0)
      (after s (e1 @ e2 @ e3 @ e4)) = (0, after s (e1 @ e2 @ e3 @ e4 @ e5))"
    "flash_ready bz m lat (after s (e1 @ e2 @ e3 @ e4 @ e5))"
    "contents bz m (after s (e1 @ e2 @ e3 @ e4 @ e5)) = committed ?A ?A' ?ws cE"
    by (auto elim: flash_opE)
  have "run_state commit_ich8 s = (0, (after s (e1 @ e2 @ e3 @ e4 @ e5))
      \<lparr>hw_shadow_ram := clear_shadow_ram (hw_shadow_ram s)\<rparr>)"
    using e1(1) e2(1) e3(1) e4(1) e5(1)
    by (simp add: commit_ich8_def Let_def bytes_of_u16(2) clear_update [of clear_shadow_ram] del: commit_ich8_loop.simps)
  with e5(2,3) show ?thesis by (intro that)
qed

text \<open>Accesses to the control and status registers do not reach the flash.\<close>

definition csr_event :: "event \<Rightarrow> bool" where
  "csr_event e = (case e of Rd (Csr r) v \<Rightarrow> True | Wr (Csr r) v \<Rightarrow> True | IODelay n \<Rightarrow> True
     | IOSleep n \<Rightarrow> True | _ \<Rightarrow> False)"

lemma csr_events_flash:
  "list_all csr_event es \<Longrightarrow> busy (es @ l) = busy l"
  "list_all csr_event es \<Longrightarrow> flash_mem bz m (es @ l) = flash_mem bz m l"
  by (induction es) (auto simp: csr_event_def goes_def split: event.splits access.splits)

lemma csr_only_ready:
  assumes "keeps (allowed csr_event) f" and "ich8_nvm_ready bz m lat s"
  obtains es where "snd (run_state f s) = after s es" and "ich8_nvm_ready bz m lat (after s es)"
    and "contents bz m (after s es) = contents bz m s"
proof -
  obtain es where es: "snd (run_state f s) = s\<lparr>hw_log := es @ hw_log s\<rparr>" "list_all csr_event es"
    using keeps_run [OF assms(1), of s] by (auto simp: allowed_def)
  have "ich8_nvm_ready bz m lat (after s (rev es))"
    using assms(2) csr_events_flash(1) [OF es(2)]
    by (simp add: ich8_nvm_ready_def flash_ready_def mac_is_spt_def)
  moreover have "contents bz m (after s (rev es)) = contents bz m s"
    using csr_events_flash(2) [OF es(2)] by (simp add: contents_def)
  ultimately show ?thesis using es(1) by (intro that [of "rev es"]) (simp add: after_def)
qed

lemma reload_csr: "keeps (allowed csr_event) e1000e_reload_nvm_generic"
  unfolding e1000e_reload_nvm_generic_def
  by (intro allowed_intros) (simp_all add: csr_event_def)

lemma sectors_nvm: "hw_nvm t = hw_nvm s \<Longrightarrow> bank_sectors bz t = bank_sectors bz s"
  by (simp add: bank_sectors_def bank_start_def)

lemma clear_all:
  assumes "length ram = 2048"
  shows "k < 2048 \<Longrightarrow> \<not> sr_modified (clear_shadow_ram ram ! k)"
    and "length (clear_shadow_ram ram) = 2048"
  using assms by (simp_all add: clear_shadow_ram_def nth_append)

text \<open>The contents after a commit hold the words written and mark the new bank as the valid one.\<close>

lemma committed_words:
  assumes ready: "ich8_nvm_ready bz m lat s" and b: "b = 0 \<and> b' = 1 \<or> b = 1 \<and> b' = 0"
    and c: "c = committed (bank_start s b) (bank_start s b') ws cE"
    and sig: "ws 0x13 AND 0xBFFF = sig_committed w"
  shows "current_bank c s = b"
    and "unat a < 2048 \<Longrightarrow> bank_word c s b a = (if a = 0x13 then sig_committed w else ws (unat a))"
proof -
  have apart: "bank_start s b + of_nat j \<noteq> bank_start s b' + of_nat k" if "j < 4096" "k < 4096" for j k
  proof
    assume eq: "bank_start s b + of_nat j = bank_start s b' + of_nat k"
    have "put_words (bank_start s b) (\<lambda>_. 0) 2048 (\<lambda>_. 1) (bank_start s b + of_nat j) = 0"
      using own_bank_at [OF ready, of 2048 j b] that by (simp add: byte_of_def)
    moreover have "put_words (bank_start s b) (\<lambda>_. 0) 2048 (\<lambda>_. 1) (bank_start s b' + of_nat k) = 1"
      using other_bank_kept [OF ready, of 2048 k b b'] that b by auto
    ultimately show False using eq by simp
  qed
  have at: "c (bank_start s b + of_nat j) =
      (if j = 0x27 then byte_of (ws 0x13 AND 0xBFFF) 1 else byte_of (ws (j div 2)) (j mod 2))"
    if "j < 4096" for j
  proof -
    have "bank_start s b + of_nat j \<noteq> bank_start s b' + 0x27" using apart [OF that, of "0x27"] by simp
    moreover have "bank_start s b + of_nat j = bank_start s b + 0x27 \<longleftrightarrow> j = 0x27"
    proof -
      have "(of_nat j :: u32) = 0x27 \<longleftrightarrow> j = 0x27"
        using bank_offsets(1) [OF ready that] by (auto simp: word_unat_eq_iff)
      then show ?thesis by simp
    qed
    ultimately show ?thesis
      using own_bank_at [OF ready _ that, of 2048 b ws cE] that
      by (auto simp: c committed_def)
  qed
  have at': "c (bank_start s b' + 0x27) = 0" by (simp add: c committed_def)
  have v: "sig_valid (c (bank_start s b + 0x27))"
    using at [of "0x27"] sig sig_committed_valid [of w] by simp
  have nv: "\<not> sig_valid (c (bank_start s b' + 0x27))"
    unfolding at' by (simp add: sig_valid_def)
  show "current_bank c s = b"
    using b v nv by (auto simp: current_bank_def bank_of_def sig_byte_addr_def)
  show "bank_word c s b a = (if a = 0x13 then sig_committed w else ws (unat a))" if a: "unat a < 2048"
  proof -
    have u: "push_bit 1 (ucast a) = (of_nat (2 * unat a) :: u32)"
      by (simp add: word_unat_eq_iff unat_ucast_up unat_word_ariths unat_of_nat take_bit_eq_mod mult.commute)
    have w: "bank_word c s b a = ucast (c (bank_start s b + of_nat (2 * unat a)))
        OR push_bit 8 (ucast (c (bank_start s b + of_nat (2 * unat a + 1))))"
      by (simp add: bank_word_def flash_word_def u ac_simps)
    show ?thesis
    proof (cases "a = 0x13")
      case True
      have lo: "byte_of (ws 0x13) 0 = byte_of (sig_committed w) 0"
        unfolding sig [symmetric]
        by (rule bit_eqI) (unfold bit_byte_of bit_and_iff bit_BFFF, auto)
      show ?thesis
        using True at [of "0x26"] at [of "0x27"] sig word_of_bytes [of "sig_committed w"]
        by (simp add: w [unfolded True] lo del: One_nat_def)
    next
      case False
      then have "unat a \<noteq> 0x13" by (auto simp: word_unat_eq_iff)
      then show ?thesis
        using False a at [of "2 * unat a"] at [of "2 * unat a + 1"] word_of_bytes [of "ws (unat a)"]
        by (simp add: w del: One_nat_def)
    qed
  qed
qed

subsection \<open>The checksum update\<close>

lemma update_ready:
  assumes ready: "ich8_nvm_ready bz m lat s" and sect: "bank_sectors bz s"
    and ty: "nvm_type (hw_nvm s) = e1000_nvm_flash_sw"
  obtains t where "run_state e1000_update_nvm_checksum_ich8lan s = (0, t)"
    and "ich8_nvm_ready bz m lat t" and "hw_nvm t = hw_nvm s"
    and "\<And>k. k < 2048 \<Longrightarrow> \<not> sr_modified (hw_shadow_ram t ! k)"
    and "current_bank (contents bz m t) t = 1 - current_bank (contents bz m s) s"
    and "\<And>a. unat a < 2048 \<Longrightarrow> shadowed_word (contents bz m t) t a =
      (let w = ((shadowed_word (contents bz m s) s)
          (0x3F := NVM_SUM - nvm_sum 63 (shadowed_word (contents bz m s) s))) a
       in if a = 0x13 then sig_committed w else w)"
proof -
  let ?W = "(shadowed_word (contents bz m s) s)
    (0x3F := NVM_SUM - nvm_sum 63 (shadowed_word (contents bz m s) s))"
  obtain u where u: "run_state (e1000e_update_nvm_checksum_generic ich8_nvm_access) s = (0, u)"
    "ich8_nvm_ready bz m lat u" "hw_nvm u = hw_nvm s" "contents bz m u = contents bz m s"
    "shadowed_word (contents bz m u) u = ?W"
    by (rule ich8_store.update [of bz m lat s "hw_nvm s" "contents bz m s"]) (use ready in simp_all)
  define b' where "b' = current_bank (contents bz m u) u"
  define b where "b = 1 - b'"
  have b01: "b = 0 \<and> b' = 1 \<or> b = 1 \<and> b' = 0"
    using current_bank_01 [of "contents bz m u" u] by (auto simp: b_def b'_def)
  have sect_u: "bank_sectors bz u" using sect sectors_nvm [OF u(3)] by simp
  obtain es cE where com: "run_state commit_ich8 u =
      (0, (after u es)\<lparr>hw_shadow_ram := clear_shadow_ram (hw_shadow_ram u)\<rparr>)"
    "flash_ready bz m lat (after u es)"
    "contents bz m (after u es) =
      committed (bank_start u b) (bank_start u b') (commit_word (contents bz m u) u) cE"
    by (rule commit_ready [OF u(2) sect_u b'_def b_def])
  let ?v = "(after u es)\<lparr>hw_shadow_ram := clear_shadow_ram (hw_shadow_ram u)\<rparr>"
  let ?c = "contents bz m (after u es)"
  have len: "length (hw_shadow_ram u) = 2048" using u(2) by (simp add: ich8_nvm_ready_def)
  have v: "ich8_nvm_ready bz m lat ?v"
    using u(2) com(2) len clear_all [OF len]
    by (simp add: ich8_nvm_ready_def flash_ready_def mac_is_spt_def)
  have tail: "keeps (allowed csr_event) (do { e1000e_reload_nvm_generic; usleep_range 10000 20000 })"
    by (intro allowed_intros reload_csr) (simp_all add: csr_event_def)
  obtain fs where fs: "snd (run_state (do { e1000e_reload_nvm_generic; usleep_range 10000 20000 }) ?v) =
      after ?v fs" "ich8_nvm_ready bz m lat (after ?v fs)" "contents bz m (after ?v fs) = contents bz m ?v"
    by (rule csr_only_ready [OF tail v])
  let ?t = "after ?v fs"
  have cv: "contents bz m ?v = ?c" by (simp add: contents_def)
  have run: "run_state e1000_update_nvm_checksum_ich8lan s = (0, ?t)"
    using u(1) com(1) fs(1) ty u(3)
    by (simp add: e1000_update_nvm_checksum_ich8lan_def nvm_update_with_def ich8_nvm_access_def
        e1000_acquire_nvm_ich8lan_def e1000_release_nvm_ich8lan_def case_prod_beta)
  have geo: "bank_start ?v = bank_start u" "current_bank x ?v = current_bank x u"
    "bank_word x ?v = bank_word x u" for x
    by (simp_all add: fun_eq_iff bank_start_def current_bank_def bank_of_def sig_byte_addr_def
      bank_word_def cong: if_cong)
  have sig: "commit_word (contents bz m u) u 0x13 AND 0xBFFF = sig_committed (?W 0x13)"
    using u(5) by (simp add: commit_word_def Let_def sig_committed_def del: fun_upd_apply)
  note words = committed_words [OF u(2) b01 com(3) sig]
  have cur: "current_bank (contents bz m ?t) ?t = b" using words(1) by (simp add: geo fs(3) cv)
  have old: "b = 1 - current_bank (contents bz m s) s"
    using u(3,4) by (simp add: b_def b'_def current_bank_def bank_of_def sig_byte_addr_def bank_start_def)
  have clear: "\<not> sr_modified (hw_shadow_ram ?t ! k)" if "k < 2048" for k
    using clear_all(1) [OF len that] by simp
  have word: "shadowed_word (contents bz m ?t) ?t a =
      (let w = ?W a in if a = 0x13 then sig_committed w else w)" if a: "unat a < 2048" for a
  proof -
    have "shadowed_word (contents bz m ?t) ?t a = bank_word ?c u b a"
      using clear [OF a] cur by (simp add: shadowed_word_def Let_def geo fs(3) cv)
    also have "\<dots> = (if a = 0x13 then sig_committed (?W 0x13) else commit_word (contents bz m u) u (unat a))"
      by (rule words(2) [OF a])
    also have "\<dots> = (let w = ?W a in if a = 0x13 then sig_committed w else w)"
    proof (cases "a = 0x13")
      case False
      then have "unat a \<noteq> 0x13" by (auto simp: word_unat_eq_iff)
      then show ?thesis using False u(5) by (simp add: commit_word_def Let_def del: fun_upd_apply)
    qed (simp add: Let_def)
    finally show ?thesis .
  qed
  show ?thesis
    by (rule that [OF run fs(2)]) (use clear cur old word u(3) in simp_all)
qed


text \<open>C1: On a working flash whose banks lie in sectors of their own, the checksum update of the
  shadow-RAM NVM returns success; it leaves no pending word, makes the other bank the current
  one, and the words read from it are the pending ones with the checksum word corrected (and
  the signature bits of word 0x13 set to valid).\<close>

theorem nvm_update_commits:
  assumes "ich8_nvm_ready bz m lat s" and "bank_sectors bz s"
    and "nvm_type (hw_nvm s) = e1000_nvm_flash_sw"
  shows "\<exists>t. run_state e1000_update_nvm_checksum_ich8lan s = (0, t) \<and> ich8_nvm_ready bz m lat t \<and>
    (\<forall>k < 2048. \<not> sr_modified (hw_shadow_ram t ! k)) \<and>
    current_bank (contents bz m t) t = 1 - current_bank (contents bz m s) s \<and>
    (\<forall>a. unat a < 2048 \<longrightarrow> shadowed_word (contents bz m t) t a =
      (let w = ((shadowed_word (contents bz m s) s)
          (NVM_CHECKSUM_REG := NVM_SUM - nvm_sum 63 (shadowed_word (contents bz m s) s))) a
       in if a = E1000_ICH_NVM_SIG_WORD then sig_committed w else w))"
  by (rule update_ready [OF assms]) blast

lemma sig_committed_id:
  assumes "bit w 15" and "\<not> bit w 14"
  shows "sig_committed w = w"
proof (rule bit_eqI)
  fix n
  have "n < 14 \<or> n = 14 \<or> n = 15 \<or> n \<ge> 16" for n :: nat by arith
  from this [of n] show "bit (sig_committed w) n = bit w n"
    unfolding sig_committed_bits using assms by (auto dest: bit_imp_le_length)
qed

theorem nvm_update_commits_witness:
  "\<exists>t. run_state e1000_update_nvm_checksum_ich8lan (ich8_sample 1 (\<lambda>a. 0x80)) = (0, t) \<and>
    current_bank (contents 1 (\<lambda>a. 0x80) t) t = 1"
proof -
  have "bank_sectors 1 (ich8_sample 1 (\<lambda>a. 0x80))"
    by (simp add: bank_sectors_def bank_start_def sector_bytes_def)
  moreover have "current_bank (\<lambda>a. 0x80) (ich8_sample 1 (\<lambda>a. 0x80)) = 0"
    by (simp add: current_bank_def bank_of_def sig_valid_def)
  ultimately show ?thesis
    using nvm_update_commits [OF ich8_sample_ready [of 1 "\<lambda>a. 0x80"]] by auto
qed

text \<open>C2: When word 0x13 carries the valid signature, the committed NVM passes the checksum
  validation: what the update wrote to the flash is what a later validation reads back.\<close>

theorem nvm_commit_validates:
  assumes "ich8_nvm_ready bz m lat s" and "bank_sectors bz s"
    and "nvm_type (hw_nvm s) = e1000_nvm_flash_sw"
    and "bit (shadowed_word (contents bz m s) s E1000_ICH_NVM_SIG_WORD) 15"
    and "\<not> bit (shadowed_word (contents bz m s) s E1000_ICH_NVM_SIG_WORD) 14"
  shows "fst (run_state (do { e1000_update_nvm_checksum_ich8lan;
      e1000e_validate_nvm_checksum_generic ich8_nvm_access }) s) = 0"
proof -
  let ?w = "shadowed_word (contents bz m s) s"
  let ?W = "?w(0x3F := NVM_SUM - nvm_sum 63 ?w)"
  obtain t where t: "run_state e1000_update_nvm_checksum_ich8lan s = (0, t)"
    "ich8_nvm_ready bz m lat t"
    "\<And>a. unat a < 2048 \<Longrightarrow> shadowed_word (contents bz m t) t a =
      (let w = ?W a in if a = 0x13 then sig_committed w else w)"
    by (rule update_ready [OF assms(1-3)]) blast
  have "shadowed_word (contents bz m t) t a = ?W a" if "unat a < 2048" for a
    using t(3) [OF that] sig_committed_id [OF assms(4,5)] by (simp add: Let_def)
  then have "nvm_sum 64 (shadowed_word (contents bz m t) t) = nvm_sum 64 ?W"
    unfolding nvm_sum_def
    by (intro arg_cong [where f = sum_list] map_cong)
       (simp_all add: unat_of_nat take_bit_nat_eq_self del: fun_upd_apply)
  also have "\<dots> = nvm_sum 63 ?w + (NVM_SUM - nvm_sum 63 ?w)"
    using nvm_sum_Suc [of 63 ?W] nvm_sum_upd [of 63 ?w] by simp
  finally have "nvm_sum 64 (shadowed_word (contents bz m t) t) = NVM_SUM" by simp
  moreover obtain v where "run_state (e1000e_validate_nvm_checksum_generic ich8_nvm_access) t =
      (if nvm_sum 64 (shadowed_word (contents bz m t) t) = NVM_SUM then 0 else - 1, v)"
    by (rule ich8_store.validate [of bz m lat t "hw_nvm t" "contents bz m t"]) (use t(2) in simp_all)
  ultimately show ?thesis using t(1) by simp
qed

theorem nvm_commit_validates_witness:
  "fst (run_state (do { e1000_update_nvm_checksum_ich8lan;
      e1000e_validate_nvm_checksum_generic ich8_nvm_access }) (ich8_sample 1 (\<lambda>a. 0x80))) = 0"
proof -
  have "bank_sectors 1 (ich8_sample 1 (\<lambda>a. 0x80))"
    by (simp add: bank_sectors_def bank_start_def sector_bytes_def)
  moreover have "shadowed_word (\<lambda>a. 0x80) (ich8_sample 1 (\<lambda>a. 0x80)) 0x13 = 0x8080"
    by (simp add: shadowed_word_def bank_word_def flash_word_def)
  ultimately show ?thesis
    by (intro nvm_commit_validates [OF ich8_sample_ready [of 1 "\<lambda>a. 0x80"]])
       (simp_all add: bit_numeral_rec)
qed

end
