(* ===== verification/Swflag.thy ===== *)
theory Swflag
  imports Nvm
begin

section \<open>The software flag and the receive addresses it guards (ich8lan.c)\<close>

text \<open>
  The semaphore the driver shares with firmware and hardware, \<open>EXTCNF_CTRL.SWFLAG\<close> behind the
  driver's own bit \<open>__E1000_ACCESS_SHARED_RESOURCE\<close> of \<open>adapter->state\<close>; the receive-address
  setters of the PCH parts, which take it; the management-mode and reset-block queries.
\<close>

subsection \<open>Acquire and release\<close>

text \<open>\<open>__E1000_ACCESS_SHARED_RESOURCE\<close> of \<open>enum e1000_state_t\<close>.\<close>

abbreviation (input) state_access_shared_resource :: nat where
  "state_access_shared_resource \<equiv> 2"

text \<open>
  Both polls of \<open>EXTCNF_CTRL\<close>: until the flag has the value \<open>want\<close>. What is left of the timeout
  and the last value read are the results.
\<close>

primrec swflag_poll :: "bool \<Rightarrow> nat \<Rightarrow> u32 \<Rightarrow> (nat \<times> u32) hwM" where
  "swflag_poll want 0 extcnf_ctrl = ret (0, extcnf_ctrl)"
| "swflag_poll want (Suc timeout) extcnf_ctrl = do {
     extcnf_ctrl \<leftarrow> er32 E1000_EXTCNF_CTRL;
     if (extcnf_ctrl AND E1000_EXTCNF_CTRL_SWFLAG \<noteq> 0) = want then ret (Suc timeout, extcnf_ctrl)
     else do { mdelay 1; swflag_poll want timeout extcnf_ctrl } }"

definition e1000_acquire_swflag_ich8lan :: "s32 hwM" where
  "e1000_acquire_swflag_ich8lan = do {
     busy \<leftarrow> test_and_set_bit state_access_shared_resource;
     if busy then ret (- E1000_ERR_PHY)
     else do {
       ret_val \<leftarrow> do {
         r \<leftarrow> swflag_poll False PHY_CFG_TIMEOUT 0;
         if fst r = 0 then ret (- E1000_ERR_CONFIG)
         else do {
           let extcnf_ctrl = snd r OR E1000_EXTCNF_CTRL_SWFLAG;
           ew32 E1000_EXTCNF_CTRL extcnf_ctrl;
           r \<leftarrow> swflag_poll True SW_FLAG_TIMEOUT extcnf_ctrl;
           if fst r = 0 then do {
             let extcnf_ctrl = snd r AND NOT E1000_EXTCNF_CTRL_SWFLAG;
             ew32 E1000_EXTCNF_CTRL extcnf_ctrl;
             ret (- E1000_ERR_CONFIG) }
           else ret 0 } };
       cwhen (ret_val \<noteq> 0) (clear_bit_op state_access_shared_resource);
       ret ret_val } }"

definition e1000_release_swflag_ich8lan :: "unit hwM" where
  "e1000_release_swflag_ich8lan = do {
     extcnf_ctrl \<leftarrow> er32 E1000_EXTCNF_CTRL;
     cwhen (extcnf_ctrl AND E1000_EXTCNF_CTRL_SWFLAG \<noteq> 0)
       (ew32 E1000_EXTCNF_CTRL (extcnf_ctrl AND NOT E1000_EXTCNF_CTRL_SWFLAG));
     clear_bit_op state_access_shared_resource }"

subsection \<open>Management mode\<close>

definition e1000_check_mng_mode_ich8lan :: "bool hwM" where
  "e1000_check_mng_mode_ich8lan = do {
     fwsm \<leftarrow> er32 E1000_FWSM;
     ret (fwsm AND E1000_ICH_FWSM_FW_VALID \<noteq> 0 \<and>
          fwsm AND E1000_FWSM_MODE_MASK = push_bit E1000_FWSM_MODE_SHIFT E1000_ICH_MNG_IAMT_MODE) }"

definition e1000_check_mng_mode_pchlan :: "bool hwM" where
  "e1000_check_mng_mode_pchlan = do {
     fwsm \<leftarrow> er32 E1000_FWSM;
     ret (fwsm AND E1000_ICH_FWSM_FW_VALID \<noteq> 0 \<and>
          fwsm AND push_bit E1000_FWSM_MODE_SHIFT E1000_ICH_MNG_IAMT_MODE \<noteq> 0) }"

subsection \<open>Receive addresses\<close>

definition rar_low_of :: "u8 list \<Rightarrow> u32" where
  "rar_low_of addr = ucast (addr ! 0) OR push_bit 8 (ucast (addr ! 1)) OR
     push_bit 16 (ucast (addr ! 2)) OR push_bit 24 (ucast (addr ! 3))"

text \<open>With the address-valid bit, which an all-zero address does not get.\<close>

definition rar_high_of :: "u8 list \<Rightarrow> u32" where
  "rar_high_of addr =
     (let rar_high = ucast (addr ! 4) OR push_bit 8 (ucast (addr ! 5))
      in if rar_low_of addr \<noteq> 0 \<or> rar_high \<noteq> 0 then rar_high OR E1000_RAH_AV else rar_high)"

definition E1000_SHRAL :: "u32 \<Rightarrow> u32" where "E1000_SHRAL i = 0x05438 + i * 8"
definition E1000_SHRAH :: "u32 \<Rightarrow> u32" where "E1000_SHRAH i = 0x0543C + i * 8"
definition E1000_SHRAL_PCH_LPT :: "u32 \<Rightarrow> u32" where "E1000_SHRAL_PCH_LPT i = 0x05408 + i * 8"
definition E1000_SHRAH_PCH_LPT :: "u32 \<Rightarrow> u32" where "E1000_SHRAH_PCH_LPT i = 0x0540C + i * 8"

text \<open>A pair of address registers written, each followed by a flush.\<close>

definition rar_write_pair :: "u32 \<Rightarrow> u32 \<Rightarrow> u8 list \<Rightarrow> unit hwM" where
  "rar_write_pair lo hi addr = do {
     ew32 lo (rar_low_of addr);
     e1e_flush;
     ew32 hi (rar_high_of addr);
     e1e_flush }"

text \<open>The shared registers, written under the software flag and read back.\<close>

definition rar_write_shared :: "u32 \<Rightarrow> u32 \<Rightarrow> u8 list \<Rightarrow> s32 hwM" where
  "rar_write_shared lo hi addr = do {
     ret_val \<leftarrow> e1000_acquire_swflag_ich8lan;
     if ret_val \<noteq> 0 then ret (- E1000_ERR_CONFIG)
     else do {
       rar_write_pair lo hi addr;
       e1000_release_swflag_ich8lan;
       l \<leftarrow> er32 lo;
       if l = rar_low_of addr then do {
         h \<leftarrow> er32 hi;
         if h = rar_high_of addr then ret 0 else ret (- E1000_ERR_CONFIG) }
       else ret (- E1000_ERR_CONFIG) } }"

definition e1000_rar_set_pch2lan :: "u8 list \<Rightarrow> u32 \<Rightarrow> s32 hwM" where
  "e1000_rar_set_pch2lan addr index = do {
     if index = 0 then do {
       rar_write_pair (E1000_RAL index) (E1000_RAH index) addr;
       ret 0 }
     else do {
       count \<leftarrow> gets (\<lambda>s. mac_rar_entry_count (hw_mac s));
       if index < ucast count
       then rar_write_shared (E1000_SHRAL (index - 1)) (E1000_SHRAH (index - 1)) addr
       else ret (- E1000_ERR_CONFIG) } }"

definition fwsm_wlock_mac :: "u32 hwM" where
  "fwsm_wlock_mac = do {
     fwsm \<leftarrow> er32 E1000_FWSM;
     ret (drop_bit E1000_FWSM_WLOCK_MAC_SHIFT (fwsm AND E1000_FWSM_WLOCK_MAC_MASK)) }"

definition e1000_rar_get_count_pch_lpt :: "u32 hwM" where
  "e1000_rar_get_count_pch_lpt = do {
     wlock_mac \<leftarrow> fwsm_wlock_mac;
     count \<leftarrow> gets (\<lambda>s. mac_rar_entry_count (hw_mac s));
     ret (if wlock_mac = 0 then ucast count else if wlock_mac = 1 then 1 else wlock_mac + 1) }"

definition e1000_rar_set_pch_lpt :: "u8 list \<Rightarrow> u32 \<Rightarrow> s32 hwM" where
  "e1000_rar_set_pch_lpt addr index = do {
     if index = 0 then do {
       rar_write_pair (E1000_RAL index) (E1000_RAH index) addr;
       ret 0 }
     else do {
       count \<leftarrow> gets (\<lambda>s. mac_rar_entry_count (hw_mac s));
       if index < ucast count then do {
         wlock_mac \<leftarrow> fwsm_wlock_mac;
         if wlock_mac = 1 then ret (- E1000_ERR_CONFIG)
         else if wlock_mac = 0 \<or> index \<le> wlock_mac
         then rar_write_shared (E1000_SHRAL_PCH_LPT (index - 1)) (E1000_SHRAH_PCH_LPT (index - 1)) addr
         else ret (- E1000_ERR_CONFIG) }
       else ret (- E1000_ERR_CONFIG) } }"

subsection \<open>The reset block\<close>

text \<open>
  \<open>while ((blocked = ...) && (i++ < 30)) usleep_range(...)\<close>: \<open>n\<close> sleeps are left; the last value of
  \<open>blocked\<close> is the result.
\<close>

primrec reset_block_loop :: "nat \<Rightarrow> bool hwM" where
  "reset_block_loop 0 = do {
     fwsm \<leftarrow> er32 E1000_FWSM;
     ret (fwsm AND E1000_ICH_FWSM_RSPCIPHY = 0) }"
| "reset_block_loop (Suc n) = do {
     fwsm \<leftarrow> er32 E1000_FWSM;
     if fwsm AND E1000_ICH_FWSM_RSPCIPHY = 0
     then do { usleep_range 10000 20000; reset_block_loop n }
     else ret False }"

definition e1000_check_reset_block_ich8lan :: "s32 hwM" where
  "e1000_check_reset_block_ich8lan = do {
     blocked \<leftarrow> reset_block_loop 30;
     ret (if blocked then E1000_BLK_PHY_RESET else 0) }"

end
