(* ===== verification/SwflagProps.thy ===== *)
theory SwflagProps
  imports Swflag Samples
begin

section \<open>Correctness of the software flag\<close>

text \<open>
  The flag taken and given back for every chip, under the law of the kernel's atomic bit
  operations; the interface \<open>hw_lock\<close> of a lock, interpreted on the flag, whose lemma the
  functions that bracket their work between acquire and release share.
\<close>

subsection \<open>The atomic bits\<close>

text \<open>
  What the kernel documents of \<open>OSTestAndSet\<close> and \<open>OSTestAndClear\<close>: they set or clear the one bit at
  the position of the number given, and the first returns the bit's old value. Which position a
  number has is left open: it is \<open>pos\<close>.
\<close>

definition bits_law :: "os_bitops \<Rightarrow> (nat \<Rightarrow> nat) \<Rightarrow> bool" where
  "bits_law os pos \<longleftrightarrow> (\<forall>nr < 64. pos nr < 64 \<and>
     (\<forall>w. os_test_and_set os nr w = (bit w (pos nr), Bit_Operations.set_bit (pos nr) w)) \<and>
     (\<forall>w. snd (os_test_and_clear os nr w) = unset_bit (pos nr) w))"

lemma sample_bits_law: "bits_law (hw_os (sample_hw dev)) id"
  by (auto simp: bits_law_def sample_hw_def set_bit_eq_or unset_bit_eq_and_not)

abbreviation "extcnf \<equiv> Csr E1000_EXTCNF_CTRL"

definition swflag :: "u32 \<Rightarrow> bool" where
  "swflag v = (v AND E1000_EXTCNF_CTRL_SWFLAG \<noteq> 0)"

lemma swflag_set [simp]: "swflag (v OR E1000_EXTCNF_CTRL_SWFLAG)"
  by (simp add: swflag_def)

lemma swflag_clear: "\<not> swflag (v AND NOT E1000_EXTCNF_CTRL_SWFLAG)"
  by (simp only: swflag_def and.assoc) simp

lemmas swflag_clear_simps [simp] = swflag_clear swflag_clear [simplified]

definition poll_event :: "event \<Rightarrow> bool" where
  "poll_event e = ((\<exists>v. e = Rd extcnf v) \<or> e = IODelay 1000)"

lemma poll_event_simps [simp]: "poll_event (Rd extcnf v)" "poll_event (IODelay 1000)"
  by (simp_all add: poll_event_def)

lemma swflag_poll_run:
  obtains k v es where "run_state (swflag_poll want n e) s = ((k, v), after s es)"
    and "list_all poll_event es" and "k \<le> n" and "waited es = 1000 * (n - k)"
    and "k \<noteq> 0 \<Longrightarrow> swflag v = want \<and> (\<exists>fs. es = fs @ [Rd extcnf v])"
proof -
  have "\<exists>k v es. run_state (swflag_poll want n e) s = ((k, v), after s es)
    \<and> list_all poll_event es \<and> k \<le> n \<and> waited es = 1000 * (n - k)
    \<and> (k \<noteq> 0 \<longrightarrow> swflag v = want \<and> (\<exists>fs. es = fs @ [Rd extcnf v]))"
  proof (induction n arbitrary: e s)
    case 0
    show ?case by (rule exI [of _ 0], rule exI [of _ e], rule exI [of _ "[]"]) simp
  next
    case (Suc n)
    let ?v = "hw_dev s (hw_log s) extcnf"
    let ?es = "[Rd extcnf ?v, IODelay 1000]"
    show ?case
    proof (cases "swflag ?v = want")
      case True
      then show ?thesis
        by (intro exI [of _ "Suc n"] exI [of _ ?v] exI [of _ "[Rd extcnf ?v]"])
          (simp add: swflag_def)
    next
      case False
      obtain k v es where IH: "run_state (swflag_poll want n ?v) (after s ?es) = ((k, v), after s (?es @ es))"
        "list_all poll_event es" "k \<le> n" "waited es = 1000 * (n - k)"
        "k \<noteq> 0 \<longrightarrow> swflag v = want \<and> (\<exists>fs. es = fs @ [Rd extcnf v])"
        using Suc.IH [of ?v "after s ?es"] by auto
      show ?thesis
        using False IH
        by (intro exI [of _ k] exI [of _ v] exI [of _ "?es @ es"])
          (auto simp: swflag_def)
    qed
  qed
  then show ?thesis using that by blast
qed


lemma poll_quiet: "list_all poll_event es \<Longrightarrow> written a es = []"
  by (induction es) (auto simp: poll_event_def)

lemma poll_ms: "list_all poll_event es \<Longrightarrow> waited es = 1000 * ms_waits es"
  by (induction es) (auto simp: poll_event_def)

lemma acquire_run:
  assumes "bits_law (hw_os s) pos"
  obtains
    (busy) "bit (hw_state s) (pos 2)"
      "run_state e1000_acquire_swflag_ich8lan s = (- E1000_ERR_PHY, after s [TestAndSet 2 True])"
  | (failed) es where "\<not> bit (hw_state s) (pos 2)"
      "run_state e1000_acquire_swflag_ich8lan s = (- E1000_ERR_CONFIG, after s es)"
      "written extcnf es = [] \<or> \<not> swflag (last (written extcnf es))"
      "ms_waits es \<le> PHY_CFG_TIMEOUT + SW_FLAG_TIMEOUT"
  | (got) es w v where "\<not> bit (hw_state s) (pos 2)"
      "run_state e1000_acquire_swflag_ich8lan s =
         (0, after (s\<lparr>hw_state := Bit_Operations.set_bit (pos 2) (hw_state s)\<rparr>) (es @ [Rd extcnf v]))"
      "written extcnf es = [w]" "swflag w" "swflag v"
      "ms_waits es \<le> PHY_CFG_TIMEOUT + SW_FLAG_TIMEOUT"
proof (cases "bit (hw_state s) (pos 2)")
  case True
  then have "Bit_Operations.set_bit (pos 2) (hw_state s) = hw_state s"
    by (intro bit_eqI) (auto simp: bit_set_bit_iff)
  then have "run_state e1000_acquire_swflag_ich8lan s = (- E1000_ERR_PHY, after s [TestAndSet 2 True])"
    using assms True
    by (simp add: e1000_acquire_swflag_ich8lan_def run_test_and_set bits_law_def del: One_nat_def)
  with True show ?thesis by (rule busy)
next
  case False
  let ?w = "Bit_Operations.set_bit (pos 2) (hw_state s)"
  let ?u = "after (s\<lparr>hw_state := ?w\<rparr>) [TestAndSet 2 False]"
  have unset: "unset_bit (pos 2) ?w = hw_state s"
    using False by (intro bit_eqI) (auto simp: bit_set_bit_iff bit_unset_bit_iff)
  let ?z = "TestAndClear 2 (fst (os_test_and_clear (hw_os s) 2 ?w))"
  have clear: "run_state (clear_bit_op 2) (after (s\<lparr>hw_state := ?w\<rparr>) es) = ((), after s (es @ [?z]))" for es
    using assms unset by (simp add: run_clear_bit_op bits_law_def case_prod_beta after_def)
  obtain k v es where p: "run_state (swflag_poll False PHY_CFG_TIMEOUT 0) ?u = ((k, v), after ?u es)"
    "list_all poll_event es" "k \<le> PHY_CFG_TIMEOUT" "waited es = 1000 * (PHY_CFG_TIMEOUT - k)"
    by (rule swflag_poll_run [of False "PHY_CFG_TIMEOUT" 0 ?u]) auto
  show ?thesis
  proof (cases "k = 0")
    case True
    have "run_state e1000_acquire_swflag_ich8lan s
        = (- E1000_ERR_CONFIG, after s (TestAndSet 2 False # es @ [?z]))"
      using p(1) True assms False clear [of "TestAndSet 2 False # es"]
      by (simp add: e1000_acquire_swflag_ich8lan_def run_test_and_set bits_law_def Let_def)
    then show ?thesis
      by (rule failed [OF False]) (use p in \<open>auto simp: poll_quiet poll_ms\<close>)
  next
    case k: False
    let ?c = "v OR E1000_EXTCNF_CTRL_SWFLAG"
    obtain as where a: "run_state (ew32 E1000_EXTCNF_CTRL ?c) (after ?u es)
        = ((), after (after ?u es) (as @ [Wr extcnf ?c]))" "list_all arb_event as"
      by (rule run_ew32_arb)
    let ?x = "after (after ?u es) (as @ [Wr extcnf ?c])"
    obtain k' v' fs where q: "run_state (swflag_poll True SW_FLAG_TIMEOUT ?c) ?x = ((k', v'), after ?x fs)"
      "list_all poll_event fs" "k' \<le> SW_FLAG_TIMEOUT" "waited fs = 1000 * (SW_FLAG_TIMEOUT - k')"
      "k' \<noteq> 0 \<Longrightarrow> swflag v' \<and> (\<exists>gs. fs = gs @ [Rd extcnf v'])"
      by (rule swflag_poll_run [of True "SW_FLAG_TIMEOUT" ?c ?x]) auto
    have ms: "ms_waits es + ms_waits fs \<le> PHY_CFG_TIMEOUT + SW_FLAG_TIMEOUT"
      using p q by (auto simp: poll_ms)
    show ?thesis
    proof (cases "k' = 0")
      case True
      let ?d = "v' AND NOT E1000_EXTCNF_CTRL_SWFLAG"
      obtain bs where b: "run_state (ew32 E1000_EXTCNF_CTRL ?d) (after ?x fs)
          = ((), after (after ?x fs) (bs @ [Wr extcnf ?d]))" "list_all arb_event bs"
        by (rule run_ew32_arb)
      let ?es = "TestAndSet 2 False # es @ as @ [Wr extcnf ?c] @ fs @ bs @ [Wr extcnf ?d, ?z]"
      have "run_state e1000_acquire_swflag_ich8lan s = (- E1000_ERR_CONFIG, after s ?es)"
        using p(1) k a(1) q(1) True b(1) assms False
          clear [of "TestAndSet 2 False # es @ as @ [Wr extcnf ?c] @ fs @ bs @ [Wr extcnf ?d]"]
        by (simp add: e1000_acquire_swflag_ich8lan_def run_test_and_set bits_law_def Let_def)
      then show ?thesis
        by (rule failed [OF False])
          (use p(2) a(2) q(2) b(2) ms in \<open>simp_all add: poll_quiet arb_quiet arb_ms\<close>)
    next
      case k': False
      then obtain gs where gs: "fs = gs @ [Rd extcnf v']" "swflag v'" using q(5) by blast
      let ?es = "TestAndSet 2 False # es @ as @ [Wr extcnf ?c] @ gs"
      have "run_state e1000_acquire_swflag_ich8lan s
          = (0, after (s\<lparr>hw_state := ?w\<rparr>) (?es @ [Rd extcnf v']))"
        using p(1) k a(1) q(1) k' gs assms False
        by (simp add: e1000_acquire_swflag_ich8lan_def run_test_and_set bits_law_def Let_def)
      then show ?thesis
        by (rule got [OF False, where w = ?c])
          (use p(2) a(2) q(2) gs ms in \<open>simp_all add: poll_quiet arb_quiet arb_ms\<close>)
    qed
  qed
qed


lemma release_run:
  assumes "bits_law (hw_os s) pos"
  obtains es v where
    "run_state e1000_release_swflag_ich8lan s =
       ((), after (s\<lparr>hw_state := unset_bit (pos 2) (hw_state s)\<rparr>) es)"
    "written extcnf es = (if swflag v then [v AND NOT E1000_EXTCNF_CTRL_SWFLAG] else [])"
    "values_read extcnf es = [v]"
proof -
  let ?v = "hw_dev s (hw_log s) extcnf"
  let ?z = "TestAndClear 2 (fst (os_test_and_clear (hw_os s) 2 (hw_state s)))"
  have clear: "run_state (clear_bit_op 2) (after s es) =
      ((), after (s\<lparr>hw_state := unset_bit (pos 2) (hw_state s)\<rparr>) (es @ [?z]))" for es
    using assms by (simp add: run_clear_bit_op bits_law_def case_prod_beta after_def)
  show ?thesis
  proof (cases "swflag ?v")
    case True
    let ?c = "?v AND NOT E1000_EXTCNF_CTRL_SWFLAG"
    obtain as where a: "run_state (ew32 E1000_EXTCNF_CTRL ?c) (after s [Rd extcnf ?v])
        = ((), after (after s [Rd extcnf ?v]) (as @ [Wr extcnf ?c]))" "list_all arb_event as"
      by (rule run_ew32_arb)
    show ?thesis
      by (rule that [of "Rd extcnf ?v # as @ [Wr extcnf ?c, ?z]" ?v])
        (use True a clear [of "Rd extcnf ?v # as @ [Wr extcnf ?c]"] in
          \<open>simp_all add: e1000_release_swflag_ich8lan_def swflag_def arb_quiet\<close>)
  next
    case False
    show ?thesis
      by (rule that [of "[Rd extcnf ?v, ?z]" ?v])
        (use False clear [of "[Rd extcnf ?v]"] in
          \<open>simp_all add: e1000_release_swflag_ich8lan_def swflag_def\<close>)
  qed
qed

subsection \<open>Locks\<close>

text \<open>What a lock of the driver's state depends on.\<close>

definition lock_state :: "e1000_hw \<Rightarrow> os_bitops \<times> u64" where
  "lock_state s = (hw_os s, hw_state s)"

interpretation lk: hw_frame "same lock_state"
  by (rule hw_frame_same) (simp add: lock_state_def)

definition bracket :: "s32 hwM \<Rightarrow> unit hwM \<Rightarrow> (s32 \<Rightarrow> 'a) \<Rightarrow> 'a hwM \<Rightarrow> 'a hwM" where
  "bracket acq rel fail body = do {
     r \<leftarrow> acq;
     if r \<noteq> 0 then ret (fail r) else do { x \<leftarrow> body; rel; ret x } }"

locale hw_lock =
  fixes acq :: "s32 hwM" and rel :: "unit hwM"
    and ok :: "e1000_hw \<Rightarrow> bool" and held :: "e1000_hw \<Rightarrow> bool"
  assumes acq_got: "ok s \<Longrightarrow> run_state acq s = (0, t) \<Longrightarrow> \<not> held s \<and> held t \<and> ok t"
    and acq_failed: "ok s \<Longrightarrow> run_state acq s = (r, t) \<Longrightarrow> r \<noteq> 0 \<Longrightarrow> held t = held s \<and> ok t"
    and rel_free: "ok s \<Longrightarrow> run_state rel s = (u, t) \<Longrightarrow> \<not> held t \<and> ok t"
    and frame: "same lock_state s t \<Longrightarrow> held t = held s \<and> ok t = ok s"
begin

lemma bracket_balanced:
  assumes "ok s" and body: "keeps (same lock_state) body"
    and run: "run_state (bracket acq rel fail body) s = (x, t)"
  shows "held t = held s \<and> ok t"
proof -
  obtain r u where a: "run_state acq s = (r, u)" by fastforce
  show ?thesis
  proof (cases "r = 0")
    case True
    then have u: "\<not> held s" "held u" "ok u" using acq_got assms(1) a by blast+
    obtain y v where b: "run_state body u = (y, v)" by fastforce
    have v: "ok v" using frame [of u v] keeps_run [OF body, of u] b u by simp
    obtain z w where c: "run_state rel v = (z, w)" by (metis surj_pair)
    have "t = w" using run a True b c by (simp add: bracket_def)
    then show ?thesis using rel_free [OF v c] u by simp
  next
    case False
    then have "t = u" using run a by (simp add: bracket_def)
    then show ?thesis using acq_failed [OF assms(1) a False] by simp
  qed
qed

end

definition swflag_ok :: "(nat \<Rightarrow> nat) \<Rightarrow> e1000_hw \<Rightarrow> bool" where
  "swflag_ok pos s = bits_law (hw_os s) pos"

definition swflag_held :: "(nat \<Rightarrow> nat) \<Rightarrow> e1000_hw \<Rightarrow> bool" where
  "swflag_held pos s = bit (hw_state s) (pos 2)"

interpretation swl: hw_lock e1000_acquire_swflag_ich8lan e1000_release_swflag_ich8lan
  "swflag_ok pos" "swflag_held pos" for pos
proof unfold_locales
  fix s t r u
  assume ok: "swflag_ok pos s"
  then have law: "bits_law (hw_os s) pos" by (simp add: swflag_ok_def)
  then have p: "pos 2 < 64" by (simp add: bits_law_def)
  show "\<not> swflag_held pos s \<and> swflag_held pos t \<and> swflag_ok pos t"
    if "run_state e1000_acquire_swflag_ich8lan s = (0, t)"
    using that law p
    by (cases rule: acquire_run [OF law])
      (auto simp: swflag_ok_def swflag_held_def bit_set_bit_iff)
  show "swflag_held pos t = swflag_held pos s \<and> swflag_ok pos t"
    if "run_state e1000_acquire_swflag_ich8lan s = (r, t)" "r \<noteq> 0"
    using that law by (cases rule: acquire_run [OF law]) (auto simp: swflag_ok_def swflag_held_def)
  show "\<not> swflag_held pos t \<and> swflag_ok pos t"
    if "run_state e1000_release_swflag_ich8lan s = (u, t)"
    using that law
    by (cases rule: release_run [OF law]) (auto simp: swflag_ok_def swflag_held_def bit_unset_bit_iff)
next
  show "swflag_held pos t = swflag_held pos s \<and> swflag_ok pos t = swflag_ok pos s"
    if "same lock_state s t" for s t
    using that by (simp add: same_def lock_state_def swflag_held_def swflag_ok_def)
qed

subsection \<open>Properties\<close>


text \<open>A chip that keeps what is written to it, and the first acquire on it.\<close>

definition keep_dev :: "event list \<Rightarrow> access \<Rightarrow> u32" where
  "keep_dev log a = (case last_write a log of None \<Rightarrow> 0 | Some v \<Rightarrow> v)"

lemma swflag_poll_first:
  assumes "0 < n" and "swflag (hw_dev s (hw_log s) extcnf) = want"
  shows "run_state (swflag_poll want n e) s =
    ((n, hw_dev s (hw_log s) extcnf), after s [Rd extcnf (hw_dev s (hw_log s) extcnf)])"
  using assms by (cases n) (simp_all add: swflag_def)

lemma keep_acquire:
  "run_state e1000_acquire_swflag_ich8lan (sample_hw keep_dev) =
     (0, after (sample_hw keep_dev\<lparr>hw_state := 4\<rparr>)
       [TestAndSet 2 False, Rd extcnf 0, Wr extcnf 0x20, Rd extcnf 0x20])"
  by (simp add: e1000_acquire_swflag_ich8lan_def run_test_and_set swflag_poll_first swflag_def keep_dev_def
      ew32_def io_write_def emit_def sample_hw_def after_def)


text \<open>The flag given back. After a successful acquire, any work of the driver that leaves its
atomic bits alone and a release, the driver's bits are exactly those before the acquire, for every chip;
and the release clears the flag whenever the chip still reports it set.\<close>

theorem swflag_acquire_release:
  assumes "bits_law (hw_os s) pos" and "run_state e1000_acquire_swflag_ich8lan s = (0, t)"
    and "same lock_state t u" and "run_state e1000_release_swflag_ich8lan u = ((), v)"
  shows "hw_state v = hw_state s \<and> \<not> swflag_held pos v \<and>
    (\<exists>x. values_read extcnf (new_events u v) = [x] \<and> written extcnf (new_events u v) =
       (if swflag x then [x AND NOT E1000_EXTCNF_CTRL_SWFLAG] else []))"
proof -
  have t: "\<not> bit (hw_state s) (pos 2) \<and> hw_os t = hw_os s \<and>
      hw_state t = Bit_Operations.set_bit (pos 2) (hw_state s)"
    using assms(2) by (cases rule: acquire_run [OF assms(1)]) auto
  have u: "hw_state u = hw_state t" "hw_os u = hw_os s"
    using assms(3) t by (simp_all add: same_def lock_state_def)
  have undo: "unset_bit (pos 2) (Bit_Operations.set_bit (pos 2) (hw_state s)) = hw_state s"
    using t by (intro bit_eqI) (auto simp: bit_set_bit_iff bit_unset_bit_iff)
  from assms(1) u have law: "bits_law (hw_os u) pos" by simp
  from law show ?thesis
  proof (cases rule: release_run)
    case (1 es x)
    have "new_events u v = es" using 1(1) assms(4) by (intro new_eventsI) auto
    moreover have "hw_state v = hw_state s"
      using 1(1) assms(4) t u undo by auto
    ultimately show ?thesis using 1 t by (auto simp: swflag_held_def)
  qed
qed

lemma keep_release:
  "run_state e1000_release_swflag_ich8lan (after (sample_hw keep_dev\<lparr>hw_state := 4\<rparr>)
       [TestAndSet 2 False, Rd extcnf 0, Wr extcnf 0x20, Rd extcnf 0x20]) =
     ((), after (sample_hw keep_dev) [TestAndSet 2 False, Rd extcnf 0, Wr extcnf 0x20, Rd extcnf 0x20,
       Rd extcnf 0x20, Wr extcnf 0, TestAndClear 2 False])"
  by (simp add: e1000_release_swflag_ich8lan_def run_clear_bit_op keep_dev_def
      ew32_def io_write_def emit_def sample_hw_def after_def)

theorem swflag_acquire_release_witness:
  "let (r, t) = run_state e1000_acquire_swflag_ich8lan (sample_hw keep_dev);
       (_, v) = run_state e1000_release_swflag_ich8lan t
   in r = 0 \<and> hw_state v = hw_state (sample_hw keep_dev) \<and> \<not> swflag_held id v"
  unfolding keep_acquire Let_def prod.case keep_release
  using swflag_acquire_release [OF sample_bits_law keep_acquire _ keep_release] by (simp add: same_def)

lemma rar_write_shared_bracket:
  "rar_write_shared lo hi addr = do {
     ok \<leftarrow> bracket e1000_acquire_swflag_ich8lan e1000_release_swflag_ich8lan (\<lambda>_. False)
       (do { rar_write_pair lo hi addr; ret True });
     if \<not> ok then ret (- E1000_ERR_CONFIG)
     else do {
       l \<leftarrow> er32 lo;
       if l = rar_low_of addr then do {
         h \<leftarrow> er32 hi;
         if h = rar_high_of addr then ret 0 else ret (- E1000_ERR_CONFIG) }
       else ret (- E1000_ERR_CONFIG) } }"
  unfolding rar_write_shared_def bracket_def
  by (rule state.expand, rule ext) (simp add: case_prod_beta split: prod.split)

context hw_frame begin

lemma keeps_rar_write_pair: "keeps R (rar_write_pair lo hi addr)"
  unfolding rar_write_pair_def by (intro hw_intros)

lemma keeps_fwsm_wlock_mac: "keeps R fwsm_wlock_mac"
  unfolding fwsm_wlock_mac_def by (intro hw_intros)


end

lemma rar_write_shared_balanced:
  assumes "swflag_ok pos s" and "run_state (rar_write_shared lo hi addr) s = (r, t)"
  shows "swflag_held pos t = swflag_held pos s"
proof -
  let ?b = "bracket e1000_acquire_swflag_ich8lan e1000_release_swflag_ich8lan (\<lambda>_. False)
      (do { rar_write_pair lo hi addr; ret True })"
  let ?v = "\<lambda>ok. if \<not> ok then ret (- E1000_ERR_CONFIG :: s32)
     else do {
       l \<leftarrow> er32 lo;
       if l = rar_low_of addr then do {
         h \<leftarrow> er32 hi;
         if h = rar_high_of addr then ret 0 else ret (- E1000_ERR_CONFIG) }
       else ret (- E1000_ERR_CONFIG) }"
  obtain ok u where b: "run_state ?b s = (ok, u)" by fastforce
  have "keeps (same lock_state) (do { rar_write_pair lo hi addr; ret True })"
    by (intro lk.keeps_intros lk.keeps_rar_write_pair)
  from swl.bracket_balanced [OF assms(1) this b] have "swflag_held pos u = swflag_held pos s" by simp
  moreover have "swflag_held pos (snd (run_state (?v ok :: s32 hwM) u)) = swflag_held pos u"
    by (simp add: swflag_held_def)
  moreover have "t = snd (run_state (?v ok) u)"
    using assms(2) b unfolding rar_write_shared_bracket by (auto split: if_splits)
  ultimately show ?thesis by simp
qed


text \<open>The log only grows, also over the atomic bit operations.\<close>

definition grows :: "e1000_hw \<Rightarrow> e1000_hw \<Rightarrow> bool" where
  "grows s t = (\<exists>es. hw_log t = es @ hw_log s)"

interpretation gr: hw_frame grows
proof unfold_locales
  show "grows s s" for s by (simp add: grows_def)
  show "grows s u" if "grows s t" "grows t u" for s t u
    using that by (auto simp: grows_def)
  show "grows s (s\<lparr>hw_log := e # hw_log s\<rparr>)" for s e
    by (simp add: grows_def)
qed

lemma grows_bitops:
  "keeps grows (test_and_set_bit nr)" "keeps grows (clear_bit_op nr)"
  by (rule keepsI, auto simp: run_test_and_set run_clear_bit_op grows_def after_def split: prod.split)+

context hw_frame begin

lemma keeps_swflag_poll: "keeps R (swflag_poll want n e)"
  by (induction n arbitrary: e) (auto intro!: hw_intros)

end

lemma grows_swflag:
  "keeps grows e1000_acquire_swflag_ich8lan" "keeps grows e1000_release_swflag_ich8lan"
  unfolding e1000_acquire_swflag_ich8lan_def e1000_release_swflag_ich8lan_def
  by (intro gr.hw_intros grows_bitops gr.keeps_swflag_poll)+

lemma grows_rar_write_shared: "keeps grows (rar_write_shared lo hi addr)"
  unfolding rar_write_shared_def
  by (intro gr.hw_intros gr.keeps_rar_write_pair grows_swflag)

lemma new_events_grow: "grows s t \<Longrightarrow> new_events s (after t es) = new_events s t @ es"
  by (auto simp: grows_def new_events_def)

lemma rar_write_shared_ok:
  assumes "run_state (rar_write_shared lo hi addr) s = (0, t)"
  shows "\<exists>es. new_events s t = es @ [Rd (Csr lo) (rar_low_of addr), Rd (Csr hi) (rar_high_of addr)]"
proof -
  let ?b = "bracket e1000_acquire_swflag_ich8lan e1000_release_swflag_ich8lan (\<lambda>_. False)
      (do { rar_write_pair lo hi addr; ret True })"
  obtain ok u where b: "run_state ?b s = (ok, u)" by fastforce
  have "keeps grows ?b"
    unfolding bracket_def by (intro gr.hw_intros gr.keeps_rar_write_pair grows_swflag)
  from keeps_run [OF this, of s] have "grows s u" using b by simp
  moreover have "t = after u [Rd (Csr lo) (rar_low_of addr), Rd (Csr hi) (rar_high_of addr)]"
    using assms b unfolding rar_write_shared_bracket by (auto split: if_splits)
  ultimately show ?thesis by (auto simp: new_events_grow)
qed

text \<open>The receive-address setters of the PCH parts leave the lock as they found it on every path
and for every chip; an index past the table is refused before the chip is touched; and a shared entry
is reported written only when both of its registers read back as written, those two reads being the last
thing done.\<close>

theorem rar_set_pch_lpt_correct:
  assumes "bits_law (hw_os s) pos" and "run_state (e1000_rar_set_pch_lpt addr index) s = (r, t)"
  shows "swflag_held pos t = swflag_held pos s \<and>
    (index \<noteq> 0 \<and> index \<ge> ucast (mac_rar_entry_count (hw_mac s)) \<longrightarrow>
       r = - E1000_ERR_CONFIG \<and> new_events s t = []) \<and>
    (index \<noteq> 0 \<and> r = 0 \<longrightarrow> (\<exists>es. new_events s t = es @
       [Rd (Csr (E1000_SHRAL_PCH_LPT (index - 1))) (rar_low_of addr),
        Rd (Csr (E1000_SHRAH_PCH_LPT (index - 1))) (rar_high_of addr)]))"
proof -
  let ?w = "rar_write_shared (E1000_SHRAL_PCH_LPT (index - 1)) (E1000_SHRAH_PCH_LPT (index - 1)) addr"
  let ?f = "hw_dev s (hw_log s) (Csr E1000_FWSM)"
  let ?v = "after s [Rd (Csr E1000_FWSM) ?f]"
  have ok: "swflag_ok pos s" "swflag_ok pos ?v" "swflag_held pos ?v = swflag_held pos s"
    using assms(1) by (simp_all add: swflag_ok_def swflag_held_def)
  have pair: "same lock_state s (snd (run_state (rar_write_pair lo hi addr) s))" for lo hi
    by (rule keeps_run) (rule lk.keeps_rar_write_pair)
  consider (zero) "index = 0" | (past) "index \<noteq> 0" "\<not> index < ucast (mac_rar_entry_count (hw_mac s))"
    | (locked) "index \<noteq> 0" "index < ucast (mac_rar_entry_count (hw_mac s))" "r \<noteq> 0" "t = ?v"
    | (shared) "index \<noteq> 0" "index < ucast (mac_rar_entry_count (hw_mac s))" "run_state ?w ?v = (r, t)"
    using assms(2)
    by (auto simp: e1000_rar_set_pch_lpt_def fwsm_wlock_mac_def Let_def split: if_splits)
  then show ?thesis
  proof cases
    case zero
    then have "t = snd (run_state (rar_write_pair (E1000_RAL 0) (E1000_RAH 0) addr) s)"
      using assms(2) by (auto simp: e1000_rar_set_pch_lpt_def split: prod.splits)
    then show ?thesis using swl.frame [OF pair] zero by simp
  next
    case past
    then show ?thesis using assms(2) by (auto simp: e1000_rar_set_pch_lpt_def swflag_held_def new_events_def)
  next
    case locked
    then show ?thesis using ok by simp
  next
    case shared
    have "grows ?v t"
      using keeps_run [OF grows_rar_write_shared, of ?v] shared(3) by (metis snd_conv)
    then have "new_events s t = Rd (Csr E1000_FWSM) ?f # new_events ?v t"
      by (auto simp: grows_def new_events_def)
    moreover have "r = 0 \<Longrightarrow> \<exists>es. new_events ?v t = es @
        [Rd (Csr (E1000_SHRAL_PCH_LPT (index - 1))) (rar_low_of addr),
         Rd (Csr (E1000_SHRAH_PCH_LPT (index - 1))) (rar_high_of addr)]"
      using shared(3) rar_write_shared_ok by blast
    ultimately show ?thesis
      using rar_write_shared_balanced [OF ok(2) shared(3)] ok shared by auto
  qed
qed


theorem rar_set_pch_lpt_correct_witness:
  "bits_law (hw_os (sample_hw keep_dev)) id \<and>
   (let t = snd (run_state (e1000_rar_set_pch_lpt [2, 0, 0, 0, 0, 1] 1) (sample_hw keep_dev))
    in swflag_held id t = swflag_held id (sample_hw keep_dev))"
  using rar_set_pch_lpt_correct [OF sample_bits_law surjective_pairing, of "[2, 0, 0, 0, 0, 1]" 1 keep_dev]
    sample_bits_law by simp

end
