(* ===== verification/PhyAccess.thy ===== *)
theory PhyAccess
  imports Swflag
begin

section \<open>Access to the PHY registers (phy.c)\<close>

text \<open>
  How \<open>src/IntelMausiEthernet/phy.c\<close> reaches a PHY register: one MDI transaction through
  \<open>MDIC\<close>, the page selection and address rules of each PHY family (m88, igp, bm, hv), the
  wake-up page and the debug registers, the Kumeran interface, and the detection of the PHY's
  address. The functions reached through \<open>hw->phy.ops\<close> are the argument \<open>ops\<close>.

  A function whose name begins with two underscores in C ends in \<open>_raw\<close> here.
\<close>

subsection \<open>The operations of hw->phy.ops used here\<close>

text \<open>
  \<open>acquire\<close> is optional: some functions test the pointer for null. A call without that test is
  a call through \<open>the\<close>.
\<close>

record phy_operations =
  op_phy_acquire :: "s32 hwM option"
  op_phy_release :: "unit hwM"
  op_phy_read_reg :: "(u32 \<Rightarrow> u16 \<Rightarrow> (s32 \<times> u16) hwM) option"
  op_phy_write_reg :: "u32 \<Rightarrow> u16 \<Rightarrow> s32 hwM"

definition phy_acquire :: "'p phy_operations_scheme \<Rightarrow> s32 hwM" where
  "phy_acquire ops = the (op_phy_acquire ops)"

definition e1e_rphy :: "'p phy_operations_scheme \<Rightarrow> u32 \<Rightarrow> u16 \<Rightarrow> (s32 \<times> u16) hwM" where
  "e1e_rphy ops offset data = the (op_phy_read_reg ops) offset data"

definition e1e_wphy :: "'p phy_operations_scheme \<Rightarrow> u32 \<Rightarrow> u16 \<Rightarrow> s32 hwM" where
  "e1e_wphy ops offset data = op_phy_write_reg ops offset data"

definition set_phy_addr :: "u32 \<Rightarrow> unit hwM" where
  "set_phy_addr a = modify (hw_phy_update (phy_addr_update (\<lambda>_. a)))"

definition e1000e_check_reset_block_generic :: "s32 hwM" where
  "e1000e_check_reset_block_generic = do {
     manc \<leftarrow> er32 E1000_MANC;
     ret (if manc AND E1000_MANC_BLK_PHY_RST_ON_IDE \<noteq> 0 then E1000_BLK_PHY_RESET else 0) }"

subsection \<open>The PHY's identity\<close>

text \<open>\<open>retry_count < 2\<close> passes; \<open>phy_id\<close> is the local the reads go into.\<close>

primrec get_phy_id_loop :: "nat \<Rightarrow> 'p phy_operations_scheme \<Rightarrow> u16 \<Rightarrow> s32 hwM" where
  "get_phy_id_loop 0 ops phyid = ret 0"
| "get_phy_id_loop (Suc n) ops phyid = do {
     r \<leftarrow> e1e_rphy ops MII_PHYSID1 phyid;
     if fst r \<noteq> 0 then ret (fst r)
     else do {
       modify (hw_phy_update (phy_id_update (\<lambda>_. push_bit 16 (ucast (snd r)))));
       usleep_range 20 40;
       r \<leftarrow> e1e_rphy ops MII_PHYSID2 (snd r);
       if fst r \<noteq> 0 then ret (fst r)
       else do {
         modify (hw_phy_update (phy_id_update (\<lambda>i. i OR (ucast (snd r) AND PHY_REVISION_MASK))));
         modify (hw_phy_update (phy_revision_update (\<lambda>_. ucast (snd r) AND NOT PHY_REVISION_MASK)));
         i \<leftarrow> gets (\<lambda>s. phy_id (hw_phy s));
         if i \<noteq> 0 \<and> i \<noteq> PHY_REVISION_MASK then ret 0
         else get_phy_id_loop n ops (snd r) } } }"

definition e1000e_get_phy_id :: "'p phy_operations_scheme \<Rightarrow> s32 hwM" where
  "e1000e_get_phy_id ops =
     (if op_phy_read_reg ops = None then ret 0 else get_phy_id_loop 2 ops 0)"

definition e1000e_phy_reset_dsp :: "'p phy_operations_scheme \<Rightarrow> s32 hwM" where
  "e1000e_phy_reset_dsp ops = do {
     ret_val \<leftarrow> e1e_wphy ops M88E1000_PHY_GEN_CONTROL 0xC1;
     if ret_val \<noteq> 0 then ret ret_val
     else e1e_wphy ops M88E1000_PHY_GEN_CONTROL 0 }"

definition e1000e_get_phy_type_from_id :: "u32 \<Rightarrow> e1000_phy_type" where
  "e1000e_get_phy_type_from_id i =
     (if i \<in> {M88E1000_I_PHY_ID, M88E1000_E_PHY_ID, M88E1111_I_PHY_ID, M88E1011_I_PHY_ID} then e1000_phy_m88
      else if i = IGP01E1000_I_PHY_ID then e1000_phy_igp_2
      else if i = GG82563_E_PHY_ID then e1000_phy_gg82563
      else if i = IGP03E1000_E_PHY_ID then e1000_phy_igp_3
      else if i \<in> {IFE_E_PHY_ID, IFE_PLUS_E_PHY_ID, IFE_C_E_PHY_ID} then e1000_phy_ife
      else if i \<in> {BME1000_E_PHY_ID, BME1000_E_PHY_ID_R2} then e1000_phy_bm
      else if i = I82578_E_PHY_ID then e1000_phy_82578
      else if i = I82577_E_PHY_ID then e1000_phy_82577
      else if i = I82579_E_PHY_ID then e1000_phy_82579
      else if i = I217_E_PHY_ID then e1000_phy_i217
      else e1000_phy_unknown)"

text \<open>Ten tries at one address; \<open>True\<close> when a known PHY answered.\<close>

primrec try_phy_address :: "nat \<Rightarrow> 'p phy_operations_scheme \<Rightarrow> bool hwM" where
  "try_phy_address 0 ops = ret False"
| "try_phy_address (Suc n) ops = do {
     e1000e_get_phy_id ops;
     i \<leftarrow> gets (\<lambda>s. phy_id (hw_phy s));
     if e1000e_get_phy_type_from_id i \<noteq> e1000_phy_unknown then ret True
     else do { usleep_range 1000 2000; try_phy_address n ops } }"

primrec determine_phy_loop :: "nat \<Rightarrow> u32 \<Rightarrow> 'p phy_operations_scheme \<Rightarrow> s32 hwM" where
  "determine_phy_loop 0 addr ops = ret (- E1000_ERR_PHY_TYPE)"
| "determine_phy_loop (Suc n) addr ops = do {
     set_phy_addr addr;
     found \<leftarrow> try_phy_address 10 ops;
     if found then ret 0 else determine_phy_loop n (addr + 1) ops }"

definition e1000e_determine_phy_address :: "'p phy_operations_scheme \<Rightarrow> s32 hwM" where
  "e1000e_determine_phy_address ops = do {
     modify (hw_phy_update (phy_id_update (\<lambda>_. 0)));
     determine_phy_loop E1000_MAX_PHY_ADDR 0 ops }"

subsection \<open>One MDI transaction\<close>

text \<open>The poll of the ready bit returns the last value of \<open>MDIC\<close>.\<close>

primrec mdic_poll :: "nat \<Rightarrow> u32 \<Rightarrow> u32 hwM" where
  "mdic_poll 0 mdic = ret mdic"
| "mdic_poll (Suc n) mdic = do {
     udelay 50;
     mdic \<leftarrow> er32 E1000_MDIC;
     if mdic AND E1000_MDIC_READY \<noteq> 0 then ret mdic else mdic_poll n mdic }"

text \<open>What both directions do after the command is written: poll, then the three error tests.\<close>

definition mdic_complete :: "u32 \<Rightarrow> (s32 \<times> u32) hwM" where
  "mdic_complete offset = do {
     mdic \<leftarrow> mdic_poll (E1000_GEN_POLL_TIMEOUT * 3) 0;
     if mdic AND E1000_MDIC_READY = 0 then ret (- E1000_ERR_PHY, mdic)
     else if mdic AND E1000_MDIC_ERROR \<noteq> 0 then ret (- E1000_ERR_PHY, mdic)
     else if drop_bit E1000_MDIC_REG_SHIFT (mdic AND E1000_MDIC_REG_MASK) \<noteq> offset
     then ret (- E1000_ERR_PHY, mdic)
     else ret (0, mdic) }"

definition mdic_settle :: "unit hwM" where
  "mdic_settle = do {
     ty \<leftarrow> gets (\<lambda>s. mac_type (hw_mac s));
     cwhen (ty = e1000_pch2lan) (udelay 100) }"

definition e1000e_read_phy_reg_mdic :: "u32 \<Rightarrow> u16 \<Rightarrow> (s32 \<times> u16) hwM" where
  "e1000e_read_phy_reg_mdic offset data =
     (if offset > MAX_PHY_REG_ADDRESS then ret (- E1000_ERR_PARAM, data)
      else do {
        addr \<leftarrow> gets (\<lambda>s. phy_addr (hw_phy s));
        ew32 E1000_MDIC (push_bit E1000_MDIC_REG_SHIFT offset OR push_bit E1000_MDIC_PHY_SHIFT addr
          OR E1000_MDIC_OP_READ);
        r \<leftarrow> mdic_complete offset;
        if fst r \<noteq> 0 then ret (fst r, data)
        else do { mdic_settle; ret (0, ucast (snd r)) } })"

definition e1000e_write_phy_reg_mdic :: "u32 \<Rightarrow> u16 \<Rightarrow> s32 hwM" where
  "e1000e_write_phy_reg_mdic offset data =
     (if offset > MAX_PHY_REG_ADDRESS then ret (- E1000_ERR_PARAM)
      else do {
        addr \<leftarrow> gets (\<lambda>s. phy_addr (hw_phy s));
        ew32 E1000_MDIC (ucast data OR push_bit E1000_MDIC_REG_SHIFT offset
          OR push_bit E1000_MDIC_PHY_SHIFT addr OR E1000_MDIC_OP_WRITE);
        r \<leftarrow> mdic_complete offset;
        if fst r \<noteq> 0 then ret (fst r)
        else do { mdic_settle; ret 0 } })"

subsection \<open>m88 and igp PHYs\<close>

definition e1000e_read_phy_reg_m88 :: "'p phy_operations_scheme \<Rightarrow> u32 \<Rightarrow> u16 \<Rightarrow> (s32 \<times> u16) hwM" where
  "e1000e_read_phy_reg_m88 ops offset data = do {
     ret_val \<leftarrow> phy_acquire ops;
     if ret_val \<noteq> 0 then ret (ret_val, data)
     else do {
       r \<leftarrow> e1000e_read_phy_reg_mdic (MAX_PHY_REG_ADDRESS AND offset) data;
       op_phy_release ops;
       ret r } }"

definition e1000e_write_phy_reg_m88 :: "'p phy_operations_scheme \<Rightarrow> u32 \<Rightarrow> u16 \<Rightarrow> s32 hwM" where
  "e1000e_write_phy_reg_m88 ops offset data = do {
     ret_val \<leftarrow> phy_acquire ops;
     if ret_val \<noteq> 0 then ret ret_val
     else do {
       r \<leftarrow> e1000e_write_phy_reg_mdic (MAX_PHY_REG_ADDRESS AND offset) data;
       op_phy_release ops;
       ret r } }"

definition e1000_set_page_igp :: "u16 \<Rightarrow> s32 hwM" where
  "e1000_set_page_igp page = do {
     set_phy_addr 1;
     e1000e_write_phy_reg_mdic IGP01E1000_PHY_PAGE_SELECT page }"

text \<open>
  The frame of the functions with a \<open>locked\<close> argument that test the pointer: \<open>skip\<close> is what
  they return when there is nothing to acquire, \<open>fail\<close> what they return on a failed acquire.
\<close>

definition phy_locked ::
  "'p phy_operations_scheme \<Rightarrow> bool \<Rightarrow> 'a \<Rightarrow> (s32 \<Rightarrow> 'a) \<Rightarrow> 'a hwM \<Rightarrow> 'a hwM" where
  "phy_locked ops locked skip fail body =
     (if locked then body
      else case op_phy_acquire ops of
          None \<Rightarrow> ret skip
        | Some acquire \<Rightarrow> do {
            ret_val \<leftarrow> acquire;
            if ret_val \<noteq> 0 then ret (fail ret_val)
            else do { r \<leftarrow> body; op_phy_release ops; ret r } })"

definition igp_page :: "u32 \<Rightarrow> s32 hwM" where
  "igp_page offset =
     (if offset > MAX_PHY_MULTI_PAGE_REG
      then e1000e_write_phy_reg_mdic IGP01E1000_PHY_PAGE_SELECT (ucast offset) else ret 0)"

definition e1000e_read_phy_reg_igp_raw ::
  "'p phy_operations_scheme \<Rightarrow> u32 \<Rightarrow> u16 \<Rightarrow> bool \<Rightarrow> (s32 \<times> u16) hwM" where
  "e1000e_read_phy_reg_igp_raw ops offset data locked =
     phy_locked ops locked (0, data) (\<lambda>e. (e, data)) (do {
       ret_val \<leftarrow> igp_page offset;
       if ret_val = 0 then e1000e_read_phy_reg_mdic (MAX_PHY_REG_ADDRESS AND offset) data
       else ret (ret_val, data) })"

definition e1000e_read_phy_reg_igp :: "'p phy_operations_scheme \<Rightarrow> u32 \<Rightarrow> u16 \<Rightarrow> (s32 \<times> u16) hwM" where
  "e1000e_read_phy_reg_igp ops offset data = e1000e_read_phy_reg_igp_raw ops offset data False"

definition e1000e_read_phy_reg_igp_locked ::
  "'p phy_operations_scheme \<Rightarrow> u32 \<Rightarrow> u16 \<Rightarrow> (s32 \<times> u16) hwM" where
  "e1000e_read_phy_reg_igp_locked ops offset data = e1000e_read_phy_reg_igp_raw ops offset data True"

definition e1000e_write_phy_reg_igp_raw ::
  "'p phy_operations_scheme \<Rightarrow> u32 \<Rightarrow> u16 \<Rightarrow> bool \<Rightarrow> s32 hwM" where
  "e1000e_write_phy_reg_igp_raw ops offset data locked =
     phy_locked ops locked 0 (\<lambda>e. e) (do {
       ret_val \<leftarrow> igp_page offset;
       if ret_val = 0 then e1000e_write_phy_reg_mdic (MAX_PHY_REG_ADDRESS AND offset) data
       else ret ret_val })"

definition e1000e_write_phy_reg_igp :: "'p phy_operations_scheme \<Rightarrow> u32 \<Rightarrow> u16 \<Rightarrow> s32 hwM" where
  "e1000e_write_phy_reg_igp ops offset data = e1000e_write_phy_reg_igp_raw ops offset data False"

definition e1000e_write_phy_reg_igp_locked :: "'p phy_operations_scheme \<Rightarrow> u32 \<Rightarrow> u16 \<Rightarrow> s32 hwM" where
  "e1000e_write_phy_reg_igp_locked ops offset data = e1000e_write_phy_reg_igp_raw ops offset data True"

subsection \<open>The Kumeran interface\<close>

definition e1000_read_kmrn_reg_raw ::
  "'p phy_operations_scheme \<Rightarrow> u32 \<Rightarrow> u16 \<Rightarrow> bool \<Rightarrow> (s32 \<times> u16) hwM" where
  "e1000_read_kmrn_reg_raw ops offset data locked =
     phy_locked ops locked (0, data) (\<lambda>e. (e, data)) (do {
       ew32 E1000_KMRNCTRLSTA ((push_bit E1000_KMRNCTRLSTA_OFFSET_SHIFT offset
         AND E1000_KMRNCTRLSTA_OFFSET) OR E1000_KMRNCTRLSTA_REN);
       e1e_flush;
       udelay 2;
       kmrnctrlsta \<leftarrow> er32 E1000_KMRNCTRLSTA;
       ret (0, ucast kmrnctrlsta) })"

definition e1000e_read_kmrn_reg :: "'p phy_operations_scheme \<Rightarrow> u32 \<Rightarrow> u16 \<Rightarrow> (s32 \<times> u16) hwM" where
  "e1000e_read_kmrn_reg ops offset data = e1000_read_kmrn_reg_raw ops offset data False"

definition e1000e_read_kmrn_reg_locked ::
  "'p phy_operations_scheme \<Rightarrow> u32 \<Rightarrow> u16 \<Rightarrow> (s32 \<times> u16) hwM" where
  "e1000e_read_kmrn_reg_locked ops offset data = e1000_read_kmrn_reg_raw ops offset data True"

definition e1000_write_kmrn_reg_raw ::
  "'p phy_operations_scheme \<Rightarrow> u32 \<Rightarrow> u16 \<Rightarrow> bool \<Rightarrow> s32 hwM" where
  "e1000_write_kmrn_reg_raw ops offset data locked =
     phy_locked ops locked 0 (\<lambda>e. e) (do {
       ew32 E1000_KMRNCTRLSTA ((push_bit E1000_KMRNCTRLSTA_OFFSET_SHIFT offset
         AND E1000_KMRNCTRLSTA_OFFSET) OR ucast data);
       e1e_flush;
       udelay 2;
       ret 0 })"

definition e1000e_write_kmrn_reg :: "'p phy_operations_scheme \<Rightarrow> u32 \<Rightarrow> u16 \<Rightarrow> s32 hwM" where
  "e1000e_write_kmrn_reg ops offset data = e1000_write_kmrn_reg_raw ops offset data False"

definition e1000e_write_kmrn_reg_locked :: "'p phy_operations_scheme \<Rightarrow> u32 \<Rightarrow> u16 \<Rightarrow> s32 hwM" where
  "e1000e_write_kmrn_reg_locked ops offset data = e1000_write_kmrn_reg_raw ops offset data True"

subsection \<open>The wake-up page of the bm and hv PHYs\<close>

definition BM_PHY_REG_PAGE :: "u32 \<Rightarrow> u16" where
  "BM_PHY_REG_PAGE offset = ucast (drop_bit PHY_PAGE_SHIFT offset AND 0xFFFF)"

definition BM_PHY_REG_NUM :: "u32 \<Rightarrow> u16" where
  "BM_PHY_REG_NUM offset = ucast ((offset AND MAX_PHY_REG_ADDRESS) OR
     (drop_bit (PHY_UPPER_SHIFT - PHY_PAGE_SHIFT) offset AND NOT MAX_PHY_REG_ADDRESS))"

text \<open>\<open>phy_reg\<close> is the local of the caller the original value is stored in.\<close>

definition e1000_enable_phy_wakeup_reg_access_bm :: "u16 \<Rightarrow> (s32 \<times> u16) hwM" where
  "e1000_enable_phy_wakeup_reg_access_bm phy_reg = do {
     set_phy_addr 1;
     ret_val \<leftarrow> e1000_set_page_igp (push_bit IGP_PAGE_SHIFT BM_PORT_CTRL_PAGE);
     if ret_val \<noteq> 0 then ret (ret_val, phy_reg)
     else do {
       r \<leftarrow> e1000e_read_phy_reg_mdic BM_WUC_ENABLE_REG phy_reg;
       if fst r \<noteq> 0 then ret r
       else do {
         let temp = (snd r OR BM_WUC_ENABLE_BIT) AND NOT (BM_WUC_ME_WU_BIT OR BM_WUC_HOST_WU_BIT);
         ret_val \<leftarrow> e1000e_write_phy_reg_mdic BM_WUC_ENABLE_REG temp;
         if ret_val \<noteq> 0 then ret (ret_val, snd r)
         else do {
           ret_val \<leftarrow> e1000_set_page_igp (push_bit IGP_PAGE_SHIFT BM_WUC_PAGE);
           ret (ret_val, snd r) } } } }"

definition e1000_disable_phy_wakeup_reg_access_bm :: "u16 \<Rightarrow> s32 hwM" where
  "e1000_disable_phy_wakeup_reg_access_bm phy_reg = do {
     ret_val \<leftarrow> e1000_set_page_igp (push_bit IGP_PAGE_SHIFT BM_PORT_CTRL_PAGE);
     if ret_val \<noteq> 0 then ret ret_val
     else e1000e_write_phy_reg_mdic BM_WUC_ENABLE_REG phy_reg }"

text \<open>
  On a \<open>pchlan\<close> part the source reads \<open>PHY_CTRL\<close> to decide whether to print a debug message:
  the read is there, the message is not.
\<close>

definition e1000_access_phy_wakeup_reg_bm :: "u32 \<Rightarrow> u16 \<Rightarrow> bool \<Rightarrow> bool \<Rightarrow> (s32 \<times> u16) hwM" where
  "e1000_access_phy_wakeup_reg_bm offset data rd page_set = do {
     let reg = BM_PHY_REG_NUM offset;
     ty \<leftarrow> gets (\<lambda>s. mac_type (hw_mac s));
     cwhen (ty = e1000_pchlan) (do { er32 E1000_PHY_CTRL; ret () });
     w \<leftarrow> (if page_set then ret (0, 0) else e1000_enable_phy_wakeup_reg_access_bm 0);
     if fst w \<noteq> 0 then ret (fst w, data)
     else do {
       ret_val \<leftarrow> e1000e_write_phy_reg_mdic BM_WUC_ADDRESS_OPCODE reg;
       if ret_val \<noteq> 0 then ret (ret_val, data)
       else do {
         r \<leftarrow> (if rd then e1000e_read_phy_reg_mdic BM_WUC_DATA_OPCODE data
           else do {
             ret_val \<leftarrow> e1000e_write_phy_reg_mdic BM_WUC_DATA_OPCODE data;
             ret (ret_val, data) });
         if fst r \<noteq> 0 then ret r
         else if page_set then ret r
         else do {
           ret_val \<leftarrow> e1000_disable_phy_wakeup_reg_access_bm (snd w);
           ret (ret_val, snd r) } } } }"

subsection \<open>bm PHYs\<close>

definition e1000_get_phy_addr_for_bm_page :: "u32 \<Rightarrow> u32 \<Rightarrow> u32" where
  "e1000_get_phy_addr_for_bm_page page reg =
     (if page \<ge> 768 \<or> (page = 0 \<and> reg = 25) \<or> reg = 31 then 1 else 2)"

text \<open>The page selection both directions share.\<close>

definition bm_page :: "u32 \<Rightarrow> s32 hwM" where
  "bm_page offset =
     (if offset > MAX_PHY_MULTI_PAGE_REG then do {
        let page = drop_bit IGP_PAGE_SHIFT offset;
        addr \<leftarrow> gets (\<lambda>s. phy_addr (hw_phy s));
        if addr = 1
        then e1000e_write_phy_reg_mdic IGP01E1000_PHY_PAGE_SELECT (ucast (push_bit IGP_PAGE_SHIFT page))
        else e1000e_write_phy_reg_mdic BM_PHY_PAGE_SELECT (ucast page) }
      else ret 0)"

definition e1000e_write_phy_reg_bm :: "'p phy_operations_scheme \<Rightarrow> u32 \<Rightarrow> u16 \<Rightarrow> s32 hwM" where
  "e1000e_write_phy_reg_bm ops offset data = do {
     let page = drop_bit IGP_PAGE_SHIFT offset;
     ret_val \<leftarrow> phy_acquire ops;
     if ret_val \<noteq> 0 then ret ret_val
     else do {
       ret_val \<leftarrow> (if page = BM_WUC_PAGE then do {
           r \<leftarrow> e1000_access_phy_wakeup_reg_bm offset data False False;
           ret (fst r) }
         else do {
           set_phy_addr (e1000_get_phy_addr_for_bm_page page offset);
           ret_val \<leftarrow> bm_page offset;
           if ret_val \<noteq> 0 then ret ret_val
           else e1000e_write_phy_reg_mdic (MAX_PHY_REG_ADDRESS AND offset) data });
       op_phy_release ops;
       ret ret_val } }"

definition e1000e_read_phy_reg_bm :: "'p phy_operations_scheme \<Rightarrow> u32 \<Rightarrow> u16 \<Rightarrow> (s32 \<times> u16) hwM" where
  "e1000e_read_phy_reg_bm ops offset data = do {
     let page = drop_bit IGP_PAGE_SHIFT offset;
     ret_val \<leftarrow> phy_acquire ops;
     if ret_val \<noteq> 0 then ret (ret_val, data)
     else do {
       r \<leftarrow> (if page = BM_WUC_PAGE then e1000_access_phy_wakeup_reg_bm offset data True False
         else do {
           set_phy_addr (e1000_get_phy_addr_for_bm_page page offset);
           ret_val \<leftarrow> bm_page offset;
           if ret_val \<noteq> 0 then ret (ret_val, data)
           else e1000e_read_phy_reg_mdic (MAX_PHY_REG_ADDRESS AND offset) data });
       op_phy_release ops;
       ret r } }"

text \<open>The second pair: always PHY address 1, and \<open>page\<close> is a \<open>u16\<close>.\<close>

definition bm2_page :: "u32 \<Rightarrow> s32 hwM" where
  "bm2_page offset =
     (if offset > MAX_PHY_MULTI_PAGE_REG
      then e1000e_write_phy_reg_mdic BM_PHY_PAGE_SELECT (ucast (drop_bit IGP_PAGE_SHIFT offset))
      else ret 0)"

definition e1000e_read_phy_reg_bm2 :: "'p phy_operations_scheme \<Rightarrow> u32 \<Rightarrow> u16 \<Rightarrow> (s32 \<times> u16) hwM" where
  "e1000e_read_phy_reg_bm2 ops offset data = do {
     let page = (ucast (drop_bit IGP_PAGE_SHIFT offset) :: u16);
     ret_val \<leftarrow> phy_acquire ops;
     if ret_val \<noteq> 0 then ret (ret_val, data)
     else do {
       r \<leftarrow> (if page = BM_WUC_PAGE then e1000_access_phy_wakeup_reg_bm offset data True False
         else do {
           set_phy_addr 1;
           ret_val \<leftarrow> bm2_page offset;
           if ret_val \<noteq> 0 then ret (ret_val, data)
           else e1000e_read_phy_reg_mdic (MAX_PHY_REG_ADDRESS AND offset) data });
       op_phy_release ops;
       ret r } }"

definition e1000e_write_phy_reg_bm2 :: "'p phy_operations_scheme \<Rightarrow> u32 \<Rightarrow> u16 \<Rightarrow> s32 hwM" where
  "e1000e_write_phy_reg_bm2 ops offset data = do {
     let page = (ucast (drop_bit IGP_PAGE_SHIFT offset) :: u16);
     ret_val \<leftarrow> phy_acquire ops;
     if ret_val \<noteq> 0 then ret ret_val
     else do {
       ret_val \<leftarrow> (if page = BM_WUC_PAGE then do {
           r \<leftarrow> e1000_access_phy_wakeup_reg_bm offset data False False;
           ret (fst r) }
         else do {
           set_phy_addr 1;
           ret_val \<leftarrow> bm2_page offset;
           if ret_val \<noteq> 0 then ret ret_val
           else e1000e_write_phy_reg_mdic (MAX_PHY_REG_ADDRESS AND offset) data });
       op_phy_release ops;
       ret ret_val } }"

definition e1000_power_up_phy_copper :: "'p phy_operations_scheme \<Rightarrow> unit hwM" where
  "e1000_power_up_phy_copper ops = do {
     r \<leftarrow> e1e_rphy ops MII_BMCR 0;
     e1e_wphy ops MII_BMCR (snd r AND NOT BMCR_PDOWN);
     ret () }"

definition e1000_power_down_phy_copper :: "'p phy_operations_scheme \<Rightarrow> unit hwM" where
  "e1000_power_down_phy_copper ops = do {
     r \<leftarrow> e1e_rphy ops MII_BMCR 0;
     e1e_wphy ops MII_BMCR (snd r OR BMCR_PDOWN);
     usleep_range 1000 2000 }"

subsection \<open>hv PHYs\<close>

definition e1000_get_phy_addr_for_hv_page :: "u32 \<Rightarrow> u32" where
  "e1000_get_phy_addr_for_hv_page page = (if page \<ge> HV_INTC_FC_PAGE_START then 1 else 2)"

definition e1000_access_phy_debug_regs_hv :: "u32 \<Rightarrow> u16 \<Rightarrow> bool \<Rightarrow> (s32 \<times> u16) hwM" where
  "e1000_access_phy_debug_regs_hv offset data rd = do {
     ty \<leftarrow> gets (\<lambda>s. phy_type (hw_phy s));
     let addr_reg = (if ty = e1000_phy_82578 then I82578_ADDR_REG else I82577_ADDR_REG);
     let data_reg = addr_reg + 1;
     set_phy_addr 2;
     ret_val \<leftarrow> e1000e_write_phy_reg_mdic addr_reg (ucast offset AND 0x3F);
     if ret_val \<noteq> 0 then ret (ret_val, data)
     else if rd then e1000e_read_phy_reg_mdic data_reg data
     else do {
       ret_val \<leftarrow> e1000e_write_phy_reg_mdic data_reg data;
       ret (ret_val, data) } }"

text \<open>The page selection of both directions; \<open>page\<close> is zero for page 768.\<close>

definition hv_page :: "u16 \<Rightarrow> u16 \<Rightarrow> u32 \<Rightarrow> s32 hwM" where
  "hv_page page reg phy_addr' =
     (if reg > MAX_PHY_MULTI_PAGE_REG then do {
        ret_val \<leftarrow> e1000_set_page_igp (push_bit IGP_PAGE_SHIFT page);
        set_phy_addr phy_addr';
        ret ret_val }
      else ret 0)"

text \<open>
  The frame of the hv accesses: the acquire and release that \<open>locked\<close> leaves out. The pointer is
  not tested for null here.
\<close>

definition hv_locked ::
  "'p phy_operations_scheme \<Rightarrow> bool \<Rightarrow> (s32 \<Rightarrow> 'a) \<Rightarrow> 'a hwM \<Rightarrow> 'a hwM" where
  "hv_locked ops locked fail body = do {
     ret_val \<leftarrow> (if locked then ret 0 else phy_acquire ops);
     if ret_val \<noteq> 0 then ret (fail ret_val)
     else do {
       r \<leftarrow> body;
       cwhen (\<not> locked) (op_phy_release ops);
       ret r } }"

definition e1000_read_phy_reg_hv_raw ::
  "'p phy_operations_scheme \<Rightarrow> u32 \<Rightarrow> u16 \<Rightarrow> bool \<Rightarrow> bool \<Rightarrow> (s32 \<times> u16) hwM" where
  "e1000_read_phy_reg_hv_raw ops offset data locked page_set = do {
     let page = BM_PHY_REG_PAGE offset;
     let reg = BM_PHY_REG_NUM offset;
     let addr = e1000_get_phy_addr_for_hv_page (ucast page);
     set_phy_addr addr;
     hv_locked ops locked (\<lambda>e. (e, data))
       (if page = BM_WUC_PAGE then e1000_access_phy_wakeup_reg_bm offset data True page_set
        else if page > 0 \<and> page < HV_INTC_FC_PAGE_START
        then e1000_access_phy_debug_regs_hv offset data True
        else do {
          ret_val \<leftarrow> (if page_set then ret 0
            else hv_page (if page = HV_INTC_FC_PAGE_START then 0 else page) reg addr);
          if ret_val \<noteq> 0 then ret (ret_val, data)
          else e1000e_read_phy_reg_mdic (ucast (MAX_PHY_REG_ADDRESS AND reg)) data }) }"

definition e1000_read_phy_reg_hv :: "'p phy_operations_scheme \<Rightarrow> u32 \<Rightarrow> u16 \<Rightarrow> (s32 \<times> u16) hwM" where
  "e1000_read_phy_reg_hv ops offset data = e1000_read_phy_reg_hv_raw ops offset data False False"

definition e1000_read_phy_reg_hv_locked ::
  "'p phy_operations_scheme \<Rightarrow> u32 \<Rightarrow> u16 \<Rightarrow> (s32 \<times> u16) hwM" where
  "e1000_read_phy_reg_hv_locked ops offset data = e1000_read_phy_reg_hv_raw ops offset data True False"

definition e1000_read_phy_reg_page_hv ::
  "'p phy_operations_scheme \<Rightarrow> u32 \<Rightarrow> u16 \<Rightarrow> (s32 \<times> u16) hwM" where
  "e1000_read_phy_reg_page_hv ops offset data = e1000_read_phy_reg_hv_raw ops offset data True True"

text \<open>The workaround of the 82578 before a write that powers the PHY down.\<close>

definition hv_power_down_workaround :: "u16 \<Rightarrow> u16 \<Rightarrow> s32 hwM" where
  "hv_power_down_workaround reg data = do {
     phy \<leftarrow> gets hw_phy;
     if phy_type phy = e1000_phy_82578 \<and> phy_revision phy \<ge> 1 \<and> phy_addr phy = 2 \<and>
        MAX_PHY_REG_ADDRESS AND reg = 0 \<and> data AND 2 ^ 11 \<noteq> 0
     then do {
       r \<leftarrow> e1000_access_phy_debug_regs_hv (2 ^ 6 OR 0x3) 0x7EFF False;
       ret (fst r) }
     else ret 0 }"

definition e1000_write_phy_reg_hv_raw ::
  "'p phy_operations_scheme \<Rightarrow> u32 \<Rightarrow> u16 \<Rightarrow> bool \<Rightarrow> bool \<Rightarrow> s32 hwM" where
  "e1000_write_phy_reg_hv_raw ops offset data locked page_set = do {
     let page = BM_PHY_REG_PAGE offset;
     let reg = BM_PHY_REG_NUM offset;
     let addr = e1000_get_phy_addr_for_hv_page (ucast page);
     set_phy_addr addr;
     hv_locked ops locked (\<lambda>e. e)
       (if page = BM_WUC_PAGE then do {
          r \<leftarrow> e1000_access_phy_wakeup_reg_bm offset data False page_set;
          ret (fst r) }
        else if page > 0 \<and> page < HV_INTC_FC_PAGE_START then do {
          r \<leftarrow> e1000_access_phy_debug_regs_hv offset data False;
          ret (fst r) }
        else do {
          ret_val \<leftarrow> (if page_set then ret 0
            else do {
              ret_val \<leftarrow> hv_power_down_workaround reg data;
              if ret_val \<noteq> 0 then ret ret_val
              else hv_page (if page = HV_INTC_FC_PAGE_START then 0 else page) reg addr });
          if ret_val \<noteq> 0 then ret ret_val
          else e1000e_write_phy_reg_mdic (ucast (MAX_PHY_REG_ADDRESS AND reg)) data }) }"

definition e1000_write_phy_reg_hv :: "'p phy_operations_scheme \<Rightarrow> u32 \<Rightarrow> u16 \<Rightarrow> s32 hwM" where
  "e1000_write_phy_reg_hv ops offset data = e1000_write_phy_reg_hv_raw ops offset data False False"

definition e1000_write_phy_reg_hv_locked :: "'p phy_operations_scheme \<Rightarrow> u32 \<Rightarrow> u16 \<Rightarrow> s32 hwM" where
  "e1000_write_phy_reg_hv_locked ops offset data = e1000_write_phy_reg_hv_raw ops offset data True False"

definition e1000_write_phy_reg_page_hv :: "'p phy_operations_scheme \<Rightarrow> u32 \<Rightarrow> u16 \<Rightarrow> s32 hwM" where
  "e1000_write_phy_reg_page_hv ops offset data = e1000_write_phy_reg_hv_raw ops offset data True True"

text \<open>
  The link-stall workaround declares \<open>u16 data\<close> without a value and does not look at the result
  of its first read: \<open>garbage\<close> is what the stack held.
\<close>

definition e1000_link_stall_workaround_hv :: "'p phy_operations_scheme \<Rightarrow> u16 \<Rightarrow> s32 hwM" where
  "e1000_link_stall_workaround_hv ops garbage = do {
     ty \<leftarrow> gets (\<lambda>s. phy_type (hw_phy s));
     if ty \<noteq> e1000_phy_82578 then ret 0
     else do {
       r \<leftarrow> e1e_rphy ops MII_BMCR garbage;
       if snd r AND BMCR_LOOPBACK \<noteq> 0 then ret 0
       else do {
         r \<leftarrow> e1e_rphy ops BM_CS_STATUS (snd r);
         if fst r \<noteq> 0 then ret (fst r)
         else if snd r AND (BM_CS_STATUS_LINK_UP OR BM_CS_STATUS_RESOLVED OR BM_CS_STATUS_SPEED_MASK)
             \<noteq> BM_CS_STATUS_LINK_UP OR BM_CS_STATUS_RESOLVED OR BM_CS_STATUS_SPEED_1000
         then ret 0
         else do {
           msleep 200;
           ret_val \<leftarrow> e1e_wphy ops HV_MUX_DATA_CTRL
             (HV_MUX_DATA_CTRL_GEN_TO_MAC OR HV_MUX_DATA_CTRL_FORCE_SPEED);
           if ret_val \<noteq> 0 then ret ret_val
           else e1e_wphy ops HV_MUX_DATA_CTRL HV_MUX_DATA_CTRL_GEN_TO_MAC } } } }"

end
