(* ===== verification/PhyLink.thy ===== *)
theory PhyLink
  imports PhyAccess
begin

section \<open>Link setup and link information of the PHYs (phy.c)\<close>

text \<open>
  What \<open>src/IntelMausiEthernet/phy.c\<close> does with a copper PHY once its registers can be reached:
  the setup of each family, auto-negotiation, forced speed and duplex, the link poll, downshift,
  polarity, cable length, the information the driver keeps of the link, and the resets.

  Most bodies are a chain of calls, each followed by \<open>if (ret_val) return ret_val;\<close>. Two
  combinators below write that frame. A local the source passes to a read without a value starts
  at zero here: a failed read is never looked at, and a read that succeeds stores its register.
\<close>

subsection \<open>Frames of the bodies\<close>

definition ok_then :: "s32 hwM \<Rightarrow> s32 hwM \<Rightarrow> s32 hwM" where
  "ok_then m k = do { ret_val \<leftarrow> m; if ret_val \<noteq> 0 then ret ret_val else k }"

definition with_phy :: "'p phy_operations_scheme \<Rightarrow> u32 \<Rightarrow> (u16 \<Rightarrow> s32 hwM) \<Rightarrow> s32 hwM" where
  "with_phy ops offset k = do {
     r \<leftarrow> e1e_rphy ops offset 0;
     if fst r \<noteq> 0 then ret (fst r) else k (snd r) }"

definition set_phy :: "(e1000_phy_info \<Rightarrow> e1000_phy_info) \<Rightarrow> unit hwM" where
  "set_phy f = modify (hw_phy_update f)"

definition set_mac :: "(e1000_mac_info \<Rightarrow> e1000_mac_info) \<Rightarrow> unit hwM" where
  "set_mac f = modify (hw_mac_update f)"

definition set_fc :: "(e1000_fc_info \<Rightarrow> e1000_fc_info) \<Rightarrow> unit hwM" where
  "set_fc f = modify (hw_fc_update f)"

text \<open>The further operations of \<open>hw->phy.ops\<close>; an optional one is tested for null somewhere.\<close>

record phy_link_operations = phy_operations +
  op_phy_commit :: "s32 hwM option"
  op_phy_check_reset_block :: "s32 hwM option"
  op_phy_get_cable_length :: "s32 hwM"
  op_phy_get_cfg_done :: "s32 hwM"
  op_phy_reset :: "s32 hwM"
  op_phy_set_d0_lplu_state :: "(bool \<Rightarrow> s32 hwM) option"
  op_phy_force_speed_duplex :: "s32 hwM"

subsection \<open>Polling for link and auto-negotiation\<close>

definition link_delay :: "u32 \<Rightarrow> unit hwM" where
  "link_delay usec_interval =
     (if usec_interval \<ge> 1000 then msleep (unat (usec_interval div 1000))
      else udelay (unat usec_interval))"

text \<open>
  The counter of the source is a \<open>u16\<close> and the bound a \<open>u32\<close>; every call in the driver passes a
  bound of at most 20, so the counter does not wrap.
\<close>

primrec phy_has_link_loop :: "nat \<Rightarrow> 'p phy_operations_scheme \<Rightarrow> u32 \<Rightarrow> s32 \<Rightarrow> (s32 \<times> bool) hwM" where
  "phy_has_link_loop 0 ops usec_interval ret_val = ret (ret_val, False)"
| "phy_has_link_loop (Suc n) ops usec_interval ret_val = do {
     r \<leftarrow> e1e_rphy ops MII_BMSR 0;
     cwhen (fst r \<noteq> 0) (link_delay usec_interval);
     r \<leftarrow> e1e_rphy ops MII_BMSR (snd r);
     if fst r \<noteq> 0 then ret (fst r, False)
     else if snd r AND BMSR_LSTATUS \<noteq> 0 then ret (0, True)
     else do {
       link_delay usec_interval;
       phy_has_link_loop n ops usec_interval (fst r) } }"

definition e1000e_phy_has_link_generic ::
  "'p phy_operations_scheme \<Rightarrow> nat \<Rightarrow> u32 \<Rightarrow> (s32 \<times> bool) hwM" where
  "e1000e_phy_has_link_generic ops iterations usec_interval =
     phy_has_link_loop iterations ops usec_interval 0"

primrec wait_autoneg_loop :: "nat \<Rightarrow> 'p phy_operations_scheme \<Rightarrow> s32 \<Rightarrow> s32 hwM" where
  "wait_autoneg_loop 0 ops ret_val = ret ret_val"
| "wait_autoneg_loop (Suc i) ops ret_val = do {
     r \<leftarrow> e1e_rphy ops MII_BMSR 0;
     if fst r \<noteq> 0 then ret (fst r)
     else do {
       r \<leftarrow> e1e_rphy ops MII_BMSR (snd r);
       if fst r \<noteq> 0 then ret (fst r)
       else if snd r AND BMSR_ANEGCOMPLETE \<noteq> 0 then ret (fst r)
       else do { msleep 100; wait_autoneg_loop i ops (fst r) } } }"

definition e1000_wait_autoneg :: "'p phy_operations_scheme \<Rightarrow> s32 hwM" where
  "e1000_wait_autoneg ops = wait_autoneg_loop PHY_AUTO_NEG_LIMIT ops 0"

subsection \<open>Setup of the PHYs\<close>

definition master_slave_bits :: "e1000_ms_type \<Rightarrow> u16 \<Rightarrow> u16" where
  "master_slave_bits ms phy_data = (case ms of
       e1000_ms_force_master \<Rightarrow> phy_data OR (CTL1000_ENABLE_MASTER OR CTL1000_AS_MASTER)
     | e1000_ms_force_slave \<Rightarrow> (phy_data OR CTL1000_ENABLE_MASTER) AND NOT CTL1000_AS_MASTER
     | e1000_ms_auto \<Rightarrow> phy_data AND NOT CTL1000_ENABLE_MASTER
     | _ \<Rightarrow> phy_data)"

definition e1000_set_master_slave_mode :: "'p phy_operations_scheme \<Rightarrow> s32 hwM" where
  "e1000_set_master_slave_mode ops =
     with_phy ops MII_CTRL1000 (\<lambda>phy_data. do {
       set_phy (phy_original_ms_type_update (\<lambda>_.
         if phy_data AND CTL1000_ENABLE_MASTER \<noteq> 0
         then (if phy_data AND CTL1000_AS_MASTER \<noteq> 0 then e1000_ms_force_master else e1000_ms_force_slave)
         else e1000_ms_auto));
       ms \<leftarrow> gets (\<lambda>s. phy_ms_type (hw_phy s));
       e1e_wphy ops MII_CTRL1000 (master_slave_bits ms phy_data) })"

definition e1000_copper_link_setup_82577 :: "'p phy_operations_scheme \<Rightarrow> s32 hwM" where
  "e1000_copper_link_setup_82577 ops =
     with_phy ops I82577_CFG_REG (\<lambda>phy_data.
     ok_then (e1e_wphy ops I82577_CFG_REG
       (phy_data OR I82577_CFG_ASSERT_CRS_ON_TX OR I82577_CFG_ENABLE_DOWNSHIFT)) (
     with_phy ops I82577_PHY_CTRL_2 (\<lambda>phy_data. do {
       mdix \<leftarrow> gets (\<lambda>s. phy_mdix (hw_phy s));
       let phy_data = phy_data AND NOT I82577_PHY_CTRL2_MDIX_CFG_MASK;
       let phy_data = (if mdix = 1 then phy_data
         else if mdix = 2 then phy_data OR I82577_PHY_CTRL2_MANUAL_MDIX
         else phy_data OR I82577_PHY_CTRL2_AUTO_MDI_MDIX);
       ok_then (e1e_wphy ops I82577_PHY_CTRL_2 phy_data) (e1000_set_master_slave_mode ops) })))"

text \<open>The value the m88 setup gives the specific control register before the downshift bit.\<close>

definition m88_pscr :: "e1000_phy_info \<Rightarrow> u16 \<Rightarrow> u16" where
  "m88_pscr phy phy_data =
     (let phy_data = (if phy_type phy \<noteq> e1000_phy_bm then phy_data OR M88E1000_PSCR_ASSERT_CRS_ON_TX
            else phy_data);
          phy_data = phy_data AND NOT M88E1000_PSCR_AUTO_X_MODE;
          phy_data = phy_data OR (if phy_mdix phy = 1 then M88E1000_PSCR_MDI_MANUAL_MODE
            else if phy_mdix phy = 2 then M88E1000_PSCR_MDIX_MANUAL_MODE
            else if phy_mdix phy = 3 then M88E1000_PSCR_AUTO_X_1000T
            else M88E1000_PSCR_AUTO_X_MODE);
          phy_data = phy_data AND NOT M88E1000_PSCR_POLARITY_REVERSAL
      in if phy_disable_polarity_correction phy then phy_data OR M88E1000_PSCR_POLARITY_REVERSAL
         else phy_data)"

definition m88_epscr :: "e1000_phy_info \<Rightarrow> u16 \<Rightarrow> u16" where
  "m88_epscr phy phy_data =
     (let phy_data = phy_data OR M88E1000_EPSCR_TX_CLK_25
      in if phy_revision phy = 2 \<and> phy_id phy = M88E1111_I_PHY_ID
         then (phy_data AND NOT M88EC018_EPSCR_DOWNSHIFT_COUNTER_MASK)
           OR M88EC018_EPSCR_DOWNSHIFT_COUNTER_5X
         else (phy_data AND NOT (M88E1000_EPSCR_MASTER_DOWNSHIFT_MASK
                 OR M88E1000_EPSCR_SLAVE_DOWNSHIFT_MASK))
           OR (M88E1000_EPSCR_MASTER_DOWNSHIFT_1X OR M88E1000_EPSCR_SLAVE_DOWNSHIFT_1X))"

definition e1000e_copper_link_setup_m88 :: "'p phy_link_operations_scheme \<Rightarrow> s32 hwM" where
  "e1000e_copper_link_setup_m88 ops =
     with_phy ops M88E1000_PHY_SPEC_CTRL (\<lambda>phy_data. do {
     phy \<leftarrow> gets hw_phy;
     let bm = (phy_type phy = e1000_phy_bm);
     let r2 = (phy_id phy = BME1000_E_PHY_ID_R2);
     let phy_data = m88_pscr phy phy_data;
     let phy_data' = (if bm \<and> r2 then phy_data AND NOT BME1000_PSCR_ENABLE_DOWNSHIFT else phy_data);
     ok_then (if bm \<and> r2
         then ok_then (e1e_wphy ops M88E1000_PHY_SPEC_CTRL phy_data') (the (op_phy_commit ops))
         else ret 0) (
     ok_then (e1e_wphy ops M88E1000_PHY_SPEC_CTRL
         (if bm then phy_data' OR BME1000_PSCR_ENABLE_DOWNSHIFT else phy_data')) (do {
     phy \<leftarrow> gets hw_phy;
     ok_then (if phy_type phy = e1000_phy_m88 \<and> phy_revision phy < E1000_REVISION_4 \<and>
           phy_id phy \<noteq> BME1000_E_PHY_ID_R2
         then with_phy ops M88E1000_EXT_PHY_SPEC_CTRL (\<lambda>phy_data.
           e1e_wphy ops M88E1000_EXT_PHY_SPEC_CTRL (m88_epscr phy phy_data))
         else ret 0) (do {
     phy \<leftarrow> gets hw_phy;
     ok_then (if phy_type phy = e1000_phy_bm \<and> phy_id phy = BME1000_E_PHY_ID_R2
         then ok_then (e1e_wphy ops 29 0x0003) (e1e_wphy ops 30 0x0000)
         else ret 0) (
     ok_then (case op_phy_commit ops of None \<Rightarrow> ret 0 | Some commit \<Rightarrow> commit) (do {
     phy \<leftarrow> gets hw_phy;
     if phy_type phy = e1000_phy_82578
     then with_phy ops M88E1000_EXT_PHY_SPEC_CTRL (\<lambda>phy_data.
       e1e_wphy ops M88E1000_EXT_PHY_SPEC_CTRL
         ((phy_data OR I82578_EPSCR_DOWNSHIFT_ENABLE) AND NOT I82578_EPSCR_DOWNSHIFT_COUNTER_MASK))
     else ret 0 })) }) })) })"

definition e1000e_copper_link_setup_igp :: "'p phy_link_operations_scheme \<Rightarrow> s32 hwM" where
  "e1000e_copper_link_setup_igp ops =
     ok_then (op_phy_reset ops) (do {
     msleep 100;
     ok_then (case op_phy_set_d0_lplu_state ops of None \<Rightarrow> ret 0 | Some f \<Rightarrow> f False) (
     with_phy ops IGP01E1000_PHY_PORT_CTRL (\<lambda>data. do {
     mdix \<leftarrow> gets (\<lambda>s. phy_mdix (hw_phy s));
     let data = data AND NOT IGP01E1000_PSCR_AUTO_MDIX;
     let data = (if mdix = 1 then data AND NOT IGP01E1000_PSCR_FORCE_MDI_MDIX
       else if mdix = 2 then data OR IGP01E1000_PSCR_FORCE_MDI_MDIX
       else data OR IGP01E1000_PSCR_AUTO_MDIX);
     ok_then (e1e_wphy ops IGP01E1000_PHY_PORT_CTRL data) (do {
     s \<leftarrow> gets id;
     if \<not> mac_autoneg (hw_mac s) then ret 0
     else ok_then (if phy_autoneg_advertised (hw_phy s) = ADVERTISE_1000_FULL
         then with_phy ops IGP01E1000_PHY_PORT_CONFIG (\<lambda>data.
           ok_then (e1e_wphy ops IGP01E1000_PHY_PORT_CONFIG (data AND NOT IGP01E1000_PSCFR_SMART_SPEED))
             (with_phy ops MII_CTRL1000 (\<lambda>data.
                e1e_wphy ops MII_CTRL1000 (data AND NOT CTL1000_ENABLE_MASTER))))
         else ret 0)
       (e1000_set_master_slave_mode ops) }) })) })"

subsection \<open>Auto-negotiation\<close>

text \<open>The speed bits of the advertisement register, as the driver's own mask selects them.\<close>

definition autoneg_adv_bits :: "u16 \<Rightarrow> u16 \<Rightarrow> u16" where
  "autoneg_adv_bits advertised reg =
     (let reg = reg AND NOT (ADVERTISE_100FULL OR ADVERTISE_100HALF OR ADVERTISE_10FULL OR ADVERTISE_10HALF);
          reg = (if advertised AND ADVERTISE_10_HALF \<noteq> 0 then reg OR ADVERTISE_10HALF else reg);
          reg = (if advertised AND ADVERTISE_10_FULL \<noteq> 0 then reg OR ADVERTISE_10FULL else reg);
          reg = (if advertised AND ADVERTISE_100_HALF \<noteq> 0 then reg OR ADVERTISE_100HALF else reg)
      in if advertised AND ADVERTISE_100_FULL \<noteq> 0 then reg OR ADVERTISE_100FULL else reg)"

definition autoneg_1000t_bits :: "u16 \<Rightarrow> u16 \<Rightarrow> u16" where
  "autoneg_1000t_bits advertised reg =
     (let reg = reg AND NOT (ADVERTISE_1000HALF OR ADVERTISE_1000FULL)
      in if advertised AND ADVERTISE_1000_FULL \<noteq> 0 then reg OR ADVERTISE_1000FULL else reg)"

text \<open>The pause bits of the advertisement; \<open>None\<close> is the error of an unset mode.\<close>

definition autoneg_pause_bits :: "e1000_fc_mode \<Rightarrow> u16 \<Rightarrow> u16 option" where
  "autoneg_pause_bits mode reg = (case mode of
       e1000_fc_none \<Rightarrow> Some (reg AND NOT (ADVERTISE_PAUSE_ASYM OR ADVERTISE_PAUSE_CAP))
     | e1000_fc_rx_pause \<Rightarrow> Some (reg OR (ADVERTISE_PAUSE_ASYM OR ADVERTISE_PAUSE_CAP))
     | e1000_fc_tx_pause \<Rightarrow> Some ((reg OR ADVERTISE_PAUSE_ASYM) AND NOT ADVERTISE_PAUSE_CAP)
     | e1000_fc_full \<Rightarrow> Some (reg OR (ADVERTISE_PAUSE_ASYM OR ADVERTISE_PAUSE_CAP))
     | e1000_fc_default \<Rightarrow> None)"

definition e1000_phy_setup_autoneg :: "'p phy_operations_scheme \<Rightarrow> s32 hwM" where
  "e1000_phy_setup_autoneg ops = do {
     set_phy (\<lambda>p. phy_autoneg_advertised_update (\<lambda>a. a AND phy_autoneg_mask p) p);
     with_phy ops MII_ADVERTISE (\<lambda>adv. do {
     phy \<leftarrow> gets hw_phy;
     let gig = (phy_autoneg_mask phy AND ADVERTISE_1000_FULL \<noteq> 0);
     r \<leftarrow> (if gig then e1e_rphy ops MII_CTRL1000 0 else ret (0, 0));
     if fst r \<noteq> 0 then ret (fst r)
     else do {
     s \<leftarrow> gets id;
     let advertised = phy_autoneg_advertised (hw_phy s);
     case autoneg_pause_bits (fc_current_mode (hw_fc s)) (autoneg_adv_bits advertised adv) of
         None \<Rightarrow> ret (- E1000_ERR_CONFIG)
       | Some adv \<Rightarrow> ok_then (e1e_wphy ops MII_ADVERTISE adv) (do {
           phy \<leftarrow> gets hw_phy;
           if phy_autoneg_mask phy AND ADVERTISE_1000_FULL \<noteq> 0
           then e1e_wphy ops MII_CTRL1000 (autoneg_1000t_bits advertised (snd r))
           else ret 0 }) } }) }"

definition e1000_copper_link_autoneg :: "'p phy_operations_scheme \<Rightarrow> s32 hwM" where
  "e1000_copper_link_autoneg ops = do {
     set_phy (\<lambda>p. phy_autoneg_advertised_update (\<lambda>a. a AND phy_autoneg_mask p) p);
     set_phy (\<lambda>p. phy_autoneg_advertised_update (\<lambda>a. if a = 0 then phy_autoneg_mask p else a) p);
     ok_then (e1000_phy_setup_autoneg ops) (
     with_phy ops MII_BMCR (\<lambda>phy_ctrl.
     ok_then (e1e_wphy ops MII_BMCR (phy_ctrl OR (BMCR_ANENABLE OR BMCR_ANRESTART))) (do {
     wait \<leftarrow> gets (\<lambda>s. phy_autoneg_wait_to_complete (hw_phy s));
     ok_then (if wait then e1000_wait_autoneg ops else ret 0) (do {
     set_mac (mac_get_link_status_update (\<lambda>_. True));
     ret 0 }) }))) }"

end
