(* ===== verification/PhyInfo.thy ===== *)
theory PhyInfo
  imports PhyLink
begin

section \<open>Forced speed, link information and resets of the PHYs (phy.c)\<close>

text \<open>
  The rest of \<open>src/IntelMausiEthernet/phy.c\<close>: forcing speed and duplex, downshift, polarity,
  cable length, the link information of each family, the D3 power state, the resets and the
  start-up script of the igp3 PHY.
\<close>

text \<open>The operations of \<open>hw->mac.ops\<close> this development uses, here and in the MAC theories.\<close>

record mac_operations =
  op_config_collision_dist :: "unit hwM"
  op_get_link_up_info :: "(s32 \<times> u16 \<times> u16) hwM"
  op_rar_set :: "u8 list \<Rightarrow> u32 \<Rightarrow> s32 hwM"
  op_check_mng_mode :: "bool hwM"
  op_check_for_link :: "s32 hwM"
  op_setup_physical_interface :: "s32 hwM"

subsection \<open>Forced speed and duplex\<close>

definition forced_ctrl :: "u8 \<Rightarrow> u32 \<Rightarrow> u32" where
  "forced_ctrl forced ctrl =
     (let ctrl = (ctrl OR (E1000_CTRL_FRCSPD OR E1000_CTRL_FRCDPX)) AND NOT E1000_CTRL_SPD_SEL;
          ctrl = ctrl AND NOT E1000_CTRL_ASDE;
          ctrl = (if forced AND E1000_ALL_HALF_DUPLEX \<noteq> 0 then ctrl AND NOT E1000_CTRL_FD
            else ctrl OR E1000_CTRL_FD)
      in if forced AND E1000_ALL_100_SPEED \<noteq> 0 then ctrl OR E1000_CTRL_SPD_100
         else ctrl AND NOT (E1000_CTRL_SPD_1000 OR E1000_CTRL_SPD_100))"

definition forced_bmcr :: "u8 \<Rightarrow> u16 \<Rightarrow> u16" where
  "forced_bmcr forced phy_ctrl =
     (let phy_ctrl = phy_ctrl AND NOT BMCR_ANENABLE;
          phy_ctrl = (if forced AND E1000_ALL_HALF_DUPLEX \<noteq> 0 then phy_ctrl AND NOT BMCR_FULLDPLX
            else phy_ctrl OR BMCR_FULLDPLX)
      in if forced AND E1000_ALL_100_SPEED \<noteq> 0
         then (phy_ctrl OR BMCR_SPEED100) AND NOT BMCR_SPEED1000
         else phy_ctrl AND NOT (BMCR_SPEED1000 OR BMCR_SPEED100))"

definition e1000e_phy_force_speed_duplex_setup ::
  "'m mac_operations_scheme \<Rightarrow> u16 \<Rightarrow> u16 hwM" where
  "e1000e_phy_force_speed_duplex_setup mops phy_ctrl = do {
     set_fc (fc_current_mode_update (\<lambda>_. e1000_fc_none));
     ctrl \<leftarrow> er32 E1000_CTRL;
     forced \<leftarrow> gets (\<lambda>s. mac_forced_speed_duplex (hw_mac s));
     op_config_collision_dist mops;
     ew32 E1000_CTRL (forced_ctrl forced ctrl);
     ret (forced_bmcr forced phy_ctrl) }"

text \<open>The two polls after forcing; the result of the second is what the caller returns.\<close>

definition force_wait_link :: "'p phy_operations_scheme \<Rightarrow> s32 hwM" where
  "force_wait_link ops = do {
     wait \<leftarrow> gets (\<lambda>s. phy_autoneg_wait_to_complete (hw_phy s));
     if wait then do {
       r \<leftarrow> e1000e_phy_has_link_generic ops PHY_FORCE_LIMIT 100000;
       if fst r \<noteq> 0 then ret (fst r)
       else do {
         r \<leftarrow> e1000e_phy_has_link_generic ops PHY_FORCE_LIMIT 100000;
         ret (fst r) } }
     else ret 0 }"

definition e1000e_phy_force_speed_duplex_igp ::
  "'m mac_operations_scheme \<Rightarrow> 'p phy_operations_scheme \<Rightarrow> s32 hwM" where
  "e1000e_phy_force_speed_duplex_igp mops ops =
     with_phy ops MII_BMCR (\<lambda>phy_data. do {
     phy_data \<leftarrow> e1000e_phy_force_speed_duplex_setup mops phy_data;
     ok_then (e1e_wphy ops MII_BMCR phy_data) (
     with_phy ops IGP01E1000_PHY_PORT_CTRL (\<lambda>phy_data.
     ok_then (e1e_wphy ops IGP01E1000_PHY_PORT_CTRL
         (phy_data AND NOT IGP01E1000_PSCR_AUTO_MDIX AND NOT IGP01E1000_PSCR_FORCE_MDI_MDIX)) (do {
     udelay 1;
     force_wait_link ops }))) })"

definition m88_force_wait :: "'p phy_operations_scheme \<Rightarrow> s32 hwM" where
  "m88_force_wait ops = do {
     r \<leftarrow> e1000e_phy_has_link_generic ops PHY_FORCE_LIMIT 100000;
     if fst r \<noteq> 0 then ret (fst r)
     else do {
       ty \<leftarrow> gets (\<lambda>s. phy_type (hw_phy s));
       ok_then (if \<not> snd r \<and> ty = e1000_phy_m88
           then ok_then (e1e_wphy ops M88E1000_PHY_PAGE_SELECT 0x001d) (e1000e_phy_reset_dsp ops)
           else ret 0) (do {
         r \<leftarrow> e1000e_phy_has_link_generic ops PHY_FORCE_LIMIT 100000;
         ret (fst r) }) } }"

definition e1000e_phy_force_speed_duplex_m88 ::
  "'m mac_operations_scheme \<Rightarrow> 'p phy_link_operations_scheme \<Rightarrow> s32 hwM" where
  "e1000e_phy_force_speed_duplex_m88 mops ops =
     with_phy ops M88E1000_PHY_SPEC_CTRL (\<lambda>phy_data.
     ok_then (e1e_wphy ops M88E1000_PHY_SPEC_CTRL (phy_data AND NOT M88E1000_PSCR_AUTO_X_MODE)) (
     with_phy ops MII_BMCR (\<lambda>phy_data. do {
     phy_data \<leftarrow> e1000e_phy_force_speed_duplex_setup mops phy_data;
     ok_then (e1e_wphy ops MII_BMCR phy_data) (
     ok_then (case op_phy_commit ops of None \<Rightarrow> ret 0 | Some commit \<Rightarrow> commit) (do {
     wait \<leftarrow> gets (\<lambda>s. phy_autoneg_wait_to_complete (hw_phy s));
     ok_then (if wait then m88_force_wait ops else ret 0) (do {
     ty \<leftarrow> gets (\<lambda>s. phy_type (hw_phy s));
     if ty \<noteq> e1000_phy_m88 then ret 0
     else with_phy ops M88E1000_EXT_PHY_SPEC_CTRL (\<lambda>phy_data.
       ok_then (e1e_wphy ops M88E1000_EXT_PHY_SPEC_CTRL (phy_data OR M88E1000_EPSCR_TX_CLK_25))
         (with_phy ops M88E1000_PHY_SPEC_CTRL (\<lambda>phy_data.
            e1e_wphy ops M88E1000_PHY_SPEC_CTRL (phy_data OR M88E1000_PSCR_ASSERT_CRS_ON_TX)))) }) })) })))"

definition e1000_phy_force_speed_duplex_ife ::
  "'m mac_operations_scheme \<Rightarrow> 'p phy_operations_scheme \<Rightarrow> s32 hwM" where
  "e1000_phy_force_speed_duplex_ife mops ops =
     with_phy ops MII_BMCR (\<lambda>data. do {
     data \<leftarrow> e1000e_phy_force_speed_duplex_setup mops data;
     ok_then (e1e_wphy ops MII_BMCR data) (
     with_phy ops IFE_PHY_MDIX_CONTROL (\<lambda>data.
     ok_then (e1e_wphy ops IFE_PHY_MDIX_CONTROL
         (data AND NOT IFE_PMC_AUTO_MDIX AND NOT IFE_PMC_FORCE_MDIX)) (do {
     udelay 1;
     force_wait_link ops }))) })"

definition e1000_phy_force_speed_duplex_82577 ::
  "'m mac_operations_scheme \<Rightarrow> 'p phy_operations_scheme \<Rightarrow> s32 hwM" where
  "e1000_phy_force_speed_duplex_82577 mops ops =
     with_phy ops MII_BMCR (\<lambda>phy_data. do {
     phy_data \<leftarrow> e1000e_phy_force_speed_duplex_setup mops phy_data;
     ok_then (e1e_wphy ops MII_BMCR phy_data) (do {
     udelay 1;
     force_wait_link ops }) })"

subsection \<open>Power state, downshift and polarity\<close>

definition smart_speed_off :: "'p phy_operations_scheme \<Rightarrow> s32 hwM" where
  "smart_speed_off ops = with_phy ops IGP01E1000_PHY_PORT_CONFIG (\<lambda>data.
     e1e_wphy ops IGP01E1000_PHY_PORT_CONFIG (data AND NOT IGP01E1000_PSCFR_SMART_SPEED))"

definition e1000e_set_d3_lplu_state :: "'p phy_operations_scheme \<Rightarrow> bool \<Rightarrow> s32 hwM" where
  "e1000e_set_d3_lplu_state ops active =
     with_phy ops IGP02E1000_PHY_POWER_MGMT (\<lambda>data. do {
     advertised \<leftarrow> gets (\<lambda>s. phy_autoneg_advertised (hw_phy s));
     if \<not> active then
       ok_then (e1e_wphy ops IGP02E1000_PHY_POWER_MGMT (data AND NOT IGP02E1000_PM_D3_LPLU)) (do {
       smart \<leftarrow> gets (\<lambda>s. phy_smart_speed (hw_phy s));
       if smart = e1000_smart_speed_on
       then with_phy ops IGP01E1000_PHY_PORT_CONFIG (\<lambda>data.
         e1e_wphy ops IGP01E1000_PHY_PORT_CONFIG (data OR IGP01E1000_PSCFR_SMART_SPEED))
       else if smart = e1000_smart_speed_off then smart_speed_off ops
       else ret 0 })
     else if advertised \<in> {E1000_ALL_SPEED_DUPLEX, E1000_ALL_NOT_GIG, E1000_ALL_10_SPEED} then
       ok_then (e1e_wphy ops IGP02E1000_PHY_POWER_MGMT (data OR IGP02E1000_PM_D3_LPLU))
         (smart_speed_off ops)
     else ret 0 })"

definition e1000e_check_downshift :: "'p phy_operations_scheme \<Rightarrow> s32 hwM" where
  "e1000e_check_downshift ops = do {
     ty \<leftarrow> gets (\<lambda>s. phy_type (hw_phy s));
     let m88 = (ty \<in> {e1000_phy_m88, e1000_phy_gg82563, e1000_phy_bm, e1000_phy_82578});
     if m88 \<or> ty = e1000_phy_igp_2 \<or> ty = e1000_phy_igp_3 then do {
       let offset = (if m88 then M88E1000_PHY_SPEC_STATUS else IGP01E1000_PHY_LINK_HEALTH);
       let bits = (if m88 then M88E1000_PSSR_DOWNSHIFT else IGP01E1000_PLHR_SS_DOWNGRADE);
       with_phy ops offset (\<lambda>phy_data. do {
         set_phy (phy_speed_downgraded_update (\<lambda>_. phy_data AND bits \<noteq> 0));
         ret 0 }) }
     else do {
       set_phy (phy_speed_downgraded_update (\<lambda>_. False));
       ret 0 } }"

definition polarity_of :: "u16 \<Rightarrow> e1000_rev_polarity" where
  "polarity_of bits = (if bits \<noteq> 0 then e1000_rev_polarity_reversed else e1000_rev_polarity_normal)"

text \<open>The end of every polarity check: one read, and the bit of the mask \<open>bits\<close>.\<close>

definition check_polarity :: "'p phy_operations_scheme \<Rightarrow> u32 \<Rightarrow> u16 \<Rightarrow> s32 hwM" where
  "check_polarity ops offset bits = with_phy ops offset (\<lambda>data. do {
     set_phy (phy_cable_polarity_update (\<lambda>_. polarity_of (data AND bits)));
     ret 0 })"

definition e1000_check_polarity_m88 :: "'p phy_operations_scheme \<Rightarrow> s32 hwM" where
  "e1000_check_polarity_m88 ops = check_polarity ops M88E1000_PHY_SPEC_STATUS M88E1000_PSSR_REV_POLARITY"

definition e1000_check_polarity_igp :: "'p phy_operations_scheme \<Rightarrow> s32 hwM" where
  "e1000_check_polarity_igp ops =
     with_phy ops IGP01E1000_PHY_PORT_STATUS (\<lambda>data.
       if data AND IGP01E1000_PSSR_SPEED_MASK = IGP01E1000_PSSR_SPEED_1000MBPS
       then check_polarity ops IGP01E1000_PHY_PCS_INIT_REG IGP01E1000_PHY_POLARITY_MASK
       else check_polarity ops IGP01E1000_PHY_PORT_STATUS IGP01E1000_PSSR_POLARITY_REVERSED)"

definition e1000_check_polarity_ife :: "'p phy_operations_scheme \<Rightarrow> s32 hwM" where
  "e1000_check_polarity_ife ops = do {
     correction \<leftarrow> gets (\<lambda>s. phy_polarity_correction (hw_phy s));
     if correction then check_polarity ops IFE_PHY_EXTENDED_STATUS_CONTROL IFE_PESC_POLARITY_REVERSED
     else check_polarity ops IFE_PHY_SPECIAL_CONTROL IFE_PSC_FORCE_POLARITY }"

definition e1000_check_polarity_82577 :: "'p phy_operations_scheme \<Rightarrow> s32 hwM" where
  "e1000_check_polarity_82577 ops = check_polarity ops I82577_PHY_STATUS_2 I82577_PHY_STATUS2_REV_POLARITY"

subsection \<open>Cable length\<close>

definition e1000_m88_cable_length_table :: "u16 list" where
  "e1000_m88_cable_length_table = [0, 50, 80, 110, 140, 140, E1000_CABLE_LENGTH_UNDEFINED]"

definition e1000_igp_2_cable_length_table :: "u16 list" where
  "e1000_igp_2_cable_length_table = [
     0, 0, 0, 0, 0, 0, 0, 0, 3, 5, 8, 11, 13, 16, 18, 21, 0, 0, 0, 3,
     6, 10, 13, 16, 19, 23, 26, 29, 32, 35, 38, 41, 6, 10, 14, 18, 22,
     26, 30, 33, 37, 41, 44, 48, 51, 54, 58, 61, 21, 26, 31, 35, 40,
     44, 49, 53, 57, 61, 65, 68, 72, 75, 79, 82, 40, 45, 51, 56, 61,
     66, 70, 75, 79, 83, 87, 91, 94, 98, 101, 104, 60, 66, 72, 77, 82,
     87, 92, 96, 100, 104, 108, 111, 114, 117, 119, 121, 83, 89, 95,
     100, 105, 109, 113, 116, 119, 122, 124, 104, 109, 114, 118, 121,
     124]"

definition cable_lengths :: "u16 \<Rightarrow> u16 \<Rightarrow> unit hwM" where
  "cable_lengths mn mx = set_phy (\<lambda>p. p\<lparr>phy_min_cable_length := mn, phy_max_cable_length := mx,
     phy_cable_length := word_of_nat ((unat mn + unat mx) div 2)\<rparr>)"

definition e1000e_get_cable_length_m88 :: "'p phy_operations_scheme \<Rightarrow> s32 hwM" where
  "e1000e_get_cable_length_m88 ops =
     with_phy ops M88E1000_PHY_SPEC_STATUS (\<lambda>phy_data. do {
       let index = unat (drop_bit M88E1000_PSSR_CABLE_LENGTH_SHIFT (phy_data AND M88E1000_PSSR_CABLE_LENGTH));
       if index \<ge> length e1000_m88_cable_length_table - 1 then ret (- E1000_ERR_PHY)
       else do {
         cable_lengths (e1000_m88_cable_length_table ! index) (e1000_m88_cable_length_table ! (index + 1));
         ret 0 } })"

text \<open>
  The loop over the AGC registers left to read. The accumulators of the source are the
  arguments: the smallest and largest index so far and the sum of the lengths. \<open>Inl\<close> is the
  early return.
\<close>

primrec agc_loop ::
  "u32 list \<Rightarrow> 'p phy_operations_scheme \<Rightarrow> nat \<Rightarrow> nat \<Rightarrow> u16 \<Rightarrow> (s32 + nat \<times> nat \<times> u16) hwM" where
  "agc_loop [] ops mn mx agc_value = ret (Inr (mn, mx, agc_value))"
| "agc_loop (reg # regs) ops mn mx agc_value = do {
     r \<leftarrow> e1e_rphy ops reg 0;
     if fst r \<noteq> 0 then ret (Inl (fst r))
     else do {
       let cur = unat (drop_bit IGP02E1000_AGC_LENGTH_SHIFT (snd r) AND IGP02E1000_AGC_LENGTH_MASK);
       let tab = e1000_igp_2_cable_length_table;
       if cur \<ge> length tab \<or> cur = 0 then ret (Inl (- E1000_ERR_PHY))
       else agc_loop regs ops (if tab ! mn > tab ! cur then cur else mn)
         (if tab ! mx < tab ! cur then cur else mx) (agc_value + tab ! cur) } }"

definition e1000e_get_cable_length_igp_2 :: "'p phy_operations_scheme \<Rightarrow> s32 hwM" where
  "e1000e_get_cable_length_igp_2 ops = do {
     let tab = e1000_igp_2_cable_length_table;
     r \<leftarrow> agc_loop [IGP02E1000_PHY_AGC_A, IGP02E1000_PHY_AGC_B, IGP02E1000_PHY_AGC_C,
       IGP02E1000_PHY_AGC_D] ops (length tab - 1) 0 0;
     case r of
         Inl e \<Rightarrow> ret e
       | Inr (mn, mx, agc_value) \<Rightarrow> do {
           let agc_value = (agc_value - (tab ! mn + tab ! mx)) div (IGP02E1000_PHY_CHANNEL_NUM - 2);
           cable_lengths (if uint agc_value - IGP02E1000_AGC_RANGE > 0
               then agc_value - IGP02E1000_AGC_RANGE else 0)
             (agc_value + IGP02E1000_AGC_RANGE);
           ret 0 } }"

definition e1000_get_cable_length_82577 :: "'p phy_operations_scheme \<Rightarrow> s32 hwM" where
  "e1000_get_cable_length_82577 ops =
     with_phy ops I82577_PHY_DIAG_STATUS (\<lambda>phy_data. do {
       let len = drop_bit I82577_DSTATUS_CABLE_LENGTH_SHIFT (phy_data AND I82577_DSTATUS_CABLE_LENGTH);
       if len = E1000_CABLE_LENGTH_UNDEFINED then ret (- E1000_ERR_PHY)
       else do {
         set_phy (phy_cable_length_update (\<lambda>_. len));
         ret 0 } })"

subsection \<open>Link information\<close>

text \<open>The frame of each query: the link must be up.\<close>

definition when_link :: "'p phy_operations_scheme \<Rightarrow> s32 hwM \<Rightarrow> s32 hwM" where
  "when_link ops k = do {
     r \<leftarrow> e1000e_phy_has_link_generic ops 1 0;
     if fst r \<noteq> 0 then ret (fst r)
     else if \<not> snd r then ret (- E1000_ERR_CONFIG)
     else k }"

definition rx_status_of :: "u16 \<Rightarrow> e1000_1000t_rx_status" where
  "rx_status_of bits = (if bits \<noteq> 0 then e1000_1000t_rx_status_ok else e1000_1000t_rx_status_not_ok)"

definition info_undefined :: "s32 hwM" where
  "info_undefined = do {
     set_phy (\<lambda>p. p\<lparr>phy_cable_length := E1000_CABLE_LENGTH_UNDEFINED,
       phy_local_rx := e1000_1000t_rx_status_undefined,
       phy_remote_rx := e1000_1000t_rx_status_undefined\<rparr>);
     ret 0 }"

text \<open>At 1000 Mb/s: the cable length and both receiver states.\<close>

definition info_1000 :: "'p phy_link_operations_scheme \<Rightarrow> s32 hwM" where
  "info_1000 ops =
     ok_then (op_phy_get_cable_length ops) (
     with_phy ops MII_STAT1000 (\<lambda>data. do {
       set_phy (phy_local_rx_update (\<lambda>_. rx_status_of (data AND LPA_1000LOCALRXOK)));
       set_phy (phy_remote_rx_update (\<lambda>_. rx_status_of (data AND LPA_1000REMRXOK)));
       ret 0 }))"

definition e1000e_get_phy_info_m88 :: "'p phy_link_operations_scheme \<Rightarrow> s32 hwM" where
  "e1000e_get_phy_info_m88 ops = do {
     media \<leftarrow> gets (\<lambda>s. phy_media_type (hw_phy s));
     if media \<noteq> e1000_media_type_copper then ret (- E1000_ERR_CONFIG)
     else when_link ops (
       with_phy ops M88E1000_PHY_SPEC_CTRL (\<lambda>phy_data. do {
       set_phy (phy_polarity_correction_update (\<lambda>_. phy_data AND M88E1000_PSCR_POLARITY_REVERSAL \<noteq> 0));
       ok_then (e1000_check_polarity_m88 ops) (
       with_phy ops M88E1000_PHY_SPEC_STATUS (\<lambda>phy_data. do {
       set_phy (phy_is_mdix_update (\<lambda>_. phy_data AND M88E1000_PSSR_MDIX \<noteq> 0));
       if phy_data AND M88E1000_PSSR_SPEED = M88E1000_PSSR_1000MBS then info_1000 ops
       else info_undefined })) })) }"

definition e1000e_get_phy_info_igp :: "'p phy_link_operations_scheme \<Rightarrow> s32 hwM" where
  "e1000e_get_phy_info_igp ops = when_link ops (do {
     set_phy (phy_polarity_correction_update (\<lambda>_. True));
     ok_then (e1000_check_polarity_igp ops) (
     with_phy ops IGP01E1000_PHY_PORT_STATUS (\<lambda>data. do {
     set_phy (phy_is_mdix_update (\<lambda>_. data AND IGP01E1000_PSSR_MDIX \<noteq> 0));
     if data AND IGP01E1000_PSSR_SPEED_MASK = IGP01E1000_PSSR_SPEED_1000MBPS then info_1000 ops
     else info_undefined })) })"

definition e1000_get_phy_info_ife :: "'p phy_operations_scheme \<Rightarrow> s32 hwM" where
  "e1000_get_phy_info_ife ops = when_link ops (
     with_phy ops IFE_PHY_SPECIAL_CONTROL (\<lambda>data. do {
     set_phy (phy_polarity_correction_update (\<lambda>_. data AND IFE_PSC_AUTO_POLARITY_DISABLE = 0));
     correction \<leftarrow> gets (\<lambda>s. phy_polarity_correction (hw_phy s));
     ok_then (if correction then e1000_check_polarity_ife ops
       else do {
         set_phy (phy_cable_polarity_update (\<lambda>_. polarity_of (data AND IFE_PSC_FORCE_POLARITY)));
         ret 0 }) (
     with_phy ops IFE_PHY_MDIX_CONTROL (\<lambda>data. do {
     set_phy (phy_is_mdix_update (\<lambda>_. data AND IFE_PMC_MDIX_STATUS \<noteq> 0));
     info_undefined })) }))"

definition e1000_get_phy_info_82577 :: "'p phy_link_operations_scheme \<Rightarrow> s32 hwM" where
  "e1000_get_phy_info_82577 ops = when_link ops (do {
     set_phy (phy_polarity_correction_update (\<lambda>_. True));
     ok_then (e1000_check_polarity_82577 ops) (
     with_phy ops I82577_PHY_STATUS_2 (\<lambda>data. do {
     set_phy (phy_is_mdix_update (\<lambda>_. data AND I82577_PHY_STATUS2_MDIX \<noteq> 0));
     if data AND I82577_PHY_STATUS2_SPEED_MASK = I82577_PHY_STATUS2_SPEED_1000MBPS then info_1000 ops
     else info_undefined })) })"

subsection \<open>Resets\<close>

definition e1000e_phy_sw_reset :: "'p phy_operations_scheme \<Rightarrow> s32 hwM" where
  "e1000e_phy_sw_reset ops =
     with_phy ops MII_BMCR (\<lambda>phy_ctrl.
     ok_then (e1e_wphy ops MII_BMCR (phy_ctrl OR BMCR_RESET)) (do {
     udelay 1;
     ret 0 }))"

definition e1000e_phy_hw_reset_generic :: "'p phy_link_operations_scheme \<Rightarrow> s32 hwM" where
  "e1000e_phy_hw_reset_generic ops = do {
     blocked \<leftarrow> (case op_phy_check_reset_block ops of None \<Rightarrow> ret 0 | Some f \<Rightarrow> f);
     if blocked \<noteq> 0 then ret 0
     else ok_then (phy_acquire ops) (do {
       ctrl \<leftarrow> er32 E1000_CTRL;
       ew32 E1000_CTRL (ctrl OR E1000_CTRL_PHY_RST);
       e1e_flush;
       delay \<leftarrow> gets (\<lambda>s. phy_reset_delay_us (hw_phy s));
       udelay (unat delay);
       ew32 E1000_CTRL ctrl;
       e1e_flush;
       usleep_range 150 300;
       op_phy_release ops;
       op_phy_get_cfg_done ops }) }"

definition e1000e_get_cfg_done_generic :: "s32 hwM" where
  "e1000e_get_cfg_done_generic = do { mdelay 10; ret 0 }"

text \<open>Register and value of each write of the start-up script, in its order.\<close>

definition igp3_script :: "(u32 \<times> u16) list" where
  "igp3_script = [
     (0x2F5B, 0x9018), (0x2F52, 0x0000), (0x2FB1, 0x8B24), (0x2FB2, 0xF8F0), (0x2010, 0x10B0),
     (0x2011, 0x0000), (0x20DD, 0x249A), (0x20DE, 0x00D3), (0x28B4, 0x04CE), (0x2F70, 0x29E4),
     (0x0000, 0x0140), (0x1F30, 0x1606), (0x1F31, 0xB814), (0x1F35, 0x002A), (0x1F3E, 0x0067),
     (0x1F54, 0x0065), (0x1F55, 0x002A), (0x1F56, 0x002A), (0x1F72, 0x3FB0), (0x1F76, 0xC0FF),
     (0x1F77, 0x1DEC), (0x1F78, 0xF9EF), (0x1F79, 0x0210), (0x1895, 0x0003), (0x1796, 0x0008),
     (0x1798, 0xD008), (0x1898, 0xD918), (0x187A, 0x0800), (0x0019, 0x008D), (0x001B, 0x2080),
     (0x0014, 0x0045), (0x0000, 0x1340)]"

definition e1000e_phy_init_script_igp3 :: "'p phy_operations_scheme \<Rightarrow> s32 hwM" where
  "e1000e_phy_init_script_igp3 ops = do {
     for_each igp3_script (\<lambda>(reg, v). do { e1e_wphy ops reg v; ret () });
     ret 0 }"

end
