(* ===== verification/PhyProps.thy ===== *)
theory PhyProps
  imports SwflagProps PhyInfo
begin

section \<open>Correctness of the PHY register accesses\<close>

text \<open>
  The MDI transaction for every chip; a PHY behind it as a store of paged registers; and the
  interface \<open>reg_store\<close> of such a store, interpreted on the igp and hv accessors.
\<close>

subsection \<open>The MDI transaction\<close>

abbreviation "mdic \<equiv> Csr E1000_MDIC"

definition mdic_ready :: "u32 \<Rightarrow> bool" where "mdic_ready v = (v AND E1000_MDIC_READY \<noteq> 0)"
definition mdic_error :: "u32 \<Rightarrow> bool" where "mdic_error v = (v AND E1000_MDIC_ERROR \<noteq> 0)"
definition mdic_reg :: "u32 \<Rightarrow> u32" where
  "mdic_reg v = drop_bit E1000_MDIC_REG_SHIFT (v AND E1000_MDIC_REG_MASK)"

definition mdic_quiet :: "event \<Rightarrow> bool" where
  "mdic_quiet e = ((\<exists>v. e = Rd mdic v) \<or> e = IODelay 50)"

lemma mdic_quiet_simps [simp]: "mdic_quiet (Rd mdic v)" "mdic_quiet (IODelay 50)"
  by (simp_all add: mdic_quiet_def)

lemma mdic_quiet_written: "list_all mdic_quiet es \<Longrightarrow> written a es = []"
  by (induction es) (auto simp: mdic_quiet_def)

lemma mdic_poll_run:
  obtains v es where "run_state (mdic_poll n m) s = (v, after s es)" and "list_all mdic_quiet es"
    and "length (values_read mdic es) \<le> n" and "v = last (m # values_read mdic es)"
proof -
  have "\<exists>v es. run_state (mdic_poll n m) s = (v, after s es) \<and> list_all mdic_quiet es
    \<and> length (values_read mdic es) \<le> n \<and> v = last (m # values_read mdic es)"
  proof (induction n arbitrary: m s)
    case 0
    show ?case by (intro exI [of _ m] exI [of _ "[]"]) simp
  next
    case (Suc n)
    let ?v = "hw_dev s (IODelay 50 # hw_log s) mdic"
    let ?es = "[IODelay 50, Rd mdic ?v]"
    show ?case
    proof (cases "?v AND E1000_MDIC_READY = 0")
      case False
      then show ?thesis by (intro exI [of _ ?v] exI [of _ ?es]) simp
    next
      case True
      from Suc.IH [of ?v "after s ?es"] obtain v es where
        "run_state (mdic_poll n ?v) (after s ?es) = (v, after s (?es @ es))" "list_all mdic_quiet es"
        "length (values_read mdic es) \<le> n" "v = last (?v # values_read mdic es)" by auto
      with True show ?thesis by (intro exI [of _ v] exI [of _ "?es @ es"]) auto
    qed
  qed
  then show ?thesis using that by blast
qed

lemma mdic_complete_run:
  obtains r v es where "run_state (mdic_complete offset) s = ((r, v), after s es)"
    and "list_all mdic_quiet es" and "length (values_read mdic es) \<le> E1000_GEN_POLL_TIMEOUT * 3"
    and "r = 0 \<or> r = - E1000_ERR_PHY"
    and "r = 0 \<Longrightarrow> values_read mdic es \<noteq> [] \<and> v = last (values_read mdic es) \<and>
      mdic_ready v \<and> \<not> mdic_error v \<and> mdic_reg v = offset"
proof -
  obtain v es where p: "run_state (mdic_poll (E1000_GEN_POLL_TIMEOUT * 3) 0) s = (v, after s es)"
    "list_all mdic_quiet es" "length (values_read mdic es) \<le> E1000_GEN_POLL_TIMEOUT * 3"
    "v = last (0 # values_read mdic es)"
    by (rule mdic_poll_run)
  show ?thesis
    by (rule that [of "if mdic_ready v \<and> \<not> mdic_error v \<and> mdic_reg v = offset then 0 else - E1000_ERR_PHY" v es])
      (use p in \<open>auto simp: mdic_complete_def mdic_ready_def mdic_error_def mdic_reg_def split: if_splits\<close>)
qed

text \<open>The command word of a transaction.\<close>

definition mdic_read_cmd :: "u32 \<Rightarrow> u32 \<Rightarrow> u32" where
  "mdic_read_cmd addr offset = push_bit E1000_MDIC_REG_SHIFT offset OR push_bit E1000_MDIC_PHY_SHIFT addr
     OR E1000_MDIC_OP_READ"

definition mdic_write_cmd :: "u32 \<Rightarrow> u32 \<Rightarrow> u16 \<Rightarrow> u32" where
  "mdic_write_cmd addr offset data = ucast data OR push_bit E1000_MDIC_REG_SHIFT offset
     OR push_bit E1000_MDIC_PHY_SHIFT addr OR E1000_MDIC_OP_WRITE"

definition settle_events :: "e1000_hw \<Rightarrow> event list" where
  "settle_events s = (if mac_type (hw_mac s) = e1000_pch2lan then [IODelay 100] else [])"

lemma run_mdic_settle [simp]: "run_state mdic_settle s = ((), after s (settle_events s))"
  by (simp add: mdic_settle_def settle_events_def)

lemma settle_after [simp]: "settle_events (after s es) = settle_events s"
  by (simp add: settle_events_def)

lemma settle_quiet [simp]: "values_read a (settle_events s) = []" "written a (settle_events s) = []"
  by (simp_all add: settle_events_def)

lemma read_mdic_run:
  assumes "offset \<le> 31"
  obtains (ok) es v fs where "run_state (e1000e_read_phy_reg_mdic offset data) s =
        ((0, ucast v), after s (es @ [Wr mdic (mdic_read_cmd (phy_addr (hw_phy s)) offset)] @ fs @ settle_events s))"
      "list_all arb_event es" "list_all mdic_quiet fs"
      "length (values_read mdic fs) \<le> E1000_GEN_POLL_TIMEOUT * 3" "values_read mdic fs \<noteq> []"
      "v = last (values_read mdic fs)" "mdic_ready v" "\<not> mdic_error v" "mdic_reg v = offset"
  | (failed) es fs where "run_state (e1000e_read_phy_reg_mdic offset data) s =
        ((- E1000_ERR_PHY, data), after s (es @ [Wr mdic (mdic_read_cmd (phy_addr (hw_phy s)) offset)] @ fs))"
      "list_all arb_event es" "list_all mdic_quiet fs"
      "length (values_read mdic fs) \<le> E1000_GEN_POLL_TIMEOUT * 3"
proof -
  let ?c = "mdic_read_cmd (phy_addr (hw_phy s)) offset"
  have le: "\<not> offset > MAX_PHY_REG_ADDRESS" using assms by simp
  obtain es where e: "run_state (ew32 E1000_MDIC ?c) s = ((), after s (es @ [Wr mdic ?c]))"
    "list_all arb_event es" by (rule run_ew32_arb)
  obtain r v fs where f: "run_state (mdic_complete offset) (after s (es @ [Wr mdic ?c])) =
      ((r, v), after (after s (es @ [Wr mdic ?c])) fs)"
    "list_all mdic_quiet fs" "length (values_read mdic fs) \<le> E1000_GEN_POLL_TIMEOUT * 3"
    "r = 0 \<or> r = - E1000_ERR_PHY" "r = 0 \<Longrightarrow> values_read mdic fs \<noteq> [] \<and> v = last (values_read mdic fs) \<and>
      mdic_ready v \<and> \<not> mdic_error v \<and> mdic_reg v = offset"
    by (rule mdic_complete_run [of offset "after s (es @ [Wr mdic ?c])"]) blast
  show ?thesis
  proof (cases "r = 0")
    case True
    show ?thesis
      by (rule ok [where es = es and fs = fs and v = v])
        (use e f True le f(5) [OF True] in \<open>simp_all add: e1000e_read_phy_reg_mdic_def mdic_read_cmd_def\<close>)
  next
    case False
    show ?thesis
      by (rule failed [where es = es and fs = fs])
        (use e f False le in \<open>auto simp: e1000e_read_phy_reg_mdic_def mdic_read_cmd_def\<close>)
  qed
qed

lemma write_mdic_run:
  assumes "offset \<le> 31"
  obtains (ok) es v fs where "run_state (e1000e_write_phy_reg_mdic offset data) s =
        (0, after s (es @ [Wr mdic (mdic_write_cmd (phy_addr (hw_phy s)) offset data)] @ fs @ settle_events s))"
      "list_all arb_event es" "list_all mdic_quiet fs"
      "length (values_read mdic fs) \<le> E1000_GEN_POLL_TIMEOUT * 3" "values_read mdic fs \<noteq> []"
      "v = last (values_read mdic fs)" "mdic_ready v" "\<not> mdic_error v" "mdic_reg v = offset"
  | (failed) es fs where "run_state (e1000e_write_phy_reg_mdic offset data) s =
        (- E1000_ERR_PHY, after s (es @ [Wr mdic (mdic_write_cmd (phy_addr (hw_phy s)) offset data)] @ fs))"
      "list_all arb_event es" "list_all mdic_quiet fs"
      "length (values_read mdic fs) \<le> E1000_GEN_POLL_TIMEOUT * 3"
proof -
  let ?c = "mdic_write_cmd (phy_addr (hw_phy s)) offset data"
  have le: "\<not> offset > MAX_PHY_REG_ADDRESS" using assms by simp
  obtain es where e: "run_state (ew32 E1000_MDIC ?c) s = ((), after s (es @ [Wr mdic ?c]))"
    "list_all arb_event es" by (rule run_ew32_arb)
  obtain r v fs where f: "run_state (mdic_complete offset) (after s (es @ [Wr mdic ?c])) =
      ((r, v), after (after s (es @ [Wr mdic ?c])) fs)"
    "list_all mdic_quiet fs" "length (values_read mdic fs) \<le> E1000_GEN_POLL_TIMEOUT * 3"
    "r = 0 \<or> r = - E1000_ERR_PHY" "r = 0 \<Longrightarrow> values_read mdic fs \<noteq> [] \<and> v = last (values_read mdic fs) \<and>
      mdic_ready v \<and> \<not> mdic_error v \<and> mdic_reg v = offset"
    by (rule mdic_complete_run [of offset "after s (es @ [Wr mdic ?c])"]) blast
  show ?thesis
  proof (cases "r = 0")
    case True
    show ?thesis
      by (rule ok [where es = es and fs = fs and v = v])
        (use e f True le f(5) [OF True] in \<open>simp_all add: e1000e_write_phy_reg_mdic_def mdic_write_cmd_def\<close>)
  next
    case False
    show ?thesis
      by (rule failed [where es = es and fs = fs])
        (use e f False le in \<open>auto simp: e1000e_write_phy_reg_mdic_def mdic_write_cmd_def\<close>)
  qed
qed

text \<open>C21: One MDI read, for every chip. A register number above 31 is refused before the chip is
touched. Otherwise exactly one command is written, it carries the PHY address, the register and the
read opcode, and at most 1920 polls follow. The read succeeds only when the last poll was ready, without
error and for the register asked for, and then its low half is the data; a failed read leaves the
caller's variable alone.\<close>

theorem mdic_read_sound:
  assumes "run_state (e1000e_read_phy_reg_mdic offset data) s = ((r, d), t)"
  shows "(offset > MAX_PHY_REG_ADDRESS \<longrightarrow> r = - E1000_ERR_PARAM \<and> d = data \<and> t = s) \<and>
    (offset \<le> MAX_PHY_REG_ADDRESS \<longrightarrow>
       written mdic (new_events s t) = [mdic_read_cmd (phy_addr (hw_phy s)) offset] \<and>
       length (values_read mdic (new_events s t)) \<le> E1000_GEN_POLL_TIMEOUT * 3 \<and>
       (r = 0 \<longrightarrow> (let v = last (values_read mdic (new_events s t)) in
          mdic_ready v \<and> \<not> mdic_error v \<and> mdic_reg v = offset \<and> d = ucast v)) \<and>
       (r \<noteq> 0 \<longrightarrow> r = - E1000_ERR_PHY \<and> d = data))"
proof (cases "offset \<le> 31")
  case True
  then show ?thesis
  proof (cases rule: read_mdic_run [of offset data s])
    case (ok es v fs)
    then show ?thesis
      using True assms by (auto simp: arb_quiet mdic_quiet_written)
  next
    case (failed es fs)
    then show ?thesis using True assms by (auto simp: arb_quiet mdic_quiet_written)
  qed
next
  case False
  then show ?thesis using assms by (auto simp: e1000e_read_phy_reg_mdic_def not_le)
qed

subsection \<open>A PHY behind MDIC\<close>

text \<open>
  What a PHY keeps, as a function of the commands the driver has written (newest first): a page
  register per PHY address, register 31, whose value is the page times 32; and the other registers.
  The registers up to 15 are the same on every page.
\<close>

definition cmd_addr :: "u32 \<Rightarrow> u32" where "cmd_addr c = drop_bit E1000_MDIC_PHY_SHIFT c AND 0x1F"
definition is_write :: "u32 \<Rightarrow> bool" where "is_write c = (c AND E1000_MDIC_OP_WRITE \<noteq> 0)"

type_synonym phy_key = "u32 \<times> u16 \<times> u32"

definition page_key :: "(u32 \<Rightarrow> u16) \<Rightarrow> u32 \<Rightarrow> u32 \<Rightarrow> phy_key" where
  "page_key pages addr reg = (addr, if reg > MAX_PHY_MULTI_PAGE_REG then pages addr else 0, reg)"

fun phy_pages :: "event list \<Rightarrow> u32 \<Rightarrow> u16" where
  "phy_pages [] addr = 0"
| "phy_pages (e # l) addr = (case e of
       Wr a c \<Rightarrow> if a = mdic \<and> is_write c \<and> mdic_reg c = 31 \<and> cmd_addr c = addr
         then drop_bit 5 (ucast c) else phy_pages l addr
     | _ \<Rightarrow> phy_pages l addr)"

fun phy_mem :: "(phy_key \<Rightarrow> u16) \<Rightarrow> event list \<Rightarrow> phy_key \<Rightarrow> u16" where
  "phy_mem init [] k = init k"
| "phy_mem init (e # l) k = (case e of
       Wr a c \<Rightarrow> if a = mdic \<and> is_write c \<and> mdic_reg c \<noteq> 31 \<and>
           page_key (phy_pages l) (cmd_addr c) (mdic_reg c) = k
         then ucast c else phy_mem init l k
     | _ \<Rightarrow> phy_mem init l k)"

text \<open>
  The law of the chip: it answers a command after at most \<open>lat\<close> polls, without error and naming the
  register, and the answer to a read is the register's content. \<open>init\<close> is the content at the start.
\<close>

definition mdi_chip :: "(phy_key \<Rightarrow> u16) \<Rightarrow> nat \<Rightarrow> (event list \<Rightarrow> access \<Rightarrow> u32) \<Rightarrow> bool" where
  "mdi_chip init lat dev \<longleftrightarrow> (\<forall>log c. last_write mdic log = Some c \<longrightarrow>
     (let v = dev log mdic in
        (reads_since mdic log \<ge> lat \<longrightarrow> mdic_ready v) \<and>
        (mdic_ready v \<longrightarrow> \<not> mdic_error v \<and> mdic_reg v = mdic_reg c \<and>
          (\<not> is_write c \<longrightarrow> ucast v = phy_mem init log (page_key (phy_pages log) (cmd_addr c) (mdic_reg c))))))"

lemma phy_view_skip:
  assumes "list_all (not_wr mdic) es"
  shows "phy_pages (es @ l) = phy_pages l" "phy_mem init (es @ l) = phy_mem init l"
  using assms by (induction es) (auto simp: not_wr_def fun_eq_iff split: event.splits)


lemma small_bit: "(w::u32) < 32 \<Longrightarrow> bit w k \<Longrightarrow> k < 5"
proof (rule ccontr)
  assume w: "w < 32" and b: "bit w k" and "\<not> k < 5"
  then have "unat w < 2 ^ 5" by (simp add: word_less_nat_alt)
  also have "(2::nat) ^ 5 \<le> 2 ^ k" using \<open>\<not> k < 5\<close> by (intro power_increasing) simp_all
  finally have "\<not> bit (unat w) k" by (simp add: bit_iff_odd)
  with b show False by (simp add: bit_unsigned_iff)
qed

lemma mdic_masks:
  "(0x1f0000 :: u32) = push_bit 16 (mask 5)" "(0x1F :: u32) = mask 5"
  "(0x4000000 :: u32) = 2 ^ 26" "(0x8000000 :: u32) = 2 ^ 27"
  by (simp_all add: mask_eq_exp_minus_1)

lemma cmd_fields:
  assumes "addr < 32" and "offset < 32"
  shows "mdic_reg (mdic_read_cmd addr offset) = offset" "cmd_addr (mdic_read_cmd addr offset) = addr"
    "\<not> is_write (mdic_read_cmd addr offset)"
    "mdic_reg (mdic_write_cmd addr offset data) = offset" "cmd_addr (mdic_write_cmd addr offset data) = addr"
    "is_write (mdic_write_cmd addr offset data)" "ucast (mdic_write_cmd addr offset data) = data"
proof -
  note small = small_bit [OF assms(1)] small_bit [OF assms(2)]
  note d = mdic_reg_def cmd_addr_def is_write_def mdic_read_cmd_def mdic_write_cmd_def
  note b = bit_drop_bit_eq comp_apply bit_and_iff bit_or_iff bit_push_bit_iff bit_exp_iff bit_mask_iff bit_unsigned_iff
  show "mdic_reg (mdic_read_cmd addr offset) = offset"
    unfolding d mdic_masks by (rule bit_word_eqI, simp only: b) (auto dest: small)
  show "cmd_addr (mdic_read_cmd addr offset) = addr"
    unfolding d mdic_masks by (rule bit_word_eqI, simp only: b) (auto dest: small)
  show "\<not> is_write (mdic_read_cmd addr offset)"
    unfolding d mdic_masks and_exp_eq_0_iff_not_bit by (simp only: b) (auto dest: small bit_imp_le_length)
  show "mdic_reg (mdic_write_cmd addr offset data) = offset"
    unfolding d mdic_masks by (rule bit_word_eqI, simp only: b) (auto dest: small bit_imp_le_length)
  show "cmd_addr (mdic_write_cmd addr offset data) = addr"
    unfolding d mdic_masks by (rule bit_word_eqI, simp only: b) (auto dest: small bit_imp_le_length)
  show "is_write (mdic_write_cmd addr offset data)"
    unfolding d mdic_masks and_exp_eq_0_iff_not_bit by (simp only: b) auto
  show "ucast (mdic_write_cmd addr offset data) = data"
    unfolding d mdic_masks by (rule bit_word_eqI, simp only: b) (auto dest: small)
qed

lemma poll_ready:
  assumes "mdi_chip init lat (hw_dev s)" and "last_write mdic (hw_log s) = Some c"
    and "lat < reads_since mdic (hw_log s) + n" and "reads_since mdic (hw_log s) \<le> lat"
  shows "\<exists>es v. run_state (mdic_poll n m) s = (v, after s es) \<and> list_all mdic_quiet es \<and> mdic_ready v
     \<and> \<not> mdic_error v \<and> mdic_reg v = mdic_reg c \<and>
       (\<not> is_write c \<longrightarrow> ucast v = phy_mem init (hw_log s) (page_key (phy_pages (hw_log s)) (cmd_addr c) (mdic_reg c)))"
  using assms
proof (induction n arbitrary: m s)
  case 0
  then show ?case by simp
next
  case (Suc n)
  let ?v = "hw_dev s (IODelay 50 # hw_log s) mdic"
  let ?es = "[IODelay 50, Rd mdic ?v]"
  have lw: "last_write mdic (IODelay 50 # hw_log s) = Some c" using Suc.prems(2) by simp
  note chip = Suc.prems(1) [unfolded mdi_chip_def Let_def, rule_format, OF lw]
  have view: "phy_pages (IODelay 50 # hw_log s) = phy_pages (hw_log s)"
    "phy_mem init (IODelay 50 # hw_log s) = phy_mem init (hw_log s)" by (auto simp: fun_eq_iff)
  have view2: "phy_pages (rev ?es @ hw_log s) = phy_pages (hw_log s)"
    "phy_mem init (rev ?es @ hw_log s) = phy_mem init (hw_log s)" by (auto simp: fun_eq_iff)
  show ?case
  proof (cases "mdic_ready ?v")
    case True
    then show ?thesis
      using chip view
      by (intro exI [of _ ?es] exI [of _ ?v]) (simp add: mdic_ready_def)
  next
    case False
    with chip have "\<not> lat \<le> reads_since mdic (hw_log s)" by simp
    then have "\<exists>es v. run_state (mdic_poll n ?v) (after s ?es) = (v, after (after s ?es) es)
      \<and> list_all mdic_quiet es \<and> mdic_ready v \<and> \<not> mdic_error v \<and> mdic_reg v = mdic_reg c \<and>
       (\<not> is_write c \<longrightarrow> ucast v = phy_mem init (hw_log (after s ?es))
          (page_key (phy_pages (hw_log (after s ?es))) (cmd_addr c) (mdic_reg c)))"
      using Suc.prems by (intro Suc.IH) simp_all
    then obtain es v where "run_state (mdic_poll n ?v) (after s ?es) = (v, after s (?es @ es))"
      "list_all mdic_quiet es" "mdic_ready v" "\<not> mdic_error v" "mdic_reg v = mdic_reg c"
      "\<not> is_write c \<longrightarrow> ucast v = phy_mem init (hw_log s) (page_key (phy_pages (hw_log s)) (cmd_addr c) (mdic_reg c))"
      using view2 by auto
    with False show ?thesis
      by (intro exI [of _ "?es @ es"] exI [of _ v]) (auto simp: mdic_ready_def)
  qed
qed

subsection \<open>The MDI transaction on that PHY\<close>

definition phy_ok :: "(phy_key \<Rightarrow> u16) \<Rightarrow> e1000_hw \<Rightarrow> bool" where
  "phy_ok init s \<longleftrightarrow> (\<exists>lat < E1000_GEN_POLL_TIMEOUT * 3. mdi_chip init lat (hw_dev s)) \<and>
     phy_type (hw_phy s) \<noteq> e1000_phy_82578"

definition pages_of :: "e1000_hw \<Rightarrow> u32 \<Rightarrow> u16" where "pages_of s = phy_pages (hw_log s)"

definition mem_of :: "(phy_key \<Rightarrow> u16) \<Rightarrow> e1000_hw \<Rightarrow> phy_key \<Rightarrow> u16" where
  "mem_of init s = phy_mem init (hw_log s)"

lemma mdic_quiet_not_wr: "list_all mdic_quiet es \<Longrightarrow> list_all (not_wr mdic) es"
  by (induction es) (auto simp: mdic_quiet_def)

lemma arb_not_wr: "list_all arb_event es \<Longrightarrow> list_all (not_wr a) es"
  by (induction es) (auto simp: arb_event_def)

lemma settle_not_wr: "list_all (not_wr mdic) (settle_events s)"
  by (simp add: settle_events_def)

text \<open>One command and its completion, and what it leaves.\<close>

lemma command_run:
  assumes ok: "phy_ok init s"
  shows "\<exists>es v. run_state (do { ew32 E1000_MDIC c; r \<leftarrow> mdic_complete (mdic_reg c);
        if fst r \<noteq> 0 then ret r else do { mdic_settle; ret (0, snd r) } }) s = ((0, v), after s es) \<and>
      pages_of (after s es) = phy_pages (Wr mdic c # hw_log s) \<and>
      mem_of init (after s es) = phy_mem init (Wr mdic c # hw_log s) \<and>
      (\<not> is_write c \<longrightarrow> ucast v = mem_of init s (page_key (pages_of s) (cmd_addr c) (mdic_reg c)))"
proof -
  obtain es where e: "run_state (ew32 E1000_MDIC c) s = ((), after s (es @ [Wr mdic c]))"
    "list_all arb_event es" by (rule run_ew32_arb)
  let ?s = "after s (es @ [Wr mdic c])"
  obtain lat where lat: "lat < E1000_GEN_POLL_TIMEOUT * 3" "mdi_chip init lat (hw_dev s)"
    using ok by (auto simp: phy_ok_def)
  have "\<exists>fs v. run_state (mdic_poll (E1000_GEN_POLL_TIMEOUT * 3) 0) ?s = (v, after ?s fs) \<and>
      list_all mdic_quiet fs \<and> mdic_ready v \<and> \<not> mdic_error v \<and> mdic_reg v = mdic_reg c \<and>
      (\<not> is_write c \<longrightarrow> ucast v = phy_mem init (hw_log ?s) (page_key (phy_pages (hw_log ?s)) (cmd_addr c) (mdic_reg c)))"
    by (rule poll_ready [of init lat]) (use lat in simp_all)
  then obtain fs v where f: "run_state (mdic_poll (E1000_GEN_POLL_TIMEOUT * 3) 0) ?s = (v, after ?s fs)"
      "list_all mdic_quiet fs" "mdic_ready v" "\<not> mdic_error v" "mdic_reg v = mdic_reg c"
      "\<not> is_write c \<Longrightarrow> ucast v = phy_mem init (hw_log ?s) (page_key (phy_pages (hw_log ?s)) (cmd_addr c) (mdic_reg c))"
    by blast
  let ?g = "es @ [Wr mdic c] @ fs @ settle_events s"
  have nw: "list_all (not_wr mdic) (rev es)" "list_all (not_wr mdic) (rev (settle_events s) @ rev fs)"
    using e(2) f(2) mdic_quiet_not_wr arb_not_wr settle_not_wr by (auto simp: list_all_iff)
  have log: "hw_log (after s ?g) = (rev (settle_events s) @ rev fs) @ (Wr mdic c # rev es @ hw_log s)"
    by simp
  have view: "phy_pages (hw_log (after s ?g)) = phy_pages (Wr mdic c # hw_log s)"
    "phy_mem init (hw_log (after s ?g)) = phy_mem init (Wr mdic c # hw_log s)"
    unfolding log phy_view_skip [OF nw(2)] by (auto simp: phy_view_skip [OF nw(1)] fun_eq_iff)
  have "run_state (do { ew32 E1000_MDIC c; r \<leftarrow> mdic_complete (mdic_reg c);
        if fst r \<noteq> 0 then ret r else do { mdic_settle; ret (0, snd r) } }) s = ((0, v), after s ?g)"
    using e(1) f(1,3,4,5) by (simp add: mdic_complete_def mdic_ready_def mdic_error_def mdic_reg_def)
  moreover have "ucast v = mem_of init s (page_key (pages_of s) (cmd_addr c) (mdic_reg c))" if "\<not> is_write c"
  proof -
    have "phy_pages (Wr mdic c # rev es @ hw_log s) = phy_pages (hw_log s)"
      "phy_mem init (Wr mdic c # rev es @ hw_log s) = phy_mem init (hw_log s)"
      using that by (simp_all add: fun_eq_iff phy_view_skip [OF nw(1)])
    then show ?thesis using f(6) [OF that] by (simp add: mem_of_def pages_of_def)
  qed
  ultimately show ?thesis using view by (auto simp: pages_of_def mem_of_def)
qed

lemma phy_ok_after [simp]: "phy_ok init (after s es) = phy_ok init s"
  by (simp add: phy_ok_def)

lemma mdic_read_step:
  assumes "phy_ok init s" and "phy_addr (hw_phy s) < 32" and "offset < 32"
  shows "\<exists>t. run_state (e1000e_read_phy_reg_mdic offset d) s =
      ((0, mem_of init s (page_key (pages_of s) (phy_addr (hw_phy s)) offset)), t) \<and>
     phy_ok init t \<and> hw_phy t = hw_phy s \<and> pages_of t = pages_of s \<and> mem_of init t = mem_of init s"
proof -
  let ?c = "mdic_read_cmd (phy_addr (hw_phy s)) offset"
  note c = cmd_fields [OF assms(2,3)]
  obtain es v where e: "run_state (do { ew32 E1000_MDIC ?c; r \<leftarrow> mdic_complete (mdic_reg ?c);
        if fst r \<noteq> 0 then ret r else do { mdic_settle; ret (0, snd r) } }) s = ((0, v), after s es)"
     "pages_of (after s es) = phy_pages (Wr mdic ?c # hw_log s)"
     "mem_of init (after s es) = phy_mem init (Wr mdic ?c # hw_log s)"
     "\<not> is_write ?c \<longrightarrow> ucast v = mem_of init s (page_key (pages_of s) (cmd_addr ?c) (mdic_reg ?c))"
    using command_run [OF assms(1)] by blast
  have "\<not> offset > 31" using assms(3) by (simp add: word_less_nat_alt)
  then have "run_state (e1000e_read_phy_reg_mdic offset d) s = ((0, ucast v), after s es)"
    using e(1) unfolding c(1)
    by (auto simp: e1000e_read_phy_reg_mdic_def mdic_read_cmd_def case_prod_beta split: prod.splits if_splits)
  moreover have "pages_of (after s es) = pages_of s" "mem_of init (after s es) = mem_of init s"
    using e(2,3) c(3) by (auto simp: pages_of_def mem_of_def fun_eq_iff)
  ultimately show ?thesis using e(4) c assms(1)
    by (intro exI [of _ "after s es"]) simp
qed

lemma mdic_write_step:
  assumes "phy_ok init s" and "phy_addr (hw_phy s) < 32" and "offset < 32"
  shows "\<exists>t. run_state (e1000e_write_phy_reg_mdic offset d) s = (0, t) \<and>
     phy_ok init t \<and> hw_phy t = hw_phy s \<and>
     pages_of t = (if offset = 31 then (pages_of s)(phy_addr (hw_phy s) := drop_bit 5 d) else pages_of s) \<and>
     mem_of init t = (if offset = 31 then mem_of init s
        else (mem_of init s)(page_key (pages_of s) (phy_addr (hw_phy s)) offset := d))"
proof -
  let ?c = "mdic_write_cmd (phy_addr (hw_phy s)) offset d"
  note c = cmd_fields [OF assms(2,3)]
  obtain es v where e: "run_state (do { ew32 E1000_MDIC ?c; r \<leftarrow> mdic_complete (mdic_reg ?c);
        if fst r \<noteq> 0 then ret r else do { mdic_settle; ret (0, snd r) } }) s = ((0, v), after s es)"
     "pages_of (after s es) = phy_pages (Wr mdic ?c # hw_log s)"
     "mem_of init (after s es) = phy_mem init (Wr mdic ?c # hw_log s)"
    using command_run [OF assms(1)] by blast
  have "\<not> offset > 31" using assms(3) by (simp add: word_less_nat_alt)
  then have "run_state (e1000e_write_phy_reg_mdic offset d) s = (0, after s es)"
    using e(1) unfolding c(4)
    by (auto simp: e1000e_write_phy_reg_mdic_def mdic_write_cmd_def case_prod_beta split: prod.splits if_splits)
  moreover have "phy_pages (Wr mdic ?c # hw_log s) =
      (if offset = 31 then (pages_of s)(phy_addr (hw_phy s) := drop_bit 5 d) else pages_of s)"
    using c by (auto simp: pages_of_def fun_eq_iff)
  moreover have "phy_mem init (Wr mdic ?c # hw_log s) = (if offset = 31 then mem_of init s
        else (mem_of init s)(page_key (pages_of s) (phy_addr (hw_phy s)) offset := d))"
    using c by (auto simp: pages_of_def mem_of_def fun_eq_iff)
  ultimately show ?thesis using e(2,3) assms(1)
    by (intro exI [of _ "after s es"]) simp
qed

subsection \<open>Stores of registers\<close>

text \<open>
  The contract of an accessor pair: in a good state a valid register reads as what the store holds
  under its key, and a write changes that one entry. The client lemmas are what the driver
  relies on when it reads, modifies and writes a register.
\<close>

locale reg_store =
  fixes ok :: "e1000_hw \<Rightarrow> bool" and mem :: "e1000_hw \<Rightarrow> 'k \<Rightarrow> u16"
    and key :: "u32 \<Rightarrow> 'k" and valid :: "u32 \<Rightarrow> bool"
    and rd :: "u32 \<Rightarrow> u16 \<Rightarrow> (s32 \<times> u16) hwM" and wr :: "u32 \<Rightarrow> u16 \<Rightarrow> s32 hwM"
  assumes rd_law: "ok s \<Longrightarrow> valid r \<Longrightarrow>
      \<exists>t. run_state (rd r d) s = ((0, mem s (key r)), t) \<and> ok t \<and> mem t = mem s"
    and wr_law: "ok s \<Longrightarrow> valid r \<Longrightarrow>
      \<exists>t. run_state (wr r v) s = (0, t) \<and> ok t \<and> mem t = (mem s)(key r := v)"
begin

lemma write_read:
  assumes "ok s" "valid r" "valid q"
  shows "\<exists>t u. run_state (wr r v) s = (0, t) \<and>
     run_state (rd q d) t = ((0, if key q = key r then v else mem s (key q)), u) \<and>
     ok u \<and> mem u = (mem s)(key r := v)"
proof -
  obtain t where t: "run_state (wr r v) s = (0, t)" "ok t" "mem t = (mem s)(key r := v)"
    using wr_law [OF assms(1,2)] by blast
  obtain u where "run_state (rd q d) t = ((0, mem t (key q)), u)" "ok u" "mem u = mem t"
    using rd_law [OF t(2) assms(3)] by blast
  with t show ?thesis by (intro exI [of _ t] exI [of _ u]) simp
qed

lemma update_law:
  assumes "ok s" "valid r"
  shows "\<exists>t. run_state (do { x \<leftarrow> rd r d; if fst x \<noteq> 0 then ret (fst x) else wr r (f (snd x)) }) s = (0, t) \<and>
     ok t \<and> mem t = (mem s)(key r := f (mem s (key r)))"
proof -
  obtain t where t: "run_state (rd r d) s = ((0, mem s (key r)), t)" "ok t" "mem t = mem s"
    using rd_law [OF assms] by blast
  obtain u where "run_state (wr r (f (mem s (key r)))) t = (0, u)" "ok u"
      "mem u = (mem s)(key r := f (mem s (key r)))"
    using wr_law [OF t(2) assms(2)] t(3) by metis
  with t show ?thesis by (intro exI [of _ u]) simp
qed

lemma update_twice:
  assumes "ok s" "valid r" "valid q" "key q \<noteq> key r"
  shows "\<exists>t u w. run_state (wr r v) s = (0, t) \<and> run_state (wr q x) t = (0, u) \<and>
     run_state (rd r d) u = ((0, v), w) \<and> mem w = (mem s)(key r := v, key q := x)"
proof -
  obtain t where t: "run_state (wr r v) s = (0, t)" "ok t" "mem t = (mem s)(key r := v)"
    using wr_law [OF assms(1,2)] by blast
  obtain u where u: "run_state (wr q x) t = (0, u)" "ok u" "mem u = (mem t)(key q := x)"
    using wr_law [OF t(2) assms(3)] by blast
  obtain w where "run_state (rd r d) u = ((0, mem u (key r)), w)" "mem w = mem u"
    using rd_law [OF u(2) assms(2)] by blast
  with t u assms(4) show ?thesis by (intro exI [of _ t] exI [of _ u] exI [of _ w]) simp
qed

end

subsection \<open>igp registers\<close>

definition igp_ok :: "(phy_key \<Rightarrow> u16) \<Rightarrow> u32 \<Rightarrow> e1000_hw \<Rightarrow> bool" where
  "igp_ok init a s \<longleftrightarrow> phy_ok init s \<and> phy_addr (hw_phy s) = a \<and> a < 32"

definition igp_valid :: "u32 \<Rightarrow> bool" where
  "igp_valid offset = (MAX_PHY_REG_ADDRESS AND offset \<noteq> 31)"

definition igp_key :: "u32 \<Rightarrow> u32 \<Rightarrow> phy_key" where
  "igp_key a offset = (let reg = MAX_PHY_REG_ADDRESS AND offset in
     (a, if reg > MAX_PHY_MULTI_PAGE_REG then drop_bit 5 (ucast offset) else 0, reg))"

lemma reg_lt: "(MAX_PHY_REG_ADDRESS AND offset :: u32) < 32"
  using word_and_le2 [of MAX_PHY_REG_ADDRESS offset] by (simp add: word_le_nat_alt word_less_nat_alt)

lemma igp_select:
  assumes "igp_ok init a s"
  shows "\<exists>t. run_state (igp_page offset) s = (0, t) \<and> igp_ok init a t \<and> mem_of init t = mem_of init s \<and>
     page_key (pages_of t) a (MAX_PHY_REG_ADDRESS AND offset) = igp_key a offset"
proof (cases "offset > MAX_PHY_MULTI_PAGE_REG")
  case True
  obtain t where "run_state (e1000e_write_phy_reg_mdic 31 (ucast offset)) s = (0, t)"
    "phy_ok init t" "hw_phy t = hw_phy s"
    "pages_of t = (pages_of s)(phy_addr (hw_phy s) := drop_bit 5 (ucast offset))"
    "mem_of init t = mem_of init s"
    using mdic_write_step [of init s 31 "ucast offset"] assms by (auto simp: igp_ok_def)
  with True assms show ?thesis
    by (intro exI [of _ t]) (simp add: igp_page_def page_key_def igp_key_def igp_ok_def)
next
  case False
  have "(MAX_PHY_REG_ADDRESS AND offset) \<le> offset" by (rule word_and_le1)
  with False have "\<not> (MAX_PHY_REG_ADDRESS AND offset) > MAX_PHY_MULTI_PAGE_REG" by simp
  then show ?thesis
    using False assms by (intro exI [of _ s]) (simp add: igp_page_def page_key_def igp_key_def Let_def)
qed

interpretation igp: reg_store "igp_ok init a" "mem_of init" "igp_key a" igp_valid
  "e1000e_read_phy_reg_igp_locked ops" "e1000e_write_phy_reg_igp_locked ops" for init a ops
proof unfold_locales
  fix s r d v
  assume ok: "igp_ok init a s" and v: "igp_valid r"
  obtain t where t: "run_state (igp_page r) s = (0, t)" "igp_ok init a t" "mem_of init t = mem_of init s"
      "page_key (pages_of t) a (MAX_PHY_REG_ADDRESS AND r) = igp_key a r"
    using igp_select [OF ok] by blast
  have a: "phy_ok init t" "phy_addr (hw_phy t) < 32" "phy_addr (hw_phy t) = a" "a < 32"
    using t(2) by (simp_all add: igp_ok_def)
  obtain u where u: "run_state (e1000e_read_phy_reg_mdic (MAX_PHY_REG_ADDRESS AND r) d) t =
       ((0, mem_of init s (igp_key a r)), u)" "phy_ok init u" "hw_phy u = hw_phy t" "mem_of init u = mem_of init t"
    using mdic_read_step [OF a(1,2) reg_lt, of r d] t(3,4) a(3) by auto
  show "\<exists>t. run_state (e1000e_read_phy_reg_igp_locked ops r d) s = ((0, mem_of init s (igp_key a r)), t) \<and>
      igp_ok init a t \<and> mem_of init t = mem_of init s"
    using t u a
    by (intro exI [of _ u])
      (simp add: e1000e_read_phy_reg_igp_locked_def e1000e_read_phy_reg_igp_raw_def phy_locked_def igp_ok_def)
  obtain w where w: "run_state (e1000e_write_phy_reg_mdic (MAX_PHY_REG_ADDRESS AND r) v) t = (0, w)"
     "phy_ok init w" "hw_phy w = hw_phy t" "mem_of init w = (mem_of init s)(igp_key a r := v)"
    using mdic_write_step [OF a(1,2) reg_lt, of r v] t(3,4) a(3) \<open>igp_valid r\<close> by (auto simp: igp_valid_def)
  show "\<exists>t. run_state (e1000e_write_phy_reg_igp_locked ops r v) s = (0, t) \<and>
      igp_ok init a t \<and> mem_of init t = (mem_of init s)(igp_key a r := v)"
    using t w a
    by (intro exI [of _ w])
      (simp add: e1000e_write_phy_reg_igp_locked_def e1000e_write_phy_reg_igp_raw_def phy_locked_def igp_ok_def)
qed

subsection \<open>hv registers\<close>

text \<open>
  The pages reached through the page register: page 0 at address 2, whose page register the accessors
  never write, and the pages from 768 on at address 1 but for the wake-up page 800. The key's page is
  what the 16-bit page number leaves after the shift into the page register and back.
\<close>

definition hv_ok :: "(phy_key \<Rightarrow> u16) \<Rightarrow> e1000_hw \<Rightarrow> bool" where
  "hv_ok init s \<longleftrightarrow> phy_ok init s \<and> pages_of s 2 = 0"

definition hv_valid :: "u32 \<Rightarrow> bool" where
  "hv_valid offset = (let page = BM_PHY_REG_PAGE offset; reg = BM_PHY_REG_NUM offset in
     reg < 31 \<and> (page = 0 \<or> page \<ge> HV_INTC_FC_PAGE_START \<and> page \<noteq> BM_WUC_PAGE))"

definition hv_key :: "u32 \<Rightarrow> phy_key" where
  "hv_key offset = (let page = BM_PHY_REG_PAGE offset; reg = BM_PHY_REG_NUM offset in
     (if page \<ge> HV_INTC_FC_PAGE_START then 1 else 2,
      if reg > MAX_PHY_MULTI_PAGE_REG
      then drop_bit 5 (push_bit 5 (if page = HV_INTC_FC_PAGE_START then 0 else page)) else 0,
      ucast reg))"

lemma run_set_phy_addr [simp]:
  "run_state (set_phy_addr a) s = ((), s\<lparr>hw_phy := (hw_phy s)\<lparr>phy_addr := a\<rparr>\<rparr>)"
  by (simp add: set_phy_addr_def)

lemma set_phy_simps [simp]:
  "pages_of (s\<lparr>hw_phy := p\<rparr>) = pages_of s" "mem_of init (s\<lparr>hw_phy := p\<rparr>) = mem_of init s"
  "phy_ok init (s\<lparr>hw_phy := (hw_phy s)\<lparr>phy_addr := a\<rparr>\<rparr>) = phy_ok init s"
  by (simp_all add: pages_of_def mem_of_def phy_ok_def)

lemma phy_ok_type [simp]: "phy_ok init s \<Longrightarrow> phy_type (hw_phy s) \<noteq> e1000_phy_82578"
  by (simp add: phy_ok_def)

lemma phy_ok_set [simp]:
  "phy_ok init s \<Longrightarrow> phy_type p \<noteq> e1000_phy_82578 \<Longrightarrow> phy_ok init (s\<lparr>hw_phy := p\<rparr>)"
  by (simp add: phy_ok_def)

text \<open>The page register set for a register, at the address of the page.\<close>

lemma hv_select:
  assumes ok: "hv_ok init s" and v: "hv_valid r"
    and addr: "phy_addr (hw_phy s) = e1000_get_phy_addr_for_hv_page (ucast (BM_PHY_REG_PAGE r))"
  shows "\<exists>t. run_state (hv_page (if BM_PHY_REG_PAGE r = HV_INTC_FC_PAGE_START then 0 else BM_PHY_REG_PAGE r)
        (BM_PHY_REG_NUM r) (phy_addr (hw_phy s))) s = (0, t) \<and> hv_ok init t \<and> mem_of init t = mem_of init s \<and>
     phy_addr (hw_phy t) = phy_addr (hw_phy s) \<and>
     page_key (pages_of t) (phy_addr (hw_phy s)) (ucast (BM_PHY_REG_NUM r)) = hv_key r"
proof -
  let ?page = "if BM_PHY_REG_PAGE r = HV_INTC_FC_PAGE_START then 0 else BM_PHY_REG_PAGE r"
  let ?a = "phy_addr (hw_phy s)"
  have a: "?a = (if BM_PHY_REG_PAGE r \<ge> 768 then 1 else 2)"
    unfolding addr e1000_get_phy_addr_for_hv_page_def
    by (simp add: word_le_nat_alt unat_ucast_up)
  have reg: "(ucast (BM_PHY_REG_NUM r) :: u32) > 15 \<longleftrightarrow> BM_PHY_REG_NUM r > 15"
    by (simp add: word_less_nat_alt unat_ucast_up)
  show ?thesis
  proof (cases "BM_PHY_REG_NUM r > MAX_PHY_MULTI_PAGE_REG")
    case True
    let ?s = "s\<lparr>hw_phy := (hw_phy s)\<lparr>phy_addr := 1\<rparr>\<rparr>"
    obtain t where t: "run_state (e1000e_write_phy_reg_mdic 31 (push_bit 5 ?page)) ?s = (0, t)"
      "phy_ok init t" "hw_phy t = hw_phy ?s"
      "pages_of t = (pages_of s)(1 := drop_bit 5 (push_bit 5 ?page))" "mem_of init t = mem_of init s"
      using mdic_write_step [of init ?s 31 "push_bit 5 ?page"] ok by (auto simp: hv_ok_def)
    show ?thesis
      by (rule exI [of _ "t\<lparr>hw_phy := (hw_phy t)\<lparr>phy_addr := ?a\<rparr>\<rparr>"])
        (use True t ok v a reg in \<open>auto simp: hv_page_def e1000_set_page_igp_def hv_ok_def hv_key_def
          page_key_def hv_valid_def Let_def\<close>)
  next
    case False
    then show ?thesis
      using ok reg a by (intro exI [of _ s]) (simp add: hv_page_def page_key_def hv_key_def Let_def)
  qed
qed

lemma reg16_lt:
  assumes "r < (31 :: u16)"
  shows "ucast (MAX_PHY_REG_ADDRESS AND r) = (ucast r :: u32)" "(ucast r :: u32) < 32" "(ucast r :: u32) \<noteq> 31"
proof -
  have r: "unat r < 31" using assms by (simp add: word_less_nat_alt)
  have u: "unat (ucast r :: u32) = unat r" by (simp add: unat_ucast_up)
  show "(ucast r :: u32) < 32" "(ucast r :: u32) \<noteq> 31" using r u by (auto simp: word_less_nat_alt)
  have "31 AND r = take_bit 5 r" by (simp add: take_bit_eq_mask mask_eq_exp_minus_1 and.commute)
  also have "\<dots> = r"
    using r by (simp add: word_unat_eq_iff unsigned_take_bit_eq take_bit_nat_eq_self_iff)
  finally show "ucast (MAX_PHY_REG_ADDRESS AND r) = (ucast r :: u32)" by simp
qed

lemma hv_page_cases:
  assumes "hv_valid r"
  shows "BM_PHY_REG_PAGE r \<noteq> 800" "\<not> (BM_PHY_REG_PAGE r > 0 \<and> BM_PHY_REG_PAGE r < 768)"
    "BM_PHY_REG_NUM r < 31"
  using assms by (auto simp: hv_valid_def Let_def)

lemma hv_addr_lt: "e1000_get_phy_addr_for_hv_page p < 32"
  by (simp add: e1000_get_phy_addr_for_hv_page_def)

lemma hv_type [simp]: "hv_ok init s \<Longrightarrow> phy_type (hw_phy s) \<noteq> e1000_phy_82578"
  by (auto simp: hv_ok_def)

interpretation hv: reg_store "hv_ok init" "mem_of init" hv_key hv_valid
  "e1000_read_phy_reg_hv_locked ops" "e1000_write_phy_reg_hv_locked ops" for init ops
proof unfold_locales
  fix s r d v
  assume ok: "hv_ok init s" and v: "hv_valid r"
  let ?a = "e1000_get_phy_addr_for_hv_page (ucast (BM_PHY_REG_PAGE r))"
  let ?reg = "ucast (BM_PHY_REG_NUM r) :: u32"
  let ?s = "s\<lparr>hw_phy := (hw_phy s)\<lparr>phy_addr := ?a\<rparr>\<rparr>"
  note p = hv_page_cases [OF v]
  note reg = reg16_lt [OF p(3)]
  have np: "(0 < BM_PHY_REG_PAGE r \<and> BM_PHY_REG_PAGE r < 768) = False" using p(2) by simp
  have "hv_ok init ?s" "phy_addr (hw_phy ?s) = ?a" using ok by (simp_all add: hv_ok_def)
  from hv_select [OF this(1) v] this(2) obtain t where t:
    "run_state (hv_page (if BM_PHY_REG_PAGE r = HV_INTC_FC_PAGE_START then 0 else BM_PHY_REG_PAGE r)
        (BM_PHY_REG_NUM r) ?a) ?s = (0, t)" "hv_ok init t" "mem_of init t = mem_of init s"
    "phy_addr (hw_phy t) = ?a" "page_key (pages_of t) ?a ?reg = hv_key r"
    by (auto simp del: One_nat_def)
  have a: "phy_ok init t" "phy_addr (hw_phy t) < 32" "pages_of t 2 = 0"
    using t(2,4) hv_addr_lt by (simp_all add: hv_ok_def)
  obtain u where u: "run_state (e1000e_read_phy_reg_mdic ?reg d) t = ((0, mem_of init s (hv_key r)), u)"
      "phy_ok init u" "pages_of u = pages_of t" "mem_of init u = mem_of init t"
    using mdic_read_step [OF a(1,2) reg(2), of d] t(3,4,5) by auto
  show "\<exists>t. run_state (e1000_read_phy_reg_hv_locked ops r d) s = ((0, mem_of init s (hv_key r)), t) \<and>
      hv_ok init t \<and> mem_of init t = mem_of init s"
    by (rule exI [of _ u])
      (use t u a p(1) reg in \<open>simp add: np e1000_read_phy_reg_hv_locked_def e1000_read_phy_reg_hv_raw_def
        hv_locked_def Let_def hv_ok_def\<close>)
  obtain w where w: "run_state (e1000e_write_phy_reg_mdic ?reg v) t = (0, w)"
      "phy_ok init w" "pages_of w = pages_of t" "mem_of init w = (mem_of init s)(hv_key r := v)"
    using mdic_write_step [OF a(1,2) reg(2), of v] t(3,4,5) reg(3) by auto
  have wa: "run_state (hv_power_down_workaround (BM_PHY_REG_NUM r) v) ?s = (0, ?s)"
    using ok by (simp add: hv_power_down_workaround_def)
  show "\<exists>t. run_state (e1000_write_phy_reg_hv_locked ops r v) s = (0, t) \<and>
      hv_ok init t \<and> mem_of init t = (mem_of init s)(hv_key r := v)"
    by (rule exI [of _ w])
      (use t w a p(1) reg wa in \<open>simp add: np e1000_write_phy_reg_hv_locked_def e1000_write_phy_reg_hv_raw_def
        hv_locked_def Let_def hv_ok_def\<close>)
qed

subsection \<open>A PHY that answers\<close>

text \<open>The law holds of a PHY that answers at once.\<close>

definition phy_dev :: "(phy_key \<Rightarrow> u16) \<Rightarrow> event list \<Rightarrow> access \<Rightarrow> u32" where
  "phy_dev init log a = (if a = mdic then (case last_write mdic log of
      None \<Rightarrow> 0
    | Some c \<Rightarrow> E1000_MDIC_READY OR (c AND E1000_MDIC_REG_MASK) OR
        (if is_write c then 0
         else ucast (phy_mem init log (page_key (phy_pages log) (cmd_addr c) (mdic_reg c))))) else 0)"

lemma answer_fields:
  fixes d :: u16 and c :: u32
  defines "v \<equiv> E1000_MDIC_READY OR (c AND E1000_MDIC_REG_MASK) OR ucast d"
  shows "mdic_ready v" "\<not> mdic_error v" "mdic_reg v = mdic_reg c" "ucast v = d"
proof -
  note d = mdic_reg_def mdic_ready_def mdic_error_def
  note b = bit_drop_bit_eq comp_apply bit_and_iff bit_or_iff bit_push_bit_iff bit_exp_iff bit_mask_iff bit_unsigned_iff
  have m: "(0x10000000 :: u32) = 2 ^ 28" "(0x40000000 :: u32) = 2 ^ 30" by simp_all
  show "mdic_ready v"
    unfolding d v_def mdic_masks m and_exp_eq_0_iff_not_bit by (simp only: b) auto
  show "\<not> mdic_error v"
    unfolding d v_def mdic_masks m and_exp_eq_0_iff_not_bit by (simp only: b) (auto dest: bit_imp_le_length)
  show "mdic_reg v = mdic_reg c"
    unfolding d v_def mdic_masks m by (rule bit_word_eqI, simp only: b) (auto dest: bit_imp_le_length)
  show "ucast v = d"
    unfolding d v_def mdic_masks m by (rule bit_word_eqI, simp only: b) (auto dest: bit_imp_le_length)
qed

lemma phy_dev_chip: "mdi_chip init 0 (phy_dev init)"
  using answer_fields answer_fields [where d = 0]
  by (auto simp: mdi_chip_def phy_dev_def Let_def)

lemma sample_phy_ok: "phy_ok init (sample_hw (phy_dev init))"
  by (auto simp: phy_ok_def sample_hw_def intro!: exI [of _ 0] phy_dev_chip)

theorem mdic_read_sound_witness:
  "let t = snd (run_state (e1000e_read_phy_reg_mdic 2 0) (sample_hw keep_dev)) in
   written mdic (new_events (sample_hw keep_dev) t) = [mdic_read_cmd 1 2] \<and>
   length (values_read mdic (new_events (sample_hw keep_dev) t)) \<le> 1920"
proof -
  obtain r d t where "run_state (e1000e_read_phy_reg_mdic 2 0) (sample_hw keep_dev) = ((r, d), t)"
    by (metis surj_pair)
  moreover have "phy_addr (hw_phy (sample_hw keep_dev)) = 1" by (simp add: sample_hw_def)
  ultimately show ?thesis using mdic_read_sound [of 2 0 "sample_hw keep_dev" r d t] by (simp add: Let_def)
qed


definition sample_phy_ops :: phy_operations where
  "sample_phy_ops = \<lparr>op_phy_acquire = Some e1000_acquire_swflag_ich8lan,
     op_phy_release = e1000_release_swflag_ich8lan, op_phy_read_reg = None, op_phy_write_reg = \<lambda>_ _. ret 0\<rparr>"

lemma sample_hv_ok: "hv_ok init (sample_hw (phy_dev init))"
  using sample_phy_ok by (simp add: hv_ok_def pages_of_def)

lemma sample_hv_valid: "hv_valid 0x6011" "hv_key 0x6011 = (1, 0, 17)" "hv_valid 2" "hv_key 2 = (2, 0, 2)"
  by (simp_all add: hv_valid_def hv_key_def BM_PHY_REG_PAGE_def BM_PHY_REG_NUM_def Let_def)


text \<open>Two igp registers written one after the other. On a PHY that keeps its registers and answers within
the polls the driver allows, both writes through the locked igp accessors succeed, the later write to a
register with another page or number leaves the first one alone, and the first reads back as written.\<close>

theorem phy_igp_store:
  assumes "igp_ok init a s" and "igp_valid r" and "igp_valid q" and "igp_key a q \<noteq> igp_key a r"
  shows "\<exists>t u w. run_state (e1000e_write_phy_reg_igp_locked ops r v) s = (0, t) \<and>
     run_state (e1000e_write_phy_reg_igp_locked ops q x) t = (0, u) \<and>
     run_state (e1000e_read_phy_reg_igp_locked ops r d) u = ((0, v), w) \<and>
     mem_of init w = (mem_of init s)(igp_key a r := v, igp_key a q := x)"
  using assms by (rule igp.update_twice)

theorem phy_igp_store_witness:
  "\<exists>t u w. run_state (e1000e_write_phy_reg_igp_locked sample_phy_ops 0x31 5) (sample_hw (phy_dev (\<lambda>_. 0))) = (0, t) \<and>
     run_state (e1000e_write_phy_reg_igp_locked sample_phy_ops 0x51 6) t = (0, u) \<and>
     run_state (e1000e_read_phy_reg_igp_locked sample_phy_ops 0x31 0) u = ((0, 5), w)"
proof -
  have ok: "igp_ok (\<lambda>_. 0) 1 (sample_hw (phy_dev (\<lambda>_. 0)))"
    using sample_phy_ok by (simp add: igp_ok_def sample_hw_def)
  have "igp_valid 0x31" "igp_valid 0x51" "igp_key 1 0x51 \<noteq> igp_key 1 0x31"
    by (simp_all add: igp_valid_def igp_key_def)
  from phy_igp_store [OF ok this, of sample_phy_ops 5 6 0] show ?thesis by blast
qed

subsection \<open>The lock around an access\<close>

text \<open>A frame that tolerates changes of the PHY structure is kept by the bodies of all accessors.\<close>

locale phy_frame = hw_frame R for R +
  assumes R_phy: "R s (s\<lparr>hw_phy := p\<rparr>)"
begin

lemma keeps_set_phy_addr: "keeps R (set_phy_addr a)"
  by (rule keepsI) (simp add: R_phy)

lemma keeps_mdic: "keeps R (mdic_poll n m)" "keeps R (mdic_complete offset)" "keeps R mdic_settle"
proof -
  show p: "keeps R (mdic_poll n m)" for n m
    by (induction n arbitrary: m) (auto intro!: hw_intros)
  show "keeps R (mdic_complete offset)" "keeps R mdic_settle"
    unfolding mdic_complete_def mdic_settle_def by (intro hw_intros p)+
qed

lemma keeps_mdic_access:
  "keeps R (e1000e_read_phy_reg_mdic offset d)" "keeps R (e1000e_write_phy_reg_mdic offset d)"
  unfolding e1000e_read_phy_reg_mdic_def e1000e_write_phy_reg_mdic_def
  by (intro hw_intros keeps_mdic)+

lemmas phy_intros = hw_intros keeps_set_phy_addr keeps_mdic_access

lemma keeps_page_select:
  "keeps R (e1000_set_page_igp p)" "keeps R (igp_page q)" "keeps R (bm_page q)" "keeps R (bm2_page q)"
  "keeps R (hv_page p r a)"
proof -
  show igp: "keeps R (e1000_set_page_igp p)" for p
    unfolding e1000_set_page_igp_def by (intro phy_intros)
  show "keeps R (igp_page q)" "keeps R (bm_page q)" "keeps R (bm2_page q)" "keeps R (hv_page p r a)"
    unfolding igp_page_def bm_page_def bm2_page_def hv_page_def by (intro phy_intros igp)+
qed

lemma keeps_wakeup: "keeps R (e1000_access_phy_wakeup_reg_bm offset d rd ps)"
  unfolding e1000_access_phy_wakeup_reg_bm_def e1000_enable_phy_wakeup_reg_access_bm_def
    e1000_disable_phy_wakeup_reg_access_bm_def
  by (intro phy_intros keeps_page_select)

lemma keeps_debug: "keeps R (e1000_access_phy_debug_regs_hv offset d rd)"
  unfolding e1000_access_phy_debug_regs_hv_def by (intro phy_intros)

lemma keeps_hv_workaround: "keeps R (hv_power_down_workaround r d)"
  unfolding hv_power_down_workaround_def by (intro phy_intros keeps_debug)

lemmas access_intros = phy_intros keeps_page_select keeps_wakeup keeps_debug keeps_hv_workaround

end

interpretation lkp: phy_frame "same lock_state"
  by unfold_locales (simp add: same_def lock_state_def)

definition swflag_ops :: "'p phy_operations_scheme \<Rightarrow> bool" where
  "swflag_ops ops \<longleftrightarrow> op_phy_acquire ops = Some e1000_acquire_swflag_ich8lan \<and>
     op_phy_release ops = e1000_release_swflag_ich8lan"

abbreviation "swf_bracket \<equiv> bracket e1000_acquire_swflag_ich8lan e1000_release_swflag_ich8lan"

lemma access_brackets:
  assumes "swflag_ops ops"
  shows "hv_locked ops False fail body = swf_bracket fail body"
    "phy_locked ops False skip fail body = swf_bracket fail body"
  using assms by (simp_all add: hv_locked_def phy_locked_def bracket_def swflag_ops_def phy_acquire_def
      cwhen_def cong: if_cong)

lemma m88_brackets:
  assumes "swflag_ops ops"
  shows "e1000e_read_phy_reg_m88 ops offset d = swf_bracket (\<lambda>r. (r, d))
       (e1000e_read_phy_reg_mdic (MAX_PHY_REG_ADDRESS AND offset) d)"
    "e1000e_write_phy_reg_m88 ops offset d = swf_bracket (\<lambda>r. r)
       (e1000e_write_phy_reg_mdic (MAX_PHY_REG_ADDRESS AND offset) d)"
  using assms by (simp_all add: e1000e_read_phy_reg_m88_def e1000e_write_phy_reg_m88_def bracket_def
      swflag_ops_def phy_acquire_def cong: if_cong)

definition keeps_swflag :: "'a hwM \<Rightarrow> bool" where
  "keeps_swflag m \<longleftrightarrow> (\<forall>pos s x t. bits_law (hw_os s) pos \<longrightarrow> run_state m s = (x, t) \<longrightarrow>
     swflag_held pos t = swflag_held pos s \<and> bits_law (hw_os t) pos)"

lemma keeps_swflag_bracket:
  assumes "keeps (same lock_state) body"
  shows "keeps_swflag (swf_bracket fail body)"
  unfolding keeps_swflag_def using swl.bracket_balanced [OF _ assms] by (metis swflag_ok_def)

lemma keeps_swflag_bind_phy:
  assumes "keeps_swflag m"
  shows "keeps_swflag (do { set_phy_addr a; m })"
  unfolding keeps_swflag_def
proof (intro allI impI)
  fix pos s x t
  assume "bits_law (hw_os s) pos" and "run_state (do { set_phy_addr a; m }) s = (x, t)"
  then show "swflag_held pos t = swflag_held pos s \<and> bits_law (hw_os t) pos"
    using assms [unfolded keeps_swflag_def, rule_format, of "s\<lparr>hw_phy := hw_phy s\<lparr>phy_addr := a\<rparr>\<rparr>" pos x t]
    by (simp add: swflag_held_def)
qed

lemma hv_access_swflag:
  assumes "swflag_ops ops"
  shows "keeps_swflag (e1000_read_phy_reg_hv ops offset d)" "keeps_swflag (e1000_write_phy_reg_hv ops offset d)"
  unfolding e1000_read_phy_reg_hv_def e1000_read_phy_reg_hv_raw_def e1000_write_phy_reg_hv_def
    e1000_write_phy_reg_hv_raw_def access_brackets [OF assms] Let_def
  by (intro keeps_swflag_bind_phy keeps_swflag_bracket lkp.access_intros)+

lemma bm_access_swflag:
  assumes "swflag_ops ops"
  shows "keeps_swflag (e1000e_read_phy_reg_bm ops offset d)" "keeps_swflag (e1000e_write_phy_reg_bm ops offset d)"
    "keeps_swflag (e1000e_read_phy_reg_bm2 ops offset d)" "keeps_swflag (e1000e_write_phy_reg_bm2 ops offset d)"
proof -
  have a: "phy_acquire ops = e1000_acquire_swflag_ich8lan" "op_phy_release ops = e1000_release_swflag_ich8lan"
    using assms by (simp_all add: swflag_ops_def phy_acquire_def)
  show "keeps_swflag (e1000e_read_phy_reg_bm ops offset d)" "keeps_swflag (e1000e_write_phy_reg_bm ops offset d)"
    "keeps_swflag (e1000e_read_phy_reg_bm2 ops offset d)" "keeps_swflag (e1000e_write_phy_reg_bm2 ops offset d)"
    unfolding e1000e_read_phy_reg_bm_def e1000e_write_phy_reg_bm_def e1000e_read_phy_reg_bm2_def
      e1000e_write_phy_reg_bm2_def a Let_def bracket_def [symmetric]
    by (intro keeps_swflag_bracket lkp.access_intros)+
qed

lemma igp_m88_access_swflag:
  assumes "swflag_ops ops"
  shows "keeps_swflag (e1000e_read_phy_reg_igp ops offset d)" "keeps_swflag (e1000e_write_phy_reg_igp ops offset d)"
    "keeps_swflag (e1000e_read_phy_reg_m88 ops offset d)" "keeps_swflag (e1000e_write_phy_reg_m88 ops offset d)"
  unfolding e1000e_read_phy_reg_igp_def e1000e_write_phy_reg_igp_def e1000e_read_phy_reg_igp_raw_def
    e1000e_write_phy_reg_igp_raw_def access_brackets [OF assms] m88_brackets [OF assms]
  by (intro keeps_swflag_bracket lkp.access_intros)+

text \<open>C23: Every PHY access of the driver gives back the lock it took. For each PHY family, on every path,
whatever the chip answers and whether or not the access succeeds, a read or write that goes through the
software flag leaves the driver's bit of that flag as it found it.\<close>

theorem phy_access_balanced:
  assumes "swflag_ops ops"
    and "rd \<in> {e1000e_read_phy_reg_m88 ops, e1000e_read_phy_reg_igp ops, e1000e_read_phy_reg_bm ops,
       e1000e_read_phy_reg_bm2 ops, e1000_read_phy_reg_hv ops}"
    and "wr \<in> {e1000e_write_phy_reg_m88 ops, e1000e_write_phy_reg_igp ops, e1000e_write_phy_reg_bm ops,
       e1000e_write_phy_reg_bm2 ops, e1000_write_phy_reg_hv ops}"
    and "bits_law (hw_os s) pos"
  shows "swflag_held pos (snd (run_state (rd offset d) s)) = swflag_held pos s \<and>
    swflag_held pos (snd (run_state (wr offset d) s)) = swflag_held pos s"
proof -
  have "keeps_swflag (rd offset d)" "keeps_swflag (wr offset d)"
    using assms(2,3) hv_access_swflag [OF assms(1), of offset d] bm_access_swflag [OF assms(1), of offset d]
      igp_m88_access_swflag [OF assms(1), of offset d] by auto
  then show ?thesis
    using assms(4) unfolding keeps_swflag_def by (metis surjective_pairing)
qed

theorem phy_access_balanced_witness:
  "\<not> swflag_held id (snd (run_state (e1000_read_phy_reg_hv sample_phy_ops 0x6011 0) (sample_hw keep_dev))) \<and>
   \<not> swflag_held id (snd (run_state (e1000e_write_phy_reg_bm sample_phy_ops 0x6011 0) (sample_hw keep_dev)))"
  using phy_access_balanced [where ops = sample_phy_ops and rd = "e1000_read_phy_reg_hv sample_phy_ops"
      and wr = "e1000e_write_phy_reg_bm sample_phy_ops" and s = "sample_hw keep_dev" and pos = id
      and offset = "0x6011" and d = 0]
    sample_bits_law [of keep_dev]
  by (simp add: swflag_ops_def sample_phy_ops_def swflag_held_def)

end
