(* ===== verification/FlowControl.thy ===== *)
theory FlowControl
  imports PhyInfo
begin

section \<open>Flow control and link setup (mac.c)\<close>

text \<open>
  The flow-control half of \<open>src/IntelMausiEthernet/mac.c\<close>: the mode from the NVM, the watermarks, the
  control bits, the resolution of the mode after the link is up, for copper and for SerDes, the
  generic link setup, and the setup of a copper link of \<open>phy.c\<close>, which ends in it.
\<close>

subsection \<open>Speed and duplex\<close>

definition e1000e_get_speed_and_duplex_copper :: "(s32 \<times> u16 \<times> u16) hwM" where
  "e1000e_get_speed_and_duplex_copper = do {
     status \<leftarrow> er32 E1000_STATUS;
     ret (0, if status AND E1000_STATUS_SPEED_1000 \<noteq> 0 then SPEED_1000
             else if status AND E1000_STATUS_SPEED_100 \<noteq> 0 then SPEED_100 else SPEED_10,
          if status AND E1000_STATUS_FD \<noteq> 0 then FULL_DUPLEX else HALF_DUPLEX) }"

definition e1000e_get_speed_and_duplex_fiber_serdes :: "(s32 \<times> u16 \<times> u16) hwM" where
  "e1000e_get_speed_and_duplex_fiber_serdes = ret (0, SPEED_1000, FULL_DUPLEX)"

subsection \<open>The mode and what it programs\<close>

definition e1000_set_default_fc_generic :: "'o nvm_operations_scheme \<Rightarrow> s32 hwM" where
  "e1000_set_default_fc_generic nops = do {
     r \<leftarrow> e1000_read_nvm1 nops NVM_INIT_CONTROL2_REG;
     if fst r \<noteq> 0 then ret (fst r)
     else do {
       set_fc (fc_requested_mode_update (\<lambda>_.
         if snd r AND NVM_WORD0F_PAUSE_MASK = 0 then e1000_fc_none
         else if snd r AND NVM_WORD0F_PAUSE_MASK = NVM_WORD0F_ASM_DIR then e1000_fc_tx_pause
         else e1000_fc_full));
       ret 0 } }"

definition e1000e_set_fc_watermarks :: "s32 hwM" where
  "e1000e_set_fc_watermarks = do {
     fc \<leftarrow> gets hw_fc;
     let tx = (fc_code (fc_current_mode fc) AND fc_code e1000_fc_tx_pause \<noteq> 0);
     ew32 E1000_FCRTL (if tx then (if fc_send_xon fc then fc_low_water fc OR E1000_FCRTL_XONE
       else fc_low_water fc) else 0);
     ew32 E1000_FCRTH (if tx then fc_high_water fc else 0);
     ret 0 }"

definition fc_ctrl_bits :: "e1000_fc_mode \<Rightarrow> u32 \<Rightarrow> u32 option" where
  "fc_ctrl_bits mode ctrl = (case mode of
       e1000_fc_none \<Rightarrow> Some (ctrl AND NOT (E1000_CTRL_TFCE OR E1000_CTRL_RFCE))
     | e1000_fc_rx_pause \<Rightarrow> Some ((ctrl AND NOT E1000_CTRL_TFCE) OR E1000_CTRL_RFCE)
     | e1000_fc_tx_pause \<Rightarrow> Some ((ctrl AND NOT E1000_CTRL_RFCE) OR E1000_CTRL_TFCE)
     | e1000_fc_full \<Rightarrow> Some (ctrl OR (E1000_CTRL_TFCE OR E1000_CTRL_RFCE))
     | e1000_fc_default \<Rightarrow> None)"

definition e1000e_force_mac_fc :: "s32 hwM" where
  "e1000e_force_mac_fc = do {
     ctrl \<leftarrow> er32 E1000_CTRL;
     mode \<leftarrow> gets (\<lambda>s. fc_current_mode (hw_fc s));
     case fc_ctrl_bits mode ctrl of
         None \<Rightarrow> ret (- E1000_ERR_CONFIG)
       | Some ctrl \<Rightarrow> do { ew32 E1000_CTRL ctrl; ret 0 } }"

definition fc_txcw :: "e1000_fc_mode \<Rightarrow> u32 option" where
  "fc_txcw mode = (case mode of
       e1000_fc_none \<Rightarrow> Some (E1000_TXCW_ANE OR E1000_TXCW_FD)
     | e1000_fc_rx_pause \<Rightarrow> Some (E1000_TXCW_ANE OR E1000_TXCW_FD OR E1000_TXCW_PAUSE_MASK)
     | e1000_fc_tx_pause \<Rightarrow> Some (E1000_TXCW_ANE OR E1000_TXCW_FD OR E1000_TXCW_ASM_DIR)
     | e1000_fc_full \<Rightarrow> Some (E1000_TXCW_ANE OR E1000_TXCW_FD OR E1000_TXCW_PAUSE_MASK)
     | e1000_fc_default \<Rightarrow> None)"

definition e1000_commit_fc_settings_generic :: "s32 hwM" where
  "e1000_commit_fc_settings_generic = do {
     mode \<leftarrow> gets (\<lambda>s. fc_current_mode (hw_fc s));
     case fc_txcw mode of
         None \<Rightarrow> ret (- E1000_ERR_CONFIG)
       | Some txcw \<Rightarrow> do {
           ew32 E1000_TXCW txcw;
           set_mac (mac_txcw_update (\<lambda>_. txcw));
           ret 0 } }"

subsection \<open>Resolution after link up\<close>

text \<open>
  The chain of tests both media go through, over the two pause bits this end advertised and the
  two the link partner did.
\<close>

definition fc_resolve :: "bool \<Rightarrow> bool \<Rightarrow> bool \<Rightarrow> bool \<Rightarrow> e1000_fc_mode \<Rightarrow> e1000_fc_mode" where
  "fc_resolve pause asm_dir lp_pause lp_asm requested =
     (if pause \<and> lp_pause then
        (if requested = e1000_fc_full then e1000_fc_full else e1000_fc_rx_pause)
      else if \<not> pause \<and> asm_dir \<and> lp_pause \<and> lp_asm then e1000_fc_tx_pause
      else if pause \<and> asm_dir \<and> \<not> lp_pause \<and> lp_asm then e1000_fc_rx_pause
      else e1000_fc_none)"

definition fc_resolved :: "bool \<Rightarrow> bool \<Rightarrow> bool \<Rightarrow> bool \<Rightarrow> unit hwM" where
  "fc_resolved pause asm_dir lp_pause lp_asm =
     set_fc (\<lambda>fc. fc\<lparr>fc_current_mode := fc_resolve pause asm_dir lp_pause lp_asm (fc_requested_mode fc)\<rparr>)"

definition config_fc_forced :: "s32 hwM" where
  "config_fc_forced = do {
     s \<leftarrow> gets id;
     let media = phy_media_type (hw_phy s);
     if mac_autoneg_failed (hw_mac s)
     then (if media = e1000_media_type_fiber \<or> media = e1000_media_type_internal_serdes
       then e1000e_force_mac_fc else ret 0)
     else (if media = e1000_media_type_copper then e1000e_force_mac_fc else ret 0) }"

text \<open>The copper block; \<open>k\<close> is the rest of the function, which the early return skips.\<close>

definition config_fc_copper ::
  "'m mac_operations_scheme \<Rightarrow> 'p phy_operations_scheme \<Rightarrow> s32 hwM \<Rightarrow> s32 hwM" where
  "config_fc_copper mops ops k =
     with_phy ops MII_BMSR (\<lambda>_.
     with_phy ops MII_BMSR (\<lambda>mii_status.
     if mii_status AND BMSR_ANEGCOMPLETE = 0 then ret 0
     else
     with_phy ops MII_ADVERTISE (\<lambda>adv.
     with_phy ops MII_LPA (\<lambda>lp. do {
       fc_resolved (adv AND ADVERTISE_PAUSE_CAP \<noteq> 0) (adv AND ADVERTISE_PAUSE_ASYM \<noteq> 0)
         (lp AND LPA_PAUSE_CAP \<noteq> 0) (lp AND LPA_PAUSE_ASYM \<noteq> 0);
       r \<leftarrow> op_get_link_up_info mops;
       if fst r \<noteq> 0 then ret (fst r)
       else do {
         cwhen (snd (snd r) = HALF_DUPLEX) (set_fc (fc_current_mode_update (\<lambda>_. e1000_fc_none)));
         ok_then e1000e_force_mac_fc k } }))))"

definition config_fc_serdes :: "s32 hwM" where
  "config_fc_serdes = do {
     pcs_status_reg \<leftarrow> er32 E1000_PCS_LSTAT;
     if pcs_status_reg AND E1000_PCS_LSTS_AN_COMPLETE = 0 then ret 0
     else do {
       adv \<leftarrow> er32 E1000_PCS_ANADV;
       lp \<leftarrow> er32 E1000_PCS_LPAB;
       fc_resolved (adv AND E1000_TXCW_PAUSE \<noteq> 0) (adv AND E1000_TXCW_ASM_DIR \<noteq> 0)
         (lp AND E1000_TXCW_PAUSE \<noteq> 0) (lp AND E1000_TXCW_ASM_DIR \<noteq> 0);
       pcs_ctrl_reg \<leftarrow> er32 E1000_PCS_LCTL;
       ew32 E1000_PCS_LCTL (pcs_ctrl_reg OR E1000_PCS_LCTL_FORCE_FCTRL);
       ok_then e1000e_force_mac_fc (ret 0) } }"

definition config_fc_serdes_guard :: "s32 hwM" where
  "config_fc_serdes_guard = do {
     s \<leftarrow> gets id;
     if phy_media_type (hw_phy s) = e1000_media_type_internal_serdes \<and> mac_autoneg (hw_mac s)
     then config_fc_serdes else ret 0 }"

definition e1000e_config_fc_after_link_up ::
  "'m mac_operations_scheme \<Rightarrow> 'p phy_operations_scheme \<Rightarrow> s32 hwM" where
  "e1000e_config_fc_after_link_up mops ops =
     ok_then config_fc_forced (do {
       s \<leftarrow> gets id;
       if phy_media_type (hw_phy s) = e1000_media_type_copper \<and> mac_autoneg (hw_mac s)
       then config_fc_copper mops ops config_fc_serdes_guard
       else config_fc_serdes_guard })"

subsection \<open>Setting up a link\<close>

definition e1000e_setup_link_generic ::
  "'m mac_operations_scheme \<Rightarrow> 'p phy_link_operations_scheme \<Rightarrow> 'o nvm_operations_scheme \<Rightarrow> s32 hwM" where
  "e1000e_setup_link_generic mops ops nops = do {
     blocked \<leftarrow> (case op_phy_check_reset_block ops of None \<Rightarrow> ret 0 | Some f \<Rightarrow> f);
     if blocked \<noteq> 0 then ret 0
     else do {
       requested \<leftarrow> gets (\<lambda>s. fc_requested_mode (hw_fc s));
       ok_then (if requested = e1000_fc_default then e1000_set_default_fc_generic nops else ret 0) (do {
         set_fc (\<lambda>fc. fc\<lparr>fc_current_mode := fc_requested_mode fc\<rparr>);
         ok_then (op_setup_physical_interface mops) (do {
           ew32 E1000_FCT FLOW_CONTROL_TYPE;
           ew32 E1000_FCAH FLOW_CONTROL_ADDRESS_HIGH;
           ew32 E1000_FCAL FLOW_CONTROL_ADDRESS_LOW;
           pause \<leftarrow> gets (\<lambda>s. fc_pause_time (hw_fc s));
           ew32 E1000_FCTTV (ucast pause);
           e1000e_set_fc_watermarks }) }) } }"

definition e1000e_setup_copper_link ::
  "'m mac_operations_scheme \<Rightarrow> 'p phy_link_operations_scheme \<Rightarrow> s32 hwM" where
  "e1000e_setup_copper_link mops ops = do {
     autoneg \<leftarrow> gets (\<lambda>s. mac_autoneg (hw_mac s));
     ok_then (if autoneg then e1000_copper_link_autoneg ops else op_phy_force_speed_duplex ops) (do {
       r \<leftarrow> e1000e_phy_has_link_generic ops COPPER_LINK_UP_LIMIT 10;
       if fst r \<noteq> 0 then ret (fst r)
       else if snd r then do {
         op_config_collision_dist mops;
         e1000e_config_fc_after_link_up mops ops }
       else ret 0 }) }"

definition e1000e_config_collision_dist_generic :: "unit hwM" where
  "e1000e_config_collision_dist_generic = do {
     tctl \<leftarrow> er32 E1000_TCTL;
     let tctl = (tctl AND NOT E1000_TCTL_COLD) OR push_bit E1000_COLD_SHIFT E1000_COLLISION_DISTANCE;
     ew32 E1000_TCTL tctl;
     e1e_flush }"

text \<open>The poll for a fiber or SerDes link: \<open>True\<close> when the link came up within the limit.\<close>

primrec poll_fiber_loop :: "nat \<Rightarrow> bool hwM" where
  "poll_fiber_loop 0 = ret False"
| "poll_fiber_loop (Suc n) = do {
     usleep_range 10000 20000;
     status \<leftarrow> er32 E1000_STATUS;
     if status AND E1000_STATUS_LU \<noteq> 0 then ret True else poll_fiber_loop n }"

definition e1000_poll_fiber_serdes_link_generic :: "'m mac_operations_scheme \<Rightarrow> s32 hwM" where
  "e1000_poll_fiber_serdes_link_generic mops = do {
     up \<leftarrow> poll_fiber_loop FIBER_LINK_UP_LIMIT;
     if \<not> up then do {
       set_mac (mac_autoneg_failed_update (\<lambda>_. True));
       ok_then (op_check_for_link mops) (do {
         set_mac (mac_autoneg_failed_update (\<lambda>_. False));
         ret 0 }) }
     else do {
       set_mac (mac_autoneg_failed_update (\<lambda>_. False));
       ret 0 } }"

definition e1000e_setup_fiber_serdes_link :: "'m mac_operations_scheme \<Rightarrow> s32 hwM" where
  "e1000e_setup_fiber_serdes_link mops = do {
     ctrl \<leftarrow> er32 E1000_CTRL;
     let ctrl = ctrl AND NOT E1000_CTRL_LRST;
     op_config_collision_dist mops;
     ok_then e1000_commit_fc_settings_generic (do {
       ew32 E1000_CTRL ctrl;
       e1e_flush;
       usleep_range 1000 2000;
       media \<leftarrow> gets (\<lambda>s. phy_media_type (hw_phy s));
       signal \<leftarrow> (if media = e1000_media_type_internal_serdes then ret True
         else do { ctrl \<leftarrow> er32 E1000_CTRL; ret (ctrl AND E1000_CTRL_SWDPIN1 \<noteq> 0) });
       if signal then e1000_poll_fiber_serdes_link_generic mops else ret 0 }) }"

end
