(* ===== verification/FlowProps.thy ===== *)
theory FlowProps
  imports PhyProps FlowControl
begin

section \<open>Correctness of flow control\<close>

text \<open>
  What the resolved mode programs into the MAC; the resolution on copper end to end, over PHY operations
  that read fixed registers; the chain of tests against the standard's table; and two ends that run this
  driver against each other.
\<close>

subsection \<open>What a mode means\<close>

definition sends_pause :: "e1000_fc_mode \<Rightarrow> bool" where
  "sends_pause mode = (mode = e1000_fc_tx_pause \<or> mode = e1000_fc_full)"

definition honours_pause :: "e1000_fc_mode \<Rightarrow> bool" where
  "honours_pause mode = (mode = e1000_fc_rx_pause \<or> mode = e1000_fc_full)"

lemma fc_masks:
  "(E1000_CTRL_TFCE :: u32) = 2 ^ 28" "(E1000_CTRL_RFCE :: u32) = 2 ^ 27"
  "E1000_CTRL_TFCE OR E1000_CTRL_RFCE = (2 ^ 28 OR 2 ^ 27 :: u32)"
  by simp_all

lemma fc_ctrl_bits_correct:
  assumes "mode \<noteq> e1000_fc_default"
  obtains w where "fc_ctrl_bits mode ctrl = Some w"
    "(w AND E1000_CTRL_TFCE \<noteq> 0) = sends_pause mode" "(w AND E1000_CTRL_RFCE \<noteq> 0) = honours_pause mode"
    "w AND NOT (E1000_CTRL_TFCE OR E1000_CTRL_RFCE) = ctrl AND NOT (E1000_CTRL_TFCE OR E1000_CTRL_RFCE)"
proof -
  note b = bit_and_iff bit_or_iff bit_not_iff bit_exp_iff and_exp_eq_0_iff_not_bit
  obtain w where w: "fc_ctrl_bits mode ctrl = Some w" using assms by (cases mode) (simp_all add: fc_ctrl_bits_def)
  have "(w AND E1000_CTRL_TFCE \<noteq> 0) = sends_pause mode" "(w AND E1000_CTRL_RFCE \<noteq> 0) = honours_pause mode"
    using w unfolding fc_masks fc_ctrl_bits_def
    by (cases mode; simp only: e1000_fc_mode.case option.inject sends_pause_def honours_pause_def; hypsubst;
      simp only: b; simp)+
  moreover have "w AND NOT (E1000_CTRL_TFCE OR E1000_CTRL_RFCE) = ctrl AND NOT (E1000_CTRL_TFCE OR E1000_CTRL_RFCE)"
    using w unfolding fc_masks fc_ctrl_bits_def
    by (cases mode; simp only: e1000_fc_mode.case option.inject; hypsubst)
      (rule bit_word_eqI; simp only: b; blast)+
  ultimately show ?thesis using w that by blast
qed

abbreviation "ctrl_reg \<equiv> Csr E1000_CTRL"
abbreviation "status_reg \<equiv> Csr E1000_STATUS"

lemma force_mac_fc_run:
  assumes "fc_current_mode (hw_fc s) \<noteq> e1000_fc_default"
  obtains es w where "run_state e1000e_force_mac_fc s = (0, after s es)"
    "fc_ctrl_bits (fc_current_mode (hw_fc s)) (hw_dev s (hw_log s) ctrl_reg) = Some w"
    "values_read ctrl_reg es = [hw_dev s (hw_log s) ctrl_reg]" "written ctrl_reg es = [w]"
    "values_read status_reg es = []"
proof -
  let ?c = "hw_dev s (hw_log s) ctrl_reg"
  obtain w where w: "fc_ctrl_bits (fc_current_mode (hw_fc s)) ?c = Some w"
    using fc_ctrl_bits_correct [OF assms] by metis
  obtain as where a: "run_state (ew32 E1000_CTRL w) (after s [Rd ctrl_reg ?c])
      = ((), after (after s [Rd ctrl_reg ?c]) (as @ [Wr ctrl_reg w]))" "list_all arb_event as"
    by (rule run_ew32_arb)
  show ?thesis
    by (rule that [of "Rd ctrl_reg ?c # as @ [Wr ctrl_reg w]" w])
      (use w a in \<open>simp_all add: e1000e_force_mac_fc_def arb_quiet\<close>)
qed

text \<open>
  PHY operations that read: each register has a value, and reading it does not touch the two
  MAC registers the resolution works with.
\<close>

definition phy_reads :: "'p phy_operations_scheme \<Rightarrow> (u32 \<Rightarrow> u16) \<Rightarrow> bool" where
  "phy_reads ops vals \<longleftrightarrow> (\<forall>r d s. \<exists>es. run_state (e1e_rphy ops r d) s = ((0, vals r), after s es) \<and>
     values_read status_reg es = [] \<and> values_read ctrl_reg es = [] \<and> written ctrl_reg es = [])"

definition fc_quiet :: "event list \<Rightarrow> bool" where
  "fc_quiet es \<longleftrightarrow> values_read status_reg es = [] \<and> values_read ctrl_reg es = [] \<and> written ctrl_reg es = []"

text \<open>One computation is another one after some events that the two registers do not see.\<close>

definition fc_skip :: "'a hwM \<Rightarrow> 'a hwM \<Rightarrow> bool" where
  "fc_skip m m' \<longleftrightarrow> (\<forall>s. \<exists>es. fc_quiet es \<and> run_state m s = run_state m' (after s es))"

lemma fc_skip_trans [trans]: "fc_skip a b \<Longrightarrow> fc_skip b c \<Longrightarrow> fc_skip a c"
  unfolding fc_skip_def
proof
  fix s
  assume ab: "\<forall>s. \<exists>es. fc_quiet es \<and> run_state a s = run_state b (after s es)"
    and bc: "\<forall>s. \<exists>es. fc_quiet es \<and> run_state b s = run_state c (after s es)"
  obtain es where "fc_quiet es" "run_state a s = run_state b (after s es)" using ab by blast
  moreover obtain fs where "fc_quiet fs" "run_state b (after s es) = run_state c (after (after s es) fs)"
    using bc by blast
  ultimately show "\<exists>es. fc_quiet es \<and> run_state a s = run_state c (after s es)"
    by (intro exI [of _ "es @ fs"]) (auto simp: fc_quiet_def)
qed

lemma fc_skip_phy: "phy_reads ops vals \<Longrightarrow> fc_skip (with_phy ops r k) (k (vals r))"
  unfolding fc_skip_def
proof
  fix s
  assume "phy_reads ops vals"
  then obtain es where "run_state (e1e_rphy ops r 0) s = ((0, vals r), after s es)" "fc_quiet es"
    unfolding phy_reads_def fc_quiet_def by metis
  then show "\<exists>es. fc_quiet es \<and> run_state (with_phy ops r k) s = run_state (k (vals r)) (after s es)"
    by (intro exI [of _ es]) (simp add: with_phy_def)
qed

lemma run_set_fc [simp]: "run_state (set_fc f) s = ((), s\<lparr>hw_fc := f (hw_fc s)\<rparr>)"
  by (cases s) (simp add: set_fc_def)

definition resolved_mode :: "(u32 \<Rightarrow> u16) \<Rightarrow> e1000_fc_mode \<Rightarrow> u32 \<Rightarrow> e1000_fc_mode" where
  "resolved_mode vals requested status =
     (if status AND E1000_STATUS_FD = 0 then e1000_fc_none
      else fc_resolve (vals MII_ADVERTISE AND ADVERTISE_PAUSE_CAP \<noteq> 0)
        (vals MII_ADVERTISE AND ADVERTISE_PAUSE_ASYM \<noteq> 0)
        (vals MII_LPA AND LPA_PAUSE_CAP \<noteq> 0) (vals MII_LPA AND LPA_PAUSE_ASYM \<noteq> 0) requested)"

lemma fc_resolve_not_default: "fc_resolve a b c d m \<noteq> e1000_fc_default"
  by (simp add: fc_resolve_def)

lemma resolved_not_default: "resolved_mode vals m st \<noteq> e1000_fc_default"
  by (simp add: resolved_mode_def fc_resolve_not_default)

lemma config_fc_copper_run:
  assumes ops: "phy_reads ops vals" and mops: "op_get_link_up_info mops = e1000e_get_speed_and_duplex_copper"
    and an: "vals MII_BMSR AND BMSR_ANEGCOMPLETE \<noteq> 0"
  obtains es status w ctrl where
    "run_state (config_fc_copper mops ops k) s =
       run_state k (after (s\<lparr>hw_fc := (hw_fc s)\<lparr>fc_current_mode := resolved_mode vals (fc_requested_mode (hw_fc s)) status\<rparr>\<rparr>) es)"
    "values_read status_reg es = [status]" "values_read ctrl_reg es = [ctrl]" "written ctrl_reg es = [w]"
    "fc_ctrl_bits (resolved_mode vals (fc_requested_mode (hw_fc s)) status) ctrl = Some w"
proof -
  let ?req = "fc_requested_mode (hw_fc s)"
  let ?k1 = "\<lambda>lp. do {
       fc_resolved (vals MII_ADVERTISE AND ADVERTISE_PAUSE_CAP \<noteq> 0) (vals MII_ADVERTISE AND ADVERTISE_PAUSE_ASYM \<noteq> 0)
         (lp AND LPA_PAUSE_CAP \<noteq> 0) (lp AND LPA_PAUSE_ASYM \<noteq> 0);
       r \<leftarrow> op_get_link_up_info mops;
       if fst r \<noteq> 0 then ret (fst r)
       else do {
         cwhen (snd (snd r) = HALF_DUPLEX) (set_fc (fc_current_mode_update (\<lambda>_. e1000_fc_none)));
         ok_then e1000e_force_mac_fc k } }"
  have "fc_skip (config_fc_copper mops ops k) (?k1 (vals MII_LPA))"
    unfolding config_fc_copper_def
    by (rule fc_skip_trans [OF fc_skip_phy [OF ops]], rule fc_skip_trans [OF fc_skip_phy [OF ops]],
      simp only: an if_False, rule fc_skip_trans [OF fc_skip_phy [OF ops]], rule fc_skip_phy [OF ops])
  then obtain es where es: "fc_quiet es"
    "run_state (config_fc_copper mops ops k) s = run_state (?k1 (vals MII_LPA)) (after s es)"
    unfolding fc_skip_def by blast
  let ?st = "hw_dev s (rev es @ hw_log s) status_reg"
  let ?mode = "resolved_mode vals ?req ?st"
  let ?u = "after (s\<lparr>hw_fc := (hw_fc s)\<lparr>fc_current_mode := ?mode\<rparr>\<rparr>) (es @ [Rd status_reg ?st])"
  have "run_state (?k1 (vals MII_LPA)) (after s es) = run_state (ok_then e1000e_force_mac_fc k) ?u"
    by (cases s) (simp add: fc_resolved_def mops e1000e_get_speed_and_duplex_copper_def resolved_mode_def after_def)
  moreover obtain fs w where f: "run_state e1000e_force_mac_fc ?u = (0, after ?u fs)"
    "fc_ctrl_bits (fc_current_mode (hw_fc ?u)) (hw_dev ?u (hw_log ?u) ctrl_reg) = Some w"
    "values_read ctrl_reg fs = [hw_dev ?u (hw_log ?u) ctrl_reg]" "written ctrl_reg fs = [w]"
    "values_read status_reg fs = []"
    by (rule force_mac_fc_run [of ?u]) (simp_all add: resolved_not_default)
  ultimately show ?thesis
    using es by (intro that [of ?st "es @ [Rd status_reg ?st] @ fs"]) (simp_all add: fc_quiet_def ok_then_def)
qed


definition sample_read_ops :: "(u32 \<Rightarrow> u16) \<Rightarrow> phy_operations" where
  "sample_read_ops vals = sample_phy_ops\<lparr>op_phy_read_reg := Some (\<lambda>r d. ret (0, vals r))\<rparr>"

lemma sample_read_ops: "phy_reads (sample_read_ops vals) vals"
  unfolding phy_reads_def by (intro allI exI [of _ "[]"]) (simp add: e1e_rphy_def sample_read_ops_def)

definition sample_mops :: mac_operations where
  "sample_mops = \<lparr>op_config_collision_dist = ret (), op_get_link_up_info = e1000e_get_speed_and_duplex_copper,
     op_rar_set = e1000_rar_set_pch_lpt, op_check_mng_mode = ret False, op_check_for_link = ret 0,
     op_setup_physical_interface = ret 0\<rparr>"


subsection \<open>The table of IEEE 802.3\<close>

text \<open>
  Pause resolution as the standard tabulates it (Annex 28B): the four bits are local PAUSE and ASM_DIR, then
  those of the link partner, \<open>None\<close> where the table has a dash; the result is whether this end may send
  pause frames and whether it must honour them.
\<close>

definition pause_table :: "((bool option \<times> bool option \<times> bool option \<times> bool option) \<times> bool \<times> bool) list" where
  "pause_table =
    [((Some False, Some False, None, None), False, False),
     ((Some False, Some True, Some False, None), False, False),
     ((Some False, Some True, Some True, Some False), False, False),
     ((Some False, Some True, Some True, Some True), True, False),
     ((Some True, Some False, Some False, None), False, False),
     ((Some True, Some False, Some True, None), True, True),
     ((Some True, Some True, Some False, Some False), False, False),
     ((Some True, Some True, Some False, Some True), False, True),
     ((Some True, Some True, Some True, None), True, True)]"

definition row_matches :: "(bool option \<times> bool option \<times> bool option \<times> bool option) \<Rightarrow> bool \<Rightarrow> bool \<Rightarrow> bool \<Rightarrow> bool \<Rightarrow> bool" where
  "row_matches row p a lp la = (case row of (w, x, y, z) \<Rightarrow>
     w \<in> {None, Some p} \<and> x \<in> {None, Some a} \<and> y \<in> {None, Some lp} \<and> z \<in> {None, Some la})"

definition pause_resolution :: "bool \<Rightarrow> bool \<Rightarrow> bool \<Rightarrow> bool \<Rightarrow> (bool \<times> bool) list" where
  "pause_resolution p a lp la = [res. (row, res) \<leftarrow> pause_table, row_matches row p a lp la]"

text \<open>The chain of tests is the table of the standard. For all sixteen combinations of bits exactly one row of
the table matches; when both directions were requested the driver's mode sends and honours
pause frames exactly as that row says; and with less requested it never sends where the row forbids it and
honours exactly what the row says.\<close>

theorem fc_resolve_ieee:
  "\<exists>tx rx. pause_resolution p a lp la = [(tx, rx)] \<and>
     (let mode = fc_resolve p a lp la requested in
       honours_pause mode = rx \<and> (sends_pause mode \<longrightarrow> tx) \<and>
       (requested = e1000_fc_full \<longrightarrow> sends_pause mode = tx))"
  by (cases p; cases a; cases lp; cases la)
    (auto simp: pause_resolution_def pause_table_def row_matches_def fc_resolve_def sends_pause_def
      honours_pause_def)

theorem fc_resolve_ieee_witness:
  "\<exists>tx rx. pause_resolution True True False True = [(tx, rx)] \<and>
     honours_pause (fc_resolve True True False True e1000_fc_full) = rx \<and> sends_pause (fc_resolve True True False True e1000_fc_full) = tx"
  using fc_resolve_ieee [of True True False True e1000_fc_full] by (auto simp: Let_def)

subsection \<open>Two drivers on one link\<close>

abbreviation "pause_bit r \<equiv> r AND ADVERTISE_PAUSE_CAP \<noteq> (0::u16)"
abbreviation "asym_bit r \<equiv> r AND ADVERTISE_PAUSE_ASYM \<noteq> (0::u16)"

lemma adv_masks:
  "(ADVERTISE_PAUSE_CAP :: u16) = 2 ^ 10" "(ADVERTISE_PAUSE_ASYM :: u16) = 2 ^ 11"
  "ADVERTISE_PAUSE_ASYM OR ADVERTISE_PAUSE_CAP = (2 ^ 11 OR 2 ^ 10 :: u16)"
  by simp_all

text \<open>What a mode puts into the advertisement.\<close>

lemma autoneg_pause_bits_correct:
  assumes "autoneg_pause_bits mode reg = Some adv"
  shows "pause_bit adv = honours_pause mode" "asym_bit adv = (mode \<noteq> e1000_fc_none)"
    "adv AND NOT (ADVERTISE_PAUSE_ASYM OR ADVERTISE_PAUSE_CAP) = reg AND NOT (ADVERTISE_PAUSE_ASYM OR ADVERTISE_PAUSE_CAP)"
proof -
  note b = bit_and_iff bit_or_iff bit_not_iff bit_exp_iff and_exp_eq_0_iff_not_bit
  show "pause_bit adv = honours_pause mode" "asym_bit adv = (mode \<noteq> e1000_fc_none)"
    using assms unfolding adv_masks autoneg_pause_bits_def
    by (cases mode; simp only: e1000_fc_mode.case option.inject honours_pause_def; hypsubst?;
      simp only: b; simp)+
  show "adv AND NOT (ADVERTISE_PAUSE_ASYM OR ADVERTISE_PAUSE_CAP) = reg AND NOT (ADVERTISE_PAUSE_ASYM OR ADVERTISE_PAUSE_CAP)"
    using assms unfolding adv_masks autoneg_pause_bits_def
    by (cases mode; simp only: e1000_fc_mode.case option.inject option.distinct; hypsubst?)
      (rule bit_word_eqI; simp only: b; blast)+
qed

text \<open>C25: Two ends that run this driver never disagree. Whatever mode each has requested, when each advertises the
bits of its mode and resolves with the bits it advertised and the bits the other one did, an end that
sends pause frames faces an end that honours them, and no end sends or honours what it did not request.\<close>

theorem fc_negotiation_consistent:
  assumes "autoneg_pause_bits req rega = Some adva" and "autoneg_pause_bits req' regb = Some advb"
  defines "mode \<equiv> fc_resolve (pause_bit adva) (asym_bit adva) (pause_bit advb) (asym_bit advb) req"
    and "mode' \<equiv> fc_resolve (pause_bit advb) (asym_bit advb) (pause_bit adva) (asym_bit adva) req'"
  shows "(sends_pause mode \<longrightarrow> honours_pause mode') \<and> (sends_pause mode' \<longrightarrow> honours_pause mode) \<and>
    (sends_pause mode \<longrightarrow> sends_pause req) \<and> (honours_pause mode \<longrightarrow> honours_pause req)"
  using assms(1,2) unfolding mode_def mode'_def autoneg_pause_bits_correct [OF assms(1)]
    autoneg_pause_bits_correct [OF assms(2)]
  by (cases req; cases req') (simp_all add: autoneg_pause_bits_def fc_resolve_def sends_pause_def honours_pause_def)

theorem fc_negotiation_consistent_witness:
  "autoneg_pause_bits e1000_fc_tx_pause 0 = Some 0x800 \<and> autoneg_pause_bits e1000_fc_full 0 = Some 0xC00 \<and>
   sends_pause (fc_resolve False True True True e1000_fc_tx_pause) \<and>
   honours_pause (fc_resolve True True False True e1000_fc_full)"
proof -
  have a: "autoneg_pause_bits e1000_fc_tx_pause 0 = Some 0x800" "autoneg_pause_bits e1000_fc_full 0 = Some 0xC00"
    by (simp_all add: autoneg_pause_bits_def)
  have "sends_pause (fc_resolve False True True True e1000_fc_tx_pause)"
    by (simp add: fc_resolve_def sends_pause_def)
  then show ?thesis using a fc_negotiation_consistent [OF a] by simp
qed
end
