(* ===== verification/Mac.thy ===== *)
theory Mac
  imports FlowControl
begin

section \<open>The MAC layer (mac.c)\<close>

text \<open>
  The rest of \<open>src/IntelMausiEthernet/mac.c\<close>: receive addresses and the alternate address of the NVM,
  the multicast hash and table, the VLAN table, the statistics registers, the link checks of the
  three media, the hardware semaphore, the LEDs, PCIe master access and adaptive inter-frame
  spacing. The PCH's LED configuration of \<open>ich8lan.c\<close> shares the LED rules and is here too.
\<close>

subsection \<open>LAN id and VLAN table\<close>

definition e1000_set_lan_id_multi_port_pcie :: "unit hwM" where
  "e1000_set_lan_id_multi_port_pcie = do {
     reg \<leftarrow> er32 E1000_STATUS;
     modify (hw_bus_func_update (\<lambda>_.
       ucast (drop_bit E1000_STATUS_FUNC_SHIFT (reg AND E1000_STATUS_FUNC_MASK)))) }"

definition e1000_set_lan_id_single_port :: "unit hwM" where
  "e1000_set_lan_id_single_port = modify (hw_bus_func_update (\<lambda>_. 0))"

definition e1000_write_vfta_generic :: "u32 \<Rightarrow> u32 \<Rightarrow> unit hwM" where
  "e1000_write_vfta_generic offset v = do {
     write_reg_array E1000_VFTA offset v;
     e1e_flush }"

definition e1000_clear_vfta_generic :: "unit hwM" where
  "e1000_clear_vfta_generic = for_each [0..<E1000_VLAN_FILTER_TBL_SIZE] (\<lambda>offset. do {
     write_reg_array E1000_VFTA (word_of_nat offset) 0;
     e1e_flush })"

subsection \<open>Receive addresses\<close>

definition e1000e_init_rx_addrs :: "'m mac_operations_scheme \<Rightarrow> u16 \<Rightarrow> unit hwM" where
  "e1000e_init_rx_addrs mops rar_count = do {
     addr \<leftarrow> gets (\<lambda>s. mac_addr (hw_mac s));
     op_rar_set mops addr 0;
     for_each [1..<unat rar_count] (\<lambda>i. do {
       op_rar_set mops (replicate 6 0) (word_of_nat i);
       ret () }) }"

definition is_multicast_ether_addr :: "u8 list \<Rightarrow> bool" where
  "is_multicast_ether_addr addr = (0x01 AND addr ! 0 \<noteq> 0)"

text \<open>The three words of the alternate address; \<open>Inl\<close> is the early return of a failed read.\<close>

primrec alt_mac_loop :: "nat list \<Rightarrow> 'o nvm_operations_scheme \<Rightarrow> u16 \<Rightarrow> (s32 + u8 list) hwM" where
  "alt_mac_loop [] nops base = ret (Inr [])"
| "alt_mac_loop (i # is) nops base = do {
     r \<leftarrow> e1000_read_nvm1 nops (base + word_of_nat (i div 2));
     if fst r \<noteq> 0 then ret (Inl (fst r))
     else do {
       rest \<leftarrow> alt_mac_loop is nops base;
       ret (case rest of Inl e \<Rightarrow> Inl e | Inr bs \<Rightarrow> Inr (byte_of (snd r) 0 # byte_of (snd r) 1 # bs)) } }"

definition e1000_check_alt_mac_addr_generic ::
  "'m mac_operations_scheme \<Rightarrow> 'o nvm_operations_scheme \<Rightarrow> s32 hwM" where
  "e1000_check_alt_mac_addr_generic mops nops = do {
     r \<leftarrow> e1000_read_nvm1 nops NVM_COMPAT;
     if fst r \<noteq> 0 then ret (fst r)
     else do {
     ty \<leftarrow> gets (\<lambda>s. mac_type (hw_mac s));
     if ty = e1000_82573 then ret 0
     else do {
     r \<leftarrow> e1000_read_nvm1 nops NVM_ALT_MAC_ADDR_PTR;
     if fst r \<noteq> 0 then ret (fst r)
     else if snd r = 0xFFFF \<or> snd r = 0x0000 then ret 0
     else do {
     func \<leftarrow> gets hw_bus_func;
     a \<leftarrow> alt_mac_loop [0, 2, 4] nops
       (if func = E1000_FUNC_1 then snd r + E1000_ALT_MAC_ADDRESS_OFFSET_LAN1 else snd r);
     case a of
         Inl e \<Rightarrow> ret e
       | Inr alt_mac_addr \<Rightarrow>
           if is_multicast_ether_addr alt_mac_addr then ret 0
           else do { op_rar_set mops alt_mac_addr 0; ret 0 } } } } }"

definition e1000e_rar_get_count_generic :: "u32 hwM" where
  "e1000e_rar_get_count_generic = gets (\<lambda>s. ucast (mac_rar_entry_count (hw_mac s)))"

definition e1000e_rar_set_generic :: "u8 list \<Rightarrow> u32 \<Rightarrow> s32 hwM" where
  "e1000e_rar_set_generic addr index = do {
     rar_write_pair (E1000_RAL index) (E1000_RAH index) addr;
     ret 0 }"

subsection \<open>The multicast table\<close>

text \<open>
  \<open>while (hash_mask >> bit_shift != 0xFF) bit_shift++;\<close> returns only when some shift of the mask
  is \<open>0xFF\<close>; \<open>None\<close> is not returning. The counter is a byte.
\<close>

partial_function (option) hash_shift :: "u32 \<Rightarrow> u8 \<Rightarrow> u8 option" where
  "hash_shift hash_mask bit_shift =
     (if drop_bit (unat bit_shift) hash_mask = 0xFF then Some bit_shift
      else hash_shift hash_mask (bit_shift + 1))"

declare hash_shift.simps [code]

definition mc_hash_mask :: "e1000_mac_info \<Rightarrow> u32" where
  "mc_hash_mask mac = ucast (mac_mta_reg_count mac) * 32 - 1"

definition mc_filter_shift :: "u32 \<Rightarrow> u8" where
  "mc_filter_shift ty = (if ty = 1 then 1 else if ty = 2 then 2 else if ty = 3 then 4 else 0)"

definition e1000_hash_mc_addr :: "e1000_mac_info \<Rightarrow> u8 list \<Rightarrow> u32 option" where
  "e1000_hash_mc_addr mac mc_addr = (case hash_shift (mc_hash_mask mac) 0 of
       None \<Rightarrow> None
     | Some bit_shift \<Rightarrow>
         let bit_shift = unat (bit_shift + mc_filter_shift (mac_mc_filter_type mac))
         in Some (mc_hash_mask mac AND (drop_bit (8 - bit_shift) (ucast (mc_addr ! 4))
              OR push_bit bit_shift (ucast (mc_addr ! 5)))))"

text \<open>The shadow of the table with the bits of the list set; \<open>None\<close> when a hash does not return.\<close>

primrec mta_add :: "e1000_mac_info \<Rightarrow> u8 list list \<Rightarrow> u32 list \<Rightarrow> u32 list option" where
  "mta_add mac [] mta = Some mta"
| "mta_add mac (addr # addrs) mta = (case e1000_hash_mc_addr mac addr of
       None \<Rightarrow> None
     | Some hash_value \<Rightarrow>
         let hash_reg = unat (drop_bit 5 hash_value AND (ucast (mac_mta_reg_count mac) - 1));
             hash_bit = unat (hash_value AND 0x1F)
         in mta_add mac addrs (mta[hash_reg := mta ! hash_reg OR push_bit hash_bit 1]))"

text \<open>
  The list is packed in the source; here it is the list of its addresses. The result is
  \<open>None\<close> when the function does not return.
\<close>

definition e1000e_update_mc_addr_list_generic :: "u8 list list \<Rightarrow> unit option hwM" where
  "e1000e_update_mc_addr_list_generic mc_addr_list = do {
     set_mac (mac_mta_shadow_update (\<lambda>mta. replicate (length mta) 0));
     mac \<leftarrow> gets hw_mac;
     case mta_add mac mc_addr_list (mac_mta_shadow mac) of
         None \<Rightarrow> ret None
       | Some mta \<Rightarrow> do {
           set_mac (mac_mta_shadow_update (\<lambda>_. mta));
           for_each (rev [0..<unat (mac_mta_reg_count mac)]) (\<lambda>i.
             write_reg_array E1000_MTA (word_of_nat i) (mta ! i));
           e1e_flush;
           ret (Some ()) } }"

subsection \<open>Statistics\<close>

definition cntrs_base :: "u32 list" where
  "cntrs_base = [E1000_CRCERRS, E1000_SYMERRS, E1000_MPC, E1000_SCC, E1000_ECOL, E1000_MCC,
     E1000_LATECOL, E1000_COLC, E1000_DC, E1000_SEC, E1000_RLEC, E1000_XONRXC, E1000_XONTXC,
     E1000_XOFFRXC, E1000_XOFFTXC, E1000_FCRUC, E1000_GPRC, E1000_BPRC, E1000_MPRC, E1000_GPTC,
     E1000_GORCL, E1000_GORCH, E1000_GOTCL, E1000_GOTCH, E1000_RNBC, E1000_RUC, E1000_RFC,
     E1000_ROC, E1000_RJC, E1000_TORL, E1000_TORH, E1000_TOTL, E1000_TOTH, E1000_TPR, E1000_TPT,
     E1000_MPTC, E1000_BPTC]"

definition e1000e_clear_hw_cntrs_base :: "unit hwM" where
  "e1000e_clear_hw_cntrs_base = for_each cntrs_base (\<lambda>r. do { er32 r; ret () })"

subsection \<open>Link checks\<close>

definition e1000e_check_for_copper_link ::
  "'m mac_operations_scheme \<Rightarrow> 'p phy_operations_scheme \<Rightarrow> s32 hwM" where
  "e1000e_check_for_copper_link mops ops = do {
     get_link_status \<leftarrow> gets (\<lambda>s. mac_get_link_status (hw_mac s));
     if \<not> get_link_status then ret 1
     else do {
       r \<leftarrow> e1000e_phy_has_link_generic ops 1 0;
       if fst r \<noteq> 0 then ret (fst r)
       else if \<not> snd r then ret 0
       else do {
         set_mac (mac_get_link_status_update (\<lambda>_. False));
         e1000e_check_downshift ops;
         autoneg \<leftarrow> gets (\<lambda>s. mac_autoneg (hw_mac s));
         if \<not> autoneg then ret (- E1000_ERR_CONFIG)
         else do {
           op_config_collision_dist mops;
           ok_then (e1000e_config_fc_after_link_up mops ops) (ret 1) } } } }"

text \<open>Auto-negotiation given up: the link forced up at full duplex.\<close>

definition force_link_up ::
  "'m mac_operations_scheme \<Rightarrow> 'p phy_operations_scheme \<Rightarrow> s32 hwM" where
  "force_link_up mops ops = do {
     txcw \<leftarrow> gets (\<lambda>s. mac_txcw (hw_mac s));
     ew32 E1000_TXCW (txcw AND NOT E1000_TXCW_ANE);
     ctrl \<leftarrow> er32 E1000_CTRL;
     ew32 E1000_CTRL (ctrl OR (E1000_CTRL_SLU OR E1000_CTRL_FD));
     e1000e_config_fc_after_link_up mops ops }"

text \<open>Receiving /C/ while forcing: auto-negotiation enabled again.\<close>

definition stop_forcing_link :: "u32 \<Rightarrow> unit hwM" where
  "stop_forcing_link ctrl = do {
     txcw \<leftarrow> gets (\<lambda>s. mac_txcw (hw_mac s));
     ew32 E1000_TXCW txcw;
     ew32 E1000_CTRL (ctrl AND NOT E1000_CTRL_SLU);
     set_mac (mac_serdes_has_link_update (\<lambda>_. True)) }"

definition e1000e_check_for_fiber_link ::
  "'m mac_operations_scheme \<Rightarrow> 'p phy_operations_scheme \<Rightarrow> s32 hwM" where
  "e1000e_check_for_fiber_link mops ops = do {
     ctrl \<leftarrow> er32 E1000_CTRL;
     status \<leftarrow> er32 E1000_STATUS;
     rxcw \<leftarrow> er32 E1000_RXCW;
     if ctrl AND E1000_CTRL_SWDPIN1 \<noteq> 0 \<and> status AND E1000_STATUS_LU = 0 \<and> rxcw AND E1000_RXCW_C = 0
     then do {
       failed \<leftarrow> gets (\<lambda>s. mac_autoneg_failed (hw_mac s));
       if \<not> failed then do { set_mac (mac_autoneg_failed_update (\<lambda>_. True)); ret 0 }
       else ok_then (force_link_up mops ops) (ret 0) }
     else if ctrl AND E1000_CTRL_SLU \<noteq> 0 \<and> rxcw AND E1000_RXCW_C \<noteq> 0
     then do { stop_forcing_link ctrl; ret 0 }
     else ret 0 }"

definition set_serdes_link :: "bool \<Rightarrow> unit hwM" where
  "set_serdes_link b = set_mac (mac_serdes_has_link_update (\<lambda>_. b))"

text \<open>The end of the SerDes check, while auto-negotiation is enabled.\<close>

definition serdes_autoneg_link :: "s32 hwM" where
  "serdes_autoneg_link = do {
     txcw \<leftarrow> er32 E1000_TXCW;
     if E1000_TXCW_ANE AND txcw = 0 then ret 0
     else do {
       status \<leftarrow> er32 E1000_STATUS;
       if status AND E1000_STATUS_LU \<noteq> 0 then do {
         usleep_range 10 20;
         rxcw \<leftarrow> er32 E1000_RXCW;
         set_serdes_link (rxcw AND E1000_RXCW_SYNCH \<noteq> 0 \<and> rxcw AND E1000_RXCW_IV = 0);
         ret 0 }
       else do { set_serdes_link False; ret 0 } } }"

text \<open>The third branch: link forced with a partner that does not negotiate.\<close>

definition serdes_forced_link :: "unit hwM" where
  "serdes_forced_link = do {
     txcw \<leftarrow> er32 E1000_TXCW;
     cwhen (E1000_TXCW_ANE AND txcw = 0) (do {
       usleep_range 10 20;
       rxcw \<leftarrow> er32 E1000_RXCW;
       if rxcw AND E1000_RXCW_SYNCH \<noteq> 0
       then cwhen (rxcw AND E1000_RXCW_IV = 0) (set_serdes_link True)
       else set_serdes_link False }) }"

definition e1000e_check_for_serdes_link ::
  "'m mac_operations_scheme \<Rightarrow> 'p phy_operations_scheme \<Rightarrow> s32 hwM" where
  "e1000e_check_for_serdes_link mops ops = do {
     ctrl \<leftarrow> er32 E1000_CTRL;
     status \<leftarrow> er32 E1000_STATUS;
     rxcw \<leftarrow> er32 E1000_RXCW;
     if status AND E1000_STATUS_LU = 0 \<and> rxcw AND E1000_RXCW_C = 0
     then do {
       failed \<leftarrow> gets (\<lambda>s. mac_autoneg_failed (hw_mac s));
       if \<not> failed then do { set_mac (mac_autoneg_failed_update (\<lambda>_. True)); ret 0 }
       else ok_then (force_link_up mops ops) serdes_autoneg_link }
     else if ctrl AND E1000_CTRL_SLU \<noteq> 0 \<and> rxcw AND E1000_RXCW_C \<noteq> 0
     then do { stop_forcing_link ctrl; serdes_autoneg_link }
     else do { serdes_forced_link; serdes_autoneg_link } }"

subsection \<open>The hardware semaphore\<close>

definition e1000e_put_hw_semaphore :: "unit hwM" where
  "e1000e_put_hw_semaphore = do {
     swsm \<leftarrow> er32 E1000_SWSM;
     ew32 E1000_SWSM (swsm AND NOT (E1000_SWSM_SMBI OR E1000_SWSM_SWESMBI)) }"

text \<open>\<open>True\<close> when the wait ended before its limit.\<close>

primrec smbi_loop :: "nat \<Rightarrow> bool hwM" where
  "smbi_loop 0 = ret False"
| "smbi_loop (Suc n) = do {
     swsm \<leftarrow> er32 E1000_SWSM;
     if swsm AND E1000_SWSM_SMBI = 0 then ret True
     else do { usleep_range 50 100; smbi_loop n } }"

primrec swesmbi_loop :: "nat \<Rightarrow> bool hwM" where
  "swesmbi_loop 0 = ret False"
| "swesmbi_loop (Suc n) = do {
     swsm \<leftarrow> er32 E1000_SWSM;
     ew32 E1000_SWSM (swsm OR E1000_SWSM_SWESMBI);
     swsm \<leftarrow> er32 E1000_SWSM;
     if swsm AND E1000_SWSM_SWESMBI \<noteq> 0 then ret True
     else do { usleep_range 50 100; swesmbi_loop n } }"

definition e1000e_get_hw_semaphore :: "s32 hwM" where
  "e1000e_get_hw_semaphore = do {
     size \<leftarrow> gets (\<lambda>s. nvm_word_size (hw_nvm s));
     let timeout = unat size + 1;
     ok \<leftarrow> smbi_loop timeout;
     if \<not> ok then ret (- E1000_ERR_NVM)
     else do {
       ok \<leftarrow> swesmbi_loop timeout;
       if \<not> ok then do { e1000e_put_hw_semaphore; ret (- E1000_ERR_NVM) }
       else ret 0 } }"

primrec auto_rd_loop :: "nat \<Rightarrow> bool hwM" where
  "auto_rd_loop 0 = ret False"
| "auto_rd_loop (Suc n) = do {
     eecd \<leftarrow> er32 E1000_EECD;
     if eecd AND E1000_EECD_AUTO_RD \<noteq> 0 then ret True
     else do { usleep_range 1000 2000; auto_rd_loop n } }"

definition e1000e_get_auto_rd_done :: "s32 hwM" where
  "e1000e_get_auto_rd_done = do {
     ok \<leftarrow> auto_rd_loop AUTO_READ_DONE_TIMEOUT;
     ret (if ok then 0 else - E1000_ERR_RESET) }"

subsection \<open>LEDs\<close>

definition e1000e_valid_led_default :: "'o nvm_operations_scheme \<Rightarrow> (s32 \<times> u16) hwM" where
  "e1000e_valid_led_default nops = do {
     r \<leftarrow> e1000_read_nvm1 nops NVM_ID_LED_SETTINGS;
     if fst r \<noteq> 0 then ret r
     else ret (0, if snd r = ID_LED_RESERVED_0000 \<or> snd r = ID_LED_RESERVED_FFFF then ID_LED_DEFAULT
       else snd r) }"

definition e1000_valid_led_default_ich8lan :: "'o nvm_operations_scheme \<Rightarrow> (s32 \<times> u16) hwM" where
  "e1000_valid_led_default_ich8lan nops = do {
     r \<leftarrow> e1000_read_nvm1 nops NVM_ID_LED_SETTINGS;
     if fst r \<noteq> 0 then ret r
     else ret (0, if snd r = ID_LED_RESERVED_0000 \<or> snd r = ID_LED_RESERVED_FFFF
       then ID_LED_DEFAULT_ICH8LAN else snd r) }"

text \<open>
  What the setting \<open>temp\<close> of one LED makes of its field in the first and in the second mode
  register: \<open>Some True\<close> on, \<open>Some False\<close> off, \<open>None\<close> the default left in place.
\<close>

definition led_mode1 :: "u16 \<Rightarrow> bool option" where
  "led_mode1 temp =
     (if temp \<in> {ID_LED_ON1_DEF2, ID_LED_ON1_ON2, ID_LED_ON1_OFF2} then Some True
      else if temp \<in> {ID_LED_OFF1_DEF2, ID_LED_OFF1_ON2, ID_LED_OFF1_OFF2} then Some False
      else None)"

definition led_mode2 :: "u16 \<Rightarrow> bool option" where
  "led_mode2 temp =
     (if temp \<in> {ID_LED_DEF1_ON2, ID_LED_ON1_ON2, ID_LED_OFF1_ON2} then Some True
      else if temp \<in> {ID_LED_DEF1_OFF2, ID_LED_ON1_OFF2, ID_LED_OFF1_OFF2} then Some False
      else None)"

definition led_field :: "u32 \<Rightarrow> u32 \<Rightarrow> u32 \<Rightarrow> nat \<Rightarrow> bool option \<Rightarrow> u32 \<Rightarrow> u32" where
  "led_field led_mask on off shift m ledctl = (case m of
       None \<Rightarrow> ledctl
     | Some b \<Rightarrow> (ledctl AND NOT (push_bit shift led_mask)) OR push_bit shift (if b then on else off))"

text \<open>The loop over the four LEDs, which are \<open>width\<close> bits apart in the register.\<close>

definition led_step ::
  "u32 \<Rightarrow> u32 \<Rightarrow> u32 \<Rightarrow> nat \<Rightarrow> u16 \<Rightarrow> nat \<Rightarrow> e1000_mac_info \<Rightarrow> e1000_mac_info" where
  "led_step led_mask on off width data i mac =
     (let temp = drop_bit (4 * i) data AND 0x0F
      in mac\<lparr>mac_ledctl_mode1 := led_field led_mask on off (width * i) (led_mode1 temp) (mac_ledctl_mode1 mac),
             mac_ledctl_mode2 := led_field led_mask on off (width * i) (led_mode2 temp) (mac_ledctl_mode2 mac)\<rparr>)"

definition id_led_init ::
  "(s32 \<times> u16) hwM \<Rightarrow> u32 \<Rightarrow> u32 \<Rightarrow> u32 \<Rightarrow> nat \<Rightarrow> s32 hwM" where
  "id_led_init valid_led_default led_mask on off width = do {
     r \<leftarrow> valid_led_default;
     if fst r \<noteq> 0 then ret (fst r)
     else do {
       ledctl \<leftarrow> er32 E1000_LEDCTL;
       set_mac (\<lambda>mac. mac\<lparr>mac_ledctl_default := ledctl, mac_ledctl_mode1 := ledctl,
         mac_ledctl_mode2 := ledctl\<rparr>);
       set_mac (fold (led_step led_mask on off width (snd r)) [0..<4]);
       ret 0 } }"

definition e1000e_id_led_init_generic :: "(s32 \<times> u16) hwM \<Rightarrow> s32 hwM" where
  "e1000e_id_led_init_generic valid_led_default =
     id_led_init valid_led_default 0x000000FF E1000_LEDCTL_MODE_LED_ON E1000_LEDCTL_MODE_LED_OFF 8"

definition e1000_id_led_init_pchlan :: "(s32 \<times> u16) hwM \<Rightarrow> s32 hwM" where
  "e1000_id_led_init_pchlan valid_led_default =
     id_led_init valid_led_default E1000_PHY_LED0_MASK E1000_LEDCTL_MODE_LINK_UP
       (E1000_LEDCTL_MODE_LINK_UP OR E1000_PHY_LED0_IVRT) 5"

text \<open>\<open>is_generic\<close>: whether \<open>hw->mac.ops.setup_led\<close> is this very function.\<close>

definition e1000e_setup_led_generic :: "bool \<Rightarrow> s32 hwM" where
  "e1000e_setup_led_generic is_generic = do {
     if \<not> is_generic then ret (- E1000_ERR_CONFIG)
     else do {
       media \<leftarrow> gets (\<lambda>s. phy_media_type (hw_phy s));
       if media = e1000_media_type_fiber then do {
         ledctl \<leftarrow> er32 E1000_LEDCTL;
         set_mac (mac_ledctl_default_update (\<lambda>_. ledctl));
         ew32 E1000_LEDCTL ((ledctl AND NOT (E1000_LEDCTL_LED0_IVRT OR E1000_LEDCTL_LED0_BLINK
             OR E1000_LEDCTL_LED0_MODE_MASK))
           OR push_bit E1000_LEDCTL_LED0_MODE_SHIFT E1000_LEDCTL_MODE_LED_OFF);
         ret 0 }
       else if media = e1000_media_type_copper then do {
         mode1 \<leftarrow> gets (\<lambda>s. mac_ledctl_mode1 (hw_mac s));
         ew32 E1000_LEDCTL mode1;
         ret 0 }
       else ret 0 } }"

definition e1000e_cleanup_led_generic :: "s32 hwM" where
  "e1000e_cleanup_led_generic = do {
     v \<leftarrow> gets (\<lambda>s. mac_ledctl_default (hw_mac s));
     ew32 E1000_LEDCTL v;
     ret 0 }"

text \<open>The blink bit of the LED whose field starts at bit \<open>i\<close>.\<close>

definition blink_step :: "e1000_mac_info \<Rightarrow> nat \<Rightarrow> u32 \<Rightarrow> u32" where
  "blink_step mac i ledctl_blink =
     (let mode = drop_bit i (mac_ledctl_mode2 mac) AND E1000_LEDCTL_LED0_MODE_MASK;
          ivrt = (drop_bit i (mac_ledctl_default mac) AND E1000_LEDCTL_LED0_IVRT \<noteq> 0)
      in if (\<not> ivrt \<and> mode = E1000_LEDCTL_MODE_LED_ON) \<or> (ivrt \<and> mode = E1000_LEDCTL_MODE_LED_OFF)
         then (ledctl_blink AND NOT (push_bit i E1000_LEDCTL_LED0_MODE_MASK))
           OR push_bit i (E1000_LEDCTL_LED0_BLINK OR E1000_LEDCTL_MODE_LED_ON)
         else ledctl_blink)"

definition e1000e_blink_led_generic :: "s32 hwM" where
  "e1000e_blink_led_generic = do {
     media \<leftarrow> gets (\<lambda>s. phy_media_type (hw_phy s));
     mac \<leftarrow> gets hw_mac;
     ew32 E1000_LEDCTL (if media = e1000_media_type_fiber
       then E1000_LEDCTL_LED0_BLINK OR push_bit E1000_LEDCTL_LED0_MODE_SHIFT E1000_LEDCTL_MODE_LED_ON
       else fold (blink_step mac) [0, 8, 16, 24] (mac_ledctl_mode2 mac));
     ret 0 }"

definition e1000e_led_on_generic :: "s32 hwM" where
  "e1000e_led_on_generic = do {
     media \<leftarrow> gets (\<lambda>s. phy_media_type (hw_phy s));
     if media = e1000_media_type_fiber then do {
       ctrl \<leftarrow> er32 E1000_CTRL;
       ew32 E1000_CTRL ((ctrl AND NOT E1000_CTRL_SWDPIN0) OR E1000_CTRL_SWDPIO0);
       ret 0 }
     else if media = e1000_media_type_copper then do {
       v \<leftarrow> gets (\<lambda>s. mac_ledctl_mode2 (hw_mac s));
       ew32 E1000_LEDCTL v;
       ret 0 }
     else ret 0 }"

definition e1000e_led_off_generic :: "s32 hwM" where
  "e1000e_led_off_generic = do {
     media \<leftarrow> gets (\<lambda>s. phy_media_type (hw_phy s));
     if media = e1000_media_type_fiber then do {
       ctrl \<leftarrow> er32 E1000_CTRL;
       ew32 E1000_CTRL (ctrl OR E1000_CTRL_SWDPIN0 OR E1000_CTRL_SWDPIO0);
       ret 0 }
     else if media = e1000_media_type_copper then do {
       v \<leftarrow> gets (\<lambda>s. mac_ledctl_mode1 (hw_mac s));
       ew32 E1000_LEDCTL v;
       ret 0 }
     else ret 0 }"

subsection \<open>PCIe\<close>

definition e1000e_set_pcie_no_snoop :: "u32 \<Rightarrow> unit hwM" where
  "e1000e_set_pcie_no_snoop no_snoop =
     cwhen (no_snoop \<noteq> 0) (do {
       gcr \<leftarrow> er32 E1000_GCR;
       ew32 E1000_GCR ((gcr AND NOT PCIE_NO_SNOOP_ALL) OR no_snoop) })"

primrec master_disable_loop :: "nat \<Rightarrow> bool hwM" where
  "master_disable_loop 0 = ret False"
| "master_disable_loop (Suc timeout) = do {
     status \<leftarrow> er32 E1000_STATUS;
     if status AND E1000_STATUS_GIO_MASTER_ENABLE = 0 then ret True
     else do { usleep_range 100 200; master_disable_loop timeout } }"

definition e1000e_disable_pcie_master :: "s32 hwM" where
  "e1000e_disable_pcie_master = do {
     ctrl \<leftarrow> er32 E1000_CTRL;
     ew32 E1000_CTRL (ctrl OR E1000_CTRL_GIO_MASTER_DISABLE);
     ok \<leftarrow> master_disable_loop MASTER_DISABLE_TIMEOUT;
     ret (if ok then 0 else - E1000_ERR_MASTER_REQUESTS_PENDING) }"

subsection \<open>Adaptive inter-frame spacing\<close>

definition e1000e_reset_adaptive :: "unit hwM" where
  "e1000e_reset_adaptive = do {
     adaptive \<leftarrow> gets (\<lambda>s. mac_adaptive_ifs (hw_mac s));
     cwhen adaptive (do {
       set_mac (\<lambda>mac. mac\<lparr>mac_current_ifs_val := 0, mac_ifs_min_val := IFS_MIN,
         mac_ifs_max_val := IFS_MAX, mac_ifs_step_size := IFS_STEP, mac_ifs_ratio := IFS_RATIO,
         mac_in_ifs_mode := False\<rparr>);
       ew32 E1000_AIT 0 }) }"

definition e1000e_update_adaptive :: "unit hwM" where
  "e1000e_update_adaptive = do {
     mac \<leftarrow> gets hw_mac;
     cwhen (mac_adaptive_ifs mac)
       (if mac_collision_delta mac * ucast (mac_ifs_ratio mac) > mac_tx_packet_delta mac
        then cwhen (mac_tx_packet_delta mac > MIN_NUM_XMITS) (do {
          set_mac (mac_in_ifs_mode_update (\<lambda>_. True));
          cwhen (mac_current_ifs_val mac < mac_ifs_max_val mac) (do {
            let v = (if mac_current_ifs_val mac = 0 then mac_ifs_min_val mac
              else mac_current_ifs_val mac + mac_ifs_step_size mac);
            set_mac (mac_current_ifs_val_update (\<lambda>_. v));
            ew32 E1000_AIT (ucast v) }) })
        else cwhen (mac_in_ifs_mode mac \<and> mac_tx_packet_delta mac \<le> MIN_NUM_XMITS) (do {
          set_mac (mac_current_ifs_val_update (\<lambda>_. 0));
          set_mac (mac_in_ifs_mode_update (\<lambda>_. False));
          ew32 E1000_AIT 0 })) }"

end
