(* ===== verification/MacProps.thy ===== *)
theory MacProps
  imports FlowProps Mac
begin

section \<open>Correctness of the MAC layer\<close>

text \<open>
  The multicast hash, when its loop returns and what it computes, and the table built from it; the adaptive
  inter-frame spacing as a transition system with its invariant and its progress; and the
  station address through the chip and back.
\<close>

subsection \<open>The multicast hash\<close>

lemma hash_shift_found:
  assumes "hash_shift m b = Some y"
  shows "drop_bit (unat y) m = 0xFF \<and>
    (\<exists>n. y = b + word_of_nat n \<and> (\<forall>i < n. drop_bit (unat (b + word_of_nat i)) m \<noteq> 0xFF))"
proof (rule hash_shift.raw_induct [OF _ assms, where P = "\<lambda>m b y. drop_bit (unat y) m = 0xFF \<and>
    (\<exists>n. y = b + word_of_nat n \<and> (\<forall>i < n. drop_bit (unat (b + word_of_nat i)) m \<noteq> 0xFF))"], goal_cases)
  case (1 f m b y)
  show ?case
  proof (cases "drop_bit (unat b) m = 0xFF")
    case True
    then show ?thesis using 1(2) by (auto intro!: exI [of _ 0])
  next
    case False
    then have "f m (b + 1) = Some y" using 1(2) by simp
    from 1(1) [OF this] obtain n where n: "drop_bit (unat y) m = 0xFF" "y = b + 1 + word_of_nat n"
      "\<And>i. i < n \<Longrightarrow> drop_bit (unat (b + 1 + word_of_nat i)) m \<noteq> 0xFF" by blast
    have "drop_bit (unat (b + word_of_nat i)) m \<noteq> 0xFF" if "i < Suc n" for i
      using that n(3) [of "i - 1"] False by (cases i) (simp_all add: add.assoc)
    then show ?thesis using n by (intro conjI exI [of _ "Suc n"]) (simp_all add: add.assoc)
  qed
qed

lemma hash_shift_reaches:
  assumes "drop_bit (b + n) m = 0xFF" and "b + n < 256"
    and "\<And>i. b \<le> i \<Longrightarrow> i < b + n \<Longrightarrow> drop_bit i m \<noteq> 0xFF"
  shows "hash_shift m (word_of_nat b) = Some (word_of_nat (b + n))"
  using assms
proof (induction n arbitrary: b)
  case 0
  then show ?case by (subst hash_shift.simps) (simp add: unat_of_nat)
next
  case (Suc n)
  have b: "unat (word_of_nat b :: u8) = b" using Suc.prems(2) by (simp add: unat_of_nat)
  have "drop_bit b m \<noteq> 0xFF" using Suc.prems(3) [of b] by simp
  then have "hash_shift m (word_of_nat b) = hash_shift m (word_of_nat (Suc b))"
    by (subst hash_shift.simps) (simp add: b add.commute)
  also have "\<dots> = Some (word_of_nat (Suc b + n))"
    by (rule Suc.IH) (use Suc.prems in auto)
  finally show ?case by simp
qed

text \<open>The loop that looks for the shift of the hash mask. It returns exactly when the mask holds eight ones
with nothing above them, and then it returns the least shift that brings them to the bottom;
for any other mask it never returns.\<close>

theorem hash_shift_returns:
  "(hash_shift m 0 = Some k \<longleftrightarrow> drop_bit (unat k) m = 0xFF \<and> (\<forall>j < unat k. drop_bit j m \<noteq> 0xFF)) \<and>
   (hash_shift m 0 = None \<longleftrightarrow> (\<forall>j < 32. drop_bit j m \<noteq> 0xFF))"
proof -
  have to: "hash_shift m 0 = Some k"
    if "drop_bit (unat k) m = 0xFF" "\<forall>j < unat k. drop_bit j m \<noteq> 0xFF" for k
    using hash_shift_reaches [of 0 "unat k" m] that unsigned_less [of k, where ?'a = nat] by simp
  have big: "j < 32" if "drop_bit j m = 0xFF" for j
  proof (rule ccontr)
    assume "\<not> j < 32"
    then have "drop_bit j m = 0" by (intro bit_word_eqI) (auto simp: bit_drop_bit_eq dest: bit_imp_le_length)
    with that show False by simp
  qed
  have from_some: "drop_bit (unat k) m = 0xFF \<and> (\<forall>j < unat k. drop_bit j m \<noteq> 0xFF)"
    if some: "hash_shift m 0 = Some k" for k
  proof -
    obtain n where n: "drop_bit (unat k) m = 0xFF" "k = word_of_nat n"
      "\<And>i. i < n \<Longrightarrow> drop_bit (unat (word_of_nat i :: u8)) m \<noteq> 0xFF"
      using hash_shift_found [OF some] by auto
    have "drop_bit j m \<noteq> 0xFF" if j: "j < unat k" for j
    proof -
      have "j < n" using j unfolding n(2) by (metis less_le_trans mod_less_eq_dividend unat_of_nat)
      moreover have "unat k < 2 ^ LENGTH(8)" by (rule unsigned_less)
      then have "unat (word_of_nat j :: u8) = j" using j by (simp add: unat_of_nat)
      ultimately show ?thesis using n(3) [of j] by simp
    qed
    with n(1) show ?thesis by blast
  qed
  have none: "(hash_shift m 0 = None) = (\<forall>j < 32. drop_bit j m \<noteq> 0xFF)"
  proof
    assume no: "hash_shift m 0 = None"
    show "\<forall>j < 32. drop_bit j m \<noteq> 0xFF"
    proof (rule ccontr)
      assume "\<not> (\<forall>j < 32. drop_bit j m \<noteq> 0xFF)"
      then obtain j where "drop_bit j m = 0xFF" by blast
      then obtain i where i: "drop_bit i m = 0xFF" "\<forall>j < i. drop_bit j m \<noteq> 0xFF"
        using exists_least_iff [of "\<lambda>j. drop_bit j m = 0xFF"] by blast
      then have "unat (word_of_nat i :: u8) = i" using big [of i] by (simp add: unat_of_nat)
      with to [of "word_of_nat i"] i no show False by simp
    qed
  next
    assume "\<forall>j < 32. drop_bit j m \<noteq> 0xFF"
    then show "hash_shift m 0 = None" using from_some big by (cases "hash_shift m 0") auto
  qed
  show ?thesis using to from_some none by blast
qed

theorem hash_shift_returns_witness:
  "hash_shift 0x3FF 0 = Some 2 \<and> hash_shift 0x7F 0 = None"
proof -
  have "\<forall>j < 2. drop_bit j (0x3FF :: u32) \<noteq> 0xFF" by (auto simp: less_2_cases_iff)
  moreover have "\<forall>j < 32. drop_bit j (0x7F :: u32) \<noteq> 0xFF"
  proof (intro allI impI notI)
    fix j
    assume "drop_bit j (0x7F :: u32) = 0xFF"
    then have "bit (drop_bit j (0x7F :: u32)) 7" by simp
    moreover have "(0x7F :: u32) = mask 7" by (simp add: mask_eq_exp_minus_1)
    ultimately show False by (simp only: bit_drop_bit_eq comp_apply bit_mask_iff) simp
  qed
  ultimately show ?thesis
    using hash_shift_returns [of "0x3FF" 2] hash_shift_returns [of "0x7F" 0] by simp
qed

text \<open>The masks of the tables the parts have: a power of two of registers, at least eight.\<close>

lemma hash_mask_pow2:
  assumes "mac_mta_reg_count mac = 2 ^ (j + 3)" and "j \<le> 12"
  shows "mc_hash_mask mac = mask (j + 8)" "(ucast (mac_mta_reg_count mac) :: u32) - 1 = mask (j + 3)"
proof -
  have "(ucast (2 ^ (j + 3) :: u16) :: u32) = 2 ^ (j + 3)"
    using assms(2) by (intro bit_word_eqI) (auto simp only: bit_simps possible_bit_word len_num1 len_num0 len_bit0 len_bit1)
  then show "mc_hash_mask mac = mask (j + 8)" "(ucast (mac_mta_reg_count mac) :: u32) - 1 = mask (j + 3)"
    using assms(1) by (simp_all add: mc_hash_mask_def mask_eq_exp_minus_1 power_add)
qed

lemma hash_shift_pow2:
  assumes "j \<le> 12"
  shows "hash_shift (mask (j + 8)) 0 = Some (word_of_nat j)"
proof -
  have k: "unat (word_of_nat j :: u8) = j" using assms by (simp add: unat_of_nat)
  have ff: "(0xFF :: u32) = mask 8" by (simp add: mask_eq_exp_minus_1)
  have "drop_bit i (mask (j + 8)) \<noteq> (0xFF :: u32)" if "i < j" for i
  proof
    assume "drop_bit i (mask (j + 8)) = (0xFF :: u32)"
    then have "\<not> bit (drop_bit i (mask (j + 8)) :: u32) 8" unfolding ff by (simp only: bit_mask_iff) simp
    then show False using that assms by (simp only: bit_drop_bit_eq comp_apply bit_mask_iff) auto
  qed
  moreover have "drop_bit j (mask (j + 8)) = (0xFF :: u32)"
    unfolding ff by (rule bit_word_eqI)
      (use assms in \<open>auto simp only: bit_drop_bit_eq comp_apply bit_mask_iff possible_bit_word len_num1 len_num0 len_bit0 len_bit1\<close>)
  ultimately show ?thesis
    using hash_shift_returns [of "mask (j + 8)" "word_of_nat j"] k by simp
qed

text \<open>The hash: \<open>j + 8\<close> bits of the address's last two bytes, read as one little-endian number.\<close>

definition mc_hash :: "nat \<Rightarrow> u32 \<Rightarrow> u8 list \<Rightarrow> u32" where
  "mc_hash j ty addr = take_bit (j + 8) (drop_bit (8 - (j + unat (mc_filter_shift ty)))
     (ucast (addr ! 4) OR push_bit 8 (ucast (addr ! 5))))"

lemma filter_shift_le: "unat (mc_filter_shift ty) \<le> 4"
  by (simp add: mc_filter_shift_def)

lemma hash_mc_addr_run:
  assumes "mac_mta_reg_count mac = 2 ^ (j + 3)" and "j \<le> 4"
  shows "e1000_hash_mc_addr mac addr = Some (mc_hash j (mac_mc_filter_type mac) addr)"
proof -
  let ?f = "mc_filter_shift (mac_mc_filter_type mac)"
  let ?s = "j + unat ?f"
  have s: "?s \<le> 8" using assms(2) filter_shift_le [of "mac_mc_filter_type mac"] by simp
  have "unat (word_of_nat j + ?f) = ?s"
    using s assms(2) by (simp add: unat_word_ariths unat_of_nat)
  then have "e1000_hash_mc_addr mac addr = Some (mask (j + 8) AND (drop_bit (8 - ?s) (ucast (addr ! 4))
      OR push_bit ?s (ucast (addr ! 5))))"
    using assms by (simp add: e1000_hash_mc_addr_def hash_shift_pow2 hash_mask_pow2 [OF assms(1)] Let_def)
  also have "mask (j + 8) AND (drop_bit (8 - ?s) (ucast (addr ! 4)) OR push_bit ?s (ucast (addr ! 5)))
      = mc_hash j (mac_mc_filter_type mac) addr"
    unfolding mc_hash_def
    by (rule bit_word_eqI, simp only: bit_take_bit_iff bit_drop_bit_eq comp_apply bit_and_iff bit_or_iff
        bit_push_bit_iff bit_mask_iff bit_unsigned_iff)
      (use s assms(2) in \<open>auto dest: bit_imp_le_length\<close>)
  finally show ?thesis .
qed

lemma mc_hash_bound: "unat (mc_hash j ty addr) < 2 ^ (j + 8)"
  unfolding mc_hash_def unsigned_take_bit_eq by (rule take_bit_nat_less_exp)

subsection \<open>The multicast table\<close>

definition in_table :: "u32 list \<Rightarrow> nat \<Rightarrow> bool" where
  "in_table mta h = bit (mta ! (h div 32)) (h mod 32)"

lemma mta_indices:
  assumes "unat h < 2 ^ (j + 8)" and "j \<le> 12"
  shows "unat (drop_bit 5 h AND (mask (j + 3) :: u32)) = unat h div 32" "unat (h AND (0x1F :: u32)) = unat h mod 32"
proof -
  have "unat h div 32 < 2 ^ (j + 3)"
    using assms(1) by (simp add: power_add less_mult_imp_div_less)
  moreover have d: "unat (drop_bit 5 h) = unat h div 32"
    by (simp only: unat_drop_bit_eq drop_bit_eq_div [where ?'a = nat]) simp
  ultimately show "unat (drop_bit 5 h AND (mask (j + 3) :: u32)) = unat h div 32"
    by (simp only: take_bit_eq_mask [symmetric] unsigned_take_bit_eq d take_bit_nat_eq_self)
  have "(0x1F :: u32) = mask 5" by (simp add: mask_eq_exp_minus_1)
  then show "unat (h AND (0x1F :: u32)) = unat h mod 32"
    by (simp only: take_bit_eq_mask [symmetric] unsigned_take_bit_eq) (simp add: take_bit_eq_mod)
qed

lemma mta_set_bit:
  assumes "h div 32 < length mta" and "k div 32 < length mta"
  shows "in_table (mta[h div 32 := mta ! (h div 32) OR push_bit (h mod 32) 1]) k \<longleftrightarrow> in_table mta k \<or> k = h"
proof -
  have "k = h" if "k div 32 = h div 32" "k mod 32 = h mod 32"
    using that by (metis mult_div_mod_eq)
  moreover have "bit (push_bit (h mod 32) 1 :: u32) (k mod 32) \<longleftrightarrow> k mod 32 = h mod 32"
    by (auto simp: bit_exp_iff)
  ultimately show ?thesis
    using assms by (auto simp: in_table_def nth_list_update bit_or_iff)
qed

lemma mta_add_run:
  assumes count: "mac_mta_reg_count mac = 2 ^ (j + 3)" "j \<le> 4" and len: "2 ^ (j + 3) \<le> length mta"
  shows "\<exists>mta'. mta_add mac addrs mta = Some mta' \<and> length mta' = length mta \<and>
     (\<forall>k < 2 ^ (j + 8). in_table mta' k \<longleftrightarrow>
        in_table mta k \<or> k \<in> (\<lambda>a. unat (mc_hash j (mac_mc_filter_type mac) a)) ` set addrs)"
  using len
proof (induction addrs arbitrary: mta)
  case Nil
  then show ?case by simp
next
  case (Cons a addrs)
  let ?h = "mc_hash j (mac_mc_filter_type mac) a"
  have h: "unat ?h < 2 ^ (j + 8)" by (rule mc_hash_bound)
  have small: "k div 32 < length mta" if "k < 2 ^ (j + 8)" for k
    using that Cons.prems by (simp add: power_add less_mult_imp_div_less order.strict_trans2)
  let ?mta = "mta[unat ?h div 32 := mta ! (unat ?h div 32) OR push_bit (unat ?h mod 32) 1]"
  have "mta_add mac (a # addrs) mta = mta_add mac addrs ?mta"
    using count hash_mc_addr_run [OF count] mta_indices [OF h] hash_mask_pow2(2) [OF count(1)]
    by (simp add: Let_def)
  moreover obtain mta' where m: "mta_add mac addrs ?mta = Some mta'" "length mta' = length mta"
    "\<forall>k < 2 ^ (j + 8). in_table mta' k \<longleftrightarrow>
       in_table ?mta k \<or> k \<in> (\<lambda>a. unat (mc_hash j (mac_mc_filter_type mac) a)) ` set addrs"
    using Cons.IH [of ?mta] Cons.prems by auto
  moreover have "in_table ?mta k \<longleftrightarrow> in_table mta k \<or> k = unat ?h" if "k < 2 ^ (j + 8)" for k
    using mta_set_bit [OF small [OF h] small [OF that]] .
  ultimately show ?case by (intro exI [of _ mta']) auto
qed

lemma run_set_mac [simp]: "run_state (set_mac f) s = ((), s\<lparr>hw_mac := f (hw_mac s)\<rparr>)"
  by (cases s) (simp add: set_mac_def)

lemma mta_writes_run:
  "run_state (for_each is (\<lambda>i. write_reg_array E1000_MTA (word_of_nat i) (mta ! i))) s =
     ((), after s (map (\<lambda>i. Wr (Csr (E1000_MTA + push_bit 2 (word_of_nat i))) (mta ! i)) is))"
  by (induction "is" arbitrary: s) simp_all

text \<open>C39: The multicast table. For the tables of 8 to 128 registers the update always returns; afterwards a bit of the
table is set exactly when an address of the list hashes to it, so every address of the list passes the
filter and nothing of an older list is left; and the registers are written, the highest first,
with exactly that table.\<close>

theorem mc_list_update_correct:
  assumes "mac_mta_reg_count (hw_mac s) = 2 ^ (j + 3)" and "j \<le> 4"
    and "2 ^ (j + 3) \<le> length (mac_mta_shadow (hw_mac s))"
    and run: "run_state (e1000e_update_mc_addr_list_generic addrs) s = (r, t)"
  shows "r = Some () \<and>
    (\<forall>k < 2 ^ (j + 8). in_table (mac_mta_shadow (hw_mac t)) k \<longleftrightarrow>
       (\<exists>a \<in> set addrs. k = unat (mc_hash j (mac_mc_filter_type (hw_mac s)) a))) \<and>
    (\<exists>v. new_events s t = map (\<lambda>i. Wr (Csr (E1000_MTA + push_bit 2 (word_of_nat i))) (mac_mta_shadow (hw_mac t) ! i))
       (rev [0..<2 ^ (j + 3)]) @ [Rd (Csr E1000_STATUS) v])"
proof -
  let ?n = "length (mac_mta_shadow (hw_mac s))"
  let ?mac = "hw_mac s\<lparr>mac_mta_shadow := replicate ?n 0\<rparr>"
  obtain mta where m: "mta_add ?mac addrs (replicate ?n 0) = Some mta" "length mta = ?n"
    "\<forall>k < 2 ^ (j + 8). in_table mta k \<longleftrightarrow>
       in_table (replicate ?n 0) k \<or> k \<in> (\<lambda>a. unat (mc_hash j (mac_mc_filter_type ?mac) a)) ` set addrs"
    using mta_add_run [of ?mac j "replicate ?n 0" addrs] assms(1-3) by auto
  have zero: "\<not> in_table (replicate ?n 0) k" if "k < 2 ^ (j + 8)" for k
  proof -
    have "k div 32 < ?n"
      using that assms(3) by (simp add: power_add less_mult_imp_div_less order.strict_trans2)
    then show ?thesis by (simp add: in_table_def)
  qed
  have c: "unat (2 ^ (j + 3) :: u16) = 2 ^ (j + 3)" 
  proof -
    have "j \<in> {0, 1, 2, 3, 4}" using assms(2) by auto
    then show ?thesis by auto
  qed
  let ?es = "map (\<lambda>i. Wr (Csr (E1000_MTA + push_bit 2 (word_of_nat i))) (mta ! i)) (rev [0..<2 ^ (j + 3)])"
  let ?u = "s\<lparr>hw_mac := ?mac\<lparr>mac_mta_shadow := mta\<rparr>\<rparr>"
  have up: "mac_mta_shadow_update (\<lambda>mta. replicate (length mta) 0) (hw_mac s) = ?mac"
    by (cases "hw_mac s") simp
  have "\<exists>v. run_state (e1000e_update_mc_addr_list_generic addrs) s =
      (Some (), after ?u (?es @ [Rd (Csr E1000_STATUS) v]))"
    using m(1) assms(1) c by (simp add: e1000e_update_mc_addr_list_generic_def mta_writes_run up) (rule exI, rule refl)
  then obtain v where v: "r = Some ()" "t = after ?u (?es @ [Rd (Csr E1000_STATUS) v])" using run by auto
  have "new_events s t = ?es @ [Rd (Csr E1000_STATUS) v]"
    unfolding v(2) by (rule new_eventsI) (simp add: after_def)
  with v m(3) zero show ?thesis by (auto simp: image_iff)
qed

theorem mc_list_update_correct_witness:
  "let t = snd (run_state (e1000e_update_mc_addr_list_generic [[1, 0, 0x5E, 0, 0x12, 0x34]]) (sample_hw keep_dev))
   in in_table (mac_mta_shadow (hw_mac t)) (unat (mc_hash 2 0 [1, 0, 0x5E, 0, 0x12, 0x34]))"
proof -
  let ?addrs = "[[1, 0, 0x5E, 0, 0x12, 0x34]] :: u8 list list"
  have "mac_mta_reg_count (hw_mac (sample_hw keep_dev)) = 2 ^ (2 + 3)" "(2::nat) \<le> 4"
    "2 ^ (2 + 3) \<le> length (mac_mta_shadow (hw_mac (sample_hw keep_dev)))"
    "mac_mc_filter_type (hw_mac (sample_hw keep_dev)) = 0"
    by (simp_all add: sample_mac_def)
  with mc_list_update_correct [OF this(1-3) surjective_pairing, of ?addrs] mc_hash_bound [of 2 0 "?addrs ! 0"]
  show ?thesis by (simp add: Let_def)
qed

subsection \<open>Adaptive inter-frame spacing\<close>

text \<open>
  The statistics the driver's watchdog puts into the structure before each update are
  arbitrary; the states reached from a reset by any number of updates.
\<close>

inductive ifs_reach :: "e1000_hw \<Rightarrow> bool" where
  reset: "mac_adaptive_ifs (hw_mac s) \<Longrightarrow> ifs_reach (snd (run_state e1000e_reset_adaptive s))"
| stats: "ifs_reach s \<Longrightarrow> ifs_reach (s\<lparr>hw_mac := hw_mac s\<lparr>mac_collision_delta := c, mac_tx_packet_delta := p\<rparr>\<rparr>)"
| update: "ifs_reach s \<Longrightarrow> ifs_reach (snd (run_state e1000e_update_adaptive s))"

definition ifs_inv :: "e1000_hw \<Rightarrow> bool" where
  "ifs_inv s \<longleftrightarrow> (let mac = hw_mac s in
     mac_adaptive_ifs mac \<and> mac_ifs_min_val mac = IFS_MIN \<and> mac_ifs_max_val mac = IFS_MAX \<and>
     mac_ifs_step_size mac = IFS_STEP \<and> mac_ifs_ratio mac = IFS_RATIO \<and>
     mac_current_ifs_val mac \<in> {0, 40, 50, 60, 70, 80} \<and>
     (\<not> mac_in_ifs_mode mac \<longrightarrow> mac_current_ifs_val mac = 0) \<and>
     last_write (Csr E1000_AIT) (hw_log s) = Some (ucast (mac_current_ifs_val mac)))"

lemma last_write_arb: "list_all arb_event es \<Longrightarrow> last_write a (rev es @ l) = last_write a l"
  by (rule last_write_skip) (auto simp: list_all_iff arb_event_def)

lemma ew32_last_write:
  "last_write a (hw_log (snd (run_state (ew32 r v) s))) = (if a = Csr r then Some v else last_write a (hw_log s))"
  "hw_mac (snd (run_state (ew32 r v) s)) = hw_mac s"
proof -
  obtain es where "run_state (ew32 r v) s = ((), after s (es @ [Wr (Csr r) v]))" "list_all arb_event es"
    by (rule run_ew32_arb)
  then show "last_write a (hw_log (snd (run_state (ew32 r v) s))) = (if a = Csr r then Some v else last_write a (hw_log s))"
    "hw_mac (snd (run_state (ew32 r v) s)) = hw_mac s"
    by (simp_all add: last_write_arb)
qed

lemma ifs_update_inv: "ifs_inv s \<Longrightarrow> ifs_inv (snd (run_state e1000e_update_adaptive s))"
  by (auto simp: ifs_inv_def e1000e_update_adaptive_def Let_def ew32_last_write case_prod_beta)

lemma ifs_reset_inv: "mac_adaptive_ifs (hw_mac s) \<Longrightarrow> ifs_inv (snd (run_state e1000e_reset_adaptive s))"
  by (simp add: ifs_inv_def e1000e_reset_adaptive_def Let_def ew32_last_write case_prod_beta)

lemma ifs_reach_inv: "ifs_reach s \<Longrightarrow> ifs_inv s"
proof (induction rule: ifs_reach.induct)
  case (reset s)
  then show ?case by (rule ifs_reset_inv)
next
  case (stats s c p)
  then show ?case by (simp add: ifs_inv_def Let_def)
next
  case (update s)
  then show ?case by (intro ifs_update_inv)
qed

text \<open>The adaptive spacing never leaves its steps. In every state reached from a reset by updates under arbitrary
statistics, the spacing is zero or one of 40, 50, 60, 70, 80; it is zero outside the mode; and the chip's
register was last written with exactly that value.\<close>

theorem ifs_reach_invariant:
  assumes "ifs_reach s"
  shows "mac_current_ifs_val (hw_mac s) \<in> {0, IFS_MIN, IFS_MIN + IFS_STEP, IFS_MIN + 2 * IFS_STEP,
       IFS_MIN + 3 * IFS_STEP, IFS_MAX} \<and>
     (\<not> mac_in_ifs_mode (hw_mac s) \<longrightarrow> mac_current_ifs_val (hw_mac s) = 0) \<and>
     last_write (Csr E1000_AIT) (hw_log s) = Some (ucast (mac_current_ifs_val (hw_mac s)))"
  using ifs_reach_inv [OF assms] by (auto simp: ifs_inv_def Let_def)

theorem ifs_reach_invariant_witness:
  "last_write (Csr E1000_AIT) (hw_log (snd (run_state e1000e_reset_adaptive (sample_hw keep_dev)))) =
     Some (ucast (mac_current_ifs_val (hw_mac (snd (run_state e1000e_reset_adaptive (sample_hw keep_dev))))))"
  using ifs_reach_invariant [OF ifs_reach.reset [of "sample_hw keep_dev"]] by (simp add: sample_mac_def)

text \<open>One round of the watchdog: the statistics, then the update.\<close>

definition ifs_round :: "u32 \<Rightarrow> u32 \<Rightarrow> e1000_hw \<Rightarrow> e1000_hw" where
  "ifs_round c p s = snd (run_state e1000e_update_adaptive
     (s\<lparr>hw_mac := hw_mac s\<lparr>mac_collision_delta := c, mac_tx_packet_delta := p\<rparr>\<rparr>))"

definition congested :: "u32 \<Rightarrow> u32 \<Rightarrow> bool" where
  "congested c p \<longleftrightarrow> c * IFS_RATIO > p \<and> p > MIN_NUM_XMITS"

definition next_ifs :: "u16 \<Rightarrow> u16" where
  "next_ifs v = (if v < 80 then if v = 0 then 40 else v + 10 else v)"

lemma ifs_round_inv: "ifs_inv s \<Longrightarrow> ifs_inv (ifs_round c p s)"
  unfolding ifs_round_def by (rule ifs_update_inv) (simp add: ifs_inv_def Let_def)

lemma congested_round:
  assumes "ifs_inv s" and "congested c p"
  shows "mac_current_ifs_val (hw_mac (ifs_round c p s)) = next_ifs (mac_current_ifs_val (hw_mac s))"
  using assms by (auto simp: ifs_round_def ifs_inv_def congested_def next_ifs_def e1000e_update_adaptive_def
      Let_def ew32_last_write case_prod_beta)

lemma congested_rounds:
  assumes "ifs_inv s" and "congested c p"
  shows "ifs_inv ((ifs_round c p ^^ n) s) \<and> mac_current_ifs_val (hw_mac ((ifs_round c p ^^ n) s)) =
     (next_ifs ^^ n) (mac_current_ifs_val (hw_mac s))"
  using assms by (induction n) (simp_all add: congested_round ifs_round_inv)

lemma next_ifs_fixed: "(next_ifs ^^ n) 80 = 80"
  by (induction n) (simp_all add: next_ifs_def)

lemma quiet_round:
  assumes "ifs_inv s" and "c * IFS_RATIO \<le> p" and "p \<le> MIN_NUM_XMITS" and "mac_in_ifs_mode (hw_mac s)"
  shows "mac_current_ifs_val (hw_mac (ifs_round c p s)) = 0 \<and> \<not> mac_in_ifs_mode (hw_mac (ifs_round c p s))"
proof -
  have "mac_adaptive_ifs (hw_mac s)" "mac_ifs_ratio (hw_mac s) = 4" using assms(1) by (simp_all add: ifs_inv_def Let_def)
  then show ?thesis
    using assms(2-4) by (simp add: ifs_round_def e1000e_update_adaptive_def Let_def ew32_last_write
        case_prod_beta not_less)
qed

text \<open>Congestion is answered in bounded time. From every reachable state, five rounds of congested statistics
bring the spacing to its largest value, where it stays as long as the congestion lasts; and then a single
quiet round takes it back to zero and out of the mode.\<close>

theorem ifs_saturates:
  assumes "ifs_reach s" and "congested c p" and "5 \<le> n"
    and "c' * IFS_RATIO \<le> p'" and "p' \<le> MIN_NUM_XMITS"
  defines "t \<equiv> (ifs_round c p ^^ n) s"
  shows "mac_current_ifs_val (hw_mac t) = IFS_MAX \<and> mac_current_ifs_val (hw_mac (ifs_round c' p' t)) = 0 \<and>
    \<not> mac_in_ifs_mode (hw_mac (ifs_round c' p' t))"
proof -
  have inv: "ifs_inv s" using assms(1) by (rule ifs_reach_inv)
  have v: "mac_current_ifs_val (hw_mac s) \<in> {0, 40, 50, 60, 70, 80}"
    using inv by (simp add: ifs_inv_def Let_def)
  have five: "(next_ifs ^^ 5) v = 80" if "v \<in> {0, 40, 50, 60, 70, 80}" for v
  proof -
    have s: "(5::nat) = Suc (Suc (Suc (Suc (Suc 0))))" by simp
    show ?thesis using that unfolding s by (auto simp: next_ifs_def)
  qed
  obtain m where n: "n = m + 5" using assms(3) by (metis add.commute le_iff_add)
  have cur: "mac_current_ifs_val (hw_mac t) = 80"
    using congested_rounds [OF inv assms(2), of n] five [OF v]
    by (simp add: t_def n funpow_add next_ifs_fixed)
  have t: "ifs_inv t" using congested_rounds [OF inv assms(2), of n] by (simp add: t_def)
  then have "mac_in_ifs_mode (hw_mac t)" using cur by (auto simp: ifs_inv_def Let_def)
  then show ?thesis
    using cur quiet_round [OF t assms(4,5)] by simp
qed

theorem ifs_saturates_witness:
  "mac_current_ifs_val (hw_mac ((ifs_round 1000 2000 ^^ 5) (snd (run_state e1000e_reset_adaptive (sample_hw keep_dev))))) = 80"
proof -
  have "ifs_reach (snd (run_state e1000e_reset_adaptive (sample_hw keep_dev)))"
    by (rule ifs_reach.reset) (simp add: sample_mac_def)
  moreover have "congested 1000 2000" by (simp add: congested_def)
  ultimately show ?thesis using ifs_saturates [of _ 1000 2000 5 0 0] by simp
qed

subsection \<open>The station address\<close>

text \<open>A chip that keeps its first receive address: a read returns what was last written.\<close>

definition rar_chip :: "(event list \<Rightarrow> access \<Rightarrow> u32) \<Rightarrow> bool" where
  "rar_chip dev \<longleftrightarrow> (\<forall>log v a. a \<in> {Csr (E1000_RAL 0), Csr (E1000_RAH 0)} \<longrightarrow> last_write a log = Some v \<longrightarrow> dev log a = v)"

lemma rar_bytes:
  assumes "length addr = 6"
  shows "map (byte_of (rar_low_of addr)) [0..<4] @ map (byte_of (rar_high_of addr)) [0..<2] = addr"
proof -
  obtain a b c d e f where addr: "addr = [a, b, c, d, e, f]"
    using assms by (auto simp: length_Suc_conv eval_nat_numeral)
  have av: "(E1000_RAH_AV :: u32) = 2 ^ 31" by simp
  note b = bit_byte_of bit_or_iff bit_push_bit_iff bit_unsigned_iff bit_exp_iff
  have "byte_of (rar_low_of addr) 0 = a" "byte_of (rar_low_of addr) 1 = b"
    "byte_of (rar_low_of addr) 2 = c" "byte_of (rar_low_of addr) 3 = d"
    unfolding addr rar_low_of_def
    by (rule bit_word_eqI; simp only: b; auto dest: bit_imp_le_length)+
  moreover have "byte_of (rar_high_of addr) 0 = e" "byte_of (rar_high_of addr) 1 = f"
    unfolding addr rar_high_of_def av Let_def
    by (rule bit_word_eqI; simp only: b if_distrib [of "\<lambda>w. bit w _"]; auto dest: bit_imp_le_length split: if_splits)+
  ultimately show ?thesis by (simp add: addr upt_rec numeral_2_eq_2 numeral_3_eq_3)
qed

text \<open>The station address survives the chip. On a chip that keeps its receive-address registers, setting
entry 0 to any six bytes, in any state, and then reading the MAC address gives those six bytes as the current and
the permanent address, and both calls succeed.\<close>

theorem rar_set_read_mac:
  assumes "rar_chip (hw_dev s)" and "length addr = 6"
  shows "\<exists>t u. run_state (e1000e_rar_set_generic addr 0) s = (0, t) \<and>
     run_state e1000_read_mac_addr_generic t = (0, u) \<and>
     mac_addr (hw_mac u) = addr \<and> mac_perm_addr (hw_mac u) = addr"
proof -
  let ?lo = "Csr (E1000_RAL 0)" and ?hi = "Csr (E1000_RAH 0)"
  obtain es where e: "run_state (ew32 (E1000_RAL 0) (rar_low_of addr)) s = ((), after s (es @ [Wr ?lo (rar_low_of addr)]))"
    "list_all arb_event es" by (rule run_ew32_arb)
  let ?v = "hw_dev s (rev (es @ [Wr ?lo (rar_low_of addr)]) @ hw_log s) (Csr E1000_STATUS)"
  let ?s = "after s (es @ [Wr ?lo (rar_low_of addr), Rd (Csr E1000_STATUS) ?v])"
  obtain fs where f: "run_state (ew32 (E1000_RAH 0) (rar_high_of addr)) ?s = ((), after ?s (fs @ [Wr ?hi (rar_high_of addr)]))"
    "list_all arb_event fs" by (rule run_ew32_arb)
  let ?w = "hw_dev s (rev (fs @ [Wr ?hi (rar_high_of addr)]) @ hw_log ?s) (Csr E1000_STATUS)"
  let ?t = "after ?s (fs @ [Wr ?hi (rar_high_of addr), Rd (Csr E1000_STATUS) ?w])"
  have set: "run_state (e1000e_rar_set_generic addr 0) s = (0, ?t)"
    using e(1) f(1) by (simp add: e1000e_rar_set_generic_def rar_write_pair_def)
  have lw: "last_write ?hi (hw_log ?t) = Some (rar_high_of addr)" "last_write ?lo (hw_log ?t) = Some (rar_low_of addr)"
    using last_write_arb [OF e(2)] last_write_arb [OF f(2)] by (simp_all add: E1000_RAL_def E1000_RAH_def)
  have rd: "hw_dev s (hw_log ?t) ?hi = rar_high_of addr"
    "hw_dev s (Rd ?hi (rar_high_of addr) # hw_log ?t) ?lo = rar_low_of addr"
    using assms(1) lw unfolding rar_chip_def by simp_all
  have "\<exists>u. run_state e1000_read_mac_addr_generic ?t = (0, u) \<and>
     mac_addr (hw_mac u) = addr \<and> mac_perm_addr (hw_mac u) = addr"
    using rd rar_bytes [OF assms(2)] by (simp add: e1000_read_mac_addr_generic_def Let_def)
  then show ?thesis using set by blast
qed

theorem rar_set_read_mac_witness:
  "\<exists>t u. run_state (e1000e_rar_set_generic [2, 0, 0, 0, 0, 1] 0) (sample_hw keep_dev) = (0, t) \<and>
     run_state e1000_read_mac_addr_generic t = (0, u) \<and> mac_addr (hw_mac u) = [2, 0, 0, 0, 0, 1]"
  using rar_set_read_mac [of "sample_hw keep_dev" "[2, 0, 0, 0, 0, 1]"]
  by (force simp: rar_chip_def keep_dev_def)
end
