(* ===== verification/Manage.thy ===== *)
theory Manage
  imports Mac
begin

section \<open>The management host interface (manage.c)\<close>

text \<open>
  What \<open>src/IntelMausiEthernet/manage.c\<close> compiles: the checksum, the handshake with the management
  controller, the management mode, transmit packet filtering from the controller's cookie, and
  writing a DHCP command into the host interface RAM. A structure the source reads through a
  \<open>u8 *\<close> or \<open>u32 *\<close> is laid out here byte by byte, little endian as on every machine the
  extension runs on.
\<close>

subsection \<open>Bytes and words\<close>

definition le_word :: "u8 list \<Rightarrow> u32" where
  "le_word bs = ucast (bs ! 0) OR push_bit 8 (ucast (bs ! 1)) OR push_bit 16 (ucast (bs ! 2))
     OR push_bit 24 (ucast (bs ! 3))"

definition word_bytes :: "u32 \<Rightarrow> u8 list" where
  "word_bytes w = map (byte_of w) [0..<4]"

definition e1000_calculate_checksum :: "u8 list \<Rightarrow> nat \<Rightarrow> u8" where
  "e1000_calculate_checksum buffer len = 0 - sum_list (take len buffer)"

subsection \<open>Handshake and mode\<close>

primrec hicr_poll :: "nat \<Rightarrow> bool hwM" where
  "hicr_poll 0 = ret False"
| "hicr_poll (Suc n) = do {
     hicr \<leftarrow> er32 E1000_HICR;
     if hicr AND E1000_HICR_C = 0 then ret True
     else do { mdelay 1; hicr_poll n } }"

definition e1000_mng_enable_host_if :: "s32 hwM" where
  "e1000_mng_enable_host_if = do {
     valid \<leftarrow> gets (\<lambda>s. mac_arc_subsystem_valid (hw_mac s));
     if \<not> valid then ret (- E1000_ERR_HOST_INTERFACE_COMMAND)
     else do {
       hicr \<leftarrow> er32 E1000_HICR;
       if hicr AND E1000_HICR_EN = 0 then ret (- E1000_ERR_HOST_INTERFACE_COMMAND)
       else do {
         ok \<leftarrow> hicr_poll E1000_MNG_DHCP_COMMAND_TIMEOUT;
         ret (if ok then 0 else - E1000_ERR_HOST_INTERFACE_COMMAND) } } }"

definition e1000e_check_mng_mode_generic :: "bool hwM" where
  "e1000e_check_mng_mode_generic = do {
     fwsm \<leftarrow> er32 E1000_FWSM;
     ret (fwsm AND E1000_FWSM_MODE_MASK = push_bit E1000_FWSM_MODE_SHIFT E1000_MNG_IAMT_MODE) }"

subsection \<open>Transmit packet filtering\<close>

text \<open>The cookie as the four words of the host interface RAM lay it out, and its bytes.\<close>

definition cookie_of_words :: "u32 list \<Rightarrow> e1000_host_mng_dhcp_cookie" where
  "cookie_of_words ws = \<lparr>cookie_signature = ws ! 0,
     cookie_status = byte_of (ws ! 1) 0, cookie_reserved0 = byte_of (ws ! 1) 1,
     cookie_vlan_id = ucast (drop_bit 16 (ws ! 1)), cookie_reserved1 = ws ! 2,
     cookie_reserved2 = ucast (ws ! 3), cookie_reserved3 = byte_of (ws ! 3) 2,
     cookie_checksum = byte_of (ws ! 3) 3\<rparr>"

definition cookie_bytes :: "e1000_host_mng_dhcp_cookie \<Rightarrow> u8 list" where
  "cookie_bytes c = word_bytes (cookie_signature c) @ [cookie_status c, cookie_reserved0 c]
     @ [byte_of (cookie_vlan_id c) 0, byte_of (cookie_vlan_id c) 1] @ word_bytes (cookie_reserved1 c)
     @ [byte_of (cookie_reserved2 c) 0, byte_of (cookie_reserved2 c) 1, cookie_reserved3 c,
        cookie_checksum c]"

primrec read_words :: "nat list \<Rightarrow> u32 \<Rightarrow> u32 list hwM" where
  "read_words [] offset = ret []"
| "read_words (i # is) offset = do {
     w \<leftarrow> read_reg_array E1000_HOST_IF (offset + word_of_nat i);
     ws \<leftarrow> read_words is offset;
     ret (w # ws) }"

definition set_tx_pkt_filtering :: "bool \<Rightarrow> bool hwM" where
  "set_tx_pkt_filtering b = do { set_mac (mac_tx_pkt_filtering_update (\<lambda>_. b)); ret b }"

definition e1000e_enable_tx_pkt_filtering :: "'m mac_operations_scheme \<Rightarrow> bool hwM" where
  "e1000e_enable_tx_pkt_filtering mops = do {
     set_tx_pkt_filtering True;
     mng \<leftarrow> op_check_mng_mode mops;
     if \<not> mng then set_tx_pkt_filtering False
     else do {
       ret_val \<leftarrow> e1000_mng_enable_host_if;
       if ret_val \<noteq> 0 then set_tx_pkt_filtering False
       else do {
         ws \<leftarrow> read_words [0..<4] (E1000_MNG_DHCP_COOKIE_OFFSET div 4);
         let hdr = cookie_of_words ws;
         let hdr_csum = cookie_checksum hdr;
         let hdr = hdr\<lparr>cookie_checksum := 0\<rparr>;
         modify (hw_mng_cookie_update (\<lambda>_. hdr));
         let csum = e1000_calculate_checksum (cookie_bytes hdr) E1000_MNG_DHCP_COOKIE_LENGTH;
         if hdr_csum \<noteq> csum \<or> cookie_signature hdr \<noteq> E1000_IAMT_SIGNATURE
         then set_tx_pkt_filtering True
         else if cookie_status hdr AND E1000_MNG_DHCP_COOKIE_STATUS_PARSING = 0
         then set_tx_pkt_filtering False
         else gets (\<lambda>s. mac_tx_pkt_filtering (hw_mac s)) } } }"

subsection \<open>Writing a command\<close>

record e1000_host_mng_command_header =
  hdr_command_id :: u8
  hdr_checksum :: u8
  hdr_reserved1 :: u16
  hdr_reserved2 :: u16
  hdr_command_length :: u16

definition hdr_bytes :: "e1000_host_mng_command_header \<Rightarrow> u8 list" where
  "hdr_bytes h = [hdr_command_id h, hdr_checksum h,
     byte_of (hdr_reserved1 h) 0, byte_of (hdr_reserved1 h) 1,
     byte_of (hdr_reserved2 h) 0, byte_of (hdr_reserved2 h) 1,
     byte_of (hdr_command_length h) 0, byte_of (hdr_command_length h) 1]"

definition e1000_mng_write_cmd_header :: "e1000_host_mng_command_header \<Rightarrow> s32 hwM" where
  "e1000_mng_write_cmd_header hdr = do {
     let hdr = hdr\<lparr>hdr_checksum := e1000_calculate_checksum (hdr_bytes hdr) 8\<rparr>;
     for_each [0..<2] (\<lambda>i. do {
       write_reg_array E1000_HOST_IF (word_of_nat i) (le_word (take 4 (drop (4 * i) (hdr_bytes hdr))));
       e1e_flush });
     ret 0 }"

text \<open>
  The loop over whole words: \<open>bufptr\<close> is the rest of the buffer, \<open>n\<close> the words left; the results
  are the sum and what is left of the buffer.
\<close>

primrec host_if_words :: "nat \<Rightarrow> u32 \<Rightarrow> u8 list \<Rightarrow> u8 \<Rightarrow> (u8 \<times> u8 list) hwM" where
  "host_if_words 0 offset bufptr acc = ret (acc, bufptr)"
| "host_if_words (Suc n) offset bufptr acc = do {
     write_reg_array E1000_HOST_IF offset (le_word (take 4 bufptr));
     host_if_words n (offset + 1) (drop 4 bufptr) (acc + sum_list (take 4 bufptr)) }"

text \<open>
  \<open>length\<close> and \<open>offset\<close> are \<open>u16\<close>: \<open>length -= j - prev_bytes\<close> wraps when an unaligned write is
  shorter than the rest of its first word; the reads past the buffer that follow are undefined in C.
\<close>

definition e1000_mng_host_if_write :: "u8 list \<Rightarrow> u16 \<Rightarrow> u16 \<Rightarrow> u8 \<Rightarrow> (s32 \<times> u8) hwM" where
  "e1000_mng_host_if_write buffer len offset acc =
     (if len = 0 \<or> uint offset + uint len > E1000_HI_MAX_MNG_DATA_LENGTH
      then ret (- E1000_ERR_PARAM, acc)
      else do {
        let prev_bytes = unat (offset AND 0x3);
        let offset = (ucast (drop_bit 2 offset) :: u32);
        w \<leftarrow> (if prev_bytes \<noteq> 0 then do {
            data \<leftarrow> read_reg_array E1000_HOST_IF offset;
            let new = take (4 - prev_bytes) buffer;
            write_reg_array E1000_HOST_IF offset (le_word (take prev_bytes (word_bytes data) @ new));
            ret (drop (4 - prev_bytes) buffer, len - word_of_nat (4 - prev_bytes), offset + 1,
              acc + sum_list new) }
          else ret (buffer, len, offset, acc));
        let (bufptr, len, offset, acc) = w;
        let remaining = unat (len AND 0x3);
        let n = unat (drop_bit 2 (len - word_of_nat remaining));
        r \<leftarrow> host_if_words n offset bufptr acc;
        let (acc, bufptr) = r;
        if remaining \<noteq> 0 then do {
          let bytes = take remaining bufptr @ replicate (4 - remaining) 0;
          write_reg_array E1000_HOST_IF (offset + word_of_nat n) (le_word bytes);
          ret (0, acc + sum_list bytes) }
        else ret (0, acc) })"

definition e1000e_mng_write_dhcp_info :: "u8 list \<Rightarrow> u16 \<Rightarrow> s32 hwM" where
  "e1000e_mng_write_dhcp_info buffer len = do {
     let hdr = \<lparr>hdr_command_id = E1000_MNG_DHCP_TX_PAYLOAD_CMD, hdr_checksum = 0,
       hdr_reserved1 = 0, hdr_reserved2 = 0, hdr_command_length = len\<rparr>;
     ret_val \<leftarrow> e1000_mng_enable_host_if;
     if ret_val \<noteq> 0 then ret ret_val
     else do {
       r \<leftarrow> e1000_mng_host_if_write buffer len 8 (hdr_checksum hdr);
       if fst r \<noteq> 0 then ret (fst r)
       else do {
         ret_val \<leftarrow> e1000_mng_write_cmd_header (hdr\<lparr>hdr_checksum := snd r\<rparr>);
         if ret_val \<noteq> 0 then ret ret_val
         else do {
           hicr \<leftarrow> er32 E1000_HICR;
           ew32 E1000_HICR (hicr OR E1000_HICR_C);
           ret 0 } } } }"

end
