(* ===== verification/ManageProps.thy ===== *)
theory ManageProps
  imports MacProps Manage
begin

section \<open>Correctness of the management interface\<close>

text \<open>
  How bytes and words of the host interface RAM correspond, and what a DHCP command writes:
  payload, header, hand-over, in this order, with a zero checksum.
\<close>

subsection \<open>Bytes in the host interface RAM\<close>

lemma word_bytes_le_word:
  assumes "length bs = 4"
  shows "word_bytes (le_word bs) = bs"
proof -
  obtain a b c d where bs: "bs = [a, b, c, d]"
    using assms by (auto simp: length_Suc_conv eval_nat_numeral)
  note b = bit_byte_of bit_or_iff bit_push_bit_iff bit_unsigned_iff
  have "byte_of (le_word bs) 0 = a" "byte_of (le_word bs) 1 = b"
    "byte_of (le_word bs) 2 = c" "byte_of (le_word bs) 3 = d"
    unfolding bs le_word_def
    by (rule bit_word_eqI; simp only: b list.sel nth_Cons_0 nth_Cons_numeral nth_Cons_Suc; auto dest: bit_imp_le_length)+
  then show ?thesis by (simp add: bs word_bytes_def upt_rec numeral_2_eq_2 numeral_3_eq_3)
qed

text \<open>The writes of consecutive words from an index on.\<close>

definition host_reg :: "u32 \<Rightarrow> access" where
  "host_reg i = Csr (E1000_HOST_IF + push_bit 2 i)"

definition host_writes :: "u32 \<Rightarrow> u32 list \<Rightarrow> event list" where
  "host_writes i ws = map (\<lambda>k. Wr (host_reg (i + word_of_nat k)) (ws ! k)) [0..<length ws]"

definition words_of :: "u8 list \<Rightarrow> u32 list" where
  "words_of bs = map (\<lambda>k. le_word (take 4 (drop (4 * k) bs))) [0..<length bs div 4]"

lemma host_writes_Cons: "host_writes i (w # ws) = Wr (host_reg i) w # host_writes (i + 1) ws"
  by (simp add: host_writes_def upt_conv_Cons map_Suc_upt [symmetric] algebra_simps del: upt_Suc)

lemma host_writes_append: "host_writes i (vs @ [w]) = host_writes i vs @ [Wr (host_reg (i + word_of_nat (length vs))) w]"
  by (simp add: host_writes_def nth_append)

lemma words_of_Nil: "words_of [] = []"
  by (simp add: words_of_def)

lemma words_of_step: "length bs \<ge> 4 \<Longrightarrow> words_of bs = le_word (take 4 bs) # words_of (drop 4 bs)"
proof -
  assume l: "length bs \<ge> 4"
  then have "length bs div 4 = Suc ((length bs - 4) div 4)" by simp
  then show ?thesis
    by (simp add: words_of_def upt_conv_Cons map_Suc_upt [symmetric] add.commute del: upt_Suc)
qed

lemma words_of_bytes: "length bs = 4 * n \<Longrightarrow> concat (map word_bytes (words_of bs)) = bs"
proof (induction n arbitrary: bs)
  case 0
  then show ?case by (simp add: words_of_Nil)
next
  case (Suc n)
  then show ?case by (simp add: words_of_step word_bytes_le_word)
qed

lemma host_if_words_run:
  assumes "4 * n \<le> length buf"
  shows "run_state (host_if_words n offset buf acc) s =
    ((acc + sum_list (take (4 * n) buf), drop (4 * n) buf), after s (host_writes offset (words_of (take (4 * n) buf))))"
  using assms
proof (induction n arbitrary: offset buf acc s)
  case 0
  then show ?case by (simp add: words_of_Nil host_writes_def)
next
  case (Suc n)
  have t: "take (4 * n + 4) buf = take 4 buf @ take (4 * n) (drop 4 buf)"
    using take_add [of 4 "4 * n" buf] by (simp add: add.commute)
  have "words_of (take (4 + 4 * n) buf) = le_word (take 4 buf) # words_of (take (4 * n) (drop 4 buf))"
    using Suc.prems by (simp add: words_of_step take_drop add.commute)
  then show ?case
    using Suc.prems by (simp add: Suc.IH host_writes_Cons t add.assoc host_reg_def add.commute [of 4])
qed

text \<open>The payload, padded with zeros to whole words.\<close>

definition padded :: "u8 list \<Rightarrow> u8 list" where
  "padded bs = bs @ replicate ((4 - length bs mod 4) mod 4) 0"

lemma padded_len: "length (padded bs) mod 4 = 0"
proof -
  let ?r = "length bs mod 4"
  have "?r \<in> {0, 1, 2, 3}" by auto
  then have "(?r + (4 - ?r) mod 4) mod 4 = 0" by auto
  then show ?thesis by (simp add: padded_def mod_add_left_eq)
qed

lemma words_of_snoc:
  assumes "length xs = 4 * n" and "length ys = 4"
  shows "words_of (xs @ ys) = words_of xs @ [le_word ys]"
  using assms(1)
proof (induction n arbitrary: xs)
  case 0
  then show ?case using assms(2) by (simp add: words_of_step words_of_Nil)
next
  case (Suc n)
  then have l: "length xs \<ge> 4" "length (drop 4 xs) = 4 * n" by simp_all
  have "words_of (xs @ ys) = le_word (take 4 xs) # words_of (drop 4 xs @ ys)"
    using words_of_step [of "xs @ ys"] l(1) by simp
  then show ?case using words_of_step [OF l(1)] Suc.IH [OF l(2)] by simp
qed

lemma length_words_of: "length (words_of bs) = length bs div 4"
  by (simp add: words_of_def)

lemma sum_list_zeros: "sum_list (replicate n (0 :: u8)) = 0"
  by (induction n) simp_all

lemma host_if_write_run:
  assumes len: "len \<noteq> 0" "8 + uint len \<le> E1000_HI_MAX_MNG_DATA_LENGTH" and buf: "unat len \<le> length buffer"
  shows "run_state (e1000_mng_host_if_write buffer len 8 acc) s =
    ((0, acc + sum_list (take (unat len) buffer)), after s (host_writes 2 (words_of (padded (take (unat len) buffer)))))"
proof -
  let ?l = "unat len" let ?rem = "?l mod 4" let ?n = "?l div 4"
  have three: "(0x3 :: u16) = mask 2" by (simp add: mask_eq_exp_minus_1)
  have rem: "unat (len AND 0x3) = ?rem"
    unfolding three take_bit_eq_mask [symmetric] unsigned_take_bit_eq by (simp add: take_bit_eq_mod)
  have "unat (len - (len AND 0x3)) = ?l - ?rem"
    using unat_sub [of "len AND 0x3" len] rem by (simp add: word_and_le1 word_and_le2)
  then have n: "unat (drop_bit 2 (len - (len AND 0x3))) = ?n"
    unfolding unat_drop_bit_eq by (simp add: drop_bit_eq_div [where ?'a = nat] minus_mod_eq_mult_div)
  have r16: "word_of_nat ?rem = (len AND 0x3)" by (simp flip: rem)
  have nn: "(ucast (drop_bit 2 (len - (len AND 0x3))) :: u32) = word_of_nat ?n" by (simp flip: n)
  have w: "run_state (host_if_words ?n 2 buffer acc) s =
    ((acc + sum_list (take (4 * ?n) buffer), drop (4 * ?n) buffer), after s (host_writes 2 (words_of (take (4 * ?n) buffer))))"
    by (rule host_if_words_run) (use buf in linarith)
  have qr: "4 * ?n + ?rem = ?l" by (rule mult_div_mod_eq)
  have split: "take ?l buffer = take (4 * ?n) buffer @ take ?rem (drop (4 * ?n) buffer)"
    using take_add [of "4 * ?n" ?rem buffer] by simp
  have four: "drop_bit 2 (8 :: u16) = 2" "(8 :: u16) AND 0x3 = 0" by simp_all
  show ?thesis
  proof (cases "?rem = 0")
    case True
    then have "4 * ?n = ?l" by presburger
    then have "padded (take ?l buffer) = take (4 * ?n) buffer" using buf True by (simp add: padded_def min_def)
    then show ?thesis
      using w True len by (simp add: e1000_mng_host_if_write_def rem n r16 nn four Let_def split)
  next
    case False
    let ?last = "take ?rem (drop (4 * ?n) buffer) @ replicate (4 - ?rem) 0"
    have lens: "length (take (4 * ?n) buffer) = 4 * ?n" "length ?last = 4"
      using buf False by (auto simp: min_def) (use qr in linarith)
    have "padded (take ?l buffer) = take (4 * ?n) buffer @ ?last"
    proof -
      have "padded (take ?l buffer) = take ?l buffer @ replicate (4 - ?rem) 0"
        using buf False by (simp add: padded_def min_absorb2)
      then show ?thesis unfolding split by simp
    qed
    then have "host_writes 2 (words_of (padded (take ?l buffer))) =
        host_writes 2 (words_of (take (4 * ?n) buffer)) @ [Wr (host_reg (2 + word_of_nat ?n)) (le_word ?last)]"
      using words_of_snoc [OF lens] lens(1) by (simp add: host_writes_append length_words_of)
    then show ?thesis
      using w False len by (simp add: e1000_mng_host_if_write_def rem n r16 nn four Let_def split host_reg_def
          sum_list_zeros add.assoc)
  qed
qed

subsection \<open>Checksums\<close>

text \<open>What the checksum is for: with it in place the bytes add up to zero.\<close>

lemma checksum_sum: "sum_list (take n bs) + e1000_calculate_checksum bs n = 0"
  by (simp add: e1000_calculate_checksum_def)

lemma hdr_bytes_sum:
  "sum_list (hdr_bytes (h\<lparr>hdr_checksum := e1000_calculate_checksum (hdr_bytes h) 8\<rparr>)) + hdr_checksum h = 0"
  by (simp add: hdr_bytes_def e1000_calculate_checksum_def)

lemma hdr_words: "concat (map word_bytes (words_of (hdr_bytes h))) = hdr_bytes h"
  by (rule words_of_bytes [of _ 2]) (simp add: hdr_bytes_def)

text \<open>No write at all.\<close>

definition no_wr :: "event \<Rightarrow> bool" where
  "no_wr e = (case e of Wr a v \<Rightarrow> False | _ \<Rightarrow> True)"

lemma no_wr_simps [simp]:
  "no_wr (Rd a v)" "no_wr (IODelay n)" "no_wr (IOSleep n)" "\<not> no_wr (Wr a v)"
  by (simp_all add: no_wr_def)

lemma mng_enable_quiet: "keeps (allowed no_wr) e1000_mng_enable_host_if"
proof -
  have "keeps (allowed no_wr) (hicr_poll n)" for n
    by (induction n) (auto intro!: allowed_intros)
  then show ?thesis unfolding e1000_mng_enable_host_if_def by (intro allowed_intros) auto
qed

lemma allowed_run:
  assumes "keeps (allowed P) m"
  obtains x es where "run_state m s = (x, after s es)" "list_all P es"
proof -
  obtain es where "snd (run_state m s) = s\<lparr>hw_log := es @ hw_log s\<rparr>" "list_all P es"
    using keeps_run [OF assms, of s] by (auto simp: allowed_def)
  then show ?thesis
    by (intro that [of "fst (run_state m s)" "rev es"]) (simp_all add: after_def prod_eq_iff)
qed

lemma cmd_header_run:
  obtains v w where "run_state (e1000_mng_write_cmd_header h) s = (0, after s
    [Wr (host_reg 0) (words_of (hdr_bytes (h\<lparr>hdr_checksum := e1000_calculate_checksum (hdr_bytes h) 8\<rparr>)) ! 0), Rd (Csr E1000_STATUS) v,
     Wr (host_reg 1) (words_of (hdr_bytes (h\<lparr>hdr_checksum := e1000_calculate_checksum (hdr_bytes h) 8\<rparr>)) ! 1), Rd (Csr E1000_STATUS) w])"
proof -
  let ?h = "h\<lparr>hdr_checksum := e1000_calculate_checksum (hdr_bytes h) 8\<rparr>"
  have "words_of (hdr_bytes ?h) ! 0 = le_word (take 4 (drop (4 * 0) (hdr_bytes ?h)))"
    "words_of (hdr_bytes ?h) ! 1 = le_word (take 4 (drop (4 * 1) (hdr_bytes ?h)))"
    by (simp_all only: words_of_def) (simp_all add: hdr_bytes_def)
  moreover have "[0..<2] = [0, 1 :: nat]" by (simp add: upt_rec)
  ultimately show ?thesis
    by (intro that) (simp add: e1000_mng_write_cmd_header_def Let_def host_reg_def)
qed

text \<open>The header written for a payload whose bytes add up to \<open>acc\<close>.\<close>

definition dhcp_header :: "u16 \<Rightarrow> u8 \<Rightarrow> e1000_host_mng_command_header" where
  "dhcp_header len acc = (let h = \<lparr>hdr_command_id = E1000_MNG_DHCP_TX_PAYLOAD_CMD, hdr_checksum = acc,
       hdr_reserved1 = 0, hdr_reserved2 = 0, hdr_command_length = len\<rparr>
     in h\<lparr>hdr_checksum := e1000_calculate_checksum (hdr_bytes h) 8\<rparr>)"

lemma dhcp_header_bytes:
  "sum_list (hdr_bytes (dhcp_header len acc)) + acc = 0"
  "hdr_bytes (dhcp_header len acc) ! 0 = E1000_MNG_DHCP_TX_PAYLOAD_CMD"
  "drop 6 (hdr_bytes (dhcp_header len acc)) = [byte_of len 0, byte_of len 1]"
  by (simp_all add: dhcp_header_def Let_def hdr_bytes_def e1000_calculate_checksum_def)

lemma dhcp_run:
  assumes buf: "unat len \<le> length buffer"
  obtains (failed) r es where "r \<noteq> 0" "run_state (e1000e_mng_write_dhcp_info buffer len) s = (r, after s es)" "list_all no_wr es"
  | (sent) es v w c fs where "list_all no_wr es" "list_all arb_event fs"
    "run_state (e1000e_mng_write_dhcp_info buffer len) s = (0, after s
      (es @ host_writes 2 (words_of (padded (take (unat len) buffer))) @
       [Wr (host_reg 0) (words_of (hdr_bytes (dhcp_header len (sum_list (take (unat len) buffer)))) ! 0), Rd (Csr E1000_STATUS) v,
        Wr (host_reg 1) (words_of (hdr_bytes (dhcp_header len (sum_list (take (unat len) buffer)))) ! 1), Rd (Csr E1000_STATUS) w,
        Rd (Csr E1000_HICR) c] @ fs @ [Wr (Csr E1000_HICR) (c OR E1000_HICR_C)]))"
proof -
  obtain r es where e: "run_state e1000_mng_enable_host_if s = (r, after s es)" "list_all no_wr es"
    by (rule allowed_run [OF mng_enable_quiet])
  show ?thesis
  proof (cases "r = 0 \<and> len \<noteq> 0 \<and> 8 + uint len \<le> E1000_HI_MAX_MNG_DATA_LENGTH")
    case False
    then have "\<exists>q. q \<noteq> 0 \<and> run_state (e1000e_mng_write_dhcp_info buffer len) s = (q, after s es)"
      using e(1) by (cases "r = 0") (auto simp: e1000e_mng_write_dhcp_info_def e1000_mng_host_if_write_def Let_def)
    then show ?thesis using e(2) failed by blast
  next
    case True
    let ?acc = "sum_list (take (unat len) buffer)"
    let ?p = "host_writes 2 (words_of (padded (take (unat len) buffer)))"
    let ?s = "after (after s es) ?p"
    have w: "run_state (e1000_mng_host_if_write buffer len 8 0) (after s es) = ((0, ?acc), ?s)"
      using host_if_write_run [of len buffer 0 "after s es"] True buf by simp
    let ?h = "\<lparr>hdr_command_id = E1000_MNG_DHCP_TX_PAYLOAD_CMD, hdr_checksum = ?acc,
       hdr_reserved1 = 0, hdr_reserved2 = 0, hdr_command_length = len\<rparr>"
    have hd: "?h\<lparr>hdr_checksum := e1000_calculate_checksum (hdr_bytes ?h) 8\<rparr> = dhcp_header len ?acc"
      by (simp add: dhcp_header_def Let_def)
    obtain a b where h: "run_state (e1000_mng_write_cmd_header ?h) ?s = (0, after ?s
      [Wr (host_reg 0) (words_of (hdr_bytes (dhcp_header len ?acc)) ! 0), Rd (Csr E1000_STATUS) a,
       Wr (host_reg 1) (words_of (hdr_bytes (dhcp_header len ?acc)) ! 1), Rd (Csr E1000_STATUS) b])"
      using cmd_header_run [of ?h ?s] unfolding hd by metis
    let ?t = "after ?s [Wr (host_reg 0) (words_of (hdr_bytes (dhcp_header len ?acc)) ! 0), Rd (Csr E1000_STATUS) a,
       Wr (host_reg 1) (words_of (hdr_bytes (dhcp_header len ?acc)) ! 1), Rd (Csr E1000_STATUS) b]"
    let ?c = "hw_dev ?t (hw_log ?t) (Csr E1000_HICR)"
    obtain fs where f: "run_state (ew32 E1000_HICR (?c OR E1000_HICR_C)) (after ?t [Rd (Csr E1000_HICR) ?c]) =
        ((), after (after ?t [Rd (Csr E1000_HICR) ?c]) (fs @ [Wr (Csr E1000_HICR) (?c OR E1000_HICR_C)]))"
      "list_all arb_event fs" by (rule run_ew32_arb)
    have "run_state (e1000e_mng_write_dhcp_info buffer len) s =
        (0, after (after ?t [Rd (Csr E1000_HICR) ?c]) (fs @ [Wr (Csr E1000_HICR) (?c OR E1000_HICR_C)]))"
      unfolding e1000e_mng_write_dhcp_info_def Let_def
      using e(1) True w h f(1) by simp
    then show ?thesis using e(2) f(2) by (intro sent [of es fs a b ?c]) simp_all
  qed
qed

text \<open>C40: A DHCP command to the management controller. A call that fails writes nothing to the chip. One that succeeds
writes, in this order, the payload padded with zeros from word 2 of the host interface on, the two
words of the header, which carry the payload command and the length, and the bit that hands the command over; and
all bytes written, header and payload, add up to zero.\<close>

theorem mng_dhcp_correct:
  assumes "unat len \<le> length buffer" and "run_state (e1000e_mng_write_dhcp_info buffer len) s = (r, t)"
  shows "(r \<noteq> 0 \<longrightarrow> list_all no_wr (new_events s t)) \<and>
    (r = 0 \<longrightarrow> (\<exists>es payload h0 h1 v w c fs. list_all no_wr es \<and> list_all arb_event fs \<and>
       new_events s t = es @ host_writes 2 payload @
         [Wr (host_reg 0) h0, Rd (Csr E1000_STATUS) v, Wr (host_reg 1) h1, Rd (Csr E1000_STATUS) w,
          Rd (Csr E1000_HICR) c] @ fs @ [Wr (Csr E1000_HICR) (c OR E1000_HICR_C)] \<and>
       concat (map word_bytes payload) = padded (take (unat len) buffer) \<and>
       sum_list (concat (map word_bytes ([h0, h1] @ payload))) = 0 \<and>
       word_bytes h0 ! 0 = E1000_MNG_DHCP_TX_PAYLOAD_CMD \<and>
       drop 2 (word_bytes h1) = [byte_of len 0, byte_of len 1]))"
  using assms(1)
proof (cases rule: dhcp_run [of len buffer s])
  case (failed q es)
  then show ?thesis using assms(2) by simp
next
  case (sent es v w c fs)
  let ?acc = "sum_list (take (unat len) buffer)"
  let ?h = "hdr_bytes (dhcp_header len ?acc)"
  obtain h0 h1 where h: "words_of ?h = [h0, h1]" "word_bytes h0 @ word_bytes h1 = ?h"
  proof -
    have "length (words_of ?h) = 2" by (simp add: length_words_of hdr_bytes_def)
    then obtain h0 h1 where "words_of ?h = [h0, h1]" by (auto simp: length_Suc_conv numeral_2_eq_2)
    with hdr_words [of "dhcp_header len ?acc"] show ?thesis by (intro that) auto
  qed
  have l: "length (word_bytes h0) = 4" by (simp add: word_bytes_def)
  obtain n where n: "length (padded (take (unat len) buffer)) = 4 * n"
    using padded_len [of "take (unat len) buffer"] by (auto simp: mod_eq_0_iff_dvd)
  have p: "concat (map word_bytes (words_of (padded (take (unat len) buffer)))) = padded (take (unat len) buffer)"
    by (rule words_of_bytes [OF n])
  have "sum_list (padded (take (unat len) buffer)) = ?acc" by (simp add: padded_def sum_list_zeros)
  then have "sum_list (concat (map word_bytes ([h0, h1] @ words_of (padded (take (unat len) buffer))))) = sum_list ?h + ?acc"
    by (simp add: p add.assoc flip: h(2))
  then have "sum_list (concat (map word_bytes ([h0, h1] @ words_of (padded (take (unat len) buffer))))) = 0"
    by (simp only: dhcp_header_bytes)
  moreover have "word_bytes h0 ! 0 = E1000_MNG_DHCP_TX_PAYLOAD_CMD" "drop 2 (word_bytes h1) = [byte_of len 0, byte_of len 1]"
    using dhcp_header_bytes(2,3) [of len ?acc] l unfolding h(2) [symmetric] by (simp_all add: nth_append)
  moreover have "r = 0" "new_events s t = es @ host_writes 2 (words_of (padded (take (unat len) buffer))) @
         [Wr (host_reg 0) h0, Rd (Csr E1000_STATUS) v, Wr (host_reg 1) h1, Rd (Csr E1000_STATUS) w,
          Rd (Csr E1000_HICR) c] @ fs @ [Wr (Csr E1000_HICR) (c OR E1000_HICR_C)]"
    using sent(3) assms(2) h(1) by auto
  ultimately show ?thesis using sent(1,2) p by blast
qed

definition sample_mng :: e1000_hw where
  "sample_mng = sample_hw (\<lambda>log a. if a = Csr E1000_HICR then E1000_HICR_EN else 0)
     \<lparr>hw_mac := sample_mac\<lparr>mac_arc_subsystem_valid := True\<rparr>\<rparr>"

lemma hicr_poll_first:
  "0 < n \<Longrightarrow> hw_dev s (hw_log s) (Csr E1000_HICR) AND E1000_HICR_C = 0 \<Longrightarrow>
     run_state (hicr_poll n) s = (True, after s [Rd (Csr E1000_HICR) (hw_dev s (hw_log s) (Csr E1000_HICR))])"
  by (cases n) simp_all

lemma sample_mng_ok: "fst (run_state (e1000e_mng_write_dhcp_info [1, 2, 3, 4, 5] 5) sample_mng) = 0"
proof -
  have "run_state e1000_mng_enable_host_if sample_mng = (0, after sample_mng [Rd (Csr E1000_HICR) 1, Rd (Csr E1000_HICR) 1])"
    by (simp add: e1000_mng_enable_host_if_def sample_mng_def hicr_poll_first del: One_nat_def)
  moreover have "run_state (e1000_mng_host_if_write [1, 2, 3, 4, 5] 5 8 0) s =
    ((0, 0 + sum_list (take (unat (5 :: u16)) [1, 2, 3, 4, 5])), after s (host_writes 2 (words_of (padded (take (unat (5 :: u16)) [1, 2, 3, 4, 5])))))" for s
    by (rule host_if_write_run) simp_all
  moreover have "fst (run_state (e1000_mng_write_cmd_header h) s) = 0" for h s
    by (rule cmd_header_run [of h s]) simp
  ultimately show ?thesis
    unfolding e1000e_mng_write_dhcp_info_def Let_def by (simp add: case_prod_beta)
qed

theorem mng_dhcp_correct_witness:
  "\<exists>payload. concat (map word_bytes payload) = [1, 2, 3, 4, 5, 0, 0, 0] \<and>
     (\<exists>h0 h1. sum_list (concat (map word_bytes ([h0, h1] @ payload))) = 0 \<and> word_bytes h0 ! 0 = 64)"
proof -
  obtain r t where r: "run_state (e1000e_mng_write_dhcp_info [1, 2, 3, 4, 5] 5) sample_mng = (r, t)" by fastforce
  then have r0: "r = 0" using sample_mng_ok by simp
  have p: "padded (take (unat (5 :: u16)) [1, 2, 3, 4, 5]) = [1, 2, 3, 4, 5, 0, 0, 0]"
  proof -
    have "unat (5 :: u16) = 5" "replicate 3 (0 :: u8) = [0, 0, 0]" by (simp, simp only: numeral_3_eq_3 replicate.simps)
    then show ?thesis by (simp add: padded_def)
  qed
  have "unat (5 :: u16) \<le> length [1, 2, 3, 4, 5 :: u8]" by simp
  from conjunct2 [OF mng_dhcp_correct [OF this r], THEN mp, OF r0]
  obtain payload h0 h1 where "concat (map word_bytes payload) = padded (take (unat (5 :: u16)) [1, 2, 3, 4, 5])"
    "sum_list (concat (map word_bytes ([h0, h1] @ payload))) = 0" "word_bytes h0 ! 0 = 64" by blast
  then show ?thesis unfolding p by blast
qed
end
