(* ===== verification/Mausi.thy ===== *)
theory Mausi
  imports Hw
begin

section \<open>The driver class and the kernel it runs in\<close>

text \<open>
  The fields of the class \<open>IntelMausi\<close> (\<open>IntelMausiEthernet.h\<close>) that the packet paths of
  \<open>IntelMausiEthernet.cpp\<close>, \<open>IntelMausiHardware.cpp\<close>, \<open>IntelMausiSetup.cpp\<close> and \<open>IntelMausiVTD.cpp\<close>
  read and write, as one record over the hardware structure of theory \<open>Hw\<close>.

  The kernel is not code of the repository. It is a field of the state, in the way the chip is: what a
  call of it answers is a function of the calls made so far, newest first. A network buffer
  (\<open>mbuf_t\<close>) is a number; what the driver asks of an outgoing packet is the record \<open>packet\<close>.
\<close>

subsection \<open>Packets\<close>

type_synonym mbuf = nat

text \<open>
  What \<open>mbuf_get_csum_requested\<close> reports, one field per flag of the kernel's mask the code tests, and
  whether any other flag is set.
\<close>

record csum_request =
  cs_tcp :: bool
  cs_udp :: bool
  cs_ip :: bool
  cs_tcp6 :: bool
  cs_udp6 :: bool
  cs_other :: bool
  cs_value :: u32

text \<open>
  \<open>pkt_tso\<close> is \<open>None\<close> when \<open>mbuf_get_tso_requested\<close> fails, and else the two segmentation flags and the
  maximum segment size. \<open>pkt_chain\<close> is the data pointer and length of each buffer of the chain,
  \<open>pkt_bytes\<close> the bytes from the first one's data pointer on.
\<close>

record packet =
  pkt_id :: mbuf
  pkt_chain :: "(u64 \<times> u64) list"
  pkt_len :: u32
  pkt_bytes :: "u8 list"
  pkt_tso :: "(bool \<times> bool \<times> u32) option"
  pkt_csum :: csum_request
  pkt_vlan :: "u16 option"

subsection \<open>Kernel calls\<close>

text \<open>
  What the set-up of the rings asks the kernel for: memory, objects that describe memory, mappings for the
  chip.
\<close>

datatype resource =
    RxBufArray | RxBufDesc | RxDescDmaCmd | RxPoolObject | RxMapMem
  | TxBufArray | TxBufDesc | TxDescDmaCmd | TxMbufCursor | TxMapMem

text \<open>
  A memory descriptor is named by a number: its place in \<open>txMemIO\<close>, and 256 more than its place in \<open>rxMemIO\<close>.
\<close>

datatype kcall =
    FreeMbuf "mbuf list"
  | SignalOutputThread
  | MdInit nat "(u64 \<times> u64) list"
  | MdAlloc nat "(u64 \<times> u64) list"
  | MdPrepare nat
  | MdComplete nat
  | MdSetTag nat bool
  | MdRelease nat
  | AllocPacket bool u32
  | CopyPacket mbuf mbuf u32
  | SetLength mbuf u32
  | EnqueueInput "mbuf list" u32 u16 "bool \<times> bool"
  | ScheduleRefill
  | Obtain resource
  | PrepareMemory resource
  | SetMemoryDescriptor resource
  | GenSegments resource
  | ClearMemoryDescriptor resource
  | CompleteMemory resource
  | Discard resource

record kernel =
  k_ok :: "kcall list \<Rightarrow> kcall \<Rightarrow> bool"
  k_mbuf :: "kcall list \<Rightarrow> mbuf"
  k_segment :: "kcall list \<Rightarrow> nat \<Rightarrow> u64 \<Rightarrow> u64"
  k_segments :: "packet \<Rightarrow> (u64 \<times> u64) list"
  k_pullup :: "packet \<Rightarrow> bool"
  k_phys :: "mbuf \<Rightarrow> u64"
  k_next :: "mbuf \<Rightarrow> bool"
  k_datastart :: "mbuf \<Rightarrow> u64"
  k_ring :: "kcall list \<Rightarrow> u64"

subsection \<open>The class\<close>

record tx_desc =
  td_buffer_addr :: u64
  td_lower :: u32
  td_upper :: u32

record intelTxBufferInfo =
  txb_mbuf :: "mbuf option"
  txb_numDescs :: u32

record rx_desc =
  rd_low :: u64
  rd_high :: u64

record intelRxBufferInfo =
  rxb_mbuf :: mbuf
  rxb_phyAddr :: u64

text \<open>The receive buffer pool: two lists of buffers, without and with a cluster, and their counts.\<close>

record rx_pool =
  cPkts :: "mbuf list"
  mPkts :: "mbuf list"
  cCapacity :: u32
  cRefillTresh :: u32
  cPktNum :: s32
  mCapacity :: u32
  mRefillTresh :: u32
  mPktNum :: s32
  maxCopySize :: u32
  refillScheduled :: bool

record mausi =
  m_hw :: e1000_hw
  m_kernel :: kernel
  m_klog :: "kcall list"
  isEnabled :: bool
  linkUp :: bool
  forceReset :: bool
  useAppleVTD :: bool
  txDescArray :: "tx_desc list"
  txBufArray :: "intelTxBufferInfo list"
  txPhyAddr :: u64
  txDescDoneCount :: u64
  txDescDoneLast :: u64
  txNumFreeDesc :: s32
  txNextDescIndex :: u16
  txDirtyIndex :: u16
  txCleanBarrierIndex :: u16
  txNextMem2Use :: u16
  txNextMem2Free :: u16
  txNumFreeMem :: s32
  txMemIO :: "bool option list"
  tx_resourceErrors :: u32
  rxDescArray :: "rx_desc list"
  rxBufArray :: "intelRxBufferInfo list"
  rxPhyAddr :: u64
  rxPool :: rx_pool
  rxPacket :: "mbuf list"
  rxPacketSize :: u32
  rxNextDescIndex :: u16
  rxMapNextIndex :: u16
  rxCleanedCount :: u16
  rx_resourceErrors :: u32
  rx_internalMacReceiveErrors :: u32
  rxMemIO :: "bool list"
  rxMemRange :: "(u64 \<times> u64) list"
  m_has :: "resource set"

type_synonym 'a mausiM = "(mausi, 'a) state"

text \<open>An operation on the hardware structure, and a call of the kernel.\<close>

definition on_hw :: "'a hwM \<Rightarrow> 'a mausiM" where
  "on_hw m = State (\<lambda>s. case run_state m (m_hw s) of (a, h) \<Rightarrow> (a, s\<lparr>m_hw := h\<rparr>))"

definition kcall :: "kcall \<Rightarrow> bool mausiM" where
  "kcall c = do {
     ok \<leftarrow> gets (\<lambda>s. k_ok (m_kernel s) (m_klog s) c);
     modify (\<lambda>s. s\<lparr>m_klog := c # m_klog s\<rparr>);
     ret ok }"

definition mbuf_freem_list :: "mbuf list \<Rightarrow> unit mausiM" where
  "mbuf_freem_list ms = do { kcall (FreeMbuf ms); ret () }"

definition intelWriteMem32 :: "u32 \<Rightarrow> u32 \<Rightarrow> unit mausiM" where
  "intelWriteMem32 reg val = on_hw (io_write (Csr reg) val)"

definition intelReadMem32 :: "u32 \<Rightarrow> u32 mausiM" where
  "intelReadMem32 reg = on_hw (io_read (Csr reg))"

definition intelFlush :: "unit mausiM" where
  "intelFlush = do { intelReadMem32 E1000_STATUS; ret () }"

text \<open>The ring registers of queue 0.\<close>

definition E1000_RDBAL :: "u32 \<Rightarrow> u32" where "E1000_RDBAL n = (if n < 4 then 0x02800 + n * 0x100 else 0x0C000 + n * 0x40)"
definition E1000_RDBAH :: "u32 \<Rightarrow> u32" where "E1000_RDBAH n = (if n < 4 then 0x02804 + n * 0x100 else 0x0C004 + n * 0x40)"
definition E1000_RDLEN :: "u32 \<Rightarrow> u32" where "E1000_RDLEN n = (if n < 4 then 0x02808 + n * 0x100 else 0x0C008 + n * 0x40)"
definition E1000_RDH :: "u32 \<Rightarrow> u32" where "E1000_RDH n = (if n < 4 then 0x02810 + n * 0x100 else 0x0C010 + n * 0x40)"
definition E1000_RDT :: "u32 \<Rightarrow> u32" where "E1000_RDT n = (if n < 4 then 0x02818 + n * 0x100 else 0x0C018 + n * 0x40)"
definition E1000_TDBAL :: "u32 \<Rightarrow> u32" where "E1000_TDBAL n = (if n < 4 then 0x03800 + n * 0x100 else 0x0E000 + n * 0x40)"
definition E1000_TDBAH :: "u32 \<Rightarrow> u32" where "E1000_TDBAH n = (if n < 4 then 0x03804 + n * 0x100 else 0x0E004 + n * 0x40)"
definition E1000_TDLEN :: "u32 \<Rightarrow> u32" where "E1000_TDLEN n = (if n < 4 then 0x03808 + n * 0x100 else 0x0E008 + n * 0x40)"
definition E1000_TDH :: "u32 \<Rightarrow> u32" where "E1000_TDH n = (if n < 4 then 0x03810 + n * 0x100 else 0x0E010 + n * 0x40)"
definition E1000_TDT :: "u32 \<Rightarrow> u32" where "E1000_TDT n = (if n < 4 then 0x03818 + n * 0x100 else 0x0E018 + n * 0x40)"

end
