(* ===== verification/RxPool.thy ===== *)
theory RxPool
  imports Mausi
begin

section \<open>The receive buffer pool (MausiRxPool.cpp)\<close>

text \<open>
  Buffers kept for the case that the kernel cannot allocate one at interrupt time. The linked lists of the source
  are lists here; the tail pointer is the last element, and the code never takes the last
  buffer, so that the pointer stays valid for the thread that refills.
\<close>

abbreviation (input) MBUF_WAITOK :: bool where "MBUF_WAITOK \<equiv> True"
abbreviation (input) MBUF_DONTWAIT :: bool where "MBUF_DONTWAIT \<equiv> False"
abbreviation (input) PAGE_SIZE :: "'a::{zero,numeral}" where "PAGE_SIZE \<equiv> 0x1000"

definition set_pool :: "(rx_pool \<Rightarrow> rx_pool) \<Rightarrow> unit mausiM" where
  "set_pool f = modify (\<lambda>s. s\<lparr>rxPool := f (rxPool s)\<rparr>)"

text \<open>\<open>mbuf_allocpacket\<close>: the new buffer, or nothing.\<close>

definition mbuf_allocpacket :: "bool \<Rightarrow> u32 \<Rightarrow> mbuf option mausiM" where
  "mbuf_allocpacket how sz = do {
     ok \<leftarrow> kcall (AllocPacket how sz);
     m \<leftarrow> gets (\<lambda>s. k_mbuf (m_kernel s) (m_klog s));
     ret (if ok then Some m else None) }"

text \<open>The two loops of \<open>initWithCapacity\<close>; \<open>False\<close> is a failed allocation.\<close>

primrec init_mbufs :: "nat \<Rightarrow> bool mausiM" where
  "init_mbufs 0 = ret True"
| "init_mbufs (Suc n) = do {
     sz \<leftarrow> gets (\<lambda>s. maxCopySize (rxPool s));
     m \<leftarrow> mbuf_allocpacket MBUF_WAITOK sz;
     case m of
         None \<Rightarrow> ret False
       | Some m \<Rightarrow> do {
           set_pool (\<lambda>p. p\<lparr>mPktNum := (if mPkts p = [] then 1 else mPktNum p + 1), mPkts := mPkts p @ [m]\<rparr>);
           init_mbufs n } }"

primrec init_clusters :: "nat \<Rightarrow> bool mausiM" where
  "init_clusters 0 = ret True"
| "init_clusters (Suc n) = do {
     m \<leftarrow> mbuf_allocpacket MBUF_WAITOK PAGE_SIZE;
     case m of
         None \<Rightarrow> ret False
       | Some m \<Rightarrow> do {
           set_pool (\<lambda>p. p\<lparr>cPktNum := (if cPkts p = [] then 1 else cPktNum p + 1), cPkts := cPkts p @ [m]\<rparr>);
           init_clusters n } }"

definition free_mbufs :: "unit mausiM" where
  "free_mbufs = do {
     ms \<leftarrow> gets (\<lambda>s. mPkts (rxPool s));
     cwhen (ms \<noteq> []) (do {
       mbuf_freem_list ms;
       set_pool (\<lambda>p. p\<lparr>mPkts := [], mPktNum := 0\<rparr>) }) }"

definition free_clusters :: "unit mausiM" where
  "free_clusters = do {
     ms \<leftarrow> gets (\<lambda>s. cPkts (rxPool s));
     cwhen (ms \<noteq> []) (do {
       mbuf_freem_list ms;
       set_pool (\<lambda>p. p\<lparr>cPkts := [], cPktNum := 0\<rparr>) }) }"

text \<open>
  \<open>mhlen\<close> is what \<open>mbuf_get_mhlen\<close> returns. The allocation of the thread call is not modelled:
  it succeeds.
\<close>

definition initWithCapacity :: "u32 \<Rightarrow> u32 \<Rightarrow> u32 \<Rightarrow> bool mausiM" where
  "initWithCapacity mhlen mbufCapacity clustCapacity =
     (if mbufCapacity > 0 \<and> clustCapacity > 0 then do {
        set_pool (\<lambda>p. \<lparr>cPkts = [], mPkts = [], cCapacity = clustCapacity,
          cRefillTresh = clustCapacity - drop_bit 1 clustCapacity, cPktNum = 0,
          mCapacity = mbufCapacity, mRefillTresh = mbufCapacity - drop_bit 1 mbufCapacity, mPktNum = 0,
          maxCopySize = mhlen, refillScheduled = False\<rparr>);
        ok \<leftarrow> init_mbufs (unat mbufCapacity);
        if \<not> ok then do { free_mbufs; ret False }
        else do {
          ok \<leftarrow> init_clusters (unat clustCapacity);
          if \<not> ok then do { free_clusters; free_mbufs; ret False }
          else ret True } }
      else ret False)"

text \<open>The refill thread scheduled, once.\<close>

definition schedule_refill :: "bool \<Rightarrow> unit mausiM" where
  "schedule_refill low = do {
     scheduled \<leftarrow> gets (\<lambda>s. refillScheduled (rxPool s));
     cwhen (low \<and> \<not> scheduled) (do {
       set_pool (\<lambda>p. p\<lparr>refillScheduled := True\<rparr>);
       kcall ScheduleRefill;
       ret () }) }"

definition getPacket :: "u32 \<Rightarrow> bool \<Rightarrow> mbuf option mausiM" where
  "getPacket sz how = do {
     p \<leftarrow> gets rxPool;
     if sz > maxCopySize p then do {
       m \<leftarrow> mbuf_allocpacket how PAGE_SIZE;
       if m \<noteq> None then ret m
       else if cPktNum p > 1 then do {
         set_pool (\<lambda>p. p\<lparr>cPktNum := cPktNum p - 1, cPkts := tl (cPkts p)\<rparr>);
         p' \<leftarrow> gets rxPool;
         schedule_refill (word_of_int (cPktNum p') < cRefillTresh p');
         ret (Some (hd (cPkts p))) }
       else ret None }
     else do {
       m \<leftarrow> mbuf_allocpacket how (maxCopySize p);
       if m \<noteq> None then ret m
       else if mPktNum p > 1 then do {
         set_pool (\<lambda>p. p\<lparr>mPktNum := mPktNum p - 1, mPkts := tl (mPkts p)\<rparr>);
         p' \<leftarrow> gets rxPool;
         schedule_refill (word_of_int (mPktNum p') < mRefillTresh p');
         ret (Some (hd (mPkts p))) }
       else ret None } }"

text \<open>One round of each loop of \<open>refillPool\<close>, and the loops; \<open>n\<close> is what is missing.\<close>

primrec refill_mbufs :: "nat \<Rightarrow> bool mausiM" where
  "refill_mbufs 0 = ret True"
| "refill_mbufs (Suc n) = do {
     sz \<leftarrow> gets (\<lambda>s. maxCopySize (rxPool s));
     m \<leftarrow> mbuf_allocpacket MBUF_DONTWAIT sz;
     case m of
         None \<Rightarrow> ret False
       | Some m \<Rightarrow> do {
           set_pool (\<lambda>p. p\<lparr>mPktNum := mPktNum p + 1, mPkts := mPkts p @ [m]\<rparr>);
           refill_mbufs n } }"

primrec refill_clusters :: "nat \<Rightarrow> bool mausiM" where
  "refill_clusters 0 = ret True"
| "refill_clusters (Suc n) = do {
     m \<leftarrow> mbuf_allocpacket MBUF_DONTWAIT PAGE_SIZE;
     case m of
         None \<Rightarrow> ret False
       | Some m \<Rightarrow> do {
           set_pool (\<lambda>p. p\<lparr>cPktNum := cPktNum p + 1, cPkts := cPkts p @ [m]\<rparr>);
           refill_clusters n } }"

definition refillPool :: "unit mausiM" where
  "refillPool = do {
     p \<leftarrow> gets rxPool;
     ok \<leftarrow> refill_mbufs (unat (mCapacity p) - nat (mPktNum p));
     cwhen ok (do {
       p \<leftarrow> gets rxPool;
       refill_clusters (unat (cCapacity p) - nat (cPktNum p));
       ret () });
     set_pool (\<lambda>p. p\<lparr>refillScheduled := False\<rparr>) }"

definition free_pool :: "unit mausiM" where
  "free_pool = do { free_clusters; free_mbufs }"

text \<open>
  The packet to deliver, the buffer that takes its place in the ring, and whether it was replaced: a large
  packet is handed on and its buffer replaced, a small one is copied and its buffer stays.
\<close>

definition replaceOrCopyPacket :: "mbuf \<Rightarrow> u32 \<Rightarrow> (mbuf option \<times> mbuf \<times> bool) mausiM" where
  "replaceOrCopyPacket mp len = do {
     maxCopy \<leftarrow> gets (\<lambda>s. maxCopySize (rxPool s));
     if len > maxCopy then do {
       n \<leftarrow> getPacket len MBUF_DONTWAIT;
       ret (case n of None \<Rightarrow> (None, mp, True) | Some n \<Rightarrow> (Some mp, n, True)) }
     else do {
       m \<leftarrow> getPacket len MBUF_DONTWAIT;
       (case m of None \<Rightarrow> ret () | Some m \<Rightarrow> do { kcall (CopyPacket m mp len); ret () });
       ret (m, mp, False) } }"

end
