(* ===== verification/RxRing.thy ===== *)
theory RxRing
  imports RxPool
begin

section \<open>The receive path (IntelMausiEthernet.cpp)\<close>

text \<open>
  The ring of 512 receive descriptors: \<open>rxInterrupt\<close> takes the descriptors the chip has written, hands the packets
  on, joins the buffers of a jumbo frame, and gives every descriptor a buffer again.
\<close>

subsection \<open>The written-back descriptor\<close>

definition rx_status :: "rx_desc \<Rightarrow> u32" where "rx_status d = ucast (rd_high d)"
definition rx_length :: "rx_desc \<Rightarrow> u16" where "rx_length d = ucast (drop_bit 32 (rd_high d))"
definition rx_vlan :: "rx_desc \<Rightarrow> u16" where "rx_vlan d = ucast (drop_bit 48 (rd_high d))"

definition rx_vlanTag :: "rx_desc \<Rightarrow> u16" where
  "rx_vlanTag d = (if rx_status d AND E1000_RXD_STAT_VP \<noteq> 0 then rx_vlan d AND E1000_RXD_SPC_VLAN_MASK else 0)"

text \<open>What \<open>intelGetChecksumResult\<close> reports: the IP header sum good, the payload sum good.\<close>

definition intelGetChecksumResult :: "u32 \<Rightarrow> bool \<times> bool" where
  "intelGetChecksumResult status =
     (if status AND (E1000_RXDEXT_STATERR_IPE OR E1000_RXDEXT_STATERR_TCPE) = 0
      then (status AND E1000_RXD_STAT_IPPCS \<noteq> 0, status AND (E1000_RXD_STAT_TCPCS OR E1000_RXD_STAT_UDPCS) \<noteq> 0)
      else (False, False))"

subsection \<open>One descriptor\<close>

definition discardPacketFragment :: "unit mausiM" where
  "discardPacketFragment = do {
     ms \<leftarrow> gets rxPacket;
     cwhen (ms \<noteq> []) (mbuf_freem_list ms);
     modify (\<lambda>s. s\<lparr>rxPacket := [], rxPacketSize := 0\<rparr>) }"

text \<open>The buffer added to the packet in progress; at the end of the packet it is enqueued. \<open>True\<close>: enqueued.\<close>

definition rx_deliver :: "mbuf \<Rightarrow> rx_desc \<Rightarrow> bool mausiM" where
  "rx_deliver newPkt d = do {
     kcall (SetLength newPkt (ucast (rx_length d)));
     modify (\<lambda>s. if rxPacket s \<noteq> []
       then s\<lparr>rxPacket := rxPacket s @ [newPkt], rxPacketSize := rxPacketSize s + ucast (rx_length d)\<rparr>
       else s\<lparr>rxPacket := [newPkt], rxPacketSize := ucast (rx_length d)\<rparr>);
     if rx_status d AND E1000_RXD_STAT_EOP \<noteq> 0 then do {
       s \<leftarrow> gets id;
       kcall (EnqueueInput (rxPacket s) (rxPacketSize s) (rx_vlanTag d) (intelGetChecksumResult (rx_status d)));
       modify (\<lambda>s. s\<lparr>rxPacket := [], rxPacketSize := 0\<rparr>);
       ret True }
     else ret False }"

definition rx_drop_resource :: "unit mausiM" where
  "rx_drop_resource = do {
     modify (\<lambda>s. s\<lparr>rx_resourceErrors := rx_resourceErrors s + 1\<rparr>);
     discardPacketFragment }"

text \<open>
  The body of the loop up to \<open>nextDesc\<close>; \<open>new_addr\<close> is what a replaced buffer's address field becomes.
  The results are the address for the descriptor and whether a packet was enqueued.
\<close>

definition rx_packet :: "nat \<Rightarrow> (kernel \<Rightarrow> mbuf \<Rightarrow> u64) \<Rightarrow> (u64 \<times> bool) mausiM" where
  "rx_packet i new_addr = do {
     s \<leftarrow> gets id;
     let d = rxDescArray s ! i;
     let addr = rxb_phyAddr (rxBufArray s ! i);
     if rx_status d AND E1000_RXDEXT_ERR_FRAME_ERR_MASK \<noteq> 0 then do {
       modify (\<lambda>s. s\<lparr>rx_internalMacReceiveErrors := rx_internalMacReceiveErrors s + 1\<rparr>);
       discardPacketFragment;
       ret (addr, False) }
     else do {
       r \<leftarrow> replaceOrCopyPacket (rxb_mbuf (rxBufArray s ! i)) (ucast (rx_length d));
       case r of (newPkt, bufPkt, replaced) \<Rightarrow>
         (case newPkt of
             None \<Rightarrow> do { rx_drop_resource; ret (addr, False) }
           | Some newPkt \<Rightarrow>
               if replaced \<and> k_next (m_kernel s) bufPkt then do {
                 modify (\<lambda>s. s\<lparr>rx_resourceErrors := rx_resourceErrors s + 1\<rparr>);
                 mbuf_freem_list [bufPkt];
                 discardPacketFragment;
                 ret (addr, False) }
               else do {
                 let addr = (if replaced then new_addr (m_kernel s) bufPkt else addr);
                 cwhen replaced (modify (\<lambda>s. s\<lparr>rxBufArray := (rxBufArray s)[i := \<lparr>rxb_mbuf = bufPkt, rxb_phyAddr = addr\<rparr>]\<rparr>));
                 good \<leftarrow> rx_deliver newPkt d;
                 ret (addr, good) }) } }"

subsection \<open>The loop\<close>

definition rx_next :: "nat \<Rightarrow> u64 \<Rightarrow> unit mausiM" where
  "rx_next i addr = modify (\<lambda>s. s\<lparr>rxDescArray := (rxDescArray s)[i := \<lparr>rd_low = addr, rd_high = 0\<rparr>],
     rxNextDescIndex := (rxNextDescIndex s + 1) AND kRxDescMask,
     rxCleanedCount := rxCleanedCount s + 1\<rparr>)"

definition rx_round :: "mausi \<Rightarrow> bool \<times> mausi" where
  "rx_round s = run_state (do {
     i \<leftarrow> gets (\<lambda>s. unat (rxNextDescIndex s));
     r \<leftarrow> rx_packet i k_phys;
     rx_next i (fst r);
     ret (snd r) }) s"

partial_function (option) rx_loop :: "u32 \<Rightarrow> u32 \<Rightarrow> mausi \<Rightarrow> (u32 \<times> mausi) option" where
  "rx_loop maxCount goodPkts s =
     (if rx_status (rxDescArray s ! unat (rxNextDescIndex s)) AND E1000_RXD_STAT_DD \<noteq> 0 \<and> goodPkts < maxCount
      then (case rx_round s of (good, t) \<Rightarrow> rx_loop maxCount (if good then goodPkts + 1 else goodPkts) t)
      else Some (goodPkts, s))"

declare rx_loop.simps [code]

definition intelUpdateRxDescTail :: "u32 \<Rightarrow> unit mausiM" where
  "intelUpdateRxDescTail index = do {
     r \<leftarrow> on_hw ew32_prepare;
     intelWriteMem32 (E1000_RDT 0) index;
     if r = 0 then do {
       rdt \<leftarrow> intelReadMem32 (E1000_RDT 0);
       cwhen (index \<noteq> rdt) (do {
         rctl \<leftarrow> intelReadMem32 E1000_RCTL;
         intelWriteMem32 E1000_RCTL (rctl AND NOT E1000_RCTL_EN);
         modify (\<lambda>s. s\<lparr>forceReset := True\<rparr>) }) }
     else ret () }"

definition rx_tail :: "u32 \<Rightarrow> unit mausiM" where
  "rx_tail index = do {
     flags2 \<leftarrow> gets (\<lambda>s. hw_flags2 (m_hw s));
     if flags2 AND FLAG2_PCIM2PCI_ARBITER_WA \<noteq> 0 then intelUpdateRxDescTail index
     else intelWriteMem32 (E1000_RDT 0) index }"

definition rxInterrupt :: "u32 \<Rightarrow> mausi \<Rightarrow> (u32 \<times> mausi) option" where
  "rxInterrupt maxCount s = map_option (\<lambda>(goodPkts, s).
     (goodPkts, snd (run_state (do {
        cleaned \<leftarrow> gets rxCleanedCount;
        cwhen (cleaned \<ge> E1000_RX_BUFFER_WRITE) (do {
          next \<leftarrow> gets rxNextDescIndex;
          rx_tail (ucast (next - 1) AND kRxDescMask);
          modify (\<lambda>s. s\<lparr>rxCleanedCount := 0\<rparr>) }) }) s))) (rx_loop maxCount 0 s)"

subsection \<open>Setting up and clearing the ring\<close>

definition intelInitRxRing :: "unit mausiM" where
  "intelInitRxRing = do {
     pa \<leftarrow> gets rxPhyAddr;
     intelWriteMem32 (E1000_RDBAL 0) (ucast (pa AND 0xffffffff));
     intelWriteMem32 (E1000_RDBAH 0) (ucast (drop_bit 32 pa));
     intelWriteMem32 (E1000_RDLEN 0) (kNumRxDesc * 16);
     intelWriteMem32 (E1000_RDH 0) 0;
     rx_tail kRxLastDesc;
     modify (\<lambda>s. s\<lparr>rxCleanedCount := 0, rxNextDescIndex := 0, rxMapNextIndex := 0\<rparr>) }"

definition intelFlushRxRing :: "unit mausiM" where
  "intelFlushRxRing = do {
     rctl \<leftarrow> intelReadMem32 E1000_RCTL;
     intelWriteMem32 E1000_RCTL (rctl AND NOT E1000_RCTL_EN);
     intelFlush;
     on_hw (usleep_range 100 150);
     rxdctl \<leftarrow> intelReadMem32 0x02828;
     intelWriteMem32 0x02828 ((rxdctl AND 0xffffc000) OR (0x1F OR push_bit 8 1 OR E1000_RXDCTL_THRESH_UNIT_DESC));
     intelWriteMem32 E1000_RCTL (rctl OR E1000_RCTL_EN);
     intelFlush;
     on_hw (usleep_range 100 150);
     intelWriteMem32 E1000_RCTL (rctl AND NOT E1000_RCTL_EN) }"

text \<open>The end of \<open>clearDescriptors\<close>, its receive half without an I/O mapper.\<close>

definition clear_rx :: "unit mausiM" where
  "clear_rx = do {
     modify (\<lambda>s. s\<lparr>rxDescArray := map (\<lambda>b. \<lparr>rd_low = rxb_phyAddr b, rd_high = 0\<rparr>) (take kNumRxDesc (rxBufArray s))
       @ drop kNumRxDesc (rxDescArray s)\<rparr>);
     modify (\<lambda>s. s\<lparr>rxCleanedCount := 0, rxNextDescIndex := 0, rxMapNextIndex := 0\<rparr>);
     discardPacketFragment }"

end
