(* ===== verification/TxRing.thy ===== *)
theory TxRing
  imports Mausi
begin

section \<open>The transmit path (IntelMausiEthernet.cpp, IntelMausiVTD.cpp)\<close>

text \<open>
  Queued packets become descriptors of a ring of 512 (\<open>outputStart\<close>), the chip marks the last
  descriptor of each packet done, and \<open>txInterrupt\<close> frees the packets and their descriptors. With an I/O
  mapper present a packet is mapped through a second ring of 256 memory descriptors
  (\<open>txMapPacket\<close>, \<open>txUnmapPacket\<close>).
\<close>

subsection \<open>Offload\<close>

text \<open>
  Byte offsets of the header fields (\<open>offsetof\<close> and \<open>sizeof\<close> of the IP, TCP and UDP headers after 14 bytes of
  Ethernet header).
\<close>

abbreviation (input) kIPv4CSumOffset :: "'a::{zero,numeral}" where "kIPv4CSumOffset \<equiv> 24"
abbreviation (input) kIPv4CSumEnd :: "'a::{zero,numeral}" where "kIPv4CSumEnd \<equiv> 33"
abbreviation (input) kTCPv4CSumOffset :: "'a::{zero,numeral}" where "kTCPv4CSumOffset \<equiv> 50"
abbreviation (input) kUDPv4CSumOffset :: "'a::{zero,numeral}" where "kUDPv4CSumOffset \<equiv> 40"
abbreviation (input) kTCPv6CSumOffset :: "'a::{zero,numeral}" where "kTCPv6CSumOffset \<equiv> 70"
abbreviation (input) kUDPv6CSumOffset :: "'a::{zero,numeral}" where "kUDPv6CSumOffset \<equiv> 60"

definition csum_config :: "u32 \<Rightarrow> u32 \<Rightarrow> u32 \<Rightarrow> u32" where
  "csum_config last_byte offset first = push_bit 16 last_byte OR push_bit 8 offset OR first"

text \<open>One step of the pseudo-header sum: add, fold the carry, truncate.\<close>

definition csum_step :: "u16 \<Rightarrow> u32 \<Rightarrow> u32" where
  "csum_step x csum32 = (let c = csum32 + ucast x in (c + drop_bit 16 c) AND 0xFFFF)"

definition ntohs_at :: "u8 list \<Rightarrow> nat \<Rightarrow> u16" where
  "ntohs_at bs i = push_bit 8 (ucast (bs ! i)) OR ucast (bs ! (i + 1))"

definition pseudo_sum :: "u8 list \<Rightarrow> nat \<Rightarrow> nat \<Rightarrow> u32" where
  "pseudo_sum bs start n = fold csum_step (map (\<lambda>i. ntohs_at bs (start + 2 * i)) [0..<n]) 6"

definition put_be16 :: "nat \<Rightarrow> u16 \<Rightarrow> u8 list \<Rightarrow> u8 list" where
  "put_be16 i x bs = bs[i := byte_of x 1, i + 1 := byte_of x 0]"

text \<open>
  The headers of a segmented packet: the length field cleared, the sum put into the TCP header; the
  results are whether the buffer could be pulled up, the word with segment and header size, the payload
  size and the packet's bytes.
\<close>

definition prepareTSO4 :: "kernel \<Rightarrow> packet \<Rightarrow> u32 \<Rightarrow> bool \<times> u32 \<times> u32 \<times> u8 list" where
  "prepareTSO4 k m mss =
     (let bs = pkt_bytes m;
          hlen = push_bit 2 (ucast (drop_bit 4 (bs ! 46))) + kMinL4HdrOffsetV4;
          csum = pseudo_sum bs 26 4
      in (k_pullup k m, push_bit 16 mss OR push_bit 8 hlen, pkt_len m - hlen,
          put_be16 50 (ucast csum) (put_be16 16 0 bs)))"

definition prepareTSO6 :: "kernel \<Rightarrow> packet \<Rightarrow> u32 \<Rightarrow> bool \<times> u32 \<times> u32 \<times> u8 list" where
  "prepareTSO6 k m mss =
     (let bs = pkt_bytes m;
          hlen = push_bit 2 (ucast (drop_bit 4 (bs ! 66))) + kMinL4HdrOffsetV6;
          csum = pseudo_sum bs 22 16
      in (k_pullup k m, push_bit 16 mss OR push_bit 8 hlen, pkt_len m - hlen,
          put_be16 70 (ucast csum) (put_be16 18 0 bs)))"

text \<open>The locals of one round of \<open>outputStart\<close>.\<close>

record tx_plan =
  tp_numDescs :: u32
  tp_tso :: bool
  tp_offload :: bool
  tp_cmd :: u32
  tp_opts :: u32
  tp_word2 :: u32
  tp_len :: u32
  tp_mss :: u32
  tp_ip :: u32
  tp_tcp :: u32

definition tso_plan :: "kernel \<Rightarrow> packet \<Rightarrow> bool \<Rightarrow> u32 \<Rightarrow> tx_plan option" where
  "tso_plan k m v4 mss =
     (let r = (if v4 then prepareTSO4 k m mss else prepareTSO6 k m mss)
      in if \<not> fst r then None
         else Some \<lparr>tp_numDescs = 1, tp_tso = True, tp_offload = True,
           tp_cmd = E1000_TXD_CMD_DEXT OR E1000_TXD_CMD_TSE OR E1000_TXD_DTYP_D,
           tp_opts = E1000_TXD_CMD_IFCS,
           tp_word2 = (if v4 then E1000_TXD_OPTS_TXSM OR E1000_TXD_OPTS_IXSM else E1000_TXD_OPTS_TXSM),
           tp_len = fst (snd (snd r)) OR (if v4
             then E1000_TXD_CMD_DEXT OR E1000_TXD_CMD_TSE OR E1000_TXD_CMD_IP OR E1000_TXD_CMD_TCP
             else E1000_TXD_CMD_DEXT OR E1000_TXD_CMD_TSE OR E1000_TXD_CMD_TCP),
           tp_mss = fst (snd r),
           tp_ip = (if v4 then csum_config kIPv4CSumEnd kIPv4CSumOffset 14 else csum_config 0 0 14),
           tp_tcp = (if v4 then csum_config 0 kTCPv4CSumOffset kMinL4HdrOffsetV4
             else csum_config 0 kTCPv6CSumOffset kMinL4HdrOffsetV6)\<rparr>)"

text \<open>Without segmentation; the chain of tests in the code's order.\<close>

definition csum_any :: "csum_request \<Rightarrow> bool" where
  "csum_any c = (cs_udp6 c \<or> cs_tcp6 c \<or> cs_ip c \<or> cs_udp c \<or> cs_tcp c)"

definition csum_plan :: "csum_request \<Rightarrow> tx_plan" where
  "csum_plan c =
     (let plan = \<lparr>tp_numDescs = 0, tp_tso = False, tp_offload = (csum_any c \<or> cs_other c), tp_cmd = 0,
            tp_opts = E1000_TXD_CMD_IDE OR E1000_TXD_CMD_EOP OR E1000_TXD_CMD_IFCS OR E1000_TXD_CMD_RS,
            tp_word2 = 0, tp_len = 0, tp_mss = cs_value c, tp_ip = 0, tp_tcp = 0\<rparr>;
          off = plan\<lparr>tp_numDescs := 1, tp_cmd := E1000_TXD_CMD_DEXT OR E1000_TXD_DTYP_D, tp_mss := 0\<rparr>;
          v4 = csum_config kIPv4CSumEnd kIPv4CSumOffset 14; v6 = csum_config 0 0 14
      in if \<not> csum_any c then plan
         else if cs_tcp c then off\<lparr>tp_ip := v4, tp_tcp := csum_config 0 kTCPv4CSumOffset kMinL4HdrOffsetV4,
           tp_len := E1000_TXD_CMD_DEXT OR E1000_TXD_CMD_IP OR E1000_TXD_CMD_TCP,
           tp_word2 := E1000_TXD_OPTS_TXSM OR E1000_TXD_OPTS_IXSM\<rparr>
         else if cs_udp c then off\<lparr>tp_ip := v4, tp_tcp := csum_config 0 kUDPv4CSumOffset kMinL4HdrOffsetV4,
           tp_len := E1000_TXD_CMD_DEXT OR E1000_TXD_CMD_IP,
           tp_word2 := E1000_TXD_OPTS_TXSM OR E1000_TXD_OPTS_IXSM\<rparr>
         else if cs_ip c then off\<lparr>tp_ip := v4, tp_tcp := 0,
           tp_len := E1000_TXD_CMD_DEXT OR E1000_TXD_CMD_IP, tp_word2 := E1000_TXD_OPTS_IXSM\<rparr>
         else if cs_tcp6 c then off\<lparr>tp_ip := v6, tp_tcp := csum_config 0 kTCPv6CSumOffset kMinL4HdrOffsetV6,
           tp_len := E1000_TXD_CMD_DEXT OR E1000_TXD_CMD_TCP, tp_word2 := E1000_TXD_OPTS_TXSM\<rparr>
         else off\<lparr>tp_ip := v6, tp_tcp := csum_config 0 kUDPv6CSumOffset kMinL4HdrOffsetV6,
           tp_len := E1000_TXD_CMD_DEXT, tp_word2 := E1000_TXD_OPTS_TXSM\<rparr>)"

definition add_vlan :: "u16 option \<Rightarrow> tx_plan \<Rightarrow> tx_plan" where
  "add_vlan tag plan = (case tag of None \<Rightarrow> plan
     | Some vlanTag \<Rightarrow> plan\<lparr>tp_opts := tp_opts plan OR E1000_TXD_CMD_VLE,
         tp_word2 := tp_word2 plan OR push_bit E1000_TX_FLAGS_VLAN_SHIFT (ucast vlanTag)\<rparr>)"

text \<open>
  \<open>Inl\<close> is the packet dropped, with whether the driver frees it itself (the pull-up that failed has
  freed it already).
\<close>

definition plan_packet :: "kernel \<Rightarrow> packet \<Rightarrow> bool + tx_plan" where
  "plan_packet k m = (case pkt_tso m of
       None \<Rightarrow> Inl True
     | Some (v4, v6, mss) \<Rightarrow>
         if v4 \<or> v6 then (case tso_plan k m v4 mss of
             None \<Rightarrow> Inl False
           | Some plan \<Rightarrow> Inr (add_vlan (pkt_vlan m) plan))
         else Inr (add_vlan (pkt_vlan m) (csum_plan (pkt_csum m))))"

subsection \<open>Mapping a packet (IntelMausiVTD.cpp)\<close>

definition trunc_page :: "u64 \<Rightarrow> u64" where "trunc_page x = x AND NOT 0xFFF"
definition next_page :: "u64 \<Rightarrow> u64" where "next_page x = trunc_page (x + 0x1000)"

text \<open>
  One buffer split at page boundaries; every round takes one of the \<open>n\<close> entries left, and \<open>None\<close> is
  running out of them.
\<close>

primrec split_buffer :: "nat \<Rightarrow> u64 \<Rightarrow> u64 \<Rightarrow> (u64 \<times> u64) list option" where
  "split_buffer 0 d len = (if len = 0 then Some [] else None)"
| "split_buffer (Suc n) d len =
     (if len = 0 then Some []
      else let l = min len 0x1000; l = min (next_page d) (d + l) - d
           in map_option (Cons (d, l)) (split_buffer n (d + l) (len - l)))"

primrec split_chain :: "nat \<Rightarrow> (u64 \<times> u64) list \<Rightarrow> (u64 \<times> u64) list option" where
  "split_chain n [] = Some []"
| "split_chain n (b # bs) = (case split_buffer n (fst b) (snd b) of
       None \<Rightarrow> None
     | Some xs \<Rightarrow> map_option (append xs) (split_chain (n - length xs) bs))"

definition split_packet :: "nat \<Rightarrow> (u64 \<times> u64) list \<Rightarrow> (u64 \<times> u64) list option" where
  "split_packet maxSegs chain = (case chain of
       [(d, len)] \<Rightarrow> if trunc_page d = trunc_page (d + len - 1) then Some [(d, len)]
         else split_chain maxSegs chain
     | _ \<Rightarrow> split_chain maxSegs chain)"

text \<open>\<open>error_map\<close>: the memory descriptor given back.\<close>

definition tx_map_error :: "u16 \<Rightarrow> u32 mausiM" where
  "tx_map_error saveMem = do {
     modify (\<lambda>s. s\<lparr>txNextMem2Use := saveMem, txNumFreeMem := txNumFreeMem s + 1\<rparr>);
     ret 0 }"

text \<open>The vector of segments is the caller's; the result is the number of segments and the vector.\<close>

definition txMapPacket :: "packet \<Rightarrow> (u64 \<times> u64) list \<Rightarrow> nat \<Rightarrow> (u32 \<times> (u64 \<times> u64) list) mausiM" where
  "txMapPacket m vector maxSegs = (case split_packet maxSegs (pkt_chain m) of
       None \<Rightarrow> ret (0, vector)
     | Some src \<Rightarrow> do {
         numFree \<leftarrow> gets txNumFreeMem;
         if \<not> numFree > 1 then ret (word_of_nat (length src), vector)
         else do {
           let dst = map (\<lambda>(a, l). (a AND NOT 0xFFF, 0x1000)) src;
           saveMem \<leftarrow> gets txNextMem2Use;
           modify (\<lambda>s. s\<lparr>txNumFreeMem := txNumFreeMem s - 1,
             txNextMem2Use := (txNextMem2Use s + 1) AND kTxMemDescMask\<rparr>);
           md \<leftarrow> gets (\<lambda>s. txMemIO s ! unat saveMem);
           result \<leftarrow> (if md \<noteq> None then kcall (MdInit (unat saveMem) dst)
             else do {
               ok \<leftarrow> kcall (MdAlloc (unat saveMem) dst);
               cwhen ok (modify (\<lambda>s. s\<lparr>txMemIO := (txMemIO s)[unat saveMem := Some False]\<rparr>));
               ret ok });
           if \<not> result then do { n \<leftarrow> tx_map_error saveMem; ret (n, vector) }
           else do {
             ok \<leftarrow> kcall (MdPrepare (unat saveMem));
             if \<not> ok then do { n \<leftarrow> tx_map_error saveMem; ret (n, vector) }
             else do {
               modify (\<lambda>s. s\<lparr>txMemIO := (txMemIO s)[unat saveMem := Some True]\<rparr>);
               kcall (MdSetTag (unat saveMem) True);
               s \<leftarrow> gets id;
               ret (word_of_nat (length src),
                 map (\<lambda>i. (k_segment (m_kernel s) (m_klog s) (unat saveMem) (word_of_nat (0x1000 * i)) + (fst (src ! i) AND 0xFFF),
                   snd (src ! i))) [0..<length src] @ drop (length src) vector) } } } })"

definition txUnmapPacket :: "unit mausiM" where
  "txUnmapPacket = do {
     i \<leftarrow> gets (\<lambda>s. unat (txNextMem2Free s));
     kcall (MdComplete i);
     kcall (MdSetTag i False);
     modify (\<lambda>s. s\<lparr>txMemIO := (txMemIO s)[i := Some False],
       txNextMem2Free := (txNextMem2Free s + 1) AND kTxMemDescMask,
       txNumFreeMem := txNumFreeMem s + 1\<rparr>) }"

subsection \<open>Filling descriptors\<close>

definition put_tx :: "u16 \<Rightarrow> tx_desc \<Rightarrow> intelTxBufferInfo \<Rightarrow> unit mausiM" where
  "put_tx index d b = modify (\<lambda>s. s\<lparr>txDescArray := (txDescArray s)[unat index := d],
     txBufArray := (txBufArray s)[unat index := b]\<rparr>)"

text \<open>A context descriptor, in the memory layout of a data descriptor.\<close>

definition context_desc :: "tx_plan \<Rightarrow> tx_desc" where
  "context_desc plan = \<lparr>td_buffer_addr = ucast (tp_ip plan) OR push_bit 32 (ucast (tp_tcp plan)),
     td_lower = tp_len plan, td_upper = tp_mss plan\<rparr>"

definition seg_bits :: "tx_plan \<Rightarrow> nat \<Rightarrow> nat \<Rightarrow> u32" where
  "seg_bits plan i lastSeg =
     (if tp_tso plan then
        (if i = 0 then tp_opts plan
         else if i = lastSeg then E1000_TXD_CMD_IDE OR E1000_TXD_CMD_EOP OR E1000_TXD_CMD_RS else 0)
      else if i = lastSeg then tp_opts plan else 0)"

definition seg_owns :: "tx_plan \<Rightarrow> nat \<Rightarrow> nat \<Rightarrow> bool" where
  "seg_owns plan i lastSeg = (if tp_tso plan then i \<noteq> 0 \<and> i = lastSeg else i = lastSeg)"

text \<open>The loop over the segments: \<open>i\<close> is the one at the head of the list.\<close>

primrec fill_segs :: "(u64 \<times> u64) list \<Rightarrow> nat \<Rightarrow> nat \<Rightarrow> tx_plan \<Rightarrow> mbuf \<Rightarrow> u32 \<Rightarrow> u16 \<Rightarrow> unit mausiM" where
  "fill_segs [] i lastSeg plan m numDescs index = ret ()"
| "fill_segs (seg # segs) i lastSeg plan m numDescs index = do {
     put_tx index
       \<lparr>td_buffer_addr = fst seg,
        td_lower = tp_cmd plan OR ucast (snd seg AND 0x000fffff) OR seg_bits plan i lastSeg,
        td_upper = tp_word2 plan\<rparr>
       (if seg_owns plan i lastSeg then \<lparr>txb_mbuf = Some m, txb_numDescs = numDescs\<rparr>
        else \<lparr>txb_mbuf = None, txb_numDescs = 0\<rparr>);
     fill_segs segs (i + 1) lastSeg plan m numDescs ((index + 1) AND kTxDescMask) }"

text \<open>One packet with its plan and its segments: from the update of the free count on.\<close>

definition queue_segments :: "mbuf \<Rightarrow> tx_plan \<Rightarrow> (u64 \<times> u64) list \<Rightarrow> unit mausiM" where
  "queue_segments m plan segs = do {
     let numDescs = tp_numDescs plan + word_of_nat (length segs);
     modify (\<lambda>s. s\<lparr>txNumFreeDesc := txNumFreeDesc s - uint numDescs\<rparr>);
     index \<leftarrow> gets txNextDescIndex;
     modify (\<lambda>s. s\<lparr>txNextDescIndex := ucast ((ucast (txNextDescIndex s) + numDescs) AND kTxDescMask)\<rparr>);
     cwhen (tp_offload plan) (put_tx index (context_desc plan) \<lparr>txb_mbuf = None, txb_numDescs = 0\<rparr>);
     fill_segs segs 0 (length segs - 1) plan m numDescs
       (if tp_offload plan then (index + 1) AND kTxDescMask else index) }"

text \<open>One round of the loop: whether the packet was queued, and the vector of segments.\<close>

definition output_packet :: "packet \<Rightarrow> (u64 \<times> u64) list \<Rightarrow> (bool \<times> (u64 \<times> u64) list) mausiM" where
  "output_packet m vector = do {
     k \<leftarrow> gets m_kernel;
     case plan_packet k m of
         Inl free \<Rightarrow> do { cwhen free (mbuf_freem_list [pkt_id m]); ret (False, vector) }
       | Inr plan \<Rightarrow> do {
           vtd \<leftarrow> gets useAppleVTD;
           r \<leftarrow> (if vtd then txMapPacket m vector kMaxSegs
             else ret (word_of_nat (length (k_segments k m)),
               k_segments k m @ drop (length (k_segments k m)) vector));
           if fst r = 0 then do {
             modify (\<lambda>s. s\<lparr>tx_resourceErrors := tx_resourceErrors s + 1\<rparr>);
             mbuf_freem_list [pkt_id m];
             ret (False, snd r) }
           else do {
             queue_segments (pkt_id m) plan (take (unat (fst r)) (snd r));
             ret (True, snd r) } } }"

text \<open>The queue of the network interface is a list; the results are what is left of it and \<open>count\<close>.\<close>

primrec output_loop :: "packet list \<Rightarrow> (u64 \<times> u64) list \<Rightarrow> u16 \<Rightarrow> (packet list \<times> u16) mausiM" where
  "output_loop [] vector count = ret ([], count)"
| "output_loop (m # queue) vector count = do {
     numFree \<leftarrow> gets txNumFreeDesc;
     if \<not> numFree \<ge> kMaxSegs + 3 then ret (m # queue, count)
     else do {
       r \<leftarrow> output_packet m vector;
       output_loop queue (snd r) (if fst r then count + 1 else count) } }"

definition intelUpdateTxDescTail :: "u32 \<Rightarrow> unit mausiM" where
  "intelUpdateTxDescTail index = do {
     flags2 \<leftarrow> gets (\<lambda>s. hw_flags2 (m_hw s));
     (if flags2 AND FLAG2_PCIM2PCI_ARBITER_WA \<noteq> 0 then do {
        r \<leftarrow> on_hw ew32_prepare;
        intelWriteMem32 (E1000_TDT 0) index;
        if r = 0 then do {
          tdt \<leftarrow> intelReadMem32 (E1000_TDT 0);
          cwhen (index \<noteq> tdt) (do {
            tctl \<leftarrow> intelReadMem32 E1000_TCTL;
            intelWriteMem32 E1000_TCTL (tctl AND NOT E1000_TCTL_EN);
            modify (\<lambda>s. s\<lparr>forceReset := True\<rparr>) }) }
        else ret () }
      else intelWriteMem32 (E1000_TDT 0) index);
     modify (\<lambda>s. s\<lparr>txCleanBarrierIndex := txNextDescIndex s\<rparr>) }"

text \<open>
  The result is whether the interface may go on (\<open>kIOReturnSuccess\<close>), and the rest of its queue.
  \<open>garbage\<close> is what the array of segments on the stack holds at the start.
\<close>

definition outputStart :: "packet list \<Rightarrow> (u64 \<times> u64) list \<Rightarrow> (bool \<times> packet list) mausiM" where
  "outputStart queue garbage = do {
     s \<leftarrow> gets id;
     if \<not> (isEnabled s \<and> linkUp s) \<or> forceReset s then ret (False, queue)
     else do {
       r \<leftarrow> output_loop queue garbage 0;
       cwhen (snd r \<noteq> 0) (do {
         next \<leftarrow> gets txNextDescIndex;
         intelUpdateTxDescTail (ucast next) });
       numFree \<leftarrow> gets txNumFreeDesc;
       ret (numFree \<ge> kMaxSegs + 3, fst r) } }"

subsection \<open>Cleaning the ring\<close>

text \<open>A packet whose last descriptor is done.\<close>

definition tx_release :: "nat \<Rightarrow> mbuf \<Rightarrow> unit mausiM" where
  "tx_release i m = do {
     vtd \<leftarrow> gets useAppleVTD;
     cwhen vtd txUnmapPacket;
     mbuf_freem_list [m];
     cleaned \<leftarrow> gets (\<lambda>s. txb_numDescs (txBufArray s ! i));
     modify (\<lambda>s. s\<lparr>txBufArray := (txBufArray s)[i := \<lparr>txb_mbuf = None, txb_numDescs = 0\<rparr>]\<rparr>);
     modify (\<lambda>s. s\<lparr>txNumFreeDesc := txNumFreeDesc s + uint cleaned,
       txDescDoneCount := txDescDoneCount s + ucast cleaned\<rparr>) }"

definition tx_advance :: "mausi \<Rightarrow> mausi" where
  "tx_advance s = s\<lparr>txDirtyIndex := (txDirtyIndex s + 1) AND kTxDescMask\<rparr>"

text \<open>\<open>None\<close> is not returning.\<close>

partial_function (option) tx_clean_loop :: "mausi \<Rightarrow> mausi option" where
  "tx_clean_loop s =
     (if txDirtyIndex s = txCleanBarrierIndex s then Some s
      else let i = unat (txDirtyIndex s) in
        case txb_mbuf (txBufArray s ! i) of
            None \<Rightarrow> tx_clean_loop (tx_advance s)
          | Some m \<Rightarrow>
              if td_upper (txDescArray s ! i) AND E1000_TXD_STAT_DD = 0 then Some s
              else tx_clean_loop (tx_advance (snd (run_state (tx_release i m) s))))"

declare tx_clean_loop.simps [code]

definition txInterrupt :: "mausi \<Rightarrow> mausi option" where
  "txInterrupt s = map_option (\<lambda>s. if txNumFreeDesc s > kTxQueueWakeTreshhold
     then snd (run_state (kcall SignalOutputThread) s) else s) (tx_clean_loop s)"

subsection \<open>Setting up and flushing the ring\<close>

definition intelInitTxRing :: "unit mausiM" where
  "intelInitTxRing = do {
     pa \<leftarrow> gets txPhyAddr;
     intelWriteMem32 (E1000_TDBAL 0) (ucast (pa AND 0xffffffff));
     intelWriteMem32 (E1000_TDBAH 0) (ucast (drop_bit 32 pa));
     intelWriteMem32 (E1000_TDLEN 0) (kNumTxDesc * 16);
     intelWriteMem32 (E1000_TDH 0) 0;
     intelWriteMem32 (E1000_TDT 0) 0;
     modify (\<lambda>s. s\<lparr>txNextDescIndex := 0, txDirtyIndex := 0, txCleanBarrierIndex := 0,
       txNumFreeDesc := kNumTxDesc\<rparr>) }"

definition intelFlushTxRing :: "unit mausiM" where
  "intelFlushTxRing = do {
     tctl \<leftarrow> intelReadMem32 E1000_TCTL;
     intelWriteMem32 E1000_TCTL (tctl OR E1000_TCTL_EN);
     tdt \<leftarrow> intelReadMem32 (E1000_TDT 0);
     next \<leftarrow> gets txNextDescIndex;
     cwhen (tdt = ucast next) (do {
       pa \<leftarrow> gets txPhyAddr;
       modify (\<lambda>s. s\<lparr>txNumFreeDesc := txNumFreeDesc s - 1,
         txDescArray := (txDescArray s)[unat next := \<lparr>td_buffer_addr = pa,
           td_lower = E1000_TXD_CMD_IFCS OR 512, td_upper = 0\<rparr>],
         txNextDescIndex := (next + 1) AND kTxDescMask\<rparr>);
       intelWriteMem32 (E1000_TDT 0) (ucast ((next + 1) AND kTxDescMask));
       intelFlush;
       on_hw (usleep_range 200 250) }) }"

text \<open>The transmit half of \<open>clearDescriptors\<close>.\<close>

primrec clear_tx_bufs :: "nat list \<Rightarrow> unit mausiM" where
  "clear_tx_bufs [] = ret ()"
| "clear_tx_bufs (i # is) = do {
     m \<leftarrow> gets (\<lambda>s. txb_mbuf (txBufArray s ! i));
     (case m of None \<Rightarrow> ret ()
      | Some m \<Rightarrow> do {
          mbuf_freem_list [m];
          modify (\<lambda>s. s\<lparr>txBufArray := (txBufArray s)[i := \<lparr>txb_mbuf = None, txb_numDescs = 0\<rparr>]\<rparr>) });
     clear_tx_bufs is }"

primrec clear_tx_maps :: "nat list \<Rightarrow> unit mausiM" where
  "clear_tx_maps [] = ret ()"
| "clear_tx_maps (i # is) = do {
     md \<leftarrow> gets (\<lambda>s. txMemIO s ! i);
     cwhen (md = Some True) (do {
       kcall (MdComplete i);
       kcall (MdSetTag i False);
       modify (\<lambda>s. s\<lparr>txMemIO := (txMemIO s)[i := Some False]\<rparr>) });
     clear_tx_maps is }"

definition clear_tx :: "unit mausiM" where
  "clear_tx = do {
     clear_tx_bufs [0..<kNumTxDesc];
     vtd \<leftarrow> gets useAppleVTD;
     cwhen vtd (do {
       clear_tx_maps [0..<kNumTxMemDesc];
       modify (\<lambda>s. s\<lparr>txNextMem2Use := 0, txNextMem2Free := 0, txNumFreeMem := kNumTxMemDesc\<rparr>) });
     modify (\<lambda>s. s\<lparr>txNextDescIndex := 0, txDirtyIndex := 0, txCleanBarrierIndex := 0,
       txNumFreeDesc := kNumTxDesc\<rparr>) }"

end
