(* ===== verification/TxRingInv.thy ===== *)
theory TxRingInv
  imports TxRing
begin

section \<open>The transmit ring as a list of packets in flight\<close>

text \<open>
  The ring of theory \<open>TxRing\<close> seen from its oldest packet: positions modulo 512, the entries a packet
  takes, and the predicate \<open>tx_view\<close> that relates a driver state to the list of packets in
  flight. The lemmas say what queueing a packet, running \<open>outputStart\<close>, and cleaning do to that list.
\<close>

subsection \<open>Positions on the ring\<close>

definition ring_pos :: "nat \<Rightarrow> nat \<Rightarrow> nat" where "ring_pos d i = (d + i) mod 512"

definition ring_ix :: "u16 \<Rightarrow> bool" where "ring_ix w \<longleftrightarrow> unat w < 512"

lemma and_511: "unat (w AND kTxDescMask :: u16) = unat w mod 512"
proof -
  have "(511 :: u16) = mask 9" by (simp add: mask_eq_exp_minus_1)
  then show ?thesis by (simp only: take_bit_eq_mask [symmetric] unsigned_take_bit_eq) (simp add: take_bit_eq_mod)
qed

lemma ring_step: "ring_ix w \<Longrightarrow> unat ((w + 1) AND kTxDescMask) = ring_pos (unat w) 1"
  by (simp add: and_511 ring_ix_def ring_pos_def unat_word_ariths)

lemma ring_ix_and [simp]: "ring_ix (w AND kTxDescMask)"
  by (simp add: ring_ix_def and_511)

lemma ring_pos_simps [simp]: "d < 512 \<Longrightarrow> ring_pos d 0 = d" "ring_pos (ring_pos d i) j = ring_pos d (i + j)"
  "ring_pos d i < 512"
  by (simp_all add: ring_pos_def mod_add_left_eq add.assoc)

lemma ring_pos_inj:
  assumes "i < 512" "j < 512" "ring_pos d i = ring_pos d j" shows "i = j"
proof -
  have "i = j" if "i \<le> j" "i < 512" "j < 512" "(d + i) mod 512 = (d + j) mod 512" for i j
  proof -
    from that(4) have "512 dvd (d + j) - (d + i)" using that(1)
      by (metis add_le_cancel_left mod_eq_dvd_iff_nat)
    then have "512 dvd j - i" by simp
    with that show ?thesis by (metis diff_diff_cancel diff_le_self le_less_trans nat_dvd_not_less
      not_gr_zero minus_nat.diff_0)
  qed
  then show ?thesis using assms unfolding ring_pos_def by (metis nat_le_linear)
qed

subsection \<open>What a queued packet writes\<close>

definition empty_buf :: intelTxBufferInfo where "empty_buf = \<lparr>txb_mbuf = None, txb_numDescs = 0\<rparr>"

definition seg_buf :: "tx_plan \<Rightarrow> mbuf \<Rightarrow> u32 \<Rightarrow> nat \<Rightarrow> nat \<Rightarrow> intelTxBufferInfo" where
  "seg_buf plan m n lastSeg i = (if seg_owns plan i lastSeg then \<lparr>txb_mbuf = Some m, txb_numDescs = n\<rparr> else empty_buf)"

definition seg_desc :: "tx_plan \<Rightarrow> nat \<Rightarrow> nat \<Rightarrow> u64 \<times> u64 \<Rightarrow> tx_desc" where
  "seg_desc plan lastSeg i seg = \<lparr>td_buffer_addr = fst seg,
     td_lower = tp_cmd plan OR ucast (snd seg AND 0x000fffff) OR seg_bits plan i lastSeg, td_upper = tp_word2 plan\<rparr>"

text \<open>An array overwritten on consecutive positions of the ring.\<close>

definition ring_put :: "nat \<Rightarrow> 'a list \<Rightarrow> 'a list \<Rightarrow> 'a list \<Rightarrow> bool" where
  "ring_put d xs a b \<longleftrightarrow> length b = 512 \<and>
     (\<forall>q < 512. b ! ring_pos d q = (if q < length xs then xs ! q else a ! ring_pos d q))"

lemma ring_put_Nil: "length a = 512 \<Longrightarrow> ring_put d [] a a"
  by (simp add: ring_put_def)

lemma ring_put_Cons:
  assumes "d < 512" "length a = 512" "length xs < 512"
    and "ring_put (ring_pos d 1) xs (a[d := x]) b"
  shows "ring_put d (x # xs) a b"
  unfolding ring_put_def
proof (intro conjI allI impI)
  show "length b = 512" using assms(4) by (simp add: ring_put_def)
  fix q :: nat
  assume q: "q < 512"
  show "b ! ring_pos d q = (if q < length (x # xs) then (x # xs) ! q else a ! ring_pos d q)"
  proof (cases q)
    case 0
    have "ring_pos d 512 = d" using assms(1) by (simp add: ring_pos_def)
    then have "ring_pos d q = ring_pos (ring_pos d 1) 511"
      using 0 assms(1) by (simp only: ring_pos_simps) simp
    moreover have "b ! ring_pos (ring_pos d 1) 511 = (a[d := x]) ! ring_pos (ring_pos d 1) 511"
    proof -
      have "b ! ring_pos (ring_pos d 1) 511 = (if 511 < length xs then xs ! 511
          else (a[d := x]) ! ring_pos (ring_pos d 1) 511)"
        using assms(4) unfolding ring_put_def by (elim conjE allE [of _ 511]) (erule mp, simp)
      then show ?thesis using assms(3) by (simp only: split: if_splits) arith+
    qed
    ultimately have "b ! ring_pos d q = (a[d := x]) ! ring_pos d q" by simp
    then show ?thesis using 0 assms(1,2) by simp
  next
    case (Suc p)
    have "ring_pos d q = ring_pos (ring_pos d 1) p" using Suc by simp
    moreover have "ring_pos d q \<noteq> d"
      using ring_pos_inj [of q 0 d] q Suc assms(1) by auto
    ultimately show ?thesis using assms(4) q Suc by (simp add: ring_put_def)
  qed
qed

lemma run_put_tx: "run_state (put_tx index d b) s = ((), s\<lparr>txDescArray := (txDescArray s)[unat index := d],
     txBufArray := (txBufArray s)[unat index := b]\<rparr>)"
  by (simp add: put_tx_def)

lemma fill_segs_run:
  assumes "ring_ix index" "length (txDescArray s) = 512" "length (txBufArray s) = 512" "length segs \<le> 512"
  shows "\<exists>ds bs. run_state (fill_segs segs i lastSeg plan m n index) s = ((), s\<lparr>txDescArray := ds, txBufArray := bs\<rparr>) \<and>
     ring_put (unat index) (map (\<lambda>j. seg_desc plan lastSeg (i + j) (segs ! j)) [0..<length segs]) (txDescArray s) ds \<and>
     ring_put (unat index) (map (\<lambda>j. seg_buf plan m n lastSeg (i + j)) [0..<length segs]) (txBufArray s) bs"
  using assms
proof (induction segs arbitrary: i index s)
  case Nil
  then show ?case
    by (intro exI [of _ "txDescArray s"] exI [of _ "txBufArray s"]) (simp add: ring_put_Nil)
next
  case (Cons seg segs)
  let ?d = "seg_desc plan lastSeg i seg" and ?b = "seg_buf plan m n lastSeg i"
  let ?s = "s\<lparr>txDescArray := (txDescArray s)[unat index := ?d], txBufArray := (txBufArray s)[unat index := ?b]\<rparr>"
  have ix: "unat ((index + 1) AND kTxDescMask) = ring_pos (unat index) 1"
    using Cons.prems(1) by (rule ring_step)
  obtain ds bs where IH: "run_state (fill_segs segs (i + 1) lastSeg plan m n ((index + 1) AND kTxDescMask)) ?s
      = ((), ?s\<lparr>txDescArray := ds, txBufArray := bs\<rparr>)"
    "ring_put (ring_pos (unat index) 1) (map (\<lambda>j. seg_desc plan lastSeg (i + 1 + j) (segs ! j)) [0..<length segs]) (txDescArray ?s) ds"
    "ring_put (ring_pos (unat index) 1) (map (\<lambda>j. seg_buf plan m n lastSeg (i + 1 + j)) [0..<length segs]) (txBufArray ?s) bs"
    using Cons.IH [of "(index + 1) AND kTxDescMask" ?s "i + 1"] Cons.prems unfolding ix by auto
  have "run_state (fill_segs (seg # segs) i lastSeg plan m n index) s = ((), s\<lparr>txDescArray := ds, txBufArray := bs\<rparr>)"
    using IH(1) by (simp add: run_put_tx seg_desc_def seg_buf_def empty_buf_def cong: if_cong)
  moreover have "map (\<lambda>j. seg_buf plan m n lastSeg (i + j)) [0..<length (seg # segs)]
      = ?b # map (\<lambda>j. seg_buf plan m n lastSeg (i + 1 + j)) [0..<length segs]"
    by (simp add: upt_conv_Cons map_Suc_upt [symmetric] del: upt_Suc)
  moreover have "map (\<lambda>j. seg_desc plan lastSeg (i + j) ((seg # segs) ! j)) [0..<length (seg # segs)]
      = ?d # map (\<lambda>j. seg_desc plan lastSeg (i + 1 + j) (segs ! j)) [0..<length segs]"
    by (simp add: upt_conv_Cons map_Suc_upt [symmetric] del: upt_Suc)
  moreover have "unat index < 512" using Cons.prems(1) by (simp add: ring_ix_def)
  moreover have "ring_put (unat index) (map (\<lambda>j. seg_desc plan lastSeg (i + j) ((seg # segs) ! j)) [0..<length (seg # segs)])
      (txDescArray s) ds"
    unfolding calculation(3) by (rule ring_put_Cons) (use IH(2) Cons.prems(2,4) calculation(4) in simp_all)
  moreover have "ring_put (unat index) (map (\<lambda>j. seg_buf plan m n lastSeg (i + j)) [0..<length (seg # segs)])
      (txBufArray s) bs"
    unfolding calculation(2) by (rule ring_put_Cons) (use IH(3) Cons.prems(3,4) calculation(4) in simp_all)
  ultimately show ?case by blast
qed

lemma ring_putD: "ring_put d xs a b \<Longrightarrow> q < 512 \<Longrightarrow>
    b ! ring_pos d q = (if q < length xs then xs ! q else a ! ring_pos d q)"
  by (simp add: ring_put_def)

lemma ring_put_window:
  assumes "ring_put (ring_pos h n) xs a b" and "n + length xs \<le> 512" and "q < 512"
  shows "b ! ring_pos h q = (if n \<le> q \<and> q < n + length xs then xs ! (q - n) else a ! ring_pos h q)"
proof (cases "n \<le> q")
  case True
  then have "ring_pos h q = ring_pos (ring_pos h n) (q - n)" by simp
  then show ?thesis using ring_putD [OF assms(1), of "q - n"] assms(3) True
    by (auto simp del: ring_pos_simps)
next
  case False
  then have "ring_pos h q = ring_pos (ring_pos h n) (512 - n + q)"
  proof -
    have "ring_pos (ring_pos h n) (512 - n + q) = ring_pos h (512 + q)"
      using False assms(2) by simp
    also have "\<dots> = ring_pos h q"
      by (simp only: ring_pos_def add.commute [of 512] add.assoc [symmetric] mod_add_self2)
    finally show ?thesis by simp
  qed
  then show ?thesis using ring_putD [OF assms(1), of "512 - n + q"] assms(2) False
    by (auto simp del: ring_pos_simps)
qed

subsection \<open>The packets in flight\<close>

text \<open>
  The abstract ring: the packets in flight, oldest first, each with the number of its descriptors. The ring
  from the first descriptor \<open>h\<close> of the oldest one holds, for every packet, empty entries and then the one
  that owns the packet; \<open>k\<close> of the oldest packet's entries have been passed by the cleaning, and
  \<open>j\<close> packets lie before the cleaning barrier.
\<close>

definition owner_buf :: "mbuf \<Rightarrow> nat \<Rightarrow> intelTxBufferInfo" where
  "owner_buf m n = \<lparr>txb_mbuf = Some m, txb_numDescs = word_of_nat n\<rparr>"

definition slots :: "(mbuf \<times> nat) list \<Rightarrow> intelTxBufferInfo list" where
  "slots pkts = concat (map (\<lambda>(m, n). replicate (n - 1) empty_buf @ [owner_buf m n]) pkts)"

definition total :: "(mbuf \<times> nat) list \<Rightarrow> nat" where "total pkts = sum_list (map snd pkts)"

definition tx_view :: "nat \<Rightarrow> nat \<Rightarrow> nat \<Rightarrow> (mbuf \<times> nat) list \<Rightarrow> mausi \<Rightarrow> bool" where
  "tx_view h k j pkts s \<longleftrightarrow>
     h < 512 \<and> length (txDescArray s) = 512 \<and> length (txBufArray s) = 512 \<and>
     list_all (\<lambda>(m, n). 0 < n) pkts \<and> total pkts \<le> 510 \<and> txNumFreeDesc s = 512 - int (total pkts) \<and>
     unat (txNextDescIndex s) = ring_pos h (total pkts) \<and> unat (txDirtyIndex s) = ring_pos h k \<and>
     unat (txCleanBarrierIndex s) = ring_pos h (total (take j pkts)) \<and> j \<le> length pkts \<and>
     (0 < k \<longrightarrow> 0 < j \<and> k < snd (hd pkts)) \<and>
     (\<forall>q < 512. txBufArray s ! ring_pos h q = (if q < total pkts then slots pkts ! q else empty_buf))"

lemma total_simps [simp]: "total [] = 0" "total (p # pkts) = snd p + total pkts"
  "total (pkts @ pkts') = total pkts + total pkts'"
  by (simp_all add: total_def)

lemma slots_simps [simp]: "slots [] = []"
  "slots ((m, n) # pkts) = replicate (n - 1) empty_buf @ owner_buf m n # slots pkts"
  "slots (pkts @ pkts') = slots pkts @ slots pkts'"
  by (simp_all add: slots_def)

lemma length_slots: "list_all (\<lambda>(m, n). 0 < n) pkts \<Longrightarrow> length (slots pkts) = total pkts"
  by (induction pkts) auto

lemma total_take: "total (take j pkts) \<le> total pkts"
  by (metis append_take_drop_id le_add1 total_simps(3))

text \<open>A plan whose count and flags agree, and enough segments for it.\<close>

definition plan_ok :: "tx_plan \<Rightarrow> nat \<Rightarrow> bool" where
  "plan_ok plan n \<longleftrightarrow> tp_numDescs plan = (if tp_offload plan then 1 else 0) \<and> 0 < n \<and> n \<le> kMaxSegs \<and>
     (tp_tso plan \<longrightarrow> tp_offload plan \<and> 2 \<le> n)"

definition plan_count :: "tx_plan \<Rightarrow> nat \<Rightarrow> nat" where
  "plan_count plan n = (if tp_offload plan then 1 else 0) + n"

definition packet_descs :: "tx_plan \<Rightarrow> (u64 \<times> u64) list \<Rightarrow> tx_desc list" where
  "packet_descs plan segs = (if tp_offload plan then [context_desc plan] else []) @
     map (\<lambda>j. seg_desc plan (length segs - 1) j (segs ! j)) [0..<length segs]"

definition packet_bufs :: "mbuf \<Rightarrow> tx_plan \<Rightarrow> nat \<Rightarrow> intelTxBufferInfo list" where
  "packet_bufs m plan l = (if tp_offload plan then [empty_buf] else []) @
     map (seg_buf plan m (word_of_nat (plan_count plan l)) (l - 1)) [0..<l]"

lemma packet_bufs_slots:
  assumes "plan_ok plan l"
  shows "packet_bufs m plan l = slots [(m, plan_count plan l)]"
proof -
  obtain p where l: "l = Suc p" using assms by (cases l) (auto simp: plan_ok_def)
  have "map (seg_buf plan m (word_of_nat (plan_count plan l)) (l - 1)) [0..<l]
      = replicate p empty_buf @ [owner_buf m (plan_count plan l)]"
    using assms unfolding l plan_ok_def
    by (intro nth_equalityI) (auto simp: seg_buf_def seg_owns_def owner_buf_def nth_append)
  then show ?thesis by (simp add: packet_bufs_def l plan_count_def)
qed

lemma queue_segments_run:
  assumes view: "tx_view h k j pkts s" and plan: "plan_ok plan (length segs)"
    and free: "txNumFreeDesc s \<ge> kMaxSegs + 3"
  defines "n \<equiv> plan_count plan (length segs)"
  shows "\<exists>ds bs w. run_state (queue_segments m plan segs) s =
      ((), s\<lparr>txNumFreeDesc := txNumFreeDesc s - int n, txNextDescIndex := w, txDescArray := ds, txBufArray := bs\<rparr>) \<and>
    tx_view h k j (pkts @ [(m, n)]) (snd (run_state (queue_segments m plan segs) s)) \<and>
    (\<forall>q < 512. ds ! ring_pos h q = (if total pkts \<le> q \<and> q < total pkts + n
       then packet_descs plan segs ! (q - total pkts) else txDescArray s ! ring_pos h q))"
proof -
  let ?i = "txNextDescIndex s" and ?l = "length segs" and ?nd = "tp_numDescs plan + word_of_nat (length segs) :: u32"
  have n: "0 < n" "n \<le> 33" "?l \<le> 32" "0 < ?l" using plan by (auto simp: plan_ok_def n_def plan_count_def)
  have nd: "?nd = word_of_nat n" using plan by (simp add: plan_ok_def n_def plan_count_def)
  have und: "unat ?nd = n" unfolding nd using n by (simp add: unsigned_of_nat take_bit_nat_eq_self)
  then have uind: "uint (word_of_nat n :: u32) = int n" unfolding nd by (metis uint_nat)
  have tot: "total pkts + n \<le> 510" "total pkts + n \<le> 512" using view free n by (auto simp: tx_view_def)
  have ix: "ring_ix ?i" "unat ?i = ring_pos h (total pkts)" using view by (simp_all add: tx_view_def ring_ix_def)
  let ?w = "ucast ((ucast ?i + ?nd) AND kTxDescMask) :: u16"
  have "unat ((ucast ?i + ?nd) AND (511 :: u32)) = (unat ?i + n) mod 512"
  proof -
    have m: "(511 :: u32) = mask 9" by (simp add: mask_eq_exp_minus_1)
    have u: "unat (ucast ?i + ?nd :: u32) = unat ?i + n"
      using ix(1) n und by (simp add: unat_word_ariths unsigned_ucast_eq take_bit_nat_eq_self ring_ix_def)
    show ?thesis unfolding m by (simp only: take_bit_eq_mask [symmetric] unsigned_take_bit_eq u) (simp add: take_bit_eq_mod)
  qed
  then have w: "unat ?w = ring_pos h (total pkts + n)"
    using ix by (simp add: unsigned_ucast_eq take_bit_nat_eq_self ring_pos_def mod_simps add.assoc)
  let ?s = "s\<lparr>txNumFreeDesc := txNumFreeDesc s - int n, txNextDescIndex := ?w\<rparr>"
  obtain ds bs where run: "run_state (queue_segments m plan segs) s = ((), ?s\<lparr>txDescArray := ds, txBufArray := bs\<rparr>)"
    "ring_put (unat ?i) (packet_descs plan segs) (txDescArray s) ds"
    "ring_put (unat ?i) (packet_bufs m plan ?l) (txBufArray s) bs"
  proof (cases "tp_offload plan")
    case False
    obtain ds bs where "run_state (fill_segs segs 0 (?l - 1) plan m ?nd ?i) ?s = ((), ?s\<lparr>txDescArray := ds, txBufArray := bs\<rparr>)"
      "ring_put (unat ?i) (map (\<lambda>j. seg_desc plan (?l - 1) (0 + j) (segs ! j)) [0..<?l]) (txDescArray ?s) ds"
      "ring_put (unat ?i) (map (\<lambda>j. seg_buf plan m ?nd (?l - 1) (0 + j)) [0..<?l]) (txBufArray ?s) bs"
      using fill_segs_run [OF ix(1), of ?s segs 0 "?l - 1" plan m ?nd] view n(3) by (auto simp: tx_view_def)
    then show ?thesis using False by (intro that [where ds = ds and bs = bs])
      (simp_all add: queue_segments_def Let_def uind packet_descs_def packet_bufs_def nd n_def [symmetric] case_prod_beta)
  next
    case True
    let ?t = "?s\<lparr>txDescArray := (txDescArray s)[unat ?i := context_desc plan], txBufArray := (txBufArray s)[unat ?i := empty_buf]\<rparr>"
    have step: "unat ((?i + 1) AND kTxDescMask) = ring_pos (unat ?i) 1" using ix(1) by (rule ring_step)
    obtain ds bs where f: "run_state (fill_segs segs 0 (?l - 1) plan m ?nd ((?i + 1) AND kTxDescMask)) ?t = ((), ?t\<lparr>txDescArray := ds, txBufArray := bs\<rparr>)"
      "ring_put (ring_pos (unat ?i) 1) (map (\<lambda>j. seg_desc plan (?l - 1) (0 + j) (segs ! j)) [0..<?l]) (txDescArray ?t) ds"
      "ring_put (ring_pos (unat ?i) 1) (map (\<lambda>j. seg_buf plan m ?nd (?l - 1) (0 + j)) [0..<?l]) (txBufArray ?t) bs"
      using fill_segs_run [OF ring_ix_and, of ?t segs 0 "?l - 1" plan m ?nd "?i + 1"] view n(3)
      unfolding step by (auto simp: tx_view_def)
    have "ring_put (unat ?i) (context_desc plan # map (\<lambda>j. seg_desc plan (?l - 1) (0 + j) (segs ! j)) [0..<?l]) (txDescArray s) ds"
      "ring_put (unat ?i) (empty_buf # map (\<lambda>j. seg_buf plan m ?nd (?l - 1) (0 + j)) [0..<?l]) (txBufArray s) bs"
      using f(2,3) view n(3) ix(1) by (auto simp: tx_view_def ring_ix_def intro!: ring_put_Cons)
    then show ?thesis using True f(1) by (intro that [where ds = ds and bs = bs])
      (simp_all add: queue_segments_def Let_def uind packet_descs_def packet_bufs_def nd n_def [symmetric] run_put_tx
         empty_buf_def [symmetric] cong: if_cong)
  qed
  have len: "length (packet_descs plan segs) = n" "length (packet_bufs m plan ?l) = n"
    by (simp_all add: packet_descs_def packet_bufs_def n_def plan_count_def)
  note b = ring_put_window [OF run(3) [unfolded ix(2)], unfolded len, OF tot(2)]
  note d = ring_put_window [OF run(2) [unfolded ix(2)], unfolded len, OF tot(2)]
  have sl: "packet_bufs m plan ?l = slots [(m, n)]" unfolding n_def by (rule packet_bufs_slots [OF plan])
  have ls: "length (slots pkts) = total pkts" using view by (intro length_slots) (simp add: tx_view_def)
  have bufs: "bs ! ring_pos h q = (if q < total (pkts @ [(m, n)]) then slots (pkts @ [(m, n)]) ! q else empty_buf)"
    if "q < 512" for q
    using b [OF that] view that ls unfolding sl by (auto simp: tx_view_def nth_append)
  have "tx_view h k j (pkts @ [(m, n)]) (?s\<lparr>txDescArray := ds, txBufArray := bs\<rparr>)"
    unfolding tx_view_def
  proof (intro conjI allI impI)
    show "length (txDescArray (?s\<lparr>txDescArray := ds, txBufArray := bs\<rparr>)) = 512"
      "length (txBufArray (?s\<lparr>txDescArray := ds, txBufArray := bs\<rparr>)) = 512"
      using run(2,3) by (simp_all add: ring_put_def)
    show "0 < j" if "0 < k" using view that by (simp add: tx_view_def)
    show "k < snd (hd (pkts @ [(m, n)]))" if "0 < k"
      using view that by (cases pkts) (auto simp: tx_view_def)
  qed (use view n tot w bufs in \<open>simp_all add: tx_view_def del: slots_simps\<close>)
  then show ?thesis unfolding run(1) snd_conv using d
    by (intro exI [of _ ds] exI [of _ bs] exI [of _ ?w]) simp
qed

subsection \<open>Cleaning\<close>

definition desc_done :: "tx_desc \<Rightarrow> bool" where "desc_done d \<longleftrightarrow> td_upper d AND E1000_TXD_STAT_DD \<noteq> 0"

text \<open>How many of the oldest packets are complete: the descriptor that ends them is marked done.\<close>

fun completed :: "tx_desc list \<Rightarrow> nat \<Rightarrow> (mbuf \<times> nat) list \<Rightarrow> nat" where
  "completed ds h [] = 0"
| "completed ds h ((m, n) # pkts) =
     (if desc_done (ds ! ring_pos h (n - 1)) then Suc (completed ds (ring_pos h n) pkts) else 0)"

text \<open>The buffers the driver has freed, in order.\<close>

primrec freed :: "kcall list \<Rightarrow> mbuf list" where
  "freed [] = []"
| "freed (c # log) = freed log @ (case c of FreeMbuf ms \<Rightarrow> ms | _ \<Rightarrow> [])"

lemma run_kcall [simp]: "run_state (kcall c) s = (k_ok (m_kernel s) (m_klog s) c, s\<lparr>m_klog := c # m_klog s\<rparr>)"
  by (simp add: kcall_def)

lemma run_mbuf_freem_list [simp]: "run_state (mbuf_freem_list ms) s = ((), s\<lparr>m_klog := FreeMbuf ms # m_klog s\<rparr>)"
  by (simp add: mbuf_freem_list_def)

lemma tx_release_run:
  "\<exists>t. run_state (tx_release i m) s = ((), t) \<and> txDescArray t = txDescArray s \<and>
     txBufArray t = (txBufArray s)[i := empty_buf] \<and> txNextDescIndex t = txNextDescIndex s \<and>
     txDirtyIndex t = txDirtyIndex s \<and> txCleanBarrierIndex t = txCleanBarrierIndex s \<and>
     txNumFreeDesc t = txNumFreeDesc s + uint (txb_numDescs (txBufArray s ! i)) \<and>
     freed (m_klog t) = freed (m_klog s) @ [m]"
  by (simp add: tx_release_def txUnmapPacket_def empty_buf_def)

lemma total_take_Suc: "0 < j \<Longrightarrow> total (take j (p # pkts)) = snd p + total (take (j - 1) pkts)"
  by (cases j) simp_all

lemma slots_nth_head:
  "q < n \<Longrightarrow> slots ((m, n) # pkts) ! q = (if q = n - 1 then owner_buf m n else empty_buf)"
  by (auto simp: nth_append)

lemma ring_pos_neq: "i < j \<Longrightarrow> j < 512 \<Longrightarrow> ring_pos h i \<noteq> ring_pos h j"
  using ring_pos_inj [of i j h] by auto

text \<open>The dirty index inside the oldest packet is not the barrier, and the entry there is that of the packet.\<close>

lemma tx_view_head:
  assumes "tx_view h k j ((m, n) # pkts) s" and "0 < j"
  shows "0 < n" "k < n" "txDirtyIndex s \<noteq> txCleanBarrierIndex s"
    "txBufArray s ! unat (txDirtyIndex s) = (if k = n - 1 then owner_buf m n else empty_buf)"
proof -
  show n: "0 < n" "k < n" using assms by (auto simp: tx_view_def)
  have "n + total (take (j - 1) pkts) \<le> 510"
    using assms total_take [of "j - 1" pkts] by (simp add: tx_view_def)
  then have "ring_pos h k \<noteq> ring_pos h (n + total (take (j - 1) pkts))"
    using n by (intro ring_pos_neq) simp_all
  then show "txDirtyIndex s \<noteq> txCleanBarrierIndex s"
    using assms by (auto simp: tx_view_def total_take_Suc)
  have "txBufArray s ! ring_pos h k = slots ((m, n) # pkts) ! k"
    using assms n by (simp add: tx_view_def del: slots_simps)
  then show "txBufArray s ! unat (txDirtyIndex s) = (if k = n - 1 then owner_buf m n else empty_buf)"
    using assms n by (simp add: slots_nth_head tx_view_def del: slots_simps)
qed

lemma tx_view_dirty:
  assumes "tx_view h k j pkts s" and "unat w = ring_pos h k'" and "0 < k' \<longrightarrow> 0 < j \<and> k' < snd (hd pkts)"
  shows "tx_view h k' j pkts (s\<lparr>txDirtyIndex := w\<rparr>)"
  using assms by (simp add: tx_view_def)

lemma tx_dirty_step:
  assumes "tx_view h k j pkts s"
  shows "unat ((txDirtyIndex s + 1) AND kTxDescMask) = ring_pos h (k + 1)"
  using ring_step [of "txDirtyIndex s"] assms by (simp add: tx_view_def ring_ix_def)

lemma tx_clean_skip:
  assumes "tx_view h k j ((m, n) # pkts) s" and "0 < j"
  shows "\<exists>w. unat w = ring_pos h (n - 1) \<and> tx_view h (n - 1) j ((m, n) # pkts) (s\<lparr>txDirtyIndex := w\<rparr>) \<and>
    tx_clean_loop s = tx_clean_loop (s\<lparr>txDirtyIndex := w\<rparr>)"
  using assms(1)
proof (induction "n - 1 - k" arbitrary: k s)
  case 0
  have "k = n - 1" using 0 tx_view_head(1,2) [OF 0(2) assms(2)] by simp
  then show ?case using 0 by (intro exI [of _ "txDirtyIndex s"]) (auto simp: tx_view_def)
next
  case (Suc x)
  note v = tx_view_head [OF Suc.prems assms(2)]
  let ?s = "tx_advance s"
  have k: "k \<noteq> n - 1" "k + 1 < n" using Suc.hyps(2) by auto
  have view: "tx_view h (k + 1) j ((m, n) # pkts) ?s"
    unfolding tx_advance_def using k assms(2)
    by (intro tx_view_dirty [OF Suc.prems] tx_dirty_step [OF Suc.prems]) simp
  obtain w where w: "unat w = ring_pos h (n - 1)" "tx_view h (n - 1) j ((m, n) # pkts) (?s\<lparr>txDirtyIndex := w\<rparr>)"
    "tx_clean_loop ?s = tx_clean_loop (?s\<lparr>txDirtyIndex := w\<rparr>)"
  proof -
    have "x = n - 1 - (k + 1)" using Suc.hyps(2) by simp
    from Suc.hyps(1) [OF this view] show ?thesis using that by blast
  qed
  have "tx_clean_loop s = tx_clean_loop ?s"
    by (subst tx_clean_loop.simps) (use v(3,4) k in \<open>simp add: empty_buf_def\<close>)
  with w show ?case by (intro exI [of _ w]) (simp add: tx_advance_def)
qed

lemma tx_view_release:
  assumes view: "tx_view h (n - 1) j ((m, n) # pkts) s" and "0 < j"
    and t: "txDescArray t = txDescArray s" "txBufArray t = (txBufArray s)[unat (txDirtyIndex s) := empty_buf]"
      "txNextDescIndex t = txNextDescIndex s" "txDirtyIndex t = txDirtyIndex s"
      "txCleanBarrierIndex t = txCleanBarrierIndex s"
      "txNumFreeDesc t = txNumFreeDesc s + uint (txb_numDescs (txBufArray s ! unat (txDirtyIndex s)))"
  shows "tx_view (ring_pos h n) 0 (j - 1) pkts (tx_advance t)"
proof -
  note v = tx_view_head [OF view assms(2)]
  have n: "n \<le> 510" "n + total pkts \<le> 510" using view by (auto simp: tx_view_def)
  have num: "uint (txb_numDescs (txBufArray s ! unat (txDirtyIndex s))) = int n"
    using v(4) n by (simp add: owner_buf_def uint_nat unsigned_of_nat take_bit_nat_eq_self)
  have d: "unat (txDirtyIndex s) = ring_pos h (n - 1)" using view by (simp add: tx_view_def)
  have dirty: "unat ((txDirtyIndex s + 1) AND kTxDescMask) = ring_pos h n"
    using tx_dirty_step [OF view] v(1) by simp
  have all: "list_all (\<lambda>(m, n). 0 < n) pkts" using view by (simp add: tx_view_def)
  have bufs: "txBufArray t ! ring_pos (ring_pos h n) q = (if q < total pkts then slots pkts ! q else empty_buf)"
    if q: "q < 512" for q
  proof (cases "n + q < 512")
    case True
    have ne: "ring_pos h (n - 1) \<noteq> ring_pos h (n + q)" using True v(1) by (intro ring_pos_neq) simp_all
    have "txBufArray s ! ring_pos h (n + q) = (if n + q < n + total pkts then slots ((m, n) # pkts) ! (n + q) else empty_buf)"
      using view True by (simp add: tx_view_def del: slots_simps)
    also have "slots ((m, n) # pkts) ! (n + q) = slots pkts ! q"
    proof -
      have "slots ((m, n) # pkts) = (replicate (n - 1) empty_buf @ [owner_buf m n]) @ slots pkts" by simp
      moreover have "length (replicate (n - 1) empty_buf @ [owner_buf m n]) = n" using v(1) by simp
      ultimately show ?thesis by (simp only: nth_append_length_plus [of "replicate (n - 1) empty_buf @ [owner_buf m n]", unfolded \<open>length _ = n\<close>])
    qed
    finally show ?thesis using ne by (simp add: t(2) d)
  next
    case False
    let ?p = "n + q - 512"
    have p: "?p < n" "ring_pos (ring_pos h n) q = ring_pos h ?p"
    proof -
      have "ring_pos h (n + q) = ring_pos h (?p + 512)" using False by simp
      also have "\<dots> = ring_pos h ?p" by (simp only: ring_pos_def add.assoc [symmetric] mod_add_self2)
      finally show "ring_pos (ring_pos h n) q = ring_pos h ?p" by simp
    qed (use q v(1) False in arith)
    have "txBufArray s ! ring_pos h ?p = (if ?p = n - 1 then owner_buf m n else empty_buf)"
      using view p(1) n slots_nth_head [OF p(1)] by (simp add: tx_view_def del: slots_simps)
    moreover have "ring_pos h ?p = ring_pos h (n - 1) \<longleftrightarrow> ?p = n - 1"
      using ring_pos_inj [of ?p "n - 1" h] p(1) n(1) by auto
    ultimately have "txBufArray t ! ring_pos h ?p = empty_buf"
      using view by (auto simp: t(2) d tx_view_def nth_list_update)
    moreover have "\<not> q < total pkts" using False n(2) by simp
    ultimately show ?thesis using p(2) by simp
  qed
  show ?thesis
    unfolding tx_view_def
  proof (intro conjI)
    show "\<forall>q<512. txBufArray (tx_advance t) ! ring_pos (ring_pos h n) q = (if q < total pkts then slots pkts ! q else empty_buf)"
      using bufs by (simp add: tx_advance_def)
    show "unat (txCleanBarrierIndex (tx_advance t)) = ring_pos (ring_pos h n) (total (take (j - 1) pkts))"
      using view assms(2) by (simp add: tx_advance_def t tx_view_def total_take_Suc)
  qed (use view all n num dirty assms(2) in \<open>auto simp: tx_advance_def t tx_view_def\<close>)
qed

lemma tx_clean_run:
  assumes "tx_view h k j pkts s"
  defines "i \<equiv> completed (txDescArray s) h (take j pkts)"
  shows "\<exists>k' t. tx_clean_loop s = Some t \<and> txDescArray t = txDescArray s \<and>
    tx_view (ring_pos h (total (take i pkts))) k' (j - i) (drop i pkts) t \<and>
    freed (m_klog t) = freed (m_klog s) @ map fst (take i pkts)"
  using assms(1) unfolding i_def
proof (induction pkts arbitrary: h k j s)
  case Nil
  then have "tx_clean_loop s = Some s"
    by (subst tx_clean_loop.simps) (auto simp: tx_view_def word_unat_eq_iff)
  then show ?case using Nil by (auto simp: tx_view_def)
next
  case (Cons p pkts)
  obtain m n where p: "p = (m, n)" by (cases p)
  show ?case
  proof (cases "j = 0")
    case True
    then have "tx_clean_loop s = Some s"
      using Cons.prems by (subst tx_clean_loop.simps) (auto simp: tx_view_def word_unat_eq_iff)
    then show ?thesis using Cons.prems True by (auto simp: tx_view_def)
  next
    case False
    then obtain j' where j: "j = Suc j'" by (cases j) simp_all
    obtain w where w: "unat w = ring_pos h (n - 1)" "tx_view h (n - 1) j (p # pkts) (s\<lparr>txDirtyIndex := w\<rparr>)"
      "tx_clean_loop s = tx_clean_loop (s\<lparr>txDirtyIndex := w\<rparr>)"
      using tx_clean_skip [OF Cons.prems [unfolded p]] j unfolding p by blast
    let ?s = "s\<lparr>txDirtyIndex := w\<rparr>"
    note v = tx_view_head [OF w(2) [unfolded p]]
    let ?d = "txDescArray s ! ring_pos h (n - 1)"
    show ?thesis
    proof (cases "desc_done ?d")
      case False
      have "tx_clean_loop ?s = Some ?s"
        by (subst tx_clean_loop.simps) (use v(3,4) j w(1) False in \<open>simp add: owner_buf_def desc_done_def\<close>)
      moreover have "h < 512" using w(2) by (simp add: tx_view_def)
      ultimately show ?thesis using w False by (auto simp: p j)
    next
      case True
      obtain t where t: "run_state (tx_release (ring_pos h (n - 1)) m) ?s = ((), t)" "txDescArray t = txDescArray s"
        "txBufArray t = (txBufArray ?s)[ring_pos h (n - 1) := empty_buf]" "txNextDescIndex t = txNextDescIndex ?s"
        "txDirtyIndex t = txDirtyIndex ?s" "txCleanBarrierIndex t = txCleanBarrierIndex ?s"
        "txNumFreeDesc t = txNumFreeDesc ?s + uint (txb_numDescs (txBufArray ?s ! ring_pos h (n - 1)))"
        "freed (m_klog t) = freed (m_klog s) @ [m]"
        using tx_release_run [of "ring_pos h (n - 1)" m ?s] by auto
      have step: "tx_clean_loop ?s = tx_clean_loop (tx_advance t)"
        by (subst tx_clean_loop.simps) (use v(3,4) j w(1) True t(1) in \<open>simp add: owner_buf_def desc_done_def\<close>)
      have "tx_view (ring_pos h n) 0 (j - 1) pkts (tx_advance t)"
        using t j by (intro tx_view_release [OF w(2) [unfolded p]]) (simp_all add: w(1))
      then obtain k' u where u: "tx_clean_loop (tx_advance t) = Some u" "txDescArray u = txDescArray t"
        "tx_view (ring_pos (ring_pos h n) (total (take (completed (txDescArray t) (ring_pos h n) (take j' pkts)) pkts))) k'
           (j' - completed (txDescArray t) (ring_pos h n) (take j' pkts))
           (drop (completed (txDescArray t) (ring_pos h n) (take j' pkts)) pkts) u"
        "freed (m_klog u) = freed (m_klog t) @ map fst (take (completed (txDescArray t) (ring_pos h n) (take j' pkts)) pkts)"
        using Cons.IH [of "ring_pos h n" 0 j' "tx_advance t"] by (auto simp: j tx_advance_def)
      then show ?thesis using w(3) step t(2,8) True by (auto simp: p j intro!: exI [of _ k'])
    qed
  qed
qed

subsection \<open>Plans and segments\<close>

text \<open>The segments a packet takes: those of the cursor, or its buffers split at page boundaries.\<close>

definition seg_count :: "mausi \<Rightarrow> packet \<Rightarrow> nat" where
  "seg_count s m = (if useAppleVTD s then case_option 0 length (split_packet kMaxSegs (pkt_chain m))
     else length (k_segments (m_kernel s) m))"

definition is_tso :: "packet \<Rightarrow> bool" where
  "is_tso m = (case pkt_tso m of Some (v4, v6, _) \<Rightarrow> v4 \<or> v6 | None \<Rightarrow> False)"

text \<open>
  A packet the ring can take: the cursor keeps its bound, a segmented packet does not lie in a single
  segment, and no unknown offload is asked for.
\<close>

definition packet_ok :: "mausi \<Rightarrow> packet \<Rightarrow> bool" where
  "packet_ok s m \<longleftrightarrow> seg_count s m \<le> kMaxSegs \<and> (is_tso m \<longrightarrow> seg_count s m \<noteq> 1) \<and>
     (cs_other (pkt_csum m) \<longrightarrow> csum_any (pkt_csum m))"

lemma plan_packet_ok:
  assumes "plan_packet k m = Inr plan" and "packet_ok s m" and "seg_count s m \<noteq> 0"
  shows "plan_ok plan (seg_count s m)"
proof -
  have vlan: "tp_numDescs (add_vlan t p) = tp_numDescs p" "tp_tso (add_vlan t p) = tp_tso p"
    "tp_offload (add_vlan t p) = tp_offload p" for t p
    by (simp_all add: add_vlan_def split: option.split)
  obtain v4 v6 mss where tso: "pkt_tso m = Some (v4, v6, mss)"
    using assms(1) by (auto simp: plan_packet_def split: option.splits)
  show ?thesis
  proof (cases "v4 \<or> v6")
    case True
    then have "is_tso m" by (simp add: is_tso_def tso)
    with True show ?thesis using assms
      by (auto simp: plan_packet_def tso packet_ok_def plan_ok_def vlan tso_plan_def Let_def
          split: option.splits if_splits)
  next
    case False
    then have "plan = add_vlan (pkt_vlan m) (csum_plan (pkt_csum m))"
      using assms(1) by (simp add: plan_packet_def tso)
    moreover have "tp_numDescs (csum_plan (pkt_csum m)) = (if csum_any (pkt_csum m) then 1 else 0)"
      "\<not> tp_tso (csum_plan (pkt_csum m))" "tp_offload (csum_plan (pkt_csum m)) = csum_any (pkt_csum m)"
      using assms(2) by (auto simp: csum_plan_def Let_def packet_ok_def)
    ultimately show ?thesis using assms(2,3) by (simp add: plan_ok_def vlan packet_ok_def)
  qed
qed

lemma split_buffer_length: "split_buffer n d len = Some xs \<Longrightarrow> length xs \<le> n"
  by (induction n arbitrary: d len xs) (auto simp: Let_def split: if_splits)

lemma split_chain_length: "split_chain n bs = Some xs \<Longrightarrow> length xs \<le> n"
proof (induction bs arbitrary: n xs)
  case (Cons b bs)
  then obtain ys zs where "split_buffer n (fst b) (snd b) = Some ys" "split_chain (n - length ys) bs = Some zs"
    "xs = ys @ zs" by (auto split: option.splits)
  then show ?case using split_buffer_length Cons.IH by fastforce
qed simp

lemma split_packet_length: "split_packet kMaxSegs c = Some xs \<Longrightarrow> length xs \<le> kMaxSegs"
proof -
  assume some: "split_packet kMaxSegs c = Some xs"
  have "split_packet n c = split_chain n c \<or> (\<exists>x. split_packet n c = Some [x])" for n
    by (simp add: split_packet_def del: split_chain.simps split: list.split)
  from this [of kMaxSegs] show "length xs \<le> kMaxSegs"
    using some split_chain_length [of kMaxSegs c xs] by auto
qed

text \<open>The fields the transmit ring is about are not those the mapping changes.\<close>

definition same_ring :: "mausi \<Rightarrow> mausi \<Rightarrow> bool" where
  "same_ring s t \<longleftrightarrow> txDescArray t = txDescArray s \<and> txBufArray t = txBufArray s \<and>
     txNumFreeDesc t = txNumFreeDesc s \<and> txNextDescIndex t = txNextDescIndex s \<and>
     txDirtyIndex t = txDirtyIndex s \<and> txCleanBarrierIndex t = txCleanBarrierIndex s \<and>
     m_kernel t = m_kernel s \<and> useAppleVTD t = useAppleVTD s \<and> m_hw t = m_hw s \<and>
     freed (m_klog t) = freed (m_klog s)"

lemma same_ring_view: "same_ring s t \<Longrightarrow> tx_view h k j pkts t = tx_view h k j pkts s"
  by (simp add: same_ring_def tx_view_def)

lemma txMapPacket_run:
  assumes "length vector = kMaxSegs"
  shows "\<exists>r t. run_state (txMapPacket m vector kMaxSegs) s = (r, t) \<and> same_ring s t \<and>
     length (snd r) = kMaxSegs \<and> (fst r = 0 \<or>
       (\<exists>src. split_packet kMaxSegs (pkt_chain m) = Some src \<and> fst r = word_of_nat (length src) \<and> src \<noteq> []))"
proof (cases "split_packet kMaxSegs (pkt_chain m)")
  case None
  then show ?thesis using assms by (simp add: txMapPacket_def same_ring_def)
next
  case (Some src)
  then have "length src \<le> 32" using split_packet_length by simp
  with assms show ?thesis
    by (auto simp: txMapPacket_def Some tx_map_error_def Let_def same_ring_def case_prod_beta)
qed

subsection \<open>Queueing\<close>

text \<open>Everything the driver keeps apart from the ring is as before, and the packets in flight are not touched.\<close>

definition ring_grows :: "nat \<Rightarrow> nat \<Rightarrow> mausi \<Rightarrow> mausi \<Rightarrow> bool" where
  "ring_grows h n s t \<longleftrightarrow> m_kernel t = m_kernel s \<and> useAppleVTD t = useAppleVTD s \<and> m_hw t = m_hw s \<and>
     (\<forall>q < n. txDescArray t ! ring_pos h q = txDescArray s ! ring_pos h q)"

lemma ring_grows_refl: "ring_grows h n s s"
  by (simp add: ring_grows_def)

lemma ring_grows_trans: "ring_grows h n s t \<Longrightarrow> n \<le> n' \<Longrightarrow> ring_grows h n' t u \<Longrightarrow> ring_grows h n s u"
  by (simp add: ring_grows_def)

lemma ring_grows_same: "same_ring s t \<Longrightarrow> ring_grows h n s t"
  by (simp add: ring_grows_def same_ring_def)

lemma packet_ok_same: "ring_grows h n s t \<Longrightarrow> packet_ok t m = packet_ok s m"
  by (simp add: ring_grows_def packet_ok_def seg_count_def)

text \<open>
  The packets of the queue that were taken, the ones of them that were queued with their number of
  descriptors, and the ones the driver freed. A packet that could not be pulled up has been freed by the kernel.
\<close>

inductive queued :: "kernel \<Rightarrow> packet list \<Rightarrow> (mbuf \<times> nat) list \<Rightarrow> mbuf list \<Rightarrow> bool" where
  none: "queued k [] [] []"
| lost: "queued k ms new fr \<Longrightarrow> plan_packet k m = Inl False \<Longrightarrow> queued k (m # ms) new fr"
| drop: "queued k ms new fr \<Longrightarrow> plan_packet k m \<noteq> Inl False \<Longrightarrow> queued k (m # ms) new (pkt_id m # fr)"
| take: "queued k ms new fr \<Longrightarrow> plan_packet k m \<noteq> Inl False \<Longrightarrow> queued k (m # ms) ((pkt_id m, n) # new) fr"

lemma output_packet_run:
  assumes view: "tx_view h k j pkts s" and ok: "packet_ok s m" and vec: "length vector = kMaxSegs"
    and free: "txNumFreeDesc s \<ge> kMaxSegs + 3"
  shows "\<exists>b w t new. run_state (output_packet m vector) s = ((b, w), t) \<and> length w = kMaxSegs \<and>
    tx_view h k j (pkts @ new) t \<and> ring_grows h (total pkts) s t \<and>
    (\<exists>fr. queued (m_kernel s) [m] new fr \<and> freed (m_klog t) = freed (m_klog s) @ fr) \<and>
    (b \<and> (\<exists>n. new = [(pkt_id m, n)]) \<or> \<not> b \<and> new = [])"
proof (cases "plan_packet (m_kernel s) m")
  case (Inl free)
  let ?t = "if free then s\<lparr>m_klog := FreeMbuf [pkt_id m] # m_klog s\<rparr> else s"
  have "run_state (output_packet m vector) s = ((False, vector), ?t)"
    using Inl by (simp add: output_packet_def)
  moreover have "tx_view h k j (pkts @ []) ?t" "ring_grows h (total pkts) s ?t"
    using view by (simp_all add: ring_grows_def tx_view_def)
  moreover have "\<exists>fr. queued (m_kernel s) [m] [] fr \<and> freed (m_klog ?t) = freed (m_klog s) @ fr"
  proof (cases free)
    case True
    then show ?thesis using Inl by (intro exI [of _ "[pkt_id m]"]) (auto intro!: queued.drop queued.none)
  next
    case False
    then show ?thesis using Inl by (intro exI [of _ "[]"]) (auto intro!: queued.lost queued.none)
  qed
  ultimately show ?thesis using vec by blast
next
  case (Inr plan)
  define prog where "prog = (if useAppleVTD s then txMapPacket m vector kMaxSegs
    else ret (word_of_nat (length (k_segments (m_kernel s) m)),
      k_segments (m_kernel s) m @ drop (length (k_segments (m_kernel s) m)) vector))"
  obtain r t where r: "run_state prog s = (r, t)" "same_ring s t" "length (snd r) = kMaxSegs"
    "fst r = 0 \<or> unat (fst r) = seg_count s m \<and> seg_count s m \<noteq> 0"
  proof (cases "useAppleVTD s")
    case True
    obtain r t where "run_state (txMapPacket m vector kMaxSegs) s = (r, t)" "same_ring s t" "length (snd r) = kMaxSegs"
      "fst r = 0 \<or> (\<exists>src. split_packet kMaxSegs (pkt_chain m) = Some src \<and> fst r = word_of_nat (length src) \<and> src \<noteq> [])"
      using txMapPacket_run [OF vec] by blast
    then show ?thesis using True split_packet_length [of "pkt_chain m"]
      by (intro that [of r t]) (auto simp: prog_def seg_count_def unsigned_of_nat take_bit_nat_eq_self)
  next
    case False
    then have "length (k_segments (m_kernel s) m) \<le> 32" using ok by (simp add: packet_ok_def seg_count_def)
    then show ?thesis using False vec
      by (intro that [of "(word_of_nat (length (k_segments (m_kernel s) m)),
          k_segments (m_kernel s) m @ drop (length (k_segments (m_kernel s) m)) vector)" s])
        (auto simp: prog_def seg_count_def same_ring_def unsigned_of_nat take_bit_nat_eq_self)
  qed
  have run: "run_state (output_packet m vector) s = run_state (if fst r = 0 then do {
       modify (\<lambda>s. s\<lparr>tx_resourceErrors := tx_resourceErrors s + 1\<rparr>);
       mbuf_freem_list [pkt_id m]; ret (False, snd r) }
     else do { queue_segments (pkt_id m) plan (take (unat (fst r)) (snd r)); ret (True, snd r) }) t"
    using r(1) unfolding prog_def by (simp add: output_packet_def Inr case_prod_beta del: run_if cong: if_cong)
  have view': "tx_view h k j pkts t" using view r(2) by (simp add: same_ring_view)
  show ?thesis
  proof (cases "fst r = 0")
    case True
    let ?t = "t\<lparr>tx_resourceErrors := tx_resourceErrors t + 1, m_klog := FreeMbuf [pkt_id m] # m_klog t\<rparr>"
    have "ring_grows h (total pkts) t ?t" "tx_view h k j (pkts @ []) ?t"
      using view' by (simp_all add: ring_grows_def tx_view_def)
    moreover from this(1) have "ring_grows h (total pkts) s ?t"
      by (rule ring_grows_trans [OF ring_grows_same [OF r(2)] order_refl])
    moreover have "run_state (output_packet m vector) s = ((False, snd r), ?t)"
      unfolding run using True by simp
    moreover have "\<exists>fr. queued (m_kernel s) [m] [] fr \<and> freed (m_klog ?t) = freed (m_klog s) @ fr"
      using r(2) Inr by (intro exI [of _ "[pkt_id m]"]) (auto simp: same_ring_def intro!: queued.drop queued.none)
    ultimately show ?thesis using r(3) by blast
  next
    case False
    let ?segs = "take (unat (fst r)) (snd r)"
    have len: "length ?segs = seg_count s m" "seg_count s m \<noteq> 0"
      using False r(3,4) ok by (auto simp: packet_ok_def)
    have plan: "plan_ok plan (length ?segs)" unfolding len(1) by (rule plan_packet_ok [OF Inr ok len(2)])
    have "txNumFreeDesc t \<ge> kMaxSegs + 3" using free r(2) by (simp add: same_ring_def)
    note q = queue_segments_run [OF view' plan this, of "pkt_id m"]
    let ?n = "plan_count plan (length ?segs)"
    obtain ds bs w where q: "run_state (queue_segments (pkt_id m) plan ?segs) t =
        ((), t\<lparr>txNumFreeDesc := txNumFreeDesc t - int ?n, txNextDescIndex := w, txDescArray := ds, txBufArray := bs\<rparr>)"
      "tx_view h k j (pkts @ [(pkt_id m, ?n)]) (t\<lparr>txNumFreeDesc := txNumFreeDesc t - int ?n, txNextDescIndex := w, txDescArray := ds, txBufArray := bs\<rparr>)"
      "\<forall>q < 512. ds ! ring_pos h q = (if total pkts \<le> q \<and> q < total pkts + ?n
         then packet_descs plan ?segs ! (q - total pkts) else txDescArray t ! ring_pos h q)"
      using q by auto
    have "total pkts \<le> 510" using view by (simp add: tx_view_def)
    then have "ring_grows h (total pkts) t (t\<lparr>txNumFreeDesc := txNumFreeDesc t - int ?n, txNextDescIndex := w, txDescArray := ds, txBufArray := bs\<rparr>)"
      using q(3) by (simp add: ring_grows_def)
    then have "ring_grows h (total pkts) s (t\<lparr>txNumFreeDesc := txNumFreeDesc t - int ?n, txNextDescIndex := w, txDescArray := ds, txBufArray := bs\<rparr>)"
      by (rule ring_grows_trans [OF ring_grows_same [OF r(2)] order_refl])
    moreover have "run_state (output_packet m vector) s = ((True, snd r), t\<lparr>txNumFreeDesc := txNumFreeDesc t - int ?n,
        txNextDescIndex := w, txDescArray := ds, txBufArray := bs\<rparr>)"
      unfolding run using False q(1) by simp
    moreover have "\<exists>fr. queued (m_kernel s) [m] [(pkt_id m, ?n)] fr \<and> freed (m_klog t) = freed (m_klog s) @ fr"
      using r(2) Inr by (intro exI [of _ "[]"]) (auto simp: same_ring_def intro!: queued.take queued.none)
    ultimately show ?thesis using q(2) r(3)
      by (intro exI [of _ True] exI [of _ "snd r"] exI [of _ "t\<lparr>txNumFreeDesc := txNumFreeDesc t - int ?n,
          txNextDescIndex := w, txDescArray := ds, txBufArray := bs\<rparr>"] exI [of _ "[(pkt_id m, ?n)]"]) simp
  qed
qed

lemma queued_append:
  "queued k ms new fr \<Longrightarrow> queued k ms' new' fr' \<Longrightarrow> queued k (ms @ ms') (new @ new') (fr @ fr')"
  by (induction rule: queued.induct) (auto intro: queued.intros)

lemma output_loop_run:
  assumes "tx_view h k j pkts s" "list_all (packet_ok s) queue" "length vector = kMaxSegs"
  shows "\<exists>taken rest new t. run_state (output_loop queue vector c) s = ((rest, c + word_of_nat (length new)), t) \<and>
    tx_view h k j (pkts @ new) t \<and> ring_grows h (total pkts) s t \<and> queue = taken @ rest \<and>
    (\<exists>fr. queued (m_kernel s) taken new fr \<and> freed (m_klog t) = freed (m_klog s) @ fr) \<and>
    (rest \<noteq> [] \<longrightarrow> txNumFreeDesc t < kMaxSegs + 3)"
  using assms
proof (induction queue arbitrary: pkts s vector c)
  case Nil
  then show ?case by (intro exI [of _ "[]"] exI [of _ s]) (auto simp: ring_grows_refl intro!: queued.none)
next
  case (Cons m queue)
  show ?case
  proof (cases "txNumFreeDesc s \<ge> kMaxSegs + 3")
    case False
    then show ?thesis using Cons.prems
      by (intro exI [of _ "[]"] exI [of _ "m # queue"] exI [of _ s]) (auto simp: ring_grows_refl intro!: queued.none)
  next
    case True
    obtain b w t new fr where p: "run_state (output_packet m vector) s = ((b, w), t)" "length w = kMaxSegs"
      "tx_view h k j (pkts @ new) t" "ring_grows h (total pkts) s t"
      "b \<and> (\<exists>n. new = [(pkt_id m, n)]) \<or> \<not> b \<and> new = []"
      "queued (m_kernel s) [m] new fr" "freed (m_klog t) = freed (m_klog s) @ fr"
      using output_packet_run [OF Cons.prems(1) _ Cons.prems(3) True, of m] Cons.prems(2) by auto
    have ok: "list_all (packet_ok t) queue"
      using Cons.prems(2) packet_ok_same [OF p(4)] by (simp add: list_all_iff)
    let ?c = "if b then c + 1 else c"
    obtain taken rest new' u fr' where q: "run_state (output_loop queue w ?c) t = ((rest, ?c + word_of_nat (length new')), u)"
      "tx_view h k j ((pkts @ new) @ new') u" "ring_grows h (total (pkts @ new)) t u" "queue = taken @ rest"
      "queued (m_kernel t) taken new' fr'" "rest \<noteq> [] \<longrightarrow> txNumFreeDesc u < kMaxSegs + 3"
      "freed (m_klog u) = freed (m_klog t) @ fr'"
      using Cons.IH [OF p(3) ok p(2), of ?c] by blast
    have same_k: "m_kernel t = m_kernel s" using p(4) by (simp add: ring_grows_def)
    have "?c + word_of_nat (length new') = c + word_of_nat (length (new @ new'))"
      using p(5) by auto
    moreover have "queued (m_kernel s) (m # taken) (new @ new') (fr @ fr')"
      using queued_append [OF p(6) q(5) [unfolded same_k]] by simp
    moreover have "run_state (output_loop (m # queue) vector c) s = run_state (output_loop queue w ?c) t"
      using True p(1) by (simp add: case_prod_beta)
    ultimately show ?thesis
      using q p(7) ring_grows_trans [OF p(4) _ q(3)]
      by (intro exI [of _ "m # taken"] exI [of _ rest] exI [of _ "new @ new'"] exI [of _ u] conjI exI [of _ "fr @ fr'"]) simp_all
  qed
qed

text \<open>The register accesses of the driver class.\<close>

lemma run_mem32 [simp]:
  "run_state (intelWriteMem32 r v) s = ((), s\<lparr>m_hw := after (m_hw s) [Wr (Csr r) v]\<rparr>)"
  "run_state (intelReadMem32 r) s = (hw_dev (m_hw s) (hw_log (m_hw s)) (Csr r),
     s\<lparr>m_hw := after (m_hw s) [Rd (Csr r) (hw_dev (m_hw s) (hw_log (m_hw s)) (Csr r))]\<rparr>)"
  by (simp_all add: intelWriteMem32_def intelReadMem32_def on_hw_def io_write_def io_read_def emit_def after_def)

lemma run_prepare_arb:
  obtains es r where "run_state (on_hw ew32_prepare) s = (r, s\<lparr>m_hw := after (m_hw s) es\<rparr>)" "list_all arb_event es"
proof -
  have "keeps (allowed arb_event) ew32_prepare" by (rule allowed_ew32_prepare) (auto simp: arb_event_def)
  from keeps_run [OF this, of "m_hw s"]
  obtain es where "snd (run_state ew32_prepare (m_hw s)) = after (m_hw s) (rev es)" "list_all arb_event es"
    by (auto simp: allowed_def after_def)
  then show ?thesis
    by (intro that [of "fst (run_state ew32_prepare (m_hw s))" "rev es"])
      (simp_all add: on_hw_def case_prod_beta)
qed

lemma update_tail_run:
  "\<exists>es f. run_state (intelUpdateTxDescTail index) s =
     ((), s\<lparr>m_hw := after (m_hw s) es, forceReset := f, txCleanBarrierIndex := txNextDescIndex s\<rparr>) \<and>
     written (Csr (E1000_TDT 0)) es = [index]"
proof (cases "hw_flags2 (m_hw s) AND FLAG2_PCIM2PCI_ARBITER_WA \<noteq> 0")
  case False
  then show ?thesis
    by (intro exI [of _ "[Wr (Csr (E1000_TDT 0)) index]"] exI [of _ "forceReset s"])
      (simp add: intelUpdateTxDescTail_def)
next
  case True
  obtain es r where e: "run_state (on_hw ew32_prepare) s = (r, s\<lparr>m_hw := after (m_hw s) es\<rparr>)" "list_all arb_event es"
    by (rule run_prepare_arb)
  let ?tdt = "Csr (E1000_TDT 0)" and ?tctl = "Csr E1000_TCTL"
  let ?h = "after (m_hw s) (es @ [Wr ?tdt index])"
  let ?v = "hw_dev ?h (hw_log ?h) ?tdt" and ?h' = "after ?h [Rd ?tdt (hw_dev ?h (hw_log ?h) ?tdt)]"
  let ?c = "hw_dev ?h' (hw_log ?h') ?tctl"
  define fs where "fs = es @ [Wr ?tdt index] @ (if r \<noteq> 0 then [] else Rd ?tdt ?v #
    (if index = ?v then [] else [Rd ?tctl ?c, Wr ?tctl (?c AND NOT E1000_TCTL_EN)]))"
  have w: "written ?tdt fs = [index]"
    using arb_quiet(1) [OF e(2)] by (simp add: fs_def E1000_TDT_def)
  show ?thesis
    using True e(1) w
    by (intro exI [of _ fs] exI [of _ "if r = 0 \<and> index \<noteq> ?v then True else forceReset s"])
      (simp add: intelUpdateTxDescTail_def fs_def)
qed

text \<open>The whole of \<open>outputStart\<close>.\<close>

lemma queue_count_nonzero:
  assumes "tx_view h k j (pkts @ new) t"
  shows "(word_of_nat (length new) :: u16) = 0 \<longleftrightarrow> new = []"
proof -
  have "length xs \<le> total xs" if "list_all (\<lambda>(m, n). 0 < n) xs" for xs :: "(mbuf \<times> nat) list"
    using that by (induction xs) auto
  then have "length new \<le> 510" using assms by (fastforce simp: tx_view_def)
  then show ?thesis by (simp add: word_unat_eq_iff unsigned_of_nat take_bit_nat_eq_self)
qed

lemma new_events_self [simp]: "new_events s s = []"
  by (simp add: new_events_def)

lemma outputStart_run:
  assumes "tx_view h k j pkts s" "list_all (packet_ok s) queue" "length garbage = kMaxSegs"
  shows "\<exists>taken rest new b t. run_state (outputStart queue garbage) s = ((b, rest), t) \<and>
    (\<exists>j'. tx_view h k j' (pkts @ new) t \<and> (new \<noteq> [] \<longrightarrow> j' = length (pkts @ new))) \<and>
    (\<forall>q < total pkts. txDescArray t ! ring_pos h q = txDescArray s ! ring_pos h q) \<and>
    m_kernel t = m_kernel s \<and> useAppleVTD t = useAppleVTD s \<and>
    queue = taken @ rest \<and>
    (\<exists>fr. queued (m_kernel s) taken new fr \<and> freed (m_klog t) = freed (m_klog s) @ fr) \<and>
    written (Csr (E1000_TDT 0)) (new_events (m_hw s) (m_hw t)) =
      (if new = [] then [] else [word_of_nat (ring_pos h (total (pkts @ new)))])"
proof (cases "\<not> (isEnabled s \<and> linkUp s) \<or> forceReset s")
  case True
  then have "run_state (outputStart queue garbage) s = ((False, queue), s)"
    by (simp add: outputStart_def)
  then show ?thesis using assms(1)
    by (intro exI [of _ "[]"] exI [of _ queue] exI [of _ "[]"] exI [of _ False] exI [of _ s]) (auto intro!: queued.none)
next
  case False
  obtain taken rest new t where r: "run_state (output_loop queue garbage 0) s = ((rest, word_of_nat (length new)), t)"
    "tx_view h k j (pkts @ new) t" "ring_grows h (total pkts) s t" "queue = taken @ rest"
    "\<exists>fr. queued (m_kernel s) taken new fr \<and> freed (m_klog t) = freed (m_klog s) @ fr"
    using output_loop_run [OF assms, of 0] by (simp only: add_0) blast
  note count = queue_count_nonzero [OF r(2)]
  show ?thesis
  proof (cases "new = []")
    case True
    then have "run_state (outputStart queue garbage) s = ((txNumFreeDesc t \<ge> kMaxSegs + 3, rest), t)"
      using False r(1) by (simp add: outputStart_def)
    then show ?thesis using r True
      by (intro exI [of _ taken] exI [of _ rest] exI [of _ new] exI [of _ "txNumFreeDesc t \<ge> kMaxSegs + 3"]
          exI [of _ t]) (auto simp: ring_grows_def)
  next
    case new: False
    let ?i = "ucast (txNextDescIndex t) :: u32"
    obtain es f where u: "run_state (intelUpdateTxDescTail ?i) t =
        ((), t\<lparr>m_hw := after (m_hw t) es, forceReset := f, txCleanBarrierIndex := txNextDescIndex t\<rparr>)"
      "written (Csr (E1000_TDT 0)) es = [?i]"
      using update_tail_run [of ?i t] by blast
    let ?u = "t\<lparr>m_hw := after (m_hw t) es, forceReset := f, txCleanBarrierIndex := txNextDescIndex t\<rparr>"
    have run: "run_state (outputStart queue garbage) s = ((txNumFreeDesc t \<ge> kMaxSegs + 3, rest), ?u)"
      using False r(1) u(1) count new by (simp add: outputStart_def)
    have i: "unat (txNextDescIndex t) = ring_pos h (total (pkts @ new))" using r(2) by (simp add: tx_view_def)
    then have "?i = word_of_nat (ring_pos h (total (pkts @ new)))"
      by (simp add: word_unat_eq_iff unsigned_ucast_eq unsigned_of_nat i [symmetric] take_bit_nat_eq_self
          del: ring_pos_simps)
    moreover have "tx_view h k (length (pkts @ new)) (pkts @ new) ?u"
      using r(2) i by (auto simp: tx_view_def)
    ultimately show ?thesis using run r(3-5) u(2) new
      by (intro exI [of _ taken] exI [of _ rest] exI [of _ new] exI [of _ "txNumFreeDesc t \<ge> kMaxSegs + 3"]
          exI [of _ ?u]) (auto simp: ring_grows_def)
  qed
qed

end
