(* ===== verification/TxProps.thy ===== *)
theory TxProps
  imports TxRingInv SwflagProps "HOL-Library.Multiset" "HOL-Library.Sublist"
begin

section \<open>Properties of the transmit path\<close>

text \<open>
  Ownership of the packets, reachable ring states, the descriptors the chip sees, the pseudo-header sum, and
  one packet the code loses.
\<close>

subsection \<open>The whole ring\<close>

text \<open>The packets some entries own, and the descriptors they account for.\<close>

definition owner :: "intelTxBufferInfo \<Rightarrow> mbuf list" where
  "owner b = (case txb_mbuf b of None \<Rightarrow> [] | Some m \<Rightarrow> [m])"

definition owned :: "intelTxBufferInfo list \<Rightarrow> mbuf list" where
  "owned bs = concat (map owner bs)"

definition accounted :: "intelTxBufferInfo list \<Rightarrow> nat" where
  "accounted bs = sum_list (map (\<lambda>b. unat (txb_numDescs b)) bs)"

lemma owned_simps [simp]: "owned [] = []" "owned (b # bs) = owner b @ owned bs" "owned (bs @ bs') = owned bs @ owned bs'"
  "owned (replicate n empty_buf) = []" "owner empty_buf = []" "owner (owner_buf m i) = [m]"
  by (simp_all add: owned_def owner_def empty_buf_def owner_buf_def concat_replicate_trivial)

lemma accounted_simps [simp]: "accounted [] = 0" "accounted (b # bs) = unat (txb_numDescs b) + accounted bs"
  "accounted (bs @ bs') = accounted bs + accounted bs'" "accounted (replicate n empty_buf) = 0"
  by (simp_all add: accounted_def empty_buf_def sum_list_replicate)

lemma rotate_ring: "mset (owned (rotate h bs)) = mset (owned bs)" "accounted (rotate h bs) = accounted bs"
proof -
  let ?i = "h mod length bs"
  have "mset (owned (drop ?i bs @ take ?i bs)) = mset (owned (take ?i bs @ drop ?i bs))"
    "accounted (drop ?i bs @ take ?i bs) = accounted (take ?i bs @ drop ?i bs)"
    by (simp_all only: owned_simps accounted_simps mset_append add.commute)
  then show "mset (owned (rotate h bs)) = mset (owned bs)" "accounted (rotate h bs) = accounted bs"
    by (simp_all add: rotate_drop_take)
qed

lemma slots_owned: "owned (slots pkts) = map fst pkts"
  by (induction pkts) auto

lemma slots_accounted:
  "total pkts < 2 ^ 32 \<Longrightarrow> accounted (slots pkts) = total pkts"
  by (induction pkts) (auto simp: owner_buf_def unsigned_of_nat take_bit_nat_eq_self)

lemma tx_view_ring:
  assumes "tx_view h k j pkts s"
  shows "mset (owned (txBufArray s)) = mset (map fst pkts)" "accounted (txBufArray s) = total pkts"
proof -
  have len: "length (txBufArray s) = 512" "length (slots pkts) = total pkts" "total pkts \<le> 510"
    using assms by (auto simp: tx_view_def length_slots)
  have r: "rotate h (txBufArray s) = slots pkts @ replicate (512 - total pkts) empty_buf"
  proof (rule nth_equalityI)
    fix q assume "q < length (rotate h (txBufArray s))"
    then have q: "q < 512" using len by simp
    then have "rotate h (txBufArray s) ! q = txBufArray s ! ring_pos h q"
      using len by (simp add: nth_rotate ring_pos_def)
    then show "rotate h (txBufArray s) ! q = (slots pkts @ replicate (512 - total pkts) empty_buf) ! q"
      using assms q len by (simp add: tx_view_def nth_append)
  qed (use len in simp)
  have "mset (owned (rotate h (txBufArray s))) = mset (map fst pkts)" "accounted (rotate h (txBufArray s)) = total pkts"
    unfolding r using len by (simp_all add: slots_owned slots_accounted)
  then show "mset (owned (txBufArray s)) = mset (map fst pkts)" "accounted (txBufArray s) = total pkts"
    by (simp_all only: rotate_ring)
qed

text \<open>Setting up and clearing.\<close>

lemma init_ring_view:
  assumes "length (txDescArray s) = 512" "txBufArray s = replicate 512 empty_buf"
  shows "tx_view 0 0 0 [] (snd (run_state intelInitTxRing s))" "m_klog (snd (run_state intelInitTxRing s)) = m_klog s"
  using assms by (simp_all add: intelInitTxRing_def tx_view_def)

lemma clear_bufs_run:
  assumes "distinct is" "\<forall>i \<in> set is. i < length (txBufArray s)"
  shows "\<exists>bs log. run_state (clear_tx_bufs is) s = ((), s\<lparr>txBufArray := bs, m_klog := log\<rparr>) \<and>
    length bs = length (txBufArray s) \<and>
    (\<forall>i < length bs. bs ! i = (if i \<in> set is \<and> owner (txBufArray s ! i) \<noteq> [] then empty_buf else txBufArray s ! i)) \<and>
    freed log = freed (m_klog s) @ concat (map (\<lambda>i. owner (txBufArray s ! i)) is)"
  using assms
proof (induction "is" arbitrary: s)
  case Nil
  then show ?case by (intro exI [of _ "txBufArray s"] exI [of _ "m_klog s"]) simp
next
  case (Cons i "is")
  show ?case
  proof (cases "txb_mbuf (txBufArray s ! i)")
    case None
    have "distinct is" "\<forall>i \<in> set is. i < length (txBufArray s)" using Cons.prems by auto
    from Cons.IH [OF this] obtain bs log where "run_state (clear_tx_bufs is) s = ((), s\<lparr>txBufArray := bs, m_klog := log\<rparr>)"
      "length bs = length (txBufArray s)"
      "\<forall>i < length bs. bs ! i = (if i \<in> set is \<and> owner (txBufArray s ! i) \<noteq> [] then empty_buf else txBufArray s ! i)"
      "freed log = freed (m_klog s) @ concat (map (\<lambda>i. owner (txBufArray s ! i)) is)"
      by blast
    then show ?thesis using None
      by (intro exI [of _ bs] exI [of _ log]) (auto simp: owner_def)
  next
    case (Some m)
    let ?s = "s\<lparr>m_klog := FreeMbuf [m] # m_klog s, txBufArray := (txBufArray s)[i := empty_buf]\<rparr>"
    have i: "i < length (txBufArray s)" "i \<notin> set is" using Cons.prems by auto
    obtain bs log where c: "run_state (clear_tx_bufs is) ?s = ((), ?s\<lparr>txBufArray := bs, m_klog := log\<rparr>)"
      "length bs = length (txBufArray s)"
      "\<forall>q < length bs. bs ! q = (if q \<in> set is \<and> owner (txBufArray ?s ! q) \<noteq> [] then empty_buf else txBufArray ?s ! q)"
      "freed log = freed (m_klog ?s) @ concat (map (\<lambda>i. owner (txBufArray ?s ! i)) is)"
      using Cons.IH [of ?s] Cons.prems by auto
    have "map (\<lambda>i. owner (txBufArray ?s ! i)) is = map (\<lambda>i. owner (txBufArray s ! i)) is"
      using i by (auto simp: nth_list_update)
    moreover have "owner (txBufArray s ! i) = [m]" using Some by (simp add: owner_def)
    moreover have "run_state (clear_tx_bufs (i # is)) s = ((), s\<lparr>txBufArray := bs, m_klog := log\<rparr>)"
      using c(1) Some by (simp add: empty_buf_def)
    moreover have "bs ! q = (if q \<in> set (i # is) \<and> owner (txBufArray s ! q) \<noteq> [] then empty_buf else txBufArray s ! q)"
      if "q < length bs" for q
      using c(2,3) that i calculation(2) by (cases "q = i") (auto simp: nth_list_update)
    moreover have "freed log = freed (m_klog s) @ concat (map (\<lambda>i. owner (txBufArray s ! i)) (i # is))"
      unfolding c(4) calculation(1) using calculation(2) by simp
    ultimately show ?thesis using c(2)
      by (intro exI [of _ bs] exI [of _ log]) (simp only:, blast)
  qed
qed

lemma clear_maps_run: "same_ring s (snd (run_state (clear_tx_maps is) s))"
proof (induction "is" arbitrary: s)
  case (Cons i "is")
  let ?t = "snd (run_state (do { md \<leftarrow> gets (\<lambda>s. txMemIO s ! i); cwhen (md = Some True) (do {
       kcall (MdComplete i); kcall (MdSetTag i False);
       modify (\<lambda>s. s\<lparr>txMemIO := (txMemIO s)[i := Some False]\<rparr>) }) }) s)"
  have "same_ring s ?t" by (simp add: same_ring_def)
  moreover have "snd (run_state (clear_tx_maps (i # is)) s) = snd (run_state (clear_tx_maps is) ?t)"
    by simp
  ultimately show ?case using Cons.IH [of ?t] by (auto simp: same_ring_def)
qed (simp add: same_ring_def)

lemma tx_view_buf: "tx_view h k j pkts s \<Longrightarrow> q < 512 \<Longrightarrow>
    txBufArray s ! ring_pos h q = (if q < total pkts then slots pkts ! q else empty_buf)"
  by (simp add: tx_view_def)

lemma ring_pos_surj:
  assumes "h < 512" "i < 512" obtains q where "q < 512" "ring_pos h q = i"
proof (rule that [of "(i + 512 - h) mod 512"])
  show "ring_pos h ((i + 512 - h) mod 512) = i" using assms by (simp add: ring_pos_def mod_simps)
qed simp

lemma clear_tx_run:
  assumes view: "tx_view h k j pkts s"
  shows "\<exists>t. run_state clear_tx s = ((), t) \<and> tx_view 0 0 0 [] t \<and>
    freed (m_klog t) = freed (m_klog s) @ owned (txBufArray s)"
proof -
  have len: "length (txBufArray s) = 512" using view by (simp add: tx_view_def)
  obtain bs log where c: "run_state (clear_tx_bufs [0..<512]) s = ((), s\<lparr>txBufArray := bs, m_klog := log\<rparr>)"
    "length bs = 512"
    "\<forall>i < 512. bs ! i = (if owner (txBufArray s ! i) \<noteq> [] then empty_buf else txBufArray s ! i)"
    "freed log = freed (m_klog s) @ concat (map (\<lambda>i. owner (txBufArray s ! i)) [0..<512])"
    using clear_bufs_run [of "[0..<512]" s] len by auto
  have "owner (txBufArray s ! i) \<noteq> [] \<or> txBufArray s ! i = empty_buf" if i: "i < 512" for i
  proof -
    have "h < 512" using view by (simp add: tx_view_def)
    then obtain q where "q < 512" "ring_pos h q = i" using i by (rule ring_pos_surj)
    then have "txBufArray s ! i = (if q < total pkts then slots pkts ! q else empty_buf)"
      using tx_view_buf [OF view, of q] by simp
    moreover have "x = empty_buf \<or> owner x \<noteq> []" if "x \<in> set (slots pkts)" for x
      using that by (induction pkts) auto
    moreover have "length (slots pkts) = total pkts" using view by (simp add: tx_view_def length_slots)
    ultimately show ?thesis by (metis nth_mem)
  qed
  then have bs: "bs ! i = empty_buf" if "i < 512" for i using c(3) that by auto
  have "map (\<lambda>i. owner (txBufArray s ! i)) [0..<512] = map owner (txBufArray s)"
    using len by (intro nth_equalityI) simp_all
  then have log: "freed log = freed (m_klog s) @ owned (txBufArray s)" using c(4) by (simp add: owned_def)
  let ?s = "s\<lparr>txBufArray := bs, m_klog := log\<rparr>"
  have m: "same_ring ?s (snd (run_state (clear_tx_maps [0..<256]) ?s))" by (rule clear_maps_run)
  show ?thesis
    using c(1,2) bs log m view
    by (auto simp: clear_tx_def case_prod_beta tx_view_def same_ring_def)
qed

subsection \<open>Reachable rings\<close>

text \<open>
  Everything that happens to a ring between its set-up and its end, in any order: packets sent, the interrupt,
  writes of the chip into the descriptors, whatever they are, changes of the link, and clearing. The
  list is of the packets the driver has taken over from the network stack.
\<close>

inductive tx_reach :: "mbuf list \<Rightarrow> mausi \<Rightarrow> bool" where
  init: "length (txDescArray s) = 512 \<Longrightarrow> txBufArray s = replicate 512 empty_buf \<Longrightarrow> freed (m_klog s) = [] \<Longrightarrow>
    tx_reach [] (snd (run_state intelInitTxRing s))"
| start: "tx_reach got s \<Longrightarrow> list_all (packet_ok s) queue \<Longrightarrow> length garbage = kMaxSegs \<Longrightarrow>
    run_state (outputStart queue garbage) s = ((b, rest), t) \<Longrightarrow> queue = taken @ rest \<Longrightarrow>
    tx_reach (got @ map pkt_id (filter (\<lambda>m. plan_packet (m_kernel s) m \<noteq> Inl False) taken)) t"
| interrupt: "tx_reach got s \<Longrightarrow> txInterrupt s = Some t \<Longrightarrow> tx_reach got t"
| chip: "tx_reach got s \<Longrightarrow> length ds = 512 \<Longrightarrow> tx_reach got (s\<lparr>txDescArray := ds\<rparr>)"
| link: "tx_reach got s \<Longrightarrow> tx_reach got (s\<lparr>isEnabled := a, linkUp := l, forceReset := f\<rparr>)"
| clear: "tx_reach got s \<Longrightarrow> tx_reach got (snd (run_state clear_tx s))"

definition tx_inv :: "mbuf list \<Rightarrow> mausi \<Rightarrow> bool" where
  "tx_inv got s \<longleftrightarrow> (\<exists>h k j pkts. tx_view h k j pkts s \<and> mset got = mset (freed (m_klog s)) + mset (map fst pkts))"

lemma queued_mset:
  "queued k ms new fr \<Longrightarrow>
     mset (map pkt_id (filter (\<lambda>m. plan_packet k m \<noteq> Inl False) ms)) = mset fr + mset (map fst new)"
  by (induction rule: queued.induct) auto

lemma txInterrupt_run:
  assumes "tx_view h k j pkts s"
  defines "i \<equiv> completed (txDescArray s) h (take j pkts)"
  shows "\<exists>k' t. txInterrupt s = Some t \<and> tx_view (ring_pos h (total (take i pkts))) k' (j - i) (drop i pkts) t \<and>
    freed (m_klog t) = freed (m_klog s) @ map fst (take i pkts)"
proof -
  obtain k' t where t: "tx_clean_loop s = Some t" "tx_view (ring_pos h (total (take i pkts))) k' (j - i) (drop i pkts) t"
    "freed (m_klog t) = freed (m_klog s) @ map fst (take i pkts)"
    using tx_clean_run [OF assms(1)] unfolding i_def by blast
  let ?u = "if txNumFreeDesc t > kTxQueueWakeTreshhold then t\<lparr>m_klog := SignalOutputThread # m_klog t\<rparr> else t"
  have "txInterrupt s = Some ?u" using t(1) by (simp add: txInterrupt_def)
  moreover have "tx_view (ring_pos h (total (take i pkts))) k' (j - i) (drop i pkts) ?u" using t(2) by (simp add: tx_view_def)
  moreover have "freed (m_klog ?u) = freed (m_klog s) @ map fst (take i pkts)" using t(3) by simp
  ultimately show ?thesis by blast
qed

lemma tx_reach_inv: "tx_reach got s \<Longrightarrow> tx_inv got s"
proof (induction rule: tx_reach.induct)
  case (init s)
  then show ?case using init_ring_view [OF init(1,2)] unfolding tx_inv_def
    by (intro exI [of _ 0] exI [of _ "[]"]) simp
next
  case (start got s queue garbage b rest t taken)
  then obtain h k j pkts where v: "tx_view h k j pkts s" "mset got = mset (freed (m_klog s)) + mset (map fst pkts)"
    by (auto simp: tx_inv_def)
  obtain new fr j' where r: "tx_view h k j' (pkts @ new) t" "queued (m_kernel s) taken new fr" "freed (m_klog t) = freed (m_klog s) @ fr"
    using outputStart_run [OF v(1) start(2,3)] start(4,5) by auto
  show ?case unfolding tx_inv_def
    using r(1,3) v(2) queued_mset [OF r(2)] by (intro exI [of _ h] exI [of _ k] exI [of _ j'] exI [of _ "pkts @ new"]) simp
next
  case (interrupt got s t)
  then obtain h k j pkts where v: "tx_view h k j pkts s" "mset got = mset (freed (m_klog s)) + mset (map fst pkts)"
    by (auto simp: tx_inv_def)
  let ?i = "completed (txDescArray s) h (take j pkts)"
  obtain k' where r: "tx_view (ring_pos h (total (take ?i pkts))) k' (j - ?i) (drop ?i pkts) t"
    "freed (m_klog t) = freed (m_klog s) @ map fst (take ?i pkts)"
    using txInterrupt_run [OF v(1)] interrupt(2) by auto
  have "mset (map fst pkts) = mset (map fst (take ?i pkts)) + mset (map fst (drop ?i pkts))"
    by (metis append_take_drop_id map_append mset_append)
  then show ?case unfolding tx_inv_def using r v(2)
    by (intro exI [of _ "ring_pos h (total (take ?i pkts))"] exI [of _ k'] exI [of _ "j - ?i"] exI [of _ "drop ?i pkts"])
      simp
next
  case (chip got s ds)
  then obtain h k j pkts where v: "tx_view h k j pkts s" "mset got = mset (freed (m_klog s)) + mset (map fst pkts)"
    by (auto simp: tx_inv_def)
  then have "tx_view h k j pkts (s\<lparr>txDescArray := ds\<rparr>)" using chip(2) by (simp add: tx_view_def)
  then show ?case unfolding tx_inv_def using v(2) by (intro exI conjI) simp_all
next
  case (link got s f l a)
  then obtain h k j pkts where v: "tx_view h k j pkts s" "mset got = mset (freed (m_klog s)) + mset (map fst pkts)"
    by (auto simp: tx_inv_def)
  then have "tx_view h k j pkts (s\<lparr>isEnabled := a, linkUp := l, forceReset := f\<rparr>)" by (simp add: tx_view_def)
  then show ?case unfolding tx_inv_def using v(2) by (intro exI conjI) simp_all
next
  case (clear got s)
  then obtain h k j pkts where v: "tx_view h k j pkts s" "mset got = mset (freed (m_klog s)) + mset (map fst pkts)"
    by (auto simp: tx_inv_def)
  obtain t where "run_state clear_tx s = ((), t)" "tx_view 0 0 0 [] t" "freed (m_klog t) = freed (m_klog s) @ owned (txBufArray s)"
    using clear_tx_run [OF v(1)] by blast
  then show ?case unfolding tx_inv_def using v(2) tx_view_ring(1) [OF v(1)]
    by (intro exI [of _ 0] exI [of _ "[]"]) simp
qed

subsection \<open>The descriptors of a packet\<close>

lemma seg_mask: "x AND 0xFFFFF = take_bit 20 (x :: 'a::len word)"
  by (simp add: take_bit_eq_mask mask_eq_exp_minus_1)

lemma seg_word_bits:
  fixes c b :: u32 and x :: u64
  shows "(c OR ucast (x AND 0x000fffff) OR b) AND E1000_TXD_CMD_RS = (c OR b) AND E1000_TXD_CMD_RS"
    "(c OR ucast (x AND 0x000fffff) OR b) AND E1000_TXD_CMD_EOP = (c OR b) AND E1000_TXD_CMD_EOP"
    "(c OR b) AND 0x000fffff = 0 \<Longrightarrow> (c OR ucast (x AND 0x000fffff) OR b) AND 0x000fffff = ucast x AND 0x000fffff"
proof -
  have u: "ucast (x AND 0x000fffff) = (ucast x AND 0x000fffff :: u32)"
    unfolding seg_mask by (rule bit_word_eqI) (auto simp: bit_take_bit_iff bit_unsigned_iff)
  have z: "(ucast x AND 0x000fffff) AND E1000_TXD_CMD_RS = (0 :: u32)"
    "(ucast x AND 0x000fffff) AND E1000_TXD_CMD_EOP = (0 :: u32)"
    by (simp_all add: and.assoc)
  have d: "(c OR y OR b) AND m = ((c OR b) AND m) OR (y AND m)" for y m :: u32
    by (rule bit_word_eqI) (auto simp: bit_simps)
  show "(c OR ucast (x AND 0x000fffff) OR b) AND E1000_TXD_CMD_RS = (c OR b) AND E1000_TXD_CMD_RS"
    "(c OR ucast (x AND 0x000fffff) OR b) AND E1000_TXD_CMD_EOP = (c OR b) AND E1000_TXD_CMD_EOP"
    unfolding u d z by simp_all
  show "(c OR ucast (x AND 0x000fffff) OR b) AND 0x000fffff = ucast x AND 0x000fffff" if "(c OR b) AND 0x000fffff = 0"
    unfolding u d that by (simp add: and.assoc)
qed

text \<open>The command bits of a plan.\<close>

lemma plan_packet_bits:
  assumes "plan_packet k m = Inr plan"
  shows "tp_tso plan = is_tso m"
    "tp_cmd plan \<in> {0, E1000_TXD_CMD_DEXT OR E1000_TXD_DTYP_D, E1000_TXD_CMD_DEXT OR E1000_TXD_CMD_TSE OR E1000_TXD_DTYP_D}"
    "tp_opts plan \<in> (if is_tso m then {E1000_TXD_CMD_IFCS, E1000_TXD_CMD_IFCS OR E1000_TXD_CMD_VLE}
       else {E1000_TXD_CMD_IDE OR E1000_TXD_CMD_EOP OR E1000_TXD_CMD_IFCS OR E1000_TXD_CMD_RS,
         E1000_TXD_CMD_IDE OR E1000_TXD_CMD_EOP OR E1000_TXD_CMD_IFCS OR E1000_TXD_CMD_RS OR E1000_TXD_CMD_VLE})"
  using assms
  by (auto simp: plan_packet_def is_tso_def tso_plan_def csum_plan_def add_vlan_def Let_def
      split: option.splits if_splits)

lemma packet_descs_bits:
  assumes "plan_packet k m = Inr plan" and "plan_ok plan (length segs)" and "i < length segs"
  defines "d \<equiv> seg_desc plan (length segs - 1) i (segs ! i)"
  shows "td_buffer_addr d = fst (segs ! i)" "td_lower d AND 0x000fffff = ucast (snd (segs ! i)) AND 0x000fffff"
    "(td_lower d AND E1000_TXD_CMD_EOP \<noteq> 0) = (i = length segs - 1)"
    "(td_lower d AND E1000_TXD_CMD_RS \<noteq> 0) = (i = length segs - 1)"
    "td_upper d = tp_word2 plan"
proof -
  let ?b = "seg_bits plan i (length segs - 1)"
  have "?b = (if is_tso m then (if i = 0 then tp_opts plan
       else if i = length segs - 1 then E1000_TXD_CMD_IDE OR E1000_TXD_CMD_EOP OR E1000_TXD_CMD_RS else 0)
     else if i = length segs - 1 then tp_opts plan else 0)"
    by (simp add: seg_bits_def plan_packet_bits(1) [OF assms(1)])
  moreover have "is_tso m \<longrightarrow> 2 \<le> length segs"
    using assms(2) plan_packet_bits(1) [OF assms(1)] by (simp add: plan_ok_def)
  ultimately have "(tp_cmd plan OR ?b) AND 0x000fffff = 0"
    "((tp_cmd plan OR ?b) AND E1000_TXD_CMD_EOP \<noteq> 0) = (i = length segs - 1)"
    "((tp_cmd plan OR ?b) AND E1000_TXD_CMD_RS \<noteq> 0) = (i = length segs - 1)"
    using plan_packet_bits(2,3) [OF assms(1)] by (auto split: if_splits)
  then show "td_lower d AND 0x000fffff = ucast (snd (segs ! i)) AND 0x000fffff"
    "(td_lower d AND E1000_TXD_CMD_EOP \<noteq> 0) = (i = length segs - 1)"
    "(td_lower d AND E1000_TXD_CMD_RS \<noteq> 0) = (i = length segs - 1)"
    by (simp_all only: d_def seg_desc_def tx_desc.simps seg_word_bits)
qed (simp_all add: d_def seg_desc_def)

subsection \<open>The sum over the pseudo header\<close>

lemma csum_step_ones_complement:
  assumes "unat c \<le> 0xFFFF"
  shows "unat (csum_step x c) \<le> 0xFFFF" "unat (csum_step x c) mod 0xFFFF = (unat c + unat x) mod 0xFFFF"
proof -
  let ?s = "unat c + unat x"
  have x: "unat x \<le> 0xFFFF" using unsigned_less [of x, where ?'a = nat] by simp
  have s: "unat (c + ucast x) = ?s"
    using assms x by (simp add: unat_word_ariths unsigned_ucast_eq take_bit_nat_eq_self)
  have hi: "unat (drop_bit 16 (c + ucast x)) = ?s div 0x10000"
    by (simp only: unat_drop_bit_eq s drop_bit_eq_div [where ?'a = nat]) simp
  have m: "(0xFFFF :: u32) = mask 16" by (simp add: mask_eq_exp_minus_1)
  have step: "unat (csum_step x c) = (?s + ?s div 0x10000) mod 0x10000"
  proof -
    have "unat ((c + ucast x) + drop_bit 16 (c + ucast x)) = ?s + ?s div 0x10000"
      unfolding unat_word_ariths(1) [of "c + ucast x"] s hi using assms x by simp
    then show ?thesis
      unfolding csum_step_def Let_def m by (simp only: take_bit_eq_mask [symmetric] unsigned_take_bit_eq) (simp add: take_bit_eq_mod)
  qed
  then show "unat (csum_step x c) \<le> 0xFFFF" by simp
  show "unat (csum_step x c) mod 0xFFFF = (unat c + unat x) mod 0xFFFF"
  proof (cases "?s < 0x10000")
    case True
    then show ?thesis by (simp add: step)
  next
    case False
    then have "?s div 0x10000 = 1" using assms x by simp
    moreover have "(?s + 1) mod 0x10000 = ?s + 1 - 0x10000"
      using False assms x by (subst le_mod_geq) simp_all
    ultimately have "unat (csum_step x c) + 0xFFFF = ?s" using False step by simp
    then show ?thesis by (metis mod_add_self2)
  qed
qed

lemma csum_fold:
  "unat c \<le> 0xFFFF \<Longrightarrow> unat (fold csum_step xs c) \<le> 0xFFFF \<and>
     unat (fold csum_step xs c) mod 0xFFFF = (unat c + sum_list (map unat xs)) mod 0xFFFF"
proof (induction xs arbitrary: c)
  case (Cons x xs)
  note s = csum_step_ones_complement [OF Cons.prems, of x]
  have "unat (fold csum_step (x # xs) c) mod 0xFFFF = (unat (csum_step x c) + sum_list (map unat xs)) mod 0xFFFF"
    using Cons.IH [OF s(1)] by simp
  also have "\<dots> = (unat c + unat x + sum_list (map unat xs)) mod 0xFFFF"
    by (metis s(2) mod_add_left_eq)
  finally show ?case using Cons.IH [OF s(1)] by (simp add: add.assoc)
qed simp

subsection \<open>A sample driver\<close>

text \<open>A kernel that grants every call, whose memory is mapped one to one.\<close>

definition sample_kernel :: kernel where
  "sample_kernel = \<lparr>k_ok = \<lambda>_ _. True, k_mbuf = \<lambda>log. length log, k_segment = \<lambda>_ i a. a,
     k_segments = pkt_chain, k_pullup = \<lambda>_. True, k_phys = \<lambda>m. word_of_nat m * 0x1000, k_next = \<lambda>_. False,
     k_datastart = \<lambda>m. word_of_nat m * 0x1000, k_ring = \<lambda>_. 0x300000\<rparr>"

definition sample_mausi :: mausi where
  "sample_mausi = \<lparr>m_hw = sample_hw keep_dev, m_kernel = sample_kernel, m_klog = [], isEnabled = True, linkUp = True,
     forceReset = False, useAppleVTD = False, txDescArray = replicate 512 \<lparr>td_buffer_addr = 0, td_lower = 0, td_upper = 0\<rparr>,
     txBufArray = replicate 512 empty_buf, txPhyAddr = 0x100000, txDescDoneCount = 0, txDescDoneLast = 0,
     txNumFreeDesc = 512, txNextDescIndex = 0, txDirtyIndex = 0, txCleanBarrierIndex = 0, txNextMem2Use = 0,
     txNextMem2Free = 0, txNumFreeMem = 256, txMemIO = replicate 256 None, tx_resourceErrors = 0,
     rxDescArray = replicate 512 \<lparr>rd_low = 0, rd_high = 0\<rparr>,
     rxBufArray = map (\<lambda>i. \<lparr>rxb_mbuf = i, rxb_phyAddr = word_of_nat i * 0x1000\<rparr>) [0..<512], rxPhyAddr = 0x200000,
     rxPool = \<lparr>cPkts = [], mPkts = [], cCapacity = 0, cRefillTresh = 0, cPktNum = 0, mCapacity = 0, mRefillTresh = 0,
       mPktNum = 0, maxCopySize = 200, refillScheduled = False\<rparr>,
     rxPacket = [], rxPacketSize = 0, rxNextDescIndex = 0, rxMapNextIndex = 0, rxCleanedCount = 0,
     rx_resourceErrors = 0, rx_internalMacReceiveErrors = 0, rxMemIO = [], rxMemRange = [],
     m_has = {RxBufArray, RxBufDesc, RxDescDmaCmd, RxPoolObject, TxBufArray, TxBufDesc, TxDescDmaCmd, TxMbufCursor}\<rparr>"

definition no_csum :: csum_request where
  "no_csum = \<lparr>cs_tcp = False, cs_udp = False, cs_ip = False, cs_tcp6 = False, cs_udp6 = False, cs_other = False, cs_value = 0\<rparr>"

text \<open>A packet of two buffers, and a segmented one.\<close>

definition sample_packet :: "mbuf \<Rightarrow> packet" where
  "sample_packet m = \<lparr>pkt_id = m, pkt_chain = [(0x5000, 66), (0x6000, 900)], pkt_len = 966, pkt_bytes = replicate 66 0,
     pkt_tso = Some (False, False, 0), pkt_csum = no_csum, pkt_vlan = None\<rparr>"

lemma sample_view: "tx_view 0 0 0 [] sample_mausi"
  by (simp add: tx_view_def sample_mausi_def)

lemma sample_packet_ok: "list_all (packet_ok sample_mausi) [sample_packet m]" "plan_packet k (sample_packet m) \<noteq> Inl False"
  by (simp_all add: packet_ok_def seg_count_def is_tso_def sample_packet_def sample_mausi_def sample_kernel_def
      no_csum_def plan_packet_def)

lemma sample_vector: "length (replicate 32 (0, 0) :: (u64 \<times> u64) list) = kMaxSegs"
  by simp

lemma sample_reach: "tx_reach [] (snd (run_state intelInitTxRing sample_mausi))"
  by (rule tx_reach.init) (simp_all add: sample_mausi_def)

subsection \<open>Properties\<close>



text \<open>C29: Cleaning. For every ring state the loop of \<open>txInterrupt\<close> ends. It frees the longest run of oldest packets before
the barrier whose last descriptor the chip has marked done, in the order they were queued, gives back
exactly their descriptors, and leaves the packets behind them in flight as they were.\<close>

theorem tx_interrupt_correct:
  assumes "tx_view h k j pkts s"
  defines "i \<equiv> completed (txDescArray s) h (take j pkts)"
  shows "\<exists>k' t. txInterrupt s = Some t \<and> tx_view (ring_pos h (total (take i pkts))) k' (j - i) (drop i pkts) t \<and>
    freed (m_klog t) = freed (m_klog s) @ map fst (take i pkts) \<and>
    txNumFreeDesc t = txNumFreeDesc s + int (total (take i pkts))"
proof -
  obtain k' t where t: "txInterrupt s = Some t" "tx_view (ring_pos h (total (take i pkts))) k' (j - i) (drop i pkts) t"
    "freed (m_klog t) = freed (m_klog s) @ map fst (take i pkts)"
    using txInterrupt_run [OF assms(1)] unfolding i_def by blast
  have "total pkts = total (take i pkts) + total (drop i pkts)"
    by (metis append_take_drop_id total_simps(3))
  then have "txNumFreeDesc t = txNumFreeDesc s + int (total (take i pkts))"
    using t(2) assms(1) by (simp add: tx_view_def)
  with t show ?thesis by blast
qed

theorem tx_interrupt_correct_witness:
  "\<exists>t. txInterrupt sample_mausi = Some t \<and> txNumFreeDesc t = 512"
  using tx_interrupt_correct [OF sample_view] by (auto simp: sample_mausi_def)



text \<open>The ring drains. From every reachable state in which everything queued has been announced to the chip and the chip
has marked every descriptor done, one interrupt frees all packets in flight, so that all descriptors are free and
every packet ever taken over has been freed.\<close>

lemma tx_ring_drains:
  assumes "tx_reach got s" and "txCleanBarrierIndex s = txNextDescIndex s"
    and "list_all desc_done (txDescArray s)"
  shows "\<exists>t. txInterrupt s = Some t \<and> txNumFreeDesc t = kNumTxDesc \<and> owned (txBufArray t) = [] \<and>
    mset (freed (m_klog t)) = mset got"
proof -
  obtain h k j pkts where v: "tx_view h k j pkts s" "mset got = mset (freed (m_klog s)) + mset (map fst pkts)"
    using tx_reach_inv [OF assms(1)] by (auto simp: tx_inv_def)
  have "total (take j pkts) = total pkts"
    using v(1) assms(2) total_take [of j pkts] ring_pos_inj [of "total (take j pkts)" "total pkts" h]
    by (auto simp: tx_view_def)
  then have "total (drop j pkts) = 0"
    by (metis append_take_drop_id total_simps(3) add_eq_self_zero)
  moreover have "list_all (\<lambda>(m, n). 0 < n) (drop j pkts)"
    using v(1) unfolding tx_view_def by (metis append_take_drop_id list_all_append)
  ultimately have "drop j pkts = []" by (cases "drop j pkts") auto
  then have j: "take j pkts = pkts" using append_take_drop_id [of j pkts] by simp
  have done_at: "desc_done (txDescArray s ! ring_pos a b)" for a b
    using assms(3) v(1) by (simp add: list_all_length tx_view_def)
  have "completed (txDescArray s) h' ps = length ps" for h' ps
    by (induction "txDescArray s" h' ps rule: completed.induct) (auto simp: done_at)
  then have c: "completed (txDescArray s) h (take j pkts) = length pkts" using j by simp
  obtain k' t where t: "txInterrupt s = Some t" "tx_view (ring_pos h (total pkts)) k' (j - length pkts) [] t"
    "freed (m_klog t) = freed (m_klog s) @ map fst pkts"
    using txInterrupt_run [OF v(1)] unfolding c by auto
  have "mset (owned (txBufArray t)) = {#}" using tx_view_ring(1) [OF t(2)] by simp
  then show ?thesis using t v(2) by (simp add: tx_view_def)
qed



text \<open>The pseudo-header sum of a segmented packet. It is congruent, modulo 65535, to 6 (the protocol number of TCP) and the
sum of the sixteen-bit words in network order, which is what the one's complement sum of the standard means, and it fits
into sixteen bits, so that the truncation before it is stored loses nothing.\<close>

theorem pseudo_sum_correct:
  "unat (pseudo_sum bs start n) \<le> 0xFFFF \<and>
   unat (pseudo_sum bs start n) mod 0xFFFF = (6 + (\<Sum>i<n. unat (ntohs_at bs (start + 2 * i)))) mod 0xFFFF"
  using csum_fold [of 6 "map (\<lambda>i. ntohs_at bs (start + 2 * i)) [0..<n]"]
  by (simp add: pseudo_sum_def comp_def interv_sum_list_conv_sum_set_nat atLeast0LessThan)

lemma tx_clean_pass: "txDirtyIndex s \<noteq> txCleanBarrierIndex s \<Longrightarrow> txb_mbuf (txBufArray s ! unat (txDirtyIndex s)) = None \<Longrightarrow>
    tx_clean_loop s = tx_clean_loop (tx_advance s)"
  by (subst tx_clean_loop.simps) simp

lemma tx_clean_end: "txDirtyIndex s = txCleanBarrierIndex s \<Longrightarrow> tx_clean_loop s = Some s"
  by (subst tx_clean_loop.simps) simp

text \<open>C31: A segmented packet that lies in one physical segment is lost. Queued into an empty ring it takes two descriptors,
but no entry owns the packet, so that nothing ever frees it; the cleaning passes over both descriptors without giving
them back, and neither of them asks the chip to end the packet or to report it.\<close>

theorem tso_single_segment_lost:
  fixes seg :: "u64 \<times> u64"
  assumes "tx_view h 0 0 [] s" and "plan_packet (m_kernel s) m = Inr plan" and "is_tso m"
  defines "t \<equiv> snd (run_state (queue_segments (pkt_id m) plan [seg]) s)"
  shows "owned (txBufArray t) = [] \<and> txNumFreeDesc t = 510 \<and>
    (let d = txDescArray t ! ring_pos h 1 in
       td_lower d AND E1000_TXD_CMD_EOP = 0 \<and> td_lower d AND E1000_TXD_CMD_RS = 0) \<and>
    (\<exists>u. tx_clean_loop (t\<lparr>txCleanBarrierIndex := txNextDescIndex t\<rparr>) = Some u \<and>
       txDirtyIndex u = txNextDescIndex t \<and> txNumFreeDesc u = 510 \<and> freed (m_klog u) = freed (m_klog s))"
proof -
  have plan: "tp_tso plan" "tp_offload plan" "tp_numDescs plan = 1"
    using assms(2,3) by (auto simp: plan_packet_def is_tso_def tso_plan_def add_vlan_def Let_def split: option.splits if_splits)
  let ?i = "txNextDescIndex s" and ?w = "ucast ((ucast (txNextDescIndex s) + 2) AND kTxDescMask :: u32) :: u16"
  let ?j = "(txNextDescIndex s + 1) AND kTxDescMask"
  have ix: "unat ?i = h" "h < 512" "unat (txDirtyIndex s) = h" "txNumFreeDesc s = 512"
    "length (txBufArray s) = 512" "length (txDescArray s) = 512"
    using assms(1) by (simp_all add: tx_view_def)
  have dirty: "txDirtyIndex s = ?i" using ix by (simp add: word_unat_eq_iff)
  have j: "unat ?j = ring_pos h 1" using ring_step [of ?i] ix by (simp add: ring_ix_def)
  have w: "?w = (?j + 1) AND kTxDescMask"
  proof -
    have m: "(511 :: u32) = mask 9" by (simp add: mask_eq_exp_minus_1)
    have "unat ((ucast ?i + 2) AND (511 :: u32)) = (unat ?i + 2) mod 512"
      unfolding m using ix by (simp only: take_bit_eq_mask [symmetric] unsigned_take_bit_eq)
        (simp add: take_bit_eq_mod unat_word_ariths unsigned_ucast_eq take_bit_nat_eq_self)
    then have "unat ?w = ring_pos h 2" using ix by (simp add: unsigned_ucast_eq take_bit_nat_eq_self ring_pos_def)
    moreover have "unat ((?j + 1) AND kTxDescMask) = ring_pos h 2"
      using ring_step [of ?j] j by (simp add: numeral_2_eq_2)
    ultimately show ?thesis by (simp only: word_unat_eq_iff)
  qed
  have t: "t = s\<lparr>txNumFreeDesc := 510, txNextDescIndex := ?w,
      txDescArray := (txDescArray s)[h := context_desc plan, ring_pos h 1 := seg_desc plan 0 0 seg],
      txBufArray := (txBufArray s)[h := empty_buf, ring_pos h 1 := empty_buf]\<rparr>"
    using plan ix j by (simp add: t_def queue_segments_def run_put_tx seg_owns_def seg_desc_def empty_buf_def cong: if_cong)
  have empty: "txBufArray t ! i = empty_buf" if i: "i < 512" for i
  proof -
    obtain q where "q < 512" "ring_pos h q = i" using ix(2) i by (rule ring_pos_surj)
    then have "txBufArray s ! i = empty_buf" using tx_view_buf [OF assms(1), of q] by simp
    then show ?thesis using i ix by (simp add: t nth_list_update)
  qed
  then have "txBufArray t = replicate 512 empty_buf" using ix(5) by (intro nth_equalityI) (simp_all add: t)
  moreover have "td_lower (txDescArray t ! ring_pos h 1) AND E1000_TXD_CMD_EOP = 0 \<and>
      td_lower (txDescArray t ! ring_pos h 1) AND E1000_TXD_CMD_RS = 0"
    using plan(1) plan_packet_bits [OF assms(2)] assms(3) ix
    by (auto simp: t seg_desc_def seg_word_bits seg_bits_def)
  moreover have "tx_clean_loop (t\<lparr>txCleanBarrierIndex := txNextDescIndex t\<rparr>) =
      Some (t\<lparr>txCleanBarrierIndex := txNextDescIndex t, txDirtyIndex := txNextDescIndex t\<rparr>)"
  proof -
    have ne: "?i \<noteq> ?w" "?j \<noteq> ?w"
      using ring_pos_neq [of 0 2 h] ring_pos_neq [of 1 2 h] ix(1,2) j ring_step [of ?j]
      by (auto simp: w word_unat_eq_iff numeral_2_eq_2)
    have b: "txb_mbuf (txBufArray t ! unat ?i) = None" "txb_mbuf (txBufArray t ! unat ?j) = None"
      using empty ix(1,2) j by (simp_all add: empty_buf_def)
    let ?a = "t\<lparr>txCleanBarrierIndex := txNextDescIndex t\<rparr>"
    have n: "txNextDescIndex t = ?w" "txDirtyIndex t = ?i" using dirty by (simp_all add: t)
    have "tx_clean_loop ?a = tx_clean_loop (tx_advance ?a)"
      by (rule tx_clean_pass) (use n ne b in simp_all)
    also have "\<dots> = tx_clean_loop (tx_advance (tx_advance ?a))"
      by (rule tx_clean_pass) (use n ne b in \<open>simp_all add: tx_advance_def\<close>)
    also have "\<dots> = Some (tx_advance (tx_advance ?a))"
      by (rule tx_clean_end) (use n w in \<open>simp add: tx_advance_def\<close>)
    finally show ?thesis using n w by (simp add: tx_advance_def)
  qed
  ultimately show ?thesis by (simp add: t Let_def)
qed

definition sample_tso :: packet where
  "sample_tso = (sample_packet 8)\<lparr>pkt_tso := Some (True, False, 1448)\<rparr>"

theorem tso_single_segment_lost_witness:
  "\<exists>plan. plan_packet (m_kernel sample_mausi) sample_tso = Inr plan \<and>
     owned (txBufArray (snd (run_state (queue_segments 8 plan [(0x5000, 3000)]) sample_mausi))) = []"
proof -
  obtain plan where p: "plan_packet (m_kernel sample_mausi) sample_tso = Inr plan"
    by (auto simp: plan_packet_def sample_tso_def sample_packet_def tso_plan_def prepareTSO4_def Let_def
        sample_mausi_def sample_kernel_def)
  have "is_tso sample_tso" "pkt_id sample_tso = 8" by (simp_all add: is_tso_def sample_tso_def sample_packet_def)
  then show ?thesis using tso_single_segment_lost [OF sample_view p, of "(0x5000, 3000)"] p by auto
qed

end
