(* ===== verification/RxBufs.thy ===== *)
theory RxBufs
  imports RxRing TxProps
begin

section \<open>Buffers of the receive side\<close>

text \<open>
  The book of the buffers the driver holds, kept from the kernel calls alone, and the operations of the receive pool
  against it: the interface \<open>fill_loop\<close> of the loops that fill a half of the pool, interpreted for
  all four of them, the pool's invariant, and what setting up, taking a packet and refilling do.
\<close>

subsection \<open>The buffers the driver holds\<close>

text \<open>
  What the calls made so far leave in the driver's hands, as the kernel counts: the buffers it started with and those
  allocated since, less those freed or passed up.
\<close>

fun in_use :: "kernel \<Rightarrow> mbuf multiset \<Rightarrow> kcall list \<Rightarrow> mbuf multiset" where
  "in_use k start [] = start"
| "in_use k start (c # log) = (case c of
       AllocPacket how sz \<Rightarrow> (if k_ok k log c then {#k_mbuf k (c # log)#} else {#}) + in_use k start log
     | FreeMbuf ms \<Rightarrow> in_use k start log - mset ms
     | EnqueueInput ms sz tag sums \<Rightarrow> in_use k start log - mset ms
     | _ \<Rightarrow> in_use k start log)"

text \<open>Every call names buffers the driver holds at that time: nothing is freed twice or used after it was given away.\<close>

fun calls_ok :: "kernel \<Rightarrow> mbuf multiset \<Rightarrow> kcall list \<Rightarrow> bool" where
  "calls_ok k start [] = True"
| "calls_ok k start (c # log) = (calls_ok k start log \<and> (case c of
       FreeMbuf ms \<Rightarrow> mset ms \<subseteq># in_use k start log
     | EnqueueInput ms sz tag sums \<Rightarrow> mset ms \<subseteq># in_use k start log
     | CopyPacket new old len \<Rightarrow> {#new, old#} \<subseteq># in_use k start log
     | SetLength m len \<Rightarrow> m \<in># in_use k start log
     | _ \<Rightarrow> True))"

text \<open>The packets handed to the network stack, oldest first.\<close>

fun passed_up :: "kcall list \<Rightarrow> (mbuf list \<times> u32 \<times> u16 \<times> bool \<times> bool) list" where
  "passed_up [] = []"
| "passed_up (c # log) = passed_up log @
     (case c of EnqueueInput ms sz tag sums \<Rightarrow> [(ms, sz, tag, sums)] | _ \<Rightarrow> [])"

definition pool_bufs :: "rx_pool \<Rightarrow> mbuf multiset" where
  "pool_bufs p = mset (cPkts p) + mset (mPkts p)"

definition ring_bufs :: "mausi \<Rightarrow> mbuf multiset" where
  "ring_bufs s = mset (map rxb_mbuf (rxBufArray s)) + mset (rxPacket s)"

definition given :: "mbuf option \<Rightarrow> mbuf multiset" where
  "given r = (case r of None \<Rightarrow> {#} | Some m \<Rightarrow> {#m#})"

lemma given_simps [simp]: "given None = {#}" "given (Some m) = {#m#}"
  by (simp_all add: given_def)

text \<open>The books are in order: what the kernel counts is what pool, ring and packet in progress hold, and some more.\<close>

definition books :: "mbuf multiset \<Rightarrow> mbuf multiset \<Rightarrow> mausi \<Rightarrow> bool" where
  "books start extra s \<longleftrightarrow> calls_ok (m_kernel s) start (m_klog s) \<and>
     in_use (m_kernel s) start (m_klog s) = pool_bufs (rxPool s) + ring_bufs s + extra"

lemma run_mbuf_allocpacket:
  "run_state (mbuf_allocpacket how sz) s = (let c = AllocPacket how sz; t = s\<lparr>m_klog := c # m_klog s\<rparr> in
     (if k_ok (m_kernel s) (m_klog s) c then Some (k_mbuf (m_kernel s) (c # m_klog s)) else None, t))"
  by (simp add: mbuf_allocpacket_def Let_def)

lemma run_set_pool [simp]: "run_state (set_pool f) s = ((), s\<lparr>rxPool := f (rxPool s)\<rparr>)"
  by (simp add: set_pool_def)

lemma books_alloc:
  assumes "books start extra s" and "run_state (mbuf_allocpacket how sz) s = (r, t)"
  shows "t = s\<lparr>m_klog := AllocPacket how sz # m_klog s\<rparr> \<and> books start (given r + extra) t"
  using assms by (auto simp: run_mbuf_allocpacket Let_def books_def ring_bufs_def add.commute split: if_splits)

subsection \<open>The pool\<close>

text \<open>
  Both halves of the pool are filled by the same loop, at the start and by the refill thread. The interface is its
  recursion and what adding a buffer does to the half.
\<close>

locale fill_loop =
  fixes fill :: "nat \<Rightarrow> bool mausiM" and how :: bool and sz :: "rx_pool \<Rightarrow> u32"
    and put :: "mbuf \<Rightarrow> rx_pool \<Rightarrow> rx_pool" and half :: "rx_pool \<Rightarrow> mbuf list" and num :: "rx_pool \<Rightarrow> s32"
    and rest :: "rx_pool \<Rightarrow> 'r"
  assumes fill_0: "fill 0 = ret True"
    and fill_Suc: "fill (Suc n) = do { x \<leftarrow> gets (\<lambda>s. sz (rxPool s)); m \<leftarrow> mbuf_allocpacket how x;
      case m of None \<Rightarrow> ret False | Some m \<Rightarrow> do { set_pool (put m); fill n } }"
    and put_half: "half (put m p) = half p @ [m]"
    and put_num: "num p = int (length (half p)) \<Longrightarrow> num (put m p) = num p + 1"
    and put_rest: "rest (put m p) = rest p"
    and put_bufs: "pool_bufs (put m p) = add_mset m (pool_bufs p)"
begin

lemma fill_run:
  assumes "num (rxPool s) = int (length (half (rxPool s)))" and "books start extra s"
  shows "\<exists>p log ok ms. run_state (fill n) s = (ok, s\<lparr>rxPool := p, m_klog := log\<rparr>) \<and>
    half p = half (rxPool s) @ ms \<and> num p = int (length (half p)) \<and> rest p = rest (rxPool s) \<and>
    length ms \<le> n \<and> (ok \<longleftrightarrow> length ms = n) \<and> books start extra (s\<lparr>rxPool := p, m_klog := log\<rparr>) \<and>
    ((\<forall>l x. k_ok (m_kernel s) l (AllocPacket how x)) \<longrightarrow> ok)"
  using assms
proof (induction n arbitrary: s)
  case 0
  then show ?case
    by (intro exI [of _ "rxPool s"] exI [of _ "m_klog s"] exI [of _ True] exI [of _ "[]"]) (simp add: fill_0)
next
  case (Suc n)
  obtain r where a: "run_state (mbuf_allocpacket how (sz (rxPool s))) s =
      (r, s\<lparr>m_klog := AllocPacket how (sz (rxPool s)) # m_klog s\<rparr>)"
    by (simp add: run_mbuf_allocpacket Let_def)
  let ?s = "s\<lparr>m_klog := AllocPacket how (sz (rxPool s)) # m_klog s\<rparr>"
  have b: "books start (given r + extra) ?s" using books_alloc [OF Suc.prems(2) a] by simp
  show ?case
  proof (cases r)
    case None
    have "run_state (fill (Suc n)) s = (False, ?s\<lparr>rxPool := rxPool s\<rparr>)"
      using a None by (simp add: fill_Suc)
    then show ?thesis using b None Suc.prems(1) a
      by (intro exI [of _ "rxPool s"] exI [of _ "m_klog ?s"] exI [of _ False] exI [of _ "[]"])
        (auto simp: run_mbuf_allocpacket Let_def split: if_splits)
  next
    case (Some m)
    let ?t = "?s\<lparr>rxPool := put m (rxPool s)\<rparr>"
    have n: "num (rxPool ?t) = int (length (half (rxPool ?t)))"
      using Suc.prems(1) by (simp add: put_half put_num)
    have bt: "books start extra ?t"
      using b by (simp add: books_def put_bufs ring_bufs_def Some)
    obtain p log ok ms where i: "run_state (fill n) ?t = (ok, ?t\<lparr>rxPool := p, m_klog := log\<rparr>)"
      "half p = half (rxPool ?t) @ ms" "num p = int (length (half p))" "rest p = rest (rxPool ?t)"
      "length ms \<le> n" "ok \<longleftrightarrow> length ms = n" "books start extra (?t\<lparr>rxPool := p, m_klog := log\<rparr>)"
      "(\<forall>l x. k_ok (m_kernel ?t) l (AllocPacket how x)) \<longrightarrow> ok"
      using Suc.IH [OF n bt] by blast
    have "run_state (fill (Suc n)) s = (ok, s\<lparr>rxPool := p, m_klog := log\<rparr>)"
      using a Some i(1) by (simp add: fill_Suc)
    then show ?thesis using i put_half put_rest
      by (intro exI [of _ p] exI [of _ log] exI [of _ ok] exI [of _ "m # ms"]) simp
  qed
qed

end

abbreviation "mbuf_rest p \<equiv> (cPkts p, cPktNum p, cCapacity p, cRefillTresh p, mCapacity p, mRefillTresh p, maxCopySize p, refillScheduled p)"
abbreviation "clust_rest p \<equiv> (mPkts p, mPktNum p, cCapacity p, cRefillTresh p, mCapacity p, mRefillTresh p, maxCopySize p, refillScheduled p)"

lemma gets_const: "gets (\<lambda>_. c) = ret c"
  by (simp add: gets_def State_Monad.return_def)

interpretation fm: fill_loop refill_mbufs MBUF_DONTWAIT maxCopySize
  "\<lambda>m p. p\<lparr>mPktNum := mPktNum p + 1, mPkts := mPkts p @ [m]\<rparr>" mPkts mPktNum "\<lambda>p. mbuf_rest p"
  by unfold_locales (simp_all add: pool_bufs_def)

interpretation fc: fill_loop refill_clusters MBUF_DONTWAIT "\<lambda>_. PAGE_SIZE"
  "\<lambda>m p. p\<lparr>cPktNum := cPktNum p + 1, cPkts := cPkts p @ [m]\<rparr>" cPkts cPktNum "\<lambda>p. clust_rest p"
  by unfold_locales (simp_all add: pool_bufs_def gets_const)

interpretation im: fill_loop init_mbufs MBUF_WAITOK maxCopySize
  "\<lambda>m p. p\<lparr>mPktNum := (if mPkts p = [] then 1 else mPktNum p + 1), mPkts := mPkts p @ [m]\<rparr>" mPkts mPktNum
  "\<lambda>p. mbuf_rest p"
  by unfold_locales (simp_all add: pool_bufs_def)

interpretation ic: fill_loop init_clusters MBUF_WAITOK "\<lambda>_. PAGE_SIZE"
  "\<lambda>m p. p\<lparr>cPktNum := (if cPkts p = [] then 1 else cPktNum p + 1), cPkts := cPkts p @ [m]\<rparr>" cPkts cPktNum
  "\<lambda>p. clust_rest p"
  by unfold_locales (simp_all add: pool_bufs_def gets_const)

text \<open>
  The invariant of the pool: the counts are those of the lists, no list is empty, so that the tail pointer is
  valid, and none is longer than its capacity.
\<close>

definition pool_ok :: "rx_pool \<Rightarrow> bool" where
  "pool_ok p \<longleftrightarrow> cPktNum p = int (length (cPkts p)) \<and> mPktNum p = int (length (mPkts p)) \<and>
     cPkts p \<noteq> [] \<and> mPkts p \<noteq> [] \<and> length (cPkts p) \<le> unat (cCapacity p) \<and> length (mPkts p) \<le> unat (mCapacity p)"

lemma run_schedule_refill:
  "run_state (schedule_refill low) s = ((), if low \<and> \<not> refillScheduled (rxPool s)
     then s\<lparr>rxPool := (rxPool s)\<lparr>refillScheduled := True\<rparr>, m_klog := ScheduleRefill # m_klog s\<rparr> else s)"
  by (simp add: schedule_refill_def)

lemma pool_ok_simps [simp]:
  "pool_ok (p\<lparr>refillScheduled := b\<rparr>) = pool_ok p" "pool_bufs (p\<lparr>refillScheduled := b\<rparr>) = pool_bufs p"
  by (simp_all add: pool_ok_def pool_bufs_def)

lemma books_schedule:
  "books start extra (s\<lparr>rxPool := p\<lparr>refillScheduled := b\<rparr>, m_klog := ScheduleRefill # log\<rparr>) =
   books start extra (s\<lparr>rxPool := p, m_klog := log\<rparr>)"
  by (simp add: books_def ring_bufs_def)

text \<open>A buffer taken from one half.\<close>

lemma take_clust:
  assumes "pool_ok p" "cPktNum p > 1"
  defines "p' \<equiv> p\<lparr>cPktNum := cPktNum p - 1, cPkts := tl (cPkts p)\<rparr>"
  shows "pool_ok p'" "pool_bufs p = add_mset (hd (cPkts p)) (pool_bufs p')"
proof -
  obtain x y ys where "cPkts p = x # y # ys" using assms(1,2) by (cases "cPkts p"; cases "tl (cPkts p)") (auto simp: pool_ok_def)
  then show "pool_ok p'" "pool_bufs p = add_mset (hd (cPkts p)) (pool_bufs p')"
    using assms(1) by (auto simp: pool_ok_def pool_bufs_def p'_def)
qed

lemma take_mbuf:
  assumes "pool_ok p" "mPktNum p > 1"
  defines "p' \<equiv> p\<lparr>mPktNum := mPktNum p - 1, mPkts := tl (mPkts p)\<rparr>"
  shows "pool_ok p'" "pool_bufs p = add_mset (hd (mPkts p)) (pool_bufs p')"
proof -
  obtain x y ys where "mPkts p = x # y # ys" using assms(1,2) by (cases "mPkts p"; cases "tl (mPkts p)") (auto simp: pool_ok_def)
  then show "pool_ok p'" "pool_bufs p = add_mset (hd (mPkts p)) (pool_bufs p')"
    using assms(1) by (auto simp: pool_ok_def pool_bufs_def p'_def)
qed

lemma getPacket_run:
  assumes "pool_ok (rxPool s)" and "books start extra s"
  shows "\<exists>r p log. run_state (getPacket sz how) s = (r, s\<lparr>rxPool := p, m_klog := log\<rparr>) \<and> pool_ok p \<and>
    books start (given r + extra) (s\<lparr>rxPool := p, m_klog := log\<rparr>) \<and> maxCopySize p = maxCopySize (rxPool s) \<and>
    passed_up log = passed_up (m_klog s) \<and> ((\<forall>l x. k_ok (m_kernel s) l (AllocPacket how x)) \<longrightarrow> r \<noteq> None)"
proof -
  let ?x = "if sz > maxCopySize (rxPool s) then PAGE_SIZE else maxCopySize (rxPool s)"
  let ?c = "AllocPacket how ?x"
  obtain r where a: "run_state (mbuf_allocpacket how ?x) s = (r, s\<lparr>m_klog := ?c # m_klog s\<rparr>)"
    "r = None \<Longrightarrow> \<not> k_ok (m_kernel s) (m_klog s) ?c"
    by (cases "k_ok (m_kernel s) (m_klog s) ?c") (simp_all add: run_mbuf_allocpacket Let_def)
  let ?s = "s\<lparr>m_klog := ?c # m_klog s\<rparr>"
  have b: "books start (given r + extra) ?s" using books_alloc [OF assms(2) a(1)] by simp
  let ?take = "if sz > maxCopySize (rxPool s) then cPktNum (rxPool s) > 1 else mPktNum (rxPool s) > 1"
  consider (alloc) m where "r = Some m" | (taken) "r = None" "?take" | (none) "r = None" "\<not> ?take" by (cases r) auto
  then show ?thesis
  proof cases
    case alloc
    then have "run_state (getPacket sz how) s = (r, ?s)"
      using a(1) by (cases "sz > maxCopySize (rxPool s)") (simp_all add: getPacket_def)
    then show ?thesis using b assms(1) alloc
      by (intro exI [of _ r] exI [of _ "rxPool s"] exI [of _ "m_klog ?s"]) simp
  next
    case none
    then have "run_state (getPacket sz how) s = (None, ?s)"
      using a(1) by (cases "sz > maxCopySize (rxPool s)") (simp_all add: getPacket_def)
    then show ?thesis using b assms(1) none a(2)
      by (intro exI [of _ None] exI [of _ "rxPool s"] exI [of _ "m_klog ?s"]) auto
  next
    case taken
    define p where "p = (if sz > maxCopySize (rxPool s)
      then (rxPool s)\<lparr>cPktNum := cPktNum (rxPool s) - 1, cPkts := tl (cPkts (rxPool s))\<rparr>
      else (rxPool s)\<lparr>mPktNum := mPktNum (rxPool s) - 1, mPkts := tl (mPkts (rxPool s))\<rparr>)"
    define m where "m = (if sz > maxCopySize (rxPool s) then hd (cPkts (rxPool s)) else hd (mPkts (rxPool s)))"
    define low where "low = (if sz > maxCopySize (rxPool s) then word_of_int (cPktNum p) < cRefillTresh p
      else word_of_int (mPktNum p) < mRefillTresh p)"
    have p: "pool_ok p" "pool_bufs (rxPool s) = add_mset m (pool_bufs p)" "maxCopySize p = maxCopySize (rxPool s)"
      using take_clust [OF assms(1)] take_mbuf [OF assms(1)] taken(2) by (auto simp: p_def m_def split: if_splits)
    have g: "run_state (getPacket sz how) s = (Some m, snd (run_state (schedule_refill low) (?s\<lparr>rxPool := p\<rparr>)))"
      using a(1) taken by (cases "sz > maxCopySize (rxPool s)") (simp_all add: getPacket_def p_def m_def low_def run_schedule_refill)
    have b': "books start ({#m#} + extra) (s\<lparr>rxPool := p, m_klog := ?c # m_klog s\<rparr>)"
      using b taken(1) p(2) by (simp add: books_def ring_bufs_def)
    have k: "\<not> k_ok (m_kernel s) (m_klog s) ?c" using a(2) taken(1) by simp
    show ?thesis
    proof (cases "low \<and> \<not> refillScheduled p")
      case True
      then show ?thesis using g b' k p
        by (intro exI [of _ "Some m"] exI [of _ "p\<lparr>refillScheduled := True\<rparr>"] exI [of _ "ScheduleRefill # m_klog ?s"])
          (auto simp: run_schedule_refill books_schedule)
    next
      case False
      then show ?thesis using g b' k p
        by (intro exI [of _ "Some m"] exI [of _ p] exI [of _ "m_klog ?s"]) (auto simp: run_schedule_refill)
    qed
  qed
qed

lemma refillPool_run:
  assumes "pool_ok (rxPool s)" and "books start extra s"
  shows "\<exists>p log. run_state refillPool s = ((), s\<lparr>rxPool := p, m_klog := log\<rparr>) \<and> pool_ok p \<and>
    books start extra (s\<lparr>rxPool := p, m_klog := log\<rparr>) \<and> \<not> refillScheduled p \<and>
    ((\<forall>l x. k_ok (m_kernel s) l (AllocPacket MBUF_DONTWAIT x)) \<longrightarrow>
      length (cPkts p) = unat (cCapacity p) \<and> length (mPkts p) = unat (mCapacity p))"
proof -
  let ?n = "unat (mCapacity (rxPool s)) - nat (mPktNum (rxPool s))"
  have num: "mPktNum (rxPool s) = int (length (mPkts (rxPool s)))" using assms(1) by (simp add: pool_ok_def)
  obtain p log ok ms where m: "run_state (refill_mbufs ?n) s = (ok, s\<lparr>rxPool := p, m_klog := log\<rparr>)"
    "mPkts p = mPkts (rxPool s) @ ms" "mPktNum p = int (length (mPkts p))" "mbuf_rest p = mbuf_rest (rxPool s)"
    "length ms \<le> ?n" "ok \<longleftrightarrow> length ms = ?n" "books start extra (s\<lparr>rxPool := p, m_klog := log\<rparr>)"
    "(\<forall>l x. k_ok (m_kernel s) l (AllocPacket MBUF_DONTWAIT x)) \<longrightarrow> ok"
    using fm.fill_run [OF num assms(2), of ?n] by blast
  let ?t = "s\<lparr>rxPool := p, m_klog := log\<rparr>"
  have p: "pool_ok p" using assms(1) m(2-5) by (auto simp: pool_ok_def)
  show ?thesis
  proof (cases ok)
    case False
    have "books start extra (s\<lparr>rxPool := p\<lparr>refillScheduled := False\<rparr>, m_klog := log\<rparr>)"
      using m(7) by (simp add: books_def ring_bufs_def)
    then show ?thesis using m(1,8) p False
      by (intro exI [of _ "p\<lparr>refillScheduled := False\<rparr>"] exI [of _ log]) (auto simp: refillPool_def)
  next
    case True
    let ?k = "unat (cCapacity p) - nat (cPktNum p)"
    have num: "cPktNum (rxPool ?t) = int (length (cPkts (rxPool ?t)))" using p by (simp add: pool_ok_def)
    obtain q log' ok' ms' where c: "run_state (refill_clusters ?k) ?t = (ok', ?t\<lparr>rxPool := q, m_klog := log'\<rparr>)"
      "cPkts q = cPkts (rxPool ?t) @ ms'" "cPktNum q = int (length (cPkts q))" "clust_rest q = clust_rest (rxPool ?t)"
      "length ms' \<le> ?k" "ok' \<longleftrightarrow> length ms' = ?k" "books start extra (?t\<lparr>rxPool := q, m_klog := log'\<rparr>)"
      "(\<forall>l x. k_ok (m_kernel ?t) l (AllocPacket MBUF_DONTWAIT x)) \<longrightarrow> ok'"
      using fc.fill_run [OF num m(7), of ?k] by blast
    have q: "pool_ok q" using p c(2-5) by (auto simp: pool_ok_def)
    have full: "length (cPkts q) = unat (cCapacity q) \<and> length (mPkts q) = unat (mCapacity q)" if ok'
      using that True c(2,4,6) m(2,4,6) p assms(1) by (auto simp: pool_ok_def)
    have "books start extra (s\<lparr>rxPool := q\<lparr>refillScheduled := False\<rparr>, m_klog := log'\<rparr>)"
      using c(7) by (simp add: books_def ring_bufs_def)
    then show ?thesis using m(1) c(1,8) q True full
      by (intro exI [of _ "q\<lparr>refillScheduled := False\<rparr>"] exI [of _ log']) (simp add: refillPool_def)
  qed
qed

lemma books_free:
  assumes "books start extra s" and "mset ms \<subseteq># in_use (m_kernel s) start (m_klog s)"
    and "pool_bufs (rxPool s) + ring_bufs s + extra = pool_bufs p + ring_bufs t + extra' + mset ms"
    and "m_klog t = FreeMbuf ms # m_klog s" "m_kernel t = m_kernel s" "rxPool t = p"
  shows "books start extra' t"
  using assms by (simp add: books_def)

lemma initWithCapacity_run:
  assumes "pool_bufs (rxPool s) = {#}" and "books start extra s"
  shows "\<exists>p log ok. run_state (initWithCapacity mhlen mcap ccap) s = (ok, s\<lparr>rxPool := p, m_klog := log\<rparr>) \<and>
    books start extra (s\<lparr>rxPool := p, m_klog := log\<rparr>) \<and> (\<not> ok \<longrightarrow> pool_bufs p = {#}) \<and>
    ((\<forall>l how x. k_ok (m_kernel s) l (AllocPacket how x)) \<and> mcap > 0 \<and> ccap > 0 \<longrightarrow> ok) \<and>
    (ok \<longrightarrow> pool_ok p \<and> length (cPkts p) = unat ccap \<and> length (mPkts p) = unat mcap \<and> cCapacity p = ccap \<and>
      mCapacity p = mcap \<and> maxCopySize p = mhlen \<and> \<not> refillScheduled p)"
proof (cases "mcap > 0 \<and> ccap > 0")
  case False
  then have "run_state (initWithCapacity mhlen mcap ccap) s = (False, s\<lparr>rxPool := rxPool s, m_klog := m_klog s\<rparr>)"
    by (auto simp: initWithCapacity_def)
  then show ?thesis using assms False by (intro exI [of _ "rxPool s"] exI [of _ "m_klog s"] exI [of _ False]) auto
next
  case True
  have pos: "0 < unat mcap" "0 < unat ccap" using True by (simp_all add: word_less_nat_alt)
  define p0 where "p0 = \<lparr>cPkts = [], mPkts = [], cCapacity = ccap, cRefillTresh = ccap - drop_bit 1 ccap, cPktNum = 0,
    mCapacity = mcap, mRefillTresh = mcap - drop_bit 1 mcap, mPktNum = 0, maxCopySize = mhlen, refillScheduled = False\<rparr>"
  let ?s = "s\<lparr>rxPool := p0\<rparr>"
  have b: "books start extra ?s" using assms by (simp add: books_def ring_bufs_def pool_bufs_def p0_def)
  have num: "mPktNum (rxPool ?s) = int (length (mPkts (rxPool ?s)))" by (simp add: p0_def)
  obtain p log ok ms where m: "run_state (init_mbufs (unat mcap)) ?s = (ok, ?s\<lparr>rxPool := p, m_klog := log\<rparr>)"
    "mPkts p = mPkts (rxPool ?s) @ ms" "mPktNum p = int (length (mPkts p))" "mbuf_rest p = mbuf_rest (rxPool ?s)"
    "ok \<longleftrightarrow> length ms = unat mcap" "books start extra (?s\<lparr>rxPool := p, m_klog := log\<rparr>)"
    "(\<forall>l x. k_ok (m_kernel ?s) l (AllocPacket MBUF_WAITOK x)) \<longrightarrow> ok"
    using im.fill_run [OF num b, of "unat mcap"] by blast
  have mp: "mPkts p = ms" "cPkts p = []" "cPktNum p = 0" "mPktNum p = int (length ms)" using m(2-4) by (simp_all add: p0_def)
  let ?free = "\<lambda>p. p\<lparr>mPkts := [], mPktNum := 0\<rparr>"
  show ?thesis
  proof (cases ok)
    case False
    show ?thesis
    proof (cases "ms = []")
      case True
      then show ?thesis using m(1,6,7) mp False \<open>mcap > 0 \<and> ccap > 0\<close>
        by (intro exI [of _ p] exI [of _ log] exI [of _ False])
          (auto simp: initWithCapacity_def p0_def [symmetric] free_mbufs_def pool_bufs_def simp del: One_nat_def)
    next
      case False
      let ?t = "s\<lparr>rxPool := ?free p, m_klog := FreeMbuf ms # log\<rparr>"
      have "books start extra ?t"
        by (rule books_free [OF m(6), of ms "?free p"]) (use m(6) mp in \<open>simp_all add: books_def pool_bufs_def ring_bufs_def\<close>)
      then show ?thesis using m(1,7) mp \<open>\<not> ok\<close> False \<open>mcap > 0 \<and> ccap > 0\<close>
        by (intro exI [of _ "?free p"] exI [of _ "FreeMbuf ms # log"] exI [of _ False])
          (auto simp: initWithCapacity_def p0_def [symmetric] free_mbufs_def pool_bufs_def simp del: One_nat_def)
    qed
  next
    case ok: True
    let ?t = "s\<lparr>rxPool := p, m_klog := log\<rparr>"
    have ms: "length ms = unat mcap" "ms \<noteq> []" using ok m(5) pos by auto
    have num: "cPktNum (rxPool ?t) = int (length (cPkts (rxPool ?t)))" using mp by simp
    have bt: "books start extra ?t" using m(6) by simp
    obtain q log' ok' cs where c: "run_state (init_clusters (unat ccap)) ?t = (ok', ?t\<lparr>rxPool := q, m_klog := log'\<rparr>)"
      "cPkts q = cPkts (rxPool ?t) @ cs" "cPktNum q = int (length (cPkts q))" "clust_rest q = clust_rest (rxPool ?t)"
      "ok' \<longleftrightarrow> length cs = unat ccap" "books start extra (?t\<lparr>rxPool := q, m_klog := log'\<rparr>)"
      "(\<forall>l x. k_ok (m_kernel ?t) l (AllocPacket MBUF_WAITOK x)) \<longrightarrow> ok'"
      using ic.fill_run [OF num bt, of "unat ccap"] by blast
    have q: "cPkts q = cs" "mPkts q = ms" "mPktNum q = int (length ms)" "cPktNum q = int (length cs)"
      using c(2-4) mp by simp_all
    have run: "run_state (initWithCapacity mhlen mcap ccap) s =
        (if ok' then (True, s\<lparr>rxPool := q, m_klog := log'\<rparr>)
         else run_state (do { free_clusters; free_mbufs; ret False }) (s\<lparr>rxPool := q, m_klog := log'\<rparr>))"
      using m(1) c(1) ok True by (simp add: initWithCapacity_def p0_def [symmetric] del: One_nat_def)
    show ?thesis
    proof (cases ok')
      case ok': True
      then have "pool_ok q" using c(4,5) q ms m(4) pos by (auto simp: pool_ok_def p0_def)
      then show ?thesis unfolding run using ok' c(4-6) q ms m(4)
        by (intro exI [of _ q] exI [of _ log'] exI [of _ True]) (simp add: p0_def)
    next
      case False
      let ?q = "q\<lparr>cPkts := [], cPktNum := 0, mPkts := [], mPktNum := 0\<rparr>"
      let ?log = "FreeMbuf ms # (if cs = [] then [] else [FreeMbuf cs]) @ log'"
      let ?q1 = "if cs = [] then q else q\<lparr>cPkts := [], cPktNum := 0\<rparr>"
      let ?u = "s\<lparr>rxPool := ?q1, m_klog := (if cs = [] then [] else [FreeMbuf cs]) @ log'\<rparr>"
      have u: "books start extra ?u"
      proof (cases "cs = []")
        case False
        show ?thesis
          by (rule books_free [OF c(6), of cs ?q1]) (use c(6) q False in \<open>simp_all add: books_def pool_bufs_def ring_bufs_def\<close>)
      qed (use c(6) in simp)
      have "books start extra (s\<lparr>rxPool := ?q, m_klog := ?log\<rparr>)"
        by (rule books_free [OF u, of ms ?q]) (use u q in \<open>simp_all add: books_def pool_bufs_def ring_bufs_def\<close>)
      moreover have "run_state (initWithCapacity mhlen mcap ccap) s = (False, s\<lparr>rxPool := ?q, m_klog := ?log\<rparr>)"
        unfolding run using False q ms(2) by (simp add: free_clusters_def free_mbufs_def)
      ultimately show ?thesis
        using c(7) False by (intro exI [of _ ?q] exI [of _ ?log] exI [of _ False]) (auto simp: pool_bufs_def)
    qed
  qed
qed

end
