(* ===== verification/RxProps.thy ===== *)
theory RxProps
  imports RxBufs
begin

section \<open>Properties of the receive path\<close>

text \<open>
  One descriptor, the loop, the interrupt and the reachable states of the receive side; safety of its buffers, delivery of
  a frame, and two defects.
\<close>

subsection \<open>One descriptor\<close>

lemma books_calls [simp]:
  "books start extra (s\<lparr>rx_resourceErrors := e\<rparr>) = books start extra s"
  "books start extra (s\<lparr>rx_internalMacReceiveErrors := e\<rparr>) = books start extra s"
  "books start extra (s\<lparr>rxPacketSize := z\<rparr>) = books start extra s"
  by (simp_all add: books_def ring_bufs_def)

text \<open>What handling a descriptor leaves alone, and what it keeps.\<close>

definition rx_frame :: "mausi \<Rightarrow> mausi \<Rightarrow> bool" where
  "rx_frame s t \<longleftrightarrow> m_kernel t = m_kernel s \<and> m_hw t = m_hw s \<and> rxDescArray t = rxDescArray s \<and>
     length (rxBufArray t) = length (rxBufArray s) \<and> rxNextDescIndex t = rxNextDescIndex s \<and>
     rxCleanedCount t = rxCleanedCount s \<and> maxCopySize (rxPool t) = maxCopySize (rxPool s) \<and>
     rxMapNextIndex t = rxMapNextIndex s \<and> rxMemRange t = rxMemRange s \<and> useAppleVTD t = useAppleVTD s"

lemma rx_frame_trans: "rx_frame s t \<Longrightarrow> rx_frame t u \<Longrightarrow> rx_frame s u"
  by (simp add: rx_frame_def)

lemma discard_run:
  assumes "books start extra s"
  shows "\<exists>log. run_state discardPacketFragment s = ((), s\<lparr>m_klog := log, rxPacket := [], rxPacketSize := 0\<rparr>) \<and>
    books start extra (s\<lparr>m_klog := log, rxPacket := [], rxPacketSize := 0\<rparr>)"
proof (cases "rxPacket s = []")
  case True
  then show ?thesis using assms
    by (intro exI [of _ "m_klog s"]) (simp add: discardPacketFragment_def books_def ring_bufs_def)
next
  case False
  let ?t = "s\<lparr>m_klog := FreeMbuf (rxPacket s) # m_klog s, rxPacket := [], rxPacketSize := 0\<rparr>"
  have "books start extra ?t"
    by (rule books_free [OF assms, of "rxPacket s" "rxPool s"]) (use assms in \<open>simp_all add: books_def ring_bufs_def\<close>)
  then show ?thesis using False by (intro exI [of _ "m_klog ?t"]) (simp add: discardPacketFragment_def)
qed

lemma deliver_run:
  assumes "books start ({#m#} + extra) s"
  shows "\<exists>log pkt z g. run_state (rx_deliver m d) s = (g, s\<lparr>m_klog := log, rxPacket := pkt, rxPacketSize := z\<rparr>) \<and>
    books start extra (s\<lparr>m_klog := log, rxPacket := pkt, rxPacketSize := z\<rparr>)"
proof -
  let ?l = "SetLength m (ucast (rx_length d)) # m_klog s"
  let ?p = "rxPacket s @ [m]"
  let ?z = "(if rxPacket s \<noteq> [] then rxPacketSize s else 0) + ucast (rx_length d)"
  let ?s = "s\<lparr>m_klog := ?l, rxPacket := ?p, rxPacketSize := ?z\<rparr>"
  have b: "books start extra ?s" using assms by (simp add: books_def ring_bufs_def)
  let ?e = "EnqueueInput ?p ?z (rx_vlanTag d) (intelGetChecksumResult (rx_status d))"
  show ?thesis
  proof (cases "rx_status d AND E1000_RXD_STAT_EOP \<noteq> 0")
    case False
    then have "run_state (rx_deliver m d) s = (False, ?s)" by (simp add: rx_deliver_def)
    then show ?thesis using b by blast
  next
    case True
    let ?t = "s\<lparr>m_klog := ?e # ?l, rxPacket := [], rxPacketSize := 0\<rparr>"
    have "run_state (rx_deliver m d) s = (True, ?t)" using True by (simp add: rx_deliver_def)
    moreover have "books start extra ?t" using b by (simp add: books_def ring_bufs_def)
    ultimately show ?thesis by blast
  qed
qed

lemma replace_run:
  assumes "pool_ok (rxPool s)" and "books start extra s" and "mp \<in># ring_bufs s"
  shows "\<exists>new buf rep p log. run_state (replaceOrCopyPacket mp len) s = ((new, buf, rep), s\<lparr>rxPool := p, m_klog := log\<rparr>) \<and>
    pool_ok p \<and> maxCopySize p = maxCopySize (rxPool s) \<and> passed_up log = passed_up (m_klog s) \<and> rep = (len > maxCopySize (rxPool s)) \<and>
    (case new of None \<Rightarrow> books start extra (s\<lparr>rxPool := p, m_klog := log\<rparr>)
     | Some n \<Rightarrow> (if rep then n = mp \<and> books start ({#buf#} + extra) (s\<lparr>rxPool := p, m_klog := log\<rparr>)
         else buf = mp \<and> books start ({#n#} + extra) (s\<lparr>rxPool := p, m_klog := log\<rparr>))) \<and>
    ((\<forall>l x. k_ok (m_kernel s) l (AllocPacket MBUF_DONTWAIT x)) \<longrightarrow> new \<noteq> None)"
proof -
  obtain r p log where g: "run_state (getPacket len MBUF_DONTWAIT) s = (r, s\<lparr>rxPool := p, m_klog := log\<rparr>)" "pool_ok p"
    "books start (given r + extra) (s\<lparr>rxPool := p, m_klog := log\<rparr>)" "maxCopySize p = maxCopySize (rxPool s)"
    "passed_up log = passed_up (m_klog s)" "(\<forall>l x. k_ok (m_kernel s) l (AllocPacket MBUF_DONTWAIT x)) \<longrightarrow> r \<noteq> None"
    using getPacket_run [OF assms(1,2)] by blast
  consider (none) "r = None" | (large) m where "r = Some m" "len > maxCopySize (rxPool s)"
    | (small) m where "r = Some m" "\<not> len > maxCopySize (rxPool s)" by (cases r) auto
  then show ?thesis
  proof cases
    case none
    have "run_state (replaceOrCopyPacket mp len) s = ((None, mp, len > maxCopySize (rxPool s)), s\<lparr>rxPool := p, m_klog := log\<rparr>)"
      using g(1) none by (simp add: replaceOrCopyPacket_def)
    then show ?thesis using g none by (intro exI conjI) (assumption, auto)
  next
    case large
    have "run_state (replaceOrCopyPacket mp len) s = ((Some mp, m, True), s\<lparr>rxPool := p, m_klog := log\<rparr>)"
      using g(1) large by (simp add: replaceOrCopyPacket_def)
    then show ?thesis using g large by (intro exI conjI) (assumption, auto)
  next
    case small
    have "run_state (replaceOrCopyPacket mp len) s =
        ((Some m, mp, False), s\<lparr>rxPool := p, m_klog := CopyPacket m mp len # log\<rparr>)"
      using g(1) small by (simp add: replaceOrCopyPacket_def)
    moreover have "books start ({#m#} + extra) (s\<lparr>rxPool := p, m_klog := CopyPacket m mp len # log\<rparr>)"
    proof -
      obtain R where "ring_bufs s = add_mset mp R" using assms(3) by (metis multi_member_split)
      then have "pool_bufs p + ring_bufs s + ({#m#} + extra) = {#m, mp#} + (pool_bufs p + R + extra)" by simp
      then have "{#m, mp#} \<subseteq># pool_bufs p + ring_bufs s + ({#m#} + extra)"
        by (metis mset_subset_eq_add_left)
      then show ?thesis using g(3) small(1) by (simp add: books_def ring_bufs_def)
    qed
    ultimately show ?thesis using g small by (intro exI conjI) (assumption, auto)
  qed
qed

lemma ring_bufs_update:
  assumes "i < length (rxBufArray s)"
  shows "add_mset (rxb_mbuf (rxBufArray s ! i)) (ring_bufs (s\<lparr>rxBufArray := (rxBufArray s)[i := b]\<rparr>)) =
    add_mset (rxb_mbuf b) (ring_bufs s)"
proof -
  have "mset (map rxb_mbuf ((rxBufArray s)[i := b])) =
      add_mset (rxb_mbuf b) (mset (map rxb_mbuf (rxBufArray s)) - {#rxb_mbuf (rxBufArray s ! i)#})"
    using assms by (simp add: map_update mset_update)
  moreover have "rxb_mbuf (rxBufArray s ! i) \<in># mset (map rxb_mbuf (rxBufArray s))"
    using assms by simp
  ultimately show ?thesis by (simp add: ring_bufs_def)
qed

definition rx_moved :: "mbuf multiset \<Rightarrow> mausi \<Rightarrow> mausi \<Rightarrow> bool" where
  "rx_moved start s t \<longleftrightarrow> rx_frame s t \<and> pool_ok (rxPool t) \<and> books start {#} t"

lemma rx_packet_any:
  assumes i: "i < length (rxBufArray s)" and p: "pool_ok (rxPool s)" and b: "books start {#} s"
  shows "\<exists>r t. run_state (rx_packet i na) s = (r, t) \<and> rx_moved start s t \<and> fst r = rxb_phyAddr (rxBufArray t ! i) \<and>
    rxBufArray t \<in> insert (rxBufArray s) (range (\<lambda>b. (rxBufArray s)[i := \<lparr>rxb_mbuf = b, rxb_phyAddr = na (m_kernel s) b\<rparr>]))"
proof (cases "rx_status (rxDescArray s ! i) AND E1000_RXDEXT_ERR_FRAME_ERR_MASK \<noteq> 0")
  case True
  let ?s = "s\<lparr>rx_internalMacReceiveErrors := rx_internalMacReceiveErrors s + 1\<rparr>"
  obtain log where d: "run_state discardPacketFragment ?s = ((), ?s\<lparr>m_klog := log, rxPacket := [], rxPacketSize := 0\<rparr>)"
    "books start {#} (?s\<lparr>m_klog := log, rxPacket := [], rxPacketSize := 0\<rparr>)"
    using discard_run [of start "{#}" ?s] b by auto
  have "run_state (rx_packet i na) s = ((rxb_phyAddr (rxBufArray s ! i), False), ?s\<lparr>m_klog := log, rxPacket := [], rxPacketSize := 0\<rparr>)"
    using True d(1) by (simp add: rx_packet_def Let_def)
  then show ?thesis using d(2) p i by (intro exI conjI) (assumption, simp_all add: rx_moved_def rx_frame_def)
next
  case False
  let ?mp = "rxb_mbuf (rxBufArray s ! i)" and ?d = "rxDescArray s ! i"
  have mp: "?mp \<in># ring_bufs s" using i by (simp add: ring_bufs_def)
  obtain new buf rep pl log where r: "run_state (replaceOrCopyPacket ?mp (ucast (rx_length ?d))) s = ((new, buf, rep), s\<lparr>rxPool := pl, m_klog := log\<rparr>)"
    "pool_ok pl" "maxCopySize pl = maxCopySize (rxPool s)"
    "case new of None \<Rightarrow> books start {#} (s\<lparr>rxPool := pl, m_klog := log\<rparr>)
     | Some n \<Rightarrow> (if rep then n = ?mp \<and> books start ({#buf#} + {#}) (s\<lparr>rxPool := pl, m_klog := log\<rparr>)
         else buf = ?mp \<and> books start ({#n#} + {#}) (s\<lparr>rxPool := pl, m_klog := log\<rparr>))"
    using replace_run [OF p b mp] by blast
  let ?s = "s\<lparr>rxPool := pl, m_klog := log\<rparr>"
  have dropped: ?thesis if run: "run_state (rx_packet i na) s = ((rxb_phyAddr (rxBufArray s ! i), False), snd (run_state discardPacketFragment u))"
    and u: "books start {#} u" "rx_frame s u" "rxPool u = pl" "rxBufArray u = rxBufArray s" for u
  proof -
    obtain log where "run_state discardPacketFragment u = ((), u\<lparr>m_klog := log, rxPacket := [], rxPacketSize := 0\<rparr>)"
      "books start {#} (u\<lparr>m_klog := log, rxPacket := [], rxPacketSize := 0\<rparr>)"
      using discard_run [OF u(1)] by blast
    then show ?thesis unfolding run using u r(2) i
      by (intro exI conjI) (rule refl, simp_all add: rx_moved_def rx_frame_def)
  qed
  have frame: "rx_frame s ?s" using r(3) by (simp add: rx_frame_def)
  consider (none) "new = None" | (chained) n where "new = Some n" "rep" "k_next (m_kernel s) buf"
    | (swap) n where "new = Some n" "rep" "\<not> k_next (m_kernel s) buf" | (copy) n where "new = Some n" "\<not> rep"
    by (cases new) auto
  then show ?thesis
  proof cases
    case none
    let ?u = "?s\<lparr>rx_resourceErrors := rx_resourceErrors s + 1\<rparr>"
    show ?thesis
      by (rule dropped [of ?u]) (use False r none frame in \<open>simp_all add: rx_packet_def Let_def rx_drop_resource_def rx_frame_def case_prod_beta\<close>)
  next
    case chained
    let ?u = "?s\<lparr>rx_resourceErrors := rx_resourceErrors s + 1, m_klog := FreeMbuf [buf] # log\<rparr>"
    have bu: "books start {#} ?u"
      using r(4) chained by (simp add: books_def ring_bufs_def)
    show ?thesis
      by (rule dropped [OF _ bu]) (use False r(1,3) chained in \<open>simp_all add: rx_packet_def Let_def rx_frame_def case_prod_beta\<close>)
  next
    case swap
    let ?b = "\<lparr>rxb_mbuf = buf, rxb_phyAddr = na (m_kernel s) buf\<rparr>"
    let ?u = "?s\<lparr>rxBufArray := (rxBufArray s)[i := ?b]\<rparr>"
    have "add_mset n (ring_bufs ?u) = add_mset buf (ring_bufs ?s)"
      using ring_bufs_update [of i ?s ?b] i r(4) swap by simp
    then have bu: "books start ({#n#} + {#}) ?u"
      using r(4) swap by (simp add: books_def)
    obtain log' pkt z g where d: "run_state (rx_deliver n ?d) ?u = (g, ?u\<lparr>m_klog := log', rxPacket := pkt, rxPacketSize := z\<rparr>)"
      "books start {#} (?u\<lparr>m_klog := log', rxPacket := pkt, rxPacketSize := z\<rparr>)"
      using deliver_run [OF bu] by blast
    have "run_state (rx_packet i na) s = ((na (m_kernel s) buf, g), ?u\<lparr>m_klog := log', rxPacket := pkt, rxPacketSize := z\<rparr>)"
      using False r(1) swap d(1) by (simp add: rx_packet_def Let_def)
    then show ?thesis using d(2) r(2,3) i
      by (intro exI conjI) (assumption, simp_all add: rx_moved_def rx_frame_def)
  next
    case copy
    have bu: "books start ({#n#} + {#}) ?s" using r(4) copy by simp
    obtain log' pkt z g where d: "run_state (rx_deliver n ?d) ?s = (g, ?s\<lparr>m_klog := log', rxPacket := pkt, rxPacketSize := z\<rparr>)"
      "books start {#} (?s\<lparr>m_klog := log', rxPacket := pkt, rxPacketSize := z\<rparr>)"
      using deliver_run [OF bu] by blast
    have "run_state (rx_packet i na) s = ((rxb_phyAddr (rxBufArray s ! i), g), ?s\<lparr>m_klog := log', rxPacket := pkt, rxPacketSize := z\<rparr>)"
      using False r(1) copy d(1) by (simp add: rx_packet_def Let_def)
    then show ?thesis using d(2) r(2,3) i
      by (intro exI conjI) (assumption, simp_all add: rx_moved_def rx_frame_def)
  qed
qed

text \<open>Each ring entry knows the bus address of its buffer.\<close>

definition addrs_ok :: "mausi \<Rightarrow> bool" where
  "addrs_ok s \<longleftrightarrow> (\<forall>b \<in> set (rxBufArray s). rxb_phyAddr b = k_phys (m_kernel s) (rxb_mbuf b))"

lemma addrs_ok_simps [simp]:
  "addrs_ok (s\<lparr>m_klog := l\<rparr>) = addrs_ok s" "addrs_ok (s\<lparr>rxPool := p\<rparr>) = addrs_ok s"
  "addrs_ok (s\<lparr>rxPacket := q\<rparr>) = addrs_ok s" "addrs_ok (s\<lparr>rxPacketSize := z\<rparr>) = addrs_ok s"
  "addrs_ok (s\<lparr>rx_resourceErrors := e\<rparr>) = addrs_ok s" "addrs_ok (s\<lparr>rx_internalMacReceiveErrors := e\<rparr>) = addrs_ok s"
  by (simp_all add: addrs_ok_def)

definition rx_kept :: "mbuf multiset \<Rightarrow> mausi \<Rightarrow> mausi \<Rightarrow> bool" where
  "rx_kept start s t \<longleftrightarrow> rx_frame s t \<and> pool_ok (rxPool t) \<and> books start {#} t \<and> addrs_ok t"

lemma rx_packet_run:
  assumes i: "i < length (rxBufArray s)" and p: "pool_ok (rxPool s)" and b: "books start {#} s" and a: "addrs_ok s"
  shows "\<exists>r t. run_state (rx_packet i k_phys) s = (r, t) \<and> rx_kept start s t \<and> fst r = rxb_phyAddr (rxBufArray t ! i) \<and>
    (\<forall>q. q \<noteq> i \<longrightarrow> rxBufArray t ! q = rxBufArray s ! q)"
proof -
  obtain r t where r: "run_state (rx_packet i k_phys) s = (r, t)" "rx_moved start s t" "fst r = rxb_phyAddr (rxBufArray t ! i)"
    and t: "rxBufArray t \<in> insert (rxBufArray s) (range (\<lambda>b. (rxBufArray s)[i := \<lparr>rxb_mbuf = b, rxb_phyAddr = k_phys (m_kernel s) b\<rparr>]))"
    using rx_packet_any [OF i p b, of k_phys] by blast
  have "addrs_ok t"
    using a r(2) t by (auto simp: addrs_ok_def rx_moved_def rx_frame_def dest!: set_update_subset_insert [THEN subsetD])
  moreover have "\<forall>q. q \<noteq> i \<longrightarrow> rxBufArray t ! q = rxBufArray s ! q" using t by auto
  ultimately show ?thesis using r by (intro exI conjI) (assumption, simp_all add: rx_kept_def rx_moved_def)
qed

subsection \<open>The receive ring\<close>

definition rx_ready :: "mbuf multiset \<Rightarrow> mausi \<Rightarrow> bool" where
  "rx_ready start s \<longleftrightarrow> length (rxDescArray s) = 512 \<and> length (rxBufArray s) = 512 \<and> unat (rxNextDescIndex s) < 512 \<and>
     pool_ok (rxPool s) \<and> books start {#} s \<and> addrs_ok s"

definition filled :: "rx_desc \<Rightarrow> bool" where "filled d \<longleftrightarrow> rx_status d AND E1000_RXD_STAT_DD \<noteq> 0"

definition given_back :: "u64 \<Rightarrow> rx_desc" where "given_back a = \<lparr>rd_low = a, rd_high = 0\<rparr>"

lemma not_filled_given_back [simp]: "\<not> filled (given_back a)"
  by (simp add: filled_def given_back_def rx_status_def)

lemma rx_round_run:
  assumes "rx_ready start s"
  defines "i \<equiv> unat (rxNextDescIndex s)"
  shows "\<exists>g t. rx_round s = (g, t) \<and> rx_ready start t \<and> m_kernel t = m_kernel s \<and> m_hw t = m_hw s \<and>
    unat (rxNextDescIndex t) = ring_pos i 1 \<and>
    rxDescArray t = (rxDescArray s)[i := given_back (rxb_phyAddr (rxBufArray t ! i))] \<and>
    (\<forall>q. q \<noteq> i \<longrightarrow> rxBufArray t ! q = rxBufArray s ! q)"
proof -
  have s: "i < length (rxBufArray s)" "pool_ok (rxPool s)" "books start {#} s" "addrs_ok s" "ring_ix (rxNextDescIndex s)"
    using assms by (simp_all add: rx_ready_def ring_ix_def)
  obtain r t where r: "run_state (rx_packet i k_phys) s = (r, t)" "rx_kept start s t" "fst r = rxb_phyAddr (rxBufArray t ! i)"
    "\<forall>q. q \<noteq> i \<longrightarrow> rxBufArray t ! q = rxBufArray s ! q"
    using rx_packet_run [OF s(1-4)] by blast
  let ?t = "t\<lparr>rxDescArray := (rxDescArray t)[i := \<lparr>rd_low = fst r, rd_high = 0\<rparr>],
     rxNextDescIndex := (rxNextDescIndex t + 1) AND kRxDescMask, rxCleanedCount := rxCleanedCount t + 1\<rparr>"
  have "rx_round s = (snd r, ?t)" using r(1) by (simp add: rx_round_def rx_next_def i_def)
  moreover have ix: "unat ((rxNextDescIndex t + 1) AND kRxDescMask) = ring_pos i 1"
    using ring_step [OF s(5)] r(2) by (simp add: i_def rx_kept_def rx_frame_def)
  moreover have "rx_ready start ?t"
  proof -
    have "books start {#} ?t = books start {#} t" "addrs_ok ?t = addrs_ok t"
      by (simp_all add: books_def ring_bufs_def addrs_ok_def)
    then show ?thesis using assms(1) r(2) ix by (simp add: rx_ready_def rx_kept_def rx_frame_def)
  qed
  ultimately show ?thesis using r(2-4)
    by (intro exI conjI) (assumption, simp_all add: rx_kept_def rx_frame_def given_back_def)
qed

definition pending :: "mausi \<Rightarrow> nat" where
  "pending s = card {q. q < 512 \<and> filled (rxDescArray s ! q)}"

lemma rx_loop_run:
  assumes "rx_ready start s"
  shows "\<exists>g t. rx_loop maxCount good s = Some (g, t) \<and> rx_ready start t \<and> m_kernel t = m_kernel s \<and> m_hw t = m_hw s \<and>
    (filled (rxDescArray t ! unat (rxNextDescIndex t)) \<longrightarrow> maxCount \<le> g) \<and>
    (\<forall>q < 512. rxDescArray t ! q = rxDescArray s ! q \<and> rxBufArray t ! q = rxBufArray s ! q \<or>
       rxDescArray t ! q = given_back (rxb_phyAddr (rxBufArray t ! q)))"
  using assms
proof (induction "pending s" arbitrary: s good rule: less_induct)
  case less
  let ?i = "unat (rxNextDescIndex s)"
  show ?case
  proof (cases "filled (rxDescArray s ! ?i) \<and> good < maxCount")
    case False
    then have "rx_loop maxCount good s = Some (good, s)"
      by (subst rx_loop.simps) (auto simp: filled_def)
    then show ?thesis using less.prems False by (intro exI conjI) (assumption, auto)
  next
    case True
    obtain g t where r: "rx_round s = (g, t)" "rx_ready start t" "m_kernel t = m_kernel s" "m_hw t = m_hw s"
      "rxDescArray t = (rxDescArray s)[?i := given_back (rxb_phyAddr (rxBufArray t ! ?i))]"
      "\<forall>q. q \<noteq> ?i \<longrightarrow> rxBufArray t ! q = rxBufArray s ! q"
      using rx_round_run [OF less.prems] by blast
    have i: "?i < 512" "length (rxDescArray s) = 512" using less.prems by (simp_all add: rx_ready_def)
    have "{q. q < 512 \<and> filled (rxDescArray t ! q)} \<subset> {q. q < 512 \<and> filled (rxDescArray s ! q)}"
      using True i by (auto simp: r(5) nth_list_update split: if_splits)
    then have "pending t < pending s" unfolding pending_def by (intro psubset_card_mono) simp_all
    from less.hyps [OF this r(2), of "if g then good + 1 else good"]
    obtain g' u where u: "rx_loop maxCount (if g then good + 1 else good) t = Some (g', u)" "rx_ready start u"
      "m_kernel u = m_kernel t" "m_hw u = m_hw t" "filled (rxDescArray u ! unat (rxNextDescIndex u)) \<longrightarrow> maxCount \<le> g'"
      "\<forall>q < 512. rxDescArray u ! q = rxDescArray t ! q \<and> rxBufArray u ! q = rxBufArray t ! q \<or>
         rxDescArray u ! q = given_back (rxb_phyAddr (rxBufArray u ! q))" by blast
    have step: "rx_loop maxCount good s = rx_loop maxCount (if g then good + 1 else good) t"
      using True r(1) by (subst rx_loop.simps) (simp add: filled_def)
    have "rxDescArray u ! q = rxDescArray s ! q \<and> rxBufArray u ! q = rxBufArray s ! q \<or>
         rxDescArray u ! q = given_back (rxb_phyAddr (rxBufArray u ! q))" if "q < 512" for q
      using u(6) [rule_format, OF that] r(5,6) i by (cases "q = ?i") auto
    then show ?thesis using step u(1-5) r(3,4) by (intro exI conjI) (simp, simp_all)
  qed
qed

lemma update_rx_tail_run:
  "\<exists>es f. run_state (rx_tail index) s = ((), s\<lparr>m_hw := after (m_hw s) es, forceReset := f\<rparr>) \<and>
     written (Csr (E1000_RDT 0)) es = [index]"
proof (cases "hw_flags2 (m_hw s) AND FLAG2_PCIM2PCI_ARBITER_WA \<noteq> 0")
  case False
  then show ?thesis
    by (intro exI [of _ "[Wr (Csr (E1000_RDT 0)) index]"] exI [of _ "forceReset s"]) (simp add: rx_tail_def)
next
  case True
  obtain es r where e: "run_state (on_hw ew32_prepare) s = (r, s\<lparr>m_hw := after (m_hw s) es\<rparr>)" "list_all arb_event es"
    by (rule run_prepare_arb)
  let ?rdt = "Csr (E1000_RDT 0)" and ?rctl = "Csr E1000_RCTL"
  let ?h = "after (m_hw s) (es @ [Wr ?rdt index])"
  let ?v = "hw_dev ?h (hw_log ?h) ?rdt" and ?h' = "after ?h [Rd ?rdt (hw_dev ?h (hw_log ?h) ?rdt)]"
  let ?c = "hw_dev ?h' (hw_log ?h') ?rctl"
  define fs where "fs = es @ [Wr ?rdt index] @ (if r \<noteq> 0 then [] else Rd ?rdt ?v #
    (if index = ?v then [] else [Rd ?rctl ?c, Wr ?rctl (?c AND NOT E1000_RCTL_EN)]))"
  have w: "written ?rdt fs = [index]"
    using arb_quiet(1) [OF e(2)] by (simp add: fs_def E1000_RDT_def)
  show ?thesis
    using True e(1) w
    by (intro exI [of _ fs] exI [of _ "if r = 0 \<and> index \<noteq> ?v then True else forceReset s"])
      (simp add: rx_tail_def intelUpdateRxDescTail_def fs_def)
qed

lemma rx_ready_simps [simp]:
  "rx_ready start (s\<lparr>m_hw := h\<rparr>) = rx_ready start s" "rx_ready start (s\<lparr>forceReset := f\<rparr>) = rx_ready start s"
  "rx_ready start (s\<lparr>rxCleanedCount := c\<rparr>) = rx_ready start s" "rx_ready start (s\<lparr>rxMapNextIndex := w\<rparr>) = rx_ready start s"
  by (simp_all add: rx_ready_def books_def ring_bufs_def addrs_ok_def)

lemma rxInterrupt_run:
  assumes "rx_ready start s"
  shows "\<exists>g t. rxInterrupt maxCount s = Some (g, t) \<and> rx_ready start t \<and>
    (filled (rxDescArray t ! unat (rxNextDescIndex t)) \<longrightarrow> maxCount \<le> g) \<and>
    (\<forall>q < 512. rxDescArray t ! q = rxDescArray s ! q \<and> rxBufArray t ! q = rxBufArray s ! q \<or>
       rxDescArray t ! q = given_back (rxb_phyAddr (rxBufArray t ! q))) \<and>
    written (Csr (E1000_RDT 0)) (new_events (m_hw s) (m_hw t)) \<in>
      {[], [ucast (rxNextDescIndex t - 1) AND kRxDescMask]}"
proof -
  obtain g t where l: "rx_loop maxCount 0 s = Some (g, t)" "rx_ready start t" "m_hw t = m_hw s"
    "filled (rxDescArray t ! unat (rxNextDescIndex t)) \<longrightarrow> maxCount \<le> g"
    "\<forall>q < 512. rxDescArray t ! q = rxDescArray s ! q \<and> rxBufArray t ! q = rxBufArray s ! q \<or>
       rxDescArray t ! q = given_back (rxb_phyAddr (rxBufArray t ! q))"
    using rx_loop_run [OF assms] by blast
  show ?thesis
  proof (cases "rxCleanedCount t \<ge> E1000_RX_BUFFER_WRITE")
    case False
    then have "rxInterrupt maxCount s = Some (g, t)" using l(1) by (simp add: rxInterrupt_def)
    then show ?thesis using l by (intro exI conjI) (assumption, simp_all)
  next
    case True
    let ?i = "ucast (rxNextDescIndex t - 1) AND kRxDescMask :: u32"
    obtain es f where u: "run_state (rx_tail ?i) t = ((), t\<lparr>m_hw := after (m_hw t) es, forceReset := f\<rparr>)"
      "written (Csr (E1000_RDT 0)) es = [?i]"
      using update_rx_tail_run [of ?i t] by blast
    have "rxInterrupt maxCount s = Some (g, t\<lparr>m_hw := after (m_hw t) es, forceReset := f, rxCleanedCount := 0\<rparr>)"
      using l(1) u(1) True by (simp add: rxInterrupt_def)
    then show ?thesis using l(2-5) u(2) by (intro exI conjI) (assumption, simp_all)
  qed
qed

subsection \<open>Reachable states\<close>

text \<open>
  The receive side from its set-up on: the interrupt with any quota, the refill thread, writes of the chip into the
  descriptors, whatever they are, and clearing, in any order. The multiset is of the buffers the ring started with.
\<close>

inductive rx_reach :: "mbuf multiset \<Rightarrow> mausi \<Rightarrow> bool" where
  init: "length (rxDescArray s) = 512 \<Longrightarrow> length (rxBufArray s) = 512 \<Longrightarrow> addrs_ok s \<Longrightarrow> m_klog s = [] \<Longrightarrow>
    rxPacket s = [] \<Longrightarrow> pool_bufs (rxPool s) = {#} \<Longrightarrow>
    run_state (initWithCapacity mhlen mcap ccap) s = (True, t) \<Longrightarrow>
    rx_reach (mset (map rxb_mbuf (rxBufArray s))) (snd (run_state intelInitRxRing t))"
| interrupt: "rx_reach start s \<Longrightarrow> rxInterrupt maxCount s = Some (g, t) \<Longrightarrow> rx_reach start t"
| refill: "rx_reach start s \<Longrightarrow> rx_reach start (snd (run_state refillPool s))"
| chip: "rx_reach start s \<Longrightarrow> length ds = 512 \<Longrightarrow> rx_reach start (s\<lparr>rxDescArray := ds\<rparr>)"
| clear: "rx_reach start s \<Longrightarrow> rx_reach start (snd (run_state clear_rx s))"

lemma init_rx_ring_ready:
  assumes "length (rxDescArray s) = 512" "length (rxBufArray s) = 512" "addrs_ok s" "pool_ok (rxPool s)" "books start {#} s"
  shows "rx_ready start (snd (run_state intelInitRxRing s))"
proof -
  let ?w = "\<lambda>r v s. s\<lparr>m_hw := after (m_hw s) [Wr (Csr r) v]\<rparr>"
  let ?s = "?w (E1000_RDH 0) 0 (?w (E1000_RDLEN 0) (kNumRxDesc * 16)
    (?w (E1000_RDBAH 0) (ucast (drop_bit 32 (rxPhyAddr s))) (?w (E1000_RDBAL 0) (ucast (rxPhyAddr s AND 0xffffffff)) s)))"
  obtain es f where u: "run_state (rx_tail kRxLastDesc) ?s = ((), ?s\<lparr>m_hw := after (m_hw ?s) es, forceReset := f\<rparr>)"
    using update_rx_tail_run by blast
  have "run_state intelInitRxRing s = ((), ?s\<lparr>m_hw := after (m_hw ?s) es, forceReset := f,
      rxCleanedCount := 0, rxNextDescIndex := 0, rxMapNextIndex := 0\<rparr>)"
    using u by (simp add: intelInitRxRing_def)
  moreover have "rx_ready start (s\<lparr>rxNextDescIndex := 0\<rparr>)"
    using assms by (simp add: rx_ready_def books_def ring_bufs_def addrs_ok_def)
  ultimately show ?thesis by (simp add: rx_ready_def books_def ring_bufs_def addrs_ok_def)
qed

lemma clear_rx_ready:
  assumes "rx_ready start s"
  shows "rx_ready start (snd (run_state clear_rx s))"
proof -
  let ?ds = "map (\<lambda>b. \<lparr>rd_low = rxb_phyAddr b, rd_high = 0\<rparr>) (take kNumRxDesc (rxBufArray s)) @ drop kNumRxDesc (rxDescArray s)"
  let ?s = "s\<lparr>rxDescArray := ?ds, rxCleanedCount := 0, rxNextDescIndex := 0, rxMapNextIndex := 0\<rparr>"
  have len: "length ?ds = 512" using assms by (simp add: rx_ready_def)
  have b: "books start {#} ?s" using assms by (simp add: rx_ready_def books_def ring_bufs_def)
  obtain log where d: "run_state discardPacketFragment ?s = ((), ?s\<lparr>m_klog := log, rxPacket := [], rxPacketSize := 0\<rparr>)"
    "books start {#} (?s\<lparr>m_klog := log, rxPacket := [], rxPacketSize := 0\<rparr>)"
    using discard_run [OF b] by blast
  have "run_state clear_rx s = ((), ?s\<lparr>m_klog := log, rxPacket := [], rxPacketSize := 0\<rparr>)"
    using d(1) by (simp add: clear_rx_def)
  then show ?thesis using assms d(2) len by (simp add: rx_ready_def addrs_ok_def)
qed

lemma rx_reach_ready: "rx_reach start s \<Longrightarrow> rx_ready start s"
proof (induction rule: rx_reach.induct)
  case (init s mhlen mcap ccap t)
  let ?start = "mset (map rxb_mbuf (rxBufArray s))"
  have b: "books ?start {#} s" using init(4-6) by (simp add: books_def ring_bufs_def)
  obtain p log where "t = s\<lparr>rxPool := p, m_klog := log\<rparr>" "pool_ok p" "books ?start {#} t"
    using initWithCapacity_run [OF init(6) b, of mhlen mcap ccap] init(7) by auto
  then show ?case using init(1-3) by (intro init_rx_ring_ready) simp_all
next
  case (interrupt start s maxCount g t)
  then show ?case using rxInterrupt_run [of start s maxCount] by auto
next
  case (refill start s)
  obtain p log where "run_state refillPool s = ((), s\<lparr>rxPool := p, m_klog := log\<rparr>)" "pool_ok p"
    "books start {#} (s\<lparr>rxPool := p, m_klog := log\<rparr>)"
    using refillPool_run [of s start "{#}"] refill(2) by (auto simp: rx_ready_def)
  then show ?case using refill(2) by (simp add: rx_ready_def)
next
  case (chip start s ds)
  then show ?case by (simp add: rx_ready_def books_def ring_bufs_def addrs_ok_def)
next
  case (clear start s)
  then show ?case by (intro clear_rx_ready)
qed

text \<open>A kernel that never hands out a buffer that is in use.\<close>

definition fresh_kernel :: "kernel \<Rightarrow> mbuf multiset \<Rightarrow> bool" where
  "fresh_kernel k start \<longleftrightarrow> (\<forall>m. count start m \<le> 1) \<and>
     (\<forall>how sz log. k_mbuf k (AllocPacket how sz # log) \<notin># in_use k start log)"

lemma in_use_once: "fresh_kernel k start \<Longrightarrow> count (in_use k start log) m \<le> 1"
proof (induction log)
  case (Cons c log)
  then show ?case
    by (cases c) (auto simp: fresh_kernel_def not_in_iff)
qed (simp add: fresh_kernel_def)

subsection \<open>Properties\<close>


lemma sample_pool:
  "\<exists>t. run_state (initWithCapacity 200 2 2) sample_mausi = (True, t) \<and> rx_reach (mset [0..<512]) (snd (run_state intelInitRxRing t))"
proof -
  have b: "books (mset [0..<512]) {#} sample_mausi"
    by (simp add: books_def ring_bufs_def pool_bufs_def sample_mausi_def comp_def)
  have e: "pool_bufs (rxPool sample_mausi) = {#}" by (simp add: pool_bufs_def sample_mausi_def)
  have "\<forall>l how x. k_ok (m_kernel sample_mausi) l (AllocPacket how x)"
    by (simp add: sample_mausi_def sample_kernel_def)
  moreover obtain p log ok where "run_state (initWithCapacity 200 2 2) sample_mausi = (ok, sample_mausi\<lparr>rxPool := p, m_klog := log\<rparr>)"
    "(\<forall>l how x. k_ok (m_kernel sample_mausi) l (AllocPacket how x)) \<and> (2 :: u32) > 0 \<and> (2 :: u32) > 0 \<longrightarrow> ok"
    using initWithCapacity_run [OF e b, of 200 2 2] by blast
  ultimately have r: "run_state (initWithCapacity 200 2 2) sample_mausi = (True, sample_mausi\<lparr>rxPool := p, m_klog := log\<rparr>)"
    by simp
  have "rx_reach (mset (map rxb_mbuf (rxBufArray sample_mausi)))
      (snd (run_state intelInitRxRing (sample_mausi\<lparr>rxPool := p, m_klog := log\<rparr>)))"
    by (rule rx_reach.init [OF _ _ _ _ _ e r]) (auto simp: sample_mausi_def addrs_ok_def sample_kernel_def)
  then show ?thesis using r by (simp add: sample_mausi_def comp_def)
qed


text \<open>A good descriptor handled while allocations succeed.\<close>

definition good_desc :: "rx_desc \<Rightarrow> bool" where
  "good_desc d \<longleftrightarrow> filled d \<and> rx_status d AND E1000_RXDEXT_ERR_FRAME_ERR_MASK = 0"

definition ends_frame :: "rx_desc \<Rightarrow> bool" where "ends_frame d \<longleftrightarrow> rx_status d AND E1000_RXD_STAT_EOP \<noteq> 0"

lemma deliver_good:
  "run_state (rx_deliver m d) s = (ends_frame d, if ends_frame d
     then s\<lparr>m_klog := EnqueueInput (rxPacket s @ [m]) ((if rxPacket s \<noteq> [] then rxPacketSize s else 0) + ucast (rx_length d))
         (rx_vlanTag d) (intelGetChecksumResult (rx_status d)) # SetLength m (ucast (rx_length d)) # m_klog s,
       rxPacket := [], rxPacketSize := 0\<rparr>
     else s\<lparr>m_klog := SetLength m (ucast (rx_length d)) # m_klog s, rxPacket := rxPacket s @ [m],
       rxPacketSize := (if rxPacket s \<noteq> [] then rxPacketSize s else 0) + ucast (rx_length d)\<rparr>)"
  by (simp add: rx_deliver_def ends_frame_def)

definition no_chain :: "kernel \<Rightarrow> bool" where "no_chain k \<longleftrightarrow> (\<forall>m. \<not> k_next k m)"

lemma round_good:
  assumes ready: "rx_ready start s" and chain: "no_chain (m_kernel s)"
    and d: "rxDescArray s ! unat (rxNextDescIndex s) = d" "good_desc d"
    and got: "fst (fst (run_state (replaceOrCopyPacket (rxb_mbuf (rxBufArray s ! unat (rxNextDescIndex s))) (ucast (rx_length d))) s)) = Some m"
  defines "sz \<equiv> (if rxPacket s \<noteq> [] then rxPacketSize s else 0) + ucast (rx_length d)"
  shows "let t = snd (rx_round s) in
    passed_up (m_klog t) = passed_up (m_klog s) @
      (if ends_frame d then [(rxPacket s @ [m], sz, rx_vlanTag d, intelGetChecksumResult (rx_status d))] else []) \<and>
    rxPacket t = (if ends_frame d then [] else rxPacket s @ [m]) \<and>
    rxPacketSize t = (if ends_frame d then 0 else sz) \<and> maxCopySize (rxPool t) = maxCopySize (rxPool s)"
proof -
  let ?i = "unat (rxNextDescIndex s)"
  let ?mp = "rxb_mbuf (rxBufArray s ! ?i)"
  have mp: "?mp \<in># ring_bufs s" "pool_ok (rxPool s)" "books start {#} s"
    using ready by (simp_all add: rx_ready_def ring_bufs_def)
  obtain new buf rep p log where r: "run_state (replaceOrCopyPacket ?mp (ucast (rx_length d))) s = ((new, buf, rep), s\<lparr>rxPool := p, m_klog := log\<rparr>)"
    "maxCopySize p = maxCopySize (rxPool s)" "passed_up log = passed_up (m_klog s)"
    using replace_run [OF mp(2,3,1)] by blast
  have new: "new = Some m" using got r(1) by simp
  let ?s = "if rep then s\<lparr>rxPool := p, m_klog := log, rxBufArray := (rxBufArray s)[?i := \<lparr>rxb_mbuf = buf, rxb_phyAddr = k_phys (m_kernel s) buf\<rparr>]\<rparr>
    else s\<lparr>rxPool := p, m_klog := log\<rparr>"
  have "\<exists>a. run_state (rx_packet ?i k_phys) s = ((a, ends_frame d), snd (run_state (rx_deliver m d) ?s))"
    using r(1) new d chain by (cases rep) (simp_all add: rx_packet_def Let_def good_desc_def no_chain_def deliver_good)
  then obtain a where "rx_round s = (ends_frame d, (snd (run_state (rx_deliver m d) ?s))\<lparr>
      rxDescArray := (rxDescArray (snd (run_state (rx_deliver m d) ?s)))[?i := \<lparr>rd_low = a, rd_high = 0\<rparr>],
      rxNextDescIndex := (rxNextDescIndex (snd (run_state (rx_deliver m d) ?s)) + 1) AND kRxDescMask,
      rxCleanedCount := rxCleanedCount (snd (run_state (rx_deliver m d) ?s)) + 1\<rparr>)"
    by (auto simp: rx_round_def rx_next_def)
  then show ?thesis using r(2,3) by (cases rep) (simp_all add: deliver_good sz_def)
qed

lemma replace_got:
  assumes "pool_ok (rxPool s)" and "books start extra s" and "mp \<in># ring_bufs s"
  shows "\<exists>new buf rep p log. run_state (replaceOrCopyPacket mp len) s = ((new, buf, rep), s\<lparr>rxPool := p, m_klog := log\<rparr>) \<and>
    rep = (len > maxCopySize (rxPool s)) \<and> (\<forall>m. new = Some m \<longrightarrow> rep \<longrightarrow> m = mp) \<and>
    ((\<forall>l x. k_ok (m_kernel s) l (AllocPacket MBUF_DONTWAIT x)) \<longrightarrow> new \<noteq> None)"
proof -
  obtain new buf rep p log where r: "run_state (replaceOrCopyPacket mp len) s = ((new, buf, rep), s\<lparr>rxPool := p, m_klog := log\<rparr>)"
    "rep = (len > maxCopySize (rxPool s))"
    "case new of None \<Rightarrow> books start extra (s\<lparr>rxPool := p, m_klog := log\<rparr>)
     | Some n \<Rightarrow> (if rep then n = mp \<and> books start ({#buf#} + extra) (s\<lparr>rxPool := p, m_klog := log\<rparr>)
         else buf = mp \<and> books start ({#n#} + extra) (s\<lparr>rxPool := p, m_klog := log\<rparr>))"
    "(\<forall>l x. k_ok (m_kernel s) l (AllocPacket MBUF_DONTWAIT x)) \<longrightarrow> new \<noteq> None"
    using replace_run [OF assms] by blast
  have "\<forall>m. new = Some m \<longrightarrow> rep \<longrightarrow> m = mp" using r(3) by (cases new) simp_all
  with r(1,2,4) show ?thesis by blast
qed

text \<open>Rounds of the loop.\<close>

definition rounds :: "nat \<Rightarrow> mausi \<Rightarrow> mausi" where "rounds n s = ((\<lambda>s. snd (rx_round s)) ^^ n) s"

lemma rounds_simps [simp]: "rounds 0 s = s" "rounds (Suc n) s = snd (rx_round (rounds n s))"
  by (simp_all add: rounds_def)

lemma rounds_run:
  assumes "rx_ready start s" "n \<le> 512"
  defines "i \<equiv> unat (rxNextDescIndex s)"
  shows "rx_ready start (rounds n s) \<and> m_kernel (rounds n s) = m_kernel s \<and>
    unat (rxNextDescIndex (rounds n s)) = ring_pos i n \<and>
    (\<forall>q. n \<le> q \<and> q < 512 \<longrightarrow> rxDescArray (rounds n s) ! ring_pos i q = rxDescArray s ! ring_pos i q \<and>
       rxBufArray (rounds n s) ! ring_pos i q = rxBufArray s ! ring_pos i q)"
  using assms(2)
proof (induction n)
  case 0
  have "i < 512" using assms(1) by (simp add: rx_ready_def i_def)
  then show ?case using assms(1) by (simp add: i_def)
next
  case (Suc n)
  then have IH: "rx_ready start (rounds n s)" "m_kernel (rounds n s) = m_kernel s"
    "unat (rxNextDescIndex (rounds n s)) = ring_pos i n"
    "\<forall>q. n \<le> q \<and> q < 512 \<longrightarrow> rxDescArray (rounds n s) ! ring_pos i q = rxDescArray s ! ring_pos i q \<and>
       rxBufArray (rounds n s) ! ring_pos i q = rxBufArray s ! ring_pos i q" by auto
  obtain g t where r: "rx_round (rounds n s) = (g, t)" "rx_ready start t" "m_kernel t = m_kernel (rounds n s)"
    "unat (rxNextDescIndex t) = ring_pos (ring_pos i n) 1"
    "rxDescArray t = (rxDescArray (rounds n s))[ring_pos i n := given_back (rxb_phyAddr (rxBufArray t ! ring_pos i n))]"
    "\<forall>q. q \<noteq> ring_pos i n \<longrightarrow> rxBufArray t ! q = rxBufArray (rounds n s) ! q"
    using rx_round_run [OF IH(1)] unfolding IH(3) by blast
  have "rxDescArray t ! ring_pos i q = rxDescArray s ! ring_pos i q \<and> rxBufArray t ! ring_pos i q = rxBufArray s ! ring_pos i q"
    if q: "Suc n \<le> q" "q < 512" for q
  proof -
    have "ring_pos i q \<noteq> ring_pos i n" using ring_pos_neq [of n q i] q by auto
    then show ?thesis using IH(4) r(5,6) q by simp
  qed
  then show ?case using IH r(1-4) by simp
qed

text \<open>C33: A frame of any number of buffers. When the next descriptors hold one frame without an error, the last of them
alone being marked as its end, allocations succeed and no packet is in progress, then after these rounds exactly one
packet has been passed up: it has one buffer per descriptor, in order, the ring's own buffer wherever the
part was too large to copy, its length is the sum of the parts', and its VLAN tag and checksum result are those of the
last descriptor; and no packet is in progress.\<close>

theorem rx_frame_delivered:
  assumes "rx_ready start s" and "rxPacket s = []" and "no_chain (m_kernel s)" and "\<forall>l c. k_ok (m_kernel s) l c"
    and "0 < n" and "n \<le> kNumRxDesc"
  defines "at \<equiv> \<lambda>q. ring_pos (unat (rxNextDescIndex s)) q"
  assumes good: "\<forall>q < n. good_desc (rxDescArray s ! at q) \<and> ends_frame (rxDescArray s ! at q) = (q = n - 1)"
  shows "\<exists>ms. passed_up (m_klog (rounds n s)) = passed_up (m_klog s) @
      [(ms, \<Sum>q\<leftarrow>[0..<n]. ucast (rx_length (rxDescArray s ! at q)), rx_vlanTag (rxDescArray s ! at (n - 1)),
        intelGetChecksumResult (rx_status (rxDescArray s ! at (n - 1))))] \<and>
    length ms = n \<and> rxPacket (rounds n s) = [] \<and>
    (\<forall>q < n. ucast (rx_length (rxDescArray s ! at q)) > maxCopySize (rxPool s) \<longrightarrow> ms ! q = rxb_mbuf (rxBufArray s ! at q))"
proof -
  let ?d = "\<lambda>q. rxDescArray s ! at q" and ?len = "\<lambda>q. ucast (rx_length (rxDescArray s ! at q)) :: u32"
  define own where "own = (\<lambda>ms k. \<forall>q < k. ?len q > maxCopySize (rxPool s) \<longrightarrow> ms ! q = rxb_mbuf (rxBufArray s ! at q))"
  define sum where "sum = (\<lambda>k. \<Sum>q\<leftarrow>[0..<k]. ?len q)"
  have step: "\<exists>m. (let t = rounds (Suc k) s; p = rxPacket (rounds k s) @ [m];
        z = (if rxPacket (rounds k s) \<noteq> [] then rxPacketSize (rounds k s) else 0) + ?len k in
      passed_up (m_klog t) = passed_up (m_klog (rounds k s)) @ (if k = n - 1 then
        [(p, z, rx_vlanTag (?d k), intelGetChecksumResult (rx_status (?d k)))] else []) \<and>
      rxPacket t = (if k = n - 1 then [] else p) \<and> rxPacketSize t = (if k = n - 1 then 0 else z) \<and>
      maxCopySize (rxPool t) = maxCopySize (rxPool (rounds k s))) \<and>
      (?len k > maxCopySize (rxPool (rounds k s)) \<longrightarrow> m = rxb_mbuf (rxBufArray s ! at k))" if k: "k < n" for k
  proof -
    let ?u = "rounds k s"
    have "k < 512" using k assms(6) by simp
    then have u: "rx_ready start ?u" "m_kernel ?u = m_kernel s" "unat (rxNextDescIndex ?u) = at k"
      "rxDescArray ?u ! at k = ?d k" "rxBufArray ?u ! at k = rxBufArray s ! at k"
      using rounds_run [OF assms(1), of k] by (simp_all add: at_def)
    have mp: "rxb_mbuf (rxBufArray s ! at k) \<in># ring_bufs ?u" "pool_ok (rxPool ?u)" "books start {#} ?u"
    proof -
      have "at k < length (rxBufArray ?u)" using u(1) by (simp add: rx_ready_def at_def)
      then show "rxb_mbuf (rxBufArray s ! at k) \<in># ring_bufs ?u" unfolding u(5) [symmetric] by (simp add: ring_bufs_def)
    qed (use u(1) in \<open>simp_all add: rx_ready_def\<close>)
    obtain new buf rep p log where r: "run_state (replaceOrCopyPacket (rxb_mbuf (rxBufArray s ! at k)) (?len k)) ?u = ((new, buf, rep), ?u\<lparr>rxPool := p, m_klog := log\<rparr>)"
      "rep = (?len k > maxCopySize (rxPool ?u))"
      "\<forall>m. new = Some m \<longrightarrow> rep \<longrightarrow> m = rxb_mbuf (rxBufArray s ! at k)"
      "(\<forall>l x. k_ok (m_kernel ?u) l (AllocPacket MBUF_DONTWAIT x)) \<longrightarrow> new \<noteq> None"
      using replace_got [OF mp(2,3,1), of "?len k"] by blast
    obtain m where m: "new = Some m" using r(4) assms(4) u(2) by auto
    have g: "good_desc (?d k)" "ends_frame (?d k) = (k = n - 1)" using good k by auto
    have "let t = snd (rx_round ?u) in passed_up (m_klog t) = passed_up (m_klog ?u) @ (if ends_frame (?d k) then
        [(rxPacket ?u @ [m], (if rxPacket ?u \<noteq> [] then rxPacketSize ?u else 0) + ?len k, rx_vlanTag (?d k), intelGetChecksumResult (rx_status (?d k)))] else []) \<and>
      rxPacket t = (if ends_frame (?d k) then [] else rxPacket ?u @ [m]) \<and>
      rxPacketSize t = (if ends_frame (?d k) then 0 else (if rxPacket ?u \<noteq> [] then rxPacketSize ?u else 0) + ?len k) \<and>
      maxCopySize (rxPool t) = maxCopySize (rxPool ?u)"
      by (rule round_good [OF u(1)]) (use assms(3) u g(1) r(1) m in simp_all)
    then show ?thesis using r(2,3) m unfolding g(2) by (intro exI [of _ m]) (simp add: Let_def)
  qed
  have part: "length (rxPacket (rounds k s)) = k \<and> (k > 0 \<longrightarrow> rxPacketSize (rounds k s) = sum k) \<and>
      passed_up (m_klog (rounds k s)) = passed_up (m_klog s) \<and> maxCopySize (rxPool (rounds k s)) = maxCopySize (rxPool s) \<and>
      own (rxPacket (rounds k s)) k" if "k < n" for k
    using that
  proof (induction k)
    case 0
    then show ?case using assms(2) by (simp add: own_def)
  next
    case (Suc k)
    then have "k < n" "k \<noteq> n - 1" by auto
    with step [of k] obtain m where m: "passed_up (m_klog (rounds (Suc k) s)) = passed_up (m_klog (rounds k s))"
      "rxPacket (rounds (Suc k) s) = rxPacket (rounds k s) @ [m]"
      "rxPacketSize (rounds (Suc k) s) = (if rxPacket (rounds k s) \<noteq> [] then rxPacketSize (rounds k s) else 0) + ?len k"
      "maxCopySize (rxPool (rounds (Suc k) s)) = maxCopySize (rxPool (rounds k s))"
      "?len k > maxCopySize (rxPool (rounds k s)) \<longrightarrow> m = rxb_mbuf (rxBufArray s ! at k)"
      unfolding Let_def by auto
    have IH: "length (rxPacket (rounds k s)) = k" "k > 0 \<longrightarrow> rxPacketSize (rounds k s) = sum k"
      "passed_up (m_klog (rounds k s)) = passed_up (m_klog s)" "maxCopySize (rxPool (rounds k s)) = maxCopySize (rxPool s)"
      "own (rxPacket (rounds k s)) k" using Suc by auto
    have "rxPacketSize (rounds (Suc k) s) = sum (Suc k)" using m(3) IH(1,2) by (cases "k = 0") (auto simp: sum_def)
    moreover have "own (rxPacket (rounds (Suc k) s)) (Suc k)"
      using m(2,5) IH(1,4,5) by (auto simp: own_def nth_append less_Suc_eq)
    ultimately show ?case using m(1,2,4) IH by simp
  qed
  let ?k = "n - 1"
  have k: "?k < n" "Suc ?k = n" using assms(5) by simp_all
  obtain m where m: "passed_up (m_klog (rounds n s)) = passed_up (m_klog (rounds ?k s)) @
      [(rxPacket (rounds ?k s) @ [m], (if rxPacket (rounds ?k s) \<noteq> [] then rxPacketSize (rounds ?k s) else 0) + ?len ?k,
        rx_vlanTag (?d ?k), intelGetChecksumResult (rx_status (?d ?k)))]"
    "rxPacket (rounds n s) = []" "?len ?k > maxCopySize (rxPool (rounds ?k s)) \<longrightarrow> m = rxb_mbuf (rxBufArray s ! at ?k)"
    using step [OF k(1)] unfolding k(2) Let_def by auto
  note IH = part [OF k(1)]
  have "(if rxPacket (rounds ?k s) \<noteq> [] then rxPacketSize (rounds ?k s) else 0) + ?len ?k = sum n"
  proof -
    have "sum n = sum ?k + ?len ?k" by (subst k(2) [symmetric]) (simp add: sum_def)
    moreover have "sum 0 = 0" by (simp add: sum_def)
    ultimately show ?thesis using IH by (cases "?k = 0") auto
  qed
  moreover have "own (rxPacket (rounds ?k s) @ [m]) n"
    unfolding own_def
  proof (intro allI impI)
    fix q assume q: "q < n" "?len q > maxCopySize (rxPool s)"
    show "(rxPacket (rounds ?k s) @ [m]) ! q = rxb_mbuf (rxBufArray s ! at q)"
    proof (cases "q < ?k")
      case True
      then show ?thesis using IH q(2) by (simp add: nth_append own_def)
    next
      case False
      then have "q = ?k" using q(1) by simp
      then show ?thesis using IH q(2) m(3) by (simp add: nth_append)
    qed
  qed
  ultimately show ?thesis using m(1,2) IH k unfolding own_def sum_def
    by (intro exI [of _ "rxPacket (rounds ?k s) @ [m]"]) simp
qed

text \<open>A receive side with a small pool and a frame of two buffers in the ring.\<close>

definition sample_pool_of :: "mbuf list \<Rightarrow> mbuf list \<Rightarrow> bool \<Rightarrow> rx_pool" where
  "sample_pool_of cs ms b = \<lparr>cPkts = cs, mPkts = ms, cCapacity = 2, cRefillTresh = 1, cPktNum = int (length cs),
     mCapacity = 2, mRefillTresh = 1, mPktNum = int (length ms), maxCopySize = 200, refillScheduled = b\<rparr>"

definition sample_rx :: "kernel \<Rightarrow> rx_pool \<Rightarrow> mausi" where
  "sample_rx k p = sample_mausi\<lparr>m_kernel := k, rxPool := p,
     rxDescArray := (replicate 512 \<lparr>rd_low = 0, rd_high = 0\<rparr>)[0 := \<lparr>rd_low = 0, rd_high = 0x80000000001\<rparr>,
       1 := \<lparr>rd_low = 0, rd_high = 0x6400000003\<rparr>]\<rparr>"

lemma sample_rx_ready:
  assumes "pool_ok p" "k_phys k = k_phys sample_kernel"
  shows "rx_ready (pool_bufs p + mset [0..<512]) (sample_rx k p)"
proof -
  have "books (pool_bufs p + mset [0..<512]) {#} (sample_rx k p)"
    by (simp add: books_def ring_bufs_def sample_rx_def sample_mausi_def comp_def)
  moreover have "addrs_ok (sample_rx k p)"
    using assms(2) by (auto simp: addrs_ok_def sample_rx_def sample_mausi_def sample_kernel_def)
  ultimately show ?thesis using assms(1) by (simp add: rx_ready_def sample_rx_def sample_mausi_def)
qed

lemma sample_pool_ok: "pool_ok (sample_pool_of [600] [601] b)"
  by (simp add: pool_ok_def sample_pool_of_def)

lemma sample_descs:
  "good_desc \<lparr>rd_low = 0, rd_high = 0x80000000001\<rparr>" "good_desc \<lparr>rd_low = 0, rd_high = 0x6400000003\<rparr>"
  "\<not> ends_frame \<lparr>rd_low = 0, rd_high = 0x80000000001\<rparr>" "ends_frame \<lparr>rd_low = 0, rd_high = 0x6400000003\<rparr>"
  "rx_length \<lparr>rd_low = 0, rd_high = 0x80000000001\<rparr> = 0x800" "rx_length \<lparr>rd_low = 0, rd_high = 0x6400000003\<rparr> = 100"
  by (simp_all add: good_desc_def filled_def ends_frame_def rx_status_def rx_length_def)

lemma sample_rx_fields:
  "rxNextDescIndex (sample_rx k p) = 0" "rxPacket (sample_rx k p) = []" "m_kernel (sample_rx k p) = k"
  "rxDescArray (sample_rx k p) ! 0 = \<lparr>rd_low = 0, rd_high = 0x80000000001\<rparr>"
  "rxDescArray (sample_rx k p) ! 1 = \<lparr>rd_low = 0, rd_high = 0x6400000003\<rparr>"
  "rxb_mbuf (rxBufArray (sample_rx k p) ! 0) = 0" "rxb_mbuf (rxBufArray (sample_rx k p) ! 1) = 1"
  "rxDescArray (sample_rx k p) ! Suc 0 = \<lparr>rd_low = 0, rd_high = 0x6400000003\<rparr>" "rxb_mbuf (rxBufArray (sample_rx k p) ! Suc 0) = 1"
  "rxPool (sample_rx k p) = p" "m_klog (sample_rx k p) = []"
  by (simp_all add: sample_rx_def sample_mausi_def)

theorem rx_frame_delivered_witness:
  "\<exists>ms. passed_up (m_klog (rounds 2 (sample_rx sample_kernel (sample_pool_of [600] [601] False)))) = [(ms, 2148, 0, False, False)] \<and>
     length ms = 2 \<and> ms ! 0 = 0"
proof -
  let ?s = "sample_rx sample_kernel (sample_pool_of [600] [601] False)"
  have r: "rx_ready (pool_bufs (sample_pool_of [600] [601] False) + mset [0..<512]) ?s"
    by (rule sample_rx_ready [OF sample_pool_ok refl])
  have k: "no_chain (m_kernel ?s)" "\<forall>l c. k_ok (m_kernel ?s) l c"
    by (simp_all add: sample_rx_fields no_chain_def sample_kernel_def)
  have at: "ring_pos (unat (rxNextDescIndex ?s)) q = q" if "q < 2" for q
    using that by (simp add: sample_rx_fields ring_pos_def)
  have good: "\<forall>q < 2. good_desc (rxDescArray ?s ! ring_pos (unat (rxNextDescIndex ?s)) q) \<and>
      ends_frame (rxDescArray ?s ! ring_pos (unat (rxNextDescIndex ?s)) q) = (q = 2 - 1)"
    using at [of 0] at [of 1] by (auto simp: less_2_cases_iff sample_rx_fields sample_descs)
  have tag: "rx_vlanTag \<lparr>rd_low = 0, rd_high = 0x6400000003\<rparr> = 0"
    "intelGetChecksumResult (rx_status \<lparr>rd_low = 0, rd_high = 0x6400000003\<rparr>) = (False, False)"
    by (simp_all add: rx_vlanTag_def rx_status_def intelGetChecksumResult_def)
  have two: "[0..<2] = [0, 1 :: nat]" by (simp add: upt_rec)
  have "rxPacket ?s = []" "0 < (2 :: nat)" "(2 :: nat) \<le> kNumRxDesc" by (simp_all add: sample_rx_fields)
  from rx_frame_delivered [OF r this(1) k this(2,3) good] at [of 0] at [of 1] show ?thesis
    unfolding two by (elim exE conjE)
      (auto simp: sample_rx_fields sample_descs tag sample_pool_of_def less_2_cases_iff all_conj_distrib)
qed

subsection \<open>Two defects\<close>

lemma round_dropped:
  assumes ready: "rx_ready start s"
    and d: "rxDescArray s ! unat (rxNextDescIndex s) = d" "good_desc d"
    and got: "fst (fst (run_state (replaceOrCopyPacket (rxb_mbuf (rxBufArray s ! unat (rxNextDescIndex s))) (ucast (rx_length d))) s)) = None"
  defines "u \<equiv> snd (run_state (replaceOrCopyPacket (rxb_mbuf (rxBufArray s ! unat (rxNextDescIndex s))) (ucast (rx_length d))) s)"
  shows "passed_up (m_klog (snd (rx_round s))) = passed_up (m_klog s) \<and> rxPacket (snd (rx_round s)) = [] \<and>
    rxPool (snd (rx_round s)) = rxPool u \<and> (m_klog u \<noteq> [] \<longrightarrow> m_klog (snd (rx_round s)) \<noteq> [])"
proof -
  let ?i = "unat (rxNextDescIndex s)"
  let ?mp = "rxb_mbuf (rxBufArray s ! ?i)"
  have mp: "?mp \<in># ring_bufs s" "pool_ok (rxPool s)" "books start {#} s"
    using ready by (simp_all add: rx_ready_def ring_bufs_def)
  obtain new buf rep p log where r: "run_state (replaceOrCopyPacket ?mp (ucast (rx_length d))) s = ((new, buf, rep), s\<lparr>rxPool := p, m_klog := log\<rparr>)"
    "passed_up log = passed_up (m_klog s)"
    using replace_run [OF mp(2,3,1)] by blast
  have "new = None" "u = s\<lparr>rxPool := p, m_klog := log\<rparr>" using got r(1) by (simp_all add: u_def)
  then show ?thesis using r d
    by (simp add: rx_round_def rx_packet_def Let_def good_desc_def rx_drop_resource_def discardPacketFragment_def rx_next_def)
qed

text \<open>C34: A truncated frame is passed up as a whole one. When the first part of a frame of two buffers is dropped because no buffer can
be allocated, and the second one can be handled, the network stack gets a packet that consists of the second part
alone, with its length as the length of the packet.\<close>

theorem rx_truncated_frame:
  assumes ready: "rx_ready start s" and chain: "no_chain (m_kernel s)"
  defines "i \<equiv> unat (rxNextDescIndex s)" and "t \<equiv> snd (rx_round s)"
  defines "d \<equiv> rxDescArray s ! i" and "e \<equiv> rxDescArray s ! ring_pos i 1"
  assumes first: "good_desc d" "\<not> ends_frame d"
      "fst (fst (run_state (replaceOrCopyPacket (rxb_mbuf (rxBufArray s ! i)) (ucast (rx_length d))) s)) = None"
    and second: "good_desc e" "ends_frame e"
      "fst (fst (run_state (replaceOrCopyPacket (rxb_mbuf (rxBufArray s ! ring_pos i 1)) (ucast (rx_length e))) t)) = Some m"
  shows "passed_up (m_klog (rounds 2 s)) = passed_up (m_klog s) @
    [([m], ucast (rx_length e), rx_vlanTag e, intelGetChecksumResult (rx_status e))]"
proof -
  have r: "rounds 1 s = t" "rounds 2 s = snd (rx_round t)" by (simp_all add: rounds_def t_def numeral_2_eq_2)
  have t: "rx_ready start t" "m_kernel t = m_kernel s" "unat (rxNextDescIndex t) = ring_pos i 1"
    "rxDescArray t ! ring_pos i 1 = e" "rxBufArray t ! ring_pos i 1 = rxBufArray s ! ring_pos i 1"
    using rounds_run [OF ready, of 1] unfolding r(1) by (simp_all add: i_def e_def)
  have drop: "passed_up (m_klog t) = passed_up (m_klog s)" "rxPacket t = []"
    using round_dropped [OF ready _ first(1)] first(3) unfolding i_def d_def t_def by simp_all
  show ?thesis
    using round_good [OF t(1) _ _ second(1), of m] chain t second drop by (simp add: Let_def r(2))
qed

theorem rx_truncated_frame_witness:
  "\<exists>m. passed_up (m_klog (rounds 2 (sample_rx (sample_kernel\<lparr>k_ok := \<lambda>log c. log \<noteq> []\<rparr>) (sample_pool_of [600] [601] False)))) =
     [([m], 100, 0, False, False)]"
proof -
  let ?k = "sample_kernel\<lparr>k_ok := \<lambda>log c. log \<noteq> []\<rparr>"
  let ?s = "sample_rx ?k (sample_pool_of [600] [601] False)"
  have r: "rx_ready (pool_bufs (sample_pool_of [600] [601] False) + mset [0..<512]) ?s"
    by (rule sample_rx_ready [OF sample_pool_ok]) simp
  have first: "run_state (replaceOrCopyPacket 0 0x800) ?s = ((None, 0, True), ?s\<lparr>m_klog := [AllocPacket False 0x1000]\<rparr>)"
    by (simp add: replaceOrCopyPacket_def getPacket_def run_mbuf_allocpacket Let_def sample_rx_fields sample_pool_of_def)
  let ?u = "snd (rx_round ?s)"
  have drop: "rxPool ?u = sample_pool_of [600] [601] False" "m_klog ?u \<noteq> []"
    using round_dropped [OF r _ sample_descs(1)] first by (simp_all add: sample_rx_fields sample_descs)
  have "m_kernel ?u = ?k" "rxBufArray ?u ! ring_pos 0 1 = rxBufArray ?s ! ring_pos 0 1"
    using rounds_run [OF r, of 1] by (simp_all add: sample_rx_fields)
  then obtain m where second: "fst (fst (run_state (replaceOrCopyPacket 1 100) ?u)) = Some m"
    using drop by (simp add: replaceOrCopyPacket_def getPacket_def run_mbuf_allocpacket Let_def sample_pool_of_def)
  have at: "ring_pos 0 1 = 1" by (simp add: ring_pos_def)
  have tag: "rx_vlanTag \<lparr>rd_low = 0, rd_high = 0x6400000003\<rparr> = 0"
    "intelGetChecksumResult (rx_status \<lparr>rd_low = 0, rd_high = 0x6400000003\<rparr>) = (False, False)"
    by (simp_all add: rx_vlanTag_def rx_status_def intelGetChecksumResult_def)
  have chain: "no_chain (m_kernel ?s)" by (simp add: sample_rx_fields no_chain_def sample_kernel_def)
  show ?thesis
    using rx_truncated_frame [OF r chain, of m] first second at
    by (auto simp: sample_rx_fields sample_descs tag)
qed

text \<open>C35: A starved pool stays starved. When the refill thread finds no memory while both halves of the pool are down to their last
buffer, then whatever packets are asked for later, and even when memory is available again, the pool keeps
its single buffers and no refill is scheduled any more: only a buffer taken from the pool schedules one, and the last
one is never taken.\<close>

theorem pool_starves:
  fixes requests :: "(u32 \<times> bool) list"
  assumes "pool_ok (rxPool s)" and "length (cPkts (rxPool s)) = 1" and "length (mPkts (rxPool s)) = 1"
    and "mCapacity (rxPool s) > 1"
    and "\<not> k_ok (m_kernel s) (m_klog s) (AllocPacket MBUF_DONTWAIT (maxCopySize (rxPool s)))"
  defines "t \<equiv> fold (\<lambda>(sz, how) u. snd (run_state (getPacket sz how) u)) requests (snd (run_state refillPool s))"
  shows "rxPool t = (rxPool s)\<lparr>refillScheduled := False\<rparr> \<and>
    filter (\<lambda>c. c = ScheduleRefill) (m_klog t) = filter (\<lambda>c. c = ScheduleRefill) (m_klog s)"
proof -
  let ?starved = "\<lambda>u. rxPool u = (rxPool s)\<lparr>refillScheduled := False\<rparr> \<and>
    filter (\<lambda>c. c = ScheduleRefill) (m_klog u) = filter (\<lambda>c. c = ScheduleRefill) (m_klog s)"
  have num: "cPktNum (rxPool s) = 1" "mPktNum (rxPool s) = 1" using assms(1-3) by (simp_all add: pool_ok_def)
  have "1 < unat (mCapacity (rxPool s))" using assms(4) by (simp add: word_less_nat_alt)
  then obtain n where n: "unat (mCapacity (rxPool s)) - nat (mPktNum (rxPool s)) = Suc n"
    using num by (metis Suc_diff_Suc nat_1 One_nat_def)
  have "?starved (snd (run_state refillPool s))"
    using assms(5) by (simp add: refillPool_def n run_mbuf_allocpacket Let_def)
  moreover have "?starved (snd (run_state (getPacket sz how) u))" if "?starved u" for sz how u
    using that num by (cases "sz > maxCopySize (rxPool s)") (simp_all add: getPacket_def run_mbuf_allocpacket Let_def)
  ultimately have "?starved (fold (\<lambda>(sz, how) u. snd (run_state (getPacket sz how) u)) rs u)" if "?starved u" for rs u
    using that by (induction rs arbitrary: u) (auto split: prod.split)
  with \<open>?starved (snd (run_state refillPool s))\<close> show ?thesis unfolding t_def by blast
qed

theorem pool_starves_witness:
  "rxPool (fold (\<lambda>(sz, how) u. snd (run_state (getPacket sz how) u)) [(64, False), (1500, True)]
     (snd (run_state refillPool (sample_rx (sample_kernel\<lparr>k_ok := \<lambda>log c. log \<noteq> []\<rparr>) (sample_pool_of [600] [601] True)))))
   = sample_pool_of [600] [601] False"
proof -
  let ?s = "sample_rx (sample_kernel\<lparr>k_ok := \<lambda>log c. log \<noteq> []\<rparr>) (sample_pool_of [600] [601] True)"
  have p: "pool_ok (rxPool ?s)" using sample_pool_ok by (simp add: sample_rx_fields)
  show ?thesis
    using pool_starves [OF p, of "[(64, False), (1500, True)]"] by (simp add: sample_rx_fields sample_pool_of_def)
qed

end
