(* ===== verification/Vtd.thy ===== *)
theory Vtd
  imports TxRing RxRing
begin

section \<open>Receiving through an I/O mapper, and the memory of the rings\<close>

text \<open>
  The receive half of \<open>IntelMausiVTD.cpp\<close>, and the set-up and release of both rings' memory in
  \<open>IntelMausiSetup.cpp\<close>. With an I/O mapper present the receive buffers are mapped in batches of 16, one
  memory descriptor for each; a batch is mapped anew when all its buffers have been handled.

  \<open>rxBufArray\<close> is the list of the entries that have a buffer: it is filled from the front. A pointer that
  may be null is a member of \<open>m_has\<close> or not.
\<close>

subsection \<open>Mapping receive buffers\<close>

definition rx_md :: "nat \<Rightarrow> nat" where "rx_md batch = kNumTxMemDesc + batch"

definition batch_entries :: "nat \<Rightarrow> nat list" where
  "batch_entries index = [index..<index + kRxMemBatchSize]"

definition batch_ranges :: "nat \<Rightarrow> mausi \<Rightarrow> (u64 \<times> u64) list" where
  "batch_ranges index s = take kRxMemBatchSize (drop index (rxMemRange s))"

text \<open>The first and the second inner loop of \<open>rxMapBuffers\<close>.\<close>

primrec rx_new_ranges :: "nat list \<Rightarrow> unit mausiM" where
  "rx_new_ranges [] = ret ()"
| "rx_new_ranges (i # is) = do {
     s \<leftarrow> gets id;
     cwhen (rxb_phyAddr (rxBufArray s ! i) = 0)
       (modify (\<lambda>s. s\<lparr>rxMemRange := (rxMemRange s)[i := (k_datastart (m_kernel s) (rxb_mbuf (rxBufArray s ! i)), snd (rxMemRange s ! i))]\<rparr>));
     rx_new_ranges is }"

primrec rx_new_addrs :: "nat \<Rightarrow> u64 \<Rightarrow> nat list \<Rightarrow> unit mausiM" where
  "rx_new_addrs md offset [] = ret ()"
| "rx_new_addrs md offset (i # is) = do {
     pa \<leftarrow> gets (\<lambda>s. k_segment (m_kernel s) (m_klog s) md offset);
     modify (\<lambda>s. s\<lparr>rxBufArray := (rxBufArray s)[i := (rxBufArray s ! i)\<lparr>rxb_phyAddr := pa\<rparr>],
       rxDescArray := (rxDescArray s)[i := \<lparr>rd_low = pa, rd_high = 0\<rparr>]\<rparr>);
     rx_new_addrs md (offset + PAGE_SIZE) is }"

text \<open>One round of the outer loop; \<open>False\<close> leaves it.\<close>

definition rx_map_batch :: "u16 \<Rightarrow> bool mausiM" where
  "rx_map_batch index = do {
     let md = rx_md (unat (drop_bit kRxMemBaseShift index));
     kcall (MdComplete md);
     rx_new_ranges (batch_entries (unat index));
     ranges \<leftarrow> gets (batch_ranges (unat index));
     ok \<leftarrow> kcall (MdInit md ranges);
     if \<not> ok then ret False
     else do {
       ok \<leftarrow> kcall (MdPrepare md);
       if \<not> ok then ret False
       else do {
         rx_new_addrs md 0 (batch_entries (unat index));
         modify (rxMapNextIndex_update (\<lambda>_. (index + kRxMemBatchSize) AND kRxDescMask));
         ret True } } }"

text \<open>The outer loop; \<open>update\<close> is whether the tail is moved behind each batch.\<close>

primrec rx_map_loop :: "nat \<Rightarrow> u16 \<Rightarrow> bool \<Rightarrow> u16 mausiM" where
  "rx_map_loop 0 index update = ret index"
| "rx_map_loop (Suc batch) index update = do {
     ok \<leftarrow> rx_map_batch index;
     if \<not> ok then ret index
     else do {
       cwhen update (rx_tail (ucast index + kRxMemDescMask));
       rx_map_loop batch ((index + kRxMemBatchSize) AND kRxDescMask) update } }"

definition rxMapBuffers :: "u16 \<Rightarrow> u16 \<Rightarrow> bool \<Rightarrow> u16 mausiM" where
  "rxMapBuffers index batches update = rx_map_loop (unat batches) index update"

subsection \<open>The receive interrupt\<close>

text \<open>The end of the loop's body, from \<open>nextDesc\<close> on: the descriptor stays as the chip left it.\<close>

definition rx_next_vtd :: "unit mausiM" where
  "rx_next_vtd = modify (\<lambda>s. s\<lparr>
     rxCleanedCount := (if rxNextDescIndex s AND kRxMemDescMask = kRxMemDescMask then rxCleanedCount s + 1 else rxCleanedCount s),
     rxNextDescIndex := (rxNextDescIndex s + 1) AND kRxDescMask\<rparr>)"

definition rx_round_vtd :: "mausi \<Rightarrow> bool \<times> mausi" where
  "rx_round_vtd s = run_state (do {
     i \<leftarrow> gets (\<lambda>s. unat (rxNextDescIndex s));
     r \<leftarrow> rx_packet i (\<lambda>_ _. 0);
     rx_next_vtd;
     ret (snd r) }) s"

partial_function (option) rx_loop_vtd :: "u32 \<Rightarrow> u32 \<Rightarrow> mausi \<Rightarrow> (u32 \<times> mausi) option" where
  "rx_loop_vtd maxCount goodPkts s =
     (if rx_status (rxDescArray s ! unat (rxNextDescIndex s)) AND E1000_RXD_STAT_DD \<noteq> 0 \<and> goodPkts < maxCount
      then (case rx_round_vtd s of (good, t) \<Rightarrow> rx_loop_vtd maxCount (if good then goodPkts + 1 else goodPkts) t)
      else Some (goodPkts, s))"

declare rx_loop_vtd.simps [code]

definition rx_remap :: "unit mausiM" where
  "rx_remap = do {
     s \<leftarrow> gets id;
     cwhen (rxCleanedCount s \<noteq> 0) (do {
       rxMapBuffers (rxMapNextIndex s) (rxCleanedCount s) True;
       modify (rxCleanedCount_update (\<lambda>_. 0)) }) }"

definition rxInterruptVTD :: "u32 \<Rightarrow> mausi \<Rightarrow> (u32 \<times> mausi) option" where
  "rxInterruptVTD maxCount s =
     map_option (\<lambda>(goodPkts, s). (goodPkts, snd (run_state rx_remap s))) (rx_loop_vtd maxCount 0 s)"

text \<open>What \<open>clearDescriptors\<close> does under a mapper before it writes the addresses into the descriptors.\<close>

definition clear_rx_maps :: "unit mausiM" where
  "clear_rx_maps = do {
     vtd \<leftarrow> gets useAppleVTD;
     cwhen vtd (do {
       modify (rxMapNextIndex_update (\<lambda>_. 0));
       rxMapBuffers 0 kNumRxMemDesc False;
       ret () }) }"

text \<open>The receive half of \<open>clearDescriptors\<close>, with a mapper or without.\<close>

definition clear_rx_ring :: "unit mausiM" where
  "clear_rx_ring = do { clear_rx_maps; clear_rx }"

subsection \<open>Resources\<close>

definition obtain_resource :: "resource \<Rightarrow> bool mausiM" where
  "obtain_resource r = do {
     ok \<leftarrow> kcall (Obtain r);
     cwhen ok (modify (m_has_update (insert r)));
     ret ok }"

definition discard_resource :: "resource \<Rightarrow> unit mausiM" where
  "discard_resource r = do {
     kcall (Discard r);
     modify (m_has_update (\<lambda>h. h - {r})) }"

text \<open>A step of a set-up, what its error label does, and the steps after it.\<close>

definition try_step :: "bool mausiM \<Rightarrow> bool mausiM \<Rightarrow> bool mausiM \<Rightarrow> bool mausiM" where
  "try_step step error rest = do { ok \<leftarrow> step; if ok then rest else error }"

subsection \<open>The maps of the receive ring\<close>

primrec release_rx_maps :: "nat list \<Rightarrow> unit mausiM" where
  "release_rx_maps [] = ret ()"
| "release_rx_maps (i # is) = do {
     md \<leftarrow> gets (\<lambda>s. rxMemIO s ! i);
     cwhen md (do { kcall (MdComplete (rx_md i)); kcall (MdRelease (rx_md i)); ret () });
     modify (\<lambda>s. s\<lparr>rxMemIO := (rxMemIO s)[i := False]\<rparr>);
     release_rx_maps is }"

definition freeRxMap :: "unit mausiM" where
  "freeRxMap = do {
     h \<leftarrow> gets m_has;
     cwhen (RxMapMem \<in> h) (do {
       release_rx_maps [0..<kNumRxMemDesc];
       discard_resource RxMapMem }) }"

text \<open>The inner loop of \<open>setupRxMap\<close>: \<open>i\<close> is the number of the batch, and the index of the descriptor too.\<close>

primrec setup_rx_addrs :: "nat \<Rightarrow> u64 \<Rightarrow> nat list \<Rightarrow> unit mausiM" where
  "setup_rx_addrs i offset [] = ret ()"
| "setup_rx_addrs i offset (n # ns) = do {
     pa \<leftarrow> gets (\<lambda>s. k_segment (m_kernel s) (m_klog s) (rx_md i) offset);
     modify (\<lambda>s. s\<lparr>rxBufArray := (rxBufArray s)[n := (rxBufArray s ! n)\<lparr>rxb_phyAddr := pa\<rparr>],
       rxDescArray := (rxDescArray s)[i := \<lparr>rd_low = pa, rd_high = 0\<rparr>]\<rparr>);
     setup_rx_addrs i (offset + PAGE_SIZE) ns }"

primrec setup_rx_maps :: "nat list \<Rightarrow> bool mausiM" where
  "setup_rx_maps [] = ret True"
| "setup_rx_maps (i # is) = do {
     let idx = kRxMemBatchSize * i;
     ranges \<leftarrow> gets (batch_ranges idx);
     ok \<leftarrow> kcall (MdAlloc (rx_md i) ranges);
     if \<not> ok then ret False
     else do {
       ok \<leftarrow> kcall (MdPrepare (rx_md i));
       if \<not> ok then do { kcall (MdComplete (rx_md i)); kcall (MdRelease (rx_md i)); ret False }
       else do {
         modify (\<lambda>s. s\<lparr>rxMemIO := (rxMemIO s)[i := True]\<rparr>);
         setup_rx_addrs i 0 (batch_entries idx);
         setup_rx_maps is } } }"

definition setupRxMap :: "bool mausiM" where
  "setupRxMap = try_step (obtain_resource RxMapMem) (ret False) (do {
     modify (\<lambda>s. s\<lparr>rxMemIO := replicate kNumRxMemDesc False,
       rxMemRange := map (\<lambda>b. (k_datastart (m_kernel s) (rxb_mbuf b), PAGE_SIZE)) (rxBufArray s)\<rparr>);
     try_step (setup_rx_maps [0..<kNumRxMemDesc])
       (do {
          release_rx_maps [0..<kNumRxMemDesc];
          discard_resource RxMapMem;
          ret False })
       (ret True) })"

subsection \<open>The receive ring\<close>

text \<open>
  \<open>withCapacity\<close> of the pool. The object is the kernel's to allocate; \<open>mhlen\<close> is what \<open>mbuf_get_mhlen\<close> returns.
\<close>

definition withCapacity :: "u32 \<Rightarrow> u32 \<Rightarrow> u32 \<Rightarrow> bool mausiM" where
  "withCapacity mhlen mbufCapacity clustCapacity =
     try_step (obtain_resource RxPoolObject) (ret False)
       (try_step (initWithCapacity mhlen mbufCapacity clustCapacity)
          (do { free_pool; discard_resource RxPoolObject; ret False })
          (ret True))"

text \<open>The buffers of the ring; \<open>n\<close> are still missing.\<close>

primrec setup_rx_bufs :: "nat \<Rightarrow> bool mausiM" where
  "setup_rx_bufs 0 = ret True"
| "setup_rx_bufs (Suc n) = do {
     m \<leftarrow> getPacket PAGE_SIZE MBUF_WAITOK;
     case m of
         None \<Rightarrow> ret False
       | Some m \<Rightarrow> do {
           modify (\<lambda>s. let pa = (if useAppleVTD s then 0 else k_phys (m_kernel s) m)
             in s\<lparr>rxBufArray := rxBufArray s @ [\<lparr>rxb_mbuf = m, rxb_phyAddr = pa\<rparr>],
                  rxDescArray := (if useAppleVTD s then rxDescArray s
                    else (rxDescArray s)[length (rxBufArray s) := \<lparr>rd_low = pa, rd_high = 0\<rparr>])\<rparr>);
           setup_rx_bufs n } }"

primrec free_rx_bufs :: "intelRxBufferInfo list \<Rightarrow> unit mausiM" where
  "free_rx_bufs [] = ret ()"
| "free_rx_bufs (b # bs) = do { mbuf_freem_list [rxb_mbuf b]; free_rx_bufs bs }"

definition release_rx_bufs :: "unit mausiM" where
  "release_rx_bufs = do {
     bs \<leftarrow> gets rxBufArray;
     free_rx_bufs bs;
     modify (rxBufArray_update (\<lambda>_. [])) }"

text \<open>The error labels, the last one first.\<close>

definition error_rx_desc :: "bool mausiM" where
  "error_rx_desc = do {
     discard_resource RxBufArray;
     modify (rxBufArray_update (\<lambda>_. []));
     ret False }"

definition error_rx_prep :: "bool mausiM" where
  "error_rx_prep = do { discard_resource RxBufDesc; error_rx_desc }"

definition error_rx_dma :: "bool mausiM" where
  "error_rx_dma = do { kcall (CompleteMemory RxBufDesc); error_rx_prep }"

definition error_rx_set :: "bool mausiM" where
  "error_rx_set = do { discard_resource RxDescDmaCmd; error_rx_dma }"

definition error_rx_seg :: "bool mausiM" where
  "error_rx_seg = do { kcall (ClearMemoryDescriptor RxDescDmaCmd); error_rx_set }"

definition error_rx_pool :: "bool mausiM" where
  "error_rx_pool = do { modify (rxPhyAddr_update (\<lambda>_. 0)); error_rx_seg }"

definition error_rx_buf :: "bool mausiM" where
  "error_rx_buf = do { release_rx_bufs; free_pool; discard_resource RxPoolObject; error_rx_pool }"

definition setup_rx_ring :: "unit mausiM" where
  "setup_rx_ring = modify (\<lambda>s. s\<lparr>rxPhyAddr := k_ring (m_kernel s) (m_klog s),
     rxDescArray := replicate kNumRxDesc \<lparr>rd_low = 0, rd_high = 0\<rparr>, rxBufArray := [],
     rxCleanedCount := 0, rxNextDescIndex := 0, rxMapNextIndex := 0\<rparr>)"

definition setup_rx_packets :: "u32 \<Rightarrow> bool mausiM" where
  "setup_rx_packets mhlen =
     try_step (withCapacity mhlen kRxPoolMbufCap kRxPoolClstCap) error_rx_pool
    (try_step (setup_rx_bufs kNumRxDesc) error_rx_buf (do {
       vtd \<leftarrow> gets useAppleVTD;
       if vtd then try_step setupRxMap error_rx_buf (ret True) else ret True }))"

definition setupRxResources :: "u32 \<Rightarrow> bool mausiM" where
  "setupRxResources mhlen =
     try_step (obtain_resource RxBufArray) (ret False)
    (try_step (obtain_resource RxBufDesc) error_rx_desc
    (try_step (kcall (PrepareMemory RxBufDesc)) error_rx_prep
    (try_step (obtain_resource RxDescDmaCmd) error_rx_dma
    (try_step (kcall (SetMemoryDescriptor RxDescDmaCmd)) error_rx_set
    (try_step (kcall (GenSegments RxDescDmaCmd)) error_rx_seg (do {
       setup_rx_ring;
       setup_rx_packets mhlen }))))))"

definition freeRxResources :: "unit mausiM" where
  "freeRxResources = do {
     vtd \<leftarrow> gets useAppleVTD;
     cwhen vtd freeRxMap;
     h \<leftarrow> gets m_has;
     cwhen (RxBufArray \<in> h) release_rx_bufs;
     cwhen (RxPoolObject \<in> h) (do { free_pool; discard_resource RxPoolObject });
     cwhen (RxDescDmaCmd \<in> h) (do { kcall (ClearMemoryDescriptor RxDescDmaCmd); discard_resource RxDescDmaCmd });
     cwhen (RxBufDesc \<in> h) (do {
       kcall (CompleteMemory RxBufDesc);
       discard_resource RxBufDesc;
       modify (rxPhyAddr_update (\<lambda>_. 0)) });
     cwhen (RxBufArray \<in> h) (discard_resource RxBufArray) }"

subsection \<open>The transmit ring\<close>

definition setupTxMap :: "bool mausiM" where
  "setupTxMap = try_step (obtain_resource TxMapMem) (ret False) (do {
     modify (\<lambda>s. s\<lparr>txMemIO := replicate kNumTxMemDesc None, txNextMem2Use := 0, txNextMem2Free := 0,
       txNumFreeMem := kNumTxMemDesc\<rparr>);
     ret True })"

primrec release_tx_maps :: "nat list \<Rightarrow> unit mausiM" where
  "release_tx_maps [] = ret ()"
| "release_tx_maps (i # is) = do {
     md \<leftarrow> gets (\<lambda>s. txMemIO s ! i);
     cwhen (md \<noteq> None) (do {
       kcall (MdComplete i);
       kcall (MdRelease i);
       modify (\<lambda>s. s\<lparr>txMemIO := (txMemIO s)[i := None]\<rparr>) });
     release_tx_maps is }"

definition freeTxMap :: "unit mausiM" where
  "freeTxMap = do {
     h \<leftarrow> gets m_has;
     cwhen (TxMapMem \<in> h) (do {
       release_tx_maps [0..<kNumTxMemDesc];
       discard_resource TxMapMem }) }"

definition error_tx_buf :: "bool mausiM" where
  "error_tx_buf = do {
     discard_resource TxBufArray;
     modify (txBufArray_update (\<lambda>_. []));
     ret False }"

definition error_tx_prep :: "bool mausiM" where
  "error_tx_prep = do { discard_resource TxBufDesc; error_tx_buf }"

definition error_tx_dma :: "bool mausiM" where
  "error_tx_dma = do {
     kcall (CompleteMemory TxBufDesc);
     modify (txDescArray_update (\<lambda>_. []));
     error_tx_prep }"

definition error_tx_set :: "bool mausiM" where
  "error_tx_set = do { discard_resource TxDescDmaCmd; error_tx_dma }"

definition error_tx_seg :: "bool mausiM" where
  "error_tx_seg = do { kcall (ClearMemoryDescriptor TxDescDmaCmd); error_tx_set }"

definition error_tx_cursor :: "bool mausiM" where
  "error_tx_cursor = do { modify (txPhyAddr_update (\<lambda>_. 0)); error_tx_seg }"

definition setup_tx_ring :: "unit mausiM" where
  "setup_tx_ring = modify (\<lambda>s. s\<lparr>txPhyAddr := k_ring (m_kernel s) (m_klog s),
     txDescArray := replicate kNumTxDesc \<lparr>td_buffer_addr = 0, td_lower = 0, td_upper = 0\<rparr>,
     txBufArray := replicate kNumTxDesc \<lparr>txb_mbuf = None, txb_numDescs = 0\<rparr>,
     txNextDescIndex := 0, txDirtyIndex := 0, txCleanBarrierIndex := 0, txNumFreeDesc := kNumTxDesc\<rparr>)"

definition setupTxResources :: "bool mausiM" where
  "setupTxResources =
     try_step (obtain_resource TxBufArray) (ret False)
    (try_step (obtain_resource TxBufDesc) error_tx_buf
    (try_step (kcall (PrepareMemory TxBufDesc)) error_tx_prep
    (try_step (obtain_resource TxDescDmaCmd) error_tx_dma
    (try_step (kcall (SetMemoryDescriptor TxDescDmaCmd)) error_tx_set
    (try_step (kcall (GenSegments TxDescDmaCmd)) error_tx_seg (do {
       setup_tx_ring;
       vtd \<leftarrow> gets useAppleVTD;
       try_step (if vtd then setupTxMap else obtain_resource TxMbufCursor) error_tx_cursor (ret True) }))))))"

definition freeTxResources :: "unit mausiM" where
  "freeTxResources = do {
     vtd \<leftarrow> gets useAppleVTD;
     cwhen vtd freeTxMap;
     h \<leftarrow> gets m_has;
     cwhen (TxDescDmaCmd \<in> h) (do { kcall (ClearMemoryDescriptor TxDescDmaCmd); discard_resource TxDescDmaCmd });
     cwhen (TxBufDesc \<in> h) (do {
       kcall (CompleteMemory TxBufDesc);
       discard_resource TxBufDesc;
       modify (\<lambda>s. s\<lparr>txDescArray := [], txPhyAddr := 0\<rparr>) });
     cwhen (TxBufArray \<in> h) (do { discard_resource TxBufArray; modify (txBufArray_update (\<lambda>_. [])) });
     cwhen (TxMbufCursor \<in> h) (discard_resource TxMbufCursor) }"

subsection \<open>Start and stop\<close>

text \<open>
  The rings in \<open>start\<close>; \<open>others\<close> is whether the event sources and the interface, which come after them,
  succeed. Then the rings in \<open>stop\<close>.
\<close>

definition start_rings :: "u32 \<Rightarrow> bool \<Rightarrow> bool mausiM" where
  "start_rings mhlen others = do {
     ok \<leftarrow> setupRxResources mhlen;
     if \<not> ok then ret False
     else do {
       ok \<leftarrow> setupTxResources;
       if \<not> ok then do { freeRxResources; ret False }
       else if \<not> others then do { freeTxResources; freeRxResources; ret False }
       else ret True } }"

definition stop_rings :: "unit mausiM" where
  "stop_rings = do { freeTxResources; freeRxResources }"

end
