(* ===== verification/VtdProps.thy ===== *)
theory VtdProps
  imports RxProps Vtd
begin

section \<open>Receiving through an I/O mapper: the interrupt\<close>

text \<open>
  Mapping a batch, the loop over the batches, and the receive interrupt: an invariant of the ring with the
  batches not yet mapped again, the number of batches an interrupt completes and the number of those it maps.
\<close>

subsection \<open>A batch mapped\<close>

text \<open>
  An entry with a bus address has the address of its buffer in the range its memory descriptor is made from; an
  entry without one gets it when its batch is mapped.
\<close>

definition ranges_ok :: "mausi \<Rightarrow> bool" where
  "ranges_ok s \<longleftrightarrow> (\<forall>q < 512. rxb_phyAddr (rxBufArray s ! q) \<noteq> 0 \<longrightarrow>
     fst (rxMemRange s ! q) = k_datastart (m_kernel s) (rxb_mbuf (rxBufArray s ! q)))"

definition mapped :: "mausi \<Rightarrow> nat \<Rightarrow> bool" where
  "mapped s q \<longleftrightarrow> rxDescArray s ! q = given_back (rxb_phyAddr (rxBufArray s ! q)) \<and>
     fst (rxMemRange s ! q) = k_datastart (m_kernel s) (rxb_mbuf (rxBufArray s ! q))"

definition vtd_sizes :: "mausi \<Rightarrow> bool" where
  "vtd_sizes s \<longleftrightarrow> length (rxDescArray s) = 512 \<and> length (rxBufArray s) = 512 \<and> length (rxMemRange s) = 512"

text \<open>What mapping the entries in \<open>Q\<close> keeps.\<close>

definition map_frame :: "nat set \<Rightarrow> mausi \<Rightarrow> mausi \<Rightarrow> bool" where
  "map_frame Q s t \<longleftrightarrow> m_kernel t = m_kernel s \<and> rxPool t = rxPool s \<and> rxPacket t = rxPacket s \<and>
     rxNextDescIndex t = rxNextDescIndex s \<and> rxCleanedCount t = rxCleanedCount s \<and> useAppleVTD t = useAppleVTD s \<and>
     map rxb_mbuf (rxBufArray t) = map rxb_mbuf (rxBufArray s) \<and> length (rxDescArray t) = length (rxDescArray s) \<and>
     length (rxMemRange t) = length (rxMemRange s) \<and>
     (\<forall>st. in_use (m_kernel s) st (m_klog t) = in_use (m_kernel s) st (m_klog s) \<and>
       calls_ok (m_kernel s) st (m_klog t) = calls_ok (m_kernel s) st (m_klog s)) \<and>
     (\<forall>q. q \<notin> Q \<longrightarrow> rxBufArray t ! q = rxBufArray s ! q \<and> rxDescArray t ! q = rxDescArray s ! q \<and> (mapped s q \<longrightarrow> mapped t q)) \<and>
     (vtd_sizes s \<and> ranges_ok s \<longrightarrow> ranges_ok t)"

lemma map_frame_refl: "map_frame Q s s"
  by (simp add: map_frame_def)

lemma map_frame_trans: "map_frame P s t \<Longrightarrow> map_frame Q t u \<Longrightarrow> map_frame (P \<union> Q) s u"
  unfolding map_frame_def vtd_sizes_def by (metis UnCI length_map)

lemma map_frame_books: "map_frame Q s t \<Longrightarrow> books start extra t = books start extra s"
  by (simp add: map_frame_def books_def ring_bufs_def)

lemma map_frame_sizes: "map_frame Q s t \<Longrightarrow> vtd_sizes t = vtd_sizes s"
  unfolding map_frame_def vtd_sizes_def by (metis length_map)

lemma rx_new_ranges_run:
  "\<exists>rs. run_state (rx_new_ranges is) s = ((), s\<lparr>rxMemRange := rs\<rparr>) \<and> length rs = length (rxMemRange s) \<and>
    (\<forall>q. q \<notin> set is \<or> rxb_phyAddr (rxBufArray s ! q) \<noteq> 0 \<longrightarrow> rs ! q = rxMemRange s ! q) \<and>
    (\<forall>q \<in> set is. q < length rs \<and> rxb_phyAddr (rxBufArray s ! q) = 0 \<longrightarrow>
       fst (rs ! q) = k_datastart (m_kernel s) (rxb_mbuf (rxBufArray s ! q)))"
proof (induction "is" arbitrary: s)
  case Nil
  show ?case by (intro exI [of _ "rxMemRange s"]) simp
next
  case (Cons i "is")
  let ?rs = "if rxb_phyAddr (rxBufArray s ! i) = 0
    then (rxMemRange s)[i := (k_datastart (m_kernel s) (rxb_mbuf (rxBufArray s ! i)), snd (rxMemRange s ! i))] else rxMemRange s"
  let ?s = "s\<lparr>rxMemRange := ?rs\<rparr>"
  obtain rs where r: "run_state (rx_new_ranges is) ?s = ((), ?s\<lparr>rxMemRange := rs\<rparr>)" "length rs = length ?rs"
    "\<forall>q. q \<notin> set is \<or> rxb_phyAddr (rxBufArray s ! q) \<noteq> 0 \<longrightarrow> rs ! q = ?rs ! q"
    "\<forall>q \<in> set is. q < length rs \<and> rxb_phyAddr (rxBufArray s ! q) = 0 \<longrightarrow>
       fst (rs ! q) = k_datastart (m_kernel s) (rxb_mbuf (rxBufArray s ! q))"
    using Cons.IH [of ?s] by auto
  have run: "run_state (rx_new_ranges (i # is)) s = ((), s\<lparr>rxMemRange := rs\<rparr>)"
    using r(1) by (simp split: if_splits)
  have at: "fst (rs ! i) = k_datastart (m_kernel s) (rxb_mbuf (rxBufArray s ! i))"
    if "i < length rs" "rxb_phyAddr (rxBufArray s ! i) = 0"
  proof (cases "i \<in> set is")
    case False
    then show ?thesis using that r(2,3) by simp
  qed (use r(4) that in blast)
  have old: "?rs ! q = rxMemRange s ! q" if "q \<noteq> i \<or> rxb_phyAddr (rxBufArray s ! q) \<noteq> 0" for q
    using that by (cases "q = i") auto
  have "rs ! q = rxMemRange s ! q" if "q \<notin> set (i # is) \<or> rxb_phyAddr (rxBufArray s ! q) \<noteq> 0" for q
    using r(3) old [of q] that by (cases "q = i") auto
  moreover have "fst (rs ! q) = k_datastart (m_kernel s) (rxb_mbuf (rxBufArray s ! q))"
    if "q \<in> set (i # is)" "q < length rs" "rxb_phyAddr (rxBufArray s ! q) = 0" for q
    using r(4) at that by auto
  moreover have "length rs = length (rxMemRange s)" using r(2) by (simp split: if_splits)
  ultimately show ?case using run by blast
qed

lemma rx_new_addrs_run:
  "\<exists>bs ds. run_state (rx_new_addrs md offset is) s = ((), s\<lparr>rxBufArray := bs, rxDescArray := ds\<rparr>) \<and>
    map rxb_mbuf bs = map rxb_mbuf (rxBufArray s) \<and> length ds = length (rxDescArray s) \<and>
    (\<forall>q. q \<notin> set is \<longrightarrow> bs ! q = rxBufArray s ! q \<and> ds ! q = rxDescArray s ! q) \<and>
    (\<forall>q \<in> set is. q < length bs \<and> q < length ds \<longrightarrow> ds ! q = given_back (rxb_phyAddr (bs ! q)))"
proof (induction "is" arbitrary: s offset)
  case Nil
  show ?case by (intro exI [of _ "rxBufArray s"] exI [of _ "rxDescArray s"]) simp
next
  case (Cons i "is")
  let ?pa = "k_segment (m_kernel s) (m_klog s) md offset"
  let ?bs = "(rxBufArray s)[i := (rxBufArray s ! i)\<lparr>rxb_phyAddr := ?pa\<rparr>]"
  let ?ds = "(rxDescArray s)[i := \<lparr>rd_low = ?pa, rd_high = 0\<rparr>]"
  let ?s = "s\<lparr>rxBufArray := ?bs, rxDescArray := ?ds\<rparr>"
  obtain bs ds where r: "run_state (rx_new_addrs md (offset + PAGE_SIZE) is) ?s = ((), ?s\<lparr>rxBufArray := bs, rxDescArray := ds\<rparr>)"
    "map rxb_mbuf bs = map rxb_mbuf ?bs" "length ds = length ?ds"
    "\<forall>q. q \<notin> set is \<longrightarrow> bs ! q = ?bs ! q \<and> ds ! q = ?ds ! q"
    "\<forall>q \<in> set is. q < length bs \<and> q < length ds \<longrightarrow> ds ! q = given_back (rxb_phyAddr (bs ! q))"
    using Cons.IH [of "offset + PAGE_SIZE" ?s] by auto
  have mb: "map rxb_mbuf ?bs = map rxb_mbuf (rxBufArray s)"
    by (metis intelRxBufferInfo.select_convs(1) intelRxBufferInfo.surjective intelRxBufferInfo.update_convs(2)
        list_update_beyond list_update_id map_update not_le_imp_less nth_map)
  have len: "length bs = length (rxBufArray s)" using r(2) by (metis length_list_update length_map)
  have at: "ds ! i = given_back (rxb_phyAddr (bs ! i))" if "i < length bs" "i < length ds"
  proof (cases "i \<in> set is")
    case False
    then show ?thesis using that r(3,4) len by (simp add: given_back_def)
  qed (use r(5) that in blast)
  show ?case
    by (rule exI [of _ bs], rule exI [of _ ds], intro conjI)
      (use r mb at in \<open>auto simp: nth_list_update\<close>)
qed

text \<open>Kernels that grant, or refuse, every mapping.\<close>

definition maps_all :: "kernel \<Rightarrow> bool" where
  "maps_all k \<longleftrightarrow> (\<forall>l md rs. k_ok k l (MdInit md rs) \<and> k_ok k l (MdPrepare md))"

definition maps_none :: "kernel \<Rightarrow> bool" where
  "maps_none k \<longleftrightarrow> (\<forall>l md. \<not> k_ok k l (MdPrepare md))"

lemma rx_map_batch_run:
  assumes sz: "vtd_sizes s" and ok: "ranges_ok s" and ix: "unat index + 16 \<le> 512"
  defines "Q \<equiv> set (batch_entries (unat index))"
  shows "\<exists>r t. run_state (rx_map_batch index) s = (r, t) \<and> m_hw t = m_hw s \<and> map_frame (if r then Q else {}) s t \<and>
    (r \<longrightarrow> (\<forall>q \<in> Q. mapped t q)) \<and> rxMapNextIndex t = (if r then (index + 16) AND 511 else rxMapNextIndex s) \<and>
    (maps_all (m_kernel s) \<longrightarrow> r) \<and> (maps_none (m_kernel s) \<longrightarrow> \<not> r)"
proof -
  let ?is = "batch_entries (unat index)" and ?md = "rx_md (unat (drop_bit 4 index))" and ?k = "m_kernel s"
  let ?s = "s\<lparr>m_klog := MdComplete ?md # m_klog s\<rparr>"
  obtain rs where r: "run_state (rx_new_ranges ?is) ?s = ((), ?s\<lparr>rxMemRange := rs\<rparr>)" "length rs = length (rxMemRange s)"
    "\<forall>q. q \<notin> set ?is \<or> rxb_phyAddr (rxBufArray s ! q) \<noteq> 0 \<longrightarrow> rs ! q = rxMemRange s ! q"
    "\<forall>q \<in> set ?is. q < length rs \<and> rxb_phyAddr (rxBufArray s ! q) = 0 \<longrightarrow>
       fst (rs ! q) = k_datastart ?k (rxb_mbuf (rxBufArray s ! q))"
    using rx_new_ranges_run [of ?is ?s] by auto
  let ?init = "MdInit ?md (batch_ranges (unat index) (?s\<lparr>rxMemRange := rs\<rparr>))"
  let ?t1 = "s\<lparr>rxMemRange := rs, m_klog := ?init # MdComplete ?md # m_klog s\<rparr>"
  let ?t2 = "s\<lparr>rxMemRange := rs, m_klog := MdPrepare ?md # m_klog ?t1\<rparr>"
  have good: "fst (rs ! q) = k_datastart ?k (rxb_mbuf (rxBufArray s ! q))" if "q \<in> Q" for q
  proof -
    have "q < 512" using that ix by (auto simp: Q_def batch_entries_def)
    then show ?thesis using that r(2-4) ok sz by (cases "rxb_phyAddr (rxBufArray s ! q) = 0") (auto simp: Q_def ranges_ok_def vtd_sizes_def)
  qed
  have rok: "ranges_ok (s\<lparr>rxMemRange := rs, m_klog := l\<rparr>)" for l
    using ok good r(3) by (auto simp: ranges_ok_def Q_def)
  have keep: "mapped (s\<lparr>rxMemRange := rs, m_klog := l\<rparr>) q" if "mapped s q" for q l
    using that good r(3) by (cases "q \<in> Q") (auto simp: mapped_def Q_def)
  have part: "map_frame {} s (s\<lparr>rxMemRange := rs, m_klog := l\<rparr>)"
    if "\<And>st. in_use ?k st l = in_use ?k st (m_klog s) \<and> calls_ok ?k st l = calls_ok ?k st (m_klog s)" for l
    using that r(2) rok keep by (simp add: map_frame_def)
  consider (init) "\<not> k_ok ?k (MdComplete ?md # m_klog s) ?init"
    | (prepare) "k_ok ?k (MdComplete ?md # m_klog s) ?init" "\<not> k_ok ?k (m_klog ?t1) (MdPrepare ?md)"
    | (all) "k_ok ?k (MdComplete ?md # m_klog s) ?init" "k_ok ?k (m_klog ?t1) (MdPrepare ?md)" by blast
  then show ?thesis
  proof cases
    case init
    then have "run_state (rx_map_batch index) s = (False, ?t1)" using r(1) by (simp add: rx_map_batch_def Let_def kcall_def)
    then show ?thesis using init part by (intro exI conjI) (assumption, auto simp: maps_all_def)
  next
    case prepare
    then have "run_state (rx_map_batch index) s = (False, ?t2)" using r(1) by (simp add: rx_map_batch_def Let_def kcall_def)
    then show ?thesis using prepare part by (intro exI conjI) (assumption, auto simp: maps_all_def)
  next
    case all
    obtain bs ds where a: "run_state (rx_new_addrs ?md 0 ?is) ?t2 = ((), ?t2\<lparr>rxBufArray := bs, rxDescArray := ds\<rparr>)"
      "map rxb_mbuf bs = map rxb_mbuf (rxBufArray s)" "length ds = length (rxDescArray s)"
      "\<forall>q. q \<notin> set ?is \<longrightarrow> bs ! q = rxBufArray s ! q \<and> ds ! q = rxDescArray s ! q"
      "\<forall>q \<in> set ?is. q < length bs \<and> q < length ds \<longrightarrow> ds ! q = given_back (rxb_phyAddr (bs ! q))"
      using rx_new_addrs_run [of ?md 0 ?is ?t2] by auto
    let ?t = "?t2\<lparr>rxBufArray := bs, rxDescArray := ds, rxMapNextIndex := (index + 16) AND 511\<rparr>"
    have run: "run_state (rx_map_batch index) s = (True, ?t)" using r(1) all a(1) by (simp add: rx_map_batch_def Let_def kcall_def)
    have len: "length bs = 512" using a(2) sz by (metis length_map vtd_sizes_def)
    have mb: "rxb_mbuf (bs ! q) = rxb_mbuf (rxBufArray s ! q)" if "q < 512" for q
      using a(2) that len sz by (metis length_map nth_map vtd_sizes_def)
    have m: "mapped ?t q" if "q \<in> Q" for q
    proof -
      have "q < 512" using that ix by (auto simp: Q_def batch_entries_def)
      then show ?thesis using that a(3,5) mb good sz len by (auto simp: mapped_def Q_def vtd_sizes_def)
    qed
    have "ranges_ok ?t"
      unfolding ranges_ok_def
    proof (intro allI impI)
      fix q assume q: "q < 512" "rxb_phyAddr (rxBufArray ?t ! q) \<noteq> 0"
      show "fst (rxMemRange ?t ! q) = k_datastart (m_kernel ?t) (rxb_mbuf (rxBufArray ?t ! q))"
        using m [of q] rok [of "m_klog s"] q a(4) by (cases "q \<in> Q") (auto simp: mapped_def ranges_ok_def Q_def)
    qed
    then have "map_frame Q s ?t"
      using a(2-4) r(2) keep by (auto simp: map_frame_def Q_def mapped_def)
    then show ?thesis using run all m by (intro exI conjI) (assumption, auto simp: maps_none_def)
  qed
qed

subsection \<open>The loop over the batches\<close>

lemma map_frame_hw [simp]:
  "map_frame Q s (t\<lparr>m_hw := h\<rparr>) = map_frame Q s t" "map_frame Q s (t\<lparr>forceReset := f\<rparr>) = map_frame Q s t"
  "mapped (t\<lparr>m_hw := h\<rparr>) q = mapped t q" "mapped (t\<lparr>forceReset := f\<rparr>) q = mapped t q"
  by (simp_all add: map_frame_def mapped_def ranges_ok_def)

lemma vtd_sizes_hw [simp]:
  "vtd_sizes (t\<lparr>m_hw := h\<rparr>) = vtd_sizes t" "vtd_sizes (t\<lparr>forceReset := f\<rparr>) = vtd_sizes t"
  "ranges_ok (t\<lparr>m_hw := h\<rparr>) = ranges_ok t" "ranges_ok (t\<lparr>forceReset := f\<rparr>) = ranges_ok t"
  by (simp_all add: vtd_sizes_def ranges_ok_def)

lemma map_frame_ranges: "map_frame Q s t \<Longrightarrow> vtd_sizes s \<Longrightarrow> ranges_ok s \<Longrightarrow> ranges_ok t"
  by (simp add: map_frame_def)

lemma batch_positions:
  assumes "16 dvd i" "i < 512"
  shows "set (batch_entries i) = ring_pos i ` {..<16}" "i + 16 \<le> 512"
proof -
  show i: "i + 16 \<le> 512" using assms by presburger
  show "set (batch_entries i) = ring_pos i ` {..<16}"
  proof (intro set_eqI iffI)
    fix q assume "q \<in> set (batch_entries i)"
    then have "q = ring_pos i (q - i)" "q - i < 16" using i by (auto simp: batch_entries_def ring_pos_def)
    then show "q \<in> ring_pos i ` {..<16}" by blast
  qed (use i in \<open>auto simp: batch_entries_def ring_pos_def\<close>)
qed

lemma next_batch: "unat index < 512 \<Longrightarrow> unat ((index + 16) AND 511 :: u16) = ring_pos (unat index) 16"
  by (simp add: and_511 ring_pos_def unat_word_ariths)

lemma ring_pos_dvd: "16 dvd d \<Longrightarrow> 16 dvd j \<Longrightarrow> 16 dvd ring_pos d j"
  by (simp add: ring_pos_def dvd_mod)

lemma rx_map_loop_run:
  assumes "vtd_sizes s" "ranges_ok s" "unat index < 512" "16 dvd unat index" "rxMapNextIndex s = index" "16 * n \<le> 512"
  shows "\<exists>k r t. run_state (rx_map_loop n index update) s = (r, t) \<and> k \<le> n \<and>
    map_frame (ring_pos (unat index) ` {..<16 * k}) s t \<and> (\<forall>j < 16 * k. mapped t (ring_pos (unat index) j)) \<and>
    unat (rxMapNextIndex t) = ring_pos (unat index) (16 * k) \<and>
    (maps_all (m_kernel s) \<longrightarrow> k = n) \<and> (maps_none (m_kernel s) \<longrightarrow> k = 0)"
  using assms
proof (induction n arbitrary: s index)
  case 0
  then show ?case by (intro exI [of _ 0] exI [of _ index] exI [of _ s]) (simp add: map_frame_refl)
next
  case (Suc n)
  let ?i = "unat index" and ?next = "(index + 16) AND 511 :: u16"
  note pos = batch_positions [OF Suc.prems(4,3)]
  obtain ok t where b: "run_state (rx_map_batch index) s = (ok, t)" "m_hw t = m_hw s"
    "map_frame (if ok then ring_pos ?i ` {..<16} else {}) s t" "ok \<longrightarrow> (\<forall>q \<in> ring_pos ?i ` {..<16}. mapped t q)"
    "rxMapNextIndex t = (if ok then ?next else rxMapNextIndex s)" "maps_all (m_kernel s) \<longrightarrow> ok" "maps_none (m_kernel s) \<longrightarrow> \<not> ok"
    using rx_map_batch_run [OF Suc.prems(1,2) pos(2)] unfolding pos(1) by blast
  show ?case
  proof (cases ok)
    case False
    then show ?thesis using b Suc.prems(3,5)
      by (intro exI [of _ 0] exI [of _ index] exI [of _ t]) simp
  next
    case True
    define u where "u = (if update then snd (run_state (rx_tail (ucast index + 15)) t) else t)"
    obtain es f where tail: "run_state (rx_tail (ucast index + 15)) t = ((), t\<lparr>m_hw := after (m_hw t) es, forceReset := f\<rparr>)"
      using update_rx_tail_run by blast
    have u: "map_frame (ring_pos ?i ` {..<16}) s u" "\<forall>q \<in> ring_pos ?i ` {..<16}. mapped u q" "rxMapNextIndex u = ?next"
      using b True by (simp_all add: u_def tail)
    have k: "m_kernel u = m_kernel s" using u(1) by (simp add: map_frame_def)
    have next_ix: "unat ?next = ring_pos ?i 16" by (rule next_batch [OF Suc.prems(3)])
    obtain k r v where v: "run_state (rx_map_loop n ?next update) u = (r, v)" "k \<le> n"
      "map_frame (ring_pos (unat ?next) ` {..<16 * k}) u v" "\<forall>j < 16 * k. mapped v (ring_pos (unat ?next) j)"
      "unat (rxMapNextIndex v) = ring_pos (unat ?next) (16 * k)"
      "maps_all (m_kernel u) \<longrightarrow> k = n" "maps_none (m_kernel u) \<longrightarrow> k = 0"
      using Suc.IH [of u ?next] u Suc.prems map_frame_sizes [OF u(1)] map_frame_ranges [OF u(1)] ring_pos_dvd next_ix
      by (metis (no_types, lifting) add_leD2 dvd_refl mult_Suc_right ring_pos_simps(3))
    have run: "run_state (rx_map_loop (Suc n) index update) s = (r, v)"
      using b(1) v(1) True tail by (simp add: u_def split: if_splits)
    have later: "ring_pos (unat ?next) ` {..<16 * k} = ring_pos ?i ` {16..<16 * Suc k}"
    proof -
      have "ring_pos (unat ?next) j = ring_pos ?i (16 + j)" for j using next_ix by simp
      moreover have "{16..<16 * Suc k} = (+) 16 ` {..<16 * k}" using image_add_atLeastLessThan [of 16 0 "16 * k"] by (simp add: lessThan_atLeast0 add.commute)
      ultimately show ?thesis by (simp add: image_image)
    qed
    have "ring_pos ?i ` {..<16} \<union> ring_pos (unat ?next) ` {..<16 * k} = ring_pos ?i ` {..<16 * Suc k}"
      unfolding later image_Un [symmetric] by (rule arg_cong [of _ _ "image (ring_pos ?i)"]) auto
    then have frame: "map_frame (ring_pos ?i ` {..<16 * Suc k}) s v"
      using map_frame_trans [OF u(1) v(3)] by simp
    have "mapped v (ring_pos ?i j)" if j: "j < 16 * Suc k" for j
    proof (cases "j < 16")
      case False
      then have "ring_pos ?i j = ring_pos (unat ?next) (j - 16)" "j - 16 < 16 * k" using next_ix j by simp_all
      then show ?thesis using v(4) by simp
    next
      case first: True
      have "ring_pos ?i j \<notin> ring_pos ?i ` {16..<16 * Suc k}"
        using first v(2) Suc.prems(6) by (auto dest!: ring_pos_inj [rotated 2])
      then have "ring_pos ?i j \<notin> ring_pos (unat ?next) ` {..<16 * k}" unfolding later .
      moreover have "mapped u (ring_pos ?i j)" using u(2) first by blast
      ultimately show ?thesis using v(3) by (simp add: map_frame_def)
    qed
    moreover have "unat (rxMapNextIndex v) = ring_pos ?i (16 * Suc k)" using v(5) next_ix by simp
    ultimately show ?thesis using run frame v(2,6,7) k True b(7)
      by (intro exI [of _ "Suc k"] exI [of _ r] exI [of _ v]) auto
  qed
qed

subsection \<open>The interrupt\<close>

text \<open>
  How many descriptors have been handled and not mapped again, and in how many whole batches; the descriptor at
  which the tail register points.
\<close>

definition behind :: "mausi \<Rightarrow> nat" where
  "behind s = (unat (rxNextDescIndex s) + 512 - unat (rxMapNextIndex s)) mod 512"

definition lag :: "mausi \<Rightarrow> nat" where "lag s = behind s div 16"

definition tail_pos :: "mausi \<Rightarrow> nat" where "tail_pos s = ring_pos (unat (rxMapNextIndex s)) 511"

text \<open>The invariant; while the loop runs the batches completed are counted.\<close>

definition vtd_ready :: "mbuf multiset \<Rightarrow> mausi \<Rightarrow> bool" where
  "vtd_ready start s \<longleftrightarrow> vtd_sizes s \<and> ranges_ok s \<and> unat (rxNextDescIndex s) < 512 \<and> unat (rxMapNextIndex s) < 512 \<and>
     16 dvd unat (rxMapNextIndex s) \<and> pool_ok (rxPool s) \<and> books start {#} s \<and>
     \<not> filled (rxDescArray s ! tail_pos s) \<and> unat (rxCleanedCount s) \<le> lag s"

lemma next_behind:
  assumes "unat (rxNextDescIndex s) < 512" "unat (rxMapNextIndex s) < 512"
  shows "unat (rxNextDescIndex s) = ring_pos (unat (rxMapNextIndex s)) (behind s)" "behind s < 512"
  using assms by (auto simp: behind_def ring_pos_def mod_add_right_eq)

lemma behind_at:
  assumes "unat (rxNextDescIndex s) = ring_pos (unat (rxMapNextIndex s)) b" "unat (rxMapNextIndex s) < 512" "b < 512"
  shows "behind s = b"
proof -
  have n: "unat (rxNextDescIndex s) < 512" using assms(1) by simp
  have "ring_pos (unat (rxMapNextIndex s)) (behind s) = ring_pos (unat (rxMapNextIndex s)) b"
    using next_behind(1) [OF n assms(2)] assms(1) by simp
  then show ?thesis using ring_pos_inj [OF next_behind(2) [OF n assms(2)] assms(3)] by simp
qed

lemma and_15: "unat (w AND 15 :: u16) = unat w mod 16"
proof -
  have "(15 :: u16) = mask 4" by (simp add: mask_eq_exp_minus_1)
  then show ?thesis by (simp only: take_bit_eq_mask [symmetric] unsigned_take_bit_eq) (simp add: take_bit_eq_mod)
qed

lemma cleaned_simps [simp]:
  "vtd_sizes (t\<lparr>rxCleanedCount := c\<rparr>) = vtd_sizes t" "ranges_ok (t\<lparr>rxCleanedCount := c\<rparr>) = ranges_ok t"
  "books start extra (t\<lparr>rxCleanedCount := c\<rparr>) = books start extra t" "tail_pos (t\<lparr>rxCleanedCount := c\<rparr>) = tail_pos t"
  "behind (t\<lparr>rxCleanedCount := c\<rparr>) = behind t" "mapped (t\<lparr>rxCleanedCount := c\<rparr>) q = mapped t q"
  by (simp_all add: vtd_sizes_def ranges_ok_def books_def ring_bufs_def tail_pos_def behind_def mapped_def)

lemma vtd_round_run:
  assumes ready: "vtd_ready start s" and at: "filled (rxDescArray s ! unat (rxNextDescIndex s))"
  shows "\<exists>g t. rx_round_vtd s = (g, t) \<and> vtd_ready start t \<and> behind t = Suc (behind s) \<and> m_kernel t = m_kernel s \<and>
    m_hw t = m_hw s \<and> rxDescArray t = rxDescArray s \<and> rxMapNextIndex t = rxMapNextIndex s \<and>
    unat (rxCleanedCount t) + lag s = unat (rxCleanedCount s) + lag t"
proof -
  let ?i = "unat (rxNextDescIndex s)" and ?b = "behind s" and ?m = "unat (rxMapNextIndex s)"
  have r: "vtd_sizes s" "ranges_ok s" "?i < 512" "?m < 512" "16 dvd ?m" "pool_ok (rxPool s)" "books start {#} s"
    "\<not> filled (rxDescArray s ! tail_pos s)" "unat (rxCleanedCount s) \<le> lag s"
    using ready by (simp_all add: vtd_ready_def)
  have len: "?i < length (rxBufArray s)" using r(1,3) by (simp add: vtd_sizes_def)
  obtain p t where p: "run_state (rx_packet ?i (\<lambda>_ _. 0)) s = (p, t)" "rx_moved start s t"
    "rxBufArray t \<in> insert (rxBufArray s) (range (\<lambda>b. (rxBufArray s)[?i := \<lparr>rxb_mbuf = b, rxb_phyAddr = 0\<rparr>]))"
    using rx_packet_any [OF len r(6,7), of "\<lambda>_ _. 0"] by blast
  have f: "rx_frame s t" "pool_ok (rxPool t)" "books start {#} t" using p(2) by (simp_all add: rx_moved_def)
  let ?c = "if rxNextDescIndex t AND 15 = 15 then rxCleanedCount t + 1 else rxCleanedCount t"
  let ?t = "t\<lparr>rxCleanedCount := ?c, rxNextDescIndex := (rxNextDescIndex t + 1) AND 511\<rparr>"
  have run: "rx_round_vtd s = (snd p, ?t)" using p(1) by (simp add: rx_round_vtd_def rx_next_vtd_def)
  have same: "rxNextDescIndex t = rxNextDescIndex s" "rxMapNextIndex t = rxMapNextIndex s" "rxDescArray t = rxDescArray s"
    "rxCleanedCount t = rxCleanedCount s" "m_kernel t = m_kernel s" "m_hw t = m_hw s" "rxMemRange t = rxMemRange s"
    using f(1) by (simp_all add: rx_frame_def)
  note nb = next_behind [OF r(3,4)]
  have "?b \<noteq> 511" using at r(8) nb(1) by (auto simp: tail_pos_def)
  with nb(2) have b: "Suc ?b < 512" by simp
  have "ring_ix (rxNextDescIndex t)" using r(3) same(1) by (simp add: ring_ix_def)
  then have nx: "unat (rxNextDescIndex ?t) = ring_pos ?m (Suc ?b)" using ring_step same(1) nb(1) by simp
  have beh: "behind ?t = Suc ?b" using behind_at [of ?t "Suc ?b"] nx b r(4) same(2) by simp
  have cleaned: "unat (rxCleanedCount ?t) + lag s = unat (rxCleanedCount s) + lag ?t"
  proof -
    have "?i mod 16 = ?b mod 16"
    proof -
      have "?i mod 16 = (?m + ?b) mod 16" unfolding nb(1) ring_pos_def by (simp add: mod_mod_cancel)
      then show ?thesis using r(5) by (metis add.right_neutral dvd_eq_mod_eq_0 mod_add_left_eq add_0)
    qed
    then have "rxNextDescIndex s AND 15 = 15 \<longleftrightarrow> ?b mod 16 = 15"
      by (simp add: word_unat_eq_iff and_15)
    moreover have "Suc ?b div 16 = (if ?b mod 16 = 15 then Suc (?b div 16) else ?b div 16)" by (simp add: div_Suc) presburger
    moreover have "unat (rxCleanedCount s + 1) = Suc (unat (rxCleanedCount s))"
      using r(9) b by (simp add: lag_def unat_word_ariths)
    ultimately show ?thesis using same beh by (simp add: lag_def)
  qed
  have "ranges_ok ?t"
    unfolding ranges_ok_def
  proof (intro allI impI)
    fix q assume q: "q < 512" "rxb_phyAddr (rxBufArray ?t ! q) \<noteq> 0"
    have "rxBufArray t ! q = rxBufArray s ! q" using p(3) q(2) len by (cases "q = ?i") auto
    then show "fst (rxMemRange ?t ! q) = k_datastart (m_kernel ?t) (rxb_mbuf (rxBufArray ?t ! q))"
      using r(2) q same by (simp add: ranges_ok_def)
  qed
  moreover have "length (rxBufArray t) = length (rxBufArray s)" using f(1) by (simp add: rx_frame_def)
  ultimately have "vtd_ready start ?t"
    using r nx same f(2,3) cleaned by (simp add: vtd_ready_def vtd_sizes_def tail_pos_def books_def ring_bufs_def)
  then show ?thesis using run beh cleaned same by (intro exI conjI) (assumption, simp_all)
qed

lemma vtd_loop_run:
  assumes "vtd_ready start s" and "unat good + 511 < 2 ^ 32 + behind s"
  shows "\<exists>g t. rx_loop_vtd maxCount good s = Some (g, t) \<and> vtd_ready start t \<and> behind s \<le> behind t \<and> m_kernel t = m_kernel s \<and>
    m_hw t = m_hw s \<and> rxDescArray t = rxDescArray s \<and> rxMapNextIndex t = rxMapNextIndex s \<and>
    unat (rxCleanedCount t) + lag s = unat (rxCleanedCount s) + lag t \<and>
    unat g \<le> unat good + (behind t - behind s) \<and>
    (filled (rxDescArray t ! unat (rxNextDescIndex t)) \<longrightarrow> maxCount \<le> g)"
  using assms
proof (induction "511 - behind s" arbitrary: s good)
  case (0 s)
  have "behind s = 511" using 0 next_behind(2) [of s] by (simp add: vtd_ready_def)
  then have "\<not> filled (rxDescArray s ! unat (rxNextDescIndex s))"
    using 0(2) next_behind(1) [of s] by (simp add: vtd_ready_def tail_pos_def)
  then show ?case using 0(2) by (subst rx_loop_vtd.simps) (simp add: filled_def)
next
  case (Suc n s)
  show ?case
  proof (cases "filled (rxDescArray s ! unat (rxNextDescIndex s)) \<and> good < maxCount")
    case False
    then have "rx_loop_vtd maxCount good s = Some (good, s)" by (subst rx_loop_vtd.simps) (auto simp: filled_def)
    then show ?thesis using Suc.prems(1) False by (intro exI conjI) (assumption, auto)
  next
    case True
    obtain g t where r: "rx_round_vtd s = (g, t)" "vtd_ready start t" "behind t = Suc (behind s)" "m_kernel t = m_kernel s"
      "m_hw t = m_hw s" "rxDescArray t = rxDescArray s" "rxMapNextIndex t = rxMapNextIndex s"
      "unat (rxCleanedCount t) + lag s = unat (rxCleanedCount s) + lag t"
      using vtd_round_run [OF Suc.prems(1)] True by blast
    let ?good = "if g then good + 1 else good"
    have g: "unat ?good \<le> Suc (unat good)" by (simp add: unat_word_ariths)
    have "unat ?good + 511 < 2 ^ 32 + behind t" using g Suc.prems(2) r(3) by simp
    have n: "n = 511 - behind t" using Suc.hyps(2) r(3) by simp
    note ih = Suc.hyps(1) [OF n r(2) \<open>unat ?good + 511 < 2 ^ 32 + behind t\<close>]
    obtain h u where u: "rx_loop_vtd maxCount ?good t = Some (h, u)" "vtd_ready start u" "behind t \<le> behind u"
      "m_kernel u = m_kernel t" "m_hw u = m_hw t" "rxDescArray u = rxDescArray t" "rxMapNextIndex u = rxMapNextIndex t"
      "unat (rxCleanedCount u) + lag t = unat (rxCleanedCount t) + lag u" "unat h \<le> unat ?good + (behind u - behind t)"
      "filled (rxDescArray u ! unat (rxNextDescIndex u)) \<longrightarrow> maxCount \<le> h"
      using ih by blast
    have "rx_loop_vtd maxCount good s = Some (h, u)"
      using True r(1) u(1) by (subst rx_loop_vtd.simps) (simp add: filled_def)
    moreover have "unat h \<le> unat good + (behind u - behind s)" using u(3,9) g r(3) by simp
    ultimately show ?thesis using u r by (intro exI conjI) (assumption, simp_all)
  qed
qed

text \<open>What an interrupt does: \<open>c\<close> batches completed by it, \<open>k\<close> of them mapped again.\<close>

lemma rxInterruptVTD_run:
  assumes ready: "vtd_ready start s" and rest: "rxCleanedCount s = 0"
  shows "\<exists>g t k c u. rxInterruptVTD maxCount s = Some (g, t) \<and> vtd_ready start t \<and> rxCleanedCount t = 0 \<and>
    rx_loop_vtd maxCount 0 s = Some (g, u) \<and> vtd_ready start u \<and> behind s \<le> behind u \<and> rxDescArray u = rxDescArray s \<and>
    (filled (rxDescArray u ! unat (rxNextDescIndex u)) \<longrightarrow> maxCount \<le> g) \<and> unat g \<le> behind u - behind s \<and>
    rxNextDescIndex t = rxNextDescIndex u \<and> m_kernel t = m_kernel s \<and>
    lag u = lag s + c \<and> k \<le> c \<and> behind t + 16 * k = behind u \<and> unat (rxMapNextIndex t) = ring_pos (unat (rxMapNextIndex s)) (16 * k) \<and>
    (\<forall>j < 16 * k. mapped t (ring_pos (unat (rxMapNextIndex s)) j)) \<and>
    (\<forall>q. q \<notin> ring_pos (unat (rxMapNextIndex s)) ` {..<16 * k} \<longrightarrow> rxDescArray t ! q = rxDescArray s ! q) \<and>
    (maps_all (m_kernel s) \<longrightarrow> k = c) \<and> (maps_none (m_kernel s) \<longrightarrow> k = 0)"
proof -
  obtain g u where u: "rx_loop_vtd maxCount 0 s = Some (g, u)" "vtd_ready start u" "behind s \<le> behind u" "m_kernel u = m_kernel s"
    "rxDescArray u = rxDescArray s" "rxMapNextIndex u = rxMapNextIndex s"
    "unat (rxCleanedCount u) + lag s = unat (rxCleanedCount s) + lag u" "unat g \<le> unat (0 :: u32) + (behind u - behind s)"
    "filled (rxDescArray u ! unat (rxNextDescIndex u)) \<longrightarrow> maxCount \<le> g"
    using vtd_loop_run [OF ready, of 0 maxCount] by auto
  let ?m = "unat (rxMapNextIndex s)" and ?c = "unat (rxCleanedCount u)"
  have r: "vtd_sizes u" "ranges_ok u" "unat (rxNextDescIndex u) < 512" "?m < 512" "16 dvd ?m" "pool_ok (rxPool u)"
    "books start {#} u" "\<not> filled (rxDescArray u ! tail_pos u)"
    using u(2,6) by (simp_all add: vtd_ready_def)
  note nb = next_behind [of u, unfolded u(6), OF r(3,4)]
  have c: "lag u = lag s + ?c" using u(7) rest by simp
  have c16: "16 * ?c \<le> behind u" using c by (simp add: lag_def)
  show ?thesis
  proof (cases "rxCleanedCount u = 0")
    case True
    then have "rxInterruptVTD maxCount s = Some (g, u)" using u(1) by (simp add: rxInterruptVTD_def rx_remap_def)
    then show ?thesis using u c True r(4)
      by (intro exI [of _ g] exI [of _ u] exI [of _ 0] exI [of _ 0]) simp
  next
    case False
    have ix: "unat (rxMapNextIndex u) < 512" "16 dvd unat (rxMapNextIndex u)" using r(4,5) u(6) by simp_all
    have c512: "16 * ?c \<le> 512" using c16 nb(2) by simp
    obtain k w t where t: "run_state (rx_map_loop ?c (rxMapNextIndex u) True) u = (w, t)" "k \<le> ?c"
      "map_frame (ring_pos ?m ` {..<16 * k}) u t" "\<forall>j < 16 * k. mapped t (ring_pos ?m j)"
      "unat (rxMapNextIndex t) = ring_pos ?m (16 * k)" "maps_all (m_kernel u) \<longrightarrow> k = ?c" "maps_none (m_kernel u) \<longrightarrow> k = 0"
      using rx_map_loop_run [OF r(1,2) ix refl c512, of True] unfolding u(6) by blast
    let ?t = "t\<lparr>rxCleanedCount := 0\<rparr>"
    have run: "rxInterruptVTD maxCount s = Some (g, ?t)"
      using u(1) t(1) False by (simp add: rxInterruptVTD_def rx_remap_def rxMapBuffers_def)
    have same: "rxNextDescIndex t = rxNextDescIndex u" "rxPool t = rxPool u" "m_kernel t = m_kernel u"
      using t(3) by (simp_all add: map_frame_def)
    have k: "16 * k \<le> behind u" using t(2) c16 by linarith
    have beh: "behind t = behind u - 16 * k"
    proof (rule behind_at)
      show "unat (rxNextDescIndex t) = ring_pos (unat (rxMapNextIndex t)) (behind u - 16 * k)"
        using nb(1) k by (simp add: same t(5))
    qed (use t(5) nb(2) in simp_all)
    have tail: "\<not> filled (rxDescArray t ! tail_pos t)"
    proof (cases "k = 0")
      case True
      then have "tail_pos t = tail_pos u" using t(5) r(4) u(6) by (simp add: tail_pos_def)
      then show ?thesis using t(3) r(8) True by (simp add: map_frame_def)
    next
      case False
      have "tail_pos t = ring_pos ?m (16 * k + 511)" by (simp add: tail_pos_def t(5))
      also have "16 * k + 511 = (16 * k - 1) + 512" using False by simp
      also have "ring_pos ?m \<dots> = ring_pos ?m (16 * k - 1)" unfolding ring_pos_def by (simp only: add.assoc [symmetric] mod_add_self2)
      finally have "tail_pos t = ring_pos ?m (16 * k - 1)" .
      then show ?thesis using t(4) False by (auto simp: mapped_def)
    qed
    have "vtd_ready start ?t"
      using map_frame_sizes [OF t(3)] map_frame_ranges [OF t(3) r(1,2)] map_frame_books [OF t(3)] r same t(5) tail
        ring_pos_dvd [OF r(5), of "16 * k"]
      by (simp add: vtd_ready_def)
    moreover have "rxDescArray t ! q = rxDescArray s ! q" if "q \<notin> ring_pos ?m ` {..<16 * k}" for q
      using t(3) u(5) that by (simp add: map_frame_def)
    moreover have "behind ?t + 16 * k = behind u" using beh k by simp
    moreover have "rxCleanedCount ?t = 0" "rxNextDescIndex ?t = rxNextDescIndex u" "m_kernel ?t = m_kernel s"
      "unat (rxMapNextIndex ?t) = ring_pos ?m (16 * k)" "\<forall>j < 16 * k. mapped ?t (ring_pos ?m j)"
      "unat g \<le> behind u - behind s" using same u(4,8) t(4,5) by simp_all
    moreover have "\<forall>q. q \<notin> ring_pos ?m ` {..<16 * k} \<longrightarrow> rxDescArray ?t ! q = rxDescArray s ! q"
      using \<open>\<And>q. q \<notin> ring_pos ?m ` {..<16 * k} \<Longrightarrow> rxDescArray t ! q = rxDescArray s ! q\<close> by simp
    ultimately show ?thesis using run u(1-3,5,9) c t(2,6,7) unfolding u(4)
      by (intro exI [of _ g] exI [of _ ?t] exI [of _ k] exI [of _ ?c] exI [of _ u] conjI) assumption+
  qed
qed

end
