(* ===== verification/RingMemory.thy ===== *)
theory RingMemory
  imports VtdProps
begin

section \<open>The memory of the rings\<close>

text \<open>
  The set-up and the release of both rings. A state is balanced when what the kernel has handed out is what the
  driver has pointers to. The locale \<open>ledger\<close> is the contract the error labels and the steps of a set-up
  share, with the receive side and the transmit side as its models.
\<close>

subsection \<open>What the kernel has handed out\<close>

text \<open>
  Resources and memory descriptors obtained and not given back, as the kernel counts, and whether everything
  given back had been obtained before.
\<close>

fun taken :: "kernel \<Rightarrow> kcall list \<Rightarrow> (resource + nat) multiset" where
  "taken k [] = {#}"
| "taken k (c # log) = (case c of
       Obtain r \<Rightarrow> (if k_ok k log c then {#Inl r#} else {#}) + taken k log
     | Discard r \<Rightarrow> taken k log - {#Inl r#}
     | MdAlloc md rs \<Rightarrow> (if k_ok k log c then {#Inr md#} else {#}) + taken k log
     | MdRelease md \<Rightarrow> taken k log - {#Inr md#}
     | _ \<Rightarrow> taken k log)"

fun releases_ok :: "kernel \<Rightarrow> kcall list \<Rightarrow> bool" where
  "releases_ok k [] = True"
| "releases_ok k (c # log) = (releases_ok k log \<and> (case c of
       Discard r \<Rightarrow> Inl r \<in># taken k log
     | MdRelease md \<Rightarrow> Inr md \<in># taken k log
     | _ \<Rightarrow> True))"

text \<open>The memory descriptors the driver's arrays name.\<close>

definition rx_mds :: "mausi \<Rightarrow> nat multiset" where
  "rx_mds s = image_mset rx_md (mset_set {i. i < length (rxMemIO s) \<and> rxMemIO s ! i})"

definition tx_mds :: "mausi \<Rightarrow> nat multiset" where
  "tx_mds s = mset_set {i. i < length (txMemIO s) \<and> txMemIO s ! i \<noteq> None}"

text \<open>The books are balanced: what the kernel has handed out is what the driver has pointers to.\<close>

definition balanced :: "mausi \<Rightarrow> bool" where
  "balanced s \<longleftrightarrow> releases_ok (m_kernel s) (m_klog s) \<and>
     taken (m_kernel s) (m_klog s) = image_mset Inl (mset_set (m_has s)) + image_mset Inr (rx_mds s + tx_mds s)"

lemma finite_resources [simp]: "finite (A :: resource set)"
proof (rule finite_subset [OF subset_UNIV])
  have "(UNIV :: resource set) = {RxBufArray, RxBufDesc, RxDescDmaCmd, RxPoolObject, RxMapMem,
      TxBufArray, TxBufDesc, TxDescDmaCmd, TxMbufCursor, TxMapMem}" by (auto intro: resource.exhaust)
  then show "finite (UNIV :: resource set)" by (metis finite.emptyI finite.insertI)
qed

lemma mds_simps [simp]:
  "rx_mds (s\<lparr>m_klog := l\<rparr>) = rx_mds s" "tx_mds (s\<lparr>m_klog := l\<rparr>) = tx_mds s"
  "rx_mds (s\<lparr>m_has := h\<rparr>) = rx_mds s" "tx_mds (s\<lparr>m_has := h\<rparr>) = tx_mds s"
  "rx_mds (s\<lparr>rxPool := p\<rparr>) = rx_mds s" "tx_mds (s\<lparr>rxPool := p\<rparr>) = tx_mds s"
  "rx_mds (s\<lparr>rxBufArray := bs\<rparr>) = rx_mds s" "tx_mds (s\<lparr>rxBufArray := bs\<rparr>) = tx_mds s"
  "rx_mds (s\<lparr>rxDescArray := ds\<rparr>) = rx_mds s" "tx_mds (s\<lparr>rxDescArray := ds\<rparr>) = tx_mds s"
  "rx_mds (s\<lparr>rxMemRange := rs\<rparr>) = rx_mds s" "tx_mds (s\<lparr>rxMemRange := rs\<rparr>) = tx_mds s"
  "rx_mds (s\<lparr>rxPhyAddr := a\<rparr>) = rx_mds s" "tx_mds (s\<lparr>rxPhyAddr := a\<rparr>) = tx_mds s"
  "rx_mds (s\<lparr>rxPacket := q\<rparr>) = rx_mds s" "tx_mds (s\<lparr>rxPacket := q\<rparr>) = tx_mds s"
  "rx_mds (s\<lparr>txPhyAddr := a\<rparr>) = rx_mds s" "tx_mds (s\<lparr>txPhyAddr := a\<rparr>) = tx_mds s"
  "rx_mds (s\<lparr>txDescArray := d\<rparr>) = rx_mds s" "tx_mds (s\<lparr>txDescArray := d\<rparr>) = tx_mds s"
  "rx_mds (s\<lparr>txBufArray := b\<rparr>) = rx_mds s" "tx_mds (s\<lparr>txBufArray := b\<rparr>) = tx_mds s"
  "tx_mds (s\<lparr>rxMemIO := io\<rparr>) = tx_mds s" "rx_mds (s\<lparr>txMemIO := x\<rparr>) = rx_mds s"
  by (simp_all add: rx_mds_def tx_mds_def)

lemma mset_set_update:
  assumes "i < length xs"
  shows "(if P x then {#i#} else {#}) + mset_set {j. j < length xs \<and> P (xs ! j)} =
    (if P (xs ! i) then {#i#} else {#}) + mset_set {j. j < length xs \<and> P (xs[i := x] ! j)}"
proof -
  let ?A = "{j. j < length xs \<and> P (xs ! j)}"
  have upd: "{j. j < length xs \<and> P (xs[i := x] ! j)} = (if P x then insert i ?A else ?A - {i})"
    using assms by (auto simp: nth_list_update)
  have "add_mset i (mset_set (?A - {i})) = mset_set ?A" if "P (xs ! i)"
    using that assms by (simp add: mset_set.remove)
  then show ?thesis unfolding upd using assms by (cases "P x"; cases "P (xs ! i)") (simp_all add: insert_absorb)
qed

lemma rx_mds_update:
  assumes "i < length (rxMemIO s)"
  shows "(if b then {#rx_md i#} else {#}) + rx_mds s = (if rxMemIO s ! i then {#rx_md i#} else {#}) + rx_mds (s\<lparr>rxMemIO := (rxMemIO s)[i := b]\<rparr>)"
  using arg_cong [OF mset_set_update [OF assms, of "\<lambda>b. b" b], of "image_mset rx_md"]
  by (simp add: rx_mds_def split: if_splits)

lemma tx_mds_update:
  assumes "i < length (txMemIO s)"
  shows "(if x \<noteq> None then {#i#} else {#}) + tx_mds s = (if txMemIO s ! i \<noteq> None then {#i#} else {#}) + tx_mds (s\<lparr>txMemIO := (txMemIO s)[i := x]\<rparr>)"
  using mset_set_update [OF assms, of "\<lambda>b. b \<noteq> None" x] by (simp add: tx_mds_def)

subsection \<open>Operations that keep the books balanced\<close>

text \<open>Calls that neither hand out nor take back.\<close>

definition neutral :: "kcall \<Rightarrow> bool" where
  "neutral c = (case c of Obtain r \<Rightarrow> False | Discard r \<Rightarrow> False | MdAlloc md rs \<Rightarrow> False | MdRelease md \<Rightarrow> False | _ \<Rightarrow> True)"

lemma neutral_call: "neutral c \<Longrightarrow> taken k (c # log) = taken k log \<and> releases_ok k (c # log) = releases_ok k log"
  by (cases c) (auto simp: neutral_def)

definition books_state :: "mausi \<Rightarrow> _" where
  "books_state s = (m_kernel s, taken (m_kernel s) (m_klog s), releases_ok (m_kernel s) (m_klog s), m_has s, rxMemIO s, txMemIO s, useAppleVTD s)"

lemma balanced_books: "books_state t = books_state s \<Longrightarrow> balanced t = balanced s \<and> m_has t = m_has s \<and> useAppleVTD t = useAppleVTD s"
  unfolding books_state_def balanced_def rx_mds_def tx_mds_def prod.inject by (elim conjE) simp

interpretation bst: frame_rel "same books_state"
  by unfold_locales (simp_all add: same_def)

lemma bst_kcall: "neutral c \<Longrightarrow> keeps (same books_state) (kcall c)"
  unfolding kcall_def by (intro bst.keeps_intros keeps_modify) (simp add: same_def books_state_def neutral_call del: taken.simps releases_ok.simps)

lemma bst_modify: "(\<And>s. (m_kernel (f s), m_klog (f s), m_has (f s), rxMemIO (f s), txMemIO (f s), useAppleVTD (f s)) =
    (m_kernel s, m_klog s, m_has s, rxMemIO s, txMemIO s, useAppleVTD s)) \<Longrightarrow> keeps (same books_state) (modify f)"
  by (rule keeps_modify) (simp add: same_def books_state_def)

lemmas bst_intros = bst.keeps_intros bst_kcall bst_modify

lemma bst_pool:
  "keeps (same books_state) (set_pool f)" "keeps (same books_state) (mbuf_allocpacket how sz)"
  "keeps (same books_state) (mbuf_freem_list ms)" "keeps (same books_state) (schedule_refill low)"
  unfolding set_pool_def mbuf_allocpacket_def mbuf_freem_list_def schedule_refill_def
  by (intro bst_intros; simp add: neutral_def)+

lemma bst_getPacket: "keeps (same books_state) (getPacket sz how)"
  unfolding getPacket_def by (intro bst_intros bst_pool)

lemma bst_free_pool: "keeps (same books_state) free_pool"
  unfolding free_pool_def free_clusters_def free_mbufs_def by (intro bst_intros bst_pool)

lemma bst_init: "keeps (same books_state) (initWithCapacity mhlen mcap ccap)"
proof -
  have "keeps (same books_state) (init_mbufs n)" "keeps (same books_state) (init_clusters n)" for n
    by (induction n) (simp_all only: init_mbufs.simps init_clusters.simps, (intro bst_intros bst_pool | assumption)+)
  then show ?thesis
    unfolding initWithCapacity_def free_clusters_def free_mbufs_def by (intro bst_intros bst_pool)
qed

lemma obtain_balanced:
  assumes "balanced s" and "r \<notin> m_has s"
  shows "balanced (s\<lparr>m_klog := Obtain r # m_klog s, m_has := (if k_ok (m_kernel s) (m_klog s) (Obtain r) then insert r (m_has s) else m_has s)\<rparr>)"
  using assms by (simp add: balanced_def)

lemma discard_balanced:
  assumes "balanced s" and "r \<in> m_has s"
  shows "balanced (s\<lparr>m_klog := Discard r # m_klog s, m_has := m_has s - {r}\<rparr>)"
proof -
  have "mset_set (m_has s) = add_mset r (mset_set (m_has s - {r}))" using assms(2) by (simp add: mset_set.remove)
  then show ?thesis using assms(1) by (simp add: balanced_def)
qed

lemma run_obtain: "run_state (obtain_resource r) s = (k_ok (m_kernel s) (m_klog s) (Obtain r),
    s\<lparr>m_klog := Obtain r # m_klog s, m_has := (if k_ok (m_kernel s) (m_klog s) (Obtain r) then insert r (m_has s) else m_has s)\<rparr>)"
  by (simp add: obtain_resource_def kcall_def)

lemma run_discard: "run_state (discard_resource r) s = ((), s\<lparr>m_klog := Discard r # m_klog s, m_has := m_has s - {r}\<rparr>)"
  by (simp add: discard_resource_def kcall_def)

lemma release_rx_run:
  assumes "balanced s" and "\<forall>i \<in> set is. i < length (rxMemIO s)"
  shows "\<exists>log io. run_state (release_rx_maps is) s = ((), s\<lparr>m_klog := log, rxMemIO := io\<rparr>) \<and>
    balanced (s\<lparr>m_klog := log, rxMemIO := io\<rparr>) \<and> length io = length (rxMemIO s) \<and>
    (\<forall>i < length io. io ! i = (rxMemIO s ! i \<and> i \<notin> set is)) \<and>
    (\<forall>st. in_use (m_kernel s) st log = in_use (m_kernel s) st (m_klog s) \<and> calls_ok (m_kernel s) st log = calls_ok (m_kernel s) st (m_klog s))"
  using assms
proof (induction "is" arbitrary: s)
  case Nil
  then show ?case by (intro exI [of _ "m_klog s"] exI [of _ "rxMemIO s"]) simp
next
  case (Cons i "is")
  let ?l = "if rxMemIO s ! i then MdRelease (rx_md i) # MdComplete (rx_md i) # m_klog s else m_klog s"
  let ?io = "(rxMemIO s)[i := False]"
  let ?s = "s\<lparr>m_klog := ?l, rxMemIO := ?io\<rparr>"
  have i: "i < length (rxMemIO s)" using Cons.prems(2) by simp
  have "balanced ?s"
    using Cons.prems(1) rx_mds_update [OF i, of False]
    by (cases "rxMemIO s ! i") (simp_all add: balanced_def rx_mds_def tx_mds_def)
  with Cons.IH [of ?s] Cons.prems(2)
  obtain log io where r: "run_state (release_rx_maps is) ?s = ((), ?s\<lparr>m_klog := log, rxMemIO := io\<rparr>)"
    "balanced (?s\<lparr>m_klog := log, rxMemIO := io\<rparr>)" "length io = length ?io"
    "\<forall>j < length io. io ! j = (?io ! j \<and> j \<notin> set is)"
    "\<forall>st. in_use (m_kernel s) st log = in_use (m_kernel s) st ?l \<and> calls_ok (m_kernel s) st log = calls_ok (m_kernel s) st ?l"
    by auto
  have "run_state (release_rx_maps (i # is)) s = ((), s\<lparr>m_klog := log, rxMemIO := io\<rparr>)"
    using r(1) by (cases "rxMemIO s ! i") (simp_all add: kcall_def)
  moreover have "\<forall>j < length io. io ! j = (rxMemIO s ! j \<and> j \<notin> set (i # is))"
    using r(3,4) i by (auto simp: nth_list_update)
  ultimately show ?case using r(2,3,5) by (intro exI conjI) (assumption, simp_all)
qed

lemma release_tx_run:
  assumes "balanced s" and "\<forall>i \<in> set is. i < length (txMemIO s)"
  shows "\<exists>log io. run_state (release_tx_maps is) s = ((), s\<lparr>m_klog := log, txMemIO := io\<rparr>) \<and>
    balanced (s\<lparr>m_klog := log, txMemIO := io\<rparr>) \<and> length io = length (txMemIO s) \<and>
    (\<forall>i < length io. io ! i = (if i \<in> set is then None else txMemIO s ! i)) \<and>
    (\<forall>st. in_use (m_kernel s) st log = in_use (m_kernel s) st (m_klog s) \<and> calls_ok (m_kernel s) st log = calls_ok (m_kernel s) st (m_klog s))"
  using assms
proof (induction "is" arbitrary: s)
  case Nil
  then show ?case by (intro exI [of _ "m_klog s"] exI [of _ "txMemIO s"]) simp
next
  case (Cons i "is")
  let ?l = "if txMemIO s ! i \<noteq> None then MdRelease i # MdComplete i # m_klog s else m_klog s"
  let ?io = "(txMemIO s)[i := None]"
  let ?s = "s\<lparr>m_klog := ?l, txMemIO := ?io\<rparr>"
  have i: "i < length (txMemIO s)" using Cons.prems(2) by simp
  have "balanced ?s"
    using Cons.prems(1) tx_mds_update [OF i, of None]
    by (cases "txMemIO s ! i = None") (simp_all add: balanced_def rx_mds_def tx_mds_def)
  with Cons.IH [of ?s] Cons.prems(2)
  obtain log io where r: "run_state (release_tx_maps is) ?s = ((), ?s\<lparr>m_klog := log, txMemIO := io\<rparr>)"
    "balanced (?s\<lparr>m_klog := log, txMemIO := io\<rparr>)" "length io = length ?io"
    "\<forall>j < length io. io ! j = (if j \<in> set is then None else ?io ! j)"
    "\<forall>st. in_use (m_kernel s) st log = in_use (m_kernel s) st ?l \<and> calls_ok (m_kernel s) st log = calls_ok (m_kernel s) st ?l"
    by auto
  have "run_state (release_tx_maps (i # is)) s = ((), s\<lparr>m_klog := log, txMemIO := io\<rparr>)"
  proof (cases "txMemIO s ! i")
    case None
    then have "?io = txMemIO s" by (metis list_update_id)
    then show ?thesis using r(1) None by simp
  qed (use r(1) in \<open>simp add: kcall_def\<close>)
  moreover have "\<forall>j < length io. io ! j = (if j \<in> set (i # is) then None else txMemIO s ! j)"
    using r(3,4) i by (auto simp: nth_list_update)
  ultimately show ?case using r(2,3,5) by (intro exI conjI) (assumption, simp_all)
qed

subsection \<open>Setting up the maps\<close>

text \<open>What setting up the maps leaves alone.\<close>

definition maps_frame :: "mausi \<Rightarrow> mausi \<Rightarrow> bool" where
  "maps_frame s t \<longleftrightarrow> m_kernel t = m_kernel s \<and> rxPool t = rxPool s \<and> rxPacket t = rxPacket s \<and>
     rxNextDescIndex t = rxNextDescIndex s \<and> rxMapNextIndex t = rxMapNextIndex s \<and> rxCleanedCount t = rxCleanedCount s \<and>
     useAppleVTD t = useAppleVTD s \<and> txMemIO t = txMemIO s \<and> map rxb_mbuf (rxBufArray t) = map rxb_mbuf (rxBufArray s) \<and>
     length (rxDescArray t) = length (rxDescArray s) \<and>
     (\<forall>st. in_use (m_kernel s) st (m_klog t) = in_use (m_kernel s) st (m_klog s) \<and>
       calls_ok (m_kernel s) st (m_klog t) = calls_ok (m_kernel s) st (m_klog s))"

lemma maps_frame_trans: "maps_frame s t \<Longrightarrow> maps_frame t u \<Longrightarrow> maps_frame s u"
  by (simp add: maps_frame_def)

lemma maps_frame_books: "maps_frame s t \<Longrightarrow> books start extra t = books start extra s"
  by (simp add: maps_frame_def books_def ring_bufs_def)

lemma setup_rx_addrs_run:
  assumes "\<forall>n \<in> set ns. n < length (rxBufArray s)"
  shows "\<exists>bs. run_state (setup_rx_addrs i offset ns) s = ((), s\<lparr>rxBufArray := bs,
      rxDescArray := (if ns = [] then rxDescArray s else (rxDescArray s)[i := given_back (rxb_phyAddr (bs ! last ns))])\<rparr>) \<and>
    map rxb_mbuf bs = map rxb_mbuf (rxBufArray s) \<and> (\<forall>q. q \<notin> set ns \<longrightarrow> bs ! q = rxBufArray s ! q)"
  using assms
proof (induction ns arbitrary: s offset)
  case Nil
  show ?case by (intro exI [of _ "rxBufArray s"]) simp
next
  case (Cons n ns)
  let ?pa = "k_segment (m_kernel s) (m_klog s) (rx_md i) offset"
  let ?bs = "(rxBufArray s)[n := (rxBufArray s ! n)\<lparr>rxb_phyAddr := ?pa\<rparr>]"
  let ?s = "s\<lparr>rxBufArray := ?bs, rxDescArray := (rxDescArray s)[i := \<lparr>rd_low = ?pa, rd_high = 0\<rparr>]\<rparr>"
  have n: "n < length (rxBufArray s)" using Cons.prems by simp
  obtain bs where r: "run_state (setup_rx_addrs i (offset + PAGE_SIZE) ns) ?s = ((), ?s\<lparr>rxBufArray := bs,
      rxDescArray := (if ns = [] then rxDescArray ?s else (rxDescArray ?s)[i := given_back (rxb_phyAddr (bs ! last ns))])\<rparr>)"
    "map rxb_mbuf bs = map rxb_mbuf ?bs" "\<forall>q. q \<notin> set ns \<longrightarrow> bs ! q = ?bs ! q"
    using Cons.IH [of ?s "offset + PAGE_SIZE"] Cons.prems by auto
  have mb: "map rxb_mbuf ?bs = map rxb_mbuf (rxBufArray s)"
    using n by (simp add: map_update list_update_same_conv)
  have "bs ! n = ?bs ! n" if "ns = []" using r(3) that by simp
  then show ?case using r mb n
    by (intro exI [of _ bs]) (auto simp: given_back_def)
qed

lemma setup_rx_maps_run:
  assumes "balanced s" "length (rxMemIO s) = 32" "length (rxBufArray s) = 512" "distinct is"
    and "\<forall>i \<in> set is. i < 32 \<and> \<not> rxMemIO s ! i"
  shows "\<exists>r log io bs ds. run_state (setup_rx_maps is) s = (r, s\<lparr>m_klog := log, rxMemIO := io, rxBufArray := bs, rxDescArray := ds\<rparr>) \<and>
    balanced (s\<lparr>m_klog := log, rxMemIO := io, rxBufArray := bs, rxDescArray := ds\<rparr>) \<and> length io = 32 \<and>
    maps_frame s (s\<lparr>m_klog := log, rxMemIO := io, rxBufArray := bs, rxDescArray := ds\<rparr>) \<and>
    (\<forall>q. q div 16 \<notin> set is \<longrightarrow> bs ! q = rxBufArray s ! q) \<and>
    (r \<longrightarrow> (\<forall>q < length ds. ds ! q = (if q \<in> set is then given_back (rxb_phyAddr (bs ! (16 * q + 15))) else rxDescArray s ! q)))"
  using assms
proof (induction "is" arbitrary: s)
  case Nil
  then show ?case
    by (intro exI [of _ True] exI [of _ "m_klog s"] exI [of _ "rxMemIO s"] exI [of _ "rxBufArray s"] exI [of _ "rxDescArray s"])
      (simp add: maps_frame_def)
next
  case (Cons i "is")
  let ?alloc = "MdAlloc (rx_md i) (batch_ranges (16 * i) s)" and ?prep = "MdPrepare (rx_md i)"
  have i: "i < 32" "i < length (rxMemIO s)" "\<not> rxMemIO s ! i" using Cons.prems(2,5) by simp_all
  consider (alloc) "\<not> k_ok (m_kernel s) (m_klog s) ?alloc"
    | (prep) "k_ok (m_kernel s) (m_klog s) ?alloc" "\<not> k_ok (m_kernel s) (?alloc # m_klog s) ?prep"
    | (ok) "k_ok (m_kernel s) (m_klog s) ?alloc" "k_ok (m_kernel s) (?alloc # m_klog s) ?prep" by blast
  then show ?case
  proof cases
    case alloc
    let ?t = "s\<lparr>m_klog := ?alloc # m_klog s\<rparr>"
    have "run_state (setup_rx_maps (i # is)) s = (False, ?t)" using alloc by (simp add: Let_def kcall_def)
    moreover have "balanced ?t" using alloc Cons.prems(1) by (simp add: balanced_def)
    ultimately show ?thesis using Cons.prems(2)
      by (intro exI [of _ False] exI [of _ "m_klog ?t"] exI [of _ "rxMemIO s"] exI [of _ "rxBufArray s"] exI [of _ "rxDescArray s"])
        (simp add: maps_frame_def)
  next
    case prep
    let ?t = "s\<lparr>m_klog := MdRelease (rx_md i) # MdComplete (rx_md i) # ?prep # ?alloc # m_klog s\<rparr>"
    have "run_state (setup_rx_maps (i # is)) s = (False, ?t)" using prep by (simp add: Let_def kcall_def)
    moreover have "balanced ?t" using prep Cons.prems(1) by (simp add: balanced_def)
    ultimately show ?thesis using Cons.prems(2)
      by (intro exI [of _ False] exI [of _ "m_klog ?t"] exI [of _ "rxMemIO s"] exI [of _ "rxBufArray s"] exI [of _ "rxDescArray s"])
        (simp add: maps_frame_def)
  next
    case ok
    let ?io = "(rxMemIO s)[i := True]" and ?l = "?prep # ?alloc # m_klog s"
    let ?s1 = "s\<lparr>m_klog := ?l, rxMemIO := ?io\<rparr>" and ?ns = "batch_entries (16 * i)"
    have ns: "?ns \<noteq> []" "last ?ns = 16 * i + 15" "set ?ns = {q. q div 16 = i}" "\<forall>n \<in> set ?ns. n < length (rxBufArray ?s1)"
      using i(1) Cons.prems(3) by (auto simp: batch_entries_def)
    obtain bs where a: "run_state (setup_rx_addrs i 0 ?ns) ?s1 = ((), ?s1\<lparr>rxBufArray := bs,
        rxDescArray := (rxDescArray s)[i := given_back (rxb_phyAddr (bs ! (16 * i + 15)))]\<rparr>)"
      "map rxb_mbuf bs = map rxb_mbuf (rxBufArray s)" "\<forall>q. q div 16 \<noteq> i \<longrightarrow> bs ! q = rxBufArray s ! q"
      using setup_rx_addrs_run [OF ns(4), of i 0] ns(1-3) by auto
    let ?ds = "(rxDescArray s)[i := given_back (rxb_phyAddr (bs ! (16 * i + 15)))]"
    let ?u = "?s1\<lparr>rxBufArray := bs, rxDescArray := ?ds\<rparr>"
    have "taken (m_kernel s) ?l = {#Inr (rx_md i)#} + taken (m_kernel s) (m_klog s)" using ok(1) by simp
    moreover have "rx_mds ?u = add_mset (rx_md i) (rx_mds s)"
      using rx_mds_update [OF i(2), of True] i(3) by (simp add: rx_mds_def)
    moreover have "tx_mds ?u = tx_mds s" by (simp add: tx_mds_def)
    ultimately have bal: "balanced ?u" using Cons.prems(1) by (simp add: balanced_def)
    have frame: "maps_frame s ?u" using a(2) by (simp add: maps_frame_def)
    have len: "length (rxMemIO ?u) = 32" "length (rxBufArray ?u) = 512" "distinct is" "\<forall>j \<in> set is. j < 32 \<and> \<not> rxMemIO ?u ! j"
      using Cons.prems(2-5) arg_cong [OF a(2), of length] by (auto simp: nth_list_update)
    obtain r log io bs' ds where u: "run_state (setup_rx_maps is) ?u = (r, ?u\<lparr>m_klog := log, rxMemIO := io, rxBufArray := bs', rxDescArray := ds\<rparr>)"
      "balanced (?u\<lparr>m_klog := log, rxMemIO := io, rxBufArray := bs', rxDescArray := ds\<rparr>)" "length io = 32"
      "maps_frame ?u (?u\<lparr>m_klog := log, rxMemIO := io, rxBufArray := bs', rxDescArray := ds\<rparr>)"
      "\<forall>q. q div 16 \<notin> set is \<longrightarrow> bs' ! q = bs ! q"
      "r \<longrightarrow> (\<forall>q < length ds. ds ! q = (if q \<in> set is then given_back (rxb_phyAddr (bs' ! (16 * q + 15))) else ?ds ! q))"
      using Cons.IH [OF bal len] by auto
    have run: "run_state (setup_rx_maps (i # is)) s = (r, s\<lparr>m_klog := log, rxMemIO := io, rxBufArray := bs', rxDescArray := ds\<rparr>)"
      using ok a(1) u(1) by (simp add: Let_def kcall_def)
    have "i \<notin> set is" using Cons.prems(4) by simp
    then have last: "bs' ! (16 * i + 15) = bs ! (16 * i + 15)" using u(5) by simp
    have "length ds = length (rxDescArray s)" using u(4) by (simp add: maps_frame_def)
    then have "r \<longrightarrow> (\<forall>q < length ds. ds ! q = (if q \<in> set (i # is) then given_back (rxb_phyAddr (bs' ! (16 * q + 15))) else rxDescArray s ! q))"
      using u(6) last \<open>i \<notin> set is\<close> by (auto simp: nth_list_update)
    moreover have "\<forall>q. q div 16 \<notin> set (i # is) \<longrightarrow> bs' ! q = rxBufArray s ! q" using u(5) a(3) by simp
    moreover have "maps_frame s (s\<lparr>m_klog := log, rxMemIO := io, rxBufArray := bs', rxDescArray := ds\<rparr>)"
      using maps_frame_trans [OF frame u(4)] by simp
    ultimately show ?thesis using run u(2,3)
      by (intro exI [of _ r] exI [of _ log] exI [of _ io] exI [of _ bs'] exI [of _ ds] conjI) simp_all
  qed
qed

lemma setupRxMap_run:
  assumes "balanced s" "RxMapMem \<notin> m_has s" "rx_mds s = {#}" "length (rxBufArray s) = 512"
  shows "\<exists>r t. run_state setupRxMap s = (r, t) \<and> balanced t \<and> maps_frame s t \<and>
    m_has t = (if r then insert RxMapMem (m_has s) else m_has s) \<and> (\<not> r \<longrightarrow> rx_mds t = {#}) \<and>
    (r \<longrightarrow> length (rxMemIO t) = 32 \<and> length (rxMemRange t) = 512 \<and>
      (\<forall>q < 512. fst (rxMemRange t ! q) = k_datastart (m_kernel t) (rxb_mbuf (rxBufArray t ! q))) \<and>
      (\<forall>q < length (rxDescArray t). rxDescArray t ! q = (if q < 32 then given_back (rxb_phyAddr (rxBufArray t ! (16 * q + 15))) else rxDescArray s ! q)))"
proof (cases "k_ok (m_kernel s) (m_klog s) (Obtain RxMapMem)")
  case False
  let ?t = "s\<lparr>m_klog := Obtain RxMapMem # m_klog s\<rparr>"
  have "run_state setupRxMap s = (False, ?t)" using False by (simp add: setupRxMap_def try_step_def run_obtain)
  moreover have "balanced ?t" using assms(1) False by (simp add: balanced_def)
  ultimately show ?thesis using assms(3)
    by (intro exI [of _ False] exI [of _ ?t]) (simp add: maps_frame_def rx_mds_def)
next
  case True
  let ?l = "Obtain RxMapMem # m_klog s" and ?h = "insert RxMapMem (m_has s)"
  let ?rs = "map (\<lambda>b. (k_datastart (m_kernel s) (rxb_mbuf b), PAGE_SIZE :: u64)) (rxBufArray s)"
  let ?s = "s\<lparr>m_klog := ?l, m_has := ?h, rxMemIO := replicate 32 False, rxMemRange := ?rs\<rparr>"
  have none: "rx_mds (x\<lparr>rxMemIO := replicate 32 False, rxMemRange := y\<rparr>) = {#}" for x y
    by (simp add: rx_mds_def cong: conj_cong)
  have bal: "balanced ?s"
    using obtain_balanced [OF assms(1,2)] True assms(3) none by (simp add: balanced_def rx_mds_def tx_mds_def)
  have "\<forall>i \<in> set [0..<32]. i < 32 \<and> \<not> rxMemIO ?s ! i" by simp
  from setup_rx_maps_run [OF bal _ _ _ this] assms(4)
  obtain r log io bs ds where m: "run_state (setup_rx_maps [0..<32]) ?s = (r, ?s\<lparr>m_klog := log, rxMemIO := io, rxBufArray := bs, rxDescArray := ds\<rparr>)"
    "balanced (?s\<lparr>m_klog := log, rxMemIO := io, rxBufArray := bs, rxDescArray := ds\<rparr>)" "length io = 32"
    "maps_frame ?s (?s\<lparr>m_klog := log, rxMemIO := io, rxBufArray := bs, rxDescArray := ds\<rparr>)"
    "r \<longrightarrow> (\<forall>q < length ds. ds ! q = (if q \<in> set [0..<32] then given_back (rxb_phyAddr (bs ! (16 * q + 15))) else rxDescArray ?s ! q))"
    by auto
  let ?t = "?s\<lparr>m_klog := log, rxMemIO := io, rxBufArray := bs, rxDescArray := ds\<rparr>"
  have first: "maps_frame s ?s" by (simp add: maps_frame_def)
  show ?thesis
  proof (cases r)
    case r: True
    have run: "run_state setupRxMap s = (True, ?t)"
      using True m(1) r by (simp add: setupRxMap_def try_step_def run_obtain)
    have mb: "map rxb_mbuf bs = map rxb_mbuf (rxBufArray s)" using m(4) by (simp add: maps_frame_def)
    have len: "length bs = 512" using assms(4) arg_cong [OF mb, of length] by simp
    have "fst (?rs ! q) = k_datastart (m_kernel s) (rxb_mbuf (bs ! q))" if "q < 512" for q
      using arg_cong [OF mb, of "\<lambda>xs. xs ! q"] that assms(4) len by simp
    then show ?thesis using run m r assms(4) maps_frame_trans [OF first m(4)]
      by (intro exI [of _ True] exI [of _ ?t]) simp
  next
    case False
    have "\<forall>i \<in> set [0..<32]. i < length (rxMemIO ?t)" using m(3) by simp
    from release_rx_run [OF m(2) this] m(3)
    obtain log' io' where rel: "run_state (release_rx_maps [0..<32]) ?t = ((), ?t\<lparr>m_klog := log', rxMemIO := io'\<rparr>)"
      "balanced (?t\<lparr>m_klog := log', rxMemIO := io'\<rparr>)" "length io' = 32" "\<forall>i < 32. \<not> io' ! i"
      "\<forall>st. in_use (m_kernel s) st log' = in_use (m_kernel s) st log \<and> calls_ok (m_kernel s) st log' = calls_ok (m_kernel s) st log"
      by auto
    let ?v = "(?t\<lparr>m_klog := log', rxMemIO := io'\<rparr>)\<lparr>m_klog := Discard RxMapMem # log', m_has := m_has s\<rparr>"
    have "m_has s = ?h - {RxMapMem}" using assms(2) by simp
    then have run: "run_state setupRxMap s = (False, ?v)"
      using True m(1) False rel(1) by (simp add: setupRxMap_def try_step_def run_obtain run_discard)
    have "balanced ?v"
      using discard_balanced [OF rel(2), of RxMapMem] assms(2) by simp
    moreover have "rx_mds ?v = {#}" using rel(3,4) by (simp add: rx_mds_def cong: conj_cong)
    moreover have "maps_frame s ?v" using maps_frame_trans [OF first m(4)] rel(5) by (simp add: maps_frame_def)
    ultimately show ?thesis using run by (intro exI [of _ False] exI [of _ ?v]) simp
  qed
qed

subsection \<open>Backing out\<close>

text \<open>Memory calls that move no buffer.\<close>

definition still :: "kcall \<Rightarrow> bool" where
  "still c = (case c of AllocPacket how sz \<Rightarrow> False | FreeMbuf ms \<Rightarrow> False | EnqueueInput ms sz tag sums \<Rightarrow> False
     | CopyPacket new old len \<Rightarrow> False | SetLength m len \<Rightarrow> False | _ \<Rightarrow> True)"

lemma books_still: "still c \<Longrightarrow> books start extra (s\<lparr>m_klog := c # m_klog s\<rparr>) = books start extra s"
  by (cases c) (simp_all add: still_def books_def ring_bufs_def)

lemma books_has [simp]: "books start extra (s\<lparr>m_has := h\<rparr>) = books start extra s"
  by (simp add: books_def ring_bufs_def)

text \<open>
  Both set-ups keep a ledger: a state with the resources \<open>h\<close> that is bare of everything else. The interface is what obtaining,
  giving back and the calls in between do to it.
\<close>

text \<open>An error label: the result is failure, and the resources from \<open>g\<close> are gone.\<close>

definition backs_out :: "(resource set \<Rightarrow> mausi \<Rightarrow> bool) \<Rightarrow> resource set \<Rightarrow> resource set \<Rightarrow> bool mausiM \<Rightarrow> bool" where
  "backs_out bare g h m \<longleftrightarrow> (\<forall>s. bare (g \<union> h) s \<longrightarrow> (\<exists>t. run_state m s = (False, t) \<and> bare h t \<and> useAppleVTD t = useAppleVTD s \<and>
     m_kernel t = m_kernel s))"

text \<open>A step of the set-up: on failure its label backs out, on success the rest goes on.\<close>

definition sets_up :: "(resource set \<Rightarrow> mausi \<Rightarrow> bool) \<Rightarrow> resource set \<Rightarrow> (bool \<Rightarrow> mausi \<Rightarrow> bool) \<Rightarrow> resource set \<Rightarrow> bool mausiM \<Rightarrow> bool" where
  "sets_up bare g post h m \<longleftrightarrow> (\<forall>s. bare (g \<union> h) s \<longrightarrow> (\<exists>r t. run_state m s = (r, t) \<and>
     useAppleVTD t = useAppleVTD s \<and> m_kernel t = m_kernel s \<and> (if r then post (useAppleVTD s) t else bare h t)))"

locale ledger =
  fixes bare :: "resource set \<Rightarrow> mausi \<Rightarrow> bool"
  assumes bare_call: "neutral c \<Longrightarrow> still c \<Longrightarrow> bare h s \<Longrightarrow> bare h (s\<lparr>m_klog := c # m_klog s\<rparr>)"
    and bare_discard: "bare (insert r h) s \<Longrightarrow> r \<notin> h \<Longrightarrow> bare h (s\<lparr>m_klog := Discard r # m_klog s, m_has := m_has s - {r}\<rparr>)"
    and bare_obtain: "bare h s \<Longrightarrow> r \<notin> h \<Longrightarrow> run_state (obtain_resource r) s = (ok, t) \<Longrightarrow> bare (if ok then insert r h else h) t"
begin

lemma backs_outD:
  assumes "backs_out bare g h m" and "bare (g \<union> h) s"
  obtains t where "run_state m s = (False, t)" "bare h t" "useAppleVTD t = useAppleVTD s" "m_kernel t = m_kernel s"
  using assms unfolding backs_out_def by blast

lemma backs_out_discard:
  assumes "backs_out bare g h m" and "r \<notin> g \<union> h"
  shows "backs_out bare (insert r g) h (do { discard_resource r; m })"
  unfolding backs_out_def
proof (intro allI impI)
  fix s assume "bare (insert r g \<union> h) s"
  then have "bare (g \<union> h) (s\<lparr>m_klog := Discard r # m_klog s, m_has := m_has s - {r}\<rparr>)"
    using bare_discard [of r "g \<union> h" s] assms(2) by simp
  from backs_outD [OF assms(1) this]
  show "\<exists>t. run_state (do { discard_resource r; m }) s = (False, t) \<and> bare h t \<and> useAppleVTD t = useAppleVTD s \<and> m_kernel t = m_kernel s"
    by (simp add: run_discard) blast
qed

lemma backs_out_call:
  assumes "backs_out bare g h m" and "neutral c" and "still c"
  shows "backs_out bare g h (do { kcall c; m })"
  unfolding backs_out_def
proof (intro allI impI)
  fix s assume "bare (g \<union> h) s"
  from backs_outD [OF assms(1) bare_call [OF assms(2,3) this]]
  show "\<exists>t. run_state (do { kcall c; m }) s = (False, t) \<and> bare h t \<and> useAppleVTD t = useAppleVTD s \<and> m_kernel t = m_kernel s"
    by (simp add: kcall_def) blast
qed

lemma sets_up_obtain:
  assumes "backs_out bare g h err" "r \<notin> g \<union> h" "sets_up bare (insert r g) post h rest"
  shows "sets_up bare g post h (try_step (obtain_resource r) err rest)"
  unfolding sets_up_def
proof (intro allI impI)
  fix s assume s: "bare (g \<union> h) s"
  obtain ok t where o: "run_state (obtain_resource r) s = (ok, t)" by fastforce
  then have v: "useAppleVTD t = useAppleVTD s" "m_kernel t = m_kernel s" by (auto simp: run_obtain)
  have b: "bare (if ok then insert r g \<union> h else g \<union> h) t" using bare_obtain [OF s assms(2) o] by (cases ok) simp_all
  show "\<exists>r' t. run_state (try_step (obtain_resource r) err rest) s = (r', t) \<and> useAppleVTD t = useAppleVTD s \<and>
      m_kernel t = m_kernel s \<and> (if r' then post (useAppleVTD s) t else bare h t)"
  proof (cases ok)
    case True
    with assms(3) b obtain r' u where "run_state rest t = (r', u)" "useAppleVTD u = useAppleVTD t" "m_kernel u = m_kernel t"
      "if r' then post (useAppleVTD t) u else bare h u" unfolding sets_up_def by auto
    then show ?thesis using True o v by (intro exI [of _ r'] exI [of _ u]) (auto simp: try_step_def)
  next
    case False
    with b obtain u where "run_state err t = (False, u)" "bare h u" "useAppleVTD u = useAppleVTD t" "m_kernel u = m_kernel t"
      using backs_outD [OF assms(1)] by auto
    then show ?thesis using False o v by (intro exI [of _ False] exI [of _ u]) (simp add: try_step_def)
  qed
qed

lemma sets_up_call:
  assumes "backs_out bare g h err" "neutral c" "still c" "sets_up bare g post h rest"
  shows "sets_up bare g post h (try_step (kcall c) err rest)"
  unfolding sets_up_def
proof (intro allI impI)
  fix s assume s: "bare (g \<union> h) s"
  let ?t = "s\<lparr>m_klog := c # m_klog s\<rparr>"
  have b: "bare (g \<union> h) ?t" using bare_call [OF assms(2,3) s] .
  show "\<exists>r' t. run_state (try_step (kcall c) err rest) s = (r', t) \<and> useAppleVTD t = useAppleVTD s \<and>
      m_kernel t = m_kernel s \<and> (if r' then post (useAppleVTD s) t else bare h t)"
  proof (cases "k_ok (m_kernel s) (m_klog s) c")
    case True
    with assms(4) b obtain r' u where "run_state rest ?t = (r', u)" "useAppleVTD u = useAppleVTD ?t" "m_kernel u = m_kernel ?t"
      "if r' then post (useAppleVTD ?t) u else bare h u" unfolding sets_up_def by blast
    then show ?thesis using True by (intro exI [of _ r'] exI [of _ u]) (auto simp: try_step_def kcall_def)
  next
    case False
    obtain u where "run_state err ?t = (False, u)" "bare h u" "useAppleVTD u = useAppleVTD ?t" "m_kernel u = m_kernel ?t"
      using backs_outD [OF assms(1) b] by blast
    then show ?thesis using False by (intro exI [of _ False] exI [of _ u]) (simp add: try_step_def kcall_def)
  qed
qed

text \<open>The steps the memory of a ring goes through, the array \<open>a\<close>, the descriptors \<open>d\<close> and the mapping \<open>c\<close> for the chip.\<close>

lemma sets_up_ring:
  assumes labels: "backs_out bare {a} h e1" "backs_out bare {d, a} h e2" "backs_out bare {d, a} h e3"
      "backs_out bare {c, d, a} h e4" "backs_out bare {c, d, a} h e5"
    and rest: "sets_up bare {c, d, a} post h rest" and new: "a \<notin> h" "d \<notin> insert a h" "c \<notin> insert d (insert a h)"
  shows "sets_up bare {} post h (try_step (obtain_resource a) (ret False) (try_step (obtain_resource d) e1
    (try_step (kcall (PrepareMemory d)) e2 (try_step (obtain_resource c) e3
    (try_step (kcall (SetMemoryDescriptor c)) e4 (try_step (kcall (GenSegments c)) e5 rest))))))"
proof -
  have calls: "neutral (PrepareMemory r)" "still (PrepareMemory r)" "neutral (SetMemoryDescriptor r)" "still (SetMemoryDescriptor r)"
    "neutral (GenSegments r)" "still (GenSegments r)" for r by (simp_all add: neutral_def still_def)
  have no_step: "backs_out bare {} h (ret False)" by (simp add: backs_out_def)
  have "sets_up bare {d, a} post h (try_step (obtain_resource c) e3
      (try_step (kcall (SetMemoryDescriptor c)) e4 (try_step (kcall (GenSegments c)) e5 rest)))"
    by (rule sets_up_obtain [OF labels(3) _ sets_up_call [OF labels(4) calls(3,4) sets_up_call [OF labels(5) calls(5,6) rest]]])
      (use new(3) in simp)
  from sets_up_obtain [OF labels(1) _ sets_up_call [OF labels(2) calls(1,2) this]] new(2)
  have "sets_up bare {a} post h (try_step (obtain_resource d) e1 (try_step (kcall (PrepareMemory d)) e2 (try_step (obtain_resource c) e3
      (try_step (kcall (SetMemoryDescriptor c)) e4 (try_step (kcall (GenSegments c)) e5 rest)))))" by simp
  from sets_up_obtain [OF no_step _ this] new(1) show ?thesis by simp
qed
end

text \<open>The receive side with the resources \<open>h\<close> and no buffers.\<close>

definition rx_bare :: "resource set \<Rightarrow> mausi \<Rightarrow> bool" where
  "rx_bare h s \<longleftrightarrow> balanced s \<and> m_has s = h \<and> rx_mds s = {#} \<and> tx_mds s = {#} \<and> books {#} {#} s \<and> rxPacket s = [] \<and>
     pool_bufs (rxPool s) = {#} \<and> rxBufArray s = []"

lemma rx_bare_simps [simp]:
  "rx_bare h (s\<lparr>rxPhyAddr := a\<rparr>) = rx_bare h s" "rx_bare h (s\<lparr>rxDescArray := ds\<rparr>) = rx_bare h s"
  "rx_bare h (s\<lparr>rxNextDescIndex := i\<rparr>) = rx_bare h s" "rx_bare h (s\<lparr>rxMapNextIndex := i\<rparr>) = rx_bare h s"
  "rx_bare h (s\<lparr>rxCleanedCount := i\<rparr>) = rx_bare h s"
  by (simp_all add: rx_bare_def balanced_def rx_mds_def tx_mds_def books_def ring_bufs_def)

lemma rx_bare_call: "neutral c \<Longrightarrow> still c \<Longrightarrow> rx_bare h s \<Longrightarrow> rx_bare h (s\<lparr>m_klog := c # m_klog s\<rparr>)"
  by (simp add: rx_bare_def balanced_def neutral_call books_still del: taken.simps releases_ok.simps)

lemma rx_bare_discard:
  assumes "rx_bare (insert r h) s" and "r \<notin> h"
  shows "rx_bare h (s\<lparr>m_klog := Discard r # m_klog s, m_has := m_has s - {r}\<rparr>)"
proof -
  have "balanced (s\<lparr>m_klog := Discard r # m_klog s, m_has := m_has s - {r}\<rparr>)"
    by (rule discard_balanced) (use assms in \<open>simp_all add: rx_bare_def\<close>)
  moreover have "books {#} {#} (s\<lparr>m_klog := Discard r # m_klog s\<rparr>)"
    using assms(1) by (subst books_still) (simp_all add: still_def rx_bare_def)
  ultimately show ?thesis using assms by (simp add: rx_bare_def)
qed

lemma rx_bare_obtain:
  assumes "rx_bare h s" and "r \<notin> h" and "run_state (obtain_resource r) s = (ok, t)"
  shows "rx_bare (if ok then insert r h else h) t"
proof -
  have "balanced t" using obtain_balanced [of s r] assms by (auto simp: run_obtain rx_bare_def)
  moreover have "books {#} {#} (s\<lparr>m_klog := Obtain r # m_klog s\<rparr>)"
    using assms(1) by (subst books_still) (simp_all add: still_def rx_bare_def)
  ultimately show ?thesis using assms by (auto simp: run_obtain rx_bare_def)
qed

interpretation rx: ledger rx_bare
  by unfold_locales (fact rx_bare_call rx_bare_discard rx_bare_obtain)+

text \<open>The transmit side keeps no buffers while it is set up.\<close>

definition tx_bare :: "resource set \<Rightarrow> mausi \<Rightarrow> bool" where
  "tx_bare h s \<longleftrightarrow> balanced s \<and> m_has s = h \<and> tx_mds s = {#}"

interpretation tx: ledger tx_bare
proof unfold_locales
  show "tx_bare h (s\<lparr>m_klog := c # m_klog s\<rparr>)" if "neutral c" "still c" "tx_bare h s" for c h s
    using that by (simp add: tx_bare_def balanced_def neutral_call del: taken.simps releases_ok.simps)
  show "tx_bare h (s\<lparr>m_klog := Discard r # m_klog s, m_has := m_has s - {r}\<rparr>)" if "tx_bare (insert r h) s" "r \<notin> h" for h r s
    using discard_balanced [of s r] that by (simp add: tx_bare_def)
  show "tx_bare (if ok then insert r h else h) t" if "tx_bare h s" "r \<notin> h" "run_state (obtain_resource r) s = (ok, t)" for h r s ok t
    using obtain_balanced [of s r] that by (auto simp: run_obtain tx_bare_def)
qed

lemma rx_labels:
  assumes "h \<inter> {RxBufArray, RxBufDesc, RxDescDmaCmd} = {}"
  shows "backs_out rx_bare {RxBufArray} h error_rx_desc" "backs_out rx_bare {RxBufDesc, RxBufArray} h error_rx_prep"
    "backs_out rx_bare {RxBufDesc, RxBufArray} h error_rx_dma" "backs_out rx_bare {RxDescDmaCmd, RxBufDesc, RxBufArray} h error_rx_set"
    "backs_out rx_bare {RxDescDmaCmd, RxBufDesc, RxBufArray} h error_rx_seg" "backs_out rx_bare {RxDescDmaCmd, RxBufDesc, RxBufArray} h error_rx_pool"
proof -
  have "backs_out rx_bare {} h (do { modify (rxBufArray_update (\<lambda>_. [])); ret False })"
    by (auto simp: backs_out_def rx_bare_def balanced_def rx_mds_def tx_mds_def books_def ring_bufs_def)
  then show 1: "backs_out rx_bare {RxBufArray} h error_rx_desc"
    unfolding error_rx_desc_def by (rule rx.backs_out_discard) (use assms in auto)
  then show 2: "backs_out rx_bare {RxBufDesc, RxBufArray} h error_rx_prep"
    unfolding error_rx_prep_def by (rule rx.backs_out_discard) (use assms in auto)
  then show 3: "backs_out rx_bare {RxBufDesc, RxBufArray} h error_rx_dma"
    unfolding error_rx_dma_def by (rule rx.backs_out_call) (simp_all add: neutral_def still_def)
  then show 4: "backs_out rx_bare {RxDescDmaCmd, RxBufDesc, RxBufArray} h error_rx_set"
    unfolding error_rx_set_def by (rule rx.backs_out_discard) (use assms in auto)
  then show 5: "backs_out rx_bare {RxDescDmaCmd, RxBufDesc, RxBufArray} h error_rx_seg"
    unfolding error_rx_seg_def by (rule rx.backs_out_call) (simp_all add: neutral_def still_def)
  show "backs_out rx_bare {RxDescDmaCmd, RxBufDesc, RxBufArray} h error_rx_pool"
    unfolding backs_out_def
  proof (intro allI impI)
    fix s assume "rx_bare ({RxDescDmaCmd, RxBufDesc, RxBufArray} \<union> h) s"
    then have "rx_bare ({RxDescDmaCmd, RxBufDesc, RxBufArray} \<union> h) (s\<lparr>rxPhyAddr := 0\<rparr>)" by (simp only: rx_bare_simps)
    from rx.backs_outD [OF 5 this]
    show "\<exists>t. run_state error_rx_pool s = (False, t) \<and> rx_bare h t \<and> useAppleVTD t = useAppleVTD s \<and> m_kernel t = m_kernel s"
      by (simp add: error_rx_pool_def) blast
  qed
qed

subsection \<open>Buffers given back\<close>

lemma free_rx_bufs_run:
  assumes "books {#} {#} (s\<lparr>rxBufArray := bs\<rparr>)"
  shows "\<exists>log. run_state (free_rx_bufs bs) s = ((), s\<lparr>m_klog := log\<rparr>) \<and> books {#} {#} (s\<lparr>m_klog := log, rxBufArray := []\<rparr>)"
  using assms
proof (induction bs arbitrary: s)
  case Nil
  then show ?case by (intro exI [of _ "m_klog s"]) simp
next
  case (Cons b bs)
  let ?s = "s\<lparr>m_klog := FreeMbuf [rxb_mbuf b] # m_klog s\<rparr>"
  have "books {#} {#} (?s\<lparr>rxBufArray := bs\<rparr>)"
    by (rule books_free [OF Cons.prems, of "[rxb_mbuf b]" "rxPool s"])
      (use Cons.prems in \<open>simp_all add: books_def ring_bufs_def\<close>)
  from Cons.IH [OF this] show ?case by (auto simp: mbuf_freem_list_def kcall_def)
qed

lemma free_pool_run:
  assumes "books {#} {#} s"
  shows "\<exists>p log. run_state free_pool s = ((), s\<lparr>rxPool := p, m_klog := log\<rparr>) \<and> pool_bufs p = {#} \<and>
    books {#} {#} (s\<lparr>rxPool := p, m_klog := log\<rparr>)"
proof -
  have clusters: "\<exists>p log. run_state free_clusters s = ((), s\<lparr>rxPool := p, m_klog := log\<rparr>) \<and> books {#} {#} (s\<lparr>rxPool := p, m_klog := log\<rparr>) \<and>
      cPkts p = []" if s: "books {#} {#} s" for s
  proof (cases "cPkts (rxPool s) = []")
    case True
    then show ?thesis using s by (intro exI [of _ "rxPool s"] exI [of _ "m_klog s"]) (simp add: free_clusters_def)
  next
    case False
    let ?p = "(rxPool s)\<lparr>cPkts := [], cPktNum := 0\<rparr>" and ?l = "FreeMbuf (cPkts (rxPool s)) # m_klog s"
    have "books {#} {#} (s\<lparr>rxPool := ?p, m_klog := ?l\<rparr>)"
      by (rule books_free [OF s, of "cPkts (rxPool s)" ?p]) (use s in \<open>simp_all add: books_def ring_bufs_def pool_bufs_def\<close>)
    then show ?thesis using False
      by (intro exI [of _ ?p] exI [of _ ?l]) (simp add: free_clusters_def mbuf_freem_list_def kcall_def)
  qed
  have mbufs: "\<exists>p log. run_state free_mbufs s = ((), s\<lparr>rxPool := p, m_klog := log\<rparr>) \<and> books {#} {#} (s\<lparr>rxPool := p, m_klog := log\<rparr>) \<and>
      mPkts p = [] \<and> cPkts p = cPkts (rxPool s)" if s: "books {#} {#} s" for s
  proof (cases "mPkts (rxPool s) = []")
    case True
    then show ?thesis using s by (intro exI [of _ "rxPool s"] exI [of _ "m_klog s"]) (simp add: free_mbufs_def)
  next
    case False
    let ?p = "(rxPool s)\<lparr>mPkts := [], mPktNum := 0\<rparr>" and ?l = "FreeMbuf (mPkts (rxPool s)) # m_klog s"
    have "books {#} {#} (s\<lparr>rxPool := ?p, m_klog := ?l\<rparr>)"
      by (rule books_free [OF s, of "mPkts (rxPool s)" ?p]) (use s in \<open>simp_all add: books_def ring_bufs_def pool_bufs_def\<close>)
    then show ?thesis using False
      by (intro exI [of _ ?p] exI [of _ ?l]) (simp add: free_mbufs_def mbuf_freem_list_def kcall_def)
  qed
  obtain p log where c: "run_state free_clusters s = ((), s\<lparr>rxPool := p, m_klog := log\<rparr>)"
    "books {#} {#} (s\<lparr>rxPool := p, m_klog := log\<rparr>)" "cPkts p = []"
    using clusters [OF assms] by blast
  obtain q log' where d: "run_state free_mbufs (s\<lparr>rxPool := p, m_klog := log\<rparr>) = ((), s\<lparr>rxPool := q, m_klog := log'\<rparr>)"
    "books {#} {#} (s\<lparr>rxPool := q, m_klog := log'\<rparr>)" "mPkts q = []" "cPkts q = []"
    using mbufs [OF c(2)] c(3) by auto
  show ?thesis using c(1) d by (intro exI [of _ q] exI [of _ log']) (simp add: free_pool_def pool_bufs_def)
qed

text \<open>The buffers and the pool given back, whatever they hold.\<close>

definition rx_stocked :: "resource set \<Rightarrow> mausi \<Rightarrow> bool" where
  "rx_stocked h s \<longleftrightarrow> balanced s \<and> m_has s = h \<and> rx_mds s = {#} \<and> tx_mds s = {#} \<and> books {#} {#} s \<and> rxPacket s = []"

lemma release_bufs_run:
  assumes "rx_stocked h s"
  shows "\<exists>log p. run_state (do { release_rx_bufs; free_pool }) s = ((), s\<lparr>rxBufArray := [], rxPool := p, m_klog := log\<rparr>) \<and>
    rx_bare h (s\<lparr>rxBufArray := [], rxPool := p, m_klog := log\<rparr>)"
proof -
  have s: "books {#} {#} (s\<lparr>rxBufArray := rxBufArray s\<rparr>)" using assms by (simp add: rx_stocked_def)
  obtain log where f: "run_state (free_rx_bufs (rxBufArray s)) s = ((), s\<lparr>m_klog := log\<rparr>)"
    "books {#} {#} (s\<lparr>m_klog := log, rxBufArray := []\<rparr>)"
    using free_rx_bufs_run [OF s] by blast
  let ?s = "s\<lparr>m_klog := log, rxBufArray := []\<rparr>"
  obtain p log' where p: "run_state free_pool ?s = ((), ?s\<lparr>rxPool := p, m_klog := log'\<rparr>)" "pool_bufs p = {#}"
    "books {#} {#} (?s\<lparr>rxPool := p, m_klog := log'\<rparr>)"
    using free_pool_run [OF f(2)] by blast
  have run: "run_state (do { release_rx_bufs; free_pool }) s = ((), s\<lparr>rxBufArray := [], rxPool := p, m_klog := log'\<rparr>)"
    using f(1) p(1) by (simp add: release_rx_bufs_def)
  have "keeps (same books_state) (free_rx_bufs bs)" for bs
    by (induction bs) (simp_all only: free_rx_bufs.simps, (intro bst_intros bst_pool | assumption)+)
  then have "keeps (same books_state) (do { release_rx_bufs; free_pool })"
    unfolding release_rx_bufs_def by (intro bst_intros bst_free_pool; simp)
  from balanced_books [OF keeps_run [OF this, of s, unfolded same_def run snd_conv]]
  have "balanced (s\<lparr>rxBufArray := [], rxPool := p, m_klog := log'\<rparr>)" using assms by (simp add: rx_stocked_def)
  then show ?thesis using run p(2,3) assms
    by (intro exI [of _ log'] exI [of _ p]) (simp add: rx_bare_def rx_stocked_def rx_mds_def)
qed

lemma rx_buf_label:
  assumes "rx_stocked ({RxPoolObject, RxDescDmaCmd, RxBufDesc, RxBufArray} \<union> h) s"
    and "h \<inter> {RxPoolObject, RxDescDmaCmd, RxBufDesc, RxBufArray} = {}"
  shows "\<exists>t. run_state error_rx_buf s = (False, t) \<and> rx_bare h t \<and> useAppleVTD t = useAppleVTD s \<and> m_kernel t = m_kernel s"
proof -
  let ?m = "do { discard_resource RxPoolObject; error_rx_pool }"
  obtain log p where r: "run_state (do { release_rx_bufs; free_pool }) s = ((), s\<lparr>rxBufArray := [], rxPool := p, m_klog := log\<rparr>)"
    "rx_bare ({RxPoolObject, RxDescDmaCmd, RxBufDesc, RxBufArray} \<union> h) (s\<lparr>rxBufArray := [], rxPool := p, m_klog := log\<rparr>)"
    using release_bufs_run [OF assms(1)] by blast
  have "backs_out rx_bare {RxPoolObject, RxDescDmaCmd, RxBufDesc, RxBufArray} h ?m"
    by (rule rx.backs_out_discard [OF rx_labels(6)]) (use assms(2) in auto)
  from rx.backs_outD [OF this r(2)] obtain t where "run_state ?m (s\<lparr>rxBufArray := [], rxPool := p, m_klog := log\<rparr>) = (False, t)"
    "rx_bare h t" "useAppleVTD t = useAppleVTD s" "m_kernel t = m_kernel s" by auto
  moreover have e: "error_rx_buf = State_Monad.bind (do { release_rx_bufs; free_pool }) (\<lambda>_. ?m)" by (simp add: error_rx_buf_def)
  have "run_state error_rx_buf s = run_state ?m (s\<lparr>rxBufArray := [], rxPool := p, m_klog := log\<rparr>)"
    unfolding e by (subst run_state_bind) (simp only: r(1) prod.case)
  ultimately show ?thesis by simp
qed

subsection \<open>The pool and the buffers\<close>

text \<open>What the set-up of the pool leaves alone.\<close>

definition pool_frame :: "mausi \<Rightarrow> mausi \<Rightarrow> bool" where
  "pool_frame s t \<longleftrightarrow> m_kernel t = m_kernel s \<and> useAppleVTD t = useAppleVTD s \<and> rxDescArray t = rxDescArray s \<and>
     rxBufArray t = rxBufArray s \<and> rxNextDescIndex t = rxNextDescIndex s \<and> rxMapNextIndex t = rxMapNextIndex s \<and>
     rxCleanedCount t = rxCleanedCount s"

lemma withCapacity_run:
  assumes "rx_bare h s" and "RxPoolObject \<notin> h"
  shows "\<exists>r t. run_state (withCapacity mhlen mcap ccap) s = (r, t) \<and> pool_frame s t \<and>
    (if r then rx_stocked (insert RxPoolObject h) t \<and> pool_ok (rxPool t) else rx_bare h t)"
proof (cases "k_ok (m_kernel s) (m_klog s) (Obtain RxPoolObject)")
  case False
  let ?t = "s\<lparr>m_klog := Obtain RxPoolObject # m_klog s, m_has := m_has s, rxPool := rxPool s\<rparr>"
  have o: "run_state (obtain_resource RxPoolObject) s = (False, ?t)" using False by (simp add: run_obtain)
  from rx_bare_obtain [OF assms(1,2) o] o show ?thesis
    by (intro exI [of _ False] exI [of _ ?t]) (simp add: withCapacity_def try_step_def pool_frame_def)
next
  case True
  let ?t = "s\<lparr>m_klog := Obtain RxPoolObject # m_klog s, m_has := insert RxPoolObject h\<rparr>"
  have "m_has s = h" using assms(1) by (simp add: rx_bare_def)
  then have o: "run_state (obtain_resource RxPoolObject) s = (True, ?t)" using True by (simp add: run_obtain)
  have t: "rx_bare (insert RxPoolObject h) ?t" using rx_bare_obtain [OF assms(1,2) o] by simp
  then have "pool_bufs (rxPool ?t) = {#}" "books {#} {#} ?t" by (simp_all add: rx_bare_def)
  from initWithCapacity_run [OF this, of mhlen mcap ccap] obtain p log ok where
    i: "run_state (initWithCapacity mhlen mcap ccap) ?t = (ok, ?t\<lparr>rxPool := p, m_klog := log\<rparr>)"
    "books {#} {#} (?t\<lparr>rxPool := p, m_klog := log\<rparr>)" "\<not> ok \<longrightarrow> pool_bufs p = {#}" "ok \<longrightarrow> pool_ok p" by blast
  let ?u = "?t\<lparr>rxPool := p, m_klog := log\<rparr>"
  have bal: "balanced ?u"
    using balanced_books [OF keeps_run [OF bst_init, of ?t mhlen mcap ccap, unfolded same_def]] t i(1) by (simp add: rx_bare_def)
  show ?thesis
  proof (cases ok)
    case ok: True
    have "run_state (withCapacity mhlen mcap ccap) s = (True, ?u)"
      using o i(1) ok by (simp add: withCapacity_def try_step_def)
    moreover have "rx_stocked (insert RxPoolObject h) ?u"
      using t bal i(2) by (simp add: rx_stocked_def rx_bare_def rx_mds_def)
    ultimately show ?thesis using i(4) ok
      by (intro exI [of _ True] exI [of _ ?u]) (simp add: pool_frame_def)
  next
    case False
    then have p: "cPkts p = []" "mPkts p = []" using i(3) by (simp_all add: pool_bufs_def)
    have bare: "rx_bare (insert RxPoolObject h) ?u"
      using t bal i(2,3) False by (simp add: rx_bare_def rx_mds_def)
    have "run_state free_pool ?u = ((), ?u)" using p by (simp add: free_pool_def free_clusters_def free_mbufs_def)
    then have "run_state (withCapacity mhlen mcap ccap) s = (False, ?u\<lparr>m_klog := Discard RxPoolObject # m_klog ?u, m_has := m_has ?u - {RxPoolObject}\<rparr>)"
      using o i(1) False by (simp add: withCapacity_def try_step_def run_discard)
    then show ?thesis using rx_bare_discard [OF bare assms(2)]
      by (intro exI [of _ False] exI conjI) (assumption, simp_all add: pool_frame_def)
  qed
qed

lemma setup_rx_bufs_run:
  assumes "pool_ok (rxPool s)" "rx_stocked h s" "length (rxDescArray s) = 512" "length (rxBufArray s) + n \<le> 512"
    and "\<not> useAppleVTD s \<Longrightarrow> addrs_ok s \<and> (\<forall>q < length (rxBufArray s). rxDescArray s ! q = given_back (rxb_phyAddr (rxBufArray s ! q)))"
  shows "\<exists>r log p bs ds. let t = s\<lparr>rxPool := p, m_klog := log, rxBufArray := bs, rxDescArray := ds\<rparr> in
    run_state (setup_rx_bufs n) s = (r, t) \<and> rx_stocked h t \<and> pool_ok p \<and> length ds = 512 \<and>
    (r \<longrightarrow> length bs = length (rxBufArray s) + n) \<and> (useAppleVTD s \<longrightarrow> ds = rxDescArray s) \<and>
    (\<not> useAppleVTD s \<longrightarrow> addrs_ok t \<and> (\<forall>q < length bs. ds ! q = given_back (rxb_phyAddr (bs ! q))))"
  using assms
proof (induction n arbitrary: s)
  case 0
  then show ?case
    by (intro exI [of _ True] exI [of _ "m_klog s"] exI [of _ "rxPool s"] exI [of _ "rxBufArray s"] exI [of _ "rxDescArray s"])
      (simp add: Let_def)
next
  case (Suc n)
  have b: "books {#} {#} s" using Suc.prems(2) by (simp add: rx_stocked_def)
  obtain m p log where g: "run_state (getPacket PAGE_SIZE MBUF_WAITOK) s = (m, s\<lparr>rxPool := p, m_klog := log\<rparr>)" "pool_ok p"
    "books {#} (given m + {#}) (s\<lparr>rxPool := p, m_klog := log\<rparr>)"
    using getPacket_run [OF Suc.prems(1) b, of PAGE_SIZE MBUF_WAITOK] by blast
  let ?s = "s\<lparr>rxPool := p, m_klog := log\<rparr>"
  have bal: "balanced ?s \<and> m_has ?s = m_has s"
    using balanced_books [OF keeps_run [OF bst_getPacket, of s PAGE_SIZE MBUF_WAITOK, unfolded same_def]] Suc.prems(2) g(1)
    by (simp add: rx_stocked_def)
  show ?case
  proof (cases m)
    case None
    have "rx_stocked h ?s" using Suc.prems(2) bal g(3) None by (simp add: rx_stocked_def rx_mds_def)
    moreover have "addrs_ok ?s = addrs_ok s" by simp
    ultimately show ?thesis using g(1,2) None Suc.prems(3,5)
      by (intro exI [of _ False] exI [of _ log] exI [of _ p] exI [of _ "rxBufArray s"] exI [of _ "rxDescArray s"]) (simp add: Let_def)
  next
    case (Some m)
    let ?pa = "if useAppleVTD s then 0 else k_phys (m_kernel s) m" and ?n = "length (rxBufArray s)"
    let ?bs = "rxBufArray s @ [\<lparr>rxb_mbuf = m, rxb_phyAddr = ?pa\<rparr>]"
    let ?ds = "if useAppleVTD s then rxDescArray s else (rxDescArray s)[?n := \<lparr>rd_low = ?pa, rd_high = 0\<rparr>]"
    let ?t = "?s\<lparr>rxBufArray := ?bs, rxDescArray := ?ds\<rparr>"
    have "books {#} {#} ?t" using g(3) Some by (simp add: books_def ring_bufs_def)
    then have st: "rx_stocked h ?t"
      using Suc.prems(2) bal by (simp add: rx_stocked_def rx_mds_def balanced_def tx_mds_def)
    have desc: "addrs_ok ?t \<and> (\<forall>q < length (rxBufArray ?t). rxDescArray ?t ! q = given_back (rxb_phyAddr (rxBufArray ?t ! q)))"
      if "\<not> useAppleVTD ?t"
      using Suc.prems(3-5) that by (auto simp: addrs_ok_def nth_append given_back_def less_Suc_eq)
    have pre: "pool_ok (rxPool ?t)" "length (rxDescArray ?t) = 512" "length (rxBufArray ?t) + n \<le> 512"
      using g(2) Suc.prems(3,4) by simp_all
    obtain r log' p' bs ds where i: "run_state (setup_rx_bufs n) ?t = (r, ?t\<lparr>rxPool := p', m_klog := log', rxBufArray := bs, rxDescArray := ds\<rparr>)"
      "rx_stocked h (?t\<lparr>rxPool := p', m_klog := log', rxBufArray := bs, rxDescArray := ds\<rparr>)" "pool_ok p'" "length ds = 512"
      "r \<longrightarrow> length bs = length (rxBufArray ?t) + n" "useAppleVTD ?t \<longrightarrow> ds = rxDescArray ?t"
      "\<not> useAppleVTD ?t \<longrightarrow> addrs_ok (?t\<lparr>rxPool := p', m_klog := log', rxBufArray := bs, rxDescArray := ds\<rparr>) \<and>
        (\<forall>q < length bs. ds ! q = given_back (rxb_phyAddr (bs ! q)))"
      using Suc.IH [OF pre(1) st pre(2,3) desc] unfolding Let_def by blast
    have "run_state (setup_rx_bufs (Suc n)) s = (r, s\<lparr>rxPool := p', m_klog := log', rxBufArray := bs, rxDescArray := ds\<rparr>)"
      using g(1) Some i(1) by (cases "useAppleVTD s") (simp_all add: Let_def)
    then show ?thesis using i(2-7)
      by (intro exI [of _ r] exI [of _ log'] exI [of _ p'] exI [of _ bs] exI [of _ ds]) (simp add: Let_def)
  qed
qed

subsection \<open>The receive ring set up\<close>

definition rx_resources :: "bool \<Rightarrow> resource set" where
  "rx_resources vtd = {RxPoolObject, RxDescDmaCmd, RxBufDesc, RxBufArray} \<union> (if vtd then {RxMapMem} else {})"

definition no_desc :: rx_desc where "no_desc = \<lparr>rd_low = 0, rd_high = 0\<rparr>"

text \<open>The state after a successful set-up that started with the resources \<open>h\<close>, with an I/O mapper or without.\<close>

definition rx_set_up :: "resource set \<Rightarrow> bool \<Rightarrow> mausi \<Rightarrow> bool" where
  "rx_set_up h vtd t \<longleftrightarrow> balanced t \<and> m_has t = rx_resources vtd \<union> h \<and> tx_mds t = {#} \<and> books {#} {#} t \<and> rxPacket t = [] \<and>
     pool_ok (rxPool t) \<and> length (rxBufArray t) = 512 \<and> length (rxDescArray t) = 512 \<and>
     rxNextDescIndex t = 0 \<and> rxMapNextIndex t = 0 \<and> rxCleanedCount t = 0 \<and>
     (if vtd then length (rxMemIO t) = 32 \<and> length (rxMemRange t) = 512 \<and>
        (\<forall>q < 512. fst (rxMemRange t ! q) = k_datastart (m_kernel t) (rxb_mbuf (rxBufArray t ! q))) \<and>
        (\<forall>q < 512. rxDescArray t ! q = (if q < 32 then given_back (rxb_phyAddr (rxBufArray t ! (16 * q + 15))) else no_desc))
      else rx_mds t = {#} \<and> addrs_ok t \<and> (\<forall>q < 512. rxDescArray t ! q = given_back (rxb_phyAddr (rxBufArray t ! q))))"

lemma setup_rx_packets_run:
  assumes bare: "rx_bare ({RxDescDmaCmd, RxBufDesc, RxBufArray} \<union> h) s" and free: "h \<inter> rx_resources True = {}"
    and ring: "rxDescArray s = replicate 512 no_desc" "rxNextDescIndex s = 0" "rxMapNextIndex s = 0" "rxCleanedCount s = 0"
  shows "\<exists>r t. run_state (setup_rx_packets mhlen) s = (r, t) \<and> useAppleVTD t = useAppleVTD s \<and> m_kernel t = m_kernel s \<and>
    (if r then rx_set_up h (useAppleVTD s) t else rx_bare h t)"
proof -
  let ?g = "{RxDescDmaCmd, RxBufDesc, RxBufArray} \<union> h" and ?g1 = "{RxPoolObject, RxDescDmaCmd, RxBufDesc, RxBufArray} \<union> h"
  have h: "h \<inter> {RxBufArray, RxBufDesc, RxDescDmaCmd} = {}" "h \<inter> {RxPoolObject, RxDescDmaCmd, RxBufDesc, RxBufArray} = {}"
    "RxPoolObject \<notin> ?g" "RxMapMem \<notin> ?g1" using free by (auto simp: rx_resources_def)
  obtain r t where c: "run_state (withCapacity mhlen kRxPoolMbufCap kRxPoolClstCap) s = (r, t)" "pool_frame s t"
    "if r then rx_stocked (insert RxPoolObject ?g) t \<and> pool_ok (rxPool t) else rx_bare ?g t"
    using withCapacity_run [OF bare h(3)] by blast
  have same: "useAppleVTD t = useAppleVTD s" "m_kernel t = m_kernel s" using c(2) by (simp_all add: pool_frame_def)
  show ?thesis
  proof (cases r)
    case False
    then have b: "rx_bare ?g t" using c(3) by simp
    from rx.backs_outD [OF rx_labels(6) [OF h(1)] b] obtain u where "run_state error_rx_pool t = (False, u)" "rx_bare h u"
      "useAppleVTD u = useAppleVTD t" "m_kernel u = m_kernel t" by blast
    then show ?thesis using c(1) False same
      by (intro exI [of _ False] exI [of _ u]) (simp add: setup_rx_packets_def try_step_def)
  next
    case True
    then have t: "rx_stocked ?g1 t" "pool_ok (rxPool t)" using c(3) by simp_all
    have arr: "rxDescArray t = replicate 512 no_desc" "rxBufArray t = []" "rxNextDescIndex t = 0" "rxMapNextIndex t = 0" "rxCleanedCount t = 0"
      using c(2) ring bare by (simp_all add: pool_frame_def rx_bare_def)
    have pre: "length (rxDescArray t) = 512" "length (rxBufArray t) + 512 \<le> 512"
      "\<not> useAppleVTD t \<Longrightarrow> addrs_ok t \<and> (\<forall>q < length (rxBufArray t). rxDescArray t ! q = given_back (rxb_phyAddr (rxBufArray t ! q)))"
      by (simp_all add: arr addrs_ok_def)
    obtain ok log p bs ds where b: "run_state (setup_rx_bufs 512) t = (ok, t\<lparr>rxPool := p, m_klog := log, rxBufArray := bs, rxDescArray := ds\<rparr>)"
      "rx_stocked ?g1 (t\<lparr>rxPool := p, m_klog := log, rxBufArray := bs, rxDescArray := ds\<rparr>)" "pool_ok p" "length ds = 512"
      "ok \<longrightarrow> length bs = length (rxBufArray t) + 512" "useAppleVTD t \<longrightarrow> ds = rxDescArray t"
      "\<not> useAppleVTD t \<longrightarrow> addrs_ok (t\<lparr>rxPool := p, m_klog := log, rxBufArray := bs, rxDescArray := ds\<rparr>) \<and>
        (\<forall>q < length bs. ds ! q = given_back (rxb_phyAddr (bs ! q)))"
      using setup_rx_bufs_run [OF t(2,1) pre] unfolding Let_def by blast
    define u where "u = t\<lparr>rxPool := p, m_klog := log, rxBufArray := bs, rxDescArray := ds\<rparr>"
    have u: "useAppleVTD u = useAppleVTD s" "m_kernel u = m_kernel s" "rxNextDescIndex u = 0" "rxMapNextIndex u = 0" "rxCleanedCount u = 0"
      "rxDescArray u = ds" "rxBufArray u = bs" "rxPool u = p" using same arr by (simp_all add: u_def)
    note st = b(2) [folded u_def]
    note run = b(1) [folded u_def]
    have undo: ?thesis if "rx_stocked ?g1 v" "useAppleVTD v = useAppleVTD s" "m_kernel v = m_kernel s"
      "run_state (setup_rx_packets mhlen) s = run_state error_rx_buf v" for v
      using rx_buf_label [OF that(1) h(2)] that(2-4) by auto
    show ?thesis
    proof (cases ok)
      case False
      then show ?thesis using undo [OF st u(1,2)] c(1) True run by (simp add: setup_rx_packets_def try_step_def)
    next
      case ok: True
      have len: "length (rxBufArray u) = 512" using b(5) ok arr(2) u(7) by simp
      have bal: "balanced u" "m_has u = ?g1" "rx_mds u = {#}" "books {#} {#} u" "rxPacket u = []" "tx_mds u = {#}" using st by (simp_all add: rx_stocked_def)
      show ?thesis
      proof (cases "useAppleVTD s")
        case vtd: False
        have "rx_set_up h (useAppleVTD s) u"
          using vtd bal len b(3,4,7) same u by (simp add: rx_set_up_def rx_resources_def u_def)
        then show ?thesis using c(1) True run ok vtd u(1,2)
          by (intro exI [of _ True] exI [of _ u]) (simp add: setup_rx_packets_def try_step_def)
      next
        case vtd: True
        obtain r v where m: "run_state setupRxMap u = (r, v)" "balanced v" "maps_frame u v"
          "m_has v = (if r then insert RxMapMem (m_has u) else m_has u)" "\<not> r \<longrightarrow> rx_mds v = {#}"
          "r \<longrightarrow> length (rxMemIO v) = 32 \<and> length (rxMemRange v) = 512 \<and>
            (\<forall>q < 512. fst (rxMemRange v ! q) = k_datastart (m_kernel v) (rxb_mbuf (rxBufArray v ! q))) \<and>
            (\<forall>q < length (rxDescArray v). rxDescArray v ! q = (if q < 32 then given_back (rxb_phyAddr (rxBufArray v ! (16 * q + 15))) else rxDescArray u ! q))"
          using setupRxMap_run [OF bal(1) _ bal(3) len] h(4) bal(2) by auto
        have v: "useAppleVTD v = useAppleVTD s" "m_kernel v = m_kernel s" "books {#} {#} v" "rxPacket v = []"
          "rxNextDescIndex v = 0" "rxMapNextIndex v = 0" "rxCleanedCount v = 0" "rxPool v = p" "length (rxDescArray v) = 512"
          using m(3) maps_frame_books [OF m(3)] bal(4,5) u b(4) by (simp_all add: maps_frame_def)
        have tv: "tx_mds v = {#}" using m(3) bal(6) by (simp add: maps_frame_def tx_mds_def)
        have lv: "length (rxBufArray v) = 512" using m(3) len unfolding maps_frame_def by (metis length_map)
        show ?thesis
        proof (cases r)
          case False
          have "rx_stocked ?g1 v" using False m(2,4,5) bal(2) v(3,4) tv by (simp add: rx_stocked_def)
          then show ?thesis using undo [OF _ v(1,2)] c(1) True run ok vtd u(1) m(1) False
            by (simp add: setup_rx_packets_def try_step_def)
        next
          case r: True
          have "ds = replicate 512 no_desc" using b(6) vtd same(1) arr(1) by simp
          then have "rx_set_up h (useAppleVTD s) v"
            using r m(2,4,6) bal(2) v lv tv vtd b(3) u(6) by (simp add: rx_set_up_def rx_resources_def insert_commute)
          then show ?thesis using c(1) True run ok vtd u(1) m(1) r v(1,2)
            by (intro exI [of _ True] exI [of _ v]) (simp add: setup_rx_packets_def try_step_def)
        qed
      qed
    qed
  qed
qed

lemma setup_rx_run:
  assumes "h \<inter> rx_resources True = {}"
  shows "sets_up rx_bare {} (rx_set_up h) h (setupRxResources mhlen)"
proof -
  have h: "h \<inter> {RxBufArray, RxBufDesc, RxDescDmaCmd} = {}" using assms by (auto simp: rx_resources_def)
  note lab = rx_labels [OF h]
  have "sets_up rx_bare {RxDescDmaCmd, RxBufDesc, RxBufArray} (rx_set_up h) h (do { setup_rx_ring; setup_rx_packets mhlen })"
    unfolding sets_up_def
  proof (intro allI impI)
    fix s assume s: "rx_bare ({RxDescDmaCmd, RxBufDesc, RxBufArray} \<union> h) s"
    define t where "t = snd (run_state setup_rx_ring s)"
    have "rx_bare ({RxDescDmaCmd, RxBufDesc, RxBufArray} \<union> h) t"
      using s by (simp add: t_def setup_rx_ring_def rx_bare_def balanced_def rx_mds_def tx_mds_def books_def ring_bufs_def)
    moreover have t: "rxDescArray t = replicate 512 no_desc" "rxNextDescIndex t = 0" "rxMapNextIndex t = 0" "rxCleanedCount t = 0"
      "useAppleVTD t = useAppleVTD s" "m_kernel t = m_kernel s" by (simp_all add: t_def setup_rx_ring_def no_desc_def)
    ultimately obtain r u where u: "run_state (setup_rx_packets mhlen) t = (r, u)" "useAppleVTD u = useAppleVTD t" "m_kernel u = m_kernel t"
      "if r then rx_set_up h (useAppleVTD t) u else rx_bare h u"
      using setup_rx_packets_run [OF _ assms] by blast
    have "run_state (do { setup_rx_ring; setup_rx_packets mhlen }) s = (r, u)"
      using u(1) by (simp add: t_def case_prod_beta)
    then show "\<exists>r t. run_state (do { setup_rx_ring; setup_rx_packets mhlen }) s = (r, t) \<and> useAppleVTD t = useAppleVTD s \<and>
        m_kernel t = m_kernel s \<and> (if r then rx_set_up h (useAppleVTD s) t else rx_bare h t)"
      using u(2-4) t(5,6) by (intro exI [of _ r] exI [of _ u]) auto
  qed
  then show ?thesis
    unfolding setupRxResources_def using h
    by (intro rx.sets_up_ring [OF lab(1-5)]) auto
qed

subsection \<open>The transmit ring set up\<close>

definition tx_resources :: "bool \<Rightarrow> resource set" where
  "tx_resources vtd = {TxDescDmaCmd, TxBufDesc, TxBufArray, if vtd then TxMapMem else TxMbufCursor}"

definition tx_set_up :: "resource set \<Rightarrow> bool \<Rightarrow> mausi \<Rightarrow> bool" where
  "tx_set_up h vtd t \<longleftrightarrow> balanced t \<and> m_has t = tx_resources vtd \<union> h \<and> tx_mds t = {#} \<and>
     (vtd \<longrightarrow> length (txMemIO t) = 256)"

lemma tx_bare_modify:
  assumes f: "\<And>s. (m_kernel (f s), m_klog (f s), m_has (f s), rxMemIO (f s), txMemIO (f s), useAppleVTD (f s)) =
     (m_kernel s, m_klog s, m_has s, rxMemIO s, txMemIO s, useAppleVTD s)" and m: "backs_out tx_bare g h m"
  shows "backs_out tx_bare g h (do { modify f; m })"
proof -
  have "tx_bare x (f s) = tx_bare x s" "useAppleVTD (f s) = useAppleVTD s" "m_kernel (f s) = m_kernel s" for x s
    using f [of s] by (simp_all add: tx_bare_def balanced_def rx_mds_def tx_mds_def)
  then show ?thesis using m unfolding backs_out_def by (metis (no_types, lifting) prod.case run_modify run_state_bind)
qed

lemma tx_labels:
  assumes "h \<inter> {TxBufArray, TxBufDesc, TxDescDmaCmd} = {}"
  shows "backs_out tx_bare {TxBufArray} h error_tx_buf" "backs_out tx_bare {TxBufDesc, TxBufArray} h error_tx_prep"
    "backs_out tx_bare {TxBufDesc, TxBufArray} h error_tx_dma" "backs_out tx_bare {TxDescDmaCmd, TxBufDesc, TxBufArray} h error_tx_set"
    "backs_out tx_bare {TxDescDmaCmd, TxBufDesc, TxBufArray} h error_tx_seg" "backs_out tx_bare {TxDescDmaCmd, TxBufDesc, TxBufArray} h error_tx_cursor"
proof -
  have "backs_out tx_bare {} h (ret False)" by (simp add: backs_out_def)
  then have "backs_out tx_bare {} h (do { modify (txBufArray_update (\<lambda>_. [])); ret False })" by (intro tx_bare_modify) simp_all
  then show 1: "backs_out tx_bare {TxBufArray} h error_tx_buf"
    unfolding error_tx_buf_def by (rule tx.backs_out_discard) (use assms in auto)
  then show 2: "backs_out tx_bare {TxBufDesc, TxBufArray} h error_tx_prep"
    unfolding error_tx_prep_def by (rule tx.backs_out_discard) (use assms in auto)
  then show 3: "backs_out tx_bare {TxBufDesc, TxBufArray} h error_tx_dma"
    unfolding error_tx_dma_def by (intro tx.backs_out_call tx_bare_modify) (simp_all add: neutral_def still_def)
  then show 4: "backs_out tx_bare {TxDescDmaCmd, TxBufDesc, TxBufArray} h error_tx_set"
    unfolding error_tx_set_def by (rule tx.backs_out_discard) (use assms in auto)
  then show 5: "backs_out tx_bare {TxDescDmaCmd, TxBufDesc, TxBufArray} h error_tx_seg"
    unfolding error_tx_seg_def by (rule tx.backs_out_call) (simp_all add: neutral_def still_def)
  then show "backs_out tx_bare {TxDescDmaCmd, TxBufDesc, TxBufArray} h error_tx_cursor"
    unfolding error_tx_cursor_def by (intro tx_bare_modify) simp_all
qed

lemma setup_tx_run:
  assumes "h \<inter> (tx_resources True \<union> tx_resources False) = {}"
  shows "sets_up tx_bare {} (tx_set_up h) h setupTxResources"
proof -
  have h: "h \<inter> {TxBufArray, TxBufDesc, TxDescDmaCmd} = {}" "TxMapMem \<notin> h" "TxMbufCursor \<notin> h" using assms by (auto simp: tx_resources_def)
  note lab = tx_labels [OF h(1)]
  let ?g = "{TxDescDmaCmd, TxBufDesc, TxBufArray}"
  let ?last = "\<lambda>m. try_step m error_tx_cursor (ret True)"
  have cursor: "sets_up tx_bare ?g (\<lambda>_ t. tx_bare (insert TxMbufCursor (?g \<union> h)) t) h (?last (obtain_resource TxMbufCursor))"
    using h by (intro tx.sets_up_obtain [OF lab(6)]) (auto simp: sets_up_def)
  have map_mem: "sets_up tx_bare ?g (\<lambda>_ t. tx_bare (insert TxMapMem (?g \<union> h)) t \<and> length (txMemIO t) = 256) h (?last setupTxMap)"
  proof -
    have "?last setupTxMap = try_step (obtain_resource TxMapMem) error_tx_cursor (do {
        modify (\<lambda>s. s\<lparr>txMemIO := replicate kNumTxMemDesc None, txNextMem2Use := 0, txNextMem2Free := 0, txNumFreeMem := kNumTxMemDesc\<rparr>);
        ret True })"
      by (rule state_ext) (simp add: setupTxMap_def try_step_def case_prod_beta)
    moreover have "sets_up tx_bare (insert TxMapMem ?g) (\<lambda>_ t. tx_bare (insert TxMapMem (?g \<union> h)) t \<and> length (txMemIO t) = 256) h (do {
        modify (\<lambda>s. s\<lparr>txMemIO := replicate kNumTxMemDesc None, txNextMem2Use := 0, txNextMem2Free := 0, txNumFreeMem := kNumTxMemDesc\<rparr>);
        ret True })"
      by (auto simp: sets_up_def tx_bare_def balanced_def tx_mds_def rx_mds_def cong: conj_cong)
    ultimately show ?thesis using h by (auto intro!: tx.sets_up_obtain [OF lab(6)])
  qed
  have "sets_up tx_bare ?g (tx_set_up h) h (do {
      setup_tx_ring; vtd \<leftarrow> gets useAppleVTD; ?last (if vtd then setupTxMap else obtain_resource TxMbufCursor) })"
    unfolding sets_up_def
  proof (intro allI impI)
    fix s assume s: "tx_bare (?g \<union> h) s"
    let ?t = "snd (run_state setup_tx_ring s)"
    have t: "tx_bare (?g \<union> h) ?t" "useAppleVTD ?t = useAppleVTD s" "m_kernel ?t = m_kernel s"
      using s by (simp_all add: setup_tx_ring_def tx_bare_def balanced_def rx_mds_def tx_mds_def)
    show "\<exists>r t. run_state (do { setup_tx_ring; vtd \<leftarrow> gets useAppleVTD; ?last (if vtd then setupTxMap else obtain_resource TxMbufCursor) }) s = (r, t) \<and>
        useAppleVTD t = useAppleVTD s \<and> m_kernel t = m_kernel s \<and> (if r then tx_set_up h (useAppleVTD s) t else tx_bare h t)"
    proof (cases "useAppleVTD s")
      case True
      with map_mem t obtain r u where "run_state (?last setupTxMap) ?t = (r, u)" "useAppleVTD u = useAppleVTD s" "m_kernel u = m_kernel s"
        "if r then tx_bare (insert TxMapMem (?g \<union> h)) u \<and> length (txMemIO u) = 256 else tx_bare h u"
        unfolding sets_up_def by metis
      then show ?thesis using True t(2)
        by (intro exI [of _ r] exI [of _ u]) (auto simp: case_prod_beta setup_tx_ring_def tx_set_up_def tx_resources_def tx_bare_def)
    next
      case False
      with cursor t obtain r u where "run_state (?last (obtain_resource TxMbufCursor)) ?t = (r, u)" "useAppleVTD u = useAppleVTD s"
        "m_kernel u = m_kernel s" "if r then tx_bare (insert TxMbufCursor (?g \<union> h)) u else tx_bare h u"
        unfolding sets_up_def by metis
      then show ?thesis using False t(2)
        by (intro exI [of _ r] exI [of _ u]) (auto simp: case_prod_beta setup_tx_ring_def tx_set_up_def tx_resources_def tx_bare_def)
    qed
  qed
  then show ?thesis
    unfolding setupTxResources_def using h
    by (intro tx.sets_up_ring [OF lab(1-5)]) auto
qed

end
