(* ===== verification/RingLife.thy ===== *)
theory RingLife
  imports RingMemory
begin

section \<open>The life of the receive ring\<close>

text \<open>
  Release of the receive ring, the receive operations as operations that leave the resources alone, and the
  states the receive side can reach from its set-up on, with an I/O mapper or without one.
\<close>

subsection \<open>The receive ring released\<close>

lemma free_rx_map_run:
  assumes "balanced s" "books {#} {#} s" "rxPacket s = []" "tx_mds s = {#}" "m_has s = insert RxMapMem g" "RxMapMem \<notin> g" "length (rxMemIO s) = 32"
  shows "\<exists>log io. run_state freeRxMap s = ((), s\<lparr>rxMemIO := io, m_klog := log, m_has := g\<rparr>) \<and>
    rx_stocked g (s\<lparr>rxMemIO := io, m_klog := log, m_has := g\<rparr>)"
proof -
  have "\<forall>i \<in> set [0..<32]. i < length (rxMemIO s)" using assms(7) by simp
  from release_rx_run [OF assms(1) this] assms(7)
  obtain log io where r: "run_state (release_rx_maps [0..<32]) s = ((), s\<lparr>m_klog := log, rxMemIO := io\<rparr>)"
    "balanced (s\<lparr>m_klog := log, rxMemIO := io\<rparr>)" "length io = 32" "\<forall>i < 32. \<not> io ! i"
    "\<forall>st. in_use (m_kernel s) st log = in_use (m_kernel s) st (m_klog s) \<and> calls_ok (m_kernel s) st log = calls_ok (m_kernel s) st (m_klog s)"
    by auto
  let ?t = "s\<lparr>rxMemIO := io, m_klog := Discard RxMapMem # log, m_has := g\<rparr>"
  have g: "g - {RxMapMem} = g" using assms(6) by simp
  have "run_state freeRxMap s = ((), ?t)"
    using r(1) assms(5,6) by (simp add: freeRxMap_def run_discard)
  moreover have "balanced ?t" using discard_balanced [OF r(2), of RxMapMem] assms(5) by (simp add: g)
  moreover have "rx_mds ?t = {#}" using r(3,4) by (simp add: rx_mds_def cong: conj_cong)
  moreover have "books {#} {#} ?t" using assms(2) r(5) by (simp add: books_def ring_bufs_def)
  ultimately show ?thesis using assms(3,4) by (intro exI [of _ "Discard RxMapMem # log"] exI [of _ io]) (simp add: rx_stocked_def)
qed

text \<open>What is left to give back once the buffers are gone.\<close>

definition free_rx_rest :: "unit mausiM" where
  "free_rx_rest = do {
     discard_resource RxPoolObject;
     kcall (ClearMemoryDescriptor RxDescDmaCmd);
     discard_resource RxDescDmaCmd;
     kcall (CompleteMemory RxBufDesc);
     discard_resource RxBufDesc;
     modify (rxPhyAddr_update (\<lambda>_. 0));
     discard_resource RxBufArray }"

lemma bare_steps:
  "rx_bare h s \<Longrightarrow> neutral c \<Longrightarrow> still c \<Longrightarrow> rx_bare h (snd (run_state (kcall c) s))"
  "rx_bare (insert r h) s \<Longrightarrow> r \<notin> h \<Longrightarrow> rx_bare h (snd (run_state (discard_resource r) s))"
  by (simp_all add: rx_bare_call rx_bare_discard run_discard kcall_def)

lemma free_rx_rest_run:
  assumes "rx_bare ({RxPoolObject, RxDescDmaCmd, RxBufDesc, RxBufArray} \<union> h) s"
    and "h \<inter> {RxPoolObject, RxDescDmaCmd, RxBufDesc, RxBufArray} = {}"
  shows "rx_bare h (snd (run_state free_rx_rest s))"
proof -
  let ?d = "\<lambda>r s. snd (run_state (discard_resource r) s)" and ?c = "\<lambda>c s. snd (run_state (kcall c) s)"
  define s1 where "s1 = ?c (ClearMemoryDescriptor RxDescDmaCmd) (?d RxPoolObject s)"
  define s2 where "s2 = ?c (CompleteMemory RxBufDesc) (?d RxDescDmaCmd s1)"
  define s3 where "s3 = (?d RxBufDesc s2)\<lparr>rxPhyAddr := 0\<rparr>"
  have calls: "neutral (ClearMemoryDescriptor r)" "still (ClearMemoryDescriptor r)" "neutral (CompleteMemory r)" "still (CompleteMemory r)" for r
    by (simp_all add: neutral_def still_def)
  have "rx_bare (insert RxDescDmaCmd (insert RxBufDesc (insert RxBufArray h))) s1"
    unfolding s1_def by (intro bare_steps calls) (use assms in auto)
  then have "rx_bare (insert RxBufDesc (insert RxBufArray h)) s2"
    unfolding s2_def by (intro bare_steps calls) (use assms in auto)
  then have "rx_bare (insert RxBufArray h) s3"
    unfolding s3_def rx_bare_simps by (intro bare_steps) (use assms in auto)
  then have "rx_bare h (?d RxBufArray s3)" by (intro bare_steps) (use assms in auto)
  moreover have "snd (run_state free_rx_rest s) = ?d RxBufArray s3"
    by (simp add: free_rx_rest_def s1_def s2_def s3_def case_prod_beta)
  ultimately show ?thesis by simp
qed

definition rx_held :: "mausi \<Rightarrow> bool" where
  "rx_held s \<longleftrightarrow> balanced s \<and> tx_mds s = {#} \<and> books {#} {#} s \<and> (if useAppleVTD s then length (rxMemIO s) = 32 else rx_mds s = {#})"

lemma free_rx_run:
  assumes held: "rx_held s" and "rxPacket s = []"
    and has: "m_has s = rx_resources (useAppleVTD s) \<union> h" and h: "h \<inter> rx_resources True = {}"
  shows "rx_bare h (snd (run_state freeRxResources s))"
proof -
  let ?g = "{RxPoolObject, RxDescDmaCmd, RxBufDesc, RxBufArray} \<union> h"
  define s1 where "s1 = snd (run_state (cwhen (useAppleVTD s) freeRxMap) s)"
  have s1: "rx_stocked ?g s1"
  proof (cases "useAppleVTD s")
    case True
    have "m_has s = insert RxMapMem ?g" "RxMapMem \<notin> ?g" using has h True by (auto simp: rx_resources_def)
    with free_rx_map_run [of s ?g] held assms(2) True show ?thesis by (auto simp: s1_def rx_held_def)
  qed (use assms in \<open>simp add: s1_def rx_held_def rx_stocked_def rx_resources_def\<close>)
  obtain log p where r: "run_state (do { release_rx_bufs; free_pool }) s1 = ((), s1\<lparr>rxBufArray := [], rxPool := p, m_klog := log\<rparr>)"
    "rx_bare ?g (s1\<lparr>rxBufArray := [], rxPool := p, m_klog := log\<rparr>)"
    using release_bufs_run [OF s1] by blast
  have "m_has s1 = ?g" using s1 by (simp add: rx_stocked_def)
  then have "run_state freeRxResources s = run_state (do { release_rx_bufs; free_pool; free_rx_rest }) s1"
    by (simp add: freeRxResources_def free_rx_rest_def s1_def case_prod_beta)
  also have "(do { release_rx_bufs; free_pool; free_rx_rest }) = State_Monad.bind (do { release_rx_bufs; free_pool }) (\<lambda>_. free_rx_rest)" by simp
  finally have "run_state freeRxResources s = run_state free_rx_rest (s1\<lparr>rxBufArray := [], rxPool := p, m_klog := log\<rparr>)"
    by (subst (asm) run_state_bind) (simp only: r(1) prod.case)
  then show ?thesis using free_rx_rest_run [OF r(2)] h by (simp add: rx_resources_def Int_Un_distrib)
qed

subsection \<open>The receive operations leave the resources alone\<close>

lemma bst_hw: "keeps (same books_state) (on_hw m)"
  unfolding on_hw_def by (rule keepsI) (simp add: same_def books_state_def case_prod_beta)

lemma bst_regs: "keeps (same books_state) (intelReadMem32 r)" "keeps (same books_state) (intelWriteMem32 r v)"
  "keeps (same books_state) (rx_tail i)"
  unfolding rx_tail_def intelUpdateRxDescTail_def intelReadMem32_def intelWriteMem32_def
  by (intro bst_intros bst_hw; simp)+

lemma bst_discard: "keeps (same books_state) discardPacketFragment"
  unfolding discardPacketFragment_def by (intro bst_intros bst_pool; simp)

lemma bst_replace: "keeps (same books_state) (replaceOrCopyPacket m len)"
  unfolding replaceOrCopyPacket_def by (intro bst_intros bst_getPacket) (simp_all add: neutral_def)

lemma bst_deliver: "keeps (same books_state) (rx_deliver m d)"
  unfolding rx_deliver_def by (intro bst_intros; simp add: neutral_def)

lemma bst_packet: "keeps (same books_state) (rx_packet i f)"
  unfolding rx_packet_def rx_drop_resource_def
  by (intro bst_intros bst_replace bst_pool bst_discard bst_deliver; simp)

lemma bst_round: "books_state (snd (rx_round s)) = books_state s"
proof -
  have "keeps (same books_state) (do { i \<leftarrow> gets (\<lambda>s. unat (rxNextDescIndex s)); r \<leftarrow> rx_packet i k_phys; rx_next i (fst r); ret (snd r) })"
    unfolding rx_next_def by (intro bst_intros bst_packet; simp)
  from keeps_run [OF this, of s] show ?thesis by (simp add: rx_round_def same_def)
qed

lemma bst_round_vtd: "books_state (snd (rx_round_vtd s)) = books_state s"
proof -
  have "keeps (same books_state) (do { i \<leftarrow> gets (\<lambda>s. unat (rxNextDescIndex s)); r \<leftarrow> rx_packet i (\<lambda>_ _. 0); rx_next_vtd; ret (snd r) })"
    unfolding rx_next_vtd_def by (intro bst_intros bst_packet; simp)
  from keeps_run [OF this, of s] show ?thesis by (simp add: rx_round_vtd_def same_def)
qed

lemma bst_rx_loop:
  assumes "rx_loop n k s = Some r"
  shows "books_state (snd r) = books_state s"
proof (rule rx_loop.raw_induct [OF _ assms, where P = "\<lambda>n k s r. books_state (snd r) = books_state s"], goal_cases)
  case (1 f n k s r)
  show ?case
    using 1(2) bst_round [of s] by (auto split: if_splits prod.splits dest!: 1(1))
qed

lemma bst_rx_loop_vtd:
  assumes "rx_loop_vtd n k s = Some r"
  shows "books_state (snd r) = books_state s"
proof (rule rx_loop_vtd.raw_induct [OF _ assms, where P = "\<lambda>n k s r. books_state (snd r) = books_state s"], goal_cases)
  case (1 f n k s r)
  show ?case
    using 1(2) bst_round_vtd [of s] by (auto split: if_splits prod.splits dest!: 1(1))
qed

lemma bst_map: "keeps (same books_state) (rxMapBuffers index n update)"
proof -
  have "keeps (same books_state) (rx_new_ranges is)" "keeps (same books_state) (rx_new_addrs md offset is)" for "is" md offset
    by (induction "is" arbitrary: offset) (simp_all only: rx_new_ranges.simps rx_new_addrs.simps, (intro bst_intros; simp)+)
  then have batch: "keeps (same books_state) (rx_map_batch index)" for index
    unfolding rx_map_batch_def by (intro bst_intros; simp add: neutral_def)
  have "keeps (same books_state) (rx_map_loop n index update)" for n index
    by (induction n arbitrary: index) (simp_all only: rx_map_loop.simps, (intro bst_intros bst_regs batch | assumption)+)
  then show ?thesis by (simp add: rxMapBuffers_def)
qed

lemma bst_interrupt: "rxInterrupt n s = Some (g, t) \<Longrightarrow> books_state t = books_state s"
proof -
  assume "rxInterrupt n s = Some (g, t)"
  then obtain u where u: "rx_loop n 0 s = Some (g, u)" "t = snd (run_state (do {
        cleaned \<leftarrow> gets rxCleanedCount;
        cwhen (cleaned \<ge> E1000_RX_BUFFER_WRITE) (do {
          next \<leftarrow> gets rxNextDescIndex;
          rx_tail (ucast (next - 1) AND kRxDescMask);
          modify (\<lambda>s. s\<lparr>rxCleanedCount := 0\<rparr>) }) }) u)" (is "_ = snd (run_state ?m u)")
    by (auto simp: rxInterrupt_def)
  have "keeps (same books_state) ?m" by (intro bst_intros bst_regs; simp)
  from keeps_run [OF this, of u] show ?thesis using u(2) bst_rx_loop [OF u(1)] by (simp add: same_def)
qed

lemma bst_interrupt_vtd: "rxInterruptVTD n s = Some (g, t) \<Longrightarrow> books_state t = books_state s"
proof -
  assume "rxInterruptVTD n s = Some (g, t)"
  then obtain u where u: "rx_loop_vtd n 0 s = Some (g, u)" "t = snd (run_state rx_remap u)"
    by (auto simp: rxInterruptVTD_def)
  have "keeps (same books_state) rx_remap"
    unfolding rx_remap_def by (intro bst_intros bst_map; simp)
  from keeps_run [OF this, of u] show ?thesis using u(2) bst_rx_loop_vtd [OF u(1)] by (simp add: same_def)
qed

lemma bst_clear:
  "keeps (same books_state) clear_rx_maps" "keeps (same books_state) clear_rx" "keeps (same books_state) intelInitRxRing"
  unfolding clear_rx_maps_def clear_rx_def intelInitRxRing_def
  by (intro bst_intros bst_map bst_regs bst_discard; simp)+

lemma bst_refill: "keeps (same books_state) refillPool"
proof -
  have "keeps (same books_state) (refill_mbufs n)" "keeps (same books_state) (refill_clusters n)" for n
    by (induction n) (simp_all only: refill_mbufs.simps refill_clusters.simps, (intro bst_intros bst_pool | assumption)+)
  then show ?thesis unfolding refillPool_def by (intro bst_intros bst_pool)
qed

subsection \<open>The life of the receive ring\<close>

text \<open>The object before its rings are set up.\<close>

definition pristine :: "mausi \<Rightarrow> bool" where
  "pristine s \<longleftrightarrow> m_klog s = [] \<and> m_has s = {} \<and> rxMemIO s = [] \<and> txMemIO s = [] \<and> rxBufArray s = [] \<and> rxPacket s = [] \<and>
     cPkts (rxPool s) = [] \<and> mPkts (rxPool s) = []"

lemma pristine_bare: "pristine s \<Longrightarrow> rx_bare {} s" "pristine s \<Longrightarrow> tx_bare {} s"
  by (simp_all add: pristine_def rx_bare_def tx_bare_def balanced_def rx_mds_def tx_mds_def books_def ring_bufs_def pool_bufs_def)

text \<open>
  The receive side from its set-up on, with an I/O mapper or without one: interrupts with any quota, the refill thread,
  writes of the chip, clearing, and clearing with the registers of the ring set again, in any order. The
  chip writes what it likes, but not into the descriptor at the tail, where it stops.
\<close>

inductive rx_life :: "mausi \<Rightarrow> bool" where
  start: "pristine s \<Longrightarrow> run_state (setupRxResources mhlen) s = (True, t) \<Longrightarrow> rx_life (snd (run_state intelInitRxRing t))"
| interrupt: "rx_life s \<Longrightarrow> \<not> useAppleVTD s \<Longrightarrow> rxInterrupt maxCount s = Some (g, t) \<Longrightarrow> rx_life t"
| interrupt_vtd: "rx_life s \<Longrightarrow> useAppleVTD s \<Longrightarrow> rxInterruptVTD maxCount s = Some (g, t) \<Longrightarrow> rx_life t"
| refill: "rx_life s \<Longrightarrow> rx_life (snd (run_state refillPool s))"
| chip: "rx_life s \<Longrightarrow> length ds = 512 \<Longrightarrow> \<not> filled (ds ! tail_pos s) \<Longrightarrow> rx_life (s\<lparr>rxDescArray := ds\<rparr>)"
| clear: "rx_life s \<Longrightarrow> rx_life (snd (run_state clear_rx_ring s))"
| restart: "rx_life s \<Longrightarrow> rx_life (snd (run_state intelInitRxRing (snd (run_state clear_rx_ring s))))"

definition rx_alive :: "mausi \<Rightarrow> bool" where
  "rx_alive s \<longleftrightarrow> balanced s \<and> m_has s = rx_resources (useAppleVTD s) \<and> tx_mds s = {#} \<and>
     (if useAppleVTD s then length (rxMemIO s) = 32 \<and> vtd_ready {#} s \<and> rxCleanedCount s = 0
      else rx_mds s = {#} \<and> rx_ready {#} s)"

lemma alive_step:
  assumes "rx_alive s" and "books_state t = books_state s"
    and "useAppleVTD s \<Longrightarrow> vtd_ready {#} s \<Longrightarrow> rxCleanedCount s = 0 \<Longrightarrow> vtd_ready {#} t \<and> rxCleanedCount t = 0"
    and "\<not> useAppleVTD s \<Longrightarrow> rx_ready {#} s \<Longrightarrow> rx_ready {#} t"
  shows "rx_alive t"
proof -
  have "rxMemIO t = rxMemIO s" "rx_mds t = rx_mds s" "tx_mds t = tx_mds s"
    using assms(2) by (simp_all add: books_state_def rx_mds_def tx_mds_def)
  then show ?thesis using assms balanced_books [OF assms(2)] by (simp add: rx_alive_def)
qed

lemma behind_start: "rxNextDescIndex s = 0 \<Longrightarrow> rxMapNextIndex s = 0 \<Longrightarrow> behind s = 0"
  by (simp add: behind_def)

text \<open>A ring of descriptors the chip has not filled, seen from its start.\<close>

lemma vtd_ready_start:
  assumes "vtd_sizes s" "ranges_ok s" "pool_ok (rxPool s)" "books start {#} s" "rxNextDescIndex s = 0" "rxMapNextIndex s = 0"
    "rxCleanedCount s = 0" "\<not> filled (rxDescArray s ! 511)"
  shows "vtd_ready start s"
  using assms by (simp add: vtd_ready_def tail_pos_def ring_pos_def)

lemma init_rx_run:
  "\<exists>h f. run_state intelInitRxRing s = ((), s\<lparr>m_hw := h, forceReset := f, rxCleanedCount := 0, rxNextDescIndex := 0, rxMapNextIndex := 0\<rparr>)"
proof -
  let ?w = "\<lambda>r v s. s\<lparr>m_hw := after (m_hw s) [Wr (Csr r) v]\<rparr>"
  let ?s = "?w (E1000_RDH 0) 0 (?w (E1000_RDLEN 0) (kNumRxDesc * 16)
    (?w (E1000_RDBAH 0) (ucast (drop_bit 32 (rxPhyAddr s))) (?w (E1000_RDBAL 0) (ucast (rxPhyAddr s AND 0xffffffff)) s)))"
  obtain es f where "run_state (rx_tail kRxLastDesc) ?s = ((), ?s\<lparr>m_hw := after (m_hw ?s) es, forceReset := f\<rparr>)"
    using update_rx_tail_run by blast
  then show ?thesis
    by (intro exI [of _ "after (m_hw ?s) es"] exI [of _ f]) (simp add: intelInitRxRing_def)
qed

lemma fields_simps [simp]:
  "vtd_sizes (s\<lparr>rxNextDescIndex := i\<rparr>) = vtd_sizes s" "vtd_sizes (s\<lparr>rxMapNextIndex := i\<rparr>) = vtd_sizes s"
  "ranges_ok (s\<lparr>rxNextDescIndex := i\<rparr>) = ranges_ok s" "ranges_ok (s\<lparr>rxMapNextIndex := i\<rparr>) = ranges_ok s"
  "books start extra (s\<lparr>rxNextDescIndex := i\<rparr>) = books start extra s" "books start extra (s\<lparr>rxMapNextIndex := i\<rparr>) = books start extra s"
  "books start extra (s\<lparr>m_hw := h\<rparr>) = books start extra s" "books start extra (s\<lparr>forceReset := f\<rparr>) = books start extra s"
  "vtd_sizes (s\<lparr>rxPacket := q\<rparr>) = vtd_sizes s" "vtd_sizes (s\<lparr>rxPacketSize := z\<rparr>) = vtd_sizes s"
  "ranges_ok (s\<lparr>rxPacket := q\<rparr>) = ranges_ok s" "ranges_ok (s\<lparr>rxPacketSize := z\<rparr>) = ranges_ok s"
  "vtd_sizes (s\<lparr>m_klog := l\<rparr>) = vtd_sizes s" "ranges_ok (s\<lparr>m_klog := l\<rparr>) = ranges_ok s"
  "vtd_sizes (s\<lparr>rxPool := p\<rparr>) = vtd_sizes s" "ranges_ok (s\<lparr>rxPool := p\<rparr>) = ranges_ok s"
  by (simp_all add: vtd_sizes_def ranges_ok_def books_def ring_bufs_def)

lemma init_alive:
  assumes "rx_alive s" and "useAppleVTD s \<Longrightarrow> \<not> filled (rxDescArray s ! 511)"
  shows "rx_alive (snd (run_state intelInitRxRing s))"
proof (rule alive_step [OF assms(1)])
  obtain h f where r: "run_state intelInitRxRing s = ((), s\<lparr>m_hw := h, forceReset := f, rxCleanedCount := 0, rxNextDescIndex := 0, rxMapNextIndex := 0\<rparr>)"
    using init_rx_run by blast
  show "books_state (snd (run_state intelInitRxRing s)) = books_state s"
    using keeps_run [OF bst_clear(3), of s] by (simp add: same_def)
  show "vtd_ready {#} (snd (run_state intelInitRxRing s)) \<and> rxCleanedCount (snd (run_state intelInitRxRing s)) = 0"
    if "useAppleVTD s" "vtd_ready {#} s"
    using assms(2) that unfolding r by (intro conjI vtd_ready_start) (simp_all add: vtd_ready_def)
  show "rx_ready {#} (snd (run_state intelInitRxRing s))" if "rx_ready {#} s"
    using that by (intro init_rx_ring_ready) (simp_all add: rx_ready_def)
qed

lemma vtd_clear_run:
  assumes "vtd_ready start s" and "useAppleVTD s"
  shows "\<exists>t. run_state clear_rx_maps s = ((), t) \<and> vtd_sizes t \<and> ranges_ok t \<and> pool_ok (rxPool t) \<and> books start {#} t"
proof -
  have r: "vtd_sizes s" "ranges_ok s" "pool_ok (rxPool s)" "books start {#} s" using assms(1) by (simp_all add: vtd_ready_def)
  let ?s = "s\<lparr>rxMapNextIndex := 0\<rparr>"
  obtain k w t where t: "run_state (rx_map_loop 32 0 False) ?s = (w, t)" "map_frame (ring_pos 0 ` {..<16 * k}) ?s t"
    using rx_map_loop_run [of ?s 0 32 False] r by auto
  have "run_state clear_rx_maps s = ((), t)" using t(1) assms(2) by (simp add: clear_rx_maps_def rxMapBuffers_def)
  moreover have "rxPool t = rxPool s" using t(2) by (simp add: map_frame_def)
  ultimately show ?thesis using map_frame_sizes [OF t(2)] map_frame_ranges [OF t(2)] map_frame_books [OF t(2)] r by simp
qed

text \<open>After clearing there is no packet in progress, and no descriptor is filled.\<close>

lemma clear_alive:
  assumes "rx_alive s"
  defines "t \<equiv> snd (run_state clear_rx_ring s)"
  shows "rx_alive t" "rxPacket t = []" "\<forall>q < 512. \<not> filled (rxDescArray t ! q)"
proof -
  define u where "u = snd (run_state clear_rx_maps s)"
  let ?ds = "map (\<lambda>b. \<lparr>rd_low = rxb_phyAddr b, rd_high = 0\<rparr>) (take kNumRxDesc (rxBufArray u)) @ drop kNumRxDesc (rxDescArray u)"
  let ?u = "u\<lparr>rxDescArray := ?ds, rxCleanedCount := 0, rxNextDescIndex := 0, rxMapNextIndex := 0\<rparr>"
  have tu: "t = snd (run_state clear_rx u)" by (simp add: t_def u_def clear_rx_ring_def case_prod_beta)
  have u: "length (rxBufArray u) = 512 \<and> length (rxDescArray u) = 512 \<and> pool_ok (rxPool u) \<and> books {#} {#} u \<and>
    (if useAppleVTD s then vtd_sizes u \<and> ranges_ok u else u = s)"
  proof (cases "useAppleVTD s")
    case True
    with assms(1) have "vtd_ready {#} s" by (simp add: rx_alive_def)
    from vtd_clear_run [OF this True] show ?thesis using True by (auto simp: u_def vtd_sizes_def)
  qed (use assms(1) in \<open>simp add: u_def clear_rx_maps_def rx_alive_def rx_ready_def\<close>)
  have b: "books {#} {#} ?u" using u by (simp add: books_def ring_bufs_def)
  obtain log where d: "run_state discardPacketFragment ?u = ((), ?u\<lparr>m_klog := log, rxPacket := [], rxPacketSize := 0\<rparr>)"
    "books {#} {#} (?u\<lparr>m_klog := log, rxPacket := [], rxPacketSize := 0\<rparr>)"
    using discard_run [OF b] by blast
  have t: "t = ?u\<lparr>m_klog := log, rxPacket := [], rxPacketSize := 0\<rparr>" using d(1) by (simp add: tu clear_rx_def)
  show "rxPacket t = []" by (simp add: t)
  show unfilled: "\<forall>q < 512. \<not> filled (rxDescArray t ! q)"
    using u by (simp add: t nth_append filled_def rx_status_def)
  show "rx_alive t"
  proof (rule alive_step [OF assms(1)])
    have "keeps (same books_state) clear_rx_ring" unfolding clear_rx_ring_def by (intro bst_intros bst_clear)
    from keeps_run [OF this, of s] show "books_state t = books_state s" by (simp add: same_def t_def)
    show "vtd_ready {#} t \<and> rxCleanedCount t = 0" if "useAppleVTD s"
    proof (intro conjI vtd_ready_start)
      show "ranges_ok t" using u that by (simp add: t ranges_ok_def)
    qed (use u that d(2) unfilled in \<open>simp_all add: t vtd_sizes_def\<close>)
    show "rx_ready {#} t" if "\<not> useAppleVTD s" "rx_ready {#} s"
      using clear_rx_ready [OF that(2)] u that(1) tu by simp
  qed
qed

lemma rx_life_alive: "rx_life s \<Longrightarrow> rx_alive s"
proof (induction rule: rx_life.induct)
  case (start s mhlen t)
  have "sets_up rx_bare {} (rx_set_up {}) {} (setupRxResources mhlen)" by (rule setup_rx_run) simp
  with pristine_bare(1) [OF start(1)] start(2)
  have t: "rx_set_up {} (useAppleVTD s) t" "useAppleVTD t = useAppleVTD s" unfolding sets_up_def by auto
  have r: "books {#} {#} t" "pool_ok (rxPool t)" "length (rxBufArray t) = 512" "length (rxDescArray t) = 512"
    "rxNextDescIndex t = 0" "rxMapNextIndex t = 0" "rxCleanedCount t = 0" using t(1) by (simp_all add: rx_set_up_def)
  have low: "\<not> filled (rxDescArray t ! 511)" if "useAppleVTD t"
    using t that by (simp add: rx_set_up_def filled_def no_desc_def rx_status_def)
  have "vtd_ready {#} t" if "useAppleVTD t"
    by (rule vtd_ready_start) (use t r low that in \<open>simp_all add: rx_set_up_def vtd_sizes_def ranges_ok_def\<close>)
  moreover have "rx_ready {#} t" if "\<not> useAppleVTD t"
    using t r that by (simp add: rx_set_up_def rx_ready_def)
  ultimately have "rx_alive t" using t r by (simp add: rx_set_up_def rx_alive_def)
  then show ?case by (rule init_alive) (rule low)
next
  case (interrupt s maxCount g t)
  from interrupt(4) show ?case
  proof (rule alive_step)
    show "books_state t = books_state s" by (rule bst_interrupt [OF interrupt(3)])
  qed (use interrupt(2,3) rxInterrupt_run [of "{#}" s maxCount] in auto)
next
  case (interrupt_vtd s maxCount g t)
  from interrupt_vtd(4) show ?case
  proof (rule alive_step)
    show "books_state t = books_state s" by (rule bst_interrupt_vtd [OF interrupt_vtd(3)])
    show "vtd_ready {#} t \<and> rxCleanedCount t = 0" if "vtd_ready {#} s" "rxCleanedCount s = 0"
      using rxInterruptVTD_run [OF that, of maxCount] interrupt_vtd(3) by auto
  qed (use interrupt_vtd(2) in simp)
next
  case (refill s)
  from refill(2) show ?case
  proof (rule alive_step)
    show "books_state (snd (run_state refillPool s)) = books_state s" using keeps_run [OF bst_refill, of s] by (simp add: same_def)
    have r: "pool_ok (rxPool s)" "books {#} {#} s" using refill(2) by (auto simp: rx_alive_def vtd_ready_def rx_ready_def split: if_splits)
    from refillPool_run [OF r] obtain p log where p: "run_state refillPool s = ((), s\<lparr>rxPool := p, m_klog := log\<rparr>)" "pool_ok p"
      "books {#} {#} (s\<lparr>rxPool := p, m_klog := log\<rparr>)" by blast
    show "vtd_ready {#} (snd (run_state refillPool s)) \<and> rxCleanedCount (snd (run_state refillPool s)) = 0"
      if "vtd_ready {#} s" "rxCleanedCount s = 0"
      using that p by (simp add: vtd_ready_def lag_def behind_def tail_pos_def)
    show "rx_ready {#} (snd (run_state refillPool s))" if "rx_ready {#} s"
      using that p by (simp add: rx_ready_def)
  qed
next
  case (chip s ds)
  from chip(4) show ?case
  proof (rule alive_step)
    show "books_state (s\<lparr>rxDescArray := ds\<rparr>) = books_state s" by (simp add: books_state_def)
  qed (use chip(2,3) in \<open>simp_all add: vtd_ready_def rx_ready_def vtd_sizes_def ranges_ok_def books_def ring_bufs_def
    addrs_ok_def lag_def behind_def tail_pos_def\<close>)
next
  case (clear s)
  then show ?case using clear_alive(1) by blast
next
  case (restart s)
  from clear_alive [OF restart(2)] show ?case by (intro init_alive) auto
qed

end
