(* ===== verification/RingProps.thy ===== *)
theory RingProps
  imports RingLife
begin

section \<open>Properties of the rings' memory and of receiving through a mapper\<close>

text \<open>
  Release of the transmit ring, which leaves the receive side alone; kernels that grant every call, with which
  every set-up succeeds; then start and stop of the rings, the receive interrupt under an I/O mapper, the batches it loses
  when the kernel refuses a mapping, and the descriptors the set-up writes.
\<close>

subsection \<open>The transmit ring released\<close>

lemma tx_bare_steps:
  "tx_bare h s \<Longrightarrow> neutral c \<Longrightarrow> still c \<Longrightarrow> tx_bare h (snd (run_state (kcall c) s))"
  "tx_bare (insert r h) s \<Longrightarrow> r \<notin> h \<Longrightarrow> tx_bare h (snd (run_state (discard_resource r) s))"
  using tx.bare_call [of c h s] tx.bare_discard [of r h s] by (simp_all add: run_discard kcall_def)

lemma tx_bare_simps [simp]:
  "tx_bare h (s\<lparr>txPhyAddr := a\<rparr>) = tx_bare h s" "tx_bare h (s\<lparr>txDescArray := ds\<rparr>) = tx_bare h s"
  "tx_bare h (s\<lparr>txBufArray := bs\<rparr>) = tx_bare h s"
  by (simp_all add: tx_bare_def balanced_def)

lemma free_tx_map_run:
  assumes "tx_bare (insert TxMapMem g) s" and "TxMapMem \<notin> g" and "length (txMemIO s) = 256"
  shows "tx_bare g (snd (run_state freeTxMap s))"
proof -
  have s: "balanced s" "m_has s = insert TxMapMem g" using assms(1) by (simp_all add: tx_bare_def)
  have "\<forall>i \<in> set [0..<256]. i < length (txMemIO s)" using assms(3) by simp
  from release_tx_run [OF s(1) this] assms(3)
  obtain log io where r: "run_state (release_tx_maps [0..<256]) s = ((), s\<lparr>m_klog := log, txMemIO := io\<rparr>)"
    "balanced (s\<lparr>m_klog := log, txMemIO := io\<rparr>)" "length io = 256" "\<forall>i < 256. io ! i = None" by auto
  have "tx_bare (insert TxMapMem g) (s\<lparr>m_klog := log, txMemIO := io\<rparr>)"
    using r(2-4) s(2) by (simp add: tx_bare_def tx_mds_def cong: conj_cong)
  from tx_bare_steps(2) [OF this assms(2)] show ?thesis using r(1) s(2) by (simp add: freeTxMap_def)
qed

lemma snd_bind: "snd (run_state (State_Monad.bind m f) s) = snd (run_state (f (fst (run_state m s))) (snd (run_state m s)))"
  by (simp add: case_prod_beta)

definition free_tx_rest :: "bool \<Rightarrow> unit mausiM" where
  "free_tx_rest vtd = do {
     kcall (ClearMemoryDescriptor TxDescDmaCmd);
     discard_resource TxDescDmaCmd;
     kcall (CompleteMemory TxBufDesc);
     discard_resource TxBufDesc;
     modify (\<lambda>s. s\<lparr>txDescArray := [], txPhyAddr := 0\<rparr>);
     discard_resource TxBufArray;
     modify (txBufArray_update (\<lambda>_. []));
     cwhen (\<not> vtd) (discard_resource TxMbufCursor) }"

lemma free_tx_run:
  assumes up: "tx_set_up h (useAppleVTD s) s" and h: "h \<inter> (tx_resources True \<union> tx_resources False) = {}"
  shows "tx_bare h (snd (run_state freeTxResources s))"
proof -
  let ?d = "\<lambda>r s. snd (run_state (discard_resource r) s)" and ?c = "\<lambda>c s. snd (run_state (kcall c) s)"
  let ?g = "{TxDescDmaCmd, TxBufDesc, TxBufArray} \<union> (if useAppleVTD s then {} else {TxMbufCursor}) \<union> h"
  define s1 where "s1 = snd (run_state (cwhen (useAppleVTD s) freeTxMap) s)"
  define s2 where "s2 = ?d TxDescDmaCmd (?c (ClearMemoryDescriptor TxDescDmaCmd) s1)"
  define s3 where "s3 = (?d TxBufDesc (?c (CompleteMemory TxBufDesc) s2))\<lparr>txDescArray := [], txPhyAddr := 0\<rparr>"
  define s4 where "s4 = (?d TxBufArray s3)\<lparr>txBufArray := []\<rparr>"
  have calls: "neutral (ClearMemoryDescriptor r)" "still (ClearMemoryDescriptor r)" "neutral (CompleteMemory r)" "still (CompleteMemory r)" for r
    by (simp_all add: neutral_def still_def)
  have s1: "tx_bare ?g s1"
  proof (cases "useAppleVTD s")
    case True
    have m: "TxMapMem \<notin> ?g" using h True by (auto simp: tx_resources_def)
    have "tx_bare (insert TxMapMem ?g) s" using up True by (simp add: tx_set_up_def tx_bare_def tx_resources_def insert_commute)
    from free_tx_map_run [OF this m] up True show ?thesis by (simp add: s1_def tx_set_up_def)
  qed (use up in \<open>simp add: s1_def tx_set_up_def tx_bare_def tx_resources_def insert_commute\<close>)
  let ?r = "(if useAppleVTD s then {} else {TxMbufCursor}) \<union> h"
  have "tx_bare (insert TxDescDmaCmd (insert TxBufDesc (insert TxBufArray ?r))) s1" using s1 by (simp add: insert_commute split: if_splits)
  then have "tx_bare (insert TxBufDesc (insert TxBufArray ?r)) s2"
    unfolding s2_def by (intro tx_bare_steps calls) (use h in \<open>auto simp: tx_resources_def\<close>)
  then have "tx_bare (insert TxBufArray ?r) s3"
    unfolding s3_def tx_bare_simps by (intro tx_bare_steps calls) (use h in \<open>auto simp: tx_resources_def\<close>)
  then have s4: "tx_bare ?r s4"
    unfolding s4_def tx_bare_simps by (intro tx_bare_steps) (use h in \<open>auto simp: tx_resources_def\<close>)
  have has: "m_has s1 = ?g" using s1 by (simp add: tx_bare_def)
  have first: "run_state (cwhen (useAppleVTD s) freeTxMap) s = ((), s1)" by (simp add: s1_def prod_eq_iff)
  have g: "TxDescDmaCmd \<in> ?g" "TxBufDesc \<in> ?g" "TxBufArray \<in> ?g" "(TxMbufCursor \<in> ?g) = (\<not> useAppleVTD s)"
    using h by (auto simp: tx_resources_def)
  have "run_state freeTxResources s = run_state (do { h \<leftarrow> gets m_has;
      cwhen (TxDescDmaCmd \<in> h) (do { kcall (ClearMemoryDescriptor TxDescDmaCmd); discard_resource TxDescDmaCmd });
      cwhen (TxBufDesc \<in> h) (do { kcall (CompleteMemory TxBufDesc); discard_resource TxBufDesc; modify (\<lambda>s. s\<lparr>txDescArray := [], txPhyAddr := 0\<rparr>) });
      cwhen (TxBufArray \<in> h) (do { discard_resource TxBufArray; modify (txBufArray_update (\<lambda>_. [])) });
      cwhen (TxMbufCursor \<in> h) (discard_resource TxMbufCursor) }) s1"
    unfolding freeTxResources_def by (simp only: run_state_bind run_gets first prod.case)
  also have "\<dots> = run_state (free_tx_rest (useAppleVTD s)) s1"
    by (simp only: run_state_bind run_gets prod.case has g) (simp add: free_tx_rest_def run_discard)
  finally have "snd (run_state freeTxResources s) = (if useAppleVTD s then s4 else ?d TxMbufCursor s4)"
    by (simp only: free_tx_rest_def snd_bind run_modify run_cwhen snd_conv s2_def s3_def s4_def if_not_P simp_thms if_True if_False split: if_split)
      simp
  then show ?thesis using s4 h tx_bare_steps(2) [of TxMbufCursor h s4] by (auto simp: tx_resources_def)
qed

subsection \<open>The transmit side leaves the receive side alone\<close>

definition rx_part :: "mausi \<Rightarrow> _" where
  "rx_part s = (m_kernel s, (\<lambda>st. in_use (m_kernel s) st (m_klog s)), (\<lambda>st. calls_ok (m_kernel s) st (m_klog s)), rxPool s,
     (rxBufArray s, rxDescArray s, rxPacket s, rxMemIO s, rxMemRange s), useAppleVTD s)"

interpretation rxp: frame_rel "same rx_part"
  by unfold_locales (simp_all add: same_def)

lemma rxp_kcall: "still c \<Longrightarrow> keeps (same rx_part) (kcall c)"
  unfolding kcall_def by (intro rxp.keeps_intros keeps_modify) (cases c; simp add: same_def rx_part_def still_def)

lemma rxp_modify: "(\<And>s. (m_klog (f s), rx_part (f s)) = (m_klog s, rx_part s)) \<Longrightarrow> keeps (same rx_part) (modify f)"
  by (rule keeps_modify) (simp add: same_def)

lemma rxp_resource: "keeps (same rx_part) (obtain_resource r)" "keeps (same rx_part) (discard_resource r)"
  unfolding obtain_resource_def discard_resource_def
  by (intro rxp.keeps_intros rxp_kcall rxp_modify; simp add: still_def rx_part_def)+

lemmas rxp_intros = rxp.keeps_intros rxp_kcall rxp_resource rxp_modify

lemma rxp_try: "keeps (same rx_part) p \<Longrightarrow> keeps (same rx_part) e \<Longrightarrow> keeps (same rx_part) m \<Longrightarrow> keeps (same rx_part) (try_step p e m)"
  unfolding try_step_def by (intro rxp_intros)

lemma rxp_tx: "keeps (same rx_part) setupTxResources" "keeps (same rx_part) freeTxResources"
proof -
  have l1: "keeps (same rx_part) error_tx_buf" unfolding error_tx_buf_def by (intro rxp_intros; simp add: rx_part_def)
  have l2: "keeps (same rx_part) error_tx_prep" unfolding error_tx_prep_def by (intro rxp_intros l1)
  have l3: "keeps (same rx_part) error_tx_dma" unfolding error_tx_dma_def by (intro rxp_intros l2; simp add: still_def rx_part_def)
  have l4: "keeps (same rx_part) error_tx_set" unfolding error_tx_set_def by (intro rxp_intros l3)
  have l5: "keeps (same rx_part) error_tx_seg" unfolding error_tx_seg_def by (intro rxp_intros l4; simp add: still_def)
  have l6: "keeps (same rx_part) error_tx_cursor" unfolding error_tx_cursor_def by (intro rxp_intros l5; simp add: rx_part_def)
  show "keeps (same rx_part) setupTxResources"
    unfolding setupTxResources_def setup_tx_ring_def setupTxMap_def
    by (intro rxp_try rxp_intros l1 l2 l3 l4 l5 l6; simp add: still_def rx_part_def)
  have "keeps (same rx_part) (release_tx_maps is)" for "is"
    by (induction "is") (simp_all only: release_tx_maps.simps, (intro rxp_intros | assumption | simp add: still_def rx_part_def)+)
  then show "keeps (same rx_part) freeTxResources"
    unfolding freeTxResources_def freeTxMap_def by (intro rxp_intros; simp add: still_def rx_part_def)
qed

lemma rx_part_held:
  assumes "rx_part t = rx_part s" and "rx_held s" and "rxPacket s = []" and "balanced t" and "tx_mds t = {#}"
  shows "rx_held t \<and> rxPacket t = [] \<and> useAppleVTD t = useAppleVTD s"
proof -
  have p: "m_kernel t = m_kernel s" "in_use (m_kernel s) st (m_klog t) = in_use (m_kernel s) st (m_klog s)"
    "calls_ok (m_kernel s) st (m_klog t) = calls_ok (m_kernel s) st (m_klog s)"
    "rxPool t = rxPool s" "rxBufArray t = rxBufArray s" "rxPacket t = rxPacket s" "rxMemIO t = rxMemIO s" "useAppleVTD t = useAppleVTD s" for st
    using assms(1) unfolding rx_part_def by (auto dest: fun_cong [of _ _ st])
  have "rx_mds t = rx_mds s" by (simp add: rx_mds_def p)
  then show ?thesis using assms(2-5) by (simp add: rx_held_def p books_def ring_bufs_def)
qed

subsection \<open>A kernel that grants every call\<close>

definition generous :: "kernel \<Rightarrow> bool" where
  "generous k \<longleftrightarrow> (\<forall>l c. k_ok k l c)"

definition granted :: "bool mausiM \<Rightarrow> bool" where
  "granted m \<longleftrightarrow> (\<forall>s. generous (m_kernel s) \<longrightarrow> fst (run_state m s) \<and> m_kernel (snd (run_state m s)) = m_kernel s)"

lemma generous_ok [simp]: "generous k \<Longrightarrow> k_ok k l c"
  by (simp add: generous_def)

lemma granted_steps:
  "granted (ret True)" "granted (obtain_resource r)" "granted (kcall c)"
  "granted p \<Longrightarrow> granted m \<Longrightarrow> granted (try_step p e m)"
  "(\<And>s. m_kernel (f s) = m_kernel s) \<Longrightarrow> granted m \<Longrightarrow> granted (do { modify f; m })"
  "(\<And>x. granted (g x)) \<Longrightarrow> granted (do { x \<leftarrow> gets h; g x })"
  by (simp_all add: granted_def run_obtain try_step_def case_prod_beta)

lemma granted_pool: "mcap > 0 \<Longrightarrow> ccap > 0 \<Longrightarrow> granted (initWithCapacity mhlen mcap ccap)"
proof -
  have "fst (run_state (init_mbufs n) s) \<and> m_kernel (snd (run_state (init_mbufs n) s)) = m_kernel s"
    "fst (run_state (init_clusters n) s) \<and> m_kernel (snd (run_state (init_clusters n) s)) = m_kernel s"
    if "generous (m_kernel s)" for n s
    using that by (induction n arbitrary: s) (simp_all add: mbuf_allocpacket_def set_pool_def)
  then show "mcap > 0 \<Longrightarrow> ccap > 0 \<Longrightarrow> ?thesis"
    by (simp add: granted_def initWithCapacity_def set_pool_def case_prod_beta)
qed

lemma granted_bufs: "granted (setup_rx_bufs n)"
proof -
  have "fst (run_state (setup_rx_bufs n) s) \<and> m_kernel (snd (run_state (setup_rx_bufs n) s)) = m_kernel s"
    if "generous (m_kernel s)" for s
    using that by (induction n arbitrary: s) (simp_all add: mbuf_allocpacket_def getPacket_def Let_def)
  then show ?thesis by (simp add: granted_def)
qed

lemma granted_maps: "granted (setup_rx_maps is)"
proof -
  have a: "m_kernel (snd (run_state (setup_rx_addrs i off ns) s)) = m_kernel s" for i off ns s
    by (induction ns arbitrary: s off) simp_all
  have "fst (run_state (setup_rx_maps is) s) \<and> m_kernel (snd (run_state (setup_rx_maps is) s)) = m_kernel s"
    if "generous (m_kernel s)" for s
    using that by (induction "is" arbitrary: s) (simp_all add: Let_def case_prod_beta a)
  then show ?thesis by (simp add: granted_def)
qed

lemma granted_setups: "granted (setupRxResources mhlen)" "granted setupTxResources"
proof -
  have p: "granted (withCapacity mhlen kRxPoolMbufCap kRxPoolClstCap)"
    unfolding withCapacity_def by (intro granted_steps granted_pool) simp_all
  have m: "granted setupRxMap"
    unfolding setupRxMap_def by (intro granted_steps granted_maps) simp
  have k: "granted (if b then x else y)" if "granted x" "granted y" for b x y using that by simp
  show "granted (setupRxResources mhlen)"
    unfolding setupRxResources_def setup_rx_packets_def setup_rx_ring_def
    by (intro granted_steps k p granted_bufs m) simp
  have "granted setupTxMap" unfolding setupTxMap_def by (intro granted_steps) simp
  then show "granted setupTxResources"
    unfolding setupTxResources_def setup_tx_ring_def by (intro granted_steps k) simp_all
qed

subsection \<open>Start and stop\<close>

text \<open>Everything given back: what the kernel has handed out is nothing, and nothing was given back twice.\<close>

definition all_returned :: "mausi \<Rightarrow> bool" where
  "all_returned t \<longleftrightarrow> m_has t = {} \<and> releases_ok (m_kernel t) (m_klog t) \<and> taken (m_kernel t) (m_klog t) = {#} \<and>
     calls_ok (m_kernel t) {#} (m_klog t) \<and> in_use (m_kernel t) {#} (m_klog t) = {#}"

lemma rx_bare_returned: "rx_bare {} t \<Longrightarrow> all_returned t"
  by (simp add: rx_bare_def all_returned_def balanced_def books_def ring_bufs_def)

lemma released_again: "m_has t = {} \<Longrightarrow> run_state freeTxResources t = ((), t)" "m_has t = {} \<Longrightarrow> run_state freeRxResources t = ((), t)"
  by (simp_all add: freeTxResources_def freeTxMap_def freeRxResources_def freeRxMap_def)

lemma resources_apart:
  "rx_resources v \<inter> (tx_resources True \<union> tx_resources False) = {}" "tx_resources v \<inter> rx_resources True = {}"
  by (auto simp: rx_resources_def tx_resources_def)

lemma set_up_held: "rx_set_up h (useAppleVTD s) s \<Longrightarrow> rx_held s \<and> rxPacket s = []"
  by (auto simp: rx_set_up_def rx_held_def)

lemma setups_run:
  assumes "rx_set_up {} (useAppleVTD s) s"
  shows "\<exists>r t. run_state setupTxResources s = (r, t) \<and> rx_part t = rx_part s \<and> useAppleVTD t = useAppleVTD s \<and>
    rx_held t \<and> rxPacket t = [] \<and>
    (if r then tx_set_up (rx_resources (useAppleVTD t)) (useAppleVTD t) t else tx_bare (rx_resources (useAppleVTD t)) t)"
proof -
  let ?h = "rx_resources (useAppleVTD s)"
  have s: "tx_bare ({} \<union> ?h) s" using assms by (simp add: rx_set_up_def tx_bare_def)
  obtain r t where t: "run_state setupTxResources s = (r, t)" "useAppleVTD t = useAppleVTD s"
    "if r then tx_set_up ?h (useAppleVTD s) t else tx_bare ?h t"
    using setup_tx_run [OF resources_apart(1)] s unfolding sets_up_def by blast
  have p: "rx_part t = rx_part s" using keeps_run [OF rxp_tx(1), of s] t(1) by (simp add: same_def)
  have "balanced t" "tx_mds t = {#}" using t(3) by (auto simp: tx_set_up_def tx_bare_def split: if_splits)
  from rx_part_held [OF p _ _ this] set_up_held [OF assms] p t show ?thesis by auto
qed

lemma stop_run:
  assumes "tx_set_up (rx_resources (useAppleVTD t)) (useAppleVTD t) t" and "rx_held t" and "rxPacket t = []"
  shows "rx_bare {} (snd (run_state stop_rings t))"
proof -
  let ?u = "snd (run_state freeTxResources t)"
  have u: "tx_bare (rx_resources (useAppleVTD t)) ?u" by (rule free_tx_run [OF assms(1) resources_apart(1)])
  have p: "rx_part ?u = rx_part t" using keeps_run [OF rxp_tx(2), of t] by (simp add: same_def)
  have "rx_held ?u \<and> rxPacket ?u = [] \<and> useAppleVTD ?u = useAppleVTD t"
    by (rule rx_part_held [OF p assms(2,3)]) (use u in \<open>simp_all add: tx_bare_def\<close>)
  with u have "rx_bare {} (snd (run_state freeRxResources ?u))" by (intro free_rx_run) (simp_all add: tx_bare_def)
  then show ?thesis by (simp add: stop_rings_def case_prod_beta)
qed

text \<open>C8: Start and stop of the rings. From a new object, whatever the kernel grants or refuses, with an I/O mapper or
without: when a step of the set-up of either ring fails, or one after it, everything obtained up to there is given
back, no resource, memory descriptor or buffer is given back that is not held, and nothing is left; when all succeed
the ring has its 512 buffers, stopping gives everything back, and stopping again does nothing. A kernel
that grants every call makes the start succeed.\<close>

theorem start_stop_balanced:
  assumes "pristine s"
  shows "\<exists>r t. run_state (start_rings mhlen others) s = (r, t) \<and> (generous (m_kernel s) \<and> others \<longrightarrow> r) \<and>
    (if r then m_has t = rx_resources (useAppleVTD t) \<union> tx_resources (useAppleVTD t) \<and> length (rxBufArray t) = kNumRxDesc \<and>
       (let u = snd (run_state stop_rings t) in all_returned u \<and> run_state stop_rings u = ((), u))
     else all_returned t)"
proof -
  have "sets_up rx_bare {} (rx_set_up {}) {} (setupRxResources mhlen)" by (rule setup_rx_run) simp
  with pristine_bare(1) [OF assms] obtain r t where t: "run_state (setupRxResources mhlen) s = (r, t)" "useAppleVTD t = useAppleVTD s"
    "m_kernel t = m_kernel s" "if r then rx_set_up {} (useAppleVTD s) t else rx_bare {} t" unfolding sets_up_def by auto
  have g: "r" if "generous (m_kernel s)" using granted_setups(1) that t(1) unfolding granted_def by (metis fst_conv)
  show ?thesis
  proof (cases r)
    case False
    then show ?thesis using t g rx_bare_returned [of t] by (auto simp: start_rings_def)
  next
    case True
    then have up: "rx_set_up {} (useAppleVTD t) t" using t by simp
    obtain q u where u: "run_state setupTxResources t = (q, u)" "rx_part u = rx_part t" "rx_held u" "rxPacket u = []"
      "if q then tx_set_up (rx_resources (useAppleVTD u)) (useAppleVTD u) u else tx_bare (rx_resources (useAppleVTD u)) u"
      using setups_run [OF up] by blast
    have gq: "q" if "generous (m_kernel s)" using granted_setups(2) that t(3) u(1) unfolding granted_def by (metis fst_conv)
    show ?thesis
    proof (cases q)
      case False
      have "rx_bare {} (snd (run_state freeRxResources u))"
        using u(3-5) False by (intro free_rx_run) (simp_all add: tx_bare_def)
      then show ?thesis using t(1) True u(1) False gq rx_bare_returned by (auto simp: start_rings_def case_prod_beta)
    next
      case q: True
      have bare: "rx_bare {} (snd (run_state stop_rings u))" using u(3-5) q by (intro stop_run) simp_all
      show ?thesis
      proof (cases others)
        case False
        then show ?thesis using bare t(1) True u(1) q rx_bare_returned
          by (auto simp: start_rings_def stop_rings_def case_prod_beta)
      next
        case others: True
        have "m_has (snd (run_state stop_rings u)) = {}" using bare by (simp add: rx_bare_def)
        then have "run_state stop_rings (snd (run_state stop_rings u)) = ((), snd (run_state stop_rings u))"
          by (subst stop_rings_def) (simp add: released_again)
        moreover have "m_has u = rx_resources (useAppleVTD u) \<union> tx_resources (useAppleVTD u)"
          using u(5) q by (auto simp: tx_set_up_def)
        moreover have "length (rxBufArray u) = 512" using up u(2) by (simp add: rx_part_def rx_set_up_def)
        ultimately show ?thesis using t(1) True u(1) q others rx_bare_returned [OF bare]
          by (intro exI [of _ True] exI [of _ u]) (simp add: start_rings_def Let_def)
      qed
    qed
  qed
qed

definition new_driver :: "bool \<Rightarrow> mausi" where
  "new_driver vtd = sample_mausi\<lparr>useAppleVTD := vtd, m_has := {}, rxBufArray := [], txMemIO := []\<rparr>"

lemma new_driver_simps [simp]: "pristine (new_driver vtd)" "generous (m_kernel (new_driver vtd))" "useAppleVTD (new_driver vtd) = vtd"
  by (simp_all add: new_driver_def sample_mausi_def pristine_def generous_def sample_kernel_def)

theorem start_stop_balanced_witness:
  "\<exists>t. run_state (start_rings 200 True) (new_driver True) = (True, t) \<and> all_returned (snd (run_state stop_rings t))"
  using start_stop_balanced [OF new_driver_simps(1), of 200 True True] by (auto simp: Let_def)

subsection \<open>Properties of the receive side\<close>


text \<open>While every mapping is granted no batch is lost.\<close>

lemma lag_start: "rxNextDescIndex s = 0 \<Longrightarrow> rxMapNextIndex s = 0 \<Longrightarrow> lag s = 0"
  by (simp add: lag_def behind_start)

lemma clear_ring_index: "rxNextDescIndex (snd (run_state clear_rx_ring s)) = 0" "rxMapNextIndex (snd (run_state clear_rx_ring s)) = 0"
  by (simp_all add: clear_rx_ring_def clear_rx_def discardPacketFragment_def case_prod_beta)

lemma init_rx_index: "rxNextDescIndex (snd (run_state intelInitRxRing s)) = 0" "rxMapNextIndex (snd (run_state intelInitRxRing s)) = 0"
  using init_rx_run [of s] by auto

lemma life_kernel:
  "m_kernel (snd (run_state refillPool s)) = m_kernel s" "useAppleVTD (snd (run_state refillPool s)) = useAppleVTD s"
  "rxInterruptVTD n s = Some (g, t) \<Longrightarrow> m_kernel t = m_kernel s \<and> useAppleVTD t = useAppleVTD s"
  "rxInterrupt n s = Some (g, t) \<Longrightarrow> useAppleVTD t = useAppleVTD s"
  using keeps_run [OF bst_refill, of s] bst_interrupt_vtd [of n s g t] bst_interrupt [of n s g t] by (simp_all add: same_def books_state_def)

lemma refill_index: "lag (snd (run_state refillPool s)) = lag s" if "rx_alive s"
proof -
  have "pool_ok (rxPool s)" "books {#} {#} s" using that by (auto simp: rx_alive_def vtd_ready_def rx_ready_def split: if_splits)
  from refillPool_run [OF this] show ?thesis by (auto simp: lag_def behind_def)
qed

lemma lag_interrupt:
  assumes "rx_alive s" "useAppleVTD s" "rxInterruptVTD n s = Some (g, t)"
  obtains k c where "lag t + k = lag s + c" "k \<le> c" "maps_all (m_kernel s) \<longrightarrow> k = c" "maps_none (m_kernel s) \<longrightarrow> k = 0"
    "unat (rxMapNextIndex t) = ring_pos (unat (rxMapNextIndex s)) (16 * k)"
    "\<forall>j < 16 * k. mapped t (ring_pos (unat (rxMapNextIndex s)) j)"
    "\<forall>q. q \<notin> ring_pos (unat (rxMapNextIndex s)) ` {..<16 * k} \<longrightarrow> rxDescArray t ! q = rxDescArray s ! q"
    "filled (rxDescArray s ! unat (rxNextDescIndex t)) \<longrightarrow> n \<le> g" "unat g + behind s \<le> behind t + 16 * k"
    "lag s + c \<le> 31"
proof -
  have r: "vtd_ready {#} s" "rxCleanedCount s = 0" using assms(1,2) by (simp_all add: rx_alive_def)
  from rxInterruptVTD_run [OF r, of n] obtain g' t' k c u where i: "rxInterruptVTD n s = Some (g', t')"
    "vtd_ready {#} u" "behind s \<le> behind u" "rxDescArray u = rxDescArray s"
    "filled (rxDescArray u ! unat (rxNextDescIndex u)) \<longrightarrow> n \<le> g'" "unat g' \<le> behind u - behind s"
    "rxNextDescIndex t' = rxNextDescIndex u" "lag u = lag s + c" "k \<le> c" "behind t' + 16 * k = behind u"
    "unat (rxMapNextIndex t') = ring_pos (unat (rxMapNextIndex s)) (16 * k)"
    "\<forall>j < 16 * k. mapped t' (ring_pos (unat (rxMapNextIndex s)) j)"
    "\<forall>q. q \<notin> ring_pos (unat (rxMapNextIndex s)) ` {..<16 * k} \<longrightarrow> rxDescArray t' ! q = rxDescArray s ! q"
    "maps_all (m_kernel s) \<longrightarrow> k = c" "maps_none (m_kernel s) \<longrightarrow> k = 0" by blast
  have e: "g' = g" "t' = t" using i(1) assms(3) by simp_all
  note i = i [unfolded e]
  have "lag u = lag t + k" by (simp add: lag_def flip: i(10))
  moreover have "lag u \<le> 31" using next_behind(2) [of u] i(2) by (simp add: lag_def vtd_ready_def)
  ultimately show thesis
    using i(3-9,11-15) i(10) by (intro that [of k c]) simp_all
qed

lemma granted_lag: "rx_life s \<Longrightarrow> useAppleVTD s \<Longrightarrow> maps_all (m_kernel s) \<Longrightarrow> lag s = 0"
proof (induction rule: rx_life.induct)
  case (interrupt s maxCount g t)
  then show ?case using life_kernel(4) by simp
next
  case (interrupt_vtd s maxCount g t)
  from lag_interrupt [OF rx_life_alive [OF interrupt_vtd(1)] interrupt_vtd(2,3)]
  obtain k c where "lag t + k = lag s + c" "maps_all (m_kernel s) \<longrightarrow> k = c" by metis
  then show ?case using interrupt_vtd life_kernel(3) by auto
next
  case (refill s)
  then show ?case using refill_index [OF rx_life_alive] by (simp add: life_kernel)
qed (simp_all add: lag_start clear_ring_index init_rx_index lag_def behind_def)

text \<open>C11: The receive interrupt under an I/O mapper. From every reachable state, for every quota, it ends; it stops before the
quota only at a descriptor the chip has not filled; the batches it maps follow each other from the next one to map, their
descriptors are empty and hold the bus addresses of the buffers their entries own now, whose memory is what the
descriptor of the batch was made from; no other descriptor changes; and while the kernel grants every mapping less than
one batch is out of the chip's reach.\<close>

theorem rx_vtd_interrupt:
  assumes "rx_life s" and "useAppleVTD s"
  shows "\<exists>g t k. rxInterruptVTD maxCount s = Some (g, t) \<and>
    (filled (rxDescArray s ! unat (rxNextDescIndex t)) \<longrightarrow> maxCount \<le> g) \<and>
    unat (rxMapNextIndex t) = (unat (rxMapNextIndex s) + 16 * k) mod 512 \<and>
    (\<forall>j < 16 * k. let q = (unat (rxMapNextIndex s) + j) mod 512 in
       rxDescArray t ! q = given_back (rxb_phyAddr (rxBufArray t ! q)) \<and>
       fst (rxMemRange t ! q) = k_datastart (m_kernel t) (rxb_mbuf (rxBufArray t ! q))) \<and>
    (\<forall>q < 512. (\<forall>j < 16 * k. q \<noteq> (unat (rxMapNextIndex s) + j) mod 512) \<longrightarrow> rxDescArray t ! q = rxDescArray s ! q) \<and>
    (maps_all (m_kernel s) \<longrightarrow> behind t < 16)"
proof -
  note alive = rx_life_alive [OF assms(1)]
  have "vtd_ready {#} s" "rxCleanedCount s = 0" using alive assms(2) by (simp_all add: rx_alive_def)
  from rxInterruptVTD_run [OF this, of maxCount] obtain g t where t: "rxInterruptVTD maxCount s = Some (g, t)" by blast
  from lag_interrupt [OF alive assms(2) t] obtain k c where i: "lag t + k = lag s + c" "maps_all (m_kernel s) \<longrightarrow> k = c"
    "unat (rxMapNextIndex t) = ring_pos (unat (rxMapNextIndex s)) (16 * k)"
    "\<forall>j < 16 * k. mapped t (ring_pos (unat (rxMapNextIndex s)) j)"
    "\<forall>q. q \<notin> ring_pos (unat (rxMapNextIndex s)) ` {..<16 * k} \<longrightarrow> rxDescArray t ! q = rxDescArray s ! q"
    "filled (rxDescArray s ! unat (rxNextDescIndex t)) \<longrightarrow> maxCount \<le> g" by metis
  have "behind t < 16" if "maps_all (m_kernel s)"
    using i(1,2) granted_lag [OF assms that] that by (simp add: lag_def)
  then show ?thesis using t i(3-6)
    by (intro exI [of _ g] exI [of _ t] exI [of _ k]) (auto simp: mapped_def ring_pos_def Let_def)
qed

subsection \<open>Batches lost\<close>

text \<open>Operation of the ring between two clearings.\<close>

inductive rx_serves :: "mausi \<Rightarrow> mausi \<Rightarrow> bool" for s where
  here: "rx_serves s s"
| interrupt: "rx_serves s t \<Longrightarrow> rxInterruptVTD maxCount t = Some (g, u) \<Longrightarrow> rx_serves s u"
| refill: "rx_serves s t \<Longrightarrow> rx_serves s (snd (run_state refillPool t))"
| chip: "rx_serves s t \<Longrightarrow> length ds = 512 \<Longrightarrow> \<not> filled (ds ! tail_pos t) \<Longrightarrow> rx_serves s (t\<lparr>rxDescArray := ds\<rparr>)"

lemma serves_run:
  assumes "rx_serves s t" "rx_life s" "useAppleVTD s"
  shows "rx_life t \<and> useAppleVTD t \<and> m_kernel t = m_kernel s \<and> lag s \<le> lag t \<and> lag t \<le> 31 \<and>
    (maps_none (m_kernel s) \<or> lag s = 31 \<longrightarrow> rxMapNextIndex t = rxMapNextIndex s)"
  using assms
proof (induction rule: rx_serves.induct)
  case here
  have "behind s < 512" using here rx_life_alive [of s] next_behind(2) [of s] by (simp add: rx_alive_def vtd_ready_def)
  then show ?case using here by (simp add: lag_def)
next
  case (interrupt t n g u)
  then have t: "rx_life t" "useAppleVTD t" "m_kernel t = m_kernel s" "lag s \<le> lag t"
    "maps_none (m_kernel s) \<or> lag s = 31 \<longrightarrow> rxMapNextIndex t = rxMapNextIndex s" by simp_all
  from lag_interrupt [OF rx_life_alive [OF t(1)] t(2) interrupt(2)] obtain k c where i: "lag u + k = lag t + c" "k \<le> c"
    "maps_none (m_kernel t) \<longrightarrow> k = 0" "unat (rxMapNextIndex u) = ring_pos (unat (rxMapNextIndex t)) (16 * k)" "lag t + c \<le> 31" by metis
  have "unat (rxMapNextIndex t) < 512" using rx_life_alive [OF t(1)] t(2) by (simp add: rx_alive_def vtd_ready_def)
  moreover have "k = 0" if "maps_none (m_kernel s) \<or> lag s = 31" using that i t by auto
  ultimately have "rxMapNextIndex u = rxMapNextIndex s" if "maps_none (m_kernel s) \<or> lag s = 31"
    using that i(4) t(5) by (simp add: word_unat_eq_iff)
  then show ?case using rx_life.interrupt_vtd [OF t(1,2) interrupt(2)] life_kernel(3) [OF interrupt(2)] t i by auto
next
  case (refill t)
  then show ?case using refill_index [OF rx_life_alive, of t] rx_life.refill [of t] refillPool_run [of t "{#}" "{#}"] rx_life_alive [of t]
    by (auto simp: life_kernel rx_alive_def vtd_ready_def)
next
  case (chip t ds)
  then show ?case using rx_life.chip [of t ds] by (simp add: lag_def behind_def)
qed


subsection \<open>The first descriptors\<close>

text \<open>C12: The first descriptors under an I/O mapper. The set-up writes the bus addresses of the buffers of batch i one after
another into descriptor i: the first 32 descriptors hold the address of the last buffer of the batch with their
number and the other 480 hold zero; if the buffers have different addresses, and none is zero, no descriptor of the ring
holds the address of its own buffer.\<close>

theorem rx_vtd_first_descriptors:
  assumes "pristine s" and "useAppleVTD s" and "run_state (setupRxResources mhlen) s = (True, t)"
  shows "(\<forall>q < kNumRxDesc. rd_low (rxDescArray t ! q) = (if q < 32 then rxb_phyAddr (rxBufArray t ! (16 * q + 15)) else 0)) \<and>
    (distinct (0 # map rxb_phyAddr (rxBufArray t)) \<longrightarrow>
      (\<forall>q < kNumRxDesc. rd_low (rxDescArray t ! q) \<noteq> rxb_phyAddr (rxBufArray t ! q)))"
proof -
  have "sets_up rx_bare {} (rx_set_up {}) {} (setupRxResources mhlen)" by (rule setup_rx_run) simp
  with pristine_bare(1) [OF assms(1)] assms(2,3) have "rx_set_up {} True t" unfolding sets_up_def by auto
  then have t: "length (rxBufArray t) = 512"
    "\<forall>q < 512. rxDescArray t ! q = (if q < 32 then given_back (rxb_phyAddr (rxBufArray t ! (16 * q + 15))) else no_desc)"
    by (simp_all add: rx_set_up_def)
  have low: "rd_low (rxDescArray t ! q) = (if q < 32 then rxb_phyAddr (rxBufArray t ! (16 * q + 15)) else 0)" if "q < 512" for q
    using t(2) that by (simp add: given_back_def no_desc_def)
  have "rd_low (rxDescArray t ! q) \<noteq> rxb_phyAddr (rxBufArray t ! q)" if d: "distinct (0 # map rxb_phyAddr (rxBufArray t))" and q: "q < 512" for q
  proof (cases "q < 32")
    case True
    have "map rxb_phyAddr (rxBufArray t) ! (16 * q + 15) \<noteq> map rxb_phyAddr (rxBufArray t) ! q"
      using d t(1) True by (subst nth_eq_iff_index_eq) auto
    then show ?thesis using low [OF q] True t(1) q by simp
  next
    case False
    have "rxb_phyAddr (rxBufArray t ! q) \<in> rxb_phyAddr ` set (rxBufArray t)" using t(1) q by simp
    then show ?thesis using low [OF q] False d by auto
  qed
  then show ?thesis using low by simp
qed

lemma new_driver_up:
  obtains t where "run_state (setupRxResources 200) (new_driver vtd) = (True, t)" "useAppleVTD t = vtd"
    "m_kernel t = sample_kernel" "rx_life (snd (run_state intelInitRxRing t))"
proof -
  obtain r t where t: "run_state (setupRxResources 200) (new_driver vtd) = (r, t)" by fastforce
  have k: "m_kernel (new_driver vtd) = sample_kernel" by (simp add: new_driver_def sample_mausi_def)
  have "fst (run_state (setupRxResources 200) (new_driver vtd)) \<and>
      m_kernel (snd (run_state (setupRxResources 200) (new_driver vtd))) = m_kernel (new_driver vtd)"
    using granted_setups(1) [of 200] new_driver_simps(2) [of vtd] unfolding granted_def by blast
  then have r: "r" "m_kernel t = sample_kernel" by (simp_all add: t k)
  have "sets_up rx_bare {} (rx_set_up {}) {} (setupRxResources 200)" by (rule setup_rx_run) simp
  with pristine_bare(1) [OF new_driver_simps(1) [of vtd]] t have "useAppleVTD t = vtd" unfolding sets_up_def by auto
  then show thesis using that t r rx_life.start [OF new_driver_simps(1)] by simp
qed

text \<open>A driver whose rings are up, with an I/O mapper or without one.\<close>

definition served :: "bool \<Rightarrow> mausi" where
  "served vtd = snd (run_state intelInitRxRing (snd (run_state (setupRxResources 200) (new_driver vtd))))"

lemma served_states: "rx_life (served vtd)" "useAppleVTD (served vtd) = vtd"
proof -
  obtain t where t: "run_state (setupRxResources 200) (new_driver vtd) = (True, t)" "useAppleVTD t = vtd"
    "rx_life (snd (run_state intelInitRxRing t))" by (rule new_driver_up)
  then show "rx_life (served vtd)" "useAppleVTD (served vtd) = vtd"
    using init_rx_run [of t] by (auto simp: served_def)
qed


theorem rx_vtd_interrupt_witness: "rxInterruptVTD 5 (served True) \<noteq> None"
  using rx_vtd_interrupt [OF served_states(1) [of True], of 5] served_states(2) by auto


theorem rx_vtd_first_descriptors_witness:
  "\<exists>t. run_state (setupRxResources 200) (new_driver True) = (True, t) \<and> rd_low (rxDescArray t ! 3) = rxb_phyAddr (rxBufArray t ! 63)"
proof -
  obtain t where t: "run_state (setupRxResources 200) (new_driver True) = (True, t)" by (rule new_driver_up [of True])
  have v: "useAppleVTD (new_driver True)" by simp
  have "rd_low (rxDescArray t ! 3) = rxb_phyAddr (rxBufArray t ! 63)"
    using rx_vtd_first_descriptors [OF new_driver_simps(1) v t] by (auto dest: spec [of _ 3])
  then show ?thesis using t by blast
qed

end
