(* ===== verification/Pch.thy ===== *)
theory Pch
  imports FlowControl
begin

section \<open>The PHY of the PCH parts: shared registers, K1, OEM bits and workarounds (ich8lan.c)\<close>

text \<open>
  What \<open>src/IntelMausiEthernet/ich8lan.c\<close> does with the PHY between resets: the extended
  management registers, energy-efficient Ethernet, the K1 power state, the OEM bits, the
  configuration of the PHY from the NVM, and the workarounds each part needs. Most flows hold
  the PHY lock from one acquire to one release.

  Some locals are declared without a value and then filled by a read whose result is ignored.
  Such a local is a parameter named \<open>garbage\<close>: what the stack held.
\<close>

subsection \<open>The operations of hw->phy.ops used here and the frames of the bodies\<close>

record phy_all_operations = phy_link_operations +
  op_phy_read_reg_locked :: "u32 \<Rightarrow> u16 \<Rightarrow> (s32 \<times> u16) hwM"
  op_phy_write_reg_locked :: "u32 \<Rightarrow> u16 \<Rightarrow> s32 hwM"
  op_phy_write_reg_page :: "u32 \<Rightarrow> u16 \<Rightarrow> s32 hwM"

definition e1e_rphy_locked :: "'p phy_all_operations_scheme \<Rightarrow> u32 \<Rightarrow> u16 \<Rightarrow> (s32 \<times> u16) hwM" where
  "e1e_rphy_locked ops offset data = op_phy_read_reg_locked ops offset data"

definition e1e_wphy_locked :: "'p phy_all_operations_scheme \<Rightarrow> u32 \<Rightarrow> u16 \<Rightarrow> s32 hwM" where
  "e1e_wphy_locked ops offset data = op_phy_write_reg_locked ops offset data"

definition check_reset_block :: "'p phy_link_operations_scheme \<Rightarrow> s32 hwM" where
  "check_reset_block ops = the (op_phy_check_reset_block ops)"

text \<open>The acquire, with its early return, and the one release of every other path.\<close>

definition phy_lock :: "'p phy_operations_scheme \<Rightarrow> s32 hwM \<Rightarrow> s32 hwM" where
  "phy_lock ops body = do {
     ret_val \<leftarrow> phy_acquire ops;
     if ret_val \<noteq> 0 then ret ret_val
     else do { ret_val \<leftarrow> body; op_phy_release ops; ret ret_val } }"

definition with_phy_locked :: "'p phy_all_operations_scheme \<Rightarrow> u32 \<Rightarrow> (u16 \<Rightarrow> s32 hwM) \<Rightarrow> s32 hwM" where
  "with_phy_locked ops offset k = do {
     r \<leftarrow> e1e_rphy_locked ops offset 0;
     if fst r \<noteq> 0 then ret (fst r) else k (snd r) }"

text \<open>The flows that name the hv accessor instead of calling through the table.\<close>

definition with_hv_locked :: "'p phy_operations_scheme \<Rightarrow> u32 \<Rightarrow> (u16 \<Rightarrow> s32 hwM) \<Rightarrow> s32 hwM" where
  "with_hv_locked ops offset k = do {
     r \<leftarrow> e1000_read_phy_reg_hv_locked ops offset 0;
     if fst r \<noteq> 0 then ret (fst r) else k (snd r) }"

definition with_kmrn_locked :: "'p phy_operations_scheme \<Rightarrow> u32 \<Rightarrow> (u16 \<Rightarrow> s32 hwM) \<Rightarrow> s32 hwM" where
  "with_kmrn_locked ops offset k = do {
     r \<leftarrow> e1000e_read_kmrn_reg_locked ops offset 0;
     if fst r \<noteq> 0 then ret (fst r) else k (snd r) }"

definition set_ich8 :: "(e1000_dev_spec_ich8lan \<Rightarrow> e1000_dev_spec_ich8lan) \<Rightarrow> unit hwM" where
  "set_ich8 f = modify (hw_ich8_update f)"

text \<open>A register read, changed and written back.\<close>

definition csr_modify :: "u32 \<Rightarrow> (u32 \<Rightarrow> u32) \<Rightarrow> unit hwM" where
  "csr_modify reg f = do { v \<leftarrow> er32 reg; ew32 reg (f v) }"

definition PHY_REG :: "u32 \<Rightarrow> u32 \<Rightarrow> u32" where
  "PHY_REG page reg = push_bit PHY_PAGE_SHIFT page OR (reg AND MAX_PHY_REG_ADDRESS)"

definition BM_PHY_REG :: "u32 \<Rightarrow> u32 \<Rightarrow> u32" where
  "BM_PHY_REG page reg = (reg AND MAX_PHY_REG_ADDRESS) OR push_bit PHY_PAGE_SHIFT (page AND 0xFFFF)
     OR push_bit (PHY_UPPER_SHIFT - PHY_PAGE_SHIFT) (reg AND NOT MAX_PHY_REG_ADDRESS)"

definition BM_RAR_L :: "u32 \<Rightarrow> u32" where "BM_RAR_L i = BM_PHY_REG BM_WUC_PAGE (16 + push_bit 2 i)"
definition BM_RAR_M :: "u32 \<Rightarrow> u32" where "BM_RAR_M i = BM_PHY_REG BM_WUC_PAGE (17 + push_bit 2 i)"
definition BM_RAR_H :: "u32 \<Rightarrow> u32" where "BM_RAR_H i = BM_PHY_REG BM_WUC_PAGE (18 + push_bit 2 i)"
definition BM_RAR_CTRL :: "u32 \<Rightarrow> u32" where "BM_RAR_CTRL i = BM_PHY_REG BM_WUC_PAGE (19 + push_bit 2 i)"
definition E1000_PCH_RAICC :: "u32 \<Rightarrow> u32" where "E1000_PCH_RAICC n = 0x05F50 + n * 4"

subsection \<open>Extended management registers\<close>

definition e1000_access_emi_reg_locked_raw ::
  "'p phy_all_operations_scheme \<Rightarrow> u16 \<Rightarrow> u16 \<Rightarrow> bool \<Rightarrow> (s32 \<times> u16) hwM" where
  "e1000_access_emi_reg_locked_raw ops address data rd = do {
     ret_val \<leftarrow> e1e_wphy_locked ops I82579_EMI_ADDR address;
     if ret_val \<noteq> 0 then ret (ret_val, data)
     else if rd then e1e_rphy_locked ops I82579_EMI_DATA data
     else do { ret_val \<leftarrow> e1e_wphy_locked ops I82579_EMI_DATA data; ret (ret_val, data) } }"

definition e1000_read_emi_reg_locked ::
  "'p phy_all_operations_scheme \<Rightarrow> u16 \<Rightarrow> u16 \<Rightarrow> (s32 \<times> u16) hwM" where
  "e1000_read_emi_reg_locked ops addr data = e1000_access_emi_reg_locked_raw ops addr data True"

definition e1000_write_emi_reg_locked :: "'p phy_all_operations_scheme \<Rightarrow> u16 \<Rightarrow> u16 \<Rightarrow> s32 hwM" where
  "e1000_write_emi_reg_locked ops addr data = do {
     r \<leftarrow> e1000_access_emi_reg_locked_raw ops addr data False;
     ret (fst r) }"

definition with_emi :: "'p phy_all_operations_scheme \<Rightarrow> u16 \<Rightarrow> (u16 \<Rightarrow> s32 hwM) \<Rightarrow> s32 hwM" where
  "with_emi ops addr k = do {
     r \<leftarrow> e1000_read_emi_reg_locked ops addr 0;
     if fst r \<noteq> 0 then ret (fst r) else k (snd r) }"

subsection \<open>Energy-efficient Ethernet\<close>

text \<open>The partner's ability, the status and the advertisement register of each PHY that has it.\<close>

definition eee_regs :: "e1000_phy_type \<Rightarrow> (u16 \<times> u16 \<times> u16) option" where
  "eee_regs ty = (case ty of
       e1000_phy_82579 \<Rightarrow> Some (I82579_EEE_LP_ABILITY, I82579_EEE_PCS_STATUS, I82579_EEE_ADVERTISEMENT)
     | e1000_phy_i217 \<Rightarrow> Some (I217_EEE_LP_ABILITY, I217_EEE_PCS_STATUS, I217_EEE_ADVERTISEMENT)
     | _ \<Rightarrow> None)"

text \<open>Enabling, unless the user disabled it; \<open>k\<close> is what follows, with the control value.\<close>

definition eee_enable ::
  "'p phy_all_operations_scheme \<Rightarrow> u16 \<Rightarrow> u16 \<Rightarrow> u16 \<Rightarrow> u16 \<Rightarrow> (u16 \<Rightarrow> s32 hwM) \<Rightarrow> s32 hwM" where
  "eee_enable ops lpa adv_addr lpi_ctrl garbage k = do {
     old \<leftarrow> gets (\<lambda>s. ich8_eee_lp_ability (hw_ich8 s));
     r \<leftarrow> e1000_read_emi_reg_locked ops lpa old;
     set_ich8 (ich8_eee_lp_ability_update (\<lambda>_. snd r));
     if fst r \<noteq> 0 then ret (fst r)
     else with_emi ops adv_addr (\<lambda>adv. do {
       lp \<leftarrow> gets (\<lambda>s. ich8_eee_lp_ability (hw_ich8 s));
       let lpi_ctrl = (if adv AND lp AND I82579_EEE_1000_SUPPORTED \<noteq> 0
         then lpi_ctrl OR I82579_LPI_CTRL_1000_ENABLE else lpi_ctrl);
       if adv AND lp AND I82579_EEE_100_SUPPORTED \<noteq> 0 then do {
         r \<leftarrow> e1e_rphy_locked ops MII_LPA garbage;
         if snd r AND LPA_100FULL \<noteq> 0 then k (lpi_ctrl OR I82579_LPI_CTRL_100_ENABLE)
         else do {
           set_ich8 (ich8_eee_lp_ability_update (\<lambda>a. a AND NOT I82579_EEE_100_SUPPORTED));
           k lpi_ctrl } }
       else k lpi_ctrl }) }"

text \<open>The PLL shut-down of the 82579: the result of its write is overwritten by the caller's next read.\<close>

definition eee_pll_shut :: "'p phy_all_operations_scheme \<Rightarrow> s32 hwM \<Rightarrow> s32 hwM" where
  "eee_pll_shut ops k = do {
     ty \<leftarrow> gets (\<lambda>s. phy_type (hw_phy s));
     if ty = e1000_phy_82579
     then with_emi ops I82579_LPI_PLL_SHUT (\<lambda>data. do {
       e1000_write_emi_reg_locked ops I82579_LPI_PLL_SHUT (data AND NOT I82579_LPI_100_PLL_SHUT);
       k })
     else k }"

definition e1000_set_eee_pchlan :: "'p phy_all_operations_scheme \<Rightarrow> u16 \<Rightarrow> s32 hwM" where
  "e1000_set_eee_pchlan ops garbage = do {
     ty \<leftarrow> gets (\<lambda>s. phy_type (hw_phy s));
     case eee_regs ty of
         None \<Rightarrow> ret 0
       | Some (lpa, pcs_status, adv_addr) \<Rightarrow> phy_lock ops (
           with_phy_locked ops I82579_LPI_CTRL (\<lambda>lpi_ctrl. do {
           let lpi_ctrl = lpi_ctrl AND NOT I82579_LPI_CTRL_ENABLE_MASK;
           disabled \<leftarrow> gets (\<lambda>s. ich8_eee_disable (hw_ich8 s));
           let rest = (\<lambda>lpi_ctrl. eee_pll_shut ops (
             with_emi ops pcs_status (\<lambda>_.
             e1e_wphy_locked ops I82579_LPI_CTRL lpi_ctrl)));
           if disabled then rest lpi_ctrl
           else eee_enable ops lpa adv_addr lpi_ctrl garbage rest })) }"

subsection \<open>K1\<close>

definition e1000_k1_workaround_lpt_lp :: "'p phy_all_operations_scheme \<Rightarrow> bool \<Rightarrow> s32 hwM" where
  "e1000_k1_workaround_lpt_lp ops link = do {
     fextnvm6 \<leftarrow> er32 E1000_FEXTNVM6;
     status \<leftarrow> er32 E1000_STATUS;
     if link \<and> status AND E1000_STATUS_SPEED_1000 \<noteq> 0 then
       phy_lock ops (
         with_kmrn_locked ops E1000_KMRNCTRLSTA_K1_CONFIG (\<lambda>reg.
         ok_then (e1000e_write_kmrn_reg_locked ops E1000_KMRNCTRLSTA_K1_CONFIG
           (reg AND NOT E1000_KMRNCTRLSTA_K1_ENABLE)) (do {
         usleep_range 10 20;
         ew32 E1000_FEXTNVM6 (fextnvm6 OR E1000_FEXTNVM6_REQ_PLL_CLK);
         e1000e_write_kmrn_reg_locked ops E1000_KMRNCTRLSTA_K1_CONFIG reg })))
     else do {
       let fextnvm6 = fextnvm6 AND NOT E1000_FEXTNVM6_REQ_PLL_CLK;
       revision \<leftarrow> gets (\<lambda>s. phy_revision (hw_phy s));
       if revision > 5 \<or> \<not> link \<or>
          (status AND E1000_STATUS_SPEED_100 \<noteq> 0 \<and> status AND E1000_STATUS_FD \<noteq> 0)
       then do { ew32 E1000_FEXTNVM6 fextnvm6; ret 0 }
       else with_phy ops I217_INBAND_CTRL (\<lambda>reg. do {
         let reg = reg AND NOT I217_INBAND_CTRL_LINK_STAT_TX_TIMEOUT_MASK;
         let half100 = (status AND E1000_STATUS_SPEED_100 \<noteq> 0);
         let reg = reg OR push_bit I217_INBAND_CTRL_LINK_STAT_TX_TIMEOUT_SHIFT (if half100 then 5 else 50);
         let fextnvm6 = (if half100 then fextnvm6 AND NOT E1000_FEXTNVM6_ENABLE_K1_ENTRY_CONDITION
           else fextnvm6 OR E1000_FEXTNVM6_ENABLE_K1_ENTRY_CONDITION);
         ok_then (e1e_wphy ops I217_INBAND_CTRL reg) (do {
           ew32 E1000_FEXTNVM6 fextnvm6;
           ret 0 }) }) } }"

definition e1000_configure_k1_ich8lan :: "'p phy_operations_scheme \<Rightarrow> bool \<Rightarrow> s32 hwM" where
  "e1000_configure_k1_ich8lan ops k1_enable =
     with_kmrn_locked ops E1000_KMRNCTRLSTA_K1_CONFIG (\<lambda>kmrn_reg.
     ok_then (e1000e_write_kmrn_reg_locked ops E1000_KMRNCTRLSTA_K1_CONFIG
       (if k1_enable then kmrn_reg OR E1000_KMRNCTRLSTA_K1_ENABLE
        else kmrn_reg AND NOT E1000_KMRNCTRLSTA_K1_ENABLE)) (do {
     usleep_range 20 40;
     ctrl_ext \<leftarrow> er32 E1000_CTRL_EXT;
     ctrl_reg \<leftarrow> er32 E1000_CTRL;
     ew32 E1000_CTRL ((ctrl_reg AND NOT (E1000_CTRL_SPD_1000 OR E1000_CTRL_SPD_100)) OR E1000_CTRL_FRCSPD);
     ew32 E1000_CTRL_EXT (ctrl_ext OR E1000_CTRL_EXT_SPD_BYPS);
     e1e_flush;
     usleep_range 20 40;
     ew32 E1000_CTRL ctrl_reg;
     ew32 E1000_CTRL_EXT ctrl_ext;
     e1e_flush;
     usleep_range 20 40;
     ret 0 }))"

text \<open>
  Whether a status register says the link is up at 1000 Mb/s: \<open>k1_step\<close> clears the enable when
  the PHY is of type \<open>ty\<close> and the bits of \<open>mask\<close> read \<open>up\<close>. \<open>Inl\<close> is a failed read.
\<close>

definition k1_step ::
  "'p phy_all_operations_scheme \<Rightarrow> e1000_phy_type \<Rightarrow> u32 \<Rightarrow> u16 \<Rightarrow> u16 \<Rightarrow> bool \<Rightarrow> (s32 + bool) hwM" where
  "k1_step ops ty reg mask' up k1_enable = do {
     t \<leftarrow> gets (\<lambda>s. phy_type (hw_phy s));
     if t \<noteq> ty then ret (Inr k1_enable)
     else do {
       r \<leftarrow> e1e_rphy_locked ops reg 0;
       ret (if fst r \<noteq> 0 then Inl (fst r)
         else Inr (if snd r AND mask' = up then False else k1_enable)) } }"

definition e1000_k1_gig_workaround_hv :: "'p phy_all_operations_scheme \<Rightarrow> bool \<Rightarrow> s32 hwM" where
  "e1000_k1_gig_workaround_hv ops link = do {
     k1_enable \<leftarrow> gets (\<lambda>s. ich8_nvm_k1_enabled (hw_ich8 s));
     ty \<leftarrow> gets (\<lambda>s. mac_type (hw_mac s));
     if ty \<noteq> e1000_pchlan then ret 0
     else phy_lock ops (
       if link then do {
         r \<leftarrow> k1_step ops e1000_phy_82578 BM_CS_STATUS
           (BM_CS_STATUS_LINK_UP OR BM_CS_STATUS_RESOLVED OR BM_CS_STATUS_SPEED_MASK)
           (BM_CS_STATUS_LINK_UP OR BM_CS_STATUS_RESOLVED OR BM_CS_STATUS_SPEED_1000) k1_enable;
         case r of Inl e \<Rightarrow> ret e | Inr k1_enable \<Rightarrow> do {
         r \<leftarrow> k1_step ops e1000_phy_82577 HV_M_STATUS
           (HV_M_STATUS_LINK_UP OR HV_M_STATUS_AUTONEG_COMPLETE OR HV_M_STATUS_SPEED_MASK)
           (HV_M_STATUS_LINK_UP OR HV_M_STATUS_AUTONEG_COMPLETE OR HV_M_STATUS_SPEED_1000) k1_enable;
         case r of Inl e \<Rightarrow> ret e | Inr k1_enable \<Rightarrow>
           ok_then (e1e_wphy_locked ops (PHY_REG 770 19) 0x0100)
             (e1000_configure_k1_ich8lan ops k1_enable) } }
       else ok_then (e1e_wphy_locked ops (PHY_REG 770 19) 0x4100)
         (e1000_configure_k1_ich8lan ops k1_enable)) }"

definition e1000_k1_workaround_lv :: "'p phy_operations_scheme \<Rightarrow> s32 hwM" where
  "e1000_k1_workaround_lv ops = do {
     ty \<leftarrow> gets (\<lambda>s. mac_type (hw_mac s));
     if ty \<noteq> e1000_pch2lan then ret 0
     else with_phy ops HV_M_STATUS (\<lambda>status_reg.
       let up = HV_M_STATUS_LINK_UP OR HV_M_STATUS_AUTONEG_COMPLETE in
       if status_reg AND up \<noteq> up then ret 0
       else if status_reg AND (HV_M_STATUS_SPEED_1000 OR HV_M_STATUS_SPEED_100) \<noteq> 0
       then with_phy ops HV_PM_CTRL (\<lambda>pm_phy_reg.
         e1e_wphy ops HV_PM_CTRL (pm_phy_reg AND NOT HV_PM_CTRL_K1_ENABLE))
       else do {
         csr_modify E1000_FEXTNVM4 (\<lambda>mac_reg. (mac_reg AND NOT E1000_FEXTNVM4_BEACON_DURATION_MASK)
           OR E1000_FEXTNVM4_BEACON_DURATION_16USEC);
         ret 0 }) }"

subsection \<open>SMBus address and the configuration region of the NVM\<close>

text \<open>The value of the SMBus register: \<open>freq--\<close> tests the frequency and lowers it.\<close>

definition smbus_value :: "e1000_phy_type \<Rightarrow> u32 \<Rightarrow> u16 \<Rightarrow> u16" where
  "smbus_value ty strap phy_data =
     (let freq = drop_bit E1000_STRAP_SMT_FREQ_SHIFT (strap AND E1000_STRAP_SMT_FREQ_MASK);
          phy_data = phy_data AND NOT HV_SMB_ADDR_MASK;
          phy_data = phy_data OR ucast (drop_bit E1000_STRAP_SMBUS_ADDRESS_SHIFT
            (strap AND E1000_STRAP_SMBUS_ADDRESS_MASK));
          phy_data = phy_data OR (HV_SMB_ADDR_PEC_EN OR HV_SMB_ADDR_VALID)
      in if ty = e1000_phy_i217 \<and> freq \<noteq> 0
         then let freq = freq - 1;
                  phy_data = phy_data AND NOT HV_SMB_ADDR_FREQ_MASK;
                  phy_data = phy_data OR ucast (push_bit HV_SMB_ADDR_FREQ_LOW_SHIFT (freq AND 1))
              in phy_data OR ucast (push_bit (HV_SMB_ADDR_FREQ_HIGH_SHIFT - 1) (freq AND 2))
         else phy_data)"

definition e1000_write_smbus_addr :: "'p phy_operations_scheme \<Rightarrow> s32 hwM" where
  "e1000_write_smbus_addr ops = do {
     strap \<leftarrow> er32 E1000_STRAP;
     with_hv_locked ops HV_SMB_ADDR (\<lambda>phy_data. do {
       ty \<leftarrow> gets (\<lambda>s. phy_type (hw_phy s));
       e1000_write_phy_reg_hv_locked ops HV_SMB_ADDR (smbus_value ty strap phy_data) }) }"

text \<open>
  The loop over the pairs of words of the region, from index \<open>i\<close>, \<open>n\<close> to go. \<open>phy_page\<close> is the
  page the pairs seen so far selected. The offset of a word is computed in 32 bits and passed to
  a 16-bit parameter.
\<close>

primrec lcd_config_loop ::
  "nat \<Rightarrow> u32 \<Rightarrow> 'p phy_all_operations_scheme \<Rightarrow> 'o nvm_operations_scheme \<Rightarrow> u16 \<Rightarrow> u16 \<Rightarrow> s32 hwM" where
  "lcd_config_loop 0 i ops nops word_addr phy_page = ret 0"
| "lcd_config_loop (Suc n) i ops nops word_addr phy_page = do {
     r \<leftarrow> e1000_read_nvm1 nops (ucast (ucast word_addr + i * 2 :: u32));
     if fst r \<noteq> 0 then ret (fst r)
     else do {
       let reg_data = snd r;
       r \<leftarrow> e1000_read_nvm1 nops (ucast (ucast word_addr + i * 2 + 1 :: u32));
       if fst r \<noteq> 0 then ret (fst r)
       else if snd r = IGP01E1000_PHY_PAGE_SELECT
       then lcd_config_loop n (i + 1) ops nops word_addr reg_data
       else ok_then (e1e_wphy_locked ops (ucast ((snd r AND PHY_REG_MASK) OR phy_page)) reg_data)
         (lcd_config_loop n (i + 1) ops nops word_addr phy_page) } }"

text \<open>The part of \<open>FEXTNVM\<close> that asks for a configuration by software; \<open>None\<close> when no part may.\<close>

definition sw_cfg_mask :: "e1000_hw \<Rightarrow> u32 option" where
  "sw_cfg_mask s =
     (if mac_type (hw_mac s) = e1000_ich8lan then
        (if phy_type (hw_phy s) \<noteq> e1000_phy_igp_3 then None
         else if hw_device s = E1000_DEV_ID_ICH8_IGP_AMT \<or> hw_device s = E1000_DEV_ID_ICH8_IGP_C
         then Some E1000_FEXTNVM_SW_CONFIG else Some E1000_FEXTNVM_SW_CONFIG_ICH8M)
      else if mac_type (hw_mac s) \<in> {e1000_pchlan, e1000_pch2lan, e1000_pch_lpt, e1000_pch_spt,
          e1000_pch_cnp, e1000_pch_tgp, e1000_pch_adp}
      then Some E1000_FEXTNVM_SW_CONFIG_ICH8M else None)"

text \<open>The SMBus address and the LEDs, on the parts where hardware does not write them.\<close>

definition lcd_config_leds :: "'p phy_all_operations_scheme \<Rightarrow> u32 \<Rightarrow> s32 hwM" where
  "lcd_config_leds ops extcnf_ctrl = do {
     ty \<leftarrow> gets (\<lambda>s. mac_type (hw_mac s));
     if (ty = e1000_pchlan \<and> extcnf_ctrl AND E1000_EXTCNF_CTRL_OEM_WRITE_ENABLE = 0) \<or> ty > e1000_pchlan
     then ok_then (e1000_write_smbus_addr ops) (do {
       data \<leftarrow> er32 E1000_LEDCTL;
       e1000_write_phy_reg_hv_locked ops HV_LED_CONFIG (ucast data) })
     else ret 0 }"

definition lcd_config_locked ::
  "'p phy_all_operations_scheme \<Rightarrow> 'o nvm_operations_scheme \<Rightarrow> u32 \<Rightarrow> s32 hwM" where
  "lcd_config_locked ops nops mask' = do {
     data \<leftarrow> er32 E1000_FEXTNVM;
     if data AND mask' = 0 then ret 0
     else do {
     data \<leftarrow> er32 E1000_EXTCNF_CTRL;
     ty \<leftarrow> gets (\<lambda>s. mac_type (hw_mac s));
     if ty < e1000_pch2lan \<and> data AND E1000_EXTCNF_CTRL_LCD_WRITE_ENABLE \<noteq> 0 then ret 0
     else do {
     size \<leftarrow> er32 E1000_EXTCNF_SIZE;
     let cnf_size = drop_bit E1000_EXTCNF_SIZE_EXT_PCIE_LENGTH_SHIFT
       (size AND E1000_EXTCNF_SIZE_EXT_PCIE_LENGTH_MASK);
     if cnf_size = 0 then ret 0
     else do {
     let cnf_base_addr = drop_bit E1000_EXTCNF_CTRL_EXT_CNF_POINTER_SHIFT
       (data AND E1000_EXTCNF_CTRL_EXT_CNF_POINTER_MASK);
     ok_then (lcd_config_leds ops data)
       (lcd_config_loop (unat cnf_size) 0 ops nops (ucast (push_bit 1 cnf_base_addr)) 0) } } } }"

definition e1000_sw_lcd_config_ich8lan ::
  "'p phy_all_operations_scheme \<Rightarrow> 'o nvm_operations_scheme \<Rightarrow> s32 hwM" where
  "e1000_sw_lcd_config_ich8lan ops nops = do {
     m \<leftarrow> gets sw_cfg_mask;
     case m of None \<Rightarrow> ret 0 | Some mask' \<Rightarrow> phy_lock ops (lcd_config_locked ops nops mask') }"

subsection \<open>OEM bits\<close>

definition oem_bits :: "bool \<Rightarrow> u32 \<Rightarrow> u16 \<Rightarrow> u16" where
  "oem_bits d0_state mac_reg oem_reg =
     (let oem_reg = oem_reg AND NOT (HV_OEM_BITS_GBE_DIS OR HV_OEM_BITS_LPLU);
          gbe = (if d0_state then E1000_PHY_CTRL_GBE_DISABLE
            else E1000_PHY_CTRL_GBE_DISABLE OR E1000_PHY_CTRL_NOND0A_GBE_DISABLE);
          lplu = (if d0_state then E1000_PHY_CTRL_D0A_LPLU
            else E1000_PHY_CTRL_D0A_LPLU OR E1000_PHY_CTRL_NOND0A_LPLU);
          oem_reg = (if mac_reg AND gbe \<noteq> 0 then oem_reg OR HV_OEM_BITS_GBE_DIS else oem_reg)
      in if mac_reg AND lplu \<noteq> 0 then oem_reg OR HV_OEM_BITS_LPLU else oem_reg)"

definition oem_bits_locked :: "'p phy_all_operations_scheme \<Rightarrow> bool \<Rightarrow> s32 hwM" where
  "oem_bits_locked ops d0_state = do {
     mac_reg \<leftarrow> er32 E1000_FEXTNVM;
     if mac_reg AND E1000_FEXTNVM_SW_CONFIG_ICH8M = 0 then ret 0
     else do {
       mac_reg \<leftarrow> er32 E1000_PHY_CTRL;
       with_phy_locked ops HV_OEM_BITS (\<lambda>oem_reg. do {
         let oem_reg = oem_bits d0_state mac_reg oem_reg;
         ty \<leftarrow> gets (\<lambda>s. mac_type (hw_mac s));
         blocked \<leftarrow> (if d0_state \<or> ty \<noteq> e1000_pchlan then check_reset_block ops else ret 1);
         e1e_wphy_locked ops HV_OEM_BITS
           (if blocked = 0 then oem_reg OR HV_OEM_BITS_RESTART_AN else oem_reg) }) } }"

definition e1000_oem_bits_config_ich8lan :: "'p phy_all_operations_scheme \<Rightarrow> bool \<Rightarrow> s32 hwM" where
  "e1000_oem_bits_config_ich8lan ops d0_state = do {
     ty \<leftarrow> gets (\<lambda>s. mac_type (hw_mac s));
     if ty < e1000_pchlan then ret 0
     else phy_lock ops (
       if ty = e1000_pchlan then do {
         mac_reg \<leftarrow> er32 E1000_EXTCNF_CTRL;
         if mac_reg AND E1000_EXTCNF_CTRL_OEM_WRITE_ENABLE \<noteq> 0 then ret 0
         else oem_bits_locked ops d0_state }
       else oem_bits_locked ops d0_state) }"

definition e1000_set_lplu_state_pchlan :: "'p phy_link_operations_scheme \<Rightarrow> bool \<Rightarrow> s32 hwM" where
  "e1000_set_lplu_state_pchlan ops active =
     with_phy ops HV_OEM_BITS (\<lambda>oem_reg. do {
       let oem_reg = (if active then oem_reg OR HV_OEM_BITS_LPLU else oem_reg AND NOT HV_OEM_BITS_LPLU);
       blocked \<leftarrow> check_reset_block ops;
       e1e_wphy ops HV_OEM_BITS (if blocked = 0 then oem_reg OR HV_OEM_BITS_RESTART_AN else oem_reg) })"

subsection \<open>Workarounds after a reset of the PHY\<close>

definition e1000_set_mdio_slow_mode_hv :: "'p phy_operations_scheme \<Rightarrow> s32 hwM" where
  "e1000_set_mdio_slow_mode_hv ops =
     with_phy ops HV_KMRN_MODE_CTRL (\<lambda>data. e1e_wphy ops HV_KMRN_MODE_CTRL (data OR HV_KMRN_MDIO_SLOW))"

text \<open>The writes of the first 82577 and 82578 revisions.\<close>

definition hv_preamble_tuning :: "'p phy_operations_scheme \<Rightarrow> s32 hwM" where
  "hv_preamble_tuning ops = do {
     phy \<leftarrow> gets hw_phy;
     if (phy_type phy = e1000_phy_82577 \<and> (phy_revision phy = 1 \<or> phy_revision phy = 2)) \<or>
        (phy_type phy = e1000_phy_82578 \<and> phy_revision phy = 1)
     then ok_then (e1e_wphy ops (PHY_REG 769 25) 0x4431) (e1e_wphy ops HV_KMRN_FIFO_CTRLSTA 0xA204)
     else ret 0 }"

definition hv_soft_reset_82578 :: "'p phy_operations_scheme \<Rightarrow> s32 hwM" where
  "hv_soft_reset_82578 ops = do {
     phy \<leftarrow> gets hw_phy;
     if phy_type phy = e1000_phy_82578 \<and> phy_revision phy < 2
     then do { e1000e_phy_sw_reset ops; e1e_wphy ops MII_BMCR 0x3140 }
     else ret 0 }"

definition e1000_hv_phy_workarounds_ich8lan :: "'p phy_all_operations_scheme \<Rightarrow> s32 hwM" where
  "e1000_hv_phy_workarounds_ich8lan ops = do {
     ty \<leftarrow> gets (\<lambda>s. mac_type (hw_mac s));
     if ty \<noteq> e1000_pchlan then ret 0
     else do {
     pty \<leftarrow> gets (\<lambda>s. phy_type (hw_phy s));
     ok_then (if pty = e1000_phy_82577 then e1000_set_mdio_slow_mode_hv ops else ret 0) (
     ok_then (hv_preamble_tuning ops) (
     ok_then (hv_soft_reset_82578 ops) (
     ok_then (phy_lock ops (do {
       set_phy_addr 1;
       e1000e_write_phy_reg_mdic IGP01E1000_PHY_PAGE_SELECT 0 })) (
     ok_then (e1000_k1_gig_workaround_hv ops True) (
     phy_lock ops (
       with_phy_locked ops BM_PORT_GEN_CFG (\<lambda>phy_data.
       ok_then (e1e_wphy_locked ops BM_PORT_GEN_CFG (phy_data AND 0x00FF)) (
       e1000_write_emi_reg_locked ops I82577_MSE_THRESHOLD 0x0034)))))))) } }"

definition e1000_lv_phy_workarounds_ich8lan :: "'p phy_all_operations_scheme \<Rightarrow> s32 hwM" where
  "e1000_lv_phy_workarounds_ich8lan ops = do {
     ty \<leftarrow> gets (\<lambda>s. mac_type (hw_mac s));
     if ty \<noteq> e1000_pch2lan then ret 0
     else ok_then (e1000_set_mdio_slow_mode_hv ops) (
       phy_lock ops (
         ok_then (e1000_write_emi_reg_locked ops I82579_MSE_THRESHOLD 0x0034)
           (e1000_write_emi_reg_locked ops I82579_MSE_LINK_DOWN 0x0005))) }"

subsection \<open>Jumbo frames on the 82579\<close>

text \<open>\<open>for (bit = 8; --bit >= 0; current_octet >>= 1)\<close>: eight steps of the reflected CRC.\<close>

primrec crc_bits :: "nat \<Rightarrow> u32 \<Rightarrow> u8 \<Rightarrow> u32" where
  "crc_bits 0 crc octet = crc"
| "crc_bits (Suc n) crc octet = crc_bits n
     (if (crc XOR ucast octet) AND 1 \<noteq> 0 then drop_bit 1 crc XOR 0xEDB88320 else drop_bit 1 crc)
     (drop_bit 1 octet)"

primrec crc_octets :: "u8 list \<Rightarrow> u32 \<Rightarrow> u32" where
  "crc_octets [] crc = crc"
| "crc_octets (octet # octets) crc = crc_octets octets (crc_bits 8 crc octet)"

definition ether_crc_le :: "u8 list \<Rightarrow> u32" where
  "ether_crc_le data = crc_octets data 0xFFFFFFFF"

definition copy_rx_addr :: "'p phy_all_operations_scheme \<Rightarrow> u32 \<Rightarrow> unit hwM" where
  "copy_rx_addr ops i = do {
     mac_reg \<leftarrow> er32 (E1000_RAL i);
     op_phy_write_reg_page ops (BM_RAR_L i) (ucast (mac_reg AND 0xFFFF));
     op_phy_write_reg_page ops (BM_RAR_M i) (ucast (drop_bit 16 mac_reg AND 0xFFFF));
     mac_reg \<leftarrow> er32 (E1000_RAH i);
     op_phy_write_reg_page ops (BM_RAR_H i) (ucast (mac_reg AND 0xFFFF));
     op_phy_write_reg_page ops (BM_RAR_CTRL i) (ucast (drop_bit 16 (mac_reg AND E1000_RAH_AV)));
     ret () }"

definition e1000_copy_rx_addrs_to_phy_ich8lan :: "'p phy_all_operations_scheme \<Rightarrow> unit hwM" where
  "e1000_copy_rx_addrs_to_phy_ich8lan ops = do {
     phy_lock ops (do {
       r \<leftarrow> e1000_enable_phy_wakeup_reg_access_bm 0;
       if fst r \<noteq> 0 then ret (fst r)
       else do {
         count \<leftarrow> gets (\<lambda>s. mac_rar_entry_count (hw_mac s));
         for_each [0..<unat count] (\<lambda>i. copy_rx_addr ops (word_of_nat i));
         e1000_disable_phy_wakeup_reg_access_bm (snd r);
         ret 0 } });
     ret () }"

definition lv_raicc :: "u32 \<Rightarrow> unit hwM" where
  "lv_raicc i = do {
     addr_high \<leftarrow> er32 (E1000_RAH i);
     cwhen (addr_high AND E1000_RAH_AV \<noteq> 0) (do {
       addr_low \<leftarrow> er32 (E1000_RAL i);
       ew32 (E1000_PCH_RAICC i) (NOT (ether_crc_le
         [byte_of addr_low 0, byte_of addr_low 1, byte_of addr_low 2, byte_of addr_low 3,
          byte_of addr_high 0, byte_of addr_high 1])) }) }"

text \<open>
  One PHY register of the workaround: the result of the read is ignored, and \<open>data\<close> is the local
  it goes into. \<open>k\<close> is the rest, with that local's new value.
\<close>

definition lv_phy_modify ::
  "'p phy_operations_scheme \<Rightarrow> u32 \<Rightarrow> (u16 \<Rightarrow> u16) \<Rightarrow> u16 \<Rightarrow> (u16 \<Rightarrow> s32 hwM) \<Rightarrow> s32 hwM" where
  "lv_phy_modify ops reg f data k = do {
     r \<leftarrow> e1e_rphy ops reg data;
     ok_then (e1e_wphy ops reg (f (snd r))) (k (f (snd r))) }"

text \<open>The two Kumeran registers of both directions; \<open>k\<close> gets the value written last.\<close>

definition lv_kmrn ::
  "'p phy_operations_scheme \<Rightarrow> (u16 \<Rightarrow> u16) \<Rightarrow> u16 \<Rightarrow> (u16 \<Rightarrow> s32 hwM) \<Rightarrow> s32 hwM" where
  "lv_kmrn ops f garbage k = do {
     r \<leftarrow> e1000e_read_kmrn_reg ops E1000_KMRNCTRLSTA_CTRL_OFFSET garbage;
     if fst r \<noteq> 0 then ret (fst r)
     else ok_then (e1000e_write_kmrn_reg ops E1000_KMRNCTRLSTA_CTRL_OFFSET (f (snd r))) (do {
       r \<leftarrow> e1000e_read_kmrn_reg ops E1000_KMRNCTRLSTA_HD_CTRL (snd r);
       if fst r \<noteq> 0 then ret (fst r)
       else do {
         let data = (snd r AND NOT 0xF00) OR 0xB00;
         ok_then (e1000e_write_kmrn_reg ops E1000_KMRNCTRLSTA_HD_CTRL data) (k data) } }) }"

text \<open>The five PHY registers of both directions.\<close>

definition lv_phy_regs ::
  "'p phy_operations_scheme \<Rightarrow> (u16 \<Rightarrow> u16) \<Rightarrow> (u16 \<Rightarrow> u16) \<Rightarrow> u16 \<Rightarrow> u16 \<Rightarrow> (u16 \<Rightarrow> u16) \<Rightarrow> u16
     \<Rightarrow> s32 hwM \<Rightarrow> s32 hwM" where
  "lv_phy_regs ops f f' gap v g data k =
     lv_phy_modify ops (PHY_REG 769 23) f data (\<lambda>data.
     lv_phy_modify ops (PHY_REG 769 16) f' data (\<lambda>data.
     lv_phy_modify ops (PHY_REG 776 20) (\<lambda>d. (d AND NOT 0xFFC) OR push_bit 2 gap) data (\<lambda>data.
     ok_then (e1e_wphy ops (PHY_REG 776 23) v) (
     lv_phy_modify ops HV_PM_CTRL g data (\<lambda>_. k)))))"

text \<open>Each ends with \<open>k\<close>, the write that enables the receive path again.\<close>

definition lv_jumbo_enable :: "'p phy_all_operations_scheme \<Rightarrow> u16 \<Rightarrow> s32 hwM \<Rightarrow> s32 hwM" where
  "lv_jumbo_enable ops garbage k = do {
     count \<leftarrow> gets (\<lambda>s. mac_rar_entry_count (hw_mac s));
     for_each [0..<unat count] (\<lambda>i. lv_raicc (word_of_nat i));
     e1000_copy_rx_addrs_to_phy_ich8lan ops;
     csr_modify E1000_FFLT_DBG (\<lambda>r. (r AND NOT 0x4000) OR 0x38000);
     csr_modify E1000_RCTL (\<lambda>r. r OR E1000_RCTL_SECRC);
     lv_kmrn ops (\<lambda>d. d OR 1) garbage (\<lambda>data.
     lv_phy_regs ops (\<lambda>d. (d AND NOT 0xFE0) OR 0x6E0) (\<lambda>d. d AND NOT 0x2000) E1000_TX_PTR_GAP
       0xF100 (\<lambda>d. d OR 0x400) data k) }"

definition lv_jumbo_disable :: "'p phy_all_operations_scheme \<Rightarrow> u16 \<Rightarrow> s32 hwM \<Rightarrow> s32 hwM" where
  "lv_jumbo_disable ops garbage k = do {
     csr_modify E1000_FFLT_DBG (\<lambda>r. r AND NOT 0x3C000);
     csr_modify E1000_RCTL (\<lambda>r. r AND NOT E1000_RCTL_SECRC);
     lv_kmrn ops (\<lambda>d. d AND NOT 1) garbage (\<lambda>data.
     lv_phy_regs ops (\<lambda>d. d AND NOT 0xFE0) (\<lambda>d. d OR 0x2000) 0x8
       0x7E00 (\<lambda>d. d AND NOT 0x400) data k) }"

text \<open>\<open>g1\<close> and \<open>g2\<close> are the values of the locals \<open>phy_reg\<close> and \<open>data\<close> before they are set.\<close>

definition e1000_lv_jumbo_workaround_ich8lan ::
  "'p phy_all_operations_scheme \<Rightarrow> bool \<Rightarrow> u16 \<Rightarrow> u16 \<Rightarrow> s32 hwM" where
  "e1000_lv_jumbo_workaround_ich8lan ops enable g1 g2 = do {
     ty \<leftarrow> gets (\<lambda>s. mac_type (hw_mac s));
     if ty < e1000_pch2lan then ret 0
     else do {
       r \<leftarrow> e1e_rphy ops (PHY_REG 769 20) g1;
       let phy_reg = snd r;
       ok_then (e1e_wphy ops (PHY_REG 769 20) (phy_reg OR 0x4000)) (
         (if enable then lv_jumbo_enable else lv_jumbo_disable) ops g2
           (e1e_wphy ops (PHY_REG 769 20) (phy_reg AND NOT 0x4000))) } }"

end
