(* ===== verification/PchReset.thy ===== *)
theory PchReset
  imports Pch Mac NvmIch8
begin

section \<open>Resetting the PHY, its low-power states and ultra-low power (ich8lan.c)\<close>

text \<open>
  The flows of \<open>src/IntelMausiEthernet/ich8lan.c\<close> around a reset of the PHY: waiting for the
  hardware's configuration, the steps after a reset, low-power link-up, the test whether the PHY
  can be reached, the power cycle through \<open>LANPHYPC\<close>, entry to and exit from ultra-low power,
  and the workarounds before the driver starts and around suspend and resume.
\<close>

subsection \<open>Waiting for the hardware\<close>

definition e1000_gate_hw_phy_config_ich8lan :: "bool \<Rightarrow> unit hwM" where
  "e1000_gate_hw_phy_config_ich8lan gate = do {
     ty \<leftarrow> gets (\<lambda>s. mac_type (hw_mac s));
     cwhen (ty \<ge> e1000_pch2lan)
       (csr_modify E1000_EXTCNF_CTRL (\<lambda>v. if gate then v OR E1000_EXTCNF_CTRL_GATE_PHY_CFG
          else v AND NOT E1000_EXTCNF_CTRL_GATE_PHY_CFG)) }"

text \<open>\<open>do ... while ((!data) && --loop)\<close>: at most \<open>loop\<close> reads, each followed by a sleep.\<close>

primrec lan_init_loop :: "nat \<Rightarrow> unit hwM" where
  "lan_init_loop 0 = ret ()"
| "lan_init_loop (Suc n) = do {
     data \<leftarrow> er32 E1000_STATUS;
     usleep_range 100 200;
     cwhen (data AND E1000_STATUS_LAN_INIT_DONE = 0) (lan_init_loop n) }"

definition e1000_lan_init_done_ich8lan :: "unit hwM" where
  "e1000_lan_init_done_ich8lan = do {
     lan_init_loop E1000_ICH8_LAN_INIT_TIMEOUT;
     csr_modify E1000_STATUS (\<lambda>v. v AND NOT E1000_STATUS_LAN_INIT_DONE) }"

definition e1000_get_cfg_done_ich8lan :: "'p phy_operations_scheme \<Rightarrow> s32 hwM" where
  "e1000_get_cfg_done_ich8lan ops = do {
     e1000e_get_cfg_done_generic;
     ty \<leftarrow> gets (\<lambda>s. mac_type (hw_mac s));
     (if ty \<ge> e1000_ich10lan then e1000_lan_init_done_ich8lan
      else do { e1000e_get_auto_rd_done; ret () });
     status \<leftarrow> er32 E1000_STATUS;
     cwhen (status AND E1000_STATUS_PHYRA \<noteq> 0) (ew32 E1000_STATUS (status AND NOT E1000_STATUS_PHYRA));
     if ty \<le> e1000_ich9lan then do {
       eecd \<leftarrow> er32 E1000_EECD;
       pty \<leftarrow> gets (\<lambda>s. phy_type (hw_phy s));
       cwhen (eecd AND E1000_EECD_PRES = 0 \<and> pty = e1000_phy_igp_3)
         (do { e1000e_phy_init_script_igp3 ops; ret () });
       ret 0 }
     else do {
       r \<leftarrow> e1000_valid_nvm_bank_detect_ich8lan;
       ret (if fst r \<noteq> 0 then - E1000_ERR_CONFIG else 0) } }"

subsection \<open>After a reset\<close>

text \<open>
  Whether the automatic configuration by hardware is switched: an 82579 without firmware. The
  register is read on an 82579 only.
\<close>

definition unmanaged_82579 :: "bool hwM" where
  "unmanaged_82579 = do {
     ty \<leftarrow> gets (\<lambda>s. mac_type (hw_mac s));
     if ty = e1000_pch2lan then do {
       fwsm \<leftarrow> er32 E1000_FWSM;
       ret (fwsm AND E1000_ICH_FWSM_FW_VALID = 0) }
     else ret False }"

definition clear_host_wakeup :: "'p phy_operations_scheme \<Rightarrow> u16 \<Rightarrow> unit hwM" where
  "clear_host_wakeup ops garbage = do {
     r \<leftarrow> e1e_rphy ops BM_PORT_GEN_CFG garbage;
     e1e_wphy ops BM_PORT_GEN_CFG (snd r AND NOT BM_WUC_HOST_WU_BIT);
     ret () }"

text \<open>The end for an 82579: its result replaces that of the OEM bits.\<close>

definition post_reset_82579 :: "'p phy_all_operations_scheme \<Rightarrow> s32 hwM" where
  "post_reset_82579 ops = do {
     fwsm \<leftarrow> er32 E1000_FWSM;
     cwhen (fwsm AND E1000_ICH_FWSM_FW_VALID = 0) (do {
       usleep_range 10000 20000;
       e1000_gate_hw_phy_config_ich8lan False });
     phy_lock ops (e1000_write_emi_reg_locked ops I82579_LPI_UPDATE_TIMER 0x1387) }"

definition e1000_post_phy_reset_ich8lan ::
  "'p phy_all_operations_scheme \<Rightarrow> 'o nvm_operations_scheme \<Rightarrow> u16 \<Rightarrow> s32 hwM" where
  "e1000_post_phy_reset_ich8lan ops nops garbage = do {
     blocked \<leftarrow> check_reset_block ops;
     if blocked \<noteq> 0 then ret 0
     else do {
     usleep_range 10000 20000;
     ty \<leftarrow> gets (\<lambda>s. mac_type (hw_mac s));
     ok_then (if ty = e1000_pchlan then e1000_hv_phy_workarounds_ich8lan ops
         else if ty = e1000_pch2lan then e1000_lv_phy_workarounds_ich8lan ops else ret 0) (do {
     cwhen (ty \<ge> e1000_pchlan) (clear_host_wakeup ops garbage);
     ok_then (e1000_sw_lcd_config_ich8lan ops nops) (do {
     ret_val \<leftarrow> e1000_oem_bits_config_ich8lan ops True;
     if ty = e1000_pch2lan then post_reset_82579 ops else ret ret_val }) }) } }"

definition e1000_phy_hw_reset_ich8lan ::
  "'p phy_all_operations_scheme \<Rightarrow> 'o nvm_operations_scheme \<Rightarrow> u16 \<Rightarrow> s32 hwM" where
  "e1000_phy_hw_reset_ich8lan ops nops garbage = do {
     gate \<leftarrow> unmanaged_82579;
     cwhen gate (e1000_gate_hw_phy_config_ich8lan True);
     ok_then (e1000e_phy_hw_reset_generic ops) (e1000_post_phy_reset_ich8lan ops nops garbage) }"

subsection \<open>Low-power link-up\<close>

definition e1000e_gig_downshift_workaround_ich8lan :: "'p phy_operations_scheme \<Rightarrow> unit hwM" where
  "e1000e_gig_downshift_workaround_ich8lan ops = do {
     s \<leftarrow> gets id;
     cwhen (mac_type (hw_mac s) = e1000_ich8lan \<and> phy_type (hw_phy s) \<noteq> e1000_phy_ife) (do {
       r \<leftarrow> e1000e_read_kmrn_reg ops E1000_KMRNCTRLSTA_DIAG_OFFSET 0;
       cwhen (fst r = 0) (do {
         let reg_data = snd r OR E1000_KMRNCTRLSTA_DIAG_NELPBK;
         ret_val \<leftarrow> e1000e_write_kmrn_reg ops E1000_KMRNCTRLSTA_DIAG_OFFSET reg_data;
         cwhen (ret_val = 0) (do {
           e1000e_write_kmrn_reg ops E1000_KMRNCTRLSTA_DIAG_OFFSET
             (reg_data AND NOT E1000_KMRNCTRLSTA_DIAG_NELPBK);
           ret () }) }) }) }"

text \<open>Smart speed of an igp3 PHY, when low-power link-up is left.\<close>

definition lplu_smart_speed :: "'p phy_operations_scheme \<Rightarrow> s32 hwM" where
  "lplu_smart_speed ops = do {
     phy \<leftarrow> gets hw_phy;
     if phy_type phy \<noteq> e1000_phy_igp_3 then ret 0
     else if phy_smart_speed phy = e1000_smart_speed_on
     then with_phy ops IGP01E1000_PHY_PORT_CONFIG (\<lambda>data.
       e1e_wphy ops IGP01E1000_PHY_PORT_CONFIG (data OR IGP01E1000_PSCFR_SMART_SPEED))
     else if phy_smart_speed phy = e1000_smart_speed_off then smart_speed_off ops
     else ret 0 }"

text \<open>And when it is entered.\<close>

definition lplu_enter :: "'p phy_operations_scheme \<Rightarrow> s32 hwM" where
  "lplu_enter ops = do {
     s \<leftarrow> gets id;
     if phy_type (hw_phy s) \<noteq> e1000_phy_igp_3 then ret 0
     else do {
       cwhen (mac_type (hw_mac s) = e1000_ich8lan) (e1000e_gig_downshift_workaround_ich8lan ops);
       smart_speed_off ops } }"

definition e1000_set_d0_lplu_state_ich8lan :: "'p phy_operations_scheme \<Rightarrow> bool \<Rightarrow> s32 hwM" where
  "e1000_set_d0_lplu_state_ich8lan ops active = do {
     ty \<leftarrow> gets (\<lambda>s. phy_type (hw_phy s));
     if ty = e1000_phy_ife then ret 0
     else do {
       phy_ctrl \<leftarrow> er32 E1000_PHY_CTRL;
       if active then do {
         ew32 E1000_PHY_CTRL (phy_ctrl OR E1000_PHY_CTRL_D0A_LPLU);
         lplu_enter ops }
       else do {
         ew32 E1000_PHY_CTRL (phy_ctrl AND NOT E1000_PHY_CTRL_D0A_LPLU);
         lplu_smart_speed ops } } }"

definition e1000_set_d3_lplu_state_ich8lan :: "'p phy_operations_scheme \<Rightarrow> bool \<Rightarrow> s32 hwM" where
  "e1000_set_d3_lplu_state_ich8lan ops active = do {
     phy_ctrl \<leftarrow> er32 E1000_PHY_CTRL;
     advertised \<leftarrow> gets (\<lambda>s. phy_autoneg_advertised (hw_phy s));
     if \<not> active then do {
       ew32 E1000_PHY_CTRL (phy_ctrl AND NOT E1000_PHY_CTRL_NOND0A_LPLU);
       lplu_smart_speed ops }
     else if advertised \<in> {E1000_ALL_SPEED_DUPLEX, E1000_ALL_NOT_GIG, E1000_ALL_10_SPEED} then do {
       ew32 E1000_PHY_CTRL (phy_ctrl OR E1000_PHY_CTRL_NOND0A_LPLU);
       lplu_enter ops }
     else ret 0 }"

subsection \<open>Reaching the PHY\<close>

text \<open>
  The loop of two tries; the locals \<open>ret_val\<close>, \<open>phy_id\<close> and \<open>phy_reg\<close> of the source are the
  arguments and the result.
\<close>

primrec phy_accessible_loop ::
  "nat \<Rightarrow> 'p phy_all_operations_scheme \<Rightarrow> s32 \<Rightarrow> u32 \<Rightarrow> u16 \<Rightarrow> (s32 \<times> u32 \<times> u16) hwM" where
  "phy_accessible_loop 0 ops ret_val phy_id' phy_reg = ret (ret_val, phy_id', phy_reg)"
| "phy_accessible_loop (Suc n) ops ret_val phy_id' phy_reg = do {
     r \<leftarrow> e1e_rphy_locked ops MII_PHYSID1 phy_reg;
     if fst r \<noteq> 0 \<or> snd r = 0xFFFF then phy_accessible_loop n ops (fst r) phy_id' (snd r)
     else do {
       let phy_id' = push_bit 16 (ucast (snd r));
       r \<leftarrow> e1e_rphy_locked ops MII_PHYSID2 (snd r);
       if fst r \<noteq> 0 \<or> snd r = 0xFFFF then phy_accessible_loop n ops (fst r) 0 (snd r)
       else ret (fst r, phy_id' OR (ucast (snd r) AND PHY_REVISION_MASK), snd r) } }"

text \<open>Leaving SMBus mode on the newer parts, when the firmware is not active.\<close>

definition unforce_smbus :: "'p phy_all_operations_scheme \<Rightarrow> u16 \<Rightarrow> unit hwM" where
  "unforce_smbus ops phy_reg = do {
     ty \<leftarrow> gets (\<lambda>s. mac_type (hw_mac s));
     cwhen (ty \<ge> e1000_pch_lpt) (do {
       fwsm \<leftarrow> er32 E1000_FWSM;
       cwhen (fwsm AND E1000_ICH_FWSM_FW_VALID = 0) (do {
         r \<leftarrow> e1e_rphy_locked ops CV_SMB_CTRL phy_reg;
         e1e_wphy_locked ops CV_SMB_CTRL (snd r AND NOT CV_SMB_CTRL_FORCE_SMBUS);
         csr_modify E1000_CTRL_EXT (\<lambda>v. v AND NOT E1000_CTRL_EXT_FORCE_SMBUS) }) }) }"

text \<open>The identification: whether the id read is the known one, or a first one.\<close>

definition phy_id_known :: "u32 \<Rightarrow> u16 \<Rightarrow> bool hwM" where
  "phy_id_known phy_id' phy_reg = do {
     i \<leftarrow> gets (\<lambda>s. phy_id (hw_phy s));
     if i \<noteq> 0 then ret (i = phy_id')
     else if phy_id' \<noteq> 0 then do {
       set_phy (\<lambda>p. p\<lparr>phy_id := phy_id', phy_revision := ucast phy_reg AND NOT PHY_REVISION_MASK\<rparr>);
       ret True }
     else ret False }"

definition e1000_phy_is_accessible_pchlan :: "'p phy_all_operations_scheme \<Rightarrow> bool hwM" where
  "e1000_phy_is_accessible_pchlan ops = do {
     (ret_val, phy_id', phy_reg) \<leftarrow> phy_accessible_loop 2 ops 0 0 0;
     known \<leftarrow> phy_id_known phy_id' phy_reg;
     if known then do { unforce_smbus ops phy_reg; ret True }
     else do {
       ty \<leftarrow> gets (\<lambda>s. mac_type (hw_mac s));
       ret_val \<leftarrow> (if ty < e1000_pch_lpt then do {
           op_phy_release ops;
           ret_val \<leftarrow> ok_then (e1000_set_mdio_slow_mode_hv ops) (e1000e_get_phy_id ops);
           phy_acquire ops;
           ret ret_val }
         else ret ret_val);
       if ret_val \<noteq> 0 then ret False
       else do { unforce_smbus ops phy_reg; ret True } } }"

text \<open>\<open>do ... while (!(... LPCD) && count--)\<close>: one more read than the count.\<close>

primrec lpcd_loop :: "nat \<Rightarrow> unit hwM" where
  "lpcd_loop 0 = do { usleep_range 5000 10000; er32 E1000_CTRL_EXT; ret () }"
| "lpcd_loop (Suc count) = do {
     usleep_range 5000 10000;
     v \<leftarrow> er32 E1000_CTRL_EXT;
     cwhen (v AND E1000_CTRL_EXT_LPCD = 0) (lpcd_loop count) }"

definition e1000_toggle_lanphypc_pch_lpt :: "unit hwM" where
  "e1000_toggle_lanphypc_pch_lpt = do {
     csr_modify E1000_FEXTNVM3 (\<lambda>v. (v AND NOT E1000_FEXTNVM3_PHY_CFG_COUNTER_MASK)
       OR E1000_FEXTNVM3_PHY_CFG_COUNTER_50MSEC);
     mac_reg \<leftarrow> er32 E1000_CTRL;
     let mac_reg = (mac_reg OR E1000_CTRL_LANPHYPC_OVERRIDE) AND NOT E1000_CTRL_LANPHYPC_VALUE;
     ew32 E1000_CTRL mac_reg;
     e1e_flush;
     usleep_range 10 20;
     ew32 E1000_CTRL (mac_reg AND NOT E1000_CTRL_LANPHYPC_OVERRIDE);
     e1e_flush;
     ty \<leftarrow> gets (\<lambda>s. mac_type (hw_mac s));
     if ty < e1000_pch_lpt then msleep 50
     else do { lpcd_loop 20; msleep 30 } }"

subsection \<open>Ultra-low power\<close>

text \<open>The parts that have no such mode.\<close>

definition no_ulp :: "e1000_hw \<Rightarrow> bool" where
  "no_ulp s = (mac_type (hw_mac s) < e1000_pch_lpt \<or>
     hw_device s \<in> {E1000_DEV_ID_PCH_LPT_I217_LM, E1000_DEV_ID_PCH_LPT_I217_V,
       E1000_DEV_ID_PCH_I218_LM2, E1000_DEV_ID_PCH_I218_V2})"

text \<open>The end of both flows: the state is recorded when no error occurred.\<close>

definition ulp_out :: "e1000_ulp_state \<Rightarrow> s32 \<Rightarrow> s32 hwM" where
  "ulp_out st ret_val = do {
     cwhen (ret_val = 0) (set_ich8 (ich8_ulp_state_update (\<lambda>_. st)));
     ret ret_val }"

text \<open>The poll for a disconnected cable, \<open>n\<close> sleeps left: \<open>False\<close> when the link came back.\<close>

primrec ulp_cable_loop :: "nat \<Rightarrow> bool hwM" where
  "ulp_cable_loop 0 = do {
     fext \<leftarrow> er32 E1000_FEXT;
     if fext AND E1000_FEXT_PHY_CABLE_DISCONNECTED \<noteq> 0 then ret True
     else do { status \<leftarrow> er32 E1000_STATUS; ret (status AND E1000_STATUS_LU = 0) } }"
| "ulp_cable_loop (Suc n) = do {
     fext \<leftarrow> er32 E1000_FEXT;
     if fext AND E1000_FEXT_PHY_CABLE_DISCONNECTED \<noteq> 0 then ret True
     else do {
       status \<leftarrow> er32 E1000_STATUS;
       if status AND E1000_STATUS_LU \<noteq> 0 then ret False
       else do { msleep 50; ulp_cable_loop n } } }"

text \<open>The workaround of the sixth i217 revision; \<open>k\<close> gets the OEM bits before it.\<close>

definition i217_rev6 :: "bool hwM" where
  "i217_rev6 = gets (\<lambda>s. phy_type (hw_phy s) = e1000_phy_i217 \<and> phy_revision (hw_phy s) = 6)"

definition ulp_oem :: "'p phy_operations_scheme \<Rightarrow> (u16 \<Rightarrow> s32 hwM) \<Rightarrow> s32 hwM" where
  "ulp_oem ops k = do {
     rev6 \<leftarrow> i217_rev6;
     if rev6 then with_hv_locked ops HV_OEM_BITS (\<lambda>oem_reg.
       ok_then (e1000_write_phy_reg_hv_locked ops HV_OEM_BITS
         (oem_reg OR (HV_OEM_BITS_LPLU OR HV_OEM_BITS_GBE_DIS))) (k oem_reg))
     else k 0 }"

definition ulp_config1 :: "bool \<Rightarrow> u32 \<Rightarrow> u16 \<Rightarrow> u16" where
  "ulp_config1 to_sx wufc phy_reg =
     (let phy_reg = phy_reg OR (I218_ULP_CONFIG1_RESET_TO_SMBUS OR I218_ULP_CONFIG1_DISABLE_SMB_PERST)
      in if to_sx then
           ((if wufc AND E1000_WUFC_LNKC \<noteq> 0 then phy_reg OR I218_ULP_CONFIG1_WOL_HOST
             else phy_reg AND NOT I218_ULP_CONFIG1_WOL_HOST)
            OR I218_ULP_CONFIG1_STICKY_ULP) AND NOT I218_ULP_CONFIG1_INBAND_EXIT
         else ((phy_reg OR I218_ULP_CONFIG1_INBAND_EXIT) AND NOT I218_ULP_CONFIG1_STICKY_ULP)
           AND NOT I218_ULP_CONFIG1_WOL_HOST)"

definition ulp_enable_locked :: "'p phy_operations_scheme \<Rightarrow> bool \<Rightarrow> s32 hwM" where
  "ulp_enable_locked ops to_sx =
     with_hv_locked ops CV_SMB_CTRL (\<lambda>phy_reg. do {
     e1000_write_phy_reg_hv_locked ops CV_SMB_CTRL (phy_reg OR CV_SMB_CTRL_FORCE_SMBUS);
     csr_modify E1000_CTRL_EXT (\<lambda>v. v OR E1000_CTRL_EXT_FORCE_SMBUS);
     ulp_oem ops (\<lambda>oem_reg.
     with_hv_locked ops I218_ULP_CONFIG1 (\<lambda>phy_reg. do {
     wufc \<leftarrow> (if to_sx then er32 E1000_WUFC else ret 0);
     let phy_reg = ulp_config1 to_sx wufc phy_reg;
     e1000_write_phy_reg_hv_locked ops I218_ULP_CONFIG1 phy_reg;
     csr_modify E1000_FEXTNVM7 (\<lambda>v. v OR E1000_FEXTNVM7_DISABLE_SMB_PERST);
     e1000_write_phy_reg_hv_locked ops I218_ULP_CONFIG1 (phy_reg OR I218_ULP_CONFIG1_START);
     rev6 \<leftarrow> i217_rev6;
     if rev6 \<and> to_sx then do {
       status \<leftarrow> er32 E1000_STATUS;
       if status AND E1000_STATUS_LU \<noteq> 0
       then e1000_write_phy_reg_hv_locked ops HV_OEM_BITS oem_reg else ret 0 }
     else ret 0 })) })"

definition e1000_enable_ulp_lpt_lp :: "'p phy_operations_scheme \<Rightarrow> bool \<Rightarrow> s32 hwM" where
  "e1000_enable_ulp_lpt_lp ops to_sx = do {
     s \<leftarrow> gets id;
     if no_ulp s \<or> ich8_ulp_state (hw_ich8 s) = e1000_ulp_state_on then ret 0
     else do {
     fwsm \<leftarrow> er32 E1000_FWSM;
     if fwsm AND E1000_ICH_FWSM_FW_VALID \<noteq> 0 then do {
       csr_modify E1000_H2ME (\<lambda>v. v OR (E1000_H2ME_ULP OR E1000_H2ME_ENFORCE_SETTINGS));
       ulp_out e1000_ulp_state_on 0 }
     else do {
     down \<leftarrow> (if to_sx then ret True else ulp_cable_loop 100);
     if \<not> down then ret (- E1000_ERR_PHY)
     else do {
       ret_val \<leftarrow> phy_lock ops (ulp_enable_locked ops to_sx);
       ulp_out e1000_ulp_state_on ret_val } } } }"

text \<open>The poll for the firmware, \<open>n\<close> sleeps left: \<open>True\<close> when it finished in time.\<close>

primrec ulp_done_loop :: "nat \<Rightarrow> bool hwM" where
  "ulp_done_loop 0 = do {
     fwsm \<leftarrow> er32 E1000_FWSM;
     ret (fwsm AND E1000_FWSM_ULP_CFG_DONE = 0) }"
| "ulp_done_loop (Suc n) = do {
     fwsm \<leftarrow> er32 E1000_FWSM;
     if fwsm AND E1000_FWSM_ULP_CFG_DONE = 0 then ret True
     else do { usleep_range 10000 20000; ulp_done_loop n } }"

definition ulp_disable_me :: "bool \<Rightarrow> s32 hwM" where
  "ulp_disable_me force = do {
     cwhen force (csr_modify E1000_H2ME
       (\<lambda>v. (v AND NOT E1000_H2ME_ULP) OR E1000_H2ME_ENFORCE_SETTINGS));
     fin \<leftarrow> ulp_done_loop 30;
     if \<not> fin then ret (- E1000_ERR_PHY)
     else do {
       csr_modify E1000_H2ME (\<lambda>v. if force then v AND NOT E1000_H2ME_ENFORCE_SETTINGS
         else v AND NOT E1000_H2ME_ULP);
       ret 0 } }"

text \<open>The first read, with the second try in SMBus mode.\<close>

definition ulp_smb_ctrl :: "'p phy_operations_scheme \<Rightarrow> (s32 \<times> u16) hwM" where
  "ulp_smb_ctrl ops = do {
     r \<leftarrow> e1000_read_phy_reg_hv_locked ops CV_SMB_CTRL 0;
     if fst r \<noteq> 0 then do {
       csr_modify E1000_CTRL_EXT (\<lambda>v. v OR E1000_CTRL_EXT_FORCE_SMBUS);
       msleep 50;
       e1000_read_phy_reg_hv_locked ops CV_SMB_CTRL (snd r) }
     else ret r }"

definition ulp_disable_locked :: "'p phy_operations_scheme \<Rightarrow> bool \<Rightarrow> s32 hwM" where
  "ulp_disable_locked ops force = do {
     cwhen force e1000_toggle_lanphypc_pch_lpt;
     r \<leftarrow> ulp_smb_ctrl ops;
     if fst r \<noteq> 0 then ret (fst r)
     else do {
     e1000_write_phy_reg_hv_locked ops CV_SMB_CTRL (snd r AND NOT CV_SMB_CTRL_FORCE_SMBUS);
     csr_modify E1000_CTRL_EXT (\<lambda>v. v AND NOT E1000_CTRL_EXT_FORCE_SMBUS);
     with_hv_locked ops HV_PM_CTRL (\<lambda>phy_reg. do {
     e1000_write_phy_reg_hv_locked ops HV_PM_CTRL (phy_reg OR HV_PM_CTRL_K1_ENABLE);
     with_hv_locked ops I218_ULP_CONFIG1 (\<lambda>phy_reg. do {
     let phy_reg = phy_reg AND NOT (I218_ULP_CONFIG1_IND OR I218_ULP_CONFIG1_STICKY_ULP OR
       I218_ULP_CONFIG1_RESET_TO_SMBUS OR I218_ULP_CONFIG1_WOL_HOST OR
       I218_ULP_CONFIG1_INBAND_EXIT OR I218_ULP_CONFIG1_EN_ULP_LANPHYPC OR
       I218_ULP_CONFIG1_DIS_CLR_STICKY_ON_PERST OR I218_ULP_CONFIG1_DISABLE_SMB_PERST);
     e1000_write_phy_reg_hv_locked ops I218_ULP_CONFIG1 phy_reg;
     e1000_write_phy_reg_hv_locked ops I218_ULP_CONFIG1 (phy_reg OR I218_ULP_CONFIG1_START);
     csr_modify E1000_FEXTNVM7 (\<lambda>v. v AND NOT E1000_FEXTNVM7_DISABLE_SMB_PERST);
     ret 0 }) }) } }"

text \<open>A failed acquire skips the reset of the PHY; every other path of the software flow reaches it.\<close>

definition e1000_disable_ulp_lpt_lp :: "'p phy_link_operations_scheme \<Rightarrow> bool \<Rightarrow> s32 hwM" where
  "e1000_disable_ulp_lpt_lp ops force = do {
     s \<leftarrow> gets id;
     if no_ulp s \<or> ich8_ulp_state (hw_ich8 s) = e1000_ulp_state_off then ret 0
     else do {
     fwsm \<leftarrow> er32 E1000_FWSM;
     if fwsm AND E1000_ICH_FWSM_FW_VALID \<noteq> 0 then do {
       ret_val \<leftarrow> ulp_disable_me force;
       ulp_out e1000_ulp_state_off ret_val }
     else do {
     ret_val \<leftarrow> phy_acquire ops;
     if ret_val \<noteq> 0 then ulp_out e1000_ulp_state_off ret_val
     else do {
       ret_val \<leftarrow> ulp_disable_locked ops force;
       op_phy_release ops;
       cwhen force (do { op_phy_reset ops; msleep 50 });
       ulp_out e1000_ulp_state_off ret_val } } } }"

end
