(* ===== verification/PchLink.thy ===== *)
theory PchLink
  imports PchReset
begin

section \<open>Start, suspend and link of the PCH parts (ich8lan.c)\<close>

text \<open>
  The flows of \<open>src/IntelMausiEthernet/ich8lan.c\<close> that tie the PHY and the MAC together: the
  workarounds before the PHY is used, around suspend and resume, the latency tolerance the MAC
  reports to the platform, and the check for a link after an interrupt.
\<close>

subsection \<open>Workarounds before the PHY is used\<close>

text \<open>
  The \<open>switch\<close> of the source falls through from the newest parts to the oldest; each of the next
  three definitions is the code from one group of labels on.
\<close>

definition wa_pchlan :: "'p phy_all_operations_scheme \<Rightarrow> u32 \<Rightarrow> s32 hwM" where
  "wa_pchlan ops fwsm = do {
     ty \<leftarrow> gets (\<lambda>s. mac_type (hw_mac s));
     if ty = e1000_pchlan \<and> fwsm AND E1000_ICH_FWSM_FW_VALID \<noteq> 0 then ret 0
     else do {
     blocked \<leftarrow> check_reset_block ops;
     if blocked \<noteq> 0 then ret (- E1000_ERR_PHY)
     else do {
     e1000_toggle_lanphypc_pch_lpt;
     ty \<leftarrow> gets (\<lambda>s. mac_type (hw_mac s));
     if ty \<ge> e1000_pch_lpt then do {
       ok \<leftarrow> e1000_phy_is_accessible_pchlan ops;
       if ok then ret 0
       else do {
         csr_modify E1000_CTRL_EXT (\<lambda>v. v AND NOT E1000_CTRL_EXT_FORCE_SMBUS);
         ok \<leftarrow> e1000_phy_is_accessible_pchlan ops;
         ret (if ok then 0 else - E1000_ERR_PHY) } }
     else ret 0 } } }"

definition wa_pch2lan :: "'p phy_all_operations_scheme \<Rightarrow> u32 \<Rightarrow> s32 hwM" where
  "wa_pch2lan ops fwsm = do {
     ok \<leftarrow> e1000_phy_is_accessible_pchlan ops;
     if ok then ret 0 else wa_pchlan ops fwsm }"

definition wa_pch_lpt :: "'p phy_all_operations_scheme \<Rightarrow> u32 \<Rightarrow> s32 hwM" where
  "wa_pch_lpt ops fwsm = do {
     ok \<leftarrow> e1000_phy_is_accessible_pchlan ops;
     if ok then ret 0
     else do {
       csr_modify E1000_CTRL_EXT (\<lambda>v. v OR E1000_CTRL_EXT_FORCE_SMBUS);
       msleep 50;
       wa_pch2lan ops fwsm } }"

definition wa_switch :: "'p phy_all_operations_scheme \<Rightarrow> u32 \<Rightarrow> s32 hwM" where
  "wa_switch ops fwsm = do {
     ty \<leftarrow> gets (\<lambda>s. mac_type (hw_mac s));
     if ty \<in> {e1000_pch_lpt, e1000_pch_spt, e1000_pch_cnp, e1000_pch_tgp, e1000_pch_adp}
     then wa_pch_lpt ops fwsm
     else if ty = e1000_pch2lan then wa_pch2lan ops fwsm
     else if ty = e1000_pchlan then wa_pchlan ops fwsm
     else ret 0 }"

definition wa_reset :: "'p phy_link_operations_scheme \<Rightarrow> s32 hwM" where
  "wa_reset ops = do {
     blocked \<leftarrow> check_reset_block ops;
     if blocked \<noteq> 0 then ret 0
     else ok_then (e1000e_phy_hw_reset_generic ops) (check_reset_block ops) }"

definition e1000_init_phy_workarounds_pchlan :: "'p phy_all_operations_scheme \<Rightarrow> s32 hwM" where
  "e1000_init_phy_workarounds_pchlan ops = do {
     fwsm \<leftarrow> er32 E1000_FWSM;
     e1000_gate_hw_phy_config_ich8lan True;
     set_ich8 (ich8_ulp_state_update (\<lambda>_. e1000_ulp_state_unknown));
     e1000_disable_ulp_lpt_lp ops True;
     ret_val \<leftarrow> ok_then (phy_lock ops (wa_switch ops fwsm)) (wa_reset ops);
     ty \<leftarrow> gets (\<lambda>s. mac_type (hw_mac s));
     cwhen (ty = e1000_pch2lan \<and> fwsm AND E1000_ICH_FWSM_FW_VALID = 0) (do {
       usleep_range 10000 20000;
       e1000_gate_hw_phy_config_ich8lan False });
     ret ret_val }"

subsection \<open>Suspend and resume\<close>

text \<open>
  A PHY register read, changed and written back under the lock, with both results ignored; the
  local that holds it is the argument and the result.
\<close>

definition phy_modify_locked ::
  "'p phy_all_operations_scheme \<Rightarrow> u32 \<Rightarrow> (u16 \<Rightarrow> u16) \<Rightarrow> u16 \<Rightarrow> u16 hwM" where
  "phy_modify_locked ops reg f phy_reg = do {
     r \<leftarrow> e1e_rphy_locked ops reg phy_reg;
     e1e_wphy_locked ops reg (f (snd r));
     ret (f (snd r)) }"

definition device_id_i218_lp :: "u16 \<Rightarrow> bool" where
  "device_id_i218_lp device_id = (device_id \<in> {E1000_DEV_ID_PCH_LPTLP_I218_LM,
     E1000_DEV_ID_PCH_LPTLP_I218_V, E1000_DEV_ID_PCH_I218_LM3, E1000_DEV_ID_PCH_I218_V3})"

text \<open>
  The energy-efficient Ethernet step: \<open>phy_ctrl\<close> and \<open>phy_reg\<close> of the source are the result.
  \<open>Inl\<close> is the jump to the release.
\<close>

definition suspend_eee ::
  "'p phy_all_operations_scheme \<Rightarrow> u32 \<Rightarrow> u16 \<Rightarrow> (u32 + u32 \<times> u16) hwM" where
  "suspend_eee ops phy_ctrl phy_reg = do {
     s \<leftarrow> gets id;
     if ich8_eee_disable (hw_ich8 s) then ret (Inr (phy_ctrl, phy_reg))
     else do {
     r \<leftarrow> e1000_read_emi_reg_locked ops I217_EEE_ADVERTISEMENT 0;
     if fst r \<noteq> 0 then ret (Inl phy_ctrl)
     else do {
     s \<leftarrow> gets id;
     if snd r AND I82579_EEE_100_SUPPORTED \<noteq> 0 \<and>
        ich8_eee_lp_ability (hw_ich8 s) AND I82579_EEE_100_SUPPORTED \<noteq> 0 \<and>
        phy_autoneg_advertised (hw_phy s) AND ADVERTISE_100_FULL \<noteq> 0
     then do {
       phy_reg \<leftarrow> phy_modify_locked ops I217_LPI_GPIO_CTRL
         (\<lambda>v. v OR I217_LPI_GPIO_CTRL_AUTO_EN_LPI) phy_reg;
       ret (Inr (phy_ctrl AND NOT (E1000_PHY_CTRL_D0A_LPLU OR E1000_PHY_CTRL_NOND0A_LPLU), phy_reg)) }
     else ret (Inr (phy_ctrl, phy_reg)) } } }"

text \<open>What an i217 does under the lock; the result is the value for \<open>PHY_CTRL\<close>.\<close>

definition suspend_i217_locked :: "'p phy_all_operations_scheme \<Rightarrow> u32 \<Rightarrow> u16 \<Rightarrow> u32 hwM" where
  "suspend_i217_locked ops phy_ctrl phy_reg = do {
     r \<leftarrow> suspend_eee ops phy_ctrl phy_reg;
     case r of
         Inl phy_ctrl \<Rightarrow> ret phy_ctrl
       | Inr (phy_ctrl, phy_reg) \<Rightarrow> do {
           fwsm \<leftarrow> er32 E1000_FWSM;
           phy_reg \<leftarrow> (if fwsm AND E1000_ICH_FWSM_FW_VALID = 0 then do {
               phy_reg \<leftarrow> phy_modify_locked ops I217_PROXY_CTRL
                 (\<lambda>v. v OR I217_PROXY_CTRL_AUTO_DISABLE) phy_reg;
               phy_reg \<leftarrow> phy_modify_locked ops I217_SxCTRL
                 (\<lambda>v. v OR I217_SxCTRL_ENABLE_LPI_RESET) phy_reg;
               phy_modify_locked ops I217_MEMPWR
                 (\<lambda>v. v AND NOT I217_MEMPWR_DISABLE_SMB_RELEASE) phy_reg }
             else ret phy_reg);
           phy_modify_locked ops I217_CGFREG (\<lambda>v. v OR I217_CGFREG_ENABLE_MTA_RESET) phy_reg;
           ret phy_ctrl } }"

definition suspend_i217 :: "'p phy_all_operations_scheme \<Rightarrow> u32 \<Rightarrow> u16 \<Rightarrow> u32 hwM" where
  "suspend_i217 ops phy_ctrl garbage = do {
     s \<leftarrow> gets id;
     cwhen (device_id_i218_lp (hw_device s) \<or> mac_type (hw_mac s) \<ge> e1000_pch_spt)
       (csr_modify E1000_FEXTNVM6 (\<lambda>v. v AND NOT E1000_FEXTNVM6_REQ_PLL_CLK));
     ret_val \<leftarrow> phy_acquire ops;
     if ret_val \<noteq> 0 then ret phy_ctrl
     else do {
       phy_ctrl \<leftarrow> suspend_i217_locked ops phy_ctrl garbage;
       op_phy_release ops;
       ret phy_ctrl } }"

definition e1000_suspend_workarounds_ich8lan :: "'p phy_all_operations_scheme \<Rightarrow> u16 \<Rightarrow> unit hwM" where
  "e1000_suspend_workarounds_ich8lan ops garbage = do {
     v \<leftarrow> er32 E1000_PHY_CTRL;
     let phy_ctrl = v OR E1000_PHY_CTRL_GBE_DISABLE;
     pty \<leftarrow> gets (\<lambda>s. phy_type (hw_phy s));
     phy_ctrl \<leftarrow> (if pty = e1000_phy_i217 then suspend_i217 ops phy_ctrl garbage else ret phy_ctrl);
     ew32 E1000_PHY_CTRL phy_ctrl;
     ty \<leftarrow> gets (\<lambda>s. mac_type (hw_mac s));
     cwhen (ty = e1000_ich8lan) (e1000e_gig_downshift_workaround_ich8lan ops);
     cwhen (ty \<ge> e1000_pchlan) (do {
       e1000_oem_bits_config_ich8lan ops False;
       cwhen (ty = e1000_pchlan) (do { e1000e_phy_hw_reset_generic ops; ret () });
       phy_lock ops (e1000_write_smbus_addr ops);
       ret () }) }"

definition resume_i217_locked :: "'p phy_all_operations_scheme \<Rightarrow> u16 \<Rightarrow> s32 hwM" where
  "resume_i217_locked ops garbage = do {
     phy_modify_locked ops I217_LPI_GPIO_CTRL (\<lambda>v. v AND NOT I217_LPI_GPIO_CTRL_AUTO_EN_LPI) garbage;
     fwsm \<leftarrow> er32 E1000_FWSM;
     ok_then (if fwsm AND E1000_ICH_FWSM_FW_VALID = 0
       then with_phy_locked ops I217_MEMPWR (\<lambda>phy_reg. do {
         e1e_wphy_locked ops I217_MEMPWR (phy_reg OR I217_MEMPWR_DISABLE_SMB_RELEASE);
         e1e_wphy_locked ops I217_PROXY_CTRL 0;
         ret 0 })
       else ret 0) (
     with_phy_locked ops I217_CGFREG (\<lambda>phy_reg. do {
       e1e_wphy_locked ops I217_CGFREG (phy_reg AND NOT I217_CGFREG_ENABLE_MTA_RESET);
       ret 0 })) }"

definition e1000_resume_workarounds_pchlan :: "'p phy_all_operations_scheme \<Rightarrow> u16 \<Rightarrow> unit hwM" where
  "e1000_resume_workarounds_pchlan ops garbage = do {
     ty \<leftarrow> gets (\<lambda>s. mac_type (hw_mac s));
     cwhen (ty \<ge> e1000_pch2lan) (do {
       ret_val \<leftarrow> e1000_init_phy_workarounds_pchlan ops;
       pty \<leftarrow> gets (\<lambda>s. phy_type (hw_phy s));
       cwhen (ret_val = 0 \<and> pty = e1000_phy_i217) (do {
         phy_lock ops (resume_i217_locked ops garbage);
         ret () }) }) }"

subsection \<open>Latency tolerance\<close>

text \<open>\<open>while (value > PCI_LTR_VALUE_MASK) { scale++; value = DIV_ROUND_UP(value, BIT(5)); }\<close>\<close>

function ltr_scale :: "u64 \<Rightarrow> u16 \<Rightarrow> u64 \<times> u16" where
  "ltr_scale v scale =
     (if v > PCI_LTR_VALUE_MASK then ltr_scale ((v + 32 - 1) div 32) (scale + 1) else (v, scale))"
  by auto
termination
proof (relation "measure (\<lambda>(v, scale). unat v)")
  fix v :: u64 and scale :: u16
  assume "v > PCI_LTR_VALUE_MASK"
  then have "1023 < unat v" by (simp add: word_less_nat_alt)
  moreover have "unat ((v + 32 - 1) div 32) \<le> (unat v + 31) div 32"
  proof -
    have le: "unat (v + 31) \<le> unat v + 31" by (simp add: unat_word_ariths(1))
    have eq: "v + 32 - 1 = v + 31" by simp
    have "unat ((v + 32 - 1) div 32) = unat (v + 31) div unat (32::u64)"
      unfolding eq by (rule unat_div)
    also have "\<dots> = unat (v + 31) div 32" by simp
    also have "\<dots> \<le> (unat v + 31) div 32" using le by (rule div_le_mono)
    finally show ?thesis .
  qed
  ultimately show "(((v + 32 - 1) div 32, scale + 1), v, scale) \<in> measure (\<lambda>(v, scale). unat v)"
    by simp
qed simp

declare ltr_scale.simps [simp del]

text \<open>The latency in nanoseconds: the product is computed in 32 bits before it is widened.\<close>

definition ltr_value :: "u32 \<Rightarrow> u32 \<Rightarrow> u16 \<Rightarrow> u64" where
  "ltr_value rxa max_frame_size speed =
     (if rxa > max_frame_size
      then ucast ((rxa - max_frame_size) * word_of_nat (16000 div unat speed)) else 0)"

definition ltr_encode :: "u64 \<Rightarrow> u16 option" where
  "ltr_encode v = (case ltr_scale v 0 of (v, scale) \<Rightarrow>
     if scale > E1000_LTRV_SCALE_MAX then None
     else Some (ucast (push_bit PCI_LTR_SCALE_SHIFT (ucast scale) OR v)))"

definition ltr_reg :: "bool \<Rightarrow> u16 \<Rightarrow> u32" where
  "ltr_reg link lat_enc =
     (let l = (if link then 1 else 0)
      in (push_bit (E1000_LTRV_REQ_SHIFT + E1000_LTRV_NOSNOOP_SHIFT) l
          OR push_bit E1000_LTRV_REQ_SHIFT l OR E1000_LTRV_SEND)
         OR (ucast lat_enc OR push_bit E1000_LTRV_NOSNOOP_SHIFT (ucast lat_enc)))"

text \<open>The latency for a link that is up; \<open>Inl\<close> is an error.\<close>

definition ltr_latency :: "'m mac_operations_scheme \<Rightarrow> (s32 + u16) hwM" where
  "ltr_latency mops = do {
     max_frame_size \<leftarrow> gets hw_max_frame_size;
     if max_frame_size = 0 then ret (Inl (- E1000_ERR_CONFIG))
     else do {
     r \<leftarrow> op_get_link_up_info mops;
     let speed = fst (snd r);
     if speed = 0 then ret (Inl (- E1000_ERR_CONFIG))
     else do {
     pba \<leftarrow> er32 E1000_PBA;
     s \<leftarrow> gets id;
     let rxa = (pba AND E1000_PBA_RXA_MASK) * 512;
     case ltr_encode (ltr_value rxa (hw_max_frame_size s) speed) of
         None \<Rightarrow> ret (Inl (- E1000_ERR_CONFIG))
       | Some lat_enc \<Rightarrow> do {
           let max_ltr_enc = max (hw_max_snoop s) (hw_max_nosnoop s);
           ret (Inr (if lat_enc > max_ltr_enc then max_ltr_enc else lat_enc)) } } } }"

definition e1000_platform_pm_pch_lpt :: "'m mac_operations_scheme \<Rightarrow> bool \<Rightarrow> s32 hwM" where
  "e1000_platform_pm_pch_lpt mops link = do {
     r \<leftarrow> (if link then ltr_latency mops else ret (Inr 0));
     case r of
         Inl e \<Rightarrow> ret e
       | Inr lat_enc \<Rightarrow> do { ew32 E1000_LTRV (ltr_reg link lat_enc); ret 0 } }"

subsection \<open>Link speed\<close>

text \<open>
  The loop of the Kumeran lock-loss workaround, \<open>n\<close> tries left: \<open>Some\<close> is an early return. The
  reset of the PHY is called through the table and its result ignored.
\<close>

primrec kmrn_lock_loop :: "nat \<Rightarrow> 'p phy_link_operations_scheme \<Rightarrow> s32 option hwM" where
  "kmrn_lock_loop 0 ops = ret None"
| "kmrn_lock_loop (Suc n) ops = do {
     r \<leftarrow> e1e_rphy ops IGP3_KMRN_DIAG 0;
     if fst r \<noteq> 0 then ret (Some (fst r))
     else do {
       r \<leftarrow> e1e_rphy ops IGP3_KMRN_DIAG (snd r);
       if fst r \<noteq> 0 then ret (Some (fst r))
       else if snd r AND IGP3_KMRN_DIAG_PCS_LOCK_LOSS = 0 then ret (Some 0)
       else do {
         op_phy_reset ops;
         mdelay 5;
         kmrn_lock_loop n ops } } }"

definition e1000_kmrn_lock_loss_workaround_ich8lan :: "'p phy_link_operations_scheme \<Rightarrow> s32 hwM" where
  "e1000_kmrn_lock_loss_workaround_ich8lan ops = do {
     enabled \<leftarrow> gets (\<lambda>s. ich8_kmrn_lock_loss_workaround_enabled (hw_ich8 s));
     if \<not> enabled then ret 0
     else do {
     r \<leftarrow> e1000e_phy_has_link_generic ops 1 0;
     if \<not> snd r then ret 0
     else do {
     r \<leftarrow> kmrn_lock_loop 10 ops;
     case r of
         Some ret_val \<Rightarrow> ret ret_val
       | None \<Rightarrow> do {
           csr_modify E1000_PHY_CTRL
             (\<lambda>v. v OR (E1000_PHY_CTRL_GBE_DISABLE OR E1000_PHY_CTRL_NOND0A_GBE_DISABLE));
           e1000e_gig_downshift_workaround_ich8lan ops;
           ret (- E1000_ERR_PHY) } } } }"

definition e1000e_set_kmrn_lock_loss_workaround_ich8lan :: "bool \<Rightarrow> unit hwM" where
  "e1000e_set_kmrn_lock_loss_workaround_ich8lan state' = do {
     ty \<leftarrow> gets (\<lambda>s. mac_type (hw_mac s));
     cwhen (ty = e1000_ich8lan)
       (set_ich8 (ich8_kmrn_lock_loss_workaround_enabled_update (\<lambda>_. state'))) }"

definition e1000_get_link_up_info_ich8lan ::
  "'p phy_link_operations_scheme \<Rightarrow> (s32 \<times> u16 \<times> u16) hwM" where
  "e1000_get_link_up_info_ich8lan ops = do {
     r \<leftarrow> e1000e_get_speed_and_duplex_copper;
     if fst r \<noteq> 0 then ret r
     else do {
       s \<leftarrow> gets id;
       if mac_type (hw_mac s) = e1000_ich8lan \<and> phy_type (hw_phy s) = e1000_phy_igp_3 \<and>
          fst (snd r) = SPEED_1000
       then do {
         ret_val \<leftarrow> e1000_kmrn_lock_loss_workaround_ich8lan ops;
         ret (ret_val, snd r) }
       else ret r } }"

subsection \<open>The check for a link\<close>

text \<open>The inter-packet gap and the value for the receive latency of the PHY.\<close>

definition tipg_values :: "e1000_mac_type \<Rightarrow> u16 \<Rightarrow> u16 \<Rightarrow> u32 \<Rightarrow> u32 \<times> u16" where
  "tipg_values ty speed duplex tipg_reg =
     (let tipg_reg = tipg_reg AND NOT E1000_TIPG_IPGT_MASK
      in if duplex = HALF_DUPLEX \<and> speed = SPEED_10 then (tipg_reg OR 0xFF, 0)
         else if ty \<ge> e1000_pch_spt \<and> duplex = FULL_DUPLEX \<and> speed \<noteq> SPEED_1000
         then (tipg_reg OR 0xC, 1)
         else (tipg_reg OR 0x08, 1))"

text \<open>The clock gate of the newer parts: neither result is looked at.\<close>

definition pll_clock_gate :: "'p phy_all_operations_scheme \<Rightarrow> u16 \<Rightarrow> u16 \<Rightarrow> unit hwM" where
  "pll_clock_gate ops speed garbage = do {
     ty \<leftarrow> gets (\<lambda>s. mac_type (hw_mac s));
     cwhen (ty \<ge> e1000_pch_lpt) (do {
       phy_modify_locked ops I217_PLL_CLOCK_GATE_REG (\<lambda>v. (v AND NOT I217_PLL_CLOCK_GATE_MASK)
         OR (if speed = SPEED_100 \<or> speed = SPEED_10 then 0x3E8 else 0xFA)) garbage;
       ret () }) }"

text \<open>The pointer gap of the newest parts.\<close>

definition ptr_gap_locked :: "'p phy_all_operations_scheme \<Rightarrow> u16 \<Rightarrow> s32 hwM" where
  "ptr_gap_locked ops speed =
     (if speed = SPEED_1000 then
        with_phy_locked ops (PHY_REG 776 20) (\<lambda>data.
          if drop_bit 2 (data AND 0xFFC) < 0x18
          then e1e_wphy_locked ops (PHY_REG 776 20) ((data AND NOT 0xFFC) OR 0x60)
          else ret 0)
      else e1e_wphy_locked ops (PHY_REG 776 20) 0xC023)"

definition check_link_up_config :: "'p phy_all_operations_scheme \<Rightarrow> u16 \<Rightarrow> s32 hwM" where
  "check_link_up_config ops garbage = do {
     r \<leftarrow> e1000e_get_speed_and_duplex_copper;
     let (speed, duplex) = snd r;
     tipg_reg \<leftarrow> er32 E1000_TIPG;
     ty \<leftarrow> gets (\<lambda>s. mac_type (hw_mac s));
     let (tipg_reg, emi_val) = tipg_values ty speed duplex tipg_reg;
     ew32 E1000_TIPG tipg_reg;
     ok_then (phy_lock ops (do {
         ret_val \<leftarrow> e1000_write_emi_reg_locked ops
           (if ty = e1000_pch2lan then I82579_RX_CONFIG else I217_RX_CONFIG) emi_val;
         pll_clock_gate ops speed garbage;
         ret ret_val })) (do {
     ty \<leftarrow> gets (\<lambda>s. mac_type (hw_mac s));
     if ty \<ge> e1000_pch_spt then phy_lock ops (ptr_gap_locked ops speed) else ret 0 }) }"

text \<open>The K1-off setting, written back on every newer part and changed on SPT only.\<close>

definition k1_off_config :: "unit hwM" where
  "k1_off_config = do {
     ty \<leftarrow> gets (\<lambda>s. mac_type (hw_mac s));
     cwhen (ty \<ge> e1000_pch_lpt) (do {
       fextnvm6 \<leftarrow> er32 E1000_FEXTNVM6;
       fextnvm6 \<leftarrow> (if ty = e1000_pch_spt then do {
           pcieanacfg \<leftarrow> er32 E1000_PCIEANACFG;
           ret (if pcieanacfg AND E1000_FEXTNVM6_K1_OFF_ENABLE \<noteq> 0
             then fextnvm6 OR E1000_FEXTNVM6_K1_OFF_ENABLE
             else fextnvm6 AND NOT E1000_FEXTNVM6_K1_OFF_ENABLE) }
         else ret fextnvm6);
       ew32 E1000_FEXTNVM6 fextnvm6 }) }"

text \<open>The register settings of a link that is up or down; \<open>g\<close> gives the unset locals.\<close>

definition check_link_config ::
  "'m mac_operations_scheme \<Rightarrow> 'p phy_all_operations_scheme \<Rightarrow> bool \<Rightarrow> (nat \<Rightarrow> u16) \<Rightarrow> s32 hwM" where
  "check_link_config mops ops link g = do {
     ty \<leftarrow> gets (\<lambda>s. mac_type (hw_mac s));
     ok_then (if ty = e1000_pchlan then e1000_k1_gig_workaround_hv ops link else ret 0) (
     ok_then (if ty \<ge> e1000_pch2lan \<and> link then check_link_up_config ops (g 0) else ret 0) (do {
     cwhen (ty \<ge> e1000_pch_lpt) (csr_modify E1000_FEXTNVM4
       (\<lambda>v. (v AND NOT E1000_FEXTNVM4_BEACON_DURATION_MASK) OR E1000_FEXTNVM4_BEACON_DURATION_8USEC));
     device \<leftarrow> gets hw_device;
     ok_then (if device_id_i218_lp device then e1000_k1_workaround_lpt_lp ops link else ret 0) (
     ok_then (if ty \<ge> e1000_pch_lpt then e1000_platform_pm_pch_lpt mops link else ret 0) (do {
     set_ich8 (ich8_eee_lp_ability_update (\<lambda>_. 0));
     k1_off_config;
     ret 0 })) })) }"

text \<open>The workarounds of the first two PCH parts once the link is up.\<close>

definition check_link_preamble :: "'p phy_operations_scheme \<Rightarrow> (nat \<Rightarrow> u16) \<Rightarrow> s32 hwM" where
  "check_link_preamble ops g = do {
     pty \<leftarrow> gets (\<lambda>s. phy_type (hw_phy s));
     ok_then (if pty = e1000_phy_82578 then e1000_link_stall_workaround_hv ops (g 1) else ret 0) (do {
     r \<leftarrow> e1e_rphy ops HV_KMRN_FIFO_CTRLSTA (g 2);
     let phy_reg = snd r AND NOT HV_KMRN_FIFO_CTRLSTA_PREAMBLE_MASK;
     status \<leftarrow> er32 E1000_STATUS;
     e1e_wphy ops HV_KMRN_FIFO_CTRLSTA
       (if status AND E1000_STATUS_FD \<noteq> E1000_STATUS_FD
        then phy_reg OR push_bit HV_KMRN_FIFO_CTRLSTA_PREAMBLE_SHIFT 1 else phy_reg);
     ret 0 }) }"

definition check_link_workarounds :: "'p phy_operations_scheme \<Rightarrow> (nat \<Rightarrow> u16) \<Rightarrow> s32 hwM" where
  "check_link_workarounds ops g = do {
     ty \<leftarrow> gets (\<lambda>s. mac_type (hw_mac s));
     if ty = e1000_pch2lan then ok_then (e1000_k1_workaround_lv ops) (check_link_preamble ops g)
     else if ty = e1000_pchlan then check_link_preamble ops g
     else ret 0 }"

text \<open>The result is 0 for no link, 1 for a link, and negative for an error.\<close>

definition e1000_check_for_copper_link_ich8lan ::
  "'m mac_operations_scheme \<Rightarrow> 'p phy_all_operations_scheme \<Rightarrow> (nat \<Rightarrow> u16) \<Rightarrow> s32 hwM" where
  "e1000_check_for_copper_link_ich8lan mops ops g = do {
     get_link_status \<leftarrow> gets (\<lambda>s. mac_get_link_status (hw_mac s));
     if \<not> get_link_status then ret 1
     else do {
     r \<leftarrow> e1000e_phy_has_link_generic ops 1 0;
     if fst r \<noteq> 0 then ret (fst r)
     else ok_then (check_link_config mops ops (snd r) g) (
     if \<not> snd r then ret 0
     else do {
     set_mac (mac_get_link_status_update (\<lambda>_. False));
     ok_then (check_link_workarounds ops g) (do {
     e1000e_check_downshift ops;
     pty \<leftarrow> gets (\<lambda>s. phy_type (hw_phy s));
     ok_then (if pty > e1000_phy_82579 then e1000_set_eee_pchlan ops (g 3) else ret 0) (do {
     autoneg \<leftarrow> gets (\<lambda>s. mac_autoneg (hw_mac s));
     if \<not> autoneg then ret (- E1000_ERR_CONFIG)
     else do {
       op_config_collision_dist mops;
       ok_then (e1000e_config_fc_after_link_up mops ops) (ret 1) } }) }) }) } }"

end
