(* ===== verification/Ich8Mac.thy ===== *)
theory Ich8Mac
  imports PchLink
begin

section \<open>The MAC of the ICH and PCH parts (ich8lan.c)\<close>

text \<open>
  What is left of \<open>src/IntelMausiEthernet/ich8lan.c\<close>: reset and initialisation of the MAC, link
  setup, LEDs, the statistics, powering the PHY down, the tables of operations each part gets,
  and the initialisation that chooses them.
\<close>

subsection \<open>LEDs\<close>

definition led_write_ich8lan :: "'p phy_operations_scheme \<Rightarrow> u16 \<Rightarrow> (e1000_mac_info \<Rightarrow> u32) \<Rightarrow> s32 hwM" where
  "led_write_ich8lan ops ife_value field = do {
     s \<leftarrow> gets id;
     if phy_type (hw_phy s) = e1000_phy_ife then e1e_wphy ops IFE_PHY_SPECIAL_CONTROL_LED ife_value
     else do { ew32 E1000_LEDCTL (field (hw_mac s)); ret 0 } }"

definition e1000_cleanup_led_ich8lan :: "'p phy_operations_scheme \<Rightarrow> s32 hwM" where
  "e1000_cleanup_led_ich8lan ops = led_write_ich8lan ops 0 mac_ledctl_default"

definition e1000_led_on_ich8lan :: "'p phy_operations_scheme \<Rightarrow> s32 hwM" where
  "e1000_led_on_ich8lan ops =
     led_write_ich8lan ops (IFE_PSCL_PROBE_MODE OR IFE_PSCL_PROBE_LEDS_ON) mac_ledctl_mode2"

definition e1000_led_off_ich8lan :: "'p phy_operations_scheme \<Rightarrow> s32 hwM" where
  "e1000_led_off_ich8lan ops =
     led_write_ich8lan ops (IFE_PSCL_PROBE_MODE OR IFE_PSCL_PROBE_LEDS_OFF) mac_ledctl_mode1"

definition e1000_setup_led_pchlan :: "'p phy_operations_scheme \<Rightarrow> s32 hwM" where
  "e1000_setup_led_pchlan ops = do {
     v \<leftarrow> gets (\<lambda>s. mac_ledctl_mode1 (hw_mac s));
     e1e_wphy ops HV_LED_CONFIG (ucast v) }"

definition e1000_cleanup_led_pchlan :: "'p phy_operations_scheme \<Rightarrow> s32 hwM" where
  "e1000_cleanup_led_pchlan ops = do {
     v \<leftarrow> gets (\<lambda>s. mac_ledctl_default (hw_mac s));
     e1e_wphy ops HV_LED_CONFIG (ucast v) }"

text \<open>The step for LED \<open>i\<close> without a link: the invert bit of a link-up LED is flipped.\<close>

definition led_invert_step :: "nat \<Rightarrow> u16 \<Rightarrow> u16" where
  "led_invert_step i data =
     (let led = (ucast (drop_bit (i * 5) data) :: u32) AND E1000_PHY_LED0_MASK
      in if led AND E1000_PHY_LED0_MODE_MASK \<noteq> E1000_LEDCTL_MODE_LINK_UP then data
         else if led AND E1000_PHY_LED0_IVRT \<noteq> 0
         then data AND NOT (push_bit (i * 5) E1000_PHY_LED0_IVRT)
         else data OR push_bit (i * 5) E1000_PHY_LED0_IVRT)"

definition led_switch_pchlan :: "'p phy_operations_scheme \<Rightarrow> (e1000_mac_info \<Rightarrow> u32) \<Rightarrow> s32 hwM" where
  "led_switch_pchlan ops field = do {
     v \<leftarrow> gets (\<lambda>s. field (hw_mac s));
     let data = (ucast v :: u16);
     status \<leftarrow> er32 E1000_STATUS;
     e1e_wphy ops HV_LED_CONFIG
       (if status AND E1000_STATUS_LU = 0 then fold led_invert_step [0..<3] data else data) }"

definition e1000_led_on_pchlan :: "'p phy_operations_scheme \<Rightarrow> s32 hwM" where
  "e1000_led_on_pchlan ops = led_switch_pchlan ops mac_ledctl_mode2"

definition e1000_led_off_pchlan :: "'p phy_operations_scheme \<Rightarrow> s32 hwM" where
  "e1000_led_off_pchlan ops = led_switch_pchlan ops mac_ledctl_mode1"

subsection \<open>The bus\<close>

text \<open>What the build compiles of \<open>e1000e_get_bus_info_pcie\<close> is one return.\<close>

definition e1000e_get_bus_info_pcie :: "s32 hwM" where
  "e1000e_get_bus_info_pcie = ret 0"

definition e1000_get_bus_info_ich8lan :: "s32 hwM" where
  "e1000_get_bus_info_ich8lan = do {
     ret_val \<leftarrow> e1000e_get_bus_info_pcie;
     width \<leftarrow> gets hw_bus_width;
     cwhen (width = e1000_bus_width_unknown) (modify (hw_bus_width_update (\<lambda>_. e1000_bus_width_pcie_x1)));
     ret ret_val }"

subsection \<open>Power and statistics\<close>

definition e1000_power_down_phy_copper_ich8lan ::
  "'m mac_operations_scheme \<Rightarrow> 'p phy_link_operations_scheme \<Rightarrow> unit hwM" where
  "e1000_power_down_phy_copper_ich8lan mops ops = do {
     mng \<leftarrow> op_check_mng_mode mops;
     blocked \<leftarrow> (if mng then ret 1 else check_reset_block ops);
     cwhen (blocked = 0) (e1000_power_down_phy_copper ops) }"

text \<open>The loop runs at most twice: \<open>retry\<close> is set after the first try.\<close>

primrec igp3_powerdown_loop :: "nat \<Rightarrow> 'p phy_operations_scheme \<Rightarrow> u16 \<Rightarrow> unit hwM" where
  "igp3_powerdown_loop 0 ops data = ret ()"
| "igp3_powerdown_loop (Suc n) ops data = do {
     csr_modify E1000_PHY_CTRL
       (\<lambda>v. v OR (E1000_PHY_CTRL_GBE_DISABLE OR E1000_PHY_CTRL_NOND0A_GBE_DISABLE));
     ty \<leftarrow> gets (\<lambda>s. mac_type (hw_mac s));
     cwhen (ty = e1000_ich8lan) (e1000e_gig_downshift_workaround_ich8lan ops);
     r \<leftarrow> e1e_rphy ops IGP3_VR_CTRL data;
     let data = snd r AND NOT IGP3_VR_CTRL_DEV_POWERDOWN_MODE_MASK;
     e1e_wphy ops IGP3_VR_CTRL (data OR IGP3_VR_CTRL_MODE_SHUTDOWN);
     r \<leftarrow> e1e_rphy ops IGP3_VR_CTRL data;
     let data = snd r AND IGP3_VR_CTRL_DEV_POWERDOWN_MODE_MASK;
     if data = IGP3_VR_CTRL_MODE_SHUTDOWN \<or> n = 0 then ret ()
     else do {
       csr_modify E1000_CTRL (\<lambda>v. v OR E1000_CTRL_PHY_RST);
       igp3_powerdown_loop n ops data } }"

definition e1000e_igp3_phy_powerdown_workaround_ich8lan :: "'p phy_operations_scheme \<Rightarrow> u16 \<Rightarrow> unit hwM" where
  "e1000e_igp3_phy_powerdown_workaround_ich8lan ops garbage = do {
     ty \<leftarrow> gets (\<lambda>s. phy_type (hw_phy s));
     cwhen (ty = e1000_phy_igp_3) (igp3_powerdown_loop 2 ops garbage) }"

record phy_page_operations = phy_all_operations +
  op_phy_set_page :: "u16 \<Rightarrow> s32 hwM"
  op_phy_read_reg_page :: "u32 \<Rightarrow> u16 \<Rightarrow> (s32 \<times> u16) hwM"

definition cntrs_ich8lan :: "u32 list" where
  "cntrs_ich8lan = [E1000_ALGNERRC, E1000_RXERRC, E1000_TNCRS, E1000_CEXTERR, E1000_TSCTC,
     E1000_TSCTFC, E1000_MGTPRC, E1000_MGTPDC, E1000_MGTPTC, E1000_IAC, E1000_ICRXOC]"

definition cntrs_hv :: "u32 list" where
  "cntrs_hv = [HV_SCC_UPPER, HV_SCC_LOWER, HV_ECOL_UPPER, HV_ECOL_LOWER, HV_MCC_UPPER, HV_MCC_LOWER,
     HV_LATECOL_UPPER, HV_LATECOL_LOWER, HV_COLC_UPPER, HV_COLC_LOWER, HV_DC_UPPER, HV_DC_LOWER,
     HV_TNCRS_UPPER, HV_TNCRS_LOWER]"

definition e1000_clear_hw_cntrs_ich8lan :: "'p phy_page_operations_scheme \<Rightarrow> unit hwM" where
  "e1000_clear_hw_cntrs_ich8lan ops = do {
     e1000e_clear_hw_cntrs_base;
     for_each cntrs_ich8lan (\<lambda>r. do { er32 r; ret () });
     ty \<leftarrow> gets (\<lambda>s. phy_type (hw_phy s));
     cwhen (ty \<in> {e1000_phy_82578, e1000_phy_82579, e1000_phy_i217, e1000_phy_82577}) (do {
       phy_lock ops (do {
         ret_val \<leftarrow> op_phy_set_page ops (push_bit IGP_PAGE_SHIFT HV_STATS_PAGE);
         cwhen (ret_val = 0) (for_each cntrs_hv (\<lambda>r. do { op_phy_read_reg_page ops r 0; ret () }));
         ret ret_val });
       ret () }) }"

subsection \<open>Link setup\<close>

definition setup_link_ctrl :: "unit hwM" where
  "setup_link_ctrl = csr_modify E1000_CTRL
     (\<lambda>v. (v OR E1000_CTRL_SLU) AND NOT (E1000_CTRL_FRCSPD OR E1000_CTRL_FRCDPX))"

definition ife_mdix :: "u8 \<Rightarrow> u16 \<Rightarrow> u16" where
  "ife_mdix mdix reg_data =
     (let reg_data = reg_data AND NOT IFE_PMC_AUTO_MDIX
      in if mdix = 1 then reg_data AND NOT IFE_PMC_FORCE_MDIX
         else if mdix = 2 then reg_data OR IFE_PMC_FORCE_MDIX
         else reg_data OR IFE_PMC_AUTO_MDIX)"

definition setup_phy_family :: "'p phy_link_operations_scheme \<Rightarrow> s32 hwM" where
  "setup_phy_family ops = do {
     ty \<leftarrow> gets (\<lambda>s. phy_type (hw_phy s));
     if ty = e1000_phy_igp_3 then e1000e_copper_link_setup_igp ops
     else if ty \<in> {e1000_phy_bm, e1000_phy_82578} then e1000e_copper_link_setup_m88 ops
     else if ty \<in> {e1000_phy_82577, e1000_phy_82579} then e1000_copper_link_setup_82577 ops
     else if ty = e1000_phy_ife then with_phy ops IFE_PHY_MDIX_CONTROL (\<lambda>reg_data. do {
       mdix \<leftarrow> gets (\<lambda>s. phy_mdix (hw_phy s));
       e1e_wphy ops IFE_PHY_MDIX_CONTROL (ife_mdix mdix reg_data) })
     else ret 0 }"

definition e1000_setup_copper_link_ich8lan ::
  "'m mac_operations_scheme \<Rightarrow> 'p phy_link_operations_scheme \<Rightarrow> s32 hwM" where
  "e1000_setup_copper_link_ich8lan mops ops = do {
     setup_link_ctrl;
     ok_then (e1000e_write_kmrn_reg ops E1000_KMRNCTRLSTA_TIMEOUTS 0xFFFF) (do {
     r \<leftarrow> e1000e_read_kmrn_reg ops E1000_KMRNCTRLSTA_INBAND_PARAM 0;
     if fst r \<noteq> 0 then ret (fst r)
     else ok_then (e1000e_write_kmrn_reg ops E1000_KMRNCTRLSTA_INBAND_PARAM (snd r OR 0x3F)) (
     ok_then (setup_phy_family ops) (e1000e_setup_copper_link mops ops)) }) }"

definition e1000_setup_copper_link_pch_lpt ::
  "'m mac_operations_scheme \<Rightarrow> 'p phy_link_operations_scheme \<Rightarrow> s32 hwM" where
  "e1000_setup_copper_link_pch_lpt mops ops = do {
     setup_link_ctrl;
     ok_then (e1000_copper_link_setup_82577 ops) (e1000e_setup_copper_link mops ops) }"

definition e1000_setup_link_ich8lan ::
  "'m mac_operations_scheme \<Rightarrow> 'p phy_link_operations_scheme \<Rightarrow> s32 hwM" where
  "e1000_setup_link_ich8lan mops ops = do {
     blocked \<leftarrow> check_reset_block ops;
     if blocked \<noteq> 0 then ret 0
     else do {
     ty \<leftarrow> gets (\<lambda>s. mac_type (hw_mac s));
     set_fc (fc_requested_mode_update (\<lambda>m. if m = e1000_fc_default
       then (if ty = e1000_pchlan then e1000_fc_rx_pause else e1000_fc_full) else m));
     set_fc (\<lambda>fc. fc\<lparr>fc_current_mode := fc_requested_mode fc\<rparr>);
     ok_then (op_setup_physical_interface mops) (do {
     s \<leftarrow> gets id;
     ew32 E1000_FCTTV (ucast (fc_pause_time (hw_fc s)));
     ok_then (if phy_type (hw_phy s) \<in>
           {e1000_phy_82578, e1000_phy_82579, e1000_phy_i217, e1000_phy_82577}
         then do {
           ew32 E1000_FCRTV_PCH (ucast (fc_refresh_time (hw_fc s)));
           e1e_wphy ops (PHY_REG BM_PORT_CTRL_PAGE 27) (fc_pause_time (hw_fc s)) }
         else ret 0)
       e1000e_set_fc_watermarks }) } }"

subsection \<open>Reset\<close>

definition save_nvm_k1 :: "'o nvm_operations_scheme \<Rightarrow> s32 hwM" where
  "save_nvm_k1 nops = do {
     r \<leftarrow> e1000_read_nvm1 nops E1000_NVM_K1_CONFIG;
     if fst r \<noteq> 0 then ret (fst r)
     else do {
       set_ich8 (ich8_nvm_k1_enabled_update (\<lambda>_. snd r AND E1000_NVM_K1_ENABLE \<noteq> 0));
       ret 0 } }"

text \<open>
  The global reset. The flag is taken even when its acquire fails; the reset itself clears the
  hardware's copy, so only the driver's bit is given back.
\<close>

definition reset_mac :: "u32 \<Rightarrow> unit hwM" where
  "reset_mac ctrl = do {
     ret_val \<leftarrow> e1000_acquire_swflag_ich8lan;
     ew32 E1000_CTRL (ctrl OR E1000_CTRL_RST);
     msleep 20;
     ty \<leftarrow> gets (\<lambda>s. mac_type (hw_mac s));
     cwhen (ty = e1000_pch2lan) (csr_modify E1000_FEXTNVM3
       (\<lambda>v. (v AND NOT E1000_FEXTNVM3_PHY_CFG_COUNTER_MASK) OR E1000_FEXTNVM3_PHY_CFG_COUNTER_50MSEC));
     cwhen (ret_val = 0) (clear_bit_op state_access_shared_resource) }"

text \<open>Interrupts masked, both units off, and the buffer sizes of the first part.\<close>

definition reset_quiesce :: "unit hwM" where
  "reset_quiesce = do {
     e1000e_disable_pcie_master;
     ew32 E1000_IMC 0xFFFFFFFF;
     ew32 E1000_RCTL 0;
     ew32 E1000_TCTL E1000_TCTL_PSP;
     e1e_flush;
     usleep_range 10000 20000;
     ty \<leftarrow> gets (\<lambda>s. mac_type (hw_mac s));
     cwhen (ty = e1000_ich8lan) (do {
       ew32 E1000_PBA E1000_PBA_8K;
       ew32 E1000_PBS E1000_PBS_16K }) }"

text \<open>The value for the control register, with the reset of the PHY when it is allowed.\<close>

definition reset_ctrl :: "'p phy_link_operations_scheme \<Rightarrow> u32 hwM" where
  "reset_ctrl ops = do {
     ctrl \<leftarrow> er32 E1000_CTRL;
     blocked \<leftarrow> check_reset_block ops;
     if blocked \<noteq> 0 then ret ctrl
     else do {
       gate \<leftarrow> unmanaged_82579;
       cwhen gate (e1000_gate_hw_phy_config_ich8lan True);
       ret (ctrl OR E1000_CTRL_PHY_RST) } }"

definition e1000_reset_hw_ich8lan ::
  "'p phy_all_operations_scheme \<Rightarrow> 'o nvm_operations_scheme \<Rightarrow> u16 \<Rightarrow> s32 hwM" where
  "e1000_reset_hw_ich8lan ops nops garbage = do {
     reset_quiesce;
     ty \<leftarrow> gets (\<lambda>s. mac_type (hw_mac s));
     ok_then (if ty = e1000_pchlan then save_nvm_k1 nops else ret 0) (do {
     ctrl \<leftarrow> reset_ctrl ops;
     reset_mac ctrl;
     ok_then (if ctrl AND E1000_CTRL_PHY_RST \<noteq> 0
         then ok_then (op_phy_get_cfg_done ops) (e1000_post_phy_reset_ich8lan ops nops garbage)
         else ret 0) (do {
     cwhen (ty = e1000_pchlan) (ew32 E1000_CRC_OFFSET 0x65656565);
     ew32 E1000_IMC 0xFFFFFFFF;
     er32 E1000_ICR;
     csr_modify E1000_KABGTXD (\<lambda>v. v OR E1000_KABGTXD_BGSQLBIAS);
     ret 0 }) }) }"

subsection \<open>Initialisation of the MAC\<close>

definition E1000_TXDCTL :: "u32 \<Rightarrow> u32" where
  "E1000_TXDCTL n = (if n < 4 then 0x03828 + n * 0x100 else 0x0E028 + n * 0x40)"

definition E1000_TARC :: "u32 \<Rightarrow> u32" where
  "E1000_TARC n = 0x03840 + n * 0x100"

definition e1000_initialize_hw_bits_ich8lan :: "unit hwM" where
  "e1000_initialize_hw_bits_ich8lan = do {
     ty \<leftarrow> gets (\<lambda>s. mac_type (hw_mac s));
     csr_modify E1000_CTRL_EXT (\<lambda>v. let v = v OR 2 ^ 22
       in if ty \<ge> e1000_pchlan then v OR E1000_CTRL_EXT_PHYPDEN else v);
     csr_modify (E1000_TXDCTL 0) (\<lambda>v. v OR 2 ^ 22);
     csr_modify (E1000_TXDCTL 1) (\<lambda>v. v OR 2 ^ 22);
     csr_modify (E1000_TARC 0) (\<lambda>v. (if ty = e1000_ich8lan then v OR (2 ^ 28 OR 2 ^ 29) else v)
       OR (2 ^ 23 OR 2 ^ 24 OR 2 ^ 26 OR 2 ^ 27));
     reg \<leftarrow> er32 (E1000_TARC 1);
     tctl \<leftarrow> er32 E1000_TCTL;
     ew32 (E1000_TARC 1) ((if tctl AND E1000_TCTL_MULR \<noteq> 0 then reg AND NOT (2 ^ 28) else reg OR 2 ^ 28)
       OR (2 ^ 24 OR 2 ^ 26 OR 2 ^ 30));
     cwhen (ty = e1000_ich8lan) (csr_modify E1000_STATUS (\<lambda>v. v AND NOT (2 ^ 31)));
     csr_modify E1000_RFCTL (\<lambda>v. let v = v OR (E1000_RFCTL_NFSW_DIS OR E1000_RFCTL_NFSR_DIS)
       in if ty = e1000_ich8lan
          then v OR (E1000_RFCTL_IPV6_EX_DIS OR E1000_RFCTL_NEW_IPV6_EXT_DIS) else v);
     cwhen (ty \<ge> e1000_pch_lpt) (do {
       csr_modify E1000_PBECCSTS (\<lambda>v. v OR E1000_PBECCSTS_ECC_ENABLE);
       csr_modify E1000_CTRL (\<lambda>v. v OR E1000_CTRL_MEHE) }) }"

record mac_all_operations = mac_operations +
  op_id_led_init :: "s32 hwM"
  op_setup_link :: "s32 hwM"

definition txdctl_policy :: "u32 \<Rightarrow> u32" where
  "txdctl_policy txdctl =
     (let txdctl = (txdctl AND NOT E1000_TXDCTL_WTHRESH) OR E1000_TXDCTL_FULL_TX_DESC_WB
      in (txdctl AND NOT E1000_TXDCTL_PTHRESH) OR E1000_TXDCTL_MAX_TX_DESC_PREFETCH)"

text \<open>
  The counter \<open>i\<close> of the loop over the multicast table is also the local the PHY register of an
  82578 is read into: it holds the size of the table when that read fails.
\<close>

definition e1000_init_hw_ich8lan ::
  "'m mac_all_operations_scheme \<Rightarrow> 'p phy_page_operations_scheme \<Rightarrow> 'o nvm_operations_scheme \<Rightarrow> u16
     \<Rightarrow> s32 hwM" where
  "e1000_init_hw_ich8lan mops ops nops garbage = do {
     e1000_initialize_hw_bits_ich8lan;
     op_id_led_init mops;
     count \<leftarrow> gets (\<lambda>s. mac_rar_entry_count (hw_mac s));
     e1000e_init_rx_addrs mops count;
     n \<leftarrow> gets (\<lambda>s. mac_mta_reg_count (hw_mac s));
     for_each [0..<unat n] (\<lambda>i. write_reg_array E1000_MTA (word_of_nat i) 0);
     pty \<leftarrow> gets (\<lambda>s. phy_type (hw_phy s));
     ok_then (if pty = e1000_phy_82578
         then do { clear_host_wakeup ops n; e1000_phy_hw_reset_ich8lan ops nops garbage }
         else ret 0) (do {
     ret_val \<leftarrow> op_setup_link mops;
     csr_modify (E1000_TXDCTL 0) txdctl_policy;
     csr_modify (E1000_TXDCTL 1) txdctl_policy;
     ty \<leftarrow> gets (\<lambda>s. mac_type (hw_mac s));
     e1000e_set_pcie_no_snoop (if ty = e1000_ich8lan then PCIE_ICH8_SNOOP_ALL
       else NOT PCIE_NO_SNOOP_ALL);
     csr_modify E1000_CTRL_EXT (\<lambda>v. v OR E1000_CTRL_EXT_RO_DIS);
     e1000_clear_hw_cntrs_ich8lan ops;
     ret ret_val }) }"

end
