(* ===== verification/Ich8Init.thy ===== *)
theory Ich8Init
  imports Ich8Mac
begin

section \<open>Initialisation and the tables of operations (ich8lan.c)\<close>

text \<open>
  The last part of \<open>src/IntelMausiEthernet/ich8lan.c\<close>: the static tables of each part and the
  functions that fill in the rest.

  A function pointer is modelled twice. In \<open>phy_table\<close> and \<open>mac_table\<close> it is a \<^emph>\<open>name\<close>: which of the
  functions of the file the initialisation stored, \<open>None\<close> or \<open>False\<close> for a null pointer. The
  functions of the file call each other through \<open>hw->phy.ops\<close> and \<open>hw->mac.ops\<close>, so what a name
  stands for depends on the whole table: \<open>phy_step\<close> and \<open>mac_step\<close> build the records of functions
  from the tables and from records for the calls inside. The calls nest: \<open>get_info\<close> calls
  \<open>get_cable_length\<close>, which calls \<open>read_reg\<close>, which calls \<open>acquire\<close>. \<open>ops_of\<close> applies the step
  often enough that the result no longer changes.
\<close>

subsection \<open>Names\<close>

datatype access_fn = Access_igp | Access_bm | Access_hv
datatype locked_fn = Locked_igp | Locked_hv
datatype lplu_fn = Lplu_ich8lan | Lplu_pchlan
datatype length_fn = Length_igp_2 | Length_m88 | Length_82577
datatype family_fn = Family_igp | Family_ife | Family_m88 | Family_82577

record phy_table =
  t_read_reg :: access_fn
  t_write_reg :: access_fn
  t_read_reg_locked :: "locked_fn option"
  t_write_reg_locked :: "locked_fn option"
  t_set_page :: bool
  t_read_reg_page :: bool
  t_write_reg_page :: bool
  t_set_d0_lplu_state :: lplu_fn
  t_set_d3_lplu_state :: lplu_fn
  t_power_up :: bool
  t_power_down :: bool
  t_commit :: bool
  t_get_cable_length :: length_fn
  t_check_polarity :: "family_fn option"
  t_force_speed_duplex :: "family_fn option"
  t_get_info :: "family_fn option"

text \<open>The static table \<open>ich8_phy_ops\<close>. Its acquire, release, reset and two queries never change.\<close>

definition ich8_phy_ops :: phy_table where
  "ich8_phy_ops = \<lparr>t_read_reg = Access_igp, t_write_reg = Access_igp, t_read_reg_locked = None,
     t_write_reg_locked = None, t_set_page = False, t_read_reg_page = False,
     t_write_reg_page = False, t_set_d0_lplu_state = Lplu_ich8lan,
     t_set_d3_lplu_state = Lplu_ich8lan, t_power_up = False, t_power_down = False,
     t_commit = False, t_get_cable_length = Length_igp_2, t_check_polarity = None,
     t_force_speed_duplex = None, t_get_info = None\<rparr>"

datatype part_fn = Part_ich8lan | Part_pchlan
datatype rar_fn = Rar_generic | Rar_pch2lan | Rar_pch_lpt
datatype physical_fn = Physical_ich8lan | Physical_pch_lpt
datatype count_fn = Count_generic | Count_pch_lpt

record mac_table =
  t_check_mng_mode :: "part_fn option"
  t_id_led_init :: "part_fn option"
  t_blink_led :: bool
  t_setup_led :: "part_fn option"
  t_cleanup_led :: "part_fn option"
  t_led_on :: "part_fn option"
  t_led_off :: "part_fn option"
  t_rar_set :: rar_fn
  t_setup_physical_interface :: physical_fn
  t_rar_get_count :: count_fn

definition ich8_mac_ops :: mac_table where
  "ich8_mac_ops = \<lparr>t_check_mng_mode = None, t_id_led_init = None, t_blink_led = False,
     t_setup_led = None, t_cleanup_led = None, t_led_on = None, t_led_off = None,
     t_rar_set = Rar_generic, t_setup_physical_interface = Physical_ich8lan,
     t_rar_get_count = Count_generic\<rparr>"

subsection \<open>What the names stand for\<close>

text \<open>What a call of a null pointer does is not specified.\<close>

definition null_call :: "'a hwM" where
  "null_call = undefined"

record phy_full_operations = phy_page_operations +
  op_phy_power_up :: "unit hwM"
  op_phy_power_down :: "unit hwM"
  op_phy_set_d3_lplu_state :: "bool \<Rightarrow> s32 hwM"
  op_phy_check_polarity :: "s32 hwM"
  op_phy_get_info :: "s32 hwM"

definition phy_read_fn :: "access_fn \<Rightarrow> 'p phy_operations_scheme \<Rightarrow> u32 \<Rightarrow> u16 \<Rightarrow> (s32 \<times> u16) hwM" where
  "phy_read_fn f ops = (case f of Access_igp \<Rightarrow> e1000e_read_phy_reg_igp ops
     | Access_bm \<Rightarrow> e1000e_read_phy_reg_bm ops | Access_hv \<Rightarrow> e1000_read_phy_reg_hv ops)"

definition phy_write_fn :: "access_fn \<Rightarrow> 'p phy_operations_scheme \<Rightarrow> u32 \<Rightarrow> u16 \<Rightarrow> s32 hwM" where
  "phy_write_fn f ops = (case f of Access_igp \<Rightarrow> e1000e_write_phy_reg_igp ops
     | Access_bm \<Rightarrow> e1000e_write_phy_reg_bm ops | Access_hv \<Rightarrow> e1000_write_phy_reg_hv ops)"

definition phy_read_locked_fn ::
  "locked_fn option \<Rightarrow> 'p phy_operations_scheme \<Rightarrow> u32 \<Rightarrow> u16 \<Rightarrow> (s32 \<times> u16) hwM" where
  "phy_read_locked_fn f ops = (case f of None \<Rightarrow> (\<lambda>_ _. null_call)
     | Some Locked_igp \<Rightarrow> e1000e_read_phy_reg_igp_locked ops
     | Some Locked_hv \<Rightarrow> e1000_read_phy_reg_hv_locked ops)"

definition phy_write_locked_fn ::
  "locked_fn option \<Rightarrow> 'p phy_operations_scheme \<Rightarrow> u32 \<Rightarrow> u16 \<Rightarrow> s32 hwM" where
  "phy_write_locked_fn f ops = (case f of None \<Rightarrow> (\<lambda>_ _. null_call)
     | Some Locked_igp \<Rightarrow> e1000e_write_phy_reg_igp_locked ops
     | Some Locked_hv \<Rightarrow> e1000_write_phy_reg_hv_locked ops)"

definition phy_length_fn :: "length_fn \<Rightarrow> 'p phy_operations_scheme \<Rightarrow> s32 hwM" where
  "phy_length_fn f ops = (case f of Length_igp_2 \<Rightarrow> e1000e_get_cable_length_igp_2 ops
     | Length_m88 \<Rightarrow> e1000e_get_cable_length_m88 ops | Length_82577 \<Rightarrow> e1000_get_cable_length_82577 ops)"

definition phy_d0_lplu_fn :: "lplu_fn \<Rightarrow> 'p phy_link_operations_scheme \<Rightarrow> bool \<Rightarrow> s32 hwM" where
  "phy_d0_lplu_fn f ops = (case f of Lplu_ich8lan \<Rightarrow> e1000_set_d0_lplu_state_ich8lan ops
     | Lplu_pchlan \<Rightarrow> e1000_set_lplu_state_pchlan ops)"

definition phy_d3_lplu_fn :: "lplu_fn \<Rightarrow> 'p phy_link_operations_scheme \<Rightarrow> bool \<Rightarrow> s32 hwM" where
  "phy_d3_lplu_fn f ops = (case f of Lplu_ich8lan \<Rightarrow> e1000_set_d3_lplu_state_ich8lan ops
     | Lplu_pchlan \<Rightarrow> e1000_set_lplu_state_pchlan ops)"

definition phy_polarity_fn :: "family_fn option \<Rightarrow> 'p phy_operations_scheme \<Rightarrow> s32 hwM" where
  "phy_polarity_fn f ops = (case f of None \<Rightarrow> null_call
     | Some Family_igp \<Rightarrow> e1000_check_polarity_igp ops | Some Family_ife \<Rightarrow> e1000_check_polarity_ife ops
     | Some Family_m88 \<Rightarrow> e1000_check_polarity_m88 ops
     | Some Family_82577 \<Rightarrow> e1000_check_polarity_82577 ops)"

definition phy_force_fn ::
  "family_fn option \<Rightarrow> 'm mac_operations_scheme \<Rightarrow> 'p phy_link_operations_scheme \<Rightarrow> s32 hwM" where
  "phy_force_fn f mops ops = (case f of None \<Rightarrow> null_call
     | Some Family_igp \<Rightarrow> e1000e_phy_force_speed_duplex_igp mops ops
     | Some Family_ife \<Rightarrow> e1000_phy_force_speed_duplex_ife mops ops
     | Some Family_m88 \<Rightarrow> e1000e_phy_force_speed_duplex_m88 mops ops
     | Some Family_82577 \<Rightarrow> e1000_phy_force_speed_duplex_82577 mops ops)"

definition phy_info_fn :: "family_fn option \<Rightarrow> 'p phy_link_operations_scheme \<Rightarrow> s32 hwM" where
  "phy_info_fn f ops = (case f of None \<Rightarrow> null_call
     | Some Family_igp \<Rightarrow> e1000e_get_phy_info_igp ops | Some Family_ife \<Rightarrow> e1000_get_phy_info_ife ops
     | Some Family_m88 \<Rightarrow> e1000e_get_phy_info_m88 ops
     | Some Family_82577 \<Rightarrow> e1000_get_phy_info_82577 ops)"

text \<open>
  One step: every entry is its function, and calls the entries of \<open>ops\<close> and \<open>mops\<close>. \<open>nops\<close> is
  the NVM's table and \<open>g\<close> gives the unset locals.
\<close>

definition phy_step ::
  "phy_table \<Rightarrow> 'o nvm_operations_scheme \<Rightarrow> (nat \<Rightarrow> u16) \<Rightarrow> mac_all_operations
     \<Rightarrow> phy_full_operations \<Rightarrow> phy_full_operations" where
  "phy_step t nops g mops ops = \<lparr>
     op_phy_acquire = Some e1000_acquire_swflag_ich8lan,
     op_phy_release = e1000_release_swflag_ich8lan,
     op_phy_read_reg = Some (phy_read_fn (t_read_reg t) ops),
     op_phy_write_reg = phy_write_fn (t_write_reg t) ops,
     op_phy_commit = (if t_commit t then Some (e1000e_phy_sw_reset ops) else None),
     op_phy_check_reset_block = Some e1000_check_reset_block_ich8lan,
     op_phy_get_cable_length = phy_length_fn (t_get_cable_length t) ops,
     op_phy_get_cfg_done = e1000_get_cfg_done_ich8lan ops,
     op_phy_reset = e1000_phy_hw_reset_ich8lan ops nops (g 0),
     op_phy_set_d0_lplu_state = Some (phy_d0_lplu_fn (t_set_d0_lplu_state t) ops),
     op_phy_force_speed_duplex = phy_force_fn (t_force_speed_duplex t) mops ops,
     op_phy_read_reg_locked = phy_read_locked_fn (t_read_reg_locked t) ops,
     op_phy_write_reg_locked = phy_write_locked_fn (t_write_reg_locked t) ops,
     op_phy_write_reg_page = (if t_write_reg_page t then e1000_write_phy_reg_page_hv ops
       else (\<lambda>_ _. null_call)),
     op_phy_set_page = (if t_set_page t then e1000_set_page_igp else (\<lambda>_. null_call)),
     op_phy_read_reg_page = (if t_read_reg_page t then e1000_read_phy_reg_page_hv ops
       else (\<lambda>_ _. null_call)),
     op_phy_power_up = (if t_power_up t then e1000_power_up_phy_copper ops else null_call),
     op_phy_power_down = (if t_power_down t then e1000_power_down_phy_copper_ich8lan mops ops
       else null_call),
     op_phy_set_d3_lplu_state = phy_d3_lplu_fn (t_set_d3_lplu_state t) ops,
     op_phy_check_polarity = phy_polarity_fn (t_check_polarity t) ops,
     op_phy_get_info = phy_info_fn (t_get_info t) ops\<rparr>"

definition mac_step ::
  "mac_table \<Rightarrow> 'o nvm_operations_scheme \<Rightarrow> (nat \<Rightarrow> u16) \<Rightarrow> phy_full_operations
     \<Rightarrow> mac_all_operations \<Rightarrow> mac_all_operations" where
  "mac_step t nops g ops mops = \<lparr>
     op_config_collision_dist = e1000e_config_collision_dist_generic,
     op_get_link_up_info = e1000_get_link_up_info_ich8lan ops,
     op_rar_set = (case t_rar_set t of Rar_generic \<Rightarrow> e1000e_rar_set_generic
       | Rar_pch2lan \<Rightarrow> e1000_rar_set_pch2lan | Rar_pch_lpt \<Rightarrow> e1000_rar_set_pch_lpt),
     op_check_mng_mode = (case t_check_mng_mode t of None \<Rightarrow> null_call
       | Some Part_ich8lan \<Rightarrow> e1000_check_mng_mode_ich8lan
       | Some Part_pchlan \<Rightarrow> e1000_check_mng_mode_pchlan),
     op_check_for_link = e1000_check_for_copper_link_ich8lan mops ops g,
     op_setup_physical_interface = (case t_setup_physical_interface t of
         Physical_ich8lan \<Rightarrow> e1000_setup_copper_link_ich8lan mops ops
       | Physical_pch_lpt \<Rightarrow> e1000_setup_copper_link_pch_lpt mops ops),
     op_id_led_init = (case t_id_led_init t of None \<Rightarrow> null_call
       | Some Part_ich8lan \<Rightarrow> e1000e_id_led_init_generic (e1000_valid_led_default_ich8lan nops)
       | Some Part_pchlan \<Rightarrow> e1000_id_led_init_pchlan (e1000_valid_led_default_ich8lan nops)),
     op_setup_link = e1000_setup_link_ich8lan mops ops\<rparr>"

definition null_phy_operations :: phy_full_operations where
  "null_phy_operations = \<lparr>op_phy_acquire = None, op_phy_release = null_call, op_phy_read_reg = None,
     op_phy_write_reg = (\<lambda>_ _. null_call), op_phy_commit = None, op_phy_check_reset_block = None,
     op_phy_get_cable_length = null_call, op_phy_get_cfg_done = null_call, op_phy_reset = null_call,
     op_phy_set_d0_lplu_state = None, op_phy_force_speed_duplex = null_call,
     op_phy_read_reg_locked = (\<lambda>_ _. null_call), op_phy_write_reg_locked = (\<lambda>_ _. null_call),
     op_phy_write_reg_page = (\<lambda>_ _. null_call), op_phy_set_page = (\<lambda>_. null_call),
     op_phy_read_reg_page = (\<lambda>_ _. null_call), op_phy_power_up = null_call,
     op_phy_power_down = null_call, op_phy_set_d3_lplu_state = (\<lambda>_. null_call),
     op_phy_check_polarity = null_call, op_phy_get_info = null_call\<rparr>"

definition null_mac_operations :: mac_all_operations where
  "null_mac_operations = \<lparr>op_config_collision_dist = null_call, op_get_link_up_info = null_call,
     op_rar_set = (\<lambda>_ _. null_call), op_check_mng_mode = null_call, op_check_for_link = null_call,
     op_setup_physical_interface = null_call, op_id_led_init = null_call, op_setup_link = null_call\<rparr>"

primrec ops_level ::
  "nat \<Rightarrow> phy_table \<Rightarrow> mac_table \<Rightarrow> 'o nvm_operations_scheme \<Rightarrow> (nat \<Rightarrow> u16)
     \<Rightarrow> phy_full_operations \<times> mac_all_operations" where
  "ops_level 0 pt mt nops g = (null_phy_operations, null_mac_operations)"
| "ops_level (Suc n) pt mt nops g = (case ops_level n pt mt nops g of (ops, mops) \<Rightarrow>
     (phy_step pt nops g mops ops, mac_step mt nops g ops mops))"

definition ops_of ::
  "phy_table \<Rightarrow> mac_table \<Rightarrow> 'o nvm_operations_scheme \<Rightarrow> (nat \<Rightarrow> u16)
     \<Rightarrow> phy_full_operations \<times> mac_all_operations" where
  "ops_of pt mt nops g = ops_level 7 pt mt nops g"

subsection \<open>Initialising the PHY\<close>

text \<open>
  \<open>tie\<close> turns the names into the functions the initialisation itself calls. The result is the
  return code and the table.
\<close>

definition pchlan_phy_table :: "phy_table \<Rightarrow> phy_table" where
  "pchlan_phy_table t = t\<lparr>t_set_page := True, t_read_reg := Access_hv,
     t_read_reg_locked := Some Locked_hv, t_read_reg_page := True,
     t_set_d0_lplu_state := Lplu_pchlan, t_set_d3_lplu_state := Lplu_pchlan,
     t_write_reg := Access_hv, t_write_reg_locked := Some Locked_hv, t_write_reg_page := True,
     t_power_up := True, t_power_down := True\<rparr>"

text \<open>The entries that depend on the PHY found; \<open>None\<close> for a PHY the parts do not have.\<close>

definition pchlan_phy_family :: "e1000_phy_type \<Rightarrow> phy_table \<Rightarrow> phy_table option" where
  "pchlan_phy_family ty t =
     (if ty \<in> {e1000_phy_82577, e1000_phy_82579, e1000_phy_i217}
      then Some (t\<lparr>t_check_polarity := Some Family_82577, t_force_speed_duplex := Some Family_82577,
        t_get_cable_length := Length_82577, t_get_info := Some Family_82577, t_commit := True\<rparr>)
      else if ty = e1000_phy_82578
      then Some (t\<lparr>t_check_polarity := Some Family_m88, t_force_speed_duplex := Some Family_m88,
        t_get_cable_length := Length_m88, t_get_info := Some Family_m88\<rparr>)
      else None)"

definition pchlan_slow_id :: "'p phy_operations_scheme \<Rightarrow> s32 hwM" where
  "pchlan_slow_id ops = ok_then (e1000_set_mdio_slow_mode_hv ops) (e1000e_get_phy_id ops)"

text \<open>The search for the PHY's id: the first PCH part tries without the slow mode first.\<close>

definition pchlan_find_id :: "'p phy_operations_scheme \<Rightarrow> s32 hwM" where
  "pchlan_find_id ops = do {
     i \<leftarrow> gets (\<lambda>s. phy_id (hw_phy s));
     ty \<leftarrow> gets (\<lambda>s. mac_type (hw_mac s));
     if i \<noteq> 0 then ret 0
     else if ty \<in> {e1000_pch2lan, e1000_pch_lpt, e1000_pch_spt, e1000_pch_cnp, e1000_pch_tgp, e1000_pch_adp}
     then pchlan_slow_id ops
     else ok_then (e1000e_get_phy_id ops) (do {
       i \<leftarrow> gets (\<lambda>s. phy_id (hw_phy s));
       if i \<noteq> 0 \<and> i \<noteq> PHY_REVISION_MASK then ret 0 else pchlan_slow_id ops }) }"

definition set_phy_type :: "e1000_phy_type \<Rightarrow> unit hwM" where
  "set_phy_type ty = set_phy (phy_type_update (\<lambda>_. ty))"

definition e1000_init_phy_params_pchlan ::
  "(phy_table \<Rightarrow> phy_full_operations) \<Rightarrow> phy_table \<Rightarrow> (s32 \<times> phy_table) hwM" where
  "e1000_init_phy_params_pchlan tie t = do {
     set_phy (\<lambda>p. p\<lparr>phy_addr := 1, phy_reset_delay_us := 100\<rparr>);
     let t = pchlan_phy_table t;
     set_phy (\<lambda>p. p\<lparr>phy_autoneg_mask := AUTONEG_ADVERTISE_SPEED_DEFAULT, phy_id := 0\<rparr>);
     ret_val \<leftarrow> ok_then (e1000_init_phy_workarounds_pchlan (tie t)) (pchlan_find_id (tie t));
     if ret_val \<noteq> 0 then ret (ret_val, t)
     else do {
       i \<leftarrow> gets (\<lambda>s. phy_id (hw_phy s));
       let ty = e1000e_get_phy_type_from_id i;
       set_phy_type ty;
       ret (case pchlan_phy_family ty t of None \<Rightarrow> (- E1000_ERR_PHY, t) | Some t \<Rightarrow> (0, t)) } }"

text \<open>\<open>while ((unknown) && (i++ < 100))\<close>.\<close>

primrec ich8_id_loop :: "nat \<Rightarrow> 'p phy_operations_scheme \<Rightarrow> s32 hwM" where
  "ich8_id_loop 0 ops = ret 0"
| "ich8_id_loop (Suc n) ops = do {
     i \<leftarrow> gets (\<lambda>s. phy_id (hw_phy s));
     if e1000e_get_phy_type_from_id i \<noteq> e1000_phy_unknown then ret 0
     else do {
       usleep_range 1000 2000;
       ok_then (e1000e_get_phy_id ops) (ich8_id_loop n ops) } }"

text \<open>The entries of each PHY the ICH parts have, with its type and the speeds it advertises.\<close>

definition ich8_phy_family :: "u32 \<Rightarrow> phy_table \<Rightarrow> (e1000_phy_type \<times> u16 \<times> phy_table) option" where
  "ich8_phy_family i t =
     (if i = IGP03E1000_E_PHY_ID
      then Some (e1000_phy_igp_3, AUTONEG_ADVERTISE_SPEED_DEFAULT,
        t\<lparr>t_read_reg_locked := Some Locked_igp, t_write_reg_locked := Some Locked_igp,
          t_get_info := Some Family_igp, t_check_polarity := Some Family_igp,
          t_force_speed_duplex := Some Family_igp\<rparr>)
      else if i \<in> {IFE_E_PHY_ID, IFE_PLUS_E_PHY_ID, IFE_C_E_PHY_ID}
      then Some (e1000_phy_ife, E1000_ALL_NOT_GIG,
        t\<lparr>t_get_info := Some Family_ife, t_check_polarity := Some Family_ife,
          t_force_speed_duplex := Some Family_ife\<rparr>)
      else if i = BME1000_E_PHY_ID
      then Some (e1000_phy_bm, AUTONEG_ADVERTISE_SPEED_DEFAULT,
        t\<lparr>t_read_reg := Access_bm, t_write_reg := Access_bm, t_commit := True,
          t_get_info := Some Family_m88, t_check_polarity := Some Family_m88,
          t_force_speed_duplex := Some Family_m88\<rparr>)
      else None)"

definition e1000_init_phy_params_ich8lan ::
  "(phy_table \<Rightarrow> phy_full_operations) \<Rightarrow> phy_table \<Rightarrow> (s32 \<times> phy_table) hwM" where
  "e1000_init_phy_params_ich8lan tie t = do {
     set_phy (\<lambda>p. p\<lparr>phy_addr := 1, phy_reset_delay_us := 100\<rparr>);
     let t = t\<lparr>t_power_up := True, t_power_down := True\<rparr>;
     r \<leftarrow> e1000e_determine_phy_address (tie t);
     let t' = (if r \<noteq> 0 then t\<lparr>t_write_reg := Access_bm, t_read_reg := Access_bm\<rparr> else t);
     ret_val \<leftarrow> (if r \<noteq> 0 then e1000e_determine_phy_address (tie t') else ret 0);
     if ret_val \<noteq> 0 then ret (ret_val, t')
     else do {
       set_phy (phy_id_update (\<lambda>_. 0));
       ret_val \<leftarrow> ich8_id_loop 100 (tie t');
       if ret_val \<noteq> 0 then ret (ret_val, t')
       else do {
         i \<leftarrow> gets (\<lambda>s. phy_id (hw_phy s));
         case ich8_phy_family i t' of
             None \<Rightarrow> ret (- E1000_ERR_PHY, t')
           | Some (ty, adv, t') \<Rightarrow> do {
               set_phy (\<lambda>p. p\<lparr>phy_type := ty, phy_autoneg_mask := adv\<rparr>);
               ret (0, t') } } } }"

subsection \<open>Initialising the NVM\<close>

text \<open>Base address and bank size, in words, from the flash's partition register.\<close>

definition gfpreg_base :: "u32 \<Rightarrow> u32" where
  "gfpreg_base gfpreg = push_bit FLASH_SECTOR_ADDR_SHIFT (gfpreg AND FLASH_GFPREG_BASE_MASK)"

definition gfpreg_bank_size :: "u32 \<Rightarrow> u32" where
  "gfpreg_bank_size gfpreg =
     (let sector_base_addr = gfpreg AND FLASH_GFPREG_BASE_MASK;
          sector_end_addr = (drop_bit 16 gfpreg AND FLASH_GFPREG_BASE_MASK) + 1
      in push_bit FLASH_SECTOR_ADDR_SHIFT (sector_end_addr - sector_base_addr) div 2 div 2)"

definition strap_bank_size :: "u32 \<Rightarrow> u32" where
  "strap_bank_size strap = ((drop_bit 1 strap AND 0x1F) + 1) * NVM_SIZE_MULTIPLIER div 2 div 2"

definition set_nvm :: "(e1000_nvm_info \<Rightarrow> e1000_nvm_info) \<Rightarrow> unit hwM" where
  "set_nvm f = modify (hw_nvm_update f)"

text \<open>\<open>Some\<close> is the early return.\<close>

definition init_nvm_sizes :: "s32 option hwM" where
  "init_nvm_sizes = do {
     ty \<leftarrow> gets (\<lambda>s. mac_type (hw_mac s));
     if ty \<ge> e1000_pch_spt then do {
       set_nvm (nvm_flash_base_addr_update (\<lambda>_. 0));
       strap \<leftarrow> er32 E1000_STRAP;
       set_nvm (nvm_flash_bank_size_update (\<lambda>_. strap_bank_size strap));
       modify (\<lambda>s. s\<lparr>hw_flash_address := hw_addr s + E1000_FLASH_BASE_ADDR\<rparr>);
       ret None }
     else do {
       flash_address \<leftarrow> gets hw_flash_address;
       if flash_address = 0 then ret (Some (- E1000_ERR_CONFIG))
       else do {
         gfpreg \<leftarrow> er32flash ICH_FLASH_GFPREG;
         set_nvm (nvm_flash_base_addr_update (\<lambda>_. gfpreg_base gfpreg));
         set_nvm (nvm_flash_bank_size_update (\<lambda>_. gfpreg_bank_size gfpreg));
         ret None } } }"

text \<open>The shadow RAM is an array of as many entries as \<open>word_size\<close> says here.\<close>

definition e1000_init_nvm_params_ich8lan :: "s32 hwM" where
  "e1000_init_nvm_params_ich8lan = do {
     set_nvm (nvm_type_update (\<lambda>_. e1000_nvm_flash_sw));
     r \<leftarrow> init_nvm_sizes;
     case r of
         Some e \<Rightarrow> ret e
       | None \<Rightarrow> do {
           set_nvm (nvm_word_size_update (\<lambda>_. E1000_ICH8_SHADOW_RAM_WORDS));
           modify (hw_shadow_ram_update (\<lambda>_. replicate E1000_ICH8_SHADOW_RAM_WORDS
             \<lparr>sr_value = 0xFFFF, sr_modified = False\<rparr>));
           ret 0 } }"

subsection \<open>Initialising the MAC\<close>

definition mac_table_ich8lan :: "mac_table \<Rightarrow> mac_table" where
  "mac_table_ich8lan t = t\<lparr>t_check_mng_mode := Some Part_ich8lan, t_id_led_init := Some Part_ich8lan,
     t_blink_led := True, t_setup_led := Some Part_ich8lan, t_cleanup_led := Some Part_ich8lan,
     t_led_on := Some Part_ich8lan, t_led_off := Some Part_ich8lan\<rparr>"

definition mac_table_pchlan :: "mac_table \<Rightarrow> mac_table" where
  "mac_table_pchlan t = t\<lparr>t_check_mng_mode := Some Part_pchlan, t_id_led_init := Some Part_pchlan,
     t_setup_led := Some Part_pchlan, t_cleanup_led := Some Part_pchlan,
     t_led_on := Some Part_pchlan, t_led_off := Some Part_pchlan\<rparr>"

definition mac_table_for :: "e1000_mac_type \<Rightarrow> mac_table \<Rightarrow> mac_table" where
  "mac_table_for ty t =
     (let t = (if ty \<in> {e1000_ich8lan, e1000_ich9lan, e1000_ich10lan} then mac_table_ich8lan t
        else if ty = e1000_pch2lan then mac_table_pchlan (t\<lparr>t_rar_set := Rar_pch2lan\<rparr>)
        else if ty \<in> {e1000_pch_lpt, e1000_pch_spt, e1000_pch_cnp, e1000_pch_tgp, e1000_pch_adp,
            e1000_pchlan} then mac_table_pchlan t
        else t)
      in if ty \<ge> e1000_pch_lpt
         then t\<lparr>t_rar_set := Rar_pch_lpt, t_setup_physical_interface := Physical_pch_lpt,
           t_rar_get_count := Count_pch_lpt\<rparr>
         else t)"

definition rar_entry_count_for :: "e1000_mac_type \<Rightarrow> u16" where
  "rar_entry_count_for ty =
     (if ty \<ge> e1000_pch_lpt then E1000_PCH_LPT_RAR_ENTRIES
      else if ty = e1000_pch2lan then E1000_PCH2_RAR_ENTRIES
      else if ty = e1000_ich8lan then E1000_ICH_RAR_ENTRIES - 1 else E1000_ICH_RAR_ENTRIES)"

text \<open>\<open>mta_shadow\<close> is an array of the largest table; its first \<open>mta_reg_count\<close> entries are used.\<close>

definition e1000_init_mac_params_ich8lan :: "mac_table \<Rightarrow> (s32 \<times> mac_table) hwM" where
  "e1000_init_mac_params_ich8lan t = do {
     set_phy (phy_media_type_update (\<lambda>_. e1000_media_type_copper));
     ty \<leftarrow> gets (\<lambda>s. mac_type (hw_mac s));
     set_mac (\<lambda>m. m\<lparr>mac_mta_reg_count := 32, mac_rar_entry_count := rar_entry_count_for ty,
       mac_has_fwsm := True, mac_arc_subsystem_valid := False, mac_adaptive_ifs := True\<rparr>);
     cwhen (ty = e1000_ich8lan) (e1000e_set_kmrn_lock_loss_workaround_ich8lan True);
     ret (0, mac_table_for ty t) }"

subsection \<open>All of it\<close>

definition init_phy_params ::
  "(phy_table \<Rightarrow> phy_full_operations) \<Rightarrow> phy_table \<Rightarrow> (s32 \<times> phy_table) hwM" where
  "init_phy_params tie t = do {
     ty \<leftarrow> gets (\<lambda>s. mac_type (hw_mac s));
     if ty \<in> {e1000_ich8lan, e1000_ich9lan, e1000_ich10lan} then e1000_init_phy_params_ich8lan tie t
     else if ty \<in> {e1000_pchlan, e1000_pch2lan, e1000_pch_lpt, e1000_pch_spt, e1000_pch_cnp,
         e1000_pch_tgp, e1000_pch_adp} then e1000_init_phy_params_pchlan tie t
     else ret (0, t) }"

text \<open>Whether jumbo frames are left out; \<open>CTRL_EXT\<close> is read on the newer parts only.\<close>

definition no_jumbo :: "bool hwM" where
  "no_jumbo = do {
     s \<leftarrow> gets id;
     if phy_type (hw_phy s) = e1000_phy_ife then ret True
     else if mac_type (hw_mac s) \<ge> e1000_pch2lan then do {
       v \<leftarrow> er32 E1000_CTRL_EXT;
       ret (v AND E1000_CTRL_EXT_LSECCK = 0) }
     else ret False }"

definition variant_flags :: "unit hwM" where
  "variant_flags = do {
     s \<leftarrow> gets id;
     cwhen (mac_type (hw_mac s) = e1000_ich8lan \<and> phy_type (hw_phy s) \<noteq> e1000_phy_ife)
       (modify (hw_flags_update (\<lambda>f. f OR FLAG_LSC_GIG_SPEED_DROP)));
     cwhen (mac_type (hw_mac s) = e1000_pch2lan) (do {
       fwsm \<leftarrow> er32 E1000_FWSM;
       cwhen (fwsm AND E1000_ICH_FWSM_FW_VALID \<noteq> 0)
         (modify (hw_flags2_update (\<lambda>f. f OR FLAG2_PCIM2PCI_ARBITER_WA))) }) }"

definition e1000_get_variants_ich8lan ::
  "(phy_table \<Rightarrow> phy_full_operations) \<Rightarrow> phy_table \<Rightarrow> mac_table
     \<Rightarrow> (s32 \<times> phy_table \<times> mac_table) hwM" where
  "e1000_get_variants_ich8lan tie pt mt = do {
     (rc, mt) \<leftarrow> e1000_init_mac_params_ich8lan mt;
     if rc \<noteq> 0 then ret (rc, pt, mt)
     else do {
     rc \<leftarrow> e1000_init_nvm_params_ich8lan;
     if rc \<noteq> 0 then ret (rc, pt, mt)
     else do {
     (rc, pt) \<leftarrow> init_phy_params tie pt;
     if rc \<noteq> 0 then ret (rc, pt, mt)
     else do {
     small \<leftarrow> no_jumbo;
     cwhen small (modify (\<lambda>s. s\<lparr>hw_flags := hw_flags s AND NOT FLAG_HAS_JUMBO_FRAMES,
       hw_max_hw_frame_size := VLAN_ETH_FRAME_LEN + ETH_FCS_LEN\<rparr>));
     variant_flags;
     ret (0, pt, if small then mt\<lparr>t_blink_led := False\<rparr> else mt) } } } }"

subsection \<open>The parts\<close>

datatype nvm_ops_fn = Nvm_ich8 | Nvm_spt

record e1000_info =
  info_mac :: e1000_mac_type
  info_flags :: u32
  info_flags2 :: u32
  info_pba :: u32
  info_max_hw_frame_size :: u32
  info_nvm_ops :: nvm_ops_fn

definition e1000_ich8_info :: e1000_info where
  "e1000_ich8_info = \<lparr>info_mac = e1000_ich8lan,
     info_flags = FLAG_HAS_WOL OR FLAG_IS_ICH OR FLAG_HAS_CTRLEXT_ON_LOAD OR FLAG_HAS_AMT
       OR FLAG_HAS_FLASH OR FLAG_APME_IN_WUC,
     info_flags2 = 0, info_pba = 8,
     info_max_hw_frame_size = VLAN_ETH_FRAME_LEN + ETH_FCS_LEN, info_nvm_ops = Nvm_ich8\<rparr>"

definition e1000_ich9_info :: e1000_info where
  "e1000_ich9_info = \<lparr>info_mac = e1000_ich9lan,
     info_flags = FLAG_HAS_JUMBO_FRAMES OR FLAG_IS_ICH OR FLAG_HAS_WOL OR FLAG_HAS_CTRLEXT_ON_LOAD
       OR FLAG_HAS_AMT OR FLAG_HAS_FLASH OR FLAG_APME_IN_WUC,
     info_flags2 = 0, info_pba = 18, info_max_hw_frame_size = DEFAULT_JUMBO,
     info_nvm_ops = Nvm_ich8\<rparr>"

definition e1000_ich10_info :: e1000_info where
  "e1000_ich10_info = \<lparr>info_mac = e1000_ich10lan,
     info_flags = FLAG_HAS_JUMBO_FRAMES OR FLAG_IS_ICH OR FLAG_HAS_WOL OR FLAG_HAS_CTRLEXT_ON_LOAD
       OR FLAG_HAS_AMT OR FLAG_HAS_FLASH OR FLAG_APME_IN_WUC,
     info_flags2 = 0, info_pba = 18, info_max_hw_frame_size = DEFAULT_JUMBO,
     info_nvm_ops = Nvm_ich8\<rparr>"

definition e1000_pch_info :: e1000_info where
  "e1000_pch_info = \<lparr>info_mac = e1000_pchlan,
     info_flags = FLAG_IS_ICH OR FLAG_HAS_WOL OR FLAG_HAS_CTRLEXT_ON_LOAD OR FLAG_HAS_AMT
       OR FLAG_HAS_FLASH OR FLAG_HAS_JUMBO_FRAMES OR FLAG_DISABLE_FC_PAUSE_TIME OR FLAG_APME_IN_WUC,
     info_flags2 = FLAG2_HAS_PHY_STATS, info_pba = 26, info_max_hw_frame_size = 4096,
     info_nvm_ops = Nvm_ich8\<rparr>"

text \<open>The flags of the later parts.\<close>

abbreviation (input) later_flags :: u32 where
  "later_flags \<equiv> FLAG_IS_ICH OR FLAG_HAS_WOL OR FLAG_HAS_HW_TIMESTAMP OR FLAG_HAS_CTRLEXT_ON_LOAD
     OR FLAG_HAS_AMT OR FLAG_HAS_FLASH OR FLAG_HAS_JUMBO_FRAMES OR FLAG_APME_IN_WUC"

definition e1000_pch2_info :: e1000_info where
  "e1000_pch2_info = \<lparr>info_mac = e1000_pch2lan, info_flags = later_flags,
     info_flags2 = FLAG2_HAS_PHY_STATS OR FLAG2_HAS_EEE OR FLAG2_CHECK_SYSTIM_OVERFLOW,
     info_pba = 26, info_max_hw_frame_size = 9022, info_nvm_ops = Nvm_ich8\<rparr>"

definition e1000_pch_lpt_info :: e1000_info where
  "e1000_pch_lpt_info = \<lparr>info_mac = e1000_pch_lpt, info_flags = later_flags,
     info_flags2 = FLAG2_HAS_PHY_STATS OR FLAG2_HAS_EEE OR FLAG2_CHECK_SYSTIM_OVERFLOW,
     info_pba = 26, info_max_hw_frame_size = 9022, info_nvm_ops = Nvm_ich8\<rparr>"

definition e1000_pch_spt_info :: e1000_info where
  "e1000_pch_spt_info = \<lparr>info_mac = e1000_pch_spt, info_flags = later_flags,
     info_flags2 = FLAG2_HAS_PHY_STATS OR FLAG2_HAS_EEE,
     info_pba = 26, info_max_hw_frame_size = 9022, info_nvm_ops = Nvm_spt\<rparr>"

definition e1000_pch_cnp_info :: e1000_info where
  "e1000_pch_cnp_info = \<lparr>info_mac = e1000_pch_cnp, info_flags = later_flags,
     info_flags2 = FLAG2_HAS_PHY_STATS OR FLAG2_HAS_EEE,
     info_pba = 26, info_max_hw_frame_size = 9022, info_nvm_ops = Nvm_spt\<rparr>"

definition e1000_pch_tgp_info :: e1000_info where
  "e1000_pch_tgp_info = \<lparr>info_mac = e1000_pch_tgp, info_flags = later_flags,
     info_flags2 = FLAG2_HAS_PHY_STATS OR FLAG2_HAS_EEE,
     info_pba = 26, info_max_hw_frame_size = 9022, info_nvm_ops = Nvm_spt\<rparr>"

definition e1000_pch_adp_info :: e1000_info where
  "e1000_pch_adp_info = \<lparr>info_mac = e1000_pch_adp, info_flags = later_flags,
     info_flags2 = FLAG2_HAS_PHY_STATS OR FLAG2_HAS_EEE,
     info_pba = 26, info_max_hw_frame_size = 9022, info_nvm_ops = Nvm_spt\<rparr>"

end
