(* ===== verification/LockFrames.thy ===== *)
theory LockFrames
  imports PhyProps Ich8Init
begin

section \<open>Frames for the flows that take the software flag\<close>

text \<open>
  A flow runs either with the flag held or without it. \<open>locked_rel\<close> is what code under the flag keeps:
  the atomic bits, and no attempt to take the flag. \<open>free_rel\<close> is what a flow that starts
  without the flag keeps: it ends without it, and no attempt to take it found it taken. \<open>any_rel\<close>
  is the weaker relation of code that gives the flag back for a while. The locale \<open>driver_frame\<close>
  proves once, for all three, what the functions keep that call through no table.
\<close>

subsection \<open>The relations\<close>

definition grown :: "(event \<Rightarrow> bool) \<Rightarrow> e1000_hw \<Rightarrow> e1000_hw \<Rightarrow> bool" where
  "grown P s t \<longleftrightarrow> (\<exists>es. hw_log t = es @ hw_log s \<and> list_all P es)"

definition own_try :: "event \<Rightarrow> bool" where
  "own_try e = (\<exists>b. e = TestAndSet state_access_shared_resource b)"

definition blocked_try :: "event \<Rightarrow> bool" where
  "blocked_try e = (e = TestAndSet state_access_shared_resource True)"

definition locked_rel :: "e1000_hw \<Rightarrow> e1000_hw \<Rightarrow> bool" where
  "locked_rel s t \<longleftrightarrow> lock_state t = lock_state s \<and> grown (\<lambda>e. \<not> own_try e) s t"

definition any_rel :: "(nat \<Rightarrow> nat) \<Rightarrow> e1000_hw \<Rightarrow> e1000_hw \<Rightarrow> bool" where
  "any_rel pos s t \<longleftrightarrow> (bits_law (hw_os s) pos \<longrightarrow>
     bits_law (hw_os t) pos \<and> grown (\<lambda>e. \<not> blocked_try e) s t)"

definition free_rel :: "(nat \<Rightarrow> nat) \<Rightarrow> e1000_hw \<Rightarrow> e1000_hw \<Rightarrow> bool" where
  "free_rel pos s t \<longleftrightarrow> (bits_law (hw_os s) pos \<and> \<not> swflag_held pos s \<longrightarrow>
     bits_law (hw_os t) pos \<and> \<not> swflag_held pos t \<and> grown (\<lambda>e. \<not> blocked_try e) s t)"

lemma grown_refl: "grown P s s"
  unfolding grown_def by (rule exI [of _ "[]"]) simp

lemma grown_trans: "grown P s t \<Longrightarrow> grown P t u \<Longrightarrow> grown P s u"
  unfolding grown_def by (metis append.assoc list_all_append)

lemma grown_event: "P e \<Longrightarrow> grown P s (s\<lparr>hw_log := e # hw_log s\<rparr>)"
  unfolding grown_def by (rule exI [of _ "[e]"]) simp

lemma grown_same: "hw_log t = hw_log s \<Longrightarrow> grown P s t"
  unfolding grown_def by (rule exI [of _ "[]"]) simp

lemma grown_mono: "grown P s t \<Longrightarrow> (\<And>e. P e \<Longrightarrow> Q e) \<Longrightarrow> grown Q s t"
  unfolding grown_def by (metis list.pred_mono_strong)

lemma grown_events: "grown P s t \<Longrightarrow> list_all P (new_events s t)"
  unfolding grown_def by (elim exE conjE) (simp add: new_events_def list_all_iff)

lemma grown_after: "grown P s (after s es) = list_all P es"
  unfolding grown_def by (auto simp: list_all_iff)

lemma io_event_try: "io_event e \<Longrightarrow> \<not> own_try e" "\<not> own_try e \<Longrightarrow> \<not> blocked_try e"
  by (auto simp: own_try_def blocked_try_def)

text \<open>A relation that looks at the bits, the kernel's operations and the log only.\<close>

locale driver_frame = hw_frame R for R +
  assumes R_fields: "hw_os t = hw_os s \<Longrightarrow> hw_state t = hw_state s \<Longrightarrow> hw_log t = hw_log s \<Longrightarrow> R s t"
begin

lemma keeps_update: "(\<And>s. hw_os (f s) = hw_os s \<and> hw_state (f s) = hw_state s \<and> hw_log (f s) = hw_log s) \<Longrightarrow> keeps R (modify f)"
  by (rule keeps_modify) (simp add: R_fields)

end

interpretation inside: driver_frame locked_rel
proof unfold_locales
  show "locked_rel s s" for s by (simp add: locked_rel_def grown_refl)
  show "locked_rel s u" if "locked_rel s t" "locked_rel t u" for s t u
    using that by (auto simp: locked_rel_def intro: grown_trans)
  show "locked_rel s (s\<lparr>hw_log := e # hw_log s\<rparr>)" if "io_event e" for s e
    using that by (simp add: locked_rel_def lock_state_def grown_event io_event_try)
  show "locked_rel s t" if "hw_os t = hw_os s" "hw_state t = hw_state s" "hw_log t = hw_log s" for s t
    using that by (simp add: locked_rel_def lock_state_def grown_same)
qed

interpretation anywhere: driver_frame "any_rel pos" for pos
proof unfold_locales
  show "any_rel pos s s" for s by (simp add: any_rel_def grown_refl)
  show "any_rel pos s u" if "any_rel pos s t" "any_rel pos t u" for s t u
    using that by (auto simp: any_rel_def intro: grown_trans)
  show "any_rel pos s (s\<lparr>hw_log := e # hw_log s\<rparr>)" if "io_event e" for s e
    using that by (simp add: any_rel_def grown_event io_event_try)
  show "any_rel pos s t" if "hw_os t = hw_os s" "hw_state t = hw_state s" "hw_log t = hw_log s" for s t
    using that by (simp add: any_rel_def grown_same)
qed

interpretation outside: driver_frame "free_rel pos" for pos
proof unfold_locales
  show "free_rel pos s s" for s by (simp add: free_rel_def grown_refl)
  show "free_rel pos s u" if "free_rel pos s t" "free_rel pos t u" for s t u
    using that by (auto simp: free_rel_def intro: grown_trans)
  show "free_rel pos s (s\<lparr>hw_log := e # hw_log s\<rparr>)" if "io_event e" for s e
    using that by (simp add: free_rel_def swflag_held_def grown_event io_event_try)
  show "free_rel pos s t" if "hw_os t = hw_os s" "hw_state t = hw_state s" "hw_log t = hw_log s" for s t
    using that by (simp add: free_rel_def swflag_held_def grown_same)
qed

lemma locked_any: "keeps locked_rel m \<Longrightarrow> keeps (any_rel pos) m"
  by (erule keeps_mono) (auto simp: locked_rel_def any_rel_def lock_state_def elim!: grown_mono dest: io_event_try)

lemma locked_free: "keeps locked_rel m \<Longrightarrow> keeps (free_rel pos) m"
  by (erule keeps_mono) (auto simp: locked_rel_def free_rel_def lock_state_def swflag_held_def elim!: grown_mono dest: io_event_try)

subsection \<open>The two halves of the lock\<close>

interpretation gn: hw_frame "grown (\<lambda>e. \<not> own_try e)"
  by unfold_locales (auto intro: grown_refl grown_trans grown_event simp: io_event_try)

lemma grown_clear: "keeps (grown (\<lambda>e. \<not> own_try e)) (clear_bit_op nr)"
  by (rule keepsI) (simp add: run_clear_bit_op grown_def after_def own_try_def split: prod.split)

lemma release_free:
  assumes "bits_law (hw_os s) pos"
  shows "bits_law (hw_os (snd (run_state e1000_release_swflag_ich8lan s))) pos"
    "\<not> swflag_held pos (snd (run_state e1000_release_swflag_ich8lan s))"
    "grown (\<lambda>e. \<not> blocked_try e) s (snd (run_state e1000_release_swflag_ich8lan s))"
proof -
  have "keeps (grown (\<lambda>e. \<not> own_try e)) e1000_release_swflag_ich8lan"
    unfolding e1000_release_swflag_ich8lan_def by (intro gn.hw_intros grown_clear)
  from keeps_run [OF this, of s] show "grown (\<lambda>e. \<not> blocked_try e) s (snd (run_state e1000_release_swflag_ich8lan s))"
    by (rule grown_mono) (rule io_event_try)
  show "bits_law (hw_os (snd (run_state e1000_release_swflag_ich8lan s))) pos"
    "\<not> swflag_held pos (snd (run_state e1000_release_swflag_ich8lan s))"
    using assms swl.rel_free [of pos s] by (metis swflag_ok_def surjective_pairing)+
qed

lemma keeps_after: "(\<And>a. keeps R (f a)) \<Longrightarrow> R (snd (run_state m s)) (snd (run_state (State_Monad.bind m f) s))"
  by (simp add: case_prod_beta keeps_run)

lemma acquire_free:
  assumes law: "bits_law (hw_os s) pos" and free: "\<not> swflag_held pos s"
  shows "bits_law (hw_os (snd (run_state e1000_acquire_swflag_ich8lan s))) pos"
    "grown (\<lambda>e. \<not> blocked_try e) s (snd (run_state e1000_acquire_swflag_ich8lan s))"
    "fst (run_state e1000_acquire_swflag_ich8lan s) \<noteq> 0 \<Longrightarrow> \<not> swflag_held pos (snd (run_state e1000_acquire_swflag_ich8lan s))"
proof -
  obtain r t where a: "run_state e1000_acquire_swflag_ich8lan s = (r, t)" by fastforce
  show "bits_law (hw_os (snd (run_state e1000_acquire_swflag_ich8lan s))) pos"
    using swl.acq_got [of pos s t] swl.acq_failed [of pos s r t] law a
    by (cases "r = 0") (simp_all add: swflag_ok_def)
  show "fst (run_state e1000_acquire_swflag_ich8lan s) \<noteq> 0 \<Longrightarrow> \<not> swflag_held pos (snd (run_state e1000_acquire_swflag_ich8lan s))"
    using swl.acq_failed [of pos s r t] law free a by (simp add: swflag_ok_def)
  have "grown (\<lambda>e. \<not> own_try e) (snd (run_state (test_and_set_bit state_access_shared_resource) s))
      (snd (run_state e1000_acquire_swflag_ich8lan s))"
    unfolding e1000_acquire_swflag_ich8lan_def
    by (rule keeps_after) (intro gn.hw_intros gn.keeps_swflag_poll grown_clear)
  moreover have "grown (\<lambda>e. \<not> blocked_try e) s (snd (run_state (test_and_set_bit state_access_shared_resource) s))"
    using law free by (simp add: run_test_and_set bits_law_def swflag_held_def grown_def after_def blocked_try_def)
  ultimately show "grown (\<lambda>e. \<not> blocked_try e) s (snd (run_state e1000_acquire_swflag_ich8lan s))"
    by (metis (no_types, lifting) grown_mono grown_trans io_event_try(2))
qed

lemma bracket_free:
  assumes "keeps (any_rel pos) body"
  shows "keeps (free_rel pos) (swf_bracket fail body)"
proof (rule keepsI)
  fix s
  obtain r u where a: "run_state e1000_acquire_swflag_ich8lan s = (r, u)" by fastforce
  obtain x v where b: "run_state body u = (x, v)" by fastforce
  obtain w where c: "run_state e1000_release_swflag_ich8lan v = ((), w)" by (metis old.unit.exhaust surj_pair)
  show "free_rel pos s (snd (run_state (swf_bracket fail body) s))"
  proof (cases "bits_law (hw_os s) pos \<and> \<not> swflag_held pos s")
    case True
    then have l: "bits_law (hw_os s) pos" and f: "\<not> swflag_held pos s" by auto
    note q = acquire_free [OF l f, unfolded a, simplified]
    have "any_rel pos u v" using keeps_run [OF assms, of u] b by simp
    then have v: "bits_law (hw_os v) pos" "grown (\<lambda>e. \<not> blocked_try e) u v" using q by (auto simp: any_rel_def)
    from release_free [OF v(1)] c have "bits_law (hw_os w) pos" "\<not> swflag_held pos w" "grown (\<lambda>e. \<not> blocked_try e) v w"
      by auto
    then show ?thesis
      using a b c q v by (auto simp: bracket_def free_rel_def intro: grown_trans)
  qed (auto simp: free_rel_def)
qed

lemma bracket_then:
  assumes "keeps (any_rel pos) body" and "\<And>x. keeps (free_rel pos) (k x)" and "\<And>e. keeps (free_rel pos) (h e)"
  shows "keeps (free_rel pos) (do { r \<leftarrow> e1000_acquire_swflag_ich8lan; if r \<noteq> 0 then h r
     else do { x \<leftarrow> body; e1000_release_swflag_ich8lan; k x } })" (is "keeps _ ?m")
proof -
  have "?m = do { y \<leftarrow> swf_bracket Inl (do { x \<leftarrow> body; ret (Inr x) });
      case y of Inl e \<Rightarrow> h e | Inr x \<Rightarrow> k x }"
    by (rule state.expand, rule ext) (simp add: bracket_def split: prod.split)
  moreover have "keeps (free_rel pos) \<dots>"
    by (intro outside.hw_intros bracket_free anywhere.hw_intros assms)
  ultimately show ?thesis by simp
qed

text \<open>The other nesting: the lock given back for a while.\<close>

lemma unlocked_any:
  assumes "keeps (free_rel pos) m"
  shows "keeps (any_rel pos) (do { e1000_release_swflag_ich8lan; r \<leftarrow> m; e1000_acquire_swflag_ich8lan; ret (f r) })"
proof (rule keepsI)
  fix s
  obtain w where c: "run_state e1000_release_swflag_ich8lan s = ((), w)" by (metis old.unit.exhaust surj_pair)
  obtain x v where b: "run_state m w = (x, v)" by fastforce
  obtain r u where a: "run_state e1000_acquire_swflag_ich8lan v = (r, u)" by fastforce
  show "any_rel pos s (snd (run_state (do { e1000_release_swflag_ich8lan; r \<leftarrow> m; e1000_acquire_swflag_ich8lan; ret (f r) }) s))"
  proof (cases "bits_law (hw_os s) pos")
    case True
    from release_free [OF this] c have w: "bits_law (hw_os w) pos" "\<not> swflag_held pos w" "grown (\<lambda>e. \<not> blocked_try e) s w"
      by auto
    have "free_rel pos w v" using keeps_run [OF assms, of w] b by simp
    with w have v: "bits_law (hw_os v) pos" "\<not> swflag_held pos v" "grown (\<lambda>e. \<not> blocked_try e) w v"
      by (auto simp: free_rel_def)
    from acquire_free [OF v(1,2)] a have "bits_law (hw_os u) pos" "grown (\<lambda>e. \<not> blocked_try e) v u" by auto
    then show ?thesis
      using a b c w v by (auto simp: any_rel_def intro: grown_trans)
  qed (auto simp: any_rel_def)
qed

subsection \<open>What the flows are made of\<close>

named_theorems flow "operations that keep the lock relations"

sublocale driver_frame \<subseteq> phy_frame R
  by unfold_locales (simp add: R_fields)

context driver_frame begin

lemma keeps_setters:
  "keeps R (set_phy f)" "keeps R (set_mac g)" "keeps R (set_fc h)" "keeps R (set_ich8 i)"
  "keeps R (modify (hw_bus_width_update j))" "keeps R (modify (hw_phy_update f))"
  unfolding set_phy_def set_mac_def set_fc_def set_ich8_def by (rule keeps_update; simp)+

lemma keeps_csr_modify: "keeps R (csr_modify r f)"
  unfolding csr_modify_def by (intro hw_intros)

lemma keeps_ok_then: "keeps R m \<Longrightarrow> keeps R k \<Longrightarrow> keeps R (ok_then m k)"
  unfolding ok_then_def by (intro hw_intros)

lemmas driver_intros = access_intros keeps_setters keeps_csr_modify keeps_ok_then

lemma keeps_waits:
  "keeps R (link_delay n)" "keeps R e1000e_get_cfg_done_generic" "keeps R e1000e_get_auto_rd_done"
  "keeps R e1000_lan_init_done_ich8lan" "keeps R e1000_toggle_lanphypc_pch_lpt"
  "keeps R (ulp_cable_loop k)" "keeps R e1000e_disable_pcie_master"
proof -
  have a: "keeps R (auto_rd_loop k)" "keeps R (lan_init_loop k)" "keeps R (lpcd_loop k)" "keeps R (ulp_cable_loop k)"
    "keeps R (master_disable_loop k)" for k
    by (induction k) (auto intro!: driver_intros)
  show "keeps R (link_delay n)" "keeps R e1000e_get_cfg_done_generic" "keeps R e1000e_get_auto_rd_done"
    "keeps R e1000_lan_init_done_ich8lan" "keeps R e1000_toggle_lanphypc_pch_lpt"
    "keeps R (ulp_cable_loop k)" "keeps R e1000e_disable_pcie_master"
    unfolding link_delay_def e1000e_get_cfg_done_generic_def e1000e_get_auto_rd_done_def
      e1000_lan_init_done_ich8lan_def e1000_toggle_lanphypc_pch_lpt_def e1000e_disable_pcie_master_def
    by (intro driver_intros a)+
qed

lemma keeps_switches:
  "keeps R unmanaged_82579" "keeps R (e1000_gate_hw_phy_config_ich8lan b)" "keeps R i217_rev6"
  "keeps R k1_off_config" "keeps R (ulp_out st r)" "keeps R (ulp_disable_me b)" "keeps R e1000_check_reset_block_ich8lan"
  "keeps R e1000_check_mng_mode_ich8lan" "keeps R e1000_check_mng_mode_pchlan"
proof -
  have a: "keeps R (ulp_done_loop k)" "keeps R (reset_block_loop k)" for k
    by (induction k) (auto intro!: driver_intros)
  show "keeps R unmanaged_82579" "keeps R (e1000_gate_hw_phy_config_ich8lan b)" "keeps R i217_rev6"
    "keeps R k1_off_config" "keeps R (ulp_out st r)" "keeps R (ulp_disable_me b)" "keeps R e1000_check_reset_block_ich8lan"
    "keeps R e1000_check_mng_mode_ich8lan" "keeps R e1000_check_mng_mode_pchlan"
    unfolding unmanaged_82579_def e1000_gate_hw_phy_config_ich8lan_def i217_rev6_def k1_off_config_def
      ulp_out_def ulp_disable_me_def e1000_check_reset_block_ich8lan_def e1000_check_mng_mode_ich8lan_def e1000_check_mng_mode_pchlan_def
    by (intro driver_intros a)+
qed

lemma keeps_fc:
  "keeps R e1000e_get_speed_and_duplex_copper" "keeps R e1000e_force_mac_fc" "keeps R e1000e_set_fc_watermarks"
  "keeps R config_fc_forced" "keeps R config_fc_serdes_guard" "keeps R (fc_resolved p a lp la)"
  "keeps R e1000e_config_collision_dist_generic" "keeps R (cable_lengths m n)" "keeps R info_undefined"
proof -
  show f: "keeps R e1000e_force_mac_fc" and r: "keeps R (fc_resolved p a lp la)" for p a lp la
    unfolding e1000e_force_mac_fc_def fc_resolved_def by (intro driver_intros)+
  show "keeps R e1000e_get_speed_and_duplex_copper" "keeps R e1000e_set_fc_watermarks"
    "keeps R config_fc_forced" "keeps R config_fc_serdes_guard"
    "keeps R e1000e_config_collision_dist_generic" "keeps R (cable_lengths m n)" "keeps R info_undefined"
    unfolding e1000e_get_speed_and_duplex_copper_def e1000e_set_fc_watermarks_def config_fc_forced_def
      config_fc_serdes_guard_def config_fc_serdes_def e1000e_config_collision_dist_generic_def cable_lengths_def info_undefined_def
    by (intro driver_intros f r)+
qed

text \<open>The accessors that are called with the lock held do not look at the table of operations.\<close>

lemma keeps_held:
  "keeps R body \<Longrightarrow> keeps R (hv_locked ops True fail body)"
  "keeps R body \<Longrightarrow> keeps R (phy_locked ops True skip fail body)"
  unfolding hv_locked_def phy_locked_def by (simp_all add: cwhen_def driver_intros)

lemma keeps_held_access:
  "keeps R (e1000_read_phy_reg_hv_locked ops r d)" "keeps R (e1000_write_phy_reg_hv_locked ops r d)"
  "keeps R (e1000_read_phy_reg_page_hv ops r d)" "keeps R (e1000_write_phy_reg_page_hv ops r d)"
  "keeps R (e1000e_read_kmrn_reg_locked ops r d)" "keeps R (e1000e_write_kmrn_reg_locked ops r d)"
  unfolding e1000_read_phy_reg_hv_locked_def e1000_write_phy_reg_hv_locked_def e1000_read_phy_reg_page_hv_def
    e1000_write_phy_reg_page_hv_def e1000e_read_kmrn_reg_locked_def e1000e_write_kmrn_reg_locked_def
    e1000_read_phy_reg_hv_raw_def e1000_write_phy_reg_hv_raw_def e1000_read_kmrn_reg_raw_def e1000_write_kmrn_reg_raw_def
  by (intro driver_intros keeps_held)+

lemma keeps_with_held:
  "(\<And>d. keeps R (k d)) \<Longrightarrow> keeps R (with_hv_locked ops r k)"
  "(\<And>d. keeps R (k d)) \<Longrightarrow> keeps R (with_kmrn_locked ops r k)"
  unfolding with_hv_locked_def with_kmrn_locked_def by (intro driver_intros keeps_held_access; assumption)+

lemmas held_intros = driver_intros keeps_waits keeps_switches keeps_fc keeps_held_access keeps_with_held

lemma keeps_held_flows:
  "keeps R (e1000_configure_k1_ich8lan ops b)" "keeps R (e1000_write_smbus_addr ops)"
  "keeps R (ulp_enable_locked ops b)" "keeps R (ulp_disable_locked ops b)"
  unfolding e1000_configure_k1_ich8lan_def e1000_write_smbus_addr_def ulp_enable_locked_def ulp_disable_locked_def
    ulp_oem_def ulp_smb_ctrl_def
  by (intro held_intros)+

end

context hw_frame begin

lemma keeps_flash:
  "keeps R e1000_flash_cycle_init_ich8lan" "keeps R (e1000_flash_cycle_ich8lan k)" "keeps R flash_again"
proof -
  have a: "keeps R (hsfsts_write v)" "keeps R hsfctl_read" "keeps R (hsfctl_write v)" for v
    unfolding hsfsts_write_def hsfctl_read_def hsfctl_write_def by (intro hw_intros)+
  have b: "keeps R (cycle_init_poll k v)" "keeps R (cycle_wait k v)" for k v
    by (induction k arbitrary: v) (auto intro!: hw_intros)
  show "keeps R e1000_flash_cycle_init_ich8lan" "keeps R (e1000_flash_cycle_ich8lan k)" "keeps R flash_again"
    unfolding e1000_flash_cycle_init_ich8lan_def e1000_flash_cycle_ich8lan_def flash_again_def
    by (intro hw_intros a b)+
qed

lemma keeps_flash_read:
  "keeps R (e1000_read_flash_dword_ich8lan off d)" "keeps R (e1000_read_flash_word_ich8lan off w)"
  "keeps R (e1000_read_flash_byte_ich8lan off b)"
proof -
  have a: "keeps R (read_flash_data_loop k addr sz r v)" for k addr sz r v
    by (induction k arbitrary: r) (auto intro!: hw_intros keeps_flash)
  have b: "keeps R (read_flash_data32_loop k addr r v)" for k addr r v
    by (induction k arbitrary: r) (auto intro!: hw_intros keeps_flash)
  show "keeps R (e1000_read_flash_dword_ich8lan off d)" "keeps R (e1000_read_flash_word_ich8lan off w)"
    "keeps R (e1000_read_flash_byte_ich8lan off b)"
    unfolding e1000_read_flash_dword_ich8lan_def e1000_read_flash_word_ich8lan_def e1000_read_flash_byte_ich8lan_def
      e1000_read_flash_data_ich8lan_def e1000_read_flash_data32_ich8lan_def
    by (intro hw_intros a b)+
qed

lemma keeps_bank_detect: "keeps R e1000_valid_nvm_bank_detect_ich8lan"
  unfolding e1000_valid_nvm_bank_detect_ich8lan_def bank_detect_dword_def bank_detect_byte_def
  by (intro hw_intros keeps_flash_read)

lemma keeps_nvm_read: "keeps R (e1000_read_nvm_ich8lan off n data)" "keeps R (e1000_read_nvm_spt off n data)"
proof -
  have a: "keeps R (nvm_act_offset off)" for off
    unfolding nvm_act_offset_def nvm_detect_bank_def by (intro hw_intros keeps_bank_detect)
  have b: "keeps R (read_nvm_ich8_loop k i off act data)" for k i off act data
    by (induction k arbitrary: i data) (auto intro!: hw_intros keeps_flash_read)
  have c: "keeps R (read_nvm_spt_loop k i off act dword data)" for k i off act dword data
    by (induction k i off act dword data rule: read_nvm_spt_loop.induct)
      (auto intro!: hw_intros keeps_flash_read simp: Let_def)
  show "keeps R (e1000_read_nvm_ich8lan off n data)" "keeps R (e1000_read_nvm_spt off n data)"
    unfolding e1000_read_nvm_ich8lan_def e1000_read_nvm_spt_def e1000_acquire_nvm_ich8lan_def e1000_release_nvm_ich8lan_def
    by (intro hw_intros a b c)+
qed

end

text \<open>The NVM tables of the parts: whichever of the two a part has, its reads are such reads.\<close>

definition part_nvm :: "bool \<Rightarrow> nvm_all_operations" where
  "part_nvm spt = (if spt then spt_nvm_ops else ich8_nvm_ops)"

lemma part_nvm_read:
  "op_nvm_read (part_nvm spt) = (if spt then e1000_read_nvm_spt else e1000_read_nvm_ich8lan)"
  by (simp add: part_nvm_def spt_nvm_ops_def ich8_nvm_ops_def spt_nvm_update_ops_def ich8_nvm_update_ops_def
    spt_nvm_access_def ich8_nvm_access_def nvm_operations.defs nvm_update_operations.defs nvm_all_operations.defs)

declare inside.held_intros [flow] inside.keeps_held_flows [flow] outside.held_intros [flow]

end
