(* ===== verification/LockProps.thy ===== *)
theory LockProps
  imports LockFrames
begin

section \<open>The flows of the PCH parts and the software flag\<close>

text \<open>
  The locales \<open>pch_phy\<close> and \<open>pch_link\<close> state what the flows of \<open>ich8lan.c\<close> rely on from the table of PHY
  operations; their lemmas show that each flow keeps \<open>free_rel\<close>. They are interpreted on the
  levels of \<open>ops_level\<close>: a level provides what the functions of the next one need, so that the
  property at the end speaks of the tables themselves.
\<close>

subsection \<open>Flows over a table that keeps the contract\<close>

text \<open>The contract of the table of PHY operations.\<close>

locale pch_phy =
  fixes ops :: "'p phy_all_operations_scheme" and pos :: "nat \<Rightarrow> nat"
  assumes swflag: "swflag_ops ops"
    and read_flow: "keeps (free_rel pos) (e1e_rphy ops r d)"
    and write_flow: "keeps (free_rel pos) (e1e_wphy ops r v)"
    and read_held: "keeps locked_rel (op_phy_read_reg_locked ops r d)"
    and write_held: "keeps locked_rel (op_phy_write_reg_locked ops r v)"
    and page_held: "keeps locked_rel (op_phy_write_reg_page ops r v)"
    and block_held: "keeps locked_rel (check_reset_block ops)"
begin

lemma block_flow [flow]: "keeps (free_rel pos) (check_reset_block ops)"
  by (rule locked_free) (rule block_held)

lemma lock_eq: "phy_lock ops body = swf_bracket id body"
  using swflag by (simp add: phy_lock_def bracket_def swflag_ops_def phy_acquire_def cong: if_cong)

lemma lock_flow_any: "keeps (any_rel pos) body \<Longrightarrow> keeps (free_rel pos) (phy_lock ops body)"
  unfolding lock_eq by (rule bracket_free)

lemma lock_flow [flow]: "keeps locked_rel body \<Longrightarrow> keeps (free_rel pos) (phy_lock ops body)"
  by (rule lock_flow_any) (rule locked_any)

lemma kmrn_flow [flow]:
  "keeps (free_rel pos) (e1000e_read_kmrn_reg ops r d)" "keeps (free_rel pos) (e1000e_write_kmrn_reg ops r v)"
  unfolding e1000e_read_kmrn_reg_def e1000e_write_kmrn_reg_def e1000_read_kmrn_reg_raw_def
    e1000_write_kmrn_reg_raw_def access_brackets(2) [OF swflag]
  by (intro bracket_free anywhere.hw_intros)+

lemmas [flow] = read_flow write_flow page_held block_held

lemma held_access [flow]:
  "keeps locked_rel (e1e_rphy_locked ops r d)" "keeps locked_rel (e1e_wphy_locked ops r v)"
  unfolding e1e_rphy_locked_def e1e_wphy_locked_def by (rule read_held write_held)+

lemma with_access [flow]:
  "(\<And>d. keeps (free_rel pos) (k d)) \<Longrightarrow> keeps (free_rel pos) (with_phy ops r k)"
  "(\<And>d. keeps locked_rel (k d)) \<Longrightarrow> keeps locked_rel (with_phy_locked ops r k)"
  unfolding with_phy_def with_phy_locked_def by (intro flow; assumption)+

lemma emi_held [flow]:
  "keeps locked_rel (e1000_read_emi_reg_locked ops a d)" "keeps locked_rel (e1000_write_emi_reg_locked ops a d)"
  "(\<And>d. keeps locked_rel (k d)) \<Longrightarrow> keeps locked_rel (with_emi ops a k)"
proof -
  have a: "keeps locked_rel (e1000_access_emi_reg_locked_raw ops a d b)" for a d b
    unfolding e1000_access_emi_reg_locked_raw_def by (intro flow)
  show r: "keeps locked_rel (e1000_read_emi_reg_locked ops a d)" for a d
    unfolding e1000_read_emi_reg_locked_def by (rule a)
  show "keeps locked_rel (e1000_write_emi_reg_locked ops a d)"
    unfolding e1000_write_emi_reg_locked_def by (intro flow a)
  show "keeps locked_rel (with_emi ops a k)" if "\<And>d. keeps locked_rel (k d)"
    unfolding with_emi_def by (intro flow r that)
qed

lemma link_flow [flow]:
  "keeps (free_rel pos) (e1000e_phy_has_link_generic ops n us)" "keeps (free_rel pos) (e1000_wait_autoneg ops)"
proof -
  have "keeps (free_rel pos) (phy_has_link_loop n ops us e)" "keeps (free_rel pos) (wait_autoneg_loop n ops e)" for n e
    by (induction n arbitrary: e) (auto intro!: flow)
  then show "keeps (free_rel pos) (e1000e_phy_has_link_generic ops n us)" "keeps (free_rel pos) (e1000_wait_autoneg ops)"
    unfolding e1000e_phy_has_link_generic_def e1000_wait_autoneg_def by blast+
qed

lemma setup_flow [flow]:
  "keeps (free_rel pos) (e1000_set_master_slave_mode ops)" "keeps (free_rel pos) (e1000_copper_link_autoneg ops)"
  "keeps (free_rel pos) (e1000e_phy_sw_reset ops)" "keeps (free_rel pos) (check_polarity ops r b)"
  "keeps (free_rel pos) (e1000_set_mdio_slow_mode_hv ops)"
  "keeps (free_rel pos) (force_wait_link ops)"
  "keeps (free_rel pos) (e1000e_check_downshift ops)"
  "keeps (free_rel pos) (e1000_power_up_phy_copper ops)"
  "keeps (free_rel pos) (e1000_power_down_phy_copper ops)"
  "keeps (free_rel pos) (e1000_link_stall_workaround_hv ops g)"
  unfolding e1000_set_master_slave_mode_def e1000_copper_link_autoneg_def e1000_phy_setup_autoneg_def
    e1000e_phy_sw_reset_def check_polarity_def e1000_set_mdio_slow_mode_hv_def force_wait_link_def
    e1000e_check_downshift_def e1000_power_up_phy_copper_def e1000_power_down_phy_copper_def
    e1000_link_stall_workaround_hv_def
  by (intro flow)+

lemma when_link_flow: "keeps (free_rel pos) k \<Longrightarrow> keeps (free_rel pos) (when_link ops k)"
  unfolding when_link_def by (intro flow)

lemma polarity_flow [flow]:
  "keeps (free_rel pos) (e1000_check_polarity_m88 ops)" "keeps (free_rel pos) (e1000_check_polarity_82577 ops)"
  "keeps (free_rel pos) (e1000e_get_cable_length_m88 ops)" "keeps (free_rel pos) (e1000_get_cable_length_82577 ops)"
  unfolding e1000_check_polarity_m88_def e1000_check_polarity_82577_def e1000e_get_cable_length_m88_def
    e1000_get_cable_length_82577_def
  by (intro flow)+

lemma id_flow [flow]: "keeps (free_rel pos) (e1000e_get_phy_id ops)"
proof -
  have "keeps (free_rel pos) (get_phy_id_loop n ops d)" for n d
    by (induction n arbitrary: d) (auto intro!: flow)
  then show ?thesis unfolding e1000e_get_phy_id_def by (intro flow)
qed

lemma eee_flow [flow]: "keeps (free_rel pos) (e1000_set_eee_pchlan ops g)"
proof -
  have k: "keeps locked_rel (eee_pll_shut ops k)" if "keeps locked_rel k" for k
    unfolding eee_pll_shut_def by (intro flow that)
  show ?thesis
    unfolding e1000_set_eee_pchlan_def eee_enable_def by (intro flow k; simp only:; intro flow k)
qed

lemma k1_flow [flow]:
  "keeps (free_rel pos) (e1000_k1_workaround_lpt_lp ops link)" "keeps (free_rel pos) (e1000_k1_gig_workaround_hv ops link)"
  "keeps (free_rel pos) (e1000_k1_workaround_lv ops)"
proof -
  have s: "keeps locked_rel (k1_step ops ty reg m up e)" for ty reg m up e
    unfolding k1_step_def by (intro flow)
  show "keeps (free_rel pos) (e1000_k1_workaround_lpt_lp ops link)" "keeps (free_rel pos) (e1000_k1_gig_workaround_hv ops link)"
    "keeps (free_rel pos) (e1000_k1_workaround_lv ops)"
    unfolding e1000_k1_workaround_lpt_lp_def e1000_k1_gig_workaround_hv_def e1000_k1_workaround_lv_def
    by (intro flow s)+
qed

lemma oem_flow [flow]: "keeps (free_rel pos) (e1000_oem_bits_config_ich8lan ops d0)"
  unfolding e1000_oem_bits_config_ich8lan_def oem_bits_locked_def by (intro flow)

lemma lplu_flow [flow]: "keeps (free_rel pos) (e1000_set_lplu_state_pchlan ops act)"
  unfolding e1000_set_lplu_state_pchlan_def by (intro flow)

lemma hv_flow [flow]:
  "keeps (free_rel pos) (e1000_hv_phy_workarounds_ich8lan ops)" "keeps (free_rel pos) (e1000_lv_phy_workarounds_ich8lan ops)"
  unfolding e1000_hv_phy_workarounds_ich8lan_def e1000_lv_phy_workarounds_ich8lan_def hv_preamble_tuning_def hv_soft_reset_82578_def
  by (intro flow)+

lemma lcd_flow [flow]:
  assumes "\<And>w. keeps locked_rel (e1000_read_nvm1 nops w)"
  shows "keeps (free_rel pos) (e1000_sw_lcd_config_ich8lan ops nops)"
proof -
  have a: "keeps locked_rel (lcd_config_loop n i ops nops w p)" for n i w p
    by (induction n arbitrary: i p) (auto intro!: flow assms)
  show ?thesis
    unfolding e1000_sw_lcd_config_ich8lan_def lcd_config_locked_def lcd_config_leds_def by (intro flow a)
qed

lemma post_reset_flow [flow]:
  assumes "\<And>w. keeps locked_rel (e1000_read_nvm1 nops w)"
  shows "keeps (free_rel pos) (e1000_post_phy_reset_ich8lan ops nops g)"
  unfolding e1000_post_phy_reset_ich8lan_def clear_host_wakeup_def post_reset_82579_def by (intro flow assms)

lemma downshift_flow [flow]: "keeps (free_rel pos) (e1000e_gig_downshift_workaround_ich8lan ops)"
  unfolding e1000e_gig_downshift_workaround_ich8lan_def by (intro flow)

text \<open>The search for the PHY gives the lock back and takes it again.\<close>

lemma accessible_any: "keeps (any_rel pos) (e1000_phy_is_accessible_pchlan ops)"
proof -
  have loop: "keeps (any_rel pos) (phy_accessible_loop n ops r i p)" for n r i p
    by (rule locked_any) (induction n arbitrary: r i p, auto intro!: flow)
  have known: "keeps (any_rel pos) (phy_id_known i p)" for i p
    unfolding phy_id_known_def by (rule locked_any) (intro flow)
  have smbus: "keeps (any_rel pos) (unforce_smbus ops p)" for p
    unfolding unforce_smbus_def by (rule locked_any) (intro flow)
  have "keeps (free_rel pos) (ok_then (e1000_set_mdio_slow_mode_hv ops) (e1000e_get_phy_id ops))"
    by (intro flow)
  from unlocked_any [OF this, of id] have retry: "keeps (any_rel pos) (do {
           op_phy_release ops;
           ret_val \<leftarrow> ok_then (e1000_set_mdio_slow_mode_hv ops) (e1000e_get_phy_id ops);
           phy_acquire ops;
           ret ret_val })"
    using swflag by (simp add: swflag_ops_def phy_acquire_def)
  show ?thesis
    unfolding e1000_phy_is_accessible_pchlan_def by (intro anywhere.hw_intros loop known smbus retry)
qed

lemma wa_any: "keeps (any_rel pos) (wa_switch ops fwsm)"
  unfolding wa_switch_def wa_pch_lpt_def wa_pch2lan_def wa_pchlan_def
  by (intro anywhere.held_intros accessible_any locked_any [OF block_held])

lemma ulp_enable_flow [flow]: "keeps (free_rel pos) (e1000_enable_ulp_lpt_lp ops to_sx)"
  unfolding e1000_enable_ulp_lpt_lp_def by (intro flow)

lemma suspend_i217_flow [flow]: "keeps (free_rel pos) (suspend_i217 ops c g)"
proof -
  have m: "keeps locked_rel (phy_modify_locked ops r f d)" for r f d
    unfolding phy_modify_locked_def by (intro flow)
  have "keeps locked_rel (suspend_i217_locked ops c g)"
    unfolding suspend_i217_locked_def suspend_eee_def by (intro flow m)
  from bracket_free [OF locked_any, OF this, of pos "\<lambda>_. c"]
  have block: "keeps (free_rel pos) (do {
     ret_val \<leftarrow> phy_acquire ops;
     if ret_val \<noteq> 0 then ret c
     else do {
       phy_ctrl \<leftarrow> suspend_i217_locked ops c g;
       op_phy_release ops;
       ret phy_ctrl } })"
    using swflag by (simp add: bracket_def swflag_ops_def phy_acquire_def cong: if_cong)
  show ?thesis
    unfolding suspend_i217_def
    by (rule outside.keeps_bind, intro flow, rule outside.keeps_bind, intro flow, rule block)
qed

lemma link_config_flow:
  assumes "keeps (free_rel pos) (op_get_link_up_info mops)"
  shows "keeps (free_rel pos) (check_link_config mops ops link g)"
proof -
  have m: "keeps locked_rel (phy_modify_locked ops r f d)" for r f d
    unfolding phy_modify_locked_def by (intro flow)
  have p: "keeps (free_rel pos) (e1000_platform_pm_pch_lpt mops link)" for link
    unfolding e1000_platform_pm_pch_lpt_def ltr_latency_def by (intro flow assms)
  show ?thesis
    unfolding check_link_config_def check_link_up_config_def pll_clock_gate_def ptr_gap_locked_def by (intro flow m p)
qed

lemma fc_flow:
  assumes "keeps (free_rel pos) (op_get_link_up_info mops)"
  shows "keeps (free_rel pos) (e1000e_config_fc_after_link_up mops ops)"
  unfolding e1000e_config_fc_after_link_up_def config_fc_copper_def by (intro flow assms)

lemma check_link_flow:
  assumes "keeps (free_rel pos) (op_get_link_up_info mops)" "keeps (free_rel pos) (op_config_collision_dist mops)"
  shows "keeps (free_rel pos) (e1000_check_for_copper_link_ich8lan mops ops g)"
  unfolding e1000_check_for_copper_link_ich8lan_def check_link_workarounds_def check_link_preamble_def
  by (intro flow link_config_flow fc_flow assms)

lemma cfg_done_flow: "keeps (free_rel pos) (e1000_get_cfg_done_ich8lan ops)"
  unfolding e1000_get_cfg_done_ich8lan_def e1000e_phy_init_script_igp3_def
  by (intro flow outside.keeps_bank_detect)

lemma hw_reset_flow:
  assumes "keeps (free_rel pos) (op_phy_get_cfg_done ops)"
  shows "keeps (free_rel pos) (e1000e_phy_hw_reset_generic ops)"
proof -
  have a: "phy_acquire ops = e1000_acquire_swflag_ich8lan" "op_phy_release ops = e1000_release_swflag_ich8lan"
    using swflag by (simp_all add: swflag_ops_def phy_acquire_def)
  let ?body = "do {
       ctrl \<leftarrow> er32 E1000_CTRL;
       ew32 E1000_CTRL (ctrl OR E1000_CTRL_PHY_RST);
       e1e_flush;
       delay \<leftarrow> gets (\<lambda>s. phy_reset_delay_us (hw_phy s));
       udelay (unat delay);
       ew32 E1000_CTRL ctrl;
       e1e_flush;
       usleep_range 150 300 }"
  have "keeps (any_rel pos) ?body" by (intro anywhere.hw_intros)
  from bracket_then [OF this, where k = "\<lambda>_. op_phy_get_cfg_done ops" and h = ret, OF assms outside.keeps_ret]
  have body: "keeps (free_rel pos) (ok_then e1000_acquire_swflag_ich8lan (do {
       ctrl \<leftarrow> er32 E1000_CTRL;
       ew32 E1000_CTRL (ctrl OR E1000_CTRL_PHY_RST);
       e1e_flush;
       delay \<leftarrow> gets (\<lambda>s. phy_reset_delay_us (hw_phy s));
       udelay (unat delay);
       ew32 E1000_CTRL ctrl;
       e1e_flush;
       usleep_range 150 300;
       e1000_release_swflag_ich8lan;
       op_phy_get_cfg_done ops }))"
    by (simp add: ok_then_def cong: if_cong)
  have blk: "keeps (free_rel pos) (case op_phy_check_reset_block ops of None \<Rightarrow> ret 0 | Some f \<Rightarrow> f)"
    using block_flow by (cases "op_phy_check_reset_block ops") (simp_all add: check_reset_block_def outside.keeps_ret)
  show ?thesis
    unfolding e1000e_phy_hw_reset_generic_def a by (intro outside.hw_intros blk body)
qed

lemma phy_reset_flow:
  assumes "keeps (free_rel pos) (op_phy_get_cfg_done ops)" and "\<And>w. keeps locked_rel (e1000_read_nvm1 nops w)"
  shows "keeps (free_rel pos) (e1000_phy_hw_reset_ich8lan ops nops g)"
  unfolding e1000_phy_hw_reset_ich8lan_def by (intro flow hw_reset_flow assms)

lemma info_flow:
  assumes "keeps (free_rel pos) (op_phy_get_cable_length ops)"
  shows "keeps (free_rel pos) (e1000_get_phy_info_82577 ops)" "keeps (free_rel pos) (e1000e_get_phy_info_m88 ops)"
proof -
  have i: "keeps (free_rel pos) (info_1000 ops)"
    unfolding info_1000_def by (intro flow assms)
  show "keeps (free_rel pos) (e1000_get_phy_info_82577 ops)" "keeps (free_rel pos) (e1000e_get_phy_info_m88 ops)"
    unfolding e1000_get_phy_info_82577_def e1000e_get_phy_info_m88_def by (intro flow i when_link_flow)+
qed

lemma force_flow:
  assumes "keeps (free_rel pos) (op_config_collision_dist mops)"
    and "\<And>c. op_phy_commit ops = Some c \<Longrightarrow> keeps (free_rel pos) c"
  shows "keeps (free_rel pos) (e1000_phy_force_speed_duplex_82577 mops ops)"
    "keeps (free_rel pos) (e1000e_phy_force_speed_duplex_m88 mops ops)"
proof -
  have c: "keeps (free_rel pos) (case op_phy_commit ops of None \<Rightarrow> ret 0 | Some c \<Rightarrow> c)"
    using assms(2) by (cases "op_phy_commit ops") (simp_all add: outside.keeps_ret)
  have s: "keeps (free_rel pos) (e1000e_phy_force_speed_duplex_setup mops v)" for v
    unfolding e1000e_phy_force_speed_duplex_setup_def by (intro flow assms)
  have w: "keeps (free_rel pos) (m88_force_wait ops)"
    unfolding m88_force_wait_def e1000e_phy_reset_dsp_def by (intro flow)
  show "keeps (free_rel pos) (e1000_phy_force_speed_duplex_82577 mops ops)"
    unfolding e1000_phy_force_speed_duplex_82577_def by (intro s flow)
  show "keeps (free_rel pos) (e1000e_phy_force_speed_duplex_m88 mops ops)"
    unfolding e1000e_phy_force_speed_duplex_m88_def by (intro c s w flow)
qed

lemma power_down_flow:
  assumes "keeps (free_rel pos) (op_check_mng_mode mops)"
  shows "keeps (free_rel pos) (e1000_power_down_phy_copper_ich8lan mops ops)"
  unfolding e1000_power_down_phy_copper_ich8lan_def by (intro flow assms)

end

text \<open>With the operations that reset the PHY and set up its link.\<close>

locale pch_link = pch_phy ops pos
  for ops :: "'p phy_page_operations_scheme" and pos +
  assumes cfg_flow: "keeps (free_rel pos) (op_phy_get_cfg_done ops)"
    and reset_flow: "keeps (free_rel pos) (op_phy_reset ops)"
    and commit_flow: "\<exists>c. op_phy_commit ops = Some c \<and> keeps (free_rel pos) c"
    and force_op_flow: "keeps (free_rel pos) (op_phy_force_speed_duplex ops)"
    and lplu_op_flow: "op_phy_set_d0_lplu_state ops = Some f \<Longrightarrow> keeps (free_rel pos) (f b)"
    and set_page_held: "keeps locked_rel (op_phy_set_page ops p)"
    and read_page_held: "keeps locked_rel (op_phy_read_reg_page ops r d)"
begin

lemmas [flow] = hw_reset_flow [OF cfg_flow] force_op_flow set_page_held read_page_held cfg_flow reset_flow

lemma commit_case [flow]: "keeps (free_rel pos) (case op_phy_commit ops of None \<Rightarrow> ret 0 | Some c \<Rightarrow> c)"
    "keeps (free_rel pos) (the (op_phy_commit ops))"
  using commit_flow by auto

lemma lplu_case [flow]: "keeps (free_rel pos) (case op_phy_set_d0_lplu_state ops of None \<Rightarrow> ret 0 | Some f \<Rightarrow> f b)"
  using lplu_op_flow by (cases "op_phy_set_d0_lplu_state ops") (simp_all add: outside.keeps_ret)

lemma ulp_disable_flow [flow]: "keeps (free_rel pos) (e1000_disable_ulp_lpt_lp ops force)"
proof -
  have a: "phy_acquire ops = e1000_acquire_swflag_ich8lan" "op_phy_release ops = e1000_release_swflag_ich8lan"
    using swflag by (simp_all add: swflag_ops_def phy_acquire_def)
  have e: "keeps (free_rel pos) (ulp_out e1000_ulp_state_off r)" for r by (intro flow)
  have k: "keeps (free_rel pos) (do { cwhen force (do { op_phy_reset ops; msleep 50 });
      ulp_out e1000_ulp_state_off r })" for r
    by (intro flow)
  have "keeps (any_rel pos) (ulp_disable_locked ops force)"
    by (rule locked_any) (intro flow)
  note sw = bracket_then [OF this, where k = "\<lambda>x. do { cwhen force (do { op_phy_reset ops; msleep 50 });
      ulp_out e1000_ulp_state_off x }" and h = "ulp_out e1000_ulp_state_off", OF k e]
  show ?thesis
    unfolding e1000_disable_ulp_lpt_lp_def a by (intro sw outside.hw_intros outside.keeps_switches)
qed

lemma init_wa_flow [flow]: "keeps (free_rel pos) (e1000_init_phy_workarounds_pchlan ops)"
  unfolding e1000_init_phy_workarounds_pchlan_def wa_reset_def
  by (intro lock_flow_any [OF wa_any] flow)

lemma suspend_flow [flow]: "keeps (free_rel pos) (e1000_suspend_workarounds_ich8lan ops g)"
  unfolding e1000_suspend_workarounds_ich8lan_def by (intro flow)

lemma resume_flow [flow]: "keeps (free_rel pos) (e1000_resume_workarounds_pchlan ops g)"
proof -
  have m: "keeps locked_rel (phy_modify_locked ops r f d)" for r f d
    unfolding phy_modify_locked_def by (intro flow)
  show ?thesis
    unfolding e1000_resume_workarounds_pchlan_def resume_i217_locked_def by (intro flow m)
qed

lemma cntrs_flow [flow]: "keeps (free_rel pos) (e1000_clear_hw_cntrs_ich8lan ops)"
  unfolding e1000_clear_hw_cntrs_ich8lan_def e1000e_clear_hw_cntrs_base_def by (intro flow)

lemma link_up_info_flow: "keeps (free_rel pos) (e1000_get_link_up_info_ich8lan ops)"
proof -
  have "keeps (free_rel pos) (kmrn_lock_loop n ops)" for n
    by (induction n) (auto intro!: flow)
  then show ?thesis
    unfolding e1000_get_link_up_info_ich8lan_def e1000_kmrn_lock_loss_workaround_ich8lan_def by (intro flow)
qed

lemma copper_setup_flow:
  assumes "keeps (free_rel pos) (op_get_link_up_info mops)" "keeps (free_rel pos) (op_config_collision_dist mops)"
  shows "keeps (free_rel pos) (e1000_setup_copper_link_pch_lpt mops ops)"
    "keeps (free_rel pos) (e1000_setup_copper_link_ich8lan mops ops)"
proof -
  have s: "keeps (free_rel pos) (e1000e_setup_copper_link mops ops)"
    unfolding e1000e_setup_copper_link_def by (intro flow fc_flow assms)
  have a: "keeps (free_rel pos) (e1000_copper_link_setup_82577 ops)"
    unfolding e1000_copper_link_setup_82577_def by (intro flow)
  have b: "keeps (free_rel pos) (setup_phy_family ops)"
    unfolding setup_phy_family_def e1000e_copper_link_setup_m88_def e1000e_copper_link_setup_igp_def by (intro commit_case lplu_case flow a)
  show "keeps (free_rel pos) (e1000_setup_copper_link_pch_lpt mops ops)"
    "keeps (free_rel pos) (e1000_setup_copper_link_ich8lan mops ops)"
    unfolding e1000_setup_copper_link_pch_lpt_def e1000_setup_copper_link_ich8lan_def setup_link_ctrl_def
    by (intro flow s a b)+
qed

lemma setup_link_flow:
  assumes "keeps (free_rel pos) (op_setup_physical_interface mops)"
  shows "keeps (free_rel pos) (e1000_setup_link_ich8lan mops ops)"
  unfolding e1000_setup_link_ich8lan_def by (intro flow assms)

end

subsection \<open>The reset of the MAC, which gives back the driver's bit alone\<close>

lemma clear_free:
  assumes "bits_law (hw_os s) pos"
  shows "bits_law (hw_os (snd (run_state (clear_bit_op state_access_shared_resource) s))) pos"
    "\<not> swflag_held pos (snd (run_state (clear_bit_op state_access_shared_resource) s))"
    "grown (\<lambda>e. \<not> blocked_try e) s (snd (run_state (clear_bit_op state_access_shared_resource) s))"
proof -
  have p: "pos state_access_shared_resource < 64"
    "snd (os_test_and_clear (hw_os s) state_access_shared_resource w) = unset_bit (pos state_access_shared_resource) w" for w
    using assms by (simp_all add: bits_law_def)
  show "bits_law (hw_os (snd (run_state (clear_bit_op state_access_shared_resource) s))) pos"
    "\<not> swflag_held pos (snd (run_state (clear_bit_op state_access_shared_resource) s))"
    "grown (\<lambda>e. \<not> blocked_try e) s (snd (run_state (clear_bit_op state_access_shared_resource) s))"
    using assms p by (simp_all add: run_clear_bit_op swflag_held_def grown_def after_def blocked_try_def
        bit_unset_bit_iff case_prod_beta)
qed

lemma acquire_anyway:
  assumes "keeps locked_rel body"
  shows "keeps (free_rel pos) (do { r \<leftarrow> e1000_acquire_swflag_ich8lan; body;
    cwhen (r = 0) (clear_bit_op state_access_shared_resource) })" (is "keeps _ ?m")
proof (rule keepsI)
  fix s
  obtain r u where a: "run_state e1000_acquire_swflag_ich8lan s = (r, u)" by fastforce
  obtain x v where b: "run_state body u = (x, v)" by (metis surj_pair)
  from keeps_run [OF assms, of u] b have l: "locked_rel u v" by simp
  have run: "snd (run_state ?m s) =
      (if r = 0 then snd (run_state (clear_bit_op state_access_shared_resource) v) else v)"
    using a b by simp
  show "free_rel pos s (snd (run_state ?m s))"
  proof (cases "bits_law (hw_os s) pos \<and> \<not> swflag_held pos s")
    case True
    then have "bits_law (hw_os s) pos" "\<not> swflag_held pos s" by auto
    note q = acquire_free [OF this, unfolded a, simplified]
    have v: "bits_law (hw_os v) pos" "grown (\<lambda>e. \<not> blocked_try e) u v" "swflag_held pos v = swflag_held pos u"
      using l q(1) by (auto simp: locked_rel_def lock_state_def swflag_held_def elim!: grown_mono dest: io_event_try)
    show ?thesis
      using q v clear_free [OF v(1)] unfolding run free_rel_def by (auto intro: grown_trans)
  qed (auto simp: free_rel_def)
qed

lemma reset_mac_flow: "keeps (free_rel pos) (reset_mac ctrl)"
proof -
  let ?body = "do {
     ew32 E1000_CTRL (ctrl OR E1000_CTRL_RST);
     msleep 20;
     ty \<leftarrow> gets (\<lambda>s. mac_type (hw_mac s));
     cwhen (ty = e1000_pch2lan) (csr_modify E1000_FEXTNVM3
       (\<lambda>v. (v AND NOT E1000_FEXTNVM3_PHY_CFG_COUNTER_MASK) OR E1000_FEXTNVM3_PHY_CFG_COUNTER_50MSEC)) }"
  have "keeps locked_rel ?body" by (intro flow)
  from acquire_anyway [OF this, of pos] show ?thesis by (simp add: reset_mac_def)
qed

subsection \<open>The levels of the table\<close>

lemma part_nvm_flow: "keeps locked_rel (e1000_read_nvm1 (part_nvm spt) w)"
  unfolding e1000_read_nvm1_def part_nvm_read
  by (cases spt) (simp_all add: inside.hw_intros inside.keeps_nvm_read)

lemma hv_access_flow:
  assumes "swflag_ops ops"
  shows "keeps (free_rel pos) (e1000_read_phy_reg_hv ops offset d)" "keeps (free_rel pos) (e1000_write_phy_reg_hv ops offset d)"
  unfolding e1000_read_phy_reg_hv_def e1000_read_phy_reg_hv_raw_def e1000_write_phy_reg_hv_def
    e1000_write_phy_reg_hv_raw_def access_brackets [OF assms]
  by (intro outside.keeps_let outside.keeps_bind outside.keeps_set_phy_addr bracket_free anywhere.access_intros)+

text \<open>The table of a part with a PHY of the 82577 family.\<close>

definition pch_table :: phy_table where
  "pch_table = the (pchlan_phy_family e1000_phy_82577 (pchlan_phy_table ich8_phy_ops))"

lemma pch_table_entries [simp]:
  "t_read_reg pch_table = Access_hv" "t_write_reg pch_table = Access_hv"
  "t_read_reg_locked pch_table = Some Locked_hv" "t_write_reg_locked pch_table = Some Locked_hv"
  "t_set_page pch_table" "t_read_reg_page pch_table" "t_write_reg_page pch_table"
  "t_set_d0_lplu_state pch_table = Lplu_pchlan" "t_set_d3_lplu_state pch_table = Lplu_pchlan"
  "t_power_up pch_table" "t_power_down pch_table" "t_commit pch_table"
  "t_get_cable_length pch_table = Length_82577" "t_check_polarity pch_table = Some Family_82577"
  "t_force_speed_duplex pch_table = Some Family_82577" "t_get_info pch_table = Some Family_82577"
  by (simp_all add: pch_table_def pchlan_phy_family_def pchlan_phy_table_def ich8_phy_ops_def)

abbreviation phy_lv :: "nat \<Rightarrow> mac_table \<Rightarrow> bool \<Rightarrow> (nat \<Rightarrow> u16) \<Rightarrow> phy_full_operations" where
  "phy_lv n mt spt g \<equiv> fst (ops_level n pch_table mt (part_nvm spt) g)"

abbreviation mac_lv :: "nat \<Rightarrow> mac_table \<Rightarrow> bool \<Rightarrow> (nat \<Rightarrow> u16) \<Rightarrow> mac_all_operations" where
  "mac_lv n mt spt g \<equiv> snd (ops_level n pch_table mt (part_nvm spt) g)"

lemma level_step:
  "phy_lv (Suc n) mt spt g = phy_step pch_table (part_nvm spt) g (mac_lv n mt spt g) (phy_lv n mt spt g)"
  "mac_lv (Suc n) mt spt g = mac_step mt (part_nvm spt) g (phy_lv n mt spt g) (mac_lv n mt spt g)"
  by (simp_all add: case_prod_beta)

lemma level_swflag: "swflag_ops (phy_lv (Suc n) mt spt g)"
  unfolding level_step by (simp add: swflag_ops_def phy_step_def)

interpretation lv2: pch_phy "phy_lv (Suc (Suc n)) mt spt g" pos for n mt spt g pos
proof unfold_locales
  show "swflag_ops (phy_lv (Suc (Suc n)) mt spt g)" by (rule level_swflag)
  show "keeps (free_rel pos) (e1e_rphy (phy_lv (Suc (Suc n)) mt spt g) r d)" for r d
    unfolding level_step(1) [of "Suc n"]
    by (simp add: e1e_rphy_def phy_step_def phy_read_fn_def hv_access_flow level_swflag del: ops_level.simps)
  show "keeps (free_rel pos) (e1e_wphy (phy_lv (Suc (Suc n)) mt spt g) r d)" for r d
    unfolding level_step(1) [of "Suc n"]
    by (simp add: e1e_wphy_def phy_step_def phy_write_fn_def hv_access_flow level_swflag del: ops_level.simps)
  show "keeps locked_rel (op_phy_read_reg_locked (phy_lv (Suc (Suc n)) mt spt g) r d)"
    "keeps locked_rel (op_phy_write_reg_locked (phy_lv (Suc (Suc n)) mt spt g) r d)"
    "keeps locked_rel (op_phy_write_reg_page (phy_lv (Suc (Suc n)) mt spt g) r d)"
    "keeps locked_rel (check_reset_block (phy_lv (Suc (Suc n)) mt spt g))" for r d
    unfolding level_step(1) [of "Suc n"]
    by (simp_all add: phy_step_def phy_read_locked_fn_def phy_write_locked_fn_def check_reset_block_def
        inside.keeps_held_access inside.keeps_switches del: ops_level.simps)
qed

interpretation lv4: pch_link "phy_lv (Suc (Suc (Suc (Suc n)))) mt spt g" pos for n mt spt g pos
proof unfold_locales
  let ?o = "phy_lv (Suc (Suc (Suc (Suc n)))) mt spt g"
  let ?m = "mac_lv (Suc (Suc (Suc n))) mt spt g"
  have c: "keeps (free_rel pos) (op_phy_get_cfg_done (phy_lv (Suc (Suc (Suc n))) mt spt g))" for n
    unfolding level_step(1) [of "Suc (Suc n)"]
    using lv2.cfg_done_flow by (simp add: phy_step_def del: ops_level.simps)
  show "keeps (free_rel pos) (op_phy_get_cfg_done ?o)" by (rule c)
  show "keeps (free_rel pos) (op_phy_reset ?o)"
    unfolding level_step(1) [of "Suc (Suc (Suc n))"]
    using lv2.phy_reset_flow [OF c part_nvm_flow] by (simp add: phy_step_def del: ops_level.simps)
  have k: "\<exists>c. op_phy_commit (phy_lv (Suc (Suc (Suc n))) mt spt g) = Some c \<and> keeps (free_rel pos) c" for n
    unfolding level_step(1) [of "Suc (Suc n)"]
    using lv2.setup_flow(3) by (simp add: phy_step_def del: ops_level.simps)
  then show "\<exists>c. op_phy_commit ?o = Some c \<and> keeps (free_rel pos) c" .
  have "keeps (free_rel pos) (op_config_collision_dist ?m)"
    unfolding level_step(2) [of "Suc (Suc n)"] by (simp add: mac_step_def outside.keeps_fc del: ops_level.simps)
  then show "keeps (free_rel pos) (op_phy_force_speed_duplex ?o)"
    unfolding level_step(1) [of "Suc (Suc (Suc n))"]
    using lv2.force_flow(1) [of pos ?m "Suc n" mt spt g] k [of n]
    by (fastforce simp: phy_step_def phy_force_fn_def simp del: ops_level.simps)
  show "keeps (free_rel pos) (f b)" if "op_phy_set_d0_lplu_state ?o = Some f" for f b
    using that lv2.lplu_flow unfolding level_step(1) [of "Suc (Suc (Suc n))"]
    by (auto simp: phy_step_def phy_d0_lplu_fn_def simp del: ops_level.simps)
  show "keeps locked_rel (op_phy_set_page ?o p)" "keeps locked_rel (op_phy_read_reg_page ?o r d)" for p r d
    unfolding level_step(1) [of "Suc (Suc (Suc n))"]
    by (simp_all add: phy_step_def inside.keeps_page_select inside.keeps_held_access del: ops_level.simps)
qed


subsection \<open>The MAC's operations and the whole flows\<close>

lemma rar_set_flow:
  "keeps (free_rel pos) (e1000e_rar_set_generic addr i)" "keeps (free_rel pos) (e1000_rar_set_pch2lan addr i)"
  "keeps (free_rel pos) (e1000_rar_set_pch_lpt addr i)"
proof -
  have p: "keeps (any_rel pos) (rar_write_pair lo hi addr)" "keeps (free_rel pos) (rar_write_pair lo hi addr)"
    "keeps (free_rel pos) fwsm_wlock_mac" for lo hi
    by (rule anywhere.keeps_rar_write_pair outside.keeps_rar_write_pair outside.keeps_fwsm_wlock_mac)+
  have s: "keeps (free_rel pos) (rar_write_shared lo hi addr)" for lo hi
    unfolding rar_write_shared_def by (rule bracket_then) (intro p flow)+
  show "keeps (free_rel pos) (e1000e_rar_set_generic addr i)" "keeps (free_rel pos) (e1000_rar_set_pch2lan addr i)"
    "keeps (free_rel pos) (e1000_rar_set_pch_lpt addr i)"
    unfolding e1000e_rar_set_generic_def e1000_rar_set_pch2lan_def e1000_rar_set_pch_lpt_def by (intro p s flow)+
qed

lemma led_init_flow: "keeps (free_rel pos) (e1000_id_led_init_pchlan (e1000_valid_led_default_ich8lan (part_nvm spt)))"
  unfolding e1000_id_led_init_pchlan_def id_led_init_def e1000_valid_led_default_ich8lan_def
  by (intro flow locked_free [OF part_nvm_flow])

lemma pch_mac_entries:
  assumes "ty \<ge> e1000_pchlan"
  shows "t_check_mng_mode (mac_table_for ty ich8_mac_ops) = Some Part_pchlan"
    "t_id_led_init (mac_table_for ty ich8_mac_ops) = Some Part_pchlan"
  using assms by (cases ty; simp add: mac_table_for_def mac_table_pchlan_def mac_order Let_def)+

abbreviation pch_mac :: "e1000_mac_type \<Rightarrow> mac_table" where
  "pch_mac ty \<equiv> mac_table_for ty ich8_mac_ops"

lemma mac_small:
  assumes "ty \<ge> e1000_pchlan"
  shows "keeps (free_rel pos) (op_config_collision_dist (mac_lv (Suc n) (pch_mac ty) spt g))"
    "keeps (free_rel pos) (op_rar_set (mac_lv (Suc n) (pch_mac ty) spt g) addr i)"
    "keeps (free_rel pos) (op_check_mng_mode (mac_lv (Suc n) (pch_mac ty) spt g))"
    "keeps (free_rel pos) (op_id_led_init (mac_lv (Suc n) (pch_mac ty) spt g))"
  unfolding level_step(2)
  by (simp_all add: mac_step_def pch_mac_entries [OF assms] outside.keeps_fc outside.keeps_switches led_init_flow
      rar_set_flow split: rar_fn.split)

lemma mac_link_up:
  "keeps (free_rel pos) (op_get_link_up_info (mac_lv (Suc (Suc (Suc (Suc (Suc n))))) mt spt g))"
  unfolding level_step(2) [of "Suc (Suc (Suc (Suc n)))"]
  using lv4.link_up_info_flow by (simp add: mac_step_def del: ops_level.simps)

lemma mac_setup_physical:
  assumes "ty \<ge> e1000_pchlan"
  shows "keeps (free_rel pos) (op_setup_physical_interface (mac_lv (Suc (Suc (Suc (Suc (Suc (Suc n)))))) (pch_mac ty) spt g))"
  unfolding level_step(2) [of "Suc (Suc (Suc (Suc (Suc n))))"]
  using lv4.copper_setup_flow [OF mac_link_up mac_small(1) [OF assms]]
  by (simp add: mac_step_def split: physical_fn.split del: ops_level.simps)

lemma reset_hw_flow:
  "keeps (free_rel pos) (e1000_reset_hw_ich8lan (phy_lv (Suc (Suc (Suc (Suc n)))) mt spt g) (part_nvm spt) g0)"
proof -
  have s: "keeps (free_rel pos) (save_nvm_k1 (part_nvm spt))"
    unfolding save_nvm_k1_def by (intro flow locked_free [OF part_nvm_flow])
  have q: "keeps (free_rel pos) reset_quiesce" "keeps (free_rel pos) (reset_ctrl (phy_lv (Suc (Suc (Suc (Suc n)))) mt spt g))"
    unfolding reset_quiesce_def reset_ctrl_def by (intro flow lv2.block_flow)+
  show ?thesis
    unfolding e1000_reset_hw_ich8lan_def
    by (intro flow s q reset_mac_flow lv4.cfg_flow lv2.post_reset_flow part_nvm_flow)
qed

lemma init_hw_flow:
  assumes "\<And>a i. keeps (free_rel pos) (op_rar_set mops a i)" "keeps (free_rel pos) (op_id_led_init mops)"
    "keeps (free_rel pos) (op_setup_link mops)"
  shows "keeps (free_rel pos) (e1000_init_hw_ich8lan mops (phy_lv (Suc (Suc (Suc (Suc n)))) mt spt g) (part_nvm spt) g0)"
proof -
  have a: "keeps (free_rel pos) e1000_initialize_hw_bits_ich8lan" "keeps (free_rel pos) (e1000e_set_pcie_no_snoop v)"
    "keeps (free_rel pos) (e1000e_init_rx_addrs mops c)" for v c
    unfolding e1000_initialize_hw_bits_ich8lan_def e1000e_set_pcie_no_snoop_def e1000e_init_rx_addrs_def by (intro flow assms)+
  show ?thesis
    unfolding e1000_init_hw_ich8lan_def clear_host_wakeup_def
    by (intro flow a assms lv2.read_flow lv2.write_flow lv2.phy_reset_flow lv4.cfg_flow part_nvm_flow lv4.cntrs_flow)
qed

subsection \<open>The properties\<close>

text \<open>Everything the kernel extension calls on a part with a PHY of the 82577 family; \<open>b\<close> is an argument some take.\<close>

definition pch_flows ::
  "phy_full_operations \<times> mac_all_operations \<Rightarrow> nvm_all_operations \<Rightarrow> (nat \<Rightarrow> u16) \<Rightarrow> bool \<Rightarrow> unit hwM list" where
  "pch_flows tables nops g b = (case tables of (ops, mops) \<Rightarrow> [
     do { op_check_for_link mops; ret () },
     do { op_setup_link mops; ret () },
     do { op_get_link_up_info mops; ret () },
     do { op_phy_reset ops; ret () },
     do { op_phy_get_cfg_done ops; ret () },
     do { op_phy_get_info ops; ret () },
     do { the (op_phy_commit ops); ret () },
     do { the (op_phy_set_d0_lplu_state ops) b; ret () },
     do { op_phy_set_d3_lplu_state ops b; ret () },
     op_phy_power_up ops,
     op_phy_power_down ops,
     do { e1000_reset_hw_ich8lan ops nops (g 0); ret () },
     do { e1000_init_hw_ich8lan mops ops nops (g 0); ret () },
     e1000_clear_hw_cntrs_ich8lan ops,
     do { e1000_set_eee_pchlan ops (g 3); ret () },
     do { e1000_enable_ulp_lpt_lp ops b; ret () },
     do { e1000_disable_ulp_lpt_lp ops b; ret () },
     do { e1000_init_phy_workarounds_pchlan ops; ret () },
     e1000_suspend_workarounds_ich8lan ops (g 0),
     e1000_resume_workarounds_pchlan ops (g 0)])"

lemma seven: "(7::nat) = Suc (Suc (Suc (Suc (Suc (Suc (Suc 0))))))"
  by simp

lemma ops_of_levels:
  "ops_of pch_table mt (part_nvm spt) g = (phy_lv (Suc (Suc (Suc (Suc (Suc (Suc (Suc 0))))))) mt spt g,
     mac_lv (Suc (Suc (Suc (Suc (Suc (Suc (Suc 0))))))) mt spt g)"
  unfolding ops_of_def seven by simp

lemma top_phy:
  fixes spt and g :: "nat \<Rightarrow> u16"
  assumes "ty \<ge> e1000_pchlan"
  defines "ops \<equiv> phy_lv (Suc (Suc (Suc (Suc (Suc (Suc (Suc 0))))))) (pch_mac ty) spt g"
  shows "keeps (free_rel pos) (op_phy_get_info ops)" "keeps (free_rel pos) (the (op_phy_commit ops))"
    "keeps (free_rel pos) (the (op_phy_set_d0_lplu_state ops) b)" "keeps (free_rel pos) (op_phy_set_d3_lplu_state ops b)"
    "keeps (free_rel pos) (op_phy_power_up ops)" "keeps (free_rel pos) (op_phy_power_down ops)"
proof -
  have len: "keeps (free_rel pos) (op_phy_get_cable_length (phy_lv (Suc (Suc (Suc n))) mt spt g))" for n mt
    unfolding level_step(1) [of "Suc (Suc n)"] using lv2.polarity_flow
    by (simp add: phy_step_def phy_length_fn_def del: ops_level.simps)
  show "keeps (free_rel pos) (op_phy_get_info ops)"
    unfolding ops_def level_step(1) [of "Suc (Suc (Suc (Suc (Suc (Suc 0)))))"] using lv2.info_flow [OF len]
    by (simp add: phy_step_def phy_info_fn_def del: ops_level.simps)
  show "keeps (free_rel pos) (the (op_phy_commit ops))"
    unfolding ops_def by (rule lv4.commit_case(2))
  show "keeps (free_rel pos) (op_phy_power_down ops)"
    unfolding ops_def level_step(1) [of "Suc (Suc (Suc (Suc (Suc (Suc 0)))))"]
    using lv2.power_down_flow [OF mac_small(3) [OF assms(1)]] by (simp add: phy_step_def del: ops_level.simps)
  show "keeps (free_rel pos) (the (op_phy_set_d0_lplu_state ops) b)" "keeps (free_rel pos) (op_phy_set_d3_lplu_state ops b)"
    "keeps (free_rel pos) (op_phy_power_up ops)"
    unfolding ops_def level_step(1) [of "Suc (Suc (Suc (Suc (Suc (Suc 0)))))"]
    using lv2.lplu_flow lv2.setup_flow by (simp_all add: phy_step_def phy_d0_lplu_fn_def phy_d3_lplu_fn_def del: ops_level.simps)
qed

lemma top_mac:
  fixes spt and g :: "nat \<Rightarrow> u16"
  assumes "ty \<ge> e1000_pchlan"
  defines "mops \<equiv> mac_lv (Suc (Suc (Suc (Suc (Suc (Suc (Suc 0))))))) (pch_mac ty) spt g"
  shows "keeps (free_rel pos) (op_check_for_link mops)" "keeps (free_rel pos) (op_setup_link mops)"
  unfolding mops_def level_step(2) [of "Suc (Suc (Suc (Suc (Suc (Suc 0)))))"]
  using lv2.check_link_flow [OF mac_link_up mac_small(1) [OF assms(1)]] lv4.setup_link_flow [OF mac_setup_physical [OF assms(1)]]
  by (simp_all add: mac_step_def del: ops_level.simps)

lemma pch_flows_all:
  assumes "keeps (free_rel pos) (op_check_for_link mops)" "keeps (free_rel pos) (op_setup_link mops)"
    "keeps (free_rel pos) (op_get_link_up_info mops)" "keeps (free_rel pos) (op_phy_reset ops)"
    "keeps (free_rel pos) (op_phy_get_cfg_done ops)" "keeps (free_rel pos) (op_phy_get_info ops)"
    "keeps (free_rel pos) (the (op_phy_commit ops))" "keeps (free_rel pos) (the (op_phy_set_d0_lplu_state ops) b)"
    "keeps (free_rel pos) (op_phy_set_d3_lplu_state ops b)" "keeps (free_rel pos) (op_phy_power_up ops)"
    "keeps (free_rel pos) (op_phy_power_down ops)" "keeps (free_rel pos) (e1000_reset_hw_ich8lan ops nops (g 0))"
    "keeps (free_rel pos) (e1000_init_hw_ich8lan mops ops nops (g 0))" "keeps (free_rel pos) (e1000_clear_hw_cntrs_ich8lan ops)"
    "keeps (free_rel pos) (e1000_set_eee_pchlan ops (g 3))" "keeps (free_rel pos) (e1000_enable_ulp_lpt_lp ops b)"
    "keeps (free_rel pos) (e1000_disable_ulp_lpt_lp ops b)" "keeps (free_rel pos) (e1000_init_phy_workarounds_pchlan ops)"
    "keeps (free_rel pos) (e1000_suspend_workarounds_ich8lan ops (g 0))"
    "keeps (free_rel pos) (e1000_resume_workarounds_pchlan ops (g 0))"
  shows "list_all (keeps (free_rel pos)) (pch_flows (ops, mops) nops g b)"
  unfolding pch_flows_def prod.case list.pred_inject(2)
  by (intro conjI list.pred_inject(1) assms outside.keeps_bind [OF _ outside.keeps_ret])

lemma pch_flows_keep:
  assumes ty: "ty \<ge> e1000_pchlan"
  shows "list_all (keeps (free_rel pos)) (pch_flows (ops_of pch_table (pch_mac ty) (part_nvm spt) g) (part_nvm spt) g b)"
  unfolding ops_of_levels
proof (rule pch_flows_all)
  let ?o = "phy_lv (Suc (Suc (Suc (Suc (Suc (Suc (Suc 0))))))) (pch_mac ty) spt g"
  let ?m = "mac_lv (Suc (Suc (Suc (Suc (Suc (Suc (Suc 0))))))) (pch_mac ty) spt g"
  show "keeps (free_rel pos) (op_check_for_link ?m)" "keeps (free_rel pos) (op_setup_link ?m)"
    by (rule top_mac [OF ty])+
  show "keeps (free_rel pos) (op_get_link_up_info ?m)" by (rule mac_link_up)
  show "keeps (free_rel pos) (op_phy_reset ?o)" by (rule lv4.reset_flow)
  show "keeps (free_rel pos) (op_phy_get_cfg_done ?o)" by (rule lv4.cfg_flow)
  show "keeps (free_rel pos) (op_phy_get_info ?o)" "keeps (free_rel pos) (the (op_phy_commit ?o))"
    "keeps (free_rel pos) (the (op_phy_set_d0_lplu_state ?o) b)" "keeps (free_rel pos) (op_phy_set_d3_lplu_state ?o b)"
    "keeps (free_rel pos) (op_phy_power_up ?o)" "keeps (free_rel pos) (op_phy_power_down ?o)"
    by (rule top_phy [OF ty])+
  show "keeps (free_rel pos) (e1000_reset_hw_ich8lan ?o (part_nvm spt) (g 0))" by (rule reset_hw_flow)
  show "keeps (free_rel pos) (e1000_init_hw_ich8lan ?m ?o (part_nvm spt) (g 0))"
    by (rule init_hw_flow) (rule mac_small [OF ty] top_mac [OF ty])+
  show "keeps (free_rel pos) (e1000_clear_hw_cntrs_ich8lan ?o)" by (rule lv4.cntrs_flow)
  show "keeps (free_rel pos) (e1000_set_eee_pchlan ?o (g 3))" by (rule lv2.eee_flow)
  show "keeps (free_rel pos) (e1000_enable_ulp_lpt_lp ?o b)" by (rule lv2.ulp_enable_flow)
  show "keeps (free_rel pos) (e1000_disable_ulp_lpt_lp ?o b)" by (rule lv4.ulp_disable_flow)
  show "keeps (free_rel pos) (e1000_init_phy_workarounds_pchlan ?o)" by (rule lv4.init_wa_flow)
  show "keeps (free_rel pos) (e1000_suspend_workarounds_ich8lan ?o (g 0))" by (rule lv4.suspend_flow)
  show "keeps (free_rel pos) (e1000_resume_workarounds_pchlan ?o (g 0))" by (rule lv4.resume_flow)
qed



end
