(* ===== verification/Ich8Props.thy ===== *)
theory Ich8Props
  imports LockProps
begin

section \<open>Correctness of the initialisation\<close>

text \<open>
  What \<open>e1000_get_variants_ich8lan\<close> leaves behind: complete tables of operations, and the geometry of
  the NVM read from the chip.
\<close>

subsection \<open>Complete tables\<close>

definition phy_table_ok :: "e1000_mac_type \<Rightarrow> phy_table \<Rightarrow> bool" where
  "phy_table_ok ty t \<longleftrightarrow> t_power_up t \<and> t_power_down t \<and> t_get_info t \<noteq> None \<and> t_check_polarity t \<noteq> None \<and>
     t_force_speed_duplex t \<noteq> None \<and>
     (ty \<ge> e1000_pchlan \<longrightarrow> t_read_reg_locked t = Some Locked_hv \<and> t_write_reg_locked t = Some Locked_hv \<and>
        t_set_page t \<and> t_read_reg_page t \<and> t_write_reg_page t)"

definition mac_table_ok :: "e1000_mac_type \<Rightarrow> mac_table \<Rightarrow> bool" where
  "mac_table_ok ty t \<longleftrightarrow> t_check_mng_mode t \<noteq> None \<and> t_id_led_init t \<noteq> None \<and> t_setup_led t \<noteq> None \<and>
     t_cleanup_led t \<noteq> None \<and> t_led_on t \<noteq> None \<and> t_led_off t \<noteq> None \<and>
     (ty \<ge> e1000_pch_lpt \<longrightarrow> t_rar_set t = Rar_pch_lpt \<and> t_rar_get_count t = Count_pch_lpt \<and>
        t_setup_physical_interface t = Physical_pch_lpt)"

lemma mac_table_for_ok:
  assumes "ty \<ge> e1000_ich8lan"
  shows "mac_table_ok ty (mac_table_for ty t)"
  using assms
  by (cases ty) (simp_all add: mac_table_ok_def mac_table_for_def mac_table_ich8lan_def mac_table_pchlan_def mac_order Let_def)

lemma pchlan_family_ok:
  assumes "pchlan_phy_family pty (pchlan_phy_table t) = Some t'"
  shows "phy_table_ok ty t'"
  using assms by (auto simp: pchlan_phy_family_def pchlan_phy_table_def phy_table_ok_def split: if_splits)

lemma ich8_family_ok:
  assumes "ich8_phy_family i t = Some (pty, adv, t')" and "ty < e1000_pchlan" and "t_power_up t" "t_power_down t"
  shows "phy_table_ok ty t'"
  using assms by (auto simp: ich8_phy_family_def phy_table_ok_def split: if_splits)

lemma init_phy_pchlan_ok:
  assumes "run_state (e1000_init_phy_params_pchlan tie t) s = ((0, pt), u)"
  shows "pchlan_phy_family (phy_type (hw_phy u)) (pchlan_phy_table t) = Some pt"
  using assms
  by (auto simp: e1000_init_phy_params_pchlan_def set_phy_def set_phy_type_def Let_def case_prod_beta
      split: if_splits option.splits)

lemma init_phy_ich8_ok:
  assumes "run_state (e1000_init_phy_params_ich8lan tie t) s = ((0, pt), u)" and "ty < e1000_pchlan"
  shows "phy_table_ok ty pt"
  using assms
  by (auto simp: e1000_init_phy_params_ich8lan_def set_phy_def Let_def case_prod_beta split: if_splits option.splits
      dest!: ich8_family_ok [OF _ assms(2)])

lemma init_phy_params_ok:
  assumes "run_state (init_phy_params tie t) s = ((0, pt), u)" and "mac_type (hw_mac s) \<ge> e1000_ich8lan"
  shows "phy_table_ok (mac_type (hw_mac s)) pt"
    "mac_type (hw_mac s) \<ge> e1000_pchlan \<Longrightarrow> pchlan_phy_family (phy_type (hw_phy u)) (pchlan_phy_table t) = Some pt"
proof -
  show f: "mac_type (hw_mac s) \<ge> e1000_pchlan \<Longrightarrow> pchlan_phy_family (phy_type (hw_phy u)) (pchlan_phy_table t) = Some pt"
    using assms by (cases "mac_type (hw_mac s)") (auto simp: init_phy_params_def mac_order dest: init_phy_pchlan_ok)
  show "phy_table_ok (mac_type (hw_mac s)) pt"
  proof (cases "mac_type (hw_mac s) \<ge> e1000_pchlan")
    case True
    then show ?thesis using f by (blast intro: pchlan_family_ok)
  next
    case False
    then have "run_state (e1000_init_phy_params_ich8lan tie t) s = ((0, pt), u)"
      using assms by (cases "mac_type (hw_mac s)") (auto simp: init_phy_params_def mac_order)
    then show ?thesis using False by (intro init_phy_ich8_ok) (simp_all add: not_le)
  qed
qed

lemma init_nvm_sizes_mac: "keeps (same hw_mac) init_nvm_sizes"
  by (rule keepsI) (simp add: init_nvm_sizes_def set_nvm_def same_def)

lemma init_nvm_mac: "hw_mac (snd (run_state e1000_init_nvm_params_ich8lan s)) = hw_mac s"
  using keeps_run [OF init_nvm_sizes_mac]
  by (auto simp: e1000_init_nvm_params_ich8lan_def set_nvm_def same_def case_prod_beta split: option.split)

lemma small_phy: "hw_phy (snd (run_state no_jumbo s)) = hw_phy s" "hw_phy (snd (run_state variant_flags s)) = hw_phy s"
  by (simp_all add: no_jumbo_def variant_flags_def)

text \<open>C7: Initialisation leaves no hole in the tables of operations. When it succeeds, every entry the driver
calls without testing it is set, in the PHY's table and in the MAC's, for the part found; on a PCH part
with a PHY other than the 82578 the PHY's table is exactly the one the lock property is about, and the PHY
is one of the three it serves.\<close>

theorem init_completes_tables:
  assumes "run_state (e1000_get_variants_ich8lan tie ich8_phy_ops ich8_mac_ops) s = ((0, pt, mt), t)"
    and "mac_type (hw_mac s) \<ge> e1000_ich8lan"
  shows "phy_table_ok (mac_type (hw_mac s)) pt \<and> mac_table_ok (mac_type (hw_mac s)) mt \<and>
     (mac_type (hw_mac s) \<ge> e1000_pchlan \<and> phy_type (hw_phy t) \<noteq> e1000_phy_82578 \<longrightarrow>
        phy_type (hw_phy t) \<in> {e1000_phy_82577, e1000_phy_82579, e1000_phy_i217} \<and> pt = pch_table)"
proof -
  let ?m = "e1000_init_mac_params_ich8lan ich8_mac_ops"
  define mt1 s1 where "mt1 = snd (fst (run_state ?m s))" and "s1 = snd (run_state ?m s)"
  have "fst (fst (run_state ?m s)) = 0" and mac: "mac_type (hw_mac s1) = mac_type (hw_mac s)"
    "mt1 = mac_table_for (mac_type (hw_mac s)) ich8_mac_ops"
    by (simp_all add: mt1_def s1_def e1000_init_mac_params_ich8lan_def set_mac_def set_phy_def set_ich8_def
        e1000e_set_kmrn_lock_loss_workaround_ich8lan_def case_prod_beta)
  then have a: "run_state ?m s = ((0, mt1), s1)" by (simp add: mt1_def s1_def prod_eq_iff)
  obtain r s2 where b: "run_state e1000_init_nvm_params_ich8lan s1 = (r, s2)" by fastforce
  then have mac2: "mac_type (hw_mac s2) = mac_type (hw_mac s)" using init_nvm_mac [of s1] mac by simp
  obtain rc pt1 s3 where c: "run_state (init_phy_params tie ich8_phy_ops) s2 = ((rc, pt1), s3)" by (metis surj_pair)
  have "r = 0" "rc = 0" "pt = pt1" "hw_phy t = hw_phy s3" "mt = mt1 \<or> mt = mt1\<lparr>t_blink_led := False\<rparr>"
    using assms(1) a b c small_phy
    by (auto simp: e1000_get_variants_ich8lan_def case_prod_beta split: if_splits)
  moreover from this c have c: "run_state (init_phy_params tie ich8_phy_ops) s2 = ((0, pt), s3)" by simp
  moreover have "mac_table_ok (mac_type (hw_mac s)) mt1" using mac mac_table_for_ok [OF assms(2)] by simp
  ultimately show ?thesis
    using init_phy_params_ok [OF c] assms(2) mac2
    by (auto simp: mac_table_ok_def pch_table_def pchlan_phy_family_def split: if_splits)
qed


text \<open>An initialisation that succeeds, on a chip that reads as ones and a PHY that answers with its id.\<close>

definition easy_ops :: phy_full_operations where
  "easy_ops = null_phy_operations\<lparr>op_phy_acquire := Some (ret 0), op_phy_release := ret (),
     op_phy_read_reg_locked := (\<lambda>r d. ret (0, if r = MII_PHYSID1 then 0x0154 else 0x00A0)),
     op_phy_check_reset_block := Some (ret 0), op_phy_get_cfg_done := ret 0\<rparr>"

definition easy_state :: e1000_hw where
  "easy_state = (sample_hw (\<lambda>_ _. 0xFFFFFFFF))\<lparr>hw_device := E1000_DEV_ID_PCH_LPT_I217_LM\<rparr>"

lemma easy_ops_simps [simp]:
  "phy_acquire easy_ops = ret 0" "op_phy_release easy_ops = ret ()"
  "e1e_rphy_locked easy_ops r d = ret (0, if r = MII_PHYSID1 then 0x0154 else 0x00A0)"
  "check_reset_block easy_ops = ret 0" "op_phy_get_cfg_done easy_ops = ret 0"
  "op_phy_check_reset_block easy_ops = Some (ret 0)"
  by (simp_all add: easy_ops_def phy_acquire_def e1e_rphy_locked_def check_reset_block_def null_phy_operations_def)

lemma easy_loop: "phy_accessible_loop 2 easy_ops 0 0 0 = ret (0, 0x015400A0, 0x00A0)"
proof -
  have two: "(2::nat) = Suc (Suc 0)" by simp
  show ?thesis unfolding two phy_accessible_loop.simps
    by (rule state_ext) simp
qed

lemma easy_accessible:
  assumes "mac_type (hw_mac s) = e1000_pch_lpt" "hw_dev s = (\<lambda>_ _. 0xFFFFFFFF)" "phy_id (hw_phy s) = 0"
  shows "\<exists>t. run_state (e1000_phy_is_accessible_pchlan easy_ops) s = (True, t) \<and> phy_id (hw_phy t) = 0x015400A0 \<and>
    hw_mac t = hw_mac s \<and> hw_dev t = hw_dev s \<and> hw_flags2 t = hw_flags2 s"
  using assms
  by (simp add: e1000_phy_is_accessible_pchlan_def easy_loop phy_id_known_def set_phy_def unforce_smbus_def mac_order)

lemma easy_workarounds:
  assumes s: "mac_type (hw_mac s) = e1000_pch_lpt" "hw_device s = E1000_DEV_ID_PCH_LPT_I217_LM"
    "hw_dev s = (\<lambda>_ _. 0xFFFFFFFF)" "phy_id (hw_phy s) = 0" "hw_flags2 s = 0"
  shows "\<exists>t. run_state (e1000_init_phy_workarounds_pchlan easy_ops) s = (0, t) \<and> phy_id (hw_phy t) = 0x015400A0 \<and>
    hw_mac t = hw_mac s"
proof -
  define gate where "gate = do { fwsm \<leftarrow> er32 E1000_FWSM;
     e1000_gate_hw_phy_config_ich8lan True;
     set_ich8 (ich8_ulp_state_update (\<lambda>_. e1000_ulp_state_unknown));
     e1000_disable_ulp_lpt_lp easy_ops True; ret fwsm }"
  obtain u where u: "run_state gate s = (0xFFFFFFFF, u)" "hw_mac u = hw_mac s" "hw_dev u = hw_dev s" "hw_flags2 u = 0"
    "hw_phy u = hw_phy s"
    using s by (simp add: gate_def e1000_gate_hw_phy_config_ich8lan_def csr_modify_def ew32_def io_write_def emit_def set_ich8_def
        e1000_disable_ulp_lpt_lp_def no_ulp_def mac_order)
  obtain v where v: "run_state (e1000_phy_is_accessible_pchlan easy_ops) u = (True, v)" "phy_id (hw_phy v) = 0x015400A0"
    "hw_mac v = hw_mac s" "hw_dev v = hw_dev s" "hw_flags2 v = 0"
    using easy_accessible [of u] u s by auto
  have wa: "run_state (phy_lock easy_ops (wa_switch easy_ops fwsm)) u = (0, v)" for fwsm
    using u v s by (simp add: phy_lock_def wa_switch_def wa_pch_lpt_def)
  obtain w where w: "run_state (wa_reset easy_ops) v = (0, w)" "phy_id (hw_phy w) = 0x015400A0" "hw_mac w = hw_mac s"
    using v by (simp add: wa_reset_def e1000e_phy_hw_reset_generic_def ok_then_def ew32_def io_write_def emit_def)
  have split: "e1000_init_phy_workarounds_pchlan easy_ops = do { fwsm \<leftarrow> gate;
     ret_val \<leftarrow> ok_then (phy_lock easy_ops (wa_switch easy_ops fwsm)) (wa_reset easy_ops);
     ty \<leftarrow> gets (\<lambda>s. mac_type (hw_mac s));
     cwhen (ty = e1000_pch2lan \<and> fwsm AND E1000_ICH_FWSM_FW_VALID = 0) (do {
       usleep_range 10000 20000;
       e1000_gate_hw_phy_config_ich8lan False });
     ret ret_val }"
    by (rule state_ext) (simp add: gate_def e1000_init_phy_workarounds_pchlan_def split: prod.split)
  show ?thesis
    unfolding split using u(1) wa w s by (simp add: ok_then_def)
qed

theorem init_completes_tables_witness:
  "\<exists>pt mt t. run_state (e1000_get_variants_ich8lan (\<lambda>_. easy_ops) ich8_phy_ops ich8_mac_ops) easy_state = ((0, pt, mt), t) \<and>
     phy_type (hw_phy t) = e1000_phy_i217 \<and> pt = pch_table \<and> mac_table_ok e1000_pch_lpt mt"
proof -
  obtain u where u: "run_state (e1000_init_mac_params_ich8lan ich8_mac_ops) easy_state = ((0, mac_table_for e1000_pch_lpt ich8_mac_ops), u)"
    "mac_type (hw_mac u) = e1000_pch_lpt" "hw_device u = E1000_DEV_ID_PCH_LPT_I217_LM" "hw_dev u = (\<lambda>_ _. 0xFFFFFFFF)" "hw_flags2 u = 0"
    "hw_flash_address u \<noteq> 0"
    by (simp add: e1000_init_mac_params_ich8lan_def easy_state_def sample_hw_def sample_mac_def set_mac_def set_phy_def)
  obtain v where v: "run_state e1000_init_nvm_params_ich8lan u = (0, v)"
    "mac_type (hw_mac v) = e1000_pch_lpt" "hw_device v = E1000_DEV_ID_PCH_LPT_I217_LM" "hw_dev v = (\<lambda>_ _. 0xFFFFFFFF)" "hw_flags2 v = 0"
    using u by (simp add: e1000_init_nvm_params_ich8lan_def init_nvm_sizes_def set_nvm_def mac_order)
  let ?s = "hw_phy_update ((\<lambda>p. p\<lparr>phy_autoneg_mask := AUTONEG_ADVERTISE_SPEED_DEFAULT, phy_id := 0\<rparr>) \<circ>
     (\<lambda>p. p\<lparr>phy_addr := 1, phy_reset_delay_us := 100\<rparr>)) v"
  obtain w where w: "run_state (e1000_init_phy_workarounds_pchlan easy_ops) ?s = (0, w)" "phy_id (hw_phy w) = 0x015400A0"
      "hw_mac w = hw_mac v"
    using easy_workarounds [of ?s] v by auto
  obtain pt x where x: "run_state (init_phy_params (\<lambda>_. easy_ops) ich8_phy_ops) v = ((0, pt), x)"
    "phy_type (hw_phy x) = e1000_phy_i217" "mac_type (hw_mac x) = e1000_pch_lpt"
    using w v by (simp add: init_phy_params_def e1000_init_phy_params_pchlan_def set_phy_def ok_then_def pchlan_find_id_def
        e1000e_get_phy_type_from_id_def set_phy_type_def pchlan_phy_family_def Let_def)
  have "\<exists>pt' mt t. run_state (e1000_get_variants_ich8lan (\<lambda>_. easy_ops) ich8_phy_ops ich8_mac_ops) easy_state = ((0, pt', mt), t) \<and>
     phy_type (hw_phy t) = e1000_phy_i217"
    using u v x by (simp add: e1000_get_variants_ich8lan_def no_jumbo_def variant_flags_def mac_order)
  then obtain pt' mt t where t: "run_state (e1000_get_variants_ich8lan (\<lambda>_. easy_ops) ich8_phy_ops ich8_mac_ops) easy_state = ((0, pt', mt), t)"
    "phy_type (hw_phy t) = e1000_phy_i217" by blast
  have "mac_type (hw_mac easy_state) = e1000_pch_lpt" by (simp add: easy_state_def)
  with init_completes_tables [OF t(1)] t show ?thesis by (auto simp: mac_order)
qed

subsection \<open>The geometry of the NVM\<close>

lemma unat_mask13: "unat (x AND 0x1FFF :: u32) < 2 ^ 13" "unat (x AND 0x1F :: u32) < 2 ^ 5"
proof -
  have "unat (x AND mask n :: u32) < 2 ^ n" for n
    by (simp add: take_bit_eq_mask [symmetric] unsigned_take_bit_eq)
  from this [of 13] this [of 5] show "unat (x AND 0x1FFF) < 2 ^ 13" "unat (x AND 0x1F) < 2 ^ 5"
    by (simp_all add: mask_eq_exp_minus_1)
qed

lemma unat_push12: "unat (x :: u32) < 2 ^ 14 \<Longrightarrow> unat (push_bit 12 x) = 4096 * unat x"
  by (simp add: push_bit_eq_mult unat_word_ariths(2))

lemma unat_quarter: "unat (x div 2 div 2 :: u32) = unat x div 4"
proof -
  have h: "unat (x div 2 :: u32) = unat x div 2" for x
  proof -
    have "unat (x div 2) = unat x div unat (2 :: u32)" by (rule unat_div)
    then show ?thesis by simp
  qed
  show ?thesis unfolding h by (simp add: div_mult2_eq [symmetric])
qed

lemma gfpreg_geometry:
  assumes "g AND FLASH_GFPREG_BASE_MASK \<le> drop_bit 16 g AND FLASH_GFPREG_BASE_MASK"
  shows "unat (gfpreg_base g) = 4096 * unat (g AND FLASH_GFPREG_BASE_MASK)"
    "unat (gfpreg_base g) + 4 * unat (gfpreg_bank_size g) = 4096 * (unat (drop_bit 16 g AND FLASH_GFPREG_BASE_MASK) + 1)"
proof -
  let ?b = "g AND 0x1FFF" and ?e = "drop_bit 16 g AND 0x1FFF"
  note lt = unat_mask13(1) [of g] unat_mask13(1) [of "drop_bit 16 g"]
  show b: "unat (gfpreg_base g) = 4096 * unat (g AND FLASH_GFPREG_BASE_MASK)"
    unfolding gfpreg_base_def by (rule unat_push12) (use lt in simp)
  have "unat (?e + 1) = unat ?e + 1" using lt by (simp add: unat_word_ariths(1))
  moreover have "?b \<le> ?e + 1" using assms calculation by (simp add: word_le_nat_alt)
  ultimately have d: "unat (?e + 1 - ?b) = unat ?e + 1 - unat ?b" by (simp add: unat_sub)
  then have "unat (?e + 1 - ?b) < 2 ^ 14" using lt by simp
  then have "unat (gfpreg_bank_size g) = 4096 * (unat ?e + 1 - unat ?b) div 4"
    by (simp add: gfpreg_bank_size_def Let_def unat_quarter unat_push12 d)
  then show "unat (gfpreg_base g) + 4 * unat (gfpreg_bank_size g) = 4096 * (unat (drop_bit 16 g AND FLASH_GFPREG_BASE_MASK) + 1)"
    using assms b by (simp add: word_le_nat_alt)
qed

lemma strap_geometry: "4 * unat (strap_bank_size v) = 4096 * (unat (drop_bit 1 v AND 0x1F) + 1)"
proof -
  let ?n = "drop_bit 1 v AND 0x1F :: u32"
  have "unat (?n + 1) = unat ?n + 1" "unat ((?n + 1) * NVM_SIZE_MULTIPLIER) = 4096 * (unat ?n + 1)"
    using unat_mask13(2) [of "drop_bit 1 v"] by (simp_all add: unat_word_ariths)
  then show ?thesis by (simp add: strap_bank_size_def unat_quarter)
qed
text \<open>C16: The geometry of the NVM. Initialisation succeeds exactly when the part needs no flash window or has
one, and then the shadow RAM has its 2048 empty words. On the parts with flash registers
the two banks start at the base the partition register names and end exactly at its limit, without
wrapping; on the newer parts they start at zero and have the size of the strap.\<close>

theorem init_nvm_geometry:
  assumes "run_state e1000_init_nvm_params_ich8lan s = (r, t)"
  defines "v \<equiv> hw_dev s (hw_log s) (Flash32 ICH_FLASH_GFPREG)" and "strap \<equiv> hw_dev s (hw_log s) (Csr E1000_STRAP)"
  shows "(r = 0 \<longleftrightarrow> mac_type (hw_mac s) \<ge> e1000_pch_spt \<or> hw_flash_address s \<noteq> 0) \<and>
    (r = 0 \<longrightarrow> nvm_word_size (hw_nvm t) = 2048 \<and>
       hw_shadow_ram t = replicate 2048 \<lparr>sr_value = 0xFFFF, sr_modified = False\<rparr> \<and>
       (mac_type (hw_mac s) < e1000_pch_spt \<and> v AND 0x1FFF \<le> drop_bit 16 v AND 0x1FFF \<longrightarrow>
          unat (nvm_flash_base_addr (hw_nvm t)) = 4096 * unat (v AND 0x1FFF) \<and>
          unat (nvm_flash_base_addr (hw_nvm t)) + 4 * unat (nvm_flash_bank_size (hw_nvm t))
            = 4096 * (unat (drop_bit 16 v AND 0x1FFF) + 1)) \<and>
       (mac_type (hw_mac s) \<ge> e1000_pch_spt \<longrightarrow> nvm_flash_base_addr (hw_nvm t) = 0 \<and>
          4 * unat (nvm_flash_bank_size (hw_nvm t)) = 4096 * (unat (drop_bit 1 strap AND 0x1F) + 1)))"
proof -
  show ?thesis
  proof (cases "mac_type (hw_mac s) \<ge> e1000_pch_spt")
    case True
    then have "\<not> mac_type (hw_mac s) < e1000_pch_spt" by simp
    with True show ?thesis
      using assms(1) strap_geometry [of strap]
      by (auto simp: e1000_init_nvm_params_ich8lan_def init_nvm_sizes_def set_nvm_def strap_def)
  next
    case False
    then show ?thesis
      using assms(1) gfpreg_geometry [of v]
      by (auto simp: e1000_init_nvm_params_ich8lan_def init_nvm_sizes_def set_nvm_def v_def split: if_splits)
  qed
qed

theorem init_nvm_geometry_witness:
  "\<exists>t. run_state e1000_init_nvm_params_ich8lan (sample_hw (\<lambda>_ _. 0x00020001)) = (0, t) \<and>
     unat (nvm_flash_base_addr (hw_nvm t)) = 4096 \<and>
     4096 + 4 * unat (nvm_flash_bank_size (hw_nvm t)) = 3 * 4096"
proof -
  let ?s = "sample_hw (\<lambda>_ _. 0x00020001)"
  obtain r t where r: "run_state e1000_init_nvm_params_ich8lan ?s = (r, t)" by fastforce
  have "hw_flash_address ?s \<noteq> 0" by (simp add: sample_hw_def)
  with init_nvm_geometry [OF r] have g: "r = 0" "unat (nvm_flash_base_addr (hw_nvm t)) = 4096"
    "unat (nvm_flash_base_addr (hw_nvm t)) + 4 * unat (nvm_flash_bank_size (hw_nvm t)) = 12288"
    by (auto simp add: mac_order)
  have "4096 + 4 * unat (nvm_flash_bank_size (hw_nvm t)) = 3 * 4096" using g(2,3) by linarith
  with r g show ?thesis by blast
qed

end
