(* ===== verification/PchProps.thy ===== *)
theory PchProps
  imports LockFrames Samples
begin

section \<open>Latency reports and the hash of a frame\<close>

text \<open>
  The pure computations of the PCH code. The latency tolerance report encodes a time as a
  ten-bit value and a scale of powers of 32; the lemmas relate the loop of the driver to the
  rounded-up quotient, bound the error of the encoding and show where the clamp to the platform's
  limit goes wrong. The table-free CRC of the jumbo-frame workaround is compared with the
  shift register of the Ethernet standard. The last part shows what a read of the shadow RAM of
  the newer parts makes of a pending odd word.
\<close>

subsection \<open>The encoding of a latency\<close>

text \<open>The time an encoded latency stands for, in nanoseconds.\<close>

definition ltr_exponent :: "u16 \<Rightarrow> nat" where
  "ltr_exponent e = unat (drop_bit PCI_LTR_SCALE_SHIFT e AND 7)"

definition ltr_decode :: "u16 \<Rightarrow> nat" where
  "ltr_decode e = unat (e AND PCI_LTR_VALUE_MASK) * 32 ^ ltr_exponent e"

text \<open>Division rounding up, as \<open>DIV_ROUND_UP\<close> does on numbers that do not wrap.\<close>

definition div_up :: "nat \<Rightarrow> nat \<Rightarrow> nat" where "div_up a b = (a + b - 1) div b"

lemma div_up_div_up: "0 < b \<Longrightarrow> 0 < c \<Longrightarrow> div_up (div_up a b) c = div_up a (b * c)"
proof -
  assume b: "0 < b" "0 < c"
  have s: "div_up a d = (if a = 0 then 0 else Suc ((a - 1) div d))" if "0 < d" for a d
  proof (cases a)
    case 0 then show ?thesis using that by (simp add: div_up_def)
  next
    case (Suc n)
    then have "a + d - 1 = n + d" by simp
    then show ?thesis using that Suc by (simp add: div_up_def div_add_self2)
  qed
  show ?thesis using b by (simp add: s div_mult2_eq)
qed

lemma div_up_le: "0 < b \<Longrightarrow> a \<le> div_up a b * b" "0 < b \<Longrightarrow> div_up a b * b < a + b"
proof -
  assume b: "0 < b"
  have "a + b - 1 < div_up a b * b + b"
    using b by (simp add: div_up_def) (metis div_mult_mod_eq nat_add_left_cancel_less mod_less_divisor)
  then show "a \<le> div_up a b * b" using b by simp
  have "div_up a b * b \<le> a + b - 1" by (simp add: div_up_def)
  then show "div_up a b * b < a + b" using b by simp
qed

lemma ltr_step: 
  assumes "unat v < 2 ^ 63"
  shows "unat ((v + 32 - 1) div 32 :: u64) = div_up (unat v) 32"
proof -
  have eq: "v + 32 - 1 = v + 31" by simp
  have "unat (v + 31) = unat v + 31" using assms by (simp add: unat_word_ariths(1))
  moreover have "unat ((v + 32 - 1) div 32) = unat (v + 31) div unat (32::u64)"
    unfolding eq by (rule unat_div)
  ultimately show ?thesis by (simp add: div_up_def)
qed

lemma ltr_scale_unat:
  assumes "unat v < 2 ^ 63"
  shows "\<exists>k. unat (fst (ltr_scale v sc)) = div_up (unat v) (32 ^ k) \<and> snd (ltr_scale v sc) = sc + of_nat k \<and>
     div_up (unat v) (32 ^ k) \<le> 1023 \<and> (\<forall>j<k. 1023 < div_up (unat v) (32 ^ j))"
  using assms
proof (induction v sc rule: ltr_scale.induct)
  case (1 v sc)
  show ?case
  proof (cases "v > PCI_LTR_VALUE_MASK")
    case False
    then have "unat v \<le> 1023" by (simp add: word_less_nat_alt not_less)
    with False show ?thesis by (intro exI [of _ 0]) (simp add: ltr_scale.simps [of v] div_up_def)
  next
    case True
    let ?w = "(v + 32 - 1) div 32"
    have w: "unat ?w = div_up (unat v) 32" using 1(2) by (rule ltr_step)
    have "div_up (unat v) 32 * 32 < unat v + 32" by (rule div_up_le) simp
    then have "unat ?w < 2 ^ 63" using 1(2) w by simp
    from 1(1) [OF True this] obtain k where k: "unat (fst (ltr_scale ?w (sc + 1))) = div_up (unat ?w) (32 ^ k)"
      "snd (ltr_scale ?w (sc + 1)) = sc + 1 + of_nat k" "div_up (unat ?w) (32 ^ k) \<le> 1023"
      "\<forall>j<k. 1023 < div_up (unat ?w) (32 ^ j)" by blast
    have e: "ltr_scale v sc = ltr_scale ?w (sc + 1)"
      using True by (subst ltr_scale.simps) simp
    have v0: "1023 < div_up (unat v) 1" using True by (simp add: word_less_nat_alt div_up_def)
    have d: "div_up (unat ?w) (32 ^ j) = div_up (unat v) (32 ^ Suc j)" for j
      unfolding w by (simp add: div_up_div_up)
    have "\<forall>j<k. 1023 < div_up (unat v) (32 ^ Suc j)" using k(4) unfolding d .
    then have "1023 < div_up (unat v) (32 ^ j)" if "j < Suc k" for j
      using that v0 by (cases j) (auto simp del: power_Suc)
    then show ?thesis
      using k(1-3) unfolding e d by (intro exI [of _ "Suc k"]) (simp del: power_Suc)
  qed
qed

lemma ltr_encode_fields:
  fixes v :: u64 and sc :: u16
  assumes "unat v \<le> 1023" and "sc \<le> 5"
  shows "ltr_exponent (ucast (push_bit PCI_LTR_SCALE_SHIFT (ucast sc) OR v)) = unat sc"
    "ltr_decode (ucast (push_bit PCI_LTR_SCALE_SHIFT (ucast sc) OR v)) = unat v * 32 ^ unat sc"
proof -
  let ?e = "ucast (push_bit PCI_LTR_SCALE_SHIFT (ucast sc) OR v) :: u16"
  have vb: "bit v k \<Longrightarrow> k < 10" for k
    using bit_beyond [of v 10 k] assms by (cases "k < 10") simp_all
  have sb: "bit sc k \<Longrightarrow> k < 3" for k
    using bit_beyond [of sc 3 k] assms by (cases "k < 3") (simp_all add: word_le_nat_alt)
  have m: "(PCI_LTR_VALUE_MASK :: u16) = mask 10" "(7::u16) = mask 3" by (simp_all add: mask_eq_exp_minus_1)
  have a: "?e AND PCI_LTR_VALUE_MASK = ucast v"
    unfolding m by (rule bit_word_eqI) (auto simp: bit_simps dest: vb sb)
  have b: "drop_bit PCI_LTR_SCALE_SHIFT ?e AND 7 = sc"
    unfolding m by (rule bit_word_eqI) (auto simp: bit_simps dest: vb sb)
  have "unat (ucast v :: u16) = unat v"
    using assms by (simp add: unsigned_ucast_eq take_bit_nat_eq_self_iff)
  then show "ltr_exponent ?e = unat sc" "ltr_decode ?e = unat v * 32 ^ unat sc"
    by (simp_all only: ltr_decode_def ltr_exponent_def a b)
qed

text \<open>The product of the source has 32 bits.\<close>

lemma ltr_value_lt: "unat (ltr_value rxa m speed) < 2 ^ 32"
proof -
  have "unat (ucast (w :: u32) :: u64) < 2 ^ 32" for w
    using unsigned_less [of w, where ?'a = nat] by (simp add: unat_ucast_up)
  then show ?thesis by (simp add: ltr_value_def)
qed

text \<open>C17: Every latency the driver computes can be encoded: the scale stays within its range, the
encoded time is not below the latency and exceeds it by less than one unit of the scale, and the
scale is the smallest one that holds the value.\<close>

theorem ltr_encode_correct:
  "\<exists>e. ltr_encode (ltr_value rxa m speed) = Some e \<and> ltr_exponent e \<le> 5 \<and>
     unat (ltr_value rxa m speed) \<le> ltr_decode e \<and>
     ltr_decode e < unat (ltr_value rxa m speed) + 32 ^ ltr_exponent e \<and>
     (\<forall>j < ltr_exponent e. 1023 * 32 ^ j < unat (ltr_value rxa m speed))"
proof -
  let ?v = "ltr_value rxa m speed"
  have small: "unat ?v < 2 ^ 32" by (rule ltr_value_lt)
  then have "unat ?v < 2 ^ 63" by simp
  from ltr_scale_unat [OF this, of 0] obtain k where
    k: "unat (fst (ltr_scale ?v 0)) = div_up (unat ?v) (32 ^ k)" "snd (ltr_scale ?v 0) = of_nat k"
      "div_up (unat ?v) (32 ^ k) \<le> 1023" and above: "\<And>j. j < k \<Longrightarrow> 1023 < div_up (unat ?v) (32 ^ j)" by auto
  have gt: "1023 * 32 ^ j < unat ?v" if "j < k" for j
  proof (rule ccontr)
    assume "\<not> 1023 * 32 ^ j < unat ?v"
    moreover have "0 < (32::nat) ^ j" by simp
    ultimately have "unat ?v + 32 ^ j - 1 < 1024 * 32 ^ j" by linarith
    then have "div_up (unat ?v) (32 ^ j) < 1024"
      by (simp add: div_up_def less_mult_imp_div_less)
    with above [OF that] show False by simp
  qed
  have "k \<le> 5"
  proof (rule ccontr)
    assume "\<not> k \<le> 5"
    then show False using gt [of 5] small by simp
  qed
  then have u: "unat (of_nat k :: u16) = k" and sc: "(of_nat k :: u16) \<le> 5"
    by (simp_all add: word_le_nat_alt take_bit_nat_eq_self unsigned_of_nat)
  let ?w = "fst (ltr_scale ?v 0)"
  have w: "unat ?w \<le> 1023" using k(1,3) by simp
  let ?e = "ucast (push_bit PCI_LTR_SCALE_SHIFT (ucast (of_nat k :: u16)) OR ?w) :: u16"
  note f = ltr_encode_fields [OF w sc, unfolded u]
  have "ltr_encode ?v = Some ?e"
    using sc k(2) by (simp add: ltr_encode_def case_prod_beta not_less)
  moreover have "ltr_decode ?e = div_up (unat ?v) (32 ^ k) * 32 ^ k" using f(2) k(1) by simp
  ultimately show ?thesis
    using f(1) div_up_le [of "32 ^ k" "unat ?v"] \<open>k \<le> 5\<close> gt by (intro exI [of _ ?e]) simp
qed

theorem ltr_encode_correct_witness:
  "\<exists>e. ltr_encode (ltr_value 13312 1518 1000) = Some e \<and> unat (ltr_value 13312 1518 1000) \<le> ltr_decode e"
  using ltr_encode_correct [of 13312 1518 1000] by blast

text \<open>A MAC table that reports a link of 10 Mb/s.\<close>

definition ten_mops :: mac_operations where
  "ten_mops = \<lparr>op_config_collision_dist = ret (), op_get_link_up_info = ret (0, 10, 2),
     op_rar_set = (\<lambda>_ _. ret 0), op_check_mng_mode = ret False, op_check_for_link = ret 0,
     op_setup_physical_interface = ret 0\<rparr>"

text \<open>C18: The clamp to the platform's limit compares encodings, not times: with a link of 10 Mb/s, a
receive buffer of 26 KB and a limit of 3145728 ns in both snoop registers, the driver reports a
latency of 18.87 ms, six times what the platform tolerates, because a larger value at a smaller scale
has the smaller encoding.\<close>

theorem ltr_clamp_exceeds:
  assumes "op_get_link_up_info mops = ret (0, 10, duplex)" and "hw_max_frame_size s = 1518"
    and "hw_max_snoop s = 0x1003" and "hw_max_nosnoop s = 0x1003" and "hw_dev s (hw_log s) (Csr E1000_PBA) = 26"
  shows "\<exists>t. run_state (e1000_platform_pm_pch_lpt mops True) s = (0, t) \<and>
     last_write (Csr E1000_LTRV) (hw_log t) = Some (ltr_reg True 0x0E40) \<and>
     ltr_decode 0x0E40 = 18874368 \<and> ltr_decode (hw_max_snoop s) = 3145728"
proof -
  have v: "ltr_value (26 * 512) 1518 10 = 18870400"
    by (simp add: ltr_value_def word_less_nat_alt)
  have e: "ltr_encode 18870400 = Some 0x0E40"
    by (simp add: ltr_encode_def ltr_scale.simps)
  have d: "ltr_decode 0x0E40 = 18874368" "ltr_decode 0x1003 = 3145728"
    by (simp_all add: ltr_decode_def ltr_exponent_def)
  let ?s = "after s [Rd (Csr E1000_PBA) 26]"
  have l: "run_state (ltr_latency mops) s = (Inr 0x0E40, ?s)"
    using assms v e by (simp add: ltr_latency_def)
  obtain es where "run_state (ew32 E1000_LTRV (ltr_reg True 0x0E40)) ?s =
      ((), ?s\<lparr>hw_log := Wr (Csr E1000_LTRV) (ltr_reg True 0x0E40) # es @ hw_log ?s\<rparr>)"
    by (rule run_ew32)
  with l d assms show ?thesis by (simp add: e1000_platform_pm_pch_lpt_def)
qed

theorem ltr_clamp_exceeds_witness:
  "\<exists>s t. run_state (e1000_platform_pm_pch_lpt ten_mops True) s = (0, t) \<and>
     last_write (Csr E1000_LTRV) (hw_log t) = Some (ltr_reg True 0x0E40)"
  using ltr_clamp_exceeds [of ten_mops 2
    "sample_hw (\<lambda>_ _. 26)"]
  by (auto simp: sample_hw_def ten_mops_def)

subsection \<open>The checksum of an address\<close>

text \<open>The reference: a register of 32 bits shifted left, fed with the least significant bit of each
octet first, complemented at the start and read out with its bits reversed.\<close>

definition reflect32 :: "u32 \<Rightarrow> u32" where
  "reflect32 w = horner_sum of_bool 2 (rev (map (bit w) [0..<32]))"

lemma bit_reflect32: "bit (reflect32 w) n \<longleftrightarrow> n < 32 \<and> bit w (31 - n)"
  by (auto simp: reflect32_def bit_horner_sum_bit_word_iff rev_nth nth_map_upt simp del: upt_rec_numeral upt_Suc dest: bit_imp_le_length)

lemma reflect_xor: "reflect32 (v XOR w) = reflect32 v XOR reflect32 w"
  by (rule bit_word_eqI) (auto simp: bit_reflect32 bit_xor_iff)

definition shift_register :: "u32 \<Rightarrow> bool \<Rightarrow> u32" where
  "shift_register r b = push_bit 1 r XOR (if bit r 31 \<noteq> b then 0x04C11DB7 else 0)"

definition ether_crc_reference :: "u8 list \<Rightarrow> u32" where
  "ether_crc_reference data = reflect32 (foldl shift_register 0xFFFFFFFF
     (concat (map (\<lambda>octet. map (bit octet) [0..<8]) data)))"

lemma reflect_poly: "reflect32 0xEDB88320 = 0x04C11DB7" "reflect32 0xFFFFFFFF = 0xFFFFFFFF"
  by code_simp+

lemma reflect_reflect: "reflect32 (reflect32 w) = w"
  by (rule bit_word_eqI) (auto simp: bit_reflect32)

lemma reflect_drop: "reflect32 (drop_bit 1 w) = push_bit 1 (reflect32 w)"
proof (rule bit_word_eqI)
  fix n assume "n < LENGTH(32)"
  have "\<not> bit w 32" by (auto dest: bit_imp_le_length)
  then show "bit (reflect32 (drop_bit 1 w)) n = bit (push_bit 1 (reflect32 w)) n"
  proof (cases n)
    case 0
    then show ?thesis
      using \<open>\<not> bit w 32\<close> unfolding bit_reflect32 bit_drop_bit_eq bit_push_bit_iff comp_apply by simp
  next
    case (Suc m)
    moreover have "Suc (31 - Suc m) = 31 - m" if "Suc m < 32" using that by simp
    ultimately show ?thesis
      using \<open>n < LENGTH(32)\<close> unfolding bit_reflect32 bit_drop_bit_eq bit_push_bit_iff comp_apply by auto
  qed
qed

lemma crc_bits_shift: "n \<le> 8 \<Longrightarrow> reflect32 (crc_bits n crc octet) = foldl shift_register (reflect32 crc) (map (bit octet) [0..<n])"
proof (induction n arbitrary: crc octet)
  case 0 show ?case by simp
next
  case (Suc n)
  have odd: "((crc XOR ucast octet) AND 1 \<noteq> 0) = (bit crc 0 \<noteq> bit octet 0)"
    using and_exp_eq_0_iff_not_bit [of "crc XOR ucast octet" 0] by (simp add: bit_xor_iff bit_ucast_iff)
  have step: "reflect32 (if (crc XOR ucast octet) AND 1 \<noteq> 0 then drop_bit 1 crc XOR 0xEDB88320 else drop_bit 1 crc)
     = shift_register (reflect32 crc) (bit octet 0)"
    unfolding odd by (simp add: shift_register_def reflect_xor reflect_drop [simplified] reflect_poly bit_reflect32)
  have l: "map (bit octet) [0..<Suc n] = bit octet 0 # map (bit (drop_bit 1 octet)) [0..<n]"
    by (simp add: map_upt_Suc bit_drop_bit_eq del: upt_Suc)
  show ?case
    using Suc unfolding l by (simp add: step del: upt_Suc)
qed

lemma crc_octets_shift: "reflect32 (crc_octets data crc) = foldl shift_register (reflect32 crc)
    (concat (map (\<lambda>octet. map (bit octet) [0..<8]) data))"
  by (induction data arbitrary: crc) (simp_all add: crc_bits_shift del: upt_rec_numeral upt_Suc)

text \<open>C19: The checksum the driver computes bit by bit from the low end is the CRC-32 of the Ethernet
standard: the shift register with the polynomial 0x04C11DB7, started with ones and read out reflected,
for octet strings of every length.\<close>

theorem ether_crc_le_reference: "ether_crc_le data = ether_crc_reference data"
  using crc_octets_shift [of data "0xFFFFFFFF"]
  by (simp add: ether_crc_le_def ether_crc_reference_def reflect_poly) (metis reflect_reflect)

subsection \<open>A pending odd word\<close>

interpretation ram: hw_frame "\<lambda>s t. hw_shadow_ram t = hw_shadow_ram s"
  by unfold_locales auto

lemma act_offset_ram: "run_state (nvm_act_offset off) s = (act, u) \<Longrightarrow> hw_shadow_ram u = hw_shadow_ram s"
proof -
  have "keeps (\<lambda>s t. hw_shadow_ram t = hw_shadow_ram s) (nvm_act_offset off)"
    unfolding nvm_act_offset_def nvm_detect_bank_def by (intro ram.hw_intros ram.keeps_bank_detect)
  from keeps_run [OF this, of s] show "run_state (nvm_act_offset off) s = (act, u) \<Longrightarrow> hw_shadow_ram u = hw_shadow_ram s"
    by simp
qed

lemma spt_pair:
  assumes "\<not> sr_modified (hw_shadow_ram u ! unat offset)"
    and "run_state (e1000_read_flash_dword_ich8lan (ucast (ucast act :: u16)) 0) u = ((r, dword), v)"
  shows "run_state (read_nvm_spt_loop (Suc (Suc 0)) 0 offset act 0 [x, y]) u =
    ((r, if r = 0 then [ucast (dword AND 0xFFFF), ucast (drop_bit 16 dword AND 0xFFFF)] else [x, y]), v)"
  using assms by (simp add: Let_def)

text \<open>A part whose flash answers every read with the same double word, and a pending word.\<close>

definition steady_flash :: "event list \<Rightarrow> access \<Rightarrow> u32" where
  "steady_flash _ a = (if a = Flash32 ICH_FLASH_FDATA0 then 0x00128034 else 0x4001)"

definition odd_pending :: e1000_hw where
  "odd_pending = (sample_hw steady_flash)\<lparr>hw_mac := sample_mac\<lparr>mac_type := e1000_pch_spt\<rparr>, hw_nvm := (hw_nvm (sample_hw steady_flash))\<lparr>nvm_word_size := 2048\<rparr>,
     hw_shadow_ram := (replicate 2048 \<lparr>sr_value = 0xFFFF, sr_modified = False\<rparr>)[5 := \<lparr>sr_value = 0xBEEF, sr_modified = True\<rparr>]\<rparr>"

lemma steady_dword:
  assumes "hw_dev s = steady_flash" and "mac_is_spt s" and "push_bit 1 off \<le> ICH_FLASH_LINEAR_ADDR_MASK"
  shows "\<exists>es. run_state (e1000_read_flash_dword_ich8lan off d) s = ((0, 0x00128034), after s es)"
proof -
  have f: "hsf_fldesvalid 0x4001" "\<not> hsf_flcinprog (hsf_set_dael (hsf_set_flcerr 0x4001))" "hsf_flcdone 0x4001" "\<not> hsf_flcerr 0x4001"
    by (simp_all add: hsf_fldesvalid_def hsf_flcinprog_def hsf_set_dael_def hsf_set_flcerr_def hsf_flcdone_def hsf_flcerr_def)
  have spt: "mac_is_spt (after s es)" for es using assms(2) by (simp add: mac_is_spt_def)
  have init: "\<exists>es. run_state e1000_flash_cycle_init_ich8lan (after s fs) = (0, after s es)" for fs
    using assms(1) spt f by (simp add: e1000_flash_cycle_init_ich8lan_def hsfsts_write_def steady_flash_def Let_def) blast
  have cycle: "\<exists>es. run_state (e1000_flash_cycle_ich8lan n) (after s fs) = (0, after s es)" for n fs
    using assms(1) spt f
    by (simp add: e1000_flash_cycle_ich8lan_def hsfctl_read_def hsfctl_write_def steady_flash_def Let_def) blast
  obtain es1 where i: "run_state e1000_flash_cycle_init_ich8lan (after s [IODelay 1]) = (0, after s es1)"
    using init by blast
  let ?s = "after s es1" 
  have "\<exists>es. run_state (read_flash_data32_loop (Suc n) addr r d) s = ((0, 0x00128034), after s es)" for n addr r
  proof -
    obtain es2 where c: "run_state (e1000_flash_cycle_ich8lan ICH_FLASH_READ_COMMAND_TIMEOUT) (after s (es1 @
        [Rd (Flash32 ICH_FLASH_HSFSTS) 0x4001, Wr (Flash32 ICH_FLASH_HSFSTS)
          (push_bit 16 (ucast (hsf_set_flcycle ICH_CYCLE_READ (hsf_set_fldbcount (4 - 1) (ucast (drop_bit 16 (0x4001 :: u32))))))),
         Wr (Flash32 ICH_FLASH_FADDR) addr])) = (0, after s es2)"
      using cycle by blast
    have d: "steady_flash l (Flash32 ICH_FLASH_HSFSTS) = 0x4001" "steady_flash l (Flash32 ICH_FLASH_FDATA0) = 0x00128034" for l
      by (simp_all add: steady_flash_def)
    show ?thesis
      using i c assms(1) by (simp add: d) blast
  qed
  from this [of 10] show ?thesis
    using assms by (simp add: e1000_read_flash_dword_ich8lan_def e1000_read_flash_data32_ich8lan_def)
qed

lemma odd_pending_read: "\<exists>t. run_state (e1000_read_nvm_spt 4 2 [0, 0]) odd_pending = ((0, [0x8034, 0x0012]), t)"
proof -
  have s: "hw_dev odd_pending = steady_flash" "mac_is_spt odd_pending" "mac_type (hw_mac odd_pending) = e1000_pch_spt"
    "\<not> sr_modified (hw_shadow_ram odd_pending ! unat (4 :: u16))" "\<not> nvm_bad_range odd_pending 4 2"
    by (simp_all add: odd_pending_def mac_is_spt_def nvm_bad_range_def mac_order)
  obtain es where "run_state (e1000_read_flash_dword_ich8lan E1000_ICH_NVM_SIG_WORD 0) odd_pending = ((0, 0x00128034), after odd_pending es)"
    using steady_dword [OF s(1,2), of E1000_ICH_NVM_SIG_WORD 0] by auto
  then have a: "run_state (nvm_act_offset 4) odd_pending = (4, after odd_pending es)"
    using s(3) by (simp add: nvm_act_offset_def nvm_detect_bank_def e1000_valid_nvm_bank_detect_ich8lan_def bank_detect_dword_def sig_valid_def)
  let ?u = "after odd_pending es"
  have u: "hw_dev ?u = steady_flash" "mac_is_spt ?u" using s by (simp_all add: mac_is_spt_def)
  obtain fs where "run_state (e1000_read_flash_dword_ich8lan (ucast (ucast (4 :: u32) :: u16)) 0) ?u = ((0, 0x00128034), after ?u fs)"
    using steady_dword [OF u, of "ucast (ucast (4 :: u32) :: u16)" 0] by auto
  from spt_pair [OF _ this, of "4" 0 0] s(4)
  have p: "run_state (read_nvm_spt_loop (Suc (Suc 0)) 0 4 4 0 [0, 0]) ?u = ((0, [0x8034, 0x0012]), after ?u fs)"
    by simp
  have two: "unat (2 :: u16) = Suc (Suc 0)" by simp
  have "run_state (e1000_read_nvm_spt 4 2 [0, 0]) odd_pending = run_state (read_nvm_spt_loop (unat (2 :: u16)) 0 4 4 0 [0, 0]) ?u"
    using s(5) a by (simp add: e1000_read_nvm_spt_def e1000_acquire_nvm_ich8lan_def e1000_release_nvm_ich8lan_def case_prod_beta)
  with p show ?thesis unfolding two by auto
qed

text \<open>C15: On the parts that read their flash by double words, a pending write to an odd word is lost to
a read that starts at the even word before it: unless the even word is pending too, both words of a
successful read are those of the flash, whatever the shadow RAM holds for the second.\<close>

theorem nvm_read_spt_stale:
  assumes "run_state (e1000_read_nvm_spt offset 2 [x, y]) s = ((0, data), t)"
    and "\<not> sr_modified (hw_shadow_ram s ! unat offset)"
  shows "\<exists>act u dword. run_state (nvm_act_offset offset) s = (act, u) \<and>
     run_state (e1000_read_flash_dword_ich8lan (ucast (ucast act :: u16)) 0) u = ((0, dword), t) \<and>
     data = [ucast (dword AND 0xFFFF), ucast (drop_bit 16 dword AND 0xFFFF)]"
proof -
  obtain act u where u: "run_state (nvm_act_offset offset) s = (act, u)" by fastforce
  obtain r dword v where v: "run_state (e1000_read_flash_dword_ich8lan (ucast (ucast act :: u16)) 0) u = ((r, dword), v)"
    by (metis prod.collapse)
  have two: "unat (2 :: u16) = Suc (Suc 0)" by simp
  have "\<not> sr_modified (hw_shadow_ram u ! unat offset)"
    using assms(2) act_offset_ram [OF u] by simp
  note pair = spt_pair [OF this v, of x y]
  have "\<not> nvm_bad_range s offset 2"
    using assms(1) by (auto simp: e1000_read_nvm_spt_def)
  then have "run_state (e1000_read_nvm_spt offset 2 [x, y]) s = run_state (read_nvm_spt_loop (unat (2 :: u16)) 0 offset act 0 [x, y]) u"
    using u by (simp add: e1000_read_nvm_spt_def e1000_acquire_nvm_ich8lan_def e1000_release_nvm_ich8lan_def case_prod_beta)
  with assms(1) pair have "r = 0" "v = t" "data = [ucast (dword AND 0xFFFF), ucast (drop_bit 16 dword AND 0xFFFF)]"
    unfolding two by (auto split: if_splits)
  with u v show ?thesis by blast
qed

theorem nvm_read_spt_stale_witness:
  "\<exists>t. run_state (e1000_read_nvm_spt 4 2 [0, 0]) odd_pending = ((0, [0x8034, 0x0012]), t) \<and>
     hw_shadow_ram odd_pending ! 5 = \<lparr>sr_value = 0xBEEF, sr_modified = True\<rparr>"
proof -
  obtain t where t: "run_state (e1000_read_nvm_spt 4 2 [0, 0]) odd_pending = ((0, [0x8034, 0x0012]), t)"
    using odd_pending_read by blast
  show ?thesis using nvm_read_spt_stale [OF t] t by (simp add: odd_pending_def)
qed

end
