(* ===== verification/Driver.thy ===== *)
theory Driver
  imports Vtd Ich8Init
begin

section \<open>The driver object and what it calls\<close>

text \<open>
  The rest of the class \<open>IntelMausi\<close> and of \<open>struct e1000_adapter\<close>: settings, statistics, link
  and power state, over the record \<open>mausi\<close> of the packet paths, which holds the hardware structure.
  A member function is a function of the state monad over the record \<open>driver\<close>; where it runs one of
  the two ring cleaners, which may not return, it is a function to an option.

  Calls into IOKit that only give orders are recorded in \<open>d_calls\<close>, newest first. The PCI
  configuration space is, like the chip, a function of the accesses made so far. The tables of operations
  are an argument: \<open>driver_ops_of\<close> builds them from the tables of theory \<open>Ich8Init\<close>.
\<close>

subsection \<open>The state\<close>

record e1000_hw_stats =
  st_crcerrs :: u64
  st_algnerrc :: u64
  st_rxerrc :: u64
  st_mpc :: u64
  st_scc :: u64
  st_ecol :: u64
  st_mcc :: u64
  st_latecol :: u64
  st_colc :: u64
  st_dc :: u64
  st_tncrs :: u64
  st_cexterr :: u64
  st_xonrxc :: u64
  st_xontxc :: u64
  st_xoffrxc :: u64
  st_xofftxc :: u64
  st_gprc :: u64
  st_bprc :: u64
  st_mprc :: u64
  st_gptc :: u64
  st_gorc :: u64
  st_gotc :: u64
  st_rnbc :: u64
  st_ruc :: u64
  st_roc :: u64
  st_tpt :: u64
  st_mptc :: u64
  st_bptc :: u64
  st_tsctc :: u64
  st_tsctfc :: u64

record e1000_phy_regs =
  pr_bmcr :: u16
  pr_bmsr :: u16
  pr_advertise :: u16
  pr_lpa :: u16
  pr_expansion :: u16
  pr_ctrl1000 :: u16
  pr_stat1000 :: u16
  pr_estatus :: u16

text \<open>The fields of the adapter that the hardware code does not share; the others are in \<open>e1000_hw\<close>.\<close>

record e1000_adapter =
  ad_pba :: u32
  ad_eee_advert :: u16
  ad_fc_autoneg :: bool
  ad_link_speed :: u16
  ad_link_duplex :: u16
  ad_tx_int_delay :: u32
  ad_tx_abs_int_delay :: u32
  ad_rx_int_delay :: u32
  ad_rx_abs_int_delay :: u32
  ad_tx_fifo_limit :: u32
  ad_wol :: u32
  ad_eeprom_wol :: u32
  ad_eeprom_vers :: u16
  ad_stats :: e1000_hw_stats
  ad_phy_regs :: e1000_phy_regs

text \<open>The statistics the kernel reads, beside those the packet paths keep.\<close>

record io_stats =
  io_inputPackets :: u32
  io_inputErrors :: u32
  io_outputPackets :: u32
  io_outputErrors :: u32
  io_collisions :: u32
  io_alignmentErrors :: u32
  io_fcsErrors :: u32
  io_singleCollisionFrames :: u32
  io_multipleCollisionFrames :: u32
  io_deferredTransmissions :: u32
  io_lateCollisions :: u32
  io_excessiveCollisions :: u32
  io_carrierSenseErrors :: u32
  io_frameTooLongs :: u32
  io_missedFrames :: u32
  io_frameTooShorts :: u32
  io_resets :: u32
  io_txInterrupts :: u32
  io_rxInterrupts :: u32

datatype e1000_boards =
    board_82571 | board_82572 | board_82573 | board_82574 | board_82583 | board_80003es2lan
  | board_ich8lan | board_ich9lan | board_ich10lan | board_pchlan | board_pch2lan
  | board_pch_lpt | board_pch_spt | board_pch_cnp | board_pch_tgp | board_pch_adp

primrec board_rank :: "e1000_boards \<Rightarrow> nat" where
  "board_rank board_82571 = 0"
| "board_rank board_82572 = 1"
| "board_rank board_82573 = 2"
| "board_rank board_82574 = 3"
| "board_rank board_82583 = 4"
| "board_rank board_80003es2lan = 5"
| "board_rank board_ich8lan = 6"
| "board_rank board_ich9lan = 7"
| "board_rank board_ich10lan = 8"
| "board_rank board_pchlan = 9"
| "board_rank board_pch2lan = 10"
| "board_rank board_pch_lpt = 11"
| "board_rank board_pch_spt = 12"
| "board_rank board_pch_cnp = 13"
| "board_rank board_pch_tgp = 14"
| "board_rank board_pch_adp = 15"

lemma board_rank_inject: "board_rank x = board_rank y \<Longrightarrow> x = y"
  by (cases x; cases y) simp_all

instantiation e1000_boards :: linorder
begin

definition less_eq_e1000_boards :: "e1000_boards \<Rightarrow> e1000_boards \<Rightarrow> bool" where
  "less_eq_e1000_boards x y = (board_rank x \<le> board_rank y)"

definition less_e1000_boards :: "e1000_boards \<Rightarrow> e1000_boards \<Rightarrow> bool" where
  "less_e1000_boards x y = (board_rank x < board_rank y)"

instance
  by standard (auto simp: less_eq_e1000_boards_def less_e1000_boards_def intro: board_rank_inject)

end

lemmas board_order = less_eq_e1000_boards_def less_e1000_boards_def

text \<open>The media of the medium dictionary.\<close>

datatype medium =
    MEDIUM_INDEX_AUTO | MEDIUM_INDEX_10HD | MEDIUM_INDEX_10FD | MEDIUM_INDEX_100HD
  | MEDIUM_INDEX_100FD | MEDIUM_INDEX_100FDFC | MEDIUM_INDEX_1000FD | MEDIUM_INDEX_1000FDFC
  | MEDIUM_INDEX_1000FDEEE | MEDIUM_INDEX_1000FDFCEEE | MEDIUM_INDEX_100FDEEE
  | MEDIUM_INDEX_100FDFCEEE

text \<open>\<open>SetLinkStatus\<close> carries whether the link is active, and then the medium and the speed.\<close>

datatype dcall =
    SetLinkStatus bool "(medium \<times> u64) option"
  | SetCurrentMedium medium
  | RequireMaxBusStall u32
  | StartOutputThread
  | StopOutputThread
  | FlushOutputQueue
  | FlushInputQueue
  | SetPollingParameters "u32 \<times> u32 \<times> u32 \<times> u32 \<times> u64"
  | SetTimeoutMS u32
  | CancelTimeout
  | EnableInterrupt
  | DisableInterrupt
  | OpenDevice
  | CloseDevice

datatype pci_event = CfgRd u16 u16 | CfgWr u16 u16

record driver =
  d_m :: mausi
  d_adapter :: e1000_adapter
  d_stats :: io_stats
  d_calls :: "dcall list"
  d_cfg :: "pci_event list \<Rightarrow> u16 \<Rightarrow> u16"
  d_cfg_log :: "pci_event list"
  d_opened :: bool
  d_selectedMedium :: "medium option"
  mtu :: u32
  maxLatency :: u32
  chip :: nat
  chipType :: e1000_boards
  intrMask :: u32
  intrThrValue10 :: u32
  intrThrValue100 :: u32
  intrThrValue1000 :: u32
  rxAbsTime10 :: u32
  rxAbsTime100 :: u32
  rxAbsTime1000 :: u32
  rxDelayTime10 :: u32
  rxDelayTime100 :: u32
  rxDelayTime1000 :: u32
  eeeMode :: u16
  deadlockWarn :: u32
  mcAddrList :: "u8 list list"
  promiscusMode :: bool
  multicastMode :: bool
  polling :: bool
  wolCapable :: bool
  wolActive :: bool
  enableWoM :: bool
  enableWakeS5 :: bool

type_synonym 'a driverM = "(driver, 'a) state"

subsection \<open>Access to the parts of the state\<close>

definition hw_of :: "driver \<Rightarrow> e1000_hw" where
  "hw_of s = m_hw (d_m s)"

definition on_mausi :: "'a mausiM \<Rightarrow> 'a driverM" where
  "on_mausi m = State (\<lambda>s. case run_state m (d_m s) of (a, t) \<Rightarrow> (a, s\<lparr>d_m := t\<rparr>))"

definition dev :: "'a hwM \<Rightarrow> 'a driverM" where
  "dev m = on_mausi (on_hw m)"

definition dread :: "u32 \<Rightarrow> u32 driverM" where
  "dread reg = on_mausi (intelReadMem32 reg)"

definition dwrite :: "u32 \<Rightarrow> u32 \<Rightarrow> unit driverM" where
  "dwrite reg val = on_mausi (intelWriteMem32 reg val)"

definition dflush :: "unit driverM" where
  "dflush = on_mausi intelFlush"

text \<open>\<open>v = intelReadMem32(reg); intelWriteMem32(reg, f(v))\<close>\<close>

definition dmodify :: "u32 \<Rightarrow> (u32 \<Rightarrow> u32) \<Rightarrow> unit driverM" where
  "dmodify reg f = do { v \<leftarrow> dread reg; dwrite reg (f v) }"

definition set_m :: "(mausi \<Rightarrow> mausi) \<Rightarrow> unit driverM" where
  "set_m f = modify (d_m_update f)"

definition set_hw :: "(e1000_hw \<Rightarrow> e1000_hw) \<Rightarrow> unit driverM" where
  "set_hw f = set_m (m_hw_update f)"

definition set_ad :: "(e1000_adapter \<Rightarrow> e1000_adapter) \<Rightarrow> unit driverM" where
  "set_ad f = modify (d_adapter_update f)"

definition tell :: "dcall \<Rightarrow> unit driverM" where
  "tell c = modify (d_calls_update (\<lambda>cs. c # cs))"

definition extendedConfigRead16 :: "u16 \<Rightarrow> u16 driverM" where
  "extendedConfigRead16 offset = do {
     v \<leftarrow> gets (\<lambda>s. d_cfg s (d_cfg_log s) offset);
     modify (d_cfg_log_update (\<lambda>l. CfgRd offset v # l));
     ret v }"

lemma run_on_mausi [simp]:
  "run_state (on_mausi m) s = (fst (run_state m (d_m s)), s\<lparr>d_m := snd (run_state m (d_m s))\<rparr>)"
  by (simp add: on_mausi_def case_prod_beta)

lemma run_on_hw [simp]:
  "run_state (on_hw m) s = (fst (run_state m (m_hw s)), s\<lparr>m_hw := snd (run_state m (m_hw s))\<rparr>)"
  by (simp add: on_hw_def case_prod_beta)

lemma run_set [simp]:
  "run_state (set_m f) s = ((), s\<lparr>d_m := f (d_m s)\<rparr>)"
  "run_state (set_ad g) s = ((), s\<lparr>d_adapter := g (d_adapter s)\<rparr>)"
  "run_state (tell c) s = ((), s\<lparr>d_calls := c # d_calls s\<rparr>)"
  by (simp_all add: set_m_def set_ad_def tell_def)

subsection \<open>The tables of operations\<close>

text \<open>
  \<open>dv_garbage\<close> gives what locals hold that are read before they are set. \<open>dv_cfg_on_link_up\<close> is null in
  the tables of every part.
\<close>

record driver_ops =
  dv_phy :: phy_full_operations
  dv_mac :: mac_all_operations
  dv_nvm :: nvm_all_operations
  dv_reset_hw :: "s32 hwM"
  dv_init_hw :: "s32 hwM"
  dv_update_mc :: "u8 list list \<Rightarrow> unit hwM"
  dv_cfg_on_link_up :: "s32 hwM option"
  dv_garbage :: "nat \<Rightarrow> u16"

text \<open>
  The multicast update ends for every table size the initialisation sets (theory \<open>MacProps\<close>), so
  the marker of its search for the hash shift is dropped.
\<close>

definition driver_ops_of ::
  "phy_table \<Rightarrow> mac_table \<Rightarrow> nvm_all_operations \<Rightarrow> (nat \<Rightarrow> u16) \<Rightarrow> driver_ops" where
  "driver_ops_of pt mt nops g = (case ops_of pt mt nops g of (ops, mops) \<Rightarrow>
     \<lparr>dv_phy = ops, dv_mac = mops, dv_nvm = nops,
      dv_reset_hw = e1000_reset_hw_ich8lan ops nops (g 0),
      dv_init_hw = e1000_init_hw_ich8lan mops ops nops (g 0),
      dv_update_mc = (\<lambda>l. do { e1000e_update_mc_addr_list_generic l; ret () }),
      dv_cfg_on_link_up = None, dv_garbage = g\<rparr>)"

subsection \<open>What is compiled of netdev.c\<close>

definition e1000e_get_hw_control :: "unit hwM" where
  "e1000e_get_hw_control = do {
     flags \<leftarrow> gets hw_flags;
     if flags AND FLAG_HAS_SWSM_ON_LOAD \<noteq> 0 then do {
       swsm \<leftarrow> er32 E1000_SWSM;
       ew32 E1000_SWSM (swsm OR E1000_SWSM_DRV_LOAD) }
     else if flags AND FLAG_HAS_CTRLEXT_ON_LOAD \<noteq> 0 then do {
       ctrl_ext \<leftarrow> er32 E1000_CTRL_EXT;
       ew32 E1000_CTRL_EXT (ctrl_ext OR E1000_CTRL_EXT_DRV_LOAD) }
     else ret () }"

definition e1000e_release_hw_control :: "unit hwM" where
  "e1000e_release_hw_control = do {
     flags \<leftarrow> gets hw_flags;
     if flags AND FLAG_HAS_SWSM_ON_LOAD \<noteq> 0 then do {
       swsm \<leftarrow> er32 E1000_SWSM;
       ew32 E1000_SWSM (swsm AND NOT E1000_SWSM_DRV_LOAD) }
     else if flags AND FLAG_HAS_CTRLEXT_ON_LOAD \<noteq> 0 then do {
       ctrl_ext \<leftarrow> er32 E1000_CTRL_EXT;
       ew32 E1000_CTRL_EXT (ctrl_ext AND NOT E1000_CTRL_EXT_DRV_LOAD) }
     else ret () }"

text \<open>The entry \<open>power_up\<close> is set in the tables of every part the driver supports.\<close>

definition e1000e_power_up_phy :: "driver_ops \<Rightarrow> unit hwM" where
  "e1000e_power_up_phy tb = do { op_phy_power_up (dv_phy tb); op_setup_link (dv_mac tb); ret () }"

text \<open>Reading one counter: the upper half is read to clear it, and its result is overwritten.\<close>

definition phy_stat :: "driver_ops \<Rightarrow> u32 \<Rightarrow> u32 \<Rightarrow> u16 \<Rightarrow> (u16 \<Rightarrow> unit driverM) \<Rightarrow> u16 driverM" where
  "phy_stat tb upper lower data add = do {
     r \<leftarrow> dev (op_phy_read_reg_page (dv_phy tb) upper data);
     r \<leftarrow> dev (op_phy_read_reg_page (dv_phy tb) lower (snd r));
     cwhen (fst r = 0) (add (snd r));
     ret (snd r) }"

definition set_st :: "(e1000_hw_stats \<Rightarrow> e1000_hw_stats) \<Rightarrow> unit driverM" where
  "set_st f = set_ad (ad_stats_update f)"

definition e1000e_update_phy_stats :: "driver_ops \<Rightarrow> unit driverM" where
  "e1000e_update_phy_stats tb = do {
     ret_val \<leftarrow> dev (phy_acquire (dv_phy tb));
     if ret_val \<noteq> 0 then ret ()
     else do {
     dev (set_phy_addr 1);
     r \<leftarrow> dev (e1000e_read_phy_reg_mdic IGP01E1000_PHY_PAGE_SELECT (dv_garbage tb 0));
     ret_val \<leftarrow> (if fst r \<noteq> 0 then ret (fst r)
       else if snd r \<noteq> push_bit IGP_PAGE_SHIFT HV_STATS_PAGE
       then dev (op_phy_set_page (dv_phy tb) (push_bit IGP_PAGE_SHIFT HV_STATS_PAGE))
       else ret 0);
     cwhen (ret_val = 0) (do {
       d \<leftarrow> phy_stat tb HV_SCC_UPPER HV_SCC_LOWER (snd r) (\<lambda>v. set_st (st_scc_update (\<lambda>x. x + ucast v)));
       d \<leftarrow> phy_stat tb HV_ECOL_UPPER HV_ECOL_LOWER d (\<lambda>v. set_st (st_ecol_update (\<lambda>x. x + ucast v)));
       d \<leftarrow> phy_stat tb HV_MCC_UPPER HV_MCC_LOWER d (\<lambda>v. set_st (st_mcc_update (\<lambda>x. x + ucast v)));
       d \<leftarrow> phy_stat tb HV_LATECOL_UPPER HV_LATECOL_LOWER d (\<lambda>v. set_st (st_latecol_update (\<lambda>x. x + ucast v)));
       d \<leftarrow> phy_stat tb HV_COLC_UPPER HV_COLC_LOWER d
         (\<lambda>v. dev (set_mac (mac_collision_delta_update (\<lambda>_. ucast v))));
       d \<leftarrow> phy_stat tb HV_DC_UPPER HV_DC_LOWER d (\<lambda>v. set_st (st_dc_update (\<lambda>x. x + ucast v)));
       phy_stat tb HV_TNCRS_UPPER HV_TNCRS_LOWER d (\<lambda>v. set_st (st_tncrs_update (\<lambda>x. x + ucast v)));
       ret () });
     dev (op_phy_release (dv_phy tb)) } }"

end
