(* ===== verification/DriverHw.thy ===== *)
theory DriverHw
  imports Driver
begin

section \<open>Programming the chip\<close>

text \<open>
  The register programming of \<open>IntelMausiHardware.cpp\<close>, with the statistics and the multicast mode
  of \<open>IntelMausiEthernet.cpp\<close> that it calls: reset, configuration of both units, quiescing, adaptive
  spacing, link query, energy-efficient Ethernet and the latency limit. Debug output is left out.
\<close>

subsection \<open>Interrupts and bits\<close>

abbreviation (input) state_down :: nat where "state_down \<equiv> 3"

definition test_bit_op :: "nat \<Rightarrow> bool hwM" where
  "test_bit_op nr = gets (\<lambda>s. bit (hw_state s) nr)"

definition intelEnableIRQ :: "u32 \<Rightarrow> unit driverM" where
  "intelEnableIRQ newMask = do {
     dwrite E1000_IMC (NOT newMask);
     dwrite E1000_IMS newMask;
     dflush }"

definition intelDisableIRQ :: "unit driverM" where
  "intelDisableIRQ = do { dwrite E1000_IMC 0xFFFFFFFF; dflush }"

subsection \<open>Statistics\<close>

text \<open>\<open>stats.counter += intelReadMem32(reg)\<close>\<close>

definition stat_add :: "((u64 \<Rightarrow> u64) \<Rightarrow> e1000_hw_stats \<Rightarrow> e1000_hw_stats) \<Rightarrow> u32 \<Rightarrow> unit driverM" where
  "stat_add upd reg = do { v \<leftarrow> dread reg; set_st (upd (\<lambda>x. x + ucast v)) }"

definition half_duplex_stats :: "driver_ops \<Rightarrow> unit driverM" where
  "half_duplex_stats tb = do {
     flags2 \<leftarrow> gets (\<lambda>s. hw_flags2 (hw_of s));
     (if flags2 AND FLAG2_HAS_PHY_STATS \<noteq> 0 then e1000e_update_phy_stats tb
      else do {
        stat_add st_scc_update E1000_SCC;
        stat_add st_ecol_update E1000_ECOL;
        stat_add st_mcc_update E1000_MCC;
        stat_add st_latecol_update E1000_LATECOL;
        stat_add st_dc_update E1000_DC;
        v \<leftarrow> dread E1000_COLC;
        dev (set_mac (mac_collision_delta_update (\<lambda>_. v)));
        ty \<leftarrow> gets (\<lambda>s. mac_type (hw_mac (hw_of s)));
        cwhen (ty \<noteq> e1000_82574 \<and> ty \<noteq> e1000_82583) (stat_add st_tncrs_update E1000_TNCRS) });
     delta \<leftarrow> gets (\<lambda>s. mac_collision_delta (hw_mac (hw_of s)));
     set_st (st_colc_update (\<lambda>x. x + ucast delta)) }"

text \<open>The structures of the network and Ethernet statistics, from the counters.\<close>

definition io_stats_of :: "e1000_hw_stats \<Rightarrow> io_stats \<Rightarrow> io_stats" where
  "io_stats_of st io = io\<lparr>
     io_inputPackets := ucast (st_gprc st),
     io_inputErrors := ucast (st_rxerrc st + st_crcerrs st + st_algnerrc st + st_ruc st + st_roc st
       + st_cexterr st),
     io_outputPackets := ucast (st_gptc st),
     io_outputErrors := ucast (st_ecol st + st_latecol st),
     io_collisions := ucast (st_colc st),
     io_alignmentErrors := ucast (st_algnerrc st),
     io_fcsErrors := ucast (st_crcerrs st),
     io_singleCollisionFrames := ucast (st_scc st),
     io_multipleCollisionFrames := ucast (st_mcc st),
     io_deferredTransmissions := ucast (st_dc st),
     io_lateCollisions := ucast (st_latecol st),
     io_excessiveCollisions := ucast (st_ecol st),
     io_carrierSenseErrors := ucast (st_cexterr st),
     io_frameTooLongs := ucast (st_roc st),
     io_missedFrames := ucast (st_mpc st),
     io_frameTooShorts := ucast (st_ruc st)\<rparr>"

definition updateStatistics :: "driver_ops \<Rightarrow> unit driverM" where
  "updateStatistics tb = do {
     stat_add st_crcerrs_update E1000_CRCERRS;
     stat_add st_gprc_update E1000_GPRC;
     stat_add st_gorc_update E1000_GORCL;
     dread E1000_GORCH;
     stat_add st_bprc_update E1000_BPRC;
     stat_add st_mprc_update E1000_MPRC;
     stat_add st_roc_update E1000_ROC;
     stat_add st_mpc_update E1000_MPC;
     duplex \<leftarrow> gets (\<lambda>s. ad_link_duplex (d_adapter s));
     cwhen (duplex = HALF_DUPLEX) (half_duplex_stats tb);
     stat_add st_xonrxc_update E1000_XONRXC;
     stat_add st_xontxc_update E1000_XONTXC;
     stat_add st_xoffrxc_update E1000_XOFFRXC;
     stat_add st_xofftxc_update E1000_XOFFTXC;
     stat_add st_gptc_update E1000_GPTC;
     stat_add st_gotc_update E1000_GOTCL;
     dread E1000_GOTCH;
     stat_add st_rnbc_update E1000_RNBC;
     stat_add st_ruc_update E1000_RUC;
     stat_add st_mptc_update E1000_MPTC;
     stat_add st_bptc_update E1000_BPTC;
     tpt \<leftarrow> dread E1000_TPT;
     dev (set_mac (mac_tx_packet_delta_update (\<lambda>_. tpt)));
     set_st (st_tpt_update (\<lambda>x. x + ucast tpt));
     stat_add st_algnerrc_update E1000_ALGNERRC;
     stat_add st_rxerrc_update E1000_RXERRC;
     stat_add st_cexterr_update E1000_CEXTERR;
     stat_add st_tsctc_update E1000_TSCTC;
     stat_add st_tsctfc_update E1000_TSCTFC;
     modify (\<lambda>s. s\<lparr>d_stats := io_stats_of (ad_stats (d_adapter s)) (d_stats s)\<rparr>) }"

subsection \<open>The adaptive spacing of frames\<close>

definition intelResetAdaptive :: "unit driverM" where
  "intelResetAdaptive = do {
     adaptive \<leftarrow> gets (\<lambda>s. mac_adaptive_ifs (hw_mac (hw_of s)));
     cwhen adaptive (do {
       dev (set_mac (\<lambda>mac. mac\<lparr>mac_current_ifs_val := 0, mac_ifs_min_val := IFS_MIN,
         mac_ifs_max_val := IFS_MAX, mac_ifs_step_size := IFS_STEP, mac_ifs_ratio := IFS_RATIO,
         mac_in_ifs_mode := False\<rparr>));
       dwrite E1000_AIT 0 }) }"

definition intelUpdateAdaptive :: "unit driverM" where
  "intelUpdateAdaptive = do {
     mac \<leftarrow> gets (\<lambda>s. hw_mac (hw_of s));
     cwhen (mac_adaptive_ifs mac)
       (if mac_collision_delta mac * ucast (mac_ifs_ratio mac) > mac_tx_packet_delta mac
        then cwhen (mac_tx_packet_delta mac > MIN_NUM_XMITS) (do {
          dev (set_mac (mac_in_ifs_mode_update (\<lambda>_. True)));
          cwhen (mac_current_ifs_val mac < mac_ifs_max_val mac) (do {
            let v = (if mac_current_ifs_val mac = 0 then mac_ifs_min_val mac
              else mac_current_ifs_val mac + mac_ifs_step_size mac);
            dev (set_mac (mac_current_ifs_val_update (\<lambda>_. v)));
            dwrite E1000_AIT (ucast v) }) })
        else cwhen (mac_in_ifs_mode mac \<and> mac_tx_packet_delta mac \<le> MIN_NUM_XMITS) (do {
          dev (set_mac (\<lambda>mac. mac\<lparr>mac_current_ifs_val := 0, mac_in_ifs_mode := False\<rparr>));
          dwrite E1000_AIT 0 })) }"

subsection \<open>Flushing\<close>

definition intelFlushDescriptors :: "unit driverM" where
  "intelFlushDescriptors = do {
     delay \<leftarrow> gets (\<lambda>s. ad_tx_int_delay (d_adapter s));
     dwrite E1000_TIDV (delay OR E1000_TIDV_FPD);
     dflush;
     dwrite E1000_TIDV (delay OR E1000_TIDV_FPD);
     dflush }"

definition intelFlushDescRings :: "unit driverM" where
  "intelFlushDescRings = do {
     fext_nvm11 \<leftarrow> dread E1000_FEXTNVM11;
     dev (ew32 E1000_FEXTNVM11 (fext_nvm11 OR E1000_FEXTNVM11_DISABLE_MULR_FIX));
     tdlen \<leftarrow> dev (er32 (E1000_TDLEN 0));
     hangState \<leftarrow> extendedConfigRead16 PCICFG_DESC_RING_STATUS;
     if hangState AND FLUSH_DESC_REQUIRED = 0 \<or> tdlen = 0 then ret ()
     else do {
       on_mausi intelFlushTxRing;
       hangState \<leftarrow> extendedConfigRead16 PCICFG_DESC_RING_STATUS;
       cwhen (hangState AND FLUSH_DESC_REQUIRED \<noteq> 0) (on_mausi intelFlushRxRing) } }"

text \<open>The two halves of the clean-up of the rings.\<close>

definition clearDescriptors :: "unit driverM" where
  "clearDescriptors = do { on_mausi clear_tx; on_mausi clear_rx_ring }"

subsection \<open>Reset\<close>

definition ALIGN :: "u32 \<Rightarrow> u32 \<Rightarrow> u32" where
  "ALIGN x a = (x + (a - 1)) AND NOT (a - 1)"

text \<open>The receive share of the packet buffer for a frame size, given the value of the register.\<close>

definition jumbo_pba :: "u32 \<Rightarrow> u32 \<Rightarrow> u32" where
  "jumbo_pba max_frame_size v =
     (let tx_space = drop_bit 16 v;
          pba = v AND 0xffff;
          min_tx_space = drop_bit 10 (ALIGN ((max_frame_size + 16 - ETH_FCS_LEN) * 2) 1024);
          min_rx_space = drop_bit 10 (ALIGN max_frame_size 1024)
      in if tx_space < min_tx_space \<and> min_tx_space - tx_space < pba
         then let pba = pba - (min_tx_space - tx_space)
              in if pba < min_rx_space then min_rx_space else pba
         else pba)"

definition reset_pba :: "u32 driverM" where
  "reset_pba = do {
     pba \<leftarrow> gets (\<lambda>s. ad_pba (d_adapter s));
     dwrite E1000_PBA pba;
     max_frame_size \<leftarrow> gets (\<lambda>s. hw_max_frame_size (hw_of s));
     if max_frame_size > ETH_FRAME_LEN + ETH_FCS_LEN then do {
       v \<leftarrow> dread E1000_PBA;
       let pba = jumbo_pba max_frame_size v;
       dwrite E1000_PBA pba;
       ret pba }
     else ret pba }"

definition dset_fc :: "(e1000_fc_info \<Rightarrow> e1000_fc_info) \<Rightarrow> unit driverM" where
  "dset_fc f = set_hw (hw_fc_update f)"

text \<open>The high mark of the generic case is a \<open>u16\<close>.\<close>

definition high_water_mark :: "u32 \<Rightarrow> u32 \<Rightarrow> u32" where
  "high_water_mark pba max_frame_size =
     (let hwm = ucast (min (push_bit 10 pba * 9 div 10) (push_bit 10 pba - max_frame_size)) :: u16
      in ucast hwm AND E1000_FCRTH_RTH)"

definition reset_watermarks :: "u32 \<Rightarrow> unit driverM" where
  "reset_watermarks pba = do {
     s \<leftarrow> gets id;
     let ty = mac_type (hw_mac (hw_of s));
     let jumbo = (mtu s > ETH_DATA_LEN);
     if (ty = e1000_ich9lan \<or> ty = e1000_ich10lan) \<and> jumbo then do {
       dwrite E1000_PBA 14;
       dset_fc (\<lambda>fc. fc\<lparr>fc_high_water := 0x2800, fc_low_water := 0x2800 - 8\<rparr>) }
     else if ty = e1000_pchlan then
       dset_fc (\<lambda>fc. fc\<lparr>fc_high_water := (if jumbo then 0x3500 else 0x5000),
         fc_low_water := (if jumbo then 0x1500 else 0x3000), fc_refresh_time := 0x1000\<rparr>)
     else if ty \<in> {e1000_pch2lan, e1000_pch_lpt, e1000_pch_spt, e1000_pch_cnp, e1000_pch_tgp, e1000_pch_adp}
     then do {
       dset_fc (\<lambda>fc. fc\<lparr>fc_refresh_time := 0xFFFF, fc_pause_time := 0xFFFF\<rparr>);
       if \<not> jumbo then dset_fc (\<lambda>fc. fc\<lparr>fc_high_water := 0x05C20, fc_low_water := 0x05048\<rparr>)
       else do {
         dwrite E1000_PBA 14;
         dset_fc (\<lambda>fc. fc\<lparr>fc_high_water := (push_bit 10 14 * 9 div 10) AND E1000_FCRTH_RTH,
           fc_low_water := (push_bit 10 14 * 8 div 10) AND E1000_FCRTL_RTL\<rparr>) } }
     else dset_fc (\<lambda>fc. let h = high_water_mark pba (hw_max_frame_size (hw_of s))
       in fc\<lparr>fc_high_water := h, fc_low_water := h - 8\<rparr>) }"

text \<open>The advertisement of energy-efficient Ethernet: whether the function goes on after it.\<close>

definition eee_advertisement_reg :: "e1000_phy_type \<Rightarrow> u16 option" where
  "eee_advertisement_reg ty = (if ty = e1000_phy_82579 then Some I82579_EEE_ADVERTISEMENT
     else if ty = e1000_phy_i217 then Some I217_EEE_ADVERTISEMENT else None)"

definition reset_eee :: "driver_ops \<Rightarrow> bool driverM" where
  "reset_eee tb = do {
     s \<leftarrow> gets id;
     if hw_flags2 (hw_of s) AND FLAG2_HAS_EEE = 0 then ret True
     else case eee_advertisement_reg (phy_type (hw_phy (hw_of s))) of
         None \<Rightarrow> ret False
       | Some adv_addr \<Rightarrow> do {
           ret_val \<leftarrow> dev (phy_acquire (dv_phy tb));
           if ret_val \<noteq> 0 then ret False
           else do {
             s \<leftarrow> gets id;
             dev (e1000_write_emi_reg_locked (dv_phy tb) adv_addr
               (if ich8_eee_disable (hw_ich8 (hw_of s)) then 0 else ad_eee_advert (d_adapter s)));
             dev (op_phy_release (dv_phy tb));
             ret True } } }"

definition intelReset :: "driver_ops \<Rightarrow> unit driverM" where
  "intelReset tb = do {
     pba \<leftarrow> reset_pba;
     flags \<leftarrow> gets (\<lambda>s. hw_flags (hw_of s));
     dset_fc (\<lambda>fc. fc\<lparr>fc_pause_time := (if flags AND FLAG_DISABLE_FC_PAUSE_TIME \<noteq> 0 then 0xFFFF else E1000_FC_PAUSE_TIME),
       fc_send_xon := True, fc_current_mode := fc_requested_mode fc\<rparr>);
     reset_watermarks pba;
     v \<leftarrow> dread E1000_PBA;
     set_ad (ad_tx_fifo_limit_update (\<lambda>_. min (push_bit 10 (drop_bit 16 v) - 96) (push_bit 10 24)));
     thr \<leftarrow> gets intrThrValue100;
     dwrite E1000_ITR thr;
     ty \<leftarrow> gets (\<lambda>s. mac_type (hw_mac (hw_of s)));
     cwhen (ty \<ge> e1000_pch_spt) intelFlushDescRings;
     dev (dv_reset_hw tb);
     dwrite E1000_WUC 0;
     dev (dv_init_hw tb);
     dwrite E1000_VET ETH_P_8021Q;
     intelResetAdaptive;
     go_on \<leftarrow> reset_eee tb;
     cwhen go_on (do {
       dev (op_phy_get_info (dv_phy tb));
       flags \<leftarrow> gets (\<lambda>s. hw_flags (hw_of s));
       cwhen (flags AND FLAG_HAS_SMART_POWER_DOWN \<noteq> 0 \<and> flags AND FLAG_SMART_POWER_DOWN = 0) (do {
         r \<leftarrow> dev (e1e_rphy (dv_phy tb) IGP02E1000_PHY_POWER_MGMT 0);
         dev (e1e_wphy (dv_phy tb) IGP02E1000_PHY_POWER_MGMT (snd r AND NOT IGP02E1000_PM_SPD));
         ret () }) }) }"

end
