(* ===== verification/DriverConf.thy ===== *)
theory DriverConf
  imports DriverHw
begin

section \<open>Configuration, link query and energy-efficient Ethernet\<close>

text \<open>
  The functions of \<open>IntelMausiHardware.cpp\<close> that configure the transmit and receive units and quiesce
  them, the receive filters of \<open>IntelMausiEthernet.cpp\<close>, and the queries of the PHY.
\<close>

subsection \<open>Receive filters\<close>

definition setMulticastMode :: "driver_ops \<Rightarrow> bool \<Rightarrow> unit driverM" where
  "setMulticastMode tb active = do {
     v \<leftarrow> dread E1000_RCTL;
     let rxControl = v AND NOT (E1000_RCTL_UPE OR E1000_RCTL_MPE);
     addrs \<leftarrow> gets mcAddrList;
     dev (dv_update_mc tb (if active then addrs else []));
     dwrite E1000_RCTL rxControl;
     modify (multicastMode_update (\<lambda>_. active)) }"

definition setPromiscuousMode :: "driver_ops \<Rightarrow> bool \<Rightarrow> unit driverM" where
  "setPromiscuousMode tb active = do {
     v \<leftarrow> dread E1000_RCTL;
     let rxControl = v AND NOT (E1000_RCTL_UPE OR E1000_RCTL_MPE);
     addrs \<leftarrow> gets mcAddrList;
     cwhen (\<not> active) (dev (dv_update_mc tb addrs));
     dwrite E1000_RCTL (if active then rxControl OR (E1000_RCTL_UPE OR E1000_RCTL_MPE) else rxControl);
     modify (promiscusMode_update (\<lambda>_. active)) }"

text \<open>\<open>copy\<close> is whether the allocation of the new list succeeds. The result is success.\<close>

definition setMulticastList :: "driver_ops \<Rightarrow> bool \<Rightarrow> u8 list list \<Rightarrow> bool driverM" where
  "setMulticastList tb copy addrs =
     (if addrs \<noteq> [] then
        if copy then do {
          modify (mcAddrList_update (\<lambda>_. addrs));
          dev (dv_update_mc tb addrs);
          ret True }
        else ret False
      else do {
        modify (mcAddrList_update (\<lambda>_. []));
        dev (dv_update_mc tb []);
        ret True })"

definition intelVlanStripDisable :: "unit driverM" where
  "intelVlanStripDisable = dmodify E1000_CTRL (\<lambda>ctrl. ctrl AND NOT E1000_CTRL_VME)"

definition intelVlanStripEnable :: "unit driverM" where
  "intelVlanStripEnable = dmodify E1000_CTRL (\<lambda>ctrl. ctrl OR E1000_CTRL_VME)"

definition rsskey :: "u32 list" where
  "rsskey = [0xda565a6d, 0xc20e5b25, 0x3d256741, 0xb08fa343, 0xcb2bcad0,
     0xb4307bae, 0xa32dcb77, 0x0cf23080, 0x3bb7426a, 0xfa01acbe]"

definition E1000_RSSRK :: "u32 \<Rightarrow> u32" where "E1000_RSSRK i = 0x05C80 + i * 4"
definition E1000_RETA :: "u32 \<Rightarrow> u32" where "E1000_RETA i = 0x05C00 + i * 4"
definition E1000_MDEF :: "u32 \<Rightarrow> u32" where "E1000_MDEF n = 0x05890 + 4 * n"
definition E1000_RXDCTL :: "u32 \<Rightarrow> u32" where
  "E1000_RXDCTL n = (if n < 4 then 0x02828 + n * 0x100 else 0x0C028 + n * 0x40)"

definition intelSetupRssHash :: "unit driverM" where
  "intelSetupRssHash = do {
     for_each [0..<10] (\<lambda>i. dwrite (E1000_RSSRK (of_nat i)) (rsskey ! i));
     for_each [0..<32] (\<lambda>i. dwrite (E1000_RETA (of_nat i)) 0);
     dmodify E1000_RXCSUM (\<lambda>rxcsum. rxcsum OR E1000_RXCSUM_PCSD);
     dwrite E1000_MRQC ((E1000_MRQC_RSS_FIELD_IPV4 OR E1000_MRQC_RSS_FIELD_IPV4_TCP OR E1000_MRQC_RSS_FIELD_IPV6
       OR E1000_MRQC_RSS_FIELD_IPV6_TCP OR E1000_MRQC_RSS_FIELD_IPV6_TCP_EX) OR 0x01) }"

subsection \<open>Management pass-through\<close>

text \<open>
  The two loops over the decision filters: the filters with IPMI ports only, as the bits of \<open>MANC2H\<close> and the
  ports seen; and the first empty filter, which is written.
\<close>

primrec mdef_scan :: "nat list \<Rightarrow> u32 \<Rightarrow> u32 \<Rightarrow> (u32 \<times> u32) driverM" where
  "mdef_scan [] manc2h j = ret (manc2h, j)"
| "mdef_scan (i # is) manc2h j = do {
     mdef \<leftarrow> dread (E1000_MDEF (of_nat i));
     if mdef AND NOT (E1000_MDEF_PORT_623 OR E1000_MDEF_PORT_664) \<noteq> 0 then mdef_scan is manc2h j
     else mdef_scan is (if mdef \<noteq> 0 then manc2h OR push_bit i 1 else manc2h) (j OR mdef) }"

primrec mdef_create :: "nat list \<Rightarrow> u32 \<Rightarrow> u32 driverM" where
  "mdef_create [] manc2h = ret manc2h"
| "mdef_create (i # is) manc2h = do {
     mdef \<leftarrow> dread (E1000_MDEF (of_nat i));
     if mdef = 0 then do {
       dwrite (E1000_MDEF (of_nat i)) (E1000_MDEF_PORT_623 OR E1000_MDEF_PORT_664);
       ret (manc2h OR push_bit 1 1) }
     else mdef_create is manc2h }"

definition intelInitManageabilityPt :: "unit driverM" where
  "intelInitManageabilityPt = do {
     flags \<leftarrow> gets (\<lambda>s. hw_flags (hw_of s));
     if flags AND FLAG_MNG_PT_ENABLED = 0 then ret ()
     else do {
     v \<leftarrow> dread E1000_MANC;
     let manc = v OR E1000_MANC_EN_MNG2HOST;
     manc2h \<leftarrow> dread E1000_MANC2H;
     ty \<leftarrow> gets (\<lambda>s. mac_type (hw_mac (hw_of s)));
     manc2h \<leftarrow> (if ty = e1000_82574 \<or> ty = e1000_82583 then do {
         (manc2h, j) \<leftarrow> mdef_scan [0..<8] manc2h 0;
         if j = E1000_MDEF_PORT_623 OR E1000_MDEF_PORT_664 then ret manc2h
         else mdef_create [0..<8] manc2h }
       else ret (manc2h OR (E1000_MANC2H_PORT_623 OR E1000_MANC2H_PORT_664)));
     dwrite E1000_MANC2H manc2h;
     dwrite E1000_MANC manc } }"

definition intelEnableMngPassThru :: "bool driverM" where
  "intelEnableMngPassThru = do {
     manc \<leftarrow> dread E1000_MANC;
     if manc AND E1000_MANC_RCV_TCO_EN = 0 then ret False
     else do {
     fwsm_present \<leftarrow> gets (\<lambda>s. mac_has_fwsm (hw_mac (hw_of s)));
     if fwsm_present then do {
       fwsm \<leftarrow> dread E1000_FWSM;
       factps \<leftarrow> dread E1000_FACTPS;
       ret (factps AND E1000_FACTPS_MNGCG = 0 \<and>
         fwsm AND E1000_FWSM_MODE_MASK = push_bit E1000_FWSM_MODE_SHIFT 2) }
     else ret (manc AND E1000_MANC_SMBUS_EN \<noteq> 0 \<and> manc AND E1000_MANC_ASF_EN = 0) } }"

subsection \<open>The transmit unit\<close>

definition intelConfigureTx :: "driver_ops \<Rightarrow> unit driverM" where
  "intelConfigureTx tb = do {
     on_mausi intelInitTxRing;
     ad \<leftarrow> gets d_adapter;
     dwrite E1000_TIDV (ad_tx_int_delay ad);
     dwrite E1000_TADV (ad_tx_abs_int_delay ad);
     txdctl \<leftarrow> dread (E1000_TXDCTL 0);
     board \<leftarrow> gets chipType;
     let txdctl = (if board \<ge> board_pch2lan then 0x01410000 else txdctl);
     cwhen (board \<ge> board_pch2lan) (dwrite (E1000_TXDCTL 0) txdctl);
     dwrite (E1000_TXDCTL 1) txdctl;
     v \<leftarrow> dread E1000_TCTL;
     let tctl = (v AND NOT E1000_TCTL_CT)
       OR (E1000_TCTL_PSP OR E1000_TCTL_RTLC OR push_bit E1000_CT_SHIFT E1000_COLLISION_THRESHOLD);
     flags \<leftarrow> gets (\<lambda>s. hw_flags (hw_of s));
     cwhen (flags AND FLAG_TARC_SET_BIT_ZERO \<noteq> 0) (do {
       dmodify (E1000_TARC 0) (\<lambda>tarc. tarc OR 1);
       dmodify (E1000_TARC 1) (\<lambda>tarc. tarc OR 1) });
     dwrite E1000_TCTL tctl;
     dev (op_config_collision_dist (dv_mac tb));
     ty \<leftarrow> gets (\<lambda>s. mac_type (hw_mac (hw_of s)));
     cwhen (ty = e1000_pch_spt) (do {
       dmodify E1000_IOSFPC (\<lambda>v. v OR E1000_RCTL_RDMTS_HEX);
       dmodify (E1000_TARC 0) (\<lambda>v. (v AND NOT E1000_TARC0_CB_MULTIQ_3_REQ) OR E1000_TARC0_CB_MULTIQ_2_REQ) }) }"

subsection \<open>The receive unit\<close>

text \<open>The gaps for jumbo frames on the 82577. Results are not looked at; \<open>phy_data\<close> starts unset.\<close>

definition jumbo_ipg :: "driver_ops \<Rightarrow> unit hwM" where
  "jumbo_ipg tb = do {
     let ops = dv_phy tb;
     r \<leftarrow> e1e_rphy ops (PHY_REG 770 26) (dv_garbage tb 1);
     let phy_data = (snd r AND 0xfff8) OR push_bit 2 1;
     e1e_wphy ops (PHY_REG 770 26) phy_data;
     r \<leftarrow> e1e_rphy ops 22 phy_data;
     let phy_data = (snd r AND 0x0fff) OR push_bit 14 1;
     e1e_wphy ops 0x10 0x2823;
     e1e_wphy ops 0x11 0x0003;
     e1e_wphy ops 22 phy_data;
     ret () }"

definition intelSetupRxControl :: "driver_ops \<Rightarrow> unit driverM" where
  "intelSetupRxControl tb = do {
     jumbo \<leftarrow> gets (\<lambda>s. mtu s > ETH_DATA_LEN);
     ty \<leftarrow> gets (\<lambda>s. mac_type (hw_mac (hw_of s)));
     cwhen (ty \<ge> e1000_pch2lan) (do {
       dev (e1000_lv_jumbo_workaround_ich8lan (dv_phy tb) jumbo (dv_garbage tb 2) (dv_garbage tb 3));
       ret () });
     v \<leftarrow> dread E1000_RCTL;
     mo \<leftarrow> gets (\<lambda>s. mac_mc_filter_type (hw_mac (hw_of s)));
     let rctl = v AND NOT (push_bit E1000_RCTL_MO_SHIFT 3);
     let rctl = rctl OR (E1000_RCTL_BAM OR E1000_RCTL_LBM_NO OR E1000_RCTL_RDMTS_HALF OR push_bit E1000_RCTL_MO_SHIFT mo);
     let rctl = rctl AND NOT E1000_RCTL_SBP;
     let rctl = (if jumbo then rctl OR E1000_RCTL_LPE else rctl AND NOT E1000_RCTL_LPE);
     let rctl = rctl OR E1000_RCTL_SECRC;
     pty \<leftarrow> gets (\<lambda>s. phy_type (hw_phy (hw_of s)));
     cwhen (pty = e1000_phy_82577 \<and> rctl AND E1000_RCTL_LPE \<noteq> 0) (dev (jumbo_ipg tb));
     let rctl = rctl AND NOT (E1000_RCTL_SZ_256 OR E1000_RCTL_BSEX);
     dmodify E1000_RFCTL (\<lambda>rfctl. rfctl OR (E1000_RFCTL_NEW_IPV6_EXT_DIS OR E1000_RFCTL_IPV6_EX_DIS
       OR E1000_RFCTL_EXTEN OR E1000_RFCTL_NFSW_DIS OR E1000_RFCTL_NFSR_DIS));
     dwrite E1000_RCTL rctl }"

definition intelConfigureRx :: "unit driverM" where
  "intelConfigureRx = do {
     rctl \<leftarrow> dread E1000_RCTL;
     dflush;
     dev (usleep_range 10000 20000);
     s \<leftarrow> gets id;
     dwrite E1000_RDTR (ad_rx_int_delay (d_adapter s));
     dwrite E1000_RADV (ad_rx_abs_int_delay (d_adapter s));
     dwrite E1000_ITR (intrThrValue1000 s);
     ctrl_ext \<leftarrow> dread E1000_CTRL_EXT;
     dwrite E1000_IAM 0xffffffff;
     dwrite E1000_CTRL_EXT (ctrl_ext OR E1000_CTRL_EXT_IAME);
     dev e1e_flush;
     on_mausi intelInitRxRing;
     dmodify E1000_RXCSUM (\<lambda>rxcsum. rxcsum OR E1000_RXCSUM_TUOFL);
     flags \<leftarrow> gets (\<lambda>s. hw_flags (hw_of s));
     cwhen (mtu s > ETH_DATA_LEN \<and> flags AND FLAG_IS_ICH \<noteq> 0) (dmodify (E1000_RXDCTL 0) (\<lambda>rxdctl. rxdctl OR 0x3));
     dwrite E1000_RCTL rctl }"

definition intelConfigure :: "driver_ops \<Rightarrow> unit driverM" where
  "intelConfigure tb = do {
     setMulticastMode tb True;
     intelInitManageabilityPt;
     intelSetupRssHash;
     intelVlanStripEnable;
     intelConfigureTx tb;
     intelSetupRxControl tb;
     intelConfigureRx }"

subsection \<open>Quiescing\<close>

definition intelDown :: "driver_ops \<Rightarrow> bool \<Rightarrow> unit driverM" where
  "intelDown tb reset = do {
     dev (set_bit_op state_down);
     dmodify E1000_RCTL (\<lambda>rctl. rctl AND NOT E1000_RCTL_EN);
     dmodify E1000_TCTL (\<lambda>tctl. tctl AND NOT E1000_TCTL_EN);
     dflush;
     dev (usleep_range 10000 20000);
     intelDisableIRQ;
     updateStatistics tb;
     set_ad (\<lambda>ad. ad\<lparr>ad_link_speed := 0, ad_link_duplex := 0\<rparr>);
     jumbo \<leftarrow> gets (\<lambda>s. mtu s > ETH_DATA_LEN);
     ty \<leftarrow> gets (\<lambda>s. mac_type (hw_mac (hw_of s)));
     cwhen (ty \<ge> e1000_pch2lan \<and> jumbo) (do {
       dev (e1000_lv_jumbo_workaround_ich8lan (dv_phy tb) False (dv_garbage tb 2) (dv_garbage tb 3));
       ret () });
     (if reset then intelReset tb else cwhen (ty \<ge> e1000_pch_spt) intelFlushDescRings);
     clearDescriptors;
     board \<leftarrow> gets chipType;
     cwhen (board \<ge> board_pch_lpt) (tell (RequireMaxBusStall 0)) }"

definition intelPowerDownPhy :: "driver_ops \<Rightarrow> unit driverM" where
  "intelPowerDownPhy tb = dev (op_phy_power_down (dv_phy tb))"

subsection \<open>Link and PHY\<close>

definition intelCheckLink :: "driver_ops \<Rightarrow> bool driverM" where
  "intelCheckLink tb = do {
     s \<leftarrow> gets id;
     (ret_val, link_active) \<leftarrow> (case phy_media_type (hw_phy (hw_of s)) of
         e1000_media_type_copper \<Rightarrow>
           if mac_get_link_status (hw_mac (hw_of s)) then do {
             ret_val \<leftarrow> dev (op_check_for_link (dv_mac tb));
             pending \<leftarrow> gets (\<lambda>s. mac_get_link_status (hw_mac (hw_of s)));
             ret (ret_val, \<not> pending) }
           else ret (0, True)
       | e1000_media_type_fiber \<Rightarrow> do {
           ret_val \<leftarrow> dev (op_check_for_link (dv_mac tb));
           status \<leftarrow> dread E1000_STATUS;
           ret (ret_val, status AND E1000_STATUS_LU \<noteq> 0) }
       | e1000_media_type_internal_serdes \<Rightarrow> do {
           ret_val \<leftarrow> dev (op_check_for_link (dv_mac tb));
           link \<leftarrow> gets (\<lambda>s. mac_serdes_has_link (hw_mac (hw_of s)));
           ret (ret_val, link) }
       | e1000_media_type_unknown \<Rightarrow> ret (0, False));
     pty \<leftarrow> gets (\<lambda>s. phy_type (hw_phy (hw_of s)));
     cwhen (ret_val = E1000_ERR_PHY \<and> pty = e1000_phy_igp_3) (do { dread E1000_CTRL; ret () });
     ret link_active }"

text \<open>One register of the snapshot.\<close>

definition snapshot :: "driver_ops \<Rightarrow> u32 \<Rightarrow> (e1000_phy_regs \<Rightarrow> u16) \<Rightarrow> ((u16 \<Rightarrow> u16) \<Rightarrow> e1000_phy_regs \<Rightarrow> e1000_phy_regs)
    \<Rightarrow> unit driverM" where
  "snapshot tb reg get upd = do {
     v \<leftarrow> gets (\<lambda>s. get (ad_phy_regs (d_adapter s)));
     r \<leftarrow> dev (e1e_rphy (dv_phy tb) reg v);
     set_ad (ad_phy_regs_update (upd (\<lambda>_. snd r))) }"

definition intelPhyReadStatus :: "driver_ops \<Rightarrow> unit driverM" where
  "intelPhyReadStatus tb = do {
     status \<leftarrow> dread E1000_STATUS;
     media \<leftarrow> gets (\<lambda>s. phy_media_type (hw_phy (hw_of s)));
     if status AND E1000_STATUS_LU \<noteq> 0 \<and> media = e1000_media_type_copper then do {
       snapshot tb MII_BMCR pr_bmcr pr_bmcr_update;
       snapshot tb MII_BMSR pr_bmsr pr_bmsr_update;
       snapshot tb MII_ADVERTISE pr_advertise pr_advertise_update;
       snapshot tb MII_LPA pr_lpa pr_lpa_update;
       snapshot tb MII_EXPANSION pr_expansion pr_expansion_update;
       snapshot tb MII_CTRL1000 pr_ctrl1000 pr_ctrl1000_update;
       snapshot tb MII_STAT1000 pr_stat1000 pr_stat1000_update;
       snapshot tb MII_ESTATUS pr_estatus pr_estatus_update }
     else set_ad (ad_phy_regs_update (\<lambda>_. \<lparr>
       pr_bmcr = BMCR_SPEED1000 OR BMCR_ANENABLE OR BMCR_FULLDPLX,
       pr_bmsr = BMSR_100FULL OR BMSR_100HALF OR BMSR_10FULL OR BMSR_10HALF OR BMSR_ESTATEN
         OR BMSR_ANEGCAPABLE OR BMSR_ERCAP,
       pr_advertise = ADVERTISE_PAUSE_ASYM OR ADVERTISE_PAUSE_CAP OR ADVERTISE_ALL OR ADVERTISE_CSMA,
       pr_lpa = 0, pr_expansion = EXPANSION_ENABLENPAGE, pr_ctrl1000 = ADVERTISE_1000FULL,
       pr_stat1000 = 0, pr_estatus = ESTATUS_1000_TFULL OR ESTATUS_1000_THALF\<rparr>)) }"

definition intelFlushLPIC :: "driver_ops \<Rightarrow> unit driverM" where
  "intelFlushLPIC tb = do {
     error \<leftarrow> dev (phy_acquire (dv_phy tb));
     if error \<noteq> 0 then ret ()
     else do { dread E1000_LPIC; dev (op_phy_release (dv_phy tb)) } }"

text \<open>The speed is one of the three the chip reports, never zero.\<close>

definition setMaxLatency :: "u32 \<Rightarrow> unit driverM" where
  "setMaxLatency linkSpeed = do {
     v \<leftarrow> dread E1000_PBA;
     s \<leftarrow> gets id;
     let rxa = push_bit 9 (v AND E1000_PBA_RXA_MASK);
     let max_frame_size = hw_max_frame_size (hw_of s);
     let latency = (if rxa > max_frame_size then (rxa - max_frame_size) * (16000 div linkSpeed) else 0);
     tell (RequireMaxBusStall
       (if maxLatency s \<noteq> 0 \<and> latency > maxLatency s then maxLatency s else latency)) }"

subsection \<open>Energy-efficient Ethernet\<close>

definition eee_lp_ability_reg :: "e1000_phy_type \<Rightarrow> u16 option" where
  "eee_lp_ability_reg ty = (if ty = e1000_phy_82579 then Some I82579_EEE_LP_ABILITY
     else if ty = e1000_phy_i217 then Some I217_EEE_LP_ABILITY else None)"

definition eee_pcs_status_reg :: "e1000_phy_type \<Rightarrow> u16 option" where
  "eee_pcs_status_reg ty = (if ty = e1000_phy_82579 then Some I82579_EEE_PCS_STATUS
     else if ty = e1000_phy_i217 then Some I217_EEE_PCS_STATUS else None)"

text \<open>The speeds both ends support, as the bits of the low-power idle control register.\<close>

definition eee_common :: "u16 \<Rightarrow> u16 \<Rightarrow> u16" where
  "eee_common adv lp =
     (if adv AND lp AND I82579_EEE_1000_SUPPORTED \<noteq> 0 then I82579_LPI_CTRL_1000_ENABLE else 0)
     OR (if adv AND lp AND I82579_EEE_100_SUPPORTED \<noteq> 0 then I82579_LPI_CTRL_100_ENABLE else 0)"

definition intelSupportsEEE :: "driver_ops \<Rightarrow> u16 driverM" where
  "intelSupportsEEE tb = do {
     s \<leftarrow> gets (\<lambda>s. hw_of s);
     let ops = dv_phy tb;
     case (eee_lp_ability_reg (phy_type (hw_phy s)), eee_advertisement_reg (phy_type (hw_phy s))) of
         (Some lpa, Some advAddr) \<Rightarrow>
           if hw_flags2 s AND FLAG2_HAS_EEE = 0 \<or> ich8_eee_disable (hw_ich8 s) then ret 0
           else do {
           error \<leftarrow> dev (phy_acquire ops);
           if error \<noteq> 0 then ret 0
           else do {
           ability \<leftarrow> gets (\<lambda>s. ich8_eee_lp_ability (hw_ich8 (hw_of s)));
           r \<leftarrow> dev (e1000_read_emi_reg_locked ops lpa ability);
           dev (set_ich8 (ich8_eee_lp_ability_update (\<lambda>_. snd r)));
           result \<leftarrow> (if fst r \<noteq> 0 then ret 0
             else do {
               a \<leftarrow> dev (e1000_read_emi_reg_locked ops advAddr (dv_garbage tb 4));
               ret (if fst a \<noteq> 0 then 0 else eee_common (snd a) (snd r)) });
           dev (op_phy_release ops);
           ret result } }
       | _ \<Rightarrow> ret 0 }"

definition enable_eee_locked :: "driver_ops \<Rightarrow> u16 \<Rightarrow> u16 \<Rightarrow> s32 hwM" where
  "enable_eee_locked tb pcsStatus mode = do {
     let ops = dv_phy tb;
     r \<leftarrow> e1e_rphy_locked ops I82579_LPI_CTRL (dv_garbage tb 5);
     if fst r \<noteq> 0 then ret (fst r)
     else do {
     let lpiCtrl = (snd r AND NOT I82579_LPI_CTRL_ENABLE_MASK) OR mode;
     ty \<leftarrow> gets (\<lambda>s. phy_type (hw_phy s));
     error \<leftarrow> (if ty = e1000_phy_82579 then do {
         d \<leftarrow> e1000_read_emi_reg_locked ops I82579_LPI_PLL_SHUT (dv_garbage tb 6);
         cwhen (fst d = 0) (do {
           e1000_write_emi_reg_locked ops I82579_LPI_PLL_SHUT (snd d AND NOT I82579_LPI_100_PLL_SHUT);
           ret () });
         ret (fst d) }
       else ret 0);
     if error \<noteq> 0 then ret error
     else do {
     d \<leftarrow> e1000_read_emi_reg_locked ops pcsStatus (dv_garbage tb 6);
     if fst d \<noteq> 0 then ret (fst d) else e1e_wphy_locked ops I82579_LPI_CTRL lpiCtrl } } }"

definition intelEnableEEE :: "driver_ops \<Rightarrow> u16 \<Rightarrow> s32 driverM" where
  "intelEnableEEE tb mode = do {
     ty \<leftarrow> gets (\<lambda>s. phy_type (hw_phy (hw_of s)));
     case eee_pcs_status_reg ty of
         None \<Rightarrow> ret 0
       | Some pcsStatus \<Rightarrow> do {
           error \<leftarrow> dev (phy_acquire (dv_phy tb));
           if error \<noteq> 0 then ret error
           else do {
             error \<leftarrow> dev (enable_eee_locked tb pcsStatus mode);
             dev (op_phy_release (dv_phy tb));
             ret error } } }"

subsection \<open>The advertisement for a medium\<close>

text \<open>A medium with negotiation: the abilities offered, the flow control and whether it keeps EEE on.\<close>

definition advertise :: "u16 \<Rightarrow> e1000_fc_mode \<Rightarrow> bool \<Rightarrow> unit hwM" where
  "advertise abilities fc eee = do {
     set_phy (phy_autoneg_advertised_update (\<lambda>_. abilities));
     set_mac (mac_autoneg_update (\<lambda>_. True));
     modify (hw_fc_update (fc_requested_mode_update (\<lambda>_. fc)));
     cwhen eee (set_ich8 (ich8_eee_disable_update (\<lambda>_. False))) }"

definition force_medium :: "u8 \<Rightarrow> unit hwM" where
  "force_medium sd = set_mac (\<lambda>mac. mac\<lparr>mac_forced_speed_duplex := sd, mac_autoneg := False\<rparr>)"

text \<open>The automatic medium.\<close>

definition advertise_all :: "bool \<Rightarrow> unit hwM" where
  "advertise_all fc_autoneg = do {
     s \<leftarrow> gets id;
     (if phy_media_type (hw_phy s) = e1000_media_type_fiber
      then set_phy (phy_autoneg_advertised_update (\<lambda>_. ADVERTISED_1000baseT_Full OR ADVERTISED_FIBRE OR ADVERTISED_Autoneg))
      else do {
        set_phy (phy_autoneg_advertised_update (\<lambda>_. ADVERTISED_10baseT_Half OR ADVERTISED_10baseT_Full
          OR ADVERTISED_100baseT_Full OR ADVERTISED_100baseT_Half OR ADVERTISED_1000baseT_Full OR ADVERTISED_Autoneg
          OR ADVERTISED_TP OR ADVERTISED_MII));
        cwhen fc_autoneg (modify (hw_fc_update (fc_requested_mode_update (\<lambda>_. e1000_fc_default))));
        cwhen (hw_flags2 s AND FLAG2_HAS_EEE \<noteq> 0) (set_ich8 (ich8_eee_disable_update (\<lambda>_. False))) });
     set_mac (mac_autoneg_update (\<lambda>_. True)) }"

definition intelSetupAdvForMedium :: "medium \<Rightarrow> unit driverM" where
  "intelSetupAdvForMedium medium = do {
     flags2 \<leftarrow> gets (\<lambda>s. hw_flags2 (hw_of s));
     fc_autoneg \<leftarrow> gets (\<lambda>s. ad_fc_autoneg (d_adapter s));
     cwhen (flags2 AND FLAG2_HAS_EEE \<noteq> 0) (dev (set_ich8 (ich8_eee_disable_update (\<lambda>_. True))));
     dev (case medium of
         MEDIUM_INDEX_10HD \<Rightarrow> force_medium ADVERTISE_10_HALF
       | MEDIUM_INDEX_10FD \<Rightarrow> force_medium ADVERTISE_10_FULL
       | MEDIUM_INDEX_100HD \<Rightarrow> advertise ADVERTISED_100baseT_Half e1000_fc_none False
       | MEDIUM_INDEX_100FD \<Rightarrow> advertise ADVERTISED_100baseT_Full e1000_fc_none False
       | MEDIUM_INDEX_100FDFC \<Rightarrow> advertise ADVERTISED_100baseT_Full e1000_fc_full False
       | MEDIUM_INDEX_1000FD \<Rightarrow> advertise ADVERTISED_1000baseT_Full e1000_fc_none False
       | MEDIUM_INDEX_1000FDFC \<Rightarrow> advertise ADVERTISED_1000baseT_Full e1000_fc_full False
       | MEDIUM_INDEX_1000FDEEE \<Rightarrow> advertise ADVERTISED_1000baseT_Full e1000_fc_none True
       | MEDIUM_INDEX_1000FDFCEEE \<Rightarrow> advertise ADVERTISED_1000baseT_Full e1000_fc_full True
       | MEDIUM_INDEX_100FDEEE \<Rightarrow> advertise ADVERTISED_100baseT_Full e1000_fc_none True
       | MEDIUM_INDEX_100FDFCEEE \<Rightarrow> advertise ADVERTISED_100baseT_Full e1000_fc_full True
       | MEDIUM_INDEX_AUTO \<Rightarrow> advertise_all fc_autoneg);
     dev (set_phy (phy_mdix_update (\<lambda>_. AUTO_ALL_MODES))) }"

end
