(* ===== verification/DriverWake.thy ===== *)
theory DriverWake
  imports DriverConf
begin

section \<open>Wake-up and switching the device off\<close>

text \<open>
  The address filters of \<open>IntelMausiSetup.cpp\<close> and the wake-up programming and \<open>intelDisable\<close> of
  \<open>IntelMausiHardware.cpp\<close>. The addresses of the interface come from the kernel: an argument.
\<close>

subsection \<open>The addresses of the interface\<close>

text \<open>
  One entry of the kernel's list: its family, and the address unless \<open>ifaddr_address\<close> fails. IPv6
  addresses are four words in network byte order.
\<close>

datatype ifaddr = AF_INET "u32 option" | AF_INET6 "u32 list option" | AF_OTHER

record IntelAddrData =
  ipV4Addr :: "u32 list"
  ipV6Addr :: "u32 list list"

definition OSSwapBigToHostInt32 :: "u32 \<Rightarrow> u32" where
  "OSSwapBigToHostInt32 x = push_bit 24 (x AND 0xFF) OR push_bit 8 (x AND 0xFF00)
     OR (drop_bit 8 x AND 0xFF00) OR drop_bit 24 x"

definition local_prefix :: "u32 list \<Rightarrow> bool" where
  "local_prefix a = (let prefix = OSSwapBigToHostInt32 (a ! 0)
     in prefix AND kULAMask = kULAPrefix \<or> prefix AND kLLAMask = kLLAPrefix)"

definition add_address :: "IntelAddrData \<Rightarrow> ifaddr \<Rightarrow> IntelAddrData" where
  "add_address d a = (case a of
       AF_INET (Some x) \<Rightarrow> if length (ipV4Addr d) < kMaxAddrV4 then d\<lparr>ipV4Addr := ipV4Addr d @ [x]\<rparr> else d
     | AF_INET6 (Some x) \<Rightarrow>
         if length (ipV6Addr d) < kMaxAddrV6 \<and> local_prefix x then d\<lparr>ipV6Addr := ipV6Addr d @ [x]\<rparr> else d
     | _ \<Rightarrow> d)"

text \<open>\<open>None\<close> is a failure of \<open>ifnet_get_address_list\<close>.\<close>

definition getAddressList :: "bool \<Rightarrow> ifaddr list option \<Rightarrow> IntelAddrData" where
  "getAddressList wom addresses = (case addresses of
       Some as \<Rightarrow> if wom then foldl add_address \<lparr>ipV4Addr = [], ipV6Addr = []\<rparr> as
         else \<lparr>ipV4Addr = [], ipV6Addr = []\<rparr>
     | None \<Rightarrow> \<lparr>ipV4Addr = [], ipV6Addr = []\<rparr>)"

subsection \<open>Wake-up by the MAC\<close>

definition E1000_IP4AT :: "u32 \<Rightarrow> u32" where "E1000_IP4AT n = 0x05848 + n * 8"
definition E1000_IP6AT :: "u32 \<Rightarrow> u32" where "E1000_IP6AT n = 0x05880 + n * 4"

definition intelInitMacWakeup :: "u32 \<Rightarrow> IntelAddrData \<Rightarrow> unit driverM" where
  "intelInitMacWakeup wufc d = do {
     let wufc = (if ipV4Addr d \<noteq> [] then wufc OR (E1000_WUFC_EX OR E1000_WUFC_ARP OR E1000_WUFC_IP4) else wufc);
     let num = min (length (ipV4Addr d)) kMaxAddrV4;
     let av = foldl (\<lambda>av i. av OR push_bit (i + 1) 1) (0 :: u32) [0..<num];
     for_each [0..<num] (\<lambda>i. dwrite (E1000_IP4AT (of_nat i)) (ipV4Addr d ! i));
     cwhen (ipV6Addr d \<noteq> [])
       (for_each [0..<4] (\<lambda>i. dwrite (E1000_IP6AT (of_nat i)) (ipV6Addr d ! 0 ! i)));
     dwrite E1000_IPAV (if ipV6Addr d \<noteq> [] then av OR push_bit 16 1 else av);
     dwrite E1000_WUFC (if ipV6Addr d \<noteq> [] then wufc OR (E1000_WUFC_EX OR E1000_WUFC_IP6) else wufc);
     dwrite E1000_WUC (E1000_WUC_PME_EN OR E1000_WUC_PME_STATUS) }"

subsection \<open>Wake-up by the PHY\<close>

definition BM_MTA :: "u32 \<Rightarrow> u32" where "BM_MTA i = BM_PHY_REG BM_WUC_PAGE (128 + push_bit 1 i)"

text \<open>\<open>BM_IP4AT0\<close> and its successor, and \<open>BM_IP6AT0\<close> to \<open>BM_IP6AT7\<close>, by their number.\<close>

definition BM_IP4AT :: "u32 \<Rightarrow> u32 \<Rightarrow> u32" where "BM_IP4AT k i = BM_PHY_REG BM_WUC_PAGE (82 + k + push_bit 1 i)"
definition BM_IP6AT :: "u32 \<Rightarrow> u32 \<Rightarrow> u32" where "BM_IP6AT k i = BM_PHY_REG BM_WUC_PAGE (88 + k + push_bit 3 i)"

definition phy_wakeup_rctl :: "u16 \<Rightarrow> u32 \<Rightarrow> u32 \<Rightarrow> u16" where
  "phy_wakeup_rctl phy_reg rctl ctrl =
     (let phy_reg = (if rctl AND E1000_RCTL_UPE \<noteq> 0 then phy_reg OR BM_RCTL_UPE else phy_reg);
          phy_reg = (if rctl AND E1000_RCTL_MPE \<noteq> 0 then phy_reg OR BM_RCTL_MPE else phy_reg);
          phy_reg = phy_reg AND NOT BM_RCTL_MO_MASK;
          phy_reg = (if rctl AND E1000_RCTL_MO_3 \<noteq> 0
            then phy_reg OR ucast (push_bit BM_RCTL_MO_SHIFT (drop_bit E1000_RCTL_MO_SHIFT (rctl AND E1000_RCTL_MO_3)))
            else phy_reg);
          phy_reg = (if rctl AND E1000_RCTL_BAM \<noteq> 0 then phy_reg OR BM_RCTL_BAM else phy_reg);
          phy_reg = (if rctl AND E1000_RCTL_PMCF \<noteq> 0 then phy_reg OR BM_RCTL_PMCF else phy_reg);
          phy_reg = (if ctrl AND E1000_CTRL_RFCE \<noteq> 0 then phy_reg OR BM_RCTL_RFCE else phy_reg)
      in phy_reg AND NOT BM_RCTL_SAE)"

definition phy_wakeup_wuc :: "u32 \<Rightarrow> u32" where
  "phy_wakeup_wuc wufc = (if wufc AND (E1000_WUFC_MAG OR E1000_WUFC_LNKC) \<noteq> 0
     then E1000_WUC_PME_EN OR E1000_WUC_APME else E1000_WUC_PME_EN)"

definition phy_wakeup_wufc :: "u32 \<Rightarrow> IntelAddrData \<Rightarrow> u32" where
  "phy_wakeup_wufc wufc d =
     (let wufc = (if ipV4Addr d \<noteq> [] then wufc OR (E1000_WUFC_EX OR E1000_WUFC_ARP OR E1000_WUFC_IP4) else wufc)
      in if ipV6Addr d \<noteq> [] then wufc OR (E1000_WUFC_EX OR E1000_WUFC_IP6) else wufc)"

text \<open>The mask of valid addresses; bit 15 is a duplicate of bit 7.\<close>

definition phy_ipav :: "IntelAddrData \<Rightarrow> u16" where
  "phy_ipav d =
     (let av = foldl (\<lambda>av i. av OR push_bit (i + 1) 1) 0 [0..<min (length (ipV4Addr d)) kMaxAddrV4];
          av = foldl (\<lambda>av i. av OR push_bit (7 - i) 1) av [0..<min (length (ipV6Addr d)) kMaxAddrV6]
      in if av AND push_bit 7 1 \<noteq> 0 then av OR push_bit 15 1 else av)"

definition write_ipv4 :: "driver_ops \<Rightarrow> IntelAddrData \<Rightarrow> nat \<Rightarrow> unit hwM" where
  "write_ipv4 tb d i = do {
     let ad = ipV4Addr d ! i;
     op_phy_write_reg_page (dv_phy tb) (BM_IP4AT 0 (of_nat i)) (ucast (ad AND 0xFFFF));
     op_phy_write_reg_page (dv_phy tb) (BM_IP4AT 1 (of_nat i)) (ucast (drop_bit 16 ad AND 0xFFFF));
     ret () }"

definition write_ipv6 :: "driver_ops \<Rightarrow> IntelAddrData \<Rightarrow> nat \<Rightarrow> unit hwM" where
  "write_ipv6 tb d i = for_each [0..<4] (\<lambda>k. do {
     let ad = ipV6Addr d ! i ! k;
     op_phy_write_reg_page (dv_phy tb) (BM_IP6AT (2 * of_nat k) (of_nat i)) (ucast (ad AND 0xFFFF));
     op_phy_write_reg_page (dv_phy tb) (BM_IP6AT (2 * of_nat k + 1) (of_nat i)) (ucast (drop_bit 16 ad AND 0xFFFF));
     ret () })"

definition copy_mta :: "driver_ops \<Rightarrow> nat \<Rightarrow> unit hwM" where
  "copy_mta tb i = do {
     mac_reg \<leftarrow> read_reg_array E1000_MTA (of_nat i);
     op_phy_write_reg_page (dv_phy tb) (BM_MTA (of_nat i)) (ucast (mac_reg AND 0xFFFF));
     op_phy_write_reg_page (dv_phy tb) (BM_MTA (of_nat i) + 1) (ucast (drop_bit 16 mac_reg AND 0xFFFF));
     ret () }"

text \<open>The part between the enabling of the wake-up page and its end.\<close>

definition phy_wakeup_page :: "driver_ops \<Rightarrow> u32 \<Rightarrow> IntelAddrData \<Rightarrow> u16 \<Rightarrow> unit hwM" where
  "phy_wakeup_page tb wufc d wuc_enable = do {
     let ops = dv_phy tb;
     n \<leftarrow> gets (\<lambda>s. mac_mta_reg_count (hw_mac s));
     for_each [0..<unat n] (copy_mta tb);
     r \<leftarrow> op_phy_read_reg_page ops BM_RCTL (dv_garbage tb 8);
     rctl \<leftarrow> io_read (Csr E1000_RCTL);
     ctrl \<leftarrow> io_read (Csr E1000_CTRL);
     let phy_reg = phy_wakeup_rctl (snd r) rctl ctrl;
     let wuc = phy_wakeup_wuc wufc;
     let wufc = phy_wakeup_wufc wufc d;
     io_write (Csr E1000_WUFC) wufc;
     io_write (Csr E1000_WUC) (E1000_WUC_PHY_WAKE OR E1000_WUC_APMPME OR E1000_WUC_PME_STATUS OR wuc);
     for_each [0..<min (length (ipV4Addr d)) kMaxAddrV4] (write_ipv4 tb d);
     for_each [0..<min (length (ipV6Addr d)) kMaxAddrV6] (write_ipv6 tb d);
     op_phy_write_reg_page ops BM_IPAV (phy_ipav d);
     op_phy_write_reg_page ops BM_RCTL phy_reg;
     op_phy_write_reg_page ops BM_WUFC (ucast wufc);
     op_phy_write_reg_page ops BM_WUC (ucast wuc);
     e1000_disable_phy_wakeup_reg_access_bm (wuc_enable OR (BM_WUC_ENABLE_BIT OR BM_WUC_HOST_WU_BIT));
     ret () }"

definition intelInitPhyWakeup :: "driver_ops \<Rightarrow> u32 \<Rightarrow> IntelAddrData \<Rightarrow> unit hwM" where
  "intelInitPhyWakeup tb wufc d = do {
     let ops = dv_phy tb;
     e1000_copy_rx_addrs_to_phy_ich8lan ops;
     error \<leftarrow> phy_acquire ops;
     if error \<noteq> 0 then ret ()
     else do {
       r \<leftarrow> e1000_enable_phy_wakeup_reg_access_bm (dv_garbage tb 7);
       cwhen (fst r = 0) (phy_wakeup_page tb wufc d (snd r));
       op_phy_release ops } }"

subsection \<open>Switching off\<close>

text \<open>Low-power idle while asleep. The PHY is given back also when it was not acquired.\<close>

definition sleep_lpi :: "driver_ops \<Rightarrow> u16 \<Rightarrow> unit hwM" where
  "sleep_lpi tb advert = do {
     let ops = dv_phy tb;
     retval \<leftarrow> phy_acquire ops;
     cwhen (retval = 0) (do {
       r \<leftarrow> e1e_rphy_locked ops I82579_LPI_CTRL 0;
       cwhen (fst r = 0) (do {
         ability \<leftarrow> gets (\<lambda>s. ich8_eee_lp_ability (hw_ich8 s));
         let lpi_ctrl = (if advert AND ability AND I82579_EEE_100_SUPPORTED \<noteq> 0
           then snd r OR I82579_LPI_CTRL_100_ENABLE else snd r);
         let lpi_ctrl = (if advert AND ability AND I82579_EEE_1000_SUPPORTED \<noteq> 0
           then lpi_ctrl OR I82579_LPI_CTRL_1000_ENABLE else lpi_ctrl);
         e1e_wphy_locked ops I82579_LPI_CTRL lpi_ctrl;
         ret () }) });
     op_phy_release ops }"

text \<open>The two ways down: ready to wake the machine, or off.\<close>

definition disable_wake :: "driver_ops \<Rightarrow> u32 \<Rightarrow> IntelAddrData \<Rightarrow> unit driverM" where
  "disable_wake tb wufc d = do {
     intelDown tb False;
     intelSetupRxControl tb;
     dmodify E1000_RCTL (\<lambda>rctl. let rctl = rctl AND NOT (E1000_RCTL_UPE OR E1000_RCTL_MPE)
       in if wufc AND E1000_WUFC_MC \<noteq> 0 then rctl OR E1000_RCTL_MPE else rctl);
     s \<leftarrow> gets (\<lambda>s. hw_of s);
     let phy_wakeup = (hw_flags2 s AND FLAG2_HAS_PHY_WAKEUP \<noteq> 0);
     dmodify E1000_CTRL (\<lambda>ctrl. let ctrl = ctrl OR E1000_CTRL_ADVD3WUC
       in if \<not> phy_wakeup then ctrl OR E1000_CTRL_EN_PHY_PWR_MGMT else ctrl);
     cwhen (phy_media_type (hw_phy s) = e1000_media_type_fiber
         \<or> phy_media_type (hw_phy s) = e1000_media_type_internal_serdes)
       (dmodify E1000_CTRL_EXT (\<lambda>v. v OR E1000_CTRL_EXT_SDP3_DATA));
     cwhen (hw_flags s AND FLAG_IS_ICH \<noteq> 0)
       (dev (e1000_suspend_workarounds_ich8lan (dv_phy tb) (dv_garbage tb 0)));
     if phy_wakeup then dev (intelInitPhyWakeup tb wufc d) else intelInitMacWakeup wufc d }"

definition disable_off :: "driver_ops \<Rightarrow> u32 \<Rightarrow> unit driverM" where
  "disable_off tb wufc = do {
     intelDown tb True;
     dwrite E1000_WUC 0;
     dwrite E1000_WUFC 0;
     intelPowerDownPhy tb;
     ty \<leftarrow> gets (\<lambda>s. mac_type (hw_mac (hw_of s)));
     cwhen (ty \<ge> e1000_pch_spt \<and> wufc AND (E1000_WUFC_EX OR E1000_WUFC_MC OR E1000_WUFC_BC) = 0) (do {
       dev (e1000_enable_ulp_lpt_lp (dv_phy tb) False);
       ret () }) }"

definition intelDisable :: "driver_ops \<Rightarrow> ifaddr list option \<Rightarrow> unit driverM" where
  "intelDisable tb addresses = do {
     modify (polling_update (\<lambda>_. False));
     wufc \<leftarrow> gets (\<lambda>s. ad_wol (d_adapter s));
     intelFlushLPIC tb;
     status \<leftarrow> dread E1000_STATUS;
     let wufc = (if status AND E1000_STATUS_LU \<noteq> 0 then wufc AND NOT E1000_WUFC_LNKC else wufc);
     s \<leftarrow> gets id;
     (if wolActive s \<and> wufc \<noteq> 0 then disable_wake tb wufc (getAddressList (enableWoM s) addresses)
      else disable_off tb wufc);
     s \<leftarrow> gets id;
     cwhen (phy_type (hw_phy (hw_of s)) = e1000_phy_i217 \<and> ad_eee_advert (d_adapter s) \<noteq> 0
         \<and> ich8_eee_lp_ability (hw_ich8 (hw_of s)) \<noteq> 0)
       (dev (sleep_lpi tb (ad_eee_advert (d_adapter s))));
     cwhen (linkUp (d_m s)) (do {
       set_m (linkUp_update (\<lambda>_. False));
       tell (SetLinkStatus False None) }) }"

end
