(* ===== verification/DriverLink.thy ===== *)
theory DriverLink
  imports DriverWake
begin

section \<open>The life of the interface\<close>

text \<open>
  The member functions of \<open>IntelMausiEthernet.cpp\<close> that the kernel calls: switching on and off, link
  changes, the interrupt, the timer, polling, the medium and the frame size; and the start of the
  driver. Those that run a ring cleaner give \<open>None\<close> when it does not return. Debug output and the
  packet queues of the kernel are left out.
\<close>

subsection \<open>Switching on\<close>

definition intelEnable :: "driver_ops \<Rightarrow> unit driverM" where
  "intelEnable tb = do {
     selected \<leftarrow> gets d_selectedMedium;
     let medium = (case selected of Some m \<Rightarrow> m | None \<Rightarrow> MEDIUM_INDEX_AUTO);
     cwhen (selected = None) (tell (SetCurrentMedium MEDIUM_INDEX_AUTO));
     link \<leftarrow> intelCheckLink tb;
     cwhen (\<not> link) (tell (SetLinkStatus False None));
     modify (polling_update (\<lambda>_. False));
     intelSetupAdvForMedium medium;
     dev (op_phy_reset (dv_phy tb));
     ty \<leftarrow> gets (\<lambda>s. mac_type (hw_mac (hw_of s)));
     cwhen (ty \<ge> e1000_pch2lan) (dev (e1000_resume_workarounds_pchlan (dv_phy tb) (dv_garbage tb 0)));
     dev (e1000e_power_up_phy tb);
     intelReset tb;
     intelConfigure tb;
     dev (clear_bit_op state_down);
     mask \<leftarrow> gets intrMask;
     intelEnableIRQ mask;
     dev (set_mac (mac_get_link_status_update (\<lambda>_. True))) }"

text \<open>The results are success and failure.\<close>

definition enable_interface :: "driver_ops \<Rightarrow> bool driverM" where
  "enable_interface tb = do {
     s \<leftarrow> gets id;
     if isEnabled (d_m s) then ret True
     else if d_opened s then ret False
     else do {
       modify (d_opened_update (\<lambda>_. True));
       tell OpenDevice;
       intelEnable tb;
       tell EnableInterrupt;
       set_m (\<lambda>m. m\<lparr>rxPacket := [], rxPacketSize := 0, txDescDoneCount := 0, txDescDoneLast := 0,
         isEnabled := True, forceReset := False\<rparr>);
       modify (\<lambda>s. s\<lparr>deadlockWarn := 0, polling := False, eeeMode := 0\<rparr>);
       ret True } }"

definition disable_interface :: "driver_ops \<Rightarrow> ifaddr list option \<Rightarrow> unit driverM" where
  "disable_interface tb addresses = do {
     s \<leftarrow> gets id;
     if \<not> isEnabled (d_m s) then ret ()
     else do {
       tell StopOutputThread;
       tell FlushOutputQueue;
       set_m (\<lambda>m. m\<lparr>isEnabled := False, forceReset := False\<rparr>);
       modify (\<lambda>s. s\<lparr>polling := False, eeeMode := 0\<rparr>);
       tell CancelTimeout;
       set_m (\<lambda>m. m\<lparr>txDescDoneCount := 0, txDescDoneLast := 0\<rparr>);
       tell DisableInterrupt;
       intelDisable tb addresses;
       modify (mcAddrList_update (\<lambda>_. []));
       s \<leftarrow> gets id;
       cwhen (d_opened s) (do { modify (d_opened_update (\<lambda>_. False)); tell CloseDevice }) } }"

text \<open>\<open>off\<close> is a power-off, \<open>restart\<close> a restart of the machine.\<close>

definition systemWillShutdown :: "driver_ops \<Rightarrow> bool \<Rightarrow> bool \<Rightarrow> ifaddr list option \<Rightarrow> unit driverM" where
  "systemWillShutdown tb off restart addresses = cwhen (off \<or> restart) (do {
     s5 \<leftarrow> gets enableWakeS5;
     cwhen (s5 \<and> off) (modify (wolActive_update (\<lambda>_. True)));
     disable_interface tb addresses;
     perm \<leftarrow> gets (\<lambda>s. mac_perm_addr (hw_mac (hw_of s)));
     dev (op_rar_set (dv_mac tb) perm 0);
     dev e1000e_release_hw_control })"

subsection \<open>Link up\<close>

text \<open>
  The medium, speed and delays of a link. \<open>DUPLEX_FULL\<close> of the kernel headers is 1, the value of
  \<open>HALF_DUPLEX\<close>: the test is on the other value.
\<close>

definition link_medium :: "u16 \<Rightarrow> u16 \<Rightarrow> bool \<Rightarrow> bool \<Rightarrow> medium" where
  "link_medium speed duplex fc eee =
     (if speed = SPEED_1000 then
        (if \<not> fc then if eee then MEDIUM_INDEX_1000FDEEE else MEDIUM_INDEX_1000FD
         else if eee then MEDIUM_INDEX_1000FDFCEEE else MEDIUM_INDEX_1000FDFC)
      else if speed = SPEED_100 then
        (if duplex \<noteq> DUPLEX_FULL then
           (if \<not> fc then if eee then MEDIUM_INDEX_100FDEEE else MEDIUM_INDEX_100FD
            else if eee then MEDIUM_INDEX_100FDFCEEE else MEDIUM_INDEX_100FDFC)
         else MEDIUM_INDEX_100HD)
      else if duplex \<noteq> DUPLEX_FULL then MEDIUM_INDEX_10FD else MEDIUM_INDEX_10HD)"

definition link_mediumSpeed :: "u16 \<Rightarrow> u64" where
  "link_mediumSpeed speed = (if speed = SPEED_1000 then 1000 * 1000000
     else if speed = SPEED_100 then 100 * 1000000 else 10 * 1000000)"

definition set_rx_delays :: "u16 \<Rightarrow> unit driverM" where
  "set_rx_delays speed = modify (\<lambda>s. s\<lparr>d_adapter := (d_adapter s)\<lparr>
     ad_rx_int_delay := (if speed = SPEED_1000 then rxDelayTime1000 s
       else if speed = SPEED_100 then rxDelayTime100 s else rxDelayTime10 s),
     ad_rx_abs_int_delay := (if speed = SPEED_1000 then rxAbsTime1000 s
       else if speed = SPEED_100 then rxAbsTime100 s else rxAbsTime10 s)\<rparr>\<rparr>)"

definition link_rate :: "u16 \<Rightarrow> driver \<Rightarrow> u32" where
  "link_rate speed s = (if speed = SPEED_1000 then intrThrValue1000 s
     else if speed = SPEED_100 then intrThrValue100 s else intrThrValue10 s)"

definition poll_params :: "u16 \<Rightarrow> u32 \<times> u32 \<times> u32 \<times> u32 \<times> u64" where
  "poll_params speed = (if speed = SPEED_10 then (2, 8, 0x400, 0x1800, 1000000)
     else (10, 40, 0x1000, 0x10000, if speed = SPEED_1000 then 170000 else 1000000))"

text \<open>The first half: what the chip says about the link.\<close>

definition link_up_query :: "driver_ops \<Rightarrow> unit driverM" where
  "link_up_query tb = do {
     modify (eeeMode_update (\<lambda>_. 0));
     intelPhyReadStatus tb;
     r \<leftarrow> dev (op_get_link_up_info (dv_mac tb));
     set_ad (\<lambda>ad. ad\<lparr>ad_link_speed := fst (snd r), ad_link_duplex := snd (snd r)\<rparr>);
     dev (e1000e_check_downshift (dv_phy tb));
     s \<leftarrow> gets id;
     let pty = phy_type (hw_phy (hw_of s));
     let speed = ad_link_speed (d_adapter s);
     cwhen ((pty = e1000_phy_igp_3 \<or> pty = e1000_phy_bm) \<and> mac_autoneg (hw_mac (hw_of s))
         \<and> (speed = SPEED_10 \<or> speed = SPEED_100) \<and> ad_link_duplex (d_adapter s) = HALF_DUPLEX)
       (do { dev (e1e_rphy (dv_phy tb) MII_EXPANSION (dv_garbage tb 9)); ret () }) }"

text \<open>The settings of the link: the delays, and which speeds of the idle mode both ends support.\<close>

definition link_up_settle :: "driver_ops \<Rightarrow> unit driverM" where
  "link_up_settle tb = do {
     speed \<leftarrow> gets (\<lambda>s. ad_link_speed (d_adapter s));
     duplex \<leftarrow> gets (\<lambda>s. ad_link_duplex (d_adapter s));
     set_rx_delays speed;
     cwhen (speed = SPEED_1000 \<or> speed = SPEED_100 \<and> duplex \<noteq> DUPLEX_FULL) (do {
       mode \<leftarrow> intelSupportsEEE tb;
       modify (eeeMode_update (\<lambda>_. mode)) }) }"

definition link_up_program :: "driver_ops \<Rightarrow> driver \<Rightarrow> unit driverM" where
  "link_up_program tb s = do {
     dwrite E1000_RDTR (ad_rx_int_delay (d_adapter s));
     dwrite E1000_RADV (ad_rx_abs_int_delay (d_adapter s));
     dwrite E1000_ITR (link_rate (ad_link_speed (d_adapter s)) s);
     dmodify E1000_TCTL (\<lambda>tctl. tctl OR E1000_TCTL_EN);
     dmodify E1000_RCTL (\<lambda>rctl. rctl OR E1000_RCTL_EN);
     (case dv_cfg_on_link_up tb of None \<Rightarrow> ret () | Some cfg \<Rightarrow> do { dev cfg; ret () });
     intelEnableIRQ (intrMask s) }"

definition link_up_announce :: "medium \<Rightarrow> u16 \<Rightarrow> unit driverM" where
  "link_up_announce medium speed = do {
     set_m (linkUp_update (\<lambda>_. True));
     tell (SetLinkStatus True (Some (medium, link_mediumSpeed speed)));
     tell (SetPollingParameters (poll_params speed));
     tell StartOutputThread;
     board \<leftarrow> gets chipType;
     cwhen (board \<ge> board_pch_lpt) (setMaxLatency (ucast speed)) }"

definition setLinkUp :: "driver_ops \<Rightarrow> unit driverM" where
  "setLinkUp tb = do {
     link_up_query tb;
     v \<leftarrow> dread E1000_CTRL;
     let fc = (v AND (E1000_CTRL_RFCE OR E1000_CTRL_TFCE) \<noteq> 0);
     link_up_settle tb;
     s \<leftarrow> gets id;
     let speed = ad_link_speed (d_adapter s);
     let medium = link_medium speed (ad_link_duplex (d_adapter s)) fc (eeeMode s \<noteq> 0);
     link_up_program tb s;
     link_up_announce medium speed }"

subsection \<open>Link down and restart\<close>

definition setLinkDown :: "driver_ops \<Rightarrow> unit driverM" where
  "setLinkDown tb = do {
     modify (deadlockWarn_update (\<lambda>_. 0));
     tell StopOutputThread;
     tell FlushOutputQueue;
     set_m (linkUp_update (\<lambda>_. False));
     tell (SetLinkStatus False None);
     intelDown tb True;
     intelConfigure tb;
     dev (clear_bit_op state_down);
     mask \<leftarrow> gets intrMask;
     intelEnableIRQ mask }"

definition intelRestart :: "driver_ops \<Rightarrow> unit driverM" where
  "intelRestart tb = do {
     tell StopOutputThread;
     tell FlushOutputQueue;
     tell (SetLinkStatus False None);
     set_m (linkUp_update (\<lambda>_. False));
     intelDisableIRQ;
     intelReset tb;
     clearDescriptors;
     set_m (\<lambda>m. m\<lparr>rxCleanedCount := 0, rxNextDescIndex := 0, rxMapNextIndex := 0, forceReset := False\<rparr>);
     modify (\<lambda>s. s\<lparr>deadlockWarn := 0, eeeMode := 0\<rparr>);
     intelConfigure tb;
     dev (clear_bit_op state_down);
     mask \<leftarrow> gets intrMask;
     intelEnableIRQ mask;
     dev (set_mac (mac_get_link_status_update (\<lambda>_. True))) }"

definition checkLinkStatus :: "driver_ops \<Rightarrow> unit driverM" where
  "checkLinkStatus tb = do {
     dev (set_mac (mac_get_link_status_update (\<lambda>_. True)));
     flags \<leftarrow> gets (\<lambda>s. hw_flags (hw_of s));
     cwhen (flags AND FLAG_LSC_GIG_SPEED_DROP \<noteq> 0) (do {
       status \<leftarrow> dread E1000_STATUS;
       cwhen (status AND E1000_STATUS_LU = 0) (do {
         down \<leftarrow> dev (test_bit_op state_down);
         cwhen (\<not> down) (dev (e1000e_gig_downshift_workaround_ich8lan (dv_phy tb))) }) });
     link \<leftarrow> intelCheckLink tb;
     up \<leftarrow> gets (\<lambda>s. linkUp (d_m s));
     if up then
       if link then do { tell CancelTimeout; updateStatistics tb; intelRestart tb }
       else do { tell CancelTimeout; setLinkDown tb }
     else cwhen link (do { setLinkUp tb; tell (SetTimeoutMS kTimeoutMS) }) }"

definition selectMedium :: "driver_ops \<Rightarrow> medium \<Rightarrow> unit driverM" where
  "selectMedium tb medium = do {
     intelSetupAdvForMedium medium;
     tell (SetCurrentMedium medium);
     tell CancelTimeout;
     updateStatistics tb;
     intelRestart tb }"

text \<open>The result is success.\<close>

definition setMaxPacketSize :: "driver_ops \<Rightarrow> u32 \<Rightarrow> bool driverM" where
  "setMaxPacketSize tb maxSize =
     (if maxSize \<le> 9000 + ETH_HLEN + ETH_FCS_LEN then do {
        modify (mtu_update (\<lambda>_. maxSize - (ETH_HLEN + ETH_FCS_LEN)));
        set_hw (hw_max_frame_size_update (\<lambda>_. maxSize));
        setLinkDown tb;
        tell CancelTimeout;
        updateStatistics tb;
        intelRestart tb;
        ret True }
      else ret False)"

subsection \<open>Interrupt, polling and timer\<close>

text \<open>A ring cleaner run on the packet half of the state.\<close>

definition run_tx :: "driver \<Rightarrow> driver option" where
  "run_tx s = map_option (\<lambda>m. s\<lparr>d_m := m\<rparr>) (txInterrupt (d_m s))"

definition run_rx :: "bool \<Rightarrow> u32 \<Rightarrow> driver \<Rightarrow> (u32 \<times> driver) option" where
  "run_rx vtd maxCount s = map_option (\<lambda>(n, m). (n, s\<lparr>d_m := m\<rparr>))
     (if vtd then rxInterruptVTD maxCount (d_m s) else rxInterrupt maxCount (d_m s))"

definition count_stat :: "((u32 \<Rightarrow> u32) \<Rightarrow> io_stats \<Rightarrow> io_stats) \<Rightarrow> driver \<Rightarrow> driver" where
  "count_stat upd s = s\<lparr>d_stats := upd (\<lambda>n. n + 1) (d_stats s)\<rparr>"

definition interrupt_tx :: "u32 \<Rightarrow> driver \<Rightarrow> driver option" where
  "interrupt_tx icr s = (if icr AND (E1000_ICR_TXDW OR E1000_ICR_TXQ0) \<noteq> 0
     then map_option (count_stat io_txInterrupts_update) (run_tx s) else Some s)"

definition interrupt_rx :: "bool \<Rightarrow> u32 \<Rightarrow> driver \<Rightarrow> driver option" where
  "interrupt_rx vtd icr s = (if icr AND (E1000_ICR_RXQ0 OR E1000_ICR_RXT0 OR E1000_ICR_RXDMT0) \<noteq> 0
     then map_option (\<lambda>(packets, s). (let s = count_stat io_rxInterrupts_update s
       in if packets \<noteq> 0 then s\<lparr>d_calls := FlushInputQueue # d_calls s\<rparr> else s)) (run_rx vtd kNumRxDesc s)
     else Some s)"

definition interrupt_rest :: "driver_ops \<Rightarrow> u32 \<Rightarrow> unit driverM" where
  "interrupt_rest tb icr = do {
     ty \<leftarrow> gets (\<lambda>s. mac_type (hw_mac (hw_of s)));
     if icr AND E1000_ICR_ECCER \<noteq> 0 \<and> ty \<ge> e1000_pch_lpt then do {
       pbeccsts \<leftarrow> dread E1000_PBECCSTS;
       set_m (rx_internalMacReceiveErrors_update (\<lambda>n. n
         + drop_bit E1000_PBECCSTS_UNCORR_ERR_CNT_SHIFT (pbeccsts AND E1000_PBECCSTS_UNCORR_ERR_CNT_MASK)));
       modify (count_stat io_resets_update);
       intelRestart tb }
     else do {
       cwhen (icr AND (E1000_ICR_LSC OR E1000_IMS_RXSEQ) \<noteq> 0) (checkLinkStatus tb);
       dwrite E1000_IMS icr } }"

text \<open>The two handlers differ in the receive function only; the event source has one of them.\<close>

definition handle_interrupt :: "bool \<Rightarrow> driver_ops \<Rightarrow> driver \<Rightarrow> driver option" where
  "handle_interrupt vtd tb s = (case run_state (dread E1000_ICR) s of (icr, s) \<Rightarrow>
     map_option (\<lambda>s. snd (run_state (interrupt_rest tb icr) s))
       (if polling s then Some s else Option.bind (interrupt_tx icr s) (interrupt_rx vtd icr)))"

definition interruptOccurred :: "driver_ops \<Rightarrow> driver \<Rightarrow> driver option" where
  "interruptOccurred = handle_interrupt False"

definition interruptOccurredVTD :: "driver_ops \<Rightarrow> driver \<Rightarrow> driver option" where
  "interruptOccurredVTD = handle_interrupt True"

definition setInputPacketPollingEnable :: "bool \<Rightarrow> unit driverM" where
  "setInputPacketPollingEnable enabled = do {
     s \<leftarrow> gets id;
     cwhen (isEnabled (d_m s)) (do {
       (if enabled then do {
          dwrite E1000_IMC (NOT (E1000_ICR_LSC OR E1000_IMS_RXSEQ));
          dflush }
        else intelEnableIRQ (intrMask s));
       modify (polling_update (\<lambda>_. enabled)) }) }"

definition pollInputPackets :: "u32 \<Rightarrow> driver \<Rightarrow> driver option" where
  "pollInputPackets maxCount s =
     (if polling s then Option.bind (run_rx (useAppleVTD (d_m s)) maxCount s) (\<lambda>(n, s). run_tx s) else Some s)"

text \<open>The restart of a stalled ring. The two registers are read for a message.\<close>

definition restart_stalled :: "driver_ops \<Rightarrow> unit driverM" where
  "restart_stalled tb = do {
     dread E1000_STATUS;
     dread E1000_TCTL;
     modify (count_stat io_resets_update);
     intelRestart tb }"

definition restart_forced :: "driver_ops \<Rightarrow> unit driverM" where
  "restart_forced tb = do {
     modify (count_stat io_resets_update);
     intelRestart tb;
     modify (eeeMode_update (\<lambda>_. 0)) }"

definition checkForDeadlock :: "driver_ops \<Rightarrow> driver \<Rightarrow> (bool \<times> driver) option" where
  "checkForDeadlock tb s =
     (let forced = forceReset (d_m s);
          s = (if forced then snd (run_state (restart_forced tb) s) else s)
      in if txDescDoneCount (d_m s) = txDescDoneLast (d_m s) \<and> txNumFreeDesc (d_m s) < kNumTxDesc then
           let s = s\<lparr>deadlockWarn := deadlockWarn s + 1\<rparr>
           in if deadlockWarn s \<ge> kTxDeadlockTreshhold
              then Some (True, snd (run_state (restart_stalled tb) s))
              else map_option (\<lambda>s. (forced, s)) (run_tx (snd (run_state intelFlushDescriptors s)))
         else Some (forced, s\<lparr>deadlockWarn := 0\<rparr>))"

definition timer_rest :: "driver_ops \<Rightarrow> unit driverM" where
  "timer_rest tb = do {
     mode \<leftarrow> gets eeeMode;
     cwhen (mode \<noteq> 0) (do {
       dev (op_phy_get_info (dv_phy tb));
       ty \<leftarrow> gets (\<lambda>s. phy_type (hw_phy (hw_of s)));
       cwhen (ty = e1000_phy_82579 \<or> ty = e1000_phy_i217) (do { intelEnableEEE tb mode; ret () });
       modify (eeeMode_update (\<lambda>_. 0)) });
     updateStatistics tb;
     tell (SetTimeoutMS kTimeoutMS) }"

definition timerAction :: "driver_ops \<Rightarrow> driver \<Rightarrow> driver option" where
  "timerAction tb s = map_option (\<lambda>s. s\<lparr>d_m := (d_m s)\<lparr>txDescDoneLast := txDescDoneCount (d_m s)\<rparr>\<rparr>)
     (if \<not> linkUp (d_m s) then Some s
      else map_option (\<lambda>(deadlock, s). if deadlock then s else snd (run_state (timer_rest tb) s))
        (checkForDeadlock tb (snd (run_state intelUpdateAdaptive s))))"

subsection \<open>Wake on LAN and the station address\<close>

text \<open>The results are success.\<close>

definition setWakeOnMagicPacket :: "bool \<Rightarrow> bool driverM" where
  "setWakeOnMagicPacket active = do {
     capable \<leftarrow> gets wolCapable;
     cwhen capable (modify (wolActive_update (\<lambda>_. active)));
     ret capable }"

definition is_valid_ether_addr :: "u8 list \<Rightarrow> bool" where
  "is_valid_ether_addr addr = (\<not> is_multicast_ether_addr addr \<and> addr \<noteq> replicate 6 0)"

definition setHardwareAddress :: "driver_ops \<Rightarrow> u8 list \<Rightarrow> bool driverM" where
  "setHardwareAddress tb addr =
     (if is_valid_ether_addr addr then do {
        dev (set_mac (mac_addr_update (\<lambda>_. addr)));
        dev (op_rar_set (dv_mac tb) addr 0);
        ret True }
      else ret False)"

definition getHardwareAddress :: "(bool \<times> u8 list) driverM" where
  "getHardwareAddress = do {
     addr \<leftarrow> gets (\<lambda>s. mac_addr (hw_mac (hw_of s)));
     ret (is_valid_ether_addr addr, addr) }"

end
