(* ===== verification/DriverStart.thy ===== *)
theory DriverStart
  imports DriverLink
begin

section \<open>Finding and starting the device\<close>

text \<open>
  The table of supported devices, their identification and \<open>intelStart\<close> of
  \<open>IntelMausiEthernet.cpp\<close>. The power-management registers of the configuration space are set up by
  the kernel's PCI driver: the two calls are arguments.
\<close>

definition deviceTable :: "(u16 \<times> e1000_boards \<times> e1000_info) list" where
  "deviceTable = [
     (E1000_DEV_ID_ICH8_IFE, board_ich8lan, e1000_ich8_info),
     (E1000_DEV_ID_ICH8_IFE_G, board_ich8lan, e1000_ich8_info),
     (E1000_DEV_ID_ICH8_IFE_GT, board_ich8lan, e1000_ich8_info),
     (E1000_DEV_ID_ICH8_IGP_AMT, board_ich8lan, e1000_ich8_info),
     (E1000_DEV_ID_ICH8_IGP_C, board_ich8lan, e1000_ich8_info),
     (E1000_DEV_ID_ICH8_IGP_M, board_ich8lan, e1000_ich8_info),
     (E1000_DEV_ID_ICH8_IGP_M_AMT, board_ich8lan, e1000_ich8_info),
     (E1000_DEV_ID_ICH8_82567V_3, board_ich8lan, e1000_ich8_info),
     (E1000_DEV_ID_ICH9_IFE, board_ich9lan, e1000_ich9_info),
     (E1000_DEV_ID_ICH9_IFE_G, board_ich9lan, e1000_ich9_info),
     (E1000_DEV_ID_ICH9_IFE_GT, board_ich9lan, e1000_ich9_info),
     (E1000_DEV_ID_ICH9_IGP_AMT, board_ich9lan, e1000_ich9_info),
     (E1000_DEV_ID_ICH9_IGP_C, board_ich9lan, e1000_ich9_info),
     (E1000_DEV_ID_ICH9_BM, board_ich9lan, e1000_ich9_info),
     (E1000_DEV_ID_ICH9_IGP_M, board_ich9lan, e1000_ich9_info),
     (E1000_DEV_ID_ICH9_IGP_M_AMT, board_ich9lan, e1000_ich9_info),
     (E1000_DEV_ID_ICH9_IGP_M_V, board_ich9lan, e1000_ich9_info),
     (E1000_DEV_ID_ICH10_R_BM_LM, board_ich9lan, e1000_ich9_info),
     (E1000_DEV_ID_ICH10_R_BM_LF, board_ich9lan, e1000_ich9_info),
     (E1000_DEV_ID_ICH10_R_BM_V, board_ich9lan, e1000_ich9_info),
     (E1000_DEV_ID_ICH10_D_BM_LM, board_ich10lan, e1000_ich10_info),
     (E1000_DEV_ID_ICH10_D_BM_LF, board_ich10lan, e1000_ich10_info),
     (E1000_DEV_ID_ICH10_D_BM_V, board_ich10lan, e1000_ich10_info),
     (E1000_DEV_ID_PCH_M_HV_LM, board_pchlan, e1000_pch_info),
     (E1000_DEV_ID_PCH_M_HV_LC, board_pchlan, e1000_pch_info),
     (E1000_DEV_ID_PCH_D_HV_DM, board_pchlan, e1000_pch_info),
     (E1000_DEV_ID_PCH_D_HV_DC, board_pchlan, e1000_pch_info),
     (E1000_DEV_ID_PCH2_LV_LM, board_pch2lan, e1000_pch2_info),
     (E1000_DEV_ID_PCH2_LV_V, board_pch2lan, e1000_pch2_info),
     (E1000_DEV_ID_PCH_LPT_I217_LM, board_pch_lpt, e1000_pch_lpt_info),
     (E1000_DEV_ID_PCH_LPT_I217_V, board_pch_lpt, e1000_pch_lpt_info),
     (E1000_DEV_ID_PCH_LPTLP_I218_LM, board_pch_lpt, e1000_pch_lpt_info),
     (E1000_DEV_ID_PCH_LPTLP_I218_V, board_pch_lpt, e1000_pch_lpt_info),
     (E1000_DEV_ID_PCH_I218_LM2, board_pch_lpt, e1000_pch_lpt_info),
     (E1000_DEV_ID_PCH_I218_V2, board_pch_lpt, e1000_pch_lpt_info),
     (E1000_DEV_ID_PCH_I218_LM3, board_pch_lpt, e1000_pch_lpt_info),
     (E1000_DEV_ID_PCH_I218_V3, board_pch_lpt, e1000_pch_lpt_info),
     (E1000_DEV_ID_PCH_SPT_I219_LM, board_pch_spt, e1000_pch_spt_info),
     (E1000_DEV_ID_PCH_SPT_I219_V, board_pch_spt, e1000_pch_spt_info),
     (E1000_DEV_ID_PCH_SPT_I219_LM2, board_pch_spt, e1000_pch_spt_info),
     (E1000_DEV_ID_PCH_SPT_I219_V2, board_pch_spt, e1000_pch_spt_info),
     (E1000_DEV_ID_PCH_LBG_I219_LM3, board_pch_spt, e1000_pch_spt_info),
     (E1000_DEV_ID_PCH_SPT_I219_LM4, board_pch_spt, e1000_pch_spt_info),
     (E1000_DEV_ID_PCH_SPT_I219_V4, board_pch_spt, e1000_pch_spt_info),
     (E1000_DEV_ID_PCH_SPT_I219_LM5, board_pch_spt, e1000_pch_spt_info),
     (E1000_DEV_ID_PCH_SPT_I219_V5, board_pch_spt, e1000_pch_spt_info),
     (E1000_DEV_ID_PCH_CNP_I219_LM6, board_pch_cnp, e1000_pch_cnp_info),
     (E1000_DEV_ID_PCH_CNP_I219_V6, board_pch_cnp, e1000_pch_cnp_info),
     (E1000_DEV_ID_PCH_CNP_I219_LM7, board_pch_cnp, e1000_pch_cnp_info),
     (E1000_DEV_ID_PCH_CNP_I219_V7, board_pch_cnp, e1000_pch_cnp_info),
     (E1000_DEV_ID_PCH_ICP_I219_LM8, board_pch_cnp, e1000_pch_cnp_info),
     (E1000_DEV_ID_PCH_ICP_I219_V8, board_pch_cnp, e1000_pch_cnp_info),
     (E1000_DEV_ID_PCH_ICP_I219_LM9, board_pch_cnp, e1000_pch_cnp_info),
     (E1000_DEV_ID_PCH_ICP_I219_V9, board_pch_cnp, e1000_pch_cnp_info),
     (E1000_DEV_ID_PCH_CMP_I219_LM10, board_pch_cnp, e1000_pch_cnp_info),
     (E1000_DEV_ID_PCH_CMP_I219_V10, board_pch_cnp, e1000_pch_cnp_info),
     (E1000_DEV_ID_PCH_CMP_I219_LM11, board_pch_cnp, e1000_pch_cnp_info),
     (E1000_DEV_ID_PCH_CMP_I219_V11, board_pch_cnp, e1000_pch_cnp_info),
     (E1000_DEV_ID_PCH_CMP_I219_LM12, board_pch_spt, e1000_pch_spt_info),
     (E1000_DEV_ID_PCH_CMP_I219_V12, board_pch_spt, e1000_pch_spt_info),
     (E1000_DEV_ID_PCH_TGP_I219_LM13, board_pch_tgp, e1000_pch_tgp_info),
     (E1000_DEV_ID_PCH_TGP_I219_V13, board_pch_tgp, e1000_pch_tgp_info),
     (E1000_DEV_ID_PCH_TGP_I219_LM14, board_pch_tgp, e1000_pch_tgp_info),
     (E1000_DEV_ID_PCH_TGP_I219_V14, board_pch_tgp, e1000_pch_tgp_info),
     (E1000_DEV_ID_PCH_TGP_I219_LM15, board_pch_tgp, e1000_pch_tgp_info),
     (E1000_DEV_ID_PCH_TGP_I219_V15, board_pch_tgp, e1000_pch_tgp_info),
     (E1000_DEV_ID_PCH_RPL_I219_LM23, board_pch_adp, e1000_pch_adp_info),
     (E1000_DEV_ID_PCH_RPL_I219_V23, board_pch_adp, e1000_pch_adp_info),
     (E1000_DEV_ID_PCH_ADP_I219_LM16, board_pch_adp, e1000_pch_adp_info),
     (E1000_DEV_ID_PCH_ADP_I219_V16, board_pch_adp, e1000_pch_adp_info),
     (E1000_DEV_ID_PCH_ADP_I219_LM17, board_pch_adp, e1000_pch_adp_info),
     (E1000_DEV_ID_PCH_ADP_I219_V17, board_pch_adp, e1000_pch_adp_info)]"

text \<open>The search: the first entry with the id, with its index.\<close>

primrec find_device :: "u16 \<Rightarrow> nat \<Rightarrow> (u16 \<times> e1000_boards \<times> e1000_info) list
    \<Rightarrow> (nat \<times> e1000_boards \<times> e1000_info) option" where
  "find_device d i [] = None"
| "find_device d i (e # es) = (if fst e = d then Some (i, snd e) else find_device d (Suc i) es)"

definition intelIdentifyChip :: "e1000_info option driverM" where
  "intelIdentifyChip = do {
     device \<leftarrow> gets (\<lambda>s. hw_device (hw_of s));
     case find_device device 0 deviceTable of
         None \<Rightarrow> ret None
       | Some (i, board, ei) \<Rightarrow> do {
           modify (\<lambda>s. s\<lparr>chip := i, chipType := board\<rparr>);
           set_ad (ad_pba_update (\<lambda>_. info_pba ei));
           set_hw (\<lambda>h. h\<lparr>hw_flags := info_flags ei, hw_flags2 := info_flags2 ei,
             hw_max_hw_frame_size := info_max_hw_frame_size ei\<rparr>);
           dev (set_mac (mac_type_update (\<lambda>_. info_mac ei)));
           cwhen (info_flags2 ei AND FLAG2_HAS_EEE \<noteq> 0)
             (set_ad (ad_eee_advert_update (\<lambda>_. MDIO_EEE_100TX OR MDIO_EEE_1000T)));
           ret (Some ei) } }"

subsection \<open>Start\<close>

definition start_defaults :: "unit driverM" where
  "start_defaults = do {
     set_hw (\<lambda>h. h\<lparr>hw_flags := (if hw_flags h AND FLAG_HAS_SMART_POWER_DOWN \<noteq> 0
         then hw_flags h OR FLAG_SMART_POWER_DOWN else hw_flags h) OR FLAG_READ_ONLY_NVM,
       hw_flags2 := hw_flags2 h OR (FLAG2_CRC_STRIPPING OR FLAG2_DFLT_CRC_STRIPPING)\<rparr>);
     modify (\<lambda>s. s\<lparr>d_m := (d_m s)\<lparr>m_hw := (hw_of s)\<lparr>hw_max_frame_size := mtu s + ETH_HLEN + ETH_FCS_LEN\<rparr>\<rparr>\<rparr>);
     set_ad (\<lambda>ad. ad\<lparr>ad_rx_int_delay := 0, ad_rx_abs_int_delay := 0, ad_tx_int_delay := 0x7d,
       ad_tx_abs_int_delay := 0x7d\<rparr>);
     flags2 \<leftarrow> gets (\<lambda>s. hw_flags2 (hw_of s));
     cwhen (flags2 AND FLAG2_HAS_EEE \<noteq> 0) (dev (set_ich8 (ich8_eee_disable_update (\<lambda>_. False)))) }"

text \<open>The checksum gets three tries.\<close>

primrec validate_tries :: "nat \<Rightarrow> nvm_all_operations \<Rightarrow> bool hwM" where
  "validate_tries 0 nops = ret False"
| "validate_tries (Suc n) nops = do {
     r \<leftarrow> op_nvm_validate nops;
     if r \<ge> 0 then ret True else validate_tries n nops }"

text \<open>The wake-up setting of the NVM: the result of the read, the word and the mask of its bit.\<close>

definition read_apme :: "nvm_all_operations \<Rightarrow> (s32 \<times> u16 \<times> u16) driverM" where
  "read_apme nops = do {
     s \<leftarrow> gets (\<lambda>s. hw_of s);
     if hw_flags s AND FLAG_APME_IN_WUC \<noteq> 0 then do {
       v \<leftarrow> dread E1000_WUC;
       let eepromData = (ucast v :: u16);
       cwhen (mac_type (hw_mac s) > e1000_ich10lan \<and> eepromData AND E1000_WUC_PHY_WAKE \<noteq> 0)
         (set_hw (hw_flags2_update (\<lambda>f. f OR FLAG2_HAS_PHY_WAKEUP)));
       ret (0, eepromData, E1000_WUC_APME) }
     else if hw_flags s AND FLAG_APME_IN_CTRL3 \<noteq> 0 then do {
       r \<leftarrow> dev (e1000_read_nvm1 nops
         (if hw_flags s AND FLAG_APME_CHECK_PORT_B \<noteq> 0 \<and> hw_bus_func s = 1
          then NVM_INIT_CONTROL3_PORT_B else NVM_INIT_CONTROL3_PORT_A));
       ret (fst r, snd r, E1000_EEPROM_APME) }
     else ret (0, 0, E1000_EEPROM_APME) }"

definition start_wol :: "nvm_all_operations \<Rightarrow> unit driverM" where
  "start_wol nops = do {
     (rval, eepromData, mask) \<leftarrow> read_apme nops;
     cwhen (rval = 0 \<and> eepromData AND mask \<noteq> 0) (set_ad (ad_eeprom_wol_update (\<lambda>w. w OR E1000_WUFC_MAG)));
     flags \<leftarrow> gets (\<lambda>s. hw_flags (hw_of s));
     cwhen (flags AND FLAG_HAS_WOL = 0) (set_ad (ad_eeprom_wol_update (\<lambda>_. 0)));
     set_ad (\<lambda>ad. ad\<lparr>ad_wol := ad_eeprom_wol ad\<rparr>) }"

text \<open>From the reset on; the result is success. \<open>power_on\<close> is \<open>enablePCIPowerManagement\<close>.\<close>

definition start_link_defaults :: "unit driverM" where
  "start_link_defaults = do {
     dev (set_mac (mac_autoneg_update (\<lambda>_. True)));
     set_ad (ad_fc_autoneg_update (\<lambda>_. True));
     dset_fc (\<lambda>fc. fc\<lparr>fc_requested_mode := e1000_fc_default, fc_current_mode := e1000_fc_default\<rparr>);
     dev (set_phy (phy_autoneg_advertised_update (\<lambda>_. 0x2f))) }"

definition interrupt_mask_for :: "e1000_mac_type \<Rightarrow> u32" where
  "interrupt_mask_for ty = (if ty = e1000_pch_lpt \<or> ty = e1000_pch_spt
     then IMS_ENABLE_MASK OR E1000_IMS_ECCER else IMS_ENABLE_MASK)"

definition start_configured :: "driver_ops \<Rightarrow> unit driverM \<Rightarrow> unit driverM" where
  "start_configured tb power_on = do {
     start_link_defaults;
     start_wol (dv_nvm tb);
     s \<leftarrow> gets id;
     awake \<leftarrow> (if ad_wol (d_adapter s) \<noteq> 0 \<or> hw_flags (hw_of s) AND FLAG_MNG_PT_ENABLED \<noteq> 0 then ret True
       else dev (op_check_mng_mode (dv_mac tb)));
     cwhen awake power_on;
     r \<leftarrow> dev (e1000_read_nvm1 (dv_nvm tb) 5);
     set_ad (ad_eeprom_vers_update (\<lambda>_. if fst r \<noteq> 0 then 0 else snd r));
     intelReset tb;
     dev e1000e_get_hw_control;
     modify (\<lambda>s. s\<lparr>intrMask := interrupt_mask_for (mac_type (hw_mac (hw_of s)))\<rparr>) }"

definition start_tables :: "driver_ops \<Rightarrow> unit driverM \<Rightarrow> bool driverM" where
  "start_tables tb power_on = do {
     s \<leftarrow> gets (\<lambda>s. hw_of s);
     cwhen (hw_flags s AND FLAG_IS_ICH \<noteq> 0 \<and> hw_flags s AND FLAG_READ_ONLY_NVM \<noteq> 0
         \<and> mac_type (hw_mac s) < e1000_pch_spt) (dev e1000e_write_protect_nvm_ich8lan);
     dev (set_phy (phy_autoneg_wait_to_complete_update (\<lambda>_. False)));
     cwhen (phy_media_type (hw_phy s) = e1000_media_type_copper)
       (dev (set_phy (\<lambda>p. p\<lparr>phy_mdix := AUTO_ALL_MODES, phy_disable_polarity_correction := False,
         phy_ms_type := e1000_ms_hw_default\<rparr>)));
     dev (check_reset_block (dv_phy tb));
     pt \<leftarrow> intelEnableMngPassThru;
     cwhen pt (set_hw (hw_flags_update (\<lambda>f. f OR FLAG_MNG_PT_ENABLED)));
     dev (dv_reset_hw tb);
     ok \<leftarrow> dev (validate_tries 3 (dv_nvm tb));
     valid \<leftarrow> (if ok then do {
         dev e1000_read_mac_addr_generic;
         gets (\<lambda>s. is_valid_ether_addr (mac_addr (hw_mac (hw_of s)))) }
       else ret False);
     if valid then do { start_configured tb power_on; ret True }
     else do {
       blocked \<leftarrow> dev (check_reset_block (dv_phy tb));
       cwhen (blocked = 0) (do { dev (op_phy_reset (dv_phy tb)); ret () });
       ret False } }"

text \<open>
  The tables of NVM functions follow from the description of the part; those of the PHY and the MAC are
  completed by the initialisation, and returned. \<open>pm\<close> is the set-up of power management.
\<close>

definition part_nvm_ops :: "e1000_info \<Rightarrow> nvm_all_operations" where
  "part_nvm_ops ei = (case info_nvm_ops ei of Nvm_ich8 \<Rightarrow> ich8_nvm_ops | Nvm_spt \<Rightarrow> spt_nvm_ops)"

definition intelStart ::
  "(nat \<Rightarrow> u16) \<Rightarrow> unit driverM \<Rightarrow> unit driverM \<Rightarrow> e1000_info \<Rightarrow> (bool \<times> phy_table \<times> mac_table) driverM" where
  "intelStart g pm power_on ei = do {
     start_defaults;
     pm;
     intelDisableIRQ;
     dev (set_bit_op state_down);
     let nops = part_nvm_ops ei;
     ty \<leftarrow> gets (\<lambda>s. mac_type (hw_mac (hw_of s)));
     cwhen (ty = e1000_ich8lan) (dev (e1000e_set_kmrn_lock_loss_workaround_ich8lan True));
     dev (set_phy (phy_autoneg_wait_to_complete_update (\<lambda>_. False)));
     (error, pt, mt) \<leftarrow> dev (e1000_get_variants_ich8lan (\<lambda>t. fst (ops_of t ich8_mac_ops nops g)) ich8_phy_ops ich8_mac_ops);
     if error \<noteq> 0 then ret (False, pt, mt)
     else do {
       ok \<leftarrow> start_tables (driver_ops_of pt mt nops g) power_on;
       ret (ok, pt, mt) } }"

end
