(* ===== verification/DriverFrames.thy ===== *)
theory DriverFrames
  imports DriverStart LockProps
begin

section \<open>What the member functions of the driver keep\<close>

text \<open>
  Three locales, each an extension of the one before, state what the member functions of the class rely on
  from the tables of operations and the rings, for a relation \<open>R\<close> between the states before and after:
  configuration, reset, and the whole object. Their lemmas show once, function by function, that the
  relation is kept. Theory \<open>DriverLock\<close> interprets them on the software flag, theory
  \<open>DriverRestart\<close> on the buffers of the transmit ring.
\<close>

subsection \<open>The state monads under each other\<close>

lemma dev_ret: "dev (do { x \<leftarrow> m; ret () }) = do { x \<leftarrow> dev m; ret () }"
  by (rule state_ext) (simp add: dev_def case_prod_beta)

lemma dev_run:
  "dev (State_Monad.bind m f) = State_Monad.bind (dev m) (\<lambda>x. dev (f x))" "dev (ret a) = ret a"
  by (rule state_ext; simp add: dev_def case_prod_beta)+

lemma set_hw_dev: "set_hw f = dev (modify f)"
  by (rule state_ext) (simp add: set_hw_def dev_def)

lemma dread_dev: "dread r = dev (io_read (Csr r))"
  by (simp add: dread_def dev_def intelReadMem32_def)

lemma dwrite_dev: "dwrite r v = dev (io_write (Csr r) v)"
  by (simp add: dwrite_def dev_def intelWriteMem32_def)

subsection \<open>Configuration\<close>

text \<open>What the configuration of the chip relies on: \<open>R\<close> may look at everything but settings of the object.\<close>

locale chip_frame = frame_rel R for R :: "driver \<Rightarrow> driver \<Rightarrow> bool" +
  fixes tb :: driver_ops
  assumes R_settings: "d_m t = d_m s \<Longrightarrow> deadlockWarn t = deadlockWarn s \<Longrightarrow> eeeMode t = eeeMode s \<Longrightarrow> R s t"
    and plain_unit: "keeps locked_rel m \<Longrightarrow> keeps R (dev (m :: unit hwM))"
    and state_bit: "keeps R (dev (set_bit_op state_down))" "keeps R (dev (clear_bit_op state_down))"
    and ring_set_up: "keeps R (on_mausi intelInitTxRing)" "keeps R (on_mausi intelInitRxRing)"
    and phy_access: "keeps R (dev (e1e_rphy (dv_phy tb) r d))" "keeps R (dev (e1e_wphy (dv_phy tb) r d))"
    and multicast: "keeps R (dev (dv_update_mc tb addrs))"
    and collision: "keeps R (dev (op_config_collision_dist (dv_mac tb)))"
    and jumbo: "keeps R (dev (e1000_lv_jumbo_workaround_ich8lan (dv_phy tb) b d e))"
begin

lemma plain: "keeps locked_rel m \<Longrightarrow> keeps R (dev m)"
proof -
  assume "keeps locked_rel m"
  then have "keeps R (dev (do { x \<leftarrow> m; ret () }))"
    by (intro plain_unit inside.hw_intros)
  then show ?thesis unfolding dev_ret by (auto simp: keeps_def state_io_rel_def case_prod_beta)
qed

lemma keeps_settings:
  "(\<And>s. d_m (f s) = d_m s \<and> deadlockWarn (f s) = deadlockWarn s \<and> eeeMode (f s) = eeeMode s) \<Longrightarrow> keeps R (modify f)"
  by (rule keeps_modify) (simp add: R_settings)

lemma keeps_reg: "keeps R (dread r)" "keeps R (dwrite r v)"
  unfolding dread_dev dwrite_dev by (rule plain; rule inside.keeps_io_read inside.keeps_io_write)+

lemma keeps_regs: "keeps R dflush" "keeps R (dmodify r f)"
proof -
  have "dflush = do { v \<leftarrow> dread E1000_STATUS; ret () }"
    by (rule state_ext) (simp add: dflush_def dread_def intelFlush_def case_prod_beta)
  moreover have "keeps R (do { v \<leftarrow> dread E1000_STATUS; ret () })" by (intro keeps_intros keeps_reg)
  ultimately show "keeps R dflush" by simp
  show "keeps R (dmodify r f)" unfolding dmodify_def by (intro keeps_intros keeps_reg)
qed

lemma keeps_tell: "keeps R (tell c)" "keeps R (set_ad f)" "keeps R (extendedConfigRead16 off)"
  unfolding tell_def set_ad_def extendedConfigRead16_def by (intro keeps_intros keeps_settings; simp)+

lemma keeps_setters:
  "keeps R (dev (set_mac f))" "keeps R (dev (set_phy g))" "keeps R (dev (set_ich8 h))" "keeps R (dset_fc i)"
  unfolding dset_fc_def set_hw_dev
  by (rule plain; rule inside.keeps_setters inside.keeps_update; simp)+

lemma keeps_delay: "keeps R (dev (usleep_range m n))" "keeps R (dev e1e_flush)" "keeps R (dev (er32 r))"
  "keeps R (dev (ew32 r v))" "keeps R (dev (test_bit_op nr))"
  unfolding test_bit_op_def by (rule plain; intro inside.hw_intros)+

lemmas chip_intros = keeps_intros keeps_for_each keeps_reg keeps_regs keeps_tell keeps_setters keeps_delay state_bit
  ring_set_up phy_access multicast collision jumbo

lemma keeps_irq: "keeps R (intelEnableIRQ n)" "keeps R intelDisableIRQ"
  unfolding intelEnableIRQ_def intelDisableIRQ_def by (intro chip_intros)+

lemma keeps_multicast: "keeps R (setMulticastMode tb b)"
  unfolding setMulticastMode_def by (intro chip_intros keeps_settings; simp)

lemma keeps_manageability: "keeps R intelInitManageabilityPt"
proof -
  have "keeps R (mdef_scan is n j)" "keeps R (mdef_create is n)" for "is" n j
    by (induction "is" arbitrary: n j) (auto intro!: chip_intros)
  then show ?thesis unfolding intelInitManageabilityPt_def by (intro chip_intros)
qed

lemma keeps_units:
  "keeps R intelSetupRssHash" "keeps R intelVlanStripEnable" "keeps R (intelConfigureTx tb)"
  "keeps R (intelSetupRxControl tb)" "keeps R intelConfigureRx"
proof -
  have "keeps R (dev (jumbo_ipg tb))"
    unfolding jumbo_ipg_def Let_def dev_run by (intro chip_intros)
  then show "keeps R intelSetupRssHash" "keeps R intelVlanStripEnable" "keeps R (intelConfigureTx tb)"
  "keeps R (intelSetupRxControl tb)" "keeps R intelConfigureRx"
  unfolding intelSetupRssHash_def intelVlanStripEnable_def intelConfigureTx_def intelSetupRxControl_def
    intelConfigureRx_def 
  by (intro chip_intros; assumption)+
qed

lemma keeps_configure: "keeps R (intelConfigure tb)"
  unfolding intelConfigure_def by (intro chip_intros keeps_multicast keeps_manageability keeps_units)

end

subsection \<open>Reset\<close>

locale reset_frame = chip_frame R tb for R :: "driver \<Rightarrow> driver \<Rightarrow> bool" and tb :: driver_ops +
  assumes ring_flush: "keeps R (on_mausi intelFlushTxRing)" "keeps R (on_mausi intelFlushRxRing)"
    and hw_reset: "keeps R (dev (dv_reset_hw tb))" "keeps R (dev (dv_init_hw tb))"
    and phy_info: "keeps R (dev (op_phy_get_info (dv_phy tb)))"
    and eee: "keeps R (reset_eee tb)"
begin

lemmas reset_intros = chip_intros ring_flush hw_reset phy_info eee

lemma keeps_reset_parts:
  "keeps R reset_pba" "keeps R (reset_watermarks pba)" "keeps R intelFlushDescRings" "keeps R intelResetAdaptive"
  unfolding reset_pba_def reset_watermarks_def intelFlushDescRings_def intelResetAdaptive_def by (intro reset_intros)+

lemma keeps_reset: "keeps R (intelReset tb)"
  unfolding intelReset_def by (intro reset_intros keeps_reset_parts)

end

subsection \<open>Every member function\<close>

locale object_frame = reset_frame R tb for R :: "driver \<Rightarrow> driver \<Rightarrow> bool" and tb :: driver_ops +
  assumes R_beside: "d_m t = d_m s \<Longrightarrow> R s t"
    and other_half: "(\<And>m. m_hw (f m) = m_hw m) \<Longrightarrow> keeps R (set_m f)"
    and clear_rings: "keeps R (on_mausi clear_tx)" "keeps R (on_mausi clear_rx_ring)"
    and link: "keeps R (dev (op_check_for_link (dv_mac tb)))" "keeps R (dev (op_get_link_up_info (dv_mac tb)))"
      "keeps R (dev (op_setup_link (dv_mac tb)))"
    and power: "keeps R (dev (op_phy_reset (dv_phy tb)))" "keeps R (dev (op_phy_power_up (dv_phy tb)))"
      "keeps R (dev (op_phy_power_down (dv_phy tb)))"
    and sleep: "keeps R (dev (e1000_suspend_workarounds_ich8lan (dv_phy tb) d))"
      "keeps R (dev (e1000_resume_workarounds_pchlan (dv_phy tb) d))"
      "keeps R (dev (e1000_enable_ulp_lpt_lp (dv_phy tb) b))"
    and shifts: "keeps R (dev (e1000e_check_downshift (dv_phy tb)))"
      "keeps R (dev (e1000e_gig_downshift_workaround_ich8lan (dv_phy tb)))"
    and statistics: "keeps R (e1000e_update_phy_stats tb)"
    and idle: "keeps R (intelFlushLPIC tb)" "keeps R (intelSupportsEEE tb)" "keeps R (intelEnableEEE tb mode)"
    and wake: "keeps R (dev (intelInitPhyWakeup tb wufc addrs))" "keeps R (dev (sleep_lpi tb advert))"
    and address: "keeps R (dev (op_rar_set (dv_mac tb) addr i))"
    and no_hook: "dv_cfg_on_link_up tb = None"
begin

lemma keeps_beside: "(\<And>s. d_m (f s) = d_m s) \<Longrightarrow> keeps R (modify f)"
  by (rule keeps_modify) (simp add: R_beside)

lemmas object_intros = reset_intros keeps_irq keeps_reset keeps_configure clear_rings link power sleep shifts statistics
  idle wake address

lemma keeps_statistics: "keeps R (updateStatistics tb)"
proof -
  have a: "keeps R (stat_add upd reg)" "keeps R (set_st f)" for upd reg f
    unfolding stat_add_def set_st_def by (intro object_intros)+
  have "keeps R (half_duplex_stats tb)"
    unfolding half_duplex_stats_def by (intro object_intros a)
  then show ?thesis unfolding updateStatistics_def by (intro object_intros a keeps_beside; simp)
qed

lemma keeps_clear: "keeps R clearDescriptors"
  unfolding clearDescriptors_def by (intro object_intros)

lemma keeps_down: "keeps R (intelDown tb b)"
  unfolding intelDown_def by (intro object_intros keeps_statistics keeps_clear keeps_reset_parts)

lemma keeps_check: "keeps R (intelCheckLink tb)"
  unfolding intelCheckLink_def 
  by (intro object_intros) (auto split: e1000_media_type.split intro!: object_intros)

lemma keeps_phy_status: "keeps R (intelPhyReadStatus tb)"
  unfolding intelPhyReadStatus_def snapshot_def by (intro object_intros)

lemma keeps_advertise: "keeps R (intelSetupAdvForMedium m)"
proof -
  have "keeps R (dev (advertise a fc b))" "keeps R (dev (force_medium x))" "keeps R (dev (advertise_all b))" for a fc b x
    unfolding advertise_def force_medium_def advertise_all_def
    by (rule plain; intro inside.driver_intros inside.keeps_update; simp)+
  then show ?thesis
    unfolding intelSetupAdvForMedium_def by (intro object_intros) (auto split: medium.split)
qed

lemma keeps_latency: "keeps R (setMaxLatency n)"
  unfolding setMaxLatency_def by (intro object_intros)

lemma keeps_mac_wakeup: "keeps R (intelInitMacWakeup wufc addrs)"
  unfolding intelInitMacWakeup_def by (intro object_intros)

lemma keeps_disable: "keeps R (intelDisable tb addresses)"
proof -
  have "keeps R (disable_wake tb wufc d)" "keeps R (disable_off tb wufc)" for wufc d
    unfolding disable_wake_def disable_off_def intelPowerDownPhy_def 
    by (intro object_intros keeps_down keeps_units keeps_mac_wakeup)+
  then show ?thesis
    unfolding intelDisable_def by (intro object_intros keeps_beside other_half) auto
qed

lemma keeps_power: "keeps R (dev (e1000e_power_up_phy tb))"
  unfolding e1000e_power_up_phy_def dev_run by (intro object_intros)

lemma keeps_enable: "keeps R (intelEnable tb)"
  unfolding intelEnable_def
  by (intro object_intros keeps_check keeps_advertise keeps_power keeps_beside) auto

lemma keeps_switch: "keeps R (enable_interface tb)" "keeps R (disable_interface tb addresses)"
  unfolding enable_interface_def disable_interface_def
  by (intro object_intros keeps_enable keeps_disable keeps_beside other_half; simp)+

lemma keeps_shutdown: "keeps R (systemWillShutdown tb off restart addresses)"
proof -
  have "keeps R (dev e1000e_release_hw_control)"
    unfolding e1000e_release_hw_control_def by (rule plain) (intro inside.hw_intros)
  then show ?thesis
    unfolding systemWillShutdown_def by (intro object_intros keeps_switch keeps_beside; simp)
qed

lemma keeps_link_up: "keeps R (setLinkUp tb)"
proof -
  have "keeps R (link_up_query tb)"
    unfolding link_up_query_def by (intro object_intros keeps_phy_status keeps_beside) auto
  moreover have "keeps R (link_up_settle tb)" "keeps R (link_up_program tb s)" "keeps R (link_up_announce m sp)" for s m sp
    unfolding link_up_settle_def set_rx_delays_def link_up_program_def link_up_announce_def no_hook option.case
    by (intro object_intros keeps_latency keeps_beside other_half; simp)+
  ultimately show ?thesis unfolding setLinkUp_def by (intro object_intros)
qed

lemma keeps_link_down: "keeps R (setLinkDown tb)"
  unfolding setLinkDown_def by (intro object_intros keeps_down keeps_beside other_half; simp)

lemma keeps_restart: "keeps R (intelRestart tb)"
  unfolding intelRestart_def by (intro object_intros keeps_clear keeps_beside other_half; simp)

lemma keeps_link_change: "keeps R (checkLinkStatus tb)"
  unfolding checkLinkStatus_def
  by (intro object_intros keeps_check keeps_link_up keeps_link_down keeps_statistics keeps_restart)

lemma keeps_requests:
  "keeps R (selectMedium tb m)" "keeps R (setMaxPacketSize tb n)" "keeps R (setMulticastMode tb b)"
  "keeps R (setPromiscuousMode tb b)" "keeps R (setMulticastList tb b addrs)" "keeps R (setHardwareAddress tb addr)"
  "keeps R (setInputPacketPollingEnable b)" "keeps R (setWakeOnMagicPacket b)"
proof -
  show "keeps R (setMulticastMode tb b)" by (rule keeps_multicast)
  show "keeps R (setMaxPacketSize tb n)"
    unfolding setMaxPacketSize_def set_hw_dev
    by (intro object_intros keeps_statistics keeps_restart keeps_link_down keeps_beside plain inside.keeps_update; simp)
  show "keeps R (selectMedium tb m)" "keeps R (setPromiscuousMode tb b)" "keeps R (setMulticastList tb b addrs)"
    "keeps R (setHardwareAddress tb addr)" "keeps R (setInputPacketPollingEnable b)" "keeps R (setWakeOnMagicPacket b)"
    unfolding selectMedium_def setPromiscuousMode_def setMulticastList_def setHardwareAddress_def
      setInputPacketPollingEnable_def setWakeOnMagicPacket_def
    by (intro object_intros keeps_advertise keeps_statistics keeps_restart keeps_beside; simp)+
qed

lemma keeps_events:
  "keeps R (interrupt_rest tb icr)" "keeps R (timer_rest tb)" "keeps R (restart_stalled tb)" "keeps R (restart_forced tb)"
  "keeps R intelUpdateAdaptive" "keeps R intelFlushDescriptors"
  unfolding interrupt_rest_def timer_rest_def restart_stalled_def restart_forced_def intelUpdateAdaptive_def
    intelFlushDescriptors_def
  by (intro object_intros keeps_restart keeps_link_change keeps_statistics keeps_beside other_half; simp add: count_stat_def)+

end

end
