(* ===== verification/DriverLock.thy ===== *)
theory DriverLock
  imports DriverFrames
begin

section \<open>The software flag in the driver object\<close>

text \<open>
  The member functions take the flag of the PHY themselves in six places and otherwise through the flows of
  theory \<open>LockProps\<close>. The locale \<open>flag_user\<close> gives the rules for code between taking and giving back, the
  locale \<open>pch_driver\<close> the contract of the tables; it is an instance of \<open>object_frame\<close>, so that every
  member function keeps \<open>free_rel\<close>.
\<close>

subsection \<open>Taking the flag and giving it back\<close>

text \<open>\<open>at h R\<close> looks at one part of a state; \<open>gives_back\<close> is what code does that ends without the flag.\<close>

definition at :: "('s \<Rightarrow> 'h) \<Rightarrow> ('h \<Rightarrow> 'h \<Rightarrow> bool) \<Rightarrow> 's \<Rightarrow> 's \<Rightarrow> bool" where
  "at h R s t = R (h s) (h t)"

definition gives_back :: "(nat \<Rightarrow> nat) \<Rightarrow> e1000_hw \<Rightarrow> e1000_hw \<Rightarrow> bool" where
  "gives_back pos s t \<longleftrightarrow> (bits_law (hw_os s) pos \<longrightarrow>
     bits_law (hw_os t) pos \<and> \<not> swflag_held pos t \<and> grown (\<lambda>e. \<not> blocked_try e) s t)"

lemma gives_back_after:
  assumes "locked_rel s t" and "gives_back pos t u"
  shows "gives_back pos s u"
proof -
  have "grown (\<lambda>e. \<not> blocked_try e) s t"
    using assms(1) by (auto simp: locked_rel_def elim!: grown_mono dest: io_event_try(2))
  moreover have "hw_os t = hw_os s" using assms(1) by (simp add: locked_rel_def lock_state_def)
  ultimately show ?thesis using assms(2) by (auto simp: gives_back_def intro: grown_trans)
qed

lemma gives_back_then: "gives_back pos s t \<Longrightarrow> free_rel pos t u \<Longrightarrow> gives_back pos s u"
  unfolding gives_back_def free_rel_def by (auto intro: grown_trans)

lemma frame_at: "frame_rel R \<Longrightarrow> frame_rel (at h R)"
  unfolding frame_rel_def at_def by blast

text \<open>A state with the chip in it, and the two operations on the flag.\<close>

locale flag_user =
  fixes h :: "'s \<Rightarrow> e1000_hw" and take :: "('s, s32) state" and give :: "('s, unit) state" and pos :: "nat \<Rightarrow> nat"
  assumes take_run: "fst (run_state take s) = fst (run_state e1000_acquire_swflag_ich8lan (h s))"
      "h (snd (run_state take s)) = snd (run_state e1000_acquire_swflag_ich8lan (h s))"
    and give_run: "h (snd (run_state give s)) = snd (run_state e1000_release_swflag_ich8lan (h s))"
begin

sublocale free: frame_rel "at h (free_rel pos)"
  by (rule frame_at) (rule outside.frame_rel_axioms)

sublocale held: frame_rel "at h locked_rel"
  by (rule frame_at) (rule inside.frame_rel_axioms)

lemma back_bind:
  assumes "keeps (at h locked_rel) m" and "\<And>x. keeps (at h (gives_back pos)) (f x)"
  shows "keeps (at h (gives_back pos)) (State_Monad.bind m f)"
proof (rule keepsI)
  fix s
  obtain x t where m: "run_state m s = (x, t)" by fastforce
  have "locked_rel (h s) (h t)" using keeps_run [OF assms(1), of s] m by (simp add: at_def)
  moreover have "gives_back pos (h t) (h (snd (run_state (f x) t)))"
    using keeps_run [OF assms(2) [of x], of t] by (simp add: at_def)
  ultimately show "at h (gives_back pos) s (snd (run_state (State_Monad.bind m f) s))"
    using m gives_back_after by (simp add: at_def)
qed

lemma give_frees: "keeps (at h (gives_back pos)) give"
  by (rule keepsI) (simp add: at_def give_run gives_back_def release_free)

lemma back_give:
  assumes "\<And>x. keeps (at h (free_rel pos)) (f x)"
  shows "keeps (at h (gives_back pos)) (State_Monad.bind give f)"
proof (rule keepsI)
  fix s
  obtain x t where m: "run_state give s = (x, t)" by (cases "run_state give s") blast
  have "gives_back pos (h s) (h t)" using keeps_run [OF give_frees, of s] m by (simp add: at_def)
  moreover have "free_rel pos (h t) (h (snd (run_state (f x) t)))"
    using keeps_run [OF assms [of x], of t] by (simp add: at_def)
  ultimately show "at h (gives_back pos) s (snd (run_state (State_Monad.bind give f) s))"
    using m gives_back_then by (simp add: at_def)
qed

lemma back_if:
  "(c \<Longrightarrow> keeps (at h (gives_back pos)) m) \<Longrightarrow> (\<not> c \<Longrightarrow> keeps (at h (gives_back pos)) n) \<Longrightarrow>
    keeps (at h (gives_back pos)) (if c then m else n)"
  by simp

lemma take_then:
  assumes "\<And>r. r \<noteq> 0 \<Longrightarrow> keeps (at h (free_rel pos)) (k r) \<or> keeps (at h (gives_back pos)) (k r)"
    and "keeps (at h (gives_back pos)) (k 0)"
  shows "keeps (at h (free_rel pos)) (State_Monad.bind take k)"
proof (rule keepsI)
  fix s
  obtain r t where a: "run_state take s = (r, t)" by fastforce
  show "at h (free_rel pos) s (snd (run_state (State_Monad.bind take k) s))"
  proof (cases "bits_law (hw_os (h s)) pos \<and> \<not> swflag_held pos (h s)")
    case True
    then have "bits_law (hw_os (h s)) pos" "\<not> swflag_held pos (h s)" by auto
    note q = acquire_free [OF this, folded take_run, unfolded a fst_conv snd_conv]
    let ?u = "snd (run_state (k r) t)"
    have "bits_law (hw_os (h ?u)) pos \<and> \<not> swflag_held pos (h ?u) \<and> grown (\<lambda>e. \<not> blocked_try e) (h t) (h ?u)"
    proof (cases "keeps (at h (gives_back pos)) (k r)")
      case True
      from keeps_run [OF this, of t] q(1) show ?thesis by (simp add: at_def gives_back_def)
    next
      case False
      then have "r \<noteq> 0" using assms(2) by metis
      then have "keeps (at h (free_rel pos)) (k r)" using assms(1) False by blast
      from keeps_run [OF this, of t] q(1) q(3) [OF \<open>r \<noteq> 0\<close>] show ?thesis by (simp add: at_def free_rel_def)
    qed
    with q(2) a show ?thesis by (auto simp: at_def free_rel_def intro: grown_trans)
  qed (auto simp: at_def free_rel_def)
qed

end

subsection \<open>Flows of the PHY that the object calls\<close>

context pch_phy begin

lemma shift_check_flow: "keeps (free_rel pos) (e1000e_check_downshift ops)"
  unfolding e1000e_check_downshift_def by (intro flow)

lemma wake_page_held [flow]: "keeps locked_rel (e1000_enable_phy_wakeup_reg_access_bm d)"
  "keeps locked_rel (e1000_disable_phy_wakeup_reg_access_bm d)"
  unfolding e1000_enable_phy_wakeup_reg_access_bm_def e1000_disable_phy_wakeup_reg_access_bm_def
  by (intro flow)+

lemma copy_addrs_flow [flow]: "keeps (free_rel pos) (e1000_copy_rx_addrs_to_phy_ich8lan ops)"
proof -
  have "keeps locked_rel (copy_rx_addr ops i)" for i
    unfolding copy_rx_addr_def by (intro flow)
  then show ?thesis
    unfolding e1000_copy_rx_addrs_to_phy_ich8lan_def by (intro flow)
qed

lemma lv_parts_flow [flow]:
  "(\<And>d. keeps (free_rel pos) (k d)) \<Longrightarrow> keeps (free_rel pos) (lv_kmrn ops f g k)"
  "keeps (free_rel pos) m \<Longrightarrow> keeps (free_rel pos) (lv_phy_regs ops f f' gap v g' d m)"
  "keeps (free_rel pos) (lv_raicc i)"
  unfolding lv_kmrn_def lv_phy_regs_def lv_phy_modify_def lv_raicc_def by (intro flow; assumption)+

lemma jumbo_flow: "keeps (free_rel pos) (e1000_lv_jumbo_workaround_ich8lan ops b d e)"
proof -
  have "keeps (free_rel pos) (lv_jumbo_enable ops d m)" "keeps (free_rel pos) (lv_jumbo_disable ops d m)"
    if "keeps (free_rel pos) m" for d m
    unfolding lv_jumbo_enable_def lv_jumbo_disable_def by (intro flow that)+
  then show ?thesis
    unfolding e1000_lv_jumbo_workaround_ich8lan_def by (cases b) (simp_all, (intro flow; simp add: flow)+)
qed

end

subsection \<open>The driver's own uses of the lock\<close>

lemma at_id: "at id R = R"
  by (simp add: at_def fun_eq_iff)

lemma keeps_dev_at: "keeps R m \<Longrightarrow> keeps (at hw_of R) (dev m)"
  by (rule keepsI) (simp add: at_def hw_of_def dev_def keeps_run)

locale pch_object = pch_link "dv_phy tb" pos for tb :: driver_ops and pos
begin

lemma table_lock: "phy_acquire (dv_phy tb) = e1000_acquire_swflag_ich8lan"
  "op_phy_release (dv_phy tb) = e1000_release_swflag_ich8lan"
  using swflag by (simp_all add: swflag_ops_def phy_acquire_def)

sublocale chip: flag_user id "phy_acquire (dv_phy tb)" "op_phy_release (dv_phy tb)" pos
  by unfold_locales (simp_all add: table_lock)

sublocale object: flag_user hw_of "dev (phy_acquire (dv_phy tb))" "dev (op_phy_release (dv_phy tb))" pos
  by unfold_locales (simp_all add: table_lock hw_of_def dev_def)

lemma held_set: "(\<And>s. hw_of (f s) = hw_of s) \<Longrightarrow> keeps (at hw_of locked_rel) (modify f)"
  "(\<And>s. hw_of (f s) = hw_of s) \<Longrightarrow> keeps (at hw_of (free_rel pos)) (modify f)"
  by (rule keepsI; simp add: at_def inside.R_refl outside.R_refl)+

lemma held_reg: "keeps (at hw_of locked_rel) (dread r)"
  unfolding dread_dev by (intro keeps_dev_at inside.keeps_io_read)

lemmas skip_intros = object.free.keeps_bind [OF object.free.keeps_gets] object.free.keeps_if object.free.keeps_ret
  object.free.keeps_case_option object.free.keeps_let

lemmas back_intros = object.back_bind object.back_give object.give_frees object.free.keeps_ret object.held.keeps_intros
  keeps_dev_at held_reg flow

lemma lpic_flow: "keeps (at hw_of (free_rel pos)) (intelFlushLPIC tb)"
  unfolding intelFlushLPIC_def by (rule object.take_then) (auto intro!: back_intros)

lemma reset_eee_flow: "keeps (at hw_of (free_rel pos)) (reset_eee tb)"
proof -
  have "keeps (at hw_of (free_rel pos)) (do {
           ret_val \<leftarrow> dev (phy_acquire (dv_phy tb));
           if ret_val \<noteq> 0 then ret False
           else do {
             s \<leftarrow> gets id;
             dev (e1000_write_emi_reg_locked (dv_phy tb) adv_addr
               (if ich8_eee_disable (hw_ich8 (hw_of s)) then 0 else ad_eee_advert (d_adapter s)));
             dev (op_phy_release (dv_phy tb));
             ret True } })" for adv_addr
    by (rule object.take_then) (auto intro!: back_intros)
  then show ?thesis
    unfolding reset_eee_def by (intro skip_intros)
qed

lemma supports_eee_flow: "keeps (at hw_of (free_rel pos)) (intelSupportsEEE tb)"
proof -
  have "keeps (at hw_of (free_rel pos)) (do {
           error \<leftarrow> dev (phy_acquire (dv_phy tb));
           if error \<noteq> 0 then ret 0
           else do {
           ability \<leftarrow> gets (\<lambda>s. ich8_eee_lp_ability (hw_ich8 (hw_of s)));
           r \<leftarrow> dev (e1000_read_emi_reg_locked (dv_phy tb) lpa ability);
           dev (set_ich8 (ich8_eee_lp_ability_update (\<lambda>_. snd r)));
           result \<leftarrow> (if fst r \<noteq> 0 then ret 0
             else do {
               a \<leftarrow> dev (e1000_read_emi_reg_locked (dv_phy tb) advAddr (dv_garbage tb 4));
               ret (if fst a \<noteq> 0 then 0 else eee_common (snd a) (snd r)) });
           dev (op_phy_release (dv_phy tb));
           ret result } })" for lpa advAddr
    by (rule object.take_then) (auto intro!: back_intros)
  then show ?thesis
    unfolding intelSupportsEEE_def Let_def by (auto intro!: skip_intros split: option.split)
qed

lemma enable_eee_flow: "keeps (at hw_of (free_rel pos)) (intelEnableEEE tb mode)"
proof -
  have "keeps locked_rel (enable_eee_locked tb pcsStatus mode)" for pcsStatus
    unfolding enable_eee_locked_def Let_def by (intro flow)
  then have "keeps (at hw_of (free_rel pos)) (do {
           error \<leftarrow> dev (phy_acquire (dv_phy tb));
           if error \<noteq> 0 then ret error
           else do {
             error \<leftarrow> dev (enable_eee_locked tb pcsStatus mode);
             dev (op_phy_release (dv_phy tb));
             ret error } })" for pcsStatus
    by (intro object.take_then) (auto intro!: back_intros)
  then show ?thesis
    unfolding intelEnableEEE_def by (intro skip_intros)
qed

lemma phy_stat_held:
  assumes "\<And>v. keeps (at hw_of locked_rel) (f v)"
  shows "keeps (at hw_of locked_rel) (phy_stat tb u l d f)"
  unfolding phy_stat_def by (intro back_intros assms)

lemma phy_stats_flow: "keeps (at hw_of (free_rel pos)) (e1000e_update_phy_stats tb)"
proof -
  have a: "keeps (at hw_of locked_rel) (set_st f)" for f
    unfolding set_st_def set_ad_def by (rule held_set) (simp add: hw_of_def)
  show ?thesis
    unfolding e1000e_update_phy_stats_def 
    by (rule object.take_then) (auto intro!: phy_stat_held a back_intros)
qed

lemma sleep_flow: "keeps (free_rel pos) (sleep_lpi tb advert)"
  unfolding sleep_lpi_def Let_def
  by (rule chip.take_then [unfolded at_id])
    (auto intro!: chip.back_bind [unfolded at_id] chip.give_frees [unfolded at_id] flow)

lemma phy_wakeup_flow: "keeps (free_rel pos) (intelInitPhyWakeup tb wufc addrs)"
proof -
  have q: "keeps locked_rel (copy_mta tb i)" "keeps locked_rel (write_ipv4 tb addrs i)" "keeps locked_rel (write_ipv6 tb addrs i)" for i
    unfolding copy_mta_def write_ipv4_def write_ipv6_def Let_def by (intro flow inside.keeps_io_read)+
  have p: "keeps locked_rel (phy_wakeup_page tb wufc addrs e)" for e
    unfolding phy_wakeup_page_def Let_def by (intro flow q inside.keeps_io_read inside.keeps_io_write)
  have "keeps (free_rel pos) (do {
      error \<leftarrow> phy_acquire (dv_phy tb);
      if error \<noteq> 0 then ret ()
      else do {
        r \<leftarrow> e1000_enable_phy_wakeup_reg_access_bm (dv_garbage tb 7);
        cwhen (fst r = 0) (phy_wakeup_page tb wufc addrs (snd r));
        op_phy_release (dv_phy tb) } })"
    by (rule chip.take_then [unfolded at_id])
      (auto intro!: chip.back_bind [unfolded at_id] chip.give_frees [unfolded at_id] p flow)
  then show ?thesis
    unfolding intelInitPhyWakeup_def Let_def by (intro outside.keeps_bind [OF copy_addrs_flow])
qed

end

subsection \<open>The rings\<close>

interpretation ring: frame_rel "at m_hw locked_rel"
  by (rule frame_at) (rule inside.frame_rel_axioms)

lemma ring_hw: "keeps locked_rel m \<Longrightarrow> keeps (at m_hw locked_rel) (on_hw m)"
  by (rule keepsI) (simp add: at_def keeps_run)

lemma ring_modify: "(\<And>m. m_hw (f m) = m_hw m) \<Longrightarrow> keeps (at m_hw locked_rel) (modify f)"
  by (rule keepsI) (simp add: at_def inside.R_refl)

lemma ring_reg: "keeps (at m_hw locked_rel) (intelReadMem32 r)" "keeps (at m_hw locked_rel) (intelWriteMem32 r v)"
  "keeps (at m_hw locked_rel) intelFlush"
  unfolding intelFlush_def intelReadMem32_def intelWriteMem32_def
  by (intro ring.keeps_intros ring_hw inside.keeps_io_read inside.keeps_io_write)+

lemmas ring_intros = ring.keeps_intros ring_reg

lemma rx_tail_frame: "keeps (at m_hw locked_rel) (rx_tail i)"
  unfolding rx_tail_def intelUpdateRxDescTail_def
  by (intro ring_intros ring_hw inside.keeps_ew32_prepare ring_modify; simp)

lemma ring_frames:
  "keeps (at m_hw locked_rel) intelInitTxRing" "keeps (at m_hw locked_rel) intelInitRxRing"
  "keeps (at m_hw locked_rel) intelFlushTxRing" "keeps (at m_hw locked_rel) intelFlushRxRing"
  unfolding intelInitTxRing_def intelInitRxRing_def intelFlushTxRing_def intelFlushRxRing_def
  by (intro ring_intros ring_hw rx_tail_frame inside.hw_intros ring_modify; simp)+

lemma rx_map_frame: "keeps (at m_hw locked_rel) (rxMapBuffers index n update)"
proof -
  have k: "keeps (at m_hw locked_rel) (kcall c)" for c
    unfolding kcall_def by (intro ring_intros ring_modify; simp)
  have "keeps (at m_hw locked_rel) (rx_new_ranges is)" "keeps (at m_hw locked_rel) (rx_new_addrs md offset is)" for "is" md offset
    by (induction "is" arbitrary: offset) (auto intro!: ring_intros ring_modify)
  then have batch: "keeps (at m_hw locked_rel) (rx_map_batch index)" for index
    unfolding rx_map_batch_def by (intro ring_intros ring_modify k; simp)
  have "keeps (at m_hw locked_rel) (rx_map_loop n index update)" for n index
    by (induction n arbitrary: index) (simp_all only: rx_map_loop.simps, (intro ring_intros rx_tail_frame batch | assumption)+)
  then show ?thesis by (simp add: rxMapBuffers_def)
qed

lemma clear_frames: "keeps (at m_hw locked_rel) clear_tx" "keeps (at m_hw locked_rel) clear_rx_ring"
proof -
  have k: "keeps (at m_hw locked_rel) (kcall c)" "keeps (at m_hw locked_rel) (mbuf_freem_list l)" for c l
    unfolding kcall_def mbuf_freem_list_def by (intro ring_intros ring_modify; simp)+
  have "keeps (at m_hw locked_rel) (clear_tx_bufs is)" "keeps (at m_hw locked_rel) (clear_tx_maps is)" for "is"
    by (induction "is") (auto intro!: ring_intros k ring_modify)
  then show "keeps (at m_hw locked_rel) clear_tx"
    unfolding clear_tx_def by (intro ring_intros ring_modify) auto
  show "keeps (at m_hw locked_rel) clear_rx_ring"
    unfolding clear_rx_ring_def clear_rx_maps_def clear_rx_def discardPacketFragment_def
    by (intro ring_intros k rx_map_frame ring_modify; simp)
qed

lemma locked_rel_free: "locked_rel s t \<Longrightarrow> free_rel pos s t"
  by (auto simp: locked_rel_def free_rel_def lock_state_def swflag_held_def
      elim!: grown_mono dest: io_event_try)

lemma ring_free: "keeps (at m_hw locked_rel) m \<Longrightarrow> keeps (at hw_of (free_rel pos)) (on_mausi m)"
proof (rule keepsI)
  fix s :: driver
  assume "keeps (at m_hw locked_rel) m"
  from keeps_run [OF this, of "d_m s"]
  have "locked_rel (m_hw (d_m s)) (m_hw (snd (run_state m (d_m s))))" by (simp add: at_def)
  then have "free_rel pos (m_hw (d_m s)) (m_hw (snd (run_state m (d_m s))))" by (rule locked_rel_free)
  then show "at hw_of (free_rel pos) s (snd (run_state (on_mausi m) s))" by (simp add: at_def hw_of_def)
qed

lemma state_bit_free:
  assumes "pos state_down \<noteq> pos state_access_shared_resource"
  shows "keeps (free_rel pos) (set_bit_op state_down)" "keeps (free_rel pos) (clear_bit_op state_down)"
proof -
  have p: "bits_law os pos \<Longrightarrow> pos state_down < 64 \<and> os_test_and_set os state_down w = (bit w (pos state_down), Bit_Operations.set_bit (pos state_down) w)
    \<and> snd (os_test_and_clear os state_down w) = unset_bit (pos state_down) w" for os and w :: u64
    by (simp add: bits_law_def)
  show "keeps (free_rel pos) (set_bit_op state_down)"
    using assms p by (intro keepsI) (auto simp: set_bit_op_def run_test_and_set free_rel_def swflag_held_def grown_def
        after_def blocked_try_def bit_set_bit_iff)
  show "keeps (free_rel pos) (clear_bit_op state_down)"
    using assms p by (intro keepsI) (auto simp: run_clear_bit_op free_rel_def swflag_held_def grown_def case_prod_beta
        after_def blocked_try_def bit_unset_bit_iff)
qed

subsection \<open>The object\<close>

text \<open>The contract of the tables, which the initialisation provides.\<close>

locale pch_driver = pch_object tb pos for tb :: driver_ops and pos +
  assumes apart: "pos state_down \<noteq> pos state_access_shared_resource"
    and reset_table: "keeps (free_rel pos) (dv_reset_hw tb)" "keeps (free_rel pos) (dv_init_hw tb)"
    and info_table: "keeps (free_rel pos) (op_phy_get_info (dv_phy tb))"
    and multicast_table: "keeps (free_rel pos) (dv_update_mc tb addrs)"
    and mac_tables: "keeps (free_rel pos) (op_config_collision_dist (dv_mac tb))"
      "keeps (free_rel pos) (op_check_for_link (dv_mac tb))" "keeps (free_rel pos) (op_get_link_up_info (dv_mac tb))"
      "keeps (free_rel pos) (op_setup_link (dv_mac tb))" "keeps (free_rel pos) (op_rar_set (dv_mac tb) addr i)"
    and power_table: "keeps (free_rel pos) (op_phy_power_up (dv_phy tb))" "keeps (free_rel pos) (op_phy_power_down (dv_phy tb))"
    and hook_table: "dv_cfg_on_link_up tb = None"
begin

sublocale obj: object_frame "at hw_of (free_rel pos)" tb
proof (intro object_frame.intro reset_frame.intro chip_frame.intro object_frame_axioms.intro
    reset_frame_axioms.intro chip_frame_axioms.intro)
  show "frame_rel (at hw_of (free_rel pos))" by unfold_locales
  show "at hw_of (free_rel pos) s t" if "d_m t = d_m s" "deadlockWarn t = deadlockWarn s" "eeeMode t = eeeMode s" for s t
    using that(1) by (simp add: at_def hw_of_def outside.R_refl)
  show "at hw_of (free_rel pos) s t" if "d_m t = d_m s" for s t
    using that by (simp add: at_def hw_of_def outside.R_refl)
  show "keeps (at hw_of (free_rel pos)) (set_m f)" if "\<And>m. m_hw (f m) = m_hw m" for f
    using that by (intro keepsI) (simp add: at_def hw_of_def outside.R_refl)
qed (auto intro!: keeps_dev_at flow ring_free ring_frames clear_frames reset_table info_table multicast_table mac_tables power_table hook_table
  state_bit_free [OF apart] lpic_flow reset_eee_flow supports_eee_flow enable_eee_flow phy_stats_flow sleep_flow phy_wakeup_flow
  jumbo_flow shift_check_flow downshift_flow locked_free)

end

end
