(* ===== verification/DriverEvents.thy ===== *)
theory DriverEvents
  imports DriverLock
begin

section \<open>The driver as a state machine\<close>

text \<open>
  Member functions and events over the contract of theory \<open>DriverLock\<close>, the tables that meet it, and the
  relation of the states a driver can reach.
\<close>

subsection \<open>The ring cleaners and the chip\<close>

text \<open>They touch it only to move the receive tail.\<close>

interpretation same_hw: frame_rel "same m_hw"
  by unfold_locales (simp_all add: same_def)

lemma same_hw_modify: "(\<And>m. m_hw (f m) = m_hw m) \<Longrightarrow> keeps (same m_hw) (modify f)"
  by (rule keepsI) (simp add: same_def)

lemma same_hw_calls:
  "keeps (same m_hw) (kcall c)" "keeps (same m_hw) (mbuf_freem_list l)" "keeps (same m_hw) (set_pool p)"
  "keeps (same m_hw) (mbuf_allocpacket how sz)" "keeps (same m_hw) discardPacketFragment"
  unfolding mbuf_freem_list_def kcall_def set_pool_def mbuf_allocpacket_def discardPacketFragment_def
  by (intro same_hw.keeps_intros same_hw_modify; simp)+

lemmas same_hw_intros = same_hw.keeps_intros same_hw_calls

lemma tx_release_hw: "m_hw (snd (run_state (tx_release i m) s)) = m_hw s"
  by (simp add: tx_release_def kcall_def txUnmapPacket_def mbuf_freem_list_def case_prod_beta Let_def split: option.split)

lemma tx_clean_hw:
  assumes "tx_clean_loop s = Some t"
  shows "m_hw t = m_hw s"
proof (rule tx_clean_loop.raw_induct [OF _ assms, where P = "\<lambda>s t. m_hw t = m_hw s"], goal_cases)
  case (1 f s t)
  show ?case
    using 1(2) by (auto simp: Let_def tx_advance_def tx_release_hw split: if_splits option.splits dest!: 1(1))
qed

lemma txInterrupt_hw: "txInterrupt s = Some t \<Longrightarrow> m_hw t = m_hw s"
  by (auto simp: txInterrupt_def kcall_def dest: tx_clean_hw)

lemma rx_packet_hw: "keeps (same m_hw) (rx_packet i f)"
proof -
  have "keeps (same m_hw) (getPacket len how)" for len how
    unfolding getPacket_def schedule_refill_def by (intro same_hw_intros)
  then have "keeps (same m_hw) (replaceOrCopyPacket m len)" for m len
    unfolding replaceOrCopyPacket_def by (intro same_hw_intros)
  moreover have "keeps (same m_hw) rx_drop_resource" "keeps (same m_hw) (rx_deliver m d)" for m d
    unfolding rx_drop_resource_def rx_deliver_def by (intro same_hw_intros same_hw_modify; simp)+
  ultimately show ?thesis
    unfolding rx_packet_def by (intro same_hw_intros same_hw_modify) simp_all
qed

lemma rx_round_hw: "m_hw (snd (rx_round s)) = m_hw s" "m_hw (snd (rx_round_vtd s)) = m_hw s"
  using keeps_run [OF rx_packet_hw]
  by (simp_all add: rx_round_def rx_next_def rx_round_vtd_def rx_next_vtd_def case_prod_beta same_def)

lemma rx_loop_hw:
  assumes "rx_loop n k s = Some r"
  shows "m_hw (snd r) = m_hw s"
proof (rule rx_loop.raw_induct [OF _ assms, where P = "\<lambda>n k s r. m_hw (snd r) = m_hw s"], goal_cases)
  case (1 f n k s r)
  show ?case
    using 1(2) rx_round_hw [of s] by (auto split: if_splits prod.splits dest!: 1(1))
qed

lemma rx_loop_vtd_hw:
  assumes "rx_loop_vtd n k s = Some r"
  shows "m_hw (snd r) = m_hw s"
proof (rule rx_loop_vtd.raw_induct [OF _ assms, where P = "\<lambda>n k s r. m_hw (snd r) = m_hw s"], goal_cases)
  case (1 f n k s r)
  show ?case
    using 1(2) rx_round_hw [of s] by (auto split: if_splits prod.splits dest!: 1(1))
qed

lemma rxInterruptVTD_hw: "rxInterruptVTD n s = Some (k, t) \<Longrightarrow> locked_rel (m_hw s) (m_hw t)"
proof -
  assume "rxInterruptVTD n s = Some (k, t)"
  then obtain u where u: "rx_loop_vtd n 0 s = Some (k, u)" "t = snd (run_state rx_remap u)"
    by (auto simp: rxInterruptVTD_def)
  have "keeps (at m_hw locked_rel) rx_remap"
    unfolding rx_remap_def by (intro ring_intros rx_map_frame ring_modify) simp
  from keeps_run [OF this, of u] u(2) have "locked_rel (m_hw u) (m_hw t)" by (simp add: at_def)
  then show ?thesis using rx_loop_vtd_hw [OF u(1)] by simp
qed

lemma rxInterrupt_hw: "rxInterrupt n s = Some (k, t) \<Longrightarrow> locked_rel (m_hw s) (m_hw t)"
proof -
  assume "rxInterrupt n s = Some (k, t)"
  then obtain u where u: "rx_loop n 0 s = Some (k, u)" "t = snd (run_state (do {
        cleaned \<leftarrow> gets rxCleanedCount;
        cwhen (cleaned \<ge> E1000_RX_BUFFER_WRITE) (do {
          next \<leftarrow> gets rxNextDescIndex;
          rx_tail (ucast (next - 1) AND kRxDescMask);
          modify (\<lambda>s. s\<lparr>rxCleanedCount := 0\<rparr>) }) }) u)" (is "_ = snd (run_state ?m u)")
    by (auto simp: rxInterrupt_def)
  have "keeps (at m_hw locked_rel) ?m"
    by (intro ring_intros rx_tail_frame ring_modify) simp
  from keeps_run [OF this, of u] u(2) have "locked_rel (m_hw u) (m_hw t)" by (simp add: at_def)
  then show ?thesis using rx_loop_hw [OF u(1)] by simp
qed

subsection \<open>Member functions and events\<close>

text \<open>The member functions the kernel calls, with the parts they are made of.\<close>

definition driver_methods ::
  "driver_ops \<Rightarrow> bool \<Rightarrow> medium \<Rightarrow> u32 \<Rightarrow> ifaddr list option \<Rightarrow> u8 list list \<Rightarrow> u8 list \<Rightarrow> unit driverM list" where
  "driver_methods tb b m n addrs list addr = [
     do { enable_interface tb; ret () },
     disable_interface tb addrs,
     systemWillShutdown tb b (\<not> b) addrs,
     intelReset tb,
     intelConfigure tb,
     intelDown tb b,
     setLinkUp tb,
     setLinkDown tb,
     intelRestart tb,
     checkLinkStatus tb,
     selectMedium tb m,
     do { setMaxPacketSize tb n; ret () },
     setMulticastMode tb b,
     setPromiscuousMode tb b,
     do { setMulticastList tb b list; ret () },
     do { setHardwareAddress tb addr; ret () },
     setInputPacketPollingEnable b,
     updateStatistics tb,
     timer_rest tb]"

text \<open>Interrupt, timer and polling; they do not return when a ring cleaner does not.\<close>

definition driver_events :: "driver_ops \<Rightarrow> u32 \<Rightarrow> (driver \<Rightarrow> driver option) list" where
  "driver_events tb n = [interruptOccurred tb, interruptOccurredVTD tb, timerAction tb, pollInputPackets n]"

context pch_driver begin

lemma methods_keep: "list_all (keeps (at hw_of (free_rel pos))) (driver_methods tb b m n addrs list addr)"
proof -
  have u: "keeps (at hw_of (free_rel pos)) (do { x \<leftarrow> p; ret () })" if "keeps (at hw_of (free_rel pos)) p" for p
    using that by (intro object.free.keeps_intros)
  show ?thesis
    unfolding driver_methods_def list.pred_inject(2)
    by (intro conjI list.pred_inject(1) TrueI obj.keeps_switch obj.keeps_shutdown obj.keeps_reset obj.keeps_configure obj.keeps_down
        obj.keeps_link_up obj.keeps_link_down obj.keeps_restart obj.keeps_link_change obj.keeps_requests
        obj.keeps_statistics obj.keeps_events object.free.keeps_bind [OF _ object.free.keeps_ret])
qed

lemma step_free: "keeps (at hw_of (free_rel pos)) m \<Longrightarrow> free_rel pos (hw_of s) (hw_of (snd (run_state m s)))"
  using keeps_run [of "at hw_of (free_rel pos)" m s] by (simp add: at_def)

lemma run_tx_free: "run_tx s = Some t \<Longrightarrow> free_rel pos (hw_of s) (hw_of t)"
  by (auto simp: run_tx_def hw_of_def outside.R_refl dest: txInterrupt_hw)

lemma run_rx_free: "run_rx vtd n s = Some (k, t) \<Longrightarrow> free_rel pos (hw_of s) (hw_of t)"
  by (auto simp: run_rx_def hw_of_def locked_rel_free split: if_splits dest: rxInterrupt_hw rxInterruptVTD_hw)

lemma interrupt_tx_free: "interrupt_tx icr s = Some t \<Longrightarrow> free_rel pos (hw_of s) (hw_of t)"
  by (auto simp: interrupt_tx_def count_stat_def hw_of_def outside.R_refl split: if_splits
      dest!: run_tx_free [unfolded hw_of_def])

lemma interrupt_rx_free: "interrupt_rx vtd icr s = Some t \<Longrightarrow> free_rel pos (hw_of s) (hw_of t)"
  by (auto simp: interrupt_rx_def count_stat_def hw_of_def outside.R_refl Let_def split: if_splits
      dest!: run_rx_free [unfolded hw_of_def])

lemma interrupt_free:
  assumes "handle_interrupt vtd tb s = Some t"
  shows "free_rel pos (hw_of s) (hw_of t)"
proof -
  obtain icr s1 where r: "run_state (dread E1000_ICR) s = (icr, s1)" by fastforce
  have 1: "free_rel pos (hw_of s) (hw_of s1)"
    using step_free [OF obj.keeps_reg(1) [of E1000_ICR], of s] r by simp
  obtain s2 where s2: "(if polling s1 then Some s1 else Option.bind (interrupt_tx icr s1) (interrupt_rx vtd icr)) = Some s2"
    and t: "t = snd (run_state (interrupt_rest tb icr) s2)"
    using assms r by (auto simp: handle_interrupt_def)
  have 2: "free_rel pos (hw_of s1) (hw_of s2)"
    using s2 by (auto simp: bind_eq_Some_conv outside.R_refl split: if_splits
        intro: outside.R_trans dest!: interrupt_tx_free interrupt_rx_free)
  have 3: "free_rel pos (hw_of s2) (hw_of t)"
    unfolding t by (rule step_free) (rule obj.keeps_events)
  from 1 2 3 show ?thesis by (blast intro: outside.R_trans)
qed

lemma deadlock_free:
  assumes "checkForDeadlock tb s = Some (b, t)"
  shows "free_rel pos (hw_of s) (hw_of t)"
proof -
  define u where "u = (if forceReset (d_m s) then snd (run_state (restart_forced tb) s) else s)"
  have 1: "free_rel pos (hw_of s) (hw_of u)"
    unfolding u_def using step_free [OF obj.keeps_events(4)] by (simp add: outside.R_refl)
  have w: "hw_of (v\<lparr>deadlockWarn := d\<rparr>) = hw_of v" for v d by (simp add: hw_of_def)
  have "free_rel pos (hw_of u) (hw_of t)"
    using assms step_free [OF obj.keeps_events(3)] step_free [OF obj.keeps_events(6)]
    unfolding checkForDeadlock_def Let_def u_def [symmetric]
    by (auto simp: w outside.R_refl split: if_splits dest!: run_tx_free) (metis w outside.R_trans)+
  with 1 show ?thesis by (rule outside.R_trans)
qed

lemma timer_free:
  assumes "timerAction tb s = Some t"
  shows "free_rel pos (hw_of s) (hw_of t)"
proof -
  have w: "hw_of (v\<lparr>d_m := (d_m v)\<lparr>txDescDoneLast := x\<rparr>\<rparr>) = hw_of v" for v x by (simp add: hw_of_def)
  show ?thesis
    using assms step_free [OF obj.keeps_events(2)] step_free [OF obj.keeps_events(5)]
    unfolding timerAction_def
    by (auto simp: w outside.R_refl split: if_splits dest!: deadlock_free) (metis outside.R_trans)+
qed

lemma events_keep: "h \<in> set (driver_events tb n) \<Longrightarrow> h s = Some t \<Longrightarrow> free_rel pos (hw_of s) (hw_of t)"
  unfolding driver_events_def
  by (auto simp: pollInputPackets_def interruptOccurred_def interruptOccurredVTD_def bind_eq_Some_conv outside.R_refl split: if_splits
      dest!: run_tx_free run_rx_free intro: outside.R_trans interrupt_free timer_free)

end

subsection \<open>The tables of the PCH parts\<close>

definition pch_driver_ops :: "e1000_mac_type \<Rightarrow> bool \<Rightarrow> (nat \<Rightarrow> u16) \<Rightarrow> driver_ops" where
  "pch_driver_ops ty spt g = driver_ops_of pch_table (mac_table_for ty ich8_mac_ops) (part_nvm spt) g"

lemma pch_driver_tables:
  assumes ty: "ty \<ge> e1000_pchlan" and "pos state_down \<noteq> pos state_access_shared_resource"
  shows "pch_driver (pch_driver_ops ty spt g) pos"
proof -
  let ?o = "phy_lv (Suc (Suc (Suc (Suc (Suc (Suc (Suc 0))))))) (pch_mac ty) spt g"
  let ?m = "mac_lv (Suc (Suc (Suc (Suc (Suc (Suc (Suc 0))))))) (pch_mac ty) spt g"
  have parts: "dv_phy (pch_driver_ops ty spt g) = ?o" "dv_mac (pch_driver_ops ty spt g) = ?m"
    "dv_reset_hw (pch_driver_ops ty spt g) = e1000_reset_hw_ich8lan ?o (part_nvm spt) (g 0)"
    "dv_init_hw (pch_driver_ops ty spt g) = e1000_init_hw_ich8lan ?m ?o (part_nvm spt) (g 0)"
    "dv_update_mc (pch_driver_ops ty spt g) = (\<lambda>l. do { e1000e_update_mc_addr_list_generic l; ret () })"
    "dv_cfg_on_link_up (pch_driver_ops ty spt g) = None"
    unfolding pch_driver_ops_def driver_ops_of_def ops_of_levels by simp_all
  have mc: "keeps (free_rel pos) (do { e1000e_update_mc_addr_list_generic l; ret () })" for l
    unfolding e1000e_update_mc_addr_list_generic_def by (intro outside.held_intros)
  show ?thesis
  proof (intro pch_driver.intro pch_object.intro pch_driver_axioms.intro)
    show "pch_link (dv_phy (pch_driver_ops ty spt g)) pos" unfolding parts by (rule lv4.pch_link_axioms)
    show "pos state_down \<noteq> pos state_access_shared_resource" by fact
  qed (simp_all only: parts mc reset_hw_flow top_phy [OF ty] top_mac [OF ty] mac_link_up mac_small [OF ty]
      init_hw_flow [OF mac_small(2) [OF ty]])
qed

interpretation lpt: pch_driver "pch_driver_ops e1000_pch_lpt spt g" id for spt g
  by (rule pch_driver_tables) (simp_all add: mac_order)

lemma same_hw_ring: "keeps (same m_hw) m \<Longrightarrow> keeps (at m_hw locked_rel) m"
  by (erule keeps_mono) (simp add: same_def at_def inside.R_refl)

lemma output_frame: "keeps (at m_hw locked_rel) (outputStart queue garbage)"
proof -
  have put: "keeps (same m_hw) (put_tx i d b)" for i d b
    unfolding put_tx_def by (rule same_hw_modify) simp
  have fill: "keeps (same m_hw) (fill_segs segs i l plan m n ix)" for segs i l plan m n ix
    by (induction segs arbitrary: i ix) (auto intro!: same_hw_intros put)
  have queue: "keeps (same m_hw) (queue_segments m plan segs)" for m plan segs
    unfolding queue_segments_def by (intro same_hw_intros same_hw_modify put fill) simp_all
  have map: "keeps (same m_hw) (txMapPacket m v n)" for m v n
    unfolding txMapPacket_def tx_map_error_def by (intro same_hw_intros same_hw_modify) simp_all
  have packet: "keeps (same m_hw) (output_packet m v)" for m v
    unfolding output_packet_def by (intro same_hw_intros same_hw_modify queue map) simp_all
  have "keeps (same m_hw) (output_loop queue v n)" for v n
    by (induction queue arbitrary: v n) (auto intro!: same_hw_intros packet)
  then have "keeps (at m_hw locked_rel) (output_loop queue v n)" for v n
    by (rule same_hw_ring)
  moreover have "keeps (at m_hw locked_rel) (intelUpdateTxDescTail i)" for i
    unfolding intelUpdateTxDescTail_def by (intro ring_intros ring_hw inside.keeps_ew32_prepare ring_modify; simp)
  ultimately show ?thesis unfolding outputStart_def by (intro ring_intros)
qed

subsection \<open>Reachable states\<close>

text \<open>
  What happens to a driver that is running, in any order: member functions with any arguments, interrupts, timer,
  polling, and packets to send.
\<close>

inductive driver_reach :: "driver_ops \<Rightarrow> driver \<Rightarrow> driver \<Rightarrow> bool" for tb and s where
  idle: "driver_reach tb s s"
| call: "driver_reach tb s t \<Longrightarrow> m \<in> set (driver_methods tb b medium n addrs list addr) \<Longrightarrow>
    driver_reach tb s (snd (run_state m t))"
| event: "driver_reach tb s t \<Longrightarrow> h \<in> set (driver_events tb n) \<Longrightarrow> h t = Some u \<Longrightarrow> driver_reach tb s u"
| transmit: "driver_reach tb s t \<Longrightarrow> driver_reach tb s (snd (run_state (on_mausi (outputStart queue garbage)) t))"

lemma reach_free:
  assumes "pch_driver tb pos" and "driver_reach tb s t"
  shows "free_rel pos (hw_of s) (hw_of t)"
  using assms(2)
proof induction
  case idle
  show ?case by (rule outside.R_refl)
next
  case (call t m b medium n addrs list addr)
  have "keeps (at hw_of (free_rel pos)) m"
    using pch_driver.methods_keep [OF assms(1)] call(2) by (auto simp: list_all_iff)
  from pch_driver.step_free [OF assms(1) this] call(3) show ?case by (blast intro: outside.R_trans)
next
  case (event t h n u)
  from pch_driver.events_keep [OF assms(1) event(2,3)] event(4) show ?case by (blast intro: outside.R_trans)
next
  case (transmit t queue garbage)
  from pch_driver.step_free [OF assms(1) ring_free [OF output_frame]] transmit(2) show ?case
    by (blast intro: outside.R_trans)
qed

end
