(* ===== verification/DriverRestart.thy ===== *)
theory DriverRestart
  imports DriverFrames TxProps
begin

section \<open>The restart of the driver\<close>

text \<open>
  Reset and configuration leave the buffers of the transmit ring alone, and configuration keeps an empty ring
  empty: two interpretations of the locales of theory \<open>DriverFrames\<close>, for any tables and any chip. With the
  clearing of the rings between them they give the effect of \<open>intelRestart\<close>.
\<close>

subsection \<open>Clearing any ring\<close>

lemma clear_any_ring:
  assumes len: "length (txBufArray s) = 512"
  defines "t \<equiv> snd (run_state clear_tx s)"
  shows "owned (txBufArray t) = []" "freed (m_klog t) = freed (m_klog s) @ owned (txBufArray s)"
    "txNumFreeDesc t = 512" "txNextDescIndex t = 0" "txDirtyIndex t = 0" "txCleanBarrierIndex t = 0"
    "length (txBufArray t) = 512"
proof -
  obtain bs log where c: "run_state (clear_tx_bufs [0..<512]) s = ((), s\<lparr>txBufArray := bs, m_klog := log\<rparr>)"
    "length bs = 512"
    "\<forall>i < 512. bs ! i = (if owner (txBufArray s ! i) \<noteq> [] then empty_buf else txBufArray s ! i)"
    "freed log = freed (m_klog s) @ concat (map (\<lambda>i. owner (txBufArray s ! i)) [0..<512])"
    using clear_bufs_run [of "[0..<512]" s] len by auto
  have "owner (bs ! i) = []" if "i < 512" for i using c(3) that by simp
  then have bs: "owned bs = []" unfolding owned_def using c(2) by (auto simp: in_set_conv_nth)
  have "map (\<lambda>i. owner (txBufArray s ! i)) [0..<512] = map owner (txBufArray s)"
    using len by (intro nth_equalityI) simp_all
  then have log: "freed log = freed (m_klog s) @ owned (txBufArray s)" using c(4) by (simp add: owned_def)
  let ?s = "s\<lparr>txBufArray := bs, m_klog := log\<rparr>"
  have m: "same_ring ?s (snd (run_state (clear_tx_maps [0..<256]) ?s))" by (rule clear_maps_run)
  show "owned (txBufArray t) = []" "freed (m_klog t) = freed (m_klog s) @ owned (txBufArray s)"
    "txNumFreeDesc t = 512" "txNextDescIndex t = 0" "txDirtyIndex t = 0" "txCleanBarrierIndex t = 0"
    "length (txBufArray t) = 512"
    using c(1,2) bs log m
    by (auto simp: t_def clear_tx_def case_prod_beta same_ring_def)
qed

subsection \<open>What a reset keeps\<close>

text \<open>The buffers of the transmit ring, the calls so far, the packet being received and the link state.\<close>

definition mbufs_of :: "mausi \<Rightarrow> intelTxBufferInfo list \<times> kcall list \<times> mbuf list \<times> bool" where
  "mbufs_of m = (txBufArray m, m_klog m, rxPacket m, linkUp m)"

definition mbufs :: "driver \<Rightarrow> driver \<Rightarrow> bool" where
  "mbufs s t \<longleftrightarrow> same mbufs_of (d_m s) (d_m t) \<and> deadlockWarn t = deadlockWarn s \<and> eeeMode t = eeeMode s"

interpretation mb: frame_rel "same mbufs_of"
  by unfold_locales (simp_all add: same_def)

lemma mb_hw: "keeps (same mbufs_of) (on_hw m)" "keeps (same mbufs_of) (intelReadMem32 r)"
  "keeps (same mbufs_of) (intelWriteMem32 r v)" "keeps (same mbufs_of) intelFlush"
  by (rule keepsI; simp add: same_def mbufs_of_def intelReadMem32_def intelWriteMem32_def intelFlush_def)+

lemma mb_modify: "(\<And>m. mbufs_of (f m) = mbufs_of m) \<Longrightarrow> keeps (same mbufs_of) (modify f)"
  by (rule keepsI) (simp add: same_def)

lemma mb_rings:
  "keeps (same mbufs_of) intelInitTxRing" "keeps (same mbufs_of) intelInitRxRing"
  "keeps (same mbufs_of) intelFlushTxRing" "keeps (same mbufs_of) intelFlushRxRing"
proof -
  have "keeps (same mbufs_of) (rx_tail i)" for i
    unfolding rx_tail_def intelUpdateRxDescTail_def
    by (intro mb.keeps_intros mb_hw mb_modify) (simp_all add: mbufs_of_def)
  then show "keeps (same mbufs_of) intelInitTxRing" "keeps (same mbufs_of) intelInitRxRing"
  "keeps (same mbufs_of) intelFlushTxRing" "keeps (same mbufs_of) intelFlushRxRing"
    unfolding intelInitTxRing_def intelInitRxRing_def intelFlushTxRing_def intelFlushRxRing_def
    by (intro mb.keeps_intros mb_hw mb_modify; simp add: mbufs_of_def)+
qed

lemma mbufs_ring: "keeps (same mbufs_of) m \<Longrightarrow> keeps mbufs (on_mausi m)"
  by (rule keepsI) (simp add: mbufs_def keeps_run)

lemma mbufs_dev: "keeps mbufs (dev m)"
  unfolding dev_def by (rule mbufs_ring) (rule mb_hw)

interpretation mf: frame_rel mbufs
  by unfold_locales (auto simp: mbufs_def same_def)

interpretation keep_mbufs: reset_frame mbufs tb for tb
proof unfold_locales
  show "keeps mbufs (reset_eee tb)"
    unfolding reset_eee_def by (intro mf.keeps_intros mbufs_dev)
qed (auto simp: mbufs_def same_def intro!: mbufs_dev mbufs_ring mb_rings)

definition ring_idle :: "driver \<Rightarrow> bool" where
  "ring_idle s \<longleftrightarrow> txNumFreeDesc (d_m s) = kNumTxDesc \<and> txNextDescIndex (d_m s) = 0 \<and> txDirtyIndex (d_m s) = 0 \<and>
     txCleanBarrierIndex (d_m s) = 0"

definition stays_idle :: "driver \<Rightarrow> driver \<Rightarrow> bool" where
  "stays_idle s t \<longleftrightarrow> (ring_idle s \<longrightarrow> ring_idle t)"

definition idle_of :: "mausi \<Rightarrow> int \<times> u16 \<times> u16 \<times> u16" where
  "idle_of m = (txNumFreeDesc m, txNextDescIndex m, txDirtyIndex m, txCleanBarrierIndex m)"

interpretation idle: frame_rel "same idle_of"
  by unfold_locales (simp_all add: same_def)

lemma idle_init_rx: "keeps (same idle_of) intelInitRxRing"
proof -
  have m: "keeps (same idle_of) (on_hw m)" for m
    by (rule keepsI) (simp add: same_def idle_of_def)
  have f: "keeps (same idle_of) (modify f)" if "\<And>m. idle_of (f m) = idle_of m" for f
    using that by (intro keepsI) (simp add: same_def)
  have "keeps (same idle_of) (rx_tail i)" for i
    unfolding rx_tail_def intelUpdateRxDescTail_def intelReadMem32_def intelWriteMem32_def
    by (intro idle.keeps_intros m f) (simp_all add: idle_of_def)
  then show ?thesis
    unfolding intelInitRxRing_def intelWriteMem32_def
    by (intro idle.keeps_intros m f; simp add: idle_of_def)
qed

interpretation keep_idle: chip_frame stays_idle tb for tb
proof unfold_locales
  have "same idle_of m (snd (run_state intelInitRxRing m))" for m
    by (rule keeps_run) (rule idle_init_rx)
  then show "keeps stays_idle (on_mausi intelInitRxRing)"
    by (intro keepsI) (auto simp: stays_idle_def ring_idle_def same_def idle_of_def)
qed (auto simp: stays_idle_def ring_idle_def dev_def intelInitTxRing_def intro!: keepsI)

subsection \<open>The restart\<close>

interpretation fragments: frame_rel "same (\<lambda>m. (rxPacket m, linkUp m))"
  by unfold_locales (simp_all add: same_def)

lemma clear_tx_fragments: "keeps (same (\<lambda>m. (rxPacket m, linkUp m))) clear_tx"
proof -
  have f: "keeps (same (\<lambda>m. (rxPacket m, linkUp m))) (modify f)" if "\<And>m. (rxPacket (f m), linkUp (f m)) = (rxPacket m, linkUp m)" for f
    using that by (intro keepsI) (simp add: same_def)
  have k: "keeps (same (\<lambda>m. (rxPacket m, linkUp m))) (kcall c)" "keeps (same (\<lambda>m. (rxPacket m, linkUp m))) (mbuf_freem_list l)" for c l
    by (rule keepsI; simp add: same_def)+
  have "keeps (same (\<lambda>m. (rxPacket m, linkUp m))) (clear_tx_bufs is)"
    "keeps (same (\<lambda>m. (rxPacket m, linkUp m))) (clear_tx_maps is)" for "is"
    by (induction "is") (auto intro!: fragments.keeps_intros k f)
  then show ?thesis
    unfolding clear_tx_def by (intro fragments.keeps_intros f) simp_all
qed

definition tx_of :: "mausi \<Rightarrow> _" where
  "tx_of m = (txBufArray m, freed (m_klog m), rxPacket m, linkUp m, idle_of m)"

interpretation txo: frame_rel "same tx_of"
  by unfold_locales (simp_all add: same_def)

lemma rx_map_tx: "keeps (same tx_of) (rxMapBuffers index n update)"
proof -
  have f: "keeps (same tx_of) (modify f)" if "\<And>m. tx_of (f m) = tx_of m" for f
    using that by (intro keepsI) (simp add: same_def)
  have k: "keeps (same tx_of) (kcall c)" if "\<forall>ms. c \<noteq> FreeMbuf ms" for c
    using that by (intro keepsI) (cases c; simp add: same_def tx_of_def idle_of_def)
  have h: "keeps (same tx_of) (on_hw m)" for m
    by (rule keepsI) (simp add: same_def tx_of_def idle_of_def)
  have tail: "keeps (same tx_of) (rx_tail i)" for i
    unfolding rx_tail_def intelUpdateRxDescTail_def intelReadMem32_def intelWriteMem32_def
    by (intro txo.keeps_intros h f) (simp_all add: tx_of_def idle_of_def)
  have "keeps (same tx_of) (rx_new_ranges is)" "keeps (same tx_of) (rx_new_addrs md offset is)" for "is" md offset
    by (induction "is" arbitrary: offset) (auto intro!: txo.keeps_intros f simp: tx_of_def idle_of_def)
  then have batch: "keeps (same tx_of) (rx_map_batch index)" for index
    unfolding rx_map_batch_def by (intro txo.keeps_intros f k; simp add: tx_of_def idle_of_def)
  have "keeps (same tx_of) (rx_map_loop n index update)" for n index
    by (induction n arbitrary: index) (simp_all only: rx_map_loop.simps, (intro txo.keeps_intros tail batch | assumption)+)
  then show ?thesis by (simp add: rxMapBuffers_def)
qed

lemma clear_rx_run:
  "tx_of (snd (run_state clear_rx_ring m)) = (txBufArray m, freed (m_klog m) @ rxPacket m, [], linkUp m, idle_of m)"
proof -
  have "keeps (same tx_of) clear_rx_maps"
    unfolding clear_rx_maps_def
    by (intro txo.keeps_intros rx_map_tx keepsI) (simp add: same_def tx_of_def idle_of_def)
  from keeps_run [OF this, of m] show ?thesis
    by (simp add: clear_rx_ring_def clear_rx_def discardPacketFragment_def case_prod_beta same_def tx_of_def idle_of_def)
qed

lemma restart_run:
  fixes tb s
  assumes len: "length (txBufArray (d_m s)) = 512"
  defines "t \<equiv> snd (run_state (intelRestart tb) s)"
  shows "\<not> linkUp (d_m t)" "deadlockWarn t = 0" "eeeMode t = 0" "ring_idle t" "owned (txBufArray (d_m t)) = []"
    "freed (m_klog (d_m t)) = freed (m_klog (d_m s)) @ owned (txBufArray (d_m s)) @ rxPacket (d_m s)"
proof -
  let ?first = "do { tell StopOutputThread; tell FlushOutputQueue; tell (SetLinkStatus False None);
     set_m (linkUp_update (\<lambda>_. False)) }"
  let ?reset = "do { intelDisableIRQ; intelReset tb }"
  let ?settings = "do { set_m (\<lambda>m. m\<lparr>rxCleanedCount := 0, rxNextDescIndex := 0, rxMapNextIndex := 0, forceReset := False\<rparr>);
     modify (\<lambda>s. s\<lparr>deadlockWarn := 0, eeeMode := 0\<rparr>) }"
  let ?conf = "do { intelConfigure tb; dev (clear_bit_op state_down); mask \<leftarrow> gets intrMask; intelEnableIRQ mask;
     dev (set_mac (mac_get_link_status_update (\<lambda>_. True))) }"
  have split: "intelRestart tb = do { ?first; ?reset; clearDescriptors; ?settings; ?conf }"
    by (simp add: intelRestart_def)
  obtain s0 where s0: "s0 = snd (run_state ?first s)" by simp
  obtain s1 where s1: "s1 = snd (run_state ?reset s0)" by simp
  obtain s2 where s2: "s2 = snd (run_state clearDescriptors s1)" by simp
  obtain s3 where s3: "s3 = snd (run_state ?settings s2)" by simp
  have t: "t = snd (run_state ?conf s3)"
    unfolding t_def split s3 s2 s1 s0 by (simp only: State_Monad.bind_assoc) (simp add: case_prod_beta)
  have 0: "mbufs_of (d_m s0) = (txBufArray (d_m s), m_klog (d_m s), rxPacket (d_m s), False)"
    by (simp add: s0 mbufs_of_def)
  have "keeps mbufs ?reset" by (intro mf.keeps_bind keep_mbufs.keeps_irq keep_mbufs.keeps_reset)
  from keeps_run [OF this, of s0] have 1: "mbufs_of (d_m s1) = mbufs_of (d_m s0)"
    by (simp add: s1 mbufs_def same_def)
  define u where "u = snd (run_state clear_tx (d_m s1))"
  have u2: "d_m s2 = snd (run_state clear_rx_ring u)" by (simp add: s2 u_def clearDescriptors_def)
  have len1: "length (txBufArray (d_m s1)) = 512" using 0 1 len by (simp add: mbufs_of_def)
  note u = clear_any_ring [OF len1, folded u_def]
  have f: "rxPacket u = rxPacket (d_m s)" "linkUp u = False"
    using keeps_run [OF clear_tx_fragments, of "d_m s1"] 0 1 by (simp_all add: u_def same_def mbufs_of_def)
  have 2: "owned (txBufArray (d_m s2)) = []" "\<not> linkUp (d_m s2)" "idle_of (d_m s2) = (512, 0, 0, 0)"
    "freed (m_klog (d_m s2)) = freed (m_klog (d_m s)) @ owned (txBufArray (d_m s)) @ rxPacket (d_m s)"
    using clear_rx_run [of u, folded u2] u f 0 1 by (auto simp: mbufs_of_def idle_of_def tx_of_def)
  have 3: "mbufs_of (d_m s3) = mbufs_of (d_m s2)" "idle_of (d_m s3) = idle_of (d_m s2)" "deadlockWarn s3 = 0" "eeeMode s3 = 0"
    by (simp_all add: s3 mbufs_of_def idle_of_def)
  have "keeps mbufs ?conf"
    by (intro mf.keeps_bind mf.keeps_gets keep_mbufs.keeps_configure keep_mbufs.keeps_irq mbufs_dev)
  from keeps_run [OF this, of s3] have 4: "mbufs s3 t" by (simp add: t)
  have "keeps stays_idle ?conf"
    by (intro keep_idle.keeps_bind keep_idle.keeps_gets keep_idle.keeps_configure keep_idle.keeps_irq
        keep_idle.state_bit keep_idle.keeps_setters)
  from keeps_run [OF this, of s3] have 5: "stays_idle s3 t" by (simp add: t)
  show "\<not> linkUp (d_m t)" "deadlockWarn t = 0" "eeeMode t = 0" "owned (txBufArray (d_m t)) = []"
    "freed (m_klog (d_m t)) = freed (m_klog (d_m s)) @ owned (txBufArray (d_m s)) @ rxPacket (d_m s)"
    using 2 3 4 by (simp_all add: mbufs_def same_def mbufs_of_def)
  show "ring_idle t" using 2 3 5 by (simp add: stays_idle_def ring_idle_def idle_of_def)
qed

end
