(* ===== verification/DriverProps.thy ===== *)
theory DriverProps
  imports DriverEvents DriverRestart
begin

section \<open>Properties of the driver object\<close>

text \<open>
  The addresses for wake-up, the split of the packet buffer, link announcement, recovery, the lock over every
  sequence of calls, and the identification of the chip.
\<close>

subsection \<open>Addresses for wake-up\<close>

lemma all_bits:
  "(\<forall>n<32. P n) = (\<forall>n\<in>set [0,1,2,3,4,5,6,7,8,9,10,11,12,13,14,15,16,17,18,19,20,21,22,23,24,25,26,27,28,29,30,31::nat]. P n)"
  "(\<forall>n<8. P n) = (\<forall>n\<in>set [0,1,2,3,4,5,6,7::nat]. P n)"
proof -
  have "[0..<32] = [0,1,2,3,4,5,6,7,8,9,10,11,12,13,14,15,16,17,18,19,20,21,22,23,24,25,26,27,28,29,30,31::nat]"
    "[0..<8] = [0,1,2,3,4,5,6,7::nat]" by code_simp+
  moreover have "(\<forall>n<k. P n) = (\<forall>n\<in>set [0..<k]. P n)" for k :: nat by auto
  ultimately show "(\<forall>n<32. P n) = (\<forall>n\<in>set [0,1,2,3,4,5,6,7,8,9,10,11,12,13,14,15,16,17,18,19,20,21,22,23,24,25,26,27,28,29,30,31::nat]. P n)"
    "(\<forall>n<8. P n) = (\<forall>n\<in>set [0,1,2,3,4,5,6,7::nat]. P n)" by metis+
qed

lemma word_bits:
  "(x = (y :: u32)) = (\<forall>n<32. bit x n = bit y n)" "(v = (w :: u8)) = (\<forall>n<8. bit v n = bit w n)"
  by (auto simp: bit_eq_iff)

lemma no_bit: "32 \<le> n \<Longrightarrow> bit (x :: u32) n = False"
  using bit_imp_le_length [of x n] by auto

lemma ula: "(OSSwapBigToHostInt32 x AND 0xfe000000 = 0xfc000000) = (byte_of x 0 AND 0xFE = 0xFC)"
  unfolding OSSwapBigToHostInt32_def word_bits all_bits
  by (simp add: bit_simps bit_byte_of bit_numeral_rec no_bit)
lemma lla: "(OSSwapBigToHostInt32 x AND 0xffc00000 = 0xfe800000) = (byte_of x 0 = 0xFE \<and> byte_of x 1 AND 0xC0 = 0x80)"
  unfolding OSSwapBigToHostInt32_def word_bits all_bits
  by (simp add: bit_simps bit_byte_of bit_numeral_rec no_bit) blast

fun v4_of :: "ifaddr \<Rightarrow> u32 list" where
  "v4_of (AF_INET (Some x)) = [x]"
| "v4_of _ = []"

fun v6_of :: "ifaddr \<Rightarrow> u32 list list" where
  "v6_of (AF_INET6 (Some x)) = [x]"
| "v6_of _ = []"

definition link_or_unique_local :: "u32 list \<Rightarrow> bool" where
  "link_or_unique_local a = (let b0 = byte_of (a ! 0) 0; b1 = byte_of (a ! 0) 1
     in b0 AND 0xFE = 0xFC \<or> b0 = 0xFE \<and> b1 AND 0xC0 = 0x80)"

lemma local_prefix_octets: "local_prefix = link_or_unique_local"
  by (rule ext) (simp add: local_prefix_def link_or_unique_local_def ula lla Let_def)

lemma take_full: "length xs \<le> n \<Longrightarrow> \<not> length xs < n \<Longrightarrow> take n (xs @ ys) = xs"
  by simp

lemma add_address_room:
  assumes "length (ipV4Addr d) \<le> 3" "length (ipV6Addr d) \<le> 4"
  shows "take 3 (ipV4Addr (add_address d a) @ xs) = take 3 (ipV4Addr d @ v4_of a @ xs)"
    "take 4 (ipV6Addr (add_address d a) @ ys) = take 4 (ipV6Addr d @ filter local_prefix (v6_of a) @ ys)"
    "length (ipV4Addr (add_address d a)) \<le> 3" "length (ipV6Addr (add_address d a)) \<le> 4"
proof -
  show "take 3 (ipV4Addr (add_address d a) @ xs) = take 3 (ipV4Addr d @ v4_of a @ xs)"
    using assms(1) by (cases a rule: v4_of.cases)
      (auto simp: add_address_def take_full simp del: take_append split: option.split)
  show "take 4 (ipV6Addr (add_address d a) @ ys) = take 4 (ipV6Addr d @ filter local_prefix (v6_of a) @ ys)"
    using assms(2) by (cases a rule: v6_of.cases)
      (auto simp: add_address_def take_full simp del: take_append split: option.split)
  show "length (ipV4Addr (add_address d a)) \<le> 3" "length (ipV6Addr (add_address d a)) \<le> 4"
    using assms by (auto simp: add_address_def split: ifaddr.split option.split)
qed

lemma foldl_add_address:
  "length (ipV4Addr d) \<le> 3 \<Longrightarrow> length (ipV6Addr d) \<le> 4 \<Longrightarrow> foldl add_address d as =
   \<lparr>ipV4Addr = take 3 (ipV4Addr d @ concat (map v4_of as)),
    ipV6Addr = take 4 (ipV6Addr d @ filter local_prefix (concat (map v6_of as)))\<rparr>"
proof (induction as arbitrary: d)
  case (Cons a as)
  then show ?case by (simp add: add_address_room del: take_append)
qed auto

lemma bit_or_fold:
  "bit (foldl (\<lambda>av i. av OR push_bit (f i) 1) (a :: u16) [0..<k]) n \<longleftrightarrow> bit a n \<or> n < 16 \<and> (\<exists>i<k. f i = n)"
  by (induction k) (auto simp: bit_simps less_Suc_eq)

lemma phy_ipav_bits:
  assumes "length (ipV4Addr d) \<le> 3" "length (ipV6Addr d) \<le> 4"
  shows "bit (phy_ipav d) n \<longleftrightarrow> 1 \<le> n \<and> n \<le> length (ipV4Addr d) \<or> 8 \<le> n + length (ipV6Addr d) \<and> n < 8
    \<or> n = 15 \<and> ipV6Addr d \<noteq> []"
proof -
  let ?v = "foldl (\<lambda>av i. av OR push_bit (7 - i) 1)
    (foldl (\<lambda>av i. av OR push_bit (i + 1) 1) (0 :: u16) [0..<min (length (ipV4Addr d)) 3]) [0..<min (length (ipV6Addr d)) 4]"
  have v: "bit ?v n \<longleftrightarrow> 1 \<le> n \<and> n \<le> length (ipV4Addr d) \<or> 8 \<le> n + length (ipV6Addr d) \<and> n < 8" for n
  proof -
    have "(\<exists>i<length (ipV4Addr d). i + 1 = n) \<longleftrightarrow> 1 \<le> n \<and> n \<le> length (ipV4Addr d)"
      by (auto intro: exI [of _ "n - 1"])
    moreover have "(\<exists>i<length (ipV6Addr d). 7 - i = n) \<longleftrightarrow> 8 \<le> n + length (ipV6Addr d) \<and> n < 8"
      using assms(2) by (auto intro: exI [of _ "7 - n"])
    moreover have "min (length (ipV4Addr d)) 3 = length (ipV4Addr d)" "min (length (ipV6Addr d)) 4 = length (ipV6Addr d)"
      using assms by simp_all
    ultimately show ?thesis using assms unfolding bit_or_fold by auto
  qed
  have 7: "bit ?v 7 \<longleftrightarrow> ipV6Addr d \<noteq> []"
    unfolding v using assms by (cases "ipV6Addr d") auto
  have "phy_ipav d = (if bit ?v 7 then ?v OR push_bit 15 1 else ?v)"
    unfolding phy_ipav_def Let_def and_neq_0_iff_bit ..
  moreover have "bit (push_bit 15 (1 :: u16)) n \<longleftrightarrow> n = 15"
    unfolding bit_push_bit_iff bit_1_iff by auto
  ultimately show ?thesis
    unfolding 7 using v [of n] by (simp only: bit_or_iff split: if_split) blast
qed


subsection \<open>The packet buffer\<close>

lemma kb_ceil:
  fixes x :: u32
  assumes "unat x \<le> 65536"
  shows "unat (drop_bit 10 (ALIGN x 1024)) = (unat x + 1023) div 1024"
proof -
  have "ALIGN x 1024 = (x + 1023) AND NOT (mask 10)"
    by (simp add: ALIGN_def mask_numeral)
  then have "drop_bit 10 (ALIGN x 1024) = drop_bit 10 (x + 1023)"
    using bit_imp_le_length by (fastforce intro!: bit_word_eqI simp: bit_simps)
  moreover have "unat (x + 1023) = unat x + 1023"
    using assms by (simp add: unat_word_ariths)
  ultimately show ?thesis by (simp only: unat_drop_bit_eq) (simp add: drop_bit_eq_div)
qed

lemma jumbo_pba_value:
  fixes m v :: u32
  assumes "unat m \<le> 9018" and "1500 \<le> unat m"
  defines "t \<equiv> unat (drop_bit 16 v)" and "r \<equiv> unat (v AND 0xffff)"
    and "mt \<equiv> (2 * (unat m + 12) + 1023) div 1024" and "mr \<equiv> (unat m + 1023) div 1024"
  shows "unat (jumbo_pba m v) = (if t < mt \<and> mt - t < r then max (r - (mt - t)) mr else r)"
proof -
  have e: "unat ((m + 16 - ETH_FCS_LEN) * 2) = 2 * (unat m + 12)"
    using assms by (simp add: unat_word_ariths)
  have mt: "unat (drop_bit 10 (ALIGN ((m + 16 - ETH_FCS_LEN) * 2) 1024)) = mt"
  proof -
    have "2 * (unat m + 12) \<le> 65536" using assms(1) by simp
    from kb_ceil [of "(m + 16 - ETH_FCS_LEN) * 2", unfolded e, OF this] show ?thesis unfolding mt_def .
  qed
  have mr: "unat (drop_bit 10 (ALIGN m 1024)) = mr"
    using kb_ceil [of m] assms(1) unfolding mr_def by linarith
  let ?T = "drop_bit 10 (ALIGN ((m + 16 - ETH_FCS_LEN) * 2) 1024)" and ?t = "drop_bit 16 v"
  have lt: "?t < ?T \<longleftrightarrow> t < mt" by (simp only: word_less_nat_alt mt t_def)
  have sub: "unat (?T - ?t) = mt - t" if "t < mt"
    using that mt unfolding t_def by (subst unat_sub) (simp_all add: word_le_nat_alt)
  have sub2: "unat ((v AND 0xffff) - (?T - ?t)) = r - (mt - t)" if "t < mt" "mt - t < r"
    using that sub unfolding r_def by (subst unat_sub) (simp_all add: word_le_nat_alt)
  show ?thesis
    unfolding jumbo_pba_def Let_def
    using lt sub sub2 mr by (auto simp: word_less_nat_alt r_def [symmetric] max_def)
qed

lemma ceil_kb: "x \<le> 1024 * ((x + 1023) div 1024)" "(x + 1023) div 1024 \<le> k \<longleftrightarrow> x \<le> 1024 * k" for x k :: nat
  by linarith+

text \<open>The packet buffer for large frames. For every frame size the driver accepts, from 1500 octets on, the split of
the buffer the reset programs keeps a receive share that holds a whole frame if it did before; when the
split changes, what is left to send holds two frames with their headers, unless the receive share has
just the size of one frame; and the receive share grows no further than that.\<close>

lemma jumbo_pba_shares:
  fixes m v :: u32
  assumes "unat m \<le> 9018" and "1500 \<le> unat m" 
  defines "t \<equiv> unat (drop_bit 16 v)" and "r \<equiv> unat (v AND 0xffff)" and "p \<equiv> unat (jumbo_pba m v)"
  shows "(unat m \<le> 1024 * r \<longrightarrow> unat m \<le> 1024 * p) \<and>
    (p = r \<or> unat m \<le> 1024 * p \<and> (2 * (unat m + 12) \<le> 1024 * (t + r - p) \<or> 1024 * (p - 1) < unat m)) \<and>
    (p \<le> r \<or> 1024 * (p - 1) < unat m)"
proof -
  let ?mt = "(2 * (unat m + 12) + 1023) div 1024" and ?mr = "(unat m + 1023) div 1024"
  have v: "p = (if t < ?mt \<and> ?mt - t < r then max (r - (?mt - t)) ?mr else r)"
    using jumbo_pba_value [OF assms(1,2)] unfolding p_def t_def r_def .
  have mr: "unat m \<le> 1024 * ?mr" "1024 * (?mr - 1) < unat m" and mt: "2 * (unat m + 12) \<le> 1024 * ?mt"
    using assms(2) by linarith+
  show ?thesis
  proof (cases "t < ?mt \<and> ?mt - t < r")
    case True
    then have p: "p = max (r - (?mt - t)) ?mr" using v by simp
    then have "?mr \<le> p" by simp
    then have "unat m \<le> 1024 * p" using mr(1) by linarith
    moreover have "2 * (unat m + 12) \<le> 1024 * (t + r - p)" if "?mr \<le> r - (?mt - t)"
    proof -
      have "p = r - (?mt - t)" using p that by simp
      then have "t + r - p = ?mt" using True by linarith
      then show ?thesis using mt by simp
    qed
    moreover have "1024 * (p - 1) < unat m" if "\<not> ?mr \<le> r - (?mt - t)"
    proof -
      have "p = ?mr" using p that by simp
      then show ?thesis using mr(2) by simp
    qed
    moreover have "p \<le> r" if "?mr \<le> r - (?mt - t)" using p that by simp
    ultimately show ?thesis by blast
  next
    case False
    then have "p = r" unfolding v by (rule if_not_P)
    then show ?thesis by simp
  qed
qed

lemma and_fff8: "unat ((ucast (h :: u16) :: u32) AND 0xfff8) = unat h - unat h mod 8"
proof -
  have k: "(0xfff8 :: u32) = mask 16 AND NOT (mask 3)" by (simp add: mask_numeral)
  have "(ucast h :: u32) AND 0xfff8 = ucast (h AND NOT (mask 3))"
    unfolding k by (auto intro!: bit_word_eqI simp: bit_simps dest: bit_imp_le_length)
  then have "unat ((ucast h :: u32) AND 0xfff8) = unat (h AND NOT (mask 3))"
    by (simp add: unat_ucast_up)
  also have "h AND NOT (mask 3) = push_bit 3 (drop_bit 3 h)"
    by (auto intro!: bit_word_eqI simp: bit_simps dest: bit_imp_le_length)
  also have "unat \<dots> = 8 * (unat h div 8)"
  proof -
    have "8 * (unat h div 8) < 65536" using unsigned_less [of h, where 'a = nat] by simp
    then show ?thesis
      by (simp add: push_bit_eq_mult unat_word_ariths unat_drop_bit_eq drop_bit_eq_div unat_div)
  qed
  finally show ?thesis by (simp add: minus_mod_eq_mult_div)
qed

text \<open>The high water mark of the generic case. For a receive share of up to 64 KB that holds a frame, the mark is
the smaller of nine tenths of the share and the share less one frame, rounded down to eight octets: a frame
still fits above it, and the sixteen-bit local it passes through loses nothing.\<close>

lemma high_water_mark_bounds:
  fixes m pba :: u32
  assumes "unat pba \<le> 64" and "unat m \<le> 1024 * unat pba"
  defines "h \<equiv> unat (high_water_mark pba m)" and "room \<equiv> min (1024 * unat pba * 9 div 10) (1024 * unat pba - unat m)"
  shows "h \<le> room \<and> room < h + 8"
proof -
  have p: "unat (push_bit 10 pba) = 1024 * unat pba"
    using assms(1) by (simp add: push_bit_eq_mult unat_word_ariths)
  have a: "unat (push_bit 10 pba * 9 div 10) = 1024 * unat pba * 9 div 10"
    using assms(1) p by (simp add: unat_word_ariths unat_div)
  have b: "unat (push_bit 10 pba - m) = 1024 * unat pba - unat m"
    using assms(2) p by (subst unat_sub) (simp_all add: word_le_nat_alt)
  have c: "unat (min (push_bit 10 pba * 9 div 10) (push_bit 10 pba - m)) = room"
    unfolding room_def using a b by (simp add: min_def word_le_nat_alt)
  have "room < 65536" unfolding room_def using assms(1) by (auto simp: min_def)
  then have "unat (ucast (min (push_bit 10 pba * 9 div 10) (push_bit 10 pba - m)) :: u16) = room"
    using c by (simp add: unsigned_ucast_eq take_bit_nat_eq_self)
  then have "h = room - room mod 8"
    unfolding h_def high_water_mark_def Let_def and_fff8 by simp
  moreover have "room mod 8 < 8" by simp
  ultimately show ?thesis by linarith
qed

subsection \<open>Announcing the link\<close>

text \<open>What a step keeps that only changes the half of the object with the rings and the chip.\<close>

locale beside =
  fixes f :: "driver \<Rightarrow> 'b"
  assumes f_m: "f (s\<lparr>d_m := m\<rparr>) = f s"
begin

sublocale frame_rel "same f"
  by unfold_locales (auto simp: same_def)

lemma keeps_ring: "keeps (same f) (on_mausi m)"
  by (rule keepsI) (simp add: same_def f_m)

lemma keeps_acc:
  "keeps (same f) (dev g)" "keeps (same f) (dread r)" "keeps (same f) (dwrite r v)" "keeps (same f) dflush"
  "keeps (same f) (set_m h)" "keeps (same f) (set_hw k)" "keeps (same f) (dset_fc i)" 
  unfolding dev_def dread_def dwrite_def dflush_def set_hw_def dset_fc_def
  by (auto intro!: keeps_ring keepsI simp: same_def f_m)

lemma keeps_modify_acc: "keeps (same f) (dmodify r g)"
  unfolding dmodify_def by (intro keeps_intros keeps_acc)

lemmas beside_intros = keeps_intros keeps_for_each keeps_ring keeps_acc keeps_modify_acc

lemma keeps_small:
  "keeps (same f) (intelEnableIRQ n)" "keeps (same f) intelDisableIRQ" "keeps (same f) (intelSupportsEEE tb)"
  "keeps (same f) (intelFlushLPIC tb)" "keeps (same f) (intelEnableEEE tb mode)"
  unfolding intelEnableIRQ_def intelDisableIRQ_def intelSupportsEEE_def intelFlushLPIC_def intelEnableEEE_def
  by (intro beside_intros)+

end

definition link_state :: "driver \<Rightarrow> dcall list \<times> u16 \<times> u16 \<times> u16 \<times> e1000_boards" where
  "link_state s = (d_calls s, eeeMode s, ad_link_speed (d_adapter s), ad_link_duplex (d_adapter s), chipType s)"

interpretation calls: beside d_calls
  by unfold_locales simp

interpretation eee: beside eeeMode
  by unfold_locales simp

interpretation lstate: beside link_state
  by unfold_locales (simp add: link_state_def)

primrec medium_speed :: "medium \<Rightarrow> u16" where
  "medium_speed MEDIUM_INDEX_AUTO = 0"
| "medium_speed MEDIUM_INDEX_10HD = SPEED_10"
| "medium_speed MEDIUM_INDEX_10FD = SPEED_10"
| "medium_speed MEDIUM_INDEX_100HD = SPEED_100"
| "medium_speed MEDIUM_INDEX_100FD = SPEED_100"
| "medium_speed MEDIUM_INDEX_100FDFC = SPEED_100"
| "medium_speed MEDIUM_INDEX_1000FD = SPEED_1000"
| "medium_speed MEDIUM_INDEX_1000FDFC = SPEED_1000"
| "medium_speed MEDIUM_INDEX_1000FDEEE = SPEED_1000"
| "medium_speed MEDIUM_INDEX_1000FDFCEEE = SPEED_1000"
| "medium_speed MEDIUM_INDEX_100FDEEE = SPEED_100"
| "medium_speed MEDIUM_INDEX_100FDFCEEE = SPEED_100"

definition medium_full :: "medium \<Rightarrow> bool" where
  "medium_full m = (m \<notin> {MEDIUM_INDEX_AUTO, MEDIUM_INDEX_10HD, MEDIUM_INDEX_100HD})"

definition medium_fc :: "medium \<Rightarrow> bool" where
  "medium_fc m = (m \<in> {MEDIUM_INDEX_100FDFC, MEDIUM_INDEX_1000FDFC, MEDIUM_INDEX_1000FDFCEEE, MEDIUM_INDEX_100FDFCEEE})"

definition medium_eee :: "medium \<Rightarrow> bool" where
  "medium_eee m = (m \<in> {MEDIUM_INDEX_100FDEEE, MEDIUM_INDEX_100FDFCEEE, MEDIUM_INDEX_1000FDEEE, MEDIUM_INDEX_1000FDFCEEE})"

lemma link_medium_attributes:
  "medium_speed (link_medium sp du fc eee) = (if sp = SPEED_1000 \<or> sp = SPEED_100 then sp else SPEED_10)"
  "medium_full (link_medium sp du fc eee) \<longleftrightarrow> sp = SPEED_1000 \<or> du \<noteq> HALF_DUPLEX"
  "medium_eee (link_medium sp du fc eee) \<longleftrightarrow> eee \<and> (sp = SPEED_1000 \<or> sp = SPEED_100 \<and> du \<noteq> HALF_DUPLEX)"
  by (auto simp: link_medium_def medium_full_def medium_eee_def)

lemma announce_query: "keeps (same d_calls) (link_up_query tb)"
  unfolding link_up_query_def intelPhyReadStatus_def snapshot_def set_ad_def
  by (intro calls.beside_intros keeps_modify) (simp_all add: same_def)

context beside begin

lemma keeps_after_set: "keeps (same f) m \<Longrightarrow> f (snd (run_state (do { modify g; m }) s)) = f (g s)"
  using keeps_run [of "same f" m "g s"] by (simp add: same_def)

end

lemma query_eee: "eeeMode (snd (run_state (link_up_query tb) s)) = 0"
  unfolding link_up_query_def
  by (subst eee.keeps_after_set)
    (auto simp: intelPhyReadStatus_def snapshot_def set_ad_def Let_def same_def intro!: eee.beside_intros keeps_modify)

lemma settle_calls: "keeps (same d_calls) (link_up_settle tb)"
  unfolding link_up_settle_def set_rx_delays_def
  by (intro calls.beside_intros calls.keeps_small keeps_modify) (simp_all add: same_def)

interpretation link: beside "\<lambda>s. (ad_link_speed (d_adapter s), ad_link_duplex (d_adapter s))"
  by unfold_locales simp

lemma settle_link: "keeps (same (\<lambda>s. (ad_link_speed (d_adapter s), ad_link_duplex (d_adapter s)))) (link_up_settle tb)"
  unfolding link_up_settle_def set_rx_delays_def
  by (intro link.beside_intros link.keeps_small keeps_modify) (simp_all add: same_def)

lemma settle_eee:
  fixes tb s
  assumes "eeeMode s = 0"
  defines "t \<equiv> snd (run_state (link_up_settle tb) s)"
  shows "eeeMode t \<noteq> 0 \<Longrightarrow> ad_link_speed (d_adapter t) = SPEED_1000 \<or>
    ad_link_speed (d_adapter t) = SPEED_100 \<and> ad_link_duplex (d_adapter t) \<noteq> HALF_DUPLEX"
proof (rule ccontr)
  let ?fast = "\<lambda>s. ad_link_speed (d_adapter s) = SPEED_1000 \<or>
    ad_link_speed (d_adapter s) = SPEED_100 \<and> ad_link_duplex (d_adapter s) \<noteq> HALF_DUPLEX"
  assume e: "eeeMode t \<noteq> 0" and "\<not> ?fast t"
  then have "\<not> ?fast s"
    using keeps_run [OF settle_link [of tb], of s] unfolding t_def by (simp add: same_def)
  then have "t = snd (run_state (set_rx_delays (ad_link_speed (d_adapter s))) s)"
    unfolding t_def link_up_settle_def by (auto simp: case_prod_beta)
  then have "eeeMode t = 0" using assms(1) by (simp add: set_rx_delays_def)
  with e show False ..
qed

lemma program_state: "keeps (same link_state) (link_up_program tb s)"
  unfolding link_up_program_def by (intro lstate.beside_intros lstate.keeps_small)

lemma announce_run:
  fixes medium sp s
  defines "t \<equiv> snd (run_state (link_up_announce medium sp) s)"
  shows "\<exists>latency. length latency \<le> 1 \<and> list_all (\<lambda>c. \<exists>n. c = RequireMaxBusStall n) latency \<and>
      d_calls t = latency @ [StartOutputThread, SetPollingParameters (poll_params sp),
        SetLinkStatus True (Some (medium, link_mediumSpeed sp))] @ d_calls s"
    "linkUp (d_m t)" "eeeMode t = eeeMode s" "d_adapter t = d_adapter s"
  unfolding t_def link_up_announce_def setMaxLatency_def
  by (auto simp: Let_def dread_def intelReadMem32_def)

text \<open>C26: What is announced when the link comes up. Whatever the chip answers, the kernel is told one active medium, then
the polling parameters of its speed and to start sending, after that at most a latency limit; the medium has the
speed and the duplex setting the adapter holds (a gigabit link is always full duplex), it names
energy-efficient Ethernet exactly when the driver goes on to use it, and the driver considers the link up.\<close>

theorem link_up_announced:
  "let t = snd (run_state (setLinkUp tb) s); sp = ad_link_speed (d_adapter t); du = ad_link_duplex (d_adapter t)
   in \<exists>medium latency. d_calls t = latency @ [StartOutputThread, SetPollingParameters (poll_params sp),
          SetLinkStatus True (Some (medium, link_mediumSpeed sp))] @ d_calls s
        \<and> length latency \<le> 1 \<and> list_all (\<lambda>c. \<exists>n. c = RequireMaxBusStall n) latency
        \<and> linkUp (d_m t)
        \<and> medium_speed medium = (if sp = SPEED_1000 \<or> sp = SPEED_100 then sp else SPEED_10)
        \<and> medium_full medium = (if sp = SPEED_1000 then True else du \<noteq> HALF_DUPLEX)
        \<and> medium_eee medium = (eeeMode t \<noteq> 0)"
proof -
  obtain s1 where s1: "s1 = snd (run_state (link_up_query tb) s)" by simp
  obtain v s2 where s2: "run_state (dread E1000_CTRL) s1 = (v, s2)" by fastforce
  obtain s3 where s3: "s3 = snd (run_state (link_up_settle tb) s2)" by simp
  obtain s4 where s4: "s4 = snd (run_state (link_up_program tb s3) s3)" by simp
  define fc where "fc = (v AND (E1000_CTRL_RFCE OR E1000_CTRL_TFCE) \<noteq> 0)"
  define sp where "sp = ad_link_speed (d_adapter s3)"
  define du where "du = ad_link_duplex (d_adapter s3)"
  define medium where "medium = link_medium sp du fc (eeeMode s3 \<noteq> 0)"
  obtain t where t: "t = snd (run_state (setLinkUp tb) s)" by simp
  have run: "t = snd (run_state (link_up_announce medium sp) s4)"
    unfolding t setLinkUp_def s4 s3 medium_def sp_def du_def fc_def
    using s1 s2 by (simp add: case_prod_beta Let_def)
  have "d_calls s1 = d_calls s" "eeeMode s1 = 0"
    using keeps_run [OF announce_query [of tb], of s] query_eee by (simp_all add: s1 same_def)
  moreover have "link_state s2 = link_state s1"
    using keeps_run [OF lstate.keeps_acc(2) [of E1000_CTRL], of s1] s2 by (simp add: same_def)
  ultimately have c2: "d_calls s2 = d_calls s" "eeeMode s2 = 0" by (simp_all add: link_state_def)
  have c3: "d_calls s3 = d_calls s"
    using keeps_run [OF settle_calls [of tb], of s2] c2 by (simp add: s3 same_def)
  have eee: "eeeMode s3 = 0 \<or> sp = SPEED_1000 \<or> sp = SPEED_100 \<and> du \<noteq> HALF_DUPLEX"
    using settle_eee [OF c2(2), of tb] unfolding s3 sp_def du_def by blast
  have "link_state s4 = link_state s3"
    using keeps_run [OF program_state [of tb s3], of s3] by (simp add: s4 same_def)
  then have c4: "d_calls s4 = d_calls s" "eeeMode s4 = eeeMode s3" "ad_link_speed (d_adapter s4) = sp" "ad_link_duplex (d_adapter s4) = du"
    using c3 by (simp_all add: link_state_def sp_def du_def)
  note q = announce_run [of medium sp s4, folded run]
  show ?thesis
    unfolding Let_def t [symmetric] q(3,4) c4(2-4)
    using q(1,2) c4(1) eee by (auto simp: medium_def link_medium_attributes)
qed

subsection \<open>Recovery and the lock\<close>

text \<open>C27: A stalled ring recovers. When the timer finds descriptors in flight, none done since the last tick, for the
second time, the driver restarts: for any chip and any tables the check returns, every packet in flight and the
packet being received are freed in order, the transmit ring is empty with all descriptors free, the link is
taken down and the counter starts again.\<close>

theorem deadlock_recovers:
  assumes "length (txBufArray (d_m s)) = kNumTxDesc" and "\<not> forceReset (d_m s)"
    and "txDescDoneCount (d_m s) = txDescDoneLast (d_m s)" and "txNumFreeDesc (d_m s) < kNumTxDesc"
    and "kTxDeadlockTreshhold \<le> deadlockWarn s + 1"
  shows "\<exists>t. checkForDeadlock tb s = Some (True, t) \<and> \<not> linkUp (d_m t) \<and> deadlockWarn t = 0 \<and> ring_idle t \<and>
    owned (txBufArray (d_m t)) = [] \<and>
    freed (m_klog (d_m t)) = freed (m_klog (d_m s)) @ owned (txBufArray (d_m s)) @ rxPacket (d_m s)"
proof -
  let ?s = "s\<lparr>deadlockWarn := deadlockWarn s + 1\<rparr>"
  let ?look = "do { dread E1000_STATUS; dread E1000_TCTL; modify (count_stat io_resets_update) }"
  obtain u where u: "u = snd (run_state ?look ?s)" by simp
  have "mbufs_of (d_m u) = mbufs_of (d_m ?s)"
    by (simp add: u mbufs_of_def dread_def intelReadMem32_def count_stat_def)
  then have m: "length (txBufArray (d_m u)) = 512" "m_klog (d_m u) = m_klog (d_m s)" "txBufArray (d_m u) = txBufArray (d_m s)"
    "rxPacket (d_m u) = rxPacket (d_m s)"
    using assms(1) by (simp_all add: mbufs_of_def)
  have "restart_stalled tb = do { ?look; intelRestart tb }"
    by (simp add: restart_stalled_def)
  then have r: "snd (run_state (restart_stalled tb) ?s) = snd (run_state (intelRestart tb) u)"
    by (simp add: u case_prod_beta)
  have "checkForDeadlock tb s = Some (True, snd (run_state (restart_stalled tb) ?s))"
    using assms(2-5) unfolding checkForDeadlock_def Let_def by simp
  then show ?thesis
    unfolding r using restart_run [OF m(1), of tb] unfolding m(2-4) by blast
qed

definition sample_stats :: e1000_hw_stats where
  "sample_stats = \<lparr>st_crcerrs = 0, st_algnerrc = 0, st_rxerrc = 0, st_mpc = 0, st_scc = 0, st_ecol = 0, st_mcc = 0,
     st_latecol = 0, st_colc = 0, st_dc = 0, st_tncrs = 0, st_cexterr = 0, st_xonrxc = 0, st_xontxc = 0, st_xoffrxc = 0,
     st_xofftxc = 0, st_gprc = 0, st_bprc = 0, st_mprc = 0, st_gptc = 0, st_gorc = 0, st_gotc = 0, st_rnbc = 0,
     st_ruc = 0, st_roc = 0, st_tpt = 0, st_mptc = 0, st_bptc = 0, st_tsctc = 0, st_tsctfc = 0\<rparr>"

definition sample_driver :: driver where
  "sample_driver = \<lparr>d_m = sample_mausi,
     d_adapter = \<lparr>ad_pba = 26, ad_eee_advert = 0, ad_fc_autoneg = True, ad_link_speed = 0, ad_link_duplex = 0,
       ad_tx_int_delay = 0, ad_tx_abs_int_delay = 0, ad_rx_int_delay = 0, ad_rx_abs_int_delay = 0,
       ad_tx_fifo_limit = 0, ad_wol = 0, ad_eeprom_wol = 0, ad_eeprom_vers = 0, ad_stats = sample_stats,
       ad_phy_regs = \<lparr>pr_bmcr = 0, pr_bmsr = 0, pr_advertise = 0, pr_lpa = 0, pr_expansion = 0, pr_ctrl1000 = 0,
         pr_stat1000 = 0, pr_estatus = 0\<rparr>\<rparr>,
     d_stats = \<lparr>io_inputPackets = 0, io_inputErrors = 0, io_outputPackets = 0, io_outputErrors = 0, io_collisions = 0,
       io_alignmentErrors = 0, io_fcsErrors = 0, io_singleCollisionFrames = 0, io_multipleCollisionFrames = 0,
       io_deferredTransmissions = 0, io_lateCollisions = 0, io_excessiveCollisions = 0, io_carrierSenseErrors = 0,
       io_frameTooLongs = 0, io_missedFrames = 0, io_frameTooShorts = 0, io_resets = 0, io_txInterrupts = 0,
       io_rxInterrupts = 0\<rparr>,
     d_calls = [], d_cfg = (\<lambda>_ _. 0), d_cfg_log = [], d_opened = True, d_selectedMedium = None, mtu = 1500,
     maxLatency = 0, chip = 0, chipType = board_pch_lpt, intrMask = 0, intrThrValue10 = 0, intrThrValue100 = 0,
     intrThrValue1000 = 0, rxAbsTime10 = 0, rxAbsTime100 = 0, rxAbsTime1000 = 0, rxDelayTime10 = 0,
     rxDelayTime100 = 0, rxDelayTime1000 = 0, eeeMode = 0, deadlockWarn = 1, mcAddrList = [], promiscusMode = False,
     multicastMode = False, polling = False, wolCapable = False, wolActive = False, enableWoM = False,
     enableWakeS5 = False\<rparr>"

definition stalled_driver :: driver where
  "stalled_driver = sample_driver\<lparr>d_m := sample_mausi\<lparr>txBufArray := replicate 511 empty_buf @ [owner_buf 7 1], txNumFreeDesc := 511\<rparr>\<rparr>"

theorem deadlock_recovers_witness:
  "\<exists>t. checkForDeadlock (pch_driver_ops e1000_pch_lpt False (\<lambda>_. 0)) stalled_driver = Some (True, t) \<and>
    freed (m_klog (d_m t)) = [7]"
proof -
  have "length (txBufArray (d_m stalled_driver)) = kNumTxDesc" "\<not> forceReset (d_m stalled_driver)"
    "txDescDoneCount (d_m stalled_driver) = txDescDoneLast (d_m stalled_driver)"
    "txNumFreeDesc (d_m stalled_driver) < kNumTxDesc" "kTxDeadlockTreshhold \<le> deadlockWarn stalled_driver + 1"
    by (simp_all add: stalled_driver_def sample_driver_def sample_mausi_def)
  from deadlock_recovers [OF this, of "pch_driver_ops e1000_pch_lpt False (\<lambda>_. 0)"]
  show ?thesis by (auto simp: stalled_driver_def sample_driver_def sample_mausi_def)
qed




subsection \<open>Identification\<close>

text \<open>The MAC a board has.\<close>

primrec board_mac :: "e1000_boards \<Rightarrow> e1000_mac_type option" where
  "board_mac board_82571 = Some e1000_82571"
| "board_mac board_82572 = Some e1000_82572"
| "board_mac board_82573 = Some e1000_82573"
| "board_mac board_82574 = Some e1000_82574"
| "board_mac board_82583 = Some e1000_82583"
| "board_mac board_80003es2lan = None"
| "board_mac board_ich8lan = Some e1000_ich8lan"
| "board_mac board_ich9lan = Some e1000_ich9lan"
| "board_mac board_ich10lan = Some e1000_ich10lan"
| "board_mac board_pchlan = Some e1000_pchlan"
| "board_mac board_pch2lan = Some e1000_pch2lan"
| "board_mac board_pch_lpt = Some e1000_pch_lpt"
| "board_mac board_pch_spt = Some e1000_pch_spt"
| "board_mac board_pch_cnp = Some e1000_pch_cnp"
| "board_mac board_pch_tgp = Some e1000_pch_tgp"
| "board_mac board_pch_adp = Some e1000_pch_adp"

lemma board_mac_order:
  "board_mac x = Some m \<Longrightarrow> (m \<ge> e1000_pch2lan) = (x \<ge> board_pch2lan) \<and> (m \<ge> e1000_pch_lpt) = (x \<ge> board_pch_lpt)"
  by (cases x) (auto simp: mac_order board_order)

lemma device_ids_distinct: "distinct (map fst deviceTable)"
  unfolding deviceTable_def by simp

lemma device_macs: "list_all (\<lambda>(d, b, ei). board_mac b = Some (info_mac ei)) deviceTable"
  unfolding deviceTable_def by (simp add: e1000_ich8_info_def e1000_ich9_info_def e1000_ich10_info_def e1000_pch_info_def
    e1000_pch2_info_def e1000_pch_lpt_info_def e1000_pch_spt_info_def e1000_pch_cnp_info_def e1000_pch_tgp_info_def
    e1000_pch_adp_info_def)

lemma find_device_none: "find_device d k es = None \<longleftrightarrow> d \<notin> fst ` set es"
  by (induction es arbitrary: k) auto

lemma find_device_found:
  "find_device d k es = Some (i, e) \<Longrightarrow> k \<le> i \<and> i - k < length es \<and> es ! (i - k) = (d, e)"
proof (induction es arbitrary: k)
  case (Cons x es)
  show ?case
  proof (cases "fst x = d")
    case True
    then show ?thesis using Cons.prems by (cases x) auto
  next
    case False
    then have "find_device d (Suc k) es = Some (i, e)" using Cons.prems by simp
    from Cons.IH [OF this] have "Suc k \<le> i" "i - Suc k < length es" "es ! (i - Suc k) = (d, e)" by auto
    moreover from this have "i - k = Suc (i - Suc k)" by simp
    ultimately show ?thesis by simp
  qed
qed simp

text \<open>C36: Identification of the chip. No two rows of the device table have the same id. Identification fails exactly for
ids outside the table and then changes nothing; otherwise it selects the one row of the id, with the MAC type,
the flags and the packet buffer of its description. The board and the MAC type agree, so that the tests the code
makes on the one and on the other select the same parts.\<close>

theorem identify_chip_correct:
  "distinct (map fst deviceTable) \<and>
    (case run_state intelIdentifyChip s of (found, t) \<Rightarrow> (case found of
       None \<Rightarrow> t = s \<and> hw_device (hw_of s) \<notin> fst ` set deviceTable
     | Some ei \<Rightarrow> chip t < length deviceTable \<and> deviceTable ! chip t = (hw_device (hw_of s), chipType t, ei) \<and>
         mac_type (hw_mac (hw_of t)) = info_mac ei \<and> board_mac (chipType t) = Some (info_mac ei) \<and>
         (info_mac ei \<ge> e1000_pch2lan) = (chipType t \<ge> board_pch2lan) \<and> (info_mac ei \<ge> e1000_pch_lpt) = (chipType t \<ge> board_pch_lpt) \<and>
         hw_flags (hw_of t) = info_flags ei \<and> hw_flags2 (hw_of t) = info_flags2 ei \<and> ad_pba (d_adapter t) = info_pba ei))"
  (is "_ \<and> ?found")
proof (rule conjI [OF device_ids_distinct], cases "find_device (hw_device (hw_of s)) 0 deviceTable")
  case None
  moreover have "hw_device (hw_of s) \<notin> fst ` set deviceTable"
    using None unfolding find_device_none .
  ultimately show ?found by (simp add: intelIdentifyChip_def)
next
  case (Some r)
  obtain i b ei where r: "r = (i, b, ei)" by (metis surj_pair)
  have f: "i < length deviceTable" "deviceTable ! i = (hw_device (hw_of s), b, ei)"
    using find_device_found [OF Some [unfolded r]] by auto
  then have "board_mac b = Some (info_mac ei)"
    using device_macs by (auto simp: list_all_iff dest!: nth_mem)
  moreover from board_mac_order [OF this]
  have "(info_mac ei \<ge> e1000_pch2lan) = (b \<ge> board_pch2lan)" "(info_mac ei \<ge> e1000_pch_lpt) = (b \<ge> board_pch_lpt)" by auto
  ultimately show ?found
    using f Some by (simp add: intelIdentifyChip_def r Let_def hw_of_def set_hw_def dev_def set_mac_def)
qed

end
