(* ===== verification/Spec2Isabelle.thy ===== *)
theory Spec2Isabelle
  imports NvmCommit ManageProps RingProps Ich8Props PchProps DriverProps
begin

text \<open>
  A model of the macOS driver IntelMausiEthernet for Intel's onboard network controllers (ICH8 to the
  PCH families of the e1000e line), and the theorems that make it correct. Paths are under
  \<open>src/IntelMausiEthernet/\<close>.

  The program. The kernel extension is the C++ class \<open>IntelMausi\<close> (\<open>IntelMausiEthernet.cpp\<close>,
  \<open>IntelMausiHardware.cpp\<close>, \<open>IntelMausiSetup.cpp\<close>, \<open>IntelMausiVTD.cpp\<close>) with the buffer pool
  \<open>MausiRxPool.cpp\<close>, over the hardware layer of Intel's Linux driver in C (\<open>nvm.c\<close>, \<open>phy.c\<close>, \<open>mac.c\<close>,
  \<open>manage.c\<close>, \<open>ich8lan.c\<close>). The class keeps the rings and answers the kernel's calls, interrupts and timer; it
  reaches the chip through tables of function pointers that \<open>ich8lan.c\<close> fills for the part found. The C layer
  shares the PHY and the NVM with the firmware through a flag in a register. Of \<open>netdev.c\<close> six small
  functions are compiled; they are in theories \<open>Hw\<close>, \<open>Driver\<close> and \<open>DriverHw\<close>.

  Conventions. A C function is a definition of the same name in the state monad of theory \<open>Prelude\<close>, with its
  statements in their order; an integer type is a word of its width, an error code a signed number,
  a buffer filled through a pointer a list returned updated. The state is the record \<open>e1000_hw\<close> (theory \<open>Hw\<close>),
  within \<open>mausi\<close> (theory \<open>Mausi\<close>: the rings and the pool), within \<open>driver\<close> (theory \<open>Driver\<close>: settings,
  statistics, link). Registers are \<open>abbreviation\<close>s of theory \<open>Regs\<close>, by the names of the headers. The chip, the
  kernel and the PCI configuration space are not code of the repository: each is a function in the
  state that answers an access from the history of all accesses so far, with no law assumed, so that a
  theorem without a hypothesis on them holds for any chip and kernel. Laws are hypotheses by name:
  \<open>flash_ready\<close> of the flash controller, \<open>eerd_device\<close> of polled reads, \<open>bits_law\<close> of the kernel's atomic bit
  operations, \<open>hv_ok\<close> and \<open>igp_ok\<close> of the registers behind the MDI register.

  Theories, from the bottom. In each line the first theories translate the code and the last ones hold the
  lemmas about them.

    \<^item> NVM: \<open>Nvm\<close> (\<open>nvm.c\<close>), \<open>Flash\<close> and \<open>NvmIch8\<close> (the flash cycles, the shadow RAM and the commit of
      \<open>ich8lan.c\<close>); \<open>NvmProps\<close>, \<open>FlashChip\<close>, \<open>NvmIch8Props\<close>, \<open>NvmCommit\<close>. The locales \<open>nvm_reader\<close> and
      \<open>nvm_store\<close> are the contract of the checksum functions. On a working flash the NVM refines an array of
      words; a checksum update commits the pending words to the other bank, step by step on NOR flash, and
      what it commits validates.
    \<^item> The flag shared with the firmware: \<open>Swflag\<close>; \<open>SwflagProps\<close>, \<open>LockFrames\<close>, \<open>LockProps\<close>. The locale
      \<open>hw_lock\<close> states the lock, \<open>pch_phy\<close> and \<open>pch_link\<close> what a flow relies on from its table. No flow of a PCH
      part ends with the flag taken or waits for itself.
    \<^item> PHY: \<open>PhyAccess\<close>, \<open>PhyLink\<close>, \<open>PhyInfo\<close> (\<open>phy.c\<close>); \<open>PhyProps\<close>. An MDI transaction for every chip, paged
      registers as a store (locale \<open>reg_store\<close>), locks balanced on every path.
    \<^item> MAC: \<open>FlowControl\<close>, \<open>Mac\<close>, \<open>Manage\<close> (\<open>mac.c\<close>, \<open>manage.c\<close>); \<open>FlowProps\<close>, \<open>MacProps\<close>, \<open>ManageProps\<close>. Flow
      control resolved as the pause bits say and consistent at both ends, the multicast table, commands to
      the management firmware.
    \<^item> PCH parts: \<open>Pch\<close>, \<open>PchReset\<close>, \<open>PchLink\<close>, \<open>Ich8Mac\<close>, \<open>Ich8Init\<close> (\<open>ich8lan.c\<close>); \<open>PchProps\<close>, \<open>Ich8Props\<close>.
      Complete tables of operations for each part, the geometry of the NVM, the encoding of latencies, the
      checksum of the jumbo-frame workaround, and two defects.
    \<^item> Packets: \<open>TxRing\<close>, \<open>RxPool\<close>, \<open>RxRing\<close>; \<open>TxRingInv\<close>, \<open>TxProps\<close>, \<open>RxBufs\<close>, \<open>RxProps\<close>. Packets in flight are a
      queue that the ring refines; in every reachable state each buffer has one owner and nothing is freed
      twice or lost; frames are delivered whole, with three defects shown.
    \<^item> Mapping and memory of the rings: \<open>Vtd\<close> (\<open>IntelMausiVTD.cpp\<close>, and the set-up and release of both rings in
      \<open>IntelMausiSetup.cpp\<close>); \<open>VtdProps\<close>, \<open>RingMemory\<close>, \<open>RingLife\<close>, \<open>RingProps\<close>. The locale \<open>ledger\<close> states what the
      steps and the error labels of a set-up do to the books of the kernel; interpreted on both rings it
      shows that a failed start gives everything back. The receive ring under an I/O mapper is followed from
      its set-up on: batches of buffers are mapped in order, and two defects are shown.
    \<^item> The class: \<open>Driver\<close>, \<open>DriverHw\<close>, \<open>DriverConf\<close>, \<open>DriverWake\<close>, \<open>DriverLink\<close>, \<open>DriverStart\<close>; \<open>DriverFrames\<close>,
      \<open>DriverLock\<close>, \<open>DriverEvents\<close>, \<open>DriverRestart\<close>, \<open>DriverProps\<close>. The locales \<open>chip_frame\<close>, \<open>reset_frame\<close> and
      \<open>object_frame\<close> carry a relation through every member function; interpreted on the flag they show that
      no sequence of calls and events leaves it taken, on the rings that a restart recovers a stalled ring.

  Loops. A loop bounded by a counter of the source recurses on that counter. Where the source has no
  counter: the SPI write has the number of words as fuel, each pass writing at least one; splitting a
  packet takes one entry of the vector per round; the tables of operations call each other to a depth below the seven
  levels that \<open>ops_of\<close> unfolds. The three loops that clean a ring and the
  search for the shift of the multicast hash may not end and are \<open>partial_function (option)\<close>; that they return is
  proved, on the states the driver can reach.

  Not modelled. \<open>ethtool.c\<close>, \<open>param.c\<close> and \<open>ptp.c\<close> are not compiled into the extension, and the rest of \<open>netdev.c\<close> is
  disabled by \<open>DISABLED_CODE\<close>; so are the pass-through query of \<open>manage.c\<close> and a bus-information function of
  \<open>mac.c\<close>. Of the class: the life cycle of the IOKit object but for the rings, its power states, the event
  sources, the parameters of the property list, the medium dictionary and the PCI configuration, which call
  kernel interfaces and compute nothing. What the kernel allocates and maps is its answer to a call. Messages
  for the log are left out.
\<close>

end
